(* ===== verification/Prelude.thy ===== *)
theory Prelude
  imports Main "HOL-Library.List_Lexorder" "HOL-Library.Char_ord" "HOL-Library.Sublist"
begin

section \<open>Shared vocabulary of the models\<close>

text \<open>
  The values every component uses: JSON (\<open>JsonValue\<close> of src/src/types/common.ts), the runtime
  error codes and error objects, instants of time, the exception-and-state monad in which the
  stateful operations are written, and the relational tables behind the SQLite repositories.

  Conventions.
  \<^item> An instant is an \<open>int\<close>, the milliseconds since the epoch. The code stores the output of
    \<open>Date.prototype.toISOString\<close>, whose lexicographic order (used by the SQL text comparisons)
    is the numeric order of the instants for years 0 to 9999.
  \<^item> A value of the host that an operation reads (the clock, a fresh UUID) is an argument.
  \<^item> A thrown error is \<open>Inl\<close>; the state reached when it is thrown is kept, since JavaScript does
    not undo mutations when an exception propagates.
\<close>

named_theorems monad_simps \<open>unfolding rules of the exception-and-state monad\<close>
named_theorems table_simps \<open>laws of table lookup, insertion and update\<close>

subsection \<open>JSON\<close>

type_synonym instant = int

datatype json =
    JNull
  | JBool bool
  | JNum int
  | JStr string
  | JArr "json list"
  | JObj "(string \<times> json) list"

type_synonym json_object = "(string \<times> json) list"

text \<open>Property lookup, \<open>o.k\<close>: \<open>None\<close> is JavaScript's \<open>undefined\<close>.\<close>

definition jget :: "json_object \<Rightarrow> string \<Rightarrow> json option" where
  "jget o1 k = map_of o1 k"

text \<open>
  Assignment \<open>o.k = v\<close>, also the effect of one entry of a later spread: an existing property keeps
  its position, a new one goes to the end.
\<close>

fun jput :: "string \<Rightarrow> json \<Rightarrow> json_object \<Rightarrow> json_object" where
  "jput k v [] = [(k, v)]"
| "jput k v ((k', v') # o1) = (if k' = k then (k, v) # o1 else (k', v') # jput k v o1)"

text \<open>\<open>delete o.k\<close>.\<close>

fun jdel :: "string \<Rightarrow> json_object \<Rightarrow> json_object" where
  "jdel k [] = []"
| "jdel k ((k', v') # o1) = (if k' = k then jdel k o1 else (k', v') # jdel k o1)"

text \<open>The spread \<open>{...a, ...b}\<close>.\<close>

definition spread :: "json_object \<Rightarrow> json_object \<Rightarrow> json_object" where
  "spread a b = fold (\<lambda>(k, v). jput k v) b a"

text \<open>A JavaScript \<open>Set\<close> iterates in the order of first insertion.\<close>

definition setAdd :: "'a \<Rightarrow> 'a list \<Rightarrow> 'a list" where
  "setAdd x xs = (if x \<in> set xs then xs else xs @ [x])"

lemma mem_setAdd [simp]: "set (setAdd x xs) = insert x (set xs)"
  by (auto simp: setAdd_def)

lemma distinct_setAdd [simp]: "distinct (setAdd x xs) = distinct xs"
  by (auto simp: setAdd_def)

text \<open>A nullable string as a JSON value.\<close>

definition jopt :: "string option \<Rightarrow> json" where
  "jopt s = (case s of None \<Rightarrow> JNull | Some x \<Rightarrow> JStr x)"

lemma jget_Nil [simp]: "jget [] k = None"
  by (simp add: jget_def)

lemma jget_Cons [simp]: "jget ((a, v) # o1) k = (if a = k then Some v else jget o1 k)"
  by (simp add: jget_def)

lemma jget_jput: "jget (jput k v o1) k' = (if k' = k then Some v else jget o1 k')"
  by (induction k v o1 rule: jput.induct) auto

lemma jget_jput_same [simp]: "jget (jput k v o1) k = Some v"
  by (simp add: jget_jput)

lemma jget_jput_other [simp]: "k' \<noteq> k \<Longrightarrow> jget (jput k v o1) k' = jget o1 k'"
  by (simp add: jget_jput)

lemma jget_jdel: "jget (jdel k o1) k' = (if k' = k then None else jget o1 k')"
  by (induction k o1 rule: jdel.induct) auto

lemma jget_jdel_same [simp]: "jget (jdel k o1) k = None"
  by (simp add: jget_jdel)

lemma jget_jdel_other [simp]: "k' \<noteq> k \<Longrightarrow> jget (jdel k o1) k' = jget o1 k'"
  by (simp add: jget_jdel)

text \<open>A spread reads from the right operand first.\<close>

lemma spread_Nil [simp]: "spread a [] = a"
  by (simp add: spread_def)

lemma spread_Cons [simp]: "spread a ((k, v) # b) = spread (jput k v a) b"
  by (simp add: spread_def)

lemma jget_spread_absent: "k \<notin> fst ` set b \<Longrightarrow> jget (spread a b) k = jget a k"
proof (induction b arbitrary: a)
  case Nil
  then show ?case by simp
next
  case (Cons kv b)
  then show ?case by (cases kv) (auto simp: jget_jput)
qed

lemma jget_spread_distinct:
  "distinct (map fst b) \<Longrightarrow>
    jget (spread a b) k = (case jget b k of None \<Rightarrow> jget a k | Some v \<Rightarrow> Some v)"
proof (induction b arbitrary: a)
  case Nil
  then show ?case by simp
next
  case (Cons kv b)
  obtain x v where kv: "kv = (x, v)" by (cases kv)
  show ?case
  proof (cases "x = k")
    case True
    with Cons.prems kv have "k \<notin> fst ` set b" by auto
    then show ?thesis using True kv by (simp add: jget_spread_absent)
  next
    case False
    with Cons kv show ?thesis by (auto simp: jget_jput split: option.splits)
  qed
qed

subsection \<open>Errors\<close>

text \<open>\<open>RUNTIME_ERROR_CODES\<close> of src/src/types/error.ts.\<close>

datatype RuntimeErrorCode =
    Approval_denied | Approval_required | Approval_timeout | Budget_exceeded | Cancelled
  | Clarification_cancelled | Interrupt | Invalid_state | Max_rounds_exceeded | Policy_denied
  | Provider_error | Sandbox_denied | Session_busy | Storage_error | Task_not_found
  | Task_incomplete | Task_not_resumable | Timeout | Tool_execution_error | Tool_not_found
  | Tool_unavailable | Tool_validation_error | Compact_summarizer_unavailable
  | Compact_summarizer_failed

text \<open>The fields of a provider error that its conversion to an \<open>AppError\<close> reads.\<close>

record ProviderErrorShape =
  pe_category :: string
  pe_message :: string
  pe_modelName :: "string option"
  pe_providerName :: string
  pe_retriable :: bool
  pe_retryCount :: "int option"
  pe_statusCode :: "int option"
  pe_summary :: "string option"

text \<open>
  What the code throws: an \<open>AppError\<close> (code, message, optional details), a well-formed provider
  error, any other \<open>Error\<close> with its message, or a value that is not an \<open>Error\<close>.
\<close>

datatype thrown =
    AppError RuntimeErrorCode string "json_object option"
  | ProviderError ProviderErrorShape
  | PlainError string
  | NonError

text \<open>\<open>toAppError\<close> of src/src/core/app-error.ts: the code, message and details of the result.\<close>

type_synonym app_error = "RuntimeErrorCode \<times> string \<times> json_object option"

definition providerErrorDetails :: "ProviderErrorShape \<Rightarrow> json_object" where
  "providerErrorDetails p =
     [(''providerErrorSummary'',
         JStr (case pe_summary p of None \<Rightarrow> pe_message p | Some s \<Rightarrow> s)),
      (''providerCategory'', JStr (pe_category p)),
      (''providerName'', JStr (pe_providerName p)),
      (''modelName'', jopt (pe_modelName p)),
      (''retriable'', JBool (pe_retriable p)),
      (''retryCount'', JNum (case pe_retryCount p of None \<Rightarrow> 0 | Some n \<Rightarrow> n)),
      (''statusCode'', (case pe_statusCode p of None \<Rightarrow> JNull | Some n \<Rightarrow> JNum n))]"

fun toAppError :: "thrown \<Rightarrow> app_error" where
  "toAppError (AppError c m d) = (c, m, d)"
| "toAppError (ProviderError p) = (Provider_error, pe_message p, Some (providerErrorDetails p))"
| "toAppError (PlainError m) = (Provider_error, m, None)"
| "toAppError NonError = (Provider_error, ''Unknown error'', None)"

subsection \<open>The exception-and-state monad\<close>

type_synonym ('w, 'a) op = "'w \<Rightarrow> (thrown + 'a) \<times> 'w"

definition ret :: "'a \<Rightarrow> ('w, 'a) op" where
  "ret x = (\<lambda>w. (Inr x, w))"

definition raise :: "thrown \<Rightarrow> ('w, 'a) op" where
  "raise e = (\<lambda>w. (Inl e, w))"

definition bnd :: "('w, 'a) op \<Rightarrow> ('a \<Rightarrow> ('w, 'b) op) \<Rightarrow> ('w, 'b) op" where
  "bnd m f = (\<lambda>w. case m w of (Inl e, w') \<Rightarrow> (Inl e, w') | (Inr x, w') \<Rightarrow> f x w')"

definition tryCatch :: "('w, 'a) op \<Rightarrow> (thrown \<Rightarrow> ('w, 'a) op) \<Rightarrow> ('w, 'a) op" where
  "tryCatch m h = (\<lambda>w. case m w of (Inl e, w') \<Rightarrow> h e w' | (Inr x, w') \<Rightarrow> (Inr x, w'))"

definition ask :: "('w \<Rightarrow> 'a) \<Rightarrow> ('w, 'a) op" where
  "ask f = (\<lambda>w. (Inr (f w), w))"

definition modify :: "('w \<Rightarrow> 'w) \<Rightarrow> ('w, unit) op" where
  "modify f = (\<lambda>w. (Inr (), f w))"

definition liftRes :: "thrown + 'a \<Rightarrow> ('w, 'a) op" where
  "liftRes r = (\<lambda>w. (r, w))"

text \<open>An operation on one component of a larger state.\<close>

definition zoom :: "('w \<Rightarrow> 's) \<Rightarrow> ('s \<Rightarrow> 'w \<Rightarrow> 'w) \<Rightarrow> ('s, 'a) op \<Rightarrow> ('w, 'a) op" where
  "zoom get put_back m = (\<lambda>w. case m (get w) of (r, s) \<Rightarrow> (r, put_back s w))"

text \<open>The loop \<open>for (const x of xs) f(x)\<close> that collects the results in order.\<close>

fun forEach :: "('a \<Rightarrow> ('w, 'b) op) \<Rightarrow> 'a list \<Rightarrow> ('w, 'b list) op" where
  "forEach f [] = ret []"
| "forEach f (x # xs) = bnd (f x) (\<lambda>y. bnd (forEach f xs) (\<lambda>ys. ret (y # ys)))"

lemma ret_run [simp, monad_simps]: "ret x w = (Inr x, w)"
  by (simp add: ret_def)

lemma raise_run [simp, monad_simps]: "raise e w = (Inl e, w)"
  by (simp add: raise_def)

lemma ask_run [simp, monad_simps]: "ask f w = (Inr (f w), w)"
  by (simp add: ask_def)

lemma modify_run [simp, monad_simps]: "modify f w = (Inr (), f w)"
  by (simp add: modify_def)

lemma liftRes_run [simp, monad_simps]: "liftRes r w = (r, w)"
  by (simp add: liftRes_def)

lemma bnd_run [monad_simps]:
  "bnd m f w = (case m w of (Inl e, w') \<Rightarrow> (Inl e, w') | (Inr x, w') \<Rightarrow> f x w')"
  by (simp add: bnd_def)

lemma bnd_Inr [simp]: "m w = (Inr x, w') \<Longrightarrow> bnd m f w = f x w'"
  by (simp add: bnd_def)

lemma bnd_Inl [simp]: "m w = (Inl e, w') \<Longrightarrow> bnd m f w = (Inl e, w')"
  by (simp add: bnd_def)

lemma bnd_InrE:
  assumes "bnd m f w = (Inr y, w'')"
  obtains x w' where "m w = (Inr x, w')" and "f x w' = (Inr y, w'')"
  using assms by (auto simp: bnd_def split: prod.splits sum.splits)

lemma bnd_cases:
  assumes "bnd m f w = (r, w'')"
  obtains (err) e where "m w = (Inl e, w'')" and "r = Inl e"
  | (ok) x w' where "m w = (Inr x, w')" and "f x w' = (r, w'')"
  using assms by (auto simp: bnd_def split: prod.splits sum.splits)

lemma tryCatch_run [monad_simps]:
  "tryCatch m h w = (case m w of (Inl e, w') \<Rightarrow> h e w' | (Inr x, w') \<Rightarrow> (Inr x, w'))"
  by (simp add: tryCatch_def)

lemma zoom_run [monad_simps]:
  "zoom get pb m w = (case m (get w) of (r, s) \<Rightarrow> (r, pb s w))"
  by (simp add: zoom_def)

lemma zoom_eq [simp]: "m (get w) = (r, s) \<Longrightarrow> zoom get pb m w = (r, pb s w)"
  by (simp add: zoom_def)

text \<open>
  An invariant of the state that every step of an operation keeps, whatever the outcome, is kept by
  the whole operation.
\<close>

definition keeps :: "('w \<Rightarrow> bool) \<Rightarrow> ('w, 'a) op \<Rightarrow> bool" where
  "keeps I m \<longleftrightarrow> (\<forall>w. I w \<longrightarrow> I (snd (m w)))"

named_theorems keeps_intros \<open>operations that keep an invariant\<close>

lemma keepsI: "(\<And>w r w'. I w \<Longrightarrow> m w = (r, w') \<Longrightarrow> I w') \<Longrightarrow> keeps I m"
  unfolding keeps_def by (metis prod.collapse)

lemma keepsD: "keeps I m \<Longrightarrow> I w \<Longrightarrow> m w = (r, w') \<Longrightarrow> I w'"
  unfolding keeps_def by (metis snd_conv)

lemma keeps_ret [keeps_intros]: "keeps I (ret x)"
  by (simp add: keeps_def)

lemma keeps_raise [keeps_intros]: "keeps I (raise e)"
  by (simp add: keeps_def)

lemma keeps_ask [keeps_intros]: "keeps I (ask f)"
  by (simp add: keeps_def)

lemma keeps_liftRes [keeps_intros]: "keeps I (liftRes r)"
  by (simp add: keeps_def)

lemma keeps_modify: "(\<And>w. I w \<Longrightarrow> I (f w)) \<Longrightarrow> keeps I (modify f)"
  by (simp add: keeps_def)

lemma keeps_bnd [keeps_intros]: "keeps I m \<Longrightarrow> (\<And>x. keeps I (f x)) \<Longrightarrow> keeps I (bnd m f)"
  by (rule keepsI) (auto elim!: bnd_cases dest: keepsD)

lemma keeps_tryCatch [keeps_intros]:
  assumes m: "keeps I m" and h: "\<And>e. keeps I (h e)"
  shows "keeps I (tryCatch m h)"
proof (rule keepsI)
  fix w r w'
  assume I: "I w" and run: "tryCatch m h w = (r, w')"
  obtain r1 w1 where 1: "m w = (r1, w1)" by (cases "m w")
  from m I 1 have I1: "I w1" by (rule keepsD)
  show "I w'"
  proof (cases r1)
    case (Inl e)
    with run 1 have "h e w1 = (r, w')" by (simp add: tryCatch_run)
    with h I1 show ?thesis by (rule keepsD)
  next
    case (Inr x)
    with run 1 I1 show ?thesis by (simp add: tryCatch_run)
  qed
qed

lemma keeps_forEach [keeps_intros]: "(\<And>x. keeps I (f x)) \<Longrightarrow> keeps I (forEach f xs)"
  by (induction xs) (auto intro!: keeps_intros)

text \<open>An operation that first reads the state need only behave on what can be read there.\<close>

lemma keeps_ask_bnd: "(\<And>w. I w \<Longrightarrow> keeps I (f (g w))) \<Longrightarrow> keeps I (bnd (ask g) f)"
  by (rule keepsI) (auto simp: bnd_run dest: keepsD)

lemma keeps_forEach_set: "(\<And>x. x \<in> set xs \<Longrightarrow> keeps I (f x)) \<Longrightarrow> keeps I (forEach f xs)"
  by (induction xs) (auto intro!: keeps_intros)

lemma keeps_if [keeps_intros]: "keeps I m \<Longrightarrow> keeps I n \<Longrightarrow> keeps I (if b then m else n)"
  by simp

lemma keeps_option [keeps_intros]:
  "keeps I m \<Longrightarrow> (\<And>x. keeps I (f x)) \<Longrightarrow> keeps I (case v of None \<Rightarrow> m | Some x \<Rightarrow> f x)"
  by (cases v) auto

text \<open>
  What holds of the value and the state when an operation returns. After a caught exception nothing
  is known about the state.
\<close>

definition post :: "('w \<Rightarrow> bool) \<Rightarrow> ('w, 'a) op \<Rightarrow> ('a \<Rightarrow> 'w \<Rightarrow> bool) \<Rightarrow> bool" where
  "post P m Q \<longleftrightarrow> (\<forall>w x w'. P w \<longrightarrow> m w = (Inr x, w') \<longrightarrow> Q x w')"

named_theorems post_intros \<open>postconditions of operations\<close>

lemma postI: "(\<And>w x w'. P w \<Longrightarrow> m w = (Inr x, w') \<Longrightarrow> Q x w') \<Longrightarrow> post P m Q"
  by (simp add: post_def)

lemma postD: "post P m Q \<Longrightarrow> P w \<Longrightarrow> m w = (Inr x, w') \<Longrightarrow> Q x w'"
  by (simp add: post_def)

lemma post_ret: "(\<And>w. P w \<Longrightarrow> Q x w) \<Longrightarrow> post P (ret x) Q"
  by (rule postI) auto

lemma post_raise [post_intros]: "post P (raise e) Q"
  by (rule postI) simp

lemma post_bnd: "post P m R \<Longrightarrow> (\<And>x. post (R x) (f x) Q) \<Longrightarrow> post P (bnd m f) Q"
  by (rule postI) (auto elim!: bnd_InrE dest: postD)

text \<open>The postcondition of the last step is the one that counts.\<close>

lemma post_then: "(\<And>x. post (\<lambda>_. True) (f x) Q) \<Longrightarrow> post P (bnd m f) Q"
  by (rule postI) (auto elim!: bnd_InrE dest: postD)

lemma post_tryCatch:
  assumes "post P m Q" and "\<And>e. post (\<lambda>_. True) (h e) Q"
  shows "post P (tryCatch m h) Q"
  using assms by (auto simp: post_def tryCatch_run split: prod.splits sum.splits)

lemma post_weaken: "post P m Q \<Longrightarrow> (\<And>x w. Q x w \<Longrightarrow> Q' x w) \<Longrightarrow> post P m Q'"
  by (auto simp: post_def)

lemma post_pre: "post P m Q \<Longrightarrow> (\<And>w. P' w \<Longrightarrow> P w) \<Longrightarrow> post P' m Q"
  by (auto simp: post_def)

subsection \<open>Operations that only make steps of a relation\<close>

text \<open>
  What an operation may do to the state, as a reflexive and transitive relation between the state before
  and after: a sequence of operations that each stay within the relation stays within it, however it ends.
\<close>

named_theorems follows_intros \<open>operations that stay within a relation\<close>

locale step_closed =
  fixes R :: "'w \<Rightarrow> 'w \<Rightarrow> bool"
  assumes R_refl: "R w w" and R_trans: "R a b \<Longrightarrow> R b c \<Longrightarrow> R a c"
begin

definition follows :: "('w, 'a) op \<Rightarrow> bool" where
  "follows m \<longleftrightarrow> (\<forall>w. R w (snd (m w)))"

lemma followsI: "(\<And>w r w'. m w = (r, w') \<Longrightarrow> R w w') \<Longrightarrow> follows m"
  unfolding follows_def by (metis prod.collapse)

lemma followsD: "follows m \<Longrightarrow> m w = (r, w') \<Longrightarrow> R w w'"
  unfolding follows_def by (metis snd_conv)

lemma follows_pure [follows_intros]: "follows (ret x)" "follows (raise e)" "follows (ask f)" "follows (liftRes v)"
  by (simp_all add: follows_def R_refl)

lemma follows_bnd [follows_intros]:
  assumes "follows m" and "\<And>x. follows (f x)"
  shows "follows (bnd m f)"
proof (rule followsI)
  fix w r w'
  assume run: "bnd m f w = (r, w')"
  obtain r1 w1 where 1: "m w = (r1, w1)" by (cases "m w")
  from assms(1) 1 have R1: "R w w1" by (rule followsD)
  show "R w w'"
  proof (cases r1)
    case (Inl e)
    with run 1 R1 show ?thesis by simp
  next
    case (Inr x)
    with run 1 have "f x w1 = (r, w')" by simp
    with R1 assms(2) show ?thesis by (blast intro: R_trans dest: followsD)
  qed
qed

lemma follows_tryCatch [follows_intros]:
  assumes "follows m" and "\<And>e. follows (h e)"
  shows "follows (tryCatch m h)"
proof (rule followsI)
  fix w r w'
  assume run: "tryCatch m h w = (r, w')"
  obtain r1 w1 where 1: "m w = (r1, w1)" by (cases "m w")
  from assms(1) 1 have R1: "R w w1" by (rule followsD)
  show "R w w'"
  proof (cases r1)
    case (Inl e)
    with run 1 have "h e w1 = (r, w')" by (simp add: tryCatch_run)
    with R1 assms(2) show ?thesis by (blast intro: R_trans dest: followsD)
  next
    case (Inr x)
    with run 1 R1 show ?thesis by (simp add: tryCatch_run)
  qed
qed

lemma follows_forEach [follows_intros]: "(\<And>x. follows (f x)) \<Longrightarrow> follows (forEach f xs)"
  by (induction xs) (auto intro!: follows_intros)

lemma follows_if [follows_intros]: "follows m \<Longrightarrow> follows n \<Longrightarrow> follows (if b then m else n)"
  by simp

lemma follows_option [follows_intros]:
  "follows m \<Longrightarrow> (\<And>x. follows (f x)) \<Longrightarrow> follows (case v of None \<Rightarrow> m | Some x \<Rightarrow> f x)"
  by (cases v) auto

lemma follows_modify: "(\<And>w. R w (f w)) \<Longrightarrow> follows (modify f)"
  by (simp add: follows_def)

text \<open>What the relation keeps, an operation within it keeps.\<close>

lemma follows_keeps: "follows m \<Longrightarrow> (\<And>w w'. R w w' \<Longrightarrow> I w \<Longrightarrow> I w') \<Longrightarrow> keeps I m"
  by (auto intro!: keepsI dest: followsD)

end

end
