(* ===== verification/Tables.thy ===== *)
theory Tables
  imports Prelude "HOL-Library.Multiset"
begin

section \<open>The relational tables behind the repositories\<close>

text \<open>
  The repositories of src/src/storage/repositories issue SQL against one table each. A table is
  modelled as the list of its rows in insertion order (SQLite's rowid order) with a primary key.
  \<^item> \<open>INSERT\<close> fails on a duplicate primary key (the engine throws), otherwise appends.
  \<^item> \<open>UPDATE .. WHERE key = ?\<close> rewrites the matching rows and is a no-op without a match.
  \<^item> \<open>ORDER BY k ASC\<close> is a stable sort by \<open>k\<close>, \<open>DESC\<close> its reverse order on the keys.
  The contract a status column has in every repository is the locale \<open>status_store\<close>: an update
  either throws and changes nothing, or rewrites one row along an allowed transition.
\<close>

subsection \<open>Lookup, insertion, update\<close>

definition rowFind :: "('r \<Rightarrow> 'k) \<Rightarrow> 'k \<Rightarrow> 'r list \<Rightarrow> 'r option" where
  "rowFind key k rows = List.find (\<lambda>r. key r = k) rows"

definition rowInsert :: "('r \<Rightarrow> 'k) \<Rightarrow> 'r \<Rightarrow> 'r list \<Rightarrow> thrown + 'r list" where
  "rowInsert key r rows =
     (if key r \<in> key ` set rows then Inl (PlainError ''UNIQUE constraint failed'')
      else Inr (rows @ [r]))"

definition rowSet :: "('r \<Rightarrow> 'k) \<Rightarrow> 'k \<Rightarrow> 'r \<Rightarrow> 'r list \<Rightarrow> 'r list" where
  "rowSet key k r' rows = map (\<lambda>r. if key r = k then r' else r) rows"

definition pkOk :: "('r \<Rightarrow> 'k) \<Rightarrow> 'r list \<Rightarrow> bool" where
  "pkOk key rows \<longleftrightarrow> distinct (map key rows)"

lemma rowFind_Nil [simp]: "rowFind key k [] = None"
  by (simp add: rowFind_def)

lemma rowFind_Cons [simp]:
  "rowFind key k (r # rows) = (if key r = k then Some r else rowFind key k rows)"
  by (simp add: rowFind_def)

lemma rowFind_Some: "rowFind key k rows = Some r \<Longrightarrow> r \<in> set rows \<and> key r = k"
  by (induction rows) (auto split: if_splits)

lemma rowFind_None: "rowFind key k rows = None \<longleftrightarrow> k \<notin> key ` set rows"
  by (induction rows) auto

lemma rowFind_mem: "pkOk key rows \<Longrightarrow> r \<in> set rows \<Longrightarrow> rowFind key (key r) rows = Some r"
  by (induction rows) (auto simp: pkOk_def image_def)

lemma rowFind_append:
  "rowFind key k (xs @ ys) = (case rowFind key k xs of None \<Rightarrow> rowFind key k ys | Some r \<Rightarrow> Some r)"
  by (induction xs) auto

lemma rowFind_filter: "(\<And>r. key r = k \<Longrightarrow> P r) \<Longrightarrow> rowFind key k (filter P rows) = rowFind key k rows"
  by (induction rows) auto

lemma rowInsert_find [table_simps]:
  "rowInsert key r rows = Inr rows' \<Longrightarrow>
    rowFind key k rows' = (if k = key r then Some r else rowFind key k rows)"
  using rowFind_None [of key k rows] rowFind_None [of key "key r" rows]
  by (cases "rowFind key k rows") (auto simp: rowInsert_def rowFind_append split: if_splits)

lemma rowInsert_pk: "rowInsert key r rows = Inr rows' \<Longrightarrow> pkOk key rows \<Longrightarrow> pkOk key rows'"
  by (auto simp: rowInsert_def pkOk_def split: if_splits)

lemma rowInsert_Inr: "rowInsert key r rows = Inr rows' \<Longrightarrow> rows' = rows @ [r] \<and> key r \<notin> key ` set rows"
  by (auto simp: rowInsert_def split: if_splits)

lemma rowSet_find [table_simps]:
  "key r' = k \<Longrightarrow> rowFind key j (rowSet key k r' rows) =
    (if j = k then map_option (\<lambda>_. r') (rowFind key k rows) else rowFind key j rows)"
  by (induction rows) (auto simp: rowSet_def)

lemma rowSet_keys: "key r' = k \<Longrightarrow> map key (rowSet key k r' rows) = map key rows"
  by (induction rows) (auto simp: rowSet_def)

lemma rowSet_pk: "key r' = k \<Longrightarrow> pkOk key (rowSet key k r' rows) = pkOk key rows"
  by (simp add: pkOk_def rowSet_keys)

lemma rowSet_set: "set (rowSet key k r' rows) \<subseteq> insert r' (set rows)"
  by (auto simp: rowSet_def)

lemma rowSet_mem:
  "x \<in> set (rowSet key k r' rows) \<longleftrightarrow>
    (x \<in> set rows \<and> key x \<noteq> k) \<or> (x = r' \<and> k \<in> key ` set rows)"
  by (auto simp: rowSet_def image_iff)

subsection \<open>Ordering and limits\<close>

definition orderAsc :: "('r \<Rightarrow> 'k::linorder) \<Rightarrow> 'r list \<Rightarrow> 'r list" where
  "orderAsc k rows = sort_key k rows"

text \<open>
  Descending order: the rows sorted in the opposite order of their keys. Where the ordering keys
  are unique (every use here ends in the primary key) this is the reverse of the ascending sort.
\<close>

definition orderDesc :: "('r \<Rightarrow> 'k::linorder) \<Rightarrow> 'r list \<Rightarrow> 'r list" where
  "orderDesc k rows = rev (sort_key k rows)"

definition limitTo :: "nat \<Rightarrow> 'r list \<Rightarrow> 'r list" where
  "limitTo n rows = take n rows"

definition firstRow :: "'r list \<Rightarrow> 'r option" where
  "firstRow rows = (case rows of [] \<Rightarrow> None | r # _ \<Rightarrow> Some r)"

lemma set_orderAsc [simp]: "set (orderAsc k rows) = set rows"
  by (simp add: orderAsc_def)

lemma set_orderDesc [simp]: "set (orderDesc k rows) = set rows"
  by (simp add: orderDesc_def)

lemma orderDesc_Nil_iff [simp]: "orderDesc k rows = [] \<longleftrightarrow> rows = []"
  by (metis set_empty set_orderDesc)

lemma distinct_orderAsc [simp]: "distinct (map f (orderAsc k rows)) = distinct (map f rows)"
proof -
  have "mset (map f (sort_key k rows)) = mset (map f rows)" by (simp only: mset_map mset_sort)
  then show ?thesis unfolding orderAsc_def by (metis mset_eq_imp_distinct_iff)
qed

lemma firstRow_mem: "firstRow rows = Some r \<Longrightarrow> r \<in> set rows"
  by (cases rows) (auto simp: firstRow_def)

lemma firstRow_None [simp]: "firstRow rows = None \<longleftrightarrow> rows = []"
  by (cases rows) (auto simp: firstRow_def)

text \<open>The first row in descending order carries a maximal key.\<close>

lemma firstRow_orderDesc_max:
  assumes "firstRow (orderDesc k rows) = Some r" and "x \<in> set rows"
  shows "k x \<le> k r"
proof -
  from assms(1) obtain ys where rev: "rev (sort_key k rows) = r # ys"
    by (auto simp: orderDesc_def firstRow_def split: list.splits)
  then have eq: "sort_key k rows = rev ys @ [r]" by (metis rev.simps(2) rev_rev_ident)
  have "sorted (map k (rev ys @ [r]))" using eq by (metis sorted_sort_key)
  moreover have "x \<in> set (rev ys @ [r])" using assms(2) eq by (metis set_sort)
  ultimately show ?thesis by (auto simp: sorted_append)
qed

lemma firstRow_orderDesc_None [simp]: "firstRow (orderDesc k rows) = None \<longleftrightarrow> rows = []"
  by (metis empty_iff firstRow_None list.set(1) set_empty set_orderDesc)

text \<open>A field of an update: \<open>patch.x === undefined ? old.x : patch.x\<close>.\<close>

definition patched :: "'a option \<Rightarrow> 'a \<Rightarrow> 'a" where
  "patched p old = (case p of None \<Rightarrow> old | Some v \<Rightarrow> v)"

lemma patched_simps [simp]: "patched None x = x" "patched (Some v) x = v"
  by (simp_all add: patched_def)

subsection \<open>The contract of a status column\<close>

locale status_store =
  fixes lookup :: "'t \<Rightarrow> string \<Rightarrow> 'r option"
    and apply_patch :: "string \<Rightarrow> 'p \<Rightarrow> ('t, 'r) op"
    and status_of :: "'r \<Rightarrow> 's"
    and allowed :: "'s \<Rightarrow> 's list"
  assumes apply_error: "apply_patch k p t = (Inl e, t') \<Longrightarrow> t' = t"
    and apply_ok: "apply_patch k p t = (Inr r, t') \<Longrightarrow>
      \<exists>r0. lookup t k = Some r0 \<and> lookup t' k = Some r \<and>
        (status_of r = status_of r0 \<or> status_of r \<in> set (allowed (status_of r0)))"
    and apply_frame: "apply_patch k p t = (Inr r, t') \<Longrightarrow> j \<noteq> k \<Longrightarrow> lookup t' j = lookup t j"
begin

text \<open>One allowed move of the status of a row.\<close>

definition moves :: "'s \<Rightarrow> 's \<Rightarrow> bool" where
  "moves a b \<longleftrightarrow> b \<in> set (allowed a)"

text \<open>A sequence of patches, each applied whatever became of the one before.\<close>

fun run_patches :: "(string \<times> 'p) list \<Rightarrow> 't \<Rightarrow> 't" where
  "run_patches [] t = t"
| "run_patches ((k, p) # ps) t = run_patches ps (snd (apply_patch k p t))"

lemma step_status:
  assumes run: "apply_patch k p t = (res, t')" and r0: "lookup t j = Some r0"
  shows "\<exists>r1. lookup t' j = Some r1 \<and> (status_of r1 = status_of r0 \<or> moves (status_of r0) (status_of r1))"
proof (cases res)
  case (Inl e)
  with run have "t' = t" by (auto dest: apply_error)
  with r0 show ?thesis by simp
next
  case (Inr r)
  with run have ok: "apply_patch k p t = (Inr r, t')" by simp
  show ?thesis
  proof (cases "j = k")
    case True
    with apply_ok [OF ok] r0 show ?thesis by (auto simp: moves_def)
  next
    case False
    with apply_frame [OF ok] r0 show ?thesis by auto
  qed
qed

text \<open>Along any sequence of updates a status moves only along allowed transitions.\<close>

lemma run_status:
  "lookup t j = Some r0 \<Longrightarrow>
    \<exists>r1. lookup (run_patches ps t) j = Some r1 \<and> moves\<^sup>*\<^sup>* (status_of r0) (status_of r1)"
proof (induction ps arbitrary: t r0)
  case Nil
  then show ?case by simp
next
  case (Cons kp ps)
  obtain k p where kp: "kp = (k, p)" by (cases kp)
  obtain res t' where run: "apply_patch k p t = (res, t')" by (cases "apply_patch k p t")
  from step_status [OF run Cons.prems] obtain r1 where
    r1: "lookup t' j = Some r1" and m: "moves\<^sup>*\<^sup>* (status_of r0) (status_of r1)"
    by (metis r_into_rtranclp rtranclp.rtrancl_refl)
  from Cons.IH [OF r1] obtain r2 where
    "lookup (run_patches ps t') j = Some r2" and "moves\<^sup>*\<^sup>* (status_of r1) (status_of r2)"
    by blast
  with m kp run show ?case by (auto intro: rtranclp_trans)
qed

text \<open>A status with no allowed successor is final: no sequence of updates leaves it.\<close>

lemma final_status:
  assumes "lookup t j = Some r0" and "allowed (status_of r0) = []"
  shows "\<exists>r1. lookup (run_patches ps t) j = Some r1 \<and> status_of r1 = status_of r0"
proof -
  from run_status [OF assms(1)] obtain r1 where
    "lookup (run_patches ps t) j = Some r1" and m: "moves\<^sup>*\<^sup>* (status_of r0) (status_of r1)"
    by blast
  moreover from m have "status_of r1 = status_of r0"
    using assms(2) by (auto elim: converse_rtranclpE simp: moves_def)
  ultimately show ?thesis by blast
qed

end

end
