(* ===== verification/Governance.thy ===== *)
theory Governance
  imports Tables
begin

section \<open>Governance vocabulary, status machines and the two logs\<close>

text \<open>
  The enumerations of src/src/types/governance.ts, profile.ts, policy.ts, approval.ts, clarify.ts,
  tool.ts, task.ts and sandbox.ts, the status transition tables, the sandbox plans, and the trace and
  audit logs every handler appends to (src/src/tracing/trace-service.ts,
  src/src/audit/audit-service.ts). Identifiers and timestamps of log entries are assigned by the
  host and are left out of the entries.
\<close>

subsection \<open>Enumerations\<close>

datatype ToolRiskLevel = Low | Medium | High

datatype ToolCapability =
    Filesystem_read | Filesystem_write | Network_fetch_public_readonly
  | Shell_execute | Mcp_invoke | Interaction_ask_user

datatype PrivacyLevel = Public | Internal | Restricted

datatype PathScope = Workspace | Write_root | Outside_workspace | Outside_write_root | Network

datatype AgentProfileId = Planner | Executor | Reviewer

datatype PolicyEffect = Allow | Allow_with_approval | Deny

datatype ApprovalStatus = A_pending | A_approved | A_denied | A_timed_out

datatype ApprovalAllowScope = Once | Session_scope | Always

datatype ClarifyPromptStatus = C_pending | C_answered | C_cancelled | C_timed_out

datatype ToolCallStatus =
    Requested | Awaiting_approval | Approved | Started | Denied | Timed_out | Finished | Failed

datatype TaskStatus =
    T_pending | T_running | T_waiting_tool | T_waiting_approval | T_waiting_clarification
  | T_succeeded | T_failed | T_cancelled

fun riskStr :: "ToolRiskLevel \<Rightarrow> string" where
  "riskStr Low = ''low''"
| "riskStr Medium = ''medium''"
| "riskStr High = ''high''"

fun capabilityStr :: "ToolCapability \<Rightarrow> string" where
  "capabilityStr Filesystem_read = ''filesystem.read''"
| "capabilityStr Filesystem_write = ''filesystem.write''"
| "capabilityStr Network_fetch_public_readonly = ''network.fetch_public_readonly''"
| "capabilityStr Shell_execute = ''shell.execute''"
| "capabilityStr Mcp_invoke = ''mcp.invoke''"
| "capabilityStr Interaction_ask_user = ''interaction.ask_user''"

fun privacyStr :: "PrivacyLevel \<Rightarrow> string" where
  "privacyStr Public = ''public''"
| "privacyStr Internal = ''internal''"
| "privacyStr Restricted = ''restricted''"

fun pathScopeStr :: "PathScope \<Rightarrow> string" where
  "pathScopeStr Workspace = ''workspace''"
| "pathScopeStr Write_root = ''write_root''"
| "pathScopeStr Outside_workspace = ''outside_workspace''"
| "pathScopeStr Outside_write_root = ''outside_write_root''"
| "pathScopeStr Network = ''network''"

fun effectStr :: "PolicyEffect \<Rightarrow> string" where
  "effectStr Allow = ''allow''"
| "effectStr Allow_with_approval = ''allow_with_approval''"
| "effectStr Deny = ''deny''"

fun toolCallStatusStr :: "ToolCallStatus \<Rightarrow> string" where
  "toolCallStatusStr Requested = ''requested''"
| "toolCallStatusStr Awaiting_approval = ''awaiting_approval''"
| "toolCallStatusStr Approved = ''approved''"
| "toolCallStatusStr Started = ''started''"
| "toolCallStatusStr Denied = ''denied''"
| "toolCallStatusStr Timed_out = ''timed_out''"
| "toolCallStatusStr Finished = ''finished''"
| "toolCallStatusStr Failed = ''failed''"

fun errorCodeStr :: "RuntimeErrorCode \<Rightarrow> string" where
  "errorCodeStr Approval_denied = ''approval_denied''"
| "errorCodeStr Approval_required = ''approval_required''"
| "errorCodeStr Approval_timeout = ''approval_timeout''"
| "errorCodeStr Budget_exceeded = ''budget_exceeded''"
| "errorCodeStr Cancelled = ''cancelled''"
| "errorCodeStr Clarification_cancelled = ''clarification_cancelled''"
| "errorCodeStr Interrupt = ''interrupt''"
| "errorCodeStr Invalid_state = ''invalid_state''"
| "errorCodeStr Max_rounds_exceeded = ''max_rounds_exceeded''"
| "errorCodeStr Policy_denied = ''policy_denied''"
| "errorCodeStr Provider_error = ''provider_error''"
| "errorCodeStr Sandbox_denied = ''sandbox_denied''"
| "errorCodeStr Session_busy = ''session_busy''"
| "errorCodeStr Storage_error = ''storage_error''"
| "errorCodeStr Task_not_found = ''task_not_found''"
| "errorCodeStr Task_incomplete = ''task_incomplete''"
| "errorCodeStr Task_not_resumable = ''task_not_resumable''"
| "errorCodeStr Timeout = ''timeout''"
| "errorCodeStr Tool_execution_error = ''tool_execution_error''"
| "errorCodeStr Tool_not_found = ''tool_not_found''"
| "errorCodeStr Tool_unavailable = ''tool_unavailable''"
| "errorCodeStr Tool_validation_error = ''tool_validation_error''"
| "errorCodeStr Compact_summarizer_unavailable = ''compact_summarizer_unavailable''"
| "errorCodeStr Compact_summarizer_failed = ''compact_summarizer_failed''"

subsection \<open>Status machines\<close>

fun APPROVAL_STATUS_TRANSITIONS :: "ApprovalStatus \<Rightarrow> ApprovalStatus list" where
  "APPROVAL_STATUS_TRANSITIONS A_approved = []"
| "APPROVAL_STATUS_TRANSITIONS A_denied = []"
| "APPROVAL_STATUS_TRANSITIONS A_pending = [A_approved, A_denied, A_timed_out]"
| "APPROVAL_STATUS_TRANSITIONS A_timed_out = []"

definition canTransitionApprovalStatus :: "ApprovalStatus \<Rightarrow> ApprovalStatus \<Rightarrow> bool" where
  "canTransitionApprovalStatus cur nxt = (nxt \<in> set (APPROVAL_STATUS_TRANSITIONS cur))"

fun TOOL_CALL_STATUS_TRANSITIONS :: "ToolCallStatus \<Rightarrow> ToolCallStatus list" where
  "TOOL_CALL_STATUS_TRANSITIONS Approved = [Started, Denied, Timed_out]"
| "TOOL_CALL_STATUS_TRANSITIONS Awaiting_approval = [Approved, Denied, Timed_out]"
| "TOOL_CALL_STATUS_TRANSITIONS Denied = []"
| "TOOL_CALL_STATUS_TRANSITIONS Failed = []"
| "TOOL_CALL_STATUS_TRANSITIONS Finished = []"
| "TOOL_CALL_STATUS_TRANSITIONS Requested = [Awaiting_approval, Started, Failed]"
| "TOOL_CALL_STATUS_TRANSITIONS Started = [Finished, Failed, Timed_out]"
| "TOOL_CALL_STATUS_TRANSITIONS Timed_out = []"

definition canTransitionToolCallStatus :: "ToolCallStatus \<Rightarrow> ToolCallStatus \<Rightarrow> bool" where
  "canTransitionToolCallStatus cur nxt = (nxt \<in> set (TOOL_CALL_STATUS_TRANSITIONS cur))"

fun TASK_STATUS_TRANSITIONS :: "TaskStatus \<Rightarrow> TaskStatus list" where
  "TASK_STATUS_TRANSITIONS T_cancelled = []"
| "TASK_STATUS_TRANSITIONS T_failed = []"
| "TASK_STATUS_TRANSITIONS T_pending = [T_running, T_cancelled]"
| "TASK_STATUS_TRANSITIONS T_running =
     [T_waiting_tool, T_waiting_approval, T_waiting_clarification, T_succeeded, T_failed, T_cancelled]"
| "TASK_STATUS_TRANSITIONS T_succeeded = []"
| "TASK_STATUS_TRANSITIONS T_waiting_approval = [T_running, T_failed, T_cancelled]"
| "TASK_STATUS_TRANSITIONS T_waiting_clarification = [T_running, T_failed, T_cancelled]"
| "TASK_STATUS_TRANSITIONS T_waiting_tool =
     [T_running, T_waiting_approval, T_waiting_clarification, T_failed, T_cancelled]"

definition canTransitionTaskStatus :: "TaskStatus \<Rightarrow> TaskStatus \<Rightarrow> bool" where
  "canTransitionTaskStatus cur nxt = (nxt \<in> set (TASK_STATUS_TRANSITIONS cur))"

text \<open>The transition relations as step relations, one rule per allowed edge.\<close>

inductive toolCallStep :: "ToolCallStatus \<Rightarrow> ToolCallStatus \<Rightarrow> bool" where
  "b \<in> set (TOOL_CALL_STATUS_TRANSITIONS a) \<Longrightarrow> toolCallStep a b"

inductive_cases toolCallStep_FinishedE: "toolCallStep a Finished"
inductive_cases toolCallStep_StartedE: "toolCallStep a Started"
inductive_cases toolCallStep_ApprovedE: "toolCallStep a Approved"
inductive_simps toolCallStep_iff: "toolCallStep a b"

text \<open>A call finishes only from \<open>started\<close>; it starts only unapproved or once approved.\<close>

lemma finished_only_from_started: "toolCallStep a Finished \<Longrightarrow> a = Started"
  by (erule toolCallStep_FinishedE) (cases a; simp)

lemma started_from: "toolCallStep a Started \<Longrightarrow> a = Requested \<or> a = Approved"
  by (erule toolCallStep_StartedE) (cases a; simp)

lemma approved_from: "toolCallStep a Approved \<Longrightarrow> a = Awaiting_approval"
  by (erule toolCallStep_ApprovedE) (cases a; simp)

text \<open>Every chain of moves ends: a rank that each allowed move increases.\<close>

fun toolCallRank :: "ToolCallStatus \<Rightarrow> nat" where
  "toolCallRank Requested = 0"
| "toolCallRank Awaiting_approval = 1"
| "toolCallRank Approved = 2"
| "toolCallRank Started = 3"
| "toolCallRank _ = 4"

lemma toolCallStep_rank: "toolCallStep a b \<Longrightarrow> toolCallRank a < toolCallRank b"
  by (erule toolCallStep.cases) (cases a; auto)

lemma toolCallStep_wf: "wfP (\<lambda>b a. toolCallStep a b)"
proof (rule wfp_subset [of "\<lambda>b a. 4 - toolCallRank b < 4 - toolCallRank a"])
  show "wfP (\<lambda>b a. 4 - toolCallRank b < 4 - toolCallRank a)"
    using wf_measure [of "\<lambda>s. 4 - toolCallRank s"] by (simp add: wfp_def measure_def inv_image_def)
  have le4: "toolCallRank b \<le> 4" for b by (cases b) auto
  show "(\<lambda>b a. toolCallStep a b) \<le> (\<lambda>b a. 4 - toolCallRank b < 4 - toolCallRank a)"
  proof (intro le_funI le_boolI)
    fix b a assume "toolCallStep a b"
    then have "toolCallRank a < toolCallRank b" by (rule toolCallStep_rank)
    with le4 [of b] show "4 - toolCallRank b < 4 - toolCallRank a" by arith
  qed
qed

subsection \<open>Sandbox plans\<close>

datatype FileOperation = Read | Write
datatype ShellNetwork = Disabled | Unrestricted
datatype WebMethod = GET | POST

record FilePlan =
  fp_operation :: FileOperation
  fp_requestedPath :: string
  fp_resolvedPath :: string
  fp_pathScope :: PathScope
  fp_withinExtraWriteRoot :: "bool option"

record ShellPlan =
  sp_command :: string
  sp_executable :: string
  sp_cwd :: string
  sp_envKeys :: "string list"
  sp_timeoutMs :: int
  sp_pathScope :: PathScope
  sp_networkAccess :: ShellNetwork

record WebPlan =
  wp_method :: WebMethod
  wp_url :: string
  wp_host :: string

record McpPlan =
  mp_serverId :: string
  mp_toolName :: string
  mp_target :: string

datatype SandboxExecutionPlan =
    FileP FilePlan | ShellP ShellPlan | WebP WebPlan | McpP McpPlan | PromptP

fun operationStr :: "FileOperation \<Rightarrow> string" where
  "operationStr Read = ''read''"
| "operationStr Write = ''write''"

fun networkStr :: "ShellNetwork \<Rightarrow> string" where
  "networkStr Disabled = ''disabled''"
| "networkStr Unrestricted = ''unrestricted''"

fun methodStr :: "WebMethod \<Rightarrow> string" where
  "methodStr GET = ''GET''"
| "methodStr POST = ''POST''"

fun planKind :: "SandboxExecutionPlan \<Rightarrow> string" where
  "planKind (FileP _) = ''file''"
| "planKind (ShellP _) = ''shell''"
| "planKind (WebP _) = ''network''"
| "planKind (McpP _) = ''mcp''"
| "planKind PromptP = ''prompt''"

subsection \<open>Trace and audit logs\<close>

record TraceEvent =
  te_actor :: string
  te_eventType :: string
  te_payload :: json_object
  te_stage :: string
  te_summary :: string
  te_taskId :: string

record AuditEntry =
  ae_action :: string
  ae_actor :: string
  ae_approvalId :: "string option"
  ae_outcome :: string
  ae_payload :: json_object
  ae_summary :: string
  ae_taskId :: "string option"
  ae_toolCallId :: "string option"

end
