(* ===== verification/JsText.thy ===== *)
theory JsText
  imports Prelude
begin

section \<open>JavaScript string operations\<close>

text \<open>
  A \<open>string\<close> is a sequence of code units in the range 0 to 255 (one \<open>char\<close> each); the operations
  below are those of the ECMAScript standard on that range: white space (\<open>\s\<close> and \<open>trim\<close> agree on
  it), \<open>toLowerCase\<close>, \<open>split\<close>, \<open>join\<close>, \<open>startsWith\<close>, \<open>indexOf\<close>. Text whose code units may
  exceed 255 (the memory contents of the context policy) is a \<open>nat list\<close> of UTF-16 code units.
\<close>

definition isWs :: "char \<Rightarrow> bool" where
  "isWs c = ((of_char c :: nat) \<in> {9, 10, 11, 12, 13, 32, 160})"

definition trimBy :: "('a \<Rightarrow> bool) \<Rightarrow> 'a list \<Rightarrow> 'a list" where
  "trimBy ws s = rev (dropWhile ws (rev (dropWhile ws s)))"

definition trim :: "string \<Rightarrow> string" where
  "trim s = trimBy isWs s"

definition lowerChar :: "char \<Rightarrow> char" where
  "lowerChar c =
     (let n = (of_char c :: nat)
      in if (65 \<le> n \<and> n \<le> 90) \<or> (192 \<le> n \<and> n \<le> 222 \<and> n \<noteq> 215) then char_of (n + 32) else c)"

definition lower :: "string \<Rightarrow> string" where
  "lower s = map lowerChar s"

text \<open>\<open>s.replace(/\s+/gu, " ")\<close>, for the white space \<open>ws\<close> and the space \<open>sp\<close> of the text type.\<close>

function collapseBy :: "('a \<Rightarrow> bool) \<Rightarrow> 'a \<Rightarrow> 'a list \<Rightarrow> 'a list" where
  "collapseBy ws sp [] = []"
| "collapseBy ws sp (c # cs) =
     (if ws c then sp # collapseBy ws sp (dropWhile ws cs) else c # collapseBy ws sp cs)"
  by pat_completeness auto
termination
  by (relation "measure (\<lambda>(ws, sp, s). length s)") (auto simp: le_imp_less_Suc length_dropWhile_le)

definition collapseWs :: "string \<Rightarrow> string" where
  "collapseWs s = collapseBy isWs (CHR '' '') s"

text \<open>\<open>s.split(/\s+/u)\<close>: the pieces between maximal runs of white space.\<close>

function splitWs :: "string \<Rightarrow> string list" where
  "splitWs s =
     (case dropWhile (\<lambda>c. \<not> isWs c) s of
        [] \<Rightarrow> [takeWhile (\<lambda>c. \<not> isWs c) s]
      | _ # rest \<Rightarrow> takeWhile (\<lambda>c. \<not> isWs c) s # splitWs (dropWhile isWs rest))"
  by pat_completeness auto
termination
proof (relation "measure length")
  fix s rest :: string and x
  assume "dropWhile (\<lambda>c. \<not> isWs c) s = x # rest"
  then have "length (x # rest) \<le> length s"
    by (metis length_dropWhile_le)
  then show "(dropWhile isWs rest, s) \<in> measure length"
    using length_dropWhile_le [of isWs rest] by simp
qed simp

declare splitWs.simps [simp del]

text \<open>\<open>s.split(c)\<close> for one separator character.\<close>

function splitOn :: "char \<Rightarrow> string \<Rightarrow> string list" where
  "splitOn c s =
     (case dropWhile (\<lambda>x. x \<noteq> c) s of
        [] \<Rightarrow> [s]
      | _ # rest \<Rightarrow> takeWhile (\<lambda>x. x \<noteq> c) s # splitOn c rest)"
  by pat_completeness auto
termination
proof (relation "measure (\<lambda>(c, s). length s)")
  fix c x :: char and s rest :: string
  assume "dropWhile (\<lambda>x. x \<noteq> c) s = x # rest"
  then have "length (x # rest) \<le> length s"
    by (metis length_dropWhile_le)
  then show "((c, rest), (c, s)) \<in> measure (\<lambda>(c, s). length s)" by simp
qed simp

declare splitOn.simps [simp del]

fun joinWith :: "string \<Rightarrow> string list \<Rightarrow> string" where
  "joinWith sep [] = []"
| "joinWith sep [x] = x"
| "joinWith sep (x # y # xs) = x @ sep @ joinWith sep (y # xs)"

definition startsWith :: "string \<Rightarrow> string \<Rightarrow> bool" where
  "startsWith s p = prefix p s"

definition includesStr :: "string \<Rightarrow> string \<Rightarrow> bool" where
  "includesStr s p = list_ex (\<lambda>t. prefix p t) (suffixes s)"

text \<open>\<open>s.indexOf(c)\<close>, with \<open>None\<close> for \<open>-1\<close>.\<close>

fun indexOf :: "char \<Rightarrow> string \<Rightarrow> nat option" where
  "indexOf c [] = None"
| "indexOf c (x # xs) = (if x = c then Some 0 else map_option Suc (indexOf c xs))"

abbreviation nl :: char where "nl \<equiv> CHR 0x0A"

subsection \<open>Laws\<close>

lemma isWs_space [simp]: "isWs (CHR '' '')"
  by (simp add: isWs_def)

lemma splitOn_absent: "c \<notin> set s \<Longrightarrow> splitOn c s = [s]"
proof -
  assume "c \<notin> set s"
  then have "dropWhile (\<lambda>x. x \<noteq> c) s = []" by (auto simp: dropWhile_eq_Nil_conv)
  then show ?thesis by (subst splitOn.simps) (simp only: list.case)
qed

lemma splitOn_append:
  assumes "c \<notin> set a"
  shows "splitOn c (a @ c # b) = a # splitOn c b"
proof -
  have "dropWhile (\<lambda>x. x \<noteq> c) (a @ c # b) = c # b" and "takeWhile (\<lambda>x. x \<noteq> c) (a @ c # b) = a"
    using assms by (induction a) auto
  then show ?thesis by (subst splitOn.simps) simp
qed

text \<open>Joining lines and splitting them again is the identity when no line contains the separator.\<close>

lemma splitOn_joinWith:
  "xs \<noteq> [] \<Longrightarrow> (\<forall>x \<in> set xs. c \<notin> set x) \<Longrightarrow> splitOn c (joinWith [c] xs) = xs"
proof (induction "[c]" xs rule: joinWith.induct)
  case 1
  then show ?case by simp
next
  case (2 x)
  then show ?case by (simp add: splitOn_absent)
next
  case (3 x y xs)
  then have "splitOn c (joinWith [c] (y # xs)) = y # xs" by simp
  moreover have "joinWith [c] (x # y # xs) = x @ c # joinWith [c] (y # xs)" by simp
  ultimately show ?case using 3 by (simp add: splitOn_append del: joinWith.simps)
qed

lemma splitOn_head: "\<exists>y ys. splitOn c s = y # ys"
  by (subst splitOn.simps) (auto split: list.splits)

text \<open>A separator splits wherever it stands.\<close>

lemma splitOn_at: "splitOn c (r @ c # t) = splitOn c r @ splitOn c t"
proof (induction "length r" arbitrary: r rule: less_induct)
  case less
  show ?case
  proof (cases "c \<in> set r")
    case False
    then show ?thesis by (simp add: splitOn_append splitOn_absent)
  next
    case True
    then obtain a b where r: "r = a @ c # b" and a: "c \<notin> set a"
      by (meson split_list_first)
    then have "splitOn c (b @ c # t) = splitOn c b @ splitOn c t" using less by simp
    then show ?thesis using r a by (simp add: splitOn_append)
  qed
qed

lemma length_collapseBy: "length (collapseBy ws sp s) \<le> length s"
proof (induction ws sp s rule: collapseBy.induct)
  case 1
  then show ?case by simp
next
  case (2 ws sp c cs)
  then show ?case using length_dropWhile_le [of ws cs] by auto
qed

lemma indexOf_append: "c \<notin> set a \<Longrightarrow> indexOf c (a @ c # b) = Some (length a)"
  by (induction a) auto

lemma lower_length [simp]: "length (lower s) = length s"
  by (simp add: lower_def)

lemma lower_append: "lower (a @ b) = lower a @ lower b"
  by (simp add: lower_def)

lemma startsWith_refl [simp]: "startsWith s s"
  by (simp add: startsWith_def)

lemma startsWith_append [simp]: "startsWith (s @ t) s"
  by (simp add: startsWith_def)

text \<open>White space at both ends is gone after \<open>trim\<close>, and nothing else.\<close>

lemma dropWhile_hd: "dropWhile P xs = y # ys \<Longrightarrow> \<not> P y"
  by (induction xs) (auto split: if_splits)

lemma trim_hd: "trim s = c # cs \<Longrightarrow> \<not> isWs c"
proof -
  assume t: "trim s = c # cs"
  let ?d = "dropWhile isWs s"
  have "prefix (trim s) ?d"
    unfolding trim_def trimBy_def by (metis suffix_dropWhile suffix_to_prefix rev_rev_ident)
  with t have "\<exists>ys. ?d = c # ys" by (auto simp: prefix_def)
  then show "\<not> isWs c" by (auto dest: dropWhile_hd)
qed

lemma trim_last: "trim s \<noteq> [] \<Longrightarrow> \<not> isWs (last (trim s))"
  unfolding trim_def trimBy_def by (simp add: last_rev hd_dropWhile)

lemma trim_id: "s = [] \<or> (\<not> isWs (hd s) \<and> \<not> isWs (last s)) \<Longrightarrow> trim s = s"
proof (cases s)
  case Nil
  then show ?thesis by (simp add: trim_def trimBy_def)
next
  case (Cons c cs)
  assume "s = [] \<or> (\<not> isWs (hd s) \<and> \<not> isWs (last s))"
  with Cons have "\<not> isWs (hd s)" and "\<not> isWs (hd (rev s))" by (simp_all only: hd_rev) auto
  then have "dropWhile isWs s = s" and "dropWhile isWs (rev s) = rev s"
    by (simp_all only: dropWhile_eq_self_iff) auto
  then show ?thesis by (simp add: trim_def trimBy_def)
qed

lemma trim_idem: "trim (trim s) = trim s"
  by (metis list.collapse trim_hd trim_id trim_last)

end
