(* ===== verification/Policy.thy ===== *)
theory Policy
  imports Governance JsText
begin

section \<open>The policy engine\<close>

text \<open>
  src/src/policy/policy-engine.ts and default-policy-config.ts: the rule records of
  src/src/types/policy.ts, the schema check of the constructor, the stable sort of the rules by
  descending priority, rule matching, the decision record, the default rule set and the combination of
  independent policy layers. Effects are ordered by restrictiveness through the library's \<open>linorder\<close>
  class, so that the combination is a maximum.
\<close>

subsection \<open>Data\<close>

record PolicyRuleCondition =
  users :: "string list option"
  workspaces :: "string list option"
  agentProfiles :: "AgentProfileId list option"
  toolNames :: "string list option"
  capabilities :: "ToolCapability list option"
  riskLevels :: "ToolRiskLevel list option"
  privacyLevels :: "PrivacyLevel list option"
  pathScopes :: "PathScope list option"

record PolicyRule =
  pr_id :: string
  pr_description :: string
  pr_effect :: PolicyEffect
  pr_priority :: int
  pr_match :: PolicyRuleCondition

record LocalPolicyConfig =
  defaultEffect :: PolicyEffect
  cfg_rules :: "PolicyRule list"

record PolicyEvaluationInput =
  pi_taskId :: string
  pi_toolCallId :: string
  pi_toolName :: string
  pi_userId :: string
  pi_workspaceRoot :: string
  pi_agentProfileId :: AgentProfileId
  pi_capability :: ToolCapability
  pi_riskLevel :: ToolRiskLevel
  pi_privacyLevel :: PrivacyLevel
  pi_pathScope :: PathScope
  pi_metadata :: "json_object option"

record PolicyDecision =
  pd_decisionId :: string
  pd_createdAt :: instant
  pd_effect :: PolicyEffect
  pd_matchedRuleId :: "string option"
  pd_reason :: string
  pd_input :: PolicyEvaluationInput

record PolicyEngine =
  pe_config :: LocalPolicyConfig
  pe_rules :: "PolicyRule list"

subsection \<open>Restrictiveness order of the effects\<close>

fun effectRank :: "PolicyEffect \<Rightarrow> nat" where
  "effectRank Allow = 0"
| "effectRank Allow_with_approval = 1"
| "effectRank Deny = 2"

lemma effectRank_inj: "effectRank a = effectRank b \<Longrightarrow> a = b"
  by (cases a; cases b) auto

instantiation PolicyEffect :: linorder
begin

definition less_eq_PolicyEffect :: "PolicyEffect \<Rightarrow> PolicyEffect \<Rightarrow> bool" where
  "less_eq_PolicyEffect a b = (effectRank a \<le> effectRank b)"

definition less_PolicyEffect :: "PolicyEffect \<Rightarrow> PolicyEffect \<Rightarrow> bool" where
  "less_PolicyEffect a b = (effectRank a < effectRank b)"

instance
  by standard (auto simp: less_eq_PolicyEffect_def less_PolicyEffect_def intro: effectRank_inj)

end

lemma effect_le_Deny [simp]: "(e :: PolicyEffect) \<le> Deny"
  by (cases e) (auto simp: less_eq_PolicyEffect_def)

lemma Allow_le_effect [simp]: "Allow \<le> (e :: PolicyEffect)"
  by (cases e) (auto simp: less_eq_PolicyEffect_def)

subsection \<open>Schema validation\<close>

definition nonEmptyStrings :: "string list option \<Rightarrow> bool" where
  "nonEmptyStrings xs = (case xs of None \<Rightarrow> True | Some ys \<Rightarrow> list_all (\<lambda>s. s \<noteq> []) ys)"

definition policyRuleConditionSchema :: "PolicyRuleCondition \<Rightarrow> bool" where
  "policyRuleConditionSchema c =
     (nonEmptyStrings (toolNames c) \<and> nonEmptyStrings (users c) \<and> nonEmptyStrings (workspaces c))"

definition policyRuleSchema :: "PolicyRule \<Rightarrow> bool" where
  "policyRuleSchema r =
     (pr_description r \<noteq> [] \<and> pr_id r \<noteq> [] \<and> policyRuleConditionSchema (pr_match r))"

definition localPolicyConfigSchema :: "LocalPolicyConfig \<Rightarrow> bool" where
  "localPolicyConfigSchema c = list_all policyRuleSchema (cfg_rules c)"

subsection \<open>Construction and evaluation\<close>

definition newPolicyEngine :: "LocalPolicyConfig \<Rightarrow> thrown + PolicyEngine" where
  "newPolicyEngine config =
     (if localPolicyConfigSchema config
      then Inr \<lparr>pe_config = config, pe_rules = sort_key (\<lambda>r. - pr_priority r) (cfg_rules config)\<rparr>
      else Inl (PlainError ''ZodError''))"

definition includesIfPresent :: "'a list option \<Rightarrow> 'a \<Rightarrow> bool" where
  "includesIfPresent vs candidate =
     (case vs of None \<Rightarrow> True | Some xs \<Rightarrow> xs = [] \<or> List.member xs candidate)"

definition matchesRule :: "PolicyRule \<Rightarrow> PolicyEvaluationInput \<Rightarrow> bool" where
  "matchesRule rule i =
     (let m = pr_match rule in
      includesIfPresent (users m) (pi_userId i) \<and>
      includesIfPresent (workspaces m) (pi_workspaceRoot i) \<and>
      includesIfPresent (agentProfiles m) (pi_agentProfileId i) \<and>
      includesIfPresent (toolNames m) (pi_toolName i) \<and>
      includesIfPresent (capabilities m) (pi_capability i) \<and>
      includesIfPresent (riskLevels m) (pi_riskLevel i) \<and>
      includesIfPresent (privacyLevels m) (pi_privacyLevel i) \<and>
      includesIfPresent (pathScopes m) (pi_pathScope i))"

definition evaluate :: "PolicyEngine \<Rightarrow> string \<Rightarrow> instant \<Rightarrow> PolicyEvaluationInput \<Rightarrow> PolicyDecision" where
  "evaluate engine uuid now i =
     (let matched = List.find (\<lambda>r. matchesRule r i) (pe_rules engine);
          dflt = defaultEffect (pe_config engine)
      in \<lparr>pd_decisionId = uuid,
          pd_createdAt = now,
          pd_effect = (case matched of None \<Rightarrow> dflt | Some r \<Rightarrow> pr_effect r),
          pd_matchedRuleId = map_option pr_id matched,
          pd_reason =
            (case matched of
               None \<Rightarrow> ''No local policy rule matched. Defaulting to '' @ effectStr dflt @ ''.''
             | Some r \<Rightarrow> pr_id r @ '': '' @ pr_description r),
          pd_input = i\<rparr>)"

subsection \<open>The default rule set\<close>

definition anyInput :: PolicyRuleCondition where
  "anyInput = \<lparr>users = None, workspaces = None, agentProfiles = None, toolNames = None,
     capabilities = None, riskLevels = None, privacyLevels = None, pathScopes = None\<rparr>"

definition rule_deny_outside_workspace :: PolicyRule where
  "rule_deny_outside_workspace = \<lparr>
     pr_id = ''deny-outside-workspace'',
     pr_description = ''Never allow tools to escape the workspace boundary.'',
     pr_effect = Deny, pr_priority = 100,
     pr_match = anyInput\<lparr>pathScopes := Some [Outside_workspace, Outside_write_root]\<rparr>\<rparr>"

definition rule_planner_read_only :: PolicyRule where
  "rule_planner_read_only = \<lparr>
     pr_id = ''planner-read-only'',
     pr_description =
     ''Planner profile is read-focused and cannot mutate files or run shell by default.'',
     pr_effect = Deny, pr_priority = 91,
     pr_match = anyInput\<lparr>agentProfiles := Some [Planner],
     capabilities := Some [Filesystem_write, Shell_execute, Mcp_invoke]\<rparr>\<rparr>"

definition rule_reviewer_read_only :: PolicyRule where
  "rule_reviewer_read_only = \<lparr>
     pr_id = ''reviewer-read-only'',
     pr_description = ''Reviewer profile is read-focused and cannot mutate files or run shell.'',
     pr_effect = Deny, pr_priority = 90,
     pr_match = anyInput\<lparr>agentProfiles := Some [Reviewer],
     capabilities := Some [Filesystem_write, Shell_execute, Mcp_invoke]\<rparr>\<rparr>"

definition rule_mcp_external_read_only :: PolicyRule where
  "rule_mcp_external_read_only = \<lparr>
     pr_id = ''mcp-external-read-only'',
     pr_description = ''External MCP identity cannot run shell or write files by default.'',
     pr_effect = Deny, pr_priority = 89,
     pr_match = anyInput\<lparr>capabilities := Some [Filesystem_write, Shell_execute],
     users := Some [''mcp_external'']\<rparr>\<rparr>"

definition rule_interactive_prompt_allow :: PolicyRule where
  "rule_interactive_prompt_allow = \<lparr>
     pr_id = ''interactive-prompt-allow'',
     pr_description = ''Interactive user clarification prompts are allowed in local chat TUI.'',
     pr_effect = Allow, pr_priority = 95,
     pr_match = anyInput\<lparr>capabilities := Some [Interaction_ask_user]\<rparr>\<rparr>"

definition rule_mcp_invoke_needs_approval :: PolicyRule where
  "rule_mcp_invoke_needs_approval = \<lparr>
     pr_id = ''mcp-invoke-needs-approval'',
     pr_description = ''MCP invocation is approval-gated for non-reviewer profiles.'',
     pr_effect = Allow_with_approval, pr_priority = 85,
     pr_match = anyInput\<lparr>capabilities := Some [Mcp_invoke]\<rparr>\<rparr>"

definition rule_shell_needs_approval :: PolicyRule where
  "rule_shell_needs_approval = \<lparr>
     pr_id = ''shell-needs-approval'',
     pr_description = ''Shell execution is always approval-gated.'',
     pr_effect = Allow_with_approval, pr_priority = 80,
     pr_match = anyInput\<lparr>capabilities := Some [Shell_execute]\<rparr>\<rparr>"

definition rule_workspace_file_write_allow :: PolicyRule where
  "rule_workspace_file_write_allow = \<lparr>
     pr_id = ''workspace-file-write-allow'',
     pr_description = ''Workspace file writes are allowed by default.'',
     pr_effect = Allow, pr_priority = 80,
     pr_match = anyInput\<lparr>capabilities := Some [Filesystem_write],
     pathScopes := Some [Workspace]\<rparr>\<rparr>"

definition rule_extra_write_root_file_write_needs_approval :: PolicyRule where
  "rule_extra_write_root_file_write_needs_approval = \<lparr>
     pr_id = ''extra-write-root-file-write-needs-approval'',
     pr_description = ''Extra write-root file writes are approval-gated.'',
     pr_effect = Allow_with_approval, pr_priority = 75,
     pr_match = anyInput\<lparr>capabilities := Some [Filesystem_write],
     pathScopes := Some [Write_root]\<rparr>\<rparr>"

definition rule_public_web_fetch_allow :: PolicyRule where
  "rule_public_web_fetch_allow = \<lparr>
     pr_id = ''public-web-fetch-allow'',
     pr_description = ''Public read-only web fetches are allowed by default.'',
     pr_effect = Allow, pr_priority = 80,
     pr_match = anyInput\<lparr>capabilities := Some [Network_fetch_public_readonly]\<rparr>\<rparr>"

definition rule_file_read_allow :: PolicyRule where
  "rule_file_read_allow = \<lparr>
     pr_id = ''file-read-allow'',
     pr_description = ''Low-risk internal reads are allowed.'',
     pr_effect = Allow, pr_priority = 70,
     pr_match = anyInput\<lparr>capabilities := Some [Filesystem_read],
     pathScopes := Some [Workspace, Write_root]\<rparr>\<rparr>"

definition DEFAULT_LOCAL_POLICY_CONFIG :: LocalPolicyConfig where
  "DEFAULT_LOCAL_POLICY_CONFIG = \<lparr>
     defaultEffect = Deny,
     cfg_rules = [
       rule_deny_outside_workspace,
       rule_planner_read_only,
       rule_reviewer_read_only,
       rule_mcp_external_read_only,
       rule_interactive_prompt_allow,
       rule_mcp_invoke_needs_approval,
       rule_shell_needs_approval,
       rule_workspace_file_write_allow,
       rule_extra_write_root_file_write_needs_approval,
       rule_public_web_fetch_allow,
       rule_file_read_allow]\<rparr>"

lemmas default_rule_defs =
  rule_deny_outside_workspace_def rule_planner_read_only_def rule_reviewer_read_only_def rule_mcp_external_read_only_def rule_interactive_prompt_allow_def rule_mcp_invoke_needs_approval_def rule_shell_needs_approval_def rule_workspace_file_write_allow_def rule_extra_write_root_file_write_needs_approval_def rule_public_web_fetch_allow_def rule_file_read_allow_def

subsection \<open>Layers\<close>

record PolicyLayer =
  ly_effect :: PolicyEffect
  ly_layer :: string

record LayeredPolicyResult =
  lr_effect :: PolicyEffect
  lr_decidingLayers :: "string list"

definition combinePolicyEffects :: "PolicyLayer list \<Rightarrow> LayeredPolicyResult" where
  "combinePolicyEffects layers =
     (let effect =
        (if list_ex (\<lambda>l. ly_effect l = Deny) layers then Deny
         else if list_ex (\<lambda>l. ly_effect l = Allow_with_approval) layers then Allow_with_approval
         else Allow)
      in \<lparr>lr_effect = effect,
          lr_decidingLayers = map ly_layer (filter (\<lambda>l. ly_effect l = effect) layers)\<rparr>)"

subsection \<open>Lemmas\<close>

lemma find_Some_iff_sorted:
  assumes "sorted (map f xs)" and "List.find P xs = Some x"
  shows "\<forall>y \<in> set xs. P y \<longrightarrow> f x \<le> f y"
  using assms
proof (induction xs)
  case Nil
  then show ?case by simp
next
  case (Cons a xs)
  then show ?case by (cases "P a") auto
qed

lemma find_mem: "List.find P xs = Some x \<Longrightarrow> x \<in> set xs \<and> P x"
  by (induction xs) (auto split: if_splits)

lemma find_none: "List.find P xs = None \<longleftrightarrow> (\<forall>x \<in> set xs. \<not> P x)"
  by (induction xs) auto

text \<open>Among the rules of one priority the sort keeps the order of the configuration.\<close>

lemma sort_key_stable_filter:
  "filter (\<lambda>r. pr_priority r = p) (sort_key (\<lambda>r. - pr_priority r) rules) =
   filter (\<lambda>r. pr_priority r = p) rules"
  using sort_key_stable [of "\<lambda>r. - pr_priority r" "- p" rules] by simp

text \<open>The first hit of a search is the first hit among any sub-selection that contains it.\<close>

lemma find_filter: "List.find P xs = Some x \<Longrightarrow> Q x \<Longrightarrow> List.find P (filter Q xs) = Some x"
  by (induction xs) (auto split: if_splits)

lemma find_hd_filter: "List.find P xs = (case filter P xs of [] \<Rightarrow> None | x # _ \<Rightarrow> Some x)"
  by (induction xs) auto

lemma find_cong_set: "(\<And>x. x \<in> set xs \<Longrightarrow> P x = Q x) \<Longrightarrow> List.find P xs = List.find Q xs"
  by (induction xs) auto

text \<open>The search through the sorted rules finds the first best rule of the configuration.\<close>

definition bestRule :: "(PolicyRule \<Rightarrow> bool) \<Rightarrow> PolicyRule list \<Rightarrow> PolicyRule option" where
  "bestRule P rules =
     List.find (\<lambda>r. P r \<and> list_all (\<lambda>r'. P r' \<longrightarrow> pr_priority r' \<le> pr_priority r) rules) rules"

lemma find_sorted_bestRule:
  "List.find P (sort_key (\<lambda>r. - pr_priority r) rules) = bestRule P rules"
proof (cases "List.find P (sort_key (\<lambda>r. - pr_priority r) rules)")
  case None
  then have "\<forall>r \<in> set rules. \<not> P r" by (auto simp: find_none)
  then have "bestRule P rules = None" by (auto simp: bestRule_def find_none)
  with None show ?thesis by simp
next
  case (Some r)
  let ?s = "sort_key (\<lambda>r. - pr_priority r) rules" and ?Q = "\<lambda>x. pr_priority x = pr_priority r"
  from find_mem [OF Some] have P: "P r" by simp
  have max: "\<forall>y \<in> set rules. P y \<longrightarrow> pr_priority y \<le> pr_priority r"
    using find_Some_iff_sorted [OF _ Some, of "\<lambda>r. - pr_priority r"] by auto
  have rmem: "r \<in> set rules" using find_mem [OF Some] by simp
  have "List.find P (filter ?Q rules) = Some r"
    using find_filter [OF Some, of ?Q] by (simp add: sort_key_stable_filter)
  then have hit: "List.find (\<lambda>x. P x \<and> ?Q x) rules = Some r"
    by (simp add: find_hd_filter conj_commute)
  have cong: "P x \<and> list_all (\<lambda>r'. P r' \<longrightarrow> pr_priority r' \<le> pr_priority x) rules \<longleftrightarrow> P x \<and> ?Q x"
    if "x \<in> set rules" for x
  proof -
    have "list_all (\<lambda>r'. P r' \<longrightarrow> pr_priority r' \<le> pr_priority x) rules \<Longrightarrow> pr_priority r \<le> pr_priority x"
      using P rmem by (simp add: list_all_iff)
    moreover have "P x \<Longrightarrow> pr_priority x \<le> pr_priority r" using max that by blast
    moreover have "pr_priority x = pr_priority r \<Longrightarrow>
        list_all (\<lambda>r'. P r' \<longrightarrow> pr_priority r' \<le> pr_priority x) rules"
      using max by (simp add: list_all_iff)
    ultimately show ?thesis by (metis antisym)
  qed
  have "bestRule P rules = List.find (\<lambda>x. P x \<and> ?Q x) rules"
    unfolding bestRule_def by (rule find_cong_set) (rule cong)
  with hit have "bestRule P rules = Some r" by simp
  with Some show ?thesis by simp
qed

lemma engine_rules:
  "newPolicyEngine cfg = Inr e \<Longrightarrow>
    pe_config e = cfg \<and> pe_rules e = sort_key (\<lambda>r. - pr_priority r) (cfg_rules cfg)"
  by (auto simp: newPolicyEngine_def split: if_splits)

lemma evaluate_effect:
  "pd_effect (evaluate e u n i) =
    (case List.find (\<lambda>r. matchesRule r i) (pe_rules e) of
       None \<Rightarrow> defaultEffect (pe_config e) | Some r \<Rightarrow> pr_effect r)"
  by (simp add: evaluate_def Let_def)

lemma evaluate_input [simp]: "pd_input (evaluate e u n i) = i"
  by (simp add: evaluate_def Let_def)

subsection \<open>Properties\<close>

text \<open>
  C13: policy evaluation applies the first rule, in configuration order, among the matching rules of
  the highest priority; with no matching rule it applies the configured default, and the decision
  records the rule that decided and the input it was made for.\<close>

theorem evaluate_best_rule:
  assumes "newPolicyEngine cfg = Inr e"
  shows "let best = bestRule (\<lambda>r. matchesRule r i) (cfg_rules cfg); d = evaluate e u n i in
      pd_effect d = (case best of None \<Rightarrow> defaultEffect cfg | Some r \<Rightarrow> pr_effect r) \<and>
      pd_matchedRuleId d = map_option pr_id best \<and> pd_input d = i"
  using engine_rules [OF assms] by (simp add: evaluate_def Let_def find_sorted_bestRule)

text \<open>A concrete configuration: of two matching rules the one of higher priority decides.\<close>

definition sampleInput :: PolicyEvaluationInput where
  "sampleInput = \<lparr>pi_taskId = ''t1'', pi_toolCallId = ''c1'', pi_toolName = ''shell'',
     pi_userId = ''u1'', pi_workspaceRoot = ''/w'', pi_agentProfileId = Executor,
     pi_capability = Shell_execute, pi_riskLevel = High, pi_privacyLevel = Restricted,
     pi_pathScope = Workspace, pi_metadata = None\<rparr>"

definition sampleConfig :: LocalPolicyConfig where
  "sampleConfig = \<lparr>defaultEffect = Deny, cfg_rules =
     [\<lparr>pr_id = ''r1'', pr_description = ''d'', pr_effect = Allow, pr_priority = 1, pr_match = anyInput\<rparr>,
      \<lparr>pr_id = ''r2'', pr_description = ''d'', pr_effect = Allow_with_approval, pr_priority = 5,
       pr_match = anyInput\<lparr>capabilities := Some [Shell_execute]\<rparr>\<rparr>]\<rparr>"

theorem evaluate_best_rule_witness:
  "pd_effect (evaluate \<lparr>pe_config = sampleConfig,
      pe_rules = sort_key (\<lambda>r. - pr_priority r) (cfg_rules sampleConfig)\<rparr> ''u'' 0 sampleInput)
    = Allow_with_approval"
proof -
  have new: "newPolicyEngine sampleConfig = Inr \<lparr>pe_config = sampleConfig,
      pe_rules = sort_key (\<lambda>r. - pr_priority r) (cfg_rules sampleConfig)\<rparr>"
    by (simp add: newPolicyEngine_def localPolicyConfigSchema_def policyRuleSchema_def
        policyRuleConditionSchema_def nonEmptyStrings_def sampleConfig_def anyInput_def)
  show ?thesis
    using evaluate_best_rule [OF new, of sampleInput "''u''" 0]
    by (simp add: Let_def bestRule_def sampleConfig_def sampleInput_def anyInput_def matchesRule_def
        includesIfPresent_def)
qed

lemma default_rules_priority [simp]:
  "pr_priority rule_deny_outside_workspace = 100"
    "pr_priority rule_planner_read_only = 91"
    "pr_priority rule_reviewer_read_only = 90"
    "pr_priority rule_mcp_external_read_only = 89"
    "pr_priority rule_interactive_prompt_allow = 95"
    "pr_priority rule_mcp_invoke_needs_approval = 85"
    "pr_priority rule_shell_needs_approval = 80"
    "pr_priority rule_workspace_file_write_allow = 80"
    "pr_priority rule_extra_write_root_file_write_needs_approval = 75"
    "pr_priority rule_public_web_fetch_allow = 80"
    "pr_priority rule_file_read_allow = 70"
  by (simp_all add: default_rule_defs)

lemma default_rules_sorted:
  "sort_key (\<lambda>r. - pr_priority r) (cfg_rules DEFAULT_LOCAL_POLICY_CONFIG) =
   [rule_deny_outside_workspace,
    rule_interactive_prompt_allow,
    rule_planner_read_only,
    rule_reviewer_read_only,
    rule_mcp_external_read_only,
    rule_mcp_invoke_needs_approval,
    rule_shell_needs_approval,
    rule_workspace_file_write_allow,
    rule_public_web_fetch_allow,
    rule_extra_write_root_file_write_needs_approval,
    rule_file_read_allow]"
  by (simp add: DEFAULT_LOCAL_POLICY_CONFIG_def)

lemma default_defaultEffect: "defaultEffect DEFAULT_LOCAL_POLICY_CONFIG = Deny"
  by (simp add: DEFAULT_LOCAL_POLICY_CONFIG_def)

lemma default_matches:
  "matchesRule rule_deny_outside_workspace i \<longleftrightarrow> pi_pathScope i \<in> {Outside_workspace, Outside_write_root}"
    "matchesRule rule_planner_read_only i \<longleftrightarrow> pi_agentProfileId i = Planner \<and> pi_capability i \<in> {Filesystem_write, Shell_execute, Mcp_invoke}"
    "matchesRule rule_reviewer_read_only i \<longleftrightarrow> pi_agentProfileId i = Reviewer \<and> pi_capability i \<in> {Filesystem_write, Shell_execute, Mcp_invoke}"
    "matchesRule rule_mcp_external_read_only i \<longleftrightarrow> pi_userId i = ''mcp_external'' \<and> pi_capability i \<in> {Filesystem_write, Shell_execute}"
    "matchesRule rule_interactive_prompt_allow i \<longleftrightarrow> pi_capability i \<in> {Interaction_ask_user}"
    "matchesRule rule_mcp_invoke_needs_approval i \<longleftrightarrow> pi_capability i \<in> {Mcp_invoke}"
    "matchesRule rule_shell_needs_approval i \<longleftrightarrow> pi_capability i \<in> {Shell_execute}"
    "matchesRule rule_workspace_file_write_allow i \<longleftrightarrow> pi_capability i \<in> {Filesystem_write} \<and> pi_pathScope i \<in> {Workspace}"
    "matchesRule rule_extra_write_root_file_write_needs_approval i \<longleftrightarrow> pi_capability i \<in> {Filesystem_write} \<and> pi_pathScope i \<in> {Write_root}"
    "matchesRule rule_public_web_fetch_allow i \<longleftrightarrow> pi_capability i \<in> {Network_fetch_public_readonly}"
    "matchesRule rule_file_read_allow i \<longleftrightarrow> pi_capability i \<in> {Filesystem_read} \<and> pi_pathScope i \<in> {Workspace, Write_root}"
  by (auto simp: default_rule_defs anyInput_def matchesRule_def includesIfPresent_def Let_def)

lemma default_effects:
  "pr_effect rule_deny_outside_workspace = Deny"
    "pr_effect rule_planner_read_only = Deny"
    "pr_effect rule_reviewer_read_only = Deny"
    "pr_effect rule_mcp_external_read_only = Deny"
    "pr_effect rule_interactive_prompt_allow = Allow"
    "pr_effect rule_mcp_invoke_needs_approval = Allow_with_approval"
    "pr_effect rule_shell_needs_approval = Allow_with_approval"
    "pr_effect rule_workspace_file_write_allow = Allow"
    "pr_effect rule_extra_write_root_file_write_needs_approval = Allow_with_approval"
    "pr_effect rule_public_web_fetch_allow = Allow"
    "pr_effect rule_file_read_allow = Allow"
  by (simp_all add: default_rule_defs)

text \<open>The decision table of the default rule set, and its proof from the rules.\<close>

definition defaultDecision :: "PolicyEvaluationInput \<Rightarrow> PolicyEffect" where
  "defaultDecision i =
    (if pi_pathScope i \<in> {Outside_workspace, Outside_write_root} then Deny
     else if pi_capability i = Interaction_ask_user then Allow
     else if pi_agentProfileId i \<in> {Planner, Reviewer} \<and>
             pi_capability i \<in> {Filesystem_write, Shell_execute, Mcp_invoke} then Deny
     else if pi_userId i = ''mcp_external'' \<and> pi_capability i \<in> {Filesystem_write, Shell_execute}
       then Deny
     else if pi_capability i \<in> {Mcp_invoke, Shell_execute} then Allow_with_approval
     else if pi_capability i = Network_fetch_public_readonly then Allow
     else if pi_capability i = Filesystem_write \<and> pi_pathScope i = Workspace then Allow
     else if pi_capability i = Filesystem_write \<and> pi_pathScope i = Write_root
       then Allow_with_approval
     else if pi_capability i = Filesystem_read \<and> pi_pathScope i \<in> {Workspace, Write_root} then Allow
     else Deny)"

lemma default_policy_decision:
  assumes "newPolicyEngine DEFAULT_LOCAL_POLICY_CONFIG = Inr e"
  shows "pd_effect (evaluate e u n i) = defaultDecision i"
  unfolding defaultDecision_def evaluate_effect engine_rules [OF assms, THEN conjunct1]
    engine_rules [OF assms, THEN conjunct2] default_rules_sorted
  by (cases "pi_pathScope i"; cases "pi_capability i"; cases "pi_agentProfileId i";
      cases "pi_userId i = ''mcp_external''")
    (simp_all only: find.simps default_matches default_effects default_defaultEffect
      option.case if_True if_False insert_iff empty_iff
      simp_thms ToolCapability.distinct PathScope.distinct AgentProfileId.distinct)

text \<open>Under the default rule set the effect of a call is exactly this decision table: nothing
  outside the workspace and the write roots, prompts to the user allowed, no mutation by planner and
  reviewer, no shell or write for the external MCP identity, MCP, shell and extra-root writes only
  with approval, workspace writes, public fetches and reads inside the roots allowed, the rest denied.\<close>

theorem default_policy_table:
  assumes "newPolicyEngine DEFAULT_LOCAL_POLICY_CONFIG = Inr e"
  shows "pd_effect (evaluate e u n i) =
    (if pi_pathScope i \<in> {Outside_workspace, Outside_write_root} then Deny
     else if pi_capability i = Interaction_ask_user then Allow
     else if pi_agentProfileId i \<in> {Planner, Reviewer} \<and>
             pi_capability i \<in> {Filesystem_write, Shell_execute, Mcp_invoke} then Deny
     else if pi_userId i = ''mcp_external'' \<and> pi_capability i \<in> {Filesystem_write, Shell_execute}
       then Deny
     else if pi_capability i \<in> {Mcp_invoke, Shell_execute} then Allow_with_approval
     else if pi_capability i = Network_fetch_public_readonly then Allow
     else if pi_capability i = Filesystem_write \<and> pi_pathScope i = Workspace then Allow
     else if pi_capability i = Filesystem_write \<and> pi_pathScope i = Write_root
       then Allow_with_approval
     else if pi_capability i = Filesystem_read \<and> pi_pathScope i \<in> {Workspace, Write_root} then Allow
     else Deny)"
  unfolding default_policy_decision [OF assms] by (rule defaultDecision_def)

lemma default_rules_valid:
  "policyRuleSchema rule_deny_outside_workspace"
    "policyRuleSchema rule_planner_read_only"
    "policyRuleSchema rule_reviewer_read_only"
    "policyRuleSchema rule_mcp_external_read_only"
    "policyRuleSchema rule_interactive_prompt_allow"
    "policyRuleSchema rule_mcp_invoke_needs_approval"
    "policyRuleSchema rule_shell_needs_approval"
    "policyRuleSchema rule_workspace_file_write_allow"
    "policyRuleSchema rule_extra_write_root_file_write_needs_approval"
    "policyRuleSchema rule_public_web_fetch_allow"
    "policyRuleSchema rule_file_read_allow"
  by (simp_all add: policyRuleSchema_def policyRuleConditionSchema_def nonEmptyStrings_def
      default_rule_defs anyInput_def)

text \<open>The default configuration passes the constructor's schema.\<close>

lemma default_policy_valid: "\<exists>e. newPolicyEngine DEFAULT_LOCAL_POLICY_CONFIG = Inr e"
  by (simp add: newPolicyEngine_def localPolicyConfigSchema_def DEFAULT_LOCAL_POLICY_CONFIG_def
      default_rules_valid)

theorem default_policy_table_witness:
  "\<exists>e. newPolicyEngine DEFAULT_LOCAL_POLICY_CONFIG = Inr e \<and>
    pd_effect (evaluate e ''u'' 0 sampleInput) = Allow_with_approval"
proof -
  obtain e where e: "newPolicyEngine DEFAULT_LOCAL_POLICY_CONFIG = Inr e"
    using default_policy_valid by blast
  from default_policy_table [OF e, of "''u''" 0 sampleInput] e show ?thesis
    by (auto simp: sampleInput_def)
qed

text \<open>Combining policy layers yields the most restrictive effect of any layer (allow for none), so
  no layer can relax another, and names exactly the layers that imposed it.\<close>

theorem combine_most_restrictive:
  "lr_effect (combinePolicyEffects ls) = Max (insert Allow (ly_effect ` set ls)) \<and>
   set (lr_decidingLayers (combinePolicyEffects ls)) =
     {ly_layer l | l. l \<in> set ls \<and> ly_effect l = Max (insert Allow (ly_effect ` set ls))}"
proof -
  let ?M = "Max (insert Allow (ly_effect ` set ls))"
  have fin: "finite (insert Allow (ly_effect ` set ls))" by simp
  have eff: "lr_effect (combinePolicyEffects ls) = ?M"
  proof (rule Max_eqI [symmetric, OF fin])
    show "lr_effect (combinePolicyEffects ls) \<in> insert Allow (ly_effect ` set ls)"
      by (simp add: combinePolicyEffects_def Let_def list_ex_iff image_iff) metis
  next
    fix y assume "y \<in> insert Allow (ly_effect ` set ls)"
    then consider "y = Allow" | l where "l \<in> set ls" "y = ly_effect l" by auto
    then show "y \<le> lr_effect (combinePolicyEffects ls)"
      by cases (cases y; force simp: combinePolicyEffects_def Let_def list_ex_iff less_eq_PolicyEffect_def)+
  qed
  moreover have "lr_decidingLayers (combinePolicyEffects ls) =
      map ly_layer (filter (\<lambda>l. ly_effect l = lr_effect (combinePolicyEffects ls)) ls)"
    by (simp add: combinePolicyEffects_def Let_def)
  ultimately show ?thesis by auto
qed

end
