(* ===== verification/ContextPolicy.thy ===== *)
theory ContextPolicy
  imports Policy
begin

section \<open>The context policy\<close>

text \<open>
  src/src/policy/context-policy.ts over the types of src/src/types/memory.ts and context.ts: which
  memory fragments may enter the model context, which content may be written to long-term memory,
  and redaction. Content is a list of UTF-16 code units, since the minimum length depends on the
  share of CJK characters.
\<close>

datatype MemoryScope = Profile | Project | Working | Experience_ref | Skill_ref | Session_ref
datatype MemoryStatus = Candidate | Verified | Stale | Rejected | Archived
datatype MemorySourceType =
  User_input | Tool_output | Session_compact | Final_output | Manual_review | System
datatype RetentionPolicyKind = Ephemeral | R_working | R_project | R_profile

record RetentionPolicy =
  rp_kind :: RetentionPolicyKind
  rp_ttlDays :: "int option"
  rp_reason :: string

record ContextFragment =
  cf_fragmentId :: string
  cf_memoryId :: string
  cf_scope :: MemoryScope
  cf_title :: string
  cf_text :: string
  cf_sourceType :: MemorySourceType
  cf_privacyLevel :: PrivacyLevel
  cf_retentionPolicy :: RetentionPolicy
  cf_status :: MemoryStatus
  cf_confidence :: int
  cf_explanation :: string

datatype FilterReason =
  Passed | Filtered_by_privacy | Filtered_by_retention | Filtered_by_scope | Filtered_by_policy

record ContextFilterDecision =
  cd_fragment :: ContextFragment
  cd_allowed :: bool
  cd_reasonCode :: FilterReason
  cd_reason :: string

definition filterFragment :: "ContextFragment \<Rightarrow> ContextFilterDecision" where
  "filterFragment f =
     (if cf_status f = Rejected \<or> cf_status f = Archived \<or> cf_status f = Stale
      then \<lparr>cd_fragment = f, cd_allowed = False, cd_reasonCode = Filtered_by_policy,
            cd_reason = ''Rejected, stale, or archived memory cannot enter model context.''\<rparr>
      else if cf_scope f \<noteq> Working \<and> cf_scope f \<noteq> Session_ref \<and> cf_scope f \<noteq> Skill_ref \<and>
              rp_kind (cf_retentionPolicy f) = R_working
      then \<lparr>cd_fragment = f, cd_allowed = False, cd_reasonCode = Filtered_by_scope,
            cd_reason =
              ''Working-retained memory cannot be injected outside the active working scope.''\<rparr>
      else if rp_kind (cf_retentionPolicy f) = Ephemeral \<and> cf_scope f \<noteq> Working
      then \<lparr>cd_fragment = f, cd_allowed = False, cd_reasonCode = Filtered_by_retention,
            cd_reason = ''Ephemeral memory is not eligible for cross-session model context.''\<rparr>
      else if cf_privacyLevel f = Restricted \<and> cf_scope f \<noteq> Working
      then \<lparr>cd_fragment = f, cd_allowed = False, cd_reasonCode = Filtered_by_privacy,
            cd_reason = ''Restricted memory is blocked from cross-session model injection.''\<rparr>
      else \<lparr>cd_fragment = f, cd_allowed = True, cd_reasonCode = Passed,
            cd_reason = ''Memory passed the context boundary filter.''\<rparr>)"

definition filterForModelContext ::
  "ContextFragment list \<Rightarrow> ContextFragment list \<times> ContextFilterDecision list" where
  "filterForModelContext fragments =
     (let decisions = map filterFragment fragments
      in (map cd_fragment (filter cd_allowed decisions), decisions))"

subsection \<open>Long-term writes\<close>

type_synonym utf16 = "nat list"

text \<open>White space of the ECMAScript standard as code units.\<close>

definition isWsUnit :: "nat \<Rightarrow> bool" where
  "isWsUnit n = ((9 \<le> n \<and> n \<le> 13) \<or> n = 32 \<or> n = 160 \<or> n = 5760 \<or> (8192 \<le> n \<and> n \<le> 8202) \<or>
     n = 8232 \<or> n = 8233 \<or> n = 8239 \<or> n = 8287 \<or> n = 12288 \<or> n = 65279)"

record LongTermMemoryWriteRequest =
  lw_content :: utf16
  lw_scope :: MemoryScope
  lw_privacyLevel :: PrivacyLevel
  lw_sourceLabel :: string

record LongTermMemoryWriteDecision =
  ld_allowed :: bool
  ld_reason :: string
  ld_targetScope :: MemoryScope

text \<open>
  The quotient \<open>cjkCount / length \<ge> 0.4\<close> is written without division; the two agree for every
  string shorter than \<open>2 ^ 52\<close> units, since 0.4 is the double nearest to two fifths.
\<close>

definition isCjk :: "nat \<Rightarrow> bool" where
  "isCjk n = (19968 \<le> n \<and> n \<le> 40869)"

definition computeMinLongTermContentLength :: "utf16 \<Rightarrow> nat" where
  "computeMinLongTermContentLength content =
     (let cjkCount = length (filter isCjk content)
      in if content = [] then 20
         else if 2 * length content \<le> 5 * cjkCount then 8
         else 20)"

definition decideLongTermWrite :: "LongTermMemoryWriteRequest \<Rightarrow> LongTermMemoryWriteDecision" where
  "decideLongTermWrite req =
     (let no = (\<lambda>why. \<lparr>ld_allowed = False, ld_reason = why, ld_targetScope = lw_scope req\<rparr>)
      in if lw_privacyLevel req = Restricted
         then no ''Restricted content is not auto-persisted into long-term memory.''
         else let compact = trimBy isWsUnit (collapseBy isWsUnit 32 (lw_content req));
                  minLength = computeMinLongTermContentLength compact
              in if length compact < minLength
                 then no ''Content is too short to justify long-term memory persistence.''
                 else if length compact > 8000
                 then no ''Content is too large for long-term memory and likely noisy.''
                 else let source = lower (lw_sourceLabel req)
                      in if includesStr source ''session compact'' \<or> includesStr source ''tool output''
                         then no ''Session compaction and raw tool output are not auto-promoted to long-term memory.''
                         else \<lparr>ld_allowed = True,
                               ld_reason = ''Content passed long-term memory quality gates.'',
                               ld_targetScope = lw_scope req\<rparr>)"

definition redactText :: "string \<Rightarrow> PrivacyLevel \<Rightarrow> string" where
  "redactText v level =
     (if level \<noteq> Restricted then v else ''[REDACTED: restricted content]'')"

subsection \<open>Properties\<close>

lemma filterFragment_fragment [simp]: "cd_fragment (filterFragment f) = f"
  by (simp add: filterFragment_def)

lemma filterFragment_allowed:
  "cd_allowed (filterFragment f) \<longleftrightarrow>
    cf_status f \<in> {Candidate, Verified} \<and>
    (cf_scope f = Working \<or>
     (rp_kind (cf_retentionPolicy f) \<noteq> Ephemeral \<and> cf_privacyLevel f \<noteq> Restricted \<and>
      (rp_kind (cf_retentionPolicy f) = R_working \<longrightarrow> cf_scope f \<in> {Session_ref, Skill_ref})))"
  by (cases "cf_status f"; cases "cf_scope f")
    (auto simp: filterFragment_def)

text \<open>The fragments allowed into the model context are exactly, in order, those of live status that
  are in the working scope or are neither ephemeral nor restricted, with working-retained ones only
  from session and skill references; every fragment gets one decision, and the decision is positive
  exactly when its reason code says so.\<close>

theorem context_filter_exact:
  "filterForModelContext fs = (keep, ds) \<Longrightarrow>
    keep = filter (\<lambda>f. cf_status f \<in> {Candidate, Verified} \<and>
      (cf_scope f = Working \<or>
       (rp_kind (cf_retentionPolicy f) \<noteq> Ephemeral \<and> cf_privacyLevel f \<noteq> Restricted \<and>
        (rp_kind (cf_retentionPolicy f) = R_working \<longrightarrow> cf_scope f \<in> {Session_ref, Skill_ref})))) fs \<and>
    map cd_fragment ds = fs \<and>
    (\<forall>d \<in> set ds. cd_allowed d \<longleftrightarrow> cd_reasonCode d = Passed)"
proof -
  assume run: "filterForModelContext fs = (keep, ds)"
  then have ds: "ds = map filterFragment fs" and
    keep: "keep = map cd_fragment (filter cd_allowed (map filterFragment fs))"
    by (auto simp: filterForModelContext_def Let_def)
  have "keep = filter (\<lambda>f. cd_allowed (filterFragment f)) fs"
    by (simp add: keep filter_map o_def)
  then have "keep = filter (\<lambda>f. cf_status f \<in> {Candidate, Verified} \<and>
      (cf_scope f = Working \<or>
       (rp_kind (cf_retentionPolicy f) \<noteq> Ephemeral \<and> cf_privacyLevel f \<noteq> Restricted \<and>
        (rp_kind (cf_retentionPolicy f) = R_working \<longrightarrow> cf_scope f \<in> {Session_ref, Skill_ref})))) fs"
    by (simp only: filterFragment_allowed)
  moreover have "cd_allowed (filterFragment f) \<longleftrightarrow> cd_reasonCode (filterFragment f) = Passed" for f
    by (simp add: filterFragment_def)
  then have "\<forall>d \<in> set ds. cd_allowed d \<longleftrightarrow> cd_reasonCode d = Passed" by (auto simp: ds)
  ultimately show ?thesis by (simp add: ds o_def)
qed

definition sampleFragment :: ContextFragment where
  "sampleFragment = \<lparr>cf_fragmentId = ''f1'', cf_memoryId = ''m1'', cf_scope = Project,
     cf_title = ''t'', cf_text = ''x'', cf_sourceType = User_input, cf_privacyLevel = Restricted,
     cf_retentionPolicy = \<lparr>rp_kind = R_project, rp_ttlDays = None, rp_reason = ''r''\<rparr>,
     cf_status = Verified, cf_confidence = 1, cf_explanation = ''e''\<rparr>"

theorem context_filter_exact_witness:
  "fst (filterForModelContext [sampleFragment, sampleFragment\<lparr>cf_scope := Working\<rparr>]) =
    [sampleFragment\<lparr>cf_scope := Working\<rparr>]"
  using context_filter_exact [OF prod.collapse [symmetric],
      of "[sampleFragment, sampleFragment\<lparr>cf_scope := Working\<rparr>]"]
  by (simp add: sampleFragment_def)

text \<open>
  Content is written to long-term memory only if it is not restricted, its compacted length is
  between 8 and 8000 code units (at least 20 unless two fifths of it are CJK), and it does not come
  from a session compaction or raw tool output.\<close>

theorem long_term_write_gate:
  assumes "ld_allowed (decideLongTermWrite req)"
  shows "lw_privacyLevel req \<noteq> Restricted \<and>
    (let n = length (trimBy isWsUnit (collapseBy isWsUnit 32 (lw_content req))) in
       8 \<le> n \<and> n \<le> 8000 \<and> n \<le> length (lw_content req) \<and>
       (n < 20 \<longrightarrow> 2 * n \<le> 5 * length (filter isCjk
          (trimBy isWsUnit (collapseBy isWsUnit 32 (lw_content req)))))) \<and>
    \<not> includesStr (lower (lw_sourceLabel req)) ''tool output'' \<and>
    \<not> includesStr (lower (lw_sourceLabel req)) ''session compact''"
proof -
  let ?c = "trimBy isWsUnit (collapseBy isWsUnit 32 (lw_content req))"
  have "length ?c \<le> length (collapseBy isWsUnit 32 (lw_content req))"
    unfolding trimBy_def by (metis length_dropWhile_le length_rev order_trans)
  then have "length ?c \<le> length (lw_content req)"
    using length_collapseBy [of isWsUnit 32 "lw_content req"] by linarith
  with assms show ?thesis
    by (auto simp: decideLongTermWrite_def Let_def computeMinLongTermContentLength_def
        split: if_splits)
qed

definition sampleWrite :: LongTermMemoryWriteRequest where
  "sampleWrite = \<lparr>lw_content =
       [97, 97, 97, 97, 97, 97, 97, 97, 97, 97, 97, 97, 97, 97, 97, 97, 97, 97, 97, 97],
     lw_scope = Project, lw_privacyLevel = Internal,
     lw_sourceLabel = ''chat''\<rparr>"

theorem long_term_write_gate_witness:
  "ld_allowed (decideLongTermWrite sampleWrite) \<and>
    \<not> includesStr (lower (lw_sourceLabel sampleWrite)) ''tool output''"
proof -
  have ok: "ld_allowed (decideLongTermWrite sampleWrite)"
    by (simp add: sampleWrite_def decideLongTermWrite_def Let_def trimBy_def isWsUnit_def isCjk_def
        computeMinLongTermContentLength_def includesStr_def lower_def lowerChar_def)
  with long_term_write_gate [OF ok] show ?thesis by blast
qed

end
