(* ===== verification/Expiring.thy ===== *)
theory Expiring
  imports Tables
begin

section \<open>The contract of requests that wait for a decision and expire\<close>

text \<open>
  Approvals and clarification prompts share one life cycle: a pending row waits for a decision until
  an instant, after which the first operation that reads it turns it into a timed-out row. The
  locale states what the two services rely on; its lemmas about a sweep over the pending rows are
  proved once and interpreted on both models (theories Approvals and Clarify).
\<close>

locale expiring_store =
  fixes inv :: "'t \<Rightarrow> bool"
    and lookup :: "'t \<Rightarrow> string \<Rightarrow> 'r option"
    and pendingRows :: "'t \<Rightarrow> 'r list"
    and key :: "'r \<Rightarrow> string"
    and isPending :: "'r \<Rightarrow> bool"
    and isTimedOut :: "'r \<Rightarrow> bool"
    and expiresAt :: "'r \<Rightarrow> instant"
    and expireIfNeeded :: "instant \<Rightarrow> 'r \<Rightarrow> ('t, 'r) op"
  assumes expire_keep:
      "\<not> isPending r \<or> now < expiresAt r \<Longrightarrow> expireIfNeeded now r t = (Inr r, t)"
    and expire_do:
      "inv t \<Longrightarrow> lookup t (key r) = Some r \<Longrightarrow> isPending r \<Longrightarrow> expiresAt r \<le> now \<Longrightarrow>
        \<exists>r' t'. expireIfNeeded now r t = (Inr r', t') \<and> inv t' \<and> isTimedOut r' \<and> key r' = key r \<and>
          (\<forall>k. lookup t' k = (if k = key r then Some r' else lookup t k))"
    and timed_out_not_pending: "isTimedOut r \<Longrightarrow> \<not> isPending r"
    and pending_rows: "inv t \<Longrightarrow> set (pendingRows t) = {r. isPending r \<and> lookup t (key r) = Some r}"
    and pending_distinct: "inv t \<Longrightarrow> distinct (map key (pendingRows t))"
begin

text \<open>What reading a row at an instant makes of it.\<close>

lemma expire_total:
  assumes "inv t" and "lookup t (key r) = Some r"
  shows "\<exists>r' t'. expireIfNeeded now r t = (Inr r', t') \<and> inv t' \<and> key r' = key r \<and>
    (\<forall>k. lookup t' k = (if k = key r then Some r' else lookup t k)) \<and>
    (if isPending r \<and> expiresAt r \<le> now then isTimedOut r' else r' = r \<and> t' = t)"
proof (cases "isPending r \<and> expiresAt r \<le> now")
  case True
  then show ?thesis using expire_do [OF assms] by fastforce
next
  case False
  then have "expireIfNeeded now r t = (Inr r, t)" by (auto intro: expire_keep)
  with assms False show ?thesis by auto
qed

lemma expire_pending_iff:
  assumes "inv t" and "lookup t (key r) = Some r" and "isPending r"
    and "expireIfNeeded now r t = (Inr r', t')"
  shows "isPending r' \<longleftrightarrow> now < expiresAt r"
  using expire_total [OF assms(1,2), of now] assms(3,4) timed_out_not_pending [of r']
  by (auto split: if_splits)

text \<open>A sweep over distinct stored pending rows.\<close>

lemma sweep:
  assumes "inv t" and "distinct (map key rs)"
    and "\<forall>r \<in> set rs. isPending r \<and> lookup t (key r) = Some r"
  shows "\<exists>rs' t'. forEach (expireIfNeeded now) rs t = (Inr rs', t') \<and> inv t' \<and>
    filter isPending rs' = filter (\<lambda>r. now < expiresAt r) rs \<and>
    map key (filter isTimedOut rs') = map key (filter (\<lambda>r. expiresAt r \<le> now \<or> isTimedOut r) rs) \<and>
    (\<forall>k. lookup t' k = (if k \<in> key ` {r \<in> set rs. expiresAt r \<le> now}
                        then map_of (map (\<lambda>r. (key r, r)) rs') k else lookup t k)) \<and>
    (\<forall>r \<in> set rs'. lookup t' (key r) = Some r)"
  using assms
proof (induction rs arbitrary: t)
  case Nil
  then show ?case by simp
next
  case (Cons r rs)
  from Cons.prems have r: "isPending r" "lookup t (key r) = Some r" by auto
  obtain r1 t1 where run: "expireIfNeeded now r t = (Inr r1, t1)" and inv1: "inv t1"
    and key1: "key r1 = key r"
    and upd: "\<forall>k. lookup t1 k = (if k = key r then Some r1 else lookup t k)"
    and out: "if isPending r \<and> expiresAt r \<le> now then isTimedOut r1 else r1 = r \<and> t1 = t"
    using expire_total [OF Cons.prems(1) r(2)] by blast
  have rest: "\<forall>x \<in> set rs. isPending x \<and> lookup t1 (key x) = Some x"
    using Cons.prems upd by (auto simp: image_iff)
  obtain rs' t' where IH: "forEach (expireIfNeeded now) rs t1 = (Inr rs', t')" "inv t'"
    "filter isPending rs' = filter (\<lambda>r. now < expiresAt r) rs"
    "map key (filter isTimedOut rs') = map key (filter (\<lambda>r. expiresAt r \<le> now \<or> isTimedOut r) rs)"
    "\<forall>k. lookup t' k = (if k \<in> key ` {r \<in> set rs. expiresAt r \<le> now}
        then map_of (map (\<lambda>r. (key r, r)) rs') k else lookup t1 k)"
    "\<forall>r \<in> set rs'. lookup t' (key r) = Some r"
    using Cons.IH [OF inv1 _ rest] Cons.prems(2) by auto
  have fresh: "key r \<notin> key ` set rs" using Cons.prems(2) by auto
  have keep_r: "lookup t' (key r1) = Some r1"
    using IH(5) upd fresh key1 by (auto simp: image_iff)
  have head: "isPending r1 \<longleftrightarrow> now < expiresAt r" "isTimedOut r1 \<longleftrightarrow> expiresAt r \<le> now \<or> isTimedOut r"
    using out r timed_out_not_pending by (auto split: if_splits)
  have all: "forEach (expireIfNeeded now) (r # rs) t = (Inr (r1 # rs'), t')"
    using run IH(1) by (simp add: bnd_run)
  have look: "lookup t' k = (if k \<in> key ` {x \<in> set (r # rs). expiresAt x \<le> now}
      then map_of (map (\<lambda>r. (key r, r)) (r1 # rs')) k else lookup t k)" for k
    using IH(5) upd out key1 keep_r fresh r by (auto simp: image_iff split: if_splits)
  have heads: "now < expiresAt r \<Longrightarrow> r1 = r" using out by (auto split: if_splits)
  show ?case
    using all IH(2,3,4,6) look head heads key1 keep_r by (intro exI [of _ "r1 # rs'"] exI [of _ t']) auto
qed

text \<open>The pending rows that survive a sweep are exactly those that have not expired.\<close>

lemma sweep_pending:
  assumes "inv t"
  shows "\<exists>rs' t'. forEach (expireIfNeeded now) (pendingRows t) t = (Inr rs', t') \<and> inv t' \<and>
    filter isPending rs' = filter (\<lambda>r. now < expiresAt r) (pendingRows t) \<and>
    map key (filter isTimedOut rs') = map key (filter (\<lambda>r. expiresAt r \<le> now) (pendingRows t)) \<and>
    (\<forall>r \<in> set (pendingRows t'). now < expiresAt r)"
proof -
  have pend: "\<forall>r \<in> set (pendingRows t). isPending r \<and> lookup t (key r) = Some r"
    using pending_rows [OF assms] by auto
  obtain rs' t' where s: "forEach (expireIfNeeded now) (pendingRows t) t = (Inr rs', t')" "inv t'"
    "filter isPending rs' = filter (\<lambda>r. now < expiresAt r) (pendingRows t)"
    "map key (filter isTimedOut rs') =
      map key (filter (\<lambda>r. expiresAt r \<le> now \<or> isTimedOut r) (pendingRows t))"
    "\<forall>k. lookup t' k = (if k \<in> key ` {r \<in> set (pendingRows t). expiresAt r \<le> now}
        then map_of (map (\<lambda>r. (key r, r)) rs') k else lookup t k)"
    "\<forall>r \<in> set rs'. lookup t' (key r) = Some r"
    using sweep [OF assms pending_distinct [OF assms] pend] by blast
  have to: "filter (\<lambda>r. expiresAt r \<le> now \<or> isTimedOut r) (pendingRows t) =
      filter (\<lambda>r. expiresAt r \<le> now) (pendingRows t)"
    using pend timed_out_not_pending by (intro filter_cong) auto
  have "now < expiresAt r" if "r \<in> set (pendingRows t')" for r
  proof -
    from that pending_rows [OF s(2)] have r: "isPending r" "lookup t' (key r) = Some r" by auto
    show ?thesis
    proof (cases "key r \<in> key ` {r \<in> set (pendingRows t). expiresAt r \<le> now}")
      case True
      with s(5) r have "map_of (map (\<lambda>r. (key r, r)) rs') (key r) = Some r" by simp
      then have "r \<in> set rs'" by (auto dest: map_of_SomeD)
      with r(1) have "r \<in> set (filter isPending rs')" by simp
      then show ?thesis using s(3) by simp
    next
      case False
      with s(5) r have "r \<in> set (pendingRows t)" using pending_rows [OF assms] by auto
      with False show ?thesis by (metis (mono_tags, lifting) imageI linorder_not_less mem_Collect_eq)
    qed
  qed
  with s to show ?thesis by auto
qed

end

end
