(* ===== verification/Approvals.thy ===== *)
theory Approvals
  imports Governance Expiring "HOL-Library.Product_Lexorder"
begin

section \<open>Approvals: repository and service\<close>

text \<open>
  src/src/storage/repositories/approval-repository.ts over the records of src/src/types/approval.ts,
  and src/src/approvals/approval-service.ts. The state is the \<open>approvals\<close> table. The clock and the
  fresh identifier an operation reads are arguments; the clock is read as one instant per operation.
\<close>

subsection \<open>Records\<close>

record ApprovalRecord =
  ap_approvalId :: string
  ap_taskId :: string
  ap_toolCallId :: string
  ap_toolName :: string
  ap_requesterUserId :: string
  ap_status :: ApprovalStatus
  ap_reason :: string
  ap_requestedAt :: instant
  ap_expiresAt :: instant
  ap_decidedAt :: "instant option"
  ap_reviewerId :: "string option"
  ap_reviewerNotes :: "string option"
  ap_allowScope :: "ApprovalAllowScope option"
  ap_fingerprint :: "string option"
  ap_policyDecisionId :: string
  ap_errorCode :: "RuntimeErrorCode option"

record ApprovalDraft =
  ad_approvalId :: string
  ad_taskId :: string
  ad_toolCallId :: string
  ad_toolName :: string
  ad_requesterUserId :: string
  ad_reason :: string
  ad_fingerprint :: "string option"
  ad_requestedAt :: instant
  ad_expiresAt :: instant
  ad_policyDecisionId :: string

text \<open>In a patch the outer \<open>None\<close> is \<open>undefined\<close> (leave the column), the inner one is \<open>null\<close>.\<close>

record ApprovalUpdatePatch =
  au_status :: "ApprovalStatus option"
  au_decidedAt :: "instant option option"
  au_reviewerId :: "string option option"
  au_reviewerNotes :: "string option option"
  au_allowScope :: "ApprovalAllowScope option option"
  au_errorCode :: "RuntimeErrorCode option option"

type_synonym approvals = "ApprovalRecord list"

subsection \<open>Repository\<close>

definition approvalFindById :: "string \<Rightarrow> approvals \<Rightarrow> ApprovalRecord option" where
  "approvalFindById i t = rowFind ap_approvalId i t"

definition approvalOfDraft :: "ApprovalDraft \<Rightarrow> ApprovalRecord" where
  "approvalOfDraft d =
     \<lparr>ap_approvalId = ad_approvalId d, ap_taskId = ad_taskId d,
      ap_toolCallId = ad_toolCallId d, ap_toolName = ad_toolName d,
      ap_requesterUserId = ad_requesterUserId d, ap_status = A_pending,
      ap_reason = ad_reason d, ap_requestedAt = ad_requestedAt d,
      ap_expiresAt = ad_expiresAt d, ap_decidedAt = None, ap_reviewerId = None,
      ap_reviewerNotes = None, ap_allowScope = None, ap_fingerprint = ad_fingerprint d,
      ap_policyDecisionId = ad_policyDecisionId d, ap_errorCode = None\<rparr>"

definition approvalCreate :: "ApprovalDraft \<Rightarrow> (approvals, ApprovalRecord) op" where
  "approvalCreate d = (\<lambda>t.
     case rowInsert ap_approvalId (approvalOfDraft d) t of
       Inl e \<Rightarrow> (Inl e, t)
     | Inr t' \<Rightarrow>
         (case approvalFindById (ad_approvalId d) t' of
            None \<Rightarrow> (Inl (PlainError (''Approval '' @ ad_approvalId d @ '' was not persisted.'')), t')
          | Some r \<Rightarrow> (Inr r, t')))"

definition approvalFindLatest :: "string \<Rightarrow> string \<Rightarrow> approvals \<Rightarrow> ApprovalRecord option" where
  "approvalFindLatest taskId toolCallId t =
     firstRow (orderDesc (\<lambda>r. (ap_requestedAt r, ap_approvalId r))
       (filter (\<lambda>r. ap_taskId r = taskId \<and> ap_toolCallId r = toolCallId) t))"

definition approvalListByTaskId :: "string \<Rightarrow> approvals \<Rightarrow> ApprovalRecord list" where
  "approvalListByTaskId taskId t =
     orderAsc (\<lambda>r. (ap_requestedAt r, ap_approvalId r)) (filter (\<lambda>r. ap_taskId r = taskId) t)"

definition approvalPendingRows :: "approvals \<Rightarrow> ApprovalRecord list" where
  "approvalPendingRows t = orderAsc ap_requestedAt (filter (\<lambda>r. ap_status r = A_pending) t)"

fun approvalStatusStr :: "ApprovalStatus \<Rightarrow> string" where
  "approvalStatusStr A_pending = ''pending''"
| "approvalStatusStr A_approved = ''approved''"
| "approvalStatusStr A_denied = ''denied''"
| "approvalStatusStr A_timed_out = ''timed_out''"

definition approvalPatch :: "ApprovalUpdatePatch \<Rightarrow> ApprovalRecord \<Rightarrow> ApprovalRecord" where
  "approvalPatch p r = r\<lparr>
     ap_decidedAt := patched (au_decidedAt p) (ap_decidedAt r),
     ap_errorCode := patched (au_errorCode p) (ap_errorCode r),
     ap_reviewerId := patched (au_reviewerId p) (ap_reviewerId r),
     ap_reviewerNotes := patched (au_reviewerNotes p) (ap_reviewerNotes r),
     ap_allowScope := patched (au_allowScope p) (ap_allowScope r),
     ap_status := patched (au_status p) (ap_status r)\<rparr>"

definition approvalUpdate :: "string \<Rightarrow> ApprovalUpdatePatch \<Rightarrow> (approvals, ApprovalRecord) op" where
  "approvalUpdate i p = (\<lambda>t.
     case approvalFindById i t of
       None \<Rightarrow> (Inl (PlainError (''Approval '' @ i @ '' was not found.'')), t)
     | Some existing \<Rightarrow>
         let nxt = approvalPatch p existing
         in if ap_status nxt \<noteq> ap_status existing \<and>
               \<not> canTransitionApprovalStatus (ap_status existing) (ap_status nxt)
            then (Inl (PlainError (''Illegal approval status transition: '' @
                    approvalStatusStr (ap_status existing) @ '' -> '' @
                    approvalStatusStr (ap_status nxt))), t)
            else let t' = rowSet ap_approvalId i nxt t
                 in case approvalFindById i t' of
                      None \<Rightarrow> (Inl (PlainError (''Approval '' @ i @ '' disappeared after update.'')), t')
                    | Some r \<Rightarrow> (Inr r, t'))"

definition approvalNoPatch :: ApprovalUpdatePatch where
  "approvalNoPatch = \<lparr>au_status = None, au_decidedAt = None, au_reviewerId = None,
     au_reviewerNotes = None, au_allowScope = None, au_errorCode = None\<rparr>"

subsection \<open>Service\<close>

record EnsureApprovalRequestInput =
  er_taskId :: string
  er_toolCallId :: string
  er_toolName :: string
  er_requesterUserId :: string
  er_reason :: string
  er_policyDecisionId :: string
  er_fingerprint :: "string option"

datatype ApprovalAction = AllowAction | DenyAction

record ApprovalResolutionInput =
  ri_approvalId :: string
  ri_action :: ApprovalAction
  ri_reviewerId :: string
  ri_reviewerNotes :: "string option"
  ri_allowScope :: "ApprovalAllowScope option"

definition expireApproval :: "instant \<Rightarrow> ApprovalRecord \<Rightarrow> (approvals, ApprovalRecord) op" where
  "expireApproval now a =
     (if ap_status a \<noteq> A_pending then ret a
      else if ap_expiresAt a > now then ret a
      else approvalUpdate (ap_approvalId a)
             (approvalNoPatch\<lparr>au_decidedAt := Some (Some now),
                      au_errorCode := Some (Some Approval_timeout),
                      au_reviewerId := Some (Some ''system''),
                      au_reviewerNotes := Some (Some ''Approval request timed out.''),
                      au_status := Some A_timed_out\<rparr>))"

definition ensureApprovalRequest ::
  "int \<Rightarrow> instant \<Rightarrow> string \<Rightarrow> EnsureApprovalRequestInput \<Rightarrow> (approvals, ApprovalRecord \<times> bool) op" where
  "ensureApprovalRequest ttlMs now uuid i =
     bnd (ask (approvalFindLatest (er_taskId i) (er_toolCallId i))) (\<lambda>existing.
       case existing of
         Some a \<Rightarrow> bnd (expireApproval now a) (\<lambda>a'. ret (a', False))
       | None \<Rightarrow>
           bnd (approvalCreate \<lparr>ad_approvalId = uuid, ad_taskId = er_taskId i,
                        ad_toolCallId = er_toolCallId i, ad_toolName = er_toolName i,
                        ad_requesterUserId = er_requesterUserId i, ad_reason = er_reason i,
                        ad_fingerprint = er_fingerprint i, ad_requestedAt = now,
                        ad_expiresAt = now + ttlMs,
                        ad_policyDecisionId = er_policyDecisionId i\<rparr>) (\<lambda>a.
           ret (a, True)))"

definition findApproval :: "instant \<Rightarrow> string \<Rightarrow> (approvals, ApprovalRecord option) op" where
  "findApproval now i =
     bnd (ask (approvalFindById i)) (\<lambda>a.
       case a of None \<Rightarrow> ret None | Some r \<Rightarrow> bnd (expireApproval now r) (\<lambda>r'. ret (Some r')))"

definition listPendingApprovals :: "instant \<Rightarrow> (approvals, ApprovalRecord list) op" where
  "listPendingApprovals now =
     bnd (ask approvalPendingRows) (\<lambda>rows.
     bnd (forEach (expireApproval now) rows) (\<lambda>rows'.
     ret (filter (\<lambda>r. ap_status r = A_pending) rows')))"

definition listApprovalsByTask :: "instant \<Rightarrow> string \<Rightarrow> (approvals, ApprovalRecord list) op" where
  "listApprovalsByTask now taskId =
     bnd (ask (approvalListByTaskId taskId)) (\<lambda>rows. forEach (expireApproval now) rows)"

definition resolveApproval :: "instant \<Rightarrow> ApprovalResolutionInput \<Rightarrow> (approvals, ApprovalRecord) op" where
  "resolveApproval now i =
     (if ri_approvalId i = [] \<or> ri_reviewerId i = [] then raise (PlainError ''ZodError'')
      else bnd (findApproval now (ri_approvalId i)) (\<lambda>found.
        case found of
          None \<Rightarrow> raise (AppError Task_not_found
                    (''Approval '' @ ri_approvalId i @ '' was not found.'') None)
        | Some a \<Rightarrow>
            if ap_status a \<noteq> A_pending then ret a
            else approvalUpdate (ri_approvalId i)
              \<lparr>au_status = Some (if ri_action i = AllowAction then A_approved else A_denied),
               au_decidedAt = Some (Some now),
               au_reviewerId = Some (Some (ri_reviewerId i)),
               au_reviewerNotes = Some (ri_reviewerNotes i),
               au_allowScope = Some (if ri_action i = AllowAction
                  then Some (case ri_allowScope i of None \<Rightarrow> Once | Some sc \<Rightarrow> sc) else None),
               au_errorCode = Some (if ri_action i = AllowAction then None else Some Approval_denied)\<rparr>))"

definition expirePendingApprovals :: "instant \<Rightarrow> (approvals, ApprovalRecord list) op" where
  "expirePendingApprovals now =
     bnd (ask approvalPendingRows) (\<lambda>rows.
     bnd (forEach (expireApproval now) rows) (\<lambda>rows'.
     ret (filter (\<lambda>r. ap_status r = A_timed_out) rows')))"

fun approvalErrorCode :: "ApprovalStatus \<Rightarrow> RuntimeErrorCode" where
  "approvalErrorCode A_approved = Approval_required"
| "approvalErrorCode A_denied = Approval_denied"
| "approvalErrorCode A_pending = Approval_required"
| "approvalErrorCode A_timed_out = Approval_timeout"

subsection \<open>Repository lemmas\<close>

definition approvalsWf :: "approvals \<Rightarrow> bool" where
  "approvalsWf t = pkOk ap_approvalId t"

lemma approvalPatch_id [simp]: "ap_approvalId (approvalPatch p r) = ap_approvalId r"
  by (simp add: approvalPatch_def)

lemma approvalPatch_status [simp]: "ap_status (approvalPatch p r) = patched (au_status p) (ap_status r)"
  by (simp add: approvalPatch_def)

lemma approvalFindById_Some: "approvalFindById i t = Some r \<Longrightarrow> ap_approvalId r = i \<and> r \<in> set t"
  by (auto simp: approvalFindById_def dest: rowFind_Some)

lemma approvalFindById_mem: "approvalsWf t \<Longrightarrow> r \<in> set t \<Longrightarrow> approvalFindById (ap_approvalId r) t = Some r"
  by (simp add: approvalFindById_def approvalsWf_def rowFind_mem)

lemma approvalUpdate_ok:
  assumes "approvalFindById i t = Some r"
    and "patched (au_status p) (ap_status r) = ap_status r \<or>
      canTransitionApprovalStatus (ap_status r) (patched (au_status p) (ap_status r))"
  shows "approvalUpdate i p t = (Inr (approvalPatch p r), rowSet ap_approvalId i (approvalPatch p r) t)"
proof -
  have "ap_approvalId (approvalPatch p r) = i" using approvalFindById_Some [OF assms(1)] by simp
  then have "approvalFindById i (rowSet ap_approvalId i (approvalPatch p r) t) = Some (approvalPatch p r)"
    using assms(1) by (simp add: approvalFindById_def table_simps)
  with assms show ?thesis by (auto simp: approvalUpdate_def Let_def)
qed

lemma approvalUpdate_cases:
  assumes "approvalUpdate i p t = (res, t')"
  obtains (missing) e where "res = Inl e" "t' = t"
  | (ok) r where "approvalFindById i t = Some r" "res = Inr (approvalPatch p r)"
      "t' = rowSet ap_approvalId i (approvalPatch p r) t"
      "patched (au_status p) (ap_status r) = ap_status r \<or>
       canTransitionApprovalStatus (ap_status r) (patched (au_status p) (ap_status r))"
proof (cases "approvalFindById i t")
  case None
  with assms show ?thesis by (auto simp: approvalUpdate_def intro: missing)
next
  case (Some r)
  show ?thesis
  proof (cases "patched (au_status p) (ap_status r) = ap_status r \<or>
      canTransitionApprovalStatus (ap_status r) (patched (au_status p) (ap_status r))")
    case True
    with approvalUpdate_ok [OF Some True] assms Some show ?thesis by (auto intro: ok)
  next
    case False
    with Some assms show ?thesis by (auto simp: approvalUpdate_def Let_def intro: missing)
  qed
qed

lemma approvalFindById_rowSet:
  "approvalFindById i t = Some r \<Longrightarrow>
    approvalFindById j (rowSet ap_approvalId i (approvalPatch p r) t) =
      (if j = i then Some (approvalPatch p r) else approvalFindById j t)"
  using approvalFindById_Some [of i t r] by (simp add: approvalFindById_def table_simps)

text \<open>The approvals table honours the status contract.\<close>

interpretation approval_store: status_store "\<lambda>t i. approvalFindById i t" approvalUpdate ap_status
  APPROVAL_STATUS_TRANSITIONS
proof unfold_locales
  fix k p t e t'
  assume "approvalUpdate k p t = (Inl e, t')"
  then show "t' = t" by (auto elim: approvalUpdate_cases)
next
  fix k p t r t'
  assume "approvalUpdate k p t = (Inr r, t')"
  then show "\<exists>r0. approvalFindById k t = Some r0 \<and> approvalFindById k t' = Some r \<and>
      (ap_status r = ap_status r0 \<or> ap_status r \<in> set (APPROVAL_STATUS_TRANSITIONS (ap_status r0)))"
    by (cases rule: approvalUpdate_cases) (auto simp: approvalFindById_rowSet canTransitionApprovalStatus_def)
next
  fix k p t r t' and j :: string
  assume "approvalUpdate k p t = (Inr r, t')" and "j \<noteq> k"
  then show "approvalFindById j t' = approvalFindById j t"
    by (cases rule: approvalUpdate_cases) (auto simp: approvalFindById_rowSet)
qed

lemma approvalUpdate_wf: "approvalsWf t \<Longrightarrow> approvalUpdate i p t = (res, t') \<Longrightarrow> approvalsWf t'"
  by (erule approvalUpdate_cases) (auto simp: approvalsWf_def dest!: approvalFindById_Some intro!: rowSet_pk [THEN iffD2])

lemma approvalOfDraft_id [simp]: "ap_approvalId (approvalOfDraft d) = ad_approvalId d"
  by (simp add: approvalOfDraft_def)

lemma approvalCreate_fresh:
  "ad_approvalId d \<notin> ap_approvalId ` set t \<Longrightarrow>
    approvalCreate d t = (Inr (approvalOfDraft d), t @ [approvalOfDraft d])"
  using rowFind_None [of ap_approvalId "ad_approvalId d" t]
  by (auto simp: approvalCreate_def rowInsert_def approvalFindById_def rowFind_append)

lemma approvalCreate_dup:
  "ad_approvalId d \<in> ap_approvalId ` set t \<Longrightarrow> \<exists>e. approvalCreate d t = (Inl e, t)"
  by (auto simp: approvalCreate_def rowInsert_def)

lemma approvalCreate_cases:
  assumes "approvalCreate d t = (res, t')"
  obtains (dup) e where "res = Inl e" "t' = t" "ad_approvalId d \<in> ap_approvalId ` set t"
  | (new) "res = Inr (approvalOfDraft d)" "t' = t @ [approvalOfDraft d]"
      "ad_approvalId d \<notin> ap_approvalId ` set t"
  using assms approvalCreate_fresh [of d t] approvalCreate_dup [of d t]
  by (cases "ad_approvalId d \<in> ap_approvalId ` set t") auto

lemma approvalCreate_wf: "approvalsWf t \<Longrightarrow> approvalCreate d t = (res, t') \<Longrightarrow> approvalsWf t'"
  by (erule approvalCreate_cases) (auto simp: approvalsWf_def pkOk_def)

subsection \<open>Expiry\<close>

lemma expireApproval_expired:
  assumes "approvalFindById (ap_approvalId r) t = Some r" and "ap_status r = A_pending"
    and "ap_expiresAt r \<le> now"
  shows "expireApproval now r t =
    (let r' = r\<lparr>ap_decidedAt := Some now, ap_errorCode := Some Approval_timeout,
                ap_reviewerId := Some ''system'',
                ap_reviewerNotes := Some ''Approval request timed out.'',
                ap_status := A_timed_out\<rparr>
     in (Inr r', rowSet ap_approvalId (ap_approvalId r) r' t))"
  using assms by (simp add: expireApproval_def approvalUpdate_ok approvalNoPatch_def approvalPatch_def
      canTransitionApprovalStatus_def Let_def)

lemma approvalPendingRows_set:
  "approvalsWf t \<Longrightarrow> set (approvalPendingRows t) =
    {r. ap_status r = A_pending \<and> approvalFindById (ap_approvalId r) t = Some r}"
  by (auto simp: approvalPendingRows_def approvalFindById_mem dest: approvalFindById_Some)

lemma approvalPendingRows_distinct: "approvalsWf t \<Longrightarrow> distinct (map ap_approvalId (approvalPendingRows t))"
  by (simp add: approvalPendingRows_def approvalsWf_def pkOk_def distinct_map_filter)

interpretation approval_expiry: expiring_store approvalsWf "\<lambda>t i. approvalFindById i t" approvalPendingRows ap_approvalId
  "\<lambda>r. ap_status r = A_pending" "\<lambda>r. ap_status r = A_timed_out" ap_expiresAt expireApproval
proof unfold_locales
  fix r :: ApprovalRecord and now t
  assume "\<not> ap_status r = A_pending \<or> now < ap_expiresAt r"
  then show "expireApproval now r t = (Inr r, t)" by (auto simp: expireApproval_def)
next
  fix t and r :: ApprovalRecord and now
  assume wf: "approvalsWf t" and r: "approvalFindById (ap_approvalId r) t = Some r" "ap_status r = A_pending"
    "ap_expiresAt r \<le> now"
  let ?r' = "r\<lparr>ap_decidedAt := Some now, ap_errorCode := Some Approval_timeout,
      ap_reviewerId := Some ''system'', ap_reviewerNotes := Some ''Approval request timed out.'',
      ap_status := A_timed_out\<rparr>"
  let ?t' = "rowSet ap_approvalId (ap_approvalId r) ?r' t"
  have "expireApproval now r t = (Inr ?r', ?t')"
    using expireApproval_expired [OF r] by (simp add: Let_def)
  moreover have "approvalsWf ?t'" using wf by (simp add: approvalsWf_def rowSet_pk)
  moreover have "\<forall>k. approvalFindById k ?t' = (if k = ap_approvalId r then Some ?r' else approvalFindById k t)"
    using r(1) by (simp add: approvalFindById_def table_simps)
  ultimately show "\<exists>r' t'. expireApproval now r t = (Inr r', t') \<and> approvalsWf t' \<and>
      ap_status r' = A_timed_out \<and> ap_approvalId r' = ap_approvalId r \<and>
      (\<forall>k. approvalFindById k t' = (if k = ap_approvalId r then Some r' else approvalFindById k t))"
    by (intro exI [of _ ?r'] exI [of _ ?t']) simp
qed (auto simp: approvalPendingRows_set approvalPendingRows_distinct)

subsection \<open>The service over a run of commands\<close>

text \<open>One call of the service by a client: the sweep timer, the reviewers and the orchestrator.\<close>

datatype ApprovalCmd =
    Ensure int instant string EnsureApprovalRequestInput
  | FindOne instant string
  | ListPending instant
  | ListByTask instant string
  | Resolve instant ApprovalResolutionInput
  | ExpirePending instant

fun approvalStep :: "ApprovalCmd \<Rightarrow> approvals \<Rightarrow> approvals" where
  "approvalStep (Ensure ttl now uuid i) t = snd (ensureApprovalRequest ttl now uuid i t)"
| "approvalStep (FindOne now i) t = snd (findApproval now i t)"
| "approvalStep (ListPending now) t = snd (listPendingApprovals now t)"
| "approvalStep (ListByTask now i) t = snd (listApprovalsByTask now i t)"
| "approvalStep (Resolve now i) t = snd (resolveApproval now i t)"
| "approvalStep (ExpirePending now) t = snd (expirePendingApprovals now t)"

inductive approvalReach :: "approvals \<Rightarrow> approvals \<Rightarrow> bool" where
  reach_refl: "approvalReach t t"
| reach_step: "approvalReach t u \<Longrightarrow> approvalReach t (approvalStep c u)"

text \<open>A decided row, as an invariant of the table.\<close>

definition holdsRow :: "ApprovalRecord \<Rightarrow> approvals \<Rightarrow> bool" where
  "holdsRow r t \<longleftrightarrow> approvalsWf t \<and> approvalFindById (ap_approvalId r) t = Some r"

lemma holdsRow_pending:
  "holdsRow r t \<Longrightarrow> ap_status r \<noteq> A_pending \<Longrightarrow> a \<in> set t \<Longrightarrow> ap_status a = A_pending \<Longrightarrow>
    ap_approvalId a \<noteq> ap_approvalId r"
  unfolding holdsRow_def by (metis approvalFindById_mem option.inject)

lemma keeps_update_other: "i \<noteq> ap_approvalId r \<Longrightarrow> keeps (holdsRow r) (approvalUpdate i p)"
proof (rule keepsI)
  fix t res t'
  assume "i \<noteq> ap_approvalId r" and "holdsRow r t" and "approvalUpdate i p t = (res, t')"
  then show "holdsRow r t'"
    using approvalUpdate_wf [of t i p res t'] unfolding holdsRow_def
    by (metis approvalFindById_rowSet approvalUpdate_cases)
qed

lemma keeps_expire:
  "(ap_status a = A_pending \<Longrightarrow> ap_approvalId a \<noteq> ap_approvalId r) \<Longrightarrow>
    keeps (holdsRow r) (expireApproval now a)"
  unfolding expireApproval_def by (auto intro!: keeps_intros keeps_update_other)

lemma keeps_create: "keeps (holdsRow r) (approvalCreate d)"
proof (rule keepsI)
  fix t res t'
  assume "holdsRow r t" and "approvalCreate d t = (res, t')"
  then show "holdsRow r t'"
    using approvalCreate_wf [of t d res t']
    by (auto simp: holdsRow_def approvalFindById_def rowFind_append elim!: approvalCreate_cases)
qed

lemma pendingRows_sub: "set (approvalPendingRows t) \<subseteq> set t"
  by (auto simp: approvalPendingRows_def)

lemma latest_sub: "approvalFindLatest i c t = Some a \<Longrightarrow> a \<in> set t"
  by (auto simp: approvalFindLatest_def dest!: firstRow_mem)

lemma keeps_decided:
  assumes "ap_status r \<noteq> A_pending"
  shows "keeps (holdsRow r) (ensureApprovalRequest ttl now uuid i)"
    "keeps (holdsRow r) (findApproval now k)"
    "keeps (holdsRow r) (listPendingApprovals now)"
    "keeps (holdsRow r) (listApprovalsByTask now k)"
    "keeps (holdsRow r) (expirePendingApprovals now)"
  unfolding ensureApprovalRequest_def findApproval_def listPendingApprovals_def
    listApprovalsByTask_def expirePendingApprovals_def
  by (auto intro!: keeps_ask_bnd keeps_bnd keeps_ret keeps_create keeps_expire keeps_forEach_set
      simp: approvalListByTaskId_def split: option.split
      dest: holdsRow_pending [OF _ assms] holdsRow_pending [OF _ assms latest_sub]
        holdsRow_pending [OF _ assms subsetD [OF pendingRows_sub]]
        holdsRow_pending [OF _ assms conjunct2 [OF approvalFindById_Some]])

lemma findApproval_eq:
  "findApproval now i t =
    (case approvalFindById i t of
       None \<Rightarrow> (Inr None, t)
     | Some a \<Rightarrow> (case expireApproval now a t of
         (Inl e, t') \<Rightarrow> (Inl e, t') | (Inr a', t') \<Rightarrow> (Inr (Some a'), t')))"
  by (auto simp: findApproval_def bnd_run split: option.split prod.split sum.split)

lemma expireApproval_fresh:
  "ap_status a \<noteq> A_pending \<or> now < ap_expiresAt a \<Longrightarrow> expireApproval now a t = (Inr a, t)"
  by (rule approval_expiry.expire_keep) auto

lemma resolve_decided:
  assumes "approvalFindById (ri_approvalId i) t = Some a" and "ap_status a \<noteq> A_pending"
    and "ri_approvalId i \<noteq> []" and "ri_reviewerId i \<noteq> []"
  shows "resolveApproval now i t = (Inr a, t)"
  using assms by (simp add: resolveApproval_def bnd_run findApproval_eq expireApproval_fresh)

lemma keeps_resolve:
  assumes dec: "ap_status r \<noteq> A_pending"
  shows "keeps (holdsRow r) (resolveApproval now i)"
proof (cases "ri_approvalId i = ap_approvalId r \<and> ri_reviewerId i \<noteq> []")
  case True
  show ?thesis
  proof (rule keepsI)
    fix t res t'
    assume h: "holdsRow r t" and run: "resolveApproval now i t = (res, t')"
    show "holdsRow r t'"
    proof (cases "ri_approvalId i = []")
      case True
      with run h show ?thesis by (simp add: resolveApproval_def)
    next
      case False
      with True h have "resolveApproval now i t = (Inr r, t)"
        using resolve_decided [of i t r now] dec \<open>ri_approvalId i = ap_approvalId r \<and> ri_reviewerId i \<noteq> []\<close>
        by (simp add: holdsRow_def)
      with run h show ?thesis by simp
    qed
  qed
next
  case False
  then have upd: "ri_reviewerId i = [] \<or> keeps (holdsRow r) (approvalUpdate (ri_approvalId i) p)" for p
    by (auto intro: keeps_update_other)
  show ?thesis
  proof (cases "ri_reviewerId i = []")
    case True
    then show ?thesis unfolding resolveApproval_def by (simp add: keeps_raise)
  next
    case False
    with upd have u: "keeps (holdsRow r) (approvalUpdate (ri_approvalId i) p)" for p by simp
    show ?thesis
      unfolding resolveApproval_def
      by (intro keeps_if keeps_raise keeps_bnd keeps_decided(2) [OF dec] keeps_option keeps_ret u)
  qed
qed

lemma step_decided:
  assumes "holdsRow r t" and "ap_status r \<noteq> A_pending"
  shows "holdsRow r (approvalStep c t)"
  using assms keeps_decided [OF assms(2)] keeps_resolve [OF assms(2)]
  by (cases c) (auto simp: keeps_def)

subsection \<open>Properties\<close>

text \<open>
  C10: once an approval is decided (approved, denied or timed out) no sequence of service calls by
  the orchestrator, the reviewers or the expiry timer changes any field of its record.\<close>

theorem approval_decision_final:
  assumes "approvalReach t u" and "approvalsWf t"
    and "approvalFindById i t = Some r" and "ap_status r \<noteq> A_pending"
  shows "approvalFindById i u = Some r"
proof -
  have "holdsRow r t" using assms(2,3) approvalFindById_Some [OF assms(3)] by (simp add: holdsRow_def)
  from assms(1) this have "holdsRow r u"
    by (induction rule: approvalReach.induct) (auto intro: step_decided [OF _ assms(4)])
  then show ?thesis using approvalFindById_Some [OF assms(3)] by (simp add: holdsRow_def)
qed

definition sampleApproval :: ApprovalRecord where
  "sampleApproval = \<lparr>ap_approvalId = ''a1'', ap_taskId = ''t1'', ap_toolCallId = ''c1'',
     ap_toolName = ''shell'', ap_requesterUserId = ''u'', ap_status = A_pending, ap_reason = ''r'',
     ap_requestedAt = 0, ap_expiresAt = 100, ap_decidedAt = None, ap_reviewerId = None,
     ap_reviewerNotes = None, ap_allowScope = None, ap_fingerprint = Some ''fp'',
     ap_policyDecisionId = ''p'', ap_errorCode = None\<rparr>"

definition sampleResolution :: ApprovalResolutionInput where
  "sampleResolution = \<lparr>ri_approvalId = ''a1'', ri_action = AllowAction, ri_reviewerId = ''rev'',
     ri_reviewerNotes = None, ri_allowScope = None\<rparr>"

theorem approval_decision_final_witness:
  "approvalFindById ''a1''
     (approvalStep (Resolve 50 sampleResolution) [sampleApproval\<lparr>ap_status := A_denied\<rparr>]) =
   Some (sampleApproval\<lparr>ap_status := A_denied\<rparr>)"
proof (rule approval_decision_final)
  show "approvalReach [sampleApproval\<lparr>ap_status := A_denied\<rparr>]
      (approvalStep (Resolve 50 sampleResolution) [sampleApproval\<lparr>ap_status := A_denied\<rparr>])"
    by (intro reach_step reach_refl)
qed (simp_all add: approvalsWf_def pkOk_def approvalFindById_def sampleApproval_def)

text \<open>
  Resolving a pending approval before it expires records the reviewer's decision: an allow
  becomes approved with the chosen scope (once by default) and no error, a deny becomes denied with
  the denial error code and no scope; the other rows are untouched.\<close>

theorem resolve_in_time:
  assumes "approvalFindById (ri_approvalId i) t = Some a" and "ap_status a = A_pending"
    and "now < ap_expiresAt a" and "ri_approvalId i \<noteq> []" and "ri_reviewerId i \<noteq> []"
  shows "\<exists>a' t'. resolveApproval now i t = (Inr a', t') \<and>
    a' = a\<lparr>ap_status := (if ri_action i = AllowAction then A_approved else A_denied),
           ap_decidedAt := Some now, ap_reviewerId := Some (ri_reviewerId i),
           ap_reviewerNotes := ri_reviewerNotes i,
           ap_allowScope := (if ri_action i = AllowAction
             then Some (case ri_allowScope i of None \<Rightarrow> Once | Some sc \<Rightarrow> sc) else None),
           ap_errorCode := (if ri_action i = AllowAction then None else Some Approval_denied)\<rparr> \<and>
    (\<forall>k. approvalFindById k t' = (if k = ri_approvalId i then Some a' else approvalFindById k t))"
proof -
  let ?p = "\<lparr>au_status = Some (if ri_action i = AllowAction then A_approved else A_denied),
      au_decidedAt = Some (Some now), au_reviewerId = Some (Some (ri_reviewerId i)),
      au_reviewerNotes = Some (ri_reviewerNotes i),
      au_allowScope = Some (if ri_action i = AllowAction
        then Some (case ri_allowScope i of None \<Rightarrow> Once | Some sc \<Rightarrow> sc) else None),
      au_errorCode = Some (if ri_action i = AllowAction then None else Some Approval_denied)\<rparr>"
  have upd: "approvalUpdate (ri_approvalId i) ?p t =
      (Inr (approvalPatch ?p a), rowSet ap_approvalId (ri_approvalId i) (approvalPatch ?p a) t)"
    by (rule approvalUpdate_ok [OF assms(1)]) (simp add: assms(2) canTransitionApprovalStatus_def)
  have "resolveApproval now i t =
      (Inr (approvalPatch ?p a), rowSet ap_approvalId (ri_approvalId i) (approvalPatch ?p a) t)"
    using assms upd
    by (simp add: resolveApproval_def bnd_run findApproval_eq expireApproval_fresh)
  then show ?thesis
    using approvalFindById_rowSet [OF assms(1), of _ ?p]
    by (auto simp: approvalPatch_def)
qed

theorem resolve_in_time_witness:
  "\<exists>a' t'. resolveApproval 50 sampleResolution [sampleApproval] = (Inr a', t') \<and>
    ap_status a' = A_approved \<and> ap_allowScope a' = Some Once"
proof -
  have "approvalFindById (ri_approvalId sampleResolution) [sampleApproval] = Some sampleApproval"
    "ap_status sampleApproval = A_pending" "50 < ap_expiresAt sampleApproval"
    "ri_approvalId sampleResolution \<noteq> []" "ri_reviewerId sampleResolution \<noteq> []"
    by (simp_all add: approvalFindById_def sampleApproval_def sampleResolution_def)
  from resolve_in_time [OF this] show ?thesis by (auto simp: sampleResolution_def)
qed

text \<open>An approval whose deadline has passed can no longer be granted: resolving it, whatever the
  action, returns and stores it as timed out with the timeout error code.\<close>

theorem resolve_too_late:
  assumes "approvalFindById (ri_approvalId i) t = Some a" and "ap_status a = A_pending"
    and "ap_expiresAt a \<le> now" and "ri_approvalId i \<noteq> []" and "ri_reviewerId i \<noteq> []"
  shows "\<exists>a' t'. resolveApproval now i t = (Inr a', t') \<and> ap_status a' = A_timed_out \<and>
    ap_errorCode a' = Some Approval_timeout \<and> ap_reviewerId a' = Some ''system'' \<and>
    approvalFindById (ri_approvalId i) t' = Some a'"
proof -
  have id: "ap_approvalId a = ri_approvalId i" using approvalFindById_Some [OF assms(1)] by simp
  then have "approvalFindById (ap_approvalId a) t = Some a" using assms(1) by simp
  from expireApproval_expired [OF this assms(2,3)] obtain a' t' where
    ex: "expireApproval now a t = (Inr a', t')" and st: "ap_status a' = A_timed_out"
    "ap_errorCode a' = Some Approval_timeout" "ap_reviewerId a' = Some ''system''"
    "ap_approvalId a' = ap_approvalId a"
    and t': "t' = rowSet ap_approvalId (ap_approvalId a) a' t" by (auto simp: Let_def)
  have "approvalFindById (ri_approvalId i) t' = Some a'"
    using st t' id assms(1) by (simp add: approvalFindById_def table_simps)
  moreover have "resolveApproval now i t = (Inr a', t')"
    using assms ex st by (simp add: resolveApproval_def bnd_run findApproval_eq)
  ultimately show ?thesis using st by blast
qed

theorem resolve_too_late_witness:
  "\<exists>a' t'. resolveApproval 100 sampleResolution [sampleApproval] = (Inr a', t') \<and>
    ap_status a' = A_timed_out"
proof -
  have "approvalFindById (ri_approvalId sampleResolution) [sampleApproval] = Some sampleApproval"
    "ap_status sampleApproval = A_pending" "ap_expiresAt sampleApproval \<le> 100"
    "ri_approvalId sampleResolution \<noteq> []" "ri_reviewerId sampleResolution \<noteq> []"
    by (simp_all add: approvalFindById_def sampleApproval_def sampleResolution_def)
  from resolve_too_late [OF this] show ?thesis by blast
qed

text \<open>
  Listing the pending approvals of a well-formed table returns exactly the pending rows whose
  deadline is still ahead, oldest first, and leaves no overdue pending row behind.\<close>

theorem list_pending_exact:
  assumes "approvalsWf t"
  shows "\<exists>t'. listPendingApprovals now t =
      (Inr (filter (\<lambda>r. now < ap_expiresAt r) (approvalPendingRows t)), t') \<and> approvalsWf t' \<and>
    (\<forall>r \<in> set t'. ap_status r = A_pending \<longrightarrow> now < ap_expiresAt r)"
proof -
  obtain rs' t' where s: "forEach (expireApproval now) (approvalPendingRows t) t = (Inr rs', t')"
    "approvalsWf t'"
    "filter (\<lambda>r. ap_status r = A_pending) rs' =
      filter (\<lambda>r. now < ap_expiresAt r) (approvalPendingRows t)"
    "\<forall>r \<in> set (approvalPendingRows t'). now < ap_expiresAt r"
    using approval_expiry.sweep_pending [OF assms, of now] by blast
  have "listPendingApprovals now t =
      (Inr (filter (\<lambda>r. now < ap_expiresAt r) (approvalPendingRows t)), t')"
    using s(1,3) by (simp add: listPendingApprovals_def bnd_run)
  with s(2,4) show ?thesis by (auto simp: approvalPendingRows_def)
qed

theorem list_pending_exact_witness:
  "\<exists>t'. listPendingApprovals 100 [sampleApproval, sampleApproval\<lparr>ap_approvalId := ''a2'', ap_expiresAt := 200\<rparr>]
    = (Inr [sampleApproval\<lparr>ap_approvalId := ''a2'', ap_expiresAt := 200\<rparr>], t')"
proof -
  have wf: "approvalsWf [sampleApproval, sampleApproval\<lparr>ap_approvalId := ''a2'', ap_expiresAt := 200\<rparr>]"
    by (simp add: approvalsWf_def pkOk_def sampleApproval_def)
  from list_pending_exact [OF wf, of 100] show ?thesis
    by (auto simp: approvalPendingRows_def orderAsc_def sampleApproval_def)
qed

text \<open>
  A tool call gets at most one approval request: the first request stores a pending approval that
  expires after the configured time to live, and until then asking again for the same task and tool
  call returns that approval, creates nothing and leaves the table as it is.\<close>

theorem ensure_once:
  assumes "ensureApprovalRequest ttl now uuid i t = (Inr (a, True), t1)"
    and "now2 < now + ttl" and "er_taskId j = er_taskId i" and "er_toolCallId j = er_toolCallId i"
  shows "t1 = t @ [a] \<and> ap_status a = A_pending \<and> ap_expiresAt a = now + ttl \<and>
    ap_fingerprint a = er_fingerprint i \<and>
    ensureApprovalRequest ttl now2 uuid2 j t1 = (Inr (a, False), t1)"
proof -
  have none: "approvalFindLatest (er_taskId i) (er_toolCallId i) t = None"
    using assms(1) by (auto simp: ensureApprovalRequest_def bnd_run split: option.splits prod.splits sum.splits)
  then have empty: "filter (\<lambda>r. ap_taskId r = er_taskId i \<and> ap_toolCallId r = er_toolCallId i) t = []"
    by (simp add: approvalFindLatest_def)
  let ?d = "\<lparr>ad_approvalId = uuid, ad_taskId = er_taskId i, ad_toolCallId = er_toolCallId i,
      ad_toolName = er_toolName i, ad_requesterUserId = er_requesterUserId i,
      ad_reason = er_reason i, ad_fingerprint = er_fingerprint i, ad_requestedAt = now,
      ad_expiresAt = now + ttl, ad_policyDecisionId = er_policyDecisionId i\<rparr>"
  have "approvalCreate ?d t = (Inr a, t1)"
    using assms(1) none
    by (auto simp: ensureApprovalRequest_def bnd_run split: prod.splits sum.splits)
  then have a: "a = approvalOfDraft ?d" and t1: "t1 = t @ [a]"
    by (auto elim: approvalCreate_cases)
  have "approvalFindLatest (er_taskId j) (er_toolCallId j) t1 = Some a"
    using empty assms(3,4)
    by (simp add: approvalFindLatest_def t1 a approvalOfDraft_def orderDesc_def firstRow_def)
  moreover have "expireApproval now2 a t1 = (Inr a, t1)"
    using assms(2) by (intro expireApproval_fresh) (simp add: a approvalOfDraft_def)
  ultimately have "ensureApprovalRequest ttl now2 uuid2 j t1 = (Inr (a, False), t1)"
    by (simp add: ensureApprovalRequest_def bnd_run)
  then show ?thesis using t1 by (simp add: a approvalOfDraft_def)
qed

definition sampleRequest :: EnsureApprovalRequestInput where
  "sampleRequest = \<lparr>er_taskId = ''t1'', er_toolCallId = ''c1'', er_toolName = ''shell'',
     er_requesterUserId = ''u'', er_reason = ''r'', er_policyDecisionId = ''p'',
     er_fingerprint = Some ''fp''\<rparr>"

theorem ensure_once_witness:
  "ensureApprovalRequest 100 10 ''x'' sampleRequest [sampleApproval] = (Inr (sampleApproval, False), [sampleApproval])"
proof -
  have "ensureApprovalRequest 100 0 ''a1'' sampleRequest [] = (Inr (sampleApproval, True), [sampleApproval])"
    by (simp add: ensureApprovalRequest_def bnd_run approvalFindLatest_def orderDesc_def firstRow_def
        approvalCreate_fresh sampleRequest_def sampleApproval_def approvalOfDraft_def)
  from ensure_once [OF this, of 10 sampleRequest "''x''"] show ?thesis by simp
qed

end
