(* ===== verification/Clarify.thy ===== *)
theory Clarify
  imports Approvals
begin

section \<open>Clarification prompts: repository and service\<close>

text \<open>
  src/src/storage/repositories/clarify-prompt-repository.ts over the records of
  src/src/types/clarify.ts, and src/src/approvals/clarify-service.ts. The state is the
  \<open>clarify_prompts\<close> table. The JSON columns are stored as the values they serialise. Unlike the
  approvals repository, \<open>update\<close> checks no transition table; the guard is in the service.
\<close>

subsection \<open>Records\<close>

record ClarifyPromptOption =
  co_id :: string
  co_label :: string
  co_description :: "string option"
  co_preview :: "string option"

record ClarifyPromptQuestion =
  cq_question :: string
  cq_header :: "string option"
  cq_options :: "ClarifyPromptOption list"
  cq_allowCustomAnswer :: bool
  cq_placeholder :: "string option"
  cq_multiSelect :: bool

datatype answer = Single string | Multi "string list"

type_synonym answers = "(string \<times> answer) list"

record ClarifyPromptRecord =
  cp_promptId :: string
  cp_taskId :: string
  cp_toolCallId :: string
  cp_requesterUserId :: string
  cp_question :: string
  cp_reason :: "string option"
  cp_options :: "ClarifyPromptOption list"
  cp_questions :: "ClarifyPromptQuestion list"
  cp_allowCustomAnswer :: bool
  cp_placeholder :: "string option"
  cp_status :: ClarifyPromptStatus
  cp_requestedAt :: instant
  cp_expiresAt :: instant
  cp_answeredAt :: "instant option"
  cp_answerOptionId :: "string option"
  cp_answerText :: "string option"
  cp_answers :: "answers option"
  cp_response :: "string option"
  cp_reviewerId :: "string option"
  cp_errorCode :: "RuntimeErrorCode option"

record ClarifyPromptDraft =
  cd_promptId :: string
  cd_taskId :: string
  cd_toolCallId :: string
  cd_requesterUserId :: string
  cd_question :: string
  cd_reason :: "string option"
  cd_options :: "ClarifyPromptOption list option"
  cd_questions :: "ClarifyPromptQuestion list option"
  cd_allowCustomAnswer :: bool
  cd_placeholder :: "string option"
  cd_requestedAt :: instant
  cd_expiresAt :: instant

record ClarifyPromptUpdatePatch =
  cu_status :: "ClarifyPromptStatus option"
  cu_answeredAt :: "instant option option"
  cu_answerOptionId :: "string option option"
  cu_answerText :: "string option option"
  cu_answers :: "answers option option"
  cu_response :: "string option option"
  cu_reviewerId :: "string option option"
  cu_errorCode :: "RuntimeErrorCode option option"

type_synonym prompts = "ClarifyPromptRecord list"

subsection \<open>Repository\<close>

definition orElse :: "'a option \<Rightarrow> 'a \<Rightarrow> 'a" where
  "orElse v d = (case v of None \<Rightarrow> d | Some x \<Rightarrow> x)"

lemma orElse_simps [simp]: "orElse None d = d" "orElse (Some x) d = x"
  by (simp_all add: orElse_def)

definition defaultQuestions :: "ClarifyPromptDraft \<Rightarrow> ClarifyPromptQuestion list" where
  "defaultQuestions d =
     [\<lparr>cq_question = cd_question d, cq_header = None, cq_options = orElse (cd_options d) [],
       cq_allowCustomAnswer = cd_allowCustomAnswer d, cq_placeholder = cd_placeholder d,
       cq_multiSelect = False\<rparr>]"

definition promptFindById :: "string \<Rightarrow> prompts \<Rightarrow> ClarifyPromptRecord option" where
  "promptFindById i t = rowFind cp_promptId i t"

definition promptOfDraft :: "ClarifyPromptDraft \<Rightarrow> ClarifyPromptRecord" where
  "promptOfDraft d =
     \<lparr>cp_promptId = cd_promptId d, cp_taskId = cd_taskId d, cp_toolCallId = cd_toolCallId d,
      cp_requesterUserId = cd_requesterUserId d, cp_question = cd_question d,
      cp_reason = cd_reason d, cp_options = orElse (cd_options d) [],
      cp_questions = orElse (cd_questions d) (defaultQuestions d),
      cp_allowCustomAnswer = cd_allowCustomAnswer d, cp_placeholder = cd_placeholder d,
      cp_status = C_pending, cp_requestedAt = cd_requestedAt d, cp_expiresAt = cd_expiresAt d,
      cp_answeredAt = None, cp_answerOptionId = None, cp_answerText = None, cp_answers = None,
      cp_response = None, cp_reviewerId = None, cp_errorCode = None\<rparr>"

definition promptCreate :: "ClarifyPromptDraft \<Rightarrow> (prompts, ClarifyPromptRecord) op" where
  "promptCreate d = (\<lambda>t.
     case rowInsert cp_promptId (promptOfDraft d) t of
       Inl e \<Rightarrow> (Inl e, t)
     | Inr t' \<Rightarrow>
         (case promptFindById (cd_promptId d) t' of
            None \<Rightarrow> (Inl (PlainError (''Clarify prompt '' @ cd_promptId d @ '' was not persisted.'')), t')
          | Some r \<Rightarrow> (Inr r, t')))"

definition promptFindLatest :: "string \<Rightarrow> string \<Rightarrow> prompts \<Rightarrow> ClarifyPromptRecord option" where
  "promptFindLatest taskId toolCallId t =
     firstRow (orderDesc (\<lambda>r. (cp_requestedAt r, cp_promptId r))
       (filter (\<lambda>r. cp_taskId r = taskId \<and> cp_toolCallId r = toolCallId) t))"

definition promptListByTaskId :: "string \<Rightarrow> prompts \<Rightarrow> ClarifyPromptRecord list" where
  "promptListByTaskId taskId t =
     orderAsc (\<lambda>r. (cp_requestedAt r, cp_promptId r)) (filter (\<lambda>r. cp_taskId r = taskId) t)"

definition promptPendingRows :: "prompts \<Rightarrow> ClarifyPromptRecord list" where
  "promptPendingRows t = orderAsc cp_requestedAt (filter (\<lambda>r. cp_status r = C_pending) t)"

definition promptPatch :: "ClarifyPromptUpdatePatch \<Rightarrow> ClarifyPromptRecord \<Rightarrow> ClarifyPromptRecord" where
  "promptPatch p r = r\<lparr>
     cp_answeredAt := patched (cu_answeredAt p) (cp_answeredAt r),
     cp_answerOptionId := patched (cu_answerOptionId p) (cp_answerOptionId r),
     cp_answerText := patched (cu_answerText p) (cp_answerText r),
     cp_answers := patched (cu_answers p) (cp_answers r),
     cp_response := patched (cu_response p) (cp_response r),
     cp_reviewerId := patched (cu_reviewerId p) (cp_reviewerId r),
     cp_errorCode := patched (cu_errorCode p) (cp_errorCode r),
     cp_status := patched (cu_status p) (cp_status r)\<rparr>"

definition promptUpdate :: "string \<Rightarrow> ClarifyPromptUpdatePatch \<Rightarrow> (prompts, ClarifyPromptRecord) op" where
  "promptUpdate i p = (\<lambda>t.
     case promptFindById i t of
       None \<Rightarrow> (Inl (PlainError (''Clarify prompt '' @ i @ '' was not found.'')), t)
     | Some existing \<Rightarrow>
         let t' = rowSet cp_promptId i (promptPatch p existing) t
         in case promptFindById i t' of
              None \<Rightarrow> (Inl (PlainError (''Clarify prompt '' @ i @ '' disappeared after update.'')), t')
            | Some r \<Rightarrow> (Inr r, t'))"

definition noPromptPatch :: ClarifyPromptUpdatePatch where
  "noPromptPatch = \<lparr>cu_status = None, cu_answeredAt = None, cu_answerOptionId = None,
     cu_answerText = None, cu_answers = None, cu_response = None, cu_reviewerId = None,
     cu_errorCode = None\<rparr>"

subsection \<open>Service\<close>

record EnsureClarifyPromptInput =
  ec_taskId :: string
  ec_toolCallId :: string
  ec_requesterUserId :: string
  ec_question :: string
  ec_reason :: "string option"
  ec_options :: "ClarifyPromptOption list option"
  ec_questions :: "ClarifyPromptQuestion list option"
  ec_allowCustomAnswer :: bool
  ec_placeholder :: "string option"

record ClarifyAnswerInput =
  ca_promptId :: string
  ca_reviewerId :: string
  ca_answerOptionId :: "string option"
  ca_answerText :: "string option"
  ca_answers :: "answers option"
  ca_response :: "string option"

definition nonEmptyOpt :: "string option \<Rightarrow> bool" where
  "nonEmptyOpt s = (s \<noteq> Some [])"

fun answerOk :: "answer \<Rightarrow> bool" where
  "answerOk (Single s) = (s \<noteq> [])"
| "answerOk (Multi xs) = (xs \<noteq> [] \<and> list_all (\<lambda>s. s \<noteq> []) xs)"

definition clarifyAnswerSchema :: "ClarifyAnswerInput \<Rightarrow> bool" where
  "clarifyAnswerSchema i =
     (ca_promptId i \<noteq> [] \<and> ca_reviewerId i \<noteq> [] \<and> nonEmptyOpt (ca_answerOptionId i) \<and>
      nonEmptyOpt (ca_answerText i) \<and>
      (case ca_answers i of None \<Rightarrow> True
       | Some ans \<Rightarrow> list_all (\<lambda>(q, a). q \<noteq> [] \<and> answerOk a) ans) \<and>
      nonEmptyOpt (ca_response i) \<and>
      (ca_answerOptionId i \<noteq> None \<or> ca_answerText i \<noteq> None \<or> ca_answers i \<noteq> None \<or>
       ca_response i \<noteq> None))"

definition expirePrompt :: "instant \<Rightarrow> ClarifyPromptRecord \<Rightarrow> (prompts, ClarifyPromptRecord) op" where
  "expirePrompt now p =
     (if cp_status p \<noteq> C_pending then ret p
      else if cp_expiresAt p > now then ret p
      else promptUpdate (cp_promptId p)
             (noPromptPatch\<lparr>cu_status := Some C_timed_out, cu_answeredAt := Some (Some now),
                            cu_reviewerId := Some (Some ''system''),
                            cu_errorCode := Some (Some Approval_timeout)\<rparr>))"

definition ensurePrompt ::
  "int \<Rightarrow> instant \<Rightarrow> string \<Rightarrow> EnsureClarifyPromptInput \<Rightarrow> (prompts, bool \<times> ClarifyPromptRecord) op" where
  "ensurePrompt ttlMs now uuid i =
     bnd (ask (promptFindLatest (ec_taskId i) (ec_toolCallId i))) (\<lambda>existing.
       case existing of
         Some p \<Rightarrow> bnd (expirePrompt now p) (\<lambda>p'. ret (False, p'))
       | None \<Rightarrow>
           bnd (promptCreate
             \<lparr>cd_promptId = uuid, cd_taskId = ec_taskId i, cd_toolCallId = ec_toolCallId i,
              cd_requesterUserId = ec_requesterUserId i, cd_question = ec_question i,
              cd_reason = ec_reason i, cd_options = Some (orElse (ec_options i) []),
              cd_questions = Some (orElse (ec_questions i)
                [\<lparr>cq_question = ec_question i, cq_header = None,
                  cq_options = orElse (ec_options i) [],
                  cq_allowCustomAnswer = ec_allowCustomAnswer i,
                  cq_placeholder = ec_placeholder i, cq_multiSelect = False\<rparr>]),
              cd_allowCustomAnswer = ec_allowCustomAnswer i, cd_placeholder = ec_placeholder i,
              cd_requestedAt = now, cd_expiresAt = now + ttlMs\<rparr>) (\<lambda>p.
           ret (True, p)))"

definition findPrompt :: "instant \<Rightarrow> string \<Rightarrow> (prompts, ClarifyPromptRecord option) op" where
  "findPrompt now i =
     bnd (ask (promptFindById i)) (\<lambda>p.
       case p of None \<Rightarrow> ret None | Some r \<Rightarrow> bnd (expirePrompt now r) (\<lambda>r'. ret (Some r')))"

definition listPendingPrompts :: "instant \<Rightarrow> (prompts, ClarifyPromptRecord list) op" where
  "listPendingPrompts now =
     bnd (ask promptPendingRows) (\<lambda>rows.
     bnd (forEach (expirePrompt now) rows) (\<lambda>rows'.
     ret (filter (\<lambda>r. cp_status r = C_pending) rows')))"

definition listPromptsByTask :: "instant \<Rightarrow> string \<Rightarrow> (prompts, ClarifyPromptRecord list) op" where
  "listPromptsByTask now taskId =
     bnd (ask (promptListByTaskId taskId)) (\<lambda>rows. forEach (expirePrompt now) rows)"

definition promptNotFound :: "string \<Rightarrow> thrown" where
  "promptNotFound i = AppError Task_not_found (''Clarify prompt '' @ i @ '' was not found.'') None"

definition answerPrompt :: "instant \<Rightarrow> ClarifyAnswerInput \<Rightarrow> (prompts, ClarifyPromptRecord) op" where
  "answerPrompt now i =
     (if \<not> clarifyAnswerSchema i then raise (PlainError ''ZodError'')
      else bnd (findPrompt now (ca_promptId i)) (\<lambda>found.
        case found of
          None \<Rightarrow> raise (promptNotFound (ca_promptId i))
        | Some p \<Rightarrow>
            if cp_status p \<noteq> C_pending then ret p
            else promptUpdate (ca_promptId i)
              \<lparr>cu_status = Some C_answered, cu_answeredAt = Some (Some now),
               cu_answerOptionId = Some (ca_answerOptionId i),
               cu_answerText = Some (ca_answerText i), cu_answers = Some (ca_answers i),
               cu_response = Some (ca_response i), cu_reviewerId = Some (Some (ca_reviewerId i)),
               cu_errorCode = Some None\<rparr>))"

definition cancelPrompt :: "instant \<Rightarrow> string \<Rightarrow> string \<Rightarrow> (prompts, ClarifyPromptRecord) op" where
  "cancelPrompt now promptId reviewerId =
     (if promptId = [] \<or> reviewerId = [] then raise (PlainError ''ZodError'')
      else bnd (findPrompt now promptId) (\<lambda>found.
        case found of
          None \<Rightarrow> raise (promptNotFound promptId)
        | Some p \<Rightarrow>
            if cp_status p \<noteq> C_pending then ret p
            else promptUpdate promptId
              (noPromptPatch\<lparr>cu_status := Some C_cancelled, cu_answeredAt := Some (Some now),
                             cu_reviewerId := Some (Some reviewerId),
                             cu_errorCode := Some (Some Clarification_cancelled)\<rparr>)))"

definition expirePendingPrompts :: "instant \<Rightarrow> (prompts, ClarifyPromptRecord list) op" where
  "expirePendingPrompts now =
     bnd (ask promptPendingRows) (\<lambda>rows.
     bnd (forEach (expirePrompt now) rows) (\<lambda>rows'.
     ret (filter (\<lambda>r. cp_status r = C_timed_out) rows')))"

fun promptErrorCode :: "ClarifyPromptStatus \<Rightarrow> RuntimeErrorCode" where
  "promptErrorCode C_answered = Approval_required"
| "promptErrorCode C_pending = Approval_required"
| "promptErrorCode C_cancelled = Clarification_cancelled"
| "promptErrorCode C_timed_out = Approval_timeout"

subsection \<open>Lemmas\<close>

definition promptsWf :: "prompts \<Rightarrow> bool" where
  "promptsWf t = pkOk cp_promptId t"

lemma promptPatch_id [simp]: "cp_promptId (promptPatch p r) = cp_promptId r"
  by (simp add: promptPatch_def)

lemma promptFindById_Some: "promptFindById i t = Some r \<Longrightarrow> cp_promptId r = i \<and> r \<in> set t"
  by (auto simp: promptFindById_def dest: rowFind_Some)

lemma promptFindById_mem: "promptsWf t \<Longrightarrow> r \<in> set t \<Longrightarrow> promptFindById (cp_promptId r) t = Some r"
  by (simp add: promptFindById_def promptsWf_def rowFind_mem)

lemma promptFindById_rowSet:
  "promptFindById i t = Some r \<Longrightarrow>
    promptFindById j (rowSet cp_promptId i (promptPatch p r) t) =
      (if j = i then Some (promptPatch p r) else promptFindById j t)"
  using promptFindById_Some [of i t r] by (simp add: promptFindById_def table_simps)

lemma promptUpdate_ok:
  "promptFindById i t = Some r \<Longrightarrow>
    promptUpdate i p t = (Inr (promptPatch p r), rowSet cp_promptId i (promptPatch p r) t)"
  by (simp add: promptUpdate_def Let_def promptFindById_rowSet)

lemma promptCreate_fresh:
  "cd_promptId d \<notin> cp_promptId ` set t \<Longrightarrow>
    promptCreate d t = (Inr (promptOfDraft d), t @ [promptOfDraft d])"
  using rowFind_None [of cp_promptId "cd_promptId d" t]
  by (auto simp: promptCreate_def rowInsert_def promptFindById_def rowFind_append promptOfDraft_def)

lemma promptPendingRows_set:
  "promptsWf t \<Longrightarrow> set (promptPendingRows t) =
    {r. cp_status r = C_pending \<and> promptFindById (cp_promptId r) t = Some r}"
  by (auto simp: promptPendingRows_def promptFindById_mem dest: promptFindById_Some)

lemma promptPendingRows_distinct: "promptsWf t \<Longrightarrow> distinct (map cp_promptId (promptPendingRows t))"
  by (simp add: promptPendingRows_def promptsWf_def pkOk_def distinct_map_filter)

text \<open>The prompts honour the contract of expiring requests, so the sweep lemmas hold for them.\<close>

interpretation prompt_expiry: expiring_store promptsWf "\<lambda>t i. promptFindById i t" promptPendingRows
  cp_promptId "\<lambda>r. cp_status r = C_pending" "\<lambda>r. cp_status r = C_timed_out" cp_expiresAt expirePrompt
proof unfold_locales
  fix r :: ClarifyPromptRecord and now t
  assume "\<not> cp_status r = C_pending \<or> now < cp_expiresAt r"
  then show "expirePrompt now r t = (Inr r, t)" by (auto simp: expirePrompt_def)
next
  fix t and r :: ClarifyPromptRecord and now
  assume wf: "promptsWf t" and r: "promptFindById (cp_promptId r) t = Some r"
    "cp_status r = C_pending" "cp_expiresAt r \<le> now"
  let ?p = "noPromptPatch\<lparr>cu_status := Some C_timed_out, cu_answeredAt := Some (Some now),
      cu_reviewerId := Some (Some ''system''), cu_errorCode := Some (Some Approval_timeout)\<rparr>"
  let ?r' = "promptPatch ?p r" and ?t' = "rowSet cp_promptId (cp_promptId r) (promptPatch ?p r) t"
  have "expirePrompt now r t = (Inr ?r', ?t')"
    using r by (simp add: expirePrompt_def promptUpdate_ok)
  moreover have "promptsWf ?t'" using wf by (simp add: promptsWf_def rowSet_pk)
  moreover have "cp_status ?r' = C_timed_out" by (simp add: promptPatch_def)
  moreover have "\<forall>k. promptFindById k ?t' = (if k = cp_promptId r then Some ?r' else promptFindById k t)"
    using promptFindById_rowSet [OF r(1)] by simp
  ultimately show "\<exists>r' t'. expirePrompt now r t = (Inr r', t') \<and> promptsWf t' \<and>
      cp_status r' = C_timed_out \<and> cp_promptId r' = cp_promptId r \<and>
      (\<forall>k. promptFindById k t' = (if k = cp_promptId r then Some r' else promptFindById k t))"
    by (intro exI [of _ ?r'] exI [of _ ?t']) simp
qed (auto simp: promptPendingRows_set promptPendingRows_distinct)

lemma findPrompt_fresh:
  "promptFindById i t = Some p \<Longrightarrow> cp_status p \<noteq> C_pending \<or> now < cp_expiresAt p \<Longrightarrow>
    findPrompt now i t = (Inr (Some p), t)"
  by (simp add: findPrompt_def bnd_run prompt_expiry.expire_keep)

subsection \<open>Properties\<close>

definition samplePrompt :: ClarifyPromptRecord where
  "samplePrompt = \<lparr>cp_promptId = ''p1'', cp_taskId = ''t1'', cp_toolCallId = ''c1'',
     cp_requesterUserId = ''u'', cp_question = ''Which?'', cp_reason = None, cp_options = [],
     cp_questions = [], cp_allowCustomAnswer = True, cp_placeholder = None, cp_status = C_pending,
     cp_requestedAt = 0, cp_expiresAt = 100, cp_answeredAt = None, cp_answerOptionId = None,
     cp_answerText = None, cp_answers = None, cp_response = None, cp_reviewerId = None,
     cp_errorCode = None\<rparr>"

definition sampleAnswer :: ClarifyAnswerInput where
  "sampleAnswer = \<lparr>ca_promptId = ''p1'', ca_reviewerId = ''u'', ca_answerOptionId = None,
     ca_answerText = Some ''left'', ca_answers = None, ca_response = None\<rparr>"

text \<open>
  Answering stores the answer on a prompt that is still open; on a prompt already answered,
  cancelled or timed out, and on one whose deadline has passed, the answer is discarded and the
  record's earlier answer fields stay as they were.\<close>

theorem answer_only_open:
  assumes "clarifyAnswerSchema i" and "promptFindById (ca_promptId i) t = Some p"
  shows "\<exists>p' t'. answerPrompt now i t = (Inr p', t') \<and> promptFindById (ca_promptId i) t' = Some p' \<and>
    (if cp_status p = C_pending \<and> now < cp_expiresAt p
     then p' = p\<lparr>cp_status := C_answered, cp_answeredAt := Some now,
                 cp_answerOptionId := ca_answerOptionId i, cp_answerText := ca_answerText i,
                 cp_answers := ca_answers i, cp_response := ca_response i,
                 cp_reviewerId := Some (ca_reviewerId i), cp_errorCode := None\<rparr>
     else if cp_status p = C_pending
     then p' = p\<lparr>cp_status := C_timed_out, cp_answeredAt := Some now,
                 cp_reviewerId := Some ''system'', cp_errorCode := Some Approval_timeout\<rparr>
     else p' = p \<and> t' = t)"
proof -
  have id: "cp_promptId p = ca_promptId i" using promptFindById_Some [OF assms(2)] by simp
  consider "cp_status p \<noteq> C_pending" | "cp_status p = C_pending" "now < cp_expiresAt p"
    | "cp_status p = C_pending" "cp_expiresAt p \<le> now" by linarith
  then show ?thesis
  proof cases
    case 1
    then have "answerPrompt now i t = (Inr p, t)"
      using assms by (simp add: answerPrompt_def bnd_run findPrompt_fresh)
    with 1 assms show ?thesis by auto
  next
    case 2
    then obtain q where run: "answerPrompt now i t =
        (Inr (promptPatch q p), rowSet cp_promptId (ca_promptId i) (promptPatch q p) t)"
      and q: "q = \<lparr>cu_status = Some C_answered, cu_answeredAt = Some (Some now),
          cu_answerOptionId = Some (ca_answerOptionId i), cu_answerText = Some (ca_answerText i),
          cu_answers = Some (ca_answers i), cu_response = Some (ca_response i),
          cu_reviewerId = Some (Some (ca_reviewerId i)), cu_errorCode = Some None\<rparr>"
      using assms by (simp add: answerPrompt_def bnd_run findPrompt_fresh promptUpdate_ok)
    have "promptFindById (ca_promptId i) (rowSet cp_promptId (ca_promptId i) (promptPatch q p) t) =
        Some (promptPatch q p)"
      using promptFindById_rowSet [OF assms(2), of _ q] by simp
    with 2 run q show ?thesis by (simp add: promptPatch_def)
  next
    case 3
    let ?p = "noPromptPatch\<lparr>cu_status := Some C_timed_out, cu_answeredAt := Some (Some now),
        cu_reviewerId := Some (Some ''system''), cu_errorCode := Some (Some Approval_timeout)\<rparr>"
    have "findPrompt now (ca_promptId i) t =
        (Inr (Some (promptPatch ?p p)), rowSet cp_promptId (ca_promptId i) (promptPatch ?p p) t)"
      using assms 3 id by (simp add: findPrompt_def bnd_run expirePrompt_def promptUpdate_ok)
    then have run: "answerPrompt now i t =
        (Inr (promptPatch ?p p), rowSet cp_promptId (ca_promptId i) (promptPatch ?p p) t)"
      using assms 3 by (simp add: answerPrompt_def bnd_run promptPatch_def noPromptPatch_def)
    have "promptFindById (ca_promptId i) (rowSet cp_promptId (ca_promptId i) (promptPatch ?p p) t) =
        Some (promptPatch ?p p)"
      using promptFindById_rowSet [OF assms(2), of _ ?p] by simp
    with 3 run show ?thesis by (simp add: promptPatch_def noPromptPatch_def)
  qed
qed

theorem answer_only_open_witness:
  "\<exists>p' t'. answerPrompt 10 sampleAnswer [samplePrompt] = (Inr p', t') \<and> cp_status p' = C_answered \<and>
    cp_answerText p' = Some ''left''"
proof -
  have "clarifyAnswerSchema sampleAnswer" and
    "promptFindById (ca_promptId sampleAnswer) [samplePrompt] = Some samplePrompt"
    by (simp_all add: clarifyAnswerSchema_def nonEmptyOpt_def sampleAnswer_def promptFindById_def
        samplePrompt_def)
  from answer_only_open [OF this, of 10] show ?thesis
    by (auto simp: samplePrompt_def sampleAnswer_def)
qed

text \<open>The expiry sweep over the prompts of a well-formed table times out exactly the overdue pending
  prompts, oldest first, and leaves no overdue pending prompt.\<close>

theorem prompt_sweep_exact:
  assumes "promptsWf t"
  shows "\<exists>ps t'. expirePendingPrompts now t = (Inr ps, t') \<and> promptsWf t' \<and>
    map cp_promptId ps = map cp_promptId (filter (\<lambda>r. cp_expiresAt r \<le> now) (promptPendingRows t)) \<and>
    (\<forall>r \<in> set t'. cp_status r = C_pending \<longrightarrow> now < cp_expiresAt r)"
proof -
  obtain rs' t' where "forEach (expirePrompt now) (promptPendingRows t) t = (Inr rs', t')"
    "promptsWf t'"
    "map cp_promptId (filter (\<lambda>r. cp_status r = C_timed_out) rs') =
      map cp_promptId (filter (\<lambda>r. cp_expiresAt r \<le> now) (promptPendingRows t))"
    "\<forall>r \<in> set (promptPendingRows t'). now < cp_expiresAt r"
    using prompt_expiry.sweep_pending [OF assms, of now] by blast
  then show ?thesis by (auto simp: expirePendingPrompts_def bnd_run promptPendingRows_def)
qed

theorem prompt_sweep_exact_witness:
  "\<exists>ps t'. expirePendingPrompts 100 [samplePrompt] = (Inr ps, t') \<and> map cp_promptId ps = [''p1'']"
proof -
  have "promptsWf [samplePrompt]" by (simp add: promptsWf_def pkOk_def)
  from prompt_sweep_exact [OF this, of 100] show ?thesis
    by (auto simp: promptPendingRows_def orderAsc_def samplePrompt_def)
qed

end
