(* ===== verification/ApprovalRules.thy ===== *)
theory ApprovalRules
  imports Approvals JsText
begin

section \<open>Approval fingerprints and persisted approval rules\<close>

text \<open>
  src/src/approvals/approval-fingerprint.ts, session-approval-fingerprints.ts and
  approval-rule-store.ts, with the text the orchestrator writes into an approval
  (\<open>formatApprovalReason\<close> of src/src/tools/tool-orchestrator.ts), which the rule store parses back.

  The WHATWG URL parser and SHA-256 are arguments: \<open>canonUrl u\<close> is the serialised URL without its
  hash and with a lower-case host, or \<open>None\<close> when the constructor throws. The state of the rule store
  is the part of the host it uses: the content of the rules file of every workspace, and the module
  level \<open>DEFAULT_CONFIG\<close>, whose rule list all stores of a process share and \<open>add\<close> pushes into. File
  system failures are not modelled; a file whose text is not a JSON object makes \<open>read\<close> throw.
\<close>

subsection \<open>Fingerprints\<close>

definition normalizePath :: "string \<Rightarrow> string" where
  "normalizePath value = lower (map (\<lambda>c. if c = CHR 0x5C then CHR ''/'' else c) value)"

definition normalizeWhitespace :: "string \<Rightarrow> string" where
  "normalizeWhitespace value = trim (collapseWs value)"

definition normalizeUrl :: "(string \<Rightarrow> string option) \<Rightarrow> string \<Rightarrow> string" where
  "normalizeUrl canonUrl value =
     (case canonUrl value of Some u \<Rightarrow> u | None \<Rightarrow> lower (trim value))"

record ApprovalFingerprintRecord =
  af_fingerprint :: string
  af_toolName :: string
  af_description :: string

text \<open>The text that is hashed, and the description shown for it.\<close>

fun fingerprintRaw :: "(string \<Rightarrow> string option) \<Rightarrow> string \<Rightarrow> SandboxExecutionPlan \<Rightarrow> string" where
  "fingerprintRaw canonUrl toolName (FileP p) =
     joinWith ''|'' [toolName, ''file'', operationStr (fp_operation p), normalizePath (fp_resolvedPath p)]"
| "fingerprintRaw canonUrl toolName (ShellP p) =
     joinWith ''|'' [toolName, ''shell'', normalizeWhitespace (sp_command p), normalizePath (sp_cwd p),
       lower (sp_executable p), networkStr (sp_networkAccess p)]"
| "fingerprintRaw canonUrl toolName (WebP p) =
     joinWith ''|'' [toolName, ''network'', methodStr (wp_method p), normalizeUrl canonUrl (wp_url p)]"
| "fingerprintRaw canonUrl toolName (McpP p) =
     joinWith ''|'' [toolName, ''mcp'', mp_serverId p, mp_toolName p, normalizeWhitespace (mp_target p)]"
| "fingerprintRaw canonUrl toolName PromptP = toolName @ ''|unknown''"

fun fingerprintDescription :: "string \<Rightarrow> SandboxExecutionPlan \<Rightarrow> string" where
  "fingerprintDescription toolName (FileP p) =
     toolName @ '' '' @ operationStr (fp_operation p) @ '' '' @ fp_resolvedPath p"
| "fingerprintDescription toolName (ShellP p) = toolName @ '' '' @ sp_command p"
| "fingerprintDescription toolName (WebP p) = toolName @ '' '' @ methodStr (wp_method p) @ '' '' @ wp_url p"
| "fingerprintDescription toolName (McpP p) =
     toolName @ '' '' @ mp_serverId p @ ''/'' @ mp_toolName p @ '' '' @ mp_target p"
| "fingerprintDescription toolName PromptP = toolName"

definition buildApprovalFingerprint ::
  "(string \<Rightarrow> string) \<Rightarrow> (string \<Rightarrow> string option) \<Rightarrow> string \<Rightarrow> SandboxExecutionPlan \<Rightarrow>
    ApprovalFingerprintRecord" where
  "buildApprovalFingerprint sha256 canonUrl toolName plan =
     \<lparr>af_fingerprint = sha256 (fingerprintRaw canonUrl toolName plan), af_toolName = toolName,
      af_description = fingerprintDescription toolName plan\<rparr>"

definition buildShellPrefixPattern :: "string \<Rightarrow> string list" where
  "buildShellPrefixPattern command = filter (\<lambda>t. 0 < length t) (splitWs (trim command))"

definition matchesShellPrefixPattern :: "string \<Rightarrow> string list \<Rightarrow> bool" where
  "matchesShellPrefixPattern command pattern =
     (let tokens = buildShellPrefixPattern command
      in if pattern = [] \<or> length tokens < length pattern then False
         else list_all (\<lambda>i. lower (tokens ! i) = lower (pattern ! i)) [0..<length pattern])"

subsection \<open>Session fingerprints\<close>

definition readSessionApprovalFingerprints :: "json_object option \<Rightarrow> string list" where
  "readSessionApprovalFingerprints metadata =
     (case metadata of
        None \<Rightarrow> []
      | Some m \<Rightarrow>
          (case jget m ''sessionApprovalFingerprints'' of
             Some (JArr vs) \<Rightarrow>
               List.map_filter (\<lambda>v. case v of JStr s \<Rightarrow> (if 0 < length s then Some s else None) | _ \<Rightarrow> None) vs
           | _ \<Rightarrow> []))"

definition mergeSessionApprovalFingerprintLists :: "string list option list \<Rightarrow> string list" where
  "mergeSessionApprovalFingerprintLists fpLists =
     fold (\<lambda>l merged. case l of
         None \<Rightarrow> merged
       | Some fs \<Rightarrow> fold (\<lambda>f m. if 0 < length f then setAdd f m else m) fs merged) fpLists []"

definition withMergedSessionApprovalFingerprints ::
  "json_object option \<Rightarrow> string list option list \<Rightarrow> json_object" where
  "withMergedSessionApprovalFingerprints metadata fpLists =
     jput ''sessionApprovalFingerprints''
       (JArr (map JStr (mergeSessionApprovalFingerprintLists
          (Some (readSessionApprovalFingerprints metadata) # fpLists))))
       (case metadata of None \<Rightarrow> [] | Some m \<Rightarrow> m)"

subsection \<open>The text of an approval request\<close>

fun approvalReasonLines :: "SandboxExecutionPlan \<Rightarrow> string list" where
  "approvalReasonLines (FileP p) =
     [''Resolved path: '' @ fp_resolvedPath p, ''Operation: '' @ operationStr (fp_operation p),
      ''Path scope: '' @ pathScopeStr (fp_pathScope p),
      ''Extra write root: '' @ (if fp_withinExtraWriteRoot p = Some True then ''yes'' else ''no'')]"
| "approvalReasonLines (ShellP p) =
     [''Command: '' @ sp_command p, ''CWD: '' @ sp_cwd p,
      ''Network: '' @ networkStr (sp_networkAccess p)]"
| "approvalReasonLines (WebP p) = [''URL: '' @ wp_url p, ''Method: '' @ methodStr (wp_method p)]"
| "approvalReasonLines (McpP p) =
     [''MCP server: '' @ mp_serverId p, ''MCP tool: '' @ mp_toolName p, ''Target: '' @ mp_target p]"
| "approvalReasonLines PromptP = []"

definition formatApprovalReason :: "string \<Rightarrow> SandboxExecutionPlan \<Rightarrow> string" where
  "formatApprovalReason reason plan = joinWith [nl] (reason # approvalReasonLines plan)"

definition parseReasonLine :: "string \<Rightarrow> (string \<times> string) option" where
  "parseReasonLine line =
     (case indexOf (CHR '':'') line of
        None \<Rightarrow> None
      | Some k \<Rightarrow> (if k = 0 then None else Some (trim (take k line), trim (drop (k + 1) line))))"

definition parseApprovalReasonMap :: "string \<Rightarrow> (string \<rightharpoonup> string)" where
  "parseApprovalReasonMap reason =
     fold (\<lambda>line m. case parseReasonLine line of None \<Rightarrow> m | Some (k, v) \<Rightarrow> m(k \<mapsto> v))
       (splitOn nl reason) Map.empty"

subsection \<open>The rule store\<close>

datatype ApprovalRuleKind = RK_fingerprint | RK_shell_prefix | RK_tool_prefix

record PersistedApprovalRule =
  rl_kind :: "ApprovalRuleKind option"
  rl_fingerprint :: "string option"
  rl_pattern :: "string list option"
  rl_toolName :: "string option"
  rl_pathPrefix :: "string option"
  rl_createdAt :: instant
  rl_createdBy :: string
  rl_description :: string

text \<open>The content of a rules file: blank, not parseable, or an object with or without a rule array.\<close>

datatype RuleFile = BlankFile | BadJson | RulesFile "PersistedApprovalRule list option"

record RuleHost =
  rh_default :: "PersistedApprovalRule list"
  rh_files :: "string \<Rightarrow> RuleFile option"

definition DEFAULT_CONFIG :: "PersistedApprovalRule list" where
  "DEFAULT_CONFIG = []"

text \<open>A process starts with the module's default configuration and the files on disk.\<close>

definition processStart :: "(string \<Rightarrow> RuleFile option) \<Rightarrow> RuleHost" where
  "processStart files = \<lparr>rh_default = DEFAULT_CONFIG, rh_files = files\<rparr>"

text \<open>The rules read, and whether their list is the shared one of \<open>DEFAULT_CONFIG\<close>.\<close>

definition readRules :: "string \<Rightarrow> (RuleHost, bool \<times> PersistedApprovalRule list) op" where
  "readRules path = (\<lambda>h.
     case rh_files h path of
       None \<Rightarrow> (Inr (True, rh_default h), h)
     | Some BlankFile \<Rightarrow> (Inr (True, rh_default h), h)
     | Some BadJson \<Rightarrow> (Inl (PlainError ''SyntaxError''), h)
     | Some (RulesFile None) \<Rightarrow> (Inr (False, []), h)
     | Some (RulesFile (Some rules)) \<Rightarrow> (Inr (False, rules), h))"

definition listRules :: "string \<Rightarrow> (RuleHost, PersistedApprovalRule list) op" where
  "listRules path = bnd (readRules path) (\<lambda>(_, rules). ret rules)"

definition resolveRuleKind :: "PersistedApprovalRule \<Rightarrow> ApprovalRuleKind" where
  "resolveRuleKind rule =
     (case rl_kind rule of
        Some k \<Rightarrow> k
      | None \<Rightarrow> (if rl_fingerprint rule \<noteq> None then RK_fingerprint else RK_shell_prefix))"

definition hasFingerprint :: "string \<Rightarrow> string \<Rightarrow> (RuleHost, bool) op" where
  "hasFingerprint path fingerprint =
     bnd (listRules path) (\<lambda>rules.
       ret (list_ex (\<lambda>r. resolveRuleKind r = RK_fingerprint \<and> rl_fingerprint r = Some fingerprint) rules))"

definition ruleMatches :: "PersistedApprovalRule \<Rightarrow> SandboxExecutionPlan \<Rightarrow> string \<Rightarrow> bool" where
  "ruleMatches rule plan toolName =
     (case resolveRuleKind rule of
        RK_fingerprint \<Rightarrow> False
      | RK_shell_prefix \<Rightarrow>
          (case plan of
             ShellP p \<Rightarrow>
               (if rl_toolName rule \<noteq> Some toolName then False
                else matchesShellPrefixPattern (sp_command p)
                  (case rl_pattern rule of None \<Rightarrow> [] | Some ts \<Rightarrow> ts))
           | _ \<Rightarrow> False)
      | RK_tool_prefix \<Rightarrow>
          (if rl_toolName rule \<noteq> Some toolName then False
           else (case rl_pathPrefix rule of
                   None \<Rightarrow> planKind plan = ''file''
                 | Some pre \<Rightarrow>
                     (if pre = [] then planKind plan = ''file''
                      else (case plan of
                              FileP p \<Rightarrow> startsWith (lower (fp_resolvedPath p)) (lower pre)
                            | _ \<Rightarrow> False)))))"

definition ruleStoreMatches :: "string \<Rightarrow> SandboxExecutionPlan \<Rightarrow> string \<Rightarrow> (RuleHost, bool) op" where
  "ruleStoreMatches path plan toolName =
     bnd (listRules path) (\<lambda>rules.
       ret (length (filter (\<lambda>r. ruleMatches r plan toolName) rules) = 1))"

definition sameRule :: "PersistedApprovalRule \<Rightarrow> PersistedApprovalRule \<Rightarrow> bool" where
  "sameRule item rule =
     (if resolveRuleKind item \<noteq> resolveRuleKind rule then False
      else (case resolveRuleKind rule of
              RK_fingerprint \<Rightarrow> rl_fingerprint item = rl_fingerprint rule
            | RK_shell_prefix \<Rightarrow> rl_toolName item = rl_toolName rule \<and>
                (case rl_pattern item of None \<Rightarrow> [] | Some ts \<Rightarrow> ts) =
                (case rl_pattern rule of None \<Rightarrow> [] | Some ts \<Rightarrow> ts)
            | RK_tool_prefix \<Rightarrow> rl_toolName item = rl_toolName rule \<and>
                rl_pathPrefix item = rl_pathPrefix rule))"

text \<open>
  \<open>config.rules.push(rule)\<close> mutates the list \<open>read\<close> returned: a fresh one when it was parsed from the
  file, the one of \<open>DEFAULT_CONFIG\<close> otherwise.
\<close>

definition addRule :: "string \<Rightarrow> PersistedApprovalRule \<Rightarrow> (RuleHost, unit) op" where
  "addRule path rule =
     bnd (readRules path) (\<lambda>(shared, rules).
       if list_ex (\<lambda>item. sameRule item rule) rules then ret ()
       else modify (\<lambda>h. h\<lparr>
         rh_default := (if shared then rules @ [rule] else rh_default h),
         rh_files := (rh_files h)(path \<mapsto> RulesFile (Some (rules @ [rule])))\<rparr>))"

definition addAlwaysRulesFromApproval ::
  "instant \<Rightarrow> string \<Rightarrow> ApprovalRecord \<Rightarrow> string \<Rightarrow> (RuleHost, unit) op" where
  "addAlwaysRulesFromApproval now path approval reviewerId =
     (case ap_fingerprint approval of
        None \<Rightarrow> ret ()
      | Some fingerprint \<Rightarrow>
          let tool = ap_toolName approval;
              description = hd (splitOn nl (ap_reason approval));
              reasonMap = parseApprovalReasonMap (ap_reason approval)
          in bnd (addRule path \<lparr>rl_kind = Some RK_fingerprint, rl_fingerprint = Some fingerprint,
                    rl_pattern = None, rl_toolName = Some tool, rl_pathPrefix = None,
                    rl_createdAt = now, rl_createdBy = reviewerId, rl_description = description\<rparr>) (\<lambda>_.
             bnd (if tool = ''shell'' then
                    (case reasonMap ''Command'' of
                       None \<Rightarrow> ret ()
                     | Some command \<Rightarrow>
                         let pattern = buildShellPrefixPattern command
                         in if pattern = [] then ret ()
                            else addRule path \<lparr>rl_kind = Some RK_shell_prefix, rl_fingerprint = None,
                                   rl_pattern = Some pattern, rl_toolName = Some tool,
                                   rl_pathPrefix = None, rl_createdAt = now,
                                   rl_createdBy = reviewerId,
                                   rl_description = tool @ '' '' @ joinWith '' '' pattern\<rparr>)
                  else ret ()) (\<lambda>_.
             (case reasonMap ''Resolved path'' of
                None \<Rightarrow> ret ()
              | Some resolvedPath \<Rightarrow>
                  if tool = ''write_file'' \<or> tool = ''patch''
                  then addRule path \<lparr>rl_kind = Some RK_tool_prefix, rl_fingerprint = None,
                         rl_pattern = None, rl_toolName = Some tool,
                         rl_pathPrefix = Some resolvedPath, rl_createdAt = now,
                         rl_createdBy = reviewerId,
                         rl_description = tool @ '' '' @ resolvedPath\<rparr>
                  else ret ()))))"

subsection \<open>Lemmas\<close>

lemma lowerChar_pipe [simp]: "lowerChar c = CHR ''|'' \<longleftrightarrow> c = CHR ''|''"
proof (cases "65 \<le> (of_char c :: nat) \<and> (of_char c :: nat) \<le> 90 \<or>
    192 \<le> (of_char c :: nat) \<and> (of_char c :: nat) \<le> 222 \<and> (of_char c :: nat) \<noteq> 215")
  case True
  let ?n = "of_char c :: nat"
  have "(?n + 32) mod 256 \<noteq> 124" using True by auto
  then have "(of_char (char_of (?n + 32) :: char) :: nat) \<noteq> of_char (CHR ''|'')"
    by (simp add: of_char_of)
  then have "char_of (?n + 32) \<noteq> CHR ''|''" by metis
  moreover have "c \<noteq> CHR ''|''" using True by auto
  ultimately show ?thesis using True by (simp add: lowerChar_def Let_def)
next
  case False
  then show ?thesis by (auto simp: lowerChar_def Let_def)
qed

lemma pipe_lower [simp]: "CHR ''|'' \<in> set (lower s) \<longleftrightarrow> CHR ''|'' \<in> set s"
  using lowerChar_pipe by (auto simp: lower_def image_iff eq_commute [of "CHR ''|''"])

lemma pipe_normalizePath [simp]: "CHR ''|'' \<in> set (normalizePath s) \<longleftrightarrow> CHR ''|'' \<in> set s"
  by (auto simp: normalizePath_def image_iff)

lemma pipe_network [simp]: "CHR ''|'' \<notin> set (networkStr n)"
  by (cases n) simp_all

lemma networkStr_inj [simp]: "networkStr a = networkStr b \<longleftrightarrow> a = b"
  by (cases a; cases b) simp_all

lemma first_field:
  "x \<notin> set a \<Longrightarrow> x \<notin> set c \<Longrightarrow> a @ x # b = c @ x # d \<longleftrightarrow> a = c \<and> b = d"
proof (induction a arbitrary: c)
  case Nil
  then show ?case by (cases c) auto
next
  case (Cons y a)
  then show ?case by (cases c) auto
qed

text \<open>A field without the separator is the last one.\<close>

lemma last_field:
  assumes "x \<notin> set b" and "x \<notin> set d"
  shows "a @ x # b = c @ x # d \<longleftrightarrow> a = c \<and> b = d"
proof
  assume "a @ x # b = c @ x # d"
  then have "rev b @ x # rev a = rev d @ x # rev c" by (metis append.assoc append_Cons append_Nil rev.simps(2) rev_append)
  then have "rev b = rev d \<and> rev a = rev c"
    using first_field [of x "rev b" "rev d"] assms by simp
  then show "a = c \<and> b = d" by simp
qed simp

lemma matchesShellPrefixPattern_iff:
  "matchesShellPrefixPattern command pattern \<longleftrightarrow>
    pattern \<noteq> [] \<and> prefix (map lower pattern) (map lower (buildShellPrefixPattern command))"
proof -
  have "prefix xs ys \<longleftrightarrow> length xs \<le> length ys \<and> (\<forall>i < length xs. ys ! i = xs ! i)"
    for xs ys :: "string list"
  proof
    assume "prefix xs ys"
    then show "length xs \<le> length ys \<and> (\<forall>i < length xs. ys ! i = xs ! i)"
      by (auto simp: prefix_def nth_append)
  next
    assume "length xs \<le> length ys \<and> (\<forall>i < length xs. ys ! i = xs ! i)"
    then have "take (length xs) ys = xs" by (auto intro: nth_equalityI)
    then show "prefix xs ys" by (metis take_is_prefix)
  qed
  then show ?thesis
    by (auto simp: matchesShellPrefixPattern_def Let_def list_all_iff)
qed

lemma readRules_cases:
  assumes "readRules path h = (res, h')"
  obtains (bad) e where "res = Inl e" "h' = h" | (ok) sh rules where "res = Inr (sh, rules)" "h' = h"
  using assms by (auto simp: readRules_def split: option.splits RuleFile.splits)

lemma listRules_read:
  "listRules path h = (Inr rules, h) \<Longrightarrow> \<exists>sh. readRules path h = (Inr (sh, rules), h)"
  by (auto simp: listRules_def bnd_run readRules_def split: option.splits RuleFile.splits)

lemma sameRule_refl [simp]: "sameRule r r"
  by (auto simp: sameRule_def split: ApprovalRuleKind.splits)

text \<open>After \<open>add\<close> the store holds a rule equal to the one added, and every rule it held before.\<close>

lemma addRule_listed:
  assumes "addRule path rule h = (Inr u, h')"
  obtains old rules where "listRules path h = (Inr old, h)" and "listRules path h' = (Inr rules, h')"
    and "set old \<subseteq> set rules" and "\<exists>item \<in> set rules. sameRule item rule"
proof -
  obtain sh old where read: "readRules path h = (Inr (sh, old), h)"
    using assms by (cases "readRules path h") (auto simp: addRule_def bnd_run elim: readRules_cases split: sum.splits)
  show ?thesis
  proof (cases "list_ex (\<lambda>item. sameRule item rule) old")
    case True
    then have "h' = h" using assms read by (simp add: addRule_def bnd_run)
    with True read show ?thesis
      by (intro that [of old old]) (auto simp: listRules_def bnd_run list_ex_iff)
  next
    case False
    then have "rh_files h' path = Some (RulesFile (Some (old @ [rule])))"
      using assms read by (auto simp: addRule_def bnd_run)
    then have "listRules path h' = (Inr (old @ [rule]), h')"
      by (simp add: listRules_def bnd_run readRules_def)
    with read show ?thesis
      by (intro that [of old "old @ [rule]"]) (auto simp: listRules_def bnd_run)
  qed
qed

lemma buildShellPrefixPattern_trim [simp]:
  "buildShellPrefixPattern (trim command) = buildShellPrefixPattern command"
  by (simp add: buildShellPrefixPattern_def trim_idem)

lemma trim_Cons_space [simp]: "trim (CHR '' '' # s) = trim s"
  by (simp add: trim_def trimBy_def)

subsection \<open>Reading an approval text back\<close>

lemma parseReasonMap_lines:
  assumes "ls \<noteq> []" and "\<forall>l \<in> set ls. nl \<notin> set l"
  shows "parseApprovalReasonMap (joinWith [nl] (reason # ls)) =
    fold (\<lambda>line m. case parseReasonLine line of None \<Rightarrow> m | Some (k, v) \<Rightarrow> m(k \<mapsto> v)) ls
      (parseApprovalReasonMap reason)"
proof -
  have "joinWith [nl] (reason # ls) = reason @ nl # joinWith [nl] ls"
    using assms(1) by (cases ls) auto
  then have "splitOn nl (joinWith [nl] (reason # ls)) = splitOn nl reason @ ls"
    using assms by (simp add: splitOn_at splitOn_joinWith)
  then show ?thesis by (simp add: parseApprovalReasonMap_def)
qed

lemma reason_line:
  assumes "CHR '':'' \<notin> set k" and "k \<noteq> []" and "trim k = k"
  shows "parseReasonLine (k @ CHR '':'' # CHR '' '' # v) = Some (k, trim v)"
  using assms by (simp add: parseReasonLine_def indexOf_append)

lemma shell_reason_command:
  assumes "nl \<notin> set (sp_command p)" and "nl \<notin> set (sp_cwd p)"
  shows "parseApprovalReasonMap (formatApprovalReason reason (ShellP p)) ''Command'' =
    Some (trim (sp_command p))"
proof -
  have t: "trim ''Command'' = ''Command''" "trim ''CWD'' = ''CWD''" "trim ''Network'' = ''Network''"
    by (rule trim_id, simp add: isWs_def)+
  have 1: "parseReasonLine (''Command: '' @ v) = Some (''Command'', trim v)" for v
    using reason_line [of "''Command''" v] t by simp
  have 2: "parseReasonLine (''CWD: '' @ v) = Some (''CWD'', trim v)" for v
    using reason_line [of "''CWD''" v] t by simp
  have 3: "parseReasonLine (''Network: '' @ v) = Some (''Network'', trim v)" for v
    using reason_line [of "''Network''" v] t by simp
  have "nl \<notin> set (networkStr (sp_networkAccess p))" by (cases "sp_networkAccess p") simp_all
  then have "parseApprovalReasonMap (joinWith [nl] (reason # approvalReasonLines (ShellP p))) =
    fold (\<lambda>line m. case parseReasonLine line of None \<Rightarrow> m | Some (k, v) \<Rightarrow> m(k \<mapsto> v))
      (approvalReasonLines (ShellP p)) (parseApprovalReasonMap reason)"
    using assms by (intro parseReasonMap_lines) auto
  then show ?thesis
    unfolding formatApprovalReason_def by (simp only: approvalReasonLines.simps fold.simps 1 2 3) simp
qed

subsection \<open>Properties\<close>

text \<open>
  The text hashed for a shell request identifies it: two requests of one tool whose working
  directories and executables contain no bar get the same text exactly when their commands agree up to
  white space, their directories and executables up to case (and the kind of slash), and their network
  access is the same. Bars inside the command do no harm.\<close>

theorem shell_fingerprint_exact:
  assumes "CHR ''|'' \<notin> set (sp_cwd p)" and "CHR ''|'' \<notin> set (sp_executable p)"
    and "CHR ''|'' \<notin> set (sp_cwd q)" and "CHR ''|'' \<notin> set (sp_executable q)"
  shows "fingerprintRaw canonUrl tool (ShellP p) = fingerprintRaw canonUrl tool (ShellP q) \<longleftrightarrow>
    normalizeWhitespace (sp_command p) = normalizeWhitespace (sp_command q) \<and>
    normalizePath (sp_cwd p) = normalizePath (sp_cwd q) \<and>
    lower (sp_executable p) = lower (sp_executable q) \<and> sp_networkAccess p = sp_networkAccess q"
proof -
  have split: "fingerprintRaw canonUrl tool (ShellP r) =
      (((tool @ ''|shell|'' @ normalizeWhitespace (sp_command r)) @ CHR ''|'' # normalizePath (sp_cwd r)) @
        CHR ''|'' # lower (sp_executable r)) @ CHR ''|'' # networkStr (sp_networkAccess r)" for r
    by simp
  show ?thesis unfolding split by (simp only: last_field pipe_network pipe_lower pipe_normalizePath
      assms networkStr_inj same_append_eq not_False_eq_True) (simp only: conj_assoc)
qed

definition samplePlan :: "string \<Rightarrow> ShellPlan" where
  "samplePlan command = \<lparr>sp_command = command, sp_executable = ''git'', sp_cwd = ''/ws'', sp_envKeys = [],
     sp_timeoutMs = 1000, sp_pathScope = Workspace, sp_networkAccess = Disabled\<rparr>"

theorem shell_fingerprint_exact_witness:
  "fingerprintRaw (\<lambda>_. None) ''shell'' (ShellP (samplePlan ''a | b'')) \<noteq>
    fingerprintRaw (\<lambda>_. None) ''shell'' (ShellP (samplePlan ''a b''))"
proof -
  have "normalizeWhitespace ''a | b'' \<noteq> normalizeWhitespace ''a b''"
    by (simp add: normalizeWhitespace_def collapseWs_def isWs_def trim_def trimBy_def)
  then show ?thesis
    using shell_fingerprint_exact [of "samplePlan ''a | b''" "samplePlan ''a b''" "\<lambda>_. None" "''shell''"]
    by (simp add: samplePlan_def del: fingerprintRaw.simps)
qed

text \<open>
  Granting a shell approval with scope always makes the store recognise its fingerprint, and also
  leaves a prefix rule that covers the approved command and every command whose words begin with the
  words of the approved one, whatever follows them.\<close>

theorem always_shell_rule:
  assumes "ap_toolName a = ''shell''" and "ap_fingerprint a = Some fp"
    and "ap_reason a = formatApprovalReason reason (ShellP p)"
    and "nl \<notin> set (sp_command p)" and "nl \<notin> set (sp_cwd p)"
    and "buildShellPrefixPattern (sp_command p) \<noteq> []"
    and "addAlwaysRulesFromApproval now path a reviewer h = (Inr (), h')"
  shows "hasFingerprint path fp h' = (Inr True, h') \<and>
    (\<exists>rules. listRules path h' = (Inr rules, h') \<and>
      (\<exists>rule \<in> set rules. \<forall>q. ruleMatches rule (ShellP q) ''shell'' =
        prefix (map lower (buildShellPrefixPattern (sp_command p)))
          (map lower (buildShellPrefixPattern (sp_command q)))))"
proof -
  let ?pat = "buildShellPrefixPattern (sp_command p)"
  let ?r1 = "\<lparr>rl_kind = Some RK_fingerprint, rl_fingerprint = Some fp, rl_pattern = None,
      rl_toolName = Some ''shell'', rl_pathPrefix = None, rl_createdAt = now,
      rl_createdBy = reviewer, rl_description = hd (splitOn nl (ap_reason a))\<rparr>"
  let ?r2 = "\<lparr>rl_kind = Some RK_shell_prefix, rl_fingerprint = None, rl_pattern = Some ?pat,
      rl_toolName = Some ''shell'', rl_pathPrefix = None, rl_createdAt = now,
      rl_createdBy = reviewer, rl_description = ''shell'' @ '' '' @ joinWith '' '' ?pat\<rparr>"
  have cmd: "parseApprovalReasonMap (ap_reason a) ''Command'' = Some (trim (sp_command p))"
    using shell_reason_command [OF assms(4,5)] assms(3) by simp
  have "\<exists>h1. addRule path ?r1 h = (Inr (), h1) \<and> addRule path ?r2 h1 = (Inr (), h')"
    using assms(7) cmd
    unfolding addAlwaysRulesFromApproval_def assms(1,2) Let_def
    by (auto simp: assms(6) elim!: bnd_InrE split: option.splits)
  then obtain h1 where h1: "addRule path ?r1 h = (Inr (), h1)" "addRule path ?r2 h1 = (Inr (), h')"
    by blast
  obtain rules1 where l1: "listRules path h1 = (Inr rules1, h1)" "\<exists>item \<in> set rules1. sameRule item ?r1"
    using addRule_listed [OF h1(1)] by metis
  obtain old rules where l2: "listRules path h1 = (Inr old, h1)" "listRules path h' = (Inr rules, h')"
    "set old \<subseteq> set rules" "\<exists>item \<in> set rules. sameRule item ?r2"
    using addRule_listed [OF h1(2)] by metis
  have "\<exists>item \<in> set rules. sameRule item ?r1" using l1 l2 by auto
  then have "hasFingerprint path fp h' = (Inr True, h')"
    using l2(2) by (auto simp: hasFingerprint_def bnd_run list_ex_iff sameRule_def resolveRuleKind_def
        split: if_splits)
  moreover obtain item where item: "item \<in> set rules" "sameRule item ?r2" using l2(4) by blast
  have k2: "resolveRuleKind ?r2 = RK_shell_prefix" by (simp add: resolveRuleKind_def)
  have it: "resolveRuleKind item = RK_shell_prefix" "rl_toolName item = Some ''shell''"
    "(case rl_pattern item of None \<Rightarrow> [] | Some ts \<Rightarrow> ts) = ?pat"
    using item(2) unfolding sameRule_def k2 by (auto split: if_splits)
  have "ruleMatches item (ShellP q) ''shell'' =
      prefix (map lower ?pat) (map lower (buildShellPrefixPattern (sp_command q)))" for q
    using it assms(6) by (simp add: ruleMatches_def matchesShellPrefixPattern_iff)
  then have "\<exists>rule \<in> set rules. \<forall>q. ruleMatches rule (ShellP q) ''shell'' =
      prefix (map lower ?pat) (map lower (buildShellPrefixPattern (sp_command q)))"
    using item(1) by blast
  ultimately show ?thesis using l2(2) by blast
qed

definition sampleShellApproval :: ApprovalRecord where
  "sampleShellApproval = \<lparr>ap_approvalId = ''a1'', ap_taskId = ''t1'', ap_toolCallId = ''c1'',
     ap_toolName = ''shell'', ap_requesterUserId = ''u'', ap_status = A_approved,
     ap_reason = formatApprovalReason ''r'' (ShellP (samplePlan ''git'')), ap_requestedAt = 0,
     ap_expiresAt = 100, ap_decidedAt = Some 1, ap_reviewerId = Some ''u'', ap_reviewerNotes = None,
     ap_allowScope = Some Always, ap_fingerprint = Some ''f'', ap_policyDecisionId = ''p'',
     ap_errorCode = None\<rparr>"

lemma sample_pattern: "buildShellPrefixPattern ''git'' = [''git'']"
  "buildShellPrefixPattern ''git status'' = [''git'', ''status'']"
  by (subst buildShellPrefixPattern_def, simp add: trim_def trimBy_def isWs_def splitWs.simps)+

theorem always_shell_rule_witness:
  "\<exists>h' rules rule. listRules ''/ws'' h' = (Inr rules, h') \<and> rule \<in> set rules \<and>
    ruleMatches rule (ShellP (samplePlan ''git status'')) ''shell''"
proof -
  obtain u h' where run: "addAlwaysRulesFromApproval 5 ''/ws'' sampleShellApproval ''u''
      (processStart Map.empty) = (u, h')"
    by (cases "addAlwaysRulesFromApproval 5 ''/ws'' sampleShellApproval ''u'' (processStart Map.empty)")
  have cmd: "parseApprovalReasonMap (formatApprovalReason ''r'' (ShellP (samplePlan ''git''))) ''Command''
      = Some (trim ''git'')"
    using shell_reason_command [of "samplePlan ''git''" "''r''"] by (simp add: samplePlan_def)
  have "fst (addAlwaysRulesFromApproval 5 ''/ws'' sampleShellApproval ''u'' (processStart Map.empty)) = Inr ()"
    by (simp add: addAlwaysRulesFromApproval_def sampleShellApproval_def cmd Let_def addRule_def
        processStart_def DEFAULT_CONFIG_def readRules_def bnd_run sameRule_def resolveRuleKind_def
        sample_pattern split: option.splits)
  with run have ok: "addAlwaysRulesFromApproval 5 ''/ws'' sampleShellApproval ''u''
      (processStart Map.empty) = (Inr (), h')" by simp
  have "\<exists>rules. listRules ''/ws'' h' = (Inr rules, h') \<and>
      (\<exists>rule \<in> set rules. \<forall>q. ruleMatches rule (ShellP q) ''shell'' =
        prefix (map lower (buildShellPrefixPattern (sp_command (samplePlan ''git''))))
          (map lower (buildShellPrefixPattern (sp_command q))))"
    using always_shell_rule [OF _ _ _ _ _ _ ok, of "''f''" "''r''" "samplePlan ''git''"]
    by (simp add: sampleShellApproval_def samplePlan_def sample_pattern)
  moreover have "prefix (map lower (buildShellPrefixPattern (sp_command (samplePlan ''git''))))
      (map lower (buildShellPrefixPattern (sp_command (samplePlan ''git status''))))"
    by (simp add: samplePlan_def sample_pattern)
  ultimately show ?thesis by blast
qed

text \<open>
  The store approves a request by rule only when exactly one rule covers it, so adding a second
  rule that covers a request turns its automatic approval off: granting always for a longer command
  withdraws what an earlier, shorter prefix rule had granted for it.\<close>

theorem second_rule_withdraws:
  assumes "ruleStoreMatches path plan tool h = (Inr True, h)"
    and "listRules path h = (Inr rules, h)" and "\<forall>item \<in> set rules. \<not> sameRule item rule"
    and "ruleMatches rule plan tool"
  shows "\<exists>h'. addRule path rule h = (Inr (), h') \<and> ruleStoreMatches path plan tool h' = (Inr False, h')"
proof -
  obtain sh where read: "readRules path h = (Inr (sh, rules), h)"
    using listRules_read [OF assms(2)] by blast
  have one: "length (filter (\<lambda>r. ruleMatches r plan tool) rules) = 1"
    using assms(1,2) by (simp add: ruleStoreMatches_def)
  have "\<not> list_ex (\<lambda>item. sameRule item rule) rules" using assms(3) by (auto simp: list_ex_iff)
  then obtain h' where h': "addRule path rule h = (Inr (), h')"
    "rh_files h' path = Some (RulesFile (Some (rules @ [rule])))"
    using read by (auto simp: addRule_def bnd_run)
  then have "listRules path h' = (Inr (rules @ [rule]), h')"
    by (simp add: listRules_def bnd_run readRules_def)
  with h'(1) one assms(4) show ?thesis by (simp add: ruleStoreMatches_def)
qed

definition samplePrefixRule :: "string list \<Rightarrow> PersistedApprovalRule" where
  "samplePrefixRule pattern = \<lparr>rl_kind = Some RK_shell_prefix, rl_fingerprint = None,
     rl_pattern = Some pattern, rl_toolName = Some ''shell'', rl_pathPrefix = None, rl_createdAt = 0,
     rl_createdBy = ''u'', rl_description = ''d''\<rparr>"

theorem second_rule_withdraws_witness:
  "\<exists>h h'. ruleStoreMatches ''/ws'' (ShellP (samplePlan ''git status'')) ''shell'' h = (Inr True, h) \<and>
    addRule ''/ws'' (samplePrefixRule [''git'', ''status'']) h = (Inr (), h') \<and>
    ruleStoreMatches ''/ws'' (ShellP (samplePlan ''git status'')) ''shell'' h' = (Inr False, h')"
proof -
  let ?h = "processStart [''/ws'' \<mapsto> RulesFile (Some [samplePrefixRule [''git'']])]"
  let ?r = "samplePrefixRule [''git'', ''status'']"
  have l: "listRules ''/ws'' ?h = (Inr [samplePrefixRule [''git'']], ?h)"
    by (simp add: listRules_def bnd_run readRules_def processStart_def)
  have m: "ruleMatches (samplePrefixRule [''git'']) (ShellP (samplePlan ''git status'')) ''shell''"
    "ruleMatches ?r (ShellP (samplePlan ''git status'')) ''shell''"
    by (simp_all add: ruleMatches_def samplePrefixRule_def resolveRuleKind_def
        matchesShellPrefixPattern_iff samplePlan_def sample_pattern)
  have y: "ruleStoreMatches ''/ws'' (ShellP (samplePlan ''git status'')) ''shell'' ?h = (Inr True, ?h)"
    using l m(1) by (simp add: ruleStoreMatches_def)
  have n: "\<forall>item \<in> set [samplePrefixRule [''git'']]. \<not> sameRule item ?r"
    by (simp add: sameRule_def samplePrefixRule_def resolveRuleKind_def)
  from second_rule_withdraws [OF y l n m(2)] y show ?thesis by blast
qed

text \<open>
  How far an added rule reaches: a workspace with a rules file of its own is not affected by a rule
  added for another one, but when neither workspace has any rules stored, the rule added for one also
  applies to the other in the same process, because both stores share the default configuration.\<close>

theorem added_rule_reach:
  assumes "addRule p rule h = (Inr (), h')" and "q \<noteq> p"
  shows "(case rh_files h q of
       Some (RulesFile own) \<Rightarrow>
         listRules q h' = (Inr (case own of None \<Rightarrow> [] | Some rules \<Rightarrow> rules), h')
     | Some BadJson \<Rightarrow> listRules q h' = (Inl (PlainError ''SyntaxError''), h')
     | _ \<Rightarrow> if rh_files h p \<in> {None, Some BlankFile}
           then \<exists>rules. listRules q h' = (Inr rules, h') \<and> (\<exists>item \<in> set rules. sameRule item rule)
           else listRules q h' = (Inr (rh_default h), h'))"
proof -
  have files: "rh_files h' q = rh_files h q"
    using assms by (auto simp: addRule_def bnd_run readRules_def split: if_splits prod.splits sum.splits option.splits RuleFile.splits)
  have keep: "rh_default h' = rh_default h" if "rh_files h p \<notin> {None, Some BlankFile}"
    using assms(1) that
    by (auto simp: addRule_def bnd_run readRules_def split: if_splits prod.splits sum.splits option.splits RuleFile.splits)
  have leak: "\<exists>item \<in> set (rh_default h'). sameRule item rule" if "rh_files h p \<in> {None, Some BlankFile}"
    using assms(1) that
    by (auto simp: addRule_def bnd_run readRules_def list_ex_iff split: if_splits prod.splits sum.splits option.splits RuleFile.splits)
  show ?thesis
    using files keep leak
    by (auto simp: listRules_def bnd_run readRules_def split: option.splits RuleFile.splits)
qed

theorem added_rule_reach_witness:
  "\<exists>h' rules. addRule ''/a'' (samplePrefixRule [''git'']) (processStart Map.empty) = (Inr (), h') \<and>
    listRules ''/b'' h' = (Inr rules, h') \<and> rules \<noteq> []"
proof -
  obtain h' where add: "addRule ''/a'' (samplePrefixRule [''git'']) (processStart Map.empty) = (Inr (), h')"
    by (simp add: addRule_def bnd_run readRules_def processStart_def DEFAULT_CONFIG_def)
  have "rh_files (processStart Map.empty) ''/b'' = None" "rh_files (processStart Map.empty) ''/a'' = None"
    by (simp_all add: processStart_def)
  with added_rule_reach [OF add, of "''/b''"] add show ?thesis by (auto split: if_splits)
qed

lemma merge_one:
  "set (fold (\<lambda>f m. if 0 < length f then setAdd f m else m) fs acc) = set acc \<union> (set fs - {[]})"
  "distinct (fold (\<lambda>f m. if 0 < length f then setAdd f m else m) fs acc) = distinct acc"
  by (induction fs arbitrary: acc) auto

lemma merge_all:
  fixes ls :: "string list option list"
  defines "step \<equiv> \<lambda>l merged. case l of None \<Rightarrow> merged
      | Some fs \<Rightarrow> fold (\<lambda>f m. if 0 < length f then setAdd f m else m) fs merged"
  shows "set (fold step ls acc) = set acc \<union> (\<Union> (set ` {l. Some l \<in> set ls}) - {[]})"
    "distinct (fold step ls acc) = distinct acc"
proof (induction ls arbitrary: acc)
  case Nil
  {
    case 1 then show ?case by simp
  next
    case 2 then show ?case by simp
  }
next
  case (Cons l ls)
  have step: "set (step l acc) = set acc \<union> (case l of None \<Rightarrow> {} | Some fs \<Rightarrow> set fs - {[]})"
    "distinct (step l acc) = distinct acc" for acc
    by (cases l; simp only: step_def option.case merge_one Un_empty_right)+
  have "{x. Some x \<in> set (l # ls)} =
      (case l of None \<Rightarrow> {} | Some fs \<Rightarrow> {fs}) \<union> {x. Some x \<in> set ls}"
    by (cases l) auto
  then have split: "\<Union> (set ` {x. Some x \<in> set (l # ls)}) =
      (case l of None \<Rightarrow> {} | Some fs \<Rightarrow> set fs) \<union> \<Union> (set ` {x. Some x \<in> set ls})"
    by (cases l) simp_all
  {
    case 1 show ?case
      unfolding split fold_Cons comp_apply Cons.IH(1) step(1) by (cases l; simp; blast)
  next
    case 2 show ?case using Cons.IH(2) [of "step l acc"] step by simp
  }
qed

lemma merged_fingerprints:
  "set (mergeSessionApprovalFingerprintLists ls) = \<Union> (set ` {l. Some l \<in> set ls}) - {[]}"
  "distinct (mergeSessionApprovalFingerprintLists ls)"
  using merge_all [of ls "[]"] by (simp_all add: mergeSessionApprovalFingerprintLists_def)

lemma read_written_fingerprints:
  "[] \<notin> set fs \<Longrightarrow> List.map_filter (\<lambda>v. case v of JStr s \<Rightarrow> (if 0 < length s then Some s else None) | _ \<Rightarrow> None)
     (map JStr fs) = fs"
  by (induction fs) (auto simp: List.map_filter_def)

text \<open>Merging session fingerprints into task metadata stores, once each, exactly the non-empty
  fingerprints already there and those of the merged lists, reading them back yields the stored list,
  and no other metadata key changes.\<close>

theorem session_merge_exact:
  "(let merged = withMergedSessionApprovalFingerprints metadata ls;
        stored = readSessionApprovalFingerprints (Some merged)
    in distinct stored \<and>
       set stored = set (readSessionApprovalFingerprints metadata) \<union>
         (\<Union> (set ` {l. Some l \<in> set ls}) - {[]}) \<and>
       (\<forall>k. jget merged k = (if k = ''sessionApprovalFingerprints'' then Some (JArr (map JStr stored))
          else jget (case metadata of None \<Rightarrow> [] | Some m \<Rightarrow> m) k)))"
proof -
  let ?fs = "mergeSessionApprovalFingerprintLists (Some (readSessionApprovalFingerprints metadata) # ls)"
  have ne: "[] \<notin> set (readSessionApprovalFingerprints metadata)"
    by (auto simp: readSessionApprovalFingerprints_def List.map_filter_def split: option.splits json.splits if_splits)
  have "[] \<notin> set ?fs" by (simp add: merged_fingerprints)
  then have stored: "readSessionApprovalFingerprints (Some (withMergedSessionApprovalFingerprints metadata ls)) = ?fs"
    unfolding readSessionApprovalFingerprints_def [of "Some _"] withMergedSessionApprovalFingerprints_def
    by (simp only: option.case jget_jput_same json.case read_written_fingerprints not_False_eq_True)
  have "set ?fs = set (readSessionApprovalFingerprints metadata) \<union> (\<Union> (set ` {l. Some l \<in> set ls}) - {[]})"
    using ne unfolding merged_fingerprints by auto
  then show ?thesis
    unfolding Let_def stored using merged_fingerprints(2)
    by (simp add: withMergedSessionApprovalFingerprints_def jget_jput)
qed

end
