(* ===== verification/Budget.thy ===== *)
theory Budget
  imports Governance
begin

section \<open>Token and cost budgets\<close>

text \<open>
  src/src/runtime/budget/budget-policy.ts and budget-service.ts. The state is the service's maps of
  the usage per task and per session, the two downgrade sets, and the trace and audit entries it
  wrote. Costs are in units of 10^-8 US dollars, the precision to which \<open>computeCostUsd\<close> rounds
  every amount; the floating-point rounding of their sums is not modelled.
\<close>

subsection \<open>Types\<close>

datatype RoutingMode = Cheap_first | Balanced | Quality_first
datatype BudgetScope = Task_scope | Session_budget
datatype BudgetLimitKind = Input_limit | Output_limit | Cost_limit
datatype BudgetStatus = Within | Soft | Hard
datatype BudgetAction = Continue | Soft_downgrade | Hard_abort

record BudgetLimits =
  bl_softInputTokens :: "int option"
  bl_hardInputTokens :: "int option"
  bl_softOutputTokens :: "int option"
  bl_hardOutputTokens :: "int option"
  bl_softCostUsd :: "int option"
  bl_hardCostUsd :: "int option"

record BudgetState =
  bs_usedInput :: int
  bs_usedOutput :: int
  bs_usedCostUsd :: int

record BudgetEnforcementDecision =
  be_action :: BudgetAction
  be_reasons :: "string list"
  be_status :: BudgetStatus
  be_breachedLimit :: "BudgetLimitKind option"

record ProviderUsage =
  pu_inputTokens :: int
  pu_outputTokens :: int

record RecordBudgetUsageInput =
  bi_taskId :: string
  bi_sessionId :: "string option"
  bi_mode :: RoutingMode
  bi_usage :: ProviderUsage
  bi_costUsd :: "int option"

record BudgetServiceConfig =
  bc_task :: BudgetLimits
  bc_session :: BudgetLimits

record BudgetService =
  sv_taskStates :: "string \<Rightarrow> BudgetState option"
  sv_sessionStates :: "string \<Rightarrow> BudgetState option"
  sv_taskDowngrade :: "string set"
  sv_sessionDowngrade :: "string set"
  sv_trace :: "TraceEvent list"
  sv_audit :: "AuditEntry list"

fun modeStr :: "RoutingMode \<Rightarrow> string" where
  "modeStr Cheap_first = ''cheap_first''"
| "modeStr Balanced = ''balanced''"
| "modeStr Quality_first = ''quality_first''"

fun scopeStr :: "BudgetScope \<Rightarrow> string" where
  "scopeStr Task_scope = ''task''"
| "scopeStr Session_budget = ''session''"

fun limitKindStr :: "BudgetLimitKind \<Rightarrow> string" where
  "limitKindStr Input_limit = ''input''"
| "limitKindStr Output_limit = ''output''"
| "limitKindStr Cost_limit = ''cost''"

subsection \<open>Policy\<close>

text \<open>One of the two tests of \<open>evaluate\<close>: the limits of a kind, and its name in the reasons.\<close>

definition reached :: "int option \<Rightarrow> int \<Rightarrow> bool" where
  "reached limit used = (case limit of None \<Rightarrow> False | Some l \<Rightarrow> used \<ge> l)"

definition evaluateBudget ::
  "BudgetState \<Rightarrow> BudgetLimits \<Rightarrow> bool \<Rightarrow> BudgetLimitKind option \<times> string list" where
  "evaluateBudget state limits hard =
     (let kind = (if hard then ''hard'' else ''soft'');
          input = reached (if hard then bl_hardInputTokens limits else bl_softInputTokens limits)
                    (bs_usedInput state);
          output = reached (if hard then bl_hardOutputTokens limits else bl_softOutputTokens limits)
                    (bs_usedOutput state);
          cost = reached (if hard then bl_hardCostUsd limits else bl_softCostUsd limits)
                    (bs_usedCostUsd state)
      in (if input then Some Input_limit else if output then Some Output_limit
          else if cost then Some Cost_limit else None,
          (if input then [kind @ '' input token limit reached''] else []) @
          (if output then [kind @ '' output token limit reached''] else []) @
          (if cost then [kind @ '' cost limit reached''] else [])))"

definition classifyBudgetState :: "BudgetState \<Rightarrow> BudgetLimits \<Rightarrow> BudgetEnforcementDecision" where
  "classifyBudgetState state limits =
     (case evaluateBudget state limits True of
        (Some k, reasons) \<Rightarrow>
          \<lparr>be_action = Hard_abort, be_reasons = reasons, be_status = Hard, be_breachedLimit = Some k\<rparr>
      | (None, _) \<Rightarrow>
          (case evaluateBudget state limits False of
             (Some k, reasons) \<Rightarrow>
               \<lparr>be_action = Soft_downgrade, be_reasons = reasons, be_status = Soft, be_breachedLimit = Some k\<rparr>
           | (None, _) \<Rightarrow>
               \<lparr>be_action = Continue, be_reasons = [], be_status = Within, be_breachedLimit = None\<rparr>))"

subsection \<open>Service\<close>

definition nextState :: "BudgetState option \<Rightarrow> ProviderUsage \<Rightarrow> int option \<Rightarrow> BudgetState" where
  "nextState current usage costUsd =
     (let c = (case current of None \<Rightarrow> \<lparr>bs_usedInput = 0, bs_usedOutput = 0, bs_usedCostUsd = 0\<rparr>
                             | Some s \<Rightarrow> s)
      in \<lparr>bs_usedInput = bs_usedInput c + pu_inputTokens usage,
          bs_usedOutput = bs_usedOutput c + pu_outputTokens usage,
          bs_usedCostUsd = bs_usedCostUsd c + (case costUsd of None \<Rightarrow> 0 | Some x \<Rightarrow> x)\<rparr>)"

definition budgetTrace :: "string \<Rightarrow> string \<Rightarrow> BudgetScope \<Rightarrow> RecordBudgetUsageInput \<Rightarrow> BudgetState \<Rightarrow>
    BudgetEnforcementDecision \<Rightarrow> TraceEvent" where
  "budgetTrace eventType what scope i state d =
     \<lparr>te_actor = ''runtime.budget'', te_eventType = eventType,
      te_payload =
        [(''breachedLimit'', jopt (map_option limitKindStr (be_breachedLimit d))),
         (''mode'', JStr (modeStr (bi_mode i))), (''reasons'', JArr (map JStr (be_reasons d))),
         (''scope'', JStr (scopeStr scope)), (''taskId'', JStr (bi_taskId i)),
         (''sessionId'', jopt (bi_sessionId i)), (''usedCostUsd'', JNum (bs_usedCostUsd state)),
         (''usedInput'', JNum (bs_usedInput state)), (''usedOutput'', JNum (bs_usedOutput state))],
      te_stage = ''control'',
      te_summary = ''Budget '' @ what @ '' limit reached for '' @ scopeStr scope,
      te_taskId = bi_taskId i\<rparr>"

definition budgetAudit :: "string \<Rightarrow> string \<Rightarrow> string \<Rightarrow> BudgetScope \<Rightarrow> RecordBudgetUsageInput \<Rightarrow>
    BudgetEnforcementDecision \<Rightarrow> AuditEntry" where
  "budgetAudit action outcome what scope i d =
     \<lparr>ae_action = action, ae_actor = ''runtime.budget'', ae_approvalId = None, ae_outcome = outcome,
      ae_payload =
        [(''breachedLimit'', jopt (map_option limitKindStr (be_breachedLimit d))),
         (''reasons'', JArr (map JStr (be_reasons d))), (''scope'', JStr (scopeStr scope)),
         (''taskId'', JStr (bi_taskId i)), (''sessionId'', jopt (bi_sessionId i))],
      ae_summary = ''Budget '' @ what @ '' for '' @ scopeStr scope,
      ae_taskId = Some (bi_taskId i), ae_toolCallId = None\<rparr>"

definition handleDecision :: "BudgetScope \<Rightarrow> string \<Rightarrow> RecordBudgetUsageInput \<Rightarrow> BudgetState \<Rightarrow>
    BudgetEnforcementDecision \<Rightarrow> BudgetService \<Rightarrow> BudgetService" where
  "handleDecision scope i_d i state d b =
     (case be_action d of
        Continue \<Rightarrow> b
      | Soft_downgrade \<Rightarrow>
          (let b1 = (case scope of
                 Task_scope \<Rightarrow> b\<lparr>sv_taskDowngrade := insert i_d (sv_taskDowngrade b)\<rparr>
               | Session_budget \<Rightarrow> b\<lparr>sv_sessionDowngrade := insert i_d (sv_sessionDowngrade b)\<rparr>)
           in b1\<lparr>sv_trace := sv_trace b1 @ [budgetTrace ''budget_warning'' ''soft'' scope i state d],
                 sv_audit := sv_audit b1 @
                   [budgetAudit ''budget_warning'' ''succeeded'' ''warning'' scope i d]\<rparr>)
      | Hard_abort \<Rightarrow>
          b\<lparr>sv_trace := sv_trace b @ [budgetTrace ''budget_exceeded'' ''hard'' scope i state d],
            sv_audit := sv_audit b @ [budgetAudit ''budget_exceeded'' ''failed'' ''exceeded'' scope i d]\<rparr>)"

definition recordUsage :: "BudgetServiceConfig \<Rightarrow> RecordBudgetUsageInput \<Rightarrow> BudgetService \<Rightarrow>
    BudgetEnforcementDecision \<times> BudgetService" where
  "recordUsage config i b =
     (let tid = bi_taskId i;
          taskState = nextState (sv_taskStates b tid) (bi_usage i) (bi_costUsd i);
          b1 = b\<lparr>sv_taskStates := (sv_taskStates b)(tid \<mapsto> taskState)\<rparr>;
          taskDecision = classifyBudgetState taskState (bc_task config);
          b2 = handleDecision Task_scope tid i taskState taskDecision b1
      in if be_action taskDecision = Hard_abort then (taskDecision, b2)
         else (case bi_sessionId i of
                 None \<Rightarrow> (taskDecision, b2)
               | Some sid \<Rightarrow>
                   let sessionState = nextState (sv_sessionStates b2 sid) (bi_usage i) (bi_costUsd i);
                       b3 = b2\<lparr>sv_sessionStates := (sv_sessionStates b2)(sid \<mapsto> sessionState)\<rparr>;
                       sessionDecision = classifyBudgetState sessionState (bc_session config);
                       b4 = handleDecision Session_budget sid i sessionState sessionDecision b3
                   in if be_action sessionDecision = Hard_abort then (sessionDecision, b4)
                      else if be_action sessionDecision = Soft_downgrade then (sessionDecision, b4)
                      else (taskDecision, b4)))"

definition getTaskState :: "string \<Rightarrow> BudgetService \<Rightarrow> BudgetState option" where
  "getTaskState taskId b = sv_taskStates b taskId"

definition getSessionState :: "string \<Rightarrow> BudgetService \<Rightarrow> BudgetState option" where
  "getSessionState sessionId b = sv_sessionStates b sessionId"

definition isDowngradeActive :: "BudgetScope \<Rightarrow> string \<Rightarrow> BudgetService \<Rightarrow> bool" where
  "isDowngradeActive scope i_d b =
     (case scope of Task_scope \<Rightarrow> i_d \<in> sv_taskDowngrade b | Session_budget \<Rightarrow> i_d \<in> sv_sessionDowngrade b)"

definition newBudgetService :: BudgetService where
  "newBudgetService = \<lparr>sv_taskStates = Map.empty, sv_sessionStates = Map.empty,
     sv_taskDowngrade = {}, sv_sessionDowngrade = {}, sv_trace = [], sv_audit = []\<rparr>"

subsection \<open>Lemmas\<close>

text \<open>Some limit of the kind is reached.\<close>

definition breaches :: "BudgetState \<Rightarrow> BudgetLimits \<Rightarrow> bool \<Rightarrow> bool" where
  "breaches s l hard \<longleftrightarrow>
     reached (if hard then bl_hardInputTokens l else bl_softInputTokens l) (bs_usedInput s) \<or>
     reached (if hard then bl_hardOutputTokens l else bl_softOutputTokens l) (bs_usedOutput s) \<or>
     reached (if hard then bl_hardCostUsd l else bl_softCostUsd l) (bs_usedCostUsd s)"

lemma evaluateBudget_breaches:
  "(\<exists>k. fst (evaluateBudget s l hard) = Some k) \<longleftrightarrow> breaches s l hard"
  by (auto simp: evaluateBudget_def breaches_def Let_def)

lemma classify_action:
  "be_action (classifyBudgetState s l) =
    (if breaches s l True then Hard_abort else if breaches s l False then Soft_downgrade else Continue)"
  using evaluateBudget_breaches [of s l True] evaluateBudget_breaches [of s l False]
  by (auto simp: classifyBudgetState_def split: prod.splits option.splits)

lemma handleDecision_states [simp]:
  "sv_taskStates (handleDecision sc k i s d b) = sv_taskStates b"
  "sv_sessionStates (handleDecision sc k i s d b) = sv_sessionStates b"
  by (auto simp: handleDecision_def Let_def split: BudgetAction.splits BudgetScope.splits)

lemma handleDecision_task_downgrade:
  "sv_taskDowngrade (handleDecision sc k i s d b) =
    (if be_action d = Soft_downgrade \<and> sc = Task_scope then insert k (sv_taskDowngrade b)
     else sv_taskDowngrade b)"
  by (auto simp: handleDecision_def Let_def split: BudgetAction.splits BudgetScope.splits)

lemma handleDecision_session_downgrade:
  "sv_sessionDowngrade (handleDecision sc k i s d b) =
    (if be_action d = Soft_downgrade \<and> sc = Session_budget then insert k (sv_sessionDowngrade b)
     else sv_sessionDowngrade b)"
  by (auto simp: handleDecision_def Let_def split: BudgetAction.splits BudgetScope.splits)

lemma handleDecision_audit:
  "length (sv_audit (handleDecision sc k i s d b)) =
    length (sv_audit b) + (if be_action d = Continue then 0 else 1)"
  by (auto simp: handleDecision_def Let_def split: BudgetAction.splits BudgetScope.splits)

text \<open>One call, seen from the maps of usage.\<close>

lemma recordUsage_task:
  "sv_taskStates (snd (recordUsage cfg i b)) = (sv_taskStates b)
    (bi_taskId i \<mapsto> nextState (sv_taskStates b (bi_taskId i)) (bi_usage i) (bi_costUsd i))"
  by (auto simp: recordUsage_def Let_def split: option.splits)

definition taskAborts :: "BudgetServiceConfig \<Rightarrow> RecordBudgetUsageInput \<Rightarrow> BudgetService \<Rightarrow> bool" where
  "taskAborts cfg i b =
     breaches (nextState (sv_taskStates b (bi_taskId i)) (bi_usage i) (bi_costUsd i)) (bc_task cfg) True"

lemma recordUsage_session:
  "sv_sessionStates (snd (recordUsage cfg i b)) sid =
    (if bi_sessionId i = Some sid \<and> \<not> taskAborts cfg i b
     then Some (nextState (sv_sessionStates b sid) (bi_usage i) (bi_costUsd i))
     else sv_sessionStates b sid)"
  by (auto simp: recordUsage_def Let_def taskAborts_def classify_action split: option.splits)

subsection \<open>Runs of the service\<close>

fun budgetRun :: "BudgetServiceConfig \<Rightarrow> RecordBudgetUsageInput list \<Rightarrow> BudgetService \<Rightarrow> BudgetService" where
  "budgetRun cfg [] b = b"
| "budgetRun cfg (i # is) b = budgetRun cfg is (snd (recordUsage cfg i b))"

text \<open>The calls that reach the session accounts: those whose task stays below its hard limits.\<close>

fun chargedToSession ::
  "BudgetServiceConfig \<Rightarrow> RecordBudgetUsageInput list \<Rightarrow> BudgetService \<Rightarrow> RecordBudgetUsageInput list" where
  "chargedToSession cfg [] b = []"
| "chargedToSession cfg (i # is) b =
     (if taskAborts cfg i b then [] else [i]) @ chargedToSession cfg is (snd (recordUsage cfg i b))"

text \<open>The usage a list of calls adds up to.\<close>

definition totalUsage :: "RecordBudgetUsageInput list \<Rightarrow> BudgetState option" where
  "totalUsage is =
     (if is = [] then None
      else Some \<lparr>bs_usedInput = sum_list (map (pu_inputTokens \<circ> bi_usage) is),
                 bs_usedOutput = sum_list (map (pu_outputTokens \<circ> bi_usage) is),
                 bs_usedCostUsd = sum_list (map (\<lambda>i. case bi_costUsd i of None \<Rightarrow> 0 | Some x \<Rightarrow> x) is)\<rparr>)"

abbreviation addCall :: "RecordBudgetUsageInput \<Rightarrow> BudgetState option \<Rightarrow> BudgetState option" where
  "addCall i s \<equiv> Some (nextState s (bi_usage i) (bi_costUsd i))"

lemma fold_addCall: "fold addCall is None = totalUsage is"
proof (induction "is" rule: rev_induct)
  case Nil
  then show ?case by (simp add: totalUsage_def)
next
  case (snoc i js)
  then show ?case by (auto simp: totalUsage_def nextState_def Let_def)
qed

lemma budgetRun_task:
  "sv_taskStates (budgetRun cfg is b) tid =
    fold addCall (filter (\<lambda>i. bi_taskId i = tid) is) (sv_taskStates b tid)"
  by (induction "is" arbitrary: b) (auto simp: recordUsage_task)

lemma budgetRun_session:
  "sv_sessionStates (budgetRun cfg is b) sid =
    fold addCall (filter (\<lambda>i. bi_sessionId i = Some sid) (chargedToSession cfg is b)) (sv_sessionStates b sid)"
  by (induction "is" arbitrary: b) (auto simp: recordUsage_session)

lemma recordUsage_downgrade:
  "sv_taskDowngrade b \<subseteq> sv_taskDowngrade (snd (recordUsage cfg i b))"
  "sv_sessionDowngrade b \<subseteq> sv_sessionDowngrade (snd (recordUsage cfg i b))"
  by (auto simp: recordUsage_def Let_def handleDecision_task_downgrade handleDecision_session_downgrade
      split: option.splits)

subsection \<open>Properties\<close>

text \<open>
  What recording a call decides: abort exactly when the task's usage including the call reaches a
  hard task limit or, when the call has a session, the session's usage reaches a hard session limit; a
  downgrade exactly when neither aborts and one of them reaches a soft limit.\<close>

theorem budget_decision_exact:
  "(let task = nextState (sv_taskStates b (bi_taskId i)) (bi_usage i) (bi_costUsd i);
        over = (\<lambda>hard. breaches task (bc_task cfg) hard);
        sessionOver = (\<lambda>hard. case bi_sessionId i of None \<Rightarrow> False
          | Some sid \<Rightarrow> breaches (nextState (sv_sessionStates b sid) (bi_usage i) (bi_costUsd i))
              (bc_session cfg) hard)
    in be_action (fst (recordUsage cfg i b)) =
       (if over True \<or> sessionOver True then Hard_abort
        else if over False \<or> sessionOver False then Soft_downgrade else Continue))"
  by (auto simp: recordUsage_def Let_def classify_action split: option.splits)

text \<open>
  After any sequence of recorded calls the account of a task is the sum of the usage of its calls
  (none without a call), and the account of a session the sum over its calls except those that hit a
  hard limit of their task: these are not charged to the session.\<close>

theorem budget_totals:
  "sv_taskStates (budgetRun cfg is newBudgetService) tid =
     totalUsage (filter (\<lambda>i. bi_taskId i = tid) is) \<and>
   sv_sessionStates (budgetRun cfg is newBudgetService) sid =
     totalUsage (filter (\<lambda>i. bi_sessionId i = Some sid) (chargedToSession cfg is newBudgetService))"
  by (simp add: budgetRun_task budgetRun_session fold_addCall newBudgetService_def)

text \<open>
  A downgrade lasts: once a task or a session is in downgrade mode, every later sequence of
  recorded calls leaves it there.\<close>

theorem downgrade_lasts:
  assumes "isDowngradeActive scope i_d b"
  shows "isDowngradeActive scope i_d (budgetRun cfg is b)"
  using assms
proof (induction "is" arbitrary: b)
  case Nil
  then show ?case by simp
next
  case (Cons i js)
  then have "isDowngradeActive scope i_d (snd (recordUsage cfg i b))"
    using recordUsage_downgrade [of b cfg i]
    by (auto simp: isDowngradeActive_def split: BudgetScope.splits)
  with Cons.IH show ?case by simp
qed

definition sampleLimits :: BudgetServiceConfig where
  "sampleLimits =
     (let l = \<lparr>bl_softInputTokens = Some 5, bl_hardInputTokens = Some 100, bl_softOutputTokens = None,
               bl_hardOutputTokens = None, bl_softCostUsd = None, bl_hardCostUsd = None\<rparr>
      in \<lparr>bc_task = l, bc_session = l\<rparr>)"

definition sampleUsage :: "int \<Rightarrow> RecordBudgetUsageInput" where
  "sampleUsage n = \<lparr>bi_taskId = ''t1'', bi_sessionId = Some ''s1'', bi_mode = Balanced,
     bi_usage = \<lparr>pu_inputTokens = n, pu_outputTokens = 0\<rparr>, bi_costUsd = None\<rparr>"

theorem downgrade_lasts_witness:
  "isDowngradeActive Task_scope ''t1''
     (budgetRun sampleLimits [sampleUsage 1, sampleUsage 200]
       (snd (recordUsage sampleLimits (sampleUsage 7) newBudgetService)))"
proof -
  have "isDowngradeActive Task_scope ''t1'' (snd (recordUsage sampleLimits (sampleUsage 7) newBudgetService))"
    by (simp add: isDowngradeActive_def recordUsage_def Let_def handleDecision_task_downgrade
        classify_action breaches_def reached_def nextState_def sampleUsage_def sampleLimits_def
        newBudgetService_def)
  then show ?thesis by (rule downgrade_lasts)
qed

end
