(* ===== verification/DiffPreview.thy ===== *)
theory DiffPreview
  imports JsText
begin

section \<open>Previews of diffs, file changes and todo lists\<close>

text \<open>
  src/src/presentation/diff-preview.ts, file-change-trace.ts and todo-trace.ts: what the trace shows of
  a tool's output. The set of selected line numbers is a list in insertion order; the loops that stop
  when it is full are folds that no longer add to it.
\<close>

subsection \<open>Diff preview\<close>

datatype DiffPreviewLineKind = Added | Context | File_header | Hunk_header | Noise | Removed

record DiffHunk =
  dh_bodyIndices :: "nat list"
  dh_headerIndex :: nat

text \<open>\<open>s.split(/\r?\n/u)\<close>: a carriage return before a line feed belongs to the separator.\<close>

definition dropCr :: "string \<Rightarrow> string" where
  "dropCr s = (if s \<noteq> [] \<and> last s = CHR 0x0D then butlast s else s)"

definition splitLines :: "string \<Rightarrow> string list" where
  "splitLines s = (let ps = splitOn nl s in map dropCr (butlast ps) @ [last ps])"

definition classifyDiffPreviewLine :: "string \<Rightarrow> DiffPreviewLineKind" where
  "classifyDiffPreviewLine line =
     (if trim line \<noteq> [] \<and> list_all (\<lambda>c. c = CHR ''='') (trim line) then Noise
      else if startsWith line ''Index:'' then Noise
      else if startsWith line ''--- '' then File_header
      else if startsWith line ''+++ '' then File_header
      else if startsWith line ''@@'' then Hunk_header
      else if startsWith line ''+'' then Added
      else if startsWith line ''-'' then Removed
      else Context)"

definition isNoOpChangeLine :: "nat \<Rightarrow> DiffPreviewLineKind list \<Rightarrow> string list \<Rightarrow> bool" where
  "isNoOpChangeLine index kinds allLines =
     (let kind = kinds ! index
      in if kind \<noteq> Added \<and> kind \<noteq> Removed then False
         else let body = drop 1 (allLines ! index);
                  opposite = (if kind = Added then Removed else Added)
              in list_ex (\<lambda>other.
                   if kinds ! other \<noteq> opposite then False
                   else let otherBody = drop 1 (allLines ! other)
                        in otherBody = body \<or> (trim otherBody = trim body \<and> 0 < length (trim body)))
                 [0..<length allLines])"

definition isSelectableChangeLine :: "nat \<Rightarrow> DiffPreviewLineKind list \<Rightarrow> string list \<Rightarrow> bool" where
  "isSelectableChangeLine index kinds allLines =
     ((kinds ! index = Added \<or> kinds ! index = Removed) \<and> \<not> isNoOpChangeLine index kinds allLines)"

definition filterDiffPreviewLines :: "string list \<Rightarrow> DiffPreviewLineKind list \<Rightarrow> string list" where
  "filterDiffPreviewLines allLines kinds =
     map (\<lambda>i. allLines ! i)
       (filter (\<lambda>i. \<not> (kinds ! i = Noise \<or> isNoOpChangeLine i kinds allLines)) [0..<length allLines])"

definition buildDiffHunks :: "string list \<Rightarrow> DiffPreviewLineKind list \<Rightarrow> DiffHunk list" where
  "buildDiffHunks allLines kinds =
     (let (hunks, current) = fold (\<lambda>index (hunks, current).
            if kinds ! index = Noise then (hunks, current)
            else if kinds ! index = Hunk_header
              then ((case current of None \<Rightarrow> hunks | Some h \<Rightarrow> hunks @ [h]),
                    Some \<lparr>dh_bodyIndices = [], dh_headerIndex = index\<rparr>)
            else (hunks, map_option (\<lambda>h. h\<lparr>dh_bodyIndices := dh_bodyIndices h @ [index]\<rparr>) current))
          [0..<length allLines] ([], None)
      in (case current of None \<Rightarrow> hunks | Some h \<Rightarrow> hunks @ [h]))"

definition hasSelectedChange :: "DiffPreviewLineKind list \<Rightarrow> nat list \<Rightarrow> DiffHunk \<Rightarrow> bool" where
  "hasSelectedChange kinds inc hunk =
     list_ex (\<lambda>i. i \<in> set inc \<and> (kinds ! i = Added \<or> kinds ! i = Removed)) (dh_bodyIndices hunk)"

text \<open>The four loops that fill the set of shown lines.\<close>

definition selectFileHeaders :: "DiffPreviewLineKind list \<Rightarrow> nat \<Rightarrow> nat list" where
  "selectFileHeaders kinds n = take 2 (filter (\<lambda>i. kinds ! i = File_header) [0..<n])"

definition selectChanges :: "nat \<Rightarrow> DiffPreviewLineKind list \<Rightarrow> string list \<Rightarrow> nat list \<Rightarrow> nat list" where
  "selectChanges maxLines kinds allLines inc =
     fold (\<lambda>i inc. if maxLines \<le> length inc then inc
                    else if isSelectableChangeLine i kinds allLines then setAdd i inc else inc)
       [0..<length allLines] inc"

definition selectHunkHeaders :: "nat \<Rightarrow> DiffPreviewLineKind list \<Rightarrow> DiffHunk list \<Rightarrow> nat list \<Rightarrow> nat list" where
  "selectHunkHeaders maxLines kinds hunks inc =
     fold (\<lambda>h inc. if maxLines \<le> length inc then inc
                    else if hasSelectedChange kinds inc h then setAdd (dh_headerIndex h) inc else inc)
       hunks inc"

definition fillContext :: "nat \<Rightarrow> DiffPreviewLineKind list \<Rightarrow> nat list \<Rightarrow> nat list \<Rightarrow> nat list" where
  "fillContext maxLines kinds hunkLines inc =
     fold (\<lambda>i inc. if maxLines \<le> length inc then inc
                    else if kinds ! i = Context then setAdd i inc else inc) hunkLines inc"

definition selectContext :: "nat \<Rightarrow> DiffPreviewLineKind list \<Rightarrow> DiffHunk list \<Rightarrow> nat list \<Rightarrow> nat list" where
  "selectContext maxLines kinds hunks inc =
     fold (\<lambda>h inc. if \<not> hasSelectedChange kinds inc h then inc
                    else fillContext maxLines kinds (dh_headerIndex h # dh_bodyIndices h) inc)
       hunks inc"

record DiffPreview =
  dp_hiddenLineCount :: nat
  dp_lines :: "string list"

definition selectDiffPreviewLines :: "string \<Rightarrow> nat \<Rightarrow> DiffPreview" where
  "selectDiffPreviewLines unifiedDiff maxLines =
     (if unifiedDiff = [] \<or> maxLines = 0 then \<lparr>dp_hiddenLineCount = 0, dp_lines = []\<rparr>
      else let allLines = splitLines unifiedDiff;
               kinds = map classifyDiffPreviewLine allLines;
               n = length allLines
           in if n \<le> maxLines
              then let ls = filterDiffPreviewLines allLines kinds
                   in \<lparr>dp_hiddenLineCount = n - length ls, dp_lines = ls\<rparr>
              else if \<not> list_ex (\<lambda>k. k = File_header \<or> k = Hunk_header \<or> k = Added \<or> k = Removed) kinds
              then let ls = take maxLines allLines
                   in \<lparr>dp_hiddenLineCount = n - length ls, dp_lines = ls\<rparr>
              else let hunks = buildDiffHunks allLines kinds;
                       inc = selectContext maxLines kinds hunks
                               (selectHunkHeaders maxLines kinds hunks
                                 (selectChanges maxLines kinds allLines (selectFileHeaders kinds n)));
                       ls = map (\<lambda>i. allLines ! i) (filter (\<lambda>i. i \<in> set inc) [0..<n])
                   in \<lparr>dp_hiddenLineCount = n - length ls, dp_lines = ls\<rparr>)"

subsection \<open>File changes\<close>

record ArtifactDraft =
  at_artifactType :: string
  at_uri :: string
  at_content :: json

definition MAX_PREVIEW_LINES :: nat where "MAX_PREVIEW_LINES = 15"
definition MAX_PREVIEW_BYTES :: nat where "MAX_PREVIEW_BYTES = 2048"

definition truncateUnifiedDiffPreview :: "string \<Rightarrow> string" where
  "truncateUnifiedDiffPreview unifiedDiff =
     (if unifiedDiff = [] then []
      else let preview = joinWith [nl] (dp_lines (selectDiffPreviewLines unifiedDiff MAX_PREVIEW_LINES))
           in if MAX_PREVIEW_BYTES < length preview then take MAX_PREVIEW_BYTES preview else preview)"

definition readNumber :: "json option \<Rightarrow> int option" where
  "readNumber v = (case v of Some (JNum n) \<Rightarrow> Some n | _ \<Rightarrow> None)"

definition numberOr0 :: "json option \<Rightarrow> json" where
  "numberOr0 v = JNum (case readNumber v of None \<Rightarrow> 0 | Some n \<Rightarrow> n)"

definition extractFileChangeFromArtifacts :: "('a ArtifactDraft_scheme) list \<Rightarrow> json option" where
  "extractFileChangeFromArtifacts artifacts =
     (case List.find (\<lambda>a. at_artifactType a = ''file'') artifacts of
        None \<Rightarrow> None
      | Some a \<Rightarrow>
          (case at_content a of
             JObj content \<Rightarrow>
               (case jget content ''diffSummary'' of
                  Some (JObj diffSummary) \<Rightarrow> Some (JObj
                    [(''addedLineCount'', numberOr0 (jget diffSummary ''addedLineCount'')),
                     (''changedLineCount'', numberOr0 (jget diffSummary ''changedLineCount'')),
                     (''path'', JStr (case jget content ''path'' of Some (JStr p) \<Rightarrow> p | _ \<Rightarrow> at_uri a)),
                     (''removedLineCount'', numberOr0 (jget diffSummary ''removedLineCount'')),
                     (''unifiedDiffPreview'', JStr (truncateUnifiedDiffPreview
                        (case jget content ''unifiedDiff'' of Some (JStr d) \<Rightarrow> d | _ \<Rightarrow> [])))])
                | _ \<Rightarrow> None)
           | _ \<Rightarrow> None))"

subsection \<open>Todo lists\<close>

definition TODO_STATUSES :: "string list" where
  "TODO_STATUSES = [''pending'', ''in_progress'', ''completed'', ''cancelled'']"

definition parseTodoTraceItem :: "json \<Rightarrow> json_object option" where
  "parseTodoTraceItem value =
     (case value of
        JObj r \<Rightarrow>
          (case (jget r ''id'', jget r ''content'', jget r ''status'') of
             (Some (JStr i), Some (JStr c), Some (JStr s)) \<Rightarrow>
               (if s \<in> set TODO_STATUSES
                then Some ([(''content'', JStr c), (''id'', JStr i), (''status'', JStr s)] @
                       (case jget r ''statusUpdatedAt'' of
                          Some (JStr u) \<Rightarrow> [(''statusUpdatedAt'', JStr u)] | _ \<Rightarrow> []))
                else None)
           | _ \<Rightarrow> None)
      | _ \<Rightarrow> None)"

definition todoItems :: "json \<Rightarrow> json_object list" where
  "todoItems output =
     (case output of
        JObj r \<Rightarrow>
          (case jget r ''todos'' of
             Some (JArr items) \<Rightarrow> List.map_filter parseTodoTraceItem items
           | _ \<Rightarrow> [])
      | _ \<Rightarrow> [])"

definition completedCount :: "json_object list \<Rightarrow> int" where
  "completedCount todos = int (length (filter (\<lambda>t. jget t ''status'' = Some (JStr ''completed'')) todos))"

definition extractTodoSnapshotFromOutput :: "json \<Rightarrow> json option" where
  "extractTodoSnapshotFromOutput output =
     (let todos = todoItems output
      in if todos = [] then None
         else Some (JObj [(''doneCount'', JNum (completedCount todos)), (''todos'', JArr (map JObj todos)),
                (''totalCount'', JNum (int (length todos)))]))"

definition readTodoSnapshot :: "json \<Rightarrow> json option" where
  "readTodoSnapshot value =
     (let todos = todoItems value;
          field = (\<lambda>k. case value of JObj r \<Rightarrow> readNumber (jget r k) | _ \<Rightarrow> None)
      in if todos = [] then None
         else Some (JObj
           [(''doneCount'', JNum (case field ''doneCount'' of Some n \<Rightarrow> n | None \<Rightarrow> completedCount todos)),
            (''todos'', JArr (map JObj todos)),
            (''totalCount'', JNum (case field ''totalCount'' of Some n \<Rightarrow> n | None \<Rightarrow> int (length todos)))]))"

subsection \<open>Lemmas\<close>

lemma nth_filter_subseq: "subseq (map (\<lambda>i. xs ! i) (filter P [0..<length xs])) xs"
proof -
  have "subseq (map (\<lambda>i. xs ! i) (filter P [0..<length xs])) (map (\<lambda>i. xs ! i) [0..<length xs])"
    by (intro subseq_map subseq_filter_left)
  then show ?thesis by (simp add: map_nth)
qed

text \<open>A loop that stops at a size never exceeds it.\<close>

lemma fold_full:
  assumes "\<And>x acc. length acc \<le> n \<Longrightarrow> length (f x acc) \<le> n"
  shows "length inc \<le> n \<Longrightarrow> length (fold f xs inc) \<le> n"
  using assms by (induction xs arbitrary: inc) simp_all

lemma setAdd_length: "length inc < n \<Longrightarrow> length (setAdd x inc) \<le> n"
  by (simp add: setAdd_def)

lemma selectChanges_length: "length inc \<le> n \<Longrightarrow> length (selectChanges n kinds ls inc) \<le> n"
  unfolding selectChanges_def by (rule fold_full) (auto intro: setAdd_length)

lemma selectHunkHeaders_length: "length inc \<le> n \<Longrightarrow> length (selectHunkHeaders n kinds hs inc) \<le> n"
  unfolding selectHunkHeaders_def by (rule fold_full) (auto intro: setAdd_length)

lemma fillContext_length: "length inc \<le> n \<Longrightarrow> length (fillContext n kinds ls inc) \<le> n"
  unfolding fillContext_def by (rule fold_full) (auto intro: setAdd_length)

lemma selectContext_length: "length inc \<le> n \<Longrightarrow> length (selectContext n kinds hs inc) \<le> n"
  unfolding selectContext_def by (rule fold_full) (auto intro: fillContext_length)

lemma select_le_set: "distinct xs \<Longrightarrow> length (filter (\<lambda>i. i \<in> set inc) xs) \<le> length inc"
proof -
  assume "distinct xs"
  then have "length (filter (\<lambda>i. i \<in> set inc) xs) = card (set (filter (\<lambda>i. i \<in> set inc) xs))"
    by (metis distinct_card distinct_filter)
  also have "\<dots> \<le> card (set inc)" by (intro card_mono) auto
  also have "\<dots> \<le> length inc" by (rule card_length)
  finally show ?thesis .
qed

subsection \<open>Properties\<close>

text \<open>A diff preview with room for at least the two file headers shows at most the requested number of
  lines, they are lines of the diff in their order, and on a diff that is not empty the shown and the
  hidden lines together are all its lines.\<close>

theorem diff_preview_bounded:
  assumes "2 \<le> maxLines"
  shows "length (dp_lines (selectDiffPreviewLines d maxLines)) \<le> maxLines \<and>
    subseq (dp_lines (selectDiffPreviewLines d maxLines)) (splitLines d) \<and>
    (d = [] \<or> dp_hiddenLineCount (selectDiffPreviewLines d maxLines) +
       length (dp_lines (selectDiffPreviewLines d maxLines)) = length (splitLines d))"
proof -
  define ls where "ls = splitLines d"
  define ks where "ks = map classifyDiffPreviewLine ls"
  define inc where "inc = selectContext maxLines ks (buildDiffHunks ls ks) (selectHunkHeaders maxLines ks
      (buildDiffHunks ls ks) (selectChanges maxLines ks ls (selectFileHeaders ks (length ls))))"
  define shown where "shown = (if length ls \<le> maxLines then filterDiffPreviewLines ls ks
     else if \<not> list_ex (\<lambda>k. k = File_header \<or> k = Hunk_header \<or> k = Added \<or> k = Removed) ks
     then take maxLines ls else map (\<lambda>i. ls ! i) (filter (\<lambda>i. i \<in> set inc) [0..<length ls]))"
  have eq: "selectDiffPreviewLines d maxLines =
      \<lparr>dp_hiddenLineCount = length ls - length shown, dp_lines = shown\<rparr>" if "d \<noteq> []"
    using assms that
    unfolding selectDiffPreviewLines_def Let_def ls_def [symmetric] ks_def [symmetric] inc_def [symmetric]
      shown_def
    by (auto split: if_splits)
  have "length (selectFileHeaders ks (length ls)) \<le> maxLines"
    using assms by (simp add: selectFileHeaders_def)
  then have "length inc \<le> maxLines"
    unfolding inc_def by (intro selectContext_length selectHunkHeaders_length selectChanges_length)
  then have sel: "length (filter (\<lambda>i. i \<in> set inc) [0..<length ls]) \<le> maxLines"
    using select_le_set [of "[0..<length ls]" inc] by simp
  have sub: "subseq shown ls"
    unfolding shown_def filterDiffPreviewLines_def
    by (simp add: nth_filter_subseq take_is_prefix prefix_imp_subseq)
  then have le: "length shown \<le> length ls" by (rule list_emb_length)
  have "length shown \<le> maxLines"
  proof (cases "length ls \<le> maxLines")
    case True
    with le show ?thesis by simp
  next
    case False
    with sel show ?thesis by (simp add: shown_def)
  qed
  with eq sub le show ?thesis
    by (cases "d = []") (simp_all add: selectDiffPreviewLines_def ls_def)
qed

theorem diff_preview_bounded_witness:
  "length (dp_lines (selectDiffPreviewLines (''a'' @ [nl] @ ''b'' @ [nl] @ ''c'') 2)) \<le> 2"
  using diff_preview_bounded [of 2 "''a'' @ [nl] @ ''b'' @ [nl] @ ''c''"] by simp

text \<open>The diff text stored with a trace event never exceeds 2048 code units.\<close>

theorem preview_text_bounded: "length (truncateUnifiedDiffPreview d) \<le> MAX_PREVIEW_BYTES"
  by (simp add: truncateUnifiedDiffPreview_def Let_def)

lemma todoItems_nonempty: "extractTodoSnapshotFromOutput v = None \<longleftrightarrow> todoItems v = []"
  by (simp add: extractTodoSnapshotFromOutput_def Let_def)

end
