(* ===== verification/ToolCalls.thy ===== *)
theory ToolCalls
  imports Approvals
begin

section \<open>Tool call records\<close>

text \<open>
  src/src/storage/repositories/tool-call-repository.ts over the records of src/src/types/tool.ts. The
  state is the \<open>tool_calls\<close> table. The JSON columns hold decoded values; an output of \<open>null\<close> is
  \<open>JNull\<close>. A patch's \<open>toolCallId\<close> is left out: the UPDATE statement does not write it.
\<close>

record ToolCallRecord =
  tc_toolCallId :: string
  tc_taskId :: string
  tc_iteration :: int
  tc_toolName :: string
  tc_riskLevel :: ToolRiskLevel
  tc_status :: ToolCallStatus
  tc_input :: json_object
  tc_output :: json
  tc_summary :: "string option"
  tc_requestedAt :: instant
  tc_startedAt :: "instant option"
  tc_finishedAt :: "instant option"
  tc_errorCode :: "RuntimeErrorCode option"
  tc_errorMessage :: "string option"

record ToolCallPatch =
  tu_taskId :: "string option"
  tu_iteration :: "int option"
  tu_toolName :: "string option"
  tu_riskLevel :: "ToolRiskLevel option"
  tu_status :: "ToolCallStatus option"
  tu_input :: "json_object option"
  tu_output :: "json option"
  tu_summary :: "string option option"
  tu_requestedAt :: "instant option"
  tu_startedAt :: "instant option option"
  tu_finishedAt :: "instant option option"
  tu_errorCode :: "RuntimeErrorCode option option"
  tu_errorMessage :: "string option option"

type_synonym tool_calls = "ToolCallRecord list"

definition noCallPatch :: ToolCallPatch where
  "noCallPatch = \<lparr>tu_taskId = None, tu_iteration = None, tu_toolName = None, tu_riskLevel = None,
     tu_status = None, tu_input = None, tu_output = None, tu_summary = None, tu_requestedAt = None,
     tu_startedAt = None, tu_finishedAt = None, tu_errorCode = None, tu_errorMessage = None\<rparr>"

definition callFindById :: "string \<Rightarrow> tool_calls \<Rightarrow> ToolCallRecord option" where
  "callFindById i t = rowFind tc_toolCallId i t"

definition callGetById :: "string \<Rightarrow> (tool_calls, ToolCallRecord) op" where
  "callGetById i = (\<lambda>t.
     case callFindById i t of
       None \<Rightarrow> (Inl (PlainError (''Tool call '' @ i @ '' was not found.'')), t)
     | Some r \<Rightarrow> (Inr r, t))"

definition callCreate :: "ToolCallRecord \<Rightarrow> (tool_calls, ToolCallRecord) op" where
  "callCreate r = (\<lambda>t.
     case rowInsert tc_toolCallId r t of
       Inl e \<Rightarrow> (Inl e, t)
     | Inr t' \<Rightarrow> callGetById (tc_toolCallId r) t')"

definition callPatch :: "ToolCallPatch \<Rightarrow> ToolCallRecord \<Rightarrow> ToolCallRecord" where
  "callPatch p r = r\<lparr>
     tc_errorCode := patched (tu_errorCode p) (tc_errorCode r),
     tc_errorMessage := patched (tu_errorMessage p) (tc_errorMessage r),
     tc_finishedAt := patched (tu_finishedAt p) (tc_finishedAt r),
     tc_input := patched (tu_input p) (tc_input r),
     tc_output := patched (tu_output p) (tc_output r),
     tc_requestedAt := patched (tu_requestedAt p) (tc_requestedAt r),
     tc_riskLevel := patched (tu_riskLevel p) (tc_riskLevel r),
     tc_startedAt := patched (tu_startedAt p) (tc_startedAt r),
     tc_status := patched (tu_status p) (tc_status r),
     tc_summary := patched (tu_summary p) (tc_summary r),
     tc_taskId := patched (tu_taskId p) (tc_taskId r),
     tc_toolName := patched (tu_toolName p) (tc_toolName r),
     tc_iteration := patched (tu_iteration p) (tc_iteration r)\<rparr>"

definition callUpdate :: "string \<Rightarrow> ToolCallPatch \<Rightarrow> (tool_calls, ToolCallRecord) op" where
  "callUpdate i p =
     bnd (callGetById i) (\<lambda>existing.
       let nxt = callPatch p existing
       in if tc_status nxt \<noteq> tc_status existing \<and>
             \<not> canTransitionToolCallStatus (tc_status existing) (tc_status nxt)
          then raise (PlainError (''Illegal tool-call status transition: '' @
                 toolCallStatusStr (tc_status existing) @ '' -> '' @ toolCallStatusStr (tc_status nxt)))
          else bnd (modify (rowSet tc_toolCallId i nxt)) (\<lambda>_. callGetById i))"

definition callListByTaskId :: "string \<Rightarrow> tool_calls \<Rightarrow> ToolCallRecord list" where
  "callListByTaskId taskId t =
     orderAsc (\<lambda>r. (tc_requestedAt r, tc_toolCallId r)) (filter (\<lambda>r. tc_taskId r = taskId) t)"

subsection \<open>Laws\<close>

definition callsWf :: "tool_calls \<Rightarrow> bool" where
  "callsWf t = pkOk tc_toolCallId t"

lemma callPatch_id [simp]: "tc_toolCallId (callPatch p r) = tc_toolCallId r"
  by (simp add: callPatch_def)

lemma callPatch_status [simp]: "tc_status (callPatch p r) = patched (tu_status p) (tc_status r)"
  by (simp add: callPatch_def)

lemma callFindById_Some: "callFindById i t = Some r \<Longrightarrow> tc_toolCallId r = i \<and> r \<in> set t"
  by (auto simp: callFindById_def dest: rowFind_Some)

lemma callFindById_rowSet:
  "callFindById i t = Some r \<Longrightarrow>
    callFindById j (rowSet tc_toolCallId i (callPatch p r) t) =
      (if j = i then Some (callPatch p r) else callFindById j t)"
  using callFindById_Some [of i t r] by (simp add: callFindById_def table_simps)

text \<open>A status move the table permits.\<close>

definition callMove :: "ToolCallStatus \<Rightarrow> ToolCallStatus \<Rightarrow> bool" where
  "callMove a b \<longleftrightarrow> b = a \<or> canTransitionToolCallStatus a b"

lemma callUpdate_run:
  "callUpdate i p t =
    (case callFindById i t of
       None \<Rightarrow> (Inl (PlainError (''Tool call '' @ i @ '' was not found.'')), t)
     | Some r \<Rightarrow>
         if callMove (tc_status r) (patched (tu_status p) (tc_status r))
         then (Inr (callPatch p r), rowSet tc_toolCallId i (callPatch p r) t)
         else (Inl (PlainError (''Illegal tool-call status transition: '' @
                 toolCallStatusStr (tc_status r) @ '' -> '' @
                 toolCallStatusStr (patched (tu_status p) (tc_status r)))), t))"
  by (auto simp: callUpdate_def callGetById_def bnd_run Let_def callMove_def callFindById_rowSet
      split: option.splits)

lemma callCreate_run:
  "callCreate r t =
    (if tc_toolCallId r \<in> tc_toolCallId ` set t
     then (Inl (PlainError ''UNIQUE constraint failed''), t) else (Inr r, t @ [r]))"
  using rowFind_None [of tc_toolCallId "tc_toolCallId r" t]
  by (auto simp: callCreate_def rowInsert_def callGetById_def callFindById_def rowFind_append)

lemma callFindById_append:
  "callFindById i (t @ [r]) =
    (case callFindById i t of None \<Rightarrow> (if tc_toolCallId r = i then Some r else None) | Some x \<Rightarrow> Some x)"
  by (simp add: callFindById_def rowFind_append split: option.splits)

lemma callUpdate_wf: "callsWf t \<Longrightarrow> callUpdate i p t = (res, t') \<Longrightarrow> callsWf t'"
  by (auto simp: callUpdate_run callsWf_def rowSet_pk dest: callFindById_Some split: option.splits if_splits)

text \<open>The tool call table honours the status contract.\<close>

interpretation call_store: status_store "\<lambda>t i. callFindById i t" callUpdate tc_status
  TOOL_CALL_STATUS_TRANSITIONS
proof unfold_locales
  fix k p t e t'
  assume "callUpdate k p t = (Inl e, t')"
  then show "t' = t" by (auto simp: callUpdate_run split: option.splits if_splits)
next
  fix k p t r t'
  assume "callUpdate k p t = (Inr r, t')"
  then show "\<exists>r0. callFindById k t = Some r0 \<and> callFindById k t' = Some r \<and>
      (tc_status r = tc_status r0 \<or> tc_status r \<in> set (TOOL_CALL_STATUS_TRANSITIONS (tc_status r0)))"
    by (auto simp: callUpdate_run callMove_def canTransitionToolCallStatus_def callFindById_rowSet
        split: option.splits if_splits)
next
  fix k p t r t' and j :: string
  assume "callUpdate k p t = (Inr r, t')" and "j \<noteq> k"
  then show "callFindById j t' = callFindById j t"
    by (auto simp: callUpdate_run callFindById_rowSet split: option.splits if_splits)
qed

end
