(* ===== verification/JsonText.thy ===== *)
theory JsonText
  imports JsText
begin

section \<open>JSON as text\<close>

text \<open>
  \<open>JSON.stringify\<close> of the language, without and with an indentation of two, on the JSON values of the
  models (integers for numbers, code units up to 255), and \<open>safePreview\<close> of
  src/src/core/serialization.ts.
\<close>

fun showNat :: "nat \<Rightarrow> string" where
  "showNat n = (if n < 10 then [char_of (48 + n)] else showNat (n div 10) @ [char_of (48 + n mod 10)])"

declare showNat.simps [simp del]

definition showInt :: "int \<Rightarrow> string" where
  "showInt n = (if n < 0 then ''-'' @ showNat (nat (- n)) else showNat (nat n))"

definition hexDigit :: "nat \<Rightarrow> char" where
  "hexDigit n = (if n < 10 then char_of (48 + n) else char_of (87 + n))"

definition escapeChar :: "char \<Rightarrow> string" where
  "escapeChar c =
     (let n = (of_char c :: nat); bs = CHR 0x5C
      in if n = 34 \<or> n = 92 then [bs, c]
         else if n = 8 then [bs, CHR ''b''] else if n = 9 then [bs, CHR ''t'']
         else if n = 10 then [bs, CHR ''n''] else if n = 12 then [bs, CHR ''f'']
         else if n = 13 then [bs, CHR ''r'']
         else if n < 32 then [bs, CHR ''u'', CHR ''0'', CHR ''0'', hexDigit (n div 16), hexDigit (n mod 16)]
         else [c])"

definition quote :: "string \<Rightarrow> string" where
  "quote s = CHR 0x22 # concat (map escapeChar s) @ [CHR 0x22]"

fun stringify :: "json \<Rightarrow> string" where
  "stringify JNull = ''null''"
| "stringify (JBool b) = (if b then ''true'' else ''false'')"
| "stringify (JNum n) = showInt n"
| "stringify (JStr s) = quote s"
| "stringify (JArr vs) = ''['' @ joinWith '','' (map stringify vs) @ '']''"
| "stringify (JObj kvs) =
     CHR 0x7B # joinWith '','' (map (\<lambda>kv. quote (fst kv) @ '':'' @ stringify (snd kv)) kvs) @ [CHR 0x7D]"

text \<open>\<open>JSON.stringify(value, null, 2)\<close> at an indentation of \<open>ind\<close> spaces.\<close>

fun stringifyAt :: "nat \<Rightarrow> json \<Rightarrow> string" where
  "stringifyAt ind (JArr vs) =
     (if vs = [] then ''[]''
      else ''['' @ [nl] @ joinWith ('','' @ [nl])
          (map (\<lambda>v. replicate (ind + 2) (CHR '' '') @ stringifyAt (ind + 2) v) vs) @
        [nl] @ replicate ind (CHR '' '') @ '']'')"
| "stringifyAt ind (JObj kvs) =
     (if kvs = [] then [CHR 0x7B, CHR 0x7D]
      else CHR 0x7B # nl # joinWith ('','' @ [nl])
          (map (\<lambda>kv. replicate (ind + 2) (CHR '' '') @ quote (fst kv) @ '': '' @
             stringifyAt (ind + 2) (snd kv)) kvs) @
        [nl] @ replicate ind (CHR '' '') @ [CHR 0x7D])"
| "stringifyAt ind v = stringify v"

definition safePreview :: "json \<Rightarrow> nat \<Rightarrow> string" where
  "safePreview value maxLength =
     (let text = (case value of JStr s \<Rightarrow> s | _ \<Rightarrow> stringifyAt 0 value)
      in if length text \<le> maxLength then text else take maxLength text @ ''...'')"

lemma safePreview_length: "length (safePreview v n) \<le> n + 3"
  by (simp add: safePreview_def Let_def)

lemma safePreview_prefix: "safePreview (JStr s) n = s \<or> prefix (take n s) (safePreview (JStr s) n)"
  by (simp add: safePreview_def Let_def)

end
