(* ===== verification/Orchestrator.thy ===== *)
theory Orchestrator
  imports Policy ContextPolicy ApprovalRules Clarify ToolCalls JsonText DiffPreview
begin

section \<open>The tool orchestrator\<close>

text \<open>
  src/src/tools/tool-orchestrator.ts and tool-parallel-policy.ts: the governed execution of one tool
  call. The state \<open>World\<close> holds the tables of the services the orchestrator calls, the trace and audit
  logs, and whatever else the tools touch (\<open>w_rest\<close>).

  A tool is a record of functions. Its asynchronous members (\<open>checkAvailability\<close>, \<open>prepare\<close>,
  \<open>execute\<close>) are arbitrary operations on the world: what other handlers do while the orchestrator
  awaits them is part of their effect. Fresh identifiers and the instants at which the handler reads
  the clock are the fields of \<open>Env\<close>. The abort signal of the context is only passed on to the tool.
\<close>

subsection \<open>Tools and requests\<close>

datatype ToolSideEffectLevel =
    No_effect | Read_only | External_read_only | Runtime_mutation | Workspace_mutation | External_mutation

record ToolExecutionContext =
  tx_taskId :: string
  tx_iteration :: int
  tx_workspaceRoot :: string
  tx_cwd :: string
  tx_userId :: string
  tx_agentProfileId :: AgentProfileId
  tx_taskMetadata :: "json_object option"
  tx_governanceOnly :: "bool option"

record ToolGovernanceDescriptor =
  gd_summary :: string
  gd_pathScope :: PathScope

record 'p ToolPreparation =
  tp_preparedInput :: 'p
  tp_governance :: ToolGovernanceDescriptor
  tp_sandbox :: SandboxExecutionPlan

record ToolExecutionSuccess =
  ts_summary :: string
  ts_output :: json
  ts_runtimeOutput :: "json option"
  ts_artifacts :: "ArtifactDraft list option"
  ts_replayed :: "bool option"
  ts_details :: "json_object option"

datatype ToolExecutionResult =
    Success ToolExecutionSuccess
  | Failure RuntimeErrorCode string "json_object option"

record ToolCallRequest =
  rq_taskId :: string
  rq_iteration :: int
  rq_toolCallId :: string
  rq_toolName :: string
  rq_input :: json_object
  rq_reason :: string

record ZodIssue =
  zi_path :: "string list"
  zi_message :: string

record PreparedAskUserInput =
  au_allowCustomAnswer :: bool
  au_options :: "ClarifyPromptOption list"
  au_placeholder :: "string option"
  au_question :: string
  au_questions :: "ClarifyPromptQuestion list"
  au_reason :: "string option"

record ('w, 'i, 'p) ToolDefinition =
  td_name :: string
  td_capability :: ToolCapability
  td_riskLevel :: ToolRiskLevel
  td_privacyLevel :: PrivacyLevel
  td_sideEffectLevel :: ToolSideEffectLevel
  td_safeParse :: "json_object \<Rightarrow> (ZodIssue list \<times> json) + 'i"
  td_checkAvailability :: "(ToolExecutionContext \<Rightarrow> ('w, bool \<times> string) op) option"
  td_prepare :: "'i \<Rightarrow> ToolExecutionContext \<Rightarrow> ('w, 'p ToolPreparation) op"
  td_execute :: "'p \<Rightarrow> ToolExecutionContext \<Rightarrow> ('w, ToolExecutionResult) op"
  td_askInput :: "'p \<Rightarrow> PreparedAskUserInput"

datatype ToolExecutionOutcome =
    Completed ToolExecutionResult ToolCallRecord
  | ApprovalRequired ApprovalRecord ToolCallRecord
  | ClarifyRequired ClarifyPromptRecord ToolCallRecord
  | Cleared ToolCallRecord

subsection \<open>Parallel batches\<close>

definition isMutationTool :: "('w, 'i, 'p) ToolDefinition \<Rightarrow> bool" where
  "isMutationTool tool =
     (td_capability tool = Interaction_ask_user \<or> td_capability tool = Filesystem_write \<or>
      td_sideEffectLevel tool = Runtime_mutation \<or> td_sideEffectLevel tool = Workspace_mutation \<or>
      td_sideEffectLevel tool = External_mutation)"

definition isParallelSafeTool :: "('w, 'i, 'p) ToolDefinition \<Rightarrow> bool" where
  "isParallelSafeTool tool = (\<not> isMutationTool tool)"

datatype 'c ToolCallExecutionBatch = Parallel "'c list" | Serial 'c

definition flushParallel :: "'c list \<Rightarrow> 'c ToolCallExecutionBatch list" where
  "flushParallel buffer = (if buffer = [] then [] else [Parallel buffer])"

text \<open>The loop over the remaining calls with the parallel buffer collected so far.\<close>

fun groupLoop :: "('c \<Rightarrow> bool) \<Rightarrow> 'c list \<Rightarrow> 'c list \<Rightarrow> 'c ToolCallExecutionBatch list" where
  "groupLoop safe buffer [] = flushParallel buffer"
| "groupLoop safe buffer (c # cs) =
     (if safe c then groupLoop safe (buffer @ [c]) cs
      else flushParallel buffer @ Serial c # groupLoop safe [] cs)"

definition groupToolCallsIntoBatches :: "'c list \<Rightarrow> ('c \<Rightarrow> bool) \<Rightarrow> 'c ToolCallExecutionBatch list" where
  "groupToolCallsIntoBatches toolCalls safe = groupLoop safe [] toolCalls"

subsection \<open>The world\<close>

record ArtifactRecord = ArtifactDraft +
  at_artifactId :: string
  at_taskId :: string
  at_toolCallId :: "string option"
  at_createdAt :: instant

record 'm World =
  w_toolCalls :: tool_calls
  w_approvals :: approvals
  w_prompts :: prompts
  w_rules :: RuleHost
  w_artifacts :: "ArtifactRecord list"
  w_trace :: "TraceEvent list"
  w_audit :: "AuditEntry list"
  w_rest :: 'm

text \<open>The dependencies' configuration, and the library functions the fingerprint uses.\<close>

record Deps =
  dp_policyEngine :: PolicyEngine
  dp_approvalTtlMs :: int
  dp_clarifyTtlMs :: int
  dp_rulesPath :: string
  dp_sha256 :: "string \<Rightarrow> string"
  dp_canonUrl :: "string \<Rightarrow> string option"

record Env =
  en_callUuid :: string
  en_decisionUuid :: string
  en_approvalUuid :: string
  en_promptUuid :: string
  en_artifactUuid :: "nat \<Rightarrow> string"
  en_requestedAt :: instant
  en_decisionAt :: instant
  en_approvalAt :: instant
  en_clarifyAt :: instant
  en_startedAt :: instant
  en_artifactAt :: instant
  en_finishedAt :: instant

definition onCalls :: "(tool_calls, 'a) op \<Rightarrow> ('m World, 'a) op" where
  "onCalls = zoom w_toolCalls (\<lambda>s w. w\<lparr>w_toolCalls := s\<rparr>)"

definition onApprovals :: "(approvals, 'a) op \<Rightarrow> ('m World, 'a) op" where
  "onApprovals = zoom w_approvals (\<lambda>s w. w\<lparr>w_approvals := s\<rparr>)"

definition onPrompts :: "(prompts, 'a) op \<Rightarrow> ('m World, 'a) op" where
  "onPrompts = zoom w_prompts (\<lambda>s w. w\<lparr>w_prompts := s\<rparr>)"

definition onRules :: "(RuleHost, 'a) op \<Rightarrow> ('m World, 'a) op" where
  "onRules = zoom w_rules (\<lambda>s w. w\<lparr>w_rules := s\<rparr>)"

definition recordTrace :: "TraceEvent \<Rightarrow> ('m World, unit) op" where
  "recordTrace e = modify (\<lambda>w. w\<lparr>w_trace := w_trace w @ [e]\<rparr>)"

definition recordAudit :: "AuditEntry \<Rightarrow> ('m World, unit) op" where
  "recordAudit e = modify (\<lambda>w. w\<lparr>w_audit := w_audit w @ [e]\<rparr>)"

subsection \<open>Artifacts\<close>

definition artifactListByTaskId :: "string \<Rightarrow> ArtifactRecord list \<Rightarrow> ArtifactRecord list" where
  "artifactListByTaskId taskId t = orderAsc at_createdAt (filter (\<lambda>a. at_taskId a = taskId) t)"

definition artifactInsert :: "ArtifactRecord \<Rightarrow> ('m World, unit) op" where
  "artifactInsert a = (\<lambda>w.
     case rowInsert at_artifactId a (w_artifacts w) of
       Inl e \<Rightarrow> (Inl e, w)
     | Inr t \<Rightarrow> (Inr (), w\<lparr>w_artifacts := t\<rparr>))"

definition artifactCreateMany ::
  "Env \<Rightarrow> string \<Rightarrow> string option \<Rightarrow> ArtifactDraft list \<Rightarrow> ('m World, ArtifactRecord list) op" where
  "artifactCreateMany env taskId toolCallId drafts =
     (if drafts = [] then ret []
      else bnd (forEach (\<lambda>(k, d). artifactInsert
                  \<lparr>at_artifactType = at_artifactType d, at_uri = at_uri d, at_content = at_content d,
                   at_artifactId = en_artifactUuid env k, at_taskId = taskId,
                   at_toolCallId = toolCallId, at_createdAt = en_artifactAt env\<rparr>)
                (zip [0..<length drafts] drafts)) (\<lambda>_.
           ask (\<lambda>w. artifactListByTaskId taskId (w_artifacts w))))"

subsection \<open>Helpers\<close>

text \<open>The tool map of the orchestrator caches what it has resolved from the registry.\<close>

definition resolveTool ::
  "(string \<Rightarrow> 't option) \<Rightarrow> string \<Rightarrow> (string \<Rightarrow> 't option) \<Rightarrow> 't option \<times> (string \<Rightarrow> 't option)" where
  "resolveTool registry toolName tools =
     (let tools' = (case registry toolName of
            Some live \<Rightarrow> (if tools toolName = None then tools(toolName \<mapsto> live) else tools)
          | None \<Rightarrow> tools)
      in (tools' toolName, tools'))"

definition summarizeValidationIssues :: "ZodIssue list \<Rightarrow> string" where
  "summarizeValidationIssues issues =
     (if issues = [] then ''Tool input validation failed.''
      else joinWith '' | '' (map (\<lambda>i.
        (if zi_path i \<noteq> [] then joinWith ''.'' (zi_path i) @ '': '' else []) @ zi_message i) issues))"

definition getSandboxTarget :: "SandboxExecutionPlan \<Rightarrow> string" where
  "getSandboxTarget plan =
     (case plan of
        FileP p \<Rightarrow> fp_resolvedPath p
      | WebP p \<Rightarrow> wp_url p
      | ShellP p \<Rightarrow> sp_cwd p
      | McpP p \<Rightarrow> mp_target p
      | PromptP \<Rightarrow> ''interactive_user'')"

definition planJson :: "SandboxExecutionPlan \<Rightarrow> json" where
  "planJson plan =
     (case plan of
        FileP p \<Rightarrow> JObj ([(''kind'', JStr ''file''), (''operation'', JStr (operationStr (fp_operation p))),
          (''requestedPath'', JStr (fp_requestedPath p)), (''resolvedPath'', JStr (fp_resolvedPath p)),
          (''pathScope'', JStr (pathScopeStr (fp_pathScope p)))] @
          (case fp_withinExtraWriteRoot p of None \<Rightarrow> [] | Some b \<Rightarrow> [(''withinExtraWriteRoot'', JBool b)]))
      | ShellP p \<Rightarrow> JObj [(''kind'', JStr ''shell''), (''command'', JStr (sp_command p)),
          (''executable'', JStr (sp_executable p)), (''cwd'', JStr (sp_cwd p)),
          (''envKeys'', JArr (map JStr (sp_envKeys p))), (''timeoutMs'', JNum (sp_timeoutMs p)),
          (''pathScope'', JStr (pathScopeStr (sp_pathScope p))),
          (''networkAccess'', JStr (networkStr (sp_networkAccess p)))]
      | WebP p \<Rightarrow> JObj [(''kind'', JStr ''network''), (''method'', JStr (methodStr (wp_method p))),
          (''url'', JStr (wp_url p)), (''host'', JStr (wp_host p)), (''pathScope'', JStr ''network''),
          (''networkAccess'', JStr ''controlled'')]
      | McpP p \<Rightarrow> JObj [(''kind'', JStr ''mcp''), (''serverId'', JStr (mp_serverId p)),
          (''toolName'', JStr (mp_toolName p)), (''pathScope'', JStr ''network''),
          (''target'', JStr (mp_target p))]
      | PromptP \<Rightarrow> JObj [(''kind'', JStr ''prompt''), (''target'', JStr ''interactive_user''),
          (''pathScope'', JStr ''workspace'')])"

definition extractSandboxKind :: "json_object \<Rightarrow> string" where
  "extractSandboxKind details =
     (case jget details ''kind'' of
        Some (JStr k) \<Rightarrow>
          (if k \<in> {''file'', ''network'', ''shell'', ''mcp'', ''prompt''} then k else ''shell'')
      | _ \<Rightarrow> ''shell'')"

definition extractSandboxTarget :: "json_object \<Rightarrow> string" where
  "extractSandboxTarget details =
     (case jget details ''resolvedPath'' of Some (JStr s) \<Rightarrow> s | _ \<Rightarrow>
     (case jget details ''url'' of Some (JStr s) \<Rightarrow> s | _ \<Rightarrow>
     (case jget details ''cwd'' of Some (JStr s) \<Rightarrow> s | _ \<Rightarrow>
     (case jget details ''target'' of Some (JStr s) \<Rightarrow> s | _ \<Rightarrow> ''unknown''))))"

fun toToolExecutionError :: "thrown \<Rightarrow> app_error" where
  "toToolExecutionError (AppError c m d) = (c, m, d)"
| "toToolExecutionError (ProviderError p) = (Tool_execution_error, pe_message p, None)"
| "toToolExecutionError (PlainError m) = (Tool_execution_error, m, None)"
| "toToolExecutionError NonError = (Tool_execution_error, ''Unknown tool execution error'', None)"

datatype InteractionMode = Agent_mode | Plan_mode | AcceptEdits_mode
datatype AgentWriteApproval = Off | On | AcceptEditsOnly

definition readInteractionMode :: "json_object option \<Rightarrow> InteractionMode" where
  "readInteractionMode metadata =
     (case metadata of
        None \<Rightarrow> Agent_mode
      | Some m \<Rightarrow>
          (if jget m ''interactionMode'' = Some (JStr ''plan'') then Plan_mode
           else if jget m ''interactionMode'' = Some (JStr ''acceptEdits'') then AcceptEdits_mode
           else Agent_mode))"

definition readAgentWriteApproval :: "json_object option \<Rightarrow> AgentWriteApproval" where
  "readAgentWriteApproval metadata =
     (case metadata of
        None \<Rightarrow> Off
      | Some m \<Rightarrow>
          (if jget m ''agentWriteApproval'' = Some (JStr ''on'') then On
           else if jget m ''agentWriteApproval'' = Some (JStr ''acceptEditsOnly'') then AcceptEditsOnly
           else Off))"

definition sanitizeRestrictedStructuredOutput :: "json_object \<Rightarrow> json" where
  "sanitizeRestrictedStructuredOutput v =
     (let str = (\<lambda>k. case jget v k of Some (JStr s) \<Rightarrow> [(k, JStr s)] | _ \<Rightarrow> []);
          num = (\<lambda>k. case jget v k of Some (JNum n) \<Rightarrow> [(k, JNum n)] | _ \<Rightarrow> []);
          bool = (\<lambda>k. case jget v k of Some (JBool b) \<Rightarrow> [(k, JBool b)] | _ \<Rightarrow> [])
      in if str ''command'' = [] \<and> num ''exitCode'' = []
         then JObj [(''redacted'', JStr (redactText (stringify (JObj v)) Restricted))]
         else JObj (str ''command'' @ num ''exitCode'' @ str ''cwd'' @ num ''durationMs'' @
           bool ''timedOut'' @ str ''summary'' @
           (if jget v ''passed'' = Some (JBool True) then [(''passed'', JBool True)] else []) @
           (if jget v ''stdout'' \<noteq> None \<or> jget v ''stderr'' \<noteq> None \<or>
               jget v ''stderrPreview'' \<noteq> None \<or> jget v ''failureHint'' \<noteq> None
            then [(''output'', JStr ''[REDACTED: restricted content]'')] else [])))"

definition sanitizePersistedOutput :: "json \<Rightarrow> PrivacyLevel \<Rightarrow> json" where
  "sanitizePersistedOutput v level =
     (if level \<noteq> Restricted then v
      else (case v of
              JStr s \<Rightarrow> JStr (redactText s level)
            | JObj kvs \<Rightarrow> sanitizeRestrictedStructuredOutput kvs
            | _ \<Rightarrow> JObj [(''redacted'', JStr (redactText (stringify v) level))]))"

text \<open>
  \<open>persistedOutput !== result.output\<close>: the values are the same object unless the output was redacted;
  redacted strings are compared by value.
\<close>

definition outputReplaced :: "json \<Rightarrow> PrivacyLevel \<Rightarrow> bool" where
  "outputReplaced v level =
     (level = Restricted \<and>
      (case v of JStr s \<Rightarrow> redactText s level \<noteq> s | _ \<Rightarrow> True))"

definition answerJson :: "answer \<Rightarrow> json" where
  "answerJson a = (case a of Single s \<Rightarrow> JStr s | Multi xs \<Rightarrow> JArr (map JStr xs))"

definition answersJson :: "answers \<Rightarrow> json" where
  "answersJson ans = JObj (map (\<lambda>(q, a). (q, answerJson a)) ans)"

definition deriveLegacyClarifyAnswers :: "ClarifyPromptRecord \<Rightarrow> answers option" where
  "deriveLegacyClarifyAnswers prompt =
     (case cp_answerText prompt of
        Some t \<Rightarrow> Some [(cp_question prompt, Single t)]
      | None \<Rightarrow>
          (case cp_answerOptionId prompt of
             None \<Rightarrow> None
           | Some i \<Rightarrow>
               map_option (\<lambda>opt. [(cp_question prompt, Single (co_label opt))])
                 (List.find (\<lambda>item. co_id item = i) (cp_options prompt))))"

definition promptAnswers :: "ClarifyPromptRecord \<Rightarrow> answers option" where
  "promptAnswers prompt =
     (case cp_answers prompt of Some a \<Rightarrow> Some a | None \<Rightarrow> deriveLegacyClarifyAnswers prompt)"

definition formatClarifyResponse :: "ClarifyPromptRecord \<Rightarrow> string option" where
  "formatClarifyResponse prompt =
     map_option (\<lambda>ans. joinWith [nl, nl] (map (\<lambda>(question, answer).
         question @ [nl] @ ''Answer: '' @
         (case answer of Single s \<Rightarrow> s | Multi xs \<Rightarrow> joinWith '', '' xs)) ans))
       (promptAnswers prompt)"

definition optionJson :: "ClarifyPromptOption \<Rightarrow> json" where
  "optionJson opt = JObj ([(''id'', JStr (co_id opt)), (''label'', JStr (co_label opt))] @
     (case co_description opt of None \<Rightarrow> [] | Some d \<Rightarrow> [(''description'', JStr d)]) @
     (case co_preview opt of None \<Rightarrow> [] | Some d \<Rightarrow> [(''preview'', JStr d)]))"

definition questionJson :: "ClarifyPromptQuestion \<Rightarrow> json" where
  "questionJson q = JObj ([(''allowCustomAnswer'', JBool (cq_allowCustomAnswer q))] @
     (case cq_header q of None \<Rightarrow> [] | Some h \<Rightarrow> [(''header'', JStr h)]) @
     [(''multiSelect'', JBool (cq_multiSelect q)), (''options'', JArr (map optionJson (cq_options q))),
      (''placeholder'', jopt (cq_placeholder q)), (''question'', JStr (cq_question q))])"

definition clarifyOutput :: "ClarifyPromptRecord \<Rightarrow> json" where
  "clarifyOutput prompt = JObj
     [(''answerOptionId'', jopt (cp_answerOptionId prompt)),
      (''answers'', (case promptAnswers prompt of None \<Rightarrow> JNull | Some a \<Rightarrow> answersJson a)),
      (''answerText'', jopt (cp_answerText prompt)),
      (''promptId'', JStr (cp_promptId prompt)),
      (''questions'', JArr (map questionJson (cp_questions prompt))),
      (''response'', jopt (case cp_response prompt of
          Some r \<Rightarrow> Some r | None \<Rightarrow> formatClarifyResponse prompt))]"

subsection \<open>Records of the steps\<close>

definition ensureToolCallRecord ::
  "Env \<Rightarrow> ToolCallRequest \<Rightarrow> ToolRiskLevel \<Rightarrow> bool \<Rightarrow> ('m World, ToolCallRecord) op" where
  "ensureToolCallRecord env request riskLevel allowCrossTaskReplay =
     bnd (ask (\<lambda>w. callFindById (rq_toolCallId request) (w_toolCalls w))) (\<lambda>existing.
       let reuse = (case existing of
             None \<Rightarrow> False
           | Some e \<Rightarrow> tc_taskId e = rq_taskId request \<or>
               (allowCrossTaskReplay \<and> tc_toolName e = rq_toolName request \<and>
                stringify (JObj (tc_input e)) = stringify (JObj (rq_input request))))
       in case (existing, reuse) of
            (Some e, True) \<Rightarrow> ret e
          | _ \<Rightarrow>
              let callId = (if existing = None \<and> rq_toolCallId request \<noteq> [] then rq_toolCallId request
                            else en_callUuid env)
              in bnd (onCalls (callCreate
                   \<lparr>tc_toolCallId = callId, tc_taskId = rq_taskId request,
                    tc_iteration = rq_iteration request, tc_toolName = rq_toolName request,
                    tc_riskLevel = riskLevel, tc_status = Requested, tc_input = rq_input request,
                    tc_output = JNull, tc_summary = None, tc_requestedAt = en_requestedAt env,
                    tc_startedAt = None, tc_finishedAt = None, tc_errorCode = None,
                    tc_errorMessage = None\<rparr>)) (\<lambda>call.
                 bnd (recordTrace \<lparr>te_actor = ''runtime.orchestrator'', te_eventType = ''tool_call_requested'',
                    te_payload = [(''input'', JObj (rq_input request)),
                      (''iteration'', JNum (rq_iteration request)),
                      (''originalToolCallId'',
                        (if existing = None then JNull else JStr (rq_toolCallId request))),
                      (''reason'', JStr (rq_reason request)), (''riskLevel'', JStr (riskStr riskLevel)),
                      (''toolCallId'', JStr (tc_toolCallId call)),
                      (''toolName'', JStr (rq_toolName request))],
                    te_stage = ''tooling'',
                    te_summary = ''Tool '' @ rq_toolName request @ '' requested'',
                    te_taskId = rq_taskId request\<rparr>) (\<lambda>_.
                 bnd (if riskLevel = High then recordAudit
                    \<lparr>ae_action = ''high_risk_tool_requested'', ae_actor = ''runtime.orchestrator'',
                     ae_approvalId = None, ae_outcome = ''attempted'',
                     ae_payload = [(''input'', JObj (rq_input request)), (''reason'', JStr (rq_reason request)),
                       (''riskLevel'', JStr (riskStr riskLevel)), (''toolName'', JStr (rq_toolName request))],
                     ae_summary = ''High-risk tool '' @ rq_toolName request @ '' requested'',
                     ae_taskId = Some (rq_taskId request), ae_toolCallId = Some (tc_toolCallId call)\<rparr>
                  else ret ()) (\<lambda>_.
                 ret call))))"

definition recordSandboxEvent ::
  "ToolCallRequest \<Rightarrow> string \<Rightarrow> SandboxExecutionPlan \<Rightarrow> bool \<Rightarrow> ('m World, unit) op" where
  "recordSandboxEvent request toolName plan allowed =
     (let status = (if allowed then ''allowed'' else ''denied''); target = getSandboxTarget plan
      in bnd (recordTrace \<lparr>te_actor = ''sandbox.service'', te_eventType = ''sandbox_enforced'',
             te_payload = [(''sandboxKind'', JStr (planKind plan)), (''status'', JStr status),
               (''target'', JStr target), (''toolCallId'', JStr (rq_toolCallId request)),
               (''toolName'', JStr toolName)],
             te_stage = ''governance'', te_summary = ''Sandbox '' @ status @ '' for '' @ toolName,
             te_taskId = rq_taskId request\<rparr>) (\<lambda>_.
         recordAudit \<lparr>ae_action = ''sandbox_enforced'', ae_actor = ''sandbox.service'',
             ae_approvalId = None, ae_outcome = (if allowed then ''approved'' else ''denied''),
             ae_payload = [(''sandbox'', planJson plan), (''target'', JStr target), (''toolName'', JStr toolName)],
             ae_summary = ''Sandbox '' @ status @ '' for '' @ toolName,
             ae_taskId = Some (rq_taskId request), ae_toolCallId = Some (rq_toolCallId request)\<rparr>))"

text \<open>
  \<open>typeof details.sandbox === "object"\<close> also holds for an array, which is a JSON array here; it has
  none of the properties read from it.
\<close>

definition sandboxDetails :: "app_error \<Rightarrow> (json \<times> json_object) option" where
  "sandboxDetails err =
     (case snd (snd err) of
        None \<Rightarrow> None
      | Some d \<Rightarrow>
          (case jget d ''sandbox'' of
             Some (JObj o1) \<Rightarrow> Some (JObj o1, o1)
           | Some (JArr vs) \<Rightarrow> Some (JArr vs, [])
           | _ \<Rightarrow> None))"

definition recordSandboxFailure :: "ToolCallRequest \<Rightarrow> string \<Rightarrow> app_error \<Rightarrow> ('m World, unit) op" where
  "recordSandboxFailure request toolName err =
     (case sandboxDetails err of
        None \<Rightarrow> ret ()
      | Some (v, details) \<Rightarrow>
          bnd (recordTrace \<lparr>te_actor = ''sandbox.service'', te_eventType = ''sandbox_enforced'',
              te_payload = [(''sandboxKind'', JStr (extractSandboxKind details)), (''status'', JStr ''denied''),
                (''target'', JStr (extractSandboxTarget details)),
                (''toolCallId'', JStr (rq_toolCallId request)), (''toolName'', JStr toolName)],
              te_stage = ''governance'', te_summary = fst (snd err), te_taskId = rq_taskId request\<rparr>) (\<lambda>_.
          recordAudit \<lparr>ae_action = ''sandbox_enforced'', ae_actor = ''sandbox.service'',
              ae_approvalId = None, ae_outcome = ''denied'',
              ae_payload = [(''sandbox'', v), (''toolName'', JStr toolName)],
              ae_summary = fst (snd err), ae_taskId = Some (rq_taskId request),
              ae_toolCallId = Some (rq_toolCallId request)\<rparr>))"

definition toolAuditAction :: "('w, 'i, 'p) ToolDefinition \<Rightarrow> string option" where
  "toolAuditAction tool =
     (case td_capability tool of
        Filesystem_write \<Rightarrow> Some ''file_write''
      | Shell_execute \<Rightarrow> Some ''shell_execution''
      | Network_fetch_public_readonly \<Rightarrow>
          Some (if td_name tool = ''web_search'' then ''web_search'' else ''web_extract'')
      | _ \<Rightarrow> None)"

definition recordToolAudit :: "('w, 'i, 'p) ToolDefinition \<Rightarrow> ToolCallRequest \<Rightarrow> ToolCallRecord \<Rightarrow> string \<Rightarrow>
    ToolExecutionSuccess \<Rightarrow> ('m World, unit) op" where
  "recordToolAudit tool request call outcome result =
     (case toolAuditAction tool of
        None \<Rightarrow> ret ()
      | Some action \<Rightarrow> recordAudit \<lparr>ae_action = action, ae_actor = ''tool.'' @ td_name tool,
          ae_approvalId = None, ae_outcome = outcome,
          ae_payload = [(''outputPreview'', JStr (safePreview (ts_output result) 240)),
            (''summary'', JStr (ts_summary result))],
          ae_summary = ts_summary result, ae_taskId = Some (rq_taskId request),
          ae_toolCallId = Some (tc_toolCallId call)\<rparr>)"

definition recordFailedToolCall ::
  "Env \<Rightarrow> ToolCallRecord \<Rightarrow> app_error \<Rightarrow> ToolCallStatus \<Rightarrow> ('m World, ToolCallRecord) op" where
  "recordFailedToolCall env call err status =
     (let (code, msg, _) = err
      in bnd (onCalls (callUpdate (tc_toolCallId call)
             (noCallPatch\<lparr>tu_errorCode := Some (Some code), tu_errorMessage := Some (Some msg),
                tu_finishedAt := Some (Some (en_finishedAt env)), tu_status := Some status\<rparr>))) (\<lambda>failed.
         bnd (recordTrace \<lparr>te_actor = ''tool.'' @ tc_toolName failed, te_eventType = ''tool_call_failed'',
             te_payload = [(''errorCode'', JStr (errorCodeStr code)), (''errorMessage'', JStr msg),
               (''iteration'', JNum (tc_iteration failed)), (''toolCallId'', JStr (tc_toolCallId failed)),
               (''toolName'', JStr (tc_toolName failed))],
             te_stage = ''tooling'', te_summary = ''Tool '' @ tc_toolName failed @ '' failed'',
             te_taskId = tc_taskId failed\<rparr>) (\<lambda>_.
         bnd (recordAudit
             \<lparr>ae_action = (if status = Denied \<or> status = Timed_out then ''tool_rejected'' else ''tool_failure''),
              ae_actor = ''tool.'' @ tc_toolName failed, ae_approvalId = None,
              ae_outcome = (if status = Denied then ''denied''
                            else if status = Timed_out then ''timed_out'' else ''failed''),
              ae_payload = [(''errorCode'', JStr (errorCodeStr code)), (''errorMessage'', JStr msg),
                (''status'', JStr (toolCallStatusStr status))],
              ae_summary = msg, ae_taskId = Some (tc_taskId failed),
              ae_toolCallId = Some (tc_toolCallId failed)\<rparr>) (\<lambda>_.
         ret failed))))"

definition completeToolCallFailure ::
  "Env \<Rightarrow> ToolCallRecord \<Rightarrow> app_error \<Rightarrow> ToolCallStatus \<Rightarrow> ('m World, ToolExecutionOutcome) op" where
  "completeToolCallFailure env call err status =
     bnd (recordFailedToolCall env call err status) (\<lambda>failed.
       ret (Completed (Failure (fst err) (fst (snd err)) (snd (snd err))) failed))"

subsection \<open>The handler\<close>

text \<open>A terminal record answers the request itself: a failed one throws its error again.\<close>

definition replayTerminalOutcome :: "ToolCallRecord \<Rightarrow> thrown + ToolExecutionOutcome option" where
  "replayTerminalOutcome call =
     (if tc_status call = Failed
      then Inl (AppError (case tc_errorCode call of None \<Rightarrow> Tool_execution_error | Some c \<Rightarrow> c)
             (case tc_errorMessage call of
                None \<Rightarrow> ''Tool '' @ tc_toolName call @ '' previously failed (replayed).'' | Some m \<Rightarrow> m) None)
      else if tc_status call \<noteq> Finished then Inr None
      else Inr (Some (Completed (Success
             \<lparr>ts_summary = (case tc_summary call of
                None \<Rightarrow> ''Tool '' @ tc_toolName call @ '' finished (replayed).'' | Some sm \<Rightarrow> sm),
              ts_output = tc_output call, ts_runtimeOutput = None, ts_artifacts = None,
              ts_replayed = Some True, ts_details = None\<rparr>) call)))"

definition finishedPayload :: "json option \<Rightarrow> json option \<Rightarrow> json_object \<Rightarrow> json_object" where
  "finishedPayload fileChange todoSnapshot flds =
     (case fileChange of None \<Rightarrow> [] | Some c \<Rightarrow> [(''fileChange'', c)]) @
     (case todoSnapshot of None \<Rightarrow> [] | Some t \<Rightarrow> [(''todoSnapshot'', t)]) @ flds"

definition recordReplay :: "('w, 'i, 'p) ToolDefinition \<Rightarrow> ToolCallRequest \<Rightarrow> ToolCallRecord \<Rightarrow> ('m World, unit) op" where
  "recordReplay tool request call =
     bnd (ask (\<lambda>w. filter (\<lambda>a. at_toolCallId a = Some (tc_toolCallId call))
                     (artifactListByTaskId (rq_taskId request) (w_artifacts w)))) (\<lambda>artifacts.
     recordTrace \<lparr>te_actor = ''tool.'' @ td_name tool, te_eventType = ''tool_call_finished'',
       te_payload = finishedPayload (extractFileChangeFromArtifacts artifacts)
         (if td_name tool = ''todo'' then extractTodoSnapshotFromOutput (tc_output call) else None)
         [(''iteration'', JNum (rq_iteration request)),
          (''outputPreview'', JStr (safePreview (tc_output call) 240)), (''replayed'', JBool True),
          (''status'', JStr (toolCallStatusStr (tc_status call))),
          (''summary'', JStr (case tc_summary call of
             None \<Rightarrow> ''Tool '' @ td_name tool @ '' finished (replayed).'' | Some sm \<Rightarrow> sm)),
          (''toolCallId'', JStr (tc_toolCallId call)), (''toolName'', JStr (td_name tool))],
       te_stage = ''tooling'',
       te_summary = ''Tool '' @ td_name tool @ '' replayed from persisted terminal status'',
       te_taskId = rq_taskId request\<rparr>)"

text \<open>The availability check: the reason when the tool is not available.\<close>

definition checkToolAvailability ::
  "('w, 'i, 'p) ToolDefinition \<Rightarrow> ToolExecutionContext \<Rightarrow> ('w, string option) op" where
  "checkToolAvailability tool ctx =
     (case td_checkAvailability tool of
        None \<Rightarrow> ret None
      | Some check \<Rightarrow> bnd (check ctx) (\<lambda>(available, reason). ret (if available then None else Some reason)))"

text \<open>Preparation with the sandbox; an error is recorded and returned.\<close>

definition prepareTool :: "('m World, 'i, 'p) ToolDefinition \<Rightarrow> ToolCallRequest \<Rightarrow> ToolExecutionContext \<Rightarrow> 'i \<Rightarrow>
    ('m World, app_error + 'p ToolPreparation) op" where
  "prepareTool tool request ctx parsed =
     tryCatch
       (bnd (td_prepare tool parsed ctx) (\<lambda>prepared.
        bnd (recordSandboxEvent request (td_name tool) (tp_sandbox prepared) True) (\<lambda>_.
        ret (Inr prepared))))
       (\<lambda>e. let err = toAppError e
             in bnd (recordSandboxFailure request (td_name tool) err) (\<lambda>_. ret (Inl err)))"

definition policyInput :: "('w, 'i, 'p) ToolDefinition \<Rightarrow> ToolCallRequest \<Rightarrow> ToolExecutionContext \<Rightarrow>
    'p ToolPreparation \<Rightarrow> ToolCallRecord \<Rightarrow> PolicyEvaluationInput" where
  "policyInput tool request ctx prepared call =
     \<lparr>pi_taskId = rq_taskId request, pi_toolCallId = tc_toolCallId call, pi_toolName = td_name tool,
      pi_userId = tx_userId ctx, pi_workspaceRoot = tx_workspaceRoot ctx,
      pi_agentProfileId = tx_agentProfileId ctx, pi_capability = td_capability tool,
      pi_riskLevel = td_riskLevel tool, pi_privacyLevel = td_privacyLevel tool,
      pi_pathScope = gd_pathScope (tp_governance prepared),
      pi_metadata = Some [(''sandboxKind'', JStr (planKind (tp_sandbox prepared))),
        (''summary'', JStr (gd_summary (tp_governance prepared)))]\<rparr>"

definition recordPolicyDecision :: "ToolCallRequest \<Rightarrow> PolicyDecision \<Rightarrow> ('m World, unit) op" where
  "recordPolicyDecision request d =
     (let i = pd_input d;
          payload = (\<lambda>callId. [(''capability'', JStr (capabilityStr (pi_capability i))),
             (''decisionId'', JStr (pd_decisionId d)), (''effect'', JStr (effectStr (pd_effect d))),
             (''matchedRuleId'', jopt (pd_matchedRuleId d)),
             (''pathScope'', JStr (pathScopeStr (pi_pathScope i))),
             (''privacyLevel'', JStr (privacyStr (pi_privacyLevel i))),
             (''riskLevel'', JStr (riskStr (pi_riskLevel i)))] @ callId @
             [(''toolName'', JStr (pi_toolName i))])
      in bnd (recordTrace \<lparr>te_actor = ''policy.engine'', te_eventType = ''policy_decision'',
             te_payload = payload [(''toolCallId'', JStr (pi_toolCallId i))],
             te_stage = ''governance'', te_summary = pd_reason d, te_taskId = rq_taskId request\<rparr>) (\<lambda>_.
         recordAudit \<lparr>ae_action = ''policy_decision'', ae_actor = ''policy.engine'', ae_approvalId = None,
             ae_outcome = (case pd_effect d of Deny \<Rightarrow> ''denied'' | Allow_with_approval \<Rightarrow> ''pending''
                                             | Allow \<Rightarrow> ''approved''),
             ae_payload = payload [], ae_summary = pd_reason d,
             ae_taskId = Some (rq_taskId request), ae_toolCallId = Some (pi_toolCallId i)\<rparr>))"

text \<open>An allowed workspace write asks for approval when the session wants to approve agent writes.\<close>

definition effectiveEffect :: "('w, 'i, 'p) ToolDefinition \<Rightarrow> ToolExecutionContext \<Rightarrow> 'p ToolPreparation \<Rightarrow>
    PolicyEffect \<Rightarrow> PolicyEffect" where
  "effectiveEffect tool ctx prepared eff =
     (let agentWriteApproval = readAgentWriteApproval (tx_taskMetadata ctx)
      in if td_capability tool = Filesystem_write \<and>
            gd_pathScope (tp_governance prepared) = Workspace \<and> eff = Allow \<and>
            (agentWriteApproval = On \<or> agentWriteApproval = AcceptEditsOnly) \<and>
            readInteractionMode (tx_taskMetadata ctx) = Agent_mode
         then Allow_with_approval else eff)"

text \<open>Is the call approved without asking: by the accept-edits mode, the session or a stored rule?\<close>

definition acceptEditsAutoAllow :: "('w, 'i, 'p) ToolDefinition \<Rightarrow> ToolExecutionContext \<Rightarrow> bool" where
  "acceptEditsAutoAllow tool ctx =
     (readInteractionMode (tx_taskMetadata ctx) = AcceptEdits_mode \<and> td_capability tool = Filesystem_write)"

definition autoApproved :: "Deps \<Rightarrow> ('w, 'i, 'p) ToolDefinition \<Rightarrow> ToolExecutionContext \<Rightarrow> 'p ToolPreparation \<Rightarrow>
    string \<Rightarrow> ('m World, bool) op" where
  "autoApproved deps tool ctx prepared fp =
     (if acceptEditsAutoAllow tool ctx \<or> fp \<in> set (readSessionApprovalFingerprints (tx_taskMetadata ctx))
      then ret True
      else bnd (onRules (hasFingerprint (dp_rulesPath deps) fp)) (\<lambda>known.
        if known then ret True
        else onRules (ruleStoreMatches (dp_rulesPath deps) (tp_sandbox prepared) (td_name tool))))"

text \<open>
  The approval gate: \<open>Inl\<close> is an early return of the handler, \<open>Inr\<close> the record to go on with. First
  its end, the two status updates of an approved call.
\<close>

definition approveCall :: "ToolCallRecord \<Rightarrow> ('m World, ToolExecutionOutcome + ToolCallRecord) op" where
  "approveCall call =
     bnd (if tc_status call = Requested
          then onCalls (callUpdate (tc_toolCallId call) (noCallPatch\<lparr>tu_status := Some Awaiting_approval\<rparr>))
          else ret call) (\<lambda>call1.
     bnd (onCalls (callUpdate (tc_toolCallId call1) (noCallPatch\<lparr>tu_status := Some Approved\<rparr>))) (\<lambda>call2.
     ret (Inr call2)))"

text \<open>What becomes of the call in each status of its approval request.\<close>

definition awaitApproval :: "('m World, 'i, 'p) ToolDefinition \<Rightarrow> ToolCallRequest \<Rightarrow> ToolCallRecord \<Rightarrow>
    ApprovalRecord \<Rightarrow> bool \<Rightarrow> ('m World, ToolExecutionOutcome + ToolCallRecord) op" where
  "awaitApproval tool request call a created =
     bnd (onCalls (callUpdate (tc_toolCallId call) (noCallPatch\<lparr>tu_status :=
            Some (if tc_status call = Approved then Approved else Awaiting_approval)\<rparr>))) (\<lambda>call1.
     bnd (if created then
            bnd (recordTrace \<lparr>te_actor = ''approval.service'', te_eventType = ''approval_requested'',
                te_payload = [(''approvalId'', JStr (ap_approvalId a)),
                  (''expiresAt'', JNum (ap_expiresAt a)), (''toolCallId'', JStr (tc_toolCallId call1)),
                  (''toolName'', JStr (td_name tool))],
                te_stage = ''governance'', te_summary = ''Approval requested for '' @ td_name tool,
                te_taskId = rq_taskId request\<rparr>) (\<lambda>_.
            recordAudit \<lparr>ae_action = ''approval_requested'', ae_actor = ''approval.service'',
                ae_approvalId = Some (ap_approvalId a), ae_outcome = ''pending'',
                ae_payload = [(''expiresAt'', JNum (ap_expiresAt a)),
                  (''fingerprint'', jopt (ap_fingerprint a)), (''reason'', JStr (ap_reason a)),
                  (''toolName'', JStr (ap_toolName a))],
                ae_summary = ''Approval requested for '' @ td_name tool,
                ae_taskId = Some (rq_taskId request),
                ae_toolCallId = Some (tc_toolCallId call1)\<rparr>)
          else ret ()) (\<lambda>_.
     ret (Inl (ApprovalRequired a call1))))"

definition gateByApproval :: "Env \<Rightarrow> ('m World, 'i, 'p) ToolDefinition \<Rightarrow> ToolCallRequest \<Rightarrow>
    ToolCallRecord \<Rightarrow> ApprovalRecord \<Rightarrow> bool \<Rightarrow> ('m World, ToolExecutionOutcome + ToolCallRecord) op" where
  "gateByApproval env tool request call a created =
     (case ap_status a of
        A_pending \<Rightarrow> awaitApproval tool request call a created
      | A_denied \<Rightarrow>
          bnd (completeToolCallFailure env call (Approval_denied,
              ''Approval '' @ ap_approvalId a @ '' was denied for '' @ td_name tool @ ''.'',
              Some [(''approvalId'', JStr (ap_approvalId a))]) Denied) (\<lambda>o1. ret (Inl o1))
      | A_timed_out \<Rightarrow>
          bnd (completeToolCallFailure env call (Approval_timeout,
              ''Approval '' @ ap_approvalId a @ '' timed out for '' @ td_name tool @ ''.'',
              Some [(''approvalId'', JStr (ap_approvalId a))]) Timed_out) (\<lambda>o1. ret (Inl o1))
      | A_approved \<Rightarrow> approveCall call)"

definition approvalInput :: "('w, 'i, 'p) ToolDefinition \<Rightarrow> ToolCallRequest \<Rightarrow> ToolExecutionContext \<Rightarrow>
    'p ToolPreparation \<Rightarrow> PolicyDecision \<Rightarrow> ToolCallRecord \<Rightarrow> string \<Rightarrow> EnsureApprovalRequestInput" where
  "approvalInput tool request ctx prepared decision call fp =
     \<lparr>er_taskId = rq_taskId request, er_toolCallId = tc_toolCallId call, er_toolName = td_name tool,
      er_requesterUserId = tx_userId ctx,
      er_reason = formatApprovalReason (rq_reason request) (tp_sandbox prepared),
      er_policyDecisionId = pd_decisionId decision, er_fingerprint = Some fp\<rparr>"

definition planFingerprint :: "Deps \<Rightarrow> ('w, 'i, 'p) ToolDefinition \<Rightarrow> 'p ToolPreparation \<Rightarrow> string" where
  "planFingerprint deps tool prepared = af_fingerprint (buildApprovalFingerprint (dp_sha256 deps)
     (dp_canonUrl deps) (td_name tool) (tp_sandbox prepared))"

definition approvalGate :: "Deps \<Rightarrow> Env \<Rightarrow> ('m World, 'i, 'p) ToolDefinition \<Rightarrow> ToolCallRequest \<Rightarrow>
    ToolExecutionContext \<Rightarrow> 'p ToolPreparation \<Rightarrow> PolicyDecision \<Rightarrow> ToolCallRecord \<Rightarrow>
    ('m World, ToolExecutionOutcome + ToolCallRecord) op" where
  "approvalGate deps env tool request ctx prepared decision call =
     (if effectiveEffect tool ctx prepared (pd_effect decision) \<noteq> Allow_with_approval then ret (Inr call)
      else
        let fp = planFingerprint deps tool prepared
        in bnd (autoApproved deps tool ctx prepared fp) (\<lambda>auto.
           bnd (if acceptEditsAutoAllow tool ctx
                then recordTrace \<lparr>te_actor = ''policy.engine'', te_eventType = ''accept_edits_auto_allowed'',
                   te_payload = [(''capability'', JStr (capabilityStr (td_capability tool))),
                     (''interactionMode'', JStr ''acceptEdits''), (''toolCallId'', JStr (tc_toolCallId call)),
                     (''toolName'', JStr (td_name tool))],
                   te_stage = ''governance'',
                   te_summary = ''Auto-allowed '' @ td_name tool @ '' in acceptEdits mode'',
                   te_taskId = rq_taskId request\<rparr>
                else ret ()) (\<lambda>_.
           if auto then approveCall call
           else bnd (onApprovals (ensureApprovalRequest (dp_approvalTtlMs deps) (en_approvalAt env)
                       (en_approvalUuid env) (approvalInput tool request ctx prepared decision call fp)))
                  (\<lambda>(a, created). gateByApproval env tool request call a created))))"

definition resolveClarifyPrompt :: "Deps \<Rightarrow> Env \<Rightarrow> ToolCallRecord \<Rightarrow> ToolCallRequest \<Rightarrow> ToolExecutionContext \<Rightarrow>
    PreparedAskUserInput \<Rightarrow> ('m World, ToolExecutionOutcome) op" where
  "resolveClarifyPrompt deps env call request ctx inp =
     bnd (onPrompts (ensurePrompt (dp_clarifyTtlMs deps) (en_clarifyAt env) (en_promptUuid env)
            \<lparr>ec_taskId = rq_taskId request, ec_toolCallId = tc_toolCallId call,
             ec_requesterUserId = tx_userId ctx, ec_question = au_question inp,
             ec_reason = au_reason inp, ec_options = Some (au_options inp),
             ec_questions = Some (au_questions inp), ec_allowCustomAnswer = au_allowCustomAnswer inp,
             ec_placeholder = au_placeholder inp\<rparr>)) (\<lambda>(created, prompt).
       case cp_status prompt of
         C_pending \<Rightarrow>
           bnd (if created then
                  recordTrace \<lparr>te_actor = ''clarify.service'', te_eventType = ''clarify_requested'',
                    te_payload = [(''promptId'', JStr (cp_promptId prompt)),
                      (''question'', JStr (cp_question prompt)), (''toolCallId'', JStr (tc_toolCallId call))],
                    te_stage = ''governance'', te_summary = ''Clarification requested: '' @ cp_question prompt,
                    te_taskId = rq_taskId request\<rparr>
                else ret ()) (\<lambda>_. ret (ClarifyRequired prompt call))
       | C_cancelled \<Rightarrow>
           completeToolCallFailure env call (Clarification_cancelled,
             ''Clarification prompt '' @ cp_promptId prompt @ '' was cancelled.'',
             Some [(''promptId'', JStr (cp_promptId prompt))]) Failed
       | C_timed_out \<Rightarrow>
           completeToolCallFailure env call (Approval_timeout,
             ''Clarification prompt '' @ cp_promptId prompt @ '' timed out.'',
             Some [(''promptId'', JStr (cp_promptId prompt))]) Timed_out
       | C_answered \<Rightarrow>
           let output = clarifyOutput prompt;
               summary = ''User answered clarify prompt '' @ [CHR 0x22] @ cp_question prompt @ [CHR 0x22]
           in bnd (onCalls (callUpdate (tc_toolCallId call)
                  (noCallPatch\<lparr>tu_finishedAt := Some (Some (en_finishedAt env)), tu_output := Some output,
                     tu_status := Some Finished, tu_summary := Some (Some summary)\<rparr>))) (\<lambda>finished.
              ret (Completed (Success \<lparr>ts_summary = summary, ts_output = output, ts_runtimeOutput = None,
                     ts_artifacts = None, ts_replayed = None, ts_details = None\<rparr>) finished)))"

text \<open>The code after a successful execution, and the whole protected region.\<close>

definition finishTool :: "Env \<Rightarrow> ('m World, 'i, 'p) ToolDefinition \<Rightarrow> ToolCallRequest \<Rightarrow> ToolCallRecord \<Rightarrow>
    ToolExecutionSuccess \<Rightarrow> ('m World, ToolExecutionOutcome) op" where
  "finishTool env tool request call result =
     (let artifacts = (case ts_artifacts result of None \<Rightarrow> [] | Some xs \<Rightarrow> xs);
          persisted = sanitizePersistedOutput (ts_output result) (td_privacyLevel tool)
      in bnd (artifactCreateMany env (rq_taskId request) (Some (tc_toolCallId call)) artifacts) (\<lambda>_.
         bnd (onCalls (callUpdate (tc_toolCallId call)
                (noCallPatch\<lparr>tu_finishedAt := Some (Some (en_finishedAt env)), tu_output := Some persisted,
                   tu_status := Some Finished, tu_summary := Some (Some (ts_summary result))\<rparr>))) (\<lambda>finished.
         bnd (recordTrace \<lparr>te_actor = ''tool.'' @ td_name tool, te_eventType = ''tool_call_finished'',
                te_payload = finishedPayload (extractFileChangeFromArtifacts artifacts)
                  (if td_name tool = ''todo'' then extractTodoSnapshotFromOutput persisted else None)
                  [(''iteration'', JNum (rq_iteration request)),
                   (''outputPreview'', JStr (safePreview persisted 240)),
                   (''summary'', JStr (ts_summary result)),
                   (''toolCallId'', JStr (tc_toolCallId finished)), (''toolName'', JStr (td_name tool))],
                te_stage = ''tooling'', te_summary = ''Tool '' @ td_name tool @ '' finished'',
                te_taskId = rq_taskId request\<rparr>) (\<lambda>_.
         bnd (recordToolAudit tool request finished ''succeeded'' result) (\<lambda>_.
         ret (Completed (Success (result\<lparr>ts_output := persisted,
                ts_runtimeOutput := (if outputReplaced (ts_output result) (td_privacyLevel tool)
                   then Some (ts_output result) else ts_runtimeOutput result)\<rparr>)) finished))))))"

definition runProtected :: "Env \<Rightarrow> ('m World, 'i, 'p) ToolDefinition \<Rightarrow> ToolCallRequest \<Rightarrow>
    ToolExecutionContext \<Rightarrow> 'p ToolPreparation \<Rightarrow> ToolCallRecord \<Rightarrow> ('m World, ToolExecutionOutcome) op" where
  "runProtected env tool request ctx prepared call =
     tryCatch
       (bnd (td_execute tool (tp_preparedInput prepared) ctx) (\<lambda>result.
          case result of
            Failure code msg details \<Rightarrow> completeToolCallFailure env call (code, msg, details) Failed
          | Success r \<Rightarrow> finishTool env tool request call r))
       (\<lambda>e. completeToolCallFailure env call (toToolExecutionError e) Failed)"

definition runTool :: "Env \<Rightarrow> ('m World, 'i, 'p) ToolDefinition \<Rightarrow> ToolCallRequest \<Rightarrow> ToolExecutionContext \<Rightarrow>
    'p ToolPreparation \<Rightarrow> ToolCallRecord \<Rightarrow> ('m World, ToolExecutionOutcome) op" where
  "runTool env tool request ctx prepared call =
     bnd (onCalls (callUpdate (tc_toolCallId call)
            (noCallPatch\<lparr>tu_startedAt := Some (Some (en_startedAt env)), tu_status := Some Started\<rparr>))) (\<lambda>call1.
     bnd (recordTrace \<lparr>te_actor = ''tool.'' @ td_name tool, te_eventType = ''tool_call_started'',
            te_payload = [(''iteration'', JNum (rq_iteration request)),
              (''toolCallId'', JStr (tc_toolCallId call1)), (''toolName'', JStr (td_name tool))],
            te_stage = ''tooling'', te_summary = ''Tool '' @ td_name tool @ '' started'',
            te_taskId = rq_taskId request\<rparr>) (\<lambda>_.
     runProtected env tool request ctx prepared call1))"

text \<open>From the policy decision to the end of the handler.\<close>

definition governTool :: "Deps \<Rightarrow> Env \<Rightarrow> ('m World, 'i, 'p) ToolDefinition \<Rightarrow> ToolCallRequest \<Rightarrow>
    ToolExecutionContext \<Rightarrow> 'p ToolPreparation \<Rightarrow> ToolCallRecord \<Rightarrow> ('m World, ToolExecutionOutcome) op" where
  "governTool deps env tool request ctx prepared call =
     (let decision = evaluate (dp_policyEngine deps) (en_decisionUuid env) (en_decisionAt env)
            (policyInput tool request ctx prepared call)
      in bnd (recordPolicyDecision request decision) (\<lambda>_.
         if pd_effect decision = Deny
         then completeToolCallFailure env call (Policy_denied, pd_reason decision,
                Some [(''decisionId'', JStr (pd_decisionId decision))]) Failed
         else bnd (approvalGate deps env tool request ctx prepared decision call) (\<lambda>gate.
           case gate of
             Inl outcome \<Rightarrow> ret outcome
           | Inr call1 \<Rightarrow>
               if td_capability tool = Interaction_ask_user
               then bnd (if tc_status call1 = Requested
                         then onCalls (callUpdate (tc_toolCallId call1)
                                (noCallPatch\<lparr>tu_startedAt := Some (Some (en_startedAt env)),
                                   tu_status := Some Started\<rparr>))
                         else ret call1) (\<lambda>call2.
                    resolveClarifyPrompt deps env call2 request ctx
                      (td_askInput tool (tp_preparedInput prepared)))
               else if tx_governanceOnly ctx = Some True then ret (Cleared call1)
               else runTool env tool request ctx prepared call1)))"

text \<open>From the availability check on.\<close>

definition executeRegistered :: "Deps \<Rightarrow> Env \<Rightarrow> ('m World, 'i, 'p) ToolDefinition \<Rightarrow> ToolCallRequest \<Rightarrow>
    ToolExecutionContext \<Rightarrow> ToolCallRecord \<Rightarrow> ('m World, ToolExecutionOutcome) op" where
  "executeRegistered deps env tool request ctx call =
     bnd (checkToolAvailability tool ctx) (\<lambda>unavailable.
       case unavailable of
         Some reason \<Rightarrow> completeToolCallFailure env call (Tool_unavailable,
             ''Tool '' @ td_name tool @ '' is unavailable: '' @ reason, Some [(''reason'', JStr reason)]) Failed
       | None \<Rightarrow>
           (case td_safeParse tool (rq_input request) of
              Inl (issues, tree) \<Rightarrow> completeToolCallFailure env call (Tool_validation_error,
                  summarizeValidationIssues issues, Some [(''issues'', tree)]) Failed
            | Inr parsed \<Rightarrow>
                bnd (prepareTool tool request ctx parsed) (\<lambda>prep.
                  case prep of
                    Inl err \<Rightarrow> completeToolCallFailure env call err Failed
                  | Inr prepared \<Rightarrow> governTool deps env tool request ctx prepared call)))"

definition execute :: "(string \<Rightarrow> ('m World, 'i, 'p) ToolDefinition option) \<Rightarrow>
    (string \<Rightarrow> ('m World, 'i, 'p) ToolDefinition option) \<Rightarrow> Deps \<Rightarrow> Env \<Rightarrow> ToolCallRequest \<Rightarrow>
    ToolExecutionContext \<Rightarrow> ('m World, ToolExecutionOutcome) op" where
  "execute registry tools deps env request ctx =
     (case fst (resolveTool registry (rq_toolName request) tools) of
        None \<Rightarrow>
          bnd (ensureToolCallRecord env request High False) (\<lambda>call.
          completeToolCallFailure env call (Tool_not_found,
            ''Tool '' @ rq_toolName request @ '' is not registered.'', None) Failed)
      | Some tool \<Rightarrow>
          bnd (ensureToolCallRecord env request (td_riskLevel tool) (\<not> isMutationTool tool)) (\<lambda>call.
          bnd (liftRes (replayTerminalOutcome call)) (\<lambda>replay.
            case replay of
              Some outcome \<Rightarrow> bnd (recordReplay tool request call) (\<lambda>_. ret outcome)
            | None \<Rightarrow> executeRegistered deps env tool request ctx call)))"

end
