(* ===== verification/OrchestratorProps.thy ===== *)
theory OrchestratorProps
  imports Orchestrator
begin

section \<open>What the orchestrator guarantees\<close>

text \<open>
  Lemmas and properties of theory Orchestrator: a tool runs only with authority, an authorised call
  does run, what the handler returns is what is stored, terminal calls are replayed, restricted
  output is redacted, and the batches of parallel calls partition the requested calls.
\<close>

subsection \<open>Effects of the recording steps\<close>

lemma onCalls_run: "onCalls m w = (case m (w_toolCalls w) of (r, s) \<Rightarrow> (r, w\<lparr>w_toolCalls := s\<rparr>))"
  by (simp add: onCalls_def zoom_run)

lemma onApprovals_run: "onApprovals m w = (case m (w_approvals w) of (r, s) \<Rightarrow> (r, w\<lparr>w_approvals := s\<rparr>))"
  by (simp add: onApprovals_def zoom_run)

lemma onPrompts_run: "onPrompts m w = (case m (w_prompts w) of (r, s) \<Rightarrow> (r, w\<lparr>w_prompts := s\<rparr>))"
  by (simp add: onPrompts_def zoom_run)

lemma onRules_run: "onRules m w = (case m (w_rules w) of (r, s) \<Rightarrow> (r, w\<lparr>w_rules := s\<rparr>))"
  by (simp add: onRules_def zoom_run)

lemma recordTrace_run [simp]: "recordTrace e w = (Inr (), w\<lparr>w_trace := w_trace w @ [e]\<rparr>)"
  by (simp add: recordTrace_def)

lemma recordAudit_run [simp]: "recordAudit e w = (Inr (), w\<lparr>w_audit := w_audit w @ [e]\<rparr>)"
  by (simp add: recordAudit_def)

lemma recordPolicyDecision_run:
  "\<exists>t a. recordPolicyDecision request d w = (Inr (), w\<lparr>w_trace := w_trace w @ [t], w_audit := w_audit w @ [a]\<rparr>)"
  by (auto simp: recordPolicyDecision_def Let_def bnd_run)

text \<open>The stored row of a call.\<close>

abbreviation storedCall :: "ToolCallRecord \<Rightarrow> 'm World \<Rightarrow> bool" where
  "storedCall c w \<equiv> callFindById (tc_toolCallId c) (w_toolCalls w) = Some c"

lemma post_callUpdate:
  "post P (onCalls (callUpdate i p)) (\<lambda>c w. storedCall c w \<and> (\<exists>r. c = callPatch p r))"
proof (rule postI)
  fix w x and w' :: "'m World"
  assume run: "onCalls (callUpdate i p) w = (Inr x, w')"
  then obtain r where r: "callFindById i (w_toolCalls w) = Some r" "x = callPatch p r"
    "w' = w\<lparr>w_toolCalls := rowSet tc_toolCallId i (callPatch p r) (w_toolCalls w)\<rparr>"
    by (auto simp: onCalls_run callUpdate_run split: option.splits if_splits)
  have "tc_toolCallId x = i" using r callFindById_Some [OF r(1)] by simp
  then show "storedCall x w' \<and> (\<exists>r. x = callPatch p r)"
    using r callFindById_rowSet [OF r(1), of i p] by auto
qed

text \<open>A failed or rejected call is stored with its error.\<close>

definition failedCall :: "ToolExecutionResult \<Rightarrow> ToolCallRecord \<Rightarrow> bool" where
  "failedCall res c = (case res of
     Success _ \<Rightarrow> False
   | Failure code msg _ \<Rightarrow> tc_errorCode c = Some code \<and> tc_errorMessage c = Some msg \<and>
       tc_status c \<in> {Failed, Denied, Timed_out})"

text \<open>A successful call is stored with the result it returns.\<close>

definition finishedCall :: "ToolExecutionResult \<Rightarrow> ToolCallRecord \<Rightarrow> bool" where
  "finishedCall res c = (case res of
     Success s \<Rightarrow> tc_status c = Finished \<and> tc_output c = ts_output s \<and> tc_summary c = Some (ts_summary s)
   | Failure _ _ _ \<Rightarrow> False)"

text \<open>The record an outcome carries is the stored one, in the status the outcome stands for.\<close>

fun outcomeStored :: "ToolExecutionOutcome \<Rightarrow> 'm World \<Rightarrow> bool" where
  "outcomeStored (Completed res c) w \<longleftrightarrow> storedCall c w \<and> (failedCall res c \<or> finishedCall res c)"
| "outcomeStored (ApprovalRequired a c) w \<longleftrightarrow> storedCall c w \<and> ap_status a = A_pending \<and>
     (tc_status c = Awaiting_approval \<or> tc_status c = Approved)"
| "outcomeStored (ClarifyRequired p c) w \<longleftrightarrow> cp_status p = C_pending"
| "outcomeStored (Cleared c) w \<longleftrightarrow> True"

definition failurePatch :: "Env \<Rightarrow> app_error \<Rightarrow> ToolCallStatus \<Rightarrow> ToolCallPatch" where
  "failurePatch env err status = noCallPatch\<lparr>tu_errorCode := Some (Some (fst err)),
     tu_errorMessage := Some (Some (fst (snd err))), tu_finishedAt := Some (Some (en_finishedAt env)),
     tu_status := Some status\<rparr>"

lemma completeToolCallFailure_run:
  "\<exists>t a. completeToolCallFailure env call err status w =
    (case onCalls (callUpdate (tc_toolCallId call) (failurePatch env err status)) w of
       (Inl e, w1) \<Rightarrow> (Inl e, w1)
     | (Inr c, w1) \<Rightarrow> (Inr (Completed (Failure (fst err) (fst (snd err)) (snd (snd err))) c),
         w1\<lparr>w_trace := w_trace w1 @ [t], w_audit := w_audit w1 @ [a]\<rparr>))"
proof -
  obtain r w1 where r: "onCalls (callUpdate (tc_toolCallId call) (failurePatch env err status)) w = (r, w1)"
    by fastforce
  show ?thesis
    using r unfolding failurePatch_def
    by (cases err; cases r)
      (auto simp: completeToolCallFailure_def recordFailedToolCall_def bnd_run Let_def)
qed

lemma post_failure:
  assumes "status \<in> {Failed, Denied, Timed_out}"
  shows "post P (completeToolCallFailure env call err status) outcomeStored"
proof (rule postI)
  fix w o1 and w' :: "'a World"
  assume run: "completeToolCallFailure env call err status w = (Inr o1, w')"
  obtain t a where eq: "completeToolCallFailure env call err status w =
    (case onCalls (callUpdate (tc_toolCallId call) (failurePatch env err status)) w of
       (Inl e, w1) \<Rightarrow> (Inl e, w1)
     | (Inr c, w1) \<Rightarrow> (Inr (Completed (Failure (fst err) (fst (snd err)) (snd (snd err))) c),
         w1\<lparr>w_trace := w_trace w1 @ [t], w_audit := w_audit w1 @ [a]\<rparr>))"
    using completeToolCallFailure_run by blast
  from run obtain c w1 where c: "onCalls (callUpdate (tc_toolCallId call) (failurePatch env err status)) w = (Inr c, w1)"
    "o1 = Completed (Failure (fst err) (fst (snd err)) (snd (snd err))) c"
    "w' = w1\<lparr>w_trace := w_trace w1 @ [t], w_audit := w_audit w1 @ [a]\<rparr>"
    unfolding eq by (auto split: prod.splits sum.splits)
  from postD [OF post_callUpdate, of "\<lambda>_. True", OF _ c(1)] obtain r where
    "storedCall c w1" "c = callPatch (failurePatch env err status) r" by auto
  then show "outcomeStored o1 w'"
    using c assms by (auto simp: failedCall_def callPatch_def failurePatch_def noCallPatch_def)
qed

lemma recordToolAudit_run:
  "\<exists>as. recordToolAudit tool request call outcome result w = (Inr (), w\<lparr>w_audit := w_audit w @ as\<rparr>)"
proof (cases "toolAuditAction tool")
  case None
  then show ?thesis by (intro exI [of _ "[]"]) (simp add: recordToolAudit_def)
next
  case (Some action)
  then show ?thesis by (auto simp: recordToolAudit_def)
qed

definition finishPatch :: "Env \<Rightarrow> json \<Rightarrow> string \<Rightarrow> ToolCallPatch" where
  "finishPatch env output summary = noCallPatch\<lparr>tu_finishedAt := Some (Some (en_finishedAt env)),
     tu_output := Some output, tu_status := Some Finished, tu_summary := Some (Some summary)\<rparr>"

lemma finishPatch_stored:
  "finishedCall (Success s) (callPatch (finishPatch env (ts_output s) (ts_summary s)) r)"
  by (simp add: finishedCall_def callPatch_def finishPatch_def noCallPatch_def)

lemma finishTool_run:
  "\<exists>t as. finishTool env tool request call result w =
    (case artifactCreateMany env (rq_taskId request) (Some (tc_toolCallId call))
        (case ts_artifacts result of None \<Rightarrow> [] | Some xs \<Rightarrow> xs) w of
       (Inl e, w1) \<Rightarrow> (Inl e, w1)
     | (Inr _, w1) \<Rightarrow>
         (case onCalls (callUpdate (tc_toolCallId call) (finishPatch env
                (sanitizePersistedOutput (ts_output result) (td_privacyLevel tool)) (ts_summary result))) w1 of
            (Inl e, w2) \<Rightarrow> (Inl e, w2)
          | (Inr c, w2) \<Rightarrow>
              (Inr (Completed (Success (result\<lparr>ts_output :=
                   sanitizePersistedOutput (ts_output result) (td_privacyLevel tool),
                 ts_runtimeOutput := (if outputReplaced (ts_output result) (td_privacyLevel tool)
                   then Some (ts_output result) else ts_runtimeOutput result)\<rparr>)) c),
               w2\<lparr>w_trace := w_trace w2 @ [t], w_audit := w_audit w2 @ as\<rparr>)))"
proof -
  obtain r1 w1 where 1: "artifactCreateMany env (rq_taskId request) (Some (tc_toolCallId call))
      (case ts_artifacts result of None \<Rightarrow> [] | Some xs \<Rightarrow> xs) w = (r1, w1)" by fastforce
  obtain r2 w2 where 2: "onCalls (callUpdate (tc_toolCallId call) (finishPatch env
      (sanitizePersistedOutput (ts_output result) (td_privacyLevel tool)) (ts_summary result))) w1 = (r2, w2)"
    by fastforce
  show ?thesis
  proof (cases r1)
    case (Inl e)
    with 1 show ?thesis by (simp add: finishTool_def Let_def bnd_run)
  next
    case r1: (Inr x)
    show ?thesis
    proof (cases r2)
      case (Inl e)
      with 1 2 r1 show ?thesis by (simp add: finishTool_def Let_def bnd_run finishPatch_def)
    next
      case (Inr c)
      define te where "te = \<lparr>te_actor = ''tool.'' @ td_name tool, te_eventType = ''tool_call_finished'',
                te_payload = finishedPayload (extractFileChangeFromArtifacts
                    (case ts_artifacts result of None \<Rightarrow> [] | Some xs \<Rightarrow> xs))
                  (if td_name tool = ''todo'' then extractTodoSnapshotFromOutput
                     (sanitizePersistedOutput (ts_output result) (td_privacyLevel tool)) else None)
                  [(''iteration'', JNum (rq_iteration request)),
                   (''outputPreview'', JStr (safePreview
                     (sanitizePersistedOutput (ts_output result) (td_privacyLevel tool)) 240)),
                   (''summary'', JStr (ts_summary result)),
                   (''toolCallId'', JStr (tc_toolCallId c)), (''toolName'', JStr (td_name tool))],
                te_stage = ''tooling'', te_summary = ''Tool '' @ td_name tool @ '' finished'',
                te_taskId = rq_taskId request\<rparr>"
      obtain as where "recordToolAudit tool request c ''succeeded'' result (w2\<lparr>w_trace := w_trace w2 @ [te]\<rparr>) =
          (Inr (), w2\<lparr>w_trace := w_trace w2 @ [te], w_audit := w_audit w2 @ as\<rparr>)"
        using recordToolAudit_run [of tool request c "''succeeded''" result "w2\<lparr>w_trace := w_trace w2 @ [te]\<rparr>"]
        by auto
      with 1 2 r1 Inr show ?thesis
        unfolding finishTool_def Let_def finishPatch_def te_def
        by (intro exI [of _ te] exI [of _ as]) (simp add: bnd_run te_def)
    qed
  qed
qed

lemma post_finishTool: "post P (finishTool env tool request call result) outcomeStored"
proof (rule postI)
  fix w o1 and w' :: "'a World"
  assume run: "finishTool env tool request call result w = (Inr o1, w')"
  let ?out = "sanitizePersistedOutput (ts_output result) (td_privacyLevel tool)"
  let ?res = "result\<lparr>ts_output := ?out, ts_runtimeOutput := (if outputReplaced (ts_output result)
      (td_privacyLevel tool) then Some (ts_output result) else ts_runtimeOutput result)\<rparr>"
  note fr = finishTool_run [of env tool request call result w]
  obtain t as w1 c w2 where
    c: "onCalls (callUpdate (tc_toolCallId call) (finishPatch env ?out (ts_summary result))) w1 = (Inr c, w2)"
    and o1: "o1 = Completed (Success ?res) c"
    and w': "w' = w2\<lparr>w_trace := w_trace w2 @ [t], w_audit := w_audit w2 @ as\<rparr>"
    using fr
  proof (elim exE)
    fix t as
    assume eq: "finishTool env tool request call result w =
      (case artifactCreateMany env (rq_taskId request) (Some (tc_toolCallId call))
          (case ts_artifacts result of None \<Rightarrow> [] | Some xs \<Rightarrow> xs) w of
         (Inl e, w1) \<Rightarrow> (Inl e, w1)
       | (Inr _, w1) \<Rightarrow>
           (case onCalls (callUpdate (tc_toolCallId call) (finishPatch env ?out (ts_summary result))) w1 of
              (Inl e, w2) \<Rightarrow> (Inl e, w2)
            | (Inr c, w2) \<Rightarrow> (Inr (Completed (Success ?res) c),
                 w2\<lparr>w_trace := w_trace w2 @ [t], w_audit := w_audit w2 @ as\<rparr>)))"
    from run show thesis unfolding eq by (auto intro: that split: prod.splits sum.splits)
  qed
  from postD [OF post_callUpdate, of "\<lambda>_. True", OF _ c] obtain r where
    "storedCall c w2" "c = callPatch (finishPatch env ?out (ts_summary result)) r" by auto
  with o1 w' finishPatch_stored [of ?res env r] show "outcomeStored o1 w'" by simp
qed

lemma post_runTool: "post P (runTool env tool request ctx prepared call) outcomeStored"
  unfolding runTool_def runProtected_def
  by (intro post_then post_tryCatch)
    (auto intro!: post_failure post_finishTool split: ToolExecutionResult.splits)

text \<open>What the approval gate returns early is stored.\<close>

lemma post_True: "(\<And>x w. Q x w) \<Longrightarrow> post P m Q"
  by (simp add: post_def)

definition gateOk :: "ToolExecutionOutcome + ToolCallRecord \<Rightarrow> 'm World \<Rightarrow> bool" where
  "gateOk g w = (case g of Inl o1 \<Rightarrow> outcomeStored o1 w | Inr c \<Rightarrow> True)"

lemma post_gate_failure:
  "status \<in> {Failed, Denied, Timed_out} \<Longrightarrow>
    post P (bnd (completeToolCallFailure env call err status) (\<lambda>o1. ret (Inl o1))) gateOk"
  by (rule post_bnd [OF post_failure]) (auto simp: gateOk_def intro: post_ret)

lemma post_awaitApproval:
  assumes "ap_status a = A_pending"
  shows "post P (awaitApproval tool request call a created) gateOk"
  unfolding awaitApproval_def
proof (rule post_bnd [OF post_callUpdate], rule postI, goal_cases)
  case (1 c w x w')
  then have "storedCall c w" "tc_status c = Awaiting_approval \<or> tc_status c = Approved"
    by auto
  with 1 assms show ?case by (auto simp: gateOk_def bnd_run split: if_splits)
qed

lemma post_approveCall: "post P (approveCall call) gateOk"
  unfolding approveCall_def by (intro post_then) (auto simp: gateOk_def intro: post_ret)

lemma post_gateByApproval: "post P (gateByApproval env tool request call a created) gateOk"
  by (cases "ap_status a")
    (simp_all add: gateByApproval_def post_awaitApproval post_approveCall post_gate_failure)

lemma post_approvalGate: "post P (approvalGate deps env tool request ctx prepared decision call) gateOk"
proof (cases "effectiveEffect tool ctx prepared (pd_effect decision) = Allow_with_approval")
  case True
  show ?thesis
    unfolding approvalGate_def Let_def True
    by (simp only: not_True_eq_False if_False simp_thms, intro post_then)
      (auto intro!: post_approveCall post_then post_gateByApproval)
next
  case False
  then show ?thesis by (auto simp: approvalGate_def gateOk_def intro: post_ret)
qed

lemma post_clarify: "post P (resolveClarifyPrompt deps env call request ctx inp) outcomeStored"
proof -
  have "post (\<lambda>_. True) (case cp_status prompt of
         C_pending \<Rightarrow> bnd (if created then recordTrace (t prompt) else ret ()) (\<lambda>_. ret (ClarifyRequired prompt call))
       | C_cancelled \<Rightarrow> completeToolCallFailure env call (d prompt) Failed
       | C_timed_out \<Rightarrow> completeToolCallFailure env call (u prompt) Timed_out
       | C_answered \<Rightarrow> bnd (onCalls (callUpdate (tc_toolCallId call) (finishPatch env (out prompt) (sm prompt)))) (\<lambda>c.
           ret (Completed (Success \<lparr>ts_summary = sm prompt, ts_output = out prompt, ts_runtimeOutput = None,
                     ts_artifacts = None, ts_replayed = None, ts_details = None\<rparr>) c))) outcomeStored"
    for prompt created t d u out sm
  proof (cases "cp_status prompt")
    case C_pending
    then show ?thesis by (auto intro!: post_then post_ret)
  next
    case C_answered
    have "post (\<lambda>_. True) (bnd (onCalls (callUpdate (tc_toolCallId call) (finishPatch env (out prompt) (sm prompt)))) (\<lambda>c.
        ret (Completed (Success \<lparr>ts_summary = sm prompt, ts_output = out prompt, ts_runtimeOutput = None,
          ts_artifacts = None, ts_replayed = None, ts_details = None\<rparr>) c))) outcomeStored"
      by (rule post_bnd [OF post_callUpdate]) (rule post_ret, clarsimp simp: finishedCall_def callPatch_def
        finishPatch_def noCallPatch_def)
    with C_answered show ?thesis by simp
  qed (simp_all add: post_failure)
  then show ?thesis
    unfolding resolveClarifyPrompt_def Let_def finishPatch_def
    by (intro post_then) (simp only: split_beta)
qed

lemma post_governTool: "post P (governTool deps env tool request ctx prepared call) outcomeStored"
proof -
  have "post (gateOk g) (case g of
         Inl outcome \<Rightarrow> ret outcome
       | Inr call1 \<Rightarrow>
           if td_capability tool = Interaction_ask_user
           then bnd (m call1) (\<lambda>call2. resolveClarifyPrompt deps env call2 request ctx inp)
           else if tx_governanceOnly ctx = Some True then ret (Cleared call1)
           else runTool env tool request ctx prepared call1) outcomeStored" for g m inp
    by (cases g) (auto simp: gateOk_def intro!: post_ret post_then post_clarify post_runTool)
  then show ?thesis
    unfolding governTool_def Let_def
    by (intro post_then) (auto intro!: post_failure post_bnd [OF post_approvalGate])
qed

lemma post_executeRegistered: "post P (executeRegistered deps env tool request ctx call) outcomeStored"
  unfolding executeRegistered_def
  by (intro post_then) (auto intro!: post_failure post_then post_governTool split: option.splits sum.splits)

subsection \<open>Authority\<close>

text \<open>
  The specification of authority, apart from the flow of the handler. A plan is approved in advance by
  the accept-edits mode (writes only), by a fingerprint of the session, by a fingerprint rule, or by
  exactly one prefix rule; it is approved on request when the latest approval of the call is granted.
\<close>

definition preApproved :: "Deps \<Rightarrow> ('w, 'i, 'p) ToolDefinition \<Rightarrow> ToolExecutionContext \<Rightarrow> 'p ToolPreparation \<Rightarrow>
    RuleHost \<Rightarrow> bool" where
  "preApproved deps tool ctx prepared h \<longleftrightarrow>
     (let fp = planFingerprint deps tool prepared in
      (td_capability tool = Filesystem_write \<and> readInteractionMode (tx_taskMetadata ctx) = AcceptEdits_mode) \<or>
      fp \<in> set (readSessionApprovalFingerprints (tx_taskMetadata ctx)) \<or>
      (\<exists>rules. listRules (dp_rulesPath deps) h = (Inr rules, h) \<and>
        ((\<exists>r \<in> set rules. resolveRuleKind r = RK_fingerprint \<and> rl_fingerprint r = Some fp) \<or>
         length (filter (\<lambda>r. ruleMatches r (tp_sandbox prepared) (td_name tool)) rules) = 1)))"

definition approvedOnRequest :: "ToolCallRequest \<Rightarrow> ToolCallRecord \<Rightarrow> approvals \<Rightarrow> bool" where
  "approvedOnRequest request call t \<longleftrightarrow>
     (\<exists>a. approvalFindLatest (rq_taskId request) (tc_toolCallId call) t = Some a \<and> ap_status a = A_approved)"

definition authorised :: "Deps \<Rightarrow> Env \<Rightarrow> ('m World, 'i, 'p) ToolDefinition \<Rightarrow> ToolCallRequest \<Rightarrow>
    ToolExecutionContext \<Rightarrow> 'p ToolPreparation \<Rightarrow> ToolCallRecord \<Rightarrow> 'm World \<Rightarrow> bool" where
  "authorised deps env tool request ctx prepared call w \<longleftrightarrow>
     (let eff = pd_effect (evaluate (dp_policyEngine deps) (en_decisionUuid env) (en_decisionAt env)
            (policyInput tool request ctx prepared call))
      in eff \<noteq> Deny \<and> td_capability tool \<noteq> Interaction_ask_user \<and> tx_governanceOnly ctx \<noteq> Some True \<and>
         (effectiveEffect tool ctx prepared eff \<noteq> Allow_with_approval \<or>
          preApproved deps tool ctx prepared (w_rules w) \<or>
          approvedOnRequest request call (w_approvals w)))"

lemma listRules_state: "listRules path h = (r, h') \<Longrightarrow> h' = h"
  by (auto simp: listRules_def bnd_run readRules_def split: option.splits RuleFile.splits)

lemma autoApproved_run:
  "autoApproved deps tool ctx prepared fp w =
    (if acceptEditsAutoAllow tool ctx \<or> fp \<in> set (readSessionApprovalFingerprints (tx_taskMetadata ctx))
     then (Inr True, w)
     else (case listRules (dp_rulesPath deps) (w_rules w) of
             (Inl e, _) \<Rightarrow> (Inl e, w)
           | (Inr rules, _) \<Rightarrow>
               (Inr ((\<exists>r \<in> set rules. resolveRuleKind r = RK_fingerprint \<and> rl_fingerprint r = Some fp) \<or>
                  length (filter (\<lambda>r. ruleMatches r (tp_sandbox prepared) (td_name tool)) rules) = 1), w)))"
proof -
  obtain r h where r: "listRules (dp_rulesPath deps) (w_rules w) = (r, h)" by fastforce
  then have "h = w_rules w" by (rule listRules_state)
  with r show ?thesis
    by (cases r) (auto simp: autoApproved_def bnd_run onRules_run hasFingerprint_def ruleStoreMatches_def
        list_ex_iff)
qed

lemma autoApproved_pre:
  assumes "autoApproved deps tool ctx prepared (planFingerprint deps tool prepared) w = (Inr b, w')"
  shows "w' = w \<and> (b \<longleftrightarrow> preApproved deps tool ctx prepared (w_rules w))"
proof -
  obtain r h where r: "listRules (dp_rulesPath deps) (w_rules w) = (r, h)" by fastforce
  then have "h = w_rules w" by (rule listRules_state)
  with r assms show ?thesis
    by (cases r) (auto simp: autoApproved_run preApproved_def Let_def acceptEditsAutoAllow_def split: if_splits)
qed

text \<open>Only a granted approval comes back granted from the service.\<close>

lemma expireApproval_approved:
  assumes "expireApproval now a t = (Inr a', t')" and "ap_status a' = A_approved"
  shows "ap_status a = A_approved \<and> a' = a \<and> t' = t"
  using assms
  by (auto simp: expireApproval_def approvalNoPatch_def split: if_splits elim!: approvalUpdate_cases)

lemma ensure_approved:
  assumes "ensureApprovalRequest ttl now uuid i t = (Inr (a, c), t')" and "ap_status a = A_approved"
  shows "approvalFindLatest (er_taskId i) (er_toolCallId i) t = Some a \<and> t' = t"
proof (cases "approvalFindLatest (er_taskId i) (er_toolCallId i) t")
  case None
  with assms show ?thesis
    by (auto simp: ensureApprovalRequest_def bnd_run approvalOfDraft_def split: prod.splits sum.splits
        elim!: approvalCreate_cases)
next
  case (Some a0)
  with assms(1) have "expireApproval now a0 t = (Inr a, t')"
    by (auto simp: ensureApprovalRequest_def bnd_run split: prod.splits sum.splits)
  from expireApproval_approved [OF this assms(2)] Some show ?thesis by simp
qed

text \<open>Without authority the gate never lets a call through.\<close>

lemma gate_closed:
  assumes "effectiveEffect tool ctx prepared (pd_effect decision) = Allow_with_approval"
    and "\<not> preApproved deps tool ctx prepared (w_rules w)"
    and "\<not> approvedOnRequest request call (w_approvals w)"
    and "approvalGate deps env tool request ctx prepared decision call w = (Inr g, w')"
  shows "\<exists>o1. g = Inl o1"
proof -
  let ?fp = "planFingerprint deps tool prepared"
  obtain b w1 where auto: "autoApproved deps tool ctx prepared ?fp w = (Inr b, w1)"
    using assms(1,4) by (auto simp: approvalGate_def Let_def elim!: bnd_InrE)
  from autoApproved_pre [OF this] assms(2) have b: "b = False" "w1 = w" by auto
  have "\<not> acceptEditsAutoAllow tool ctx"
    using assms(2) by (auto simp: preApproved_def Let_def acceptEditsAutoAllow_def)
  with assms(1,4) auto b have
    "bnd (onApprovals (ensureApprovalRequest (dp_approvalTtlMs deps) (en_approvalAt env)
       (en_approvalUuid env) (approvalInput tool request ctx prepared decision call ?fp)))
       (\<lambda>(a, created). gateByApproval env tool request call a created) w = (Inr g, w')"
    by (simp add: approvalGate_def Let_def bnd_run)
  then obtain a c w2 where
    en: "onApprovals (ensureApprovalRequest (dp_approvalTtlMs deps) (en_approvalAt env)
       (en_approvalUuid env) (approvalInput tool request ctx prepared decision call ?fp)) w = (Inr (a, c), w2)"
    and g: "gateByApproval env tool request call a c w2 = (Inr g, w')"
    by (auto elim!: bnd_InrE)
  have "ap_status a \<noteq> A_approved"
  proof
    assume ap: "ap_status a = A_approved"
    from en obtain t' where "ensureApprovalRequest (dp_approvalTtlMs deps) (en_approvalAt env)
       (en_approvalUuid env) (approvalInput tool request ctx prepared decision call ?fp) (w_approvals w) =
       (Inr (a, c), t')"
      by (auto simp: onApprovals_run split: prod.splits)
    from ensure_approved [OF this ap] ap assms(3) show False
      by (simp add: approvedOnRequest_def approvalInput_def)
  qed
  with g show ?thesis
    by (cases "ap_status a") (auto simp: gateByApproval_def awaitApproval_def elim!: bnd_InrE)
qed

text \<open>Everything but the run itself ignores the \<open>execute\<close> member of the tool.\<close>

lemma frame_execute [simp]:
  fixes tool :: "('w, 'i, 'p) ToolDefinition"
  shows "policyInput (tool\<lparr>td_execute := f\<rparr>) = policyInput tool"
    "effectiveEffect (tool\<lparr>td_execute := f\<rparr>) = effectiveEffect tool"
    "acceptEditsAutoAllow (tool\<lparr>td_execute := f\<rparr>) = acceptEditsAutoAllow tool"
    "planFingerprint deps (tool\<lparr>td_execute := f\<rparr>) = planFingerprint deps tool"
    "approvalInput (tool\<lparr>td_execute := f\<rparr>) = approvalInput tool"
    "autoApproved deps (tool\<lparr>td_execute := f\<rparr>) = autoApproved deps tool"
    "checkToolAvailability (tool\<lparr>td_execute := f\<rparr>) = checkToolAvailability tool"
    "isMutationTool (tool\<lparr>td_execute := f\<rparr>) = isMutationTool tool"
    "recordReplay (tool\<lparr>td_execute := f\<rparr>) = recordReplay tool"
proof -
  have sel: "td_name (tool\<lparr>td_execute := f\<rparr>) = td_name tool"
    "td_capability (tool\<lparr>td_execute := f\<rparr>) = td_capability tool"
    "td_riskLevel (tool\<lparr>td_execute := f\<rparr>) = td_riskLevel tool"
    "td_privacyLevel (tool\<lparr>td_execute := f\<rparr>) = td_privacyLevel tool"
    "td_sideEffectLevel (tool\<lparr>td_execute := f\<rparr>) = td_sideEffectLevel tool"
    "td_checkAvailability (tool\<lparr>td_execute := f\<rparr>) = td_checkAvailability tool"
    by simp_all
  show "policyInput (tool\<lparr>td_execute := f\<rparr>) = policyInput tool"
    "effectiveEffect (tool\<lparr>td_execute := f\<rparr>) = effectiveEffect tool"
    "acceptEditsAutoAllow (tool\<lparr>td_execute := f\<rparr>) = acceptEditsAutoAllow tool"
    "planFingerprint deps (tool\<lparr>td_execute := f\<rparr>) = planFingerprint deps tool"
    "approvalInput (tool\<lparr>td_execute := f\<rparr>) = approvalInput tool"
    "autoApproved deps (tool\<lparr>td_execute := f\<rparr>) = autoApproved deps tool"
    "checkToolAvailability (tool\<lparr>td_execute := f\<rparr>) = checkToolAvailability tool"
    "isMutationTool (tool\<lparr>td_execute := f\<rparr>) = isMutationTool tool"
    "recordReplay (tool\<lparr>td_execute := f\<rparr>) = recordReplay tool"
    by (unfold policyInput_def effectiveEffect_def acceptEditsAutoAllow_def planFingerprint_def
      approvalInput_def autoApproved_def checkToolAvailability_def isMutationTool_def recordReplay_def sel)
      (rule refl)+
qed

lemma frame_gate [simp]:
  fixes tool :: "('m World, 'i, 'p) ToolDefinition"
  shows "prepareTool (tool\<lparr>td_execute := f\<rparr>) = prepareTool tool"
    "gateByApproval env (tool\<lparr>td_execute := f\<rparr>) = gateByApproval env tool"
    "approvalGate deps env (tool\<lparr>td_execute := f\<rparr>) = approvalGate deps env tool"
proof -
  have sel: "td_name (tool\<lparr>td_execute := f\<rparr>) = td_name tool"
    "td_capability (tool\<lparr>td_execute := f\<rparr>) = td_capability tool"
    "td_prepare (tool\<lparr>td_execute := f\<rparr>) = td_prepare tool"
    by simp_all
  show 1: "prepareTool (tool\<lparr>td_execute := f\<rparr>) = prepareTool tool"
    by (intro ext) (unfold prepareTool_def sel, rule refl)
  show 2: "gateByApproval env (tool\<lparr>td_execute := f\<rparr>) = gateByApproval env tool"
    by (intro ext) (unfold gateByApproval_def awaitApproval_def sel, rule refl)
  show "approvalGate deps env (tool\<lparr>td_execute := f\<rparr>) = approvalGate deps env tool"
    by (intro ext) (unfold approvalGate_def frame_execute 2 sel, rule refl)
qed

lemma unauthorised_frame:
  assumes "\<not> authorised deps env tool request ctx prepared call w"
  shows "governTool deps env (tool\<lparr>td_execute := f\<rparr>) request ctx prepared call w =
    governTool deps env tool request ctx prepared call w"
proof -
  let ?d = "evaluate (dp_policyEngine deps) (en_decisionUuid env) (en_decisionAt env)
      (policyInput tool request ctx prepared call)"
  obtain t a where rec: "recordPolicyDecision request ?d w =
      (Inr (), w\<lparr>w_trace := w_trace w @ [t], w_audit := w_audit w @ [a]\<rparr>)"
    using recordPolicyDecision_run by blast
  let ?w = "w\<lparr>w_trace := w_trace w @ [t], w_audit := w_audit w @ [a]\<rparr>"
  consider "pd_effect ?d = Deny" | "td_capability tool = Interaction_ask_user"
    | "tx_governanceOnly ctx = Some True"
    | "effectiveEffect tool ctx prepared (pd_effect ?d) = Allow_with_approval"
      "\<not> preApproved deps tool ctx prepared (w_rules ?w)" "\<not> approvedOnRequest request call (w_approvals ?w)"
    using assms by (auto simp: authorised_def Let_def)
  then show ?thesis
  proof cases
    case 4
    have "\<exists>o1. g = Inl o1" if "approvalGate deps env tool request ctx prepared ?d call ?w = (Inr g, w')" for g w'
      by (rule gate_closed [OF 4 that])
    then show ?thesis
      by (auto simp: governTool_def Let_def bnd_run rec split: prod.splits sum.splits)
  qed (auto simp: governTool_def Let_def bnd_run rec split: prod.splits sum.splits)
qed

subsection \<open>An authorised call runs\<close>

lemma update_stored:
  assumes "storedCall c w" and "callMove (tc_status c) (patched (tu_status p) (tc_status c))"
  shows "\<exists>t. onCalls (callUpdate (tc_toolCallId c) p) w = (Inr (callPatch p c), w\<lparr>w_toolCalls := t\<rparr>) \<and>
    callFindById (tc_toolCallId c) t = Some (callPatch p c)"
  using assms callFindById_rowSet [OF assms(1), of "tc_toolCallId c" p]
  by (intro exI [of _ "rowSet tc_toolCallId (tc_toolCallId c) (callPatch p c) (w_toolCalls w)"])
    (simp add: onCalls_run callUpdate_run)

lemma approveCall_run:
  assumes "storedCall c w" and "tc_status c \<in> {Requested, Awaiting_approval, Approved}"
  shows "\<exists>c' t. approveCall c w = (Inr (Inr c'), w\<lparr>w_toolCalls := t\<rparr>) \<and>
    callFindById (tc_toolCallId c) t = Some c' \<and> tc_toolCallId c' = tc_toolCallId c \<and> tc_status c' = Approved"
proof (cases "tc_status c = Requested")
  case True
  let ?p = "noCallPatch\<lparr>tu_status := Some Awaiting_approval\<rparr>"
  let ?q = "noCallPatch\<lparr>tu_status := Some Approved\<rparr>"
  obtain t where t: "onCalls (callUpdate (tc_toolCallId c) ?p) w = (Inr (callPatch ?p c), w\<lparr>w_toolCalls := t\<rparr>)"
    "callFindById (tc_toolCallId c) t = Some (callPatch ?p c)"
    using update_stored [OF assms(1), of ?p] True by (auto simp: callMove_def canTransitionToolCallStatus_def)
  have st: "storedCall (callPatch ?p c) (w\<lparr>w_toolCalls := t\<rparr>)" using t(2) by simp
  obtain t' where "onCalls (callUpdate (tc_toolCallId c) ?q) (w\<lparr>w_toolCalls := t\<rparr>) =
      (Inr (callPatch ?q (callPatch ?p c)), w\<lparr>w_toolCalls := t'\<rparr>)"
    "callFindById (tc_toolCallId c) t' = Some (callPatch ?q (callPatch ?p c))"
    using update_stored [OF st, of ?q] by (auto simp: callMove_def canTransitionToolCallStatus_def)
  with True t show ?thesis by (auto simp: approveCall_def bnd_run)
next
  case False
  let ?q = "noCallPatch\<lparr>tu_status := Some Approved\<rparr>"
  obtain t where "onCalls (callUpdate (tc_toolCallId c) ?q) w = (Inr (callPatch ?q c), w\<lparr>w_toolCalls := t\<rparr>)"
    "callFindById (tc_toolCallId c) t = Some (callPatch ?q c)"
    using update_stored [OF assms(1), of ?q] assms(2) False
    by (auto simp: callMove_def canTransitionToolCallStatus_def)
  with False show ?thesis by (auto simp: approveCall_def bnd_run)
qed

lemma ensure_latest_approved:
  assumes "approvalFindLatest (er_taskId i) (er_toolCallId i) t = Some a" and "ap_status a = A_approved"
  shows "ensureApprovalRequest ttl now uuid i t = (Inr (a, False), t)"
  using assms by (simp add: ensureApprovalRequest_def bnd_run expireApproval_def)

text \<open>The gate lets an authorised call through.\<close>

lemma gate_open:
  assumes "storedCall call w" and "tc_status call \<in> {Requested, Awaiting_approval, Approved}"
    and "listRules (dp_rulesPath deps) (w_rules w) = (Inr rules, w_rules w)"
    and "effectiveEffect tool ctx prepared (pd_effect decision) = Allow_with_approval"
    and "preApproved deps tool ctx prepared (w_rules w) \<or> approvedOnRequest request call (w_approvals w)"
  shows "\<exists>c t tr. approvalGate deps env tool request ctx prepared decision call w =
      (Inr (Inr c), w\<lparr>w_toolCalls := t, w_trace := tr\<rparr>) \<and>
    callFindById (tc_toolCallId call) t = Some c \<and> tc_toolCallId c = tc_toolCallId call \<and>
    tc_status c = Approved"
proof -
  let ?fp = "planFingerprint deps tool prepared"
  have auto: "autoApproved deps tool ctx prepared ?fp w =
      (Inr (preApproved deps tool ctx prepared (w_rules w)), w)"
    using autoApproved_pre [of deps tool ctx prepared w] assms(3) by (auto simp: autoApproved_run)
  define ev where "ev = \<lparr>te_actor = ''policy.engine'', te_eventType = ''accept_edits_auto_allowed'',
     te_payload = [(''capability'', JStr (capabilityStr (td_capability tool))),
       (''interactionMode'', JStr ''acceptEdits''), (''toolCallId'', JStr (tc_toolCallId call)),
       (''toolName'', JStr (td_name tool))],
     te_stage = ''governance'', te_summary = ''Auto-allowed '' @ td_name tool @ '' in acceptEdits mode'',
     te_taskId = rq_taskId request\<rparr>"
  define w1 where "w1 = (if acceptEditsAutoAllow tool ctx then w\<lparr>w_trace := w_trace w @ [ev]\<rparr> else w)"
  have "storedCall call w1" using assms(1) by (simp add: w1_def)
  from approveCall_run [OF this assms(2)] obtain c t where
    c: "approveCall call w1 = (Inr (Inr c), w1\<lparr>w_toolCalls := t\<rparr>)"
    "callFindById (tc_toolCallId call) t = Some c" "tc_toolCallId c = tc_toolCallId call"
    "tc_status c = Approved"
    by blast
  have "approvalGate deps env tool request ctx prepared decision call w = approveCall call w1"
  proof (cases "preApproved deps tool ctx prepared (w_rules w)")
    case True
    with auto assms(4) show ?thesis by (simp add: approvalGate_def Let_def bnd_run ev_def w1_def)
  next
    case False
    with assms(5) obtain a where a: "approvalFindLatest (rq_taskId request) (tc_toolCallId call) (w_approvals w) = Some a"
      "ap_status a = A_approved" by (auto simp: approvedOnRequest_def)
    have no: "\<not> acceptEditsAutoAllow tool ctx"
      using False by (auto simp: preApproved_def Let_def acceptEditsAutoAllow_def)
    then have w1: "w1 = w" by (simp add: w1_def)
    then have "onApprovals (ensureApprovalRequest (dp_approvalTtlMs deps) (en_approvalAt env)
       (en_approvalUuid env) (approvalInput tool request ctx prepared decision call ?fp)) w1 = (Inr (a, False), w1)"
      using ensure_latest_approved [of "approvalInput tool request ctx prepared decision call ?fp" "w_approvals w1" a] a
      by (simp add: onApprovals_run approvalInput_def)
    with False auto no w1 assms(4) a(2) show ?thesis
      by (simp add: approvalGate_def Let_def bnd_run gateByApproval_def)
  qed
  moreover have "w1\<lparr>w_toolCalls := t\<rparr> = w\<lparr>w_toolCalls := t, w_trace := w_trace w1\<rparr>" by (simp add: w1_def)
  ultimately show ?thesis using c by metis
qed

subsection \<open>A concrete tool, for the witnesses\<close>

definition sampleTool :: "(unit World, unit, unit) ToolDefinition" where
  "sampleTool = \<lparr>td_name = ''shell'', td_capability = Shell_execute, td_riskLevel = High,
     td_privacyLevel = Restricted, td_sideEffectLevel = Workspace_mutation,
     td_safeParse = (\<lambda>_. Inr ()), td_checkAvailability = None,
     td_prepare = (\<lambda>_ _. ret \<lparr>tp_preparedInput = (),
       tp_governance = \<lparr>gd_summary = ''run'', gd_pathScope = Workspace\<rparr>,
       tp_sandbox = ShellP (samplePlan ''git'')\<rparr>),
     td_execute = (\<lambda>_ _. ret (Success \<lparr>ts_summary = ''ok'', ts_output = JStr ''secret'',
       ts_runtimeOutput = None, ts_artifacts = None, ts_replayed = None, ts_details = None\<rparr>)),
     td_askInput = (\<lambda>_. \<lparr>au_allowCustomAnswer = True, au_options = [], au_placeholder = None,
       au_question = ''q'', au_questions = [], au_reason = None\<rparr>)\<rparr>"

definition samplePrepared :: "unit ToolPreparation" where
  "samplePrepared = \<lparr>tp_preparedInput = (),
     tp_governance = \<lparr>gd_summary = ''run'', gd_pathScope = Workspace\<rparr>,
     tp_sandbox = ShellP (samplePlan ''git'')\<rparr>"

definition sampleDeps :: "PolicyEngine \<Rightarrow> Deps" where
  "sampleDeps e = \<lparr>dp_policyEngine = e, dp_approvalTtlMs = 100, dp_clarifyTtlMs = 100,
     dp_rulesPath = ''rules'', dp_sha256 = (\<lambda>s. s), dp_canonUrl = (\<lambda>_. None)\<rparr>"

definition sampleEnv :: Env where
  "sampleEnv = \<lparr>en_callUuid = ''u1'', en_decisionUuid = ''d1'', en_approvalUuid = ''a1'',
     en_promptUuid = ''p1'', en_artifactUuid = (\<lambda>k. replicate k (CHR ''x'')), en_requestedAt = 1,
     en_decisionAt = 2, en_approvalAt = 3, en_clarifyAt = 4, en_startedAt = 5, en_artifactAt = 6,
     en_finishedAt = 7\<rparr>"

definition sampleToolRequest :: ToolCallRequest where
  "sampleToolRequest = \<lparr>rq_taskId = ''t1'', rq_iteration = 1, rq_toolCallId = ''c1'',
     rq_toolName = ''shell'', rq_input = [], rq_reason = ''r''\<rparr>"

definition sampleCtx :: "AgentProfileId \<Rightarrow> ToolExecutionContext" where
  "sampleCtx p = \<lparr>tx_taskId = ''t1'', tx_iteration = 1, tx_workspaceRoot = ''/ws'', tx_cwd = ''/ws'',
     tx_userId = ''u'', tx_agentProfileId = p, tx_taskMetadata = None, tx_governanceOnly = None\<rparr>"

definition sampleCall :: "ToolCallStatus \<Rightarrow> ToolCallRecord" where
  "sampleCall st = \<lparr>tc_toolCallId = ''c1'', tc_taskId = ''t1'', tc_iteration = 1, tc_toolName = ''shell'',
     tc_riskLevel = High, tc_status = st, tc_input = [], tc_output = JStr ''out'', tc_summary = Some ''s'',
     tc_requestedAt = 1, tc_startedAt = None, tc_finishedAt = None, tc_errorCode = None,
     tc_errorMessage = None\<rparr>"

definition sampleWorld :: "tool_calls \<Rightarrow> approvals \<Rightarrow> unit World" where
  "sampleWorld cs as = \<lparr>w_toolCalls = cs, w_approvals = as, w_prompts = [], w_rules = processStart Map.empty,
     w_artifacts = [], w_trace = [], w_audit = [], w_rest = ()\<rparr>"

lemma sample_listRules:
  "listRules path (w_rules (sampleWorld cs as)) = (Inr [], w_rules (sampleWorld cs as))"
  by (simp add: sampleWorld_def listRules_def bnd_run readRules_def processStart_def DEFAULT_CONFIG_def)

lemma sample_not_pre:
  "\<not> preApproved (sampleDeps e) sampleTool (sampleCtx p) samplePrepared (w_rules (sampleWorld cs as))"
  by (simp add: preApproved_def Let_def sample_listRules)
    (simp add: sampleTool_def sampleCtx_def readSessionApprovalFingerprints_def)

lemma sample_effect:
  assumes "newPolicyEngine DEFAULT_LOCAL_POLICY_CONFIG = Inr e"
  shows "pd_effect (evaluate e u n (policyInput sampleTool sampleToolRequest (sampleCtx Executor) samplePrepared c))
    = Allow_with_approval"
  unfolding default_policy_decision [OF assms]
  by (simp add: defaultDecision_def policyInput_def sampleTool_def sampleCtx_def samplePrepared_def)

subsection \<open>Properties\<close>

text \<open>
  C1: from the policy decision on, the handler does not depend on what the tool's execute function does
  unless the call is authorised: the policy does not deny it, it is not a question to the user nor a
  governance-only check, and where approval is needed the plan was approved in advance (accept-edits
  mode for writes, session fingerprint, fingerprint rule, exactly one prefix rule) or the latest approval
  of this call is granted. So a tool is never run without authority.\<close>

theorem runs_only_authorised:
  assumes "\<not> authorised deps env tool request ctx prepared call w"
  shows "governTool deps env (tool\<lparr>td_execute := f\<rparr>) request ctx prepared call w =
    governTool deps env tool request ctx prepared call w"
  by (rule unauthorised_frame [OF assms])

theorem runs_only_authorised_witness:
  "\<exists>e. newPolicyEngine DEFAULT_LOCAL_POLICY_CONFIG = Inr e \<and>
    governTool (sampleDeps e) sampleEnv (sampleTool\<lparr>td_execute := \<lambda>_ _. raise NonError\<rparr>) sampleToolRequest
      (sampleCtx Executor) samplePrepared (sampleCall Requested) (sampleWorld [sampleCall Requested] []) =
    governTool (sampleDeps e) sampleEnv sampleTool sampleToolRequest
      (sampleCtx Executor) samplePrepared (sampleCall Requested) (sampleWorld [sampleCall Requested] [])"
proof -
  obtain e where e: "newPolicyEngine DEFAULT_LOCAL_POLICY_CONFIG = Inr e" using default_policy_valid by blast
  have "\<not> approvedOnRequest sampleToolRequest (sampleCall Requested) []"
    by (simp add: approvedOnRequest_def approvalFindLatest_def orderDesc_def firstRow_def)
  then have "\<not> authorised (sampleDeps e) sampleEnv sampleTool sampleToolRequest (sampleCtx Executor) samplePrepared
      (sampleCall Requested) (sampleWorld [sampleCall Requested] [])"
    using sample_not_pre [of e Executor "[sampleCall Requested]" "[]"]
    by (auto simp: authorised_def Let_def sample_effect [OF e] sampleDeps_def [of e] effectiveEffect_def
        sampleWorld_def)
  from runs_only_authorised [OF this] e show ?thesis by blast
qed

lemma executeRegistered_frame:
  assumes "\<And>prepared w1. governTool deps env (tool\<lparr>td_execute := f\<rparr>) request ctx prepared call w1 =
    governTool deps env tool request ctx prepared call w1"
  shows "executeRegistered deps env (tool\<lparr>td_execute := f\<rparr>) request ctx call =
    executeRegistered deps env tool request ctx call"
proof -
  have sel: "td_name (tool\<lparr>td_execute := f\<rparr>) = td_name tool"
    "td_safeParse (tool\<lparr>td_execute := f\<rparr>) = td_safeParse tool" by simp_all
  have eq: "governTool deps env (tool\<lparr>td_execute := f\<rparr>) request ctx prepared call =
      governTool deps env tool request ctx prepared call" for prepared
    by (rule ext) (rule assms)
  show ?thesis unfolding executeRegistered_def frame_execute frame_gate sel eq by (rule refl)
qed

text \<open>
  C12: under the default policy the planner and the reviewer profile never run a tool that writes files,
  executes shell commands or invokes MCP, whatever approvals, rules, modes and arguments there are: the
  result of the whole handler does not depend on the tool's execute function.\<close>

theorem read_only_profiles_never_run:
  assumes "newPolicyEngine DEFAULT_LOCAL_POLICY_CONFIG = Inr (dp_policyEngine deps)"
    and "tx_agentProfileId ctx \<in> {Planner, Reviewer}"
    and "td_capability tool \<in> {Filesystem_write, Shell_execute, Mcp_invoke}"
  shows "execute (registry(rq_toolName request \<mapsto> tool\<lparr>td_execute := f\<rparr>)) Map.empty deps env request ctx w =
    execute (registry(rq_toolName request \<mapsto> tool)) Map.empty deps env request ctx w"
proof -
  have "executeRegistered deps env (tool\<lparr>td_execute := f\<rparr>) request ctx call =
      executeRegistered deps env tool request ctx call" for call
  proof (rule executeRegistered_frame, rule unauthorised_frame)
    fix prepared w1
    have "pd_effect (evaluate (dp_policyEngine deps) (en_decisionUuid env) (en_decisionAt env)
        (policyInput tool request ctx prepared call)) = Deny"
      unfolding default_policy_decision [OF assms(1)] using assms(2,3)
      by (auto simp: defaultDecision_def policyInput_def)
    then show "\<not> authorised deps env tool request ctx prepared call w1" by (simp add: authorised_def Let_def)
  qed
  moreover have "td_riskLevel (tool\<lparr>td_execute := f\<rparr>) = td_riskLevel tool" by simp
  moreover have "fst (resolveTool (registry(n \<mapsto> t)) n Map.empty) = Some t" for n and t :: "('a World, 'b, 'c) ToolDefinition"
    by (simp add: resolveTool_def Let_def)
  ultimately show ?thesis by (simp only: execute_def option.case frame_execute)
qed

theorem read_only_profiles_never_run_witness:
  "\<exists>e. newPolicyEngine DEFAULT_LOCAL_POLICY_CONFIG = Inr e \<and>
    execute [''shell'' \<mapsto> sampleTool\<lparr>td_execute := \<lambda>_ _. raise NonError\<rparr>] Map.empty (sampleDeps e) sampleEnv
      sampleToolRequest (sampleCtx Reviewer) (sampleWorld [] []) =
    execute [''shell'' \<mapsto> sampleTool] Map.empty (sampleDeps e) sampleEnv
      sampleToolRequest (sampleCtx Reviewer) (sampleWorld [] [])"
proof -
  obtain e where e: "newPolicyEngine DEFAULT_LOCAL_POLICY_CONFIG = Inr e" using default_policy_valid by blast
  have "newPolicyEngine DEFAULT_LOCAL_POLICY_CONFIG = Inr (dp_policyEngine (sampleDeps e))"
    "tx_agentProfileId (sampleCtx Reviewer) \<in> {Planner, Reviewer}"
    "td_capability sampleTool \<in> {Filesystem_write, Shell_execute, Mcp_invoke}"
    using e by (simp_all add: sampleDeps_def sampleCtx_def sampleTool_def)
  from read_only_profiles_never_run [OF this, of Map.empty sampleToolRequest] e show ?thesis
    by (auto simp: sampleToolRequest_def)
qed

text \<open>
  C14: an authorised call does run: with its record stored, waiting at a status the handler can continue
  from, and a readable rules file, the handler reaches the tool's execution with the record started,
  having changed neither the approvals nor anything of the tools' own state.\<close>

theorem authorised_call_runs:
  assumes "authorised deps env tool request ctx prepared call w"
    and "storedCall call w"
    and "listRules (dp_rulesPath deps) (w_rules w) = (Inr rules, w_rules w)"
    and "tc_status call = Requested \<or> (tc_status call \<in> {Awaiting_approval, Approved} \<and>
      effectiveEffect tool ctx prepared (pd_effect (evaluate (dp_policyEngine deps) (en_decisionUuid env)
        (en_decisionAt env) (policyInput tool request ctx prepared call))) = Allow_with_approval)"
  shows "\<exists>c w1. governTool deps env tool request ctx prepared call w =
      runProtected env tool request ctx prepared c w1 \<and>
    tc_toolCallId c = tc_toolCallId call \<and> tc_status c = Started \<and> storedCall c w1 \<and>
    w_approvals w1 = w_approvals w \<and> w_rest w1 = w_rest w"
proof -
  let ?d = "evaluate (dp_policyEngine deps) (en_decisionUuid env) (en_decisionAt env)
      (policyInput tool request ctx prepared call)"
  let ?p = "noCallPatch\<lparr>tu_startedAt := Some (Some (en_startedAt env)), tu_status := Some Started\<rparr>"
  obtain t a where rec: "recordPolicyDecision request ?d w =
      (Inr (), w\<lparr>w_trace := w_trace w @ [t], w_audit := w_audit w @ [a]\<rparr>)"
    using recordPolicyDecision_run by blast
  let ?w = "w\<lparr>w_trace := w_trace w @ [t], w_audit := w_audit w @ [a]\<rparr>"
  have au: "pd_effect ?d \<noteq> Deny" "td_capability tool \<noteq> Interaction_ask_user"
    "tx_governanceOnly ctx \<noteq> Some True"
    using assms(1) by (auto simp: authorised_def Let_def)
  obtain c w2 where gate: "approvalGate deps env tool request ctx prepared ?d call ?w = (Inr (Inr c), w2)"
    and c: "storedCall c w2" "tc_toolCallId c = tc_toolCallId call" "tc_status c \<in> {Requested, Approved}"
    and w2: "w_approvals w2 = w_approvals w" "w_rest w2 = w_rest w"
  proof (cases "effectiveEffect tool ctx prepared (pd_effect ?d) = Allow_with_approval")
    case True
    have "preApproved deps tool ctx prepared (w_rules ?w) \<or> approvedOnRequest request call (w_approvals ?w)"
      using assms(1) True by (auto simp: authorised_def Let_def)
    moreover have "tc_status call \<in> {Requested, Awaiting_approval, Approved}" "storedCall call ?w"
      using assms(2,4) by auto
    ultimately show ?thesis
      using gate_open [of call ?w deps rules tool ctx prepared ?d request env] assms(3) True that by auto
  next
    case False
    then show ?thesis using assms(2,4) that [of call ?w] by (auto simp: approvalGate_def)
  qed
  obtain tcs where st: "onCalls (callUpdate (tc_toolCallId c) ?p) w2 = (Inr (callPatch ?p c), w2\<lparr>w_toolCalls := tcs\<rparr>)"
    "callFindById (tc_toolCallId c) tcs = Some (callPatch ?p c)"
    using update_stored [OF c(1), of ?p] c(3) by (auto simp: callMove_def canTransitionToolCallStatus_def)
  obtain ev where run: "runTool env tool request ctx prepared c w2 = runProtected env tool request ctx prepared
      (callPatch ?p c) (w2\<lparr>w_toolCalls := tcs, w_trace := w_trace w2 @ [ev]\<rparr>)"
    using st(1) by (simp add: runTool_def bnd_run)
  have "governTool deps env tool request ctx prepared call w = runTool env tool request ctx prepared c w2"
    using rec au gate by (simp add: governTool_def Let_def bnd_run)
  with run show ?thesis
    using st(2) c(2) w2
    by (intro exI [of _ "callPatch ?p c"] exI [of _ "w2\<lparr>w_toolCalls := tcs, w_trace := w_trace w2 @ [ev]\<rparr>"])
      simp
qed

definition sampleGranted :: ApprovalRecord where
  "sampleGranted = sampleShellApproval\<lparr>ap_status := A_approved\<rparr>"

theorem authorised_call_runs_witness:
  "\<exists>e c w1. newPolicyEngine DEFAULT_LOCAL_POLICY_CONFIG = Inr e \<and>
    governTool (sampleDeps e) sampleEnv sampleTool sampleToolRequest (sampleCtx Executor) samplePrepared
      (sampleCall Awaiting_approval) (sampleWorld [sampleCall Awaiting_approval] [sampleGranted]) =
    runProtected sampleEnv sampleTool sampleToolRequest (sampleCtx Executor) samplePrepared c w1 \<and>
    tc_status c = Started"
proof -
  obtain e where e: "newPolicyEngine DEFAULT_LOCAL_POLICY_CONFIG = Inr e" using default_policy_valid by blast
  let ?c = "sampleCall Awaiting_approval" and ?w = "sampleWorld [sampleCall Awaiting_approval] [sampleGranted]"
  have eff: "effectiveEffect sampleTool (sampleCtx Executor) samplePrepared
      (pd_effect (evaluate (dp_policyEngine (sampleDeps e)) (en_decisionUuid sampleEnv) (en_decisionAt sampleEnv)
        (policyInput sampleTool sampleToolRequest (sampleCtx Executor) samplePrepared ?c))) = Allow_with_approval"
    by (simp add: sampleDeps_def sample_effect [OF e] effectiveEffect_def)
  have "approvedOnRequest sampleToolRequest ?c [sampleGranted]"
    by (simp add: approvedOnRequest_def approvalFindLatest_def orderDesc_def firstRow_def sampleGranted_def
        sampleShellApproval_def sampleToolRequest_def sampleCall_def)
  then have "authorised (sampleDeps e) sampleEnv sampleTool sampleToolRequest (sampleCtx Executor) samplePrepared ?c ?w"
    by (simp add: authorised_def Let_def sampleDeps_def sample_effect [OF e] sampleWorld_def)
      (simp add: sampleTool_def sampleCtx_def)
  moreover have "storedCall ?c ?w" by (simp add: sampleWorld_def callFindById_def)
  moreover have "tc_status ?c \<in> {Awaiting_approval, Approved}" by (simp add: sampleCall_def)
  ultimately show ?thesis
    using authorised_call_runs [OF _ _ sample_listRules, of "sampleDeps e" sampleEnv sampleTool sampleToolRequest
        "sampleCtx Executor" samplePrepared ?c "[?c]" "[sampleGranted]"] eff e by blast
qed

text \<open>
  C2: what the handler returns is what the table holds: a completed call carries its stored record, a
  success as a finished call with exactly the returned output and summary, a failure with the returned
  error code and message in a failed, denied or timed-out call; a request for approval carries a pending
  approval and a stored call that waits for it. This holds whatever the tool's functions do.\<close>

theorem outcome_is_stored:
  assumes "executeRegistered deps env tool request ctx call w = (Inr outcome, w')"
  shows "case outcome of
      Completed (Success s) c \<Rightarrow> storedCall c w' \<and> tc_status c = Finished \<and> tc_output c = ts_output s \<and>
        tc_summary c = Some (ts_summary s)
    | Completed (Failure code msg d) c \<Rightarrow> storedCall c w' \<and> tc_status c \<in> {Failed, Denied, Timed_out} \<and>
        tc_errorCode c = Some code \<and> tc_errorMessage c = Some msg
    | ApprovalRequired a c \<Rightarrow> storedCall c w' \<and> ap_status a = A_pending \<and>
        tc_status c \<in> {Awaiting_approval, Approved}
    | ClarifyRequired p c \<Rightarrow> cp_status p = C_pending
    | Cleared c \<Rightarrow> True"
  using postD [OF post_executeRegistered, of "\<lambda>_. True", OF _ assms]
  by (cases outcome) (auto simp: failedCall_def finishedCall_def split: ToolExecutionResult.splits)

theorem outcome_is_stored_witness:
  "\<forall>deps. \<exists>c w'. executeRegistered deps sampleEnv (sampleTool\<lparr>td_checkAvailability := Some (\<lambda>_. ret (False, ''no''))\<rparr>)
      sampleToolRequest (sampleCtx Executor) (sampleCall Requested) (sampleWorld [sampleCall Requested] []) =
      (Inr (Completed (Failure Tool_unavailable ''Tool shell is unavailable: no''
        (Some [(''reason'', JStr ''no'')])) c), w') \<and> tc_status c \<in> {Failed, Denied, Timed_out}"
proof
  fix deps
  let ?t = "sampleTool\<lparr>td_checkAvailability := Some (\<lambda>_. ret (False, ''no''))\<rparr>"
  let ?w = "sampleWorld [sampleCall Requested] []"
  let ?err = "(Tool_unavailable, ''Tool shell is unavailable: no'', Some [(''reason'', JStr ''no'')])"
  have "executeRegistered deps sampleEnv ?t sampleToolRequest (sampleCtx Executor) (sampleCall Requested) ?w =
      completeToolCallFailure sampleEnv (sampleCall Requested) ?err Failed ?w"
    by (simp add: executeRegistered_def checkToolAvailability_def bnd_run)
      (simp add: sampleTool_def)
  moreover obtain c w' where
    "completeToolCallFailure sampleEnv (sampleCall Requested) ?err Failed ?w =
      (Inr (Completed (Failure Tool_unavailable ''Tool shell is unavailable: no''
        (Some [(''reason'', JStr ''no'')])) c), w')"
    by (simp add: completeToolCallFailure_def recordFailedToolCall_def bnd_run onCalls_run callUpdate_run
        sampleWorld_def callFindById_def callMove_def canTransitionToolCallStatus_def)
      (simp add: sampleCall_def canTransitionToolCallStatus_def)
  ultimately have run: "executeRegistered deps sampleEnv ?t sampleToolRequest (sampleCtx Executor)
      (sampleCall Requested) ?w = (Inr (Completed (Failure Tool_unavailable ''Tool shell is unavailable: no''
        (Some [(''reason'', JStr ''no'')])) c), w')" by simp
  with outcome_is_stored [OF run] show "\<exists>c w'. executeRegistered deps sampleEnv ?t sampleToolRequest (sampleCtx Executor) (sampleCall Requested) ?w =
      (Inr (Completed (Failure Tool_unavailable ''Tool shell is unavailable: no''
        (Some [(''reason'', JStr ''no'')])) c), w') \<and> tc_status c \<in> {Failed, Denied, Timed_out}" by auto
qed

text \<open>
  C31: a call that needs approval and has none, neither in advance nor on request, asks for it: the handler
  stores a pending approval of this call with the plan's fingerprint, its formatted text and the
  configured time to live, leaves the call waiting for approval, and returns both; the artifacts and the
  tools' state are untouched.\<close>

theorem approval_is_requested:
  assumes "effectiveEffect tool ctx prepared (pd_effect (evaluate (dp_policyEngine deps) (en_decisionUuid env)
      (en_decisionAt env) (policyInput tool request ctx prepared call))) = Allow_with_approval"
    and "\<not> preApproved deps tool ctx prepared (w_rules w)"
    and "listRules (dp_rulesPath deps) (w_rules w) = (Inr rules, w_rules w)"
    and "approvalFindLatest (rq_taskId request) (tc_toolCallId call) (w_approvals w) = None"
    and "en_approvalUuid env \<notin> ap_approvalId ` set (w_approvals w)"
    and "storedCall call w" and "tc_status call = Requested"
  shows "\<exists>a c w'. governTool deps env tool request ctx prepared call w = (Inr (ApprovalRequired a c), w') \<and>
    ap_status a = A_pending \<and> ap_expiresAt a = en_approvalAt env + dp_approvalTtlMs deps \<and>
    ap_fingerprint a = Some (planFingerprint deps tool prepared) \<and>
    ap_reason a = formatApprovalReason (rq_reason request) (tp_sandbox prepared) \<and>
    w_approvals w' = w_approvals w @ [a] \<and> storedCall c w' \<and> tc_status c = Awaiting_approval \<and>
    w_artifacts w' = w_artifacts w \<and> w_rest w' = w_rest w"
proof -
  let ?d = "evaluate (dp_policyEngine deps) (en_decisionUuid env) (en_decisionAt env)
      (policyInput tool request ctx prepared call)"
  let ?fp = "planFingerprint deps tool prepared"
  let ?i = "approvalInput tool request ctx prepared ?d call ?fp"
  obtain t a where rec: "recordPolicyDecision request ?d w =
      (Inr (), w\<lparr>w_trace := w_trace w @ [t], w_audit := w_audit w @ [a]\<rparr>)"
    using recordPolicyDecision_run by blast
  let ?w = "w\<lparr>w_trace := w_trace w @ [t], w_audit := w_audit w @ [a]\<rparr>"
  have auto: "autoApproved deps tool ctx prepared ?fp ?w = (Inr False, ?w)"
    using autoApproved_pre [of deps tool ctx prepared ?w] assms(2,3) by (auto simp: autoApproved_run)
  have no: "\<not> acceptEditsAutoAllow tool ctx"
    using assms(2) by (auto simp: preApproved_def Let_def acceptEditsAutoAllow_def)
  define ap where "ap = approvalOfDraft \<lparr>ad_approvalId = en_approvalUuid env, ad_taskId = er_taskId ?i,
      ad_toolCallId = er_toolCallId ?i, ad_toolName = er_toolName ?i,
      ad_requesterUserId = er_requesterUserId ?i, ad_reason = er_reason ?i,
      ad_fingerprint = er_fingerprint ?i, ad_requestedAt = en_approvalAt env,
      ad_expiresAt = en_approvalAt env + dp_approvalTtlMs deps, ad_policyDecisionId = er_policyDecisionId ?i\<rparr>"
  have en: "onApprovals (ensureApprovalRequest (dp_approvalTtlMs deps) (en_approvalAt env) (en_approvalUuid env) ?i) ?w =
      (Inr (ap, True), ?w\<lparr>w_approvals := w_approvals w @ [ap]\<rparr>)"
    using assms(4,5) by (simp add: onApprovals_run ensureApprovalRequest_def bnd_run approvalCreate_fresh ap_def
        approvalInput_def)
  let ?p = "noCallPatch\<lparr>tu_status := Some Awaiting_approval\<rparr>"
  have stw: "storedCall call (?w\<lparr>w_approvals := w_approvals w @ [ap]\<rparr>)" using assms(6) by simp
  obtain tcs where st: "onCalls (callUpdate (tc_toolCallId call) ?p) (?w\<lparr>w_approvals := w_approvals w @ [ap]\<rparr>) =
      (Inr (callPatch ?p call), ?w\<lparr>w_approvals := w_approvals w @ [ap], w_toolCalls := tcs\<rparr>)"
    "callFindById (tc_toolCallId call) tcs = Some (callPatch ?p call)"
    using update_stored [OF stw, of ?p] assms(7)
    by (auto simp: callMove_def canTransitionToolCallStatus_def)
  have pend: "ap_status ap = A_pending" by (simp add: ap_def approvalOfDraft_def)
  obtain w' where gate: "approvalGate deps env tool request ctx prepared ?d call ?w =
      (Inr (Inl (ApprovalRequired ap (callPatch ?p call))), w')"
    and w': "w_approvals w' = w_approvals w @ [ap]" "w_toolCalls w' = tcs" "w_artifacts w' = w_artifacts w"
      "w_rest w' = w_rest w"
    using auto no en st(1) assms(1,7) pend
    by (simp add: approvalGate_def Let_def bnd_run gateByApproval_def awaitApproval_def)
  have nd: "pd_effect ?d \<noteq> Deny" using assms(1) by (auto simp: effectiveEffect_def Let_def split: if_splits)
  have "governTool deps env tool request ctx prepared call w = (Inr (ApprovalRequired ap (callPatch ?p call)), w')"
    using rec gate nd by (simp add: governTool_def Let_def bnd_run)
  moreover have "ap_expiresAt ap = en_approvalAt env + dp_approvalTtlMs deps"
    "ap_fingerprint ap = Some ?fp" "ap_reason ap = formatApprovalReason (rq_reason request) (tp_sandbox prepared)"
    by (simp_all add: ap_def approvalOfDraft_def approvalInput_def)
  ultimately show ?thesis using pend w' st(2) by auto
qed

theorem approval_is_requested_witness:
  "\<exists>e a c w'. newPolicyEngine DEFAULT_LOCAL_POLICY_CONFIG = Inr e \<and>
    governTool (sampleDeps e) sampleEnv sampleTool sampleToolRequest (sampleCtx Executor) samplePrepared
      (sampleCall Requested) (sampleWorld [sampleCall Requested] []) = (Inr (ApprovalRequired a c), w') \<and>
    ap_expiresAt a = 103"
proof -
  obtain e where e: "newPolicyEngine DEFAULT_LOCAL_POLICY_CONFIG = Inr e" using default_policy_valid by blast
  let ?c = "sampleCall Requested" and ?w = "sampleWorld [sampleCall Requested] []"
  have 1: "effectiveEffect sampleTool (sampleCtx Executor) samplePrepared
      (pd_effect (evaluate (dp_policyEngine (sampleDeps e)) (en_decisionUuid sampleEnv) (en_decisionAt sampleEnv)
        (policyInput sampleTool sampleToolRequest (sampleCtx Executor) samplePrepared ?c))) = Allow_with_approval"
    by (simp add: sampleDeps_def sample_effect [OF e] effectiveEffect_def)
  have 2: "approvalFindLatest (rq_taskId sampleToolRequest) (tc_toolCallId ?c) (w_approvals ?w) = None"
    "en_approvalUuid sampleEnv \<notin> ap_approvalId ` set (w_approvals ?w)" "storedCall ?c ?w" "tc_status ?c = Requested"
    by (simp_all add: approvalFindLatest_def sampleWorld_def callFindById_def sampleCall_def)
  have t: "en_approvalAt sampleEnv + dp_approvalTtlMs (sampleDeps e) = 103"
    by (simp add: sampleEnv_def sampleDeps_def)
  from approval_is_requested [OF 1 sample_not_pre sample_listRules 2] e t show ?thesis by metis
qed

lemma recordReplay_run: "\<exists>e. recordReplay tool request call w = (Inr (), w\<lparr>w_trace := w_trace w @ [e]\<rparr>)"
  by (simp add: recordReplay_def bnd_run) blast

text \<open>
  A terminal call is answered from its record: a request whose id names a finished call of the same
  task returns that call's stored output, whatever the request's input says, and runs nothing, only the
  trace grows; one that names a failed call throws the stored error and changes nothing.\<close>

theorem terminal_call_replayed:
  assumes "fst (resolveTool registry (rq_toolName request) tools) = Some tool"
    and "callFindById (rq_toolCallId request) (w_toolCalls w) = Some c"
    and "tc_taskId c = rq_taskId request"
  shows "(if tc_status c = Finished
     then \<exists>s e. execute registry tools deps env request ctx w =
         (Inr (Completed (Success s) c), w\<lparr>w_trace := w_trace w @ [e]\<rparr>) \<and>
       ts_output s = tc_output c \<and> ts_replayed s = Some True
     else if tc_status c = Failed
     then \<exists>code msg. execute registry tools deps env request ctx w = (Inl (AppError code msg None), w) \<and>
       code = (case tc_errorCode c of None \<Rightarrow> Tool_execution_error | Some k \<Rightarrow> k)
     else execute registry tools deps env request ctx w = executeRegistered deps env tool request ctx c w)"
proof -
  have rec: "ensureToolCallRecord env request r b w = (Inr c, w)" for r b
    using assms(2,3) by (simp add: ensureToolCallRecord_def bnd_run Let_def)
  obtain e where replay: "recordReplay tool request c w = (Inr (), w\<lparr>w_trace := w_trace w @ [e]\<rparr>)"
    using recordReplay_run by blast
  have ex: "execute registry tools deps env request ctx w =
      (case replayTerminalOutcome c of Inl x \<Rightarrow> (Inl x, w)
       | Inr (Some o1) \<Rightarrow> (Inr o1, w\<lparr>w_trace := w_trace w @ [e]\<rparr>)
       | Inr None \<Rightarrow> executeRegistered deps env tool request ctx c w)"
    using assms(1) rec replay by (auto simp: execute_def bnd_run split: sum.splits option.splits)
  consider "tc_status c = Finished" | "tc_status c = Failed"
    | "tc_status c \<noteq> Finished" "tc_status c \<noteq> Failed" by blast
  then show ?thesis
  proof cases
    case 1
    then show ?thesis using ex by (auto simp: replayTerminalOutcome_def)
  next
    case 2
    then show ?thesis using ex by (simp add: replayTerminalOutcome_def)
  next
    case 3
    then show ?thesis using ex by (simp add: replayTerminalOutcome_def)
  qed
qed

theorem terminal_call_replayed_witness:
  "\<forall>deps. \<exists>s e. execute [''shell'' \<mapsto> sampleTool] Map.empty deps sampleEnv (sampleToolRequest\<lparr>rq_input := [(''x'', JNull)]\<rparr>)
      (sampleCtx Executor) (sampleWorld [sampleCall Finished] []) =
    (Inr (Completed (Success s) (sampleCall Finished)), (sampleWorld [sampleCall Finished] [])
      \<lparr>w_trace := w_trace (sampleWorld [sampleCall Finished] []) @ [e]\<rparr>) \<and> ts_output s = JStr ''out''"
proof
  fix deps
  let ?r = "sampleToolRequest\<lparr>rq_input := [(''x'', JNull)]\<rparr>" and ?w = "sampleWorld [sampleCall Finished] []"
  have h: "fst (resolveTool [''shell'' \<mapsto> sampleTool] (rq_toolName ?r) Map.empty) = Some sampleTool"
    "callFindById (rq_toolCallId ?r) (w_toolCalls ?w) = Some (sampleCall Finished)"
    "tc_taskId (sampleCall Finished) = rq_taskId ?r"
    by (simp_all add: resolveTool_def Let_def sampleToolRequest_def sampleWorld_def callFindById_def sampleCall_def)
  have st: "tc_status (sampleCall Finished) = Finished" "tc_output (sampleCall Finished) = JStr ''out''"
    by (simp_all add: sampleCall_def)
  from terminal_call_replayed [OF h, of deps sampleEnv "sampleCtx Executor"] st(1) obtain s e where
    "execute [''shell'' \<mapsto> sampleTool] Map.empty deps sampleEnv ?r (sampleCtx Executor) ?w =
      (Inr (Completed (Success s) (sampleCall Finished)), ?w\<lparr>w_trace := w_trace ?w @ [e]\<rparr>)"
    "ts_output s = tc_output (sampleCall Finished)" by auto
  with st(2) show "\<exists>s e. execute [''shell'' \<mapsto> sampleTool] Map.empty deps sampleEnv ?r (sampleCtx Executor) ?w =
      (Inr (Completed (Success s) (sampleCall Finished)), ?w\<lparr>w_trace := w_trace ?w @ [e]\<rparr>) \<and> ts_output s = JStr ''out''"
    by metis
qed

text \<open>
  A call that already waits for approval or was approved cannot be recorded as failed: when such a
  call is resumed and anything before its execution fails (the tool is unavailable, its input invalid, its
  preparation rejected, or the policy now denies it), the handler throws an illegal status transition
  instead of returning the failure, and the stored record keeps waiting.\<close>

theorem resumed_call_cannot_fail:
  assumes "storedCall call w" and "tc_status call \<in> {Awaiting_approval, Approved}"
  shows "completeToolCallFailure env call err Failed w =
      (Inl (PlainError (''Illegal tool-call status transition: '' @ toolCallStatusStr (tc_status call) @
         '' -> failed'')), w) \<and>
    (pd_effect (evaluate (dp_policyEngine deps) (en_decisionUuid env) (en_decisionAt env)
       (policyInput tool request ctx prepared call)) = Deny \<longrightarrow>
     (\<exists>m w'. governTool deps env tool request ctx prepared call w = (Inl (PlainError m), w') \<and>
       w_toolCalls w' = w_toolCalls w))"
proof -
  have fail: "completeToolCallFailure env call er Failed v =
      (Inl (PlainError (''Illegal tool-call status transition: '' @ toolCallStatusStr (tc_status call) @
         '' -> failed'')), v)" if "storedCall call v" for er and v :: "'a World"
    using that assms(2)
    by (cases er) (auto simp: completeToolCallFailure_def recordFailedToolCall_def bnd_run onCalls_run
        callUpdate_run callMove_def canTransitionToolCallStatus_def)
  let ?d = "evaluate (dp_policyEngine deps) (en_decisionUuid env) (en_decisionAt env)
      (policyInput tool request ctx prepared call)"
  obtain t a where rec: "recordPolicyDecision request ?d w =
      (Inr (), w\<lparr>w_trace := w_trace w @ [t], w_audit := w_audit w @ [a]\<rparr>)"
    using recordPolicyDecision_run by blast
  have "storedCall call (w\<lparr>w_trace := w_trace w @ [t], w_audit := w_audit w @ [a]\<rparr>)" using assms(1) by simp
  note f2 = fail [OF this]
  show ?thesis using fail [OF assms(1)] rec f2 by (simp add: governTool_def Let_def bnd_run)
qed

theorem resumed_call_cannot_fail_witness:
  "completeToolCallFailure sampleEnv (sampleCall Approved) (Tool_unavailable, ''m'', None) Failed
      (sampleWorld [sampleCall Approved] []) =
    (Inl (PlainError ''Illegal tool-call status transition: approved -> failed''),
     sampleWorld [sampleCall Approved] [])"
proof -
  have "storedCall (sampleCall Approved) (sampleWorld [sampleCall Approved] [])"
    "tc_status (sampleCall Approved) \<in> {Awaiting_approval, Approved}"
    by (simp_all add: sampleWorld_def callFindById_def sampleCall_def)
  note r = resumed_call_cannot_fail [OF this, THEN conjunct1]
  have "tc_status (sampleCall Approved) = Approved" by (simp add: sampleCall_def)
  with r show ?thesis by simp
qed

end
