(* ===== verification/OutputProps.thy ===== *)
theory OutputProps
  imports OrchestratorProps
begin

section \<open>What the orchestrator keeps of a tool's output, and how it batches calls\<close>

text \<open>
  Properties of theory Orchestrator: the stored output of a restricted tool reveals only a fixed list
  of fields, the audit entry of the same call does not respect that, and the batches of parallel
  calls partition the requested calls in order.
\<close>

subsection \<open>Restricted output\<close>

text \<open>The fields of a restricted output that may be stored, and those whose presence is stored.\<close>

definition visibleKeys :: "string list" where
  "visibleKeys = [''command'', ''exitCode'', ''cwd'', ''durationMs'', ''timedOut'', ''summary'', ''passed'']"

definition hiddenKeys :: "string list" where
  "hiddenKeys = [''stdout'', ''stderr'', ''stderrPreview'', ''failureHint'']"

definition hidesOutput :: "json_object \<Rightarrow> bool" where
  "hidesOutput v = (\<exists>k\<in>set hiddenKeys. jget v k \<noteq> None)"

lemma redactText_restricted [simp]: "redactText s Restricted = ''[REDACTED: restricted content]''"
  by (simp add: redactText_def)

lemma sanitize_reads:
  assumes "\<forall>k\<in>set visibleKeys. jget a k = jget b k" and "hidesOutput a = hidesOutput b"
  shows "sanitizeRestrictedStructuredOutput a = sanitizeRestrictedStructuredOutput b"
proof -
  have k: "jget a ''command'' = jget b ''command''" "jget a ''exitCode'' = jget b ''exitCode''"
    "jget a ''cwd'' = jget b ''cwd''" "jget a ''durationMs'' = jget b ''durationMs''"
    "jget a ''timedOut'' = jget b ''timedOut''" "jget a ''summary'' = jget b ''summary''"
    "jget a ''passed'' = jget b ''passed''"
    using assms(1) unfolding visibleKeys_def by (simp_all only: list.set insert_iff ball_simps)
  have h: "(jget a ''stdout'' \<noteq> None \<or> jget a ''stderr'' \<noteq> None \<or> jget a ''stderrPreview'' \<noteq> None \<or>
      jget a ''failureHint'' \<noteq> None) = (jget b ''stdout'' \<noteq> None \<or> jget b ''stderr'' \<noteq> None \<or>
      jget b ''stderrPreview'' \<noteq> None \<or> jget b ''failureHint'' \<noteq> None)"
    using assms(2) unfolding hidesOutput_def hiddenKeys_def by simp
  show ?thesis
    unfolding sanitizeRestrictedStructuredOutput_def k h Let_def redactText_restricted by (rule refl)
qed

text \<open>The values a sanitised output may hold under a key.\<close>

definition revealed :: "json_object \<Rightarrow> string \<times> json \<Rightarrow> bool" where
  "revealed v kv = (fst kv \<in> set visibleKeys \<and> jget v (fst kv) = Some (snd kv) \<or>
     fst kv \<in> {''redacted'', ''output''} \<and> snd kv = JStr ''[REDACTED: restricted content]'')"

lemma revealed_iff:
  "revealed v (k, x) \<longleftrightarrow> k \<in> set visibleKeys \<and> jget v k = Some x \<or>
     k \<in> {''redacted'', ''output''} \<and> x = JStr ''[REDACTED: restricted content]''"
  by (simp add: revealed_def)

lemma sanitize_revealed:
  "\<exists>kvs. sanitizeRestrictedStructuredOutput v = JObj kvs \<and> (\<forall>kv\<in>set kvs. revealed v kv)"
proof -
  have vis: "k \<in> set visibleKeys \<longleftrightarrow> k = ''command'' \<or> k = ''exitCode'' \<or> k = ''cwd'' \<or> k = ''durationMs'' \<or>
      k = ''timedOut'' \<or> k = ''summary'' \<or> k = ''passed''" for k
    by (simp add: visibleKeys_def)
  have str: "\<forall>kv\<in>set (case jget v k of Some (JStr s) \<Rightarrow> [(k, JStr s)] | _ \<Rightarrow> []). revealed v kv"
    if "k \<in> set visibleKeys" for k
    using that by (auto simp: revealed_iff split: option.splits json.splits)
  have num: "\<forall>kv\<in>set (case jget v k of Some (JNum s) \<Rightarrow> [(k, JNum s)] | _ \<Rightarrow> []). revealed v kv"
    if "k \<in> set visibleKeys" for k
    using that by (auto simp: revealed_iff split: option.splits json.splits)
  have bool: "\<forall>kv\<in>set (case jget v k of Some (JBool s) \<Rightarrow> [(k, JBool s)] | _ \<Rightarrow> []). revealed v kv"
    if "k \<in> set visibleKeys" for k
    using that by (auto simp: revealed_iff split: option.splits json.splits)
  have red: "revealed v (''redacted'', JStr ''[REDACTED: restricted content]'')"
    "revealed v (''output'', JStr ''[REDACTED: restricted content]'')"
    "jget v ''passed'' = Some (JBool True) \<Longrightarrow> revealed v (''passed'', JBool True)"
    by (simp_all only: revealed_iff vis) simp_all
  let ?str = "\<lambda>k. case jget v k of Some (JStr s) \<Rightarrow> [(k, JStr s)] | _ \<Rightarrow> []"
  let ?num = "\<lambda>k. case jget v k of Some (JNum s) \<Rightarrow> [(k, JNum s)] | _ \<Rightarrow> []"
  let ?bool = "\<lambda>k. case jget v k of Some (JBool s) \<Rightarrow> [(k, JBool s)] | _ \<Rightarrow> []"
  have all: "\<forall>kv\<in>set (?str ''command''). revealed v kv" "\<forall>kv\<in>set (?num ''exitCode''). revealed v kv"
    "\<forall>kv\<in>set (?str ''cwd''). revealed v kv" "\<forall>kv\<in>set (?num ''durationMs''). revealed v kv"
    "\<forall>kv\<in>set (?bool ''timedOut''). revealed v kv" "\<forall>kv\<in>set (?str ''summary''). revealed v kv"
    by (rule str num bool, simp only: vis simp_thms)+
  show ?thesis
  proof (cases "?str ''command'' = [] \<and> ?num ''exitCode'' = []")
    case True
    then have "sanitizeRestrictedStructuredOutput v =
        JObj [(''redacted'', JStr ''[REDACTED: restricted content]'')]"
      by (simp only: sanitizeRestrictedStructuredOutput_def Let_def redactText_restricted simp_thms if_True)
    with red(1) show ?thesis by (intro exI conjI) (assumption, simp only: list.set ball_simps simp_thms)
  next
    case False
    let ?p = "if jget v ''passed'' = Some (JBool True) then [(''passed'', JBool True)] else []"
    let ?o = "if jget v ''stdout'' \<noteq> None \<or> jget v ''stderr'' \<noteq> None \<or>
               jget v ''stderrPreview'' \<noteq> None \<or> jget v ''failureHint'' \<noteq> None
            then [(''output'', JStr ''[REDACTED: restricted content]'')] else []"
    have po: "\<forall>kv\<in>set ?p. revealed v kv" "\<forall>kv\<in>set ?o. revealed v kv"
      using red by (simp_all split: if_split)
    have "sanitizeRestrictedStructuredOutput v = JObj (?str ''command'' @ ?num ''exitCode'' @ ?str ''cwd'' @
        ?num ''durationMs'' @ ?bool ''timedOut'' @ ?str ''summary'' @ ?p @ ?o)"
      using False by (simp only: sanitizeRestrictedStructuredOutput_def Let_def if_False)
    moreover have "\<forall>kv\<in>set (?str ''command'' @ ?num ''exitCode'' @ ?str ''cwd'' @
        ?num ''durationMs'' @ ?bool ''timedOut'' @ ?str ''summary'' @ ?p @ ?o). revealed v kv"
      unfolding set_append ball_Un by (intro conjI all po)
    ultimately show ?thesis by blast
  qed
qed

text \<open>
  C28: the stored output of a restricted tool. If it is an object, every entry is one of the raw output's
  command, exit code, working directory, duration, time-out flag, summary or success flag unchanged, or
  the redaction literal; and two raw outputs that agree on those fields and on whether there was any
  output at all are stored alike, so nothing else of them can be read back. A string is stored as the redaction
  literal, and every other output (null, a boolean, a number or an array) as an object with this literal
  under the key redacted, whatever the value was.\<close>

theorem restricted_output_redacted:
  "(\<exists>kvs. sanitizePersistedOutput (JObj v) Restricted = JObj kvs \<and> (\<forall>kv\<in>set kvs. revealed v kv)) \<and>
   ((\<forall>k\<in>set visibleKeys. jget v k = jget u k) \<and> hidesOutput v = hidesOutput u \<longrightarrow>
      sanitizePersistedOutput (JObj v) Restricted = sanitizePersistedOutput (JObj u) Restricted) \<and>
   sanitizePersistedOutput (JStr s) Restricted = JStr ''[REDACTED: restricted content]'' \<and>
   list_all (\<lambda>w. sanitizePersistedOutput w Restricted = JObj [(''redacted'', JStr ''[REDACTED: restricted content]'')])
     [JNull, JBool b, JNum n, JArr vs]"
proof -
  have o1: "sanitizePersistedOutput (JObj o1) Restricted = sanitizeRestrictedStructuredOutput o1" for o1
    by (simp add: sanitizePersistedOutput_def)
  show ?thesis
    using sanitize_revealed [of v] sanitize_reads [of v u] unfolding o1
    by (simp add: sanitizePersistedOutput_def)
qed

theorem restricted_output_redacted_witness:
  "sanitizePersistedOutput (JObj [(''exitCode'', JNum 0), (''stdout'', JStr ''key=1'')]) Restricted =
   sanitizePersistedOutput (JObj [(''exitCode'', JNum 0), (''stdout'', JStr ''key=2''),
     (''note'', JStr ''x'')]) Restricted"
proof -
  have "\<forall>k\<in>set visibleKeys. jget [(''exitCode'', JNum 0), (''stdout'', JStr ''key=1'')] k =
      jget [(''exitCode'', JNum 0), (''stdout'', JStr ''key=2''), (''note'', JStr ''x'')] k"
    "hidesOutput [(''exitCode'', JNum 0), (''stdout'', JStr ''key=1'')] =
      hidesOutput [(''exitCode'', JNum 0), (''stdout'', JStr ''key=2''), (''note'', JStr ''x'')]"
    by (simp_all add: visibleKeys_def hidesOutput_def hiddenKeys_def)
  with restricted_output_redacted show ?thesis by blast
qed

text \<open>
  The audit entry of a finished call previews the tool's raw output, not the stored one: whenever a tool
  with an audited capability finishes, the last audit entry holds the first 240 characters of what the
  tool returned, although the stored output of a restricted tool, such as the shell tool, is redacted.\<close>

theorem audit_keeps_raw_output:
  assumes "finishTool env tool request call result w = (Inr outcome, w')"
    and "toolAuditAction tool = Some action"
  shows "\<exists>c. outcome = Completed (Success (result\<lparr>ts_output := tc_output c,
        ts_runtimeOutput := (if outputReplaced (ts_output result) (td_privacyLevel tool)
          then Some (ts_output result) else ts_runtimeOutput result)\<rparr>)) c \<and>
      tc_output c = sanitizePersistedOutput (ts_output result) (td_privacyLevel tool) \<and>
      w_audit w' \<noteq> [] \<and> ae_action (last (w_audit w')) = action \<and>
      jget (ae_payload (last (w_audit w'))) ''outputPreview'' =
        Some (JStr (safePreview (ts_output result) 240))"
proof -
  let ?out = "sanitizePersistedOutput (ts_output result) (td_privacyLevel tool)"
  let ?arts = "case ts_artifacts result of None \<Rightarrow> [] | Some xs \<Rightarrow> xs"
  let ?p = "noCallPatch\<lparr>tu_finishedAt := Some (Some (en_finishedAt env)), tu_output := Some ?out,
      tu_status := Some Finished, tu_summary := Some (Some (ts_summary result))\<rparr>"
  from assms(1) obtain as w1 where a: "artifactCreateMany env (rq_taskId request) (Some (tc_toolCallId call)) ?arts w =
      (Inr as, w1)"
    unfolding finishTool_def Let_def by (elim bnd_InrE) blast
  from assms(1) a obtain c w2 where c: "onCalls (callUpdate (tc_toolCallId call) ?p) w1 = (Inr c, w2)"
    unfolding finishTool_def Let_def
    by (cases "onCalls (callUpdate (tc_toolCallId call) ?p) w1"; cases "fst (onCalls (callUpdate (tc_toolCallId call) ?p) w1)")
      (auto simp: bnd_run)
  from postD [OF post_callUpdate, of "\<lambda>_. True", OF _ c] obtain r where r: "c = callPatch ?p r" by auto
  then have out: "tc_output c = ?out" by (simp add: callPatch_def noCallPatch_def)
  from assms(1) show ?thesis
    unfolding finishTool_def Let_def
    by (auto simp: bnd_run a c recordToolAudit_def assms(2) out)
qed

definition secretResult :: ToolExecutionSuccess where
  "secretResult = \<lparr>ts_summary = ''done'', ts_output = JStr ''TOKEN=abc'', ts_runtimeOutput = None,
     ts_artifacts = None, ts_replayed = None, ts_details = None\<rparr>"

theorem audit_keeps_raw_output_witness:
  "\<exists>c w'. finishTool sampleEnv sampleTool sampleToolRequest (sampleCall Started) secretResult
        (sampleWorld [sampleCall Started] []) =
      (Inr (Completed (Success (secretResult\<lparr>ts_output := tc_output c, ts_runtimeOutput := Some (JStr ''TOKEN=abc'')\<rparr>)) c), w') \<and>
    tc_output c = JStr ''[REDACTED: restricted content]'' \<and>
    jget (ae_payload (last (w_audit w'))) ''outputPreview'' = Some (JStr ''TOKEN=abc'')"
proof -
  let ?w = "sampleWorld [sampleCall Started] []"
  have st: "storedCall (sampleCall Started) ?w" "tc_status (sampleCall Started) = Started"
    by (simp_all add: sampleWorld_def callFindById_def sampleCall_def)
  obtain o1 w' where run: "finishTool sampleEnv sampleTool sampleToolRequest (sampleCall Started) secretResult ?w =
      (Inr o1, w')"
  proof -
    have m: "callMove Started Finished" by (simp add: callMove_def canTransitionToolCallStatus_def)
    let ?p = "finishPatch sampleEnv (sanitizePersistedOutput (ts_output secretResult) (td_privacyLevel sampleTool))
      (ts_summary secretResult)"
    have a: "artifactCreateMany sampleEnv i j (case ts_artifacts secretResult of None \<Rightarrow> [] | Some xs \<Rightarrow> xs) ?w =
        (Inr [], ?w)" for i j
      by (simp add: artifactCreateMany_def secretResult_def)
    have "\<exists>tcs. onCalls (callUpdate (tc_toolCallId (sampleCall Started)) ?p) ?w =
        (Inr (callPatch ?p (sampleCall Started)), ?w\<lparr>w_toolCalls := tcs\<rparr>)"
      using update_stored [OF st(1), of ?p] st(2) m by (auto simp: finishPatch_def noCallPatch_def)
    then show thesis
      using that finishTool_run [of sampleEnv sampleTool sampleToolRequest "sampleCall Started" secretResult ?w] a
      by auto
  qed
  have cap: "toolAuditAction sampleTool = Some ''shell_execution''"
    by (simp add: toolAuditAction_def sampleTool_def)
  have lev: "td_privacyLevel sampleTool = Restricted" "ts_output secretResult = JStr ''TOKEN=abc''"
    by (simp_all add: sampleTool_def secretResult_def)
  have p: "safePreview (JStr ''TOKEN=abc'') 240 = ''TOKEN=abc''"
    "sanitizePersistedOutput (JStr ''TOKEN=abc'') Restricted = JStr ''[REDACTED: restricted content]''"
    "outputReplaced (JStr ''TOKEN=abc'') Restricted"
    by (simp_all add: safePreview_def Let_def sanitizePersistedOutput_def outputReplaced_def)
  from audit_keeps_raw_output [OF run cap] run lev p show ?thesis by auto
qed

subsection \<open>Batches\<close>

fun batchCalls :: "'c ToolCallExecutionBatch \<Rightarrow> 'c list" where
  "batchCalls (Parallel cs) = cs"
| "batchCalls (Serial c) = [c]"

fun batchOk :: "('c \<Rightarrow> bool) \<Rightarrow> 'c ToolCallExecutionBatch \<Rightarrow> bool" where
  "batchOk safe (Parallel cs) = (cs \<noteq> [] \<and> (\<forall>c\<in>set cs. safe c))"
| "batchOk safe (Serial c) = (\<not> safe c)"

text \<open>No two parallel batches stand next to each other.\<close>

fun separated :: "'c ToolCallExecutionBatch list \<Rightarrow> bool" where
  "separated (Parallel a # Parallel b # bs) = False"
| "separated (b # bs) = separated bs"
| "separated [] = True"

lemma separated_Serial [simp]: "separated (Serial c # bs) = separated bs"
  by (cases bs) auto

lemma groupLoop_flat: "concat (map batchCalls (groupLoop safe buf cs)) = buf @ cs"
  by (induction safe buf cs rule: groupLoop.induct) (auto simp: flushParallel_def)

lemma groupLoop_ok:
  "\<forall>c\<in>set buf. safe c \<Longrightarrow> \<forall>b\<in>set (groupLoop safe buf cs). batchOk safe b"
  by (induction safe buf cs rule: groupLoop.induct) (auto simp: flushParallel_def split: if_splits)

lemma groupLoop_separated: "separated (groupLoop safe buf cs)"
proof (induction safe buf cs rule: groupLoop.induct)
  case (2 safe buf c cs)
  then show ?case by (auto simp: flushParallel_def)
qed (simp add: flushParallel_def)

text \<open>
  Grouping a model's tool calls into batches loses, repeats and reorders nothing: the batches in order,
  flattened, are the calls; a parallel batch is never empty and holds only calls of tools that are safe
  to run in parallel, a serial one holds a call that is not; and two parallel batches are never adjacent.\<close>

theorem batches_partition:
  "concat (map batchCalls (groupToolCallsIntoBatches calls safe)) = calls \<and>
   (\<forall>b\<in>set (groupToolCallsIntoBatches calls safe). batchOk safe b) \<and>
   separated (groupToolCallsIntoBatches calls safe)"
  using groupLoop_ok [of "[]" safe calls]
  by (simp add: groupToolCallsIntoBatches_def groupLoop_flat groupLoop_separated)

theorem batches_partition_witness:
  "concat (map batchCalls (groupToolCallsIntoBatches [1, 2, 3, 4::nat] (\<lambda>n. n \<noteq> 3))) = [1, 2, 3, 4] \<and>
   groupToolCallsIntoBatches [1, 2, 3, 4::nat] (\<lambda>n. n \<noteq> 3) = [Parallel [1, 2], Serial 3, Parallel [4]]"
  using batches_partition [of "[1, 2, 3, 4::nat]" "\<lambda>n. n \<noteq> 3"]
  by (simp add: groupToolCallsIntoBatches_def flushParallel_def)

end
