(* ===== verification/Regex.thy ===== *)
theory Regex
  imports JsText
begin

section \<open>Regular expression tests\<close>

text \<open>
  \<open>RegExp.prototype.test\<close> for the constructs the modelled code uses. A matcher state is the code unit
  before the position, if any, and the rest of the string; \<open>ends r st\<close> lists the states in which a match
  of \<open>r\<close> starting at \<open>st\<close> can end, which is all that a test depends on. Letters written in a pattern
  with the flag \<open>i\<close> are matched by \<open>lit\<close> without regard to the case of ASCII letters.
\<close>

datatype re =
    Unit "char \<Rightarrow> bool"
  | Empty
  | Cat re re
  | Or re re
  | Many re
  | UpTo nat re
  | WordBoundary

type_synonym re_state = "char option \<times> string"

definition isDigit :: "char \<Rightarrow> bool" where
  "isDigit c = (48 \<le> (of_char c :: nat) \<and> (of_char c :: nat) \<le> 57)"

definition isWord :: "char \<Rightarrow> bool" where
  "isWord c = (let n = (of_char c :: nat) in
     (48 \<le> n \<and> n \<le> 57) \<or> (65 \<le> n \<and> n \<le> 90) \<or> (97 \<le> n \<and> n \<le> 122) \<or> n = 95)"

text \<open>The repetition of a step that must make progress; \<open>n\<close> bounds the number of rounds.\<close>

fun rounds :: "(re_state \<Rightarrow> re_state list) \<Rightarrow> nat \<Rightarrow> re_state \<Rightarrow> re_state list" where
  "rounds f 0 st = [st]"
| "rounds f (Suc n) st =
     st # concat (map (rounds f n) (filter (\<lambda>t. length (snd t) < length (snd st)) (f st)))"

fun ends :: "re \<Rightarrow> re_state \<Rightarrow> re_state list" where
  "ends (Unit p) st = (case snd st of [] \<Rightarrow> [] | c # cs \<Rightarrow> if p c then [(Some c, cs)] else [])"
| "ends Empty st = [st]"
| "ends (Cat a b) st = concat (map (ends b) (ends a st))"
| "ends (Or a b) st = ends a st @ ends b st"
| "ends (Many r) st = rounds (ends r) (length (snd st)) st"
| "ends (UpTo n r) st = rounds (ends r) n st"
| "ends WordBoundary st =
     (if (case fst st of None \<Rightarrow> False | Some c \<Rightarrow> isWord c) \<noteq>
         (case snd st of [] \<Rightarrow> False | c # _ \<Rightarrow> isWord c) then [st] else [])"

text \<open>A match anywhere, and a match of the whole string (\<open>^r$\<close>).\<close>

fun testFrom :: "re \<Rightarrow> char option \<Rightarrow> string \<Rightarrow> bool" where
  "testFrom r pre [] = (ends r (pre, []) \<noteq> [])"
| "testFrom r pre (c # cs) = (ends r (pre, c # cs) \<noteq> [] \<or> testFrom r (Some c) cs)"

definition testRe :: "re \<Rightarrow> string \<Rightarrow> bool" where
  "testRe r s = testFrom r None s"

definition matchesAll :: "re \<Rightarrow> string \<Rightarrow> bool" where
  "matchesAll r s = list_ex (\<lambda>t. snd t = []) (ends r (None, s))"

subsection \<open>Derived forms\<close>

definition lit :: "string \<Rightarrow> re" where
  "lit s = foldr (\<lambda>c r. Cat (Unit (\<lambda>x. lowerChar x = lowerChar c)) r) s Empty"

fun anyOf :: "re list \<Rightarrow> re" where
  "anyOf [] = Unit (\<lambda>_. False)"
| "anyOf [r] = r"
| "anyOf (r # rs) = Or r (anyOf rs)"

fun seqOf :: "re list \<Rightarrow> re" where
  "seqOf [] = Empty"
| "seqOf [r] = r"
| "seqOf (r # rs) = Cat r (seqOf rs)"

definition opt :: "re \<Rightarrow> re" where
  "opt r = Or r Empty"

definition ws0 :: re where "ws0 = Many (Unit isWs)"
definition ws1 :: re where "ws1 = Cat (Unit isWs) ws0"
definition notNl :: re where "notNl = Unit (\<lambda>c. (of_char c :: nat) \<notin> {10, 13})"

fun digits :: "nat \<Rightarrow> re" where
  "digits 0 = Empty"
| "digits (Suc n) = Cat (Unit isDigit) (digits n)"

definition chr :: "char \<Rightarrow> re" where
  "chr c = Unit (\<lambda>x. x = c)"

subsection \<open>Facts\<close>

text \<open>Consuming a matched unit.\<close>

lemma ends_Unit_Cons [simp]: "ends (Unit p) (b, c # cs) = (if p c then [(Some c, cs)] else [])"
  by simp

lemma ends_chr [simp]: "ends (chr c) (b, x # cs) = (if x = c then [(Some x, cs)] else [])"
  by (simp add: chr_def)

text \<open>Every end of a match is a suffix of the string it started from.\<close>

lemma rounds_suffix:
  assumes "\<And>st t. t \<in> set (f st) \<Longrightarrow> suffix (snd t) (snd st)"
  shows "t \<in> set (rounds f n st) \<Longrightarrow> suffix (snd t) (snd st)"
proof (induction n arbitrary: st)
  case 0
  then show ?case by simp
next
  case (Suc n)
  then consider "t = st" | u where "u \<in> set (f st)" "t \<in> set (rounds f n u)" by auto
  then show ?case
  proof cases
    case 1
    then show ?thesis by simp
  next
    case 2
    then show ?thesis using Suc.IH assms by (meson suffix_order.trans)
  qed
qed

lemma ends_suffix: "t \<in> set (ends r st) \<Longrightarrow> suffix (snd t) (snd st)"
proof (induction r arbitrary: st t)
  case (Unit p)
  then show ?case by (cases "snd st") (auto simp: suffix_ConsI split: if_splits)
next
  case (Cat a b)
  then obtain u where "u \<in> set (ends a st)" "t \<in> set (ends b u)" by auto
  then show ?case using Cat.IH by (meson suffix_order.trans)
next
  case (Many r)
  then show ?case using rounds_suffix [of "ends r"] by auto
next
  case (UpTo n r)
  then show ?case using rounds_suffix [of "ends r"] by auto
qed (auto split: if_splits)

lemma isDigit_char: "n < (10::nat) \<Longrightarrow> isDigit (char_of (48 + n))"
  by (simp add: isDigit_def)

end
