(* ===== verification/ScheduleText.thy ===== *)
theory ScheduleText
  imports Regex JsonText
begin

section \<open>Schedule timing expressions\<close>

text \<open>
  src/src/schedule/next-fire.ts, parse-schedule-when.ts and schedule-timing.ts: durations such as
  \<open>30m\<close>, one-shot times, cron expressions and the preview of the next fires.

  \<open>toISOString\<close> is defined below. Two things are parameters: \<open>dateParse\<close>, the host's \<open>Date\<close> parser (its
  reading of a time without an offset depends on the host's time zone), and \<open>cronNext\<close>, the next fire
  of the package cron-parser, which may throw. Digit strings denote numbers below \<open>2 ^ 53\<close>.
\<close>

subsection \<open>Dates as text\<close>

definition MAX_TIME :: int where "MAX_TIME = 8640000000000000"

text \<open>The proleptic Gregorian date of a day counted from 1970-01-01: year, month, day.\<close>

definition civil :: "int \<Rightarrow> int \<times> int \<times> int" where
  "civil days =
     (let z = days + 719468; era = z div 146097; doe = z mod 146097;
          yoe = (doe - doe div 1460 + doe div 36524 - doe div 146096) div 365;
          doy = doe - (365 * yoe + yoe div 4 - yoe div 100);
          mp = (5 * doy + 2) div 153;
          d = doy - (153 * mp + 2) div 5 + 1;
          m = (if mp < 10 then mp + 3 else mp - 9)
      in (yoe + era * 400 + (if m \<le> 2 then 1 else 0), m, d))"

fun padNat :: "nat \<Rightarrow> nat \<Rightarrow> string" where
  "padNat 0 n = []"
| "padNat (Suc w) n = padNat w (n div 10) @ [char_of (48 + n mod 10)]"

definition pad :: "nat \<Rightarrow> int \<Rightarrow> string" where
  "pad w n = padNat w (nat n)"

definition isoYear :: "int \<Rightarrow> string" where
  "isoYear y = (if 0 \<le> y \<and> y \<le> 9999 then pad 4 y
     else if y < 0 then ''-'' @ pad 6 (- y) else ''+'' @ pad 6 y)"

definition isoText :: "instant \<Rightarrow> string" where
  "isoText t =
     (let (y, m, d) = civil (t div 86400000); r = t mod 86400000
      in isoYear y @ ''-'' @ pad 2 m @ ''-'' @ pad 2 d @ ''T'' @ pad 2 (r div 3600000) @ '':'' @
         pad 2 (r div 60000 mod 60) @ '':'' @ pad 2 (r div 1000 mod 60) @ ''.'' @ pad 3 (r mod 1000) @ ''Z'')"

text \<open>\<open>new Date(t)\<close> is an invalid date outside the time range, and \<open>toISOString\<close> throws on it.\<close>

definition validTime :: "instant \<Rightarrow> bool" where
  "validTime t = (\<bar>t\<bar> \<le> MAX_TIME)"

definition dateIso :: "instant \<Rightarrow> thrown + instant" where
  "dateIso t = (if validTime t then Inr t else Inl (PlainError ''Invalid time value''))"

definition toISOString :: "instant \<Rightarrow> thrown + string" where
  "toISOString t = (case dateIso t of Inl e \<Rightarrow> Inl e | Inr v \<Rightarrow> Inr (isoText v))"

subsection \<open>Durations\<close>

fun parseDigits :: "nat \<Rightarrow> string \<Rightarrow> nat" where
  "parseDigits acc [] = acc"
| "parseDigits acc (c # cs) = parseDigits (10 * acc + (of_char c - 48)) cs"

definition unitMultiplier :: "string \<Rightarrow> int option" where
  "unitMultiplier u =
     (if u = ''ms'' then Some 1 else if u = ''s'' then Some 1000 else if u = ''m'' then Some 60000
      else if u = ''h'' then Some 3600000 else if u = ''d'' then Some 86400000 else None)"

text \<open>\<open>MULTIPLIERS\<close> holds the same five units as \<open>unitMultiplier\<close>.\<close>

definition MULTIPLIERS :: "string \<Rightarrow> int option" where
  "MULTIPLIERS = map_of [(''d'', 24 * 60 * 60 * 1000), (''h'', 60 * 60 * 1000), (''m'', 60 * 1000),
     (''ms'', 1), (''s'', 1000)]"

text \<open>The groups of \<open>/^(\d+)\s*(ms|s|m|h|d)$/i\<close>; the three parts share no characters.\<close>

definition matchAmount :: "string \<Rightarrow> (string \<times> string) option" where
  "matchAmount s =
     (let ds = takeWhile isDigit s; u = dropWhile isWs (dropWhile isDigit s)
      in if ds \<noteq> [] \<and> lower u \<in> {''ms'', ''s'', ''m'', ''h'', ''d''} then Some (ds, u) else None)"

definition parseEveryExpression :: "string \<Rightarrow> thrown + int" where
  "parseEveryExpression value =
     (let err = Inl (PlainError (''Invalid every expression: '' @ value))
      in case matchAmount (trim value) of
           None \<Rightarrow> err
         | Some (ds, u) \<Rightarrow>
             (let amount = int (parseDigits 0 ds)
              in case MULTIPLIERS (lower u) of
                   None \<Rightarrow> err
                 | Some m \<Rightarrow> if amount \<le> 0 then err else Inr (amount * m)))"

text \<open>The group of \<open>/^every\s+(\d+\s*(?:ms|s|m|h|d))$/i\<close>.\<close>

definition matchEvery :: "string \<Rightarrow> string option" where
  "matchEvery s =
     (let r = dropWhile isWs (drop 5 s)
      in if lower (take 5 s) = ''every'' \<and> r \<noteq> drop 5 s \<and> matchAmount r \<noteq> None then Some r else None)"

subsection \<open>When expressions\<close>

record ParsedScheduleWhen =
  ps_cron :: "string option"
  ps_every :: "string option"
  ps_runAt :: "string option"

text \<open>\<open>CRON_RE\<close>: five fields, and possibly a sixth.\<close>

definition isCron :: "string \<Rightarrow> bool" where
  "isCron s = (let fs = splitWs s in [] \<notin> set fs \<and> length fs \<in> {5, 6})"

definition ISO_RE :: re where
  "ISO_RE = seqOf [digits 4, chr CHR ''-'', digits 2, chr CHR ''-'', digits 2,
     opt (seqOf [Unit (\<lambda>c. c = CHR ''T'' \<or> isWs c), digits 2, chr CHR '':'', digits 2,
       opt (seqOf [chr CHR '':'', digits 2,
         opt (seqOf [chr CHR ''.'', Unit isDigit, UpTo 2 (Unit isDigit)])]),
       opt (Or (chr CHR ''Z'')
         (seqOf [Unit (\<lambda>c. c = CHR ''+'' \<or> c = CHR ''-''), digits 2, chr CHR '':'', digits 2]))])]"

definition parseScheduleWhen :: "(string \<Rightarrow> instant option) \<Rightarrow> string \<Rightarrow> instant \<Rightarrow> thrown + ParsedScheduleWhen" where
  "parseScheduleWhen dateParse value now =
     (let normalized = trim value;
          at = (\<lambda>t. \<lparr>ps_cron = None, ps_every = None, ps_runAt = Some t\<rparr>)
      in if normalized = [] then Inl (PlainError ''Schedule when expression cannot be empty.'')
         else case matchEvery normalized of
           Some every \<Rightarrow>
             (case parseEveryExpression (trim every) of
                Inl e \<Rightarrow> Inl e
              | Inr _ \<Rightarrow> Inr \<lparr>ps_cron = None, ps_every = Some (trim every), ps_runAt = None\<rparr>)
         | None \<Rightarrow>
             (case matchAmount normalized of
                Some (ds, u) \<Rightarrow>
                  (let amount = int (parseDigits 0 ds);
                       err = Inl (PlainError (''Invalid relative schedule expression: '' @ value))
                   in case unitMultiplier (lower u) of
                        None \<Rightarrow> err
                      | Some m \<Rightarrow> if amount \<le> 0 then err
                          else map_sum id at (toISOString (now + amount * m)))
              | None \<Rightarrow>
                  if isCron normalized
                  then Inr \<lparr>ps_cron = Some normalized, ps_every = None, ps_runAt = None\<rparr>
                  else if matchesAll ISO_RE normalized
                  then (case dateParse normalized of
                          None \<Rightarrow> Inl (PlainError ''Invalid time value'')
                        | Some t \<Rightarrow> map_sum id at (toISOString t))
                  else Inl (PlainError (''Unsupported schedule when expression: '' @ value @
                         ''. Use 30m, every 2h, cron, or ISO timestamps.''))))"

subsection \<open>Next fires\<close>

record FireRule =
  fr_cron :: "string option"
  fr_intervalMs :: "int option"
  fr_timezone :: "string option"

type_synonym cron_next = "string \<Rightarrow> string option \<Rightarrow> instant \<Rightarrow> thrown + instant"

definition computeNextFireAt :: "cron_next \<Rightarrow> FireRule \<Rightarrow> instant \<Rightarrow> thrown + instant option" where
  "computeNextFireAt cronNext r from =
     (case fr_cron r of
        Some cron \<Rightarrow> map_sum id Some (cronNext cron (fr_timezone r) from)
      | None \<Rightarrow>
          (case fr_intervalMs r of
             Some ms \<Rightarrow> Inr (Some (from + ms))
           | None \<Rightarrow> Inr None))"

datatype ScheduleTiming =
    CronTiming string "string option"
  | EveryTiming string int
  | RunAtTiming string

record ScheduleTimingInput =
  si_at :: "string option"
  si_cron :: "string option"
  si_every :: "string option"
  si_timezone :: "string option"
  si_when :: "string option"

record ScheduleTimingPreview =
  sv_timing :: ScheduleTiming
  sv_nextFireAt :: "string option"
  sv_nextFirePreview :: "string list"

fun timingRule :: "ScheduleTiming \<Rightarrow> FireRule" where
  "timingRule (CronTiming c tz) = \<lparr>fr_cron = Some c, fr_intervalMs = None, fr_timezone = tz\<rparr>"
| "timingRule (EveryTiming e ms) = \<lparr>fr_cron = None, fr_intervalMs = Some ms, fr_timezone = None\<rparr>"
| "timingRule (RunAtTiming r) = \<lparr>fr_cron = None, fr_intervalMs = None, fr_timezone = None\<rparr>"

text \<open>The loop of the preview, with the number of fires still to compute.\<close>

fun previewLoop :: "cron_next \<Rightarrow> ScheduleTiming \<Rightarrow> nat \<Rightarrow> instant \<Rightarrow> string list \<Rightarrow> thrown + string list" where
  "previewLoop cronNext timing 0 cursor preview = Inr preview"
| "previewLoop cronNext timing (Suc n) cursor preview =
     (case computeNextFireAt cronNext (timingRule timing) cursor of
        Inl e \<Rightarrow> Inl e
      | Inr None \<Rightarrow>
          (case timing of
             RunAtTiming r \<Rightarrow> Inr (if preview = [] then [r] else preview)
           | _ \<Rightarrow> Inr preview)
      | Inr (Some t) \<Rightarrow>
          (case toISOString t of
             Inl e \<Rightarrow> Inl e
           | Inr fire \<Rightarrow> previewLoop cronNext timing n t (preview @ [fire])))"

definition previewScheduleTiming :: "cron_next \<Rightarrow> ScheduleTiming \<Rightarrow> int \<Rightarrow> instant \<Rightarrow> thrown + ScheduleTimingPreview" where
  "previewScheduleTiming cronNext timing count from =
     (let safeCount = max 1 (min count 20)
      in case previewLoop cronNext timing (nat safeCount) from [] of
           Inl e \<Rightarrow> Inl e
         | Inr preview \<Rightarrow> Inr \<lparr>sv_timing = timing,
             sv_nextFireAt = (case preview of [] \<Rightarrow> None | x # _ \<Rightarrow> Some x),
             sv_nextFirePreview = preview\<rparr>)"

text \<open>An explicit timing: exactly one of \<open>at\<close>, \<open>cron\<close> and \<open>every\<close>.\<close>

definition resolveExplicit :: "(string \<Rightarrow> instant option) \<Rightarrow> cron_next \<Rightarrow> ScheduleTimingInput \<Rightarrow> instant \<Rightarrow>
    thrown + ScheduleTiming" where
  "resolveExplicit dateParse cronNext inp now =
     (if length (filter id [si_at inp \<noteq> None, si_cron inp \<noteq> None, si_every inp \<noteq> None]) \<noteq> 1
      then Inl (PlainError ''Schedule timing must define exactly one of at, every, or cron.'')
      else case si_at inp of
        Some at \<Rightarrow>
          (case parseScheduleWhen dateParse at now of
             Inl e \<Rightarrow> Inl e
           | Inr parsed \<Rightarrow>
               (case ps_runAt parsed of
                  None \<Rightarrow> Inl (PlainError
                    (''Schedule at expression must resolve to a one-shot time, got: '' @ at))
                | Some r \<Rightarrow> Inr (RunAtTiming r)))
      | None \<Rightarrow>
          (case si_every inp of
             Some every \<Rightarrow> map_sum id (EveryTiming every) (parseEveryExpression every)
           | None \<Rightarrow>
               (case si_cron inp of
                  None \<Rightarrow> Inl (PlainError ''Schedule cron expression cannot be empty.'')
                | Some cron \<Rightarrow>
                    if trim cron = [] then Inl (PlainError ''Schedule cron expression cannot be empty.'')
                    else
                      let timing = CronTiming (trim cron) (si_timezone inp)
                      in case previewScheduleTiming cronNext timing 1 now of
                           Inl e \<Rightarrow> Inl e
                         | Inr _ \<Rightarrow> Inr timing)))"

text \<open>
  A \<open>when\<close> expression is parsed and resolved again as an explicit timing; \<open>nows\<close> are the instants at
  which the two calls read the clock.
\<close>

definition resolveScheduleTiming :: "(string \<Rightarrow> instant option) \<Rightarrow> cron_next \<Rightarrow> ScheduleTimingInput \<Rightarrow>
    instant \<times> instant \<Rightarrow> thrown + ScheduleTiming" where
  "resolveScheduleTiming dateParse cronNext inp nows =
     (case si_when inp of
        Some w \<Rightarrow>
          if si_at inp \<noteq> None \<or> si_cron inp \<noteq> None \<or> si_every inp \<noteq> None
          then Inl (PlainError ''Schedule timing cannot combine `when` with explicit at, cron, or every fields.'')
          else (case parseScheduleWhen dateParse w (fst nows) of
                  Inl e \<Rightarrow> Inl e
                | Inr parsed \<Rightarrow> resolveExplicit dateParse cronNext
                    \<lparr>si_at = ps_runAt parsed, si_cron = ps_cron parsed, si_every = ps_every parsed,
                     si_timezone = si_timezone inp, si_when = None\<rparr> (snd nows))
      | None \<Rightarrow> resolveExplicit dateParse cronNext inp (snd nows))"

fun orDash :: "string option \<Rightarrow> string" where
  "orDash None = ''-''"
| "orDash (Some s) = s"

definition timingKind :: "ScheduleTiming \<Rightarrow> string" where
  "timingKind t = (case t of CronTiming _ _ \<Rightarrow> ''cron'' | EveryTiming _ _ \<Rightarrow> ''every'' | RunAtTiming _ \<Rightarrow> ''runAt'')"

definition formatScheduleTimingPreview :: "ScheduleTimingPreview \<Rightarrow> string" where
  "formatScheduleTimingPreview p =
     (let t = sv_timing p in joinWith [nl]
       [''Timing: '' @ timingKind t,
        ''Cron: '' @ (case t of CronTiming c _ \<Rightarrow> c | _ \<Rightarrow> ''-''),
        ''Every: '' @ (case t of EveryTiming e _ \<Rightarrow> e | _ \<Rightarrow> ''-''),
        ''Run At: '' @ (case t of RunAtTiming r \<Rightarrow> r | _ \<Rightarrow> ''-''),
        ''Timezone: '' @ (case t of CronTiming _ tz \<Rightarrow> orDash tz | _ \<Rightarrow> ''-''),
        ''Next Fire: '' @ orDash (sv_nextFireAt p),
        ''Preview: '' @ (if sv_nextFirePreview p \<noteq> [] then joinWith '', '' (sv_nextFirePreview p) else ''-'')])"

end
