(* ===== verification/ScheduleTextProps.thy ===== *)
theory ScheduleTextProps
  imports ScheduleText
begin

section \<open>Properties of the schedule timing expressions\<close>

text \<open>
  Durations are read back exactly, a preview lists the fires an interval apart, and a relative time
  is the clock plus the duration although its text is parsed twice.
\<close>

subsection \<open>Numbers\<close>

lemma showNat_digits: "list_all isDigit (showNat n)"
  by (induction n rule: showNat.induct) (subst showNat.simps, auto simp: isDigit_char)

lemma showNat_not_Nil [simp]: "showNat n \<noteq> []"
  by (subst showNat.simps) simp

lemma parseDigits_append:
  "parseDigits acc (xs @ [c]) = 10 * parseDigits acc xs + (of_char c - 48)"
  by (induction acc xs rule: parseDigits.induct) auto

lemma parseDigits_showNat: "parseDigits 0 (showNat n) = n"
proof (induction n rule: showNat.induct)
  case (1 n)
  show ?case
  proof (cases "n < 10")
    case True
    then show ?thesis by (subst showNat.simps) simp
  next
    case False
    have "n mod 10 < 10" by simp
    then have "of_char (char_of (48 + n mod 10)) = 48 + n mod 10" by simp
    with False 1 show ?thesis by (subst showNat.simps) (simp add: parseDigits_append)
  qed
qed

lemma isDigit_not_ws: "isDigit c \<Longrightarrow> \<not> isWs c"
  by (auto simp: isDigit_def isWs_def)

subsection \<open>Durations\<close>

lemma MULTIPLIERS_cases:
  assumes "MULTIPLIERS u = Some m"
  shows "(u = ''d'' \<and> m = 86400000) \<or> (u = ''h'' \<and> m = 3600000) \<or> (u = ''m'' \<and> m = 60000) \<or>
    (u = ''ms'' \<and> m = 1) \<or> (u = ''s'' \<and> m = 1000)"
  using assms by (auto simp: MULTIPLIERS_def split: if_splits)

lemma unitMultiplier_eq: "unitMultiplier u = MULTIPLIERS u"
  by (simp add: unitMultiplier_def MULTIPLIERS_def)

text \<open>What the code relies on of a unit: it is lower case and starts with neither a digit nor white space.\<close>

lemma unit_shape:
  assumes "MULTIPLIERS u = Some m"
  shows "0 < m \<and> lower u = u \<and> u \<in> {''ms'', ''s'', ''m'', ''h'', ''d''} \<and> u \<noteq> [] \<and>
    \<not> isDigit (hd u) \<and> \<not> isWs (hd u) \<and> \<not> isWs (last u)"
  using MULTIPLIERS_cases [OF assms]
  by (elim disjE conjE; simp add: lower_def lowerChar_def isDigit_def isWs_def)

lemma split_digits:
  assumes "u \<noteq> []" and "\<not> isDigit (hd u)" and "\<not> isWs (hd u)"
  shows "takeWhile isDigit (showNat n @ u) = showNat n"
    "dropWhile isWs (dropWhile isDigit (showNat n @ u)) = u"
proof -
  have all: "\<And>c. c \<in> set (showNat n) \<Longrightarrow> isDigit c" using showNat_digits by (simp add: list_all_iff)
  obtain x xs where u: "u = x # xs" "\<not> isDigit x" "\<not> isWs x" using assms by (cases u) auto
  show "takeWhile isDigit (showNat n @ u) = showNat n" using all u by (simp add: takeWhile_append2)
  show "dropWhile isWs (dropWhile isDigit (showNat n @ u)) = u" using all u by (simp add: dropWhile_append2)
qed

lemma trim_amount:
  assumes "MULTIPLIERS u = Some m"
  shows "trim (showNat n @ u) = showNat n @ u"
proof -
  have "isDigit (hd (showNat n))" using showNat_digits [of n] by (cases "showNat n") auto
  then show ?thesis using unit_shape [OF assms] by (intro trim_id) (auto dest: isDigit_not_ws)
qed

lemma matchAmount_showNat:
  assumes "MULTIPLIERS u = Some m"
  shows "matchAmount (showNat n @ u) = Some (showNat n, u)"
proof -
  have u: "u \<noteq> []" "\<not> isDigit (hd u)" "\<not> isWs (hd u)" "lower u \<in> {''ms'', ''s'', ''m'', ''h'', ''d''}"
    using unit_shape [OF assms] by simp_all
  show ?thesis
    unfolding matchAmount_def Let_def split_digits [OF u(1-3)] using u(4) by (simp only: showNat_not_Nil) simp
qed

text \<open>
  A duration is read exactly: a number written in decimal and one of the five units denote that many
  units in milliseconds, zero is rejected, and whatever text is accepted denotes a positive duration.\<close>

theorem every_expression_exact:
  assumes "MULTIPLIERS u = Some m"
  shows "parseEveryExpression (showNat n @ u) =
      (if n = 0 then Inl (PlainError (''Invalid every expression: '' @ showNat n @ u)) else Inr (int n * m)) \<and>
    (parseEveryExpression s = Inr v \<longrightarrow> 0 < v)"
proof -
  have 1: "parseEveryExpression (showNat n @ u) =
      (if n = 0 then Inl (PlainError (''Invalid every expression: '' @ showNat n @ u)) else Inr (int n * m))"
    using unit_shape [OF assms] assms
    by (simp add: parseEveryExpression_def Let_def trim_amount [OF assms] matchAmount_showNat [OF assms]
        parseDigits_showNat)
  have "0 < v" if "parseEveryExpression s = Inr v"
  proof -
    from that obtain ds w k where k: "MULTIPLIERS (lower w) = Some k" "v = int (parseDigits 0 ds) * k"
      "0 < int (parseDigits 0 ds)"
      by (auto simp: parseEveryExpression_def Let_def split: option.splits prod.splits if_splits)
    with unit_shape [OF k(1)] show ?thesis by simp
  qed
  with 1 show ?thesis by simp
qed

theorem every_expression_exact_witness:
  "parseEveryExpression (showNat 90 @ ''m'') = Inr 5400000"
  using every_expression_exact [of "''m''" 60000 90 "[]" 0] by (simp add: MULTIPLIERS_def)

subsection \<open>Previews\<close>

lemma previewLoop_every:
  assumes "0 < ms" and "\<And>k. k < n \<Longrightarrow> validTime (from + int (Suc k) * ms)"
  shows "previewLoop cronNext (EveryTiming e ms) n from acc =
    Inr (acc @ map (\<lambda>k. isoText (from + int (Suc k) * ms)) [0..<n])"
  using assms(2)
proof (induction n arbitrary: "from" acc)
  case 0
  then show ?case by simp
next
  case (Suc n)
  have v: "validTime (from + ms)" using Suc.prems [of 0] by simp
  have "validTime (from + ms + int (Suc k) * ms)" if "k < n" for k
    using Suc.prems [of "Suc k"] that by (simp add: algebra_simps)
  note ih = Suc.IH [OF this]
  have "map (\<lambda>k. isoText (from + int (Suc k) * ms)) [0..<Suc n] =
      isoText (from + ms) # map (\<lambda>k. isoText (from + ms + int (Suc k) * ms)) [0..<n]"
    by (simp add: upt_conv_Cons map_Suc_upt [symmetric] algebra_simps del: upt_Suc)
  then show ?case
    using v by (simp add: computeNextFireAt_def toISOString_def dateIso_def ih del: upt_Suc)
qed

text \<open>
  The preview of an interval schedule lists as many fires as asked for, at least one and at most
  twenty, the first one interval after the given instant and each further one interval later.\<close>

theorem preview_every_exact:
  assumes "0 < ms" and "validTime (from + 20 * ms)" and "validTime from"
  shows "previewScheduleTiming cronNext (EveryTiming e ms) count from =
    Inr \<lparr>sv_timing = EveryTiming e ms, sv_nextFireAt = Some (isoText (from + ms)),
      sv_nextFirePreview = map (\<lambda>k. isoText (from + int (Suc k) * ms)) [0..<nat (max 1 (min count 20))]\<rparr>"
proof -
  let ?n = "nat (max 1 (min count 20))"
  have n: "0 < ?n" "?n \<le> 20" by auto
  have valid: "validTime (from + int (Suc k) * ms)" if "k < ?n" for k
  proof -
    have "int (Suc k) * ms \<le> 20 * ms" using that n assms(1) by (intro mult_right_mono) auto
    moreover have "0 \<le> int (Suc k) * ms" using assms(1) by simp
    ultimately show ?thesis using assms(2,3) by (auto simp: validTime_def)
  qed
  have "previewLoop cronNext (EveryTiming e ms) ?n from [] =
      Inr (map (\<lambda>k. isoText (from + int (Suc k) * ms)) [0..<?n])"
    using previewLoop_every [where acc = "[]", OF assms(1) valid] by simp
  moreover obtain j where j: "?n = Suc j" using n by (cases ?n) auto
  ultimately show ?thesis
    by (simp add: previewScheduleTiming_def Let_def j upt_conv_Cons del: upt_Suc)
qed

theorem preview_every_exact_witness:
  "\<forall>cronNext. map_sum id sv_nextFirePreview (previewScheduleTiming cronNext (EveryTiming ''1h'' 3600000) 2 0) =
    Inr [isoText 3600000, isoText 7200000]"
  using preview_every_exact [of 3600000 0 _ "''1h''" 2]
  by (simp add: validTime_def MAX_TIME_def upt_rec)

subsection \<open>Relative times\<close>

definition yearOf :: "instant \<Rightarrow> int" where
  "yearOf t = fst (civil (t div 86400000))"

lemma padNat_digits: "list_all isDigit (padNat w n) \<and> length (padNat w n) = w"
  by (induction w n rule: padNat.induct) (simp_all add: isDigit_char)

lemma pad_digits: "list_all isDigit (pad w n)" "length (pad w n) = w"
  by (simp_all add: pad_def padNat_digits)

lemma digit_pad2: "\<exists>a b. pad 2 n = [a, b] \<and> isDigit a \<and> isDigit b"
proof -
  obtain a b where "pad 2 n = [a, b]"
    using pad_digits(2) [of 2 n] by (auto simp: numeral_2_eq_2 length_Suc_conv)
  with pad_digits(1) [of 2 n] show ?thesis by simp
qed

lemma digit_pad3: "\<exists>a b c. pad 3 n = [a, b, c] \<and> isDigit a \<and> isDigit b \<and> isDigit c"
proof -
  obtain a b c where "pad 3 n = [a, b, c]"
    using pad_digits(2) [of 3 n] by (auto simp: numeral_3_eq_3 length_Suc_conv)
  with pad_digits(1) [of 3 n] show ?thesis by simp
qed

lemma digit_pad4: "\<exists>a b c d. pad 4 n = [a, b, c, d] \<and> isDigit a \<and> isDigit b \<and> isDigit c \<and> isDigit d"
proof -
  have "length (pad 4 n) = Suc (Suc (Suc (Suc 0)))" by (simp add: pad_digits)
  then obtain a b c d where "pad 4 n = [a, b, c, d]" by (auto simp: length_Suc_conv)
  with pad_digits(1) [of 4 n] show ?thesis by simp
qed

text \<open>The text of a time of a four-digit year.\<close>

lemma isoText_shape:
  assumes "0 \<le> yearOf t" and "yearOf t \<le> 9999"
  obtains y1 y2 y3 y4 m1 m2 d1 d2 h1 h2 i1 i2 s1 s2 f1 f2 f3 where
    "isoText t = [y1, y2, y3, y4, CHR ''-'', m1, m2, CHR ''-'', d1, d2, CHR ''T'', h1, h2, CHR '':'',
       i1, i2, CHR '':'', s1, s2, CHR ''.'', f1, f2, f3, CHR ''Z'']"
    "list_all isDigit [y1, y2, y3, y4, m1, m2, d1, d2, h1, h2, i1, i2, s1, s2, f1, f2, f3]"
proof -
  obtain y m d where c: "civil (t div 86400000) = (y, m, d)" by (cases "civil (t div 86400000)")
  let ?r = "t mod 86400000"
  have y: "isoYear y = pad 4 y" using assms c by (simp add: yearOf_def isoYear_def)
  obtain y1 y2 y3 y4 where 1: "pad 4 y = [y1, y2, y3, y4]" "isDigit y1" "isDigit y2" "isDigit y3" "isDigit y4"
    using digit_pad4 by blast
  obtain m1 m2 where 2: "pad 2 m = [m1, m2]" "isDigit m1" "isDigit m2" using digit_pad2 by blast
  obtain d1 d2 where 3: "pad 2 d = [d1, d2]" "isDigit d1" "isDigit d2" using digit_pad2 by blast
  obtain h1 h2 where 4: "pad 2 (?r div 3600000) = [h1, h2]" "isDigit h1" "isDigit h2" using digit_pad2 by blast
  obtain i1 i2 where 5: "pad 2 (?r div 60000 mod 60) = [i1, i2]" "isDigit i1" "isDigit i2" using digit_pad2 by blast
  obtain s1 s2 where 6: "pad 2 (?r div 1000 mod 60) = [s1, s2]" "isDigit s1" "isDigit s2" using digit_pad2 by blast
  obtain f1 f2 f3 where 7: "pad 3 (?r mod 1000) = [f1, f2, f3]" "isDigit f1" "isDigit f2" "isDigit f3"
    using digit_pad3 by blast
  have "isoText t = pad 4 y @ ''-'' @ pad 2 m @ ''-'' @ pad 2 d @ ''T'' @ pad 2 (?r div 3600000) @ '':'' @
      pad 2 (?r div 60000 mod 60) @ '':'' @ pad 2 (?r div 1000 mod 60) @ ''.'' @ pad 3 (?r mod 1000) @ ''Z''"
    using c y by (simp add: isoText_def Let_def)
  with 1 2 3 4 5 6 7 show thesis using that by simp
qed

lemma isoText_matches:
  assumes "0 \<le> yearOf t" and "yearOf t \<le> 9999"
  shows "matchesAll ISO_RE (isoText t) \<and> hd (isoText t) \<noteq> CHR ''e'' \<and> trim (isoText t) = isoText t \<and>
    matchAmount (isoText t) = None \<and> matchEvery (isoText t) = None \<and> \<not> isCron (isoText t) \<and> isoText t \<noteq> []"
proof -
  from isoText_shape [OF assms] obtain y1 y2 y3 y4 m1 m2 d1 d2 h1 h2 i1 i2 s1 s2 f1 f2 f3 where
    t: "isoText t = [y1, y2, y3, y4, CHR ''-'', m1, m2, CHR ''-'', d1, d2, CHR ''T'', h1, h2, CHR '':'',
       i1, i2, CHR '':'', s1, s2, CHR ''.'', f1, f2, f3, CHR ''Z'']"
    and "list_all isDigit [y1, y2, y3, y4, m1, m2, d1, d2, h1, h2, i1, i2, s1, s2, f1, f2, f3]" by blast
  then have d: "isDigit y1" "isDigit y2" "isDigit y3" "isDigit y4" "isDigit m1" "isDigit m2" "isDigit d1"
    "isDigit d2" "isDigit h1" "isDigit h2" "isDigit i1" "isDigit i2" "isDigit s1" "isDigit s2" "isDigit f1"
    "isDigit f2" "isDigit f3" by simp_all
  have ws: "\<forall>c\<in>set (isoText t). \<not> isWs c"
    using d [THEN isDigit_not_ws] by (simp add: t isWs_def)
  have re: "matchesAll ISO_RE (isoText t)"
    unfolding t by (simp add: matchesAll_def ISO_RE_def opt_def eval_nat_numeral d)
  have tr: "trim (isoText t) = isoText t" using ws by (intro trim_id) (simp add: t)
  have h: "\<not> isDigit (CHR ''-'')" "\<not> isWs (CHR ''-'')" by (simp_all add: isDigit_def isWs_def)
  have amt: "matchAmount (isoText t) = None"
    unfolding t matchAmount_def Let_def by (simp add: d h lower_def)
  have ev: "y1 \<noteq> CHR ''e''" "lowerChar y1 \<noteq> CHR ''e''"
    using d(1) by (auto simp: isDigit_def lowerChar_def Let_def)
  have every: "matchEvery (isoText t) = None"
    unfolding t matchEvery_def Let_def using ev by (simp add: lower_def)
  have dw: "dropWhile (\<lambda>c. \<not> isWs c) (isoText t) = []" "takeWhile (\<lambda>c. \<not> isWs c) (isoText t) = isoText t"
    using ws by (simp_all add: takeWhile_eq_all_conv)
  have "splitWs (isoText t) = [isoText t]" by (subst splitWs.simps) (simp only: dw list.case)
  then have cron: "\<not> isCron (isoText t)" by (simp add: isCron_def Let_def)
  from re tr amt every cron ev show ?thesis by (simp add: t)
qed

lemma when_amount:
  assumes "MULTIPLIERS u = Some m" and "0 < n" and "validTime (now + int n * m)"
  shows "parseScheduleWhen dateParse (showNat n @ u) now =
    Inr \<lparr>ps_cron = None, ps_every = None, ps_runAt = Some (isoText (now + int n * m))\<rparr>"
proof -
  note u = unit_shape [OF assms(1)]
  have d: "isDigit (hd (showNat n @ u))" using showNat_digits [of n] by (cases "showNat n") auto
  have e: "matchEvery (showNat n @ u) = None"
  proof -
    have "\<not> isDigit (CHR ''e'') \<and> \<not> isDigit (CHR ''E'')" by (simp add: isDigit_def)
    moreover have "lowerChar c = CHR ''e'' \<Longrightarrow> \<not> isDigit c" for c
      by (auto simp: isDigit_def lowerChar_def Let_def split: if_splits)
    moreover obtain c cs where "showNat n @ u = c # cs" by (cases "showNat n @ u") auto
    ultimately show ?thesis using d by (auto simp: matchEvery_def Let_def lower_def)
  qed
  show ?thesis
    using assms(2,3) u
    by (simp add: parseScheduleWhen_def Let_def trim_amount [OF assms(1)] e matchAmount_showNat [OF assms(1)]
        unitMultiplier_eq assms(1) parseDigits_showNat toISOString_def dateIso_def)
qed

text \<open>
  A relative time given as a when expression is resolved to the one-shot time of the first reading of the clock
  plus the duration, although its text is parsed a second time, as a timestamp: this needs only that the
  host's parser reads back what toISOString writes and that the time lies in the years 0 to 9999.\<close>

theorem when_relative_exact:
  assumes "MULTIPLIERS u = Some m" and "0 < n" and "validTime (now + int n * m)"
    and "0 \<le> yearOf (now + int n * m)" and "yearOf (now + int n * m) \<le> 9999"
    and "dateParse (isoText (now + int n * m)) = Some (now + int n * m)"
  shows "resolveScheduleTiming dateParse cronNext
      \<lparr>si_at = None, si_cron = None, si_every = None, si_timezone = tz, si_when = Some (showNat n @ u)\<rparr> (now, later) =
    Inr (RunAtTiming (isoText (now + int n * m)))"
proof -
  let ?t = "now + int n * m"
  have "parseScheduleWhen dateParse (isoText ?t) later =
      Inr \<lparr>ps_cron = None, ps_every = None, ps_runAt = Some (isoText ?t)\<rparr>"
    using isoText_matches [OF assms(4,5)] assms(3,6)
    by (simp add: parseScheduleWhen_def Let_def toISOString_def dateIso_def)
  then show ?thesis
    using when_amount [OF assms(1-3)] by (simp add: resolveScheduleTiming_def resolveExplicit_def)
qed

theorem when_relative_exact_witness:
  "\<forall>cronNext. resolveScheduleTiming (\<lambda>s. if s = isoText 1800000 then Some 1800000 else None) cronNext
      \<lparr>si_at = None, si_cron = None, si_every = None, si_timezone = None, si_when = Some (showNat 30 @ ''m'')\<rparr> (0, 5) =
    Inr (RunAtTiming (isoText 1800000))"
proof -
  let ?p = "\<lambda>s. if s = isoText 1800000 then Some 1800000 else None"
  have t: "(0::int) + int 30 * 60000 = 1800000" by simp
  have "(1800000::int) div 86400000 = 0" by simp
  moreover have "fst (civil 0) = 1970" by code_simp
  ultimately have y: "yearOf 1800000 = 1970" by (simp add: yearOf_def)
  have h: "MULTIPLIERS ''m'' = Some 60000" "0 < (30::nat)" "validTime (0 + int 30 * 60000)"
    "0 \<le> yearOf (0 + int 30 * 60000)" "yearOf (0 + int 30 * 60000) \<le> 9999"
    "?p (isoText (0 + int 30 * 60000)) = Some (0 + int 30 * 60000)"
    unfolding t by (simp_all add: MULTIPLIERS_def validTime_def MAX_TIME_def y)
  from when_relative_exact [where dateParse = ?p, OF h] show ?thesis unfolding t by blast
qed

end
