(* ===== verification/Schedules.thy ===== *)
theory Schedules
  imports Governance ScheduleText Tables "HOL-Library.Product_Lexorder"
begin

section \<open>Schedules and their runs\<close>

text \<open>
  The records of src/src/types/schedule.ts, the readers and writers of their metadata
  (schedule-metadata.ts, schedule-delivery.ts and execution-mode.ts of src/src/schedule) and the two
  repositories of src/src/storage/repositories/schedules, with the partial unique index that allows one
  active run of a schedule (migrateV26 of src/src/storage/migrations.ts). Times are instants, also
  where the record holds their text. Foreign keys between the tables are not modelled.
\<close>

subsection \<open>Records\<close>

datatype ScheduleStatus = S_active | S_paused | S_completed | S_archived

datatype ScheduleRunStatus =
    R_queued | R_running | R_waiting_approval | R_blocked | R_completed | R_failed | R_cancelled

datatype ScheduleRunTrigger = Scheduled | Manual | Retry

fun scheduleStatusStr :: "ScheduleStatus \<Rightarrow> string" where
  "scheduleStatusStr S_active = ''active''"
| "scheduleStatusStr S_paused = ''paused''"
| "scheduleStatusStr S_completed = ''completed''"
| "scheduleStatusStr S_archived = ''archived''"

fun runStatusStr :: "ScheduleRunStatus \<Rightarrow> string" where
  "runStatusStr R_queued = ''queued''"
| "runStatusStr R_running = ''running''"
| "runStatusStr R_waiting_approval = ''waiting_approval''"
| "runStatusStr R_blocked = ''blocked''"
| "runStatusStr R_completed = ''completed''"
| "runStatusStr R_failed = ''failed''"
| "runStatusStr R_cancelled = ''cancelled''"

fun triggerStr :: "ScheduleRunTrigger \<Rightarrow> string" where
  "triggerStr Scheduled = ''scheduled''"
| "triggerStr Manual = ''manual''"
| "triggerStr Retry = ''retry''"

definition ACTIVE_SCHEDULE_RUN_STATUSES :: "ScheduleRunStatus list" where
  "ACTIVE_SCHEDULE_RUN_STATUSES = [R_queued, R_running, R_waiting_approval, R_blocked]"

fun SCHEDULE_RUN_STATUS_TRANSITIONS :: "ScheduleRunStatus \<Rightarrow> ScheduleRunStatus list" where
  "SCHEDULE_RUN_STATUS_TRANSITIONS R_blocked = [R_running, R_failed, R_cancelled]"
| "SCHEDULE_RUN_STATUS_TRANSITIONS R_cancelled = []"
| "SCHEDULE_RUN_STATUS_TRANSITIONS R_completed = []"
| "SCHEDULE_RUN_STATUS_TRANSITIONS R_failed = []"
| "SCHEDULE_RUN_STATUS_TRANSITIONS R_queued = [R_running, R_cancelled]"
| "SCHEDULE_RUN_STATUS_TRANSITIONS R_running =
     [R_waiting_approval, R_blocked, R_completed, R_failed, R_cancelled]"
| "SCHEDULE_RUN_STATUS_TRANSITIONS R_waiting_approval = [R_running, R_completed, R_failed, R_cancelled]"

record ScheduleRecord =
  sc_scheduleId :: string
  sc_name :: string
  sc_status :: ScheduleStatus
  sc_sessionId :: "string option"
  sc_ownerUserId :: string
  sc_cwd :: string
  sc_agentProfileId :: AgentProfileId
  sc_providerName :: string
  sc_input :: string
  sc_runAt :: "instant option"
  sc_intervalMs :: "int option"
  sc_cron :: "string option"
  sc_timezone :: "string option"
  sc_maxAttempts :: int
  sc_backoffBaseMs :: int
  sc_backoffMaxMs :: int
  sc_nextFireAt :: "instant option"
  sc_lastFireAt :: "instant option"
  sc_createdAt :: instant
  sc_updatedAt :: instant
  sc_metadata :: json_object

record ScheduleDraft =
  sd_scheduleId :: string
  sd_name :: string
  sd_sessionId :: "string option"
  sd_ownerUserId :: string
  sd_cwd :: string
  sd_agentProfileId :: AgentProfileId
  sd_providerName :: string
  sd_input :: string
  sd_runAt :: "instant option"
  sd_intervalMs :: "int option"
  sd_cron :: "string option"
  sd_timezone :: "string option"
  sd_maxAttempts :: "int option"
  sd_backoffBaseMs :: "int option"
  sd_backoffMaxMs :: "int option"
  sd_nextFireAt :: "instant option"
  sd_lastFireAt :: "instant option"
  sd_metadata :: "json_object option"

record ScheduleUpdatePatch =
  su_name :: "string option"
  su_status :: "ScheduleStatus option"
  su_sessionId :: "string option option"
  su_agentProfileId :: "AgentProfileId option"
  su_input :: "string option"
  su_runAt :: "instant option option"
  su_intervalMs :: "int option option"
  su_cron :: "string option option"
  su_timezone :: "string option option"
  su_maxAttempts :: "int option"
  su_backoffBaseMs :: "int option"
  su_backoffMaxMs :: "int option"
  su_nextFireAt :: "instant option option"
  su_lastFireAt :: "instant option option"
  su_metadata :: "json_object option"

record ScheduleRunRecord =
  sr_runId :: string
  sr_scheduleId :: string
  sr_attemptNumber :: int
  sr_status :: ScheduleRunStatus
  sr_scheduledAt :: instant
  sr_startedAt :: "instant option"
  sr_finishedAt :: "instant option"
  sr_taskId :: "string option"
  sr_sessionId :: "string option"
  sr_errorCode :: "string option"
  sr_errorMessage :: "string option"
  sr_trigger :: ScheduleRunTrigger
  sr_metadata :: json_object

record ScheduleRunUpdatePatch =
  ru_status :: "ScheduleRunStatus option"
  ru_scheduledAt :: "instant option"
  ru_startedAt :: "instant option option"
  ru_finishedAt :: "instant option option"
  ru_taskId :: "string option option"
  ru_sessionId :: "string option option"
  ru_errorCode :: "string option option"
  ru_errorMessage :: "string option option"
  ru_metadata :: "json_object option"

type_synonym schedules = "ScheduleRecord list"
type_synonym schedule_runs = "ScheduleRunRecord list"

definition noSchedulePatch :: ScheduleUpdatePatch where
  "noSchedulePatch = \<lparr>su_name = None, su_status = None, su_sessionId = None, su_agentProfileId = None,
     su_input = None, su_runAt = None, su_intervalMs = None, su_cron = None, su_timezone = None,
     su_maxAttempts = None, su_backoffBaseMs = None, su_backoffMaxMs = None, su_nextFireAt = None,
     su_lastFireAt = None, su_metadata = None\<rparr>"

definition noRunPatch :: ScheduleRunUpdatePatch where
  "noRunPatch = \<lparr>ru_status = None, ru_scheduledAt = None, ru_startedAt = None, ru_finishedAt = None,
     ru_taskId = None, ru_sessionId = None, ru_errorCode = None, ru_errorMessage = None,
     ru_metadata = None\<rparr>"

subsection \<open>Metadata\<close>

definition readJsonObject :: "json option \<Rightarrow> json_object option" where
  "readJsonObject v = (case v of Some (JObj kvs) \<Rightarrow> Some kvs | _ \<Rightarrow> None)"

definition readArray :: "json option \<Rightarrow> json list option" where
  "readArray v = (case v of Some (JArr vs) \<Rightarrow> Some vs | _ \<Rightarrow> None)"

fun strings :: "json list \<Rightarrow> string list" where
  "strings [] = []"
| "strings (JStr s # vs) = s # strings vs"
| "strings (_ # vs) = strings vs"

definition TOOLSET_NAMES :: "string list" where
  "TOOLSET_NAMES = [''automation'', ''file'', ''shell'', ''web'', ''interaction'', ''skills'', ''session'',
     ''agent'', ''mcp'']"

definition readScheduleSkills :: "ScheduleRecord \<Rightarrow> string list" where
  "readScheduleSkills s =
     (case readArray (jget (sc_metadata s) ''skills'') of
        None \<Rightarrow> [] | Some vs \<Rightarrow> filter (\<lambda>x. x \<noteq> []) (strings vs))"

definition readScheduleToolsets :: "ScheduleRecord \<Rightarrow> string list" where
  "readScheduleToolsets s =
     (case readArray (jget (sc_metadata s) ''toolsets'') of
        None \<Rightarrow> [] | Some vs \<Rightarrow> filter (\<lambda>x. x \<in> set TOOLSET_NAMES) (strings vs))"

record ScheduleNoAgentConfig =
  na_command :: string
  na_cwd :: "string option"

definition readScheduleNoAgent :: "ScheduleRecord \<Rightarrow> ScheduleNoAgentConfig option" where
  "readScheduleNoAgent s =
     (case readJsonObject (jget (sc_metadata s) ''noAgent'') of
        None \<Rightarrow> None
      | Some noAgent \<Rightarrow>
          (case jget noAgent ''command'' of
             Some (JStr command) \<Rightarrow>
               if trim command = [] then None
               else Some \<lparr>na_command = command,
                 na_cwd = (case jget noAgent ''cwd'' of
                    Some (JStr cwd) \<Rightarrow> if cwd \<noteq> [] then Some cwd else None | _ \<Rightarrow> None)\<rparr>
           | _ \<Rightarrow> None))"

definition readRepeatRemaining :: "ScheduleRecord \<Rightarrow> int option" where
  "readRepeatRemaining s =
     (case jget (sc_metadata s) ''repeatRemaining'' of
        Some (JNum n) \<Rightarrow> if n > 0 then Some n else None
      | _ \<Rightarrow> None)"

text \<open>The fields to change; the outer \<open>None\<close> is \<open>undefined\<close>, the inner one \<open>null\<close>.\<close>

record ScheduleMetadataInput =
  mi_allowDelegate :: "bool option"
  mi_noAgent :: "ScheduleNoAgentConfig option option"
  mi_repeatRemaining :: "int option option"
  mi_skills :: "string list option"
  mi_toolsets :: "string list option"

definition noMetadataInput :: ScheduleMetadataInput where
  "noMetadataInput = \<lparr>mi_allowDelegate = None, mi_noAgent = None, mi_repeatRemaining = None,
     mi_skills = None, mi_toolsets = None\<rparr>"

definition noAgentJson :: "ScheduleNoAgentConfig \<Rightarrow> json" where
  "noAgentJson c = JObj ((''command'', JStr (na_command c)) #
     (case na_cwd c of None \<Rightarrow> [] | Some d \<Rightarrow> [(''cwd'', JStr d)]))"

definition setIf :: "string \<Rightarrow> json option \<Rightarrow> json_object \<Rightarrow> json_object" where
  "setIf k v m = (case v of None \<Rightarrow> m | Some x \<Rightarrow> jput k x m)"

definition setOrDelete :: "string \<Rightarrow> json option option \<Rightarrow> json_object \<Rightarrow> json_object" where
  "setOrDelete k v m = (case v of None \<Rightarrow> m | Some None \<Rightarrow> jdel k m | Some (Some x) \<Rightarrow> jput k x m)"

definition withScheduleMetadata :: "json_object \<Rightarrow> ScheduleMetadataInput \<Rightarrow> json_object" where
  "withScheduleMetadata metadata i =
     setOrDelete ''repeatRemaining'' (map_option (map_option JNum) (mi_repeatRemaining i))
       (setOrDelete ''noAgent'' (map_option (map_option noAgentJson) (mi_noAgent i))
         (setIf ''toolsets'' (map_option (JArr \<circ> map JStr) (mi_toolsets i))
           (setIf ''skills'' (map_option (JArr \<circ> map JStr) (mi_skills i))
             (setIf ''allowDelegate'' (map_option JBool (mi_allowDelegate i)) metadata))))"

subsection \<open>Delivery\<close>

definition SCHEDULE_DELIVERY_TARGETS :: "string list" where
  "SCHEDULE_DELIVERY_TARGETS = [''inbox'', ''origin'', ''silent'', ''webhook'']"

definition deliveryTargets :: "ScheduleRecord \<Rightarrow> json list option" where
  "deliveryTargets s =
     (case readJsonObject (jget (sc_metadata s) ''delivery'') of
        None \<Rightarrow> None | Some delivery \<Rightarrow> readArray (jget delivery ''targets''))"

definition readScheduleDeliveryTargets :: "ScheduleRecord option \<Rightarrow> string list" where
  "readScheduleDeliveryTargets schedule =
     (case schedule of
        None \<Rightarrow> [''inbox'']
      | Some s \<Rightarrow>
          (case deliveryTargets s of
             None \<Rightarrow> if readJsonObject (jget (sc_metadata s) ''origin'') \<noteq> None
                     then [''inbox'', ''origin''] else [''inbox'']
           | Some vs \<Rightarrow> filter (\<lambda>x. x \<in> set SCHEDULE_DELIVERY_TARGETS) (strings vs)))"

definition resolveDefaultDeliveryTargets :: "json_object \<Rightarrow> string list" where
  "resolveDefaultDeliveryTargets metadata =
     ''inbox'' # (if readJsonObject (jget metadata ''origin'') \<noteq> None then [''origin''] else [])"

definition shouldDeliverToInbox :: "ScheduleRecord option \<Rightarrow> bool" where
  "shouldDeliverToInbox schedule = (''inbox'' \<in> set (readScheduleDeliveryTargets schedule))"

definition shouldDeliverToOrigin :: "ScheduleRecord option \<Rightarrow> bool" where
  "shouldDeliverToOrigin schedule =
     (case schedule of
        None \<Rightarrow> False
      | Some s \<Rightarrow>
          (case deliveryTargets s of
             None \<Rightarrow> readJsonObject (jget (sc_metadata s) ''origin'') \<noteq> None
           | Some vs \<Rightarrow> JStr ''origin'' \<in> set vs))"

definition shouldSuppressOriginCompletion :: "ScheduleRecord option \<Rightarrow> bool" where
  "shouldSuppressOriginCompletion schedule = (''silent'' \<in> set (readScheduleDeliveryTargets schedule))"

definition shouldDeliverViaWebhook :: "ScheduleRecord option \<Rightarrow> bool" where
  "shouldDeliverViaWebhook schedule = (''webhook'' \<in> set (readScheduleDeliveryTargets schedule))"

definition readScheduleWebhookUrl :: "ScheduleRecord option \<Rightarrow> string option" where
  "readScheduleWebhookUrl schedule =
     (if \<not> shouldDeliverViaWebhook schedule then None
      else case schedule of
        None \<Rightarrow> None
      | Some s \<Rightarrow>
          (case readJsonObject (jget (sc_metadata s) ''delivery'') of
             None \<Rightarrow> None
           | Some delivery \<Rightarrow>
               (case jget delivery ''webhookUrl'' of
                  Some (JStr u) \<Rightarrow> if u \<noteq> [] then Some u else None
                | _ \<Rightarrow> None)))"

subsection \<open>Execution mode\<close>

datatype ScheduleExecutionMode = Isolated | Continue | SessionMode

fun modeStr :: "ScheduleExecutionMode \<Rightarrow> string" where
  "modeStr Isolated = ''isolated''"
| "modeStr Continue = ''continue''"
| "modeStr SessionMode = ''session''"

definition parseExecutionModeInput :: "string option \<Rightarrow> thrown + ScheduleExecutionMode \<times> string option" where
  "parseExecutionModeInput value =
     (case value of
        None \<Rightarrow> Inr (Isolated, None)
      | Some v \<Rightarrow>
          let normalized = trim v
          in if normalized = [] then Inr (Isolated, None)
             else if normalized = ''isolated'' then Inr (Isolated, None)
             else if normalized = ''continue'' then Inr (Continue, None)
             else if startsWith normalized ''session:''
             then (let sessionId = trim (drop 8 normalized)
                   in if sessionId = [] then Inl (PlainError ''session execution mode requires session:<id>.'')
                      else Inr (SessionMode, Some sessionId))
             else Inl (PlainError (''Unsupported execution mode: '' @ v)))"

definition readScheduleExecutionMode :: "ScheduleRecord \<Rightarrow> ScheduleExecutionMode" where
  "readScheduleExecutionMode s =
     (if jget (sc_metadata s) ''executionMode'' = Some (JStr ''continue'') then Continue
      else if jget (sc_metadata s) ''executionMode'' = Some (JStr ''session'') then SessionMode
      else Isolated)"

definition resolveScheduleSessionId :: "ScheduleRecord \<Rightarrow> string option" where
  "resolveScheduleSessionId s =
     (if readScheduleExecutionMode s = Isolated then None else sc_sessionId s)"

definition withExecutionModeMetadata :: "json_object \<Rightarrow> ScheduleExecutionMode option \<Rightarrow> json_object" where
  "withExecutionModeMetadata metadata mode = setIf ''executionMode'' (map_option (JStr \<circ> modeStr) mode) metadata"

definition resolveCreateScheduleSessionId ::
  "ScheduleExecutionMode option \<Rightarrow> string option \<Rightarrow> string option \<Rightarrow> string option" where
  "resolveCreateScheduleSessionId executionMode sessionId continuationSessionId =
     (case (case executionMode of None \<Rightarrow> Isolated | Some m \<Rightarrow> m) of
        Isolated \<Rightarrow> None
      | Continue \<Rightarrow> (case continuationSessionId of Some c \<Rightarrow> Some c | None \<Rightarrow> sessionId)
      | SessionMode \<Rightarrow> sessionId)"

subsection \<open>The schedule repository\<close>

definition scheduleFindById :: "string \<Rightarrow> schedules \<Rightarrow> ScheduleRecord option" where
  "scheduleFindById i t = rowFind sc_scheduleId i t"

definition scheduleOfDraft :: "instant \<Rightarrow> ScheduleDraft \<Rightarrow> ScheduleRecord" where
  "scheduleOfDraft now d =
     \<lparr>sc_scheduleId = sd_scheduleId d, sc_name = sd_name d, sc_status = S_active,
      sc_sessionId = sd_sessionId d, sc_ownerUserId = sd_ownerUserId d, sc_cwd = sd_cwd d,
      sc_agentProfileId = sd_agentProfileId d, sc_providerName = sd_providerName d, sc_input = sd_input d,
      sc_runAt = sd_runAt d, sc_intervalMs = sd_intervalMs d, sc_cron = sd_cron d,
      sc_timezone = sd_timezone d,
      sc_maxAttempts = (case sd_maxAttempts d of None \<Rightarrow> 3 | Some n \<Rightarrow> n),
      sc_backoffBaseMs = (case sd_backoffBaseMs d of None \<Rightarrow> 5000 | Some n \<Rightarrow> n),
      sc_backoffMaxMs = (case sd_backoffMaxMs d of None \<Rightarrow> 300000 | Some n \<Rightarrow> n),
      sc_nextFireAt = sd_nextFireAt d, sc_lastFireAt = sd_lastFireAt d, sc_createdAt = now,
      sc_updatedAt = now, sc_metadata = (case sd_metadata d of None \<Rightarrow> [] | Some m \<Rightarrow> m)\<rparr>"

definition scheduleCreate :: "instant \<Rightarrow> ScheduleDraft \<Rightarrow> (schedules, ScheduleRecord) op" where
  "scheduleCreate now d = (\<lambda>t.
     case rowInsert sc_scheduleId (scheduleOfDraft now d) t of
       Inl e \<Rightarrow> (Inl e, t)
     | Inr t' \<Rightarrow>
         (case scheduleFindById (sd_scheduleId d) t' of
            None \<Rightarrow> (Inl (PlainError (''Schedule '' @ sd_scheduleId d @ '' was not persisted.'')), t')
          | Some r \<Rightarrow> (Inr r, t')))"

definition schedulePatch :: "instant \<Rightarrow> ScheduleUpdatePatch \<Rightarrow> ScheduleRecord \<Rightarrow> ScheduleRecord" where
  "schedulePatch now p r = r\<lparr>
     sc_name := patched (su_name p) (sc_name r),
     sc_status := patched (su_status p) (sc_status r),
     sc_sessionId := patched (su_sessionId p) (sc_sessionId r),
     sc_agentProfileId := patched (su_agentProfileId p) (sc_agentProfileId r),
     sc_input := patched (su_input p) (sc_input r),
     sc_runAt := patched (su_runAt p) (sc_runAt r),
     sc_intervalMs := patched (su_intervalMs p) (sc_intervalMs r),
     sc_cron := patched (su_cron p) (sc_cron r),
     sc_timezone := patched (su_timezone p) (sc_timezone r),
     sc_maxAttempts := patched (su_maxAttempts p) (sc_maxAttempts r),
     sc_backoffBaseMs := patched (su_backoffBaseMs p) (sc_backoffBaseMs r),
     sc_backoffMaxMs := patched (su_backoffMaxMs p) (sc_backoffMaxMs r),
     sc_nextFireAt := patched (su_nextFireAt p) (sc_nextFireAt r),
     sc_lastFireAt := patched (su_lastFireAt p) (sc_lastFireAt r),
     sc_metadata := patched (su_metadata p) (sc_metadata r),
     sc_updatedAt := now\<rparr>"

definition scheduleUpdate :: "instant \<Rightarrow> string \<Rightarrow> ScheduleUpdatePatch \<Rightarrow> (schedules, ScheduleRecord) op" where
  "scheduleUpdate now i p = (\<lambda>t.
     case scheduleFindById i t of
       None \<Rightarrow> (Inl (PlainError (''Schedule '' @ i @ '' was not found.'')), t)
     | Some r \<Rightarrow> (Inr (schedulePatch now p r), rowSet sc_scheduleId i (schedulePatch now p r) t))"

text \<open>Rows with equal \<open>updated_at\<close> keep their insertion order.\<close>

definition scheduleList :: "string option \<Rightarrow> ScheduleStatus option \<Rightarrow> schedules \<Rightarrow> ScheduleRecord list" where
  "scheduleList ownerUserId status t =
     orderAsc (\<lambda>r. - sc_updatedAt r) (filter (\<lambda>r.
       (ownerUserId = None \<or> ownerUserId = Some (sc_ownerUserId r)) \<and>
       (status = None \<or> status = Some (sc_status r))) t)"

definition scheduleDue :: "instant \<Rightarrow> ScheduleRecord \<Rightarrow> bool" where
  "scheduleDue now r =
     (sc_status r = S_active \<and> (case sc_nextFireAt r of None \<Rightarrow> False | Some t \<Rightarrow> t \<le> now))"

definition findDue :: "instant \<Rightarrow> nat \<Rightarrow> schedules \<Rightarrow> ScheduleRecord list" where
  "findDue now limit t =
     limitTo limit (orderAsc (\<lambda>r. case sc_nextFireAt r of None \<Rightarrow> 0 | Some n \<Rightarrow> n) (filter (scheduleDue now) t))"

subsection \<open>The run repository\<close>

definition runActive :: "ScheduleRunRecord \<Rightarrow> bool" where
  "runActive r = (sr_status r \<in> set ACTIVE_SCHEDULE_RUN_STATUSES)"

definition runFindById :: "string \<Rightarrow> schedule_runs \<Rightarrow> ScheduleRunRecord option" where
  "runFindById i t = rowFind sr_runId i t"

text \<open>The unique index: does the row clash with another active run of its schedule?\<close>

definition runConflict :: "schedule_runs \<Rightarrow> ScheduleRunRecord \<Rightarrow> bool" where
  "runConflict t r = (runActive r \<and>
     list_ex (\<lambda>x. sr_runId x \<noteq> sr_runId r \<and> sr_scheduleId x = sr_scheduleId r \<and> runActive x) t)"

definition newestFirst :: "schedule_runs \<Rightarrow> schedule_runs" where
  "newestFirst t = orderDesc (\<lambda>r. (sr_scheduledAt r, sr_runId r)) t"

definition runCreate :: "ScheduleRunRecord \<Rightarrow> (schedule_runs, ScheduleRunRecord) op" where
  "runCreate r = (\<lambda>t.
     if runConflict t r then (Inl (PlainError ''UNIQUE constraint failed''), t)
     else case rowInsert sr_runId r t of
       Inl e \<Rightarrow> (Inl e, t)
     | Inr t' \<Rightarrow>
         (case runFindById (sr_runId r) t' of
            None \<Rightarrow> (Inl (PlainError (''Schedule run '' @ sr_runId r @ '' was not persisted.'')), t')
          | Some x \<Rightarrow> (Inr x, t')))"

definition runList :: "ScheduleRunStatus option \<Rightarrow> nat option \<Rightarrow> schedule_runs \<Rightarrow> ScheduleRunRecord list" where
  "runList status tail t =
     limitTo (case tail of None \<Rightarrow> 500 | Some n \<Rightarrow> n)
       (newestFirst (filter (\<lambda>r. status = None \<or> status = Some (sr_status r)) t))"

definition runListByScheduleId ::
  "string \<Rightarrow> ScheduleRunStatus option \<Rightarrow> nat option \<Rightarrow> schedule_runs \<Rightarrow> ScheduleRunRecord list" where
  "runListByScheduleId scheduleId status tail t =
     limitTo (case tail of None \<Rightarrow> 100 | Some n \<Rightarrow> n)
       (newestFirst (filter (\<lambda>r. sr_scheduleId r = scheduleId \<and>
          (status = None \<or> status = Some (sr_status r))) t))"

definition runListByTaskId :: "string \<Rightarrow> schedule_runs \<Rightarrow> ScheduleRunRecord list" where
  "runListByTaskId taskId t = newestFirst (filter (\<lambda>r. sr_taskId r = Some taskId) t)"

definition runListBySessionId :: "string \<Rightarrow> schedule_runs \<Rightarrow> ScheduleRunRecord list" where
  "runListBySessionId sessionId t = newestFirst (filter (\<lambda>r. sr_sessionId r = Some sessionId) t)"

definition findActiveByScheduleId :: "string \<Rightarrow> schedule_runs \<Rightarrow> ScheduleRunRecord option" where
  "findActiveByScheduleId scheduleId t =
     firstRow (newestFirst (filter (\<lambda>r. sr_scheduleId r = scheduleId \<and> runActive r) t))"

text \<open>The claim of due runs: the rows selected first, then each taken if it is still queued.\<close>

fun claimRows :: "instant \<Rightarrow> string list \<Rightarrow> schedule_runs \<Rightarrow> ScheduleRunRecord list \<times> schedule_runs" where
  "claimRows now [] t = ([], t)"
| "claimRows now (i # ids) t =
     (case runFindById i t of
        None \<Rightarrow> claimRows now ids t
      | Some r \<Rightarrow>
          if sr_status r \<noteq> R_queued then claimRows now ids t
          else let r' = r\<lparr>sr_status := R_running, sr_startedAt := Some now\<rparr>;
                   (rs, t') = claimRows now ids (rowSet sr_runId i r' t)
               in (r' # rs, t'))"

definition dueRunIds :: "instant \<Rightarrow> nat \<Rightarrow> schedule_runs \<Rightarrow> string list" where
  "dueRunIds now limit t =
     map sr_runId (limitTo limit (orderAsc (\<lambda>r. (sr_scheduledAt r, sr_runId r))
       (filter (\<lambda>r. sr_status r = R_queued \<and> sr_scheduledAt r \<le> now) t)))"

definition claimDue :: "instant \<Rightarrow> nat \<Rightarrow> (schedule_runs, ScheduleRunRecord list) op" where
  "claimDue now limit = (\<lambda>t. case claimRows now (dueRunIds now limit t) t of (rs, t') \<Rightarrow> (Inr rs, t'))"

definition runPatch :: "ScheduleRunUpdatePatch \<Rightarrow> ScheduleRunRecord \<Rightarrow> ScheduleRunRecord" where
  "runPatch p r = r\<lparr>
     sr_status := patched (ru_status p) (sr_status r),
     sr_scheduledAt := patched (ru_scheduledAt p) (sr_scheduledAt r),
     sr_startedAt := patched (ru_startedAt p) (sr_startedAt r),
     sr_finishedAt := patched (ru_finishedAt p) (sr_finishedAt r),
     sr_taskId := patched (ru_taskId p) (sr_taskId r),
     sr_sessionId := patched (ru_sessionId p) (sr_sessionId r),
     sr_errorCode := patched (ru_errorCode p) (sr_errorCode r),
     sr_errorMessage := patched (ru_errorMessage p) (sr_errorMessage r),
     sr_metadata := patched (ru_metadata p) (sr_metadata r)\<rparr>"

definition runUpdate :: "string \<Rightarrow> ScheduleRunUpdatePatch \<Rightarrow> (schedule_runs, ScheduleRunRecord) op" where
  "runUpdate i p = (\<lambda>t.
     case runFindById i t of
       None \<Rightarrow> (Inl (PlainError (''Schedule run '' @ i @ '' was not found.'')), t)
     | Some r \<Rightarrow>
         let nxt = runPatch p r
         in if sr_status nxt \<noteq> sr_status r \<and>
               sr_status nxt \<notin> set (SCHEDULE_RUN_STATUS_TRANSITIONS (sr_status r))
            then (Inl (PlainError (''Invalid schedule run transition: '' @ runStatusStr (sr_status r) @ '' -> '' @
                   runStatusStr (sr_status nxt) @ ''.'')), t)
            else if runConflict t nxt then (Inl (PlainError ''UNIQUE constraint failed''), t)
            else (Inr nxt, rowSet sr_runId i nxt t))"

end
