(* ===== verification/ScheduleStore.thy ===== *)
theory ScheduleStore
  imports Schedules
begin

section \<open>Laws of the schedule tables\<close>

text \<open>
  The run table honours the contract of a status column, and every operation of its repository keeps
  the invariant behind the unique index: run identifiers are unique, and a schedule has at most one
  run that is queued, running, waiting for approval or blocked.
\<close>

definition oneActive :: "schedule_runs \<Rightarrow> bool" where
  "oneActive t \<longleftrightarrow> (\<forall>x\<in>set t. \<forall>y\<in>set t. runActive x \<and> runActive y \<and> sr_scheduleId x = sr_scheduleId y \<longrightarrow>
     sr_runId x = sr_runId y)"

definition runsWf :: "schedule_runs \<Rightarrow> bool" where
  "runsWf t \<longleftrightarrow> pkOk sr_runId t \<and> oneActive t"

lemma oneActiveD:
  "oneActive t \<Longrightarrow> x \<in> set t \<Longrightarrow> y \<in> set t \<Longrightarrow> runActive x \<Longrightarrow> runActive y \<Longrightarrow>
    sr_scheduleId x = sr_scheduleId y \<Longrightarrow> sr_runId x = sr_runId y"
  unfolding oneActive_def by blast

lemma oneActiveI:
  "(\<And>x y. x \<in> set t \<Longrightarrow> y \<in> set t \<Longrightarrow> runActive x \<Longrightarrow> runActive y \<Longrightarrow>
    sr_scheduleId x = sr_scheduleId y \<Longrightarrow> sr_runId x = sr_runId y) \<Longrightarrow> oneActive t"
  unfolding oneActive_def by blast

lemma runPatch_ids [simp]:
  "sr_runId (runPatch p r) = sr_runId r" "sr_scheduleId (runPatch p r) = sr_scheduleId r"
  "sr_attemptNumber (runPatch p r) = sr_attemptNumber r" "sr_trigger (runPatch p r) = sr_trigger r"
  by (simp_all add: runPatch_def)

lemma runPatch_status [simp]: "sr_status (runPatch p r) = patched (ru_status p) (sr_status r)"
  by (simp add: runPatch_def)

lemma runFindById_Some: "runFindById i t = Some r \<Longrightarrow> sr_runId r = i \<and> r \<in> set t"
  by (auto simp: runFindById_def dest: rowFind_Some)

lemma runFindById_rowSet:
  "runFindById i t = Some r \<Longrightarrow> sr_runId r' = i \<Longrightarrow>
    runFindById j (rowSet sr_runId i r' t) = (if j = i then Some r' else runFindById j t)"
  by (simp add: runFindById_def table_simps)

lemma runFindById_patched [simp]:
  "runFindById i t = Some r \<Longrightarrow>
    runFindById j (rowSet sr_runId i (runPatch p r) t) = (if j = i then Some (runPatch p r) else runFindById j t)"
  using runFindById_Some [of i t r] by (simp add: runFindById_rowSet)

lemma orderDesc_empty [simp]: "orderDesc k [] = []"
  by (simp add: orderDesc_def)

lemma runFindById_append:
  "runFindById i (t @ [r]) =
    (case runFindById i t of None \<Rightarrow> (if sr_runId r = i then Some r else None) | Some x \<Rightarrow> Some x)"
  by (simp add: runFindById_def rowFind_append split: option.splits)

subsection \<open>The unique index\<close>

lemma runConflict_False:
  "\<not> runConflict t r \<Longrightarrow> runActive r \<Longrightarrow> x \<in> set t \<Longrightarrow> runActive x \<Longrightarrow>
    sr_scheduleId x = sr_scheduleId r \<Longrightarrow> sr_runId x = sr_runId r"
  by (auto simp: runConflict_def list_ex_iff)

text \<open>A table stays within the index when the only new row does not clash.\<close>

lemma oneActive_new:
  assumes "oneActive t" and "\<not> runConflict t r" and "\<And>x. x \<in> set t' \<Longrightarrow> x = r \<or> x \<in> set t"
  shows "oneActive t'"
proof (rule oneActiveI)
  fix x y
  assume "x \<in> set t'" "y \<in> set t'" and a: "runActive x" "runActive y" "sr_scheduleId x = sr_scheduleId y"
  then consider "x = r" "y = r" | "x = r" "y \<in> set t" | "x \<in> set t" "y = r" | "x \<in> set t" "y \<in> set t"
    using assms(3) by blast
  then show "sr_runId x = sr_runId y"
  proof cases
    case 2
    then show ?thesis using a runConflict_False [OF assms(2), of y] by simp
  next
    case 3
    then show ?thesis using a runConflict_False [OF assms(2), of x] by simp
  next
    case 4
    then show ?thesis using a oneActiveD [OF assms(1)] by blast
  qed simp
qed

lemma runsWf_append:
  assumes "runsWf t" and "\<not> runConflict t r" and "sr_runId r \<notin> sr_runId ` set t"
  shows "runsWf (t @ [r])"
  using assms oneActive_new [of t r "t @ [r]"] by (simp add: runsWf_def pkOk_def)

lemma runsWf_rowSet:
  assumes "runsWf t" and "\<not> runConflict t r'" and "sr_runId r' = i"
  shows "runsWf (rowSet sr_runId i r' t)"
  using assms oneActive_new [of t r' "rowSet sr_runId i r' t"]
  by (auto simp: runsWf_def rowSet_pk rowSet_mem)

text \<open>A row may always be rewritten to an inactive one, or to an active one if it was active.\<close>

lemma runConflict_kept:
  assumes "runsWf t" and "r \<in> set t" and "runActive r" and "sr_runId r' = sr_runId r"
    and "sr_scheduleId r' = sr_scheduleId r"
  shows "\<not> runConflict t r'"
proof
  assume "runConflict t r'"
  then obtain x where x: "x \<in> set t" "sr_runId x \<noteq> sr_runId r'" "sr_scheduleId x = sr_scheduleId r'" "runActive x"
    by (auto simp: runConflict_def list_ex_iff)
  from oneActiveD [of t x r] x assms show False by (simp add: runsWf_def)
qed

lemma runConflict_inactive: "\<not> runActive r' \<Longrightarrow> \<not> runConflict t r'"
  by (simp add: runConflict_def)

subsection \<open>Runs of the operations\<close>

text \<open>A status move the table permits.\<close>

definition runMove :: "ScheduleRunStatus \<Rightarrow> ScheduleRunStatus \<Rightarrow> bool" where
  "runMove a b \<longleftrightarrow> b = a \<or> b \<in> set (SCHEDULE_RUN_STATUS_TRANSITIONS a)"

lemma runMove_active: "runMove a b \<Longrightarrow> b \<in> set ACTIVE_SCHEDULE_RUN_STATUSES \<Longrightarrow> a \<in> set ACTIVE_SCHEDULE_RUN_STATUSES"
  by (cases a) (auto simp: runMove_def ACTIVE_SCHEDULE_RUN_STATUSES_def)

lemma runUpdate_run:
  assumes "runsWf t"
  shows "runUpdate i p t =
    (case runFindById i t of
       None \<Rightarrow> (Inl (PlainError (''Schedule run '' @ i @ '' was not found.'')), t)
     | Some r \<Rightarrow>
         if runMove (sr_status r) (patched (ru_status p) (sr_status r))
         then (Inr (runPatch p r), rowSet sr_runId i (runPatch p r) t)
         else (Inl (PlainError (''Invalid schedule run transition: '' @ runStatusStr (sr_status r) @ '' -> '' @
                 runStatusStr (patched (ru_status p) (sr_status r)) @ ''.'')), t))"
proof (cases "runFindById i t")
  case None
  then show ?thesis by (simp add: runUpdate_def)
next
  case (Some r)
  have "\<not> runConflict t (runPatch p r)" if m: "runMove (sr_status r) (patched (ru_status p) (sr_status r))"
  proof (cases "runActive (runPatch p r)")
    case True
    then have "runActive r" using runMove_active [OF m] by (simp add: runActive_def)
    with runFindById_Some [OF Some] assms show ?thesis by (intro runConflict_kept) auto
  next
    case False
    then show ?thesis by (rule runConflict_inactive)
  qed
  with Some show ?thesis by (auto simp: runUpdate_def Let_def runMove_def)
qed

lemma runUpdate_wf: "runsWf t \<Longrightarrow> runUpdate i p t = (res, t') \<Longrightarrow> runsWf t'"
  by (auto simp: runUpdate_def Let_def runsWf_rowSet dest: runFindById_Some split: option.splits if_splits)

lemma runCreate_run:
  "runCreate r t =
    (if runConflict t r \<or> sr_runId r \<in> sr_runId ` set t
     then (Inl (PlainError ''UNIQUE constraint failed''), t) else (Inr r, t @ [r]))"
  using rowFind_None [of sr_runId "sr_runId r" t]
  by (auto simp: runCreate_def rowInsert_def runFindById_def rowFind_append)

lemma runCreate_wf: "runsWf t \<Longrightarrow> runCreate r t = (res, t') \<Longrightarrow> runsWf t'"
  by (auto simp: runCreate_run runsWf_append split: if_splits)

lemma claimRows_wf: "runsWf t \<Longrightarrow> runsWf (snd (claimRows now ids t))"
proof (induction now ids t rule: claimRows.induct)
  case (1 now t)
  then show ?case by simp
next
  case (2 now i ids t)
  show ?case
  proof (cases "runFindById i t")
    case None
    with 2 show ?thesis by simp
  next
    case (Some r)
    show ?thesis
    proof (cases "sr_status r = R_queued")
      case True
      let ?r = "r\<lparr>sr_status := R_running, sr_startedAt := Some now\<rparr>"
      have a: "runActive r" using True by (simp add: runActive_def ACTIVE_SCHEDULE_RUN_STATUSES_def)
      have "runsWf (rowSet sr_runId i ?r t)"
        using runFindById_Some [OF Some] "2.prems" a by (intro runsWf_rowSet runConflict_kept [of t r]) simp_all
      then have "runsWf (snd (claimRows now ids (rowSet sr_runId i ?r t)))" using "2.IH"(3) [OF Some _ refl] True by simp
      with Some True show ?thesis by (simp add: Let_def case_prod_beta)
    next
      case False
      with "2.IH"(2) [OF Some] "2.prems" Some show ?thesis by simp
    qed
  qed
qed

lemma claimDue_wf: "runsWf t \<Longrightarrow> claimDue now limit t = (res, t') \<Longrightarrow> runsWf t'"
  using claimRows_wf [of t now "dueRunIds now limit t"] by (auto simp: claimDue_def split: prod.splits)

subsection \<open>The contract of the status column\<close>

interpretation run_store: status_store "\<lambda>t i. runFindById i t" runUpdate sr_status
  SCHEDULE_RUN_STATUS_TRANSITIONS
proof unfold_locales
  fix k p t e t'
  assume "runUpdate k p t = (Inl e, t')"
  then show "t' = t" by (auto simp: runUpdate_def Let_def split: option.splits if_splits)
next
  fix k p t r t'
  assume "runUpdate k p t = (Inr r, t')"
  then show "\<exists>r0. runFindById k t = Some r0 \<and> runFindById k t' = Some r \<and>
      (sr_status r = sr_status r0 \<or> sr_status r \<in> set (SCHEDULE_RUN_STATUS_TRANSITIONS (sr_status r0)))"
    by (auto simp: runUpdate_def Let_def 
        split: option.splits if_splits)
next
  fix k p t r t' and j :: string
  assume "runUpdate k p t = (Inr r, t')" and "j \<noteq> k"
  then show "runFindById j t' = runFindById j t"
    by (auto simp: runUpdate_def Let_def 
        split: option.splits if_splits)
qed

subsection \<open>The active run of a schedule\<close>

lemma newestFirst_set [simp]: "set (newestFirst t) = set t"
  by (simp add: newestFirst_def)

lemma findActive_Some:
  "findActiveByScheduleId s t = Some r \<Longrightarrow> r \<in> set t \<and> sr_scheduleId r = s \<and> runActive r"
  by (auto simp: findActiveByScheduleId_def dest: firstRow_mem)

lemma findActive_None:
  "findActiveByScheduleId s t = None \<longleftrightarrow> (\<forall>r\<in>set t. sr_scheduleId r = s \<longrightarrow> \<not> runActive r)"
  by (auto simp: findActiveByScheduleId_def newestFirst_def filter_empty_conv)

lemma findActive_conflict:
  assumes "findActiveByScheduleId (sr_scheduleId r) t = None"
  shows "\<not> runConflict t r"
  using assms by (auto simp: findActive_None runConflict_def list_ex_iff)

subsection \<open>The latest run of a schedule\<close>

lemma latest_run_max:
  assumes "runListByScheduleId s None (Some 1) t = latest"
  shows "(latest = [] \<longleftrightarrow> (\<forall>r\<in>set t. sr_scheduleId r \<noteq> s)) \<and>
    (\<forall>r\<in>set latest. r \<in> set t \<and> sr_scheduleId r = s \<and>
       (\<forall>x\<in>set t. sr_scheduleId x = s \<longrightarrow> (sr_scheduledAt x, sr_runId x) \<le> (sr_scheduledAt r, sr_runId r)))"
proof -
  let ?f = "filter (\<lambda>r. sr_scheduleId r = s) t"
  let ?k = "\<lambda>r. (sr_scheduledAt r, sr_runId r)"
  have l: "latest = take 1 (orderDesc ?k ?f)"
    using assms by (simp add: runListByScheduleId_def limitTo_def newestFirst_def)
  show ?thesis
  proof (cases "orderDesc ?k ?f")
    case Nil
    then show ?thesis using l by (auto simp: filter_empty_conv)
  next
    case (Cons r rs)
    then have f: "firstRow (orderDesc ?k ?f) = Some r" by (simp add: firstRow_def)
    have "r \<in> set ?f" using Cons by (metis list.set_intros(1) set_orderDesc)
    with firstRow_orderDesc_max [OF f] l Cons show ?thesis by auto
  qed
qed

end
