(* ===== verification/Tasks.thy ===== *)
theory Tasks
  imports Governance Tables
begin

section \<open>Tasks\<close>

text \<open>
  src/src/storage/repositories/task-repository.ts over the records of src/src/types/task.ts: the
  \<open>tasks\<close> table and its status machine. Costs in USD are integers in units of \<open>10\<^sup>-\<^sup>8\<close>.
\<close>

record TokenBudget =
  tb_inputLimit :: int
  tb_outputLimit :: int
  tb_reservedOutput :: int
  tb_usedInput :: int
  tb_usedOutput :: int
  tb_usedCostUsd :: "int option"

record TaskRecord =
  tk_taskId :: string
  tk_sessionId :: "string option"
  tk_input :: string
  tk_status :: TaskStatus
  tk_cwd :: string
  tk_providerName :: string
  tk_agentProfileId :: AgentProfileId
  tk_requesterUserId :: string
  tk_currentIteration :: int
  tk_maxIterations :: int
  tk_createdAt :: instant
  tk_updatedAt :: instant
  tk_startedAt :: "instant option"
  tk_finishedAt :: "instant option"
  tk_finalOutput :: "string option"
  tk_errorCode :: "RuntimeErrorCode option"
  tk_errorMessage :: "string option"
  tk_tokenBudget :: TokenBudget
  tk_metadata :: json_object

record TaskDraft =
  tf_taskId :: string
  tf_sessionId :: "string option"
  tf_input :: string
  tf_cwd :: string
  tf_providerName :: string
  tf_agentProfileId :: AgentProfileId
  tf_requesterUserId :: string
  tf_maxIterations :: int
  tf_tokenBudget :: TokenBudget
  tf_metadata :: "json_object option"

record TaskUpdatePatch =
  tp_status :: "TaskStatus option"
  tp_currentIteration :: "int option"
  tp_startedAt :: "instant option option"
  tp_finishedAt :: "instant option option"
  tp_finalOutput :: "string option option"
  tp_errorCode :: "RuntimeErrorCode option option"
  tp_errorMessage :: "string option option"
  tp_tokenBudget :: "TokenBudget option"
  tp_metadata :: "json_object option"

type_synonym tasks = "TaskRecord list"

fun taskStatusStr :: "TaskStatus \<Rightarrow> string" where
  "taskStatusStr T_pending = ''pending''"
| "taskStatusStr T_running = ''running''"
| "taskStatusStr T_waiting_tool = ''waiting_tool''"
| "taskStatusStr T_waiting_approval = ''waiting_approval''"
| "taskStatusStr T_waiting_clarification = ''waiting_clarification''"
| "taskStatusStr T_succeeded = ''succeeded''"
| "taskStatusStr T_failed = ''failed''"
| "taskStatusStr T_cancelled = ''cancelled''"

definition taskFindById :: "string \<Rightarrow> tasks \<Rightarrow> TaskRecord option" where
  "taskFindById i t = rowFind tk_taskId i t"

definition taskOfDraft :: "instant \<Rightarrow> TaskDraft \<Rightarrow> TaskRecord" where
  "taskOfDraft now d =
     \<lparr>tk_taskId = tf_taskId d, tk_sessionId = tf_sessionId d, tk_input = tf_input d,
      tk_status = T_pending, tk_cwd = tf_cwd d, tk_providerName = tf_providerName d,
      tk_agentProfileId = tf_agentProfileId d, tk_requesterUserId = tf_requesterUserId d,
      tk_currentIteration = 0, tk_maxIterations = tf_maxIterations d, tk_createdAt = now,
      tk_updatedAt = now, tk_startedAt = None, tk_finishedAt = None, tk_finalOutput = None,
      tk_errorCode = None, tk_errorMessage = None, tk_tokenBudget = tf_tokenBudget d,
      tk_metadata = (case tf_metadata d of None \<Rightarrow> [] | Some m \<Rightarrow> m)\<rparr>"

definition taskCreate :: "instant \<Rightarrow> TaskDraft \<Rightarrow> (tasks, TaskRecord) op" where
  "taskCreate now d = (\<lambda>t.
     case rowInsert tk_taskId (taskOfDraft now d) t of
       Inl e \<Rightarrow> (Inl e, t)
     | Inr t' \<Rightarrow>
         (case taskFindById (tf_taskId d) t' of
            None \<Rightarrow> (Inl (PlainError (''Task '' @ tf_taskId d @ '' was not persisted.'')), t')
          | Some r \<Rightarrow> (Inr r, t')))"

text \<open>Rows with equal \<open>created_at\<close> keep their insertion order.\<close>

definition taskList :: "tasks \<Rightarrow> TaskRecord list" where
  "taskList t = orderAsc (\<lambda>r. - tk_createdAt r) t"

definition taskPatch :: "instant \<Rightarrow> TaskUpdatePatch \<Rightarrow> TaskRecord \<Rightarrow> TaskRecord" where
  "taskPatch now p r = r\<lparr>
     tk_currentIteration := patched (tp_currentIteration p) (tk_currentIteration r),
     tk_errorCode := patched (tp_errorCode p) (tk_errorCode r),
     tk_errorMessage := patched (tp_errorMessage p) (tk_errorMessage r),
     tk_finalOutput := patched (tp_finalOutput p) (tk_finalOutput r),
     tk_finishedAt := patched (tp_finishedAt p) (tk_finishedAt r),
     tk_startedAt := patched (tp_startedAt p) (tk_startedAt r),
     tk_status := patched (tp_status p) (tk_status r),
     tk_tokenBudget := patched (tp_tokenBudget p) (tk_tokenBudget r),
     tk_metadata := (case tp_metadata p of None \<Rightarrow> tk_metadata r | Some m \<Rightarrow> spread (tk_metadata r) m),
     tk_updatedAt := now\<rparr>"

definition taskUpdate :: "instant \<Rightarrow> string \<Rightarrow> TaskUpdatePatch \<Rightarrow> (tasks, TaskRecord) op" where
  "taskUpdate now i p = (\<lambda>t.
     case taskFindById i t of
       None \<Rightarrow> (Inl (PlainError (''Task '' @ i @ '' was not found.'')), t)
     | Some r \<Rightarrow>
         let nxt = taskPatch now p r
         in if tk_status nxt \<noteq> tk_status r \<and> \<not> canTransitionTaskStatus (tk_status r) (tk_status nxt)
            then (Inl (PlainError (''Illegal task status transition: '' @ taskStatusStr (tk_status r) @ '' -> '' @
                   taskStatusStr (tk_status nxt))), t)
            else (Inr nxt, rowSet tk_taskId i nxt t))"

subsection \<open>Laws\<close>

lemma taskPatch_id [simp]: "tk_taskId (taskPatch now p r) = tk_taskId r"
  by (simp add: taskPatch_def)

lemma taskPatch_status [simp]: "tk_status (taskPatch now p r) = patched (tp_status p) (tk_status r)"
  by (simp add: taskPatch_def)

lemma taskFindById_Some: "taskFindById i t = Some r \<Longrightarrow> tk_taskId r = i \<and> r \<in> set t"
  by (auto simp: taskFindById_def dest: rowFind_Some)

lemma taskFindById_patched [simp]:
  "taskFindById i t = Some r \<Longrightarrow>
    taskFindById j (rowSet tk_taskId i (taskPatch now p r) t) = (if j = i then Some (taskPatch now p r) else taskFindById j t)"
  using taskFindById_Some [of i t r] by (simp add: taskFindById_def table_simps)

text \<open>The task table honours the status contract, whatever the clock reads at each update.\<close>

interpretation task_store: status_store "\<lambda>t i. taskFindById i t" "\<lambda>i (now, p). taskUpdate now i p" tk_status
  TASK_STATUS_TRANSITIONS
proof unfold_locales
  fix k :: string and q :: "instant \<times> TaskUpdatePatch" and t e t'
  assume "(case q of (now, p) \<Rightarrow> taskUpdate now k p) t = (Inl e, t')"
  then show "t' = t" by (auto simp: taskUpdate_def Let_def split: option.splits if_splits prod.splits)
next
  fix k :: string and q :: "instant \<times> TaskUpdatePatch" and t r t'
  assume "(case q of (now, p) \<Rightarrow> taskUpdate now k p) t = (Inr r, t')"
  then show "\<exists>r0. taskFindById k t = Some r0 \<and> taskFindById k t' = Some r \<and>
      (tk_status r = tk_status r0 \<or> tk_status r \<in> set (TASK_STATUS_TRANSITIONS (tk_status r0)))"
    by (auto simp: taskUpdate_def Let_def canTransitionTaskStatus_def split: option.splits if_splits prod.splits)
next
  fix k :: string and q :: "instant \<times> TaskUpdatePatch" and t r t' and j :: string
  assume "(case q of (now, p) \<Rightarrow> taskUpdate now k p) t = (Inr r, t')" and "j \<noteq> k"
  then show "taskFindById j t' = taskFindById j t"
    by (auto simp: taskUpdate_def Let_def split: option.splits if_splits prod.splits)
qed

subsection \<open>Properties\<close>

text \<open>A finished task: succeeded, failed or cancelled.\<close>

definition taskTerminal :: "TaskStatus \<Rightarrow> bool" where
  "taskTerminal s \<longleftrightarrow> s \<in> {T_succeeded, T_failed, T_cancelled}"

lemma taskTerminal_iff: "taskTerminal s \<longleftrightarrow> TASK_STATUS_TRANSITIONS s = []"
  by (cases s) (auto simp: taskTerminal_def)

text \<open>A sequence of updates, each attempted whatever became of the one before.\<close>

fun taskUpdates :: "(string \<times> instant \<times> TaskUpdatePatch) list \<Rightarrow> tasks \<Rightarrow> tasks" where
  "taskUpdates [] t = t"
| "taskUpdates ((i, now, p) # ps) t = taskUpdates ps (snd (taskUpdate now i p t))"

lemma taskUpdates_run: "taskUpdates ps t = task_store.run_patches ps t"
  by (induction ps t rule: taskUpdates.induct) auto

text \<open>
  C25: the status of a task is a state machine over any sequence of updates of any tasks: it only ever moves
  along the transition table, and a task that has succeeded, failed or been cancelled keeps that status.\<close>

theorem task_status_machine:
  assumes "taskFindById i t = Some r"
  shows "\<exists>r'. taskFindById i (taskUpdates ps t) = Some r' \<and>
    (\<lambda>a b. b \<in> set (TASK_STATUS_TRANSITIONS a))\<^sup>*\<^sup>* (tk_status r) (tk_status r') \<and>
    (taskTerminal (tk_status r) \<longrightarrow> tk_status r' = tk_status r)"
proof -
  from task_store.run_status [OF assms] obtain r' where
    r': "taskFindById i (taskUpdates ps t) = Some r'"
    and m: "task_store.moves\<^sup>*\<^sup>* (tk_status r) (tk_status r')" by (metis taskUpdates_run)
  have "task_store.moves = (\<lambda>a b. b \<in> set (TASK_STATUS_TRANSITIONS a))"
    by (intro ext) (simp add: task_store.moves_def)
  with m have "(\<lambda>a b. b \<in> set (TASK_STATUS_TRANSITIONS a))\<^sup>*\<^sup>* (tk_status r) (tk_status r')" by simp
  moreover have "tk_status r' = tk_status r" if "taskTerminal (tk_status r)"
    using task_store.final_status [OF assms, of ps] that r' by (auto simp: taskTerminal_iff taskUpdates_run)
  ultimately show ?thesis using r' by blast
qed

definition noTaskPatch :: TaskUpdatePatch where
  "noTaskPatch = \<lparr>tp_status = None, tp_currentIteration = None, tp_startedAt = None, tp_finishedAt = None,
     tp_finalOutput = None, tp_errorCode = None, tp_errorMessage = None, tp_tokenBudget = None,
     tp_metadata = None\<rparr>"

definition sampleTask :: "TaskStatus \<Rightarrow> TaskRecord" where
  "sampleTask s = (taskOfDraft 0 \<lparr>tf_taskId = ''t1'', tf_sessionId = None, tf_input = ''do it'', tf_cwd = ''/ws'',
     tf_providerName = ''p'', tf_agentProfileId = Executor, tf_requesterUserId = ''u'', tf_maxIterations = 5,
     tf_tokenBudget = \<lparr>tb_inputLimit = 1, tb_outputLimit = 1, tb_reservedOutput = 0, tb_usedInput = 0,
       tb_usedOutput = 0, tb_usedCostUsd = None\<rparr>, tf_metadata = None\<rparr>)\<lparr>tk_status := s\<rparr>"

theorem task_status_machine_witness:
  "\<exists>r'. taskFindById ''t1'' (taskUpdates [(''t1'', 5, noTaskPatch\<lparr>tp_status := Some T_running\<rparr>)]
      [sampleTask T_failed]) = Some r' \<and> tk_status r' = T_failed"
proof -
  have "taskFindById ''t1'' [sampleTask T_failed] = Some (sampleTask T_failed)" "tk_status (sampleTask T_failed) = T_failed"
    by (simp_all add: taskFindById_def sampleTask_def taskOfDraft_def)
  with task_status_machine [OF this(1), of "[(''t1'', 5, noTaskPatch\<lparr>tp_status := Some T_running\<rparr>)]"]
  show ?thesis by (auto simp: taskTerminal_def)
qed

end
