(* ===== verification/JobRunner.thy ===== *)
theory JobRunner
  imports ScheduleStore Tasks
begin

section \<open>The job runner\<close>

text \<open>
  src/src/runtime/jobs/backoff.ts and job-runner.ts: claimed runs are executed one after the other, their
  outcome is written back, and failures are retried with exponential backoff.

  The executors of a run are arbitrary operations on the scheduler's world: whatever other handlers
  do while the runner awaits them is part of their effect. The instants and identifiers the handling
  of one run reads are a record of their own, \<open>RunEnv\<close>, given per run.
\<close>

record 'm SchedWorld =
  sw_schedules :: schedules
  sw_runs :: schedule_runs
  sw_trace :: "TraceEvent list"
  sw_tickInProgress :: bool
  sw_pendingRetick :: bool
  sw_rest :: 'm

definition onSchedules :: "(schedules, 'a) op \<Rightarrow> ('m SchedWorld, 'a) op" where
  "onSchedules = zoom sw_schedules (\<lambda>s w. w\<lparr>sw_schedules := s\<rparr>)"

definition onRuns :: "(schedule_runs, 'a) op \<Rightarrow> ('m SchedWorld, 'a) op" where
  "onRuns = zoom sw_runs (\<lambda>s w. w\<lparr>sw_runs := s\<rparr>)"

definition schedTrace :: "TraceEvent \<Rightarrow> ('m SchedWorld, unit) op" where
  "schedTrace e = modify (\<lambda>w. w\<lparr>sw_trace := sw_trace w @ [e]\<rparr>)"

definition scheduleTaskId :: "string \<Rightarrow> string" where
  "scheduleTaskId scheduleId = ''schedule:'' @ scheduleId"

definition jinst :: "instant option \<Rightarrow> json" where
  "jinst t = (case t of None \<Rightarrow> JNull | Some n \<Rightarrow> JNum n)"

subsection \<open>Backoff\<close>

record RetryPlan =
  rt_delayMs :: int
  rt_retryAt :: instant

definition retryDelay :: "ScheduleRecord \<Rightarrow> int \<Rightarrow> int" where
  "retryDelay schedule attemptNumber =
     min (sc_backoffBaseMs schedule * 2 ^ nat (max 0 (attemptNumber - 1))) (sc_backoffMaxMs schedule)"

definition planRetry :: "instant \<Rightarrow> ScheduleRecord \<Rightarrow> int \<Rightarrow> thrown + RetryPlan option" where
  "planRetry now schedule attemptNumber =
     (if attemptNumber \<ge> sc_maxAttempts schedule then Inr None
      else let delayMs = retryDelay schedule attemptNumber
           in map_sum id (\<lambda>t. Some \<lparr>rt_delayMs = delayMs, rt_retryAt = t\<rparr>) (dateIso (now + delayMs)))"

subsection \<open>Dependencies\<close>

record NoAgentRunResult =
  nr_output :: string
  nr_success :: bool
  nr_errorMessage :: "string option"

datatype CompletedStatus = RunCompleted | RunFailed

record 'm JobRunnerDependencies =
  jd_execute :: "ScheduleRecord \<Rightarrow> ScheduleRunRecord \<Rightarrow> ('m SchedWorld, TaskRecord) op"
  jd_executeNoAgent :: "(ScheduleRecord \<Rightarrow> ScheduleRunRecord \<Rightarrow> ('m SchedWorld, NoAgentRunResult) op) option"
  jd_onRunCompleted :: "(ScheduleRecord \<Rightarrow> CompletedStatus \<Rightarrow> ('m SchedWorld, unit) op) option"

record RunEnv =
  re_finishedAt :: instant
  re_failedAt :: instant
  re_retryNow :: instant
  re_retryUuid :: string

definition notifyCompleted ::
  "'m JobRunnerDependencies \<Rightarrow> ScheduleRecord \<Rightarrow> CompletedStatus \<Rightarrow> ('m SchedWorld, unit) op" where
  "notifyCompleted jd schedule status =
     (case jd_onRunCompleted jd of None \<Rightarrow> ret () | Some f \<Rightarrow> f schedule status)"

fun mapTaskStatus :: "TaskStatus \<Rightarrow> ScheduleRunStatus" where
  "mapTaskStatus T_succeeded = R_completed"
| "mapTaskStatus T_failed = R_failed"
| "mapTaskStatus T_cancelled = R_cancelled"
| "mapTaskStatus T_waiting_approval = R_waiting_approval"
| "mapTaskStatus _ = R_blocked"

definition isTerminalRunStatus :: "ScheduleRunStatus \<Rightarrow> bool" where
  "isTerminalRunStatus status = (status = R_completed \<or> status = R_failed \<or> status = R_cancelled)"

text \<open>\<open>error instanceof Error ? error.message : "Unknown scheduled run failure"\<close>.\<close>

fun runErrorMessage :: "thrown \<Rightarrow> string" where
  "runErrorMessage (AppError c m d) = m"
| "runErrorMessage (ProviderError p) = pe_message p"
| "runErrorMessage (PlainError m) = m"
| "runErrorMessage NonError = ''Unknown scheduled run failure''"

subsection \<open>Trace events\<close>

definition runTaskId :: "ScheduleRecord \<Rightarrow> ScheduleRunRecord \<Rightarrow> string" where
  "runTaskId schedule run =
     (case sr_taskId run of Some t \<Rightarrow> t | None \<Rightarrow> scheduleTaskId (sc_scheduleId schedule))"

definition runStartedEvent :: "ScheduleRecord \<Rightarrow> ScheduleRunRecord \<Rightarrow> TraceEvent" where
  "runStartedEvent schedule run =
     \<lparr>te_actor = ''scheduler'', te_eventType = ''schedule_run_started'',
      te_payload = [(''attemptNumber'', JNum (sr_attemptNumber run)), (''runId'', JStr (sr_runId run)),
        (''scheduleId'', JStr (sc_scheduleId schedule))],
      te_stage = ''control'', te_summary = ''Schedule run '' @ sr_runId run @ '' started'',
      te_taskId = runTaskId schedule run\<rparr>"

text \<open>The event of a failed run; a command without an agent reports neither code nor task.\<close>

definition runFailedEvent :: "bool \<Rightarrow> ScheduleRecord \<Rightarrow> string \<Rightarrow> ScheduleRunRecord \<Rightarrow> TraceEvent" where
  "runFailedEvent noAgent schedule runId nxt =
     \<lparr>te_actor = ''scheduler'', te_eventType = ''schedule_run_failed'',
      te_payload = [(''attemptNumber'', JNum (sr_attemptNumber nxt)),
        (''errorCode'', (if noAgent then JNull else jopt (sr_errorCode nxt))),
        (''errorMessage'', jopt (sr_errorMessage nxt)), (''runId'', JStr (sr_runId nxt)),
        (''scheduleId'', JStr (sr_scheduleId nxt)),
        (''taskId'', (if noAgent then JNull else jopt (sr_taskId nxt)))],
      te_stage = ''completion'', te_summary = ''Schedule run '' @ runId @ '' failed'',
      te_taskId = (if noAgent then scheduleTaskId (sc_scheduleId schedule) else runTaskId schedule nxt)\<rparr>"

definition runFinishedEvent :: "bool \<Rightarrow> ScheduleRecord \<Rightarrow> string \<Rightarrow> ScheduleRunStatus \<Rightarrow> ScheduleRunRecord \<Rightarrow> TraceEvent" where
  "runFinishedEvent noAgent schedule runId mapped nxt =
     \<lparr>te_actor = ''scheduler'', te_eventType = ''schedule_run_finished'',
      te_payload = [(''attemptNumber'', JNum (sr_attemptNumber nxt)), (''runId'', JStr (sr_runId nxt)),
        (''scheduleId'', JStr (sr_scheduleId nxt)), (''status'', JStr (runStatusStr mapped)),
        (''taskId'', (if noAgent then JNull else jopt (sr_taskId nxt))),
        (''sessionId'', (if noAgent then JNull else jopt (sr_sessionId nxt)))],
      te_stage = ''completion'', te_summary = ''Schedule run '' @ runId @ '' '' @ runStatusStr mapped,
      te_taskId = (if noAgent then scheduleTaskId (sc_scheduleId schedule) else runTaskId schedule nxt)\<rparr>"

subsection \<open>Execution of a run\<close>

text \<open>A run as \<open>create\<close> inserts it from the fields the scheduler gives.\<close>

definition queuedRun :: "string \<Rightarrow> string \<Rightarrow> int \<Rightarrow> instant \<Rightarrow> ScheduleRunTrigger \<Rightarrow> ScheduleRunRecord" where
  "queuedRun runId scheduleId attempt scheduledAt trigger =
     \<lparr>sr_runId = runId, sr_scheduleId = scheduleId, sr_attemptNumber = attempt, sr_status = R_queued,
      sr_scheduledAt = scheduledAt, sr_startedAt = None, sr_finishedAt = None, sr_taskId = None,
      sr_sessionId = None, sr_errorCode = None, sr_errorMessage = None, sr_trigger = trigger,
      sr_metadata = []\<rparr>"

definition enqueueRetryIfNeeded ::
  "RunEnv \<Rightarrow> ScheduleRecord \<Rightarrow> ScheduleRunRecord \<Rightarrow> ('m SchedWorld, ScheduleRunRecord option) op" where
  "enqueueRetryIfNeeded env schedule run =
     bnd (liftRes (planRetry (re_retryNow env) schedule (sr_attemptNumber run))) (\<lambda>plan.
       case plan of
         None \<Rightarrow> ret None
       | Some p \<Rightarrow>
           bnd (onRuns (runCreate (queuedRun (re_retryUuid env) (sr_scheduleId run)
                  (sr_attemptNumber run + 1) (rt_retryAt p) Retry))) (\<lambda>retryRun.
           bnd (schedTrace \<lparr>te_actor = ''scheduler'', te_eventType = ''schedule_run_retry_scheduled'',
                  te_payload = [(''delayMs'', JNum (rt_delayMs p)),
                    (''nextAttemptNumber'', JNum (sr_attemptNumber retryRun)),
                    (''priorRunId'', JStr (sr_runId run)), (''retryAt'', JNum (rt_retryAt p)),
                    (''retryRunId'', JStr (sr_runId retryRun)), (''scheduleId'', JStr (sr_scheduleId run))],
                  te_stage = ''control'', te_summary = ''Retry scheduled for run '' @ sr_runId run,
                  te_taskId = runTaskId schedule run\<rparr>) (\<lambda>_.
           ret (Some retryRun))))"

definition executeNoAgentRun :: "'m JobRunnerDependencies \<Rightarrow>
    (ScheduleRecord \<Rightarrow> ScheduleRunRecord \<Rightarrow> ('m SchedWorld, NoAgentRunResult) op) \<Rightarrow> RunEnv \<Rightarrow>
    ScheduleRecord \<Rightarrow> ScheduleRunRecord \<Rightarrow> ('m SchedWorld, ScheduleRunRecord) op" where
  "executeNoAgentRun jd executeNoAgent env schedule run =
     bnd (executeNoAgent schedule run) (\<lambda>result.
       let mapped = (if nr_success result then R_completed else R_failed)
       in bnd (onRuns (runUpdate (sr_runId run) (noRunPatch\<lparr>ru_errorMessage := Some (nr_errorMessage result),
               ru_finishedAt := Some (Some (re_finishedAt env)),
               ru_metadata := Some (jput ''noAgentOutput'' (JStr (nr_output result)) (sr_metadata run)),
               ru_status := Some mapped\<rparr>))) (\<lambda>nxt.
          if mapped = R_failed then
            bnd (notifyCompleted jd schedule RunFailed) (\<lambda>_.
            bnd (enqueueRetryIfNeeded env schedule nxt) (\<lambda>_.
            bnd (schedTrace (runFailedEvent True schedule (sr_runId run) nxt)) (\<lambda>_. ret nxt)))
          else
            bnd (notifyCompleted jd schedule RunCompleted) (\<lambda>_.
            bnd (schedTrace (runFinishedEvent True schedule (sr_runId run) mapped nxt)) (\<lambda>_. ret nxt))))"

text \<open>The outcome of a task written to its run.\<close>

definition taskRunPatch :: "instant \<Rightarrow> ScheduleRunStatus \<Rightarrow> TaskRecord \<Rightarrow> ScheduleRunUpdatePatch" where
  "taskRunPatch now mapped task = noRunPatch\<lparr>
     ru_errorCode := Some (map_option errorCodeStr (tk_errorCode task)),
     ru_errorMessage := Some (tk_errorMessage task),
     ru_finishedAt := (if isTerminalRunStatus mapped
        then Some (Some (case tk_finishedAt task of Some t \<Rightarrow> t | None \<Rightarrow> now)) else None),
     ru_status := Some mapped,
     ru_taskId := Some (Some (tk_taskId task)),
     ru_sessionId := Some (tk_sessionId task)\<rparr>"

definition executeAgentRun :: "'m JobRunnerDependencies \<Rightarrow> RunEnv \<Rightarrow> ScheduleRecord \<Rightarrow> ScheduleRunRecord \<Rightarrow>
    ('m SchedWorld, ScheduleRunRecord) op" where
  "executeAgentRun jd env schedule run =
     bnd (jd_execute jd schedule run) (\<lambda>task.
       let mapped = mapTaskStatus (tk_status task)
       in bnd (onRuns (runUpdate (sr_runId run) (taskRunPatch (re_finishedAt env) mapped task))) (\<lambda>nxt.
          if mapped = R_failed then
            bnd (notifyCompleted jd schedule RunFailed) (\<lambda>_.
            bnd (enqueueRetryIfNeeded env schedule nxt) (\<lambda>_.
            bnd (schedTrace (runFailedEvent False schedule (sr_runId run) nxt)) (\<lambda>_. ret nxt)))
          else
            bnd (if mapped = R_completed then notifyCompleted jd schedule RunCompleted else ret ()) (\<lambda>_.
            bnd (schedTrace (runFinishedEvent False schedule (sr_runId run) mapped nxt)) (\<lambda>_. ret nxt))))"

definition failRun :: "RunEnv \<Rightarrow> ScheduleRecord \<Rightarrow> ScheduleRunRecord \<Rightarrow> thrown \<Rightarrow> ('m SchedWorld, ScheduleRunRecord) op" where
  "failRun env schedule run e =
     bnd (onRuns (runUpdate (sr_runId run) (noRunPatch\<lparr>ru_errorMessage := Some (Some (runErrorMessage e)),
            ru_finishedAt := Some (Some (re_failedAt env)), ru_status := Some R_failed\<rparr>))) (\<lambda>failed.
     bnd (enqueueRetryIfNeeded env schedule failed) (\<lambda>_.
     bnd (schedTrace (runFailedEvent False schedule (sr_runId run) failed)) (\<lambda>_. ret failed)))"

definition executeRun :: "'m JobRunnerDependencies \<Rightarrow> RunEnv \<Rightarrow> ScheduleRecord \<Rightarrow> ScheduleRunRecord \<Rightarrow>
    ('m SchedWorld, ScheduleRunRecord) op" where
  "executeRun jd env schedule run =
     bnd (schedTrace (runStartedEvent schedule run)) (\<lambda>_.
     tryCatch
       (case (readScheduleNoAgent schedule, jd_executeNoAgent jd) of
          (Some _, Some f) \<Rightarrow> executeNoAgentRun jd f env schedule run
        | _ \<Rightarrow> executeAgentRun jd env schedule run)
       (failRun env schedule run))"

definition processRun :: "'m JobRunnerDependencies \<Rightarrow> (string \<Rightarrow> RunEnv) \<Rightarrow> ScheduleRunRecord \<Rightarrow>
    ('m SchedWorld, ScheduleRunRecord) op" where
  "processRun jd envs run =
     bnd (ask (\<lambda>w. scheduleFindById (sr_scheduleId run) (sw_schedules w))) (\<lambda>schedule.
       case schedule of
         None \<Rightarrow> onRuns (runUpdate (sr_runId run) (noRunPatch\<lparr>
             ru_errorMessage := Some (Some (''Schedule '' @ sr_scheduleId run @ '' not found'')),
             ru_finishedAt := Some (Some (re_finishedAt (envs (sr_runId run)))), ru_status := Some R_failed\<rparr>))
       | Some s \<Rightarrow> executeRun jd (envs (sr_runId run)) s run)"

definition drain :: "'m JobRunnerDependencies \<Rightarrow> (string \<Rightarrow> RunEnv) \<Rightarrow> instant \<Rightarrow> nat \<Rightarrow>
    ('m SchedWorld, ScheduleRunRecord list) op" where
  "drain jd envs now limit =
     bnd (onRuns (claimDue now limit)) (\<lambda>claimed. forEach (processRun jd envs) claimed)"

end
