(* ===== verification/CronGuard.thy ===== *)
theory CronGuard
  imports Regex
begin

section \<open>The guard of scheduled prompts\<close>

text \<open>
  src/src/runtime/scheduler/cron-prompt-guard.ts: the patterns of prompt injection a scheduled prompt is
  scanned for before it is run, in the order of the code.
\<close>

definition the_opt :: re where
  "the_opt = opt (Cat (lit ''the'') ws1)"

definition INJECTION_PATTERNS :: "(string \<times> re) list" where
  "INJECTION_PATTERNS =
    [(''ignore_previous_instructions'',
       seqOf [WordBoundary, lit ''ignore'', ws1, opt (Cat (lit ''all'') ws1),
         anyOf [lit ''previous'', lit ''prior'', lit ''above''], ws1, lit ''instructions'', WordBoundary]),
     (''disregard_instructions'',
       seqOf [WordBoundary, lit ''disregard'', ws1, the_opt,
         anyOf [lit ''previous'', lit ''prior'', lit ''above''], WordBoundary]),
     (''new_system_prompt'',
       seqOf [WordBoundary, anyOf [lit ''you are now'', lit ''act as'', lit ''pretend to be''], WordBoundary,
         UpTo 40 notNl, WordBoundary, anyOf [lit ''system'', lit ''assistant'', lit ''developer''],
         WordBoundary]),
     (''override_system'',
       seqOf [WordBoundary, anyOf [lit ''override'', lit ''replace'', lit ''forget''], ws1, the_opt,
         anyOf [lit ''system'', lit ''developer''], ws1,
         anyOf [lit ''prompt'', lit ''message'', lit ''instructions''], WordBoundary]),
     (''hidden_instruction_block'',
       seqOf [chr CHR ''<'', ws0, opt (chr CHR ''/''), ws0,
         anyOf [lit ''system'', lit ''assistant'', lit ''developer''], ws0, chr CHR ''>'']),
     (''instruction_delimiter'',
       seqOf [chr CHR ''#'', chr CHR ''#'', Many (chr CHR ''#''), ws0, anyOf [lit ''system'', lit ''developer''],
         ws0, UpTo 2 (chr CHR ''#''), ws0, chr CHR '':''])]"

text \<open>The result: \<open>Inl\<close> the identifier of the first pattern that matches.\<close>

definition scanCronSkillPrompt :: "string \<Rightarrow> string option" where
  "scanCronSkillPrompt prompt =
     (let normalized = trim prompt
      in if normalized = [] then None
         else map_option fst (List.find (\<lambda>(i, pattern). testRe pattern normalized) INJECTION_PATTERNS))"

definition guardReason :: "string \<Rightarrow> string" where
  "guardReason i = ''Scheduled prompt matched injection pattern: '' @ i"

end
