(* ===== verification/Scheduler.thy ===== *)
theory Scheduler
  imports JobRunner CronGuard
begin

section \<open>The scheduler service\<close>

text \<open>
  src/src/runtime/scheduler/scheduler-service.ts and schedule-run-lifecycle.ts, and the wiring of the two
  with the application service in src/src/runtime/bootstrap.ts. The instants a handler reads from the
  clock and the identifiers it draws are arguments; the package cron-parser is the argument
  \<open>cronNext\<close> of theory ScheduleText. Starting and stopping the poll timer is left out: a tick is an
  operation that may be called at any time.
\<close>

definition fireRule :: "ScheduleRecord \<Rightarrow> FireRule" where
  "fireRule s = \<lparr>fr_cron = sc_cron s, fr_intervalMs = sc_intervalMs s, fr_timezone = sc_timezone s\<rparr>"

text \<open>\<open>computeNextFireAt(..)?.toISOString() ?? null\<close>.\<close>

definition nextFireIso :: "cron_next \<Rightarrow> FireRule \<Rightarrow> instant \<Rightarrow> thrown + instant option" where
  "nextFireIso cronNext rule from =
     (case computeNextFireAt cronNext rule from of
        Inl e \<Rightarrow> Inl e
      | Inr None \<Rightarrow> Inr None
      | Inr (Some t) \<Rightarrow> map_sum id Some (dateIso t))"

definition scheduleEvent :: "string \<Rightarrow> json_object \<Rightarrow> string \<Rightarrow> string \<Rightarrow> TraceEvent" where
  "scheduleEvent eventType payload summary scheduleId =
     \<lparr>te_actor = ''scheduler'', te_eventType = eventType, te_payload = payload, te_stage = ''control'',
      te_summary = summary, te_taskId = scheduleTaskId scheduleId\<rparr>"

subsection \<open>Enqueueing runs\<close>

definition recordRunEnqueued :: "ScheduleRunRecord \<Rightarrow> ('m SchedWorld, unit) op" where
  "recordRunEnqueued run = schedTrace (scheduleEvent ''schedule_run_enqueued''
     [(''attemptNumber'', JNum (sr_attemptNumber run)), (''runId'', JStr (sr_runId run)),
      (''scheduledAt'', JNum (sr_scheduledAt run)), (''scheduleId'', JStr (sr_scheduleId run)),
      (''trigger'', JStr (triggerStr (sr_trigger run)))]
     (''Schedule run '' @ sr_runId run @ '' enqueued'') (sr_scheduleId run))"

definition recordRunSkippedOverlap :: "string \<Rightarrow> string \<Rightarrow> string \<Rightarrow> ('m SchedWorld, unit) op" where
  "recordRunSkippedOverlap scheduleId activeRunId reason = schedTrace (scheduleEvent ''schedule_run_skipped_overlap''
     [(''activeRunId'', JStr activeRunId), (''reason'', JStr reason), (''scheduleId'', JStr scheduleId)]
     (''Skipped schedule '' @ scheduleId @ '' enqueue because run '' @ activeRunId @ '' is still active'') scheduleId)"

text \<open>The attempt number of the next run: one more than that of the schedule's latest run.\<close>

definition nextAttempt :: "string \<Rightarrow> schedule_runs \<Rightarrow> int" where
  "nextAttempt scheduleId t =
     (case runListByScheduleId scheduleId None (Some 1) t of [] \<Rightarrow> 1 | r # _ \<Rightarrow> sr_attemptNumber r + 1)"

definition enqueueScheduledRun :: "cron_next \<Rightarrow> string \<Rightarrow> instant \<Rightarrow> ScheduleRecord \<Rightarrow> instant \<Rightarrow>
    ('m SchedWorld, ScheduleRunRecord) op" where
  "enqueueScheduledRun cronNext uuid updatedAt schedule now =
     bnd (ask (\<lambda>w. nextAttempt (sc_scheduleId schedule) (sw_runs w))) (\<lambda>attempt.
     bnd (onRuns (runCreate (queuedRun uuid (sc_scheduleId schedule) attempt now Scheduled))) (\<lambda>run.
     bnd (liftRes (nextFireIso cronNext (fireRule schedule) now)) (\<lambda>nextFire.
     let hasRepeatsLeft = (case readRepeatRemaining schedule of None \<Rightarrow> False | Some n \<Rightarrow> n > 0);
         status = (if nextFire \<noteq> None then sc_status schedule
                   else if hasRepeatsLeft then S_active else S_completed)
     in bnd (onSchedules (scheduleUpdate updatedAt (sc_scheduleId schedule) (noSchedulePatch\<lparr>
               su_lastFireAt := Some (Some now), su_nextFireAt := Some nextFire, su_status := Some status\<rparr>))) (\<lambda>_.
        bnd (recordRunEnqueued run) (\<lambda>_. ret run)))))"

text \<open>The body of the loop of a tick over the due schedules.\<close>

definition tickSchedule :: "cron_next \<Rightarrow> (string \<Rightarrow> string \<times> instant) \<Rightarrow> instant \<Rightarrow> ScheduleRecord \<Rightarrow>
    ('m SchedWorld, unit) op" where
  "tickSchedule cronNext env now schedule =
     bnd (ask (\<lambda>w. findActiveByScheduleId (sc_scheduleId schedule) (sw_runs w))) (\<lambda>activeRun.
       case activeRun of
         Some r \<Rightarrow> recordRunSkippedOverlap (sc_scheduleId schedule) (sr_runId r) ''scheduled''
       | None \<Rightarrow>
           tryCatch
             (bnd (enqueueScheduledRun cronNext (fst (env (sc_scheduleId schedule)))
                     (snd (env (sc_scheduleId schedule))) schedule now) (\<lambda>_. ret ()))
             (\<lambda>e. bnd (ask (\<lambda>w. findActiveByScheduleId (sc_scheduleId schedule) (sw_runs w))) (\<lambda>concurrentRun.
                case concurrentRun of
                  None \<Rightarrow> raise e
                | Some r \<Rightarrow> recordRunSkippedOverlap (sc_scheduleId schedule) (sr_runId r) ''scheduled'')))"

subsection \<open>Ticks\<close>

text \<open>What one pass of the loop reads: per schedule a run identifier and an instant, per run its environment.\<close>

record PassEnv =
  pv_enqueue :: "string \<Rightarrow> string \<times> instant"
  pv_runs :: "string \<Rightarrow> RunEnv"

definition setTick :: "bool \<Rightarrow> ('m SchedWorld, unit) op" where
  "setTick b = modify (\<lambda>w. w\<lparr>sw_tickInProgress := b\<rparr>)"

definition setRetick :: "bool \<Rightarrow> ('m SchedWorld, unit) op" where
  "setRetick b = modify (\<lambda>w. w\<lparr>sw_pendingRetick := b\<rparr>)"

definition tickPass :: "cron_next \<Rightarrow> 'm JobRunnerDependencies \<Rightarrow> PassEnv \<Rightarrow> instant \<Rightarrow> ('m SchedWorld, unit) op" where
  "tickPass cronNext jd env now =
     bnd (setRetick False) (\<lambda>_.
     bnd (ask (\<lambda>w. findDue now 25 (sw_schedules w))) (\<lambda>dueSchedules.
     bnd (forEach (tickSchedule cronNext (pv_enqueue env) now) dueSchedules) (\<lambda>_.
     bnd (drain jd (pv_runs env) now 10) (\<lambda>_. ret ()))))"

text \<open>
  The do-while loop: another pass while a tick was requested during the last one. \<open>n\<close> bounds the number
  of passes; the result tells whether the loop ended within the bound.
\<close>

fun tickLoop :: "cron_next \<Rightarrow> 'm JobRunnerDependencies \<Rightarrow> (nat \<Rightarrow> PassEnv) \<Rightarrow> instant \<Rightarrow> nat \<Rightarrow>
    ('m SchedWorld, bool) op" where
  "tickLoop cronNext jd envs now 0 = ret False"
| "tickLoop cronNext jd envs now (Suc n) =
     bnd (tickPass cronNext jd (envs n) now) (\<lambda>_.
     bnd (ask sw_pendingRetick) (\<lambda>again.
     if again then tickLoop cronNext jd envs now n else ret True))"

definition tick :: "cron_next \<Rightarrow> 'm JobRunnerDependencies \<Rightarrow> (nat \<Rightarrow> PassEnv) \<Rightarrow> instant \<Rightarrow> nat \<Rightarrow>
    ('m SchedWorld, bool) op" where
  "tick cronNext jd envs now fuel =
     bnd (ask sw_tickInProgress) (\<lambda>busy.
     if busy then bnd (setRetick True) (\<lambda>_. ret True)
     else bnd (setTick True) (\<lambda>_.
       tryCatch (bnd (tickLoop cronNext jd envs now fuel) (\<lambda>fin. bnd (setTick False) (\<lambda>_. ret fin)))
         (\<lambda>e. bnd (setTick False) (\<lambda>_. raise e))))"

subsection \<open>Operations on schedules\<close>

definition notFound :: "string \<Rightarrow> thrown" where
  "notFound scheduleId = PlainError (''Schedule '' @ scheduleId @ '' was not found.'')"

text \<open>The existing schedule, unless it is missing or archived.\<close>

definition requireSchedule :: "string \<Rightarrow> string option \<Rightarrow> ('m SchedWorld, ScheduleRecord) op" where
  "requireSchedule scheduleId archivedMsg =
     bnd (ask (\<lambda>w. scheduleFindById scheduleId (sw_schedules w))) (\<lambda>existing.
       case existing of
         None \<Rightarrow> raise (notFound scheduleId)
       | Some s \<Rightarrow>
           (case archivedMsg of
              Some m \<Rightarrow> if sc_status s = S_archived
                then raise (PlainError (''Schedule '' @ scheduleId @ '' is archived and cannot be '' @ m @ ''.''))
                else ret s
            | None \<Rightarrow> ret s))"

definition handleRepeatAfterSuccess :: "instant \<Rightarrow> instant \<Rightarrow> ScheduleRecord \<Rightarrow> ('m SchedWorld, ScheduleRecord) op" where
  "handleRepeatAfterSuccess now updatedAt schedule =
     bnd (ask (\<lambda>w. scheduleFindById (sc_scheduleId schedule) (sw_schedules w))) (\<lambda>found.
       case found of
         None \<Rightarrow> ret schedule
       | Some latest \<Rightarrow>
           (case readRepeatRemaining latest of
              None \<Rightarrow> ret latest
            | Some remaining \<Rightarrow>
                let nextRemaining = remaining - 1
                in if nextRemaining \<le> 0
                   then onSchedules (scheduleUpdate updatedAt (sc_scheduleId latest) (noSchedulePatch\<lparr>
                     su_nextFireAt := Some None, su_status := Some S_completed,
                     su_metadata := Some (withScheduleMetadata (sc_metadata latest)
                       (noMetadataInput\<lparr>mi_repeatRemaining := Some None\<rparr>))\<rparr>))
                   else
                     let isOneShot = (sc_runAt latest \<noteq> None \<and> sc_intervalMs latest = None \<and> sc_cron latest = None)
                     in onSchedules (scheduleUpdate updatedAt (sc_scheduleId latest) (noSchedulePatch\<lparr>
                       su_metadata := Some (withScheduleMetadata (sc_metadata latest)
                         (noMetadataInput\<lparr>mi_repeatRemaining := Some (Some nextRemaining)\<rparr>)),
                       su_nextFireAt := (if isOneShot then Some (Some now) else None),
                       su_status := (if isOneShot then Some S_active else None)\<rparr>))))"

definition archiveSchedule :: "instant \<Rightarrow> string \<Rightarrow> ('m SchedWorld, ScheduleRecord) op" where
  "archiveSchedule updatedAt scheduleId =
     bnd (requireSchedule scheduleId None) (\<lambda>_.
     bnd (onSchedules (scheduleUpdate updatedAt scheduleId (noSchedulePatch\<lparr>su_nextFireAt := Some None,
            su_status := Some S_archived\<rparr>))) (\<lambda>archived.
     bnd (schedTrace (scheduleEvent ''schedule_archived''
            [(''scheduleId'', JStr (sc_scheduleId archived)), (''status'', JStr ''archived'')]
            (''Schedule '' @ sc_scheduleId archived @ '' archived'') (sc_scheduleId archived))) (\<lambda>_.
     ret archived)))"

definition pauseSchedule :: "instant \<Rightarrow> string \<Rightarrow> ('m SchedWorld, ScheduleRecord) op" where
  "pauseSchedule updatedAt scheduleId =
     bnd (requireSchedule scheduleId (Some ''paused'')) (\<lambda>_.
     bnd (onSchedules (scheduleUpdate updatedAt scheduleId (noSchedulePatch\<lparr>su_status := Some S_paused\<rparr>))) (\<lambda>s.
     bnd (schedTrace (scheduleEvent ''schedule_paused''
            [(''scheduleId'', JStr (sc_scheduleId s)), (''status'', JStr ''paused'')]
            (''Schedule '' @ sc_scheduleId s @ '' paused'') (sc_scheduleId s))) (\<lambda>_.
     ret s)))"

definition computeResumeFireAt :: "cron_next \<Rightarrow> ScheduleRecord \<Rightarrow> instant \<Rightarrow> thrown + instant option" where
  "computeResumeFireAt cronNext s now =
     (case sc_runAt s of Some t \<Rightarrow> Inr (Some t) | None \<Rightarrow> nextFireIso cronNext (fireRule s) now)"

definition resumeSchedule :: "cron_next \<Rightarrow> instant \<Rightarrow> instant \<Rightarrow> string \<Rightarrow> ('m SchedWorld, ScheduleRecord) op" where
  "resumeSchedule cronNext now updatedAt scheduleId =
     bnd (requireSchedule scheduleId (Some ''resumed'')) (\<lambda>existing.
     bnd (liftRes (computeResumeFireAt cronNext existing now)) (\<lambda>fireAt.
     bnd (onSchedules (scheduleUpdate updatedAt scheduleId (noSchedulePatch\<lparr>su_nextFireAt := Some fireAt,
            su_status := Some S_active\<rparr>))) (\<lambda>resumed.
     bnd (schedTrace (scheduleEvent ''schedule_resumed''
            [(''nextFireAt'', jinst (sc_nextFireAt resumed)), (''scheduleId'', JStr (sc_scheduleId resumed)),
             (''status'', JStr ''active'')]
            (''Schedule '' @ sc_scheduleId resumed @ '' resumed'') (sc_scheduleId resumed))) (\<lambda>_.
     ret resumed))))"

definition runNow :: "string \<Rightarrow> instant \<Rightarrow> string \<Rightarrow> ('m SchedWorld, ScheduleRunRecord) op" where
  "runNow uuid now scheduleId =
     (let active = (\<lambda>r. PlainError (''Schedule already has an active run: '' @ sr_runId r))
      in bnd (requireSchedule scheduleId (Some ''run'')) (\<lambda>_.
         bnd (ask (\<lambda>w. findActiveByScheduleId scheduleId (sw_runs w))) (\<lambda>activeRun.
         case activeRun of
           Some r \<Rightarrow> raise (active r)
         | None \<Rightarrow>
             bnd (ask (\<lambda>w. nextAttempt scheduleId (sw_runs w))) (\<lambda>attempt.
             tryCatch
               (bnd (onRuns (runCreate (queuedRun uuid scheduleId attempt now Manual))) (\<lambda>run.
                bnd (recordRunEnqueued run) (\<lambda>_. ret run)))
               (\<lambda>e. bnd (ask (\<lambda>w. findActiveByScheduleId scheduleId (sw_runs w))) (\<lambda>concurrentRun.
                  case concurrentRun of None \<Rightarrow> raise e | Some r \<Rightarrow> raise (active r)))))))"

end
