(* ===== verification/ScheduleOps.thy ===== *)
theory ScheduleOps
  imports Scheduler
begin

section \<open>Creating and editing schedules, and the runs behind tasks\<close>

text \<open>
  The remaining operations of src/src/runtime/scheduler/scheduler-service.ts (create, update and status),
  schedule-run-lifecycle.ts, and the completion hooks src/src/runtime/bootstrap.ts connects them with.
\<close>

subsection \<open>Delivery metadata\<close>

definition normalizeDeliveryTargets :: "string list \<Rightarrow> thrown + string list" where
  "normalizeDeliveryTargets targets =
     (let normalized = fold setAdd targets []
      in if normalized = [] then Inl (PlainError ''Schedule delivery targets must include at least one target.'')
         else case List.find (\<lambda>t. t \<notin> set SCHEDULE_DELIVERY_TARGETS) normalized of
           Some t \<Rightarrow> Inl (PlainError (''Unsupported schedule delivery target: '' @ t))
         | None \<Rightarrow> Inr normalized)"

definition withDeliveryMetadata :: "json_object \<Rightarrow> string list option \<Rightarrow> thrown + json_object" where
  "withDeliveryMetadata metadata targets =
     (case targets of
        None \<Rightarrow> Inr metadata
      | Some ts \<Rightarrow>
          (case normalizeDeliveryTargets ts of
             Inl e \<Rightarrow> Inl e
           | Inr normalized \<Rightarrow>
               let delivery = (case readJsonObject (jget metadata ''delivery'') of None \<Rightarrow> [] | Some d \<Rightarrow> d)
               in Inr (jput ''delivery'' (JObj (jput ''targets'' (JArr (map JStr normalized)) delivery)) metadata)))"

definition hasScheduleManagementBlocked :: "json_object option \<Rightarrow> bool" where
  "hasScheduleManagementBlocked metadata =
     (case metadata of
        None \<Rightarrow> False
      | Some m \<Rightarrow>
          (case readJsonObject (jget m ''scheduleRunContext'') of
             None \<Rightarrow> False
           | Some context \<Rightarrow> jget context ''disallowScheduleManagement'' = Some (JBool True)))"

subsection \<open>Creation\<close>

record CreateScheduleInput =
  ci_name :: string
  ci_ownerUserId :: string
  ci_cwd :: string
  ci_agentProfileId :: AgentProfileId
  ci_providerName :: string
  ci_input :: string
  ci_sessionId :: "string option"
  ci_runAt :: "instant option"
  ci_every :: "string option"
  ci_cron :: "string option"
  ci_timezone :: "string option"
  ci_maxAttempts :: "int option"
  ci_backoffBaseMs :: "int option"
  ci_backoffMaxMs :: "int option"
  ci_metadata :: "json_object option"
  ci_deliveryTargets :: "string list option"
  ci_executionMode :: "ScheduleExecutionMode option"
  ci_meta :: ScheduleMetadataInput

definition orDefault :: "'a \<Rightarrow> 'a option \<Rightarrow> 'a" where
  "orDefault d v = (case v of None \<Rightarrow> d | Some x \<Rightarrow> x)"

definition buildScheduleDraft :: "cron_next \<Rightarrow> string \<Rightarrow> instant \<Rightarrow> CreateScheduleInput \<Rightarrow> thrown + ScheduleDraft" where
  "buildScheduleDraft cronNext uuid now i =
     (case (case ci_every i of None \<Rightarrow> Inr None | Some e \<Rightarrow> map_sum id Some (parseEveryExpression e)) of
        Inl e \<Rightarrow> Inl e
      | Inr intervalMs \<Rightarrow>
          if intervalMs = None \<and> ci_cron i = None \<and> ci_runAt i = None
          then Inl (PlainError ''Schedule must define one of runAt, every, or cron.'')
          else
            case (case ci_runAt i of
                    Some t \<Rightarrow> Inr (Some t)
                  | None \<Rightarrow> nextFireIso cronNext
                      \<lparr>fr_cron = ci_cron i, fr_intervalMs = intervalMs, fr_timezone = ci_timezone i\<rparr> now) of
              Inl e \<Rightarrow> Inl e
            | Inr nextFireAt \<Rightarrow>
                let executionMode = orDefault Isolated (ci_executionMode i)
                in case withDeliveryMetadata (orDefault [] (ci_metadata i))
                          (Some (orDefault [''inbox''] (ci_deliveryTargets i))) of
                     Inl e \<Rightarrow> Inl e
                   | Inr delivered \<Rightarrow> Inr
                       \<lparr>sd_scheduleId = uuid, sd_name = ci_name i,
                        sd_sessionId = resolveCreateScheduleSessionId (Some executionMode)
                          (ci_sessionId i) (ci_sessionId i),
                        sd_ownerUserId = ci_ownerUserId i, sd_cwd = ci_cwd i,
                        sd_agentProfileId = ci_agentProfileId i, sd_providerName = ci_providerName i,
                        sd_input = ci_input i, sd_runAt = ci_runAt i, sd_intervalMs = intervalMs,
                        sd_cron = ci_cron i, sd_timezone = ci_timezone i,
                        sd_maxAttempts = Some (orDefault 3 (ci_maxAttempts i)),
                        sd_backoffBaseMs = Some (orDefault 5000 (ci_backoffBaseMs i)),
                        sd_backoffMaxMs = Some (orDefault 300000 (ci_backoffMaxMs i)),
                        sd_nextFireAt = nextFireAt, sd_lastFireAt = None,
                        sd_metadata = Some (withScheduleMetadata
                          (withExecutionModeMetadata delivered (Some executionMode)) (ci_meta i))\<rparr>)"

definition createSchedule :: "cron_next \<Rightarrow> string \<Rightarrow> instant \<Rightarrow> instant \<Rightarrow> CreateScheduleInput \<Rightarrow>
    ('m SchedWorld, ScheduleRecord) op" where
  "createSchedule cronNext uuid now storedAt i =
     (if hasScheduleManagementBlocked (ci_metadata i)
      then raise (PlainError ''Schedule creation is not allowed while a scheduled run is executing.'')
      else bnd (liftRes (buildScheduleDraft cronNext uuid now i)) (\<lambda>draft.
           bnd (onSchedules (scheduleCreate storedAt draft)) (\<lambda>s.
           bnd (schedTrace (scheduleEvent ''schedule_created''
                  [(''nextFireAt'', jinst (sc_nextFireAt s)), (''scheduleId'', JStr (sc_scheduleId s)),
                   (''status'', JStr (if sc_status s = S_paused then ''paused'' else ''active''))]
                  (''Schedule '' @ sc_scheduleId s @ '' created'') (sc_scheduleId s))) (\<lambda>_.
           ret s))))"

subsection \<open>Editing\<close>

text \<open>
  A timing field of the input: not a property of it, present but \<open>undefined\<close> or \<open>null\<close>, or a value.
  The other fields: the outer \<open>None\<close> is \<open>undefined\<close>, the inner one \<open>null\<close>.
\<close>

datatype 'a ownField = Absent | Nullish | Given 'a

fun given :: "'a ownField \<Rightarrow> 'a option" where
  "given (Given x) = Some x"
| "given _ = None"

record UpdateScheduleInput =
  ui_agentProfileId :: "AgentProfileId option"
  ui_backoffBaseMs :: "int option"
  ui_backoffMaxMs :: "int option"
  ui_cron :: "string ownField"
  ui_deliveryTargets :: "string list option"
  ui_every :: "string ownField"
  ui_executionMode :: "ScheduleExecutionMode option"
  ui_input :: "string option"
  ui_maxAttempts :: "int option"
  ui_metadata :: "json_object option"
  ui_name :: "string option"
  ui_runAt :: "instant ownField"
  ui_sessionId :: "string option option"
  ui_timezone :: "string option option"
  ui_meta :: ScheduleMetadataInput

text \<open>The metadata of the patch.\<close>

definition updateMetadata :: "ScheduleRecord \<Rightarrow> UpdateScheduleInput \<Rightarrow> thrown + json_object option" where
  "updateMetadata existing i =
     (let base = (case ui_metadata i of None \<Rightarrow> sc_metadata existing | Some m \<Rightarrow> spread (sc_metadata existing) m)
      in if ui_metadata i \<noteq> None \<or> ui_deliveryTargets i \<noteq> None \<or> ui_meta i \<noteq> noMetadataInput \<or>
            ui_executionMode i \<noteq> None
         then map_sum id (\<lambda>m. Some (withScheduleMetadata (withExecutionModeMetadata m (ui_executionMode i)) (ui_meta i)))
                (withDeliveryMetadata base (ui_deliveryTargets i))
         else Inr None)"

definition updateSession :: "ScheduleRecord \<Rightarrow> UpdateScheduleInput \<Rightarrow> string option option" where
  "updateSession existing i =
     (if ui_executionMode i \<noteq> None \<or> ui_sessionId i \<noteq> None
      then let mode = orDefault (readScheduleExecutionMode existing) (ui_executionMode i);
               session = (case ui_sessionId i of Some (Some s) \<Rightarrow> Some s | _ \<Rightarrow> sc_sessionId existing)
           in Some (resolveCreateScheduleSessionId (Some mode) session session)
      else None)"

text \<open>The timing part of the patch, on top of the patch \<open>p\<close> of the other fields.\<close>

definition updateTiming :: "cron_next \<Rightarrow> instant \<Rightarrow> ScheduleRecord \<Rightarrow> UpdateScheduleInput \<Rightarrow> ScheduleUpdatePatch \<Rightarrow>
    thrown + ScheduleUpdatePatch" where
  "updateTiming cronNext now existing i p =
     (let activate = (\<lambda>q. if sc_status existing = S_completed \<and> su_nextFireAt q \<noteq> Some None
                          then q\<lparr>su_status := Some S_active\<rparr> else q);
          timezone = (case ui_timezone i of Some (Some tz) \<Rightarrow> Some tz | _ \<Rightarrow> sc_timezone existing)
      in case (given (ui_runAt i), given (ui_every i), given (ui_cron i)) of
           (Some r, None, None) \<Rightarrow> Inr (activate (p\<lparr>su_runAt := Some (Some r), su_intervalMs := Some None,
             su_cron := Some None, su_nextFireAt := Some (Some r)\<rparr>))
         | (None, Some e, None) \<Rightarrow>
             (case parseEveryExpression e of
                Inl x \<Rightarrow> Inl x
              | Inr ms \<Rightarrow> map_sum id (\<lambda>n. activate (p\<lparr>su_runAt := Some None, su_intervalMs := Some (Some ms),
                  su_cron := Some None, su_nextFireAt := Some n\<rparr>))
                  (nextFireIso cronNext \<lparr>fr_cron = None, fr_intervalMs = Some ms, fr_timezone = timezone\<rparr> now))
         | (None, None, Some c) \<Rightarrow> map_sum id (\<lambda>n. activate (p\<lparr>su_runAt := Some None, su_intervalMs := Some None,
             su_cron := Some (Some c), su_nextFireAt := Some n\<rparr>))
             (nextFireIso cronNext \<lparr>fr_cron = Some c, fr_intervalMs = None, fr_timezone = timezone\<rparr> now)
         | _ \<Rightarrow> Inl (PlainError ''Schedule edit must define exactly one of runAt, every, or cron when changing time.''))"

definition buildScheduleUpdatePatch :: "cron_next \<Rightarrow> instant \<Rightarrow> ScheduleRecord \<Rightarrow> UpdateScheduleInput \<Rightarrow>
    thrown + ScheduleUpdatePatch" where
  "buildScheduleUpdatePatch cronNext now existing i =
     (case updateMetadata existing i of
        Inl e \<Rightarrow> Inl e
      | Inr metadata \<Rightarrow>
          let p = noSchedulePatch\<lparr>su_agentProfileId := ui_agentProfileId i, su_backoffBaseMs := ui_backoffBaseMs i,
                su_backoffMaxMs := ui_backoffMaxMs i, su_input := ui_input i, su_maxAttempts := ui_maxAttempts i,
                su_name := ui_name i, su_timezone := ui_timezone i, su_metadata := metadata,
                su_sessionId := updateSession existing i\<rparr>
          in if ui_runAt i \<noteq> Absent \<or> ui_every i \<noteq> Absent \<or> ui_cron i \<noteq> Absent
             then updateTiming cronNext now existing i p
             else case ui_timezone i of
                    None \<Rightarrow> Inr p
                  | Some tz \<Rightarrow>
                      if sc_runAt existing \<noteq> None then Inr p
                      else map_sum id (\<lambda>n. p\<lparr>su_nextFireAt := Some n\<rparr>)
                        (nextFireIso cronNext \<lparr>fr_cron = sc_cron existing, fr_intervalMs = sc_intervalMs existing,
                           fr_timezone = tz\<rparr> now))"

definition updateSchedule :: "cron_next \<Rightarrow> instant \<Rightarrow> instant \<Rightarrow> string \<Rightarrow> UpdateScheduleInput \<Rightarrow>
    ('m SchedWorld, ScheduleRecord) op" where
  "updateSchedule cronNext now updatedAt scheduleId i =
     bnd (requireSchedule scheduleId (Some ''edited'')) (\<lambda>existing.
     bnd (liftRes (buildScheduleUpdatePatch cronNext now existing i)) (\<lambda>patch.
     bnd (onSchedules (scheduleUpdate updatedAt scheduleId patch)) (\<lambda>s.
     bnd (schedTrace (scheduleEvent ''schedule_updated''
            [(''nextFireAt'', jinst (sc_nextFireAt s)), (''scheduleId'', JStr (sc_scheduleId s)),
             (''status'', JStr (scheduleStatusStr (sc_status s)))]
            (''Schedule '' @ sc_scheduleId s @ '' updated'') (sc_scheduleId s))) (\<lambda>_.
     ret s))))"

subsection \<open>Status\<close>

record ScheduleStatusSummary =
  ss_dueCount :: nat
  ss_lastRunAt :: "instant option"
  ss_nextFireAt :: "instant option"
  ss_runs :: "ScheduleRunStatus \<Rightarrow> nat"
  ss_schedules :: "ScheduleStatus \<Rightarrow> nat"

definition schedulerStatus :: "instant \<Rightarrow> 'm SchedWorld \<Rightarrow> ScheduleStatusSummary" where
  "schedulerStatus now w =
     (let schedules = scheduleList None None (sw_schedules w);
          runs = runList None (Some 10000) (sw_runs w);
          active = filter (\<lambda>s. sc_status s = S_active) schedules;
          fires = List.map_filter sc_nextFireAt active
      in \<lparr>ss_dueCount = length (filter (\<lambda>t. t \<le> now) fires),
          ss_lastRunAt = (case runs of [] \<Rightarrow> None | r # _ \<Rightarrow> Some (sr_scheduledAt r)),
          ss_nextFireAt = (case sort fires of [] \<Rightarrow> None | t # _ \<Rightarrow> Some t),
          ss_runs = (\<lambda>st. length (filter (\<lambda>r. sr_status r = st) runs)),
          ss_schedules = (\<lambda>st. length (filter (\<lambda>s. sc_status s = st) schedules))\<rparr>)"

subsection \<open>The run behind a task\<close>

definition resolveRunId :: "TaskRecord \<Rightarrow> schedule_runs \<Rightarrow> string option" where
  "resolveRunId task t =
     (let linked = (case runListByTaskId (tk_taskId task) t of [] \<Rightarrow> None | r # _ \<Rightarrow> Some (sr_runId r))
      in case readJsonObject (jget (tk_metadata task) ''scheduleRunContext'') of
           None \<Rightarrow> linked
         | Some context \<Rightarrow>
             (case jget context ''runId'' of
                Some (JStr i) \<Rightarrow> if i \<noteq> [] then Some i else linked
              | _ \<Rightarrow> linked))"

definition markResuming :: "TaskRecord \<Rightarrow> ('m SchedWorld, ScheduleRunRecord option) op" where
  "markResuming task =
     bnd (ask (\<lambda>w. resolveRunId task (sw_runs w))) (\<lambda>runId.
       case runId of
         None \<Rightarrow> ret None
       | Some i \<Rightarrow>
           bnd (ask (\<lambda>w. runFindById i (sw_runs w))) (\<lambda>existing.
             case existing of
               None \<Rightarrow> ret None
             | Some r \<Rightarrow>
                 if sr_status r \<noteq> R_waiting_approval then ret (Some r)
                 else bnd (onRuns (runUpdate i (noRunPatch\<lparr>ru_status := Some R_running,
                        ru_taskId := Some (Some (tk_taskId task)), ru_sessionId := Some (tk_sessionId task)\<rparr>)))
                      (\<lambda>x. ret (Some x))))"

fun mapTaskStatusToRunStatus :: "TaskStatus \<Rightarrow> ScheduleRunStatus" where
  "mapTaskStatusToRunStatus T_succeeded = R_completed"
| "mapTaskStatusToRunStatus T_failed = R_failed"
| "mapTaskStatusToRunStatus T_cancelled = R_cancelled"
| "mapTaskStatusToRunStatus T_waiting_approval = R_waiting_approval"
| "mapTaskStatusToRunStatus T_waiting_clarification = R_blocked"
| "mapTaskStatusToRunStatus _ = R_running"

definition syncRunFromTask :: "(string \<Rightarrow> ('m SchedWorld, unit) op) option \<Rightarrow> instant \<Rightarrow> TaskRecord \<Rightarrow>
    ('m SchedWorld, ScheduleRunRecord option) op" where
  "syncRunFromTask onCompleted now task =
     bnd (ask (\<lambda>w. resolveRunId task (sw_runs w))) (\<lambda>runId.
       case runId of
         None \<Rightarrow> ret None
       | Some i \<Rightarrow>
           bnd (ask (\<lambda>w. runFindById i (sw_runs w))) (\<lambda>found.
             case found of
               None \<Rightarrow> ret None
             | Some existing \<Rightarrow>
                 bnd (onRuns (runUpdate i (taskRunPatch now (mapTaskStatusToRunStatus (tk_status task)) task))) (\<lambda>nxt.
                 bnd (if sr_status existing \<noteq> R_completed \<and> sr_status nxt = R_completed
                      then (case onCompleted of None \<Rightarrow> ret () | Some f \<Rightarrow> f (sr_scheduleId nxt))
                      else ret ()) (\<lambda>_.
                 ret (Some nxt)))))"

text \<open>Both completion hooks of bootstrap.ts end in the handling of the remaining repeats.\<close>

definition onTaskCompleted :: "instant \<Rightarrow> instant \<Rightarrow> string \<Rightarrow> ('m SchedWorld, unit) op" where
  "onTaskCompleted now updatedAt scheduleId =
     bnd (ask (\<lambda>w. scheduleFindById scheduleId (sw_schedules w))) (\<lambda>s.
       case s of None \<Rightarrow> ret () | Some r \<Rightarrow> bnd (handleRepeatAfterSuccess now updatedAt r) (\<lambda>_. ret ()))"

definition onRunCompleted :: "instant \<Rightarrow> instant \<Rightarrow> ScheduleRecord \<Rightarrow> CompletedStatus \<Rightarrow> ('m SchedWorld, unit) op" where
  "onRunCompleted now updatedAt schedule status =
     (if status = RunCompleted then bnd (handleRepeatAfterSuccess now updatedAt schedule) (\<lambda>_. ret ()) else ret ())"

end
