(* ===== verification/ScheduleExec.thy ===== *)
theory ScheduleExec
  imports ScheduleOps
begin

section \<open>The executor of scheduled runs\<close>

text \<open>
  The functions src/src/runtime/bootstrap.ts passes to the job runner, with
  src/src/runtime/scheduler/schedule-skill-context.ts: the skills of a schedule are loaded and recorded, the
  prompt is scanned, the toolsets are checked, and the agent run is started in the schedule's session.
  The agent run (\<open>runTask\<close>) is an arbitrary operation on the scheduler's world; what the skill
  registry finds on disk, the toolsets of the registered tools and SHA-256 are arguments.
\<close>

record SkillViewLite =
  vw_body :: string
  vw_version :: string

record LoadedSkill =
  ls_skillId :: string
  ls_version :: string
  ls_hash :: string

definition buildScheduledTaskInput :: "(string \<Rightarrow> SkillViewLite option) \<Rightarrow> ScheduleRecord \<Rightarrow> string" where
  "buildScheduledTaskInput viewSkill schedule =
     (let skillIds = readScheduleSkills schedule
      in if skillIds = [] then sc_input schedule
         else joinWith [nl, nl] (map (\<lambda>i. ''## Skill '' @ i @ [nl] @
             (case viewSkill i of None \<Rightarrow> ''(unavailable)'' | Some view \<Rightarrow> vw_body view)) skillIds
           @ [sc_input schedule]))"

text \<open>The missing skills and the loaded ones, in the order of the schedule.\<close>

definition verifyScheduledSkills :: "(string \<Rightarrow> string) \<Rightarrow> (string \<Rightarrow> SkillViewLite option) \<Rightarrow> ScheduleRecord \<Rightarrow>
    string list \<times> LoadedSkill list" where
  "verifyScheduledSkills sha256 viewSkill schedule =
     (let skillIds = readScheduleSkills schedule
      in (filter (\<lambda>i. viewSkill i = None) skillIds,
          List.map_filter (\<lambda>i. map_option (\<lambda>view. \<lparr>ls_skillId = i, ls_version = vw_version view,
            ls_hash = sha256 (vw_body view)\<rparr>) (viewSkill i)) skillIds))"

definition loadedSkillJson :: "LoadedSkill \<Rightarrow> json" where
  "loadedSkillJson s = JObj [(''hash'', JStr (ls_hash s)), (''skillId'', JStr (ls_skillId s)),
     (''version'', JStr (ls_version s))]"

definition readDeliveryVerificationTargets :: "json_object \<Rightarrow> string list" where
  "readDeliveryVerificationTargets metadata =
     (case readArray (jget metadata ''deliveryTargets'') of
        Some ts \<Rightarrow> strings ts
      | None \<Rightarrow>
          (case readJsonObject (jget metadata ''delivery'') of
             None \<Rightarrow> [''inbox'']
           | Some delivery \<Rightarrow>
               (case readArray (jget delivery ''targets'') of Some ts \<Rightarrow> strings ts | None \<Rightarrow> [''inbox''])))"

definition assertScheduleToolsetsAvailable :: "string set \<Rightarrow> string list \<Rightarrow> thrown + unit" where
  "assertScheduleToolsetsAvailable registeredToolsets scheduleToolsets =
     (if scheduleToolsets = [] then Inr ()
      else let unavailable = filter (\<lambda>t. t \<notin> registeredToolsets) scheduleToolsets
           in if unavailable \<noteq> []
              then Inl (PlainError (''Scheduled run requested unavailable toolset(s): '' @ joinWith '', '' unavailable))
              else Inr ())"

subsection \<open>The run of a task\<close>

record ScheduledTaskRequest =
  rq_agentProfileId :: AgentProfileId
  rq_cwd :: string
  rq_maxIterations :: int
  rq_metadata :: json_object
  rq_taskInput :: string
  rq_sessionId :: "string option"
  rq_timeoutMs :: int
  rq_tokenBudget :: TokenBudget
  rq_userId :: string

record ScheduleExecConfig =
  xc_defaultMaxIterations :: int
  xc_defaultTimeoutMs :: int
  xc_tokenBudget :: TokenBudget

definition scheduledRequest :: "ScheduleExecConfig \<Rightarrow> ScheduleRecord \<Rightarrow> ScheduleRunRecord \<Rightarrow> string \<Rightarrow> ScheduledTaskRequest" where
  "scheduledRequest config schedule run taskInput =
     \<lparr>rq_agentProfileId = sc_agentProfileId schedule, rq_cwd = sc_cwd schedule,
      rq_maxIterations = xc_defaultMaxIterations config,
      rq_metadata = [(''scheduleRunContext'', JObj [(''disallowScheduleManagement'', JBool True),
          (''runId'', JStr (sr_runId run)), (''scheduleId'', JStr (sc_scheduleId schedule))])]
        @ (if jget (sc_metadata schedule) ''allowDelegate'' = Some (JBool True)
           then [(''allowDelegate'', JBool True)] else [])
        @ (if readScheduleToolsets schedule \<noteq> []
           then [(''scheduleToolsets'', JArr (map JStr (readScheduleToolsets schedule)))] else []),
      rq_taskInput = taskInput, rq_sessionId = resolveScheduleSessionId schedule,
      rq_timeoutMs = xc_defaultTimeoutMs config,
      rq_tokenBudget = (xc_tokenBudget config)\<lparr>tb_usedInput := 0, tb_usedOutput := 0, tb_usedCostUsd := Some 0\<rparr>,
      rq_userId = sc_ownerUserId schedule\<rparr>"

text \<open>The reaction to a failed agent run: a busy session puts the run back into the queue.\<close>

definition deferBusyRun :: "instant \<Rightarrow> ScheduleRecord \<Rightarrow> ScheduleRunRecord \<Rightarrow> thrown \<Rightarrow> ('m SchedWorld, 'a) op" where
  "deferBusyRun now schedule run e =
     (case toAppError e of (code, message, details) \<Rightarrow>
        if code = Session_busy then
          bnd (liftRes (dateIso (now + 30000))) (\<lambda>scheduledAt.
          bnd (onRuns (runUpdate (sr_runId run) (noRunPatch\<lparr>ru_errorMessage := Some (Some message),
                 ru_scheduledAt := Some scheduledAt, ru_status := Some R_queued\<rparr>))) (\<lambda>_.
          bnd (schedTrace (scheduleEvent ''schedule_run_skipped_overlap''
                 [(''activeRunId'', JStr (sr_runId run)), (''reason'', JStr ''scheduled''),
                  (''scheduleId'', JStr (sc_scheduleId schedule))]
                 (''Deferred schedule run '' @ sr_runId run @ '' because session is busy'')
                 (sc_scheduleId schedule))) (\<lambda>_.
          raise e)))
        else raise e)"

record 'm ExecutorDeps =
  xd_sha256 :: "string \<Rightarrow> string"
  xd_viewSkill :: "string \<Rightarrow> SkillViewLite option"
  xd_registeredToolsets :: "string set"
  xd_runTask :: "ScheduledTaskRequest \<Rightarrow> ('m SchedWorld, TaskRecord) op"
  xd_config :: ScheduleExecConfig

definition recordSkillContext :: "'m ExecutorDeps \<Rightarrow> ScheduleRecord \<Rightarrow> ScheduleRunRecord \<Rightarrow> ('m SchedWorld, unit) op" where
  "recordSkillContext xd schedule run =
     (case verifyScheduledSkills (xd_sha256 xd) (xd_viewSkill xd) schedule of (missingSkillIds, loadedSkills) \<Rightarrow>
        let missing = JArr (map JStr missingSkillIds); loaded = JArr (map loadedSkillJson loadedSkills)
        in bnd (onRuns (runUpdate (sr_runId run) (noRunPatch\<lparr>ru_metadata := Some
               (jput ''skillVerification'' (JObj [(''loadedSkills'', loaded), (''missingSkillIds'', missing)])
               (jput ''deliveryVerification'' (JObj [(''targets'',
                   JArr (map JStr (readDeliveryVerificationTargets (sc_metadata schedule))))])
               (sr_metadata run)))\<rparr>))) (\<lambda>_.
           schedTrace \<lparr>te_actor = ''scheduler'', te_eventType = ''skill_context_loaded'',
             te_payload = [(''loadedSkills'', loaded), (''missingSkillIds'', missing),
               (''runId'', JStr (sr_runId run)), (''scheduleId'', JStr (sc_scheduleId schedule))],
             te_stage = ''memory'',
             te_summary = ''Loaded '' @ showInt (int (length loadedSkills)) @ '' scheduled skill(s)'',
             te_taskId = scheduleTaskId (sc_scheduleId schedule)\<rparr>))"

definition executeScheduled :: "'m ExecutorDeps \<Rightarrow> instant \<Rightarrow> ScheduleRecord \<Rightarrow> ScheduleRunRecord \<Rightarrow>
    ('m SchedWorld, TaskRecord) op" where
  "executeScheduled xd now schedule run =
     bnd (recordSkillContext xd schedule run) (\<lambda>_.
     let missing = fst (verifyScheduledSkills (xd_sha256 xd) (xd_viewSkill xd) schedule)
     in if missing \<noteq> []
        then raise (PlainError (''Scheduled run missing required skill(s): '' @ joinWith '', '' missing))
        else
          let taskInput = buildScheduledTaskInput (xd_viewSkill xd) schedule
          in case scanCronSkillPrompt taskInput of
               Some i \<Rightarrow> raise (PlainError (guardReason i))
             | None \<Rightarrow>
                 bnd (liftRes (assertScheduleToolsetsAvailable (xd_registeredToolsets xd)
                        (readScheduleToolsets schedule))) (\<lambda>_.
                 tryCatch (xd_runTask xd (scheduledRequest (xd_config xd) schedule run taskInput))
                   (deferBusyRun now schedule run)))"

text \<open>The executor of a command without an agent; the command itself is an argument.\<close>

definition executeNoAgentScheduled ::
  "(ScheduleNoAgentConfig \<Rightarrow> string \<Rightarrow> ('m SchedWorld, NoAgentRunResult) op) \<Rightarrow> ScheduleRecord \<Rightarrow>
    ('m SchedWorld, NoAgentRunResult) op" where
  "executeNoAgentScheduled runNoAgentCommand schedule =
     (case readScheduleNoAgent schedule of
        None \<Rightarrow> raise (PlainError (''Schedule '' @ sc_scheduleId schedule @ '' is missing noAgent metadata.''))
      | Some noAgent \<Rightarrow> runNoAgentCommand noAgent (sc_cwd schedule))"

text \<open>The dependencies bootstrap.ts gives the job runner.\<close>

definition bootstrapJobRunner :: "'m ExecutorDeps \<Rightarrow>
    (ScheduleNoAgentConfig \<Rightarrow> string \<Rightarrow> ('m SchedWorld, NoAgentRunResult) op) \<Rightarrow> instant \<Rightarrow>
    'm JobRunnerDependencies" where
  "bootstrapJobRunner xd runNoAgentCommand now =
     \<lparr>jd_execute = executeScheduled xd now,
      jd_executeNoAgent = Some (\<lambda>schedule run. executeNoAgentScheduled runNoAgentCommand schedule),
      jd_onRunCompleted = Some (onRunCompleted now now)\<rparr>"

end
