(* ===== verification/RunHistory.thy ===== *)
theory RunHistory
  imports ScheduleExec
begin

section \<open>The history of scheduled runs\<close>

text \<open>
  The abstract machine behind the run table: runs are created queued or otherwise within the unique index,
  rewritten along their status machine, and claimed. Every operation of the scheduler, the job runner, the
  executor and the run lifecycle is a sequence of these steps (refinement), so what the steps keep holds
  of the whole subsystem, whatever the executors do between.
\<close>

inductive run_step :: "schedule_runs \<Rightarrow> schedule_runs \<Rightarrow> bool" where
  Create: "runCreate r t = (Inr r', t') \<Longrightarrow> run_step t t'"
| Update: "runUpdate i p t = (Inr r, t') \<Longrightarrow> run_step t t'"
| Claim: "runFindById i t = Some r \<Longrightarrow> sr_status r = R_queued \<Longrightarrow>
    run_step t (rowSet sr_runId i (r\<lparr>sr_status := R_running, sr_startedAt := Some now\<rparr>) t)"

abbreviation run_history :: "schedule_runs \<Rightarrow> schedule_runs \<Rightarrow> bool" where
  "run_history \<equiv> run_step\<^sup>*\<^sup>*"

inductive_cases run_stepE: "run_step t t'"

subsection \<open>What the steps keep\<close>

lemma run_step_wf: "run_step t t' \<Longrightarrow> runsWf t \<Longrightarrow> runsWf t'"
proof (induction rule: run_step.induct)
  case (Create r t r' t')
  then show ?case by (blast dest: runCreate_wf)
next
  case (Update i p t r t')
  then show ?case by (blast dest: runUpdate_wf)
next
  case (Claim i t r now)
  have "runActive r" using Claim(2) by (simp add: runActive_def ACTIVE_SCHEDULE_RUN_STATUSES_def)
  with runFindById_Some [OF Claim(1)] Claim(3) show ?case
    by (intro runsWf_rowSet runConflict_kept [of t r]) simp_all
qed

lemma run_history_wf: "run_history t t' \<Longrightarrow> runsWf t \<Longrightarrow> runsWf t'"
  by (induction rule: rtranclp_induct) (auto dest: run_step_wf)

text \<open>What identifies a run.\<close>

definition runKey :: "ScheduleRunRecord \<Rightarrow> string \<times> int \<times> ScheduleRunTrigger" where
  "runKey r = (sr_scheduleId r, sr_attemptNumber r, sr_trigger r)"

lemma run_step_row:
  "run_step t t' \<Longrightarrow> runFindById i t = Some r \<Longrightarrow>
    \<exists>r'. runFindById i t' = Some r' \<and> runKey r' = runKey r \<and> runMove (sr_status r) (sr_status r')"
proof (induction rule: run_step.induct)
  case (Create c t c' t')
  then show ?case by (auto simp: runCreate_run runFindById_append runMove_def split: if_splits)
next
  case (Update j p t u t')
  then show ?case
    by (auto simp: runUpdate_def Let_def runMove_def runKey_def split: option.splits if_splits)
next
  case (Claim j t c now)
  then have "sr_runId c = j" by (simp add: runFindById_Some)
  with Claim show ?case by (auto simp: runFindById_rowSet runMove_def runKey_def)
qed

lemma run_history_row:
  "run_history t t' \<Longrightarrow> runFindById i t = Some r \<Longrightarrow>
    \<exists>r'. runFindById i t' = Some r' \<and> runKey r' = runKey r \<and> runMove\<^sup>*\<^sup>* (sr_status r) (sr_status r')"
proof (induction rule: rtranclp_induct)
  case base
  then show ?case by blast
next
  case (step t1 t2)
  then obtain r1 where 1: "runFindById i t1 = Some r1" "runKey r1 = runKey r" "runMove\<^sup>*\<^sup>* (sr_status r) (sr_status r1)"
    by blast
  from run_step_row [OF step(2) 1(1)] 1 show ?case by (metis rtranclp.rtrancl_into_rtrancl)
qed

lemma runMove_terminal: "runMove\<^sup>*\<^sup>* a b \<Longrightarrow> isTerminalRunStatus a \<Longrightarrow> b = a"
  by (induction rule: rtranclp_induct) (auto simp: runMove_def isTerminalRunStatus_def)

subsection \<open>The operations are sequences of steps\<close>

lemma runCreate_history: "run_history t (snd (runCreate r t))"
proof (cases "runCreate r t")
  case (Pair res t')
  then show ?thesis
    by (cases res) (auto simp: runCreate_run intro!: r_into_rtranclp run_step.Create [of r] split: if_splits)
qed

lemma runUpdate_history: "run_history t (snd (runUpdate i p t))"
proof (cases "runUpdate i p t")
  case (Pair res t')
  then show ?thesis by (cases res) (auto dest: run_store.apply_error run_step.Update)
qed

lemma claimRows_history: "run_history t (snd (claimRows now ids t))"
proof (induction now ids t rule: claimRows.induct)
  case (1 now t)
  then show ?case by simp
next
  case (2 now i ids t)
  show ?case
  proof (cases "runFindById i t")
    case None
    with 2 show ?thesis by simp
  next
    case (Some r)
    show ?thesis
    proof (cases "sr_status r = R_queued")
      case True
      with "2.IH"(3) [OF Some _ refl] Some show ?thesis
        by (auto simp: Let_def case_prod_beta intro: converse_rtranclp_into_rtranclp run_step.Claim)
    next
      case False
      with "2.IH"(2) [OF Some] Some show ?thesis by simp
    qed
  qed
qed

lemma claimDue_history: "run_history t (snd (claimDue now limit t))"
  by (metis (no_types, lifting) claimDue_def claimRows_history prod.case_eq_if snd_conv)

interpretation runs: step_closed "\<lambda>w w'. run_history (sw_runs w) (sw_runs w')"
  by unfold_locales auto

lemma follows_onRuns [follows_intros]:
  assumes "\<And>t. run_history t (snd (m t))"
  shows "runs.follows (onRuns m)"
  using assms by (simp add: runs.follows_def onRuns_def zoom_def case_prod_beta)

lemma follows_onSchedules [follows_intros]: "runs.follows (onSchedules m)"
  by (simp add: runs.follows_def onSchedules_def zoom_def case_prod_beta)

lemma follows_world [follows_intros]:
  "runs.follows (schedTrace e)" "runs.follows (setTick b)" "runs.follows (setRetick b)"
  by (simp_all add: schedTrace_def setTick_def setRetick_def runs.follows_modify)

lemmas history_intros = runCreate_history runUpdate_history claimDue_history

subsection \<open>The job runner\<close>

text \<open>The executors of a job runner keep to the repository.\<close>

definition wellBehaved :: "'m JobRunnerDependencies \<Rightarrow> bool" where
  "wellBehaved jd \<longleftrightarrow> (\<forall>s r. runs.follows (jd_execute jd s r)) \<and>
     (case jd_executeNoAgent jd of None \<Rightarrow> True | Some f \<Rightarrow> \<forall>s r. runs.follows (f s r)) \<and>
     (case jd_onRunCompleted jd of None \<Rightarrow> True | Some f \<Rightarrow> \<forall>s c. runs.follows (f s c))"

lemma follows_enqueueRetry [follows_intros]: "runs.follows (enqueueRetryIfNeeded env s r)"
  unfolding enqueueRetryIfNeeded_def by (intro follows_intros history_intros)

lemma follows_notify [follows_intros]: "wellBehaved jd \<Longrightarrow> runs.follows (notifyCompleted jd s c)"
  by (auto simp: notifyCompleted_def wellBehaved_def intro!: follows_intros split: option.splits)

lemma follows_failRun [follows_intros]: "runs.follows (failRun env s r e)"
  unfolding failRun_def by (intro follows_intros history_intros)

lemma follows_executeAgentRun: "wellBehaved jd \<Longrightarrow> runs.follows (executeAgentRun jd env s r)"
  unfolding executeAgentRun_def Let_def
  by (intro follows_intros history_intros) (simp_all add: wellBehaved_def)

lemma follows_executeNoAgentRun:
  "wellBehaved jd \<Longrightarrow> jd_executeNoAgent jd = Some f \<Longrightarrow> runs.follows (executeNoAgentRun jd f env s r)"
  unfolding executeNoAgentRun_def Let_def
  by (intro follows_intros history_intros) (simp_all add: wellBehaved_def)

lemma follows_executeRun [follows_intros]:
  assumes "wellBehaved jd"
  shows "runs.follows (executeRun jd env s r)"
proof -
  have "runs.follows (case (readScheduleNoAgent s, jd_executeNoAgent jd) of
      (Some _, Some f) \<Rightarrow> executeNoAgentRun jd f env s r | _ \<Rightarrow> executeAgentRun jd env s r)"
    using assms follows_executeAgentRun follows_executeNoAgentRun by (auto split: option.splits)
  then show ?thesis unfolding executeRun_def by (intro follows_intros)
qed

lemma follows_processRun [follows_intros]: "wellBehaved jd \<Longrightarrow> runs.follows (processRun jd envs r)"
  unfolding processRun_def by (intro follows_intros history_intros)

lemma follows_drain [follows_intros]: "wellBehaved jd \<Longrightarrow> runs.follows (drain jd envs now limit)"
  unfolding drain_def by (intro follows_intros history_intros)

subsection \<open>The scheduler\<close>

lemma follows_records [follows_intros]:
  "runs.follows (recordRunEnqueued r)" "runs.follows (recordRunSkippedOverlap s a why)"
  "runs.follows (requireSchedule s msg)"
  unfolding recordRunEnqueued_def recordRunSkippedOverlap_def requireSchedule_def
  by (intro follows_intros; auto split: option.splits intro!: follows_intros)+

lemma follows_enqueueScheduledRun [follows_intros]:
  "runs.follows (enqueueScheduledRun cronNext uuid upd schedule now)"
  unfolding enqueueScheduledRun_def Let_def by (intro follows_intros history_intros)

lemma follows_tickSchedule [follows_intros]: "runs.follows (tickSchedule cronNext env now schedule)"
  unfolding tickSchedule_def by (intro follows_intros)

lemma follows_tickPass [follows_intros]: "wellBehaved jd \<Longrightarrow> runs.follows (tickPass cronNext jd env now)"
  unfolding tickPass_def by (intro follows_intros)

lemma follows_tickLoop [follows_intros]: "wellBehaved jd \<Longrightarrow> runs.follows (tickLoop cronNext jd envs now n)"
  by (induction n) (auto intro!: follows_intros)

lemma follows_tick: "wellBehaved jd \<Longrightarrow> runs.follows (tick cronNext jd envs now fuel)"
  unfolding tick_def by (intro follows_intros)

lemma follows_runNow: "runs.follows (runNow uuid now s)"
  unfolding runNow_def Let_def by (intro follows_intros history_intros)

lemma follows_handleRepeat [follows_intros]: "runs.follows (handleRepeatAfterSuccess now upd s)"
  unfolding handleRepeatAfterSuccess_def Let_def by (intro follows_intros)

lemma follows_completion [follows_intros]:
  "runs.follows (onTaskCompleted now upd s)" "runs.follows (onRunCompleted now upd sc c)"
  unfolding onTaskCompleted_def onRunCompleted_def by (intro follows_intros)+

lemma follows_markResuming: "runs.follows (markResuming task)"
  unfolding markResuming_def by (intro follows_intros history_intros)

lemma follows_syncRun:
  "(\<And>f s. onCompleted = Some f \<Longrightarrow> runs.follows (f s)) \<Longrightarrow> runs.follows (syncRunFromTask onCompleted now task)"
  by (cases onCompleted; simp only: syncRunFromTask_def option.case; intro follows_intros history_intros) simp

subsection \<open>The executor\<close>

lemma follows_executeScheduled:
  assumes "\<And>q. runs.follows (xd_runTask xd q)"
  shows "runs.follows (executeScheduled xd now schedule run)"
proof -
  have "runs.follows (recordSkillContext xd schedule run)"
    by (auto simp: recordSkillContext_def Let_def split: prod.splits intro!: follows_intros history_intros)
  moreover have "runs.follows (deferBusyRun now schedule run e)" for e :: thrown
    by (cases "toAppError e") (auto simp: deferBusyRun_def intro!: follows_intros history_intros)
  ultimately show ?thesis
    using assms unfolding executeScheduled_def Let_def by (intro follows_intros)
qed

lemma wellBehaved_bootstrap:
  assumes "\<And>q. runs.follows (xd_runTask xd q)" and "\<And>c d. runs.follows (cmd c d)"
  shows "wellBehaved (bootstrapJobRunner xd cmd now)"
  using assms
  by (auto simp: wellBehaved_def bootstrapJobRunner_def executeNoAgentScheduled_def
      intro!: follows_intros follows_executeScheduled split: option.splits)

end
