(* ===== verification/SchedulerProps.thy ===== *)
theory SchedulerProps
  imports RunHistory
begin

section \<open>Properties of the scheduler\<close>

text \<open>
  What the scheduler promises: at most one active run per schedule over any history of calls, claims in
  order of their due time, exact enqueueing, backoff of retries, the countdown of repeats and what an
  executed run may do; and three places where the code does not do what it means to.
\<close>

lemma onRuns_run [monad_simps]:
  "onRuns m w = (case m (sw_runs w) of (r, t) \<Rightarrow> (r, w\<lparr>sw_runs := t\<rparr>))"
  by (simp add: onRuns_def zoom_run)

lemma onSchedules_run [monad_simps]:
  "onSchedules m w = (case m (sw_schedules w) of (r, t) \<Rightarrow> (r, w\<lparr>sw_schedules := t\<rparr>))"
  by (simp add: onSchedules_def zoom_run)

lemma schedTrace_run [simp, monad_simps]: "schedTrace e w = (Inr (), w\<lparr>sw_trace := sw_trace w @ [e]\<rparr>)"
  by (simp add: schedTrace_def)

lemma scheduleEvent_type [simp]: "te_eventType (scheduleEvent t p s i) = t"
  by (simp add: scheduleEvent_def)

subsection \<open>A concrete schedule\<close>

definition sampleSchedule :: ScheduleRecord where
  "sampleSchedule = \<lparr>sc_scheduleId = ''s'', sc_name = ''n'', sc_status = S_active, sc_sessionId = None,
     sc_ownerUserId = ''u'', sc_cwd = ''/w'', sc_agentProfileId = Executor, sc_providerName = ''p'',
     sc_input = ''report'', sc_runAt = Some 0, sc_intervalMs = None, sc_cron = None, sc_timezone = None,
     sc_maxAttempts = 3, sc_backoffBaseMs = 5000, sc_backoffMaxMs = 300000, sc_nextFireAt = Some 0,
     sc_lastFireAt = None, sc_createdAt = 0, sc_updatedAt = 0, sc_metadata = []\<rparr>"

definition sampleWorld :: "schedules \<Rightarrow> schedule_runs \<Rightarrow> unit SchedWorld" where
  "sampleWorld ss rs = \<lparr>sw_schedules = ss, sw_runs = rs, sw_trace = [], sw_tickInProgress = False,
     sw_pendingRetick = False, sw_rest = ()\<rparr>"

definition noCron :: cron_next where
  "noCron c tz t = Inl NonError"

definition idleJobs :: "unit JobRunnerDependencies" where
  "idleJobs = \<lparr>jd_execute = (\<lambda>s r. ret (sampleTask T_succeeded)), jd_executeNoAgent = None,
     jd_onRunCompleted = None\<rparr>"

lemma idleJobs_wellBehaved: "wellBehaved idleJobs"
  by (simp add: wellBehaved_def idleJobs_def runs.follows_pure)

definition sampleRun :: "string \<Rightarrow> ScheduleRunStatus \<Rightarrow> ScheduleRunRecord" where
  "sampleRun i st = (queuedRun i ''s'' 1 0 Scheduled)\<lparr>sr_status := st\<rparr>"

definition repeating :: ScheduleRecord where
  "repeating = sampleSchedule\<lparr>sc_status := S_archived, sc_metadata := [(''repeatRemaining'', JNum 3)]\<rparr>"

subsection \<open>Any history of calls\<close>

text \<open>The calls other parts make to the scheduler and to the lifecycle of runs.\<close>

datatype SchedCall =
    CTick "nat \<Rightarrow> PassEnv" instant nat
  | CRunNow string instant string
  | CCreate string instant CreateScheduleInput
  | CUpdate instant string UpdateScheduleInput
  | CPause instant string
  | CResume instant string
  | CArchive instant string
  | CMarkResuming TaskRecord
  | CSyncRun instant TaskRecord

definition ignore :: "('w, 'a) op \<Rightarrow> ('w, unit) op" where
  "ignore m = bnd m (\<lambda>_. ret ())"

fun perform :: "cron_next \<Rightarrow> 'm JobRunnerDependencies \<Rightarrow> SchedCall \<Rightarrow> ('m SchedWorld, unit) op" where
  "perform cn jd (CTick envs now fuel) = ignore (tick cn jd envs now fuel)"
| "perform cn jd (CRunNow uuid now i) = ignore (runNow uuid now i)"
| "perform cn jd (CCreate uuid now input) = ignore (createSchedule cn uuid now now input)"
| "perform cn jd (CUpdate now i input) = ignore (updateSchedule cn now now i input)"
| "perform cn jd (CPause now i) = ignore (pauseSchedule now i)"
| "perform cn jd (CResume now i) = ignore (resumeSchedule cn now now i)"
| "perform cn jd (CArchive now i) = ignore (archiveSchedule now i)"
| "perform cn jd (CMarkResuming task) = ignore (markResuming task)"
| "perform cn jd (CSyncRun now task) = ignore (syncRunFromTask (Some (onTaskCompleted now now)) now task)"

definition performAll :: "cron_next \<Rightarrow> 'm JobRunnerDependencies \<Rightarrow> SchedCall list \<Rightarrow> 'm SchedWorld \<Rightarrow> 'm SchedWorld" where
  "performAll cn jd cs w = fold (\<lambda>c w. snd (perform cn jd c w)) cs w"

lemma follows_perform:
  assumes "wellBehaved jd"
  shows "runs.follows (perform cn jd c)"
proof (cases c)
  case (CCreate uuid now input)
  then show ?thesis
    by (auto simp: ignore_def createSchedule_def intro!: follows_intros split: sum.splits)
qed (auto simp: assms ignore_def updateSchedule_def pauseSchedule_def resumeSchedule_def archiveSchedule_def
    intro!: follows_intros follows_tick follows_runNow follows_markResuming follows_syncRun)

lemma performAll_history:
  assumes "wellBehaved jd"
  shows "run_history (sw_runs w) (sw_runs (performAll cn jd cs w))"
  unfolding performAll_def
proof (induction cs arbitrary: w)
  case Nil
  then show ?case by simp
next
  case (Cons c cs)
  obtain r w1 where 1: "perform cn jd c w = (r, w1)" by (cases "perform cn jd c w")
  with follows_perform [OF assms] have "run_history (sw_runs w) (sw_runs w1)" by (metis runs.followsD)
  with Cons.IH [of w1] 1 show ?case by simp
qed

text \<open>
  C11: whatever sequence of calls reaches the scheduler (ticks with the retries they schedule, manual runs,
  edits, resumed and finished tasks), no two active runs of one schedule ever coexist, no run disappears
  or changes its schedule, attempt or trigger, and its status moves only along the transition table, so
  a completed, failed or cancelled run stays as it is. The executors of runs may do anything that goes
  through the run repository.
\<close>

theorem scheduler_history:
  assumes "wellBehaved jd" and "runsWf (sw_runs w)"
  shows "let t = sw_runs w; t' = sw_runs (performAll cn jd cs w)
    in (\<forall>x\<in>set t'. \<forall>y\<in>set t'. runActive x \<and> runActive y \<and> sr_scheduleId x = sr_scheduleId y \<longrightarrow> x = y) \<and>
       (\<forall>i r. runFindById i t = Some r \<longrightarrow>
         (\<exists>r'. runFindById i t' = Some r' \<and> sr_scheduleId r' = sr_scheduleId r \<and>
            sr_attemptNumber r' = sr_attemptNumber r \<and> sr_trigger r' = sr_trigger r \<and>
            (\<lambda>a b. b \<in> set (SCHEDULE_RUN_STATUS_TRANSITIONS a))\<^sup>*\<^sup>* (sr_status r) (sr_status r') \<and>
            (isTerminalRunStatus (sr_status r) \<longrightarrow> sr_status r' = sr_status r)))"
proof -
  let ?t = "sw_runs w" and ?t' = "sw_runs (performAll cn jd cs w)"
  have h: "run_history ?t ?t'" by (rule performAll_history [OF assms(1)])
  have wf: "runsWf ?t'" using run_history_wf [OF h assms(2)] .
  have "x = y" if "x \<in> set ?t'" "y \<in> set ?t'" "runActive x" "runActive y" "sr_scheduleId x = sr_scheduleId y" for x y
  proof -
    have "sr_runId x = sr_runId y" using wf that by (auto simp: runsWf_def dest: oneActiveD)
    with wf that show ?thesis by (metis option.inject rowFind_mem runsWf_def)
  qed
  moreover have "\<exists>r'. runFindById i ?t' = Some r' \<and> sr_scheduleId r' = sr_scheduleId r \<and>
      sr_attemptNumber r' = sr_attemptNumber r \<and> sr_trigger r' = sr_trigger r \<and>
      (\<lambda>a b. b \<in> set (SCHEDULE_RUN_STATUS_TRANSITIONS a))\<^sup>*\<^sup>* (sr_status r) (sr_status r') \<and>
      (isTerminalRunStatus (sr_status r) \<longrightarrow> sr_status r' = sr_status r)"
    if "runFindById i ?t = Some r" for i r
  proof -
    from run_history_row [OF h that] obtain r' where r': "runFindById i ?t' = Some r'"
      "runKey r' = runKey r" and m: "runMove\<^sup>*\<^sup>* (sr_status r) (sr_status r')" by blast
    from m have "(\<lambda>a b. b \<in> set (SCHEDULE_RUN_STATUS_TRANSITIONS a))\<^sup>*\<^sup>* (sr_status r) (sr_status r')"
    proof (induction rule: rtranclp_induct)
      case (step b c)
      then show ?case by (auto simp: runMove_def intro: rtranclp.rtrancl_into_rtrancl)
    qed simp
    with r' runMove_terminal [OF m] show ?thesis by (auto simp: runKey_def)
  qed
  ultimately show ?thesis unfolding Let_def by blast
qed

theorem scheduler_history_witness:
  "let t' = sw_runs (performAll noCron idleJobs [CRunNow ''c'' 5 ''s'', CArchive 6 ''s'']
         (sampleWorld [sampleSchedule] [sampleRun ''a'' R_completed, sampleRun ''b'' R_running]))
   in (\<forall>x\<in>set t'. \<forall>y\<in>set t'. runActive x \<and> runActive y \<and> sr_scheduleId x = sr_scheduleId y \<longrightarrow> x = y) \<and>
      (\<exists>r'. runFindById ''a'' t' = Some r' \<and> sr_status r' = R_completed)"
proof -
  let ?w = "sampleWorld [sampleSchedule] [sampleRun ''a'' R_completed, sampleRun ''b'' R_running]"
  have wf: "runsWf (sw_runs ?w)"
    by (simp add: runsWf_def pkOk_def oneActive_def sampleWorld_def sampleRun_def queuedRun_def runActive_def
        ACTIVE_SCHEDULE_RUN_STATUSES_def)
  have a: "runFindById ''a'' (sw_runs ?w) = Some (sampleRun ''a'' R_completed)"
    by (simp add: sampleWorld_def runFindById_def sampleRun_def queuedRun_def)
  have t: "sr_status (sampleRun ''a'' R_completed) = R_completed" "isTerminalRunStatus R_completed"
    by (simp_all add: sampleRun_def isTerminalRunStatus_def)
  note th = scheduler_history [OF idleJobs_wellBehaved wf, of noCron "[CRunNow ''c'' 5 ''s'', CArchive 6 ''s'']",
      unfolded Let_def]
  from th [THEN conjunct2, rule_format, OF a] t
  have "\<exists>r'. runFindById ''a'' (sw_runs (performAll noCron idleJobs [CRunNow ''c'' 5 ''s'', CArchive 6 ''s''] ?w)) =
      Some r' \<and> sr_status r' = R_completed" by metis
  with th [THEN conjunct1] show ?thesis unfolding Let_def by (rule conjI)
qed

subsection \<open>Enqueueing\<close>

lemma scheduleUpdate_run:
  "scheduleFindById i t = Some r \<Longrightarrow>
    scheduleUpdate now i p t = (Inr (schedulePatch now p r), rowSet sc_scheduleId i (schedulePatch now p r) t)"
  by (simp add: scheduleUpdate_def)

lemma readRepeat_positive: "readRepeatRemaining s = Some n \<Longrightarrow> n > 0"
  by (auto simp: readRepeatRemaining_def split: option.splits json.splits if_splits)

lemma onRuns_ok: "m (sw_runs w) = (Inr x, t) \<Longrightarrow> onRuns m w = (Inr x, w\<lparr>sw_runs := t\<rparr>)"
  by (simp add: onRuns_run)

lemma onRuns_err: "m (sw_runs w) = (Inl e, t) \<Longrightarrow> onRuns m w = (Inl e, w\<lparr>sw_runs := t\<rparr>)"
  by (simp add: onRuns_run)

lemma onSchedules_ok: "m (sw_schedules w) = (Inr x, t) \<Longrightarrow> onSchedules m w = (Inr x, w\<lparr>sw_schedules := t\<rparr>)"
  by (simp add: onSchedules_run)

text \<open>
  C20: a due schedule whose previous run is still active is left alone but for a note in the trace. Otherwise
  one queued run is appended, with the attempt number after that of the latest run, and the schedule's
  next fire instant is recomputed; a schedule without one is completed unless repeats are left.
\<close>

theorem tick_enqueues_or_skips:
  assumes s: "scheduleFindById (sc_scheduleId s) (sw_schedules w) = Some s" and a: "sc_status s = S_active"
    and fresh: "uuid \<notin> sr_runId ` set (sw_runs w)"
    and next_: "nextFireIso cronNext (fireRule s) now = Inr nextFire"
    and env: "env (sc_scheduleId s) = (uuid, upd)"
  shows "tickSchedule cronNext env now s w =
    (case findActiveByScheduleId (sc_scheduleId s) (sw_runs w) of
       Some r \<Rightarrow> (Inr (), w\<lparr>sw_trace := sw_trace w @ [scheduleEvent ''schedule_run_skipped_overlap''
         [(''activeRunId'', JStr (sr_runId r)), (''reason'', JStr ''scheduled''),
          (''scheduleId'', JStr (sc_scheduleId s))]
         (''Skipped schedule '' @ sc_scheduleId s @ '' enqueue because run '' @ sr_runId r @ '' is still active'')
         (sc_scheduleId s)]\<rparr>)
     | None \<Rightarrow>
         let run = queuedRun uuid (sc_scheduleId s) (nextAttempt (sc_scheduleId s) (sw_runs w)) now Scheduled
         in (Inr (), w\<lparr>sw_runs := sw_runs w @ [run],
              sw_schedules := rowSet sc_scheduleId (sc_scheduleId s)
                (s\<lparr>sc_status := (if nextFire = None \<and> readRepeatRemaining s = None then S_completed else S_active),
                   sc_nextFireAt := nextFire, sc_lastFireAt := Some now, sc_updatedAt := upd\<rparr>) (sw_schedules w),
              sw_trace := sw_trace w @ [scheduleEvent ''schedule_run_enqueued''
                [(''attemptNumber'', JNum (sr_attemptNumber run)), (''runId'', JStr uuid),
                 (''scheduledAt'', JNum now), (''scheduleId'', JStr (sc_scheduleId s)),
                 (''trigger'', JStr ''scheduled'')]
                (''Schedule run '' @ uuid @ '' enqueued'') (sc_scheduleId s)]\<rparr>))"
proof (cases "findActiveByScheduleId (sc_scheduleId s) (sw_runs w)")
  case (Some r)
  then show ?thesis by (simp add: tickSchedule_def recordRunSkippedOverlap_def bnd_run)
next
  case None
  let ?run = "queuedRun uuid (sc_scheduleId s) (nextAttempt (sc_scheduleId s) (sw_runs w)) now Scheduled"
  have nc: "\<not> runConflict (sw_runs w) ?run"
    using None by (intro findActive_conflict) (simp add: queuedRun_def)
  have id: "sr_runId ?run = uuid" "sr_scheduledAt ?run = now" "sr_scheduleId ?run = sc_scheduleId s"
    "sr_trigger ?run = Scheduled" by (simp_all add: queuedRun_def)
  have c: "runCreate ?run (sw_runs w) = (Inr ?run, sw_runs w @ [?run])"
    using nc fresh id by (simp add: runCreate_run)
  let ?left = "case readRepeatRemaining s of None \<Rightarrow> False | Some n \<Rightarrow> n > 0"
  let ?st = "if nextFire \<noteq> None then sc_status s else if ?left then S_active else S_completed"
  have left: "?left \<longleftrightarrow> readRepeatRemaining s \<noteq> None"
    by (cases "readRepeatRemaining s") (auto dest: readRepeat_positive)
  have st: "?st = (if nextFire = None \<and> readRepeatRemaining s = None then S_completed else S_active)"
    using a left by auto
  have "enqueueScheduledRun cronNext uuid upd s now w = (Inr ?run, w\<lparr>sw_runs := sw_runs w @ [?run],
      sw_schedules := rowSet sc_scheduleId (sc_scheduleId s)
        (schedulePatch upd (noSchedulePatch\<lparr>su_lastFireAt := Some (Some now), su_nextFireAt := Some nextFire,
           su_status := Some ?st\<rparr>) s) (sw_schedules w),
      sw_trace := sw_trace w @ [scheduleEvent ''schedule_run_enqueued''
        [(''attemptNumber'', JNum (sr_attemptNumber ?run)), (''runId'', JStr uuid),
         (''scheduledAt'', JNum now), (''scheduleId'', JStr (sc_scheduleId s)), (''trigger'', JStr ''scheduled'')]
        (''Schedule run '' @ uuid @ '' enqueued'') (sc_scheduleId s)]\<rparr>)"
    using s c next_
    by (simp add: enqueueScheduledRun_def bnd_run onRuns_ok onSchedules_ok scheduleUpdate_run Let_def
        recordRunEnqueued_def id)
  then show ?thesis unfolding st
    using None env by (simp add: tickSchedule_def bnd_run tryCatch_run Let_def schedulePatch_def noSchedulePatch_def
        patched_def)
qed

theorem tick_enqueues_or_skips_witness:
  "let w = sampleWorld [sampleSchedule] [sampleRun ''a'' R_completed];
       w' = snd (tickSchedule noCron (\<lambda>_. (''b'', 7)) 5 sampleSchedule w)
   in map sr_status (sw_runs w') = [R_completed, R_queued] \<and> map sc_status (sw_schedules w') = [S_completed]"
proof -
  let ?w = "sampleWorld [sampleSchedule] [sampleRun ''a'' R_completed]"
  have f: "findActiveByScheduleId (sc_scheduleId sampleSchedule) (sw_runs ?w) = None"
    by (simp add: findActive_None sampleWorld_def sampleRun_def queuedRun_def runActive_def
        ACTIVE_SCHEDULE_RUN_STATUSES_def)
  have r: "readRepeatRemaining sampleSchedule = None"
    by (simp add: readRepeatRemaining_def sampleSchedule_def)
  have p: "scheduleFindById (sc_scheduleId sampleSchedule) (sw_schedules ?w) = Some sampleSchedule"
    "sc_status sampleSchedule = S_active" "''b'' \<notin> sr_runId ` set (sw_runs ?w)"
    "nextFireIso noCron (fireRule sampleSchedule) 5 = Inr None"
    by (simp_all add: sampleWorld_def sampleSchedule_def scheduleFindById_def sampleRun_def queuedRun_def
          nextFireIso_def computeNextFireAt_def fireRule_def)
  from tick_enqueues_or_skips [OF p, of "\<lambda>_. (''b'', 7)" 7] show ?thesis
    by (simp add: f r Let_def) (simp add: sampleWorld_def sampleSchedule_def sampleRun_def queuedRun_def rowSet_def)
qed

subsection \<open>Retries\<close>

lemma retryDelay_bounds:
  assumes "0 \<le> sc_backoffBaseMs s" and "0 \<le> sc_backoffMaxMs s"
  shows "0 \<le> retryDelay s n" and "retryDelay s n \<le> sc_backoffMaxMs s"
  using assms by (simp_all add: retryDelay_def)

lemma retryDelay_doubles:
  assumes "1 \<le> n"
  shows "retryDelay s (n + 1) = min (2 * (sc_backoffBaseMs s * 2 ^ nat (n - 1))) (sc_backoffMaxMs s)"
proof -
  have "nat n = Suc (nat (n - 1))" using assms by simp
  then show ?thesis using assms by (simp add: retryDelay_def)
qed

text \<open>
  A failed run whose attempt number has reached the schedule's limit is not retried and nothing
  changes. Below the limit exactly one run with the next attempt number is queued, due after the base
  delay doubled for each earlier attempt and capped at the maximum.
\<close>

theorem retry_backoff:
  assumes fresh: "uuid \<notin> sr_runId ` set (sw_runs w)"
    and idle: "findActiveByScheduleId (sr_scheduleId r) (sw_runs w) = None"
    and env: "re_retryUuid env = uuid"
    and inrange: "validTime (re_retryNow env + min (sc_backoffBaseMs s * 2 ^ nat (sr_attemptNumber r - 1)) (sc_backoffMaxMs s))"
    and "1 \<le> sr_attemptNumber r"
  shows "let out = enqueueRetryIfNeeded env s r w;
             retry = queuedRun uuid (sr_scheduleId r) (sr_attemptNumber r + 1) (re_retryNow env +
               min (sc_backoffBaseMs s * 2 ^ nat (sr_attemptNumber r - 1)) (sc_backoffMaxMs s)) Retry
    in if sr_attemptNumber r \<ge> sc_maxAttempts s then out = (Inr None, w)
       else fst out = Inr (Some retry) \<and> sw_runs (snd out) = sw_runs w @ [retry] \<and>
         sw_schedules (snd out) = sw_schedules w"
proof (cases "sr_attemptNumber r \<ge> sc_maxAttempts s")
  case True
  then show ?thesis by (simp add: enqueueRetryIfNeeded_def planRetry_def bnd_run)
next
  case False
  let ?d = "retryDelay s (sr_attemptNumber r)"
  have d: "?d = min (sc_backoffBaseMs s * 2 ^ nat (sr_attemptNumber r - 1)) (sc_backoffMaxMs s)"
    using assms(5) by (simp add: retryDelay_def)
  let ?q = "queuedRun uuid (sr_scheduleId r) (sr_attemptNumber r + 1) (re_retryNow env + ?d) Retry"
  have p: "planRetry (re_retryNow env) s (sr_attemptNumber r) =
      Inr (Some \<lparr>rt_delayMs = ?d, rt_retryAt = re_retryNow env + ?d\<rparr>)"
    using False inrange by (simp add: planRetry_def dateIso_def d Let_def)
  have "\<not> runConflict (sw_runs w) ?q" using idle by (intro findActive_conflict) (simp add: queuedRun_def)
  then have c: "runCreate ?q (sw_runs w) = (Inr ?q, sw_runs w @ [?q])"
    using fresh by (simp add: runCreate_run queuedRun_def)
  have o: "onRuns (runCreate ?q) w = (Inr ?q, w\<lparr>sw_runs := sw_runs w @ [?q]\<rparr>)" using c by (rule onRuns_ok)
  show ?thesis using False env unfolding Let_def d [symmetric]
    by (simp add: enqueueRetryIfNeeded_def p bnd_run o)
qed

theorem retry_backoff_witness:
  "sw_runs (snd (enqueueRetryIfNeeded \<lparr>re_finishedAt = 0, re_failedAt = 0, re_retryNow = 100, re_retryUuid = ''b''\<rparr>
      sampleSchedule ((sampleRun ''a'' R_failed)\<lparr>sr_attemptNumber := 2\<rparr>)
      (sampleWorld [sampleSchedule] [(sampleRun ''a'' R_failed)\<lparr>sr_attemptNumber := 2\<rparr>]))) =
   [(sampleRun ''a'' R_failed)\<lparr>sr_attemptNumber := 2\<rparr>, queuedRun ''b'' ''s'' 3 10100 Retry]"
proof -
  let ?r = "(sampleRun ''a'' R_failed)\<lparr>sr_attemptNumber := 2\<rparr>"
  let ?env = "\<lparr>re_finishedAt = 0, re_failedAt = 0, re_retryNow = 100, re_retryUuid = ''b''\<rparr>"
  have n: "sr_attemptNumber ?r = 2" "sr_scheduleId ?r = ''s''" by (simp_all add: sampleRun_def queuedRun_def)
  have th: "let out = enqueueRetryIfNeeded ?env sampleSchedule ?r (sampleWorld [sampleSchedule] [?r]);
       retry = queuedRun ''b'' (sr_scheduleId ?r) (sr_attemptNumber ?r + 1) (re_retryNow ?env +
         min (sc_backoffBaseMs sampleSchedule * 2 ^ nat (sr_attemptNumber ?r - 1)) (sc_backoffMaxMs sampleSchedule)) Retry
    in if sr_attemptNumber ?r \<ge> sc_maxAttempts sampleSchedule then out = (Inr None, sampleWorld [sampleSchedule] [?r])
       else fst out = Inr (Some retry) \<and> sw_runs (snd out) = sw_runs (sampleWorld [sampleSchedule] [?r]) @ [retry] \<and>
         sw_schedules (snd out) = sw_schedules (sampleWorld [sampleSchedule] [?r])"
    by (rule retry_backoff)
       (simp_all add: sampleWorld_def sampleRun_def queuedRun_def findActive_None runActive_def
          ACTIVE_SCHEDULE_RUN_STATUSES_def sampleSchedule_def validTime_def MAX_TIME_def)
  have v: "sc_maxAttempts sampleSchedule = 3" "sc_backoffBaseMs sampleSchedule = 5000"
    "sc_backoffMaxMs sampleSchedule = 300000" by (simp_all add: sampleSchedule_def)
  show ?thesis using th unfolding n v Let_def by (simp add: sampleWorld_def)
qed

text \<open>
  Attempt numbers count all earlier runs of a schedule, not the tries of one fire. Once the latest
  run of a schedule carries at least the last permitted attempt number, a run that a later fire enqueues
  is never retried when it fails, so after a few fires a recurring schedule has no retries left.
\<close>

theorem retries_exhausted_by_fires:
  assumes latest: "runListByScheduleId (sc_scheduleId s) None (Some 1) (sw_runs w) = [r]"
    and late: "sc_maxAttempts s \<le> sr_attemptNumber r + 1"
    and enq: "enqueueScheduledRun cronNext uuid upd s now w = (Inr run, w1)"
    and failed: "sr_attemptNumber failed = sr_attemptNumber run"
  shows "enqueueRetryIfNeeded env s failed w2 = (Inr None, w2)"
proof -
  have "sr_attemptNumber run = nextAttempt (sc_scheduleId s) (sw_runs w)"
    using enq
    by (auto simp: enqueueScheduledRun_def onRuns_run runCreate_run queuedRun_def Let_def elim!: bnd_InrE
        split: if_splits prod.splits)
  then show ?thesis using latest late failed by (simp add: nextAttempt_def enqueueRetryIfNeeded_def planRetry_def bnd_run)
qed

theorem retries_exhausted_by_fires_witness:
  "\<forall>w2. let s = sampleSchedule;
       w = sampleWorld [s] [sampleRun ''a'' R_completed\<lparr>sr_attemptNumber := 2\<rparr>];
       run = queuedRun ''b'' ''s'' 3 9 Scheduled
   in fst (enqueueScheduledRun noCron ''b'' 9 s 9 w) = Inr run \<and>
      enqueueRetryIfNeeded \<lparr>re_finishedAt = 0, re_failedAt = 0, re_retryNow = 9, re_retryUuid = ''c''\<rparr> s
        (run\<lparr>sr_status := R_failed\<rparr>) (w2 :: unit SchedWorld) = (Inr None, w2)"
proof (rule allI)
  fix w2 :: "unit SchedWorld"
  let ?r = "sampleRun ''a'' R_completed\<lparr>sr_attemptNumber := 2\<rparr>"
  let ?w = "sampleWorld [sampleSchedule] [?r]" and ?run = "queuedRun ''b'' ''s'' 3 9 Scheduled"
  have l: "runListByScheduleId (sc_scheduleId sampleSchedule) None (Some 1) (sw_runs ?w) = [?r]"
    by (simp add: runListByScheduleId_def sampleWorld_def sampleRun_def queuedRun_def limitTo_def newestFirst_def
        orderDesc_def sampleSchedule_def)
  have c: "runCreate ?run (sw_runs ?w) = (Inr ?run, sw_runs ?w @ [?run])"
    by (simp add: runCreate_run sampleWorld_def sampleRun_def queuedRun_def runConflict_def runActive_def
        ACTIVE_SCHEDULE_RUN_STATUSES_def)
  have n: "nextAttempt ''s'' (sw_runs ?w) = 3" "sc_scheduleId sampleSchedule = ''s''"
    using l by (simp_all add: nextAttempt_def sampleSchedule_def)
  have f: "nextFireIso noCron (fireRule sampleSchedule) 9 = Inr None"
    by (simp add: nextFireIso_def fireRule_def sampleSchedule_def computeNextFireAt_def)
  have u: "scheduleFindById ''s'' (sw_schedules ?w) = Some sampleSchedule"
    by (simp add: scheduleFindById_def sampleWorld_def sampleSchedule_def)
  obtain w1 where e: "enqueueScheduledRun noCron ''b'' 9 sampleSchedule 9 ?w = (Inr ?run, w1)"
    by (simp add: enqueueScheduledRun_def bnd_run n onRuns_run c f Let_def onSchedules_run scheduleUpdate_run [OF u]
        recordRunEnqueued_def)
  have "sc_maxAttempts sampleSchedule \<le> sr_attemptNumber ?r + 1" by (simp add: sampleSchedule_def)
  from retries_exhausted_by_fires [OF l this e, of "?run\<lparr>sr_status := R_failed\<rparr>"] e
  show "let s = sampleSchedule; w = sampleWorld [s] [?r]; run = ?run
    in fst (enqueueScheduledRun noCron ''b'' 9 s 9 w) = Inr run \<and>
      enqueueRetryIfNeeded \<lparr>re_finishedAt = 0, re_failedAt = 0, re_retryNow = 9, re_retryUuid = ''c''\<rparr> s
        (run\<lparr>sr_status := R_failed\<rparr>) w2 = (Inr None, w2)"
    by (simp add: Let_def)
qed

subsection \<open>A busy session\<close>

lemma enqueueRetry_find:
  assumes "enqueueRetryIfNeeded env s r w = (res, w')" and "runFindById i (sw_runs w) = Some x"
  shows "runFindById i (sw_runs w') = Some x"
  using assms
  by (auto simp: enqueueRetryIfNeeded_def onRuns_run runCreate_run runFindById_append elim!: bnd_cases
      split: option.splits if_splits prod.splits)

text \<open>A move from running back to queued is refused by the table.\<close>

lemma deferBusyRun_refused:
  assumes wf: "runsWf (sw_runs w)" and row: "runFindById (sr_runId run) (sw_runs w) = Some row"
    and st: "sr_status row = R_running" and "validTime (now + 30000)"
  shows "deferBusyRun now s run (AppError Session_busy m d) w =
    (Inl (PlainError ''Invalid schedule run transition: running -> queued.''), w)"
proof -
  have u: "onRuns (runUpdate (sr_runId run) (noRunPatch\<lparr>ru_errorMessage := Some (Some m),
      ru_scheduledAt := Some (now + 30000), ru_status := Some R_queued\<rparr>)) w =
      (Inl (PlainError ''Invalid schedule run transition: running -> queued.''), w)"
    using row st by (simp add: onRuns_run runUpdate_run [OF wf] runMove_def)
  show ?thesis using assms(4) by (simp add: deferBusyRun_def dateIso_def bnd_run u)
qed

lemma failRun_row:
  assumes wf: "runsWf (sw_runs w)" and row: "runFindById (sr_runId run) (sw_runs w) = Some row"
    and st: "sr_status row = R_running" and run: "failRun env s run e w = (res, w')"
  shows "\<exists>r'. runFindById (sr_runId run) (sw_runs w') = Some r' \<and> sr_status r' = R_failed \<and>
    sr_errorMessage r' = Some (runErrorMessage e)"
proof -
  let ?p = "noRunPatch\<lparr>ru_errorMessage := Some (Some (runErrorMessage e)),
    ru_finishedAt := Some (Some (re_failedAt env)), ru_status := Some R_failed\<rparr>"
  let ?w1 = "w\<lparr>sw_runs := rowSet sr_runId (sr_runId run) (runPatch ?p row) (sw_runs w)\<rparr>"
  have u: "onRuns (runUpdate (sr_runId run) ?p) w = (Inr (runPatch ?p row), ?w1)"
    using row st by (simp add: onRuns_run runUpdate_run [OF wf] runMove_def)
  have f: "runFindById (sr_runId run) (sw_runs ?w1) = Some (runPatch ?p row)"
    using row by simp
  obtain res2 w2 where r: "enqueueRetryIfNeeded env s (runPatch ?p row) ?w1 = (res2, w2)" by fastforce
  from run have "sw_runs w' = sw_runs w2"
    by (cases res2) (auto simp: failRun_def bnd_run u r)
  with enqueueRetry_find [OF r f] show ?thesis by (simp add: runPatch_def noRunPatch_def)
qed

text \<open>
  When the session of a schedule is busy the executor asks for the run to be queued again in thirty
  seconds. The transition table has no move from running to queued, so the request throws and the run
  ends failed, with the refused transition as its error instead of the busy session.
\<close>

theorem busy_session_fails_run:
  assumes jd: "jd_execute jd = executeScheduled xd now" and noAgent: "readScheduleNoAgent s = None"
    and plain: "readScheduleSkills s = []" "readScheduleToolsets s = []" "scanCronSkillPrompt (sc_input s) = None"
    and busy: "\<And>q v. xd_runTask xd q v = (Inl (AppError Session_busy m d), v)"
    and wf: "runsWf (sw_runs w)" and row: "runFindById (sr_runId run) (sw_runs w) = Some row"
    and st: "sr_status row = R_running" and "validTime (now + 30000)"
    and out: "executeRun jd env s run w = (res, w')"
  shows "\<exists>r'. runFindById (sr_runId run) (sw_runs w') = Some r' \<and> sr_status r' = R_failed \<and>
    sr_errorMessage r' = Some ''Invalid schedule run transition: running -> queued.''"
proof -
  let ?w0 = "w\<lparr>sw_trace := sw_trace w @ [runStartedEvent s run]\<rparr>"
  have "\<exists>p e. recordSkillContext xd s run =
      bnd (onRuns (runUpdate (sr_runId run) (noRunPatch\<lparr>ru_metadata := Some p\<rparr>))) (\<lambda>_. schedTrace e)"
    unfolding recordSkillContext_def Let_def case_prod_beta by (intro exI, rule refl)
  then obtain p e where ctx: "recordSkillContext xd s run =
      bnd (onRuns (runUpdate (sr_runId run) (noRunPatch\<lparr>ru_metadata := Some p\<rparr>))) (\<lambda>_. schedTrace e)"
    by blast
  let ?r1 = "runPatch (noRunPatch\<lparr>ru_metadata := Some p\<rparr>) row"
  have s1: "sr_status ?r1 = R_running" using st by (simp add: noRunPatch_def)
  have u: "onRuns (runUpdate (sr_runId run) (noRunPatch\<lparr>ru_metadata := Some p\<rparr>)) ?w0 =
      (Inr ?r1, ?w0\<lparr>sw_runs := rowSet sr_runId (sr_runId run) ?r1 (sw_runs w)\<rparr>)"
    using row by (simp add: onRuns_run runUpdate_run [OF wf] runMove_def noRunPatch_def)
  then obtain w1 where c: "recordSkillContext xd s run ?w0 = (Inr (), w1)"
    and w1: "sw_runs w1 = rowSet sr_runId (sr_runId run) ?r1 (sw_runs w)"
    by (simp add: ctx bnd_run u)
  have wf1: "runsWf (sw_runs w1)"
    using wf runUpdate_wf [OF wf, of "sr_runId run" "noRunPatch\<lparr>ru_metadata := Some p\<rparr>"] row w1
    by (auto simp: runUpdate_run [OF wf] runMove_def noRunPatch_def)
  have row1: "runFindById (sr_runId run) (sw_runs w1) = Some ?r1" using row w1 by simp
  have "executeScheduled xd now s run ?w0 =
      (Inl (PlainError ''Invalid schedule run transition: running -> queued.''), w1)"
    using plain
    by (simp add: executeScheduled_def c verifyScheduledSkills_def Let_def buildScheduledTaskInput_def
        assertScheduleToolsetsAvailable_def bnd_run tryCatch_run busy deferBusyRun_refused [OF wf1 row1 s1 assms(10)])
  then have "executeRun jd env s run w =
      failRun env s run (PlainError ''Invalid schedule run transition: running -> queued.'') w1"
    using noAgent by (simp add: executeRun_def bnd_run tryCatch_run executeAgentRun_def jd)
  with out failRun_row [OF wf1 row1 s1] show ?thesis by (metis runErrorMessage.simps(3))
qed

definition busyDeps :: "unit ExecutorDeps" where
  "busyDeps = \<lparr>xd_sha256 = id, xd_viewSkill = (\<lambda>_. None), xd_registeredToolsets = {},
     xd_runTask = (\<lambda>q v. (Inl (AppError Session_busy ''busy'' None), v)),
     xd_config = \<lparr>xc_defaultMaxIterations = 8, xc_defaultTimeoutMs = 1000,
       xc_tokenBudget = \<lparr>tb_inputLimit = 1, tb_outputLimit = 1, tb_reservedOutput = 0, tb_usedInput = 0,
         tb_usedOutput = 0, tb_usedCostUsd = None\<rparr>\<rparr>\<rparr>"

definition emptyPrompt :: ScheduleRecord where
  "emptyPrompt = sampleSchedule\<lparr>sc_input := []\<rparr>"

definition sampleEnv :: RunEnv where
  "sampleEnv = \<lparr>re_finishedAt = 5, re_failedAt = 5, re_retryNow = 5, re_retryUuid = ''z''\<rparr>"

theorem busy_session_fails_run_witness:
  "\<exists>r'. runFindById ''a'' (sw_runs (snd (executeRun
      (bootstrapJobRunner busyDeps (\<lambda>c d. raise NonError) 0) sampleEnv emptyPrompt (sampleRun ''a'' R_running)
      (sampleWorld [emptyPrompt] [sampleRun ''a'' R_running])))) = Some r' \<and> sr_status r' = R_failed \<and>
    sr_errorMessage r' = Some ''Invalid schedule run transition: running -> queued.''"
proof -
  let ?jd = "bootstrapJobRunner busyDeps (\<lambda>c d. raise NonError) 0" and ?r = "sampleRun ''a'' R_running"
  let ?w = "sampleWorld [emptyPrompt] [?r]"
  obtain res w' where out: "executeRun ?jd sampleEnv emptyPrompt ?r ?w = (res, w')" by fastforce
  have "\<exists>r'. runFindById (sr_runId ?r) (sw_runs w') = Some r' \<and> sr_status r' = R_failed \<and>
      sr_errorMessage r' = Some ''Invalid schedule run transition: running -> queued.''"
    by (rule busy_session_fails_run [where xd = busyDeps and now = 0 and m = "''busy''" and d = None
          and row = ?r, OF _ _ _ _ _ _ _ _ _ _ out])
       (simp_all add: bootstrapJobRunner_def emptyPrompt_def sampleSchedule_def busyDeps_def sampleWorld_def
          readScheduleNoAgent_def readScheduleSkills_def readScheduleToolsets_def readArray_def readJsonObject_def
          scanCronSkillPrompt_def trim_def trimBy_def Let_def runsWf_def pkOk_def oneActive_def runFindById_def sampleRun_def
          validTime_def MAX_TIME_def)
  then show ?thesis by (simp add: out) (simp add: sampleRun_def queuedRun_def)
qed

subsection \<open>A clarified run\<close>

text \<open>
  A scheduled run whose task waits for a clarification is blocked, and answering the question does not
  mark it running (only a run waiting for approval is). When the task then succeeds, writing its outcome
  to the run is refused (there is no move from blocked to completed) and changes nothing. The run stays
  active, so every later tick skips the schedule.
\<close>

theorem clarified_run_stays_blocked:
  assumes wf: "runsWf (sw_runs w)" and i: "resolveRunId task (sw_runs w) = Some i"
    and row: "runFindById i (sw_runs w) = Some r" and st: "sr_status r = R_blocked"
    and done_: "tk_status task = T_succeeded"
    and s: "sc_scheduleId s = sr_scheduleId r"
  shows "markResuming task w = (Inr (Some r), w) \<and>
    syncRunFromTask hook now task w =
      (Inl (PlainError ''Invalid schedule run transition: blocked -> completed.''), w) \<and>
    (\<exists>e. tickSchedule cronNext env t s w = (Inr (), w\<lparr>sw_trace := sw_trace w @ [e]\<rparr>) \<and>
      te_eventType e = ''schedule_run_skipped_overlap'')"
proof (intro conjI)
  show "markResuming task w = (Inr (Some r), w)"
    using i row st by (simp add: markResuming_def bnd_run)
  have u: "onRuns (runUpdate i (taskRunPatch now R_completed task)) w =
      (Inl (PlainError ''Invalid schedule run transition: blocked -> completed.''), w)"
    using row st by (simp add: onRuns_run runUpdate_run [OF wf] runMove_def taskRunPatch_def)
  then show "syncRunFromTask hook now task w =
      (Inl (PlainError ''Invalid schedule run transition: blocked -> completed.''), w)"
    using i row done_ by (simp add: syncRunFromTask_def bnd_run)
  have "r \<in> set (sw_runs w)" "runActive r"
    using row st by (auto simp: runActive_def ACTIVE_SCHEDULE_RUN_STATUSES_def dest: runFindById_Some)
  then obtain a where "findActiveByScheduleId (sc_scheduleId s) (sw_runs w) = Some a"
    using s findActive_None [of "sc_scheduleId s" "sw_runs w"] by (metis not_None_eq)
  then have "tickSchedule cronNext env t s w = recordRunSkippedOverlap (sc_scheduleId s) (sr_runId a) ''scheduled'' w"
    by (simp add: tickSchedule_def bnd_run)
  then show "\<exists>e. tickSchedule cronNext env t s w = (Inr (), w\<lparr>sw_trace := sw_trace w @ [e]\<rparr>) \<and>
      te_eventType e = ''schedule_run_skipped_overlap''"
    unfolding recordRunSkippedOverlap_def schedTrace_run by (metis scheduleEvent_type)
qed

theorem clarified_run_stays_blocked_witness:
  "let r = sampleRun ''a'' R_blocked; w = sampleWorld [sampleSchedule] [r];
       task = (sampleTask T_succeeded)\<lparr>tk_metadata := [(''scheduleRunContext'', JObj [(''runId'', JStr ''a'')])]\<rparr>
   in fst (markResuming task w) = Inr (Some r) \<and>
      fst (syncRunFromTask None 9 task w) =
        Inl (PlainError ''Invalid schedule run transition: blocked -> completed.'') \<and>
      fst (tickSchedule noCron (\<lambda>_. (''b'', 9)) 9 sampleSchedule w) = Inr ()"
proof -
  let ?r = "sampleRun ''a'' R_blocked"
  let ?w = "sampleWorld [sampleSchedule] [?r]"
  let ?task = "(sampleTask T_succeeded)\<lparr>tk_metadata := [(''scheduleRunContext'', JObj [(''runId'', JStr ''a'')])]\<rparr>"
  have p: "runsWf (sw_runs ?w)" "resolveRunId ?task (sw_runs ?w) = Some ''a''"
    "runFindById ''a'' (sw_runs ?w) = Some ?r" "sr_status ?r = R_blocked" "tk_status ?task = T_succeeded"
    "sc_scheduleId sampleSchedule = sr_scheduleId ?r"
    by (simp_all add: sampleWorld_def runsWf_def pkOk_def oneActive_def resolveRunId_def readJsonObject_def Let_def
        runFindById_def sampleRun_def queuedRun_def sampleTask_def sampleSchedule_def)
  from clarified_run_stays_blocked [OF p, of None 9 noCron "\<lambda>_. (''b'', 9)" 9]
  show ?thesis unfolding Let_def by auto
qed

subsection \<open>Repeats\<close>

lemma withRepeat_metadata:
  "withScheduleMetadata m (noMetadataInput\<lparr>mi_repeatRemaining := Some r\<rparr>) =
    (case r of None \<Rightarrow> jdel ''repeatRemaining'' m | Some n \<Rightarrow> jput ''repeatRemaining'' (JNum n) m)"
  by (simp add: withScheduleMetadata_def noMetadataInput_def setIf_def setOrDelete_def split: option.splits)

lemma readRepeat_jput:
  "readRepeatRemaining (r\<lparr>sc_metadata := jput ''repeatRemaining'' (JNum n) m\<rparr>) = (if n > 0 then Some n else None)"
  "readRepeatRemaining (r\<lparr>sc_metadata := jdel ''repeatRemaining'' m\<rparr>) = None"
  by (simp_all add: readRepeatRemaining_def)

text \<open>What is left to repeat does not depend on the other fields of a schedule.\<close>

lemma readRepeat_metadata: "sc_metadata s = sc_metadata s' \<Longrightarrow> readRepeatRemaining s = readRepeatRemaining s'"
  by (simp add: readRepeatRemaining_def)

lemma repeat_countdown_fact:
  assumes found: "scheduleFindById (sc_scheduleId s) (sw_schedules w) = Some r"
    and run: "handleRepeatAfterSuccess now upd s w = (res, w')"
  shows "case readRepeatRemaining r of
      None \<Rightarrow> res = Inr r \<and> w' = w
    | Some n \<Rightarrow> \<exists>r'. res = Inr r' \<and> scheduleFindById (sc_scheduleId s) (sw_schedules w') = Some r' \<and>
        sw_runs w' = sw_runs w \<and>
        readRepeatRemaining r' = (if n = 1 then None else Some (n - 1)) \<and>
        (if n = 1 then sc_status r' = S_completed \<and> sc_nextFireAt r' = None
         else if sc_runAt r \<noteq> None \<and> sc_intervalMs r = None \<and> sc_cron r = None
         then sc_status r' = S_active \<and> sc_nextFireAt r' = Some now
         else sc_status r' = sc_status r \<and> sc_nextFireAt r' = sc_nextFireAt r)"
proof (cases "readRepeatRemaining r")
  case None
  with found run show ?thesis by (simp add: handleRepeatAfterSuccess_def bnd_run)
next
  case (Some n)
  then have n: "0 < n" by (rule readRepeat_positive)
  have id: "sc_scheduleId r = sc_scheduleId s" using found by (auto simp: scheduleFindById_def dest: rowFind_Some)
  let ?once = "sc_runAt r \<noteq> None \<and> sc_intervalMs r = None \<and> sc_cron r = None"
  let ?p = "if n = 1 then noSchedulePatch\<lparr>su_nextFireAt := Some None, su_status := Some S_completed,
      su_metadata := Some (withScheduleMetadata (sc_metadata r) (noMetadataInput\<lparr>mi_repeatRemaining := Some None\<rparr>))\<rparr>
    else noSchedulePatch\<lparr>su_metadata := Some (withScheduleMetadata (sc_metadata r)
        (noMetadataInput\<lparr>mi_repeatRemaining := Some (Some (n - 1))\<rparr>)),
      su_nextFireAt := (if ?once then Some (Some now) else None), su_status := (if ?once then Some S_active else None)\<rparr>"
  have le: "n - 1 \<le> 0 \<longleftrightarrow> n = 1" using n by linarith
  have "handleRepeatAfterSuccess now upd s w = onSchedules (scheduleUpdate upd (sc_scheduleId r) ?p) w"
    using found Some le by (simp add: handleRepeatAfterSuccess_def bnd_run Let_def)
  also have "\<dots> = (Inr (schedulePatch upd ?p r),
      w\<lparr>sw_schedules := rowSet sc_scheduleId (sc_scheduleId s) (schedulePatch upd ?p r) (sw_schedules w)\<rparr>)"
    using found id by (simp add: onSchedules_run scheduleUpdate_run)
  finally have out: "res = Inr (schedulePatch upd ?p r)" "w' = w\<lparr>sw_schedules := rowSet sc_scheduleId (sc_scheduleId s)
      (schedulePatch upd ?p r) (sw_schedules w)\<rparr>" using run by simp_all
  have id': "sc_scheduleId (schedulePatch upd ?p r) = sc_scheduleId s" using id by (simp add: schedulePatch_def)
  have look: "scheduleFindById (sc_scheduleId s) (sw_schedules w') = Some (schedulePatch upd ?p r)"
    using found id' out(2) by (simp add: scheduleFindById_def rowSet_find)
  have m: "sc_metadata (schedulePatch upd ?p r) =
      (if n = 1 then jdel ''repeatRemaining'' (sc_metadata r)
       else jput ''repeatRemaining'' (JNum (n - 1)) (sc_metadata r))"
    by (simp add: schedulePatch_def withRepeat_metadata)
  have left: "readRepeatRemaining (schedulePatch upd ?p r) = (if n = 1 then None else Some (n - 1))"
    using n by (simp add: readRepeatRemaining_def m)
  show ?thesis unfolding Some option.case out(1)
    using look left out(2) by (intro exI [of _ "schedulePatch upd ?p r"] conjI)
      (simp_all add: schedulePatch_def noSchedulePatch_def)
qed

text \<open>
  Each success of a schedule with n repeats left leaves n - 1. A schedule that fires once is due again
  at once while repeats are left, a recurring one keeps its status and next instant; the last success
  completes the schedule with no next instant and no count. A schedule without a count is not touched.
\<close>

theorem repeat_countdown:
  assumes found: "scheduleFindById (sc_scheduleId s) (sw_schedules w) = Some r"
    and run: "handleRepeatAfterSuccess now upd s w = (res, w')"
  shows "case readRepeatRemaining r of
      None \<Rightarrow> res = Inr r \<and> w' = w
    | Some n \<Rightarrow> \<exists>r'. res = Inr r' \<and> scheduleFindById (sc_scheduleId s) (sw_schedules w') = Some r' \<and>
        sw_runs w' = sw_runs w \<and>
        readRepeatRemaining r' = (if n = 1 then None else Some (n - 1)) \<and>
        (if n = 1 then sc_status r' = S_completed \<and> sc_nextFireAt r' = None
         else if sc_runAt r \<noteq> None \<and> sc_intervalMs r = None \<and> sc_cron r = None
         then sc_status r' = S_active \<and> sc_nextFireAt r' = Some now
         else sc_status r' = sc_status r \<and> sc_nextFireAt r' = sc_nextFireAt r)"
  using assms by (rule repeat_countdown_fact)

theorem repeat_countdown_witness:
  "\<exists>r'. fst (handleRepeatAfterSuccess 7 8 repeating (sampleWorld [repeating] [])) = Inr r' \<and>
    readRepeatRemaining r' = Some 2 \<and> sc_status r' = S_active \<and> sc_nextFireAt r' = Some 7"
proof -
  obtain res w' where run: "handleRepeatAfterSuccess 7 8 repeating (sampleWorld [repeating] []) = (res, w')" by fastforce
  have f: "scheduleFindById (sc_scheduleId repeating) (sw_schedules (sampleWorld [repeating] [])) = Some repeating"
    by (simp add: scheduleFindById_def sampleWorld_def)
  have v: "readRepeatRemaining repeating = Some 3" "sc_runAt repeating = Some 0" "sc_intervalMs repeating = None"
    "sc_cron repeating = None"
    by (simp_all add: readRepeatRemaining_def repeating_def sampleSchedule_def)
  from repeat_countdown [OF f run] show ?thesis by (simp add: v) (auto simp: run)
qed

text \<open>
  The handling of repeats does not look at the status. A schedule that fires once and was archived (or
  paused) while its run was under way is active and due again once that run succeeds, if repeats were left.
\<close>

theorem archived_schedule_revived:
  assumes found: "scheduleFindById (sc_scheduleId s) (sw_schedules w) = Some r" and "sc_status r = S_archived"
    and once: "sc_runAt r \<noteq> None" "sc_intervalMs r = None" "sc_cron r = None"
    and left: "readRepeatRemaining r = Some n" "1 < n"
  shows "\<exists>r' w'. onRunCompleted now upd s RunCompleted w = (Inr (), w') \<and>
    scheduleFindById (sc_scheduleId s) (sw_schedules w') = Some r' \<and> sc_status r' = S_active \<and> scheduleDue now r'"
proof -
  obtain res w' where run: "handleRepeatAfterSuccess now upd s w = (res, w')" by fastforce
  from repeat_countdown_fact [OF found run] left once
  obtain r' where "res = Inr r'" "scheduleFindById (sc_scheduleId s) (sw_schedules w') = Some r'"
    "sc_status r' = S_active" "sc_nextFireAt r' = Some now" by auto
  with run show ?thesis by (auto simp: onRunCompleted_def bnd_run scheduleDue_def)
qed

theorem archived_schedule_revived_witness:
  "sc_status repeating = S_archived \<and>
   (\<exists>r' w'. onRunCompleted 7 8 repeating RunCompleted (sampleWorld [repeating] []) = (Inr (), w') \<and>
      scheduleFindById ''s'' (sw_schedules w') = Some r' \<and> sc_status r' = S_active \<and> scheduleDue 7 r')"
proof -
  have p: "scheduleFindById (sc_scheduleId repeating) (sw_schedules (sampleWorld [repeating] [])) = Some repeating"
    "sc_status repeating = S_archived" "sc_runAt repeating \<noteq> None" "sc_intervalMs repeating = None"
    "sc_cron repeating = None" "readRepeatRemaining repeating = Some 3" "(1 :: int) < 3"
    by (simp_all add: scheduleFindById_def sampleWorld_def repeating_def sampleSchedule_def readRepeatRemaining_def)
  have i: "sc_scheduleId repeating = ''s''" by (simp add: repeating_def sampleSchedule_def)
  from archived_schedule_revived [OF p, of 7 8] p(2) show ?thesis unfolding i by blast
qed

subsection \<open>Ticks\<close>

text \<open>No executor asks for another tick.\<close>

definition quiet :: "'m JobRunnerDependencies \<Rightarrow> bool" where
  "quiet jd \<longleftrightarrow> (let I = \<lambda>w. \<not> sw_pendingRetick w in
     (\<forall>s r. keeps I (jd_execute jd s r)) \<and>
     (case jd_executeNoAgent jd of None \<Rightarrow> True | Some f \<Rightarrow> \<forall>s r. keeps I (f s r)) \<and>
     (case jd_onRunCompleted jd of None \<Rightarrow> True | Some f \<Rightarrow> \<forall>s c. keeps I (f s c)))"

lemma keeps_flag_ops [keeps_intros]:
  "keeps (\<lambda>w. \<not> sw_pendingRetick w) (onRuns m)" "keeps (\<lambda>w. \<not> sw_pendingRetick w) (onSchedules n)"
  "keeps (\<lambda>w. \<not> sw_pendingRetick w) (schedTrace e)"
  by (simp_all add: keeps_def onRuns_run onSchedules_run case_prod_beta)

abbreviation calm :: "('m SchedWorld, 'a) op \<Rightarrow> bool" where
  "calm m \<equiv> keeps (\<lambda>w. \<not> sw_pendingRetick w) m"

lemma calm_scheduler [keeps_intros]:
  "calm (tickSchedule cronNext env now s)" "calm (enqueueRetryIfNeeded renv s r)" "calm (failRun renv s r x)"
  unfolding tickSchedule_def recordRunSkippedOverlap_def recordRunEnqueued_def enqueueScheduledRun_def Let_def
    enqueueRetryIfNeeded_def failRun_def by (intro keeps_intros)+

lemma calm_drain:
  assumes "quiet jd"
  shows "calm (drain jd envs now limit)"
proof -
  have n [keeps_intros]: "calm (notifyCompleted jd s c)" for s c
    using assms by (auto simp: notifyCompleted_def quiet_def Let_def intro: keeps_intros split: option.splits)
  have a: "calm (executeAgentRun jd env s r)" for env s r
    unfolding executeAgentRun_def Let_def using assms by (intro keeps_intros) (simp_all add: quiet_def Let_def)
  have b: "calm (executeNoAgentRun jd f env s r)" if "jd_executeNoAgent jd = Some f" for f env s r
    unfolding executeNoAgentRun_def Let_def using assms that by (intro keeps_intros) (simp_all add: quiet_def Let_def)
  have x: "calm (case (readScheduleNoAgent s, jd_executeNoAgent jd) of
      (Some _, Some f) \<Rightarrow> executeNoAgentRun jd f env s r | _ \<Rightarrow> executeAgentRun jd env s r)" for env s r
    using a b by (auto split: option.splits)
  show ?thesis unfolding drain_def processRun_def executeRun_def by (intro keeps_intros x)
qed

lemma calm_tickPass: "quiet jd \<Longrightarrow> tickPass cronNext jd env now w = (res, w') \<Longrightarrow> \<not> sw_pendingRetick w'"
proof -
  assume q: "quiet jd" and run: "tickPass cronNext jd env now w = (res, w')"
  let ?w0 = "w\<lparr>sw_pendingRetick := False\<rparr>"
  let ?rest = "bnd (ask (\<lambda>w. findDue now 25 (sw_schedules w))) (\<lambda>dueSchedules.
     bnd (forEach (tickSchedule cronNext (pv_enqueue env) now) dueSchedules) (\<lambda>_.
     bnd (drain jd (pv_runs env) now 10) (\<lambda>_. ret ())))"
  have c: "calm ?rest" using calm_drain [OF q] by (intro keeps_intros)
  have r: "?rest ?w0 = (res, w')" using run by (simp add: tickPass_def setRetick_def bnd_run)
  have "\<not> sw_pendingRetick ?w0" by simp
  from keepsD [OF c this r] show "\<not> sw_pendingRetick w'" .
qed

text \<open>
  C29: a tick requested while another is under way only leaves a mark. A tick of its own ends after a single
  pass when the runs it executes request no other, whether the pass succeeds or throws, and in every case
  the scheduler is free for the next tick afterwards.
\<close>

theorem tick_single_flight:
  assumes "tick cronNext jd envs now fuel w = (res, w')"
  shows "if sw_tickInProgress w then res = Inr True \<and> w' = w\<lparr>sw_pendingRetick := True\<rparr>
    else \<not> sw_tickInProgress w' \<and> (quiet jd \<and> 0 < fuel \<longrightarrow> res \<noteq> Inr False \<and> \<not> sw_pendingRetick w')"
proof (cases "sw_tickInProgress w")
  case True
  with assms show ?thesis by (simp add: tick_def bnd_run setRetick_def)
next
  case False
  let ?w0 = "w\<lparr>sw_tickInProgress := True\<rparr>"
  obtain r1 w1 where l: "tickLoop cronNext jd envs now fuel ?w0 = (r1, w1)" by fastforce
  have out: "res = r1" "w' = w1\<lparr>sw_tickInProgress := False\<rparr>"
    using assms False l by (auto simp: tick_def bnd_run setTick_def tryCatch_run split: sum.splits)
  have "r1 \<noteq> Inr False \<and> \<not> sw_pendingRetick w1" if q: "quiet jd" "0 < fuel"
  proof -
    obtain n where n: "fuel = Suc n" using q(2) by (cases fuel) auto
    obtain r2 w2 where p: "tickPass cronNext jd (envs n) now ?w0 = (r2, w2)" by fastforce
    from calm_tickPass [OF q(1) p] l p show ?thesis unfolding n by (cases r2) (auto simp: bnd_run)
  qed
  with False out show ?thesis by simp
qed

theorem tick_single_flight_witness:
  "let r = tick noCron idleJobs (\<lambda>_. \<lparr>pv_enqueue = (\<lambda>_. (''b'', 7)), pv_runs = (\<lambda>_. sampleEnv)\<rparr>) 5 1
       (sampleWorld [sampleSchedule] [])
   in \<not> sw_tickInProgress (snd r) \<and> fst r \<noteq> Inr False \<and> \<not> sw_pendingRetick (snd r)"
proof -
  have q: "quiet idleJobs" by (simp add: quiet_def idleJobs_def keeps_ret Let_def)
  obtain res w' where run: "tick noCron idleJobs (\<lambda>_. \<lparr>pv_enqueue = (\<lambda>_. (''b'', 7)), pv_runs = (\<lambda>_. sampleEnv)\<rparr>) 5 1
       (sampleWorld [sampleSchedule] []) = (res, w')" by fastforce
  from tick_single_flight [OF run] q run show ?thesis by (simp add: sampleWorld_def Let_def)
qed

subsection \<open>Claims\<close>

definition startRun :: "instant \<Rightarrow> ScheduleRunRecord \<Rightarrow> ScheduleRunRecord" where
  "startRun now r = r\<lparr>sr_status := R_running, sr_startedAt := Some now\<rparr>"

lemma startRun_id [simp]: "sr_runId (startRun now r) = sr_runId r"
  by (simp add: startRun_def)

lemma rowSet_other: "j \<noteq> i \<Longrightarrow> sr_runId r' = i \<Longrightarrow> runFindById j (rowSet sr_runId i r' t) = runFindById j t"
  by (simp add: runFindById_def rowSet_find)

lemma claimRows_all:
  assumes "pkOk sr_runId t" and "distinct ids"
    and "\<And>i. i \<in> set ids \<Longrightarrow> \<exists>r. runFindById i t = Some r \<and> sr_status r = R_queued"
  shows "claimRows now ids t = (map (\<lambda>i. startRun now (the (runFindById i t))) ids,
    map (\<lambda>r. if sr_runId r \<in> set ids then startRun now r else r) t)"
  using assms
proof (induction ids arbitrary: t)
  case Nil
  then show ?case by simp
next
  case (Cons i ids)
  from Cons.prems(3) [of i] obtain r where r: "runFindById i t = Some r" "sr_status r = R_queued" by auto
  have i: "sr_runId r = i" using runFindById_Some [OF r(1)] by simp
  let ?t = "rowSet sr_runId i (startRun now r) t"
  have other: "runFindById j ?t = runFindById j t" if "j \<in> set ids" for j
    using that Cons.prems(2) i by (intro rowSet_other) auto
  have "claimRows now ids ?t = (map (\<lambda>i. startRun now (the (runFindById i ?t))) ids,
      map (\<lambda>r. if sr_runId r \<in> set ids then startRun now r else r) ?t)"
  proof (rule Cons.IH)
    show "pkOk sr_runId ?t" using Cons.prems(1) i by (simp add: rowSet_pk)
    show "distinct ids" using Cons.prems(2) by simp
    fix j
    assume "j \<in> set ids"
    with other Cons.prems(3) [of j] show "\<exists>r. runFindById j ?t = Some r \<and> sr_status r = R_queued" by simp
  qed
  moreover have "map (\<lambda>i. startRun now (the (runFindById i ?t))) ids = map (\<lambda>i. startRun now (the (runFindById i t))) ids"
    using other by simp
  moreover have "map (\<lambda>r. if sr_runId r \<in> set ids then startRun now r else r) ?t =
      map (\<lambda>r. if sr_runId r \<in> set (i # ids) then startRun now r else r) t"
  proof -
    have "x = r" if "x \<in> set t" "sr_runId x = i" for x
      using rowFind_mem [OF Cons.prems(1) that(1)] that(2) r(1) by (simp add: runFindById_def)
    then show ?thesis using i Cons.prems(2) by (auto simp: rowSet_def)
  qed
  ultimately show ?case using r i by (simp add: startRun_def Let_def)
qed

lemma claimRows_due:
  assumes pk: "pkOk sr_runId t" and d: "distinct (map sr_runId due)"
    and mem: "\<And>r. r \<in> set due \<Longrightarrow> r \<in> set t \<and> sr_status r = R_queued"
  shows "claimRows now (map sr_runId due) t =
    (map (startRun now) due, map (\<lambda>r. if r \<in> set due then startRun now r else r) t)"
proof -
  have look: "runFindById (sr_runId r) t = Some r" if "r \<in> set t" for r
    using rowFind_mem [OF pk that] by (simp add: runFindById_def)
  have "claimRows now (map sr_runId due) t = (map (\<lambda>i. startRun now (the (runFindById i t))) (map sr_runId due),
      map (\<lambda>r. if sr_runId r \<in> set (map sr_runId due) then startRun now r else r) t)"
    using mem look by (intro claimRows_all [OF pk d]) auto
  moreover have "map (\<lambda>i. startRun now (the (runFindById i t))) (map sr_runId due) = map (startRun now) due"
    using mem look by simp
  moreover have "sr_runId r \<in> set (map sr_runId due) \<longleftrightarrow> r \<in> set due" if "r \<in> set t" for r
    using look [OF that] look mem by (auto simp: image_iff)
  ultimately show ?thesis by simp
qed

text \<open>
  C15: a claim takes the queued runs whose instant has come, oldest first and at most as many as asked for,
  marks exactly those rows running with the claim's instant as their start, and returns them so marked.
  In particular no run is ever handed to two claims.
\<close>

theorem claim_exact:
  assumes "runsWf t"
  shows "let due = take limit (sort_key (\<lambda>r. (sr_scheduledAt r, sr_runId r))
             (filter (\<lambda>r. sr_status r = R_queued \<and> sr_scheduledAt r \<le> now) t));
             start = (\<lambda>r. r\<lparr>sr_status := R_running, sr_startedAt := Some now\<rparr>)
    in claimDue now limit t = (Inr (map start due), map (\<lambda>r. if r \<in> set due then start r else r) t) \<and>
       set due \<inter> set (map start due) = {}"
proof -
  let ?f = "filter (\<lambda>r. sr_status r = R_queued \<and> sr_scheduledAt r \<le> now) t"
  let ?due = "take limit (orderAsc (\<lambda>r. (sr_scheduledAt r, sr_runId r)) ?f)"
  have pk: "pkOk sr_runId t" using assms by (simp add: runsWf_def)
  have mem: "r \<in> set t \<and> sr_status r = R_queued" if "r \<in> set ?due" for r
    using in_set_takeD [OF that] by simp
  have "distinct (map sr_runId ?f)" using pk by (simp add: pkOk_def distinct_map_filter)
  then have d: "distinct (map sr_runId ?due)"
    unfolding take_map [symmetric] by (intro distinct_take) simp
  have "set ?due \<inter> set (map (startRun now) ?due) = {}"
  proof -
    have "startRun now x \<notin> set ?due" for x using mem [of "startRun now x"] by (auto simp: startRun_def)
    then show ?thesis by (auto simp del: set_take_subset)
  qed
  with claimRows_due [OF pk d mem, of now]
  show ?thesis unfolding Let_def claimDue_def dueRunIds_def limitTo_def startRun_def [abs_def] orderAsc_def by simp
qed

theorem claim_exact_witness:
  "let t = [sampleRun ''a'' R_completed, sampleRun ''b'' R_queued]
   in fst (claimDue 9 10 t) = Inr [(sampleRun ''b'' R_running)\<lparr>sr_startedAt := Some 9\<rparr>]"
proof -
  let ?t = "[sampleRun ''a'' R_completed, sampleRun ''b'' R_queued]"
  have "runsWf ?t"
    by (simp add: runsWf_def pkOk_def oneActive_def sampleRun_def queuedRun_def runActive_def
        ACTIVE_SCHEDULE_RUN_STATUSES_def)
  from claim_exact [OF this, of 10 9] show ?thesis
    unfolding Let_def by (simp add: sampleRun_def queuedRun_def)
qed

subsection \<open>The executed run\<close>

text \<open>
  The task started for a run carries the run's identifier, so the lifecycle finds the run again from
  the task alone, and the mark under which the scheduling tools refuse to manage schedules.
\<close>

theorem scheduled_context_roundtrip:
  assumes "tk_metadata task = rq_metadata (scheduledRequest config s run input)" and "sr_runId run \<noteq> []"
  shows "resolveRunId task t = Some (sr_runId run) \<and> hasScheduleManagementBlocked (Some (tk_metadata task)) \<and>
    rq_sessionId (scheduledRequest config s run input) =
      (if readScheduleExecutionMode s = Isolated then None else sc_sessionId s)"
  using assms
  by (simp add: resolveRunId_def hasScheduleManagementBlocked_def scheduledRequest_def readJsonObject_def
      resolveScheduleSessionId_def Let_def)

theorem scheduled_context_roundtrip_witness:
  "let q = scheduledRequest (xd_config busyDeps) sampleSchedule (sampleRun ''a'' R_running) ''report''
   in resolveRunId ((sampleTask T_succeeded)\<lparr>tk_metadata := rq_metadata q\<rparr>) [] = Some ''a''"
proof -
  let ?q = "scheduledRequest (xd_config busyDeps) sampleSchedule (sampleRun ''a'' R_running) ''report''"
  have p: "tk_metadata ((sampleTask T_succeeded)\<lparr>tk_metadata := rq_metadata ?q\<rparr>) = rq_metadata ?q"
    "sr_runId (sampleRun ''a'' R_running) \<noteq> []" by (simp_all add: sampleRun_def queuedRun_def)
  from scheduled_context_roundtrip [OF p, of "[]"] show ?thesis by (simp add: Let_def sampleRun_def queuedRun_def)
qed

text \<open>
  C30: no agent is started for a schedule with a missing skill, a prompt that matches an injection pattern (in
  the skills' text or the schedule's own) or a toolset that is not registered: the execution throws and
  is the same whatever an agent run would do.
\<close>

theorem unsafe_run_not_started:
  assumes bad: "(\<exists>i\<in>set (readScheduleSkills s). xd_viewSkill xd i = None) \<or>
      scanCronSkillPrompt (buildScheduledTaskInput (xd_viewSkill xd) s) \<noteq> None \<or>
      \<not> set (readScheduleToolsets s) \<subseteq> xd_registeredToolsets xd"
  shows "(\<exists>e. fst (executeScheduled xd now s run w) = Inl e) \<and>
    executeScheduled (xd\<lparr>xd_runTask := other\<rparr>) now s run w = executeScheduled xd now s run w"
proof -
  have ctx: "recordSkillContext (xd\<lparr>xd_runTask := other\<rparr>) s run = recordSkillContext xd s run"
    by (simp add: recordSkillContext_def)
  obtain c w1 where c: "recordSkillContext xd s run w = (c, w1)" by fastforce
  let ?missing = "fst (verifyScheduledSkills (xd_sha256 xd) (xd_viewSkill xd) s)"
  have m: "?missing \<noteq> [] \<longleftrightarrow> (\<exists>i\<in>set (readScheduleSkills s). xd_viewSkill xd i = None)"
    by (simp add: verifyScheduledSkills_def Let_def filter_empty_conv)
  have t: "\<exists>e. assertScheduleToolsetsAvailable (xd_registeredToolsets xd) (readScheduleToolsets s) = Inl e"
    if "\<not> set (readScheduleToolsets s) \<subseteq> xd_registeredToolsets xd"
    using that by (auto simp: assertScheduleToolsetsAvailable_def Let_def filter_empty_conv)
  show ?thesis
  proof (cases "?missing = []")
    case False
    then show ?thesis by (cases c) (simp_all add: executeScheduled_def bnd_run ctx c Let_def)
  next
    case True
    show ?thesis
    proof (cases "scanCronSkillPrompt (buildScheduledTaskInput (xd_viewSkill xd) s)")
      case (Some i)
      with True show ?thesis by (cases c) (simp_all add: executeScheduled_def bnd_run ctx c Let_def)
    next
      case None
      with bad True m t obtain e where
        "assertScheduleToolsetsAvailable (xd_registeredToolsets xd) (readScheduleToolsets s) = Inl e" by blast
      with None True show ?thesis by (cases c) (simp_all add: executeScheduled_def bnd_run ctx c Let_def)
    qed
  qed
qed

theorem unsafe_run_not_started_witness:
  "\<exists>e. fst (executeScheduled busyDeps 0 (sampleSchedule\<lparr>sc_metadata := [(''skills'', JArr [JStr ''x''])]\<rparr>)
      (sampleRun ''a'' R_running) (sampleWorld [] [sampleRun ''a'' R_running])) = Inl e"
  by (rule unsafe_run_not_started [THEN conjunct1])
     (simp add: readScheduleSkills_def readArray_def busyDeps_def sampleSchedule_def)

end
