(* ===== verification/SessionLock.thy ===== *)
theory SessionLock
  imports Tasks
begin

section \<open>The execution lock of a session\<close>

text \<open>
  src/src/runtime/sessions/session-execution-lock.ts and \<open>runTask\<close> of
  src/src/runtime/facades/session-facade.ts, which holds the lock while the execution kernel runs a task.
  The table \<open>session_locks\<close> has the session as its primary key. The kernel, the look-up or creation of
  the session and the projection of the output are arbitrary operations on the whole state.
\<close>

record SessionLockRow =
  lk_sessionId :: string
  lk_taskId :: string
  lk_acquiredAt :: instant

record 'm LockWorld =
  lw_locks :: "SessionLockRow list"
  lw_tasks :: tasks
  lw_rest :: 'm

record SessionExecutionLockOptions =
  lo_allowParallelSessions :: bool
  lo_staleLockMs :: "int option"

definition DEFAULT_STALE_LOCK_MS :: int where
  "DEFAULT_STALE_LOCK_MS = 5 * 60 * 1000"

definition isTerminalTaskStatus :: "TaskStatus \<Rightarrow> bool" where
  "isTerminalTaskStatus status = (status = T_succeeded \<or> status = T_failed \<or> status = T_cancelled)"

definition onLocks :: "(SessionLockRow list, 'a) op \<Rightarrow> ('m LockWorld, 'a) op" where
  "onLocks = zoom lw_locks (\<lambda>s w. w\<lparr>lw_locks := s\<rparr>)"

definition tryAcquire :: "string \<Rightarrow> string \<Rightarrow> instant \<Rightarrow> ('m LockWorld, bool) op" where
  "tryAcquire sessionId taskId now = onLocks (\<lambda>t.
     case rowInsert lk_sessionId \<lparr>lk_sessionId = sessionId, lk_taskId = taskId, lk_acquiredAt = now\<rparr> t of
       Inl e \<Rightarrow> (Inr False, t)
     | Inr t' \<Rightarrow> (Inr True, t'))"

definition findExistingLock :: "string \<Rightarrow> 'm LockWorld \<Rightarrow> SessionLockRow option" where
  "findExistingLock sessionId w = rowFind lk_sessionId sessionId (lw_locks w)"

definition shouldClearLock :: "SessionExecutionLockOptions \<Rightarrow> instant \<Rightarrow> SessionLockRow option \<Rightarrow> 'm LockWorld \<Rightarrow> bool" where
  "shouldClearLock options now lock w =
     (case lock of
        None \<Rightarrow> False
      | Some l \<Rightarrow>
          (case taskFindById (lk_taskId l) (lw_tasks w) of
             Some task \<Rightarrow> isTerminalTaskStatus (tk_status task)
           | None \<Rightarrow> now - lk_acquiredAt l \<ge>
               (case lo_staleLockMs options of None \<Rightarrow> DEFAULT_STALE_LOCK_MS | Some ms \<Rightarrow> ms)))"

definition deleteLock :: "string \<Rightarrow> ('m LockWorld, unit) op" where
  "deleteLock sessionId = onLocks (modify (filter (\<lambda>l. lk_sessionId l \<noteq> sessionId)))"

definition sessionBusy :: "string \<Rightarrow> SessionLockRow option \<Rightarrow> thrown" where
  "sessionBusy sessionId existing = AppError Session_busy
     (''Session '' @ sessionId @ '' already has an active task'' @
        (case existing of None \<Rightarrow> [] | Some l \<Rightarrow> if lk_taskId l = [] then [] else '': '' @ lk_taskId l) @ ''.'')
     (Some [(''activeTaskId'', jopt (map_option lk_taskId existing)), (''sessionId'', JStr sessionId)])"

definition acquire :: "SessionExecutionLockOptions \<Rightarrow> instant \<Rightarrow> string \<Rightarrow> string \<Rightarrow> ('m LockWorld, unit) op" where
  "acquire options now sessionId taskId =
     (if lo_allowParallelSessions options then ret ()
      else bnd (tryAcquire sessionId taskId now) (\<lambda>ok.
        if ok then ret ()
        else bnd (ask (findExistingLock sessionId)) (\<lambda>existing.
             bnd (ask (shouldClearLock options now existing)) (\<lambda>clear.
             if clear
             then bnd (deleteLock sessionId) (\<lambda>_.
                  bnd (tryAcquire sessionId taskId now) (\<lambda>again.
                  if again then ret () else raise (sessionBusy sessionId existing)))
             else raise (sessionBusy sessionId existing)))))"

definition release :: "string \<Rightarrow> string \<Rightarrow> ('m LockWorld, unit) op" where
  "release sessionId taskId =
     onLocks (modify (filter (\<lambda>l. \<not> (lk_sessionId l = sessionId \<and> lk_taskId l = taskId))))"

definition isLocked :: "string \<Rightarrow> 'm LockWorld \<Rightarrow> bool" where
  "isLocked sessionId w = (rowFind lk_sessionId sessionId (lw_locks w) \<noteq> None)"

subsection \<open>Running a task in its session\<close>

record RunTaskResult =
  rr_error :: "app_error option"
  rr_output :: "string option"
  rr_task :: TaskRecord

record 'm FacadeDeps =
  fd_getOrCreateSession :: "('m LockWorld, string) op"
  fd_kernelRun :: "string \<Rightarrow> string \<Rightarrow> ('m LockWorld, TaskRecord \<times> string option) op"
  fd_projectAssistantOutput :: "string option \<Rightarrow> string \<Rightarrow> string option \<Rightarrow> ('m LockWorld, unit) op"
  fd_lock :: SessionExecutionLockOptions

text \<open>\<open>error instanceof AppError ? error : new AppError({code: "provider_error", ..})\<close>.\<close>

fun runtimeAppError :: "thrown \<Rightarrow> app_error" where
  "runtimeAppError (AppError c m d) = (c, m, d)"
| "runtimeAppError (ProviderError p) = (Provider_error, pe_message p, None)"
| "runtimeAppError (PlainError m) = (Provider_error, m, None)"
| "runtimeAppError NonError = (Provider_error, ''Unknown runtime error'', None)"

definition failedTaskId :: "app_error \<Rightarrow> string option" where
  "failedTaskId e = (case e of (c, m, d) \<Rightarrow>
     (case d of None \<Rightarrow> None | Some o1 \<Rightarrow> (case jget o1 ''taskId'' of Some (JStr i) \<Rightarrow> Some i | _ \<Rightarrow> None)))"

definition runTaskFailed :: "string \<Rightarrow> string \<Rightarrow> thrown \<Rightarrow> ('m LockWorld, RunTaskResult) op" where
  "runTaskFailed sessionId taskId e =
     bnd (release sessionId taskId) (\<lambda>_.
     let err = runtimeAppError e
     in bnd (ask (\<lambda>w. case failedTaskId err of None \<Rightarrow> None | Some i \<Rightarrow> taskFindById i (lw_tasks w))) (\<lambda>task.
        case task of
          None \<Rightarrow> raise (case err of (c, m, d) \<Rightarrow> AppError c m d)
        | Some t \<Rightarrow> ret \<lparr>rr_error = Some err, rr_output = None, rr_task = t\<rparr>))"

definition runTask :: "'m FacadeDeps \<Rightarrow> instant \<Rightarrow> string \<Rightarrow> ('m LockWorld, RunTaskResult) op" where
  "runTask fd now taskId =
     bnd (fd_getOrCreateSession fd) (\<lambda>sessionId.
     bnd (acquire (fd_lock fd) now sessionId taskId) (\<lambda>_.
     tryCatch
       (bnd (fd_kernelRun fd sessionId taskId) (\<lambda>(task, output).
        bnd (if isTerminalTaskStatus (tk_status task) then release sessionId (tk_taskId task) else ret ()) (\<lambda>_.
        bnd (fd_projectAssistantOutput fd (tk_sessionId task) (tk_taskId task) output) (\<lambda>_.
        ret \<lparr>rr_error = None, rr_output = output, rr_task = task\<rparr>))))
       (runTaskFailed sessionId taskId)))"

text \<open>\<open>releaseSessionLockIfTerminal\<close> of application-service.ts, after a task was resumed or cancelled.\<close>

definition releaseSessionLockIfTerminal :: "TaskRecord \<Rightarrow> ('m LockWorld, unit) op" where
  "releaseSessionLockIfTerminal task =
     (case tk_sessionId task of
        None \<Rightarrow> ret ()
      | Some s \<Rightarrow> if \<not> isTerminalTaskStatus (tk_status task) then ret () else release s (tk_taskId task))"

subsection \<open>Laws of the lock\<close>

lemma onLocks_run [monad_simps]:
  "onLocks m w = (case m (lw_locks w) of (r, t) \<Rightarrow> (r, w\<lparr>lw_locks := t\<rparr>))"
  by (simp add: onLocks_def zoom_run)

lemma tryAcquire_run:
  "tryAcquire s t now w =
    (if findExistingLock s w = None
     then (Inr True, w\<lparr>lw_locks := lw_locks w @ [\<lparr>lk_sessionId = s, lk_taskId = t, lk_acquiredAt = now\<rparr>]\<rparr>)
     else (Inr False, w))"
  using rowFind_None [of lk_sessionId s "lw_locks w"]
  by (auto simp: tryAcquire_def onLocks_run rowInsert_def findExistingLock_def)

lemma deleteLock_run:
  "deleteLock s w = (Inr (), w\<lparr>lw_locks := filter (\<lambda>l. lk_sessionId l \<noteq> s) (lw_locks w)\<rparr>)"
  by (simp add: deleteLock_def onLocks_run)

lemma release_run:
  "release s t w = (Inr (), w\<lparr>lw_locks := filter (\<lambda>l. \<not> (lk_sessionId l = s \<and> lk_taskId l = t)) (lw_locks w)\<rparr>)"
  by (simp add: release_def onLocks_run)

lemma rowFind_without: "rowFind lk_sessionId s (filter (\<lambda>l. lk_sessionId l \<noteq> s) t) = None"
  by (auto simp: rowFind_None)

lemma filter_unlocked: "rowFind lk_sessionId s t = None \<Longrightarrow> filter (\<lambda>l. lk_sessionId l \<noteq> s) t = t"
  by (auto simp: rowFind_None intro: filter_True)

lemma acquire_run:
  "acquire options now s t w =
    (if lo_allowParallelSessions options then (Inr (), w)
     else if findExistingLock s w = None \<or> shouldClearLock options now (findExistingLock s w) w
     then (Inr (), w\<lparr>lw_locks := filter (\<lambda>l. lk_sessionId l \<noteq> s) (lw_locks w) @
              [\<lparr>lk_sessionId = s, lk_taskId = t, lk_acquiredAt = now\<rparr>]\<rparr>)
     else (Inl (sessionBusy s (findExistingLock s w)), w))"
proof (cases "lo_allowParallelSessions options \<or> findExistingLock s w = None")
  case True
  then show ?thesis
    by (auto simp: acquire_def bnd_run tryAcquire_run findExistingLock_def filter_unlocked)
next
  case False
  then show ?thesis
    by (auto simp: acquire_def bnd_run tryAcquire_run deleteLock_run) (auto simp: findExistingLock_def rowFind_without)
qed

text \<open>
  Without parallel sessions a task gets the lock of a session exactly when nobody holds it, the holder's
  task has ended, or the holder has no task row and the lock is stale; the session then has one lock row,
  that of the new holder, and the locks of other sessions are as before. In every other case the
  attempt fails as busy, names the holder, and changes nothing.
\<close>

theorem acquire_exact:
  assumes "\<not> lo_allowParallelSessions options" and "pkOk lk_sessionId (lw_locks w)"
  shows "let old = rowFind lk_sessionId s (lw_locks w);
      free = (case old of None \<Rightarrow> True
        | Some l \<Rightarrow> (case taskFindById (lk_taskId l) (lw_tasks w) of
              Some task \<Rightarrow> tk_status task \<in> {T_succeeded, T_failed, T_cancelled}
            | None \<Rightarrow> now \<ge> lk_acquiredAt l + (case lo_staleLockMs options of None \<Rightarrow> 300000 | Some ms \<Rightarrow> ms)))
    in if free
       then \<exists>w'. acquire options now s t w = (Inr (), w') \<and> pkOk lk_sessionId (lw_locks w') \<and>
         lw_tasks w' = lw_tasks w \<and>
         (\<forall>k. rowFind lk_sessionId k (lw_locks w') =
            (if k = s then Some \<lparr>lk_sessionId = s, lk_taskId = t, lk_acquiredAt = now\<rparr>
             else rowFind lk_sessionId k (lw_locks w)))
       else \<exists>m. acquire options now s t w = (Inl (AppError Session_busy m
              (Some [(''activeTaskId'', jopt (map_option lk_taskId old)), (''sessionId'', JStr s)])), w)"
proof -
  let ?old = "rowFind lk_sessionId s (lw_locks w)"
  let ?new = "\<lparr>lk_sessionId = s, lk_taskId = t, lk_acquiredAt = now\<rparr>"
  let ?free = "case ?old of None \<Rightarrow> True
        | Some l \<Rightarrow> (case taskFindById (lk_taskId l) (lw_tasks w) of
              Some task \<Rightarrow> tk_status task \<in> {T_succeeded, T_failed, T_cancelled}
            | None \<Rightarrow> now \<ge> lk_acquiredAt l + (case lo_staleLockMs options of None \<Rightarrow> 300000 | Some ms \<Rightarrow> ms))"
  let ?others = "filter (\<lambda>l. lk_sessionId l \<noteq> s) (lw_locks w)"
  have free: "?free \<longleftrightarrow> findExistingLock s w = None \<or> shouldClearLock options now (findExistingLock s w) w"
    by (auto simp: findExistingLock_def shouldClearLock_def isTerminalTaskStatus_def DEFAULT_STALE_LOCK_MS_def
        split: option.splits)
  show ?thesis
  proof (cases ?free)
    case True
    then have "acquire options now s t w = (Inr (), w\<lparr>lw_locks := ?others @ [?new]\<rparr>)"
      using free assms(1) by (simp add: acquire_run)
    moreover have "pkOk lk_sessionId (?others @ [?new])"
      using assms(2) by (auto simp: pkOk_def distinct_map_filter)
    moreover have "rowFind lk_sessionId k (?others @ [?new]) =
        (if k = s then Some ?new else rowFind lk_sessionId k (lw_locks w))" for k
    proof (cases "k = s")
      case True
      then show ?thesis by (simp add: rowFind_append rowFind_without)
    next
      case False
      then have "rowFind lk_sessionId k ?others = rowFind lk_sessionId k (lw_locks w)"
        by (intro rowFind_filter) simp
      with False show ?thesis by (simp add: rowFind_append split: option.splits)
    qed
    ultimately show ?thesis unfolding Let_def if_P [OF True] by simp
  next
    case False
    then have "acquire options now s t w = (Inl (sessionBusy s (findExistingLock s w)), w)"
      using free assms(1) by (simp add: acquire_run)
    then show ?thesis unfolding Let_def if_not_P [OF False]
      by (simp add: sessionBusy_def findExistingLock_def)
  qed
qed

subsection \<open>Mutual exclusion\<close>

text \<open>What can happen to the lock table: attempts, releases, and changes of the task table beside them.\<close>

datatype LockStep = LAcquire instant string string | LRelease string string | LTasks tasks

fun lockStep :: "SessionExecutionLockOptions \<Rightarrow> LockStep \<Rightarrow> 'm LockWorld \<Rightarrow> bool \<times> 'm LockWorld" where
  "lockStep options (LAcquire now s t) w = (case acquire options now s t w of (r, w') \<Rightarrow> (isl r, w'))"
| "lockStep options (LRelease s t) w = (False, snd (release s t w))"
| "lockStep options (LTasks ts) w = (False, w\<lparr>lw_tasks := ts\<rparr>)"

text \<open>The refused attempts of a history, and the state it ends in.\<close>

fun lockRun :: "SessionExecutionLockOptions \<Rightarrow> LockStep list \<Rightarrow> 'm LockWorld \<Rightarrow> LockStep list \<times> 'm LockWorld" where
  "lockRun options [] w = ([], w)"
| "lockRun options (x # xs) w =
     (case lockStep options x w of (refused, w') \<Rightarrow>
        (case lockRun options xs w' of (rs, w'') \<Rightarrow> ((if refused then x # rs else rs), w'')))"

definition liveTask :: "string \<Rightarrow> tasks \<Rightarrow> bool" where
  "liveTask i ts = (case taskFindById i ts of None \<Rightarrow> False | Some task \<Rightarrow> \<not> isTerminalTaskStatus (tk_status task))"

lemma lockStep_held:
  assumes "\<not> lo_allowParallelSessions options"
    and l: "rowFind lk_sessionId s (lw_locks w) = Some l" and live: "liveTask (lk_taskId l) (lw_tasks w)"
    and keep: "x \<noteq> LRelease s (lk_taskId l)"
    and run: "lockStep options x w = (refused, w')"
  shows "rowFind lk_sessionId s (lw_locks w') = Some l \<and>
    (\<forall>now t. x = LAcquire now s t \<longrightarrow> refused) \<and> (lw_tasks w' = lw_tasks w \<or> (\<exists>ts. x = LTasks ts \<and> lw_tasks w' = ts))"
proof (cases x)
  case (LAcquire now s' t)
  show ?thesis
  proof (cases "s' = s")
    case True
    have "\<not> shouldClearLock options now (findExistingLock s w) w"
      using l live by (auto simp: shouldClearLock_def findExistingLock_def liveTask_def split: option.splits)
    with LAcquire True run assms(1) l show ?thesis by (auto simp: acquire_run findExistingLock_def)
  next
    case False
    have "rowFind lk_sessionId s (filter (\<lambda>l. lk_sessionId l \<noteq> s') (lw_locks w)) = Some l"
      using l False by (subst rowFind_filter) auto
    with LAcquire False run assms(1) l show ?thesis
      by (auto simp: acquire_run rowFind_append split: if_splits)
  qed
next
  case (LRelease s' t)
  have "rowFind lk_sessionId s (filter (\<lambda>l. \<not> (lk_sessionId l = s' \<and> lk_taskId l = t)) ls) = Some l"
    if "rowFind lk_sessionId s ls = Some l" for ls
    using that keep LRelease by (induction ls) auto
  with l LRelease run show ?thesis by (auto simp: release_run)
next
  case (LTasks ts)
  with run l show ?thesis by auto
qed

text \<open>
  C26: as long as the task that holds a session's lock has not ended and does not release it, no other attempt
  on that session succeeds, however many there are, whatever is locked and released for other sessions
  and however much time passes: every attempt is refused and the lock row stays as it is.
\<close>

theorem lock_mutual_exclusion:
  assumes "\<not> lo_allowParallelSessions options"
    and "rowFind lk_sessionId s (lw_locks w) = Some l" and "liveTask (lk_taskId l) (lw_tasks w)"
    and "LRelease s (lk_taskId l) \<notin> set steps"
    and "\<forall>ts. LTasks ts \<in> set steps \<longrightarrow> liveTask (lk_taskId l) ts"
    and "lockRun options steps w = (refused, w')"
  shows "rowFind lk_sessionId s (lw_locks w') = Some l \<and>
    (\<forall>now t. LAcquire now s t \<in> set steps \<longrightarrow> LAcquire now s t \<in> set refused)"
  using assms(2-)
proof (induction steps arbitrary: w refused)
  case Nil
  then show ?case by simp
next
  case (Cons x steps)
  obtain r w1 where 1: "lockStep options x w = (r, w1)" by (cases "lockStep options x w")
  obtain rs where 2: "lockRun options steps w1 = (rs, w')" and 3: "refused = (if r then x # rs else rs)"
    using Cons.prems(5) 1 by (auto split: prod.splits)
  have "x \<noteq> LRelease s (lk_taskId l)" using Cons.prems(3) by auto
  from lockStep_held [OF assms(1) Cons.prems(1,2) this 1] have h: "rowFind lk_sessionId s (lw_locks w1) = Some l"
    "\<forall>now t. x = LAcquire now s t \<longrightarrow> r"
    "lw_tasks w1 = lw_tasks w \<or> (\<exists>ts. x = LTasks ts \<and> lw_tasks w1 = ts)" by blast+
  have "liveTask (lk_taskId l) (lw_tasks w1)" using h(3) Cons.prems(2,4) by auto
  from Cons.IH [OF h(1) this _ _ 2] Cons.prems(3,4)
  have "rowFind lk_sessionId s (lw_locks w') = Some l \<and>
      (\<forall>now t. LAcquire now s t \<in> set steps \<longrightarrow> LAcquire now s t \<in> set rs)" by simp
  with h(2) 3 show ?case by auto
qed

definition freeOptions :: SessionExecutionLockOptions where
  "freeOptions = \<lparr>lo_allowParallelSessions = False, lo_staleLockMs = None\<rparr>"

definition heldWorld :: "unit LockWorld" where
  "heldWorld = \<lparr>lw_locks = [\<lparr>lk_sessionId = ''s'', lk_taskId = ''t'', lk_acquiredAt = 0\<rparr>],
     lw_tasks = [(sampleTask T_waiting_approval)\<lparr>tk_taskId := ''t''\<rparr>], lw_rest = ()\<rparr>"

theorem acquire_exact_witness:
  "\<exists>m. acquire freeOptions 900000 ''s'' ''u'' heldWorld = (Inl (AppError Session_busy m
      (Some [(''activeTaskId'', JStr ''t''), (''sessionId'', JStr ''s'')])), heldWorld)"
proof -
  have p: "\<not> lo_allowParallelSessions freeOptions" "pkOk lk_sessionId (lw_locks heldWorld)"
    by (simp_all add: freeOptions_def heldWorld_def pkOk_def)
  show ?thesis using acquire_exact [OF p, of "''s''" 900000 "''u''"]
    by (simp add: heldWorld_def taskFindById_def sampleTask_def jopt_def)
qed

theorem lock_mutual_exclusion_witness:
  "let (refused, w') = lockRun freeOptions [LAcquire 5 ''s'' ''u'', LAcquire 6 ''r'' ''u'', LRelease ''r'' ''u'',
       LAcquire 900000 ''s'' ''v''] heldWorld
   in rowFind lk_sessionId ''s'' (lw_locks w') = Some \<lparr>lk_sessionId = ''s'', lk_taskId = ''t'', lk_acquiredAt = 0\<rparr> \<and>
      LAcquire 900000 ''s'' ''v'' \<in> set refused"
proof -
  let ?l = "\<lparr>lk_sessionId = ''s'', lk_taskId = ''t'', lk_acquiredAt = 0\<rparr>"
  let ?steps = "[LAcquire 5 ''s'' ''u'', LAcquire 6 ''r'' ''u'', LRelease ''r'' ''u'', LAcquire 900000 ''s'' ''v'']"
  obtain refused w' where run: "lockRun freeOptions ?steps heldWorld = (refused, w')" by fastforce
  have "\<not> lo_allowParallelSessions freeOptions" "rowFind lk_sessionId ''s'' (lw_locks heldWorld) = Some ?l"
    "liveTask (lk_taskId ?l) (lw_tasks heldWorld)" "LRelease ''s'' (lk_taskId ?l) \<notin> set ?steps"
    "\<forall>ts. LTasks ts \<in> set ?steps \<longrightarrow> liveTask (lk_taskId ?l) ts"
    by (simp_all add: freeOptions_def heldWorld_def liveTask_def taskFindById_def sampleTask_def isTerminalTaskStatus_def)
  from lock_mutual_exclusion [OF this run] show ?thesis by (simp add: run del: lockRun.simps)
qed

subsection \<open>A task run in its session\<close>

definition runEnded :: "thrown + RunTaskResult \<Rightarrow> bool" where
  "runEnded res = (case res of Inr out \<Rightarrow> rr_error out \<noteq> None \<or> isTerminalTaskStatus (tk_status (rr_task out)) | Inl e \<Rightarrow> True)"

text \<open>
  After a run the session is free again when the task has ended or anything threw, whether the kernel or
  the projection of the output; a task that waits (for an approval or an answer) keeps its lock. A
  busy session stops the run before the kernel is started.
\<close>

theorem run_task_lock:
  assumes session: "fd_getOrCreateSession fd w = (Inr s, w1)"
    and kernel: "\<And>v r v'. fd_kernelRun fd s taskId v = (r, v') \<Longrightarrow> lw_locks v' = lw_locks v \<and>
      (\<forall>task out. r = Inr (task, out) \<longrightarrow> tk_taskId task = taskId)"
    and projection: "\<And>a b c v r v'. fd_projectAssistantOutput fd a b c v = (r, v') \<Longrightarrow> lw_locks v' = lw_locks v"
    and run: "runTask fd now taskId w = (res, w')"
  shows "case acquire (fd_lock fd) now s taskId w1 of
      (Inl e, w2) \<Rightarrow> res = Inl e \<and> w' = w2
    | (Inr u, w2) \<Rightarrow>
        (if runEnded res then \<forall>l\<in>set (lw_locks w'). \<not> (lk_sessionId l = s \<and> lk_taskId l = taskId)
         else lw_locks w' = lw_locks w2)"
proof -
  obtain r2 w2 where a: "acquire (fd_lock fd) now s taskId w1 = (r2, w2)" by fastforce
  show ?thesis
  proof (cases r2)
    case (Inl e)
    with a run session show ?thesis by (simp add: runTask_def bnd_run)
  next
    case (Inr u)
    obtain kr w3 where k: "fd_kernelRun fd s taskId w2 = (kr, w3)" by fastforce
    from kernel [OF k] have k1: "lw_locks w3 = lw_locks w2" "\<And>task out. kr = Inr (task, out) \<Longrightarrow> tk_taskId task = taskId"
      by blast+
    have failed: "(\<forall>l\<in>set (lw_locks w'). \<not> (lk_sessionId l = s \<and> lk_taskId l = taskId)) \<and>
        runEnded res"
      if "runTaskFailed s taskId e v = (res, w')" for e v
      using that by (cases "runtimeAppError e") (auto simp: runTaskFailed_def bnd_run release_run Let_def runEnded_def split: option.splits)
    show ?thesis
    proof (cases kr)
      case (Inl e)
      with run session a Inr k have "runTaskFailed s taskId e w3 = (res, w')"
        by (simp add: runTask_def bnd_run tryCatch_run)
      from failed [OF this] show ?thesis unfolding a Inr by simp
    next
      case Inr2: (Inr to1)
      obtain task out where to1: "to1 = (task, out)" by (cases to1)
      have id: "tk_taskId task = taskId" using k1(2) Inr2 to1 by blast
      define w4 where "w4 = (if isTerminalTaskStatus (tk_status task) then snd (release s (tk_taskId task) w3) else w3)"
      have rel: "(if isTerminalTaskStatus (tk_status task) then release s (tk_taskId task) else ret ()) w3 = (Inr (), w4)"
        by (simp add: w4_def release_run)
      obtain pr w5 where p: "fd_projectAssistantOutput fd (tk_sessionId task) (tk_taskId task) out w4 = (pr, w5)" by fastforce
      from projection [OF p] have l5: "lw_locks w5 = lw_locks w4" .
      show ?thesis
      proof (cases pr)
        case Inl3: (Inl e)
        with run session a Inr k Inr2 to1 rel p have "runTaskFailed s taskId e w5 = (res, w')"
          by (simp add: runTask_def bnd_run tryCatch_run)
        from failed [OF this] show ?thesis unfolding a Inr by simp
      next
        case Inr3: (Inr v)
        with run session a Inr k Inr2 to1 rel p have "res = Inr \<lparr>rr_error = None, rr_output = out, rr_task = task\<rparr>" "w' = w5"
          by (simp_all add: runTask_def bnd_run tryCatch_run)
        moreover have "\<forall>l\<in>set (lw_locks w4). \<not> (lk_sessionId l = s \<and> lk_taskId l = taskId)"
          if "isTerminalTaskStatus (tk_status task)" using that id by (simp add: w4_def release_run)
        ultimately show ?thesis using l5 k1(1) unfolding a Inr by (simp add: runEnded_def w4_def)
      qed
    qed
  qed
qed

theorem run_task_lock_witness:
  "let fd = \<lparr>fd_getOrCreateSession = ret ''s'',
       fd_kernelRun = (\<lambda>s t. ret ((sampleTask T_succeeded)\<lparr>tk_taskId := t\<rparr>, None)),
       fd_projectAssistantOutput = (\<lambda>a b c. ret ()), fd_lock = freeOptions\<rparr>;
       w' = snd (runTask fd 7 ''u'' (heldWorld\<lparr>lw_locks := []\<rparr>))
   in \<forall>l\<in>set (lw_locks w'). \<not> (lk_sessionId l = ''s'' \<and> lk_taskId l = ''u'')"
proof -
  let ?fd = "\<lparr>fd_getOrCreateSession = ret ''s'',
       fd_kernelRun = (\<lambda>s t. ret ((sampleTask T_succeeded)\<lparr>tk_taskId := t\<rparr>, None)),
       fd_projectAssistantOutput = (\<lambda>a b c. ret ()), fd_lock = freeOptions\<rparr> :: unit FacadeDeps"
  let ?w = "heldWorld\<lparr>lw_locks := []\<rparr>"
  obtain res w' where run: "runTask ?fd 7 ''u'' ?w = (res, w')" by fastforce
  have a: "acquire freeOptions 7 ''s'' ''u'' ?w =
      (Inr (), ?w\<lparr>lw_locks := [\<lparr>lk_sessionId = ''s'', lk_taskId = ''u'', lk_acquiredAt = 7\<rparr>]\<rparr>)"
    by (simp add: acquire_run findExistingLock_def freeOptions_def)
  have res: "\<exists>out. res = Inr out \<and> rr_error out = None \<and> tk_status (rr_task out) = T_succeeded"
    using run a by (auto simp: runTask_def bnd_run tryCatch_run release_run isTerminalTaskStatus_def sampleTask_def)
  have "case acquire (fd_lock ?fd) 7 ''s'' ''u'' ?w of
      (Inl e, w2) \<Rightarrow> res = Inl e \<and> w' = w2
    | (Inr u, w2) \<Rightarrow>
        (if runEnded res then \<forall>l\<in>set (lw_locks w'). \<not> (lk_sessionId l = ''s'' \<and> lk_taskId l = ''u'')
         else lw_locks w' = lw_locks w2)"
    by (rule run_task_lock [where fd = ?fd and s = "''s''" and ?w1.0 = ?w, OF _ _ _ run]) auto
  moreover have "runEnded res" using res by (auto simp: runEnded_def isTerminalTaskStatus_def)
  ultimately show ?thesis by (simp add: a run Let_def)
qed

end
