(* ===== verification/GatewayGuard.thy ===== *)
theory GatewayGuard
  imports JsText Complex_Main
begin

section \<open>The gateway's guard\<close>

text \<open>
  src/src/gateway/gateway-guard.ts with the bucket table of
  src/src/storage/repositories/gateway-rate-limit-repository.ts: allow and deny lists, a token bucket per
  requester, and an authentication hook. Token counts are exact rationals here, where the code uses
  floating-point numbers. Instants are milliseconds; the clock is read twice per request, once when
  stale buckets are dropped and once for the bucket itself.
\<close>

record BucketState =
  bk_tokens :: rat
  bk_updatedAtMs :: instant

type_synonym buckets = "string \<Rightarrow> BucketState option"

record 'm GuardWorld =
  gw_buckets :: buckets
  gw_store :: "buckets option"
  gw_rest :: 'm

record GatewayRequester =
  gr_externalUserId :: "string option"
  gr_externalSessionId :: string

record 'm GatewayGuard =
  gg_allowlist :: "string set"
  gg_denylist :: "string set"
  gg_burst :: int
  gg_refillPerSecond :: rat
  gg_authHook :: "(string \<Rightarrow> GatewayRequester \<Rightarrow> ('m GuardWorld, bool) op) option"

datatype GuardReason = Rate_limited | Denied_reason | Auth_failed

datatype GatewayGuardDecision = Allowed | NotAllowed GuardReason string

definition BUCKET_TTL_MS :: int where "BUCKET_TTL_MS = 3600000"

subsection \<open>Configuration\<close>

text \<open>What the configuration file holds when it exists and passes its schema.\<close>

record GatewayConfigFile =
  cf_allowlist :: "string list option"
  cf_denylist :: "string list option"
  cf_burst :: "int option"
  cf_refillPerSecond :: "rat option"

definition cleanList :: "string list option \<Rightarrow> string list" where
  "cleanList xs = (case xs of None \<Rightarrow> [] | Some l \<Rightarrow> filter (\<lambda>x. x \<noteq> []) (map trim l))"

definition splitList :: "string option \<Rightarrow> string list" where
  "splitList v = (case v of None \<Rightarrow> []
     | Some s \<Rightarrow> if trim s = [] then [] else filter (\<lambda>x. x \<noteq> []) (map trim (splitOn CHR '','' s)))"

text \<open>The lists and the rate limit; a file that is missing or invalid gives the defaults.\<close>

definition loadGatewayConfig :: "GatewayConfigFile option \<Rightarrow> string list \<times> string list \<times> int \<times> rat" where
  "loadGatewayConfig file =
     (case file of
        None \<Rightarrow> ([], [], 20, 5)
      | Some f \<Rightarrow> (cleanList (cf_allowlist f), cleanList (cf_denylist f),
          (case cf_burst f of None \<Rightarrow> 20 | Some b \<Rightarrow> b), (case cf_refillPerSecond f of None \<Rightarrow> 5 | Some r \<Rightarrow> r)))"

definition newGatewayGuard :: "GatewayConfigFile option \<Rightarrow> string option \<Rightarrow>
    (string \<Rightarrow> GatewayRequester \<Rightarrow> ('m GuardWorld, bool) op) option \<Rightarrow> 'm GatewayGuard" where
  "newGatewayGuard file envDenylist authHook =
     (case loadGatewayConfig file of (allow, deny, burst, refill) \<Rightarrow>
        \<lparr>gg_allowlist = set allow, gg_denylist = set deny \<union> set (splitList envDenylist), gg_burst = burst,
         gg_refillPerSecond = refill, gg_authHook = authHook\<rparr>)"

subsection \<open>Buckets\<close>

definition pruneMap :: "(BucketState \<Rightarrow> bool) \<Rightarrow> buckets \<Rightarrow> buckets" where
  "pruneMap stale m = (\<lambda>k. case m k of None \<Rightarrow> None | Some b \<Rightarrow> if stale b then None else Some b)"

definition pruneBuckets :: "instant \<Rightarrow> ('m GuardWorld, unit) op" where
  "pruneBuckets now = modify (\<lambda>w. w\<lparr>
     gw_buckets := pruneMap (\<lambda>b. now - bk_updatedAtMs b > BUCKET_TTL_MS) (gw_buckets w),
     gw_store := map_option (pruneMap (\<lambda>b. bk_updatedAtMs b < now - BUCKET_TTL_MS)) (gw_store w)\<rparr>)"

definition loadBucket :: "string \<Rightarrow> ('m GuardWorld, BucketState option) op" where
  "loadBucket key =
     bnd (ask (\<lambda>w. (gw_buckets w key, gw_store w))) (\<lambda>(cached, store).
       case cached of
         Some b \<Rightarrow> ret (Some b)
       | None \<Rightarrow>
           (case store of
              None \<Rightarrow> ret None
            | Some s \<Rightarrow>
                (case s key of
                   None \<Rightarrow> ret None
                 | Some b \<Rightarrow> bnd (modify (\<lambda>w. w\<lparr>gw_buckets := (gw_buckets w)(key \<mapsto> b)\<rparr>)) (\<lambda>_. ret (Some b)))))"

definition saveBucket :: "string \<Rightarrow> BucketState \<Rightarrow> ('m GuardWorld, unit) op" where
  "saveBucket key state = modify (\<lambda>w. w\<lparr>gw_buckets := (gw_buckets w)(key \<mapsto> state),
     gw_store := map_option (\<lambda>s. s(key \<mapsto> state)) (gw_store w)\<rparr>)"

definition replenished :: "'m GatewayGuard \<Rightarrow> instant \<Rightarrow> BucketState \<Rightarrow> rat" where
  "replenished g now b =
     (let elapsedSeconds = max 0 (of_int (now - bk_updatedAtMs b) / 1000)
      in min (of_int (gg_burst g)) (bk_tokens b + elapsedSeconds * gg_refillPerSecond g))"

definition consume :: "'m GatewayGuard \<Rightarrow> instant \<Rightarrow> instant \<Rightarrow> string \<Rightarrow> ('m GuardWorld, bool) op" where
  "consume g pruneNow now key =
     bnd (pruneBuckets pruneNow) (\<lambda>_.
     bnd (loadBucket key) (\<lambda>existing.
       case existing of
         None \<Rightarrow> bnd (saveBucket key \<lparr>bk_tokens = of_int (gg_burst g - 1), bk_updatedAtMs = now\<rparr>) (\<lambda>_. ret True)
       | Some b \<Rightarrow>
           let r = replenished g now b
           in if r < 1
              then bnd (saveBucket key \<lparr>bk_tokens = r, bk_updatedAtMs = now\<rparr>) (\<lambda>_. ret False)
              else bnd (saveBucket key \<lparr>bk_tokens = r - 1, bk_updatedAtMs = now\<rparr>) (\<lambda>_. ret True)))"

subsection \<open>The decision\<close>

definition identityKey :: "string \<Rightarrow> GatewayRequester \<Rightarrow> string" where
  "identityKey adapterId requester = adapterId @ '':'' @
     (case gr_externalUserId requester of Some u \<Rightarrow> u | None \<Rightarrow> gr_externalSessionId requester)"

definition evaluateGuard :: "'m GatewayGuard \<Rightarrow> instant \<Rightarrow> instant \<Rightarrow> string \<Rightarrow> GatewayRequester \<Rightarrow>
    ('m GuardWorld, GatewayGuardDecision) op" where
  "evaluateGuard g pruneNow now adapterId requester =
     (let key = identityKey adapterId requester
      in if gg_allowlist g \<noteq> {} \<and> key \<notin> gg_allowlist g
         then ret (NotAllowed Denied_reason (key @ '' is not in gateway allowlist.''))
         else if key \<in> gg_denylist g
         then ret (NotAllowed Denied_reason (key @ '' is in gateway denylist.''))
         else bnd (consume g pruneNow now key) (\<lambda>ok.
           if \<not> ok then ret (NotAllowed Rate_limited (key @ '' exceeded gateway rate limit.''))
           else case gg_authHook g of
             None \<Rightarrow> ret Allowed
           | Some hook \<Rightarrow>
               bnd (hook adapterId requester) (\<lambda>authenticated.
                 if authenticated then ret Allowed
                 else ret (NotAllowed Auth_failed (key @ '' failed gateway authentication.'')))))"

subsection \<open>The level of a bucket\<close>

text \<open>The bucket that counts for a key: the cached one, else the stored one.\<close>

definition bucketOf :: "'m GuardWorld \<Rightarrow> buckets" where
  "bucketOf w k = (case gw_buckets w k of Some b \<Rightarrow> Some b
     | None \<Rightarrow> (case gw_store w of None \<Rightarrow> None | Some s \<Rightarrow> s k))"

text \<open>The tokens a requester has at an instant; a requester without a bucket has a full one.\<close>

definition level :: "'m GatewayGuard \<Rightarrow> 'm GuardWorld \<Rightarrow> string \<Rightarrow> instant \<Rightarrow> rat" where
  "level g w k t = (case bucketOf w k of None \<Rightarrow> of_int (gg_burst g) | Some b \<Rightarrow> replenished g t b)"

definition bucketOk :: "'m GatewayGuard \<Rightarrow> instant \<Rightarrow> BucketState \<Rightarrow> bool" where
  "bucketOk g t b \<longleftrightarrow> 0 \<le> bk_tokens b \<and> bk_tokens b \<le> of_int (gg_burst g) \<and> bk_updatedAtMs b \<le> t"

definition guardWf :: "'m GatewayGuard \<Rightarrow> instant \<Rightarrow> 'm GuardWorld \<Rightarrow> bool" where
  "guardWf g t w \<longleftrightarrow> (\<forall>k b. gw_buckets w k = Some b \<longrightarrow> bucketOk g t b \<and> (\<forall>s. gw_store w = Some s \<longrightarrow> s k = Some b)) \<and>
     (\<forall>s k b. gw_store w = Some s \<longrightarrow> s k = Some b \<longrightarrow> bucketOk g t b)"

text \<open>The refill fills a bucket within the time after which it is dropped.\<close>

definition refillsInTime :: "'m GatewayGuard \<Rightarrow> bool" where
  "refillsInTime g \<longleftrightarrow> 1 \<le> gg_burst g \<and> 0 \<le> gg_refillPerSecond g \<and> of_int (gg_burst g) \<le> 3600 * gg_refillPerSecond g"

text \<open>The tokens that flow in within some milliseconds.\<close>

definition refill :: "'m GatewayGuard \<Rightarrow> int \<Rightarrow> rat" where
  "refill g ms = of_int ms / 1000 * gg_refillPerSecond g"

lemma refill_nonneg: "refillsInTime g \<Longrightarrow> 0 \<le> ms \<Longrightarrow> 0 \<le> refill g ms"
  by (simp add: refill_def refillsInTime_def)

lemma refill_split: "refill g (t - u) = refill g (s - u) + refill g (t - s)"
  by (simp add: refill_def field_simps)

lemma refill_full: "refillsInTime g \<Longrightarrow> 3600000 \<le> ms \<Longrightarrow> of_int (gg_burst g) \<le> refill g ms"
proof -
  assume g: "refillsInTime g" and "(3600000 :: int) \<le> ms"
  then have "(3600000 :: rat) \<le> of_int ms" by (metis of_int_le_iff of_int_numeral)
  then have "3600 * gg_refillPerSecond g \<le> refill g ms"
    unfolding refill_def using g by (intro mult_right_mono) (simp_all add: refillsInTime_def)
  with g show ?thesis by (simp add: refillsInTime_def)
qed

lemma bucketOk_mono: "bucketOk g s b \<Longrightarrow> s \<le> t \<Longrightarrow> bucketOk g t b"
  by (simp add: bucketOk_def)

lemma guardWf_mono: "guardWf g s w \<Longrightarrow> s \<le> t \<Longrightarrow> guardWf g t w"
  unfolding guardWf_def by (blast intro: bucketOk_mono)

lemma replenished_later:
  assumes "bucketOk g s b" and "s \<le> t"
  shows "replenished g t b = min (of_int (gg_burst g)) (bk_tokens b + refill g (t - bk_updatedAtMs b))"
  using assms by (auto simp: replenished_def Let_def bucketOk_def max_def refill_def)

lemma replenished_bounds:
  assumes "refillsInTime g" and "bucketOk g t b"
  shows "0 \<le> replenished g t b" and "replenished g t b \<le> of_int (gg_burst g)"
proof -
  have "0 \<le> refill g (t - bk_updatedAtMs b)" using assms by (intro refill_nonneg) (simp_all add: bucketOk_def)
  with assms show "0 \<le> replenished g t b" "replenished g t b \<le> of_int (gg_burst g)"
    by (simp_all add: replenished_later [OF assms(2) order_refl] bucketOk_def refillsInTime_def)
qed

text \<open>A bucket old enough to be dropped is full again.\<close>

lemma stale_full:
  assumes g: "refillsInTime g" and b: "bucketOk g s b" and "s \<le> t" and old: "bk_updatedAtMs b < p - BUCKET_TTL_MS" and "p \<le> t"
  shows "replenished g t b = of_int (gg_burst g)"
proof -
  have "of_int (gg_burst g) \<le> refill g (t - bk_updatedAtMs b)"
    using old assms(5) by (intro refill_full [OF g]) (simp add: BUCKET_TTL_MS_def)
  with b show ?thesis by (simp add: replenished_later [OF b assms(3)] bucketOk_def)
qed

text \<open>The level at a later instant.\<close>

lemma bucketOf_ok: "guardWf g s w \<Longrightarrow> bucketOf w k = Some b \<Longrightarrow> bucketOk g s b"
  by (auto simp: bucketOf_def guardWf_def split: option.splits)

lemma level_grows:
  assumes g: "refillsInTime g" and w: "guardWf g s w" and "s \<le> t"
  shows "level g w k t \<le> level g w k s + refill g (t - s)"
proof (cases "bucketOf w k")
  case None
  then show ?thesis using refill_nonneg [OF g, of "t - s"] assms(3) by (simp add: level_def)
next
  case (Some b)
  have b: "bucketOk g s b" using w Some by (rule bucketOf_ok)
  have "0 \<le> refill g (t - s)" using refill_nonneg [OF g, of "t - s"] assms(3) by simp
  then show ?thesis using Some refill_split [of g t "bk_updatedAtMs b" s]
    by (simp add: level_def replenished_later [OF b assms(3)] replenished_later [OF b order_refl])
qed

subsection \<open>One request\<close>

lemma bucketOf_prune:
  assumes "guardWf g s w" and "bucketOf w k = v" and "pruneBuckets p w = (r, w')"
  shows "bucketOf w' k = (case v of None \<Rightarrow> None | Some b \<Rightarrow> if bk_updatedAtMs b < p - BUCKET_TTL_MS then None else Some b)"
  using assms by (auto simp: pruneBuckets_def bucketOf_def pruneMap_def guardWf_def split: option.splits)

lemma prune_wf: "guardWf g s w \<Longrightarrow> pruneBuckets p w = (r, w') \<Longrightarrow> guardWf g s w'"
  by (auto simp: pruneBuckets_def pruneMap_def guardWf_def split: option.splits if_splits)

text \<open>Dropping stale buckets changes no level.\<close>

lemma prune_level:
  assumes g: "refillsInTime g" and w: "guardWf g s w" and "s \<le> t" and "p \<le> t" and run: "pruneBuckets p w = (r, w')"
  shows "level g w' k t = level g w k t"
proof (cases "bucketOf w k")
  case None
  with bucketOf_prune [OF w None run] show ?thesis by (simp add: level_def)
next
  case (Some b)
  have b: "bucketOk g s b" using w Some by (rule bucketOf_ok)
  show ?thesis using bucketOf_prune [OF w Some run] stale_full [OF g b assms(3) _ assms(4)] Some
    by (auto simp: level_def)
qed

lemma loadBucket_run:
  assumes "guardWf g s w"
  shows "\<exists>w'. loadBucket k w = (Inr (bucketOf w k), w') \<and> guardWf g s w' \<and> (\<forall>j. bucketOf w' j = bucketOf w j) \<and>
    gw_store w' = gw_store w"
  using assms by (auto simp: loadBucket_def bucketOf_def bnd_run guardWf_def fun_upd_def split: option.splits)

lemma saveBucket_run:
  assumes "guardWf g t w" and "bucketOk g t b" and "saveBucket k b w = (r, w')"
  shows "guardWf g t w'" and "bucketOf w' j = (if j = k then Some b else bucketOf w j)"
  using assms by (auto simp: saveBucket_def guardWf_def bucketOf_def fun_upd_def split: option.splits if_splits)

lemma level_fresh: "0 \<le> x \<Longrightarrow> x \<le> of_int (gg_burst g) \<Longrightarrow>
    bucketOf w k = Some \<lparr>bk_tokens = x, bk_updatedAtMs = t\<rparr> \<Longrightarrow> level g w k t = x"
  by (simp add: level_def replenished_def Let_def)

lemma consume_step:
  assumes g: "refillsInTime g" and w: "guardWf g s w" and "s \<le> p" and "p \<le> t"
    and run: "consume g p t k w = (res, w')"
  shows "res = Inr (1 \<le> level g w k t) \<and> guardWf g t w' \<and>
    level g w' k t = (if 1 \<le> level g w k t then level g w k t - 1 else level g w k t) \<and>
    (\<forall>j u. j \<noteq> k \<longrightarrow> t \<le> u \<longrightarrow> level g w' j u = level g w j u)"
proof -
  obtain w1 where 1: "pruneBuckets p w = (Inr (), w1)" by (simp add: pruneBuckets_def)
  have st: "s \<le> t" using assms by simp
  have w1: "guardWf g t w1" using prune_wf [OF w 1] st by (rule guardWf_mono)
  have lev: "level g w1 j u = level g w j u" if "t \<le> u" for j u
    using that assms(3,4) by (intro prune_level [OF g w _ _ 1]) simp_all
  obtain w2 where 2: "loadBucket k w1 = (Inr (bucketOf w1 k), w2)" "guardWf g t w2" "\<And>j. bucketOf w2 j = bucketOf w1 j"
    using loadBucket_run [OF w1] by blast
  define b where "b = (case bucketOf w1 k of None \<Rightarrow> \<lparr>bk_tokens = of_int (gg_burst g - 1), bk_updatedAtMs = t\<rparr>
    | Some b0 \<Rightarrow> \<lparr>bk_tokens = (if replenished g t b0 < 1 then replenished g t b0 else replenished g t b0 - 1), bk_updatedAtMs = t\<rparr>)"
  define ok where "ok = (case bucketOf w1 k of None \<Rightarrow> True | Some b0 \<Rightarrow> \<not> replenished g t b0 < 1)"
  have burst: "1 \<le> (of_int (gg_burst g) :: rat)" using g by (simp add: refillsInTime_def)
  have l1: "level g w k t = (case bucketOf w1 k of None \<Rightarrow> of_int (gg_burst g) | Some b0 \<Rightarrow> replenished g t b0)"
    using lev [OF order_refl, of k] by (simp add: level_def)
  have b0: "0 \<le> replenished g t b0 \<and> replenished g t b0 \<le> of_int (gg_burst g)" if "bucketOf w1 k = Some b0" for b0
    using replenished_bounds [OF g bucketOf_ok [OF w1 that]] by blast
  have ok: "ok \<longleftrightarrow> 1 \<le> level g w k t" using burst by (auto simp: ok_def l1 split: option.splits)
  have tok: "bk_tokens b = (if ok then level g w k t - 1 else level g w k t)" "bk_updatedAtMs b = t"
    by (auto simp: b_def ok_def l1 split: option.splits)
  have "0 \<le> level g w k t" "level g w k t \<le> of_int (gg_burst g)"
    using b0 burst by (auto simp: l1 split: option.splits)
  then have range: "0 \<le> bk_tokens b" "bk_tokens b \<le> of_int (gg_burst g)" using ok by (auto simp: tok)
  then have bok: "bucketOk g t b" by (simp add: bucketOk_def tok)
  obtain r3 w3 where 3: "saveBucket k b w2 = (r3, w3)" by fastforce
  have r3: "r3 = Inr ()" using 3 by (simp add: saveBucket_def)
  have out: "res = Inr ok" "w' = w3"
    using run 3 r3 by (auto simp: consume_def bnd_run 1 2(1) b_def ok_def Let_def split: option.splits if_splits)
  have b3: "bucketOf w3 j = (if j = k then Some b else bucketOf w1 j)" for j
    using saveBucket_run(2) [OF 2(2) bok 3] 2(3) by simp
  have "b = \<lparr>bk_tokens = bk_tokens b, bk_updatedAtMs = t\<rparr>" using tok by simp
  then have "level g w3 k t = bk_tokens b" using range b3 [of k] by (metis level_fresh)
  moreover have "level g w3 j u = level g w j u" if "j \<noteq> k" "t \<le> u" for j u
    using that lev [of u j] b3 [of j] by (simp add: level_def)
  ultimately show ?thesis using out ok tok saveBucket_run(1) [OF 2(2) bok 3] by simp
qed

subsection \<open>A sequence of requests\<close>

record GuardRequest =
  gq_pruneNow :: instant
  gq_now :: instant
  gq_adapterId :: string
  gq_requester :: GatewayRequester

fun guardRun :: "'m GatewayGuard \<Rightarrow> GuardRequest list \<Rightarrow> 'm GuardWorld \<Rightarrow>
    (string \<times> (thrown + GatewayGuardDecision)) list \<times> 'm GuardWorld" where
  "guardRun g [] w = ([], w)"
| "guardRun g (q # qs) w =
     (case evaluateGuard g (gq_pruneNow q) (gq_now q) (gq_adapterId q) (gq_requester q) w of (d, w') \<Rightarrow>
        (case guardRun g qs w' of (ds, w'') \<Rightarrow> ((identityKey (gq_adapterId q) (gq_requester q), d) # ds, w'')))"

text \<open>The clock does not run backwards.\<close>

fun inOrder :: "instant \<Rightarrow> GuardRequest list \<Rightarrow> instant \<Rightarrow> bool" where
  "inOrder s [] e = (s \<le> e)"
| "inOrder s (q # qs) e = (s \<le> gq_pruneNow q \<and> gq_pruneNow q \<le> gq_now q \<and> inOrder (gq_now q) qs e)"

definition admitted :: "string \<Rightarrow> (string \<times> (thrown + GatewayGuardDecision)) list \<Rightarrow> nat" where
  "admitted k ds = length (filter (\<lambda>(j, d). j = k \<and> d = Inr Allowed) ds)"

text \<open>The authentication hook leaves the buckets alone.\<close>

definition hookPure :: "'m GatewayGuard \<Rightarrow> bool" where
  "hookPure g \<longleftrightarrow> (\<forall>hook a r w. gg_authHook g = Some hook \<longrightarrow>
     gw_buckets (snd (hook a r w)) = gw_buckets w \<and> gw_store (snd (hook a r w)) = gw_store w)"

lemma level_same: "gw_buckets w' = gw_buckets w \<Longrightarrow> gw_store w' = gw_store w \<Longrightarrow> level g w' k t = level g w k t"
  by (cases "gw_buckets w k") (simp_all add: level_def bucketOf_def)

lemma guardWf_same: "gw_buckets w' = gw_buckets w \<Longrightarrow> gw_store w' = gw_store w \<Longrightarrow> guardWf g t w' = guardWf g t w"
  by (simp add: guardWf_def)

lemma evaluate_step:
  assumes g: "refillsInTime g" and h: "hookPure g" and w: "guardWf g s w" and "s \<le> p" and "p \<le> t"
    and key: "k = identityKey a r" and run: "evaluateGuard g p t a r w = (d, w')"
  shows "guardWf g t w' \<and> (\<forall>j. level g w' j t \<le> level g w j t) \<and>
    (d = Inr Allowed \<longrightarrow> level g w' k t \<le> level g w k t - 1)"
proof (cases "(gg_allowlist g \<noteq> {} \<and> k \<notin> gg_allowlist g) \<or> k \<in> gg_denylist g")
  case True
  with run key have "d \<noteq> Inr Allowed" "w' = w" by (auto simp: evaluateGuard_def Let_def split: if_splits)
  with w assms(4,5) show ?thesis by (auto intro: guardWf_mono)
next
  case False
  obtain c w1 where c: "consume g p t k w = (c, w1)" by fastforce
  note st = consume_step [OF g w assms(4,5) c]
  have same: "gw_buckets w' = gw_buckets w1 \<and> gw_store w' = gw_store w1 \<and> (d = Inr Allowed \<longrightarrow> 1 \<le> level g w k t)"
  proof (cases "1 \<le> level g w k t")
    case ok: True
    show ?thesis
    proof (cases "gg_authHook g")
      case None
      with run False key c st ok show ?thesis by (auto simp: evaluateGuard_def Let_def bnd_run)
    next
      case (Some hook)
      obtain hr w2 where 2: "hook a r w1 = (hr, w2)" by fastforce
      with h Some have "gw_buckets w2 = gw_buckets w1" "gw_store w2 = gw_store w1"
        unfolding hookPure_def by (metis snd_conv)+
      with run False key c st ok Some 2 show ?thesis
        by (auto simp: evaluateGuard_def Let_def bnd_run split: sum.splits if_splits)
    qed
  next
    case no: False
    with run False key c st show ?thesis by (auto simp: evaluateGuard_def Let_def bnd_run)
  qed
  have "level g w1 j t \<le> level g w j t" for j using st by (cases "j = k") auto
  moreover have "level g w' j t = level g w1 j t" for j using same by (intro level_same) simp_all
  moreover have "guardWf g t w'" using st same guardWf_same by metis
  moreover have "level g w1 k t \<le> level g w k t - 1" if "d = Inr Allowed"
  proof -
    from same that have one: "1 \<le> level g w k t" by blast
    from st have "level g w1 k t = (if 1 \<le> level g w k t then level g w k t - 1 else level g w k t)" by blast
    then show ?thesis unfolding if_P [OF one] by simp
  qed
  ultimately show ?thesis by simp
qed

lemma admitted_level:
  assumes g: "refillsInTime g" and h: "hookPure g"
  shows "guardWf g s w \<Longrightarrow> inOrder s qs e \<Longrightarrow> guardRun g qs w = (ds, w') \<Longrightarrow>
    of_nat (admitted k ds) \<le> level g w k s + refill g (e - s)"
proof (induction qs arbitrary: s w ds)
  case Nil
  have "0 \<le> level g w k s"
    using replenished_bounds(1) [OF g bucketOf_ok [OF Nil.prems(1), of k]] g
    by (auto simp: level_def refillsInTime_def split: option.splits)
  with Nil refill_nonneg [OF g, of "e - s"] show ?case by (simp add: admitted_def)
next
  case (Cons q qs)
  let ?t = "gq_now q" and ?j = "identityKey (gq_adapterId q) (gq_requester q)"
  obtain d w1 where d: "evaluateGuard g (gq_pruneNow q) ?t (gq_adapterId q) (gq_requester q) w = (d, w1)" by fastforce
  obtain ds1 where r: "guardRun g qs w1 = (ds1, w')" and ds: "ds = (?j, d) # ds1"
    using Cons.prems(3) d by (auto split: prod.splits)
  have o: "s \<le> gq_pruneNow q" "gq_pruneNow q \<le> ?t" "inOrder ?t qs e" using Cons.prems(2) by simp_all
  note st = evaluate_step [OF g h Cons.prems(1) o(1,2) refl d]
  have ih: "of_nat (admitted k ds1) \<le> level g w1 k ?t + refill g (e - ?t)"
    using st by (intro Cons.IH [OF _ o(3) r]) blast
  have grow: "level g w k ?t \<le> level g w k s + refill g (?t - s)"
    using o by (intro level_grows [OF g Cons.prems(1)]) simp
  have "of_nat (admitted k ds) \<le> level g w k ?t + refill g (e - ?t)"
  proof (cases "?j = k \<and> d = Inr Allowed")
    case True
    then have "admitted k ds = Suc (admitted k ds1)" by (simp add: admitted_def ds)
    moreover have "level g w1 k ?t \<le> level g w k ?t - 1" using st True by blast
    ultimately show ?thesis using ih by simp
  next
    case False
    then have "admitted k ds = admitted k ds1" by (auto simp: admitted_def ds)
    moreover have "level g w1 k ?t \<le> level g w k ?t" using st by blast
    ultimately show ?thesis using ih by simp
  qed
  with grow refill_split [of g e s ?t] show ?case by simp
qed

text \<open>
  C27: however the requests of a gateway interleave, one requester is admitted at most burst plus refill rate
  times elapsed seconds times, between any two instants from a fresh start on: neither the cache, the stored
  buckets, nor the dropping of stale buckets lets more through. The condition is that a bucket refills
  within the hour after which it is dropped; the default of 20 and 5 per second satisfies it.
\<close>

theorem rate_limit_bound:
  assumes "1 \<le> gg_burst g" and "0 \<le> gg_refillPerSecond g"
    and "of_int (gg_burst g) \<le> 3600 * gg_refillPerSecond g" and "hookPure g"
    and fresh: "gw_buckets w = (\<lambda>_. None)" "gw_store w = None \<or> gw_store w = Some (\<lambda>_. None)"
    and "inOrder s qs e" and "guardRun g qs w = (ds, w')"
  shows "of_nat (admitted k ds) \<le> of_int (gg_burst g) + of_int (e - s) / 1000 * gg_refillPerSecond g"
proof -
  have g: "refillsInTime g" using assms by (simp add: refillsInTime_def)
  have "guardWf g s w" using fresh(2) unfolding guardWf_def fresh(1) by auto
  from admitted_level [OF g assms(4) this assms(7,8), of k]
  have "of_nat (admitted k ds) \<le> level g w k s + refill g (e - s)" .
  moreover have "level g w k s = of_int (gg_burst g)"
    using fresh(2) unfolding level_def bucketOf_def fresh(1) by auto
  ultimately show ?thesis by (simp add: refill_def)
qed

definition defaultGuard :: "unit GatewayGuard" where
  "defaultGuard = newGatewayGuard None (Some ''x:bad'') None"

definition freshGuardWorld :: "unit GuardWorld" where
  "freshGuardWorld = \<lparr>gw_buckets = (\<lambda>_. None), gw_store = None, gw_rest = ()\<rparr>"

definition requestAt :: "instant \<Rightarrow> GuardRequest" where
  "requestAt t = \<lparr>gq_pruneNow = t, gq_now = t, gq_adapterId = ''x'',
     gq_requester = \<lparr>gr_externalUserId = Some ''u'', gr_externalSessionId = ''s''\<rparr>\<rparr>"

lemma defaultGuard_fields: "gg_burst defaultGuard = 20" "gg_refillPerSecond defaultGuard = 5"
  "gg_authHook defaultGuard = None" "gg_allowlist defaultGuard = {}"
  by (simp_all add: defaultGuard_def newGatewayGuard_def loadGatewayConfig_def)

theorem rate_limit_bound_witness:
  "of_nat (admitted ''x:u'' (fst (guardRun defaultGuard (map requestAt [0, 100, 200]) freshGuardWorld))) \<le> (21 :: rat)"
proof -
  obtain ds w' where run: "guardRun defaultGuard (map requestAt [0, 100, 200]) freshGuardWorld = (ds, w')" by fastforce
  have "of_nat (admitted ''x:u'' ds) \<le> of_int (gg_burst defaultGuard) + of_int (200 - 0) / 1000 * gg_refillPerSecond defaultGuard"
    by (rule rate_limit_bound [OF _ _ _ _ _ _ _ run])
       (simp_all add: defaultGuard_fields hookPure_def freshGuardWorld_def requestAt_def)
  then have "of_nat (admitted ''x:u'' ds) \<le> (21 :: rat)" by (simp add: defaultGuard_fields)
  then show ?thesis unfolding run fst_conv .
qed

text \<open>
  A requester who is not on a configured allow list, or is on the deny list, is refused without losing a
  token. Anyone else is refused for the rate exactly when less than one token is left, is otherwise
  charged one token, and is then admitted if no hook objects.
\<close>

theorem guard_decision_exact:
  assumes g: "refillsInTime g" and w: "guardWf g s w" and "s \<le> p" and "p \<le> t"
    and run: "evaluateGuard g p t a r w = (d, w')"
  shows "let k = identityKey a r in
    if (gg_allowlist g \<noteq> {} \<and> k \<notin> gg_allowlist g) \<or> k \<in> gg_denylist g
    then w' = w \<and> (\<exists>m. d = Inr (NotAllowed Denied_reason m))
    else if level g w k t < 1 then (\<exists>m. d = Inr (NotAllowed Rate_limited m)) \<and> level g w' k t = level g w k t
    else (case gg_authHook g of
        None \<Rightarrow> d = Inr Allowed \<and> level g w' k t = level g w k t - 1
      | Some hook \<Rightarrow> \<exists>w1. level g w1 k t = level g w k t - 1 \<and> w' = snd (hook a r w1) \<and>
          d = (case fst (hook a r w1) of Inl e \<Rightarrow> Inl e
            | Inr True \<Rightarrow> Inr Allowed
            | Inr False \<Rightarrow> Inr (NotAllowed Auth_failed (k @ '' failed gateway authentication.''))))"
proof -
  let ?k = "identityKey a r"
  obtain c w1 where c: "consume g p t ?k w = (c, w1)" by fastforce
  note st = consume_step [OF g w assms(3,4) c]
  show ?thesis
  proof (cases "(gg_allowlist g \<noteq> {} \<and> ?k \<notin> gg_allowlist g) \<or> ?k \<in> gg_denylist g")
    case True
    with run show ?thesis by (auto simp: evaluateGuard_def Let_def split: if_splits)
  next
    case nl: False
    show ?thesis
    proof (cases "level g w ?k t < 1")
      case True
      then have "\<not> 1 \<le> level g w ?k t" by simp
      with run nl c st True show ?thesis unfolding Let_def if_not_P [OF nl] if_P [OF True]
        by (auto simp: evaluateGuard_def Let_def bnd_run)
    next
      case low: False
      then have one: "1 \<le> level g w ?k t" by simp
      then have l: "c = Inr True" "level g w1 ?k t = level g w ?k t - 1" using st by simp_all
      show ?thesis unfolding Let_def if_not_P [OF nl] if_not_P [OF low]
        using run nl c l
        by (cases "gg_authHook g")
           (auto simp: evaluateGuard_def Let_def bnd_run split: prod.splits sum.splits if_splits intro!: exI [of _ w1])
    qed
  qed
qed

theorem guard_decision_exact_witness:
  "\<exists>m. fst (evaluateGuard defaultGuard 5 5 ''x'' \<lparr>gr_externalUserId = Some ''bad'', gr_externalSessionId = ''s''\<rparr>
      freshGuardWorld) = Inr (NotAllowed Denied_reason m)"
proof -
  let ?r = "\<lparr>gr_externalUserId = Some ''bad'', gr_externalSessionId = ''s''\<rparr>"
  obtain d w' where run: "evaluateGuard defaultGuard 5 5 ''x'' ?r freshGuardWorld = (d, w')" by fastforce
  have p: "refillsInTime defaultGuard" "guardWf defaultGuard 0 freshGuardWorld" "(0 :: int) \<le> 5" "(5 :: int) \<le> 5"
    by (simp_all add: refillsInTime_def defaultGuard_fields guardWf_def freshGuardWorld_def)
  have "identityKey ''x'' ?r \<in> gg_denylist defaultGuard"
    by (simp add: identityKey_def defaultGuard_def newGatewayGuard_def loadGatewayConfig_def splitList_def trim_def
        trimBy_def splitOn.simps isWs_def)
  with guard_decision_exact [OF p run] run show ?thesis by (auto simp: Let_def)
qed

end
