(* ===== verification/Credentials.thy ===== *)
theory Credentials
  imports JsText JsonText "HOL-Library.Product_Lexorder"
begin

section \<open>Provider credentials\<close>

text \<open>
  src/src/providers/credential-pool.ts: the credentials configured for a provider, their status, and the choice
  of the one to use; and src/src/providers/provider-switchable.ts. The environment is a lookup function,
  the host's Date parser and its collation (\<open>localeCompare\<close>, given by a key into a linear order) are
  arguments.
\<close>

datatype ProviderCredentialStatus = C_available | C_cooldown | C_disabled | C_missing

datatype ProviderCredentialSource = Src_env | Src_legacy_api_key | Src_plaintext

record ProviderCredentialFileEntry =
  ce_apiKey :: "string option"
  ce_apiKeyEnv :: "string option"
  ce_cooldownUntil :: "string option"
  ce_disabled :: bool
  ce_id :: "string option"
  ce_lastFailure :: "string option"
  ce_priority :: "int option"

record ResolvedProviderCredential =
  rc_apiKey :: "string option"
  rc_apiKeyEnv :: "string option"
  rc_cooldownUntil :: "string option"
  rc_disabled :: bool
  rc_id :: string
  rc_lastFailure :: "string option"
  rc_priority :: int
  rc_source :: ProviderCredentialSource
  rc_status :: ProviderCredentialStatus

record ProviderCredentialSummary =
  cs_activeCredentialId :: "string option"
  cs_availableCredentialIds :: "string list"
  cs_credentialCount :: nat
  cs_credentialStatus :: ProviderCredentialStatus
  cs_credentialSource :: "ProviderCredentialSource option"

definition normalizeNullableString :: "string option \<Rightarrow> string option" where
  "normalizeNullableString value =
     (case value of None \<Rightarrow> None | Some v \<Rightarrow> let n = trim v in if n = [] then None else Some n)"

definition normalizePriority :: "int option \<Rightarrow> nat \<Rightarrow> int" where
  "normalizePriority value fallback = (case value of Some n \<Rightarrow> n | None \<Rightarrow> int fallback)"

text \<open>An entry of the file with its status still open (\<open>missing\<close> until it is resolved).\<close>

definition normalizeEntry :: "nat \<Rightarrow> ProviderCredentialFileEntry \<Rightarrow> ResolvedProviderCredential" where
  "normalizeEntry index entry =
     (let apiKeyEnv = normalizeNullableString (ce_apiKeyEnv entry)
      in \<lparr>rc_apiKey = normalizeNullableString (ce_apiKey entry), rc_apiKeyEnv = apiKeyEnv,
          rc_cooldownUntil = normalizeNullableString (ce_cooldownUntil entry), rc_disabled = ce_disabled entry,
          rc_id = (case normalizeNullableString (ce_id entry) of Some i \<Rightarrow> i
             | None \<Rightarrow> ''credential-'' @ showInt (int index + 1)),
          rc_lastFailure = normalizeNullableString (ce_lastFailure entry),
          rc_priority = normalizePriority (ce_priority entry) index,
          rc_source = (if apiKeyEnv = None then Src_plaintext else Src_env), rc_status = C_missing\<rparr>)"

fun normalizeFrom :: "nat \<Rightarrow> ProviderCredentialFileEntry list \<Rightarrow> ResolvedProviderCredential list" where
  "normalizeFrom i [] = []"
| "normalizeFrom i (e # es) = normalizeEntry i e # normalizeFrom (Suc i) es"

definition normalizeCredentialEntries :: "ProviderCredentialFileEntry list \<Rightarrow> ResolvedProviderCredential list" where
  "normalizeCredentialEntries entries = normalizeFrom 0 entries"

definition resolveCredentialStatus ::
  "(string \<Rightarrow> instant option) \<Rightarrow> instant \<Rightarrow> string option \<Rightarrow> string option \<Rightarrow> bool \<Rightarrow> ProviderCredentialStatus" where
  "resolveCredentialStatus dateParse now apiKey cooldownUntil disabled =
     (if disabled then C_disabled
      else if (case cooldownUntil of None \<Rightarrow> False
               | Some c \<Rightarrow> (case dateParse c of None \<Rightarrow> False | Some t \<Rightarrow> t > now)) then C_cooldown
      else if apiKey = None \<or> apiKey = Some [] then C_missing
      else C_available)"

definition resolveCredential :: "(string \<Rightarrow> string option) \<Rightarrow> (string \<Rightarrow> instant option) \<Rightarrow> instant \<Rightarrow>
    ResolvedProviderCredential \<Rightarrow> ResolvedProviderCredential" where
  "resolveCredential env dateParse now entry =
     (let apiKey = (case rc_apiKeyEnv entry of None \<Rightarrow> rc_apiKey entry | Some v \<Rightarrow> normalizeNullableString (env v))
      in entry\<lparr>rc_apiKey := apiKey,
          rc_status := resolveCredentialStatus dateParse now apiKey (rc_cooldownUntil entry) (rc_disabled entry)\<rparr>)"

record ResolveCredentialsInput =
  ri_credentials :: "ProviderCredentialFileEntry list"
  ri_envApiKey :: "string option"
  ri_ignoreProviderEnv :: bool
  ri_legacyApiKey :: "string option"
  ri_requestedCredentialId :: "string option"

text \<open>The entries of the file, or the single key of the older format.\<close>

definition credentialEntries :: "ResolveCredentialsInput \<Rightarrow> ResolvedProviderCredential list" where
  "credentialEntries i =
     (let explicit = normalizeCredentialEntries (ri_credentials i)
      in if explicit \<noteq> [] then explicit
         else case normalizeNullableString (ri_legacyApiKey i) of
           None \<Rightarrow> []
         | Some legacy \<Rightarrow> [\<lparr>rc_apiKey = Some legacy, rc_apiKeyEnv = None, rc_cooldownUntil = None,
             rc_disabled = False, rc_id = ''default'', rc_lastFailure = None, rc_priority = 0,
             rc_source = Src_legacy_api_key, rc_status = C_missing\<rparr>])"

text \<open>The requested credential, when it is there, goes first.\<close>

definition preferRequested :: "string option \<Rightarrow> ResolvedProviderCredential list \<Rightarrow> ResolvedProviderCredential list" where
  "preferRequested requested resolved =
     (case requested of
        None \<Rightarrow> resolved
      | Some r \<Rightarrow>
          (case List.find (\<lambda>c. rc_id c = r) resolved of
             None \<Rightarrow> resolved
           | Some c \<Rightarrow> c # remove1 c resolved))"

definition resolveProviderCredentials :: "(string \<Rightarrow> string option) \<Rightarrow> (string \<Rightarrow> instant option) \<Rightarrow>
    (string \<Rightarrow> 'k :: linorder) \<Rightarrow> instant \<Rightarrow> ResolveCredentialsInput \<Rightarrow> ResolvedProviderCredential list" where
  "resolveProviderCredentials env dateParse collate now i =
     (if \<not> ri_ignoreProviderEnv i \<and> (case ri_envApiKey i of None \<Rightarrow> False | Some k \<Rightarrow> trim k \<noteq> [])
      then [\<lparr>rc_apiKey = map_option trim (ri_envApiKey i), rc_apiKeyEnv = Some ''AGENT_PROVIDER_API_KEY'',
             rc_cooldownUntil = None, rc_disabled = False, rc_id = ''env:AGENT_PROVIDER_API_KEY'',
             rc_lastFailure = None, rc_priority = -1, rc_source = Src_env, rc_status = C_available\<rparr>]
      else preferRequested (ri_requestedCredentialId i)
        (sort_key (\<lambda>c. (rc_priority c, collate (rc_id c)))
          (map (resolveCredential env dateParse now) (credentialEntries i))))"

definition selectActiveCredential :: "ResolvedProviderCredential list \<Rightarrow> ResolvedProviderCredential option" where
  "selectActiveCredential credentials = List.find (\<lambda>c. rc_status c = C_available) credentials"

definition summarizeProviderCredentials :: "ResolvedProviderCredential list \<Rightarrow> ProviderCredentialSummary" where
  "summarizeProviderCredentials credentials =
     (let active = List.find (\<lambda>c. rc_status c = C_available) credentials
      in \<lparr>cs_activeCredentialId = map_option rc_id active,
          cs_availableCredentialIds = map rc_id (filter (\<lambda>c. rc_status c = C_available) credentials),
          cs_credentialCount = length credentials,
          cs_credentialStatus = (if active \<noteq> None then C_available
             else if \<exists>c\<in>set credentials. rc_status c = C_cooldown then C_cooldown
             else if \<exists>c\<in>set credentials. rc_status c = C_disabled then C_disabled else C_missing),
          cs_credentialSource = map_option rc_source active\<rparr>)"

subsection \<open>Properties\<close>

lemma resolveCredential_id [simp]: "rc_id (resolveCredential env dp now c) = rc_id c"
  "rc_priority (resolveCredential env dp now c) = rc_priority c" "rc_disabled (resolveCredential env dp now c) = rc_disabled c"
  by (simp_all add: resolveCredential_def Let_def)

lemma find_first:
  "List.find P xs = Some x \<Longrightarrow> \<exists>as zs. xs = as @ x # zs \<and> P x \<and> (\<forall>a\<in>set as. \<not> P a)"
proof (induction xs)
  case (Cons y ys)
  show ?case
  proof (cases "P y")
    case True
    with Cons.prems have "y # ys = [] @ x # ys \<and> P x \<and> (\<forall>a\<in>set []. \<not> P a)" by simp
    then show ?thesis by blast
  next
    case False
    with Cons obtain as zs where "ys = as @ x # zs" "P x" "\<forall>a\<in>set as. \<not> P a" by auto
    with False have "y # ys = (y # as) @ x # zs \<and> P x \<and> (\<forall>a\<in>set (y # as). \<not> P a)" by simp
    then show ?thesis by blast
  qed
qed simp

lemma find_sorted_min:
  assumes "sorted (map k xs)" and "List.find P xs = Some x" and "y \<in> set xs" and "P y"
  shows "k x \<le> (k y :: 'b :: linorder)"
proof -
  from find_first [OF assms(2)] obtain as zs where "xs = as @ x # zs" "\<forall>a\<in>set as. \<not> P a" by blast
  with assms(1,3,4) show ?thesis by (auto simp: sorted_append)
qed

lemma preferRequested_cases:
  "preferRequested r M = M \<or> (\<exists>c0\<in>set M. preferRequested r M = c0 # remove1 c0 M \<and> r = Some (rc_id c0))"
proof (cases r)
  case None
  then show ?thesis by (simp add: preferRequested_def)
next
  case (Some q)
  show ?thesis
  proof (cases "List.find (\<lambda>c. rc_id c = q) M")
    case None
    with Some show ?thesis by (simp add: preferRequested_def)
  next
    case (Some c0)
    from find_first [OF this] have "c0 \<in> set M" "rc_id c0 = q" by auto
    with Some \<open>r = Some q\<close> show ?thesis by (auto simp: preferRequested_def)
  qed
qed

lemma preferRequested_set: "set (preferRequested r M) \<subseteq> set M"
  using preferRequested_cases [of r M] by (auto dest: set_remove1_subset [THEN subsetD])

lemma resolved_status:
  assumes "c \<in> set (resolveProviderCredentials env dateParse collate now i)" and "ri_ignoreProviderEnv i"
  shows "rc_status c = resolveCredentialStatus dateParse now (rc_apiKey c) (rc_cooldownUntil c) (rc_disabled c)"
proof -
  have "c \<in> resolveCredential env dateParse now ` set (credentialEntries i)"
    using assms preferRequested_set by (fastforce simp: resolveProviderCredentials_def)
  then show ?thesis by (auto simp: resolveCredential_def Let_def)
qed

text \<open>
  The credential in use is never disabled or cooling down and has a key. It is the requested one whenever
  that one may be used; otherwise it is, among all that may be used, one of least priority number, and
  of those the first in collation order.
\<close>

theorem credential_choice:
  assumes ign: "ri_ignoreProviderEnv i"
    and L: "L = resolveProviderCredentials env dateParse collate now i" and c: "selectActiveCredential L = Some c"
  shows "c \<in> set L \<and> \<not> rc_disabled c \<and> (\<exists>k. rc_apiKey c = Some k \<and> k \<noteq> []) \<and>
    (\<forall>u t. rc_cooldownUntil c = Some u \<longrightarrow> dateParse u = Some t \<longrightarrow> t \<le> now) \<and>
    (\<forall>r x. ri_requestedCredentialId i = Some r \<longrightarrow> List.find (\<lambda>c. rc_id c = r) L = Some x \<longrightarrow>
       rc_status x = C_available \<longrightarrow> c = x) \<and>
    (ri_requestedCredentialId i \<noteq> Some (rc_id c) \<longrightarrow>
       (\<forall>x\<in>set L. rc_status x = C_available \<longrightarrow>
          (rc_priority c, collate (rc_id c)) \<le> (rc_priority x, collate (rc_id x))))"
proof -
  let ?av = "\<lambda>c. rc_status c = C_available" and ?k = "\<lambda>c. (rc_priority c, collate (rc_id c))"
  have f: "List.find ?av L = Some c" using c by (simp add: selectActiveCredential_def)
  then have mem: "c \<in> set L" and av: "?av c" by (auto simp: find_Some_iff)
  have "resolveCredentialStatus dateParse now (rc_apiKey c) (rc_cooldownUntil c) (rc_disabled c) = C_available"
    using resolved_status [of c] mem ign av L by metis
  then have use: "\<not> rc_disabled c" "\<exists>k. rc_apiKey c = Some k \<and> k \<noteq> []"
    "\<forall>u t. rc_cooldownUntil c = Some u \<longrightarrow> dateParse u = Some t \<longrightarrow> t \<le> now"
    by (auto simp: resolveCredentialStatus_def not_less split: if_splits option.splits)
  obtain M where M: "sorted (map ?k M)" "L = preferRequested (ri_requestedCredentialId i) M"
  proof (rule that)
    show "sorted (map ?k (sort_key ?k (map (resolveCredential env dateParse now) (credentialEntries i))))"
      by (rule sorted_sort_key)
    show "L = preferRequested (ri_requestedCredentialId i)
        (sort_key ?k (map (resolveCredential env dateParse now) (credentialEntries i)))"
      using ign by (simp add: L resolveProviderCredentials_def)
  qed
  have requested: "c = x" if "ri_requestedCredentialId i = Some r" "List.find (\<lambda>c. rc_id c = r) L = Some x" "?av x" for r x
  proof (cases "List.find (\<lambda>c. rc_id c = r) M")
    case None
    with that M(2) show ?thesis by (simp add: preferRequested_def)
  next
    case (Some c0)
    from find_first [OF this] have "rc_id c0 = r" by auto
    with Some that M(2) f show ?thesis by (simp add: preferRequested_def)
  qed
  have best: "\<forall>x\<in>set L. ?av x \<longrightarrow> ?k c \<le> ?k x" if other: "ri_requestedCredentialId i \<noteq> Some (rc_id c)"
  proof -
    have "?k c \<le> ?k x" if x: "x \<in> set L" "?av x" for x
    proof (cases "L = M")
      case True
      with find_sorted_min [of ?k M ?av c x] M(1) f x show ?thesis by simp
    next
      case False
      then obtain c0 where c0: "c0 \<in> set M" "L = c0 # remove1 c0 M" "ri_requestedCredentialId i = Some (rc_id c0)"
        using M(2) preferRequested_cases [of "ri_requestedCredentialId i" M] by auto
      have "\<not> ?av c0" using f c0 other by (auto split: if_splits)
      then have f': "List.find ?av (remove1 c0 M) = Some c" and x': "x \<in> set (remove1 c0 M)"
        using f c0(2) x by auto
      have "sorted (map ?k (remove1 c0 M))" using M(1) by (rule sorted_map_remove1)
      from find_sorted_min [OF this f' x' x(2)] show ?thesis .
    qed
    then show ?thesis by blast
  qed
  show ?thesis using mem use best requested by blast
qed

definition sampleEntry :: "string \<Rightarrow> int \<Rightarrow> bool \<Rightarrow> ProviderCredentialFileEntry" where
  "sampleEntry i p off = \<lparr>ce_apiKey = Some ''k'', ce_apiKeyEnv = None, ce_cooldownUntil = None, ce_disabled = off,
     ce_id = Some i, ce_lastFailure = None, ce_priority = Some p\<rparr>"

theorem credential_choice_witness:
  "\<exists>c. selectActiveCredential (resolveProviderCredentials (\<lambda>_. None) (\<lambda>_. None) id 0
      \<lparr>ri_credentials = [sampleEntry ''a'' 2 False, sampleEntry ''b'' 1 False, sampleEntry ''c'' 0 True],
       ri_envApiKey = None, ri_ignoreProviderEnv = True, ri_legacyApiKey = None, ri_requestedCredentialId = None\<rparr>) = Some c \<and>
    \<not> rc_disabled c \<and> rc_id c = ''b''"
proof -
  let ?i = "\<lparr>ri_credentials = [sampleEntry ''a'' 2 False, sampleEntry ''b'' 1 False, sampleEntry ''c'' 0 True],
       ri_envApiKey = None, ri_ignoreProviderEnv = True, ri_legacyApiKey = None, ri_requestedCredentialId = None\<rparr>"
  let ?L = "resolveProviderCredentials (\<lambda>_. None) (\<lambda>_. None) id 0 ?i"
  obtain c where c: "selectActiveCredential ?L = Some c" "rc_id c = ''b''"
    by (simp add: resolveProviderCredentials_def credentialEntries_def normalizeCredentialEntries_def normalizeEntry_def
        sampleEntry_def normalizeNullableString_def trim_def trimBy_def isWs_def Let_def resolveCredential_def
        resolveCredentialStatus_def preferRequested_def selectActiveCredential_def normalizePriority_def)
  from credential_choice [OF _ refl c(1)] c show ?thesis by auto
qed

end
