(* ===== verification/ProviderFailover.thy ===== *)
theory ProviderFailover
  imports JsText Governance Credentials
begin

section \<open>Failover between model providers\<close>

text \<open>
  src/src/providers/provider-failover.ts: the candidates of a request (the primary provider, its other
  credentials, the configured fallbacks), their order of trial, and the status, trace and audit records left
  behind. What the configuration files say is an argument; a provider's \<open>generate\<close> is an arbitrary
  operation on a state of its own.
\<close>

text \<open>A provider object: its name and model, and a handle for what its methods do.\<close>

record 'h Provider =
  pv_name :: string
  pv_model :: "string option"
  pv_handle :: 'h

record ProviderResponseMetadata =
  md_providerName :: "string option"
  md_modelName :: "string option"

record 'r ProviderResponse =
  rs_metadata :: "ProviderResponseMetadata option"
  rs_body :: 'r

datatype CandidateReason = Credential_rotation | Fallback_chain | Primary

fun reasonStr :: "CandidateReason \<Rightarrow> string" where
  "reasonStr Credential_rotation = ''credential_rotation''"
| "reasonStr Fallback_chain = ''fallback_chain''"
| "reasonStr Primary = ''primary''"

record 'h ProviderCandidate =
  pc_credentialId :: "string option"
  pc_provider :: "'h Provider"
  pc_reason :: CandidateReason
  pc_selection :: string

record ActiveFallback =
  fb_fromProvider :: string
  fb_providerName :: string
  fb_reason :: CandidateReason
  fb_selection :: string

record LastFailure =
  lf_errorCategory :: string
  lf_modelName :: "string option"
  lf_providerName :: string
  lf_slot :: string
  lf_taskId :: string

record ModelFallbackStatus =
  fs_activeFallback :: "ActiveFallback option"
  fs_lastFailure :: "LastFailure option"
  fs_updatedAt :: "instant option"

record ('h, 'm) FailoverWorld =
  fo_status :: ModelFallbackStatus
  fo_cache :: "string \<Rightarrow> 'h ProviderCandidate list option"
  fo_trace :: "TraceEvent list"
  fo_audit :: "AuditEntry list"
  fo_rest :: 'm

record 'h ProviderFailoverContext =
  fc_auxiliarySlot :: "string option"
  fc_cwd :: string
  fc_enableFailover :: bool
  fc_primaryProvider :: "'h Provider"
  fc_taskId :: string

definition slotOf :: "'h ProviderFailoverContext \<Rightarrow> string" where
  "slotOf ctx = (case fc_auxiliarySlot ctx of None \<Rightarrow> ''main'' | Some s \<Rightarrow> s)"

definition FAILOVER_CATEGORIES :: "string list" where
  "FAILOVER_CATEGORIES = [''auth_error'', ''rate_limit'', ''provider_unavailable'', ''timeout_error'',
     ''transient_network_error'']"

fun isFailoverEligible :: "thrown \<Rightarrow> bool" where
  "isFailoverEligible (ProviderError p) = (pe_category p \<in> set FAILOVER_CATEGORIES)"
| "isFailoverEligible _ = False"

fun errorCategory :: "thrown \<Rightarrow> string" where
  "errorCategory (ProviderError p) = pe_category p"
| "errorCategory _ = ''unknown_error''"

definition formatProviderSelection :: "'h Provider \<Rightarrow> string" where
  "formatProviderSelection p =
     (case pv_model p of None \<Rightarrow> pv_name p | Some m \<Rightarrow> if m = [] then pv_name p else pv_name p @ '':'' @ m)"

subsection \<open>Candidates\<close>

text \<open>The part of a resolved provider configuration that failover reads.\<close>

record ResolvedProviderConfig =
  cg_name :: string
  cg_model :: "string option"
  cg_configured :: bool
  cg_builtinProviderName :: "string option"
  cg_apiKey :: "string option"
  cg_baseUrl :: "string option"
  cg_credential :: "ProviderCredentialSummary option"

definition isProviderSwitchable :: "ResolvedProviderConfig \<Rightarrow> bool" where
  "isProviderSwitchable c =
     (if \<not> cg_configured c then False
      else if cg_name c = ''mock'' \<or> cg_builtinProviderName c = Some ''ollama'' then True
      else if map_option cs_credentialStatus (cg_credential c) = Some C_available then True
      else if (case cg_apiKey c of None \<Rightarrow> False | Some k \<Rightarrow> k \<noteq> []) then True
      else cg_builtinProviderName c = None \<and> (case cg_baseUrl c of None \<Rightarrow> False | Some u \<Rightarrow> u \<noteq> []) \<and>
        (case cg_credential c of None \<Rightarrow> 0 | Some s \<Rightarrow> cs_credentialCount s) = 0)"

type_synonym candidate_key = "string \<times> string \<times> string"

definition orEmpty :: "string option \<Rightarrow> string" where
  "orEmpty s = (case s of None \<Rightarrow> [] | Some x \<Rightarrow> x)"

definition activeCredentialOf :: "ResolvedProviderConfig \<Rightarrow> string option" where
  "activeCredentialOf c = (case cg_credential c of None \<Rightarrow> None | Some s \<Rightarrow> cs_activeCredentialId s)"

definition candidateKey :: "ResolvedProviderConfig \<Rightarrow> candidate_key" where
  "candidateKey c = (cg_name c, orEmpty (cg_model c), orEmpty (activeCredentialOf c))"

text \<open>
  The configuration: the configs of the primary's credentials (or an error), the fallback selections of a slot,
  aliases, the config of a selection, and the construction of a provider.
\<close>

record 'h ProviderSetup =
  ps_credentialConfigs :: "string \<Rightarrow> thrown + ResolvedProviderConfig list"
  ps_fallbackSelections :: "string option \<Rightarrow> string list"
  ps_alias :: "string \<Rightarrow> string"
  ps_configFor :: "string \<Rightarrow> thrown + ResolvedProviderConfig"
  ps_createProvider :: "ResolvedProviderConfig \<Rightarrow> thrown + 'h Provider"

text \<open>The loop over the primary's credentials: it stops where a provider cannot be created.\<close>

fun rotationCandidates :: "'h ProviderSetup \<Rightarrow> string \<Rightarrow> ResolvedProviderConfig list \<Rightarrow>
    candidate_key list \<Rightarrow> 'h ProviderCandidate list \<Rightarrow> candidate_key list \<times> 'h ProviderCandidate list" where
  "rotationCandidates ps selection [] seen acc = (seen, acc)"
| "rotationCandidates ps selection (c # cs) seen acc =
     (if \<not> isProviderSwitchable c \<or> activeCredentialOf c = None \<or> candidateKey c \<in> set seen
      then rotationCandidates ps selection cs seen acc
      else case ps_createProvider ps c of
        Inl e \<Rightarrow> (candidateKey c # seen, acc)
      | Inr p \<Rightarrow> rotationCandidates ps selection cs (candidateKey c # seen)
          (acc @ [\<lparr>pc_credentialId = activeCredentialOf c, pc_provider = p, pc_reason = Credential_rotation,
             pc_selection = selection\<rparr>]))"

text \<open>The loop over the fallback selections: it skips those that cannot be resolved or created.\<close>

fun fallbackCandidates :: "'h ProviderSetup \<Rightarrow> string list \<Rightarrow>
    candidate_key list \<Rightarrow> 'h ProviderCandidate list \<Rightarrow> candidate_key list \<times> 'h ProviderCandidate list" where
  "fallbackCandidates ps [] seen acc = (seen, acc)"
| "fallbackCandidates ps (sel # sels) seen acc =
     (let resolvedSelection = ps_alias ps sel
      in case ps_configFor ps resolvedSelection of
           Inl e \<Rightarrow> fallbackCandidates ps sels seen acc
         | Inr c \<Rightarrow>
             if \<not> isProviderSwitchable c \<or> candidateKey c \<in> set seen then fallbackCandidates ps sels seen acc
             else case ps_createProvider ps c of
               Inl e \<Rightarrow> fallbackCandidates ps sels (candidateKey c # seen) acc
             | Inr p \<Rightarrow> fallbackCandidates ps sels (candidateKey c # seen)
                 (acc @ [\<lparr>pc_credentialId = activeCredentialOf c, pc_provider = p, pc_reason = Fallback_chain,
                    pc_selection = resolvedSelection\<rparr>]))"

definition nul :: string where "nul = [CHR 0x00]"

definition cacheKeyOf :: "'h ProviderFailoverContext \<Rightarrow> string" where
  "cacheKeyOf ctx = joinWith nul [fc_cwd ctx, pv_name (fc_primaryProvider ctx),
     orEmpty (pv_model (fc_primaryProvider ctx)), slotOf ctx]"

definition buildCandidates :: "'h ProviderSetup \<Rightarrow> 'h ProviderFailoverContext \<Rightarrow> 'h ProviderCandidate list" where
  "buildCandidates ps ctx =
     (let primary = fc_primaryProvider ctx; primarySelection = formatProviderSelection primary;
          seen0 = [(pv_name primary, orEmpty (pv_model primary), ''primary'')];
          (seen1, acc1) = (case ps_credentialConfigs ps primarySelection of
             Inl e \<Rightarrow> (seen0, [])
           | Inr cs \<Rightarrow> rotationCandidates ps primarySelection cs seen0 [])
      in snd (fallbackCandidates ps (ps_fallbackSelections ps (fc_auxiliarySlot ctx)) seen1 acc1))"

definition resolveFallbackCandidates :: "'h ProviderSetup \<Rightarrow> 'h ProviderFailoverContext \<Rightarrow>
    (('h, 'm) FailoverWorld, 'h ProviderCandidate list) op" where
  "resolveFallbackCandidates ps ctx =
     bnd (ask (\<lambda>w. fo_cache w (cacheKeyOf ctx))) (\<lambda>cached.
       case cached of
         Some cs \<Rightarrow> ret cs
       | None \<Rightarrow>
           let candidates = buildCandidates ps ctx
           in bnd (modify (\<lambda>w. w\<lparr>fo_cache := (fo_cache w)(cacheKeyOf ctx \<mapsto> candidates)\<rparr>)) (\<lambda>_.
              ret candidates))"

definition clearFallbackProviderCache :: "(('h, 'm) FailoverWorld, unit) op" where
  "clearFallbackProviderCache = modify (\<lambda>w. w\<lparr>fo_cache := (\<lambda>_. None),
     fo_status := \<lparr>fs_activeFallback = None, fs_lastFailure = None, fs_updatedAt = None\<rparr>\<rparr>)"

subsection \<open>Records\<close>

definition setStatus :: "(ModelFallbackStatus \<Rightarrow> ModelFallbackStatus) \<Rightarrow> (('h, 'm) FailoverWorld, unit) op" where
  "setStatus f = modify (\<lambda>w. w\<lparr>fo_status := f (fo_status w)\<rparr>)"

definition foTrace :: "TraceEvent \<Rightarrow> (('h, 'm) FailoverWorld, unit) op" where
  "foTrace e = modify (\<lambda>w. w\<lparr>fo_trace := fo_trace w @ [e]\<rparr>)"

definition foAudit :: "AuditEntry \<Rightarrow> (('h, 'm) FailoverWorld, unit) op" where
  "foAudit e = modify (\<lambda>w. w\<lparr>fo_audit := fo_audit w @ [e]\<rparr>)"

definition failureOf :: "'h ProviderFailoverContext \<Rightarrow> 'h Provider \<Rightarrow> thrown \<Rightarrow> LastFailure" where
  "failureOf ctx p e = \<lparr>lf_errorCategory = errorCategory e, lf_modelName = pv_model p, lf_providerName = pv_name p,
     lf_slot = slotOf ctx, lf_taskId = fc_taskId ctx\<rparr>"

definition fallbackOf :: "string \<Rightarrow> 'h ProviderCandidate \<Rightarrow> ActiveFallback" where
  "fallbackOf from c = \<lparr>fb_fromProvider = from, fb_providerName = pv_name (pc_provider c),
     fb_reason = pc_reason c, fb_selection = pc_selection c\<rparr>"

definition recordProviderFailure :: "instant \<Rightarrow> 'h ProviderFailoverContext \<Rightarrow> 'h Provider \<Rightarrow> thrown \<Rightarrow>
    (('h, 'm) FailoverWorld, unit) op" where
  "recordProviderFailure now ctx p e = setStatus (\<lambda>s. s\<lparr>fs_lastFailure := Some (failureOf ctx p e),
     fs_updatedAt := Some now\<rparr>)"

definition startedPayload :: "'h ProviderFailoverContext \<Rightarrow> 'h Provider \<Rightarrow> 'h ProviderCandidate \<Rightarrow> thrown \<Rightarrow> json_object" where
  "startedPayload ctx failed nxt e =
     [(''credentialId'', jopt (pc_credentialId nxt)), (''errorCategory'', JStr (errorCategory e)),
      (''fromProvider'', JStr (pv_name failed)), (''reason'', JStr (reasonStr (pc_reason nxt))),
      (''selection'', JStr (pc_selection nxt)), (''slot'', JStr (slotOf ctx)),
      (''toProvider'', JStr (pv_name (pc_provider nxt)))]"

definition recordFallbackStarted :: "instant \<Rightarrow> 'h ProviderFailoverContext \<Rightarrow> 'h Provider \<Rightarrow> 'h ProviderCandidate \<Rightarrow>
    thrown \<Rightarrow> nat \<Rightarrow> nat \<Rightarrow> (('h, 'm) FailoverWorld, unit) op" where
  "recordFallbackStarted now ctx failed nxt e attempt maxRetries =
     bnd (setStatus (\<lambda>s. \<lparr>fs_activeFallback = Some (fallbackOf (pv_name failed) nxt),
            fs_lastFailure = Some (failureOf ctx failed e), fs_updatedAt = Some now\<rparr>)) (\<lambda>_.
     bnd (foTrace \<lparr>te_actor = ''provider.'' @ pv_name failed, te_eventType = ''provider_retry_scheduled'',
            te_payload = [(''attempt'', JNum (int attempt)), (''delayMs'', JNum 0),
              (''errorCategory'', JStr (errorCategory e)), (''iteration'', JNum 0),
              (''maxRetries'', JNum (int maxRetries)), (''modelName'', jopt (pv_model failed)),
              (''providerName'', JStr (pv_name failed))],
            te_stage = ''planning'',
            te_summary = ''Provider failover trying '' @ pv_name (pc_provider nxt) @ '' after '' @ pv_name failed,
            te_taskId = fc_taskId ctx\<rparr>) (\<lambda>_.
     bnd (foTrace \<lparr>te_actor = ''provider.failover'', te_eventType = ''model_fallback_started'',
            te_payload = startedPayload ctx failed nxt e, te_stage = ''planning'',
            te_summary = ''Model fallback started for '' @ slotOf ctx, te_taskId = fc_taskId ctx\<rparr>) (\<lambda>_.
     bnd (foAudit \<lparr>ae_action = ''model_fallback_started'', ae_actor = ''provider.failover'', ae_approvalId = None,
            ae_outcome = ''attempted'', ae_payload = startedPayload ctx failed nxt e,
            ae_summary = ''Model fallback started for '' @ slotOf ctx, ae_taskId = Some (fc_taskId ctx),
            ae_toolCallId = None\<rparr>) (\<lambda>_.
     if pc_reason nxt = Credential_rotation
     then foTrace \<lparr>te_actor = ''provider.failover'', te_eventType = ''credential_rotated'',
            te_payload = [(''credentialId'', jopt (pc_credentialId nxt)),
              (''providerName'', JStr (pv_name (pc_provider nxt))), (''slot'', JStr (slotOf ctx))],
            te_stage = ''planning'', te_summary = ''Credential rotated for '' @ pv_name (pc_provider nxt),
            te_taskId = fc_taskId ctx\<rparr>
     else ret ()))))"

definition recordFallbackSucceeded :: "instant \<Rightarrow> 'h ProviderFailoverContext \<Rightarrow> 'h Provider \<Rightarrow> 'h ProviderCandidate \<Rightarrow>
    (('h, 'm) FailoverWorld, unit) op" where
  "recordFallbackSucceeded now ctx primary c =
     (let payload = [(''credentialId'', jopt (pc_credentialId c)), (''fromProvider'', JStr (pv_name primary)),
            (''reason'', JStr (reasonStr (pc_reason c))), (''selection'', JStr (pc_selection c)),
            (''slot'', JStr (slotOf ctx)), (''toProvider'', JStr (pv_name (pc_provider c)))];
          summary = ''Model fallback succeeded for '' @ slotOf ctx
      in bnd (setStatus (\<lambda>s. s\<lparr>fs_activeFallback := Some (fallbackOf (pv_name primary) c),
               fs_updatedAt := Some now\<rparr>)) (\<lambda>_.
         bnd (foTrace \<lparr>te_actor = ''provider.failover'', te_eventType = ''model_fallback_succeeded'',
               te_payload = payload, te_stage = ''planning'', te_summary = summary, te_taskId = fc_taskId ctx\<rparr>) (\<lambda>_.
         foAudit \<lparr>ae_action = ''model_fallback_succeeded'', ae_actor = ''provider.failover'', ae_approvalId = None,
           ae_outcome = ''succeeded'', ae_payload = payload, ae_summary = summary, ae_taskId = Some (fc_taskId ctx),
           ae_toolCallId = None\<rparr>)))"

definition recordFallbackExhausted :: "instant \<Rightarrow> 'h ProviderFailoverContext \<Rightarrow> 'h Provider \<Rightarrow> thrown \<Rightarrow>
    (('h, 'm) FailoverWorld, unit) op" where
  "recordFallbackExhausted now ctx p e =
     (let payload = [(''errorCategory'', JStr (errorCategory e)), (''providerName'', JStr (pv_name p)),
            (''slot'', JStr (slotOf ctx))];
          summary = ''Model fallback exhausted for '' @ slotOf ctx
      in bnd (setStatus (\<lambda>s. \<lparr>fs_activeFallback = None, fs_lastFailure = Some (failureOf ctx p e),
               fs_updatedAt = Some now\<rparr>)) (\<lambda>_.
         bnd (foTrace \<lparr>te_actor = ''provider.failover'', te_eventType = ''model_fallback_exhausted'',
               te_payload = payload, te_stage = ''planning'', te_summary = summary, te_taskId = fc_taskId ctx\<rparr>) (\<lambda>_.
         foAudit \<lparr>ae_action = ''model_fallback_exhausted'', ae_actor = ''provider.failover'', ae_approvalId = None,
           ae_outcome = ''failed'', ae_payload = payload, ae_summary = summary, ae_taskId = Some (fc_taskId ctx),
           ae_toolCallId = None\<rparr>)))"

definition withProviderMetadata :: "'r ProviderResponse \<Rightarrow> 'h Provider \<Rightarrow> 'r ProviderResponse" where
  "withProviderMetadata response p =
     (let old = (case rs_metadata response of None \<Rightarrow> \<lparr>md_providerName = None, md_modelName = None\<rparr> | Some m \<Rightarrow> m)
      in response\<lparr>rs_metadata := Some \<lparr>
           md_providerName = Some (case md_providerName old of Some n \<Rightarrow> n | None \<Rightarrow> pv_name p),
           md_modelName = (case md_modelName old of Some n \<Rightarrow> Some n | None \<Rightarrow> pv_model p)\<rparr>\<rparr>)"

subsection \<open>The loop over the candidates\<close>

definition onRest :: "('m, 'a) op \<Rightarrow> (('h, 'm) FailoverWorld, 'a) op" where
  "onRest = zoom fo_rest (\<lambda>s w. w\<lparr>fo_rest := s\<rparr>)"

text \<open>\<open>ncand\<close> is the number of all candidates, \<open>index\<close> that of the head of the list.\<close>

fun tryCandidates :: "('h Provider \<Rightarrow> 'q \<Rightarrow> ('m, 'r ProviderResponse) op) \<Rightarrow> instant \<Rightarrow> 'h ProviderFailoverContext \<Rightarrow> 'q \<Rightarrow>
    nat \<Rightarrow> nat \<Rightarrow> 'h ProviderCandidate list \<Rightarrow> (('h, 'm) FailoverWorld, 'r ProviderResponse) op" where
  "tryCandidates generate now ctx q ncand index [] = raise NonError"
| "tryCandidates generate now ctx q ncand index (c # cs) =
     tryCatch
       (bnd (onRest (generate (pc_provider c) q)) (\<lambda>response.
        bnd (if index > 0 then recordFallbackSucceeded now ctx (fc_primaryProvider ctx) c else ret ()) (\<lambda>_.
        ret (withProviderMetadata response (pc_provider c)))))
       (\<lambda>e. bnd (recordProviderFailure now ctx (pc_provider c) e) (\<lambda>_.
          case cs of
            nxt # _ \<Rightarrow>
              if isFailoverEligible e
              then bnd (recordFallbackStarted now ctx (pc_provider c) nxt e (index + 1) (ncand - 1)) (\<lambda>_.
                   tryCandidates generate now ctx q ncand (index + 1) cs)
              else bnd (if index > 0 \<or> ncand > 1 then recordFallbackExhausted now ctx (pc_provider c) e else ret ())
                     (\<lambda>_. raise e)
          | [] \<Rightarrow> bnd (if index > 0 \<or> ncand > 1 then recordFallbackExhausted now ctx (pc_provider c) e else ret ())
                     (\<lambda>_. raise e)))"

definition primaryCandidate :: "'h ProviderFailoverContext \<Rightarrow> 'h ProviderCandidate" where
  "primaryCandidate ctx = \<lparr>pc_credentialId = None, pc_provider = fc_primaryProvider ctx, pc_reason = Primary,
     pc_selection = formatProviderSelection (fc_primaryProvider ctx)\<rparr>"

definition generateWithProviderFailover :: "'h ProviderSetup \<Rightarrow>
    ('h Provider \<Rightarrow> 'q \<Rightarrow> ('m, 'r ProviderResponse) op) \<Rightarrow> instant \<Rightarrow> 'h ProviderFailoverContext \<Rightarrow> 'q \<Rightarrow>
    (('h, 'm) FailoverWorld, 'r ProviderResponse) op" where
  "generateWithProviderFailover ps generate now ctx q =
     bnd (if fc_enableFailover ctx then resolveFallbackCandidates ps ctx else ret []) (\<lambda>more.
     tryCandidates generate now ctx q (1 + length more) 0 (primaryCandidate ctx # more))"

subsection \<open>The candidates\<close>

text \<open>The key of a candidate, read from the configuration it was made from.\<close>

definition setupFaithful :: "'h ProviderSetup \<Rightarrow> bool" where
  "setupFaithful ps \<longleftrightarrow> (\<forall>c p. ps_createProvider ps c = Inr p \<longrightarrow> pv_name p = cg_name c \<and> orEmpty (pv_model p) = orEmpty (cg_model c))"

definition keyOfCandidate :: "'h ProviderCandidate \<Rightarrow> candidate_key" where
  "keyOfCandidate c = (pv_name (pc_provider c), orEmpty (pv_model (pc_provider c)), orEmpty (pc_credentialId c))"

definition candidatesOk :: "candidate_key list \<Rightarrow> 'h ProviderCandidate list \<Rightarrow> bool" where
  "candidatesOk seen acc \<longleftrightarrow> distinct (map keyOfCandidate acc) \<and> keyOfCandidate ` set acc \<subseteq> set seen"

lemma candidatesOk_add:
  assumes "candidatesOk seen acc" and "keyOfCandidate c \<notin> set seen"
  shows "candidatesOk (keyOfCandidate c # seen) (acc @ [c])"
  using assms by (auto simp: candidatesOk_def)

lemma candidatesOk_seen: "candidatesOk seen acc \<Longrightarrow> candidatesOk (k # seen) acc"
  by (auto simp: candidatesOk_def)

lemma madeCandidate_key:
  "setupFaithful ps \<Longrightarrow> ps_createProvider ps c = Inr p \<Longrightarrow>
    keyOfCandidate \<lparr>pc_credentialId = activeCredentialOf c, pc_provider = p, pc_reason = r, pc_selection = sel\<rparr> = candidateKey c"
  by (simp add: setupFaithful_def keyOfCandidate_def candidateKey_def)

text \<open>Credential rotations come first, fallbacks after; each group in the order of the configuration.\<close>

lemma rotationCandidates_ok:
  assumes "setupFaithful ps"
  shows "candidatesOk seen acc \<Longrightarrow> rotationCandidates ps selection cs seen acc = (seen', acc') \<Longrightarrow>
    candidatesOk seen' acc' \<and> set seen \<subseteq> set seen' \<and>
    (\<exists>new. acc' = acc @ new \<and> (\<forall>c\<in>set new. pc_reason c = Credential_rotation \<and> keyOfCandidate c \<notin> set seen))"
proof (induction cs arbitrary: seen acc)
  case Nil
  then show ?case by simp
next
  case (Cons c cs)
  show ?case
  proof (cases "\<not> isProviderSwitchable c \<or> activeCredentialOf c = None \<or> candidateKey c \<in> set seen")
    case True
    with Cons show ?thesis by simp
  next
    case use: False
    show ?thesis
    proof (cases "ps_createProvider ps c")
      case (Inl e)
      with use Cons.prems show ?thesis by (auto simp: candidatesOk_seen)
    next
      case (Inr p)
      let ?c = "\<lparr>pc_credentialId = activeCredentialOf c, pc_provider = p, pc_reason = Credential_rotation,
        pc_selection = selection\<rparr>"
      note k = madeCandidate_key [OF assms Inr, of Credential_rotation selection]
      have "candidatesOk (candidateKey c # seen) (acc @ [?c])"
        using candidatesOk_add [OF Cons.prems(1), of ?c] use k by simp
      from Cons.IH [OF this] Cons.prems(2) use Inr obtain new where
        "candidatesOk seen' acc'" "set (candidateKey c # seen) \<subseteq> set seen'" "acc' = (acc @ [?c]) @ new"
        "\<forall>c'\<in>set new. pc_reason c' = Credential_rotation \<and> keyOfCandidate c' \<notin> set (candidateKey c # seen)" by auto
      with use k show ?thesis by (auto intro!: exI [of _ "?c # new"])
    qed
  qed
qed

lemma fallbackCandidates_ok:
  assumes "setupFaithful ps"
  shows "candidatesOk seen acc \<Longrightarrow> fallbackCandidates ps sels seen acc = (seen', acc') \<Longrightarrow>
    candidatesOk seen' acc' \<and>
    (\<exists>new. acc' = acc @ new \<and> (\<forall>c\<in>set new. pc_reason c = Fallback_chain \<and> keyOfCandidate c \<notin> set seen))"
proof (induction sels arbitrary: seen acc)
  case Nil
  then show ?case by simp
next
  case (Cons sel sels)
  show ?case
  proof (cases "ps_configFor ps (ps_alias ps sel)")
    case (Inl e)
    with Cons show ?thesis by (simp add: Let_def)
  next
    case cfg: (Inr c)
    show ?thesis
    proof (cases "\<not> isProviderSwitchable c \<or> candidateKey c \<in> set seen")
      case True
      with Cons cfg show ?thesis by (simp add: Let_def)
    next
      case use: False
      show ?thesis
      proof (cases "ps_createProvider ps c")
        case (Inl e)
        from Cons.IH [OF candidatesOk_seen [OF Cons.prems(1)], of "candidateKey c"] Cons.prems(2) cfg use Inl
        show ?thesis by (auto simp: Let_def)
      next
        case (Inr p)
        let ?c = "\<lparr>pc_credentialId = activeCredentialOf c, pc_provider = p, pc_reason = Fallback_chain,
          pc_selection = ps_alias ps sel\<rparr>"
        note k = madeCandidate_key [OF assms Inr, of Fallback_chain "ps_alias ps sel"]
        have "candidatesOk (candidateKey c # seen) (acc @ [?c])"
          using candidatesOk_add [OF Cons.prems(1), of ?c] use k by simp
        from Cons.IH [OF this] Cons.prems(2) cfg use Inr obtain new where
          "candidatesOk seen' acc'" "acc' = (acc @ [?c]) @ new"
          "\<forall>c'\<in>set new. pc_reason c' = Fallback_chain \<and> keyOfCandidate c' \<notin> set (candidateKey c # seen)"
          by (auto simp: Let_def)
        with use k show ?thesis by (auto intro!: exI [of _ "?c # new"])
      qed
    qed
  qed
qed

text \<open>
  The providers tried after the primary are pairwise different in name, model or credential, none is the
  primary as configured, and all rotations of the primary's credentials come before the fallback chain.
\<close>

theorem fallback_candidates_distinct:
  assumes "setupFaithful ps"
  shows "distinct (map keyOfCandidate (buildCandidates ps ctx)) \<and>
    (pv_name (fc_primaryProvider ctx), orEmpty (pv_model (fc_primaryProvider ctx)), ''primary'') \<notin>
      keyOfCandidate ` set (buildCandidates ps ctx) \<and>
    (\<exists>rot chain. buildCandidates ps ctx = rot @ chain \<and> (\<forall>c\<in>set rot. pc_reason c = Credential_rotation) \<and>
       (\<forall>c\<in>set chain. pc_reason c = Fallback_chain))"
proof -
  let ?p = "fc_primaryProvider ctx" and ?sel = "formatProviderSelection (fc_primaryProvider ctx)"
  let ?k = "(pv_name ?p, orEmpty (pv_model ?p), ''primary'')"
  define r where "r = (case ps_credentialConfigs ps ?sel of Inl e \<Rightarrow> ([?k], []) | Inr cs \<Rightarrow> rotationCandidates ps ?sel cs [?k] [])"
  obtain seen1 acc1 where r1: "r = (seen1, acc1)" by (cases r)
  have 1: "candidatesOk seen1 acc1" "?k \<in> set seen1"
    "\<forall>c\<in>set acc1. pc_reason c = Credential_rotation \<and> keyOfCandidate c \<noteq> ?k"
  proof -
    have empty: "candidatesOk [?k] ([] :: 'a ProviderCandidate list)" by (simp add: candidatesOk_def)
    show "candidatesOk seen1 acc1" "?k \<in> set seen1"
      "\<forall>c\<in>set acc1. pc_reason c = Credential_rotation \<and> keyOfCandidate c \<noteq> ?k"
      using r1 rotationCandidates_ok [OF assms empty, of ?sel _ seen1 acc1] empty
      by (auto simp: r_def split: sum.splits)
  qed
  obtain seen2 acc2 where f: "fallbackCandidates ps (ps_fallbackSelections ps (fc_auxiliarySlot ctx)) seen1 acc1 = (seen2, acc2)"
    by fastforce
  from fallbackCandidates_ok [OF assms 1(1) f] obtain new where
    2: "candidatesOk seen2 acc2" "acc2 = acc1 @ new" "\<forall>c\<in>set new. pc_reason c = Fallback_chain \<and> keyOfCandidate c \<notin> set seen1"
    by blast
  have b: "buildCandidates ps ctx = acc2"
    using f r1 by (simp add: buildCandidates_def Let_def r_def [symmetric])
  have "keyOfCandidate c \<noteq> ?k" if "c \<in> set acc2" for c
  proof (cases "c \<in> set acc1")
    case True
    with 1(3) show ?thesis by blast
  next
    case False
    then have "keyOfCandidate c \<notin> set seen1" using that 2(2,3) by simp
    with 1(2) show ?thesis by metis
  qed
  then have "?k \<notin> keyOfCandidate ` set acc2" by (intro notI) (erule imageE, drule sym, blast)
  moreover have "distinct (map keyOfCandidate acc2)" using 2(1) by (simp add: candidatesOk_def)
  moreover have "\<exists>rot chain. acc2 = rot @ chain \<and> (\<forall>c\<in>set rot. pc_reason c = Credential_rotation) \<and>
      (\<forall>c\<in>set chain. pc_reason c = Fallback_chain)" using 1(3) 2(3) by (intro exI [of _ acc1] exI [of _ new]) (simp add: 2(2))
  ultimately show ?thesis unfolding b by (intro conjI)
qed

text \<open>A setup with two credentials for the primary and two fallback selections, one of them a repetition.\<close>

definition demoConfig :: "string \<Rightarrow> string option \<Rightarrow> ResolvedProviderConfig" where
  "demoConfig n cred = \<lparr>cg_name = n, cg_model = Some ''m'', cg_configured = True, cg_builtinProviderName = Some n,
     cg_apiKey = Some ''k'', cg_baseUrl = None,
     cg_credential = (case cred of None \<Rightarrow> None | Some c \<Rightarrow> Some \<lparr>cs_activeCredentialId = Some c,
       cs_availableCredentialIds = [c], cs_credentialCount = 2, cs_credentialStatus = C_available,
       cs_credentialSource = None\<rparr>)\<rparr>"

definition demoSetup :: "unit ProviderSetup" where
  "demoSetup = \<lparr>ps_credentialConfigs = (\<lambda>_. Inr [demoConfig ''a'' (Some ''k1''), demoConfig ''a'' (Some ''k2'')]),
     ps_fallbackSelections = (\<lambda>_. [''b'', ''b'', ''c'']), ps_alias = (\<lambda>s. s),
     ps_configFor = (\<lambda>s. if s = ''c'' then Inl NonError else Inr (demoConfig s None)),
     ps_createProvider = (\<lambda>c. Inr \<lparr>pv_name = cg_name c, pv_model = cg_model c, pv_handle = ()\<rparr>)\<rparr>"

definition demoFailover :: "unit ProviderFailoverContext" where
  "demoFailover = \<lparr>fc_auxiliarySlot = None, fc_cwd = ''/w'', fc_enableFailover = True,
     fc_primaryProvider = \<lparr>pv_name = ''a'', pv_model = Some ''m'', pv_handle = ()\<rparr>, fc_taskId = ''t''\<rparr>"

lemma demoSetup_faithful: "setupFaithful demoSetup"
  by (auto simp: setupFaithful_def demoSetup_def)

lemma demoSetup_candidates:
  "map (\<lambda>c. (pv_name (pc_provider c), pc_credentialId c)) (buildCandidates demoSetup demoFailover) =
    [(''a'', Some ''k1''), (''a'', Some ''k2''), (''b'', None)]"
  by code_simp

theorem fallback_candidates_distinct_witness:
  "distinct (map keyOfCandidate (buildCandidates demoSetup demoFailover)) \<and> length (buildCandidates demoSetup demoFailover) = 3"
  using fallback_candidates_distinct [OF demoSetup_faithful, of demoFailover]
    arg_cong [OF demoSetup_candidates, of length] by simp

text \<open>
  The primary's own credential is tried a second time. The first configuration of the primary's credentials is
  the one with its active credential; when it can be used it heads the list of fallback candidates as a
  credential rotation, although that credential is the one that has just failed.
\<close>

theorem active_credential_tried_again:
  assumes "ps_credentialConfigs ps (formatProviderSelection (fc_primaryProvider ctx)) = Inr (base # others)"
    and "isProviderSwitchable base" "activeCredentialOf base = Some k" "k \<noteq> ''primary''"
    and "ps_createProvider ps base = Inr p"
  shows "\<exists>rest. buildCandidates ps ctx = \<lparr>pc_credentialId = Some k, pc_provider = p, pc_reason = Credential_rotation,
    pc_selection = formatProviderSelection (fc_primaryProvider ctx)\<rparr> # rest"
proof -
  let ?sel = "formatProviderSelection (fc_primaryProvider ctx)"
  let ?seen = "[(pv_name (fc_primaryProvider ctx), orEmpty (pv_model (fc_primaryProvider ctx)), ''primary'')]"
  have k: "candidateKey base \<notin> set ?seen" using assms(3,4) by (simp add: candidateKey_def orEmpty_def)
  have grow: "\<exists>m1. snd (rotationCandidates ps s cs seen acc) = acc @ m1" for s cs seen acc
    by (induction cs arbitrary: seen acc) (auto split: sum.splits, metis append.assoc)
  have growf: "\<exists>m1. snd (fallbackCandidates ps sels seen acc) = acc @ m1" for sels seen acc
    by (induction sels arbitrary: seen acc) (auto simp: Let_def split: sum.splits, metis append.assoc)
  from k assms have "rotationCandidates ps ?sel (base # others) ?seen [] =
      rotationCandidates ps ?sel others (candidateKey base # ?seen)
        [\<lparr>pc_credentialId = Some k, pc_provider = p, pc_reason = Credential_rotation, pc_selection = ?sel\<rparr>]" by simp
  then obtain s1 m1 where r: "rotationCandidates ps ?sel (base # others) ?seen [] = (s1,
      [\<lparr>pc_credentialId = Some k, pc_provider = p, pc_reason = Credential_rotation, pc_selection = ?sel\<rparr>] @ m1)"
    using grow [of ?sel others "candidateKey base # ?seen"
      "[\<lparr>pc_credentialId = Some k, pc_provider = p, pc_reason = Credential_rotation, pc_selection = ?sel\<rparr>]"]
    by (metis prod.collapse)
  with growf [of "ps_fallbackSelections ps (fc_auxiliarySlot ctx)" s1] show ?thesis
    unfolding buildCandidates_def assms(1) Let_def by (simp add: assms) (metis append_Cons)
qed

theorem active_credential_tried_again_witness:
  "\<exists>c rest. buildCandidates demoSetup demoFailover = c # rest \<and> pc_credentialId c = Some ''k1'' \<and>
    pv_name (pc_provider c) = ''a''"
proof -
  have "\<exists>rest. buildCandidates demoSetup demoFailover = \<lparr>pc_credentialId = Some ''k1'',
    pc_provider = \<lparr>pv_name = ''a'', pv_model = Some ''m'', pv_handle = ()\<rparr>, pc_reason = Credential_rotation,
    pc_selection = formatProviderSelection (fc_primaryProvider demoFailover)\<rparr> # rest"
    by (rule active_credential_tried_again [where base = "demoConfig ''a'' (Some ''k1'')" and others = "[demoConfig ''a'' (Some ''k2'')]"])
      (simp_all add: demoSetup_def demoConfig_def isProviderSwitchable_def activeCredentialOf_def)
  then show ?thesis by auto
qed

subsection \<open>The outcome\<close>

text \<open>What the loop does, without its records.\<close>

fun firstWorking :: "('h Provider \<Rightarrow> 'q \<Rightarrow> ('m, 'r ProviderResponse) op) \<Rightarrow> 'q \<Rightarrow> 'h ProviderCandidate list \<Rightarrow>
    ('m, 'r ProviderResponse) op" where
  "firstWorking generate q [] = raise NonError"
| "firstWorking generate q (c # cs) =
     tryCatch (bnd (generate (pc_provider c) q) (\<lambda>r. ret (withProviderMetadata r (pc_provider c))))
       (\<lambda>e. if cs \<noteq> [] \<and> isFailoverEligible e then firstWorking generate q cs else raise e)"

lemma onRest_run [monad_simps]:
  "onRest m w = (case m (fo_rest w) of (r, s) \<Rightarrow> (r, w\<lparr>fo_rest := s\<rparr>))"
  by (simp add: onRest_def zoom_run)

text \<open>The records return and leave the providers' state and the cache alone.\<close>

definition onlyRecords :: "(('h, 'm) FailoverWorld, unit) op \<Rightarrow> bool" where
  "onlyRecords m \<longleftrightarrow> (\<forall>w. \<exists>w'. m w = (Inr (), w') \<and> fo_rest w' = fo_rest w \<and> fo_cache w' = fo_cache w)"

lemma onlyRecords_base: "onlyRecords (setStatus f)" "onlyRecords (foTrace t)" "onlyRecords (foAudit a)" "onlyRecords (ret ())"
  by (simp_all add: onlyRecords_def setStatus_def foTrace_def foAudit_def)

lemma onlyRecords_bnd: "onlyRecords m \<Longrightarrow> onlyRecords n \<Longrightarrow> onlyRecords (bnd m (\<lambda>_. n))"
  unfolding onlyRecords_def by (metis bnd_Inr)

lemma onlyRecords_records:
  "onlyRecords (recordProviderFailure now ctx p e)" "onlyRecords (recordFallbackStarted now ctx p c e a b)"
  "onlyRecords (recordFallbackSucceeded now ctx p c)" "onlyRecords (recordFallbackExhausted now ctx p e)"
  unfolding recordProviderFailure_def recordFallbackStarted_def recordFallbackSucceeded_def recordFallbackExhausted_def Let_def
  by (intro onlyRecords_bnd onlyRecords_base; simp add: onlyRecords_base)+

lemma onlyRecordsE:
  assumes "onlyRecords m"
  obtains w' where "m w = (Inr (), w')" "fo_rest w' = fo_rest w" "fo_cache w' = fo_cache w"
  using assms unfolding onlyRecords_def by blast

lemma tryCandidates_next:
  assumes "onRest (generate (pc_provider c) q) w = (Inl e, w1)"
    and "recordProviderFailure now ctx (pc_provider c) e w1 = (Inr (), w2)" and "isFailoverEligible e"
    and "recordFallbackStarted now ctx (pc_provider c) nxt e (index + 1) (ncand - 1) w2 = (Inr (), w3)"
  shows "tryCandidates generate now ctx q ncand index (c # nxt # cs) w =
    tryCandidates generate now ctx q ncand (index + 1) (nxt # cs) w3"
  using assms by (subst tryCandidates.simps(2)) (simp add: tryCatch_run bnd_run del: tryCandidates.simps One_nat_def add_Suc_right)

lemma tryCandidates_stop:
  assumes "onRest (generate (pc_provider c) q) w = (Inl e, w1)"
    and "recordProviderFailure now ctx (pc_provider c) e w1 = (Inr (), w2)" and "cs = [] \<or> \<not> isFailoverEligible e"
    and "(if index > 0 \<or> ncand > 1 then recordFallbackExhausted now ctx (pc_provider c) e else ret ()) w2 = (Inr (), w3)"
  shows "tryCandidates generate now ctx q ncand index (c # cs) w = (Inl e, w3)"
proof (cases cs)
  case Nil
  with assms show ?thesis by (simp add: tryCatch_run bnd_run)
next
  case (Cons nxt cs')
  with assms show ?thesis
    by (subst tryCandidates.simps(2)) (simp add: tryCatch_run bnd_run del: tryCandidates.simps)
qed

lemma tryCandidates_firstWorking:
  "tryCandidates generate now ctx q ncand index cs w = (res, w') \<Longrightarrow>
    firstWorking generate q cs (fo_rest w) = (res, fo_rest w') \<and> fo_cache w' = fo_cache w"
proof (induction cs arbitrary: index w)
  case Nil
  then show ?case by simp
next
  case (Cons c cs)
  obtain r1 s1 where g: "generate (pc_provider c) q (fo_rest w) = (r1, s1)" by fastforce
  let ?w1 = "w\<lparr>fo_rest := s1\<rparr>"
  have o: "onRest (generate (pc_provider c) q) w = (r1, ?w1)" by (simp add: onRest_run g)
  show ?case
  proof (cases r1)
    case (Inr r)
    have rec: "onlyRecords (if index > 0 then recordFallbackSucceeded now ctx (fc_primaryProvider ctx) c else ret ())"
      using onlyRecords_records(3) onlyRecords_base(4) by auto
    obtain w2 where w2: "(if index > 0 then recordFallbackSucceeded now ctx (fc_primaryProvider ctx) c else ret ()) ?w1 = (Inr (), w2)"
      "fo_rest w2 = s1" "fo_cache w2 = fo_cache w" by (rule onlyRecordsE [OF rec, of ?w1]) simp
    from Cons.prems have "res = Inr (withProviderMetadata r (pc_provider c))" "w' = w2"
      by (simp_all add: tryCatch_run bnd_run o Inr w2(1))
    with g Inr w2 show ?thesis by (simp add: tryCatch_run bnd_run)
  next
    case (Inl e)
    obtain w2 where w2: "recordProviderFailure now ctx (pc_provider c) e ?w1 = (Inr (), w2)" "fo_rest w2 = s1" "fo_cache w2 = fo_cache w"
      by (rule onlyRecordsE [OF onlyRecords_records(1), of now ctx "pc_provider c" e ?w1]) simp
    show ?thesis
    proof (cases "cs \<noteq> [] \<and> isFailoverEligible e")
      case True
      then obtain nxt cs' where cs: "cs = nxt # cs'" by (cases cs) auto
      obtain w3 where w3: "recordFallbackStarted now ctx (pc_provider c) nxt e (index + 1) (ncand - 1) w2 = (Inr (), w3)"
        "fo_rest w3 = s1" "fo_cache w3 = fo_cache w"
        by (rule onlyRecordsE [OF onlyRecords_records(2), of now ctx "pc_provider c" nxt e "index + 1" "ncand - 1" w2])
           (simp add: w2)
      have "tryCandidates generate now ctx q ncand (index + 1) cs w3 = (res, w')"
      proof -
        have "tryCandidates generate now ctx q ncand index (c # nxt # cs') w = tryCandidates generate now ctx q ncand (index + 1) (nxt # cs') w3"
          by (rule tryCandidates_next [where e = e and ?w1.0 = ?w1 and ?w2.0 = w2]) (use o Inl w2(1) w3(1) True in simp_all)
        with Cons.prems show ?thesis unfolding cs by (rule trans [OF sym, rotated])
      qed
      from Cons.IH [OF this] w3 g Inl True show ?thesis by (simp add: tryCatch_run bnd_run)
    next
      case False
      have rec: "onlyRecords (if index > 0 \<or> ncand > 1 then recordFallbackExhausted now ctx (pc_provider c) e else ret ())"
        using onlyRecords_records(4) onlyRecords_base(4) by auto
      obtain w3 where w3: "(if index > 0 \<or> ncand > 1 then recordFallbackExhausted now ctx (pc_provider c) e else ret ()) w2 = (Inr (), w3)"
        "fo_rest w3 = s1" "fo_cache w3 = fo_cache w" by (rule onlyRecordsE [OF rec, of w2]) (simp add: w2)
      have "tryCandidates generate now ctx q ncand index (c # cs) w = (Inl e, w3)"
        by (rule tryCandidates_stop [where ?w1.0 = ?w1 and ?w2.0 = w2]) (use o Inl w2(1) w3(1) False in auto)
      with Cons.prems have "res = Inl e" "w' = w3" by (metis prod.inject)+
      with w3 g Inl False show ?thesis by (auto simp: tryCatch_run bnd_run)
    qed
  qed
qed

lemma record_status:
  "fo_status (snd (recordFallbackSucceeded now ctx p c w)) =
    (fo_status w)\<lparr>fs_activeFallback := Some (fallbackOf (pv_name p) c), fs_updatedAt := Some now\<rparr>"
  "fo_status (snd (recordFallbackExhausted now ctx pr e w)) =
    \<lparr>fs_activeFallback = None, fs_lastFailure = Some (failureOf ctx pr e), fs_updatedAt = Some now\<rparr>"
  "fo_status (snd (recordProviderFailure now ctx pr e w)) =
    (fo_status w)\<lparr>fs_lastFailure := Some (failureOf ctx pr e), fs_updatedAt := Some now\<rparr>"
  by (simp_all add: recordFallbackSucceeded_def recordFallbackExhausted_def recordProviderFailure_def Let_def bnd_run
      setStatus_def foTrace_def foAudit_def)

text \<open>What the status says after the loop over the candidates from some index on.\<close>

definition statusAfter :: "'h ProviderFailoverContext \<Rightarrow> nat \<Rightarrow> nat \<Rightarrow> 'h ProviderCandidate list \<Rightarrow> ModelFallbackStatus \<Rightarrow>
    thrown + 'r ProviderResponse \<Rightarrow> ModelFallbackStatus \<Rightarrow> bool" where
  "statusAfter ctx ncand index cs old res new =
     (case res of
        Inl e \<Rightarrow> (\<exists>lf. fs_lastFailure new = Some lf \<and> lf_errorCategory lf = errorCategory e) \<and>
          (index > 0 \<or> ncand > 1 \<longrightarrow> fs_activeFallback new = None)
      | Inr r \<Rightarrow> (index = 0 \<and> new = old) \<or>
          (\<exists>c\<in>set cs. fs_activeFallback new = Some (fallbackOf (pv_name (fc_primaryProvider ctx)) c)))"

lemma tryCandidates_status:
  "cs \<noteq> [] \<Longrightarrow> tryCandidates generate now ctx q ncand index cs w = (res, w') \<Longrightarrow>
    statusAfter ctx ncand index cs (fo_status w) res (fo_status w')"
proof (induction cs arbitrary: index w)
  case Nil
  then show ?case by simp
next
  case (Cons c cs)
  obtain r1 s1 where g: "generate (pc_provider c) q (fo_rest w) = (r1, s1)" by fastforce
  let ?w1 = "w\<lparr>fo_rest := s1\<rparr>"
  have o: "onRest (generate (pc_provider c) q) w = (r1, ?w1)" by (simp add: onRest_run g)
  show ?case
  proof (cases r1)
    case (Inr r)
    show ?thesis
    proof (cases "index > 0")
      case True
      obtain w2 where w2: "recordFallbackSucceeded now ctx (fc_primaryProvider ctx) c ?w1 = (Inr (), w2)"
        by (rule onlyRecordsE [OF onlyRecords_records(3), of now ctx "fc_primaryProvider ctx" c ?w1]) simp
      have "fo_status w2 = (fo_status w)\<lparr>fs_activeFallback := Some (fallbackOf (pv_name (fc_primaryProvider ctx)) c),
          fs_updatedAt := Some now\<rparr>"
        using record_status(1) [of now ctx "fc_primaryProvider ctx" c ?w1] w2 by simp
      moreover from Cons.prems(2) True have "res = Inr (withProviderMetadata r (pc_provider c))" "w' = w2"
        by (simp_all add: tryCatch_run bnd_run o Inr w2)
      ultimately show ?thesis by (simp add: statusAfter_def)
    next
      case False
      with Cons.prems(2) show ?thesis by (simp add: tryCatch_run bnd_run o Inr statusAfter_def) auto
    qed
  next
    case (Inl e)
    obtain w2 where w2: "recordProviderFailure now ctx (pc_provider c) e ?w1 = (Inr (), w2)"
      by (rule onlyRecordsE [OF onlyRecords_records(1), of now ctx "pc_provider c" e ?w1]) simp
    show ?thesis
    proof (cases "cs \<noteq> [] \<and> isFailoverEligible e")
      case True
      then obtain nxt cs' where cs: "cs = nxt # cs'" by (cases cs) auto
      obtain w3 where w3: "recordFallbackStarted now ctx (pc_provider c) nxt e (index + 1) (ncand - 1) w2 = (Inr (), w3)"
        by (rule onlyRecordsE [OF onlyRecords_records(2), of now ctx "pc_provider c" nxt e "index + 1" "ncand - 1" w2]) simp
      have "tryCandidates generate now ctx q ncand index (c # nxt # cs') w = tryCandidates generate now ctx q ncand (index + 1) (nxt # cs') w3"
        by (rule tryCandidates_next [where e = e and ?w1.0 = ?w1 and ?w2.0 = w2]) (use o Inl w2 w3 True in simp_all)
      with Cons.prems(2) have "tryCandidates generate now ctx q ncand (index + 1) cs w3 = (res, w')"
        unfolding cs by (rule trans [OF sym, rotated])
      from Cons.IH [OF _ this] True show ?thesis by (auto simp: statusAfter_def split: sum.splits)
    next
      case False
      obtain w3 where w3: "(if index > 0 \<or> ncand > 1 then recordFallbackExhausted now ctx (pc_provider c) e else ret ()) w2 = (Inr (), w3)"
        by (rule onlyRecordsE [of "if index > 0 \<or> ncand > 1 then recordFallbackExhausted now ctx (pc_provider c) e else ret ()" w2])
           (use onlyRecords_records(4) onlyRecords_base(4) in auto)
      have "tryCandidates generate now ctx q ncand index (c # cs) w = (Inl e, w3)"
        by (rule tryCandidates_stop [where ?w1.0 = ?w1 and ?w2.0 = w2]) (use o Inl w2 w3 False in auto)
      with Cons.prems(2) have out: "res = Inl e" "w' = w3" by (metis prod.inject)+
      have "fs_lastFailure (fo_status w3) = Some (failureOf ctx (pc_provider c) e) \<and>
          (index > 0 \<or> ncand > 1 \<longrightarrow> fs_activeFallback (fo_status w3) = None)"
        using record_status(2) [of now ctx "pc_provider c" e w2] record_status(3) [of now ctx "pc_provider c" e ?w1] w2 w3
        by (auto split: if_splits)
      with out show ?thesis by (auto simp: statusAfter_def failureOf_def)
    qed
  qed
qed

text \<open>The candidates of a request: the primary, then, with failover on, the cached or newly built list.\<close>

definition candidatesOf :: "'h ProviderSetup \<Rightarrow> 'h ProviderFailoverContext \<Rightarrow> ('h, 'm) FailoverWorld \<Rightarrow> 'h ProviderCandidate list" where
  "candidatesOf ps ctx w = primaryCandidate ctx #
     (if fc_enableFailover ctx then (case fo_cache w (cacheKeyOf ctx) of Some cs \<Rightarrow> cs | None \<Rightarrow> buildCandidates ps ctx) else [])"

lemma generate_run:
  "\<exists>w1. generateWithProviderFailover ps generate now ctx q w =
      tryCandidates generate now ctx q (length (candidatesOf ps ctx w)) 0 (candidatesOf ps ctx w) w1 \<and>
    fo_rest w1 = fo_rest w \<and> fo_status w1 = fo_status w"
proof (cases "fc_enableFailover ctx")
  case False
  then show ?thesis
    by (intro exI [of _ w]) (simp add: generateWithProviderFailover_def candidatesOf_def bnd_run del: tryCandidates.simps)
next
  case True
  show ?thesis
  proof (cases "fo_cache w (cacheKeyOf ctx)")
    case (Some cs)
    with True show ?thesis
      by (intro exI [of _ w]) (simp add: generateWithProviderFailover_def resolveFallbackCandidates_def candidatesOf_def
          bnd_run del: tryCandidates.simps)
  next
    case None
    with True show ?thesis
      by (intro exI [of _ "w\<lparr>fo_cache := (fo_cache w)(cacheKeyOf ctx \<mapsto> buildCandidates ps ctx)\<rparr>"])
         (simp add: generateWithProviderFailover_def resolveFallbackCandidates_def candidatesOf_def bnd_run Let_def
          del: tryCandidates.simps)
  qed
qed

text \<open>
  C36: a request is answered by the first candidate, in order, that answers, provided every one before it
  failed with an error of an eligible category; otherwise the error of the first candidate that failed
  for another reason, or of the last one, is thrown. The bookkeeping does not influence the outcome.
\<close>

theorem failover_first_working:
  assumes "generateWithProviderFailover ps generate now ctx q w = (res, w')"
  shows "firstWorking generate q (candidatesOf ps ctx w) (fo_rest w) = (res, fo_rest w')"
proof -
  obtain w1 where w1: "generateWithProviderFailover ps generate now ctx q w =
      tryCandidates generate now ctx q (length (candidatesOf ps ctx w)) 0 (candidatesOf ps ctx w) w1" "fo_rest w1 = fo_rest w"
    using generate_run [of ps generate now ctx q w] by (elim exE conjE) simp
  with assms have "tryCandidates generate now ctx q (length (candidatesOf ps ctx w)) 0 (candidatesOf ps ctx w) w1 = (res, w')"
    by metis
  from tryCandidates_firstWorking [OF this] w1(2) show ?thesis by simp
qed

text \<open>The primary's key is refused; the second candidate answers.\<close>

definition demoGenerate :: "unit Provider \<Rightarrow> string \<Rightarrow> (nat, string ProviderResponse) op" where
  "demoGenerate p q n = (if n = 0
     then (Inl (ProviderError \<lparr>pe_category = ''auth_error'', pe_message = ''refused'', pe_modelName = None,
       pe_providerName = pv_name p, pe_retriable = False, pe_retryCount = None, pe_statusCode = None,
       pe_summary = None\<rparr>), 1)
     else (Inr \<lparr>rs_metadata = None, rs_body = q\<rparr>, n + 1))"

definition demoWorld :: "(unit, nat) FailoverWorld" where
  "demoWorld = \<lparr>fo_status = \<lparr>fs_activeFallback = None, fs_lastFailure = None, fs_updatedAt = None\<rparr>,
     fo_cache = (\<lambda>_. None), fo_trace = [], fo_audit = [], fo_rest = 0\<rparr>"

definition demoRun :: "(thrown + string ProviderResponse) \<times> (unit, nat) FailoverWorld" where
  "demoRun = generateWithProviderFailover demoSetup demoGenerate 9 demoFailover ''q'' demoWorld"

lemma demoRun_run:
  "generateWithProviderFailover demoSetup demoGenerate 9 demoFailover ''q'' demoWorld = (fst demoRun, snd demoRun)"
  by (simp add: demoRun_def)

lemma demoRun_values:
  "map_sum (\<lambda>_. ()) rs_body (fst demoRun) = Inr ''q''" "fo_rest (snd demoRun) = 2"
  "map_option fb_providerName (fs_activeFallback (fo_status (snd demoRun))) = Some ''a''"
  by code_simp+

theorem failover_first_working_witness:
  "firstWorking demoGenerate ''q'' (candidatesOf demoSetup demoFailover demoWorld) 0 = (fst demoRun, 2) \<and>
    map_sum (\<lambda>_. ()) rs_body (fst demoRun) = Inr ''q''"
  using failover_first_working [OF demoRun_run] demoRun_values(1,2) by (simp add: demoWorld_def)

text \<open>
  After a request the fallback status is as follows. If the request failed, the last failure is the thrown one,
  and no fallback is reported active when there was another candidate to try. If a fallback answered, it is
  reported active. If the primary answered, the status is untouched, so a fallback reported by an
  earlier request stays reported as active although the primary has recovered.
\<close>

theorem failover_status:
  assumes "generateWithProviderFailover ps generate now ctx q w = (res, w')"
  shows "(case res of
       Inl e \<Rightarrow> (\<exists>lf. fs_lastFailure (fo_status w') = Some lf \<and> lf_errorCategory lf = errorCategory e) \<and>
         (length (candidatesOf ps ctx w) > 1 \<longrightarrow> fs_activeFallback (fo_status w') = None)
     | Inr r \<Rightarrow> fo_status w' = fo_status w \<or> (\<exists>c\<in>set (candidatesOf ps ctx w).
         fs_activeFallback (fo_status w') = Some (fallbackOf (pv_name (fc_primaryProvider ctx)) c))) \<and>
    (isl (fst (generate (fc_primaryProvider ctx) q (fo_rest w))) \<or> fo_status w' = fo_status w)"
proof -
  obtain w1 where w1: "generateWithProviderFailover ps generate now ctx q w =
      tryCandidates generate now ctx q (length (candidatesOf ps ctx w)) 0 (candidatesOf ps ctx w) w1"
    "fo_rest w1 = fo_rest w" "fo_status w1 = fo_status w"
    using generate_run [of ps generate now ctx q w] by (elim exE conjE) simp
  then have t: "tryCandidates generate now ctx q (length (candidatesOf ps ctx w)) 0 (candidatesOf ps ctx w) w1 = (res, w')"
    using assms by metis
  have "candidatesOf ps ctx w \<noteq> []" by (simp add: candidatesOf_def)
  from tryCandidates_status [OF this t] w1(3)
  have "statusAfter ctx (length (candidatesOf ps ctx w)) 0 (candidatesOf ps ctx w) (fo_status w) res (fo_status w')" by simp
  moreover have "fo_status w' = fo_status w" if "\<not> isl (fst (generate (fc_primaryProvider ctx) q (fo_rest w)))"
  proof -
    obtain r s where "generate (fc_primaryProvider ctx) q (fo_rest w) = (Inr r, s)"
      using \<open>\<not> isl (fst (generate (fc_primaryProvider ctx) q (fo_rest w)))\<close>
      by (cases "generate (fc_primaryProvider ctx) q (fo_rest w)"; cases "fst (generate (fc_primaryProvider ctx) q (fo_rest w))") auto
    with t w1(2,3) show ?thesis
      by (auto simp: candidatesOf_def primaryCandidate_def tryCatch_run bnd_run onRest_run)
  qed
  ultimately show ?thesis unfolding statusAfter_def by (auto split: sum.splits)
qed

theorem failover_status_witness:
  "(\<exists>c\<in>set (candidatesOf demoSetup demoFailover demoWorld).
      fs_activeFallback (fo_status (snd demoRun)) = Some (fallbackOf ''a'' c)) \<and> \<not> isl (fst demoRun)"
proof -
  have r: "\<not> isl (fst demoRun)" using demoRun_values(1) by (cases "fst demoRun") simp_all
  then obtain x where "fst demoRun = Inr x" by (cases "fst demoRun") simp_all
  moreover have "fo_status (snd demoRun) \<noteq> fo_status demoWorld"
    using demoRun_values(3) by (auto simp: demoWorld_def)
  ultimately show ?thesis using failover_status [OF demoRun_run] r by (simp add: demoFailover_def)
qed

end
