(* ===== verification/ProviderRouter.thy ===== *)
theory ProviderRouter
  imports Budget ProviderFailover Tasks
begin

section \<open>Routing requests to providers\<close>

text \<open>
  src/src/providers/routing/provider-router.ts and provider-tiers.ts, the main provider of a task as
  src/src/runtime/execution-kernel.ts asks for it (\<open>resolveActiveMainProvider\<close>), and the routing mode of
  src/src/runtime/application-service.ts. The budget service is the one of \<open>Budget\<close>; the construction of a
  provider is an argument that may fail.
\<close>

datatype ProviderTier = Cheap_tier | Balanced_tier | Quality_tier

datatype RouteKind = Main_route | Summarize_route | Classify_route | Recall_rank_route

fun tierStr :: "ProviderTier \<Rightarrow> string" where
  "tierStr Cheap_tier = ''cheap''"
| "tierStr Balanced_tier = ''balanced''"
| "tierStr Quality_tier = ''quality''"

fun kindStr :: "RouteKind \<Rightarrow> string" where
  "kindStr Main_route = ''main''"
| "kindStr Summarize_route = ''summarize''"
| "kindStr Classify_route = ''classify''"
| "kindStr Recall_rank_route = ''recall_rank''"

text \<open>\<open>tierFor\<close> of provider-tiers.ts; its fallback is for values outside the type.\<close>

fun tierFor :: "RoutingMode \<Rightarrow> ProviderTier" where
  "tierFor Cheap_first = Cheap_tier"
| "tierFor Quality_first = Quality_tier"
| "tierFor Balanced = Balanced_tier"

record ProviderRouterConfig =
  rc_cheap :: "string option"
  rc_balanced :: "string option"
  rc_quality :: "string option"
  rc_summarize :: "ProviderTier option"
  rc_classify :: "ProviderTier option"
  rc_recallRank :: "ProviderTier option"

record SelectProviderInput =
  si_kind :: RouteKind
  si_taskId :: string
  si_sessionId :: "string option"
  si_mode :: "RoutingMode option"

record 'h SelectProviderResult =
  sl_provider :: "'h Provider option"
  sl_providerName :: "string option"
  sl_tier :: "ProviderTier option"
  sl_modeApplied :: RoutingMode
  sl_reason :: string

record 'h RouterWorld =
  rt_providers :: "string \<Rightarrow> 'h Provider option"
  rt_mainOverride :: "'h Provider option"
  rt_mode :: RoutingMode
  rt_budget :: BudgetService
  rt_trace :: "TraceEvent list"
  rt_audit :: "AuditEntry list"

text \<open>The router's configuration and the factory it is given.\<close>

record 'h RouterDeps =
  rd_config :: ProviderRouterConfig
  rd_factory :: "string \<Rightarrow> thrown + 'h Provider"

definition setMode :: "RoutingMode \<Rightarrow> ('h RouterWorld, unit) op" where
  "setMode mode = modify (\<lambda>w. w\<lparr>rt_mode := mode\<rparr>)"

definition setMainProvider :: "'h Provider option \<Rightarrow> ('h RouterWorld, unit) op" where
  "setMainProvider p = modify (\<lambda>w. w\<lparr>rt_mainOverride := p\<rparr>)"

definition hasMainProviderOverride :: "'h RouterWorld \<Rightarrow> bool" where
  "hasMainProviderOverride w = (rt_mainOverride w \<noteq> None)"

definition clearProviderCache :: "string option \<Rightarrow> ('h RouterWorld, unit) op" where
  "clearProviderCache name = modify (\<lambda>w. w\<lparr>rt_providers :=
     (case name of None \<Rightarrow> Map.empty | Some n \<Rightarrow> (rt_providers w)(n := None))\<rparr>)"

definition hasConfiguredRoutingProviders :: "ProviderRouterConfig \<Rightarrow> bool" where
  "hasConfiguredRoutingProviders c = (rc_cheap c \<noteq> None \<or> rc_balanced c \<noteq> None \<or> rc_quality c \<noteq> None)"

definition orElse :: "'a option \<Rightarrow> 'a option \<Rightarrow> 'a option" where
  "orElse a b = (case a of Some x \<Rightarrow> Some x | None \<Rightarrow> b)"

definition resolveProviderName :: "ProviderRouterConfig \<Rightarrow> ProviderTier \<Rightarrow> string option" where
  "resolveProviderName c tier =
     (if tier = Cheap_tier then orElse (rc_cheap c) (rc_balanced c)
      else if tier = Quality_tier then orElse (rc_quality c) (rc_balanced c)
      else orElse (rc_balanced c) (orElse (rc_quality c) (rc_cheap c)))"

definition resolveTier :: "ProviderRouterConfig \<Rightarrow> RouteKind \<Rightarrow> RoutingMode \<Rightarrow> bool \<Rightarrow> ProviderTier option" where
  "resolveTier c kind mode downgrade =
     (if kind = Main_route then Some (if downgrade then Cheap_tier else tierFor mode)
      else if kind = Summarize_route then orElse (rc_summarize c) (Some Cheap_tier)
      else if kind = Classify_route then rc_classify c
      else rc_recallRank c)"

definition getOrCreateProvider :: "'h RouterDeps \<Rightarrow> string \<Rightarrow> ('h RouterWorld, 'h Provider) op" where
  "getOrCreateProvider rd name =
     bnd (ask (\<lambda>w. rt_providers w name)) (\<lambda>existing.
       case existing of
         Some p \<Rightarrow> ret p
       | None \<Rightarrow>
           bnd (liftRes (rd_factory rd name)) (\<lambda>p.
           bnd (modify (\<lambda>w. w\<lparr>rt_providers := (rt_providers w)(name \<mapsto> p)\<rparr>)) (\<lambda>_. ret p)))"

definition routePayload :: "SelectProviderInput \<Rightarrow> 'h SelectProviderResult \<Rightarrow> json_object" where
  "routePayload i r =
     [(''kind'', JStr (kindStr (si_kind i))), (''mode'', JStr (modeStr (sl_modeApplied r))),
      (''providerName'', jopt (sl_providerName r)), (''reason'', JStr (sl_reason r)),
      (''taskId'', JStr (si_taskId i)), (''sessionId'', jopt (si_sessionId i)),
      (''tier'', jopt (map_option tierStr (sl_tier r)))]"

definition recordAndReturn :: "SelectProviderInput \<Rightarrow> 'h SelectProviderResult \<Rightarrow>
    ('h RouterWorld, 'h SelectProviderResult) op" where
  "recordAndReturn i r =
     bnd (modify (\<lambda>w. w\<lparr>rt_trace := rt_trace w @ [\<lparr>te_actor = ''runtime.router'', te_eventType = ''route_decision'',
            te_payload = routePayload i r, te_stage = ''planning'',
            te_summary = ''Route '' @ kindStr (si_kind i) @ '' to '' @
              (case sl_providerName r of None \<Rightarrow> ''none'' | Some n \<Rightarrow> n),
            te_taskId = si_taskId i\<rparr>]\<rparr>)) (\<lambda>_.
     bnd (modify (\<lambda>w. w\<lparr>rt_audit := rt_audit w @ [\<lparr>ae_action = ''route_decided'', ae_actor = ''runtime.router'',
            ae_approvalId = None, ae_outcome = ''succeeded'', ae_payload = routePayload i r,
            ae_summary = ''Route decision for '' @ kindStr (si_kind i), ae_taskId = Some (si_taskId i),
            ae_toolCallId = None\<rparr>]\<rparr>)) (\<lambda>_.
     ret r))"

text \<open>The provider of a name, when there is one.\<close>

definition providerOf :: "'h RouterDeps \<Rightarrow> string option \<Rightarrow> ('h RouterWorld, 'h Provider option) op" where
  "providerOf rd name =
     (case name of None \<Rightarrow> ret None | Some n \<Rightarrow> bnd (getOrCreateProvider rd n) (\<lambda>p. ret (Some p)))"

definition selectRoutedProvider :: "'h RouterDeps \<Rightarrow> SelectProviderInput \<Rightarrow> RoutingMode \<Rightarrow> ProviderTier \<Rightarrow> string \<Rightarrow>
    ('h RouterWorld, 'h SelectProviderResult) op" where
  "selectRoutedProvider rd i modeApplied tier reason =
     (let providerName = resolveProviderName (rd_config rd) tier
      in bnd (providerOf rd providerName) (\<lambda>p.
         recordAndReturn i \<lparr>sl_provider = p, sl_providerName = providerName, sl_tier = Some tier,
           sl_modeApplied = modeApplied, sl_reason = reason\<rparr>))"

definition softDowngrade :: "SelectProviderInput \<Rightarrow> BudgetService \<Rightarrow> bool" where
  "softDowngrade i b = (isDowngradeActive Task_scope (si_taskId i) b \<or>
     (case si_sessionId i of None \<Rightarrow> False | Some s \<Rightarrow> isDowngradeActive Session_budget s b))"

definition selectProvider :: "'h RouterDeps \<Rightarrow> SelectProviderInput \<Rightarrow> ('h RouterWorld, 'h SelectProviderResult) op" where
  "selectProvider rd i =
     bnd (ask (\<lambda>w. (case si_mode i of Some m \<Rightarrow> m | None \<Rightarrow> rt_mode w, softDowngrade i (rt_budget w), rt_mainOverride w)))
     (\<lambda>(modeApplied, downgrade, override).
       if si_kind i = Main_route
       then if downgrade
            then selectRoutedProvider rd i modeApplied Cheap_tier ''soft budget downgrade''
            else case override of
              Some p \<Rightarrow> recordAndReturn i \<lparr>sl_provider = Some p, sl_providerName = Some (pv_name p), sl_tier = None,
                sl_modeApplied = modeApplied, sl_reason = ''explicit model switch''\<rparr>
            | None \<Rightarrow>
                if \<not> hasConfiguredRoutingProviders (rd_config rd)
                then recordAndReturn i \<lparr>sl_provider = None, sl_providerName = None, sl_tier = None,
                  sl_modeApplied = modeApplied, sl_reason = ''no routing providers configured''\<rparr>
                else selectRoutedProvider rd i modeApplied (tierFor modeApplied)
                  (''routing mode '' @ modeStr modeApplied)
       else let tier = resolveTier (rd_config rd) (si_kind i) modeApplied downgrade;
                providerName = (case tier of None \<Rightarrow> None | Some t \<Rightarrow> resolveProviderName (rd_config rd) t)
            in bnd (providerOf rd providerName) (\<lambda>p.
               recordAndReturn i \<lparr>sl_provider = p, sl_providerName = providerName, sl_tier = tier,
                 sl_modeApplied = modeApplied, sl_reason = ''helper route '' @ kindStr (si_kind i)\<rparr>))"

subsection \<open>The main provider of a task\<close>

text \<open>
  The kernel's dependencies: its own provider and the routing mode it was built with (bootstrap.ts passes
  the configured one).
\<close>

definition resolveActiveMainProvider :: "'h RouterDeps \<Rightarrow> RoutingMode option \<Rightarrow> 'h Provider \<Rightarrow> TaskRecord \<Rightarrow>
    ('h RouterWorld, 'h Provider) op" where
  "resolveActiveMainProvider rd routingMode kernelProvider task =
     bnd (selectProvider rd \<lparr>si_kind = Main_route, si_taskId = tk_taskId task, si_sessionId = tk_sessionId task,
            si_mode = routingMode\<rparr>) (\<lambda>routed.
     ret (case sl_provider routed of Some p \<Rightarrow> p | None \<Rightarrow> kernelProvider))"

definition setRoutingMode :: "RoutingMode \<Rightarrow> ('h RouterWorld, unit) op" where
  "setRoutingMode mode =
     bnd (setMode mode) (\<lambda>_.
     modify (\<lambda>w. w\<lparr>rt_audit := rt_audit w @ [\<lparr>ae_action = ''route_decided'', ae_actor = ''runtime.application'',
       ae_approvalId = None, ae_outcome = ''succeeded'', ae_payload = [(''mode'', JStr (modeStr mode))],
       ae_summary = ''Routing mode set to '' @ modeStr mode, ae_taskId = None, ae_toolCallId = None\<rparr>]\<rparr>))"

subsection \<open>Histories\<close>

text \<open>What happens to a router: requests, changes of mode and model, cleared caches, recorded usage.\<close>

datatype 'h RouterStep =
    Select_step SelectProviderInput
  | Mode_step RoutingMode
  | Main_step "'h Provider option"
  | Clear_step "string option"
  | Usage_step BudgetServiceConfig RecordBudgetUsageInput

definition recordRouterUsage :: "BudgetServiceConfig \<Rightarrow> RecordBudgetUsageInput \<Rightarrow> ('h RouterWorld, BudgetEnforcementDecision) op" where
  "recordRouterUsage cfg i = (\<lambda>w. case recordUsage cfg i (rt_budget w) of (d, b) \<Rightarrow> (Inr d, w\<lparr>rt_budget := b\<rparr>))"

fun routerStep :: "'h RouterDeps \<Rightarrow> 'h RouterStep \<Rightarrow> 'h RouterWorld \<Rightarrow> 'h RouterWorld" where
  "routerStep rd (Select_step i) w = snd (selectProvider rd i w)"
| "routerStep rd (Mode_step m) w = snd (setRoutingMode m w)"
| "routerStep rd (Main_step p) w = snd (setMainProvider p w)"
| "routerStep rd (Clear_step n) w = snd (clearProviderCache n w)"
| "routerStep rd (Usage_step cfg i) w = snd (recordRouterUsage cfg i w)"

definition routerRun :: "'h RouterDeps \<Rightarrow> 'h RouterStep list \<Rightarrow> 'h RouterWorld \<Rightarrow> 'h RouterWorld" where
  "routerRun rd steps w = fold (routerStep rd) steps w"

text \<open>Every part of a selection leaves the budget, the mode and the override alone and only adds to the cache.\<close>

definition extends :: "'h RouterWorld \<Rightarrow> 'h RouterWorld \<Rightarrow> bool" where
  "extends w w' \<longleftrightarrow> rt_budget w' = rt_budget w \<and> rt_mode w' = rt_mode w \<and> rt_mainOverride w' = rt_mainOverride w \<and>
     (\<forall>n p. rt_providers w n = Some p \<longrightarrow> rt_providers w' n = Some p)"

interpretation routing: step_closed extends
  by unfold_locales (auto simp: extends_def)

lemma extends_steps [follows_intros]:
  "routing.follows (getOrCreateProvider rd n)" "routing.follows (recordAndReturn i r)"
  "routing.follows (providerOf rd name)" "routing.follows (selectRoutedProvider rd i m t reason)"
  "routing.follows (selectProvider rd i)"
proof -
  show 1: "routing.follows (getOrCreateProvider rd n)" for n
    by (auto simp: routing.follows_def getOrCreateProvider_def bnd_run extends_def split: option.splits sum.splits)
  show 2: "routing.follows (recordAndReturn i r)" for r
    by (simp add: routing.follows_def recordAndReturn_def bnd_run extends_def)
  show 3: "routing.follows (providerOf rd name)" for name
    unfolding providerOf_def by (cases name) (auto intro!: follows_intros 1)
  show 4: "routing.follows (selectRoutedProvider rd i m t reason)" for m t reason
    unfolding selectRoutedProvider_def Let_def by (intro routing.follows_bnd 2 3)
  show "routing.follows (selectProvider rd i)"
    unfolding selectProvider_def Let_def
    by (auto intro!: routing.follows_bnd routing.follows_pure 2 3 4 split: option.splits)
qed

lemma routerStep_downgrade:
  assumes "softDowngrade i (rt_budget w)"
  shows "softDowngrade i (rt_budget (routerStep rd st w))"
proof (cases st)
  case (Select_step j)
  have "extends w (snd (selectProvider rd j w))"
    using extends_steps(5) [of rd j] by (simp add: routing.follows_def)
  with assms Select_step show ?thesis by (simp add: extends_def)
next
  case (Usage_step cfg j)
  with assms show ?thesis
    using recordUsage_downgrade [of "rt_budget w" cfg j]
    by (auto simp: softDowngrade_def recordRouterUsage_def isDowngradeActive_def split: prod.splits option.splits)
qed (use assms in \<open>simp_all add: setRoutingMode_def setMode_def setMainProvider_def clearProviderCache_def bnd_run\<close>)

lemma routerRun_downgrade: "softDowngrade i (rt_budget w) \<Longrightarrow> softDowngrade i (rt_budget (routerRun rd steps w))"
  unfolding routerRun_def by (induction steps arbitrary: w) (auto intro: routerStep_downgrade)

lemma recordUsage_soft:
  assumes "be_action (fst (recordUsage cfg u b)) = Soft_downgrade" "si_taskId i = bi_taskId u" "si_sessionId i = bi_sessionId u"
  shows "softDowngrade i (snd (recordUsage cfg u b))"
  using assms
  by (auto simp: recordUsage_def softDowngrade_def isDowngradeActive_def Let_def handleDecision_task_downgrade
      handleDecision_session_downgrade split: option.splits if_splits)

lemma selectRouted_value:
  assumes "selectRoutedProvider rd i m t reason w = (Inr r, w')"
  shows "sl_tier r = Some t \<and> sl_providerName r = resolveProviderName (rd_config rd) t \<and> sl_modeApplied r = m \<and>
    sl_reason r = reason \<and> (sl_provider r = None \<longleftrightarrow> sl_providerName r = None)"
  using assms
  by (auto simp: selectRoutedProvider_def providerOf_def recordAndReturn_def Let_def bnd_run split: option.splits sum.splits prod.splits)

text \<open>
  Once recording a call of a task decided on a downgrade, every later main request of that task is routed to the
  cheap tier, whatever was recorded, selected, switched or cleared in between: to the cheap provider, or
  the balanced one when no cheap provider is configured, or to none.
\<close>

theorem downgraded_task_goes_cheap:
  assumes "recordRouterUsage cfg u w = (Inr d, w1)" "be_action d = Soft_downgrade"
    and "si_kind i = Main_route" "si_taskId i = bi_taskId u" "si_sessionId i = bi_sessionId u"
    and "selectProvider rd i (routerRun rd steps w1) = (Inr r, w')"
  shows "sl_tier r = Some Cheap_tier \<and> sl_reason r = ''soft budget downgrade'' \<and>
    sl_providerName r = orElse (rc_cheap (rd_config rd)) (rc_balanced (rd_config rd)) \<and>
    (sl_provider r = None \<longleftrightarrow> sl_providerName r = None)"
proof -
  from assms(1) have r: "d = fst (recordUsage cfg u (rt_budget w))" "rt_budget w1 = snd (recordUsage cfg u (rt_budget w))"
    by (auto simp: recordRouterUsage_def split: prod.splits)
  have "softDowngrade i (rt_budget w1)"
    using recordUsage_soft [of cfg u "rt_budget w" i] assms(2,4,5) r by simp
  from routerRun_downgrade [OF this, of rd steps] assms(3,6)
  have "selectRoutedProvider rd i (case si_mode i of Some m \<Rightarrow> m | None \<Rightarrow> rt_mode (routerRun rd steps w1)) Cheap_tier
      ''soft budget downgrade'' (routerRun rd steps w1) = (Inr r, w')"
    by (simp add: selectProvider_def bnd_run split: option.splits)
  from selectRouted_value [OF this] show ?thesis by (simp add: resolveProviderName_def)
qed

definition demoRouter :: "unit RouterDeps" where
  "demoRouter = \<lparr>rd_config = \<lparr>rc_cheap = None, rc_balanced = Some ''b'', rc_quality = Some ''q'', rc_summarize = None,
       rc_classify = None, rc_recallRank = None\<rparr>,
     rd_factory = (\<lambda>n. Inr \<lparr>pv_name = n, pv_model = None, pv_handle = ()\<rparr>)\<rparr>"

definition demoRouterWorld :: "unit RouterWorld" where
  "demoRouterWorld = \<lparr>rt_providers = Map.empty, rt_mainOverride = None, rt_mode = Quality_first, rt_budget = newBudgetService,
     rt_trace = [], rt_audit = []\<rparr>"

definition demoMain :: SelectProviderInput where
  "demoMain = \<lparr>si_kind = Main_route, si_taskId = ''t1'', si_sessionId = Some ''s1'', si_mode = Some Quality_first\<rparr>"

definition demoSpent :: "BudgetEnforcementDecision \<times> unit RouterWorld" where
  "demoSpent = (fst (recordUsage sampleLimits (sampleUsage 7) newBudgetService),
     demoRouterWorld\<lparr>rt_budget := snd (recordUsage sampleLimits (sampleUsage 7) newBudgetService)\<rparr>)"

definition demoSelected :: "(thrown + unit SelectProviderResult) \<times> unit RouterWorld" where
  "demoSelected = selectProvider demoRouter demoMain
     (routerRun demoRouter [Main_step (Some \<lparr>pv_name = ''x'', pv_model = None, pv_handle = ()\<rparr>), Clear_step None] (snd demoSpent))"

theorem downgraded_task_goes_cheap_witness:
  "\<exists>r. fst demoSelected = Inr r \<and> sl_tier r = Some Cheap_tier \<and> sl_providerName r = Some ''b''"
proof -
  have s: "recordRouterUsage sampleLimits (sampleUsage 7) demoRouterWorld = (Inr (fst demoSpent), snd demoSpent)"
    by (simp add: recordRouterUsage_def demoSpent_def demoRouterWorld_def split: prod.splits)
  have d: "be_action (fst demoSpent) = Soft_downgrade" by code_simp
  have k: "si_kind demoMain = Main_route" "si_taskId demoMain = bi_taskId (sampleUsage 7)"
    "si_sessionId demoMain = bi_sessionId (sampleUsage 7)" by code_simp+
  have "map_sum (\<lambda>_. ()) (\<lambda>_. ()) (fst demoSelected) = Inr ()" by code_simp
  then obtain r where r: "fst demoSelected = Inr r" by (cases "fst demoSelected") simp_all
  then have run: "selectProvider demoRouter demoMain (routerRun demoRouter [Main_step (Some \<lparr>pv_name = ''x'', pv_model = None,
      pv_handle = ()\<rparr>), Clear_step None] (snd demoSpent)) = (Inr r, snd demoSelected)"
    by (metis demoSelected_def prod.collapse)
  from downgraded_task_goes_cheap [OF s d k run] r show ?thesis
    by (simp add: demoRouter_def orElse_def)
qed

lemma select_mode_irrelevant:
  assumes "si_mode i = Some m"
  shows "fst (selectProvider rd i (w\<lparr>rt_mode := x, rt_audit := a\<rparr>)) = fst (selectProvider rd i w)"
proof -
  have p: "fst (providerOf rd n (w\<lparr>rt_mode := x, rt_audit := a\<rparr>)) = fst (providerOf rd n w)" for n
    by (auto simp: providerOf_def getOrCreateProvider_def bnd_run split: option.splits sum.splits)
  have r: "fst (recordAndReturn i r u) = Inr r" for r and u :: "'a RouterWorld"
    by (simp add: recordAndReturn_def bnd_run)
  have b: "fst (bnd (providerOf rd n) (\<lambda>p. recordAndReturn i (f p)) u) = map_sum id f (fst (providerOf rd n u))" for n f and u :: "'a RouterWorld"
    using r by (auto simp: bnd_run split: prod.splits sum.splits)
  show ?thesis using assms
    by (auto simp: selectProvider_def selectRoutedProvider_def bnd_run Let_def r p b [simplified bnd_run] split: option.splits)
qed

text \<open>
  Setting the routing mode has no effect on the main provider of a task when the kernel was built with a mode,
  as it always is: the provider returned, or the error, is the same before and after, for any mode set.
\<close>

theorem routing_mode_has_no_effect:
  "fst (resolveActiveMainProvider rd (Some m) p task (snd (setRoutingMode mode w))) =
    fst (resolveActiveMainProvider rd (Some m) p task w)"
proof -
  let ?i = "\<lparr>si_kind = Main_route, si_taskId = tk_taskId task, si_sessionId = tk_sessionId task, si_mode = Some m\<rparr>"
  have "\<exists>a. snd (setRoutingMode mode w) = w\<lparr>rt_mode := mode, rt_audit := a\<rparr>"
    unfolding setRoutingMode_def setMode_def by (simp add: bnd_run) (rule exI, rule refl)
  then obtain a where "snd (setRoutingMode mode w) = w\<lparr>rt_mode := mode, rt_audit := a\<rparr>" ..
  moreover have "fst (selectProvider rd ?i (w\<lparr>rt_mode := mode, rt_audit := a\<rparr>)) = fst (selectProvider rd ?i w)"
    by (rule select_mode_irrelevant) simp
  ultimately show ?thesis
    by (auto simp: resolveActiveMainProvider_def bnd_run split: prod.splits sum.splits)
qed

end
