(* ===== verification/Commitments.thy ===== *)
theory Commitments
  imports Tables "HOL-Library.Product_Lexorder"
begin

section \<open>Commitments and next actions: records and tables\<close>

text \<open>
  src/src/types/commitment.ts and the repositories of src/src/storage/repositories/commitments. Fresh
  identifiers and the time of a write are arguments. A nullable field of a draft that is absent or null is
  \<open>None\<close>; a field of a patch is \<open>None\<close> when absent. Rows that tie in the order of a query are listed in the
  order of insertion, or its reverse where the query sorts downwards; SQLite leaves it open.
\<close>

datatype CommitmentStatus = Cm_open | Cm_in_progress | Cm_blocked | Cm_waiting_decision | Cm_completed | Cm_cancelled

datatype CommitmentSource = From_user_request | From_assistant_pledge | From_snapshot | From_manual

record CommitmentRecord =
  cm_commitmentId :: string
  cm_sessionId :: string
  cm_taskId :: "string option"
  cm_ownerUserId :: string
  cm_title :: string
  cm_summary :: string
  cm_status :: CommitmentStatus
  cm_blockedReason :: "string option"
  cm_pendingDecision :: "string option"
  cm_source :: CommitmentSource
  cm_sourceTraceId :: "string option"
  cm_dueAt :: "instant option"
  cm_createdAt :: instant
  cm_updatedAt :: instant
  cm_completedAt :: "instant option"
  cm_metadata :: json_object

record CommitmentDraft =
  cd_commitmentId :: "string option"
  cd_sessionId :: string
  cd_taskId :: "string option"
  cd_ownerUserId :: string
  cd_title :: string
  cd_summary :: "string option"
  cd_status :: "CommitmentStatus option"
  cd_blockedReason :: "string option"
  cd_pendingDecision :: "string option"
  cd_source :: "CommitmentSource option"
  cd_sourceTraceId :: "string option"
  cd_dueAt :: "instant option"
  cd_completedAt :: "instant option"
  cd_metadata :: "json_object option"

record CommitmentUpdatePatch =
  cu_taskId :: "string option option"
  cu_title :: "string option"
  cu_summary :: "string option"
  cu_status :: "CommitmentStatus option"
  cu_blockedReason :: "string option option"
  cu_pendingDecision :: "string option option"
  cu_source :: "CommitmentSource option"
  cu_sourceTraceId :: "string option option"
  cu_dueAt :: "instant option option"
  cu_completedAt :: "instant option option"
  cu_metadata :: "json_object option"

definition noCommitmentPatch :: CommitmentUpdatePatch where
  "noCommitmentPatch = \<lparr>cu_taskId = None, cu_title = None, cu_summary = None, cu_status = None,
     cu_blockedReason = None, cu_pendingDecision = None, cu_source = None, cu_sourceTraceId = None,
     cu_dueAt = None, cu_completedAt = None, cu_metadata = None\<rparr>"

record CommitmentListQuery =
  cq_sessionId :: "string option"
  cq_ownerUserId :: "string option"
  cq_status :: "CommitmentStatus option"
  cq_statuses :: "CommitmentStatus list option"
  cq_limit :: "nat option"

type_synonym commitments = "CommitmentRecord list"

datatype NextActionStatus = Na_pending | Na_active | Na_blocked | Na_done | Na_cancelled

record NextActionRecord =
  na_nextActionId :: string
  na_sessionId :: string
  na_commitmentId :: "string option"
  na_taskId :: "string option"
  na_title :: string
  na_detail :: "string option"
  na_status :: NextActionStatus
  na_rank :: int
  na_blockedReason :: "string option"
  na_source :: CommitmentSource
  na_sourceTraceId :: "string option"
  na_dueAt :: "instant option"
  na_createdAt :: instant
  na_updatedAt :: instant
  na_completedAt :: "instant option"
  na_metadata :: json_object

record NextActionDraft =
  nd_nextActionId :: "string option"
  nd_sessionId :: string
  nd_commitmentId :: "string option"
  nd_taskId :: "string option"
  nd_title :: string
  nd_detail :: "string option"
  nd_status :: "NextActionStatus option"
  nd_rank :: "int option"
  nd_blockedReason :: "string option"
  nd_source :: "CommitmentSource option"
  nd_sourceTraceId :: "string option"
  nd_dueAt :: "instant option"
  nd_completedAt :: "instant option"
  nd_metadata :: "json_object option"

record NextActionUpdatePatch =
  nu_commitmentId :: "string option option"
  nu_taskId :: "string option option"
  nu_title :: "string option"
  nu_detail :: "string option option"
  nu_status :: "NextActionStatus option"
  nu_rank :: "int option"
  nu_blockedReason :: "string option option"
  nu_source :: "CommitmentSource option"
  nu_sourceTraceId :: "string option option"
  nu_dueAt :: "instant option option"
  nu_completedAt :: "instant option option"
  nu_metadata :: "json_object option"

definition noNextActionPatch :: NextActionUpdatePatch where
  "noNextActionPatch = \<lparr>nu_commitmentId = None, nu_taskId = None, nu_title = None, nu_detail = None,
     nu_status = None, nu_rank = None, nu_blockedReason = None, nu_source = None, nu_sourceTraceId = None,
     nu_dueAt = None, nu_completedAt = None, nu_metadata = None\<rparr>"

record NextActionListQuery =
  nq_sessionId :: "string option"
  nq_commitmentId :: "string option"
  nq_status :: "NextActionStatus option"
  nq_statuses :: "NextActionStatus list option"
  nq_limit :: "nat option"

type_synonym next_actions = "NextActionRecord list"

record SessionCommitmentState =
  ss_currentObjective :: "CommitmentRecord option"
  ss_nextAction :: "NextActionRecord option"
  ss_blockedReason :: "string option"
  ss_pendingDecision :: "string option"
  ss_openCommitments :: "CommitmentRecord list"
  ss_activeNextActions :: "NextActionRecord list"

subsection \<open>Queries\<close>

text \<open>
  The clauses \<open>buildWhereClause\<close> joins: an absent value is no condition, and neither is an empty list of statuses.
\<close>

definition clauseEq :: "'a option \<Rightarrow> 'a \<Rightarrow> bool" where
  "clauseEq q v = (case q of None \<Rightarrow> True | Some x \<Rightarrow> v = x)"

definition clauseIn :: "'a list option \<Rightarrow> 'a \<Rightarrow> bool" where
  "clauseIn q v = (case q of None \<Rightarrow> True | Some xs \<Rightarrow> xs = [] \<or> v \<in> set xs)"

definition withLimit :: "nat option \<Rightarrow> 'a list \<Rightarrow> 'a list" where
  "withLimit q rows = (case q of None \<Rightarrow> rows | Some n \<Rightarrow> limitTo n rows)"

lemma clause_simps [simp]:
  "clauseEq None v" "clauseEq (Some x) v \<longleftrightarrow> v = x" "clauseIn None v" "clauseIn (Some (x # xs)) v \<longleftrightarrow> v = x \<or> v \<in> set xs"
  "withLimit None rows = rows" "withLimit (Some n) rows = take n rows"
  by (auto simp: clauseEq_def clauseIn_def withLimit_def limitTo_def)

subsection \<open>The commitment repository\<close>

definition commitmentFindById :: "string \<Rightarrow> commitments \<Rightarrow> CommitmentRecord option" where
  "commitmentFindById i t = rowFind cm_commitmentId i t"

definition commitmentOfDraft :: "string \<Rightarrow> instant \<Rightarrow> CommitmentDraft \<Rightarrow> CommitmentRecord" where
  "commitmentOfDraft fresh now d =
     \<lparr>cm_commitmentId = patched (cd_commitmentId d) fresh, cm_sessionId = cd_sessionId d, cm_taskId = cd_taskId d,
      cm_ownerUserId = cd_ownerUserId d, cm_title = cd_title d, cm_summary = patched (cd_summary d) [],
      cm_status = patched (cd_status d) Cm_open, cm_blockedReason = cd_blockedReason d,
      cm_pendingDecision = cd_pendingDecision d, cm_source = patched (cd_source d) From_manual,
      cm_sourceTraceId = cd_sourceTraceId d, cm_dueAt = cd_dueAt d, cm_createdAt = now, cm_updatedAt = now,
      cm_completedAt = cd_completedAt d, cm_metadata = patched (cd_metadata d) []\<rparr>"

definition commitmentCreate :: "string \<Rightarrow> instant \<Rightarrow> CommitmentDraft \<Rightarrow> (commitments, CommitmentRecord) op" where
  "commitmentCreate fresh now d = (\<lambda>t.
     let r = commitmentOfDraft fresh now d
     in case rowInsert cm_commitmentId r t of
          Inl e \<Rightarrow> (Inl e, t)
        | Inr t' \<Rightarrow>
            (case commitmentFindById (cm_commitmentId r) t' of
               None \<Rightarrow> (Inl (PlainError (''Commitment '' @ cm_commitmentId r @ '' was not persisted.'')), t')
             | Some row \<Rightarrow> (Inr row, t')))"

definition commitmentList :: "CommitmentListQuery \<Rightarrow> commitments \<Rightarrow> CommitmentRecord list" where
  "commitmentList q t = withLimit (cq_limit q) (orderDesc cm_updatedAt
     (filter (\<lambda>r. clauseEq (cq_sessionId q) (cm_sessionId r) \<and> clauseEq (cq_ownerUserId q) (cm_ownerUserId r) \<and>
        clauseEq (cq_status q) (cm_status r) \<and> clauseIn (cq_statuses q) (cm_status r)) t))"

definition commitmentPatch :: "instant \<Rightarrow> CommitmentUpdatePatch \<Rightarrow> CommitmentRecord \<Rightarrow> CommitmentRecord" where
  "commitmentPatch now p r = r\<lparr>
     cm_taskId := patched (cu_taskId p) (cm_taskId r),
     cm_title := patched (cu_title p) (cm_title r),
     cm_summary := patched (cu_summary p) (cm_summary r),
     cm_status := patched (cu_status p) (cm_status r),
     cm_blockedReason := patched (cu_blockedReason p) (cm_blockedReason r),
     cm_pendingDecision := patched (cu_pendingDecision p) (cm_pendingDecision r),
     cm_source := patched (cu_source p) (cm_source r),
     cm_sourceTraceId := patched (cu_sourceTraceId p) (cm_sourceTraceId r),
     cm_dueAt := patched (cu_dueAt p) (cm_dueAt r),
     cm_completedAt := patched (cu_completedAt p) (cm_completedAt r),
     cm_metadata := patched (cu_metadata p) (cm_metadata r),
     cm_updatedAt := now\<rparr>"

definition commitmentUpdate :: "instant \<Rightarrow> string \<Rightarrow> CommitmentUpdatePatch \<Rightarrow> (commitments, CommitmentRecord) op" where
  "commitmentUpdate now i p = (\<lambda>t.
     case commitmentFindById i t of
       None \<Rightarrow> (Inl (PlainError (''Commitment '' @ i @ '' was not found.'')), t)
     | Some r \<Rightarrow> (Inr (commitmentPatch now p r), rowSet cm_commitmentId i (commitmentPatch now p r) t))"

subsection \<open>The next-action repository\<close>

definition actionFindById :: "string \<Rightarrow> next_actions \<Rightarrow> NextActionRecord option" where
  "actionFindById i t = rowFind na_nextActionId i t"

definition actionOfDraft :: "string \<Rightarrow> instant \<Rightarrow> NextActionDraft \<Rightarrow> NextActionRecord" where
  "actionOfDraft fresh now d =
     \<lparr>na_nextActionId = patched (nd_nextActionId d) fresh, na_sessionId = nd_sessionId d,
      na_commitmentId = nd_commitmentId d, na_taskId = nd_taskId d, na_title = nd_title d, na_detail = nd_detail d,
      na_status = patched (nd_status d) Na_pending, na_rank = patched (nd_rank d) 0,
      na_blockedReason = nd_blockedReason d, na_source = patched (nd_source d) From_manual,
      na_sourceTraceId = nd_sourceTraceId d, na_dueAt = nd_dueAt d, na_createdAt = now, na_updatedAt = now,
      na_completedAt = nd_completedAt d, na_metadata = patched (nd_metadata d) []\<rparr>"

definition actionCreate :: "string \<Rightarrow> instant \<Rightarrow> NextActionDraft \<Rightarrow> (next_actions, NextActionRecord) op" where
  "actionCreate fresh now d = (\<lambda>t.
     let r = actionOfDraft fresh now d
     in case rowInsert na_nextActionId r t of
          Inl e \<Rightarrow> (Inl e, t)
        | Inr t' \<Rightarrow>
            (case actionFindById (na_nextActionId r) t' of
               None \<Rightarrow> (Inl (PlainError (''Next action '' @ na_nextActionId r @ '' was not persisted.'')), t')
             | Some row \<Rightarrow> (Inr row, t')))"

definition actionList :: "NextActionListQuery \<Rightarrow> next_actions \<Rightarrow> NextActionRecord list" where
  "actionList q t = withLimit (nq_limit q) (orderAsc (\<lambda>r. (na_rank r, na_createdAt r))
     (filter (\<lambda>r. clauseEq (nq_sessionId q) (na_sessionId r) \<and>
        (case nq_commitmentId q of None \<Rightarrow> True | Some c \<Rightarrow> na_commitmentId r = Some c) \<and>
        clauseEq (nq_status q) (na_status r) \<and> clauseIn (nq_statuses q) (na_status r)) t))"

definition actionPatch :: "instant \<Rightarrow> NextActionUpdatePatch \<Rightarrow> NextActionRecord \<Rightarrow> NextActionRecord" where
  "actionPatch now p r = r\<lparr>
     na_commitmentId := patched (nu_commitmentId p) (na_commitmentId r),
     na_taskId := patched (nu_taskId p) (na_taskId r),
     na_title := patched (nu_title p) (na_title r),
     na_detail := patched (nu_detail p) (na_detail r),
     na_status := patched (nu_status p) (na_status r),
     na_rank := patched (nu_rank p) (na_rank r),
     na_blockedReason := patched (nu_blockedReason p) (na_blockedReason r),
     na_source := patched (nu_source p) (na_source r),
     na_sourceTraceId := patched (nu_sourceTraceId p) (na_sourceTraceId r),
     na_dueAt := patched (nu_dueAt p) (na_dueAt r),
     na_completedAt := patched (nu_completedAt p) (na_completedAt r),
     na_metadata := patched (nu_metadata p) (na_metadata r),
     na_updatedAt := now\<rparr>"

definition actionUpdate :: "instant \<Rightarrow> string \<Rightarrow> NextActionUpdatePatch \<Rightarrow> (next_actions, NextActionRecord) op" where
  "actionUpdate now i p = (\<lambda>t.
     case actionFindById i t of
       None \<Rightarrow> (Inl (PlainError (''Next action '' @ i @ '' was not found.'')), t)
     | Some r \<Rightarrow> (Inr (actionPatch now p r), rowSet na_nextActionId i (actionPatch now p r) t))"

subsection \<open>Laws\<close>

lemma commitmentPatch_id [simp]:
  "cm_commitmentId (commitmentPatch now p r) = cm_commitmentId r" "cm_sessionId (commitmentPatch now p r) = cm_sessionId r"
  by (simp_all add: commitmentPatch_def)

lemma actionPatch_id [simp]:
  "na_nextActionId (actionPatch now p r) = na_nextActionId r" "na_sessionId (actionPatch now p r) = na_sessionId r"
  "na_createdAt (actionPatch now p r) = na_createdAt r"
  by (simp_all add: actionPatch_def)

lemma rowFind_fresh: "k \<notin> key ` set rows \<Longrightarrow> rowFind key k rows = None"
  by (simp add: rowFind_None)

lemma commitmentCreate_ok:
  "commitmentCreate fresh now d t = (Inr r, t') \<longleftrightarrow>
    r = commitmentOfDraft fresh now d \<and> t' = t @ [r] \<and> cm_commitmentId r \<notin> cm_commitmentId ` set t"
  by (auto simp: commitmentCreate_def commitmentFindById_def Let_def rowInsert_def rowFind_append rowFind_fresh split: option.splits)

lemma actionCreate_ok:
  "actionCreate fresh now d t = (Inr r, t') \<longleftrightarrow>
    r = actionOfDraft fresh now d \<and> t' = t @ [r] \<and> na_nextActionId r \<notin> na_nextActionId ` set t"
  by (auto simp: actionCreate_def actionFindById_def Let_def rowInsert_def rowFind_append rowFind_fresh split: option.splits)

end
