(* ===== verification/Inbox.thy ===== *)
theory Inbox
  imports Commitments
begin

section \<open>The inbox: records and table\<close>

text \<open>
  src/src/types/inbox.ts and src/src/storage/repositories/inbox/inbox-repository.ts, with the unique index of
  src/src/storage/migrations.ts on the user and the deduplication key of an item.
\<close>

datatype InboxCategory =
    Task_completed_item | Task_failed_item | Task_blocked_item | Approval_requested_item | Decision_requested_item
  | Memory_suggestion_item | Skill_promotion_item | Budget_warning_item | Budget_exceeded_item

datatype InboxSeverity = Sev_info | Sev_warning | Sev_action_required

datatype InboxStatus = Ix_pending | Ix_seen | Ix_done | Ix_dismissed

record InboxItem =
  ix_inboxId :: string
  ix_userId :: string
  ix_taskId :: "string option"
  ix_sessionId :: "string option"
  ix_scheduleRunId :: "string option"
  ix_approvalId :: "string option"
  ix_experienceId :: "string option"
  ix_skillId :: "string option"
  ix_category :: InboxCategory
  ix_severity :: InboxSeverity
  ix_status :: InboxStatus
  ix_title :: string
  ix_summary :: string
  ix_bodyMd :: "string option"
  ix_actionHint :: "string option"
  ix_sourceTraceId :: "string option"
  ix_dedupKey :: "string option"
  ix_createdAt :: instant
  ix_updatedAt :: instant
  ix_doneAt :: "instant option"
  ix_metadata :: json_object

record InboxItemDraft =
  id_inboxId :: "string option"
  id_userId :: string
  id_taskId :: "string option"
  id_sessionId :: "string option"
  id_scheduleRunId :: "string option"
  id_approvalId :: "string option"
  id_experienceId :: "string option"
  id_skillId :: "string option"
  id_category :: InboxCategory
  id_severity :: InboxSeverity
  id_status :: "InboxStatus option"
  id_title :: string
  id_summary :: string
  id_bodyMd :: "string option"
  id_actionHint :: "string option"
  id_sourceTraceId :: "string option"
  id_dedupKey :: "string option"
  id_doneAt :: "instant option"
  id_metadata :: "json_object option"

record InboxItemUpdatePatch =
  iu_status :: "InboxStatus option"
  iu_title :: "string option"
  iu_summary :: "string option"
  iu_bodyMd :: "string option option"
  iu_actionHint :: "string option option"
  iu_doneAt :: "instant option option"
  iu_metadata :: "json_object option"

definition noInboxPatch :: InboxItemUpdatePatch where
  "noInboxPatch = \<lparr>iu_status = None, iu_title = None, iu_summary = None, iu_bodyMd = None, iu_actionHint = None,
     iu_doneAt = None, iu_metadata = None\<rparr>"

record InboxListQuery =
  iq_userId :: "string option"
  iq_taskId :: "string option"
  iq_sessionId :: "string option"
  iq_category :: "InboxCategory option"
  iq_status :: "InboxStatus option"
  iq_statuses :: "InboxStatus list option"
  iq_limit :: "nat option"

definition anyItem :: InboxListQuery where
  "anyItem = \<lparr>iq_userId = None, iq_taskId = None, iq_sessionId = None, iq_category = None, iq_status = None,
     iq_statuses = None, iq_limit = None\<rparr>"

type_synonym inbox = "InboxItem list"

datatype InboxDeliveryEvent = Item_created InboxItem | Item_updated InboxItem

subsection \<open>The repository\<close>

definition inboxFindById :: "string \<Rightarrow> inbox \<Rightarrow> InboxItem option" where
  "inboxFindById i t = rowFind ix_inboxId i t"

definition inboxFindByDedup :: "string \<Rightarrow> string \<Rightarrow> inbox \<Rightarrow> InboxItem option" where
  "inboxFindByDedup userId dedupKey t = List.find (\<lambda>r. ix_userId r = userId \<and> ix_dedupKey r = Some dedupKey) t"

definition inboxOfDraft :: "string \<Rightarrow> instant \<Rightarrow> InboxItemDraft \<Rightarrow> InboxItem" where
  "inboxOfDraft fresh now d =
     \<lparr>ix_inboxId = patched (id_inboxId d) fresh, ix_userId = id_userId d, ix_taskId = id_taskId d,
      ix_sessionId = id_sessionId d, ix_scheduleRunId = id_scheduleRunId d, ix_approvalId = id_approvalId d,
      ix_experienceId = id_experienceId d, ix_skillId = id_skillId d, ix_category = id_category d,
      ix_severity = id_severity d, ix_status = patched (id_status d) Ix_pending, ix_title = id_title d,
      ix_summary = id_summary d, ix_bodyMd = id_bodyMd d, ix_actionHint = id_actionHint d,
      ix_sourceTraceId = id_sourceTraceId d, ix_dedupKey = id_dedupKey d, ix_createdAt = now, ix_updatedAt = now,
      ix_doneAt = id_doneAt d, ix_metadata = patched (id_metadata d) []\<rparr>"

text \<open>The unique index \<open>idx_inbox_user_dedup\<close> on items with a key.\<close>

definition dedupClash :: "InboxItem \<Rightarrow> inbox \<Rightarrow> bool" where
  "dedupClash r t = (case ix_dedupKey r of None \<Rightarrow> False | Some k \<Rightarrow> inboxFindByDedup (ix_userId r) k t \<noteq> None)"

definition inboxCreate :: "string \<Rightarrow> instant \<Rightarrow> InboxItemDraft \<Rightarrow> (inbox, InboxItem) op" where
  "inboxCreate fresh now d = (\<lambda>t.
     let r = inboxOfDraft fresh now d
     in if dedupClash r t then (Inl (PlainError ''UNIQUE constraint failed''), t)
        else case rowInsert ix_inboxId r t of
          Inl e \<Rightarrow> (Inl e, t)
        | Inr t' \<Rightarrow>
            (case inboxFindById (ix_inboxId r) t' of
               None \<Rightarrow> (Inl (PlainError (''Inbox item '' @ ix_inboxId r @ '' was not persisted.'')), t')
             | Some row \<Rightarrow> (Inr row, t')))"

definition nullableEq :: "string option \<Rightarrow> string option \<Rightarrow> bool" where
  "nullableEq q v = (case q of None \<Rightarrow> True | Some x \<Rightarrow> v = Some x)"

definition inboxMatches :: "InboxListQuery \<Rightarrow> InboxItem \<Rightarrow> bool" where
  "inboxMatches q r \<longleftrightarrow> clauseEq (iq_userId q) (ix_userId r) \<and> nullableEq (iq_taskId q) (ix_taskId r) \<and>
     nullableEq (iq_sessionId q) (ix_sessionId r) \<and> clauseEq (iq_category q) (ix_category r) \<and>
     clauseEq (iq_status q) (ix_status r) \<and> clauseIn (iq_statuses q) (ix_status r)"

definition inboxList :: "InboxListQuery \<Rightarrow> inbox \<Rightarrow> InboxItem list" where
  "inboxList q t = withLimit (iq_limit q) (orderDesc ix_createdAt (filter (inboxMatches q) t))"

definition inboxPatch :: "instant \<Rightarrow> InboxItemUpdatePatch \<Rightarrow> InboxItem \<Rightarrow> InboxItem" where
  "inboxPatch now p r = r\<lparr>
     ix_status := patched (iu_status p) (ix_status r),
     ix_title := patched (iu_title p) (ix_title r),
     ix_summary := patched (iu_summary p) (ix_summary r),
     ix_bodyMd := patched (iu_bodyMd p) (ix_bodyMd r),
     ix_actionHint := patched (iu_actionHint p) (ix_actionHint r),
     ix_doneAt := patched (iu_doneAt p) (ix_doneAt r),
     ix_metadata := patched (iu_metadata p) (ix_metadata r),
     ix_updatedAt := now\<rparr>"

definition inboxUpdate :: "instant \<Rightarrow> string \<Rightarrow> InboxItemUpdatePatch \<Rightarrow> (inbox, InboxItem) op" where
  "inboxUpdate now i p = (\<lambda>t.
     case inboxFindById i t of
       None \<Rightarrow> (Inl (PlainError (''Inbox item '' @ i @ '' was not found.'')), t)
     | Some r \<Rightarrow> (Inr (inboxPatch now p r), rowSet ix_inboxId i (inboxPatch now p r) t))"

subsection \<open>Delivery\<close>

text \<open>\<open>matchesFilter\<close> of src/src/runtime/delivery/delivery-service.ts: what a subscription receives.\<close>

definition deliveredItem :: "InboxDeliveryEvent \<Rightarrow> InboxItem" where
  "deliveredItem e = (case e of Item_created r \<Rightarrow> r | Item_updated r \<Rightarrow> r)"

definition matchesFilter :: "InboxDeliveryEvent \<Rightarrow> InboxListQuery \<Rightarrow> bool" where
  "matchesFilter e q =
     (let r = deliveredItem e
      in if (case iq_userId q of None \<Rightarrow> False | Some u \<Rightarrow> ix_userId r \<noteq> u) then False
         else if (case iq_taskId q of None \<Rightarrow> False | Some t \<Rightarrow> ix_taskId r \<noteq> Some t) then False
         else if (case iq_sessionId q of None \<Rightarrow> False | Some s \<Rightarrow> ix_sessionId r \<noteq> Some s) then False
         else if (case iq_category q of None \<Rightarrow> False | Some c \<Rightarrow> ix_category r \<noteq> c) then False
         else if (case iq_status q of None \<Rightarrow> False | Some s \<Rightarrow> ix_status r \<noteq> s) then False
         else if (case iq_statuses q of None \<Rightarrow> False | Some ss \<Rightarrow> ss \<noteq> [] \<and> ix_status r \<notin> set ss) then False
         else True)"

subsection \<open>Laws\<close>

text \<open>Subscriptions receive exactly the items the same query would list.\<close>

lemma matchesFilter_inboxMatches: "matchesFilter e q \<longleftrightarrow> inboxMatches q (deliveredItem e)"
  by (auto simp: matchesFilter_def inboxMatches_def Let_def clauseEq_def clauseIn_def nullableEq_def split: option.splits)

lemma inboxPatch_keys [simp]:
  "ix_inboxId (inboxPatch now p r) = ix_inboxId r" "ix_userId (inboxPatch now p r) = ix_userId r"
  "ix_dedupKey (inboxPatch now p r) = ix_dedupKey r" "ix_status (inboxPatch now p r) = patched (iu_status p) (ix_status r)"
  "ix_createdAt (inboxPatch now p r) = ix_createdAt r"
  by (simp_all add: inboxPatch_def)

lemma inboxFindByDedup_Some: "inboxFindByDedup u k t = Some r \<Longrightarrow> r \<in> set t \<and> ix_userId r = u \<and> ix_dedupKey r = Some k"
  by (auto simp: inboxFindByDedup_def find_Some_iff)

lemma inboxFindByDedup_None: "inboxFindByDedup u k t = None \<longleftrightarrow> (\<forall>r\<in>set t. ix_userId r \<noteq> u \<or> ix_dedupKey r \<noteq> Some k)"
  by (auto simp: inboxFindByDedup_def find_None_iff)

lemma inboxCreate_ok:
  "inboxCreate fresh now d t = (Inr r, t') \<longleftrightarrow>
    r = inboxOfDraft fresh now d \<and> t' = t @ [r] \<and> ix_inboxId r \<notin> ix_inboxId ` set t \<and> \<not> dedupClash r t"
  by (auto simp: inboxCreate_def inboxFindById_def Let_def rowInsert_def rowFind_append rowFind_fresh split: option.splits)

lemma inboxCreate_err: "inboxCreate fresh now d t = (Inl e, t') \<Longrightarrow> t' = t"
  by (auto simp: inboxCreate_def inboxFindById_def Let_def rowInsert_def rowFind_append rowFind_fresh split: option.splits if_splits)

text \<open>Keys are unique: identifiers, and user with deduplication key.\<close>

definition inboxOk :: "inbox \<Rightarrow> bool" where
  "inboxOk t \<longleftrightarrow> pkOk ix_inboxId t \<and> distinct (map (\<lambda>r. (ix_userId r, ix_dedupKey r)) (filter (\<lambda>r. ix_dedupKey r \<noteq> None) t))"

lemma inboxOk_create: "inboxOk t \<Longrightarrow> inboxCreate fresh now d t = (res, t') \<Longrightarrow> inboxOk t'"
  by (cases res) (auto dest!: inboxCreate_err simp: inboxCreate_ok inboxOk_def pkOk_def dedupClash_def
      inboxFindByDedup_None split: option.splits)

lemma inboxOk_rowSet:
  assumes "inboxOk t" "inboxFindById i t = Some r" "ix_inboxId r' = i" "ix_userId r' = ix_userId r" "ix_dedupKey r' = ix_dedupKey r"
  shows "inboxOk (rowSet ix_inboxId i r' t)"
proof -
  have same: "x = r" if "x \<in> set t" "ix_inboxId x = i" for x
    using assms(1,2) that by (metis inboxFindById_def inboxOk_def option.inject rowFind_mem)
  have "map (\<lambda>r. (ix_userId r, ix_dedupKey r)) (filter (\<lambda>r. ix_dedupKey r \<noteq> None) (rowSet ix_inboxId i r' t)) =
      map (\<lambda>r. (ix_userId r, ix_dedupKey r)) (filter (\<lambda>r. ix_dedupKey r \<noteq> None) t)"
    if "\<forall>x\<in>set t. ix_inboxId x = i \<longrightarrow> x = r" using that assms(4,5)
    by (induction t) (auto simp: rowSet_def)
  with same assms(1,3) show ?thesis by (auto simp: inboxOk_def rowSet_pk)
qed

lemma inboxOk_update: "inboxOk t \<Longrightarrow> inboxUpdate now i p t = (res, t') \<Longrightarrow> inboxOk t'"
  by (auto simp: inboxUpdate_def inboxFindById_def dest: rowFind_Some split: option.splits
      intro!: inboxOk_rowSet [unfolded inboxFindById_def])

end
