(* ===== verification/Assistant.thy ===== *)
theory Assistant
  imports Inbox Regex Tasks ScheduleStore
begin

section \<open>Commitments, next actions and the inbox at work\<close>

text \<open>
  The services of src/src/runtime/commitments and src/src/runtime/inbox and the two collectors that bootstrap.ts
  subscribes to the trace: the inbox collector first, then the commitment collector. A trace event is handed to
  both before \<open>record\<close> returns, and what they write is traced in turn. The events the inbox service
  writes are ignored by both collectors, and those of the commitment services by the commitment collector, so
  the recursion is three levels deep: \<open>recordInbox\<close>, \<open>recordAssistant\<close> and \<open>recordTrace\<close> below are the one method
  of src/src/tracing/trace-service.ts. The tables of tasks, schedules, runs and session
  summaries are only read. Identifiers come from a supply in the state, the clock stands still during a call.
\<close>

subsection \<open>Events\<close>

datatype CommitmentEventKind = Commitment_created | Commitment_updated | Commitment_blocked | Commitment_unblocked
  | Commitment_completed | Commitment_cancelled

datatype NextActionEventKind = Next_action_created | Next_action_updated | Next_action_blocked | Next_action_done

record CommitmentEvent =
  ce_blockedReason :: "string option"
  ce_commitmentId :: string
  ce_pendingDecision :: "string option"
  ce_status :: CommitmentStatus
  ce_taskId :: "string option"
  ce_sessionId :: string
  ce_title :: string

record NextActionEvent =
  ne_blockedReason :: "string option"
  ne_commitmentId :: "string option"
  ne_nextActionId :: string
  ne_status :: NextActionStatus
  ne_taskId :: "string option"
  ne_sessionId :: string
  ne_title :: string

record BudgetEvent =
  be_scope :: string
  be_session :: "string option"
  be_reasonTexts :: "string list"

record RunEvent =
  re_runId :: string
  re_scheduleId :: string
  re_status :: string
  re_taskId :: "string option"
  re_sessionId :: "string option"
  re_errorCode :: "string option"
  re_errorMessage :: "string option"

datatype EventPayload =
    Task_created
  | Task_success string
  | Task_failure string string
  | Session_summary_written string
  | Approval_requested_event string string
  | Approval_resolved_event string "string option" string string
  | Experience_promoted string string "string option"
  | Skill_promotion_suggested string string string
  | Budget_warning_event BudgetEvent
  | Budget_exceeded_event BudgetEvent
  | Schedule_run_finished RunEvent
  | Schedule_run_failed RunEvent
  | Commitment_event CommitmentEventKind CommitmentEvent
  | Next_action_event NextActionEventKind NextActionEvent
  | Inbox_item_created InboxCategory string InboxStatus "string option" string
  | Inbox_item_done string string InboxStatus string
  | Other_event string

record AssistEvent =
  ev_eventId :: string
  ev_actor :: string
  ev_stage :: string
  ev_summary :: string
  ev_taskId :: string
  ev_payload :: EventPayload

subsection \<open>The state\<close>

text \<open>The session summaries, with the fields the collector reads.\<close>

record SessionSummary =
  sm_sessionSummaryId :: string
  sm_sessionId :: string
  sm_taskId :: "string option"
  sm_summary :: string
  sm_goal :: string
  sm_openLoops :: "string list"
  sm_nextActions :: "string list"

record ScheduleWebhookPayload =
  wp_category :: InboxCategory
  wp_errorCode :: "string option"
  wp_errorMessage :: "string option"
  wp_output :: "string option"
  wp_runId :: string
  wp_scheduleId :: string
  wp_scheduleName :: string
  wp_status :: string
  wp_taskId :: "string option"

text \<open>
  An asynchronous handler runs to its first \<open>await\<close>, the delivery of the webhook, when the event is recorded; the
  rest is a continuation that runs later, whatever became of the delivery, whose failures are caught.
\<close>

datatype Continuation =
    Run_completed_rest AssistEvent "ScheduleRecord option" RunEvent
  | Run_failed_rest AssistEvent "ScheduleRecord option" "ScheduleRunRecord option" RunEvent

record AssistWorld =
  aw_tasks :: tasks
  aw_schedules :: schedules
  aw_runs :: schedule_runs
  aw_summaries :: "SessionSummary list"
  aw_commitments :: commitments
  aw_actions :: next_actions
  aw_inbox :: inbox
  aw_trace :: "AssistEvent list"
  aw_published :: "InboxDeliveryEvent list"
  aw_webhooks :: "(ScheduleRecord \<times> ScheduleWebhookPayload) list"
  aw_deferred :: "Continuation list"
  aw_now :: instant
  aw_defaultUserId :: string
  aw_supply :: "nat \<Rightarrow> string"
  aw_next :: nat

definition freshId :: "(AssistWorld, string) op" where
  "freshId = (\<lambda>w. (Inr (aw_supply w (aw_next w)), w\<lparr>aw_next := aw_next w + 1\<rparr>))"

definition onInbox :: "(inbox, 'a) op \<Rightarrow> (AssistWorld, 'a) op" where
  "onInbox = zoom aw_inbox (\<lambda>t w. w\<lparr>aw_inbox := t\<rparr>)"

definition onCommitments :: "(commitments, 'a) op \<Rightarrow> (AssistWorld, 'a) op" where
  "onCommitments = zoom aw_commitments (\<lambda>t w. w\<lparr>aw_commitments := t\<rparr>)"

definition onActions :: "(next_actions, 'a) op \<Rightarrow> (AssistWorld, 'a) op" where
  "onActions = zoom aw_actions (\<lambda>t w. w\<lparr>aw_actions := t\<rparr>)"

definition findTask :: "string \<Rightarrow> AssistWorld \<Rightarrow> TaskRecord option" where
  "findTask taskId w = taskFindById taskId (aw_tasks w)"

text \<open>An event before it has an identifier.\<close>

type_synonym event_draft = "string \<Rightarrow> AssistEvent"

definition draftEvent :: "string \<Rightarrow> string \<Rightarrow> string \<Rightarrow> string \<Rightarrow> EventPayload \<Rightarrow> event_draft" where
  "draftEvent actor stage summary taskId payload =
     (\<lambda>i. \<lparr>ev_eventId = i, ev_actor = actor, ev_stage = stage, ev_summary = summary, ev_taskId = taskId, ev_payload = payload\<rparr>)"

definition appendTrace :: "event_draft \<Rightarrow> (AssistWorld, AssistEvent) op" where
  "appendTrace d = bnd freshId (\<lambda>i. bnd (modify (\<lambda>w. w\<lparr>aw_trace := aw_trace w @ [d i]\<rparr>)) (\<lambda>_. ret (d i)))"

subsection \<open>The inbox service\<close>

fun categoryStr :: "InboxCategory \<Rightarrow> string" where
  "categoryStr Task_completed_item = ''task_completed''"
| "categoryStr Task_failed_item = ''task_failed''"
| "categoryStr Task_blocked_item = ''task_blocked''"
| "categoryStr Approval_requested_item = ''approval_requested''"
| "categoryStr Decision_requested_item = ''decision_requested''"
| "categoryStr Memory_suggestion_item = ''memory_suggestion''"
| "categoryStr Skill_promotion_item = ''skill_promotion''"
| "categoryStr Budget_warning_item = ''budget_warning''"
| "categoryStr Budget_exceeded_item = ''budget_exceeded''"

definition recordInbox :: "event_draft \<Rightarrow> (AssistWorld, AssistEvent) op" where
  "recordInbox d = appendTrace d"

definition publishItem :: "InboxDeliveryEvent \<Rightarrow> (AssistWorld, unit) op" where
  "publishItem e = modify (\<lambda>w. w\<lparr>aw_published := aw_published w @ [e]\<rparr>)"

definition taskOrInbox :: "InboxItem \<Rightarrow> string" where
  "taskOrInbox item = patched (ix_taskId item) ''inbox''"

definition inboxAppend :: "InboxItemDraft \<Rightarrow> (AssistWorld, InboxItem) op" where
  "inboxAppend d =
     bnd (ask (\<lambda>w. case id_dedupKey d of None \<Rightarrow> None | Some k \<Rightarrow> inboxFindByDedup (id_userId d) k (aw_inbox w))) (\<lambda>existing.
       case existing of
         Some item \<Rightarrow> ret item
       | None \<Rightarrow>
           bnd freshId (\<lambda>i.
           bnd (ask aw_now) (\<lambda>now.
           bnd (onInbox (inboxCreate i now d)) (\<lambda>item.
           bnd (recordInbox (draftEvent ''inbox.service'' ''completion'' (''Inbox item created: '' @ categoryStr (ix_category item))
                  (taskOrInbox item) (Inbox_item_created (ix_category item) (ix_inboxId item) (ix_status item)
                    (ix_taskId item) (ix_userId item)))) (\<lambda>_.
           bnd (publishItem (Item_created item)) (\<lambda>_. ret item))))))"

definition inboxMarkDone :: "string \<Rightarrow> string \<Rightarrow> (AssistWorld, InboxItem) op" where
  "inboxMarkDone inboxId reviewerId =
     bnd (ask aw_now) (\<lambda>now.
     bnd (onInbox (inboxUpdate now inboxId (noInboxPatch\<lparr>iu_doneAt := Some (Some now), iu_status := Some Ix_done\<rparr>))) (\<lambda>item.
     bnd (recordInbox (draftEvent ''inbox.service'' ''completion'' (''Inbox item done: '' @ ix_inboxId item) (taskOrInbox item)
            (Inbox_item_done (ix_inboxId item) reviewerId (ix_status item) (ix_userId item)))) (\<lambda>_.
     bnd (publishItem (Item_updated item)) (\<lambda>_. ret item))))"

definition markMatchingDone :: "InboxListQuery \<Rightarrow> (InboxItem \<Rightarrow> bool) \<Rightarrow> string \<Rightarrow> (AssistWorld, InboxItem list) op" where
  "markMatchingDone q p reviewerId =
     bnd (ask (\<lambda>w. filter (\<lambda>item. ix_status item \<noteq> Ix_done \<and> p item) (inboxList q (aw_inbox w)))) (\<lambda>items.
     forEach (\<lambda>item. inboxMarkDone (ix_inboxId item) reviewerId) items)"

definition inboxMarkDismissed :: "string \<Rightarrow> (AssistWorld, InboxItem) op" where
  "inboxMarkDismissed inboxId =
     bnd (ask aw_now) (\<lambda>now.
     bnd (onInbox (inboxUpdate now inboxId (noInboxPatch\<lparr>iu_status := Some Ix_dismissed\<rparr>))) (\<lambda>item.
     bnd (publishItem (Item_updated item)) (\<lambda>_. ret item)))"

subsection \<open>The inbox collector\<close>

text \<open>The draft of an item with the fields every item of the collector has.\<close>

definition itemDraft :: "InboxCategory \<Rightarrow> string \<Rightarrow> InboxSeverity \<Rightarrow> AssistEvent \<Rightarrow> string \<Rightarrow> string option \<Rightarrow>
    string option \<Rightarrow> string \<Rightarrow> string \<Rightarrow> InboxItemDraft" where
  "itemDraft category dedupKey severity e summary taskId sessionId title userId =
     \<lparr>id_inboxId = None, id_userId = userId, id_taskId = taskId, id_sessionId = sessionId, id_scheduleRunId = None,
      id_approvalId = None, id_experienceId = None, id_skillId = None, id_category = category, id_severity = severity,
      id_status = None, id_title = title, id_summary = summary, id_bodyMd = None, id_actionHint = None,
      id_sourceTraceId = Some (ev_eventId e), id_dedupKey = Some dedupKey, id_doneAt = None, id_metadata = None\<rparr>"

definition runsOfTask :: "string \<Rightarrow> AssistWorld \<Rightarrow> ScheduleRunRecord option" where
  "runsOfTask taskId w = firstRow (runListByTaskId taskId (aw_runs w))"

definition findSchedule :: "string \<Rightarrow> AssistWorld \<Rightarrow> ScheduleRecord option" where
  "findSchedule scheduleId w = scheduleFindById scheduleId (aw_schedules w)"

definition findScheduleRun :: "string \<Rightarrow> AssistWorld \<Rightarrow> ScheduleRunRecord option" where
  "findScheduleRun runId w = runFindById runId (aw_runs w)"

definition resolveUserId :: "string \<Rightarrow> AssistWorld \<Rightarrow> string" where
  "resolveUserId taskId w =
     (case findTask taskId w of
        Some t \<Rightarrow> tk_requesterUserId t
      | None \<Rightarrow>
          (case runsOfTask taskId w of
             None \<Rightarrow> ''local-user''
           | Some run \<Rightarrow>
               (case findSchedule (sr_scheduleId run) w of None \<Rightarrow> ''local-user'' | Some s \<Rightarrow> sc_ownerUserId s)))"

definition resolveScheduleOwner :: "string \<Rightarrow> string option \<Rightarrow> AssistWorld \<Rightarrow> string" where
  "resolveScheduleOwner scheduleId fallbackTaskId w =
     (case fallbackTaskId of
        None \<Rightarrow> (case findSchedule scheduleId w of None \<Rightarrow> ''local-user'' | Some s \<Rightarrow> sc_ownerUserId s)
      | Some t \<Rightarrow> (case findSchedule scheduleId w of Some s \<Rightarrow> sc_ownerUserId s | None \<Rightarrow> resolveUserId t w))"

definition isScheduledTaskRun :: "string \<Rightarrow> AssistWorld \<Rightarrow> bool" where
  "isScheduledTaskRun taskId w =
     (case findTask taskId w of None \<Rightarrow> False
      | Some t \<Rightarrow> (case jget (tk_metadata t) ''scheduleRunContext'' of Some (JObj _) \<Rightarrow> True | _ \<Rightarrow> False))"

definition sessionOfTask :: "string \<Rightarrow> AssistWorld \<Rightarrow> string option" where
  "sessionOfTask taskId w = (case findTask taskId w of None \<Rightarrow> None | Some t \<Rightarrow> tk_sessionId t)"

definition markTaskBlockedItemsDone :: "string \<Rightarrow> string \<Rightarrow> (InboxItem \<Rightarrow> bool) \<Rightarrow> (AssistWorld, InboxItem list) op" where
  "markTaskBlockedItemsDone taskId reviewerId p =
     markMatchingDone (anyItem\<lparr>iq_taskId := Some taskId, iq_category := Some Task_blocked_item, iq_status := Some Ix_pending\<rparr>)
       p reviewerId"

definition markBlockedItemsDone :: "string \<Rightarrow> string option \<Rightarrow> string \<Rightarrow> (InboxItem \<Rightarrow> bool) \<Rightarrow> (AssistWorld, InboxItem list) op" where
  "markBlockedItemsDone sessionId taskId reviewerId p =
     (case taskId of
        Some t \<Rightarrow> markMatchingDone
          (anyItem\<lparr>iq_taskId := Some t, iq_category := Some Task_blocked_item, iq_status := Some Ix_pending\<rparr>) p reviewerId
      | None \<Rightarrow> markMatchingDone
          (anyItem\<lparr>iq_sessionId := Some sessionId, iq_category := Some Task_blocked_item, iq_status := Some Ix_pending\<rparr>)
          p reviewerId)"

definition buildScheduleInboxMetadata :: "ScheduleRecord option \<Rightarrow> json_object" where
  "buildScheduleInboxMetadata schedule =
     (case schedule of
        None \<Rightarrow> []
      | Some s \<Rightarrow>
          [(''scheduleId'', JStr (sc_scheduleId s))] @
          (case readJsonObject (jget (sc_metadata s) ''delivery'') of None \<Rightarrow> [] | Some d \<Rightarrow> [(''delivery'', JObj d)]) @
          (case readJsonObject (jget (sc_metadata s) ''origin'') of
             None \<Rightarrow> []
           | Some og \<Rightarrow> if shouldDeliverToOrigin schedule then [(''origin'', JObj og)] else []))"

definition buildApprovalInboxMetadata :: "ScheduleRecord option \<Rightarrow> string \<Rightarrow> json_object" where
  "buildApprovalInboxMetadata schedule approvalId = jput ''approvalId'' (JStr approvalId) (buildScheduleInboxMetadata schedule)"

definition hasExternalScheduleOrigin :: "json_object \<Rightarrow> bool" where
  "hasExternalScheduleOrigin metadata = (readJsonObject (jget metadata ''origin'') \<noteq> None)"

definition readNoAgentOutput :: "ScheduleRunRecord option \<Rightarrow> string option" where
  "readNoAgentOutput run =
     (case run of None \<Rightarrow> None
      | Some r \<Rightarrow> (case jget (sr_metadata r) ''noAgentOutput'' of Some (JStr s) \<Rightarrow> Some s | _ \<Rightarrow> None))"

definition deliverScheduleWebhook :: "ScheduleRecord option \<Rightarrow> ScheduleWebhookPayload \<Rightarrow> (AssistWorld, unit) op" where
  "deliverScheduleWebhook schedule payload =
     (case schedule of
        None \<Rightarrow> ret ()
      | Some s \<Rightarrow>
          if \<not> shouldDeliverViaWebhook schedule \<or> readScheduleWebhookUrl schedule = None then ret ()
          else modify (\<lambda>w. w\<lparr>aw_webhooks := aw_webhooks w @ [(s, payload)]\<rparr>))"

text \<open>The two asynchronous handlers, up to the delivery of the webhook.\<close>

definition deferRest :: "Continuation \<Rightarrow> (AssistWorld, unit) op" where
  "deferRest k = modify (\<lambda>w. w\<lparr>aw_deferred := aw_deferred w @ [k]\<rparr>)"

definition handleScheduleRunCompleted :: "AssistEvent \<Rightarrow> RunEvent \<Rightarrow> (AssistWorld, unit) op" where
  "handleScheduleRunCompleted e p =
     bnd (ask (\<lambda>w. (findSchedule (re_scheduleId p) w, findScheduleRun (re_runId p) w,
        case re_taskId p of None \<Rightarrow> None | Some t \<Rightarrow> findTask t w))) (\<lambda>(schedule, run, task).
     let label = (case schedule of None \<Rightarrow> re_runId p | Some s \<Rightarrow> sc_name s)
     in bnd (deliverScheduleWebhook schedule
          \<lparr>wp_category = Task_completed_item, wp_errorCode = None, wp_errorMessage = None,
           wp_output = (case task of None \<Rightarrow> readNoAgentOutput run
             | Some t \<Rightarrow> (case tk_finalOutput t of None \<Rightarrow> readNoAgentOutput run | Some v \<Rightarrow> Some v)),
           wp_runId = re_runId p, wp_scheduleId = re_scheduleId p, wp_scheduleName = label, wp_status = re_status p,
           wp_taskId = re_taskId p\<rparr>) (\<lambda>_.
        deferRest (Run_completed_rest e schedule p)))"

definition handleScheduleRunFailed :: "AssistEvent \<Rightarrow> RunEvent \<Rightarrow> (AssistWorld, unit) op" where
  "handleScheduleRunFailed e p =
     bnd (ask (\<lambda>w. (findSchedule (re_scheduleId p) w, findScheduleRun (re_runId p) w))) (\<lambda>(schedule, run).
     bnd (deliverScheduleWebhook schedule
          \<lparr>wp_category = Task_failed_item, wp_errorCode = re_errorCode p, wp_errorMessage = re_errorMessage p,
           wp_output = None, wp_runId = re_runId p, wp_scheduleId = re_scheduleId p,
           wp_scheduleName = (case schedule of None \<Rightarrow> re_runId p | Some s \<Rightarrow> sc_name s), wp_status = ''failed'',
           wp_taskId = re_taskId p\<rparr>) (\<lambda>_.
        deferRest (Run_failed_rest e schedule run p)))"

text \<open>The keys of the items.\<close>

definition blockedKey :: "string \<Rightarrow> string" where "blockedKey commitmentId = ''task_blocked:'' @ commitmentId"
definition actionBlockedKey :: "string \<Rightarrow> string" where "actionBlockedKey actionId = ''task_blocked:next_action:'' @ actionId"
definition approvalKey :: "string \<Rightarrow> string" where "approvalKey approvalId = ''approval_requested:'' @ approvalId"
definition decisionKey :: "string \<Rightarrow> string" where "decisionKey commitmentId = ''decision_requested:'' @ commitmentId"

definition thenNothing :: "(AssistWorld, 'a) op \<Rightarrow> (AssistWorld, unit) op" where
  "thenNothing m = bnd m (\<lambda>_. ret ())"

text \<open>The items of a finished task: those of a scheduled task come from its run instead.\<close>

definition taskFinished :: "AssistEvent \<Rightarrow> (string option \<Rightarrow> string \<Rightarrow> InboxItemDraft) \<Rightarrow> (AssistWorld, unit) op" where
  "taskFinished e mk =
     bnd (markTaskBlockedItemsDone (ev_taskId e) ''system'' (\<lambda>_. True)) (\<lambda>_.
     bnd (ask (\<lambda>w. (isScheduledTaskRun (ev_taskId e) w \<or> runsOfTask (ev_taskId e) w \<noteq> None,
        sessionOfTask (ev_taskId e) w, resolveUserId (ev_taskId e) w))) (\<lambda>(scheduled, session, user).
     if scheduled then ret () else thenNothing (inboxAppend (mk session user))))"

definition approvalRequested :: "AssistEvent \<Rightarrow> string \<Rightarrow> string \<Rightarrow> (AssistWorld, unit) op" where
  "approvalRequested e approvalId toolName =
     bnd (ask (\<lambda>w. (runsOfTask (ev_taskId e) w, sessionOfTask (ev_taskId e) w, resolveUserId (ev_taskId e) w)))
       (\<lambda>(run, session, user).
     bnd (ask (\<lambda>w. case run of None \<Rightarrow> None | Some r \<Rightarrow> findSchedule (sr_scheduleId r) w)) (\<lambda>schedule.
     thenNothing (inboxAppend ((itemDraft Approval_requested_item (approvalKey approvalId) Sev_action_required e
       (toolName @ '' requires approval'') (Some (ev_taskId e)) session ''Approval requested'' user)
         \<lparr>id_actionHint := Some (''talon approve allow <approval-id> [--scope once|session|always] --reviewer <user> | '' @
            ''talon approve deny <approval-id>''),
          id_metadata := Some (buildApprovalInboxMetadata schedule approvalId),
          id_scheduleRunId := map_option sr_runId run\<rparr>))))"

definition approvalResolved :: "AssistEvent \<Rightarrow> string \<Rightarrow> string option \<Rightarrow> string \<Rightarrow> (AssistWorld, unit) op" where
  "approvalResolved e approvalId reviewerId toolName =
     (let reviewer = patched reviewerId ''system-reviewer''
      in bnd (ask (\<lambda>w. List.find (\<lambda>item. ix_dedupKey item = Some (approvalKey approvalId))
           (inboxList (anyItem\<lparr>iq_status := Some Ix_pending, iq_taskId := Some (ev_taskId e)\<rparr>) (aw_inbox w)))) (\<lambda>pending.
         bnd (case pending of None \<Rightarrow> ret () | Some item \<Rightarrow> thenNothing (inboxMarkDone (ix_inboxId item) reviewer)) (\<lambda>_.
         thenNothing (markTaskBlockedItemsDone (ev_taskId e) reviewer
           (\<lambda>item. includesStr (ix_summary item) (''awaiting approval: '' @ toolName))))))"

definition forUser :: "string \<Rightarrow> (string \<Rightarrow> InboxItemDraft) \<Rightarrow> (AssistWorld, unit) op" where
  "forUser taskId mk = bnd (ask (resolveUserId taskId)) (\<lambda>user. thenNothing (inboxAppend (mk user)))"

definition experiencePromoted :: "AssistEvent \<Rightarrow> string \<Rightarrow> string \<Rightarrow> string option \<Rightarrow> (AssistWorld, unit) op" where
  "experiencePromoted e experienceId target memoryId =
     bnd (if target = ''project_memory'' \<or> target = ''profile_memory''
          then forUser (ev_taskId e) (\<lambda>user. (itemDraft Memory_suggestion_item (''memory_suggestion:'' @ experienceId)
            Sev_action_required e
            (''A '' @ (if target = ''project_memory'' then ''project'' else ''profile'') @
               '' memory suggestion is ready for review.'')
            (Some (ev_taskId e)) None ''Memory suggestion'' user)
              \<lparr>id_actionHint := Some (''talon memory review-queue accept <inbox-id> | '' @
                 ''talon memory review-queue dismiss <inbox-id>''),
               id_experienceId := Some experienceId,
               id_metadata := Some [(''promotedMemoryId'', jopt memoryId), (''target'', JStr target)]\<rparr>)
          else ret ()) (\<lambda>_.
     if target = ''skill_candidate''
     then forUser (ev_taskId e) (\<lambda>user. (itemDraft Skill_promotion_item (''skill_promotion:'' @ experienceId) Sev_info e
       ''A new skill candidate is ready for promotion.'' (Some (ev_taskId e)) None ''Skill promotion suggestion'' user)
         \<lparr>id_experienceId := Some experienceId\<rparr>)
     else ret ())"

definition skillPromotionSuggested :: "AssistEvent \<Rightarrow> string \<Rightarrow> string \<Rightarrow> string \<Rightarrow> (AssistWorld, unit) op" where
  "skillPromotionSuggested e draftId skillId version =
     forUser (ev_taskId e) (\<lambda>user. (itemDraft Skill_promotion_item (''skill_promotion_suggested:'' @ draftId)
       Sev_action_required e (''Suggested promotion for '' @ skillId @ '' ('' @ version @ '')'') (Some (ev_taskId e)) None
       ''Skill promotion requires review'' user)
         \<lparr>id_actionHint := Some (''talon skill approve '' @ draftId @ '' | talon skill reject '' @ draftId @
            '' | talon skill rollback '' @ skillId @ '' --reason '' @ [CHR 0x22] @ ''<text>'' @ [CHR 0x22])\<rparr>)"

definition budgetItem :: "AssistEvent \<Rightarrow> bool \<Rightarrow> BudgetEvent \<Rightarrow> (AssistWorld, unit) op" where
  "budgetItem e exceeded p =
     forUser (ev_taskId e) (\<lambda>user.
       if exceeded
       then (itemDraft Budget_exceeded_item (''budget_exceeded:'' @ ev_taskId e @ '':'' @ be_scope p) Sev_action_required e
           (joinWith ''; '' (be_reasonTexts p)) (Some (ev_taskId e)) (be_session p) ''Budget exceeded'' user)
             \<lparr>id_actionHint := Some (''talon budget show --task '' @ ev_taskId e @ '' | talon budget raise --task '' @
                ev_taskId e @ '' --hard-usd <n>'')\<rparr>
       else itemDraft Budget_warning_item (''budget_warning:'' @ ev_taskId e @ '':'' @ be_scope p) Sev_info e
           (joinWith ''; '' (be_reasonTexts p)) (Some (ev_taskId e)) (be_session p) ''Budget warning'' user)"

text \<open>Commitments and next actions: what is blocked or waits for a decision is shown, what goes on is marked done.\<close>

definition commitmentItems :: "AssistEvent \<Rightarrow> CommitmentEventKind \<Rightarrow> CommitmentEvent \<Rightarrow> (AssistWorld, unit) op" where
  "commitmentItems e kind c =
     (case kind of
        Commitment_blocked \<Rightarrow>
          forUser (ev_taskId e) (itemDraft Task_blocked_item (blockedKey (ce_commitmentId c)) Sev_warning e
            (patched (ce_blockedReason c) []) (ce_taskId c) (Some (ce_sessionId c)) ''Task blocked'')
      | Commitment_unblocked \<Rightarrow> thenNothing (markBlockedItemsDone (ce_sessionId c) (ce_taskId c) ''system''
          (\<lambda>item. ix_dedupKey item = Some (blockedKey (ce_commitmentId c))))
      | Commitment_completed \<Rightarrow> thenNothing (markBlockedItemsDone (ce_sessionId c) (ce_taskId c) ''system''
          (\<lambda>item. ix_dedupKey item = Some (blockedKey (ce_commitmentId c))))
      | Commitment_updated \<Rightarrow>
          (case ce_pendingDecision c of
             None \<Rightarrow> ret ()
           | Some decision \<Rightarrow>
               if ce_status c \<noteq> Cm_waiting_decision then ret ()
               else forUser (ev_taskId e) (itemDraft Decision_requested_item (decisionKey (ce_commitmentId c))
                 Sev_action_required e decision (ce_taskId c) (Some (ce_sessionId c)) ''Decision requested''))
      | Commitment_created \<Rightarrow> ret ()
      | Commitment_cancelled \<Rightarrow> ret ())"

definition nextActionItems :: "AssistEvent \<Rightarrow> NextActionEventKind \<Rightarrow> NextActionEvent \<Rightarrow> (AssistWorld, unit) op" where
  "nextActionItems e kind a =
     (let finish = thenNothing (markBlockedItemsDone (ne_sessionId a) (ne_taskId a) ''system''
            (\<lambda>item. ix_dedupKey item = Some (actionBlockedKey (ne_nextActionId a))))
      in case kind of
        Next_action_blocked \<Rightarrow>
          forUser (ev_taskId e) (itemDraft Task_blocked_item (actionBlockedKey (ne_nextActionId a)) Sev_warning e
            (patched (ne_blockedReason a) []) (ne_taskId a) (Some (ne_sessionId a)) ''Next action blocked'')
      | Next_action_updated \<Rightarrow>
          if ne_blockedReason a \<noteq> None \<or> (ne_status a \<noteq> Na_active \<and> ne_status a \<noteq> Na_done) then ret () else finish
      | Next_action_done \<Rightarrow> finish
      | Next_action_created \<Rightarrow> ret ())"

text \<open>\<open>handleTrace\<close> of inbox-collector.ts.\<close>

definition handleInbox :: "AssistEvent \<Rightarrow> (AssistWorld, unit) op" where
  "handleInbox e =
     (case ev_payload e of
        Task_success outputSummary \<Rightarrow>
          taskFinished e (\<lambda>session. itemDraft Task_completed_item (''task_success:'' @ ev_taskId e) Sev_info e outputSummary
            (Some (ev_taskId e)) session ''Task completed'')
      | Task_failure errorCode errorMessage \<Rightarrow>
          taskFinished e (\<lambda>session. itemDraft Task_failed_item (''task_failure:'' @ ev_taskId e) Sev_warning e
            (errorCode @ '': '' @ errorMessage) (Some (ev_taskId e)) session ''Task failed'')
      | Approval_requested_event approvalId toolName \<Rightarrow> approvalRequested e approvalId toolName
      | Approval_resolved_event approvalId reviewerId status toolName \<Rightarrow> approvalResolved e approvalId reviewerId toolName
      | Experience_promoted experienceId target memoryId \<Rightarrow> experiencePromoted e experienceId target memoryId
      | Skill_promotion_suggested draftId skillId version \<Rightarrow> skillPromotionSuggested e draftId skillId version
      | Budget_warning_event p \<Rightarrow> budgetItem e False p
      | Budget_exceeded_event p \<Rightarrow> budgetItem e True p
      | Schedule_run_finished p \<Rightarrow> if re_status p \<noteq> ''completed'' then ret () else handleScheduleRunCompleted e p
      | Schedule_run_failed p \<Rightarrow> handleScheduleRunFailed e p
      | Commitment_event kind c \<Rightarrow> commitmentItems e kind c
      | Next_action_event kind a \<Rightarrow> nextActionItems e kind a
      | _ \<Rightarrow> ret ())"

subsection \<open>The services of commitments and next actions\<close>

definition recordAssistant :: "event_draft \<Rightarrow> (AssistWorld, AssistEvent) op" where
  "recordAssistant d = bnd (appendTrace d) (\<lambda>e. bnd (handleInbox e) (\<lambda>_. ret e))"

fun commitmentEventStr :: "CommitmentEventKind \<Rightarrow> string" where
  "commitmentEventStr Commitment_created = ''Commitment created: ''"
| "commitmentEventStr Commitment_updated = ''Commitment updated: ''"
| "commitmentEventStr Commitment_blocked = ''Commitment blocked: ''"
| "commitmentEventStr Commitment_unblocked = ''Commitment unblocked: ''"
| "commitmentEventStr Commitment_completed = ''Commitment completed: ''"
| "commitmentEventStr Commitment_cancelled = ''Commitment cancelled: ''"

definition taskOrSession :: "string option \<Rightarrow> string \<Rightarrow> string" where
  "taskOrSession taskId sessionId = (case taskId of Some t \<Rightarrow> t | None \<Rightarrow> ''session:'' @ sessionId)"

definition recordCommitment :: "CommitmentEventKind \<Rightarrow> CommitmentRecord \<Rightarrow> string \<Rightarrow> (AssistWorld, CommitmentRecord) op" where
  "recordCommitment kind c text =
     bnd (recordAssistant (draftEvent ''runtime.commitment'' ''planning'' (text @ cm_title c)
       (taskOrSession (cm_taskId c) (cm_sessionId c))
       (Commitment_event kind \<lparr>ce_blockedReason = cm_blockedReason c, ce_commitmentId = cm_commitmentId c,
          ce_pendingDecision = cm_pendingDecision c, ce_status = cm_status c, ce_taskId = cm_taskId c,
          ce_sessionId = cm_sessionId c, ce_title = cm_title c\<rparr>))) (\<lambda>_. ret c)"

definition commitmentCreateS :: "CommitmentDraft \<Rightarrow> (AssistWorld, CommitmentRecord) op" where
  "commitmentCreateS d =
     bnd freshId (\<lambda>i. bnd (ask aw_now) (\<lambda>now. bnd (onCommitments (commitmentCreate i now d)) (\<lambda>c.
     recordCommitment Commitment_created c (commitmentEventStr Commitment_created))))"

definition commitmentPatchS :: "CommitmentEventKind \<Rightarrow> string \<Rightarrow> string \<Rightarrow> CommitmentUpdatePatch \<Rightarrow>
    (AssistWorld, CommitmentRecord) op" where
  "commitmentPatchS kind text i p =
     bnd (ask aw_now) (\<lambda>now. bnd (onCommitments (commitmentUpdate now i p)) (\<lambda>c. recordCommitment kind c text))"

definition commitmentUpdateS :: "string \<Rightarrow> CommitmentUpdatePatch \<Rightarrow> (AssistWorld, CommitmentRecord) op" where
  "commitmentUpdateS i p = commitmentPatchS Commitment_updated (commitmentEventStr Commitment_updated) i p"

definition requireCommitment :: "string \<Rightarrow> (AssistWorld, CommitmentRecord) op" where
  "requireCommitment i = bnd (ask (\<lambda>w. commitmentFindById i (aw_commitments w))) (\<lambda>r.
     case r of None \<Rightarrow> raise (PlainError (''Commitment '' @ i @ '' was not found.'')) | Some c \<Rightarrow> ret c)"

definition commitmentBlock :: "string \<Rightarrow> string \<Rightarrow> (AssistWorld, CommitmentRecord) op" where
  "commitmentBlock i reason = commitmentPatchS Commitment_blocked (commitmentEventStr Commitment_blocked) i
     (noCommitmentPatch\<lparr>cu_blockedReason := Some (Some reason), cu_status := Some Cm_blocked\<rparr>)"

definition commitmentUnblock :: "string \<Rightarrow> (AssistWorld, CommitmentRecord) op" where
  "commitmentUnblock i =
     bnd (requireCommitment i) (\<lambda>existing.
     commitmentPatchS Commitment_unblocked (commitmentEventStr Commitment_unblocked) i
       (noCommitmentPatch\<lparr>cu_blockedReason := Some None,
          cu_status := Some (if cm_pendingDecision existing = None then Cm_in_progress else Cm_waiting_decision)\<rparr>))"

definition setPendingDecision :: "string \<Rightarrow> string \<Rightarrow> (AssistWorld, CommitmentRecord) op" where
  "setPendingDecision i decision = commitmentPatchS Commitment_updated ''Commitment pending decision: '' i
     (noCommitmentPatch\<lparr>cu_pendingDecision := Some (Some decision), cu_status := Some Cm_waiting_decision\<rparr>)"

definition resolveDecision :: "string \<Rightarrow> (AssistWorld, CommitmentRecord) op" where
  "resolveDecision i =
     bnd (requireCommitment i) (\<lambda>existing.
     commitmentPatchS Commitment_updated ''Commitment decision resolved: '' i
       (noCommitmentPatch\<lparr>cu_pendingDecision := Some None,
          cu_status := Some (if cm_blockedReason existing = None then Cm_in_progress else Cm_blocked)\<rparr>))"

definition commitmentComplete :: "string \<Rightarrow> (AssistWorld, CommitmentRecord) op" where
  "commitmentComplete i = bnd (ask aw_now) (\<lambda>now.
     commitmentPatchS Commitment_completed (commitmentEventStr Commitment_completed) i
       (noCommitmentPatch\<lparr>cu_blockedReason := Some None, cu_completedAt := Some (Some now),
          cu_pendingDecision := Some None, cu_status := Some Cm_completed\<rparr>))"

definition commitmentCancel :: "string \<Rightarrow> (AssistWorld, CommitmentRecord) op" where
  "commitmentCancel i = bnd (ask aw_now) (\<lambda>now.
     commitmentPatchS Commitment_cancelled (commitmentEventStr Commitment_cancelled) i
       (noCommitmentPatch\<lparr>cu_completedAt := Some (Some now), cu_status := Some Cm_cancelled\<rparr>))"

definition commitmentListS :: "CommitmentListQuery \<Rightarrow> AssistWorld \<Rightarrow> CommitmentRecord list" where
  "commitmentListS q w = commitmentList q (aw_commitments w)"

definition recordAction :: "NextActionEventKind \<Rightarrow> NextActionRecord \<Rightarrow> string \<Rightarrow> (AssistWorld, NextActionRecord) op" where
  "recordAction kind a text =
     bnd (recordAssistant (draftEvent ''runtime.next-action'' ''planning'' (text @ na_title a)
       (taskOrSession (na_taskId a) (na_sessionId a))
       (Next_action_event kind \<lparr>ne_blockedReason = na_blockedReason a, ne_commitmentId = na_commitmentId a,
          ne_nextActionId = na_nextActionId a, ne_status = na_status a, ne_taskId = na_taskId a,
          ne_sessionId = na_sessionId a, ne_title = na_title a\<rparr>))) (\<lambda>_. ret a)"

definition actionCreateS :: "NextActionDraft \<Rightarrow> (AssistWorld, NextActionRecord) op" where
  "actionCreateS d =
     bnd freshId (\<lambda>i. bnd (ask aw_now) (\<lambda>now. bnd (onActions (actionCreate i now d)) (\<lambda>a.
     recordAction Next_action_created a ''Next action created: '')))"

definition actionPatchS :: "NextActionEventKind \<Rightarrow> string \<Rightarrow> string \<Rightarrow> NextActionUpdatePatch \<Rightarrow> (AssistWorld, NextActionRecord) op" where
  "actionPatchS kind text i p =
     bnd (ask aw_now) (\<lambda>now. bnd (onActions (actionUpdate now i p)) (\<lambda>a. recordAction kind a text))"

definition actionUpdateS :: "string \<Rightarrow> NextActionUpdatePatch \<Rightarrow> (AssistWorld, NextActionRecord) op" where
  "actionUpdateS i p = actionPatchS Next_action_updated ''Next action updated: '' i p"

definition actionMarkActive :: "string \<Rightarrow> (AssistWorld, NextActionRecord) op" where
  "actionMarkActive i = actionUpdateS i (noNextActionPatch\<lparr>nu_blockedReason := Some None, nu_status := Some Na_active\<rparr>)"

definition actionBlock :: "string \<Rightarrow> string \<Rightarrow> (AssistWorld, NextActionRecord) op" where
  "actionBlock i reason = actionPatchS Next_action_blocked ''Next action blocked: '' i
     (noNextActionPatch\<lparr>nu_blockedReason := Some (Some reason), nu_status := Some Na_blocked\<rparr>)"

definition actionUnblock :: "string \<Rightarrow> (AssistWorld, NextActionRecord) op" where
  "actionUnblock i = actionPatchS Next_action_updated ''Next action unblocked: '' i
     (noNextActionPatch\<lparr>nu_blockedReason := Some None, nu_status := Some Na_active\<rparr>)"

definition actionMarkDone :: "string \<Rightarrow> (AssistWorld, NextActionRecord) op" where
  "actionMarkDone i = bnd (ask aw_now) (\<lambda>now. actionPatchS Next_action_done ''Next action done: '' i
     (noNextActionPatch\<lparr>nu_blockedReason := Some None, nu_completedAt := Some (Some now), nu_status := Some Na_done\<rparr>))"

definition actionCancel :: "string \<Rightarrow> (AssistWorld, NextActionRecord) op" where
  "actionCancel i = bnd (ask aw_now) (\<lambda>now. actionUpdateS i
     (noNextActionPatch\<lparr>nu_completedAt := Some (Some now), nu_status := Some Na_cancelled\<rparr>))"

definition actionListS :: "NextActionListQuery \<Rightarrow> AssistWorld \<Rightarrow> NextActionRecord list" where
  "actionListS q w = actionList q (aw_actions w)"

definition sessionActions :: "string \<Rightarrow> NextActionListQuery" where
  "sessionActions sessionId = \<lparr>nq_sessionId = Some sessionId, nq_commitmentId = None, nq_status = None, nq_statuses = None,
     nq_limit = None\<rparr>"

text \<open>\<open>reorder\<close>: a map from identifiers to their last position, then one update per action of the session.\<close>

definition rankById :: "string list \<Rightarrow> string \<Rightarrow> int option" where
  "rankById orderedIds i = map_of (rev (zip orderedIds (map int [0..<length orderedIds]))) i"

definition actionReorder :: "string \<Rightarrow> string list \<Rightarrow> (AssistWorld, NextActionRecord list) op" where
  "actionReorder sessionId orderedIds =
     bnd (ask (actionListS (sessionActions sessionId))) (\<lambda>current.
     bnd (ask aw_now) (\<lambda>now.
     forEach (\<lambda>a. onActions (actionUpdate now (na_nextActionId a)
       (noNextActionPatch\<lparr>nu_rank := Some (patched (rankById orderedIds (na_nextActionId a)) (na_rank a))\<rparr>))) current))"

subsection \<open>The commitment collector\<close>

definition openCommitments :: "string \<Rightarrow> CommitmentListQuery" where
  "openCommitments sessionId = \<lparr>cq_sessionId = Some sessionId, cq_ownerUserId = None, cq_status = None,
     cq_statuses = Some [Cm_open, Cm_in_progress, Cm_blocked, Cm_waiting_decision], cq_limit = None\<rparr>"

definition actionsIn :: "NextActionStatus list \<Rightarrow> string \<Rightarrow> NextActionListQuery" where
  "actionsIn statuses sessionId = (sessionActions sessionId)\<lparr>nq_statuses := Some statuses\<rparr>"

definition firstAction :: "NextActionStatus list \<Rightarrow> string \<Rightarrow> AssistWorld \<Rightarrow> NextActionRecord option" where
  "firstAction statuses sessionId w = firstRow (actionListS (actionsIn statuses sessionId) w)"

definition userAction :: "AssistEvent \<Rightarrow> TaskRecord \<Rightarrow> string \<Rightarrow> string option \<Rightarrow> NextActionDraft" where
  "userAction e task sessionId commitmentId =
     \<lparr>nd_nextActionId = None, nd_sessionId = sessionId, nd_commitmentId = commitmentId, nd_taskId = Some (tk_taskId task),
      nd_title = take 160 (tk_input task), nd_detail = None, nd_status = Some Na_active, nd_rank = Some 0,
      nd_blockedReason = None, nd_source = Some From_user_request, nd_sourceTraceId = Some (ev_eventId e),
      nd_dueAt = None, nd_completedAt = None, nd_metadata = None\<rparr>"

text \<open>The task of an event with the session it belongs to; without a session nothing happens.\<close>

definition withTaskSession :: "AssistEvent \<Rightarrow> (TaskRecord \<Rightarrow> string \<Rightarrow> (AssistWorld, unit) op) \<Rightarrow> (AssistWorld, unit) op" where
  "withTaskSession e f =
     bnd (ask (findTask (ev_taskId e))) (\<lambda>task.
     case task of
       None \<Rightarrow> ret ()
     | Some t \<Rightarrow> (case tk_sessionId t of None \<Rightarrow> ret () | Some s \<Rightarrow> f t s))"

definition onTaskCreated :: "AssistEvent \<Rightarrow> (AssistWorld, unit) op" where
  "onTaskCreated e = withTaskSession e (\<lambda>task sessionId.
     bnd (ask (commitmentListS (openCommitments sessionId))) (\<lambda>existing.
     case existing of
       [] \<Rightarrow>
         bnd (commitmentCreateS
           \<lparr>cd_commitmentId = None, cd_sessionId = sessionId, cd_taskId = Some (tk_taskId task),
            cd_ownerUserId = tk_requesterUserId task, cd_title = take 160 (tk_input task), cd_summary = Some (tk_input task),
            cd_status = Some Cm_in_progress, cd_blockedReason = None, cd_pendingDecision = None,
            cd_source = Some From_user_request, cd_sourceTraceId = Some (ev_eventId e), cd_dueAt = None,
            cd_completedAt = None, cd_metadata = None\<rparr>) (\<lambda>c.
         thenNothing (actionCreateS (userAction e task sessionId (Some (cm_commitmentId c)))))
     | c # _ \<Rightarrow>
         bnd (ask (firstAction [Na_pending, Na_active, Na_blocked] sessionId)) (\<lambda>action.
         if action = None then thenNothing (actionCreateS (userAction e task sessionId (Some (cm_commitmentId c))))
         else ret ())))"

definition NO_ACTION_RE :: re where
  "NO_ACTION_RE = seqOf [WordBoundary,
     anyOf [seqOf [lit ''no file'', opt (lit ''s''), lit '' '', opt (lit ''were ''), lit ''changed''],
            seqOf [lit ''no change'', opt (lit ''s''), lit '' '', opt (lit ''were ''), lit ''made''],
            lit ''nothing changed'', lit ''completed'', lit ''implemented'', lit ''fixed'', lit ''summary''],
     WordBoundary]"

text \<open>The second pattern of the code is made of Chinese words, which no string of the model contains.\<close>

definition shouldProjectSessionNextAction :: "string \<Rightarrow> bool" where
  "shouldProjectSessionNextAction title =
     (let compact = trim (collapseWs title)
      in if compact = [] then False else \<not> testRe NO_ACTION_RE compact)"

definition snapshotAction :: "AssistEvent \<Rightarrow> SessionSummary \<Rightarrow> string \<Rightarrow> nat \<times> string \<Rightarrow> NextActionDraft" where
  "snapshotAction e sm commitmentId nt =
     \<lparr>nd_nextActionId = None, nd_sessionId = sm_sessionId sm, nd_commitmentId = Some commitmentId, nd_taskId = sm_taskId sm,
      nd_title = snd nt, nd_detail = None, nd_status = Some (if fst nt = 0 then Na_active else Na_pending),
      nd_rank = Some (int (fst nt)), nd_blockedReason = None, nd_source = Some From_snapshot,
      nd_sourceTraceId = Some (ev_eventId e), nd_dueAt = None, nd_completedAt = None, nd_metadata = None\<rparr>"

definition summaryOwner :: "SessionSummary \<Rightarrow> AssistWorld \<Rightarrow> string" where
  "summaryOwner sm w = (case sm_taskId sm of
       None \<Rightarrow> aw_defaultUserId w
     | Some t \<Rightarrow> (case findTask t w of None \<Rightarrow> aw_defaultUserId w | Some task \<Rightarrow> tk_requesterUserId task))"

definition onSessionSummary :: "AssistEvent \<Rightarrow> string \<Rightarrow> (AssistWorld, unit) op" where
  "onSessionSummary e summaryId =
     bnd (ask (\<lambda>w. List.find (\<lambda>sm. sm_sessionSummaryId sm = summaryId) (aw_summaries w))) (\<lambda>found.
     case found of
       None \<Rightarrow> ret ()
     | Some sm \<Rightarrow>
         bnd (ask (commitmentListS (openCommitments (sm_sessionId sm)))) (\<lambda>commitments.
         let nextActions = filter shouldProjectSessionNextAction (sm_nextActions sm)
         in if commitments = [] \<and> nextActions = [] \<and> sm_openLoops sm = [] then ret ()
            else
              let objective = take 160 (trim (sm_goal sm))
              in bnd (ask (summaryOwner sm)) (\<lambda>owner.
                 bnd (case commitments of
                        c # _ \<Rightarrow> ret c
                      | [] \<Rightarrow> commitmentCreateS
                          \<lparr>cd_commitmentId = None, cd_sessionId = sm_sessionId sm, cd_taskId = sm_taskId sm,
                           cd_ownerUserId = owner, cd_title = (if objective \<noteq> [] then objective else ''Continue session objective''),
                           cd_summary = Some (sm_summary sm), cd_status = Some Cm_in_progress, cd_blockedReason = None,
                           cd_pendingDecision = None, cd_source = Some From_snapshot,
                           cd_sourceTraceId = Some (ev_eventId e), cd_dueAt = None, cd_completedAt = None,
                           cd_metadata = None\<rparr>) (\<lambda>c.
                 bnd (case sm_openLoops sm of [] \<Rightarrow> ret () | l # _ \<Rightarrow> thenNothing (commitmentBlock (cm_commitmentId c) l)) (\<lambda>_.
                 bnd (ask (firstAction [Na_pending, Na_active, Na_blocked] (sm_sessionId sm))) (\<lambda>existing.
                 if existing = None
                 then thenNothing (forEach (\<lambda>nt. actionCreateS (snapshotAction e sm (cm_commitmentId c) nt))
                        (enumerate 0 nextActions))
                 else ret ()))))))"

definition onApprovalRequested :: "AssistEvent \<Rightarrow> string \<Rightarrow> (AssistWorld, unit) op" where
  "onApprovalRequested e toolName = withTaskSession e (\<lambda>task sessionId.
     bnd (ask (firstAction [Na_active, Na_pending] sessionId)) (\<lambda>active.
     case active of
       None \<Rightarrow> ret ()
     | Some a \<Rightarrow> thenNothing (actionBlock (na_nextActionId a) (''awaiting approval: '' @ toolName))))"

definition firstBlocked :: "string \<Rightarrow> AssistWorld \<Rightarrow> NextActionRecord option" where
  "firstBlocked sessionId w = firstRow (actionListS ((sessionActions sessionId)\<lparr>nq_status := Some Na_blocked\<rparr>) w)"

definition onApprovalResolved :: "AssistEvent \<Rightarrow> string \<Rightarrow> string \<Rightarrow> (AssistWorld, unit) op" where
  "onApprovalResolved e status toolName = withTaskSession e (\<lambda>task sessionId.
     bnd (ask (firstBlocked sessionId)) (\<lambda>blocked.
     case blocked of
       None \<Rightarrow> ret ()
     | Some a \<Rightarrow>
         if status = ''approved'' then thenNothing (actionUnblock (na_nextActionId a))
         else thenNothing (actionBlock (na_nextActionId a) (''approval '' @ status @ '': '' @ toolName))))"

definition onTaskSuccess :: "AssistEvent \<Rightarrow> (AssistWorld, unit) op" where
  "onTaskSuccess e = withTaskSession e (\<lambda>task sessionId.
     bnd (ask (firstAction [Na_active, Na_pending, Na_blocked] sessionId)) (\<lambda>active.
     case active of
       None \<Rightarrow> ret ()
     | Some a \<Rightarrow>
         bnd (actionMarkDone (na_nextActionId a)) (\<lambda>_.
         bnd (ask (firstAction [Na_active, Na_pending, Na_blocked] sessionId)) (\<lambda>remaining.
         case (remaining, na_commitmentId a) of
           (None, Some c) \<Rightarrow> thenNothing (commitmentComplete c)
         | _ \<Rightarrow> ret ()))))"

definition onTaskFailure :: "AssistEvent \<Rightarrow> string \<Rightarrow> string \<Rightarrow> (AssistWorld, unit) op" where
  "onTaskFailure e errorCode errorMessage = withTaskSession e (\<lambda>task sessionId.
     bnd (ask (firstAction [Na_active, Na_pending, Na_blocked] sessionId)) (\<lambda>active.
     case active of
       None \<Rightarrow> ret ()
     | Some a \<Rightarrow> thenNothing (actionBlock (na_nextActionId a) (errorCode @ '': '' @ errorMessage))))"

text \<open>\<open>handleTrace\<close> of commitment-collector.ts.\<close>

definition handleCommitment :: "AssistEvent \<Rightarrow> (AssistWorld, unit) op" where
  "handleCommitment e =
     (case ev_payload e of
        Task_created \<Rightarrow> onTaskCreated e
      | Session_summary_written summaryId \<Rightarrow> onSessionSummary e summaryId
      | Approval_requested_event approvalId toolName \<Rightarrow> onApprovalRequested e toolName
      | Approval_resolved_event approvalId reviewerId status toolName \<Rightarrow> onApprovalResolved e status toolName
      | Task_success outputSummary \<Rightarrow> onTaskSuccess e
      | Task_failure errorCode errorMessage \<Rightarrow> onTaskFailure e errorCode errorMessage
      | _ \<Rightarrow> ret ())"

definition recordTrace :: "event_draft \<Rightarrow> (AssistWorld, AssistEvent) op" where
  "recordTrace d = bnd (appendTrace d) (\<lambda>e. bnd (handleInbox e) (\<lambda>_. bnd (handleCommitment e) (\<lambda>_. ret e)))"

subsection \<open>The rest of the asynchronous handlers\<close>

definition failureReason :: "RunEvent \<Rightarrow> string" where
  "failureReason p =
     (let text = joinWith '': '' (filter (\<lambda>s. s \<noteq> []) (map (\<lambda>s. patched s []) [re_errorCode p, re_errorMessage p]))
      in if text = [] then ''Scheduled routine failed'' else text)"

definition createFailedRoutineFollowUp :: "ScheduleRecord \<Rightarrow> string \<Rightarrow> string \<Rightarrow> string option \<Rightarrow> string \<Rightarrow>
    (AssistWorld, NextActionRecord) op" where
  "createFailedRoutineFollowUp schedule sessionId runId taskId reason =
     bnd (actionCreateS
       \<lparr>nd_nextActionId = None, nd_sessionId = sessionId, nd_commitmentId = None, nd_taskId = taskId,
        nd_title = ''Follow up failed routine: '' @ sc_name schedule, nd_detail = None, nd_status = Some Na_blocked,
        nd_rank = None, nd_blockedReason = None, nd_source = Some From_manual, nd_sourceTraceId = None, nd_dueAt = None,
        nd_completedAt = None,
        nd_metadata = Some ([(''runId'', JStr runId), (''scheduleId'', JStr (sc_scheduleId schedule))] @
          (case taskId of None \<Rightarrow> [] | Some t \<Rightarrow> [(''taskId'', JStr t)]))\<rparr>) (\<lambda>created.
     actionBlock (na_nextActionId created) reason)"

fun resumeRest :: "Continuation \<Rightarrow> (AssistWorld, unit) op" where
  "resumeRest (Run_completed_rest e schedule p) =
     (if \<not> shouldDeliverToInbox schedule then ret ()
      else
        let label = (case schedule of None \<Rightarrow> re_runId p | Some s \<Rightarrow> sc_name s)
        in bnd (ask (resolveScheduleOwner (re_scheduleId p) (re_taskId p))) (\<lambda>owner.
           thenNothing (inboxAppend ((itemDraft Task_completed_item (''schedule_run_finished:'' @ re_runId p) Sev_info e
             (''Routine completed: '' @ label @ ''.'') (re_taskId p) (re_sessionId p) (''Routine completed: '' @ label) owner)
               \<lparr>id_metadata := Some (buildScheduleInboxMetadata schedule), id_scheduleRunId := Some (re_runId p)\<rparr>))))"
| "resumeRest (Run_failed_rest e schedule run p) =
     (let metadata = buildScheduleInboxMetadata schedule;
          finish = (if \<not> shouldDeliverToInbox schedule then ret ()
            else bnd (ask (resolveScheduleOwner (re_scheduleId p) (re_taskId p))) (\<lambda>owner.
              thenNothing (inboxAppend ((itemDraft Task_failed_item (''schedule_run_failed:'' @ re_runId p) Sev_warning e
                (failureReason p) (re_taskId p) (case schedule of None \<Rightarrow> None | Some s \<Rightarrow> sc_sessionId s)
                (''Routine failed: '' @ (case schedule of None \<Rightarrow> re_runId p | Some s \<Rightarrow> sc_name s)) owner)
                  \<lparr>id_metadata := Some metadata,
                   id_scheduleRunId := Some (case run of None \<Rightarrow> re_runId p | Some r \<Rightarrow> sr_runId r)\<rparr>))))
      in case schedule of
           None \<Rightarrow> finish
         | Some s \<Rightarrow>
             (case sc_sessionId s of
                None \<Rightarrow> finish
              | Some sessionId \<Rightarrow>
                  if hasExternalScheduleOrigin metadata then finish
                  else thenNothing (createFailedRoutineFollowUp s sessionId (re_runId p) (re_taskId p) (failureReason p))))"

text \<open>The oldest continuation runs.\<close>

definition runDeferred :: "(AssistWorld, unit) op" where
  "runDeferred = (\<lambda>w. case aw_deferred w of
       [] \<Rightarrow> (Inr (), w)
     | k # ks \<Rightarrow> resumeRest k (w\<lparr>aw_deferred := ks\<rparr>))"

subsection \<open>The state of a session\<close>

text \<open>session-commitment-projector.ts; \<open>latest\<close> is the newest summary of the session.\<close>

definition pickCurrentObjective :: "CommitmentRecord list \<Rightarrow> CommitmentRecord option" where
  "pickCurrentObjective items =
     (case List.find (\<lambda>c. cm_status c = Cm_in_progress) items of Some c \<Rightarrow> Some c | None \<Rightarrow> firstRow items)"

definition pickNextAction :: "NextActionRecord list \<Rightarrow> NextActionRecord option" where
  "pickNextAction items =
     (case List.find (\<lambda>a. na_status a = Na_active) items of Some a \<Rightarrow> Some a | None \<Rightarrow> firstRow items)"

fun firstSome :: "'a option list \<Rightarrow> 'a option" where
  "firstSome [] = None"
| "firstSome (x # xs) = (case x of None \<Rightarrow> firstSome xs | Some v \<Rightarrow> Some v)"

definition projectSession :: "SessionSummary option \<Rightarrow> string \<Rightarrow> AssistWorld \<Rightarrow> SessionCommitmentState" where
  "projectSession latest sessionId w =
     (let commitments = commitmentListS (openCommitments sessionId) w;
          nextActions = actionListS (actionsIn [Na_active, Na_blocked, Na_pending] sessionId) w;
          currentObjective = pickCurrentObjective commitments;
          nextAction = pickNextAction nextActions;
          blockedNextAction = List.find (\<lambda>a. na_status a = Na_blocked \<and> na_blockedReason a \<noteq> None) nextActions
      in \<lparr>ss_currentObjective = currentObjective, ss_nextAction = nextAction,
          ss_blockedReason = firstSome [Option.bind blockedNextAction na_blockedReason, Option.bind nextAction na_blockedReason,
            Option.bind currentObjective cm_blockedReason, Option.bind latest (\<lambda>sm. firstRow (sm_openLoops sm))],
          ss_pendingDecision = Option.bind currentObjective cm_pendingDecision,
          ss_openCommitments = commitments, ss_activeNextActions = nextActions\<rparr>)"

end
