(* ===== verification/AssistantProps.thy ===== *)
theory AssistantProps
  imports Assistant
begin

section \<open>Properties of commitments, next actions and the inbox\<close>

subsection \<open>What the inbox collector may change\<close>

lemma find_map_same: "(\<And>x. x \<in> set t \<Longrightarrow> P (f x) = P x) \<Longrightarrow> List.find P (map f t) = map_option f (List.find P t)"
  by (induction t) auto

text \<open>Keys stay unique and every item that had a key keeps it.\<close>

definition inboxGrows :: "inbox \<Rightarrow> inbox \<Rightarrow> bool" where
  "inboxGrows t t' \<longleftrightarrow> (inboxOk t \<longrightarrow> inboxOk t' \<and>
     (\<forall>u k r. inboxFindByDedup u k t = Some r \<longrightarrow>
        (\<exists>r'. inboxFindByDedup u k t' = Some r' \<and> ix_inboxId r' = ix_inboxId r)))"

lemma inboxGrows_refl: "inboxGrows t t"
  by (simp add: inboxGrows_def)

lemma inboxGrows_trans: "inboxGrows a b \<Longrightarrow> inboxGrows b c \<Longrightarrow> inboxGrows a c"
  unfolding inboxGrows_def by metis

lemma inboxGrows_create: "inboxCreate i now d t = (res, t') \<Longrightarrow> inboxGrows t t'"
proof (cases res)
  case (Inl e)
  moreover assume "inboxCreate i now d t = (res, t')"
  ultimately have "t' = t" by (simp add: inboxCreate_err)
  then show ?thesis by (simp add: inboxGrows_refl)
next
  case (Inr r)
  moreover assume run: "inboxCreate i now d t = (res, t')"
  ultimately have "t' = t @ [r]" by (simp add: inboxCreate_ok)
  then have "inboxFindByDedup u k t = Some x \<Longrightarrow> inboxFindByDedup u k t' = Some x" for u k x
    by (auto simp: inboxFindByDedup_def find_Some_iff nth_append)
  with inboxOk_create [OF _ run] show ?thesis by (auto simp: inboxGrows_def)
qed

lemma inboxGrows_update: "inboxUpdate now i p t = (res, t') \<Longrightarrow> inboxGrows t t'"
proof -
  assume run: "inboxUpdate now i p t = (res, t')"
  show ?thesis
  proof (cases "inboxFindById i t")
    case None
    with run have "t' = t" by (simp add: inboxUpdate_def)
    then show ?thesis by (simp add: inboxGrows_refl)
  next
    case (Some r)
    with run have t': "t' = map (\<lambda>x. if ix_inboxId x = i then inboxPatch now p r else x) t"
      by (simp add: inboxUpdate_def rowSet_def)
    have r: "ix_inboxId r = i" using Some by (auto simp: inboxFindById_def dest: rowFind_Some)
    have "inboxFindByDedup u k t' = map_option (\<lambda>x. if ix_inboxId x = i then inboxPatch now p r else x) (inboxFindByDedup u k t)"
      if "inboxOk t" for u k
      unfolding t' inboxFindByDedup_def
    proof (rule find_map_same)
      fix x assume "x \<in> set t"
      with that Some have "ix_inboxId x = i \<longrightarrow> x = r"
        by (metis inboxFindById_def inboxOk_def option.inject rowFind_mem)
      then show "(ix_userId (if ix_inboxId x = i then inboxPatch now p r else x) = u \<and>
          ix_dedupKey (if ix_inboxId x = i then inboxPatch now p r else x) = Some k) = (ix_userId x = u \<and> ix_dedupKey x = Some k)"
        by auto
    qed
    with inboxOk_update [OF _ run] r show ?thesis by (auto simp: inboxGrows_def)
  qed
qed

definition sameSources :: "AssistWorld \<Rightarrow> AssistWorld \<Rightarrow> bool" where
  "sameSources w w' \<longleftrightarrow> aw_tasks w' = aw_tasks w \<and> aw_schedules w' = aw_schedules w \<and> aw_runs w' = aw_runs w \<and>
     aw_summaries w' = aw_summaries w \<and> aw_now w' = aw_now w \<and> aw_defaultUserId w' = aw_defaultUserId w \<and>
     aw_supply w' = aw_supply w \<and> inboxGrows (aw_inbox w) (aw_inbox w')"

definition inboxSide :: "AssistWorld \<Rightarrow> AssistWorld \<Rightarrow> bool" where
  "inboxSide w w' \<longleftrightarrow> sameSources w w' \<and> aw_commitments w' = aw_commitments w \<and> aw_actions w' = aw_actions w"

interpretation collect: step_closed inboxSide
  by unfold_locales (auto simp: inboxSide_def sameSources_def inboxGrows_refl intro: inboxGrows_trans)

interpretation assist: step_closed sameSources
  by unfold_locales (auto simp: sameSources_def inboxGrows_refl intro: inboxGrows_trans)

lemma follows_weaken: "collect.follows m \<Longrightarrow> assist.follows m"
  by (auto simp: collect.follows_def assist.follows_def inboxSide_def)

lemma collect_base [follows_intros]:
  "collect.follows freshId" "collect.follows (publishItem x)" "collect.follows (onInbox (inboxCreate i now d))"
  "collect.follows (onInbox (inboxUpdate now i p))" "collect.follows (deferRest k)"
  by (auto simp: collect.follows_def freshId_def publishItem_def deferRest_def onInbox_def zoom_run inboxSide_def
      sameSources_def inboxGrows_refl split: prod.splits dest: inboxGrows_create inboxGrows_update)

lemma collect_trace [follows_intros]: "collect.follows (appendTrace d)" "collect.follows (recordInbox d)"
  unfolding recordInbox_def appendTrace_def
  by (auto intro!: follows_intros collect.follows_modify simp: inboxSide_def sameSources_def inboxGrows_refl)

lemma collect_nothing [follows_intros]: "collect.follows m \<Longrightarrow> collect.follows (thenNothing m)"
  unfolding thenNothing_def by (auto intro!: follows_intros)

lemma assist_nothing [follows_intros]: "assist.follows m \<Longrightarrow> assist.follows (thenNothing m)"
  unfolding thenNothing_def by (auto intro!: follows_intros)

lemma collect_service [follows_intros]:
  "collect.follows (inboxAppend d)" "collect.follows (inboxMarkDone i rv)" "collect.follows (markMatchingDone q p rv)"
  "collect.follows (inboxMarkDismissed i)"
  unfolding inboxAppend_def inboxMarkDone_def markMatchingDone_def inboxMarkDismissed_def
  by (auto intro!: follows_intros)

lemma collect_marks [follows_intros]:
  "collect.follows (markTaskBlockedItemsDone t rv p)" "collect.follows (markBlockedItemsDone sid ot rv p)"
  "collect.follows (forUser t mk)"
  unfolding markTaskBlockedItemsDone_def markBlockedItemsDone_def forUser_def by (auto intro!: follows_intros)

lemma collect_webhook [follows_intros]: "collect.follows (deliverScheduleWebhook s p)"
  unfolding deliverScheduleWebhook_def
  by (auto intro!: follows_intros collect.follows_modify simp: inboxSide_def sameSources_def inboxGrows_refl split: option.splits)

lemma collect_parts [follows_intros]:
  "collect.follows (taskFinished e mk)" "collect.follows (approvalRequested e a n)" "collect.follows (approvalResolved e a rv n)"
  "collect.follows (experiencePromoted e x t m)" "collect.follows (skillPromotionSuggested e d k v)"
  "collect.follows (budgetItem e xb p)" "collect.follows (commitmentItems e ck c)" "collect.follows (nextActionItems e ak a')"
  "collect.follows (handleScheduleRunCompleted e rp)" "collect.follows (handleScheduleRunFailed e rp)"
  unfolding taskFinished_def approvalRequested_def approvalResolved_def experiencePromoted_def skillPromotionSuggested_def
    budgetItem_def commitmentItems_def nextActionItems_def handleScheduleRunCompleted_def handleScheduleRunFailed_def Let_def
  by (auto intro!: follows_intros split: prod.splits option.splits CommitmentEventKind.splits NextActionEventKind.splits)

lemma collect_handle [follows_intros]: "collect.follows (handleInbox e)"
  unfolding handleInbox_def by (cases "ev_payload e") (auto intro!: follows_intros)

lemma collect_record [follows_intros]: "collect.follows (recordAssistant d)"
  unfolding recordAssistant_def by (auto intro!: follows_intros)

lemma assist_zoom [follows_intros]: "assist.follows (onCommitments m)" "assist.follows (onActions ma)"
  by (auto simp: assist.follows_def onCommitments_def onActions_def zoom_run sameSources_def inboxGrows_refl split: prod.splits)

lemmas assist_collect [follows_intros] = collect_base [THEN follows_weaken] collect_trace [THEN follows_weaken]
  collect_service [THEN follows_weaken] collect_handle [THEN follows_weaken] collect_record [THEN follows_weaken]

lemma assist_services [follows_intros]:
  "assist.follows (commitmentCreateS d)" "assist.follows (commitmentPatchS k t i p)" "assist.follows (commitmentUpdateS i p)"
  "assist.follows (commitmentBlock i x)" "assist.follows (commitmentUnblock i)" "assist.follows (setPendingDecision i x)"
  "assist.follows (resolveDecision i)" "assist.follows (commitmentComplete i)" "assist.follows (commitmentCancel i)"
  unfolding commitmentCreateS_def commitmentPatchS_def commitmentUpdateS_def commitmentBlock_def commitmentUnblock_def
    setPendingDecision_def resolveDecision_def commitmentComplete_def commitmentCancel_def recordCommitment_def requireCommitment_def
  by (auto intro!: follows_intros split: option.splits)

lemma assist_actions [follows_intros]:
  "assist.follows (actionCreateS d)" "assist.follows (actionPatchS k t i p)" "assist.follows (actionUpdateS i p)"
  "assist.follows (actionMarkActive i)" "assist.follows (actionBlock i x)" "assist.follows (actionUnblock i)"
  "assist.follows (actionMarkDone i)" "assist.follows (actionCancel i)" "assist.follows (actionReorder sid ids)"
  unfolding actionCreateS_def actionPatchS_def actionUpdateS_def actionMarkActive_def actionBlock_def actionUnblock_def
    actionMarkDone_def actionCancel_def actionReorder_def recordAction_def
  by (auto intro!: follows_intros)

lemma assist_session [follows_intros]: "(\<And>t s. assist.follows (f t s)) \<Longrightarrow> assist.follows (withTaskSession e f)"
  unfolding withTaskSession_def by (auto intro!: follows_intros)

lemma assist_events [follows_intros]:
  "assist.follows (onTaskCreated e)" "assist.follows (onSessionSummary e i)" "assist.follows (onApprovalRequested e n)"
  "assist.follows (onApprovalResolved e st n)" "assist.follows (onTaskSuccess e)" "assist.follows (onTaskFailure e c m)"
  unfolding onTaskCreated_def onSessionSummary_def onApprovalRequested_def onApprovalResolved_def onTaskSuccess_def onTaskFailure_def Let_def
  by (auto intro!: follows_intros split: option.splits list.splits)

lemma assist_trace [follows_intros]: "assist.follows (handleCommitment e)" "assist.follows (recordTrace d)" "assist.follows runDeferred"
proof -
  show 1: "assist.follows (handleCommitment e)" for e
    unfolding handleCommitment_def by (cases "ev_payload e") (auto intro!: follows_intros)
  show "assist.follows (recordTrace d)" unfolding recordTrace_def by (auto intro!: follows_intros 1)
  have 2: "assist.follows (resumeRest k)" for k
    by (cases k) (auto simp: createFailedRoutineFollowUp_def Let_def intro!: follows_intros split: option.splits)
  have 3: "sameSources w (snd (resumeRest k (w\<lparr>aw_deferred := ks\<rparr>)))" for w k ks
  proof -
    have "sameSources (w\<lparr>aw_deferred := ks\<rparr>) (snd (resumeRest k (w\<lparr>aw_deferred := ks\<rparr>)))"
      using 2 [of k] by (simp add: assist.follows_def)
    then show ?thesis by (simp add: sameSources_def)
  qed
  show "assist.follows runDeferred"
    unfolding assist.follows_def runDeferred_def using 3 assist.R_refl by (auto split: list.splits)
qed

subsection \<open>Histories\<close>

text \<open>What may happen to a session's commitments and to the inbox, in any order.\<close>

datatype AssistStep =
    Trace_step event_draft
  | Deferred_step
  | Commitment_create_step CommitmentDraft
  | Commitment_block_step string string
  | Commitment_unblock_step string
  | Decision_step string string
  | Decided_step string
  | Complete_step string
  | Cancel_step string
  | Action_create_step NextActionDraft
  | Action_patch_step string NextActionUpdatePatch
  | Action_block_step string string
  | Action_unblock_step string
  | Action_done_step string
  | Action_cancel_step string
  | Reorder_step string "string list"
  | Done_step string string
  | Dismiss_step string
  | Clock_step instant

fun assistStep :: "AssistStep \<Rightarrow> AssistWorld \<Rightarrow> AssistWorld" where
  "assistStep (Trace_step d) w = snd (recordTrace d w)"
| "assistStep Deferred_step w = snd (runDeferred w)"
| "assistStep (Commitment_create_step d) w = snd (commitmentCreateS d w)"
| "assistStep (Commitment_block_step i x) w = snd (commitmentBlock i x w)"
| "assistStep (Commitment_unblock_step i) w = snd (commitmentUnblock i w)"
| "assistStep (Decision_step i x) w = snd (setPendingDecision i x w)"
| "assistStep (Decided_step i) w = snd (resolveDecision i w)"
| "assistStep (Complete_step i) w = snd (commitmentComplete i w)"
| "assistStep (Cancel_step i) w = snd (commitmentCancel i w)"
| "assistStep (Action_create_step d) w = snd (actionCreateS d w)"
| "assistStep (Action_patch_step i p) w = snd (actionUpdateS i p w)"
| "assistStep (Action_block_step i x) w = snd (actionBlock i x w)"
| "assistStep (Action_unblock_step i) w = snd (actionUnblock i w)"
| "assistStep (Action_done_step i) w = snd (actionMarkDone i w)"
| "assistStep (Action_cancel_step i) w = snd (actionCancel i w)"
| "assistStep (Reorder_step s is) w = snd (actionReorder s is w)"
| "assistStep (Done_step i rv) w = snd (inboxMarkDone i rv w)"
| "assistStep (Dismiss_step i) w = snd (inboxMarkDismissed i w)"
| "assistStep (Clock_step t) w = w\<lparr>aw_now := t\<rparr>"

definition assistRun :: "AssistStep list \<Rightarrow> AssistWorld \<Rightarrow> AssistWorld" where
  "assistRun steps w = fold assistStep steps w"

lemma assistStep_inbox: "inboxGrows (aw_inbox w) (aw_inbox (assistStep st w))"
proof -
  have f: "inboxGrows (aw_inbox w) (aw_inbox (snd (m w)))" if "assist.follows m" for m :: "(AssistWorld, 'a) op"
    using that by (simp add: assist.follows_def sameSources_def)
  show ?thesis by (cases st) (auto intro!: f follows_intros simp: inboxGrows_refl)
qed

lemma assistRun_inbox: "inboxGrows (aw_inbox w) (aw_inbox (assistRun steps w))"
  unfolding assistRun_def
  by (induction steps arbitrary: w) (auto simp: inboxGrows_refl intro: inboxGrows_trans assistStep_inbox)

end
