(* ===== verification/AssistantRules.thy ===== *)
theory AssistantRules
  imports AssistantProps
begin

section \<open>What commitments, actions and announcements promise\<close>

subsection \<open>The tables after an update\<close>

lemma recordAssistant_tables:
  "aw_commitments (snd (recordAssistant d w)) = aw_commitments w" "aw_actions (snd (recordAssistant d w)) = aw_actions w"
  using collect_record [of d] by (auto simp: collect.follows_def inboxSide_def)

lemma record_tables:
  "aw_commitments (snd (recordCommitment k c t w)) = aw_commitments w" "aw_actions (snd (recordCommitment k c t w)) = aw_actions w"
  "aw_commitments (snd (recordAction ka a t w)) = aw_commitments w" "aw_actions (snd (recordAction ka a t w)) = aw_actions w"
  using recordAssistant_tables
  by (simp_all add: recordCommitment_def recordAction_def bnd_run split: prod.splits sum.splits) (metis snd_conv)+

lemma handleInbox_tables:
  "aw_commitments (snd (handleInbox e w)) = aw_commitments w" "aw_actions (snd (handleInbox e w)) = aw_actions w"
  "aw_tasks (snd (handleInbox e w)) = aw_tasks w" "aw_now (snd (handleInbox e w)) = aw_now w"
  using collect_handle [of e] by (auto simp: collect.follows_def inboxSide_def sameSources_def)

lemma commitmentPatchS_commitments:
  "aw_commitments (snd (commitmentPatchS k t i p w)) =
    (case commitmentFindById i (aw_commitments w) of
       None \<Rightarrow> aw_commitments w
     | Some c \<Rightarrow> rowSet cm_commitmentId i (commitmentPatch (aw_now w) p c) (aw_commitments w))"
  by (auto simp: commitmentPatchS_def bnd_run onCommitments_def zoom_run commitmentUpdate_def record_tables split: option.splits)

lemma commitmentPatchS_actions: "aw_actions (snd (commitmentPatchS k t i p w)) = aw_actions w"
  by (auto simp: commitmentPatchS_def bnd_run onCommitments_def zoom_run commitmentUpdate_def record_tables split: option.splits)

lemma commitmentCreateS_commitments:
  "set (aw_commitments (snd (commitmentCreateS d w))) \<subseteq> insert (commitmentOfDraft (aw_supply w (aw_next w)) (aw_now w) d) (set (aw_commitments w))"
  by (auto simp: commitmentCreateS_def freshId_def bnd_run onCommitments_def zoom_run record_tables split: prod.splits sum.splits)
     (auto simp: commitmentCreate_def Let_def rowInsert_def commitmentFindById_def split: if_splits option.splits)

lemma actionPatchS_actions:
  "aw_actions (snd (actionPatchS k t i p w)) =
    (case actionFindById i (aw_actions w) of
       None \<Rightarrow> aw_actions w
     | Some a \<Rightarrow> rowSet na_nextActionId i (actionPatch (aw_now w) p a) (aw_actions w))"
  by (auto simp: actionPatchS_def bnd_run onActions_def zoom_run actionUpdate_def record_tables split: option.splits)

lemma action_ops_commitments [simp]:
  "aw_commitments (snd (actionPatchS k t i p w)) = aw_commitments w" "aw_commitments (snd (actionCreateS d w)) = aw_commitments w"
  by (auto simp: actionPatchS_def actionCreateS_def freshId_def bnd_run onActions_def zoom_run record_tables
      split: prod.splits sum.splits)

subsection \<open>A commitment's status says why it waits\<close>

definition commitmentWf :: "CommitmentRecord \<Rightarrow> bool" where
  "commitmentWf c \<longleftrightarrow> (cm_status c = Cm_blocked \<longrightarrow> cm_blockedReason c \<noteq> None) \<and>
     (cm_status c = Cm_waiting_decision \<longrightarrow> cm_pendingDecision c \<noteq> None) \<and>
     (cm_status c \<in> {Cm_open, Cm_in_progress, Cm_completed} \<longrightarrow> cm_blockedReason c = None \<and> cm_pendingDecision c = None)"

definition commitmentsWf :: "AssistWorld \<Rightarrow> bool" where
  "commitmentsWf w \<longleftrightarrow> (\<forall>c\<in>set (aw_commitments w). commitmentWf c)"

definition draftWf :: "CommitmentDraft \<Rightarrow> bool" where
  "draftWf d \<longleftrightarrow> commitmentWf (commitmentOfDraft [] 0 d)"

lemma draftWf_of: "draftWf d \<Longrightarrow> commitmentWf (commitmentOfDraft i now d)"
  by (simp add: draftWf_def commitmentWf_def commitmentOfDraft_def)

lemma wf_same: "aw_commitments w' = aw_commitments w \<Longrightarrow> commitmentsWf w' = commitmentsWf w"
  by (simp add: commitmentsWf_def)

lemma wf_patch:
  assumes "commitmentsWf w" and "\<And>c. commitmentFindById i (aw_commitments w) = Some c \<Longrightarrow> commitmentWf (commitmentPatch (aw_now w) p c)"
  shows "commitmentsWf (snd (commitmentPatchS k t i p w))"
  using assms unfolding commitmentsWf_def commitmentPatchS_commitments
  by (auto simp: rowSet_mem split: option.splits)

lemma keeps_patch:
  assumes "\<And>now c. commitmentWf (commitmentPatch now p c)"
  shows "keeps commitmentsWf (commitmentPatchS k t i p)"
  unfolding keeps_def by (auto intro: wf_patch assms)

lemma keeps_commitment_ops [keeps_intros]:
  "keeps commitmentsWf (commitmentBlock i x)" "keeps commitmentsWf (setPendingDecision i x)"
  "keeps commitmentsWf (commitmentComplete i)"
  unfolding commitmentBlock_def setPendingDecision_def commitmentComplete_def
  by (auto intro!: keeps_intros keeps_patch simp: commitmentWf_def commitmentPatch_def noCommitmentPatch_def)

lemma keeps_cancel [keeps_intros]: "keeps commitmentsWf (commitmentCancel i)"
  unfolding commitmentCancel_def keeps_def
  by (auto simp: bnd_run intro!: wf_patch) (simp add: commitmentWf_def commitmentPatch_def noCommitmentPatch_def)

lemma keeps_unblock [keeps_intros]: "keeps commitmentsWf (commitmentUnblock i)" "keeps commitmentsWf (resolveDecision i)"
proof -
  show "keeps commitmentsWf (commitmentUnblock i)"
    unfolding keeps_def
  proof (intro allI impI)
    fix w assume "commitmentsWf w"
    then show "commitmentsWf (snd (commitmentUnblock i w))"
      by (auto simp: commitmentUnblock_def requireCommitment_def bnd_run split: option.splits intro!: wf_patch)
         (auto simp: commitmentWf_def commitmentPatch_def noCommitmentPatch_def)
  qed
  show "keeps commitmentsWf (resolveDecision i)"
    unfolding keeps_def
  proof (intro allI impI)
    fix w assume "commitmentsWf w"
    then show "commitmentsWf (snd (resolveDecision i w))"
      by (auto simp: resolveDecision_def requireCommitment_def bnd_run split: option.splits intro!: wf_patch)
         (auto simp: commitmentWf_def commitmentPatch_def noCommitmentPatch_def)
  qed
qed

lemma keeps_commitment_create: "draftWf d \<Longrightarrow> keeps commitmentsWf (commitmentCreateS d)"
  unfolding keeps_def commitmentsWf_def using commitmentCreateS_commitments [of d] draftWf_of [of d] by blast

lemma keeps_collect: "collect.follows m \<Longrightarrow> keeps commitmentsWf m"
  by (erule collect.follows_keeps) (simp add: inboxSide_def commitmentsWf_def)

lemmas keeps_inbox [keeps_intros] = collect_service [THEN keeps_collect] collect_trace [THEN keeps_collect]
  collect_handle [THEN keeps_collect]

lemma keeps_actions [keeps_intros]:
  "keeps commitmentsWf (actionPatchS k t i p)" "keeps commitmentsWf (actionCreateS d)" "keeps commitmentsWf (onActions m)"
  by (auto simp: keeps_def commitmentsWf_def onActions_def zoom_run split: prod.splits)

lemma keeps_action_ops [keeps_intros]:
  "keeps commitmentsWf (actionUpdateS i p)" "keeps commitmentsWf (actionBlock i x)" "keeps commitmentsWf (actionUnblock i)"
  "keeps commitmentsWf (actionMarkDone i)" "keeps commitmentsWf (actionCancel i)" "keeps commitmentsWf (actionReorder sid ids)"
  unfolding actionUpdateS_def actionBlock_def actionUnblock_def actionMarkDone_def actionCancel_def actionReorder_def
  by (auto intro!: keeps_intros)

lemma keeps_nothing [keeps_intros]: "keeps I m \<Longrightarrow> keeps I (thenNothing m)"
  unfolding thenNothing_def by (auto intro!: keeps_intros)

lemma keeps_collector:
  "keeps commitmentsWf (onTaskCreated e)" "keeps commitmentsWf (onSessionSummary e i)" "keeps commitmentsWf (onApprovalRequested e n)"
  "keeps commitmentsWf (onApprovalResolved e st n)" "keeps commitmentsWf (onTaskSuccess e)" "keeps commitmentsWf (onTaskFailure e c m)"
  unfolding onTaskCreated_def onSessionSummary_def onApprovalRequested_def onApprovalResolved_def onTaskSuccess_def onTaskFailure_def
    withTaskSession_def Let_def
  by (auto intro!: keeps_intros keeps_commitment_create split: option.splits list.splits
      simp: draftWf_def commitmentWf_def commitmentOfDraft_def)

lemma keeps_events [keeps_intros]: "keeps commitmentsWf (recordTrace d)" "keeps commitmentsWf runDeferred"
proof -
  have 1: "keeps commitmentsWf (handleCommitment e)" for e
    unfolding handleCommitment_def by (cases "ev_payload e") (auto intro!: keeps_intros keeps_collector)
  show "keeps commitmentsWf (recordTrace d)"
    unfolding recordTrace_def by (auto intro!: keeps_intros 1)
  have 2: "keeps commitmentsWf (resumeRest k)" for k
    by (cases k) (auto simp: createFailedRoutineFollowUp_def Let_def intro!: keeps_intros split: option.splits)
  show "keeps commitmentsWf runDeferred"
    unfolding keeps_def
  proof (intro allI impI)
    fix w assume wf: "commitmentsWf w"
    show "commitmentsWf (snd (runDeferred w))"
    proof (cases "aw_deferred w")
      case Nil
      with wf show ?thesis by (simp add: runDeferred_def)
    next
      case (Cons k ks)
      have "commitmentsWf (w\<lparr>aw_deferred := ks\<rparr>)" using wf by (simp add: commitmentsWf_def)
      with 2 [of k] Cons show ?thesis by (simp add: runDeferred_def keeps_def)
    qed
  qed
qed

fun stepDraftWf :: "AssistStep \<Rightarrow> bool" where
  "stepDraftWf (Commitment_create_step d) = draftWf d"
| "stepDraftWf _ = True"

lemma assistStep_wf: "commitmentsWf w \<Longrightarrow> stepDraftWf st \<Longrightarrow> commitmentsWf (assistStep st w)"
proof -
  have k: "commitmentsWf (snd (m w))" if "keeps commitmentsWf m" "commitmentsWf w" for m :: "(AssistWorld, 'a) op"
    using that by (simp add: keeps_def)
  assume "commitmentsWf w" "stepDraftWf st"
  then show ?thesis
  proof (cases st)
    case (Clock_step t)
    with \<open>commitmentsWf w\<close> show ?thesis by (simp add: commitmentsWf_def)
  qed (auto intro!: k keeps_intros keeps_commitment_create)
qed

text \<open>
  C37: a commitment's status says why it waits: a blocked commitment has a reason, one that waits for a decision names
  it, and one that is open, in progress or completed has neither. This holds through any history of trace
  events, continuations, and operations of the services other than a raw update, when the stored commitments say so before the
  history and every commitment it creates says so itself: the service stores the status and the reason of a
  created commitment as it gets them, also a blocked one without a reason.
\<close>

theorem commitment_status_explained:
  assumes "commitmentsWf w" and "list_all stepDraftWf steps" and "c \<in> set (aw_commitments (assistRun steps w))"
  shows "commitmentWf c"
proof -
  have "commitmentsWf (assistRun steps w)" using assms(1,2)
    unfolding assistRun_def by (induction steps arbitrary: w) (auto intro: assistStep_wf)
  with assms(3) show ?thesis by (simp add: commitmentsWf_def)
qed

subsection \<open>Announcements\<close>

lemma resolveUserId_same:
  "aw_tasks w' = aw_tasks w \<Longrightarrow> aw_runs w' = aw_runs w \<Longrightarrow> aw_schedules w' = aw_schedules w \<Longrightarrow>
    resolveUserId t w' = resolveUserId t w"
  unfolding resolveUserId_def findTask_def runsOfTask_def findSchedule_def by (simp cong: option.case_cong)

lemma inboxAppend_known:
  "id_dedupKey d = Some k \<Longrightarrow> inboxFindByDedup (id_userId d) k (aw_inbox w) = Some item \<Longrightarrow> inboxAppend d w = (Inr item, w)"
  by (simp add: inboxAppend_def bnd_run)

lemma inboxAppend_new:
  assumes "id_dedupKey d = Some k" "inboxFindByDedup (id_userId d) k (aw_inbox w) = None" "inboxAppend d w = (Inr r, w')"
  shows "r = inboxOfDraft (aw_supply w (aw_next w)) (aw_now w) d \<and> aw_inbox w' = aw_inbox w @ [r] \<and>
    aw_published w' = aw_published w @ [Item_created r]"
proof -
  let ?w1 = "w\<lparr>aw_next := aw_next w + 1\<rparr>"
  obtain res t where c: "inboxCreate (aw_supply w (aw_next w)) (aw_now w) d (aw_inbox w) = (res, t)" by fastforce
  from assms c obtain r0 where "res = Inr r0"
    by (cases res) (simp_all add: inboxAppend_def bnd_run freshId_def onInbox_def zoom_run)
  with c have t: "r0 = inboxOfDraft (aw_supply w (aw_next w)) (aw_now w) d" "t = aw_inbox w @ [r0]"
    by (simp_all add: inboxCreate_ok)
  with assms c \<open>res = Inr r0\<close> show ?thesis
    by (auto simp: inboxAppend_def bnd_run freshId_def onInbox_def zoom_run recordInbox_def appendTrace_def publishItem_def)
qed

lemma recordAssistant_run:
  "\<exists>e w1. e = d (aw_supply w (aw_next w)) \<and> w1 = w\<lparr>aw_next := aw_next w + 1, aw_trace := aw_trace w @ [e]\<rparr> \<and>
    recordAssistant d w = (case handleInbox e w1 of (Inl x, w2) \<Rightarrow> (Inl x, w2) | (Inr _, w2) \<Rightarrow> (Inr e, w2))"
  by (auto simp: recordAssistant_def appendTrace_def freshId_def bnd_run split: prod.splits sum.splits)

lemma inboxGrows_found:
  "inboxGrows t t' \<Longrightarrow> inboxOk t \<Longrightarrow> inboxFindByDedup u k t \<noteq> None \<Longrightarrow> inboxFindByDedup u k t' \<noteq> None"
  unfolding inboxGrows_def by blast

text \<open>
  Blocking a commitment is announced once. The first time, a pending item with the reason is added to the inbox of
  the user and delivered. As soon as the user has an item for this commitment, in whatever status and for
  however long, blocking the commitment again, also for another reason, adds nothing, changes no item and
  delivers nothing.
\<close>

theorem block_announced_once:
  assumes ok: "inboxOk (aw_inbox w)" and run: "commitmentBlock c reason w = (Inr r, w')"
    and user: "user = resolveUserId (taskOrSession (cm_taskId r) (cm_sessionId r)) w"
  shows "case inboxFindByDedup user (blockedKey c) (aw_inbox w) of
      None \<Rightarrow> \<exists>item. aw_inbox w' = aw_inbox w @ [item] \<and> ix_status item = Ix_pending \<and> ix_summary item = reason \<and>
        ix_userId item = user \<and> ix_dedupKey item = Some (blockedKey c) \<and>
        aw_published w' = aw_published w @ [Item_created item] \<and>
        (\<forall>steps. inboxFindByDedup user (blockedKey c) (aw_inbox (assistRun steps w')) \<noteq> None)
    | Some item \<Rightarrow> aw_inbox w' = aw_inbox w \<and> aw_published w' = aw_published w"
proof -
  let ?p = "noCommitmentPatch\<lparr>cu_blockedReason := Some (Some reason), cu_status := Some Cm_blocked\<rparr>"
  from run obtain c0 where c0: "commitmentFindById c (aw_commitments w) = Some c0"
    by (cases "commitmentFindById c (aw_commitments w)")
      (simp_all add: commitmentBlock_def commitmentPatchS_def bnd_run onCommitments_def zoom_run commitmentUpdate_def)
  define c1 where "c1 = commitmentPatch (aw_now w) ?p c0"
  define w1 where "w1 = w\<lparr>aw_commitments := rowSet cm_commitmentId c c1 (aw_commitments w)\<rparr>"
  have c1: "cm_commitmentId c1 = c" "cm_blockedReason c1 = Some reason"
    using c0 by (auto simp: c1_def commitmentPatch_def noCommitmentPatch_def commitmentFindById_def dest: rowFind_Some)
  have rc: "recordCommitment Commitment_blocked c1 (commitmentEventStr Commitment_blocked) w1 = (Inr r, w')"
    using run c0 by (simp add: commitmentBlock_def commitmentPatchS_def bnd_run onCommitments_def zoom_run commitmentUpdate_def
      c1_def w1_def)
  then have r: "r = c1" by (auto simp: recordCommitment_def bnd_run split: prod.splits sum.splits)
  define d where "d = draftEvent ''runtime.commitment'' ''planning'' (commitmentEventStr Commitment_blocked @ cm_title c1)
       (taskOrSession (cm_taskId c1) (cm_sessionId c1))
       (Commitment_event Commitment_blocked \<lparr>ce_blockedReason = cm_blockedReason c1, ce_commitmentId = cm_commitmentId c1,
          ce_pendingDecision = cm_pendingDecision c1, ce_status = cm_status c1, ce_taskId = cm_taskId c1,
          ce_sessionId = cm_sessionId c1, ce_title = cm_title c1\<rparr>)"
  obtain e w2 where e: "e = d (aw_supply w1 (aw_next w1))" "w2 = w1\<lparr>aw_next := aw_next w1 + 1, aw_trace := aw_trace w1 @ [e]\<rparr>"
    "recordAssistant d w1 = (case handleInbox e w2 of (Inl x, w3) \<Rightarrow> (Inl x, w3) | (Inr _, w3) \<Rightarrow> (Inr e, w3))"
    using recordAssistant_run [of d w1] by blast
  let ?item = "itemDraft Task_blocked_item (blockedKey c) Sev_warning e reason (cm_taskId c1) (Some (cm_sessionId c1)) ''Task blocked'' user"
  have u: "resolveUserId (ev_taskId e) w2 = user"
  proof -
    have "ev_taskId e = taskOrSession (cm_taskId r) (cm_sessionId r)" by (simp add: e(1) d_def draftEvent_def r)
    moreover have "resolveUserId t w2 = resolveUserId t w" for t by (rule resolveUserId_same) (simp_all add: e(2) w1_def)
    ultimately show ?thesis by (simp only: user)
  qed
  have h: "handleInbox e w2 = thenNothing (inboxAppend ?item) w2"
    using u c1 by (simp add: handleInbox_def e(1) d_def draftEvent_def commitmentItems_def forUser_def bnd_run)
  have same: "aw_inbox w2 = aw_inbox w" "aw_published w2 = aw_published w" by (simp_all add: e(2) w1_def)
  have "bnd (recordAssistant d) (\<lambda>_. ret c1) w1 = (Inr r, w')"
    using rc unfolding recordCommitment_def d_def .
  then obtain e' where "recordAssistant d w1 = (Inr e', w')" by (auto simp: bnd_run split: prod.splits sum.splits)
  with e(3) obtain x0 where "handleInbox e w2 = (Inr x0, w')" by (auto split: prod.splits sum.splits)
  with h have app: "\<exists>x. inboxAppend ?item w2 = (Inr x, w')"
    by (auto simp: thenNothing_def bnd_run split: prod.splits sum.splits)
  have key: "id_dedupKey ?item = Some (blockedKey c)" "id_userId ?item = user" "id_summary ?item = reason" "id_status ?item = None"
    by (simp_all add: itemDraft_def)
  show ?thesis
  proof (cases "inboxFindByDedup user (blockedKey c) (aw_inbox w)")
    case (Some item)
    with inboxAppend_known [OF key(1), of w2 item] app key same show ?thesis by auto
  next
    case None
    from app obtain x where x: "inboxAppend ?item w2 = (Inr x, w')" ..
    from inboxAppend_new [OF key(1) _ x] None key same
    have n: "x = inboxOfDraft (aw_supply w2 (aw_next w2)) (aw_now w2) ?item" "aw_inbox w' = aw_inbox w @ [x]"
      "aw_published w' = aw_published w @ [Item_created x]" by simp_all
    then have xk: "ix_status x = Ix_pending" "ix_summary x = reason" "ix_userId x = user" "ix_dedupKey x = Some (blockedKey c)"
      using key by (simp_all add: inboxOfDraft_def)
    have "inboxGrows (aw_inbox w2) (aw_inbox w')"
      using collect.followsD [OF collect_service(1) x] by (simp add: inboxSide_def sameSources_def)
    then have ok': "inboxOk (aw_inbox w')" using ok same by (simp add: inboxGrows_def)
    have "inboxFindByDedup user (blockedKey c) (aw_inbox w') \<noteq> None"
      using n(2) xk by (auto simp: inboxFindByDedup_None)
    then have "inboxFindByDedup user (blockedKey c) (aw_inbox (assistRun steps w')) \<noteq> None" for steps
      using inboxGrows_found [OF assistRun_inbox ok'] by blast
    with None n xk show ?thesis by auto
  qed
qed

subsection \<open>Next actions follow the task\<close>

lemma thenNothing_snd [simp]: "snd (thenNothing m w) = snd (m w)"
  by (auto simp: thenNothing_def bnd_run split: prod.splits sum.splits)

lemma withTaskSession_run:
  "findTask (ev_taskId e) w = Some task \<Longrightarrow> tk_sessionId task = Some s \<Longrightarrow> withTaskSession e f w = f task s w"
  by (simp add: withTaskSession_def bnd_run)

text \<open>A traced event reaches the commitment collector in a state that only differs in the inbox.\<close>

lemma assistTrace_run:
  assumes "recordTrace d w = (Inr e, w')"
  obtains w1 where "inboxSide w w1" "e = d (aw_supply w (aw_next w))" "handleCommitment e w1 = (Inr (), w')"
proof -
  from assms obtain w0 w1 where "appendTrace d w = (Inr e, w0)" "handleInbox e w0 = (Inr (), w1)" "handleCommitment e w1 = (Inr (), w')"
    by (auto simp: recordTrace_def elim!: bnd_InrE)
  moreover from this(1) have "e = d (aw_supply w (aw_next w))" by (simp add: appendTrace_def freshId_def bnd_run)
  moreover have "inboxSide w w1"
    using collect.followsD [OF collect_trace(1) calculation(1)] collect.followsD [OF collect_handle calculation(2)]
    by (rule collect.R_trans)
  ultimately show thesis using that by blast
qed

lemma inboxSide_reads:
  assumes "inboxSide w w1"
  shows "findTask t w1 = findTask t w" "firstBlocked s w1 = firstBlocked s w" "firstAction sts s w1 = firstAction sts s w"
    "aw_actions w1 = aw_actions w" "aw_commitments w1 = aw_commitments w" "aw_now w1 = aw_now w"
  using assms by (simp_all add: inboxSide_def sameSources_def findTask_def firstBlocked_def firstAction_def actionListS_def)

text \<open>The first row of an ascending query: least among the rows that match.\<close>

lemma firstRow_orderAsc_min:
  assumes "firstRow (orderAsc k rows) = Some r"
  shows "r \<in> set rows \<and> (\<forall>x\<in>set rows. k r \<le> k x)"
proof -
  from assms obtain ys where eq: "sort_key k rows = r # ys"
    by (auto simp: orderAsc_def firstRow_def split: list.splits)
  have "sorted (map k (r # ys))" using eq by (metis sorted_sort_key)
  moreover have "set (r # ys) = set rows" using eq by (metis set_sort)
  ultimately show ?thesis by (metis list.set_intros(1) order_refl set_ConsD sorted_wrt.simps(2) list.simps(9) image_eqI list.set_map)
qed

lemma orderAsc_Nil: "orderAsc k rows = [] \<longleftrightarrow> rows = []"
  by (metis set_empty set_orderAsc)

definition actionOrder :: "NextActionRecord \<Rightarrow> int \<times> instant" where
  "actionOrder a = (na_rank a, na_createdAt a)"

lemma firstBlocked_Some:
  assumes "firstBlocked s w = Some a"
  shows "a \<in> set (aw_actions w)" "na_status a = Na_blocked" "na_sessionId a = s"
    "\<forall>b\<in>set (aw_actions w). na_sessionId b = s \<and> na_status b = Na_blocked \<longrightarrow> actionOrder a \<le> actionOrder b"
proof -
  from assms have "firstRow (orderAsc (\<lambda>r. (na_rank r, na_createdAt r))
      (filter (\<lambda>r. na_sessionId r = s \<and> na_status r = Na_blocked) (aw_actions w))) = Some a"
    by (simp add: firstBlocked_def actionListS_def actionList_def sessionActions_def)
  from firstRow_orderAsc_min [OF this] show "a \<in> set (aw_actions w)" "na_status a = Na_blocked" "na_sessionId a = s"
    "\<forall>b\<in>set (aw_actions w). na_sessionId b = s \<and> na_status b = Na_blocked \<longrightarrow> actionOrder a \<le> actionOrder b"
    by (auto simp: actionOrder_def)
qed

lemma actionFindById_mem: "pkOk na_nextActionId t \<Longrightarrow> a \<in> set t \<Longrightarrow> actionFindById (na_nextActionId a) t = Some a"
  by (simp add: actionFindById_def rowFind_mem)

text \<open>
  When an approval of a task in a session is granted, exactly one next action of the session becomes active again:
  of its blocked actions the one first in the order of rank and creation, whatever it was blocked for,
  also by a failure of another task. All other actions are unchanged, and so are all when none is blocked.
\<close>

theorem approval_frees_first_blocked:
  assumes "recordTrace (draftEvent actor stage summary taskId (Approval_resolved_event approvalId rv ''approved'' tool)) w = (Inr e, w')"
    and "findTask taskId w = Some task" "tk_sessionId task = Some s" and "pkOk na_nextActionId (aw_actions w)"
  shows "case firstBlocked s w of
      None \<Rightarrow> aw_actions w' = aw_actions w \<and> (\<forall>b\<in>set (aw_actions w). na_sessionId b = s \<longrightarrow> na_status b \<noteq> Na_blocked)
    | Some a \<Rightarrow> a \<in> set (aw_actions w) \<and> na_sessionId a = s \<and> na_status a = Na_blocked \<and>
        (\<forall>b\<in>set (aw_actions w). na_sessionId b = s \<and> na_status b = Na_blocked \<longrightarrow> actionOrder a \<le> actionOrder b) \<and>
        aw_actions w' = rowSet na_nextActionId (na_nextActionId a)
          (a\<lparr>na_status := Na_active, na_blockedReason := None, na_updatedAt := aw_now w\<rparr>) (aw_actions w)"
proof -
  obtain w1 where w1: "inboxSide w w1" "handleCommitment e w1 = (Inr (), w')"
    "ev_payload e = Approval_resolved_event approvalId rv ''approved'' tool" "ev_taskId e = taskId"
    using assistTrace_run [OF assms(1)] by (metis draftEvent_def AssistEvent.select_convs(5,6))
  note rd = inboxSide_reads [OF w1(1)]
  have "w' = snd (onApprovalResolved e ''approved'' tool w1)"
    using w1(2,3) by (simp add: handleCommitment_def)
  then have w': "w' = (case firstBlocked s w of None \<Rightarrow> w1 | Some a \<Rightarrow> snd (actionUnblock (na_nextActionId a) w1))"
    using withTaskSession_run [of e w1 task s] assms(2,3) w1(4) rd
    by (simp add: onApprovalResolved_def bnd_run split: option.splits)
  show ?thesis
  proof (cases "firstBlocked s w")
    case None
    then have "filter (\<lambda>r. na_sessionId r = s \<and> na_status r = Na_blocked) (aw_actions w) = []"
      by (simp add: firstBlocked_def actionListS_def actionList_def sessionActions_def orderAsc_Nil)
    with None w' rd show ?thesis by (auto simp: filter_empty_conv)
  next
    case (Some a)
    note fb = firstBlocked_Some [OF Some]
    with w' Some rd actionFindById_mem [OF assms(4) fb(1)] show ?thesis
      by (auto simp: actionUnblock_def actionPatchS_actions actionPatch_def noNextActionPatch_def)
  qed
qed

definition openAction :: "string \<Rightarrow> NextActionRecord \<Rightarrow> bool" where
  "openAction s a \<longleftrightarrow> na_sessionId a = s \<and> na_status a \<in> {Na_active, Na_pending, Na_blocked}"

lemma firstOpen_eq:
  "firstAction [Na_active, Na_pending, Na_blocked] s w = firstRow (orderAsc actionOrder (filter (openAction s) (aw_actions w)))"
  by (simp add: firstAction_def actionListS_def actionList_def actionsIn_def sessionActions_def openAction_def [abs_def]
      actionOrder_def [abs_def])

lemma firstOpen_None:
  "firstAction [Na_active, Na_pending, Na_blocked] s w = None \<longleftrightarrow> (\<forall>b\<in>set (aw_actions w). \<not> openAction s b)"
  by (simp add: firstOpen_eq orderAsc_Nil filter_empty_conv)

lemma actionMarkDone_run:
  assumes "actionMarkDone i w = (Inr r, w')"
  shows "aw_actions w' = aw_actions (snd (actionMarkDone i w)) \<and> aw_commitments w' = aw_commitments w \<and> aw_now w' = aw_now w"
proof -
  have "aw_commitments (snd (actionMarkDone i w)) = aw_commitments w" by (simp add: actionMarkDone_def bnd_run)
  moreover have "sameSources w (snd (actionMarkDone i w))"
    using assist_actions(7) [of i] by (simp add: assist.follows_def)
  ultimately show ?thesis using assms by (simp add: sameSources_def)
qed

text \<open>
  When a task of a session succeeds, the first open action of the session (active, pending or blocked, by rank and
  creation) is done, whichever task it was for, and every other action is unchanged. Its commitment, if it
  has one, is completed with nothing left pending exactly when no other action of the session is open;
  otherwise no commitment changes.
\<close>

theorem task_success_closes:
  assumes "recordTrace (draftEvent actor stage summary taskId (Task_success out)) w = (Inr e, w')"
    and "findTask taskId w = Some task" "tk_sessionId task = Some s"
    and "pkOk na_nextActionId (aw_actions w)" "pkOk cm_commitmentId (aw_commitments w)"
  shows "case firstAction [Na_active, Na_pending, Na_blocked] s w of
      None \<Rightarrow> aw_actions w' = aw_actions w \<and> aw_commitments w' = aw_commitments w
    | Some a \<Rightarrow> openAction s a \<and> (\<forall>b\<in>set (aw_actions w). openAction s b \<longrightarrow> actionOrder a \<le> actionOrder b) \<and>
        aw_actions w' = rowSet na_nextActionId (na_nextActionId a) (a\<lparr>na_status := Na_done, na_blockedReason := None,
          na_completedAt := Some (aw_now w), na_updatedAt := aw_now w\<rparr>) (aw_actions w) \<and>
        (if \<exists>b\<in>set (aw_actions w). openAction s b \<and> b \<noteq> a then aw_commitments w' = aw_commitments w
         else case na_commitmentId a of
           None \<Rightarrow> aw_commitments w' = aw_commitments w
         | Some c \<Rightarrow> \<exists>r. commitmentFindById c (aw_commitments w) = Some r \<and>
             aw_commitments w' = rowSet cm_commitmentId c (r\<lparr>cm_status := Cm_completed, cm_blockedReason := None,
               cm_pendingDecision := None, cm_completedAt := Some (aw_now w), cm_updatedAt := aw_now w\<rparr>) (aw_commitments w))"
proof -
  obtain w1 where w1: "inboxSide w w1" "handleCommitment e w1 = (Inr (), w')"
    "ev_payload e = Task_success out" "ev_taskId e = taskId"
    using assistTrace_run [OF assms(1)] by (metis draftEvent_def AssistEvent.select_convs(5,6))
  note rd = inboxSide_reads [OF w1(1)]
  let ?first = "firstAction [Na_active, Na_pending, Na_blocked] s"
  have run: "onTaskSuccess e w1 = (Inr (), w')" using w1(2,3) by (simp add: handleCommitment_def)
  show ?thesis
  proof (cases "?first w")
    case None
    with run withTaskSession_run [of e w1 task s] assms(2,3) w1(4) rd show ?thesis
      by (simp add: onTaskSuccess_def bnd_run)
  next
    case (Some a)
    have a: "a \<in> set (aw_actions w)" "openAction s a"
      "\<forall>b\<in>set (aw_actions w). openAction s b \<longrightarrow> actionOrder a \<le> actionOrder b"
      using firstRow_orderAsc_min [OF Some [unfolded firstOpen_eq]] by auto
    let ?i = "na_nextActionId a"
    let ?a = "a\<lparr>na_status := Na_done, na_blockedReason := None, na_completedAt := Some (aw_now w), na_updatedAt := aw_now w\<rparr>"
    from run withTaskSession_run [of e w1 task s] assms(2,3) w1(4) rd Some obtain r2 w2 where
      dn: "actionMarkDone ?i w1 = (Inr r2, w2)" and
      rest: "(case (?first w2, na_commitmentId a) of (None, Some c) \<Rightarrow> thenNothing (commitmentComplete c) | _ \<Rightarrow> ret ()) w2 = (Inr (), w')"
      by (auto simp: onTaskSuccess_def bnd_run split: prod.splits sum.splits)
    have acts: "aw_actions w2 = rowSet na_nextActionId ?i ?a (aw_actions w)"
      using actionMarkDone_run [OF dn] actionFindById_mem [OF assms(4) a(1)] rd
      by (simp add: actionMarkDone_def bnd_run actionPatchS_actions actionPatch_def noNextActionPatch_def)
    have same: "aw_commitments w2 = aw_commitments w" "aw_now w2 = aw_now w" using actionMarkDone_run [OF dn] rd by simp_all
    have uniq: "b = a" if "b \<in> set (aw_actions w)" "na_nextActionId b = ?i" for b
      using that a(1) assms(4) by (metis actionFindById_mem option.inject)
    have none: "?first w2 = None \<longleftrightarrow> \<not> (\<exists>b\<in>set (aw_actions w). openAction s b \<and> b \<noteq> a)"
      using uniq a(1) by (auto simp: firstOpen_None acts rowSet_mem openAction_def)
    show ?thesis
    proof (cases "?first w2 = None \<and> na_commitmentId a \<noteq> None")
      case True
      then obtain c where c: "na_commitmentId a = Some c" "?first w2 = None" by auto
      with rest obtain r3 where cc: "commitmentComplete c w2 = (Inr r3, w')"
        by (auto simp: thenNothing_def bnd_run split: prod.splits sum.splits)
      then obtain r where r: "commitmentFindById c (aw_commitments w) = Some r"
        using same by (cases "commitmentFindById c (aw_commitments w)")
          (simp_all add: commitmentComplete_def commitmentPatchS_def bnd_run onCommitments_def zoom_run commitmentUpdate_def)
      have "aw_commitments w' = rowSet cm_commitmentId c (r\<lparr>cm_status := Cm_completed, cm_blockedReason := None,
               cm_pendingDecision := None, cm_completedAt := Some (aw_now w), cm_updatedAt := aw_now w\<rparr>) (aw_commitments w)"
        using arg_cong [OF cc, of "\<lambda>x. aw_commitments (snd x)"] r same
        by (simp add: commitmentComplete_def bnd_run commitmentPatchS_commitments commitmentPatch_def noCommitmentPatch_def)
      moreover have "aw_actions w' = aw_actions w2"
        using arg_cong [OF cc, of "\<lambda>x. aw_actions (snd x)"] by (simp add: commitmentComplete_def bnd_run commitmentPatchS_actions)
      ultimately have res: "aw_actions w' = rowSet na_nextActionId ?i ?a (aw_actions w)" "\<exists>r. commitmentFindById c (aw_commitments w) = Some r \<and>
             aw_commitments w' = rowSet cm_commitmentId c (r\<lparr>cm_status := Cm_completed, cm_blockedReason := None,
               cm_pendingDecision := None, cm_completedAt := Some (aw_now w), cm_updatedAt := aw_now w\<rparr>) (aw_commitments w)"
        using acts r by auto
      from c(2) none have "\<not> (\<exists>b\<in>set (aw_actions w). openAction s b \<and> b \<noteq> a)" by blast
      then show ?thesis unfolding Some option.case if_not_P [OF \<open>\<not> (\<exists>b\<in>set (aw_actions w). openAction s b \<and> b \<noteq> a)\<close>] c(1)
        using a(2,3) res by blast
    next
      case False
      with rest have w2: "w' = w2" by (auto split: option.splits)
      show ?thesis
      proof (cases "\<exists>b\<in>set (aw_actions w). openAction s b \<and> b \<noteq> a")
        case True
        show ?thesis unfolding Some option.case if_P [OF True] w2 using a(2,3) acts same(1) by blast
      next
        case others: False
        with False none have "na_commitmentId a = None" by blast
        with others show ?thesis unfolding Some option.case w2 using a(2,3) acts same(1) by (simp add: others)
      qed
    qed
  qed
qed

subsection \<open>Reordering\<close>

lemma rankById_nth:
  assumes "distinct ids" "k < length ids"
  shows "rankById ids (ids ! k) = Some (int k)"
proof -
  have "distinct (map fst (rev (zip ids (map int [0..<length ids]))))" using assms(1) by (simp add: rev_map [symmetric])
  moreover have "(ids ! k, int k) \<in> set (rev (zip ids (map int [0..<length ids])))"
    using assms(2) by (auto simp: set_zip)
  ultimately show ?thesis unfolding rankById_def by (simp add: map_of_eq_Some_iff del: set_rev)
qed

text \<open>The loop of updates, each on a row that is still as it was read.\<close>

lemma forEach_update:
  assumes "pkOk na_nextActionId (aw_actions w)" "set xs \<subseteq> set (aw_actions w)" "distinct (map na_nextActionId xs)"
  shows "forEach (\<lambda>a. onActions (actionUpdate now (na_nextActionId a) (p a))) xs w =
    (Inr (map (\<lambda>a. actionPatch now (p a) a) xs),
     w\<lparr>aw_actions := map (\<lambda>r. if r \<in> set xs then actionPatch now (p r) r else r) (aw_actions w)\<rparr>)"
  using assms
proof (induction xs rule: rev_induct)
  case Nil
  then show ?case by simp
next
  case (snoc x xs)
  let ?t = "map (\<lambda>r. if r \<in> set xs then actionPatch now (p r) r else r) (aw_actions w)"
  have fe: "forEach f (ys @ [y]) u = bnd (forEach f ys) (\<lambda>rs. bnd (f y) (\<lambda>r. ret (rs @ [r]))) u"
    for f :: "NextActionRecord \<Rightarrow> (AssistWorld, NextActionRecord) op" and ys y u
    by (induction ys arbitrary: u) (auto simp: bnd_run split: prod.splits sum.splits)
  have uniq: "r = x" if "r \<in> set (aw_actions w)" "na_nextActionId r = na_nextActionId x" for r
    using snoc.prems that by (metis actionFindById_mem option.inject in_set_conv_decomp subsetD)
  have pk: "pkOk na_nextActionId ?t" using snoc.prems(1) by (simp add: pkOk_def comp_def if_distrib cong: if_cong)
  have "x \<in> set ?t" using snoc.prems(2,3) by (auto intro: image_eqI [where x = x])
  then have find: "actionFindById (na_nextActionId x) ?t = Some x" by (rule actionFindById_mem [OF pk])
  have "rowSet na_nextActionId (na_nextActionId x) (actionPatch now (p x) x) ?t =
      map (\<lambda>r. if r \<in> set (xs @ [x]) then actionPatch now (p r) r else r) (aw_actions w)"
    using uniq snoc.prems(3) by (auto simp: rowSet_def)
  with snoc find show ?case
    by (simp add: fe bnd_run onActions_def zoom_run actionUpdate_def)
qed

text \<open>
  Reordering puts the actions of a session in the order asked for: given all identifiers of its actions, each once,
  the call returns, the session then lists its actions in that very order, and nothing else changes but
  the ranks and update times of these actions.
\<close>

theorem reorder_lists_in_order:
  assumes pk: "pkOk na_nextActionId (aw_actions w)" and ids: "distinct ids"
    and all: "set ids = na_nextActionId ` {a \<in> set (aw_actions w). na_sessionId a = s}"
  shows "\<exists>rs w'. actionReorder s ids w = (Inr rs, w') \<and>
    map na_nextActionId (actionListS (sessionActions s) w') = ids \<and>
    (\<exists>ranks. w' = w\<lparr>aw_actions := map (\<lambda>a. if na_sessionId a = s then a\<lparr>na_rank := ranks a, na_updatedAt := aw_now w\<rparr> else a)
       (aw_actions w)\<rparr>)"
proof -
  let ?t = "aw_actions w" and ?p = "\<lambda>a. noNextActionPatch\<lparr>nu_rank := Some (patched (rankById ids (na_nextActionId a)) (na_rank a))\<rparr>"
  let ?cur = "actionListS (sessionActions s) w"
  let ?rk = "\<lambda>a. patched (rankById ids (na_nextActionId a)) (na_rank a)"
  let ?g = "\<lambda>a. a\<lparr>na_rank := ?rk a, na_updatedAt := aw_now w\<rparr>"
  let ?t' = "map (\<lambda>a. if na_sessionId a = s then ?g a else a) ?t"
  have list: "actionListS (sessionActions s) u = sort_key actionOrder (filter (\<lambda>a. na_sessionId a = s) (aw_actions u))" for u
    by (simp add: actionListS_def actionList_def sessionActions_def orderAsc_def actionOrder_def [abs_def])
  have cur: "set ?cur = {a \<in> set ?t. na_sessionId a = s}" by (simp add: list)
  have "distinct (map na_nextActionId ?cur)"
    using pk by (simp add: list pkOk_def distinct_map_filter flip: orderAsc_def)
  from forEach_update [OF pk _ this, of "aw_now w" ?p] cur
  have run: "actionReorder s ids w = (Inr (map (\<lambda>a. actionPatch (aw_now w) (?p a) a) ?cur),
      w\<lparr>aw_actions := map (\<lambda>r. if r \<in> set ?cur then actionPatch (aw_now w) (?p r) r else r) ?t\<rparr>)"
    by (auto simp: actionReorder_def bnd_run)
  have g: "actionPatch (aw_now w) (?p a) a = ?g a" for a by (simp add: actionPatch_def noNextActionPatch_def)
  have t': "map (\<lambda>r. if r \<in> set ?cur then actionPatch (aw_now w) (?p r) r else r) ?t = ?t'"
    unfolding cur g by (rule map_cong [OF refl]) simp
  define row where "row i = ?g (the (actionFindById i ?t))" for i
  have row: "na_nextActionId (row i) = i \<and> na_sessionId (row i) = s \<and> row i \<in> set ?t' \<and>
      na_rank (row i) = patched (rankById ids i) (na_rank (the (actionFindById i ?t)))" if "i \<in> set ids" for i
  proof -
    from that all obtain a where a: "a \<in> set ?t" "na_sessionId a = s" "na_nextActionId a = i" by auto
    then have "actionFindById i ?t = Some a" using actionFindById_mem [OF pk, of a] by simp
    with a show ?thesis by (auto simp: row_def intro!: image_eqI [where x = a])
  qed
  have rank: "na_rank (row (ids ! k)) = int k" if "k < length ids" for k
    using row [of "ids ! k"] rankById_nth [OF ids that] that by simp
  have sorted: "sorted (map actionOrder (map row ids))"
    by (auto simp: sorted_iff_nth_mono_less actionOrder_def rank less_imp_le)
  have inj: "inj_on actionOrder (set (map row ids))"
  proof (rule inj_onI)
    fix x y assume "x \<in> set (map row ids)" "y \<in> set (map row ids)" "actionOrder x = actionOrder y"
    then obtain i j where "i < length ids" "j < length ids" "x = row (ids ! i)" "y = row (ids ! j)" "na_rank x = na_rank y"
      by (auto simp: in_set_conv_nth actionOrder_def)
    with rank show "x = y" by simp
  qed
  have pk': "pkOk na_nextActionId ?t'" using pk by (simp add: pkOk_def comp_def if_distrib cong: if_cong)
  have sets: "set (map row ids) = set (filter (\<lambda>a. na_sessionId a = s) ?t')"
  proof (intro subset_antisym subsetI)
    fix x assume "x \<in> set (map row ids)"
    then obtain i where "i \<in> set ids" "x = row i" by auto
    with row [of i] show "x \<in> set (filter (\<lambda>a. na_sessionId a = s) ?t')" unfolding set_filter by blast
  next
    fix x assume x: "x \<in> set (filter (\<lambda>a. na_sessionId a = s) ?t')"
    then obtain a where a: "a \<in> set ?t" "x = (if na_sessionId a = s then ?g a else a)" "na_sessionId x = s"
      unfolding set_filter set_map by blast
    then have "na_sessionId a = s" "na_nextActionId x = na_nextActionId a" by (simp_all split: if_splits)
    with a(1) have i: "na_nextActionId x \<in> set ids" unfolding all by blast
    have "x \<in> set ?t'" using x unfolding set_filter by blast
    then have "actionFindById (na_nextActionId x) ?t' = Some x" by (rule actionFindById_mem [OF pk'])
    moreover have "actionFindById (na_nextActionId (row (na_nextActionId x))) ?t' = Some (row (na_nextActionId x))"
      by (rule actionFindById_mem [OF pk' row [OF i, THEN conjunct2, THEN conjunct2, THEN conjunct1]])
    ultimately have "row (na_nextActionId x) = x" using row [OF i] by (metis option.inject)
    then show "x \<in> set (map row ids)" using i by (metis image_eqI list.set_map)
  qed
  have d1: "distinct (map row ids)"
    unfolding distinct_map using ids row by (intro conjI inj_onI) (assumption, metis)
  have "distinct ?t'" using pk' unfolding pkOk_def distinct_map by (rule conjunct1)
  then have d2: "distinct (filter (\<lambda>a. na_sessionId a = s) ?t')" by (rule distinct_filter)
  from set_eq_iff_mset_eq_distinct [OF d1 d2] sets
  have ms: "mset (filter (\<lambda>a. na_sessionId a = s) ?t') = mset (map row ids)" by (rule sym [OF iffD1])
  have "sort_key actionOrder (filter (\<lambda>a. na_sessionId a = s) ?t') = map row ids"
    by (rule sort_key_inj_key_eq [OF ms _ sorted]) (use inj sets in \<open>simp only:\<close>)
  then have "map na_nextActionId (actionListS (sessionActions s) (w\<lparr>aw_actions := ?t'\<rparr>)) = map na_nextActionId (map row ids)"
    unfolding list by simp
  also have "\<dots> = ids" using row by (simp add: map_idI)
  finally have order: "map na_nextActionId (actionListS (sessionActions s) (w\<lparr>aw_actions := ?t'\<rparr>)) = ids" .
  have "\<exists>rs. actionReorder s ids w = (Inr rs, w\<lparr>aw_actions := ?t'\<rparr>)"
    by (rule exI, rule trans [OF run]) (simp only: t')
  then obtain rs where run': "actionReorder s ids w = (Inr rs, w\<lparr>aw_actions := ?t'\<rparr>)" ..
  have "\<exists>ranks. w\<lparr>aw_actions := ?t'\<rparr> = w\<lparr>aw_actions := map (\<lambda>a. if na_sessionId a = s
      then a\<lparr>na_rank := ranks a, na_updatedAt := aw_now w\<rparr> else a) (aw_actions w)\<rparr>"
    by (rule exI [of _ ?rk]) (rule refl)
  with run' order show ?thesis by blast
qed

text \<open>
  What asked the user to act is not taken back by every end of a commitment: cancelling a commitment, or
  resolving its pending decision, changes no inbox item, so the items that announce the block or ask for the
  decision stay pending. (Unblocking and completing do mark the block's item as done.)
\<close>

theorem cancel_leaves_items:
  "aw_inbox (snd (commitmentCancel i w)) = aw_inbox w \<and> aw_inbox (snd (resolveDecision i w)) = aw_inbox w"
proof -
  have p: "aw_inbox (snd (commitmentPatchS k t i p w)) = aw_inbox w"
    if "k = Commitment_cancelled \<or> k = Commitment_updated \<and> cu_pendingDecision p = Some None" for k t p
    using that
    by (auto simp: commitmentPatchS_def bnd_run onCommitments_def zoom_run commitmentUpdate_def recordCommitment_def recordAssistant_def
        appendTrace_def freshId_def handleInbox_def draftEvent_def commitmentItems_def commitmentPatch_def split: option.splits)
  show ?thesis
    by (auto simp: commitmentCancel_def resolveDecision_def requireCommitment_def bnd_run p noCommitmentPatch_def split: option.splits)
qed

end
