(* ===== verification/AssistantWitness.thy ===== *)
theory AssistantWitness
  imports AssistantRules
begin

section \<open>The assistant's properties at concrete states\<close>

text \<open>One witness for each property of \<open>AssistantRules\<close> that has hypotheses.\<close>

text \<open>A running task of a session, and the history of its creation and first failure.\<close>

definition demoAssist :: AssistWorld where
  "demoAssist = \<lparr>aw_tasks = [(sampleTask T_running)\<lparr>tk_sessionId := Some ''s1''\<rparr>], aw_schedules = [], aw_runs = [],
     aw_summaries = [], aw_commitments = [], aw_actions = [], aw_inbox = [], aw_trace = [], aw_published = [],
     aw_webhooks = [], aw_deferred = [], aw_now = 7, aw_defaultUserId = ''u'', aw_supply = (\<lambda>n. replicate n CHR ''x''),
     aw_next = 0\<rparr>"

definition demoEvent :: "EventPayload \<Rightarrow> event_draft" where
  "demoEvent p = draftEvent ''runtime'' ''completion'' ''event'' ''t1'' p"

definition demoFailed :: AssistWorld where
  "demoFailed = assistRun [Trace_step (demoEvent Task_created), Trace_step (demoEvent (Task_failure ''timeout'' ''late'')),
     Commitment_block_step ''x'' ''no access''] demoAssist"

theorem commitment_status_explained_witness:
  "\<exists>c. aw_commitments demoFailed = [c] \<and> commitmentWf c \<and> cm_status c = Cm_blocked"
proof -
  have "map cm_status (aw_commitments demoFailed) = [Cm_blocked]" by code_simp
  then obtain c where c: "aw_commitments demoFailed = [c]" "cm_status c = Cm_blocked" by auto
  have "commitmentWf c"
    by (rule commitment_status_explained [of demoAssist
          "[Trace_step (demoEvent Task_created), Trace_step (demoEvent (Task_failure ''timeout'' ''late'')),
            Commitment_block_step ''x'' ''no access'']"])
       (simp_all add: commitmentsWf_def demoAssist_def c(1) flip: demoFailed_def [unfolded demoAssist_def])
  with c show ?thesis by blast
qed

definition demoAgain :: "(thrown + CommitmentRecord) \<times> AssistWorld" where
  "demoAgain = commitmentBlock ''x'' ''another reason'' (assistRun [Commitment_unblock_step ''x''] demoFailed)"

theorem block_announced_once_witness:
  "\<exists>r. fst demoAgain = Inr r \<and> cm_blockedReason r = Some ''another reason'' \<and>
    aw_published (snd demoAgain) = aw_published (assistRun [Commitment_unblock_step ''x''] demoFailed)"
proof -
  let ?w = "assistRun [Commitment_unblock_step ''x''] demoFailed"
  have v: "map_sum (\<lambda>_. ()) cm_blockedReason (fst demoAgain) = Inr (Some ''another reason'')" by code_simp
  then obtain r where r: "fst demoAgain = Inr r" "cm_blockedReason r = Some ''another reason''" by (cases "fst demoAgain") auto
  then have run: "commitmentBlock ''x'' ''another reason'' ?w = (Inr r, snd demoAgain)"
    by (metis demoAgain_def prod.collapse)
  have ok: "inboxOk (aw_inbox ?w)" by code_simp
  have "\<not> Option.is_none (inboxFindByDedup (resolveUserId (taskOrSession (cm_taskId (projr (fst demoAgain)))
      (cm_sessionId (projr (fst demoAgain)))) ?w) (blockedKey ''x'') (aw_inbox ?w))" by code_simp
  then have "inboxFindByDedup (resolveUserId (taskOrSession (cm_taskId r) (cm_sessionId r)) ?w) (blockedKey ''x'') (aw_inbox ?w) \<noteq> None"
    unfolding r(1) sum.sel Option.is_none_def .
  with block_announced_once [OF ok run refl] r show ?thesis by (auto split: option.splits)
qed

text \<open>Two blocked actions: one by a failure, the other waiting for an approval.\<close>

definition demoAction :: "string \<Rightarrow> int \<Rightarrow> string \<Rightarrow> NextActionRecord" where
  "demoAction i rank reason = \<lparr>na_nextActionId = i, na_sessionId = ''s1'', na_commitmentId = Some ''c'', na_taskId = None,
     na_title = ''act'', na_detail = None, na_status = Na_blocked, na_rank = rank, na_blockedReason = Some reason,
     na_source = From_manual, na_sourceTraceId = None, na_dueAt = None, na_createdAt = 1, na_updatedAt = 1,
     na_completedAt = None, na_metadata = []\<rparr>"

definition demoTwo :: AssistWorld where
  "demoTwo = demoAssist\<lparr>aw_actions := [demoAction ''a2'' 1 ''awaiting approval: shell'', demoAction ''a1'' 0 ''timeout: late'']\<rparr>"

definition demoApproved :: "(thrown + AssistEvent) \<times> AssistWorld" where
  "demoApproved = recordTrace (demoEvent (Approval_resolved_event ''ap'' None ''approved'' ''shell'')) demoTwo"

lemma demo_task: "\<exists>t. findTask ''t1'' demoTwo = Some t \<and> tk_sessionId t = Some ''s1''"
  by (simp add: findTask_def demoTwo_def demoAssist_def taskFindById_def sampleTask_def taskOfDraft_def)

lemma ranOk: "map_sum (\<lambda>_. ()) (\<lambda>_. ()) (fst r) = Inr () \<Longrightarrow> \<exists>x. r = (Inr x, snd r)"
  by (cases r; cases "fst r") auto

theorem approval_frees_first_blocked_witness:
  "map (\<lambda>a. (na_nextActionId a, na_status a)) (aw_actions (snd demoApproved)) = [(''a2'', Na_blocked), (''a1'', Na_active)]"
proof -
  obtain t where t: "findTask ''t1'' demoTwo = Some t" "tk_sessionId t = Some ''s1''" using demo_task by blast
  have "map_sum (\<lambda>_. ()) (\<lambda>_. ()) (fst demoApproved) = Inr ()" by code_simp
  then obtain e where run: "recordTrace (draftEvent ''runtime'' ''completion'' ''event'' ''t1''
      (Approval_resolved_event ''ap'' None ''approved'' ''shell'')) demoTwo = (Inr e, snd demoApproved)"
    using ranOk unfolding demoApproved_def demoEvent_def by blast
  have acts: "aw_actions demoTwo = [demoAction ''a2'' 1 ''awaiting approval: shell'', demoAction ''a1'' 0 ''timeout: late'']"
    by (simp add: demoTwo_def)
  have pk: "pkOk na_nextActionId (aw_actions demoTwo)" by (simp add: acts pkOk_def demoAction_def)
  have "firstBlocked ''s1'' demoTwo = Some (demoAction ''a1'' 0 ''timeout: late'')"
    by (simp add: firstBlocked_def actionListS_def actionList_def sessionActions_def acts demoAction_def orderAsc_def firstRow_def
        less_eq_prod_def)
  with approval_frees_first_blocked [OF run t pk] show ?thesis by (auto simp: acts demoAction_def rowSet_def)
qed

definition demoDone :: "(thrown + AssistEvent) \<times> AssistWorld" where
  "demoDone = recordTrace (demoEvent (Task_success ''ok'')) demoTwo"

theorem task_success_closes_witness:
  "map (\<lambda>a. (na_nextActionId a, na_status a)) (aw_actions (snd demoDone)) = [(''a2'', Na_blocked), (''a1'', Na_done)]"
proof -
  obtain t where t: "findTask ''t1'' demoTwo = Some t" "tk_sessionId t = Some ''s1''" using demo_task by blast
  have "map_sum (\<lambda>_. ()) (\<lambda>_. ()) (fst demoDone) = Inr ()" by code_simp
  then obtain e where run: "recordTrace (draftEvent ''runtime'' ''completion'' ''event'' ''t1'' (Task_success ''ok'')) demoTwo =
      (Inr e, snd demoDone)"
    using ranOk unfolding demoDone_def demoEvent_def by blast
  have acts: "aw_actions demoTwo = [demoAction ''a2'' 1 ''awaiting approval: shell'', demoAction ''a1'' 0 ''timeout: late'']"
    by (simp add: demoTwo_def)
  have pk: "pkOk na_nextActionId (aw_actions demoTwo)" "pkOk cm_commitmentId (aw_commitments demoTwo)"
    by (simp_all add: acts pkOk_def demoAction_def) (simp add: demoTwo_def demoAssist_def)
  have "firstAction [Na_active, Na_pending, Na_blocked] ''s1'' demoTwo = Some (demoAction ''a1'' 0 ''timeout: late'')"
    by (simp add: firstOpen_eq acts openAction_def demoAction_def orderAsc_def firstRow_def actionOrder_def less_eq_prod_def)
  with task_success_closes [OF run t pk] show ?thesis by (auto simp: acts demoAction_def rowSet_def)
qed

theorem reorder_lists_in_order_witness:
  "\<exists>rs w'. actionReorder ''s1'' [''a2'', ''a1''] demoTwo = (Inr rs, w') \<and>
    map na_nextActionId (actionListS (sessionActions ''s1'') w') = [''a2'', ''a1'']"
proof -
  have acts: "aw_actions demoTwo = [demoAction ''a2'' 1 ''awaiting approval: shell'', demoAction ''a1'' 0 ''timeout: late'']"
    by (simp add: demoTwo_def)
  have "pkOk na_nextActionId (aw_actions demoTwo)" "distinct [''a2'', ''a1'']"
    "set [''a2'', ''a1''] = na_nextActionId ` {a \<in> set (aw_actions demoTwo). na_sessionId a = ''s1''}"
  proof -
    show "pkOk na_nextActionId (aw_actions demoTwo)" by (simp add: acts pkOk_def demoAction_def)
    show "distinct [''a2'', ''a1'']" by simp
    have "{a \<in> set (aw_actions demoTwo). na_sessionId a = ''s1''} = set (aw_actions demoTwo)"
      by (auto simp: acts demoAction_def)
    then show "set [''a2'', ''a1''] = na_nextActionId ` {a \<in> set (aw_actions demoTwo). na_sessionId a = ''s1''}"
      by (simp add: acts demoAction_def)
  qed
  from reorder_lists_in_order [OF this] show ?thesis by (elim exE conjE) (intro exI conjI, assumption+)
qed

end
