(* ===== verification/Conversation.thy ===== *)
theory Conversation
  imports Complex_Main JsonText Regex
begin

section \<open>Conversations and their context window\<close>

text \<open>
  The messages exchanged with the model (src/src/types/runtime.ts) and the functions that shape them before a
  request: token estimates (token-counter.ts), the tail that survives compaction (tail-selector.ts), the clearing
  of old tool results (tool-result-pruner.ts), the drop of messages after an overflow (reactive-compact.ts), all
  under src/src/runtime/context, and the repair of tool calls without a result (sanitizeToolCallPairing of
  src/src/runtime/kernel-support.ts). An array edited in place is a list returned.
\<close>

datatype ConversationRole = Role_assistant | Role_system | Role_tool | Role_user

record ProviderToolCall =
  pc_toolCallId :: string
  pc_toolName :: string
  pc_input :: json_object
  pc_reason :: string
  pc_raw :: "json_object option"

record ConversationMessage =
  ms_role :: ConversationRole
  ms_content :: string
  ms_reasoningContent :: "string option"
  ms_toolCallId :: "string option"
  ms_toolName :: "string option"
  ms_toolCalls :: "ProviderToolCall list option"
  ms_metadata :: "json_object option"

type_synonym msgs = "ConversationMessage list"

definition isTool :: "ConversationMessage \<Rightarrow> bool" where
  "isTool m \<longleftrightarrow> ms_role m = Role_tool"

text \<open>\<open>m.role === "assistant" \<and> (m.toolCalls?.length ?? 0) > 0\<close>.\<close>

definition hasCalls :: "ConversationMessage \<Rightarrow> bool" where
  "hasCalls m \<longleftrightarrow> ms_role m = Role_assistant \<and> (case ms_toolCalls m of None \<Rightarrow> False | Some cs \<Rightarrow> cs \<noteq> [])"

definition callIds :: "ConversationMessage \<Rightarrow> string list" where
  "callIds m = (case ms_toolCalls m of None \<Rightarrow> [] | Some cs \<Rightarrow> map pc_toolCallId cs)"

definition metaOf :: "ConversationMessage \<Rightarrow> string \<Rightarrow> json option" where
  "metaOf m k = (case ms_metadata m of None \<Rightarrow> None | Some o1 \<Rightarrow> jget o1 k)"

definition systemMessage :: "string \<Rightarrow> json_object \<Rightarrow> ConversationMessage" where
  "systemMessage content meta = \<lparr>ms_role = Role_system, ms_content = content, ms_reasoningContent = None, ms_toolCallId = None,
     ms_toolName = None, ms_toolCalls = None, ms_metadata = Some meta\<rparr>"

subsection \<open>Token estimates\<close>

text \<open>
  The floating-point products are exact rationals here. The characters of the model are code units below 256, none of
  which is counted as CJK.
\<close>

definition codeLike :: "char \<Rightarrow> bool" where
  "codeLike c \<longleftrightarrow> c \<in> set [CHR 0x7B, CHR 0x7D, CHR 0x5B, CHR 0x5D, CHR 0x22, CHR 0x5C]"

definition languageAwareMultiplier :: "string \<Rightarrow> rat" where
  "languageAwareMultiplier content =
     (if content = [] then 1
      else if rat_of_nat (length (filter codeLike content)) / rat_of_nat (length content) > 8 / 100 then 1 + 2 / 10 else 1)"

definition estimateMessageTokens :: "string \<Rightarrow> nat" where
  "estimateMessageTokens content =
     (let base = \<lceil>rat_of_nat (length content) / 4 * (133 / 100)\<rceil>
      in nat \<lceil>rat_of_int base * languageAwareMultiplier content\<rceil>)"

definition estimateCallTokens :: "ProviderToolCall \<Rightarrow> nat" where
  "estimateCallTokens c = estimateMessageTokens (stringify (JObj (pc_input c))) + estimateMessageTokens (pc_reason c) +
     estimateMessageTokens (pc_toolCallId c) + estimateMessageTokens (pc_toolName c)"

definition optTokens :: "string option \<Rightarrow> nat" where
  "optTokens s = (case s of None \<Rightarrow> 0 | Some x \<Rightarrow> estimateMessageTokens x)"

definition estimateConversationMessageTokens :: "ConversationMessage \<Rightarrow> nat" where
  "estimateConversationMessageTokens m = estimateMessageTokens (ms_content m) +
     (case ms_toolCalls m of None \<Rightarrow> 0 | Some cs \<Rightarrow> sum_list (map estimateCallTokens cs)) +
     optTokens (ms_toolCallId m) + optTokens (ms_toolName m)"

definition estimateMessagesTokens :: "string list \<Rightarrow> nat" where
  "estimateMessagesTokens contents = sum_list (map estimateMessageTokens contents)"

record HybridTokenCounterState =
  tc_lastApiInputTokens :: nat
  tc_messageCountAtLastApi :: nat

definition createHybridTokenCounterState :: HybridTokenCounterState where
  "createHybridTokenCounterState = \<lparr>tc_lastApiInputTokens = 0, tc_messageCountAtLastApi = 0\<rparr>"

definition computePromptTokens :: "HybridTokenCounterState \<Rightarrow> msgs \<Rightarrow> nat" where
  "computePromptTokens st ms =
     tc_lastApiInputTokens st + estimateMessagesTokens (map ms_content (drop (tc_messageCountAtLastApi st) ms))"

definition recordApiUsage :: "HybridTokenCounterState \<Rightarrow> nat \<Rightarrow> nat \<Rightarrow> HybridTokenCounterState" where
  "recordApiUsage st inputTokens messageCount = \<lparr>tc_lastApiInputTokens = inputTokens, tc_messageCountAtLastApi = messageCount\<rparr>"

definition computeEffectiveWindow :: "int \<Rightarrow> int \<Rightarrow> int" where
  "computeEffectiveWindow inputLimit reservedOutput = max 0 (inputLimit - reservedOutput)"

definition computeHermesCompactThreshold :: "nat \<Rightarrow> rat \<Rightarrow> int" where
  "computeHermesCompactThreshold contextWindowTokens thresholdRatio =
     max 0 \<lfloor>rat_of_nat contextWindowTokens * max 0 (thresholdRatio - 5 / 100)\<rfloor>"

text \<open>\<open>Math.round\<close> of the language rounds halves up.\<close>

definition contextWindowPercentFromPrompt :: "nat \<Rightarrow> int \<Rightarrow> int \<Rightarrow> int" where
  "contextWindowPercentFromPrompt promptTokens inputLimit reservedOutput =
     min 100 \<lfloor>rat_of_nat promptTokens / rat_of_int (max (inputLimit - reservedOutput) 1) * 100 + 1 / 2\<rfloor>"

subsection \<open>The tail that survives compaction\<close>

record TailSelectionConfig =
  ts_tailMinMessages :: nat
  ts_tailTokenBudget :: "nat option"
  ts_protectLastN :: "nat option"

record TailSelectionResult =
  tr_budgetExceeded :: bool
  tr_messages :: msgs
  tr_usedTokens :: nat

text \<open>The last index below \<open>n\<close> whose message is no tool result; \<open>None\<close> is -1.\<close>

fun backOverTools :: "msgs \<Rightarrow> nat \<Rightarrow> nat option" where
  "backOverTools ms 0 = None"
| "backOverTools ms (Suc i) = (if isTool (ms ! i) then backOverTools ms i else Some i)"

definition findPreviousSafeBoundary :: "msgs \<Rightarrow> nat \<Rightarrow> nat option" where
  "findPreviousSafeBoundary ms startIndex = backOverTools ms startIndex"

definition rewindToToolCallBoundary :: "msgs \<Rightarrow> nat \<Rightarrow> nat" where
  "rewindToToolCallBoundary ms startIndex =
     (if startIndex < length ms \<and> isTool (ms ! startIndex)
      then case backOverTools ms startIndex of
             Some i \<Rightarrow> if hasCalls (ms ! i) then i else startIndex
           | None \<Rightarrow> startIndex
      else startIndex)"

definition estimateMessagesSlice :: "msgs \<Rightarrow> nat \<Rightarrow> nat" where
  "estimateMessagesSlice ms startIndex = sum_list (map estimateConversationMessageTokens (drop startIndex ms))"

lemma backOverTools_less: "backOverTools ms n = Some i \<Longrightarrow> i < n"
  by (induction n) (auto split: if_splits)

function growTail :: "msgs \<Rightarrow> nat option \<Rightarrow> nat \<Rightarrow> nat" where
  "growTail ms budget startIndex =
     (case findPreviousSafeBoundary ms startIndex of
        None \<Rightarrow> startIndex
      | Some previousIndex \<Rightarrow>
          if (case budget of None \<Rightarrow> False | Some b \<Rightarrow> estimateMessagesSlice ms previousIndex > b) then startIndex
          else growTail ms budget previousIndex)"
  by auto
termination by (relation "measure (\<lambda>(_, _, s). s)") (auto simp: findPreviousSafeBoundary_def dest: backOverTools_less)

declare growTail.simps [simp del]

definition tailStart :: "msgs \<Rightarrow> TailSelectionConfig \<Rightarrow> nat" where
  "tailStart ms config =
     (let floorN = max (case ts_protectLastN config of None \<Rightarrow> ts_tailMinMessages config | Some n \<Rightarrow> n) (ts_tailMinMessages config);
          minKeep = min floorN (length ms)
      in growTail ms (ts_tailTokenBudget config) (rewindToToolCallBoundary ms (length ms - minKeep)))"

definition selectTailMessages :: "msgs \<Rightarrow> TailSelectionConfig \<Rightarrow> TailSelectionResult" where
  "selectTailMessages ms config =
     (if ms = [] then \<lparr>tr_budgetExceeded = False, tr_messages = [], tr_usedTokens = 0\<rparr>
      else let startIndex = tailStart ms config; usedTokens = estimateMessagesSlice ms startIndex
        in \<lparr>tr_budgetExceeded = (case ts_tailTokenBudget config of None \<Rightarrow> False | Some b \<Rightarrow> usedTokens > b),
            tr_messages = drop startIndex ms, tr_usedTokens = usedTokens\<rparr>)"

subsection \<open>Clearing old tool results\<close>

text \<open>The dash of the marker is outside the character range of the model.\<close>

definition CLEARED_TOOL_RESULT_MARKER :: string where
  "CLEARED_TOOL_RESULT_MARKER = ''[prior tool result cleared - use conversation context or re-invoke only if needed]''"

definition DEFAULT_TOOL_RESULT_KEEP_GROUPS :: nat where "DEFAULT_TOOL_RESULT_KEEP_GROUPS = 5"

record ToolResultPruneResult =
  pr_prunedCount :: nat
  pr_savedTokensEstimate :: nat

definition toolIndices :: "msgs \<Rightarrow> nat list" where
  "toolIndices ms = filter (\<lambda>i. isTool (ms ! i)) [0..<length ms]"

definition pruneStep :: "nat \<Rightarrow> msgs \<times> ToolResultPruneResult \<Rightarrow> msgs \<times> ToolResultPruneResult" where
  "pruneStep i = (\<lambda>(ms, r).
     if ms_content (ms ! i) = CLEARED_TOOL_RESULT_MARKER then (ms, r)
     else (ms[i := (ms ! i)\<lparr>ms_content := CLEARED_TOOL_RESULT_MARKER\<rparr>],
           \<lparr>pr_prunedCount = pr_prunedCount r + 1,
            pr_savedTokensEstimate = pr_savedTokensEstimate r + estimateMessageTokens (ms_content (ms ! i))\<rparr>))"

definition pruneOldToolResults :: "msgs \<Rightarrow> nat \<Rightarrow> msgs \<times> ToolResultPruneResult" where
  "pruneOldToolResults ms keepGroups =
     (let idx = toolIndices ms; none = \<lparr>pr_prunedCount = 0, pr_savedTokensEstimate = 0\<rparr>
      in if length idx \<le> keepGroups then (ms, none)
         else fold pruneStep (take (length idx - keepGroups) idx) (ms, none))"

subsection \<open>Dropping messages after an overflow\<close>

definition SESSION_TODOS_SOURCE_TYPE :: string where "SESSION_TODOS_SOURCE_TYPE = ''session_todos''"
definition COMPACT_HANDOFF_SOURCE_TYPE :: string where "COMPACT_HANDOFF_SOURCE_TYPE = ''compact_handoff''"

definition isContextOverflowProviderError :: "ProviderErrorShape \<Rightarrow> bool" where
  "isContextOverflowProviderError e =
     (if pe_statusCode e = Some 413 then True
      else let haystack = lower (pe_message e @ '' '' @ (case pe_summary e of None \<Rightarrow> [] | Some s \<Rightarrow> s))
        in includesStr haystack ''context length'' \<or> includesStr haystack ''context window'' \<or>
           includesStr haystack ''maximum context'' \<or> includesStr haystack ''prompt is too long'' \<or>
           includesStr haystack ''prompt too long'' \<or> includesStr haystack ''token limit'' \<or>
           includesStr haystack ''too many tokens'' \<or> includesStr haystack ''context_length_exceeded'' \<or>
           includesStr haystack ''context overflow'')"

text \<open>The index of the last user message, if there is one.\<close>

definition latestUser :: "msgs \<Rightarrow> nat option" where
  "latestUser ms = List.find (\<lambda>i. ms_role (ms ! i) = Role_user) (rev [0..<length ms])"

definition isReactiveCompactDroppable :: "ConversationMessage \<Rightarrow> nat \<Rightarrow> nat option \<Rightarrow> bool" where
  "isReactiveCompactDroppable m messageIndex latestUserIndex =
     (if Some messageIndex = latestUserIndex then False
      else if ms_role m \<noteq> Role_system then True
      else if metaOf m ''pinned'' = Some (JBool True) then False
      else if metaOf m ''sourceType'' = Some (JStr SESSION_TODOS_SOURCE_TYPE) then False
      else metaOf m ''sourceType'' = Some (JStr COMPACT_HANDOFF_SOURCE_TYPE) \<or>
        startsWith (ms_content m) ''This session is being continued'')"

definition droppableAt :: "msgs \<Rightarrow> nat option" where
  "droppableAt ms = List.find (\<lambda>i. isReactiveCompactDroppable (ms ! i) i (latestUser ms)) [0..<length ms]"

text \<open>What goes with the message at \<open>i\<close>: the tool results that follow an assistant's calls.\<close>

definition removeCount :: "msgs \<Rightarrow> nat \<Rightarrow> nat" where
  "removeCount ms i = 1 + (if hasCalls (ms ! i) then length (takeWhile isTool (drop (Suc i) ms)) else 0)"

lemma droppableAt_less: "droppableAt ms = Some i \<Longrightarrow> i < length ms"
  by (auto simp: droppableAt_def find_Some_iff)

function dropOldest :: "msgs \<Rightarrow> nat \<Rightarrow> nat \<Rightarrow> msgs \<times> nat" where
  "dropOldest ms count dropped =
     (if dropped < count
      then case droppableAt ms of
             None \<Rightarrow> (ms, dropped)
           | Some i \<Rightarrow> dropOldest (take i ms @ drop (i + removeCount ms i) ms) count (dropped + removeCount ms i)
      else (ms, dropped))"
  by auto
termination
  by (relation "measure (\<lambda>(_, count, dropped). count - dropped)") (auto simp: removeCount_def)

declare dropOldest.simps [simp del]

definition dropOldestCompactibleMessages :: "msgs \<Rightarrow> nat \<Rightarrow> msgs \<times> nat" where
  "dropOldestCompactibleMessages ms count = dropOldest ms count 0"

subsection \<open>Repairing tool calls without a result\<close>

definition createToolFeedbackMessage :: "json \<Rightarrow> string \<Rightarrow> string \<Rightarrow> string \<Rightarrow> string option \<Rightarrow> ConversationMessage" where
  "createToolFeedbackMessage out toolCallId toolName privacyLevel contentOverride =
     \<lparr>ms_role = Role_tool, ms_content = (case contentOverride of Some c \<Rightarrow> c | None \<Rightarrow> stringifyAt 0 out), ms_reasoningContent = None, ms_toolCallId = Some toolCallId,
      ms_toolName = Some toolName, ms_toolCalls = None,
      ms_metadata = Some [(''privacyLevel'', JStr privacyLevel), (''retentionKind'', JStr ''session''), (''sourceType'', JStr ''tool_result'')]\<rparr>"

definition missingResult :: "ConversationMessage \<Rightarrow> string \<Rightarrow> ConversationMessage" where
  "missingResult m toolCallId = createToolFeedbackMessage
     (JObj [(''error'', JStr ''Tool result was not recorded for this call.''), (''errorCode'', JStr ''tool_result_missing''),
       (''recoverable'', JBool True)])
     toolCallId
     (case List.find (\<lambda>c. pc_toolCallId c = toolCallId) (case ms_toolCalls m of None \<Rightarrow> [] | Some cs \<Rightarrow> cs) of
        None \<Rightarrow> ''unknown'' | Some c \<Rightarrow> pc_toolName c) ''internal'' None"

text \<open>The identifiers the results of a block answer.\<close>

definition answered :: "msgs \<Rightarrow> string set" where
  "answered tools = set (List.map_filter ms_toolCallId tools)"

lemma in_answered: "i \<in> answered tools \<longleftrightarrow> (\<exists>t\<in>set tools. ms_toolCallId t = Some i)"
  by (force simp: answered_def map_filter_def)

lemma answered_map: "answered tools = set (List.map_filter id (map ms_toolCallId tools))"
  by (induction tools) (auto simp: answered_def List.map_filter_simps split: option.splits)

lemma answered_mono: "set ts \<subseteq> set us \<Longrightarrow> answered ts \<subseteq> answered us"
  unfolding subset_iff [of "answered ts"] in_answered by blast

definition missingIds :: "ConversationMessage \<Rightarrow> msgs \<Rightarrow> string list" where
  "missingIds m tools = filter (\<lambda>i. i \<notin> answered tools) (fold setAdd (callIds m) [])"

function sanitizeToolCallPairing :: "msgs \<Rightarrow> msgs \<times> nat" where
  "sanitizeToolCallPairing [] = ([], 0)"
| "sanitizeToolCallPairing (m # rest) =
     (let tools = takeWhile isTool rest; after = dropWhile isTool rest
      in if ms_role m = Role_assistant \<and> ms_toolCalls m = Some []
         then (case sanitizeToolCallPairing after of (r, n) \<Rightarrow> (m\<lparr>ms_toolCalls := None\<rparr> # r, length tools + n))
         else if \<not> hasCalls m then (case sanitizeToolCallPairing rest of (r, n) \<Rightarrow> (m # r, n))
         else if missingIds m tools = [] then (case sanitizeToolCallPairing rest of (r, n) \<Rightarrow> (m # r, n))
         else if \<exists>t\<in>set tools. ms_toolCallId t \<noteq> None
         then (case sanitizeToolCallPairing rest of (r, n) \<Rightarrow>
           (m\<lparr>ms_toolCalls := map_option (filter (\<lambda>c. pc_toolCallId c \<notin> set (missingIds m tools))) (ms_toolCalls m)\<rparr> # r,
            length (missingIds m tools) + n))
         else (case sanitizeToolCallPairing after of (r, n) \<Rightarrow>
           (m # tools @ map (missingResult m) (missingIds m tools) @ r, length (missingIds m tools) + n)))"
  by pat_completeness auto
termination
  by (relation "measure length") (auto simp: le_imp_less_Suc length_dropWhile_le)

end
