(* ===== verification/ContextCache.thy ===== *)
theory ContextCache
  imports Conversation
begin

section \<open>What is kept beside the conversation\<close>

text \<open>
  The cache of recently read files (recent-file-reads.ts), the spilling of large tool outputs
  (tool-output-budget.ts), requests for manual compaction (manual-compact-coordinator.ts), the hand-over text
  (compact-handoff.ts), all under src/src/runtime/context, and the decision to compact
  (src/src/memory/compact-policy.ts).
\<close>

subsection \<open>Clipping a file\<close>

text \<open>
  \<open>Buffer.byteLength\<close> on the characters of the model. \<open>Buffer.from(v).subarray(a, b).toString()\<close>, which may cut a
  character in two, is the parameter \<open>slice\<close>.
\<close>

definition byteLength :: "string \<Rightarrow> nat" where
  "byteLength s = sum_list (map (\<lambda>c. if (of_char c :: nat) < 128 then 1 else 2) s)"

type_synonym slicer = "string \<Rightarrow> nat \<Rightarrow> nat \<Rightarrow> string"

definition clipFileContent :: "slicer \<Rightarrow> string \<Rightarrow> nat \<Rightarrow> string \<times> bool" where
  "clipFileContent slice content maxBytes =
     (let bytes = byteLength content
      in if bytes \<le> maxBytes then (content, False)
         else let headBytes = maxBytes * 7 div 10; tailBytes = maxBytes * 25 div 100;
                  head1 = slice content 0 headBytes;
                  tail1 = slice content (bytes - tailBytes) tailBytes;
                  elided = int bytes - int (byteLength head1) - int (byteLength tail1);
                  clipped = head1 @ [CHR 0x0A] @ ''... <'' @ showInt elided @ '' bytes elided> ...'' @ [CHR 0x0A] @ tail1
              in (if byteLength clipped > maxBytes then slice clipped 0 maxBytes else clipped, True))"

subsection \<open>Recently read files\<close>

record ContextRetentionConfig =
  cr_maxFiles :: nat
  cr_maxBytesPerFile :: nat
  cr_maxTotalBytes :: nat
  cr_maxBytesPerFileUnderGuard :: nat
  cr_maxTotalBytesUnderGuard :: nat
  cr_toolOutputMaxTokens :: nat
  cr_toolResultKeepGroups :: nat

definition DEFAULT_CONTEXT_RETENTION :: ContextRetentionConfig where
  "DEFAULT_CONTEXT_RETENTION = \<lparr>cr_maxFiles = 8, cr_maxBytesPerFile = 24000, cr_maxTotalBytes = 128000,
     cr_maxBytesPerFileUnderGuard = 24000, cr_maxTotalBytesUnderGuard = 200000, cr_toolOutputMaxTokens = 2500,
     cr_toolResultKeepGroups = 5\<rparr>"

datatype RecentFileReadCacheMode = Cache_normal | Cache_write_required

record RecentFileReadEntry =
  fe_path :: string
  fe_content :: string
  fe_readAt :: instant
  fe_toolCallId :: "string option"
  fe_bytes :: nat
  fe_truncated :: bool
  fe_order :: nat

record RecentFileReadCache =
  fc_entries :: "RecentFileReadEntry list"
  fc_mode :: RecentFileReadCacheMode
  fc_nextOrder :: nat
  fc_config :: ContextRetentionConfig

definition newRecentFileReadCache :: "ContextRetentionConfig \<Rightarrow> RecentFileReadCache" where
  "newRecentFileReadCache config = \<lparr>fc_entries = [], fc_mode = Cache_normal, fc_nextOrder = 0, fc_config = config\<rparr>"

definition setMode :: "RecentFileReadCacheMode \<Rightarrow> RecentFileReadCache \<Rightarrow> RecentFileReadCache" where
  "setMode mode c = c\<lparr>fc_mode := mode\<rparr>"

definition currentPerFileBudget :: "RecentFileReadCache \<Rightarrow> nat" where
  "currentPerFileBudget c = (if fc_mode c = Cache_write_required then cr_maxBytesPerFileUnderGuard (fc_config c)
     else cr_maxBytesPerFile (fc_config c))"

definition currentTotalBudget :: "RecentFileReadCache \<Rightarrow> nat" where
  "currentTotalBudget c = (if fc_mode c = Cache_write_required then cr_maxTotalBytesUnderGuard (fc_config c)
     else cr_maxTotalBytes (fc_config c))"

definition entryOf :: "string \<Rightarrow> RecentFileReadCache \<Rightarrow> RecentFileReadEntry option" where
  "entryOf path c = List.find (\<lambda>e. fe_path e = path) (fc_entries c)"

text \<open>\<open>Map.set\<close> and \<open>Map.delete\<close>: a key that is present keeps its place.\<close>

definition setEntry :: "RecentFileReadEntry \<Rightarrow> RecentFileReadEntry list \<Rightarrow> RecentFileReadEntry list" where
  "setEntry e es = (if \<exists>x\<in>set es. fe_path x = fe_path e then map (\<lambda>x. if fe_path x = fe_path e then e else x) es else es @ [e])"

definition evict :: "string \<Rightarrow> RecentFileReadCache \<Rightarrow> RecentFileReadCache" where
  "evict path c = c\<lparr>fc_entries := filter (\<lambda>e. fe_path e \<noteq> trim path) (fc_entries c)\<rparr>"

definition totalBytes :: "RecentFileReadEntry list \<Rightarrow> nat" where
  "totalBytes es = sum_list (map fe_bytes es)"

definition newestFirst :: "RecentFileReadEntry list \<Rightarrow> RecentFileReadEntry list" where
  "newestFirst es = sort_key (\<lambda>e. - int (fe_order e)) es"

text \<open>The second loop of \<open>enforceLimits\<close>: the oldest go while the rest is too big and more than one is left.\<close>

function dropOldestFiles :: "nat \<Rightarrow> RecentFileReadEntry list \<Rightarrow> RecentFileReadEntry list" where
  "dropOldestFiles budget sorted1 =
     (if totalBytes sorted1 > budget \<and> length sorted1 > 1 then dropOldestFiles budget (butlast sorted1) else sorted1)"
  by auto
termination by (relation "measure (\<lambda>(_, es). length es)") auto

declare dropOldestFiles.simps [simp del]

definition enforceLimits :: "RecentFileReadCache \<Rightarrow> RecentFileReadCache" where
  "enforceLimits c =
     (let kept = dropOldestFiles (currentTotalBudget c) (take (cr_maxFiles (fc_config c)) (newestFirst (fc_entries c)))
      in c\<lparr>fc_entries := filter (\<lambda>e. fe_path e \<in> fe_path ` set kept) (fc_entries c)\<rparr>)"

definition recordRead :: "slicer \<Rightarrow> instant \<Rightarrow> string \<Rightarrow> string \<Rightarrow> string option \<Rightarrow> RecentFileReadCache \<Rightarrow> RecentFileReadCache" where
  "recordRead slice now path content toolCallId c =
     (let p = trim path
      in if p = [] then c
         else let usedWithoutPrevious = totalBytes (fc_entries c) - (case entryOf p c of None \<Rightarrow> 0 | Some e \<Rightarrow> fe_bytes e);
                  remainingTotalBudget = currentTotalBudget c - usedWithoutPrevious;
                  clipBudget = min (currentPerFileBudget c) remainingTotalBudget
              in case clipFileContent slice content (max clipBudget 1) of
                   (clipped, truncated) \<Rightarrow>
                     let e = \<lparr>fe_path = p, fe_content = clipped, fe_readAt = now, fe_toolCallId = toolCallId,
                              fe_bytes = byteLength clipped, fe_truncated = truncated, fe_order = fc_nextOrder c + 1\<rparr>
                     in enforceLimits (c\<lparr>fc_nextOrder := fc_nextOrder c + 1, fc_entries := setEntry e (fc_entries c)\<rparr>))"

definition normalizeCachePath :: "string \<Rightarrow> string" where
  "normalizeCachePath v = lower (rev (dropWhile (\<lambda>c. c = CHR ''/'') (rev (map (\<lambda>c. if c = CHR 0x5C then CHR ''/'' else c) v))))"

definition endsWithStr :: "string \<Rightarrow> string \<Rightarrow> bool" where
  "endsWithStr s t = startsWith (rev s) (rev t)"

definition recentFilePathsMatch :: "string \<Rightarrow> string \<Rightarrow> bool" where
  "recentFilePathsMatch left right =
     (let a = normalizeCachePath left; b = normalizeCachePath right
      in a = b \<or> endsWithStr a (''/'' @ b) \<or> endsWithStr b (''/'' @ a))"

definition retainMatching :: "string \<Rightarrow> RecentFileReadCache \<Rightarrow> string list \<times> RecentFileReadCache" where
  "retainMatching keepPath c =
     (let keep = trim keepPath
      in if keep = [] then ([], c)
         else (map fe_path (filter (\<lambda>e. \<not> recentFilePathsMatch (fe_path e) keep) (fc_entries c)),
               c\<lparr>fc_entries := filter (\<lambda>e. recentFilePathsMatch (fe_path e) keep) (fc_entries c)\<rparr>))"

fun selectEntries :: "nat \<Rightarrow> nat \<Rightarrow> RecentFileReadEntry list \<Rightarrow> RecentFileReadEntry list \<Rightarrow> RecentFileReadEntry list" where
  "selectEntries maxFiles budget selected [] = selected"
| "selectEntries maxFiles budget selected (e # rest) =
     (if length selected \<ge> maxFiles then selected
      else if selected \<noteq> [] \<and> totalBytes selected + fe_bytes e > budget then selectEntries maxFiles budget selected rest
      else selectEntries maxFiles budget (selected @ [e]) rest)"

definition listEntries :: "RecentFileReadCache \<Rightarrow> RecentFileReadEntry list" where
  "listEntries c = selectEntries (cr_maxFiles (fc_config c)) (currentTotalBudget c) [] (newestFirst (fc_entries c))"

text \<open>Reading again from disk: \<open>disk\<close> answers with the contents, or \<open>None\<close> when reading fails.\<close>

fun refetchLoop :: "slicer \<Rightarrow> instant \<Rightarrow> (string \<Rightarrow> string option) \<Rightarrow> string list \<Rightarrow> string list \<Rightarrow> string list \<Rightarrow>
    RecentFileReadCache \<Rightarrow> (string list \<times> string list) \<times> RecentFileReadCache" where
  "refetchLoop slice now disk [] evicted refetched c = ((evicted, refetched), c)"
| "refetchLoop slice now disk (path # rest) evicted refetched c =
     (case disk path of
        None \<Rightarrow> refetchLoop slice now disk rest (evicted @ [path]) refetched (c\<lparr>fc_entries := filter (\<lambda>e. fe_path e \<noteq> path) (fc_entries c)\<rparr>)
      | Some content \<Rightarrow> refetchLoop slice now disk rest evicted (refetched @ [path])
          (recordRead slice now path content (case entryOf path c of None \<Rightarrow> None | Some e \<Rightarrow> fe_toolCallId e) c))"

definition refetchFromDisk :: "slicer \<Rightarrow> instant \<Rightarrow> (string \<Rightarrow> string option) \<Rightarrow> RecentFileReadCache \<Rightarrow>
    (string list \<times> string list) \<times> RecentFileReadCache" where
  "refetchFromDisk slice now disk c = refetchLoop slice now disk (map fe_path (fc_entries c)) [] [] c"

definition recordRecentFileReadFromToolCall :: "slicer \<Rightarrow> instant \<Rightarrow> string \<Rightarrow> json \<Rightarrow> string option \<Rightarrow> RecentFileReadCache \<Rightarrow>
    RecentFileReadCache" where
  "recordRecentFileReadFromToolCall slice now toolName out toolCallId c =
     (if toolName \<noteq> ''read_file'' then c
      else case out of
             JObj o1 \<Rightarrow> (case (jget o1 ''content'', jget o1 ''path'') of
               (Some (JStr content), Some (JStr path)) \<Rightarrow> recordRead slice now path content toolCallId c
             | _ \<Rightarrow> c)
           | _ \<Rightarrow> c)"

subsection \<open>The pinned message\<close>

definition RECENT_FILE_READS_SOURCE_TYPE :: string where "RECENT_FILE_READS_SOURCE_TYPE = ''recent_file_reads''"

definition isPinnedRecentFilesMessage :: "ConversationMessage \<Rightarrow> bool" where
  "isPinnedRecentFilesMessage m \<longleftrightarrow> ms_role m = Role_system \<and>
     metaOf m ''sourceType'' = Some (JStr RECENT_FILE_READS_SOURCE_TYPE) \<and> metaOf m ''pinned'' = Some (JBool True)"

definition splitPinnedMessages :: "msgs \<Rightarrow> msgs \<times> msgs" where
  "splitPinnedMessages ms = (filter isPinnedRecentFilesMessage ms, filter (\<lambda>m. \<not> isPinnedRecentFilesMessage m) ms)"

definition pinnedMetadata :: "string \<Rightarrow> json_object" where
  "pinnedMetadata sourceType = [(''pinned'', JBool True), (''privacyLevel'', JStr ''internal''),
     (''retentionKind'', JStr ''session''), (''sourceType'', JStr sourceType)]"

definition fileBlock :: "RecentFileReadEntry \<Rightarrow> string" where
  "fileBlock e = joinWith [CHR 0x0A] [''### '' @ fe_path e @ (if fe_truncated e then '' (truncated)'' else []), ''```'', fe_content e, ''```'']"

text \<open>The order of paths, \<open>localeCompare\<close>, is the parameter \<open>collate\<close>: a rank for each path.\<close>

definition buildPinnedRecentFilesMessage :: "(string \<Rightarrow> nat) \<Rightarrow> RecentFileReadEntry list \<Rightarrow> ConversationMessage option" where
  "buildPinnedRecentFilesMessage collate entries =
     (if entries = [] then None
      else Some (systemMessage
        (joinWith [CHR 0x0A, CHR 0x0A]
          (''Recently read files (most recent first, current disk contents). Use these excerpts for patches - do not edit from memory.'' #
           map fileBlock (sort_key (\<lambda>e. collate (fe_path e)) entries)))
        (pinnedMetadata RECENT_FILE_READS_SOURCE_TYPE)))"

text \<open>Insertion behind the first system message that is not of the given source, or at the front.\<close>

definition insertPinned :: "string \<Rightarrow> ConversationMessage \<Rightarrow> msgs \<Rightarrow> msgs" where
  "insertPinned sourceType p ms =
     (let k = length (takeWhile (\<lambda>m. \<not> (ms_role m = Role_system \<and> metaOf m ''sourceType'' \<noteq> Some (JStr sourceType))) ms)
      in if k < length ms then take (k + 1) ms @ [p] @ drop (k + 1) ms else p # ms)"

definition syncPinnedRecentFilesMessage :: "(string \<Rightarrow> nat) \<Rightarrow> RecentFileReadCache option \<Rightarrow> msgs \<Rightarrow>
    ConversationMessage option \<times> msgs" where
  "syncPinnedRecentFilesMessage collate cache ms =
     (let existing = List.find isPinnedRecentFilesMessage ms; without = filter (\<lambda>m. \<not> isPinnedRecentFilesMessage m) ms
      in case (case cache of None \<Rightarrow> None | Some c \<Rightarrow> buildPinnedRecentFilesMessage collate (listEntries c)) of
           None \<Rightarrow> (None, without)
         | Some pinned \<Rightarrow>
             (case existing of
                Some e \<Rightarrow> if ms_content e = ms_content pinned then (Some e, ms)
                  else (Some pinned, insertPinned RECENT_FILE_READS_SOURCE_TYPE pinned without)
              | None \<Rightarrow> (Some pinned, insertPinned RECENT_FILE_READS_SOURCE_TYPE pinned without)))"

definition formatRecentlyReadFilesSummary :: "RecentFileReadEntry list \<Rightarrow> string" where
  "formatRecentlyReadFilesSummary entries =
     (if entries = [] then ''[none]''
      else joinWith ''; '' (map (\<lambda>e. fe_path e @ '' ('' @ showNat (fe_bytes e) @ '' bytes'' @
        (if fe_truncated e then '', truncated'' else []) @ '')'') entries))"

subsection \<open>Large tool outputs\<close>

record ToolOutputBudgetResult =
  tb_artifactPath :: "string option"
  tb_content :: string
  tb_spilled :: bool
  tb_truncated :: bool

definition safeNameChar :: "char \<Rightarrow> bool" where
  "safeNameChar c \<longleftrightarrow> (let n = (of_char c :: nat) in (97 \<le> n \<and> n \<le> 122) \<or> (65 \<le> n \<and> n \<le> 90) \<or> (48 \<le> n \<and> n \<le> 57)) \<or>
     c = CHR ''.'' \<or> c = CHR ''_'' \<or> c = CHR ''-''"

definition sanitizeArtifactName :: "string \<Rightarrow> string" where
  "sanitizeArtifactName v = collapseBy (\<lambda>c. \<not> safeNameChar c) (CHR ''_'') v"

definition previewBytes :: "nat \<Rightarrow> nat" where
  "previewBytes tokens = max 256 (tokens * 400 div 133)"

definition buildSpillEnvelope :: "slicer \<Rightarrow> string \<Rightarrow> string \<Rightarrow> nat \<Rightarrow> nat \<Rightarrow> string" where
  "buildSpillEnvelope slice full path originalTokens maxTokens =
     (let footer = [CHR 0x0A, CHR 0x0A] @ ''Full tool output saved to: '' @ path @ [CHR 0x0A] @ ''(original ~'' @ showNat originalTokens @
            '' tokens; inline preview capped at ~'' @ showNat maxTokens @ '' tokens)'';
          previewBudget = max 100 (maxTokens - estimateMessageTokens footer)
      in fst (clipFileContent slice full (previewBytes previewBudget)) @ footer)"

definition buildTruncateEnvelope :: "string \<Rightarrow> nat \<Rightarrow> bool \<Rightarrow> string" where
  "buildTruncateEnvelope content originalTokens truncated =
     (if \<not> truncated then content
      else content @ [CHR 0x0A, CHR 0x0A] @ ''[tool output truncated: ~'' @ showNat originalTokens @
        '' tokens; re-invoke tool for full result]'')"

text \<open>
  \<open>joinPath\<close> is \<open>path.join\<close> and \<open>write\<close> says whether creating the directory and writing the file succeeds.
\<close>

definition applyToolOutputBudget :: "slicer \<Rightarrow> (string list \<Rightarrow> string) \<Rightarrow> (string \<Rightarrow> string \<Rightarrow> bool) \<Rightarrow> string \<Rightarrow> nat \<Rightarrow>
    string \<Rightarrow> string \<Rightarrow> string \<Rightarrow> ToolOutputBudgetResult" where
  "applyToolOutputBudget slice joinPath write artifactsRoot maxTokensPerResult serialized taskId toolCallId =
     (let originalTokens = estimateMessageTokens serialized
      in if originalTokens \<le> maxTokensPerResult
         then \<lparr>tb_artifactPath = None, tb_content = serialized, tb_spilled = False, tb_truncated = False\<rparr>
         else let artifactDir = joinPath [artifactsRoot, taskId];
                  artifactPath = joinPath [artifactDir, sanitizeArtifactName toolCallId @ ''.txt'']
              in if write artifactPath serialized
                 then \<lparr>tb_artifactPath = Some artifactPath,
                       tb_content = buildSpillEnvelope slice serialized artifactPath originalTokens maxTokensPerResult,
                       tb_spilled = True, tb_truncated = False\<rparr>
                 else case clipFileContent slice serialized (previewBytes maxTokensPerResult) of
                        (content, truncated) \<Rightarrow> \<lparr>tb_artifactPath = None, tb_content = buildTruncateEnvelope content originalTokens truncated,
                           tb_spilled = False, tb_truncated = True\<rparr>)"

subsection \<open>When to compact\<close>

datatype CompactReason = Compact_message_count | Compact_context_budget | Compact_token_budget | Compact_tool_call_count
  | Compact_iteration_count | Compact_unsafe_breakpoint | Compact_cooldown

record CompactDecision =
  cd_triggered :: bool
  cd_reason :: "CompactReason option"

record SessionCompactInput =
  si_taskId :: string
  si_sessionScopeKey :: string
  si_messages :: msgs
  si_maxMessagesBeforeCompact :: nat
  si_contextWindowTokens :: "nat option"
  si_protectFirstN :: "nat option"
  si_protectLastN :: "nat option"
  si_targetTokenBudget :: "nat option"
  si_tokenEstimate :: "nat option"
  si_tokenThreshold :: "nat option"
  si_toolCallCount :: "nat option"
  si_toolCallThreshold :: "nat option"
  si_iteration :: "nat option"
  si_iterationThreshold :: "nat option"
  si_minTokenPressureRatio :: "rat option"
  si_compactCooldownRemaining :: "nat option"
  si_pendingToolCalls :: "ProviderToolCall list option"
  si_originalGoal :: "string option"
  si_recentlyReadFilesSummary :: "string option"
  si_previousSummary :: "string option"
  si_focusTopic :: "string option"

text \<open>\<open>(threshold ?? Infinity) <= (value ?? 0)\<close>.\<close>

definition reaches :: "nat option \<Rightarrow> nat option \<Rightarrow> bool" where
  "reaches threshold value = (case threshold of None \<Rightarrow> False | Some t \<Rightarrow> t \<le> (case value of None \<Rightarrow> 0 | Some v \<Rightarrow> v))"

definition hasTokenPressure :: "SessionCompactInput \<Rightarrow> bool" where
  "hasTokenPressure input =
     (let ratio = (case si_minTokenPressureRatio input of None \<Rightarrow> 1 / 2 | Some r \<Rightarrow> r)
      in if ratio \<le> 0 then True
         else case si_tokenThreshold input of
                None \<Rightarrow> True
              | Some t \<Rightarrow> rat_of_nat (case si_tokenEstimate input of None \<Rightarrow> 0 | Some e \<Rightarrow> e) \<ge> ratio * rat_of_nat t)"

definition isSafeCompactPoint :: "SessionCompactInput \<Rightarrow> bool" where
  "isSafeCompactPoint input =
     (let ms = si_messages input
      in if (case si_pendingToolCalls input of None \<Rightarrow> False | Some cs \<Rightarrow> cs \<noteq> []) then False
         else if ms \<noteq> [] \<and> isTool (last ms) then True
         else if ms \<noteq> [] \<and> ms_role (last ms) = Role_assistant \<and> \<not> hasCalls (last ms) then True
         else case List.find hasCalls (rev ms) of
                None \<Rightarrow> True
              | Some m \<Rightarrow> list_all (\<lambda>i. i \<in> answered (filter isTool ms)) (callIds m))"

definition shouldCompact :: "SessionCompactInput \<Rightarrow> CompactDecision" where
  "shouldCompact input =
     (if \<not> isSafeCompactPoint input then \<lparr>cd_triggered = False, cd_reason = Some Compact_unsafe_breakpoint\<rparr>
      else if (case si_compactCooldownRemaining input of None \<Rightarrow> 0 | Some n \<Rightarrow> n) > 0
      then \<lparr>cd_triggered = False, cd_reason = Some Compact_cooldown\<rparr>
      else if reaches (si_tokenThreshold input) (si_tokenEstimate input)
      then \<lparr>cd_triggered = True, cd_reason = Some Compact_token_budget\<rparr>
      else if hasTokenPressure input \<and> reaches (si_toolCallThreshold input) (si_toolCallCount input)
      then \<lparr>cd_triggered = True, cd_reason = Some Compact_tool_call_count\<rparr>
      else if hasTokenPressure input \<and> reaches (si_iterationThreshold input) (si_iteration input)
      then \<lparr>cd_triggered = True, cd_reason = Some Compact_iteration_count\<rparr>
      else if hasTokenPressure input \<and> length (si_messages input) \<ge> si_maxMessagesBeforeCompact input
      then \<lparr>cd_triggered = True, cd_reason = Some Compact_message_count\<rparr>
      else \<lparr>cd_triggered = False, cd_reason = None\<rparr>)"

definition resolveCompactCooldown :: "int \<Rightarrow> nat \<Rightarrow> nat option \<Rightarrow> int" where
  "resolveCompactCooldown cooldownIterations postCompactTokens tokenThreshold =
     (if cooldownIterations \<le> 0 then 0
      else case tokenThreshold of None \<Rightarrow> 0 | Some t \<Rightarrow> if postCompactTokens \<ge> t then cooldownIterations else 0)"

subsection \<open>The hand-over\<close>

record RoleCounts =
  rc_assistant :: nat
  rc_tool :: nat
  rc_total :: nat
  rc_user :: nat

definition countCompactedMessageRoles :: "msgs \<Rightarrow> RoleCounts" where
  "countCompactedMessageRoles ms =
     \<lparr>rc_assistant = length (filter (\<lambda>m. ms_role m = Role_assistant) ms), rc_tool = length (filter isTool ms),
      rc_total = length ms, rc_user = length (filter (\<lambda>m. ms_role m = Role_user) ms)\<rparr>"

definition preserveOne :: "msgs \<Rightarrow> ConversationMessage \<Rightarrow> nat list \<Rightarrow> nat list" where
  "preserveOne allMessages p kept =
     (case List.find (\<lambda>i. i \<notin> set kept \<and> ms_role (allMessages ! i) = ms_role p \<and> ms_content (allMessages ! i) = ms_content p)
         [0..<length allMessages] of
        None \<Rightarrow> kept | Some i \<Rightarrow> kept @ [i])"

definition collectPreservedIndices :: "msgs \<Rightarrow> msgs \<Rightarrow> nat list" where
  "collectPreservedIndices allMessages preserved = fold (preserveOne allMessages) preserved []"

definition listDiscardedMessages :: "msgs \<Rightarrow> msgs \<Rightarrow> msgs" where
  "listDiscardedMessages allMessages preserved =
     map ((!) allMessages) (filter (\<lambda>i. i \<notin> set (collectPreservedIndices allMessages preserved)) [0..<length allMessages])"

definition buildSessionHandoffMessageContent :: "msgs \<Rightarrow> string \<Rightarrow> string" where
  "buildSessionHandoffMessageContent compacted summary =
     (let c = countCompactedMessageRoles compacted
      in joinWith [CHR 0x0A]
        [''This session is being continued from a previous conversation.'',
         ''The summary below covers earlier work. Recent messages and todos are preserved.'',
         ''Continue without re-asking what the user wants. Do not repeat completed work.'',
         ''Compacted '' @ showNat (rc_total c) @ '' earlier messages (user='' @ showNat (rc_user c) @ '', assistant='' @
           showNat (rc_assistant c) @ '', tool='' @ showNat (rc_tool c) @ '').'',
         [], ''Session handoff:'', summary])"

subsection \<open>Manual compaction\<close>

record ManualCompactRequest =
  mq_focusTopic :: "string option"
  mq_requestedAt :: instant

type_synonym manual_requests = "string \<Rightarrow> ManualCompactRequest option"

definition requestCompact :: "instant \<Rightarrow> string \<Rightarrow> string option \<Rightarrow> manual_requests \<Rightarrow> manual_requests" where
  "requestCompact now taskId focusTopic pending = pending(taskId \<mapsto>
     \<lparr>mq_focusTopic = (case focusTopic of None \<Rightarrow> None | Some t \<Rightarrow> if trim t = [] then None else Some (trim t)),
      mq_requestedAt = now\<rparr>)"

definition consumeCompact :: "string \<Rightarrow> manual_requests \<Rightarrow> ManualCompactRequest option \<times> manual_requests" where
  "consumeCompact taskId pending = (case pending taskId of None \<Rightarrow> (None, pending) | Some r \<Rightarrow> (Some r, pending(taskId := None)))"

end
