(* ===== verification/ConversationProps.thy ===== *)
theory ConversationProps
  imports Conversation
begin

section \<open>Properties of conversations\<close>

text \<open>
  A conversation is paired when tool results only stand right behind an assistant's calls and every call has a result
  there. Model providers reject requests that are not. The functions of \<open>Conversation\<close> keep or establish this.
\<close>

primrec pairedFrom :: "bool \<Rightarrow> msgs \<Rightarrow> bool" where
  "pairedFrom afterCalls [] = True"
| "pairedFrom afterCalls (m # rest) =
     (if isTool m then afterCalls \<and> pairedFrom afterCalls rest
      else if hasCalls m then set (callIds m) \<subseteq> answered (takeWhile isTool rest) \<and> pairedFrom True rest
      else pairedFrom False rest)"

definition paired :: "msgs \<Rightarrow> bool" where
  "paired ms \<longleftrightarrow> pairedFrom False ms"

text \<open>The weaker half: every call has its result, though a result may be without its call.\<close>

primrec allAnswered :: "msgs \<Rightarrow> bool" where
  "allAnswered [] = True"
| "allAnswered (m # rest) = ((hasCalls m \<longrightarrow> set (callIds m) \<subseteq> answered (takeWhile isTool rest)) \<and> allAnswered rest)"

lemma hasCalls_not_tool: "hasCalls m \<Longrightarrow> \<not> isTool m"
  by (simp add: hasCalls_def isTool_def)

lemma paired_allAnswered: "pairedFrom b ms \<Longrightarrow> allAnswered ms"
  by (induction ms arbitrary: b) (auto simp: hasCalls_not_tool split: if_splits)

lemma pairedFrom_head: "ms = [] \<or> \<not> isTool (hd ms) \<Longrightarrow> pairedFrom b ms = pairedFrom c ms"
  by (cases ms) auto

lemma pairedFrom_mono: "pairedFrom False ms \<Longrightarrow> pairedFrom b ms"
  by (cases b) (induction ms, auto split: if_splits)

lemma takeWhile_block: "ys = [] \<or> \<not> P (hd ys) \<Longrightarrow> takeWhile P (xs @ ys) = takeWhile P xs"
  by (induction xs) (cases ys, auto)

lemma pairedFrom_append:
  assumes "ys = [] \<or> \<not> isTool (hd ys)"
  shows "pairedFrom b (xs @ ys) \<longleftrightarrow> pairedFrom b xs \<and> pairedFrom False ys"
proof (induction xs arbitrary: b)
  case Nil
  show ?case using pairedFrom_head [OF assms] by simp
next
  case (Cons x xs)
  then show ?case using takeWhile_block [of ys isTool xs] assms by auto
qed

lemma pairedFrom_split:
  assumes "pairedFrom b ms" and "k < length ms \<Longrightarrow> \<not> isTool (ms ! k)"
  shows "pairedFrom b (take k ms)" and "pairedFrom False (drop k ms)"
proof -
  have "drop k ms = [] \<or> \<not> isTool (hd (drop k ms))" using assms(2) by (cases "k < length ms") (auto simp: hd_drop_conv_nth)
  from pairedFrom_append [OF this, of b "take k ms"] assms(1)
  show "pairedFrom b (take k ms)" "pairedFrom False (drop k ms)" by simp_all
qed

lemma pairedFrom_drop: "pairedFrom False ms \<Longrightarrow> (k < length ms \<Longrightarrow> \<not> isTool (ms ! k)) \<Longrightarrow> pairedFrom False (drop k ms)"
  by (rule pairedFrom_split(2))

lemma backOverTools_Some: "backOverTools ms n = Some i \<Longrightarrow> i < n \<and> \<not> isTool (ms ! i) \<and> (\<forall>j. i < j \<and> j < n \<longrightarrow> isTool (ms ! j))"
  by (induction n) (auto split: if_splits simp: less_Suc_eq)

lemma backOverTools_None: "backOverTools ms n = None \<longleftrightarrow> (\<forall>j<n. isTool (ms ! j))"
  by (induction n) (auto simp: less_Suc_eq)

text \<open>In a paired conversation a tool result has an assistant's calls before it, with only results in between.\<close>

lemma owner:
  assumes "pairedFrom False ms" "k < length ms" "isTool (ms ! k)"
  shows "\<exists>i. backOverTools ms k = Some i \<and> hasCalls (ms ! i)"
proof (cases "backOverTools ms k")
  case None
  then have "\<forall>j\<le>k. isTool (ms ! j)" using assms(3) by (auto simp: backOverTools_None le_less)
  then have "isTool (hd ms)" using assms(2) by (cases ms) auto
  with assms(1,2) show ?thesis by (cases ms) auto
next
  case (Some i)
  note i = backOverTools_Some [OF Some]
  have d: "pairedFrom False (drop i ms)" by (rule pairedFrom_drop [OF assms(1)]) (use i in blast)
  have "drop i ms = ms ! i # drop (Suc i) ms" using i assms(2) by (simp add: Cons_nth_drop_Suc)
  moreover have "isTool (ms ! Suc i)" using i assms(3) by (cases "Suc i = k") auto
  then have "\<exists>t r. drop (Suc i) ms = t # r \<and> isTool t"
    using i assms(2) by (metis Cons_nth_drop_Suc Suc_leI order_le_less_trans)
  ultimately show ?thesis using d i Some by (auto split: if_splits)
qed

subsection \<open>The tail\<close>

lemma growTail_le: "growTail ms b s \<le> s"
proof (induction ms b s rule: growTail.induct)
  case (1 ms b s)
  show ?case
  proof (cases "findPreviousSafeBoundary ms s")
    case (Some i)
    with 1 [OF Some] backOverTools_less show ?thesis
      by (subst growTail.simps) (fastforce simp: findPreviousSafeBoundary_def split: option.splits)
  qed (subst growTail.simps, simp)
qed

text \<open>The loop stops at a boundary, and only where one message more would not fit.\<close>

lemma growTail_stops:
  "case findPreviousSafeBoundary ms (growTail ms b s) of None \<Rightarrow> True
    | Some i \<Rightarrow> \<exists>n. b = Some n \<and> estimateMessagesSlice ms i > n"
proof (induction ms b s rule: growTail.induct)
  case (1 ms b s)
  show ?case
  proof (cases "findPreviousSafeBoundary ms s")
    case None
    then have "growTail ms b s = s" by (subst growTail.simps) simp
    with None show ?thesis by simp
  next
    case (Some i)
    show ?thesis
    proof (cases "case b of None \<Rightarrow> False | Some n \<Rightarrow> estimateMessagesSlice ms i > n")
      case True
      then have "growTail ms b s = s" using Some by (subst growTail.simps) simp
      with True Some show ?thesis by (auto split: option.splits)
    next
      case False
      then have "growTail ms b s = growTail ms b i" using Some by (subst growTail.simps) auto
      with 1 [OF Some False] show ?thesis by simp
    qed
  qed
qed

lemma growTail_boundary:
  "growTail ms b s = s \<or> (\<not> isTool (ms ! growTail ms b s) \<and> (\<forall>n. b = Some n \<longrightarrow> estimateMessagesSlice ms (growTail ms b s) \<le> n))"
proof (induction ms b s rule: growTail.induct)
  case (1 ms b s)
  show ?case
  proof (cases "findPreviousSafeBoundary ms s")
    case None
    then show ?thesis by (subst growTail.simps) simp
  next
    case (Some i)
    show ?thesis
    proof (cases "case b of None \<Rightarrow> False | Some n \<Rightarrow> estimateMessagesSlice ms i > n")
      case True
      then show ?thesis using Some by (subst growTail.simps) simp
    next
      case False
      then have g: "growTail ms b s = growTail ms b i" using Some by (subst growTail.simps) auto
      have "\<not> isTool (ms ! i)" using Some backOverTools_Some by (auto simp: findPreviousSafeBoundary_def)
      with 1 [OF Some False] False show ?thesis unfolding g by (auto split: option.splits)
    qed
  qed
qed

lemma rewind_boundary:
  assumes "pairedFrom False ms"
  shows "rewindToToolCallBoundary ms s \<le> s \<and>
    (rewindToToolCallBoundary ms s < length ms \<longrightarrow> \<not> isTool (ms ! rewindToToolCallBoundary ms s))"
proof (cases "s < length ms \<and> isTool (ms ! s)")
  case True
  with owner [OF assms] obtain i where "backOverTools ms s = Some i" "hasCalls (ms ! i)" by blast
  with True backOverTools_Some [of ms s i] hasCalls_not_tool show ?thesis by (auto simp: rewindToToolCallBoundary_def)
next
  case False
  then show ?thesis by (auto simp: rewindToToolCallBoundary_def)
qed

text \<open>
  C38: the tail kept by compaction is a suffix of the conversation that can be sent on its own. It has at least the
  protected number of messages; in a paired conversation it is paired again, so no tool result is cut off from
  its call; its token count is exact; it exceeds the budget only when the protected messages, together with the
  call that owns the first of them, do; and it is as long as possible: what precedes it is only tool results, or
  the next message it could start with would exceed the budget.
\<close>

theorem tail_is_sendable:
  assumes "paired ms"
  shows "\<exists>k. tr_messages (selectTailMessages ms config) = drop k ms \<and>
    length (tr_messages (selectTailMessages ms config)) \<ge>
      min (length ms) (max (case ts_protectLastN config of None \<Rightarrow> 0 | Some n \<Rightarrow> n) (ts_tailMinMessages config)) \<and>
    paired (tr_messages (selectTailMessages ms config)) \<and>
    tr_usedTokens (selectTailMessages ms config) =
      sum_list (map estimateConversationMessageTokens (tr_messages (selectTailMessages ms config))) \<and>
    (\<forall>b. ts_tailTokenBudget config = Some b \<longrightarrow> tr_usedTokens (selectTailMessages ms config) > b \<longrightarrow>
       k = rewindToToolCallBoundary ms (length ms - min (length ms)
         (max (case ts_protectLastN config of None \<Rightarrow> 0 | Some n \<Rightarrow> n) (ts_tailMinMessages config)))) \<and>
    (case backOverTools ms k of None \<Rightarrow> k = 0
      | Some i \<Rightarrow> \<exists>b. ts_tailTokenBudget config = Some b \<and> sum_list (map estimateConversationMessageTokens (drop i ms)) > b)"
proof (cases "ms = []")
  case True
  then show ?thesis by (auto simp: selectTailMessages_def paired_def rewindToToolCallBoundary_def intro!: exI [of _ 0])
next
  case False
  let ?keep = "min (length ms) (max (case ts_protectLastN config of None \<Rightarrow> 0 | Some n \<Rightarrow> n) (ts_tailMinMessages config))"
  let ?r = "rewindToToolCallBoundary ms (length ms - ?keep)" and ?b = "ts_tailTokenBudget config"
  define k where "k = growTail ms ?b ?r"
  have "tailStart ms config = k"
    by (cases "ts_protectLastN config") (simp_all add: tailStart_def Let_def k_def min.commute max.assoc)
  then have sel: "tr_messages (selectTailMessages ms config) = drop k ms"
    "tr_usedTokens (selectTailMessages ms config) = estimateMessagesSlice ms k"
    using False by (simp_all add: selectTailMessages_def Let_def)
  note rw = rewind_boundary [OF assms [unfolded paired_def], of "length ms - ?keep"]
  have le: "k \<le> length ms - ?keep" using growTail_le rw unfolding k_def by (meson le_trans)
  have bound: "k < length ms \<Longrightarrow> \<not> isTool (ms ! k)" using growTail_boundary [of ms ?b ?r] rw unfolding k_def by auto
  have p: "paired (drop k ms)" using pairedFrom_drop [OF assms [unfolded paired_def] bound] by (simp add: paired_def)
  have exc: "k = ?r" if "?b = Some b" "estimateMessagesSlice ms k > b" for b
    using growTail_boundary [of ms ?b ?r] that unfolding k_def by auto
  have stop: "case backOverTools ms k of None \<Rightarrow> k = 0
      | Some i \<Rightarrow> \<exists>b. ?b = Some b \<and> sum_list (map estimateConversationMessageTokens (drop i ms)) > b"
  proof (cases "backOverTools ms k")
    case None
    have "\<not> isTool (ms ! 0)" using assms False by (cases ms) (auto simp: paired_def split: if_splits)
    with None have "k = 0" unfolding backOverTools_None by blast
    with None show ?thesis by simp
  next
    case (Some i)
    with growTail_stops [where ms = ms and b = ?b and s = ?r] show ?thesis
      by (auto simp: findPreviousSafeBoundary_def estimateMessagesSlice_def simp flip: k_def)
  qed
  have "length (drop k ms) \<ge> ?keep" using le by simp
  with sel p exc stop show ?thesis by (auto simp: estimateMessagesSlice_def intro!: exI [of _ k])
qed

subsection \<open>Old tool results\<close>

lemma pruneStep_length [simp]: "length (fst (pruneStep i p)) = length (fst p)"
  by (simp add: pruneStep_def split: prod.splits)

text \<open>What clearing keeps: everything but the text of a result.\<close>

definition sameShape :: "msgs \<Rightarrow> msgs \<Rightarrow> bool" where
  "sameShape ms ms' \<longleftrightarrow> list_all2 (\<lambda>m m'. m' = m \<or> isTool m \<and> m' = m\<lparr>ms_content := CLEARED_TOOL_RESULT_MARKER\<rparr>) ms ms'"

lemma sameShape_refl: "sameShape ms ms"
  by (simp add: sameShape_def list_all2_refl)

lemma sameShape_answered: "sameShape ms ms' \<Longrightarrow> answered (takeWhile isTool ms') = answered (takeWhile isTool ms)"
proof -
  assume "sameShape ms ms'"
  then have "map ms_toolCallId (takeWhile isTool ms') = map ms_toolCallId (takeWhile isTool ms)"
    unfolding sameShape_def by (induction rule: list_all2_induct) (auto simp: isTool_def)
  then show ?thesis unfolding answered_map by (rule arg_cong)
qed

lemma sameShape_paired: "sameShape ms ms' \<Longrightarrow> pairedFrom b ms' = pairedFrom b ms"
proof (induction ms arbitrary: ms' b)
  case Nil
  then show ?case by (simp add: sameShape_def)
next
  case (Cons m rest)
  then obtain m' rest' where ms': "ms' = m' # rest'" "sameShape rest rest'"
    "m' = m \<or> isTool m \<and> m' = m\<lparr>ms_content := CLEARED_TOOL_RESULT_MARKER\<rparr>"
    by (auto simp: sameShape_def list_all2_Cons1)
  then have "isTool m' = isTool m" "hasCalls m' = hasCalls m" "callIds m' = callIds m"
    by (auto simp: isTool_def hasCalls_def callIds_def)
  with Cons.IH [OF ms'(2)] sameShape_answered [OF ms'(2)] show ?case by (simp add: ms'(1))
qed

lemma already_cleared: "ms_content m = c \<Longrightarrow> m\<lparr>ms_content := c\<rparr> = m"
  by (cases m) simp

lemma fold_prune:
  assumes "distinct is" "\<forall>i\<in>set is. i < length ms \<and> isTool (ms ! i)"
  shows "fst (fold pruneStep is (ms, r)) =
      map (\<lambda>i. if i \<in> set is then (ms ! i)\<lparr>ms_content := CLEARED_TOOL_RESULT_MARKER\<rparr> else ms ! i) [0..<length ms] \<and>
    pr_prunedCount (snd (fold pruneStep is (ms, r))) =
      pr_prunedCount r + length (filter (\<lambda>i. ms_content (ms ! i) \<noteq> CLEARED_TOOL_RESULT_MARKER) is)"
  using assms
proof (induction "is" arbitrary: ms r)
  case Nil
  show ?case by (simp add: map_nth)
next
  case (Cons i rest)
  obtain ms' r' where step: "pruneStep i (ms, r) = (ms', r')" by fastforce
  have ms': "ms' = ms[i := (ms ! i)\<lparr>ms_content := CLEARED_TOOL_RESULT_MARKER\<rparr>]"
    "pr_prunedCount r' = pr_prunedCount r + (if ms_content (ms ! i) = CLEARED_TOOL_RESULT_MARKER then 0 else 1)"
    using step Cons.prems by (auto simp: pruneStep_def already_cleared split: if_splits)
  have ne: "j \<noteq> i" if "j \<in> set rest" for j using Cons.prems that by auto
  have other: "ms' ! j = ms ! j" if "j \<in> set rest" for j using ne [OF that] by (simp add: ms'(1))
  have pre: "\<forall>j\<in>set rest. j < length ms' \<and> isTool (ms' ! j)" using Cons.prems other by (simp add: ms'(1))
  from Cons.IH [of ms' r'] Cons.prems(1) pre have
    ih: "fst (fold pruneStep rest (ms', r')) =
      map (\<lambda>j. if j \<in> set rest then (ms' ! j)\<lparr>ms_content := CLEARED_TOOL_RESULT_MARKER\<rparr> else ms' ! j) [0..<length ms']"
    "pr_prunedCount (snd (fold pruneStep rest (ms', r'))) =
      pr_prunedCount r' + length (filter (\<lambda>j. ms_content (ms' ! j) \<noteq> CLEARED_TOOL_RESULT_MARKER) rest)" by simp_all
  have "filter (\<lambda>j. ms_content (ms' ! j) \<noteq> CLEARED_TOOL_RESULT_MARKER) rest =
      filter (\<lambda>j. ms_content (ms ! j) \<noteq> CLEARED_TOOL_RESULT_MARKER) rest"
    by (rule filter_cong) (use other in auto)
  moreover have "fst (fold pruneStep rest (ms', r')) =
      map (\<lambda>j. if j \<in> set (i # rest) then (ms ! j)\<lparr>ms_content := CLEARED_TOOL_RESULT_MARKER\<rparr> else ms ! j) [0..<length ms]"
    unfolding ih(1)
  proof (rule map_cong)
    show "[0..<length ms'] = [0..<length ms]" by (simp add: ms'(1))
    fix j assume "j \<in> set [0..<length ms]"
    then have "j < length ms" by simp
    moreover have "i \<notin> set rest" using Cons.prems(1) by simp
    ultimately show "(if j \<in> set rest then (ms' ! j)\<lparr>ms_content := CLEARED_TOOL_RESULT_MARKER\<rparr> else ms' ! j) =
        (if j \<in> set (i # rest) then (ms ! j)\<lparr>ms_content := CLEARED_TOOL_RESULT_MARKER\<rparr> else ms ! j)"
      using other [of j] by (cases "j = i") (simp_all add: ms'(1))
  qed
  ultimately show ?case using ih(2) ms'(2) by (auto simp: step)
qed

lemma toolIndices_props:
  "distinct (toolIndices ms)" "i \<in> set (toolIndices ms) \<longleftrightarrow> i < length ms \<and> isTool (ms ! i)" "sorted (toolIndices ms)"
  by (auto simp: toolIndices_def sorted_wrt_filter)

lemma prune_exact:
  "fst (pruneOldToolResults ms k) =
      map (\<lambda>i. if i \<in> set (take (length (toolIndices ms) - k) (toolIndices ms))
        then (ms ! i)\<lparr>ms_content := CLEARED_TOOL_RESULT_MARKER\<rparr> else ms ! i) [0..<length ms] \<and>
    pr_prunedCount (snd (pruneOldToolResults ms k)) =
      length (filter (\<lambda>i. ms_content (ms ! i) \<noteq> CLEARED_TOOL_RESULT_MARKER) (take (length (toolIndices ms) - k) (toolIndices ms)))"
proof (cases "length (toolIndices ms) \<le> k")
  case True
  then show ?thesis by (simp add: pruneOldToolResults_def Let_def map_nth)
next
  case False
  let ?is = "take (length (toolIndices ms) - k) (toolIndices ms)"
  have "\<forall>i\<in>set ?is. i < length ms \<and> isTool (ms ! i)" using toolIndices_props(2) by (metis in_set_takeD)
  from fold_prune [OF distinct_take [OF toolIndices_props(1)] this, where r = "\<lparr>pr_prunedCount = 0, pr_savedTokensEstimate = 0\<rparr>"] False
  show ?thesis by (simp add: pruneOldToolResults_def Let_def)
qed

lemma prune_sameShape: "sameShape ms (fst (pruneOldToolResults ms k))"
  using prune_exact [of ms k] toolIndices_props(2) [of _ ms]
  by (auto simp: sameShape_def list_all2_conv_all_nth dest: in_set_takeD)

lemma fold_noop:
  "\<forall>i\<in>set is. ms_content (ms ! i) = CLEARED_TOOL_RESULT_MARKER \<Longrightarrow> fold pruneStep is (ms, r) = (ms, r)"
  by (induction "is") (auto simp: pruneStep_def)

text \<open>The newest results, by what follows them.\<close>

lemma old_result_iff:
  assumes "i < length ms"
  shows "i \<in> set (take (length (toolIndices ms) - k) (toolIndices ms)) \<longleftrightarrow>
    isTool (ms ! i) \<and> k \<le> length (filter isTool (drop (Suc i) ms))"
proof (cases "isTool (ms ! i)")
  case False
  then show ?thesis using toolIndices_props(2) by (metis in_set_takeD)
next
  case True
  let ?A = "filter (\<lambda>j. isTool (ms ! j)) [0..<i]" and ?B = "filter (\<lambda>j. isTool (ms ! j)) [Suc i..<length ms]"
  have "[0..<length ms] = [0..<i] @ i # [Suc i..<length ms]"
    using assms upt_add_eq_append [of 0 i "length ms - i"] by (simp add: upt_conv_Cons)
  with True have idx: "toolIndices ms = ?A @ i # ?B" by (simp add: toolIndices_def)
  have "drop (Suc i) ms = map ((!) ms) [Suc i..<length ms]"
    by (rule nth_equalityI) auto
  then have B: "length (filter isTool (drop (Suc i) ms)) = length ?B" by (simp add: filter_map o_def)
  have at: "i \<in> set (take m (?A @ i # ?B)) \<longleftrightarrow> length ?A < m" for m
  proof
    assume "i \<in> set (take m (?A @ i # ?B))"
    then show "length ?A < m" by (rule contrapos_pp) (auto dest: in_set_takeD)
  next
    assume "length ?A < m"
    then show "i \<in> set (take m (?A @ i # ?B))" by (simp add: take_Cons')
  qed
  have "length ?A < length (?A @ i # ?B) - k \<longleftrightarrow> k \<le> length ?B" by (simp only: length_append list.size) arith
  with True show ?thesis unfolding idx B at by blast
qed

text \<open>
  Clearing old tool results touches nothing but the text of tool results, leaves the newest ones, as many as it is told to keep, as they
  are, clears every older one, keeps a paired conversation paired, and a second run finds nothing to clear.
\<close>

theorem prune_keeps_newest:
  "length (fst (pruneOldToolResults ms k)) = length ms \<and>
   (\<forall>i<length ms. fst (pruneOldToolResults ms k) ! i =
      (if isTool (ms ! i) \<and> k \<le> length (filter isTool (drop (Suc i) ms))
       then (ms ! i)\<lparr>ms_content := CLEARED_TOOL_RESULT_MARKER\<rparr> else ms ! i)) \<and>
   paired (fst (pruneOldToolResults ms k)) = paired ms \<and>
   pruneOldToolResults (fst (pruneOldToolResults ms k)) k =
     (fst (pruneOldToolResults ms k), \<lparr>pr_prunedCount = 0, pr_savedTokensEstimate = 0\<rparr>)"
proof -
  let ?is = "take (length (toolIndices ms) - k) (toolIndices ms)" and ?r = "fst (pruneOldToolResults ms k)"
  have len: "length ?r = length ms" using prune_exact [of ms k] by simp
  have nth: "?r ! i = (if i \<in> set ?is then (ms ! i)\<lparr>ms_content := CLEARED_TOOL_RESULT_MARKER\<rparr> else ms ! i)" if "i < length ms" for i
    using prune_exact [of ms k] that by simp
  have "isTool (?r ! i) = isTool (ms ! i)" if "i < length ms" for i using nth [OF that] by (simp add: isTool_def)
  then have same: "toolIndices ?r = toolIndices ms" unfolding toolIndices_def len by (auto intro: filter_cong)
  have "\<forall>i\<in>set ?is. ms_content (?r ! i) = CLEARED_TOOL_RESULT_MARKER"
  proof
    fix i assume i: "i \<in> set ?is"
    then have "i < length ms" using toolIndices_props(2) by (metis in_set_takeD)
    with nth i show "ms_content (?r ! i) = CLEARED_TOOL_RESULT_MARKER" by simp
  qed
  from fold_noop [OF this] have again: "pruneOldToolResults ?r k = (?r, \<lparr>pr_prunedCount = 0, pr_savedTokensEstimate = 0\<rparr>)"
    unfolding pruneOldToolResults_def [of ?r] Let_def same by simp
  show ?thesis using len nth old_result_iff again sameShape_paired [OF prune_sameShape] by (auto simp: paired_def)
qed

subsection \<open>Dropping after an overflow\<close>

lemma find_idx: "List.find P [0..<n] = Some i \<longleftrightarrow> i < n \<and> P i \<and> (\<forall>j<i. \<not> P j)"
  by (induction n) (auto simp: find_Some_iff nth_append less_Suc_eq find_None_iff not_less intro: exI [of _ i])

lemma latestUser_Some: "latestUser ms = Some u \<Longrightarrow> u < length ms \<and> ms_role (ms ! u) = Role_user"
  by (auto simp: latestUser_def find_Some_iff rev_nth)

lemma droppable_cases:
  "isReactiveCompactDroppable m i u \<Longrightarrow> Some i \<noteq> u \<and> (ms_role m = Role_system \<longrightarrow> metaOf m ''pinned'' \<noteq> Some (JBool True))"
  by (auto simp: isReactiveCompactDroppable_def split: if_splits)

lemma calls_droppable: "hasCalls (ms ! i) \<Longrightarrow> isReactiveCompactDroppable (ms ! i) i (latestUser ms)"
  using latestUser_Some [of ms i] by (auto simp: isReactiveCompactDroppable_def hasCalls_def)

text \<open>In a paired conversation the first droppable message is no tool result: its call comes before.\<close>

lemma droppableAt_first:
  assumes "pairedFrom False ms" "droppableAt ms = Some i"
  shows "i < length ms \<and> \<not> isTool (ms ! i) \<and> isReactiveCompactDroppable (ms ! i) i (latestUser ms)"
proof -
  have i: "i < length ms" "isReactiveCompactDroppable (ms ! i) i (latestUser ms)"
    "\<forall>j<i. \<not> isReactiveCompactDroppable (ms ! j) j (latestUser ms)"
    using assms(2) unfolding droppableAt_def find_idx by blast+
  have "\<not> isTool (ms ! i)"
  proof
    assume "isTool (ms ! i)"
    from owner [OF assms(1) i(1) this] obtain j where "backOverTools ms i = Some j" "hasCalls (ms ! j)" by blast
    with backOverTools_Some calls_droppable i(3) show False by blast
  qed
  with i show ?thesis by blast
qed

text \<open>The messages removed in one step are a block: behind it no tool result is left over.\<close>

lemma after_block:
  assumes "pairedFrom False ms" "i < length ms" "\<not> isTool (ms ! i)" "i + removeCount ms i < length ms"
  shows "\<not> isTool (ms ! (i + removeCount ms i))"
proof (cases "hasCalls (ms ! i)")
  case True
  let ?r = "drop (Suc i) ms"
  have "length (takeWhile isTool ?r) < length ?r" using assms(4) True by (simp add: removeCount_def)
  from nth_length_takeWhile [OF this] show ?thesis using True assms(2) by (simp add: removeCount_def)
next
  case False
  have "pairedFrom False (drop i ms)" by (rule pairedFrom_drop [OF assms(1)]) (use assms in simp)
  moreover have "drop i ms = ms ! i # ms ! Suc i # drop (Suc (Suc i)) ms"
    using assms(2,4) False by (simp add: Cons_nth_drop_Suc removeCount_def)
  ultimately show ?thesis using assms(3) False by (simp add: removeCount_def split: if_splits)
qed

lemma drop_step_paired:
  assumes "pairedFrom False ms" "droppableAt ms = Some i"
  shows "pairedFrom False (take i ms @ drop (i + removeCount ms i) ms)"
proof -
  note i = droppableAt_first [OF assms]
  have rest: "i + removeCount ms i < length ms \<Longrightarrow> \<not> isTool (ms ! (i + removeCount ms i))"
    using after_block [OF assms(1)] i by blast
  then have "drop (i + removeCount ms i) ms = [] \<or> \<not> isTool (hd (drop (i + removeCount ms i) ms))"
    by (cases "i + removeCount ms i < length ms") (auto simp: hd_drop_conv_nth)
  then show ?thesis using pairedFrom_append pairedFrom_split [OF assms(1)] i rest by blast
qed

text \<open>
  The emergency drop after a context overflow removes, from a paired conversation, exactly one message, or an
  assistant's calls together with all their results: what is left is paired. It is the first such block that
  may go, and neither the latest user message nor a pinned system message is part of it. The drop
  gives up, with nothing removed, exactly when no message may go.
\<close>

theorem overflow_drop_safe:
  assumes "paired ms"
  shows "case droppableAt ms of
      None \<Rightarrow> dropOldestCompactibleMessages ms 1 = (ms, 0)
    | Some i \<Rightarrow> \<exists>n. dropOldestCompactibleMessages ms 1 = (take i ms @ drop (i + n) ms, n) \<and> 0 < n \<and> i + n \<le> length ms \<and>
        paired (take i ms @ drop (i + n) ms) \<and>
        (\<forall>j. i \<le> j \<and> j < i + n \<longrightarrow> latestUser ms \<noteq> Some j \<and>
           (j = i \<or> isTool (ms ! j)) \<and> (ms_role (ms ! j) = Role_system \<longrightarrow> metaOf (ms ! j) ''pinned'' \<noteq> Some (JBool True)))"
proof (cases "droppableAt ms")
  case None
  then show ?thesis by (simp add: dropOldestCompactibleMessages_def) (subst dropOldest.simps, simp)
next
  case (Some i)
  let ?n = "removeCount ms i"
  note i = droppableAt_first [OF assms [unfolded paired_def] Some]
  have n: "0 < ?n" by (simp add: removeCount_def)
  have le: "i + ?n \<le> length ms"
    using i length_takeWhile_le [of isTool "drop (Suc i) ms"] by (auto simp: removeCount_def)
  have block: "isTool (ms ! j)" if "i < j" "j < i + ?n" for j
  proof -
    have h: "j - Suc i < length (takeWhile isTool (drop (Suc i) ms))" using that by (auto simp: removeCount_def split: if_splits)
    then have "isTool (takeWhile isTool (drop (Suc i) ms) ! (j - Suc i))" by (metis nth_mem set_takeWhileD)
    with h that le show ?thesis by (simp add: takeWhile_nth)
  qed
  have "dropOldestCompactibleMessages ms 1 = (take i ms @ drop (i + ?n) ms, ?n)"
    unfolding dropOldestCompactibleMessages_def
    by (subst dropOldest.simps, simp add: Some, subst dropOldest.simps, use n in simp)
  moreover have "paired (take i ms @ drop (i + ?n) ms)"
    using drop_step_paired [OF assms [unfolded paired_def] Some] by (simp add: paired_def)
  moreover have "latestUser ms \<noteq> Some j \<and> (j = i \<or> isTool (ms ! j)) \<and>
      (ms_role (ms ! j) = Role_system \<longrightarrow> metaOf (ms ! j) ''pinned'' \<noteq> Some (JBool True))" if "i \<le> j" "j < i + ?n" for j
  proof (cases "j = i")
    case True
    with i droppable_cases show ?thesis by metis
  next
    case False
    with block [of j] that have "isTool (ms ! j)" by simp
    then show ?thesis using latestUser_Some [of ms j] by (auto simp: isTool_def)
  qed
  ultimately show ?thesis using Some n le by (auto intro!: exI [of _ ?n])
qed

subsection \<open>Repair\<close>

lemma fold_setAdd_set [simp]: "set (fold setAdd xs ys) = set ys \<union> set xs"
  by (induction xs arbitrary: ys) auto

lemma missing_set: "set (missingIds m tools) = {i \<in> set (callIds m). i \<notin> answered tools}"
  by (auto simp: missingIds_def)

lemma sanitize_tools:
  "\<forall>t\<in>set ts. isTool t \<Longrightarrow> sanitizeToolCallPairing (ts @ r) =
    (ts @ fst (sanitizeToolCallPairing r), snd (sanitizeToolCallPairing r))"
  by (induction ts) (auto simp: Let_def hasCalls_def isTool_def split: prod.splits)

lemma sanitize_block:
  "sanitizeToolCallPairing rest =
    (takeWhile isTool rest @ fst (sanitizeToolCallPairing (dropWhile isTool rest)), snd (sanitizeToolCallPairing (dropWhile isTool rest)))"
  using sanitize_tools [of "takeWhile isTool rest" "dropWhile isTool rest"] by (auto dest: set_takeWhileD)

lemma sanitize_head:
  assumes "r = [] \<or> \<not> isTool (hd r)"
  shows "fst (sanitizeToolCallPairing r) = [] \<or> \<not> isTool (hd (fst (sanitizeToolCallPairing r)))"
  using assms by (cases r) (auto simp: Let_def isTool_def split: prod.splits if_splits)

lemma sanitize_results: "takeWhile isTool (fst (sanitizeToolCallPairing rest)) = takeWhile isTool rest"
proof -
  let ?after = "dropWhile isTool rest"
  have h: "fst (sanitizeToolCallPairing ?after) = [] \<or> \<not> isTool (hd (fst (sanitizeToolCallPairing ?after)))"
    by (rule sanitize_head) (use hd_dropWhile in blast)
  have "takeWhile isTool (takeWhile isTool rest @ fst (sanitizeToolCallPairing ?after)) = takeWhile isTool (takeWhile isTool rest)"
    using takeWhile_block [of _ isTool, OF h] .
  with sanitize_block [of rest] show ?thesis by (metis fst_conv takeWhile_idem)
qed

lemma missingResult_shape [simp]:
  "isTool (missingResult m i)" "ms_toolCallId (missingResult m i) = Some i" "\<not> hasCalls (missingResult m i)"
  by (simp_all add: missingResult_def createToolFeedbackMessage_def isTool_def hasCalls_def)

lemma allAnswered_tools: "\<forall>t\<in>set ts. isTool t \<Longrightarrow> allAnswered (ts @ r) = allAnswered r"
  by (induction ts) (auto simp: hasCalls_def isTool_def)

lemma callIds_filtered:
  "set (callIds (m\<lparr>ms_toolCalls := map_option (filter (\<lambda>c. pc_toolCallId c \<notin> X)) (ms_toolCalls m)\<rparr>)) = set (callIds m) - X"
  by (auto simp: callIds_def split: option.splits)

lemma sanitize_allAnswered: "allAnswered (fst (sanitizeToolCallPairing ms))"
proof (induction ms rule: sanitizeToolCallPairing.induct)
  case 1
  show ?case by simp
next
  case (2 m rest)
  let ?tools = "takeWhile isTool rest" and ?after = "dropWhile isTool rest"
  let ?miss = "missingIds m ?tools" and ?cut = "m\<lparr>ms_toolCalls := map_option (filter (\<lambda>c. pc_toolCallId c \<notin> set (missingIds m (takeWhile isTool rest)))) (ms_toolCalls m)\<rparr>"
  consider (empty) "ms_role m = Role_assistant \<and> ms_toolCalls m = Some []"
    | (plain) "\<not> (ms_role m = Role_assistant \<and> ms_toolCalls m = Some [])" "\<not> hasCalls m"
    | (full) "hasCalls m" "?miss = []"
    | (cut) "hasCalls m" "?miss \<noteq> []" "\<exists>t\<in>set ?tools. ms_toolCallId t \<noteq> None"
    | (add) "hasCalls m" "?miss \<noteq> []" "\<not> (\<exists>t\<in>set ?tools. ms_toolCallId t \<noteq> None)" by blast
  then show ?case
  proof cases
    case empty
    with 2(1) show ?thesis by (auto simp: Let_def hasCalls_def split: prod.splits)
  next
    case plain
    with 2(2) show ?thesis by (auto simp: Let_def split: prod.splits)
  next
    case full
    then have ne: "\<not> (ms_role m = Role_assistant \<and> ms_toolCalls m = Some [])" by (auto simp: hasCalls_def)
    have "set (callIds m) \<subseteq> answered ?tools" using missing_set [of m ?tools] full by auto
    with 2(3) full ne sanitize_results [of rest] show ?thesis by (auto simp: Let_def split: prod.splits)
  next
    case cut
    then have ne: "\<not> (ms_role m = Role_assistant \<and> ms_toolCalls m = Some [])" by (auto simp: hasCalls_def)
    have "set (callIds ?cut) \<subseteq> answered ?tools" unfolding callIds_filtered missing_set by blast
    with 2(4) cut ne sanitize_results [of rest] show ?thesis by (auto simp: Let_def split: prod.splits)
  next
    case add
    then have ne: "\<not> (ms_role m = Role_assistant \<and> ms_toolCalls m = Some [])" by (auto simp: hasCalls_def)
    let ?r = "fst (sanitizeToolCallPairing ?after)" and ?ph = "map (missingResult m) ?miss"
    have tools: "\<forall>t\<in>set (?tools @ ?ph). isTool t" by (auto dest: set_takeWhileD)
    have "set (callIds m) \<subseteq> answered (?tools @ ?ph)"
    proof
      fix i assume "i \<in> set (callIds m)"
      then have "i \<in> answered ?tools \<or> i \<in> set ?miss" using missing_set by simp
      moreover have "missingResult m i \<in> set ?ph" if "i \<in> set ?miss" using that by simp
      ultimately show "i \<in> answered (?tools @ ?ph)"
        using missingResult_shape(2) [of m i] answered_mono [of ?tools "?tools @ ?ph"] unfolding in_answered [of i "?tools @ ?ph"]
        by (metis (no_types, lifting) Un_iff in_answered set_append)
    qed
    moreover have "answered (?tools @ ?ph) \<subseteq> answered (takeWhile isTool ((?tools @ ?ph) @ ?r))"
      using takeWhile_append2 [of "?tools @ ?ph" isTool ?r] tools by (intro answered_mono) (metis Un_upper1 set_append)
    moreover have "allAnswered ((?tools @ ?ph) @ ?r)" using 2(5) add ne allAnswered_tools [OF tools] by simp
    ultimately show ?thesis using add ne by (auto simp: Let_def split: prod.splits)
  qed
qed

lemma sanitize_paired:
  "pairedFrom b ms \<Longrightarrow> \<forall>m\<in>set ms. ms_toolCalls m \<noteq> Some [] \<Longrightarrow> sanitizeToolCallPairing ms = (ms, 0)"
proof (induction ms arbitrary: b)
  case (Cons m rest)
  have "missingIds m (takeWhile isTool rest) = []" if "hasCalls m"
  proof -
    have "set (callIds m) \<subseteq> answered (takeWhile isTool rest)" using Cons.prems(1) that hasCalls_not_tool [OF that] by simp
    then have "set (missingIds m (takeWhile isTool rest)) = {}" unfolding missing_set by blast
    then show ?thesis by simp
  qed
  moreover obtain c where "pairedFrom c rest" using Cons.prems(1) by (auto split: if_splits)
  with Cons.IH Cons.prems(2) have "sanitizeToolCallPairing rest = (rest, 0)" by simp
  ultimately show ?case using Cons.prems(2) by (auto simp: Let_def)
qed simp

text \<open>
  C39: whatever the history, after the repair every tool call an assistant makes has a result with its identifier right
  behind it; a conversation that is paired already, with no empty call list, is not touched, and the count of
  repairs is zero.
\<close>

theorem repair_answers_calls:
  "allAnswered (fst (sanitizeToolCallPairing ms)) \<and>
   (if paired ms \<and> list_all (\<lambda>m. ms_toolCalls m \<noteq> Some []) ms then sanitizeToolCallPairing ms = (ms, 0) else True)"
  using sanitize_allAnswered sanitize_paired by (auto simp: paired_def list_all_iff)

text \<open>A call of an assistant behind which only a stray result stands is deleted, and the result is left without a call.\<close>

definition strayHistory :: msgs where
  "strayHistory = [\<lparr>ms_role = Role_assistant, ms_content = [], ms_reasoningContent = None, ms_toolCallId = None, ms_toolName = None,
       ms_toolCalls = Some [\<lparr>pc_toolCallId = ''a'', pc_toolName = ''read_file'', pc_input = [], pc_reason = [], pc_raw = None\<rparr>],
       ms_metadata = None\<rparr>,
     createToolFeedbackMessage JNull ''b'' ''read_file'' ''internal'' None]"

lemma stray_result_kept:
  "map ms_toolCalls (fst (sanitizeToolCallPairing strayHistory)) = [Some [], None] \<and> \<not> paired (fst (sanitizeToolCallPairing strayHistory))"
  by code_simp

subsection \<open>A short conversation\<close>

definition demoMessage :: "ConversationRole \<Rightarrow> ConversationMessage" where
  "demoMessage role = \<lparr>ms_role = role, ms_content = ''go'', ms_reasoningContent = None, ms_toolCallId = None,
     ms_toolName = None, ms_toolCalls = None, ms_metadata = None\<rparr>"

definition demoCall :: "string \<Rightarrow> ConversationMessage" where
  "demoCall i = (demoMessage Role_assistant)\<lparr>ms_toolCalls :=
     Some [\<lparr>pc_toolCallId = i, pc_toolName = ''read_file'', pc_input = [], pc_reason = [], pc_raw = None\<rparr>]\<rparr>"

definition demoResult :: "string \<Rightarrow> ConversationMessage" where
  "demoResult i = createToolFeedbackMessage JNull i ''read_file'' ''internal'' None"

definition demoConversation :: msgs where
  "demoConversation = [demoMessage Role_user, demoCall ''a'', demoResult ''a'', demoCall ''b'', demoResult ''b'']"

definition demoTail :: TailSelectionConfig where
  "demoTail = \<lparr>ts_tailMinMessages = 1, ts_tailTokenBudget = Some 0, ts_protectLastN = None\<rparr>"

lemma demoConversation_paired: "paired demoConversation"
  by code_simp

theorem tail_is_sendable_witness:
  "paired (tr_messages (selectTailMessages demoConversation demoTail)) \<and>
   tr_messages (selectTailMessages demoConversation demoTail) = [demoCall ''b'', demoResult ''b'']"
proof -
  have "paired (tr_messages (selectTailMessages demoConversation demoTail))"
    using tail_is_sendable [OF demoConversation_paired, of demoTail] by blast
  moreover have "tr_messages (selectTailMessages demoConversation demoTail) = [demoCall ''b'', demoResult ''b'']" by code_simp
  ultimately show ?thesis by blast
qed

theorem prune_keeps_newest_witness:
  "ms_content (fst (pruneOldToolResults demoConversation 1) ! 2) = CLEARED_TOOL_RESULT_MARKER \<and>
   fst (pruneOldToolResults demoConversation 1) ! 4 = demoResult ''b''"
proof -
  have *: "fst (pruneOldToolResults demoConversation 1) ! i =
      (if isTool (demoConversation ! i) \<and> 1 \<le> length (filter isTool (drop (Suc i) demoConversation))
       then (demoConversation ! i)\<lparr>ms_content := CLEARED_TOOL_RESULT_MARKER\<rparr> else demoConversation ! i)" if "i < 5" for i
    using prune_keeps_newest [of demoConversation 1] that by (simp add: demoConversation_def)
  have "isTool (demoConversation ! 2)" "length (filter isTool (drop (Suc 2) demoConversation)) = 1"
    "length (filter isTool (drop (Suc 4) demoConversation)) = 0" "demoConversation ! 4 = demoResult ''b''" by code_simp+
  with * [of 2] * [of 4] show ?thesis by simp
qed

theorem overflow_drop_safe_witness:
  "dropOldestCompactibleMessages demoConversation 1 = ([demoMessage Role_user, demoCall ''b'', demoResult ''b''], 2)"
proof -
  have "droppableAt demoConversation = Some 1" by code_simp
  with overflow_drop_safe [OF demoConversation_paired] obtain n where n:
    "dropOldestCompactibleMessages demoConversation 1 = (take 1 demoConversation @ drop (1 + n) demoConversation, n)"
    by auto
  have "snd (dropOldestCompactibleMessages demoConversation 1) = 2"
    unfolding dropOldestCompactibleMessages_def by (subst dropOldest.simps, subst dropOldest.simps) code_simp
  with n have "n = 2" by simp
  with n show ?thesis by (simp add: demoConversation_def)
qed

end
