(* ===== verification/SessionTodos.thy ===== *)
theory SessionTodos
  imports ContextCache ConversationProps
begin

section \<open>The todo list of a session\<close>

text \<open>
  The store of todo lists with its optional table (src/src/tools/todo-session-store.ts,
  src/src/storage/repositories/session-todo-repository.ts), the execution of the todo tool (todo-tool.ts), and the
  pinned message that shows the list to the model (src/src/runtime/context/session-todos.ts). The table stores a list
  as JSON and reads it back; the model keeps the list.
\<close>

datatype TodoStatus = Todo_pending | Todo_in_progress | Todo_completed | Todo_cancelled

record TodoItem =
  td_content :: string
  td_id :: string
  td_status :: TodoStatus
  td_statusUpdatedAt :: "instant option"

definition MAX_TODO_ITEMS :: nat where "MAX_TODO_ITEMS = 100"

definition isActiveTodoStatus :: "TodoStatus \<Rightarrow> bool" where
  "isActiveTodoStatus st \<longleftrightarrow> st = Todo_pending \<or> st = Todo_in_progress"

definition filterActiveTodos :: "TodoItem list \<Rightarrow> TodoItem list" where
  "filterActiveTodos todos = filter (\<lambda>t. isActiveTodoStatus (td_status t)) todos"

text \<open>The map in memory, and the table when the store was built with a repository.\<close>

record TodoSessionStore =
  ss_todosBySession :: "string \<Rightarrow> TodoItem list option"
  ss_repository :: "(string \<Rightarrow> TodoItem list option) option"

definition todoRows :: "(string \<Rightarrow> TodoItem list option) \<Rightarrow> string \<Rightarrow> TodoItem list" where
  "todoRows table sessionId = (case table sessionId of None \<Rightarrow> [] | Some ts \<Rightarrow> ts)"

definition todoReplace :: "string \<Rightarrow> TodoItem list \<Rightarrow> (string \<Rightarrow> TodoItem list option) \<Rightarrow> (string \<Rightarrow> TodoItem list option)" where
  "todoReplace sessionId todos table = table(sessionId \<mapsto> todos)"

definition todoGet :: "string \<Rightarrow> TodoSessionStore \<Rightarrow> TodoItem list" where
  "todoGet sessionKey st = (case ss_repository st of
     Some table \<Rightarrow> todoRows table sessionKey
   | None \<Rightarrow> (case ss_todosBySession st sessionKey of None \<Rightarrow> [] | Some ts \<Rightarrow> ts))"

text \<open>\<open>Map.set\<close> on a map that remembers the order of its keys; a later item with the same identifier takes the place of the first.\<close>

definition putTodo :: "TodoItem \<Rightarrow> TodoItem list \<Rightarrow> TodoItem list" where
  "putTodo t ts = (if td_id t \<in> td_id ` set ts then map (\<lambda>x. if td_id x = td_id t then t else x) ts else ts @ [t])"

definition dedupeTodos :: "TodoItem list \<Rightarrow> TodoItem list" where
  "dedupeTodos todos = fold putTodo todos []"

definition finalizeSessionTodos :: "TodoItem list \<Rightarrow> TodoItem list" where
  "finalizeSessionTodos todos = (if filterActiveTodos todos \<noteq> [] then todos else [])"

definition mergeTodo :: "instant \<Rightarrow> TodoItem \<Rightarrow> TodoItem list \<Rightarrow> TodoItem list" where
  "mergeTodo now t ts = putTodo (t\<lparr>td_statusUpdatedAt := Some
     (case List.find (\<lambda>p. td_id p = td_id t) ts of
        Some p \<Rightarrow> if td_status p = td_status t then (case td_statusUpdatedAt p of Some u \<Rightarrow> u | None \<Rightarrow> now) else now
      | None \<Rightarrow> now)\<rparr>) ts"

definition mergeTodos :: "TodoItem list \<Rightarrow> TodoItem list \<Rightarrow> instant \<Rightarrow> TodoItem list" where
  "mergeTodos existing updates now = fold (mergeTodo now) updates (dedupeTodos existing)"

definition todoPersist :: "string \<Rightarrow> TodoItem list \<Rightarrow> TodoSessionStore \<Rightarrow> TodoSessionStore" where
  "todoPersist sessionKey todos st = st\<lparr>ss_todosBySession := (ss_todosBySession st)(sessionKey \<mapsto> todos),
     ss_repository := map_option (todoReplace sessionKey todos) (ss_repository st)\<rparr>"

definition todoUpdate :: "instant \<Rightarrow> string \<Rightarrow> TodoItem list \<Rightarrow> bool \<Rightarrow> TodoSessionStore \<Rightarrow> TodoItem list \<times> TodoSessionStore" where
  "todoUpdate now sessionKey todos merge st =
     (let normalized = dedupeTodos todos;
          existing = (if merge then todoGet sessionKey st else []);
          nxt = finalizeSessionTodos (if merge then mergeTodos existing normalized now
            else map (\<lambda>t. t\<lparr>td_statusUpdatedAt := Some now\<rparr>) normalized)
      in (nxt, todoPersist sessionKey nxt st))"

definition resolveTodoSessionKey :: "string \<Rightarrow> json_object option \<Rightarrow> string" where
  "resolveTodoSessionKey taskId taskMetadata =
     (case (case taskMetadata of None \<Rightarrow> None | Some m \<Rightarrow> jget m ''sessionId'') of
        Some (JStr s) \<Rightarrow> if s \<noteq> [] then s else taskId
      | _ \<Rightarrow> taskId)"

subsection \<open>The tool\<close>

fun todoStatusStr :: "TodoStatus \<Rightarrow> string" where
  "todoStatusStr Todo_pending = ''pending''"
| "todoStatusStr Todo_in_progress = ''in_progress''"
| "todoStatusStr Todo_completed = ''completed''"
| "todoStatusStr Todo_cancelled = ''cancelled''"

text \<open>Instants are written by the parameter \<open>showTime\<close>, \<open>toISOString\<close>.\<close>

definition todoExecute :: "(instant \<Rightarrow> string) \<Rightarrow> instant \<Rightarrow> string \<Rightarrow> json_object option \<Rightarrow> TodoItem list \<Rightarrow> bool \<Rightarrow> TodoSessionStore \<Rightarrow>
    (json \<times> string) \<times> TodoSessionStore" where
  "todoExecute showTime now taskId taskMetadata todos merge st =
     (let sessionKey = resolveTodoSessionKey taskId taskMetadata
      in case todoUpdate now sessionKey todos merge st of
           (updated, st') \<Rightarrow>
             ((JObj [(''merge'', JBool merge), (''sessionKey'', JStr sessionKey),
                (''todos'', JArr (map (\<lambda>t. JObj ([(''content'', JStr (td_content t)), (''id'', JStr (td_id t)),
                   (''status'', JStr (todoStatusStr (td_status t)))] @
                   (case td_statusUpdatedAt t of None \<Rightarrow> [] | Some u \<Rightarrow> [(''statusUpdatedAt'', JStr (showTime u))]))) updated))],
               ''Updated '' @ showNat (length updated) @ '' todo item(s) for session '' @ sessionKey), st'))"

subsection \<open>The message\<close>

definition isSessionTodosMessage :: "ConversationMessage \<Rightarrow> bool" where
  "isSessionTodosMessage m \<longleftrightarrow> ms_role m = Role_system \<and>
     metaOf m ''sourceType'' = Some (JStr SESSION_TODOS_SOURCE_TYPE) \<and> metaOf m ''pinned'' = Some (JBool True)"

definition todoLine :: "TodoItem \<Rightarrow> string" where
  "todoLine t = ''- ['' @ todoStatusStr (td_status t) @ ''] '' @ td_id t @ '': '' @ td_content t"

definition buildSessionTodosMessage :: "TodoItem list \<Rightarrow> ConversationMessage option" where
  "buildSessionTodosMessage todos =
     (let active = filter (\<lambda>t. td_status t = Todo_pending \<or> td_status t = Todo_in_progress) todos;
          visible = take MAX_TODO_ITEMS active
      in if active = [] then None
         else Some (systemMessage
           (joinWith [CHR 0x0A]
             (''Session todo list (authoritative working checklist). Continue unfinished items before rediscovering work.'' #
              map todoLine visible @
              (if length active > length visible
               then [''- ... '' @ showNat (length active - length visible) @ '' additional unfinished item(s) omitted''] else [])))
           (pinnedMetadata SESSION_TODOS_SOURCE_TYPE)))"

definition syncSessionTodosMessage :: "TodoSessionStore option \<Rightarrow> string option \<Rightarrow> msgs \<Rightarrow> ConversationMessage option \<times> msgs" where
  "syncSessionTodosMessage store sessionKey ms =
     (let without = filter (\<lambda>m. \<not> isSessionTodosMessage m) ms
      in case (store, sessionKey) of
           (Some st, Some k) \<Rightarrow>
             if k = [] then (None, without)
             else (case buildSessionTodosMessage (todoGet k st) of
                     None \<Rightarrow> (None, without)
                   | Some m \<Rightarrow> (Some m, insertPinned SESSION_TODOS_SOURCE_TYPE m without))
         | _ \<Rightarrow> (None, without))"

definition resolveTaskTodoSessionKey :: "string option \<Rightarrow> string \<Rightarrow> string option" where
  "resolveTaskTodoSessionKey sessionId taskId =
     (case sessionId of
        Some s \<Rightarrow> if s \<noteq> [] then Some s else if taskId \<noteq> [] then Some taskId else None
      | None \<Rightarrow> if taskId \<noteq> [] then Some taskId else None)"

subsection \<open>The lists that are stored\<close>

text \<open>A stored list is empty or has an unfinished item, no identifier occurs twice, and every status has its time.\<close>

definition todoListWf :: "TodoItem list \<Rightarrow> bool" where
  "todoListWf ts \<longleftrightarrow> distinct (map td_id ts) \<and> (ts \<noteq> [] \<longrightarrow> filterActiveTodos ts \<noteq> []) \<and> (\<forall>t\<in>set ts. td_statusUpdatedAt t \<noteq> None)"

definition todoStoreWf :: "TodoSessionStore \<Rightarrow> bool" where
  "todoStoreWf st \<longleftrightarrow> (\<forall>k ts. ss_todosBySession st k = Some ts \<longrightarrow> todoListWf ts) \<and>
     (\<forall>table k ts. ss_repository st = Some table \<longrightarrow> table k = Some ts \<longrightarrow> todoListWf ts)"

type_synonym todo_call = "instant \<times> string \<times> TodoItem list \<times> bool"

definition todoRun :: "todo_call list \<Rightarrow> TodoSessionStore \<Rightarrow> TodoSessionStore" where
  "todoRun calls st = fold (\<lambda>(now, k, ts, merge) s. snd (todoUpdate now k ts merge s)) calls st"

lemma putTodo_ids: "map td_id (putTodo t ts) = (if td_id t \<in> td_id ` set ts then map td_id ts else map td_id ts @ [td_id t])"
  by (auto simp: putTodo_def)

lemma putTodo_distinct: "distinct (map td_id ts) \<Longrightarrow> distinct (map td_id (putTodo t ts))"
  by (simp add: putTodo_ids)

lemma putTodo_set: "set (putTodo t ts) \<subseteq> insert t (set ts)"
  by (auto simp: putTodo_def)

lemma dedupe_distinct: "distinct (map td_id (dedupeTodos ts))"
proof -
  have "distinct (map td_id (fold putTodo ts us))" if "distinct (map td_id us)" for us
    using that by (induction ts arbitrary: us) (auto simp: putTodo_distinct)
  from this [of "[]"] show ?thesis by (simp add: dedupeTodos_def)
qed

lemma putTodo_fresh: "td_id t \<notin> td_id ` set ts \<Longrightarrow> putTodo t ts = ts @ [t]"
  by (simp add: putTodo_def)

lemma dedupe_id: "distinct (map td_id ts) \<Longrightarrow> dedupeTodos ts = ts"
proof -
  have "fold putTodo ts us = us @ ts" if "distinct (map td_id (us @ ts))" for us
    using that by (induction ts arbitrary: us) (simp_all add: putTodo_fresh)
  from this [of "[]"] show "distinct (map td_id ts) \<Longrightarrow> dedupeTodos ts = ts" by (simp add: dedupeTodos_def)
qed

lemma fold_merge:
  assumes "distinct (map td_id us)" "\<forall>t\<in>set us. td_statusUpdatedAt t \<noteq> None"
  shows "distinct (map td_id (fold (mergeTodo now) ts us)) \<and> (\<forall>t\<in>set (fold (mergeTodo now) ts us). td_statusUpdatedAt t \<noteq> None)"
  using assms
proof (induction ts arbitrary: us)
  case (Cons t ts)
  have "distinct (map td_id (mergeTodo now t us))" by (simp add: mergeTodo_def putTodo_distinct Cons.prems)
  moreover have "\<forall>x\<in>set (mergeTodo now t us). td_statusUpdatedAt x \<noteq> None"
    using putTodo_set Cons.prems(2) unfolding mergeTodo_def by fastforce
  ultimately show ?case using Cons.IH by simp
qed simp

lemma finalize_wf:
  "distinct (map td_id ts) \<Longrightarrow> \<forall>t\<in>set ts. td_statusUpdatedAt t \<noteq> None \<Longrightarrow> todoListWf (finalizeSessionTodos ts)"
  by (simp add: todoListWf_def finalizeSessionTodos_def)

lemma todoGet_wf: "todoStoreWf st \<Longrightarrow> todoListWf (todoGet k st)"
  by (auto simp: todoStoreWf_def todoGet_def todoRows_def todoListWf_def split: option.splits)

lemma todoUpdate_wf:
  assumes "todoStoreWf st"
  shows "todoListWf (fst (todoUpdate now k ts merge st)) \<and> todoStoreWf (snd (todoUpdate now k ts merge st))"
proof -
  have w: "todoListWf (todoGet k st)" by (rule todoGet_wf [OF assms])
  have "todoListWf (finalizeSessionTodos (mergeTodos (todoGet k st) (dedupeTodos ts) now))"
    unfolding mergeTodos_def
    by (rule finalize_wf) (use fold_merge w in \<open>auto simp: todoListWf_def dedupe_id\<close>)
  moreover have "todoListWf (finalizeSessionTodos (map (\<lambda>t. t\<lparr>td_statusUpdatedAt := Some now\<rparr>) (dedupeTodos ts)))"
    by (rule finalize_wf) (simp_all add: o_def dedupe_distinct)
  ultimately have n: "todoListWf (fst (todoUpdate now k ts merge st))" by (simp add: todoUpdate_def Let_def)
  have "snd (todoUpdate now k ts merge st) = todoPersist k (fst (todoUpdate now k ts merge st)) st"
    by (simp add: todoUpdate_def Let_def)
  with n assms show ?thesis by (auto simp: todoStoreWf_def todoPersist_def todoReplace_def split: if_splits)
qed

text \<open>
  C40: whatever todo lists are sent, replacing or merging, and whatever the store held before among well-formed lists,
  every list stored, in memory and in the table, names each identifier once, has a time for every status,
  and is empty unless an item is unfinished; and the list read back is the list returned.
\<close>

theorem todo_lists_wf:
  assumes "todoStoreWf st"
  shows "todoStoreWf (todoRun calls st) \<and> todoListWf (todoGet k (todoRun calls st)) \<and>
    todoGet key (snd (todoUpdate now key ts merge (todoRun calls st))) = fst (todoUpdate now key ts merge (todoRun calls st))"
proof -
  have wf: "todoStoreWf (todoRun calls st)"
    using assms unfolding todoRun_def by (induction calls arbitrary: st) (auto simp: todoUpdate_wf)
  then show ?thesis using todoGet_wf
    by (auto simp: todoUpdate_def Let_def todoGet_def todoPersist_def todoReplace_def todoRows_def split: option.splits)
qed

definition demoTodos :: TodoSessionStore where
  "demoTodos = \<lparr>ss_todosBySession = (\<lambda>_. None), ss_repository = Some (\<lambda>_. None)\<rparr>"

definition demoTodo :: "string \<Rightarrow> TodoStatus \<Rightarrow> TodoItem" where
  "demoTodo i st = \<lparr>td_content = ''work'', td_id = i, td_status = st, td_statusUpdatedAt = None\<rparr>"

theorem todo_lists_wf_witness:
  "todoStoreWf (todoRun [(1, ''s'', [demoTodo ''a'' Todo_pending, demoTodo ''b'' Todo_completed], False)] demoTodos) \<and>
   map (\<lambda>t. (td_id t, td_status t, td_statusUpdatedAt t)) (fst (todoUpdate 2 ''s'' [demoTodo ''b'' Todo_in_progress, demoTodo ''a'' Todo_pending] True
     (todoRun [(1, ''s'', [demoTodo ''a'' Todo_pending, demoTodo ''b'' Todo_completed], False)] demoTodos))) =
   [(''a'', Todo_pending, Some 1), (''b'', Todo_in_progress, Some 2)]"
proof -
  have "todoStoreWf demoTodos" by (simp add: todoStoreWf_def demoTodos_def)
  moreover have "map (\<lambda>t. (td_id t, td_status t, td_statusUpdatedAt t)) (fst (todoUpdate 2 ''s'' [demoTodo ''b'' Todo_in_progress, demoTodo ''a'' Todo_pending] True
     (todoRun [(1, ''s'', [demoTodo ''a'' Todo_pending, demoTodo ''b'' Todo_completed], False)] demoTodos))) =
   [(''a'', Todo_pending, Some 1), (''b'', Todo_in_progress, Some 2)]" by code_simp
  ultimately show ?thesis using todo_lists_wf by blast
qed

end
