(* ===== verification/ContextProps.thy ===== *)
theory ContextProps
  imports SessionTodos
begin

section \<open>Properties of the cache, the pinned messages and the decision to compact\<close>

subsection \<open>Pinned messages\<close>

lemma insertPinned_filter:
  assumes "\<not> P p"
  shows "filter P (insertPinned src p ms) = filter P ms"
proof (cases "length (takeWhile (\<lambda>m. \<not> (ms_role m = Role_system \<and> metaOf m ''sourceType'' \<noteq> Some (JStr src))) ms) < length ms")
  case True
  let ?k = "length (takeWhile (\<lambda>m. \<not> (ms_role m = Role_system \<and> metaOf m ''sourceType'' \<noteq> Some (JStr src))) ms)"
  have "filter P ms = filter P (take (?k + 1) ms) @ filter P (drop (?k + 1) ms)"
    by (metis append_take_drop_id filter_append)
  with True assms show ?thesis by (simp add: insertPinned_def Let_def)
next
  case False
  with assms show ?thesis by (simp add: insertPinned_def Let_def)
qed

text \<open>The place behind a system message is never inside a block of results.\<close>

lemma insertPinned_paired:
  assumes "pairedFrom False ms" and "\<not> isTool p" and "\<not> hasCalls p"
  shows "pairedFrom False (insertPinned src p ms)"
proof -
  let ?sys = "\<lambda>m. ms_role m = Role_system \<and> metaOf m ''sourceType'' \<noteq> Some (JStr src)"
  let ?k = "length (takeWhile (\<lambda>m. \<not> ?sys m) ms)"
  show ?thesis
  proof (cases "?k < length ms")
    case True
    have sys: "?sys (ms ! ?k)" using nth_length_takeWhile [OF True] by simp
    then have plain: "\<not> isTool (ms ! ?k)" "\<not> hasCalls (ms ! ?k)" by (auto simp: isTool_def hasCalls_def)
    note sp = pairedFrom_split [OF assms(1), of ?k]
    have d: "drop ?k ms = ms ! ?k # drop (Suc ?k) ms" using True by (simp add: Cons_nth_drop_Suc)
    have tail: "pairedFrom False (drop (Suc ?k) ms)" using sp(2) plain unfolding d by simp
    have "insertPinned src p ms = take ?k ms @ ms ! ?k # p # drop (Suc ?k) ms"
      using True by (simp add: insertPinned_def Let_def take_Suc_conv_app_nth)
    moreover have "pairedFrom False (take ?k ms @ ms ! ?k # p # drop (Suc ?k) ms)"
      using pairedFrom_append [of "ms ! ?k # p # drop (Suc ?k) ms" False "take ?k ms"] sp(1) plain assms(2,3) tail by simp
    ultimately show ?thesis by simp
  next
    case False
    with assms show ?thesis by (simp add: insertPinned_def Let_def)
  qed
qed

lemma pinnedMetadata_get [simp]:
  "jget (pinnedMetadata t) ''sourceType'' = Some (JStr t)" "jget (pinnedMetadata t) ''pinned'' = Some (JBool True)"
  by (simp_all add: pinnedMetadata_def jget_def)

lemma systemMessage_simps [simp]:
  "ms_role (systemMessage c m) = Role_system" "ms_content (systemMessage c m) = c" "metaOf (systemMessage c m) k = jget m k"
  "ms_toolCalls (systemMessage c m) = None" "\<not> isTool (systemMessage c m)" "\<not> hasCalls (systemMessage c m)"
  by (simp_all add: systemMessage_def metaOf_def isTool_def hasCalls_def)

lemma pinned_not_tool: "isPinnedRecentFilesMessage m \<Longrightarrow> \<not> isTool m \<and> \<not> hasCalls m"
  "isSessionTodosMessage m \<Longrightarrow> \<not> isTool m \<and> \<not> hasCalls m"
  by (auto simp: isPinnedRecentFilesMessage_def isSessionTodosMessage_def isTool_def hasCalls_def)

text \<open>Leaving out messages that are neither results nor calls keeps a conversation paired, unless they stood inside a block.\<close>

lemma filter_paired:
  assumes "pairedFrom b ms" and "\<And>m. \<not> P m \<Longrightarrow> \<not> isTool m \<and> \<not> hasCalls m"
  shows "pairedFrom b (filter P ms)"
proof -
  have tools: "set (takeWhile isTool xs) \<subseteq> set (takeWhile isTool (filter P xs))" for xs
    using assms(2) by (induction xs) auto
  show ?thesis using assms(1)
  proof (induction ms arbitrary: b)
    case (Cons m ms)
    show ?case
    proof (cases "P m")
      case True
      have "set (callIds m) \<subseteq> answered (takeWhile isTool (filter P ms))" if "set (callIds m) \<subseteq> answered (takeWhile isTool ms)"
        using that answered_mono [OF tools [of ms]] by blast
      with True Cons show ?thesis by (auto split: if_splits)
    next
      case False
      with assms(2) Cons have "pairedFrom False (filter P ms)" by (auto split: if_splits)
      with False show ?thesis using pairedFrom_mono by simp
    qed
  qed simp
qed

definition todosShown :: "TodoSessionStore option \<Rightarrow> string option \<Rightarrow> TodoItem list" where
  "todosShown store key = (case (store, key) of (Some st, Some k) \<Rightarrow> if k = [] then [] else filterActiveTodos (todoGet k st) | _ \<Rightarrow> [])"

lemma syncTodos_cases:
  "case buildSessionTodosMessage (todosShown store key) of
     None \<Rightarrow> syncSessionTodosMessage store key ms = (None, filter (\<lambda>m. \<not> isSessionTodosMessage m) ms)
   | Some m \<Rightarrow> syncSessionTodosMessage store key ms =
       (Some m, insertPinned SESSION_TODOS_SOURCE_TYPE m (filter (\<lambda>m. \<not> isSessionTodosMessage m) ms))"
  by (cases store; cases key)
    (auto simp: todosShown_def syncSessionTodosMessage_def Let_def buildSessionTodosMessage_def filterActiveTodos_def
      isActiveTodoStatus_def split: option.splits)

lemma todoMessage_is: "buildSessionTodosMessage todos = Some m \<Longrightarrow> isSessionTodosMessage m \<and> \<not> isTool m \<and> \<not> hasCalls m"
  by (auto simp: buildSessionTodosMessage_def isSessionTodosMessage_def Let_def split: if_splits)

lemma todoMessage_None: "buildSessionTodosMessage todos = None \<longleftrightarrow> filterActiveTodos todos = []"
  by (auto simp: buildSessionTodosMessage_def filterActiveTodos_def isActiveTodoStatus_def Let_def)

lemma insertPinned_set: "set (insertPinned src p ms) = insert p (set ms)"
proof -
  have "set (take k ms) \<union> set (drop k ms) = set ms" for k by (metis append_take_drop_id set_append)
  then show ?thesis by (auto simp: insertPinned_def Let_def)
qed

lemma insertPinned_only:
  assumes "P p" "\<forall>m\<in>set ms. \<not> P m"
  shows "filter P (insertPinned src p ms) = [p]"
proof -
  have "filter P (take k ms) = []" "filter P (drop k ms) = []" for k
    using assms(2) by (auto simp: filter_empty_conv dest: in_set_takeD in_set_dropD)
  with assms show ?thesis by (simp add: insertPinned_def Let_def filter_empty_conv)
qed

text \<open>
  Before every request the conversation shows the session's todo list as it stands: afterwards it has exactly one todo
  message when an item is unfinished, and none otherwise; every other message is where it was, in the same
  order; and a paired conversation stays paired. A second synchronisation changes nothing.
\<close>

theorem todo_message_synced:
  "filter isSessionTodosMessage (snd (syncSessionTodosMessage store key ms)) =
     (case buildSessionTodosMessage (todosShown store key) of None \<Rightarrow> [] | Some m \<Rightarrow> [m]) \<and>
   (buildSessionTodosMessage (todosShown store key) = None) = (filterActiveTodos (todosShown store key) = []) \<and>
   filter (\<lambda>m. \<not> isSessionTodosMessage m) (snd (syncSessionTodosMessage store key ms)) = filter (\<lambda>m. \<not> isSessionTodosMessage m) ms \<and>
   (if paired ms then paired (snd (syncSessionTodosMessage store key ms)) else True) \<and>
   syncSessionTodosMessage store key (snd (syncSessionTodosMessage store key ms)) = syncSessionTodosMessage store key ms"
proof -
  let ?N = "\<lambda>m. \<not> isSessionTodosMessage m"
  have base: "pairedFrom False (filter ?N ms)" if "paired ms"
    using filter_paired [of False ms ?N] that pinned_not_tool(2) by (auto simp: paired_def)
  show ?thesis
  proof (cases "buildSessionTodosMessage (todosShown store key)")
    case None
    then have s: "syncSessionTodosMessage store key l = (None, filter ?N l)" for l
      using syncTodos_cases [of store key l] by simp
    have "filterActiveTodos (todosShown store key) = []" using None todoMessage_None by blast
    then show ?thesis using base by (simp add: s None paired_def)
  next
    case (Some m)
    then have s: "syncSessionTodosMessage store key l = (Some m, insertPinned SESSION_TODOS_SOURCE_TYPE m (filter ?N l))" for l
      using syncTodos_cases [of store key l] by simp
    note m = todoMessage_is [OF Some]
    have other: "filter ?N (insertPinned SESSION_TODOS_SOURCE_TYPE m (filter ?N ms)) = filter ?N ms"
      using insertPinned_filter [of ?N m SESSION_TODOS_SOURCE_TYPE "filter ?N ms"] m by simp
    moreover have "filter isSessionTodosMessage (insertPinned SESSION_TODOS_SOURCE_TYPE m (filter ?N ms)) = [m]"
      by (rule insertPinned_only) (use m in auto)
    moreover have "pairedFrom False (insertPinned SESSION_TODOS_SOURCE_TYPE m (filter ?N ms))" if "paired ms"
      using insertPinned_paired [OF base [OF that]] m by blast
    moreover have "filterActiveTodos (todosShown store key) \<noteq> []" using Some todoMessage_None [of "todosShown store key"] by simp
    ultimately show ?thesis using Some by (simp add: s paired_def)
  qed
qed

subsection \<open>The listing of recently read files\<close>

lemma selectEntries_bounds:
  assumes "length selected \<le> maxFiles" "totalBytes selected \<le> budget \<or> length selected \<le> 1"
  shows "length (selectEntries maxFiles budget selected es) \<le> maxFiles \<and>
    (totalBytes (selectEntries maxFiles budget selected es) \<le> budget \<or> length (selectEntries maxFiles budget selected es) \<le> 1)"
  using assms
  by (induction es arbitrary: selected) (auto simp: totalBytes_def not_le Suc_le_eq le_Suc_eq)

lemma selectEntries_prefix: "\<exists>rest. selectEntries maxFiles budget selected es = selected @ rest \<and> set rest \<subseteq> set es"
proof (induction es arbitrary: selected)
  case (Cons e es)
  have "\<exists>rest. selectEntries maxFiles budget (selected @ [e]) es = selected @ rest \<and> set rest \<subseteq> insert e (set es)"
    using Cons.IH [of "selected @ [e]"] by (metis append.assoc append_Cons append_Nil insert_mono insert_subset list.simps(15) subset_insertI)
  moreover have "\<exists>rest. selectEntries maxFiles budget selected es = selected @ rest \<and> set rest \<subseteq> insert e (set es)"
    using Cons.IH [of selected] by blast
  ultimately show ?case by auto
qed simp

lemma newestFirst_hd:
  assumes "es \<noteq> []"
  shows "newestFirst es \<noteq> [] \<and> hd (newestFirst es) \<in> set es \<and> (\<forall>e\<in>set es. fe_order e \<le> fe_order (hd (newestFirst es)))"
proof -
  have ne: "newestFirst es \<noteq> []" using assms by (metis newestFirst_def set_empty set_sort)
  then obtain x xs where x: "newestFirst es = x # xs" by (cases "newestFirst es") auto
  have "sorted (map (\<lambda>e. - int (fe_order e)) (newestFirst es))" by (simp add: newestFirst_def)
  then have "\<forall>e\<in>set (x # xs). fe_order e \<le> fe_order x" unfolding x by auto
  moreover have "set (x # xs) = set es" using x by (metis newestFirst_def set_sort)
  ultimately show ?thesis using x ne by (metis list.sel(1) list.set_intros(1))
qed

lemma newest_listed:
  assumes "fc_entries c \<noteq> []" "0 < cr_maxFiles (fc_config c)"
  shows "\<exists>rest. listEntries c = hd (newestFirst (fc_entries c)) # rest \<and> set rest \<subseteq> set (fc_entries c)"
proof -
  obtain x xs where x: "newestFirst (fc_entries c) = x # xs" using newestFirst_hd [OF assms(1)] by (cases "newestFirst (fc_entries c)") auto
  have "set xs \<subseteq> set (fc_entries c)" using x by (metis newestFirst_def set_sort set_subset_Cons)
  with selectEntries_prefix [of "cr_maxFiles (fc_config c)" "currentTotalBudget c" "[x]" xs] assms(2) show ?thesis
    by (fastforce simp: listEntries_def x)
qed

text \<open>
  The files shown to the model are bounded whatever was read: never more than the configured number, and either within
  the byte budget or a single file; and the file read last is always the first of them.
\<close>

theorem listed_files_bounded:
  "length (listEntries c) \<le> cr_maxFiles (fc_config c) \<and>
   (totalBytes (listEntries c) \<le> currentTotalBudget c \<or> length (listEntries c) \<le> 1) \<and>
   (fc_entries c = [] \<or> cr_maxFiles (fc_config c) = 0 \<or>
     (\<exists>e rest. listEntries c = e # rest \<and> e \<in> set (fc_entries c) \<and> (\<forall>x\<in>set (fc_entries c). fe_order x \<le> fe_order e)))"
  using selectEntries_bounds [of "[]" "cr_maxFiles (fc_config c)" "currentTotalBudget c" "newestFirst (fc_entries c)"]
    newest_listed [of c] newestFirst_hd [of "fc_entries c"]
  by (fastforce simp: listEntries_def totalBytes_def)

text \<open>
  A file read when the budget is used up keeps one byte. The budget left for a new file is what the files in the cache
  leave over; when they use it all, the content of the file just read is clipped to a single byte, while the
  oldest files are only dropped afterwards.
\<close>

theorem full_cache_keeps_one_byte:
  assumes "trim path \<noteq> []" and "currentTotalBudget c \<le> totalBytes (fc_entries c)" and "entryOf (trim path) c = None"
  shows "recordRead slice now path content callId c =
    (let clipped = fst (clipFileContent slice content 1)
     in enforceLimits (c\<lparr>fc_nextOrder := fc_nextOrder c + 1, fc_entries := fc_entries c @
       [\<lparr>fe_path = trim path, fe_content = clipped, fe_readAt = now, fe_toolCallId = callId, fe_bytes = byteLength clipped,
         fe_truncated = snd (clipFileContent slice content 1), fe_order = fc_nextOrder c + 1\<rparr>]\<rparr>))"
proof -
  have "min (currentPerFileBudget c) (currentTotalBudget c - totalBytes (fc_entries c)) = 0" using assms(2) by simp
  moreover have "setEntry e (fc_entries c) = fc_entries c @ [e]" if "fe_path e = trim path" for e
    using assms(3) that by (auto simp: setEntry_def entryOf_def find_None_iff)
  ultimately show ?thesis using assms(1,3) by (simp add: recordRead_def Let_def split: prod.splits)
qed

text \<open>Two files fill a cache of four bytes; of the third only the line break of the note of omission is kept, and the first file is dropped.\<close>

definition demoConfig :: ContextRetentionConfig where
  "demoConfig = \<lparr>cr_maxFiles = 3, cr_maxBytesPerFile = 2, cr_maxTotalBytes = 4, cr_maxBytesPerFileUnderGuard = 2,
     cr_maxTotalBytesUnderGuard = 4, cr_toolOutputMaxTokens = 5, cr_toolResultKeepGroups = 5\<rparr>"

definition demoSlice :: slicer where
  "demoSlice s a n = take n (drop a s)"

definition demoCache :: RecentFileReadCache where
  "demoCache = recordRead demoSlice 1 ''b'' ''bb'' None (recordRead demoSlice 1 ''a'' ''aa'' None
     (newRecentFileReadCache demoConfig))"

theorem listed_files_bounded_witness: "length (listEntries demoCache) \<le> cr_maxFiles demoConfig"
proof -
  have "fc_config demoCache = demoConfig" by code_simp
  with listed_files_bounded [of demoCache] show ?thesis by simp
qed

theorem full_cache_keeps_one_byte_witness:
  "map (\<lambda>e. (fe_path e, fe_content e)) (fc_entries (recordRead demoSlice 2 ''c'' ''cc'' None demoCache)) =
   [(''b'', ''bb''), (''c'', [CHR 0x0A])]"
proof -
  have "trim ''c'' = ''c''" by code_simp
  then have "trim ''c'' \<noteq> []" by simp
  moreover have "currentTotalBudget demoCache \<le> totalBytes (fc_entries demoCache)" "entryOf (trim ''c'') demoCache = None"
    by code_simp+
  ultimately have "recordRead demoSlice 2 ''c'' ''cc'' None demoCache =
    (let clipped = fst (clipFileContent demoSlice ''cc'' 1)
     in enforceLimits (demoCache\<lparr>fc_nextOrder := fc_nextOrder demoCache + 1, fc_entries := fc_entries demoCache @
       [\<lparr>fe_path = trim ''c'', fe_content = clipped, fe_readAt = 2, fe_toolCallId = None, fe_bytes = byteLength clipped,
         fe_truncated = snd (clipFileContent demoSlice ''cc'' 1), fe_order = fc_nextOrder demoCache + 1\<rparr>]\<rparr>))"
    by (rule full_cache_keeps_one_byte)
  then show ?thesis by (rule ssubst) code_simp
qed

subsection \<open>File names of spilled outputs\<close>

lemma collapseBy_safe: "\<not> ws sp \<Longrightarrow> c \<in> set (collapseBy ws sp s) \<Longrightarrow> \<not> ws c"
proof (induction ws sp s rule: collapseBy.induct)
  case (2 ws sp x xs)
  then show ?case by (cases "ws x") (metis collapseBy.simps(2) set_ConsD)+
qed simp

text \<open>A file name made from a tool call's identifier, which the model chose, has no separator.\<close>

lemma artifact_name_safe: "\<forall>c\<in>set (sanitizeArtifactName v). safeNameChar c \<and> c \<noteq> CHR ''/'' \<and> c \<noteq> CHR 0x5C"
proof
  fix c assume "c \<in> set (sanitizeArtifactName v)"
  then have "safeNameChar c"
    using collapseBy_safe [of "\<lambda>c. \<not> safeNameChar c" "CHR ''_''" c v] by (auto simp: sanitizeArtifactName_def safeNameChar_def)
  then show "safeNameChar c \<and> c \<noteq> CHR ''/'' \<and> c \<noteq> CHR 0x5C" by (auto simp: safeNameChar_def Let_def)
qed

subsection \<open>The decision to compact\<close>

lemma answered_in_paired:
  assumes "pairedFrom b ms" "m \<in> set ms" "hasCalls m"
  shows "set (callIds m) \<subseteq> answered (filter isTool ms)"
  using assms
proof (induction ms arbitrary: b)
  case (Cons x ms)
  have up: "answered (filter isTool ms) \<subseteq> answered (filter isTool (x # ms))" by (rule answered_mono) auto
  show ?case
  proof (cases "x = m")
    case True
    then have "set (callIds m) \<subseteq> answered (takeWhile isTool ms)" using Cons.prems hasCalls_not_tool by auto
    moreover have "set (takeWhile isTool ms) \<subseteq> set (filter isTool (x # ms))" by (auto dest: set_takeWhileD)
    ultimately show ?thesis using answered_mono by blast
  next
    case False
    from Cons.prems(1) obtain c where "pairedFrom c ms" by (auto split: if_splits)
    from Cons.IH [OF this] Cons.prems False have "set (callIds m) \<subseteq> answered (filter isTool ms)" by simp
    with up show ?thesis by (rule subset_trans [rotated])
  qed
qed simp

text \<open>
  Compaction never cuts a turn in two and never waits for no reason: it is refused as unsafe while a tool call is
  pending; a paired conversation with no pending call is always a safe point; at a safe point outside the
  cool-down, reaching the token threshold always compacts, and the counters of calls, iterations and messages
  compact only under token pressure.
\<close>

theorem compaction_decision:
  "(case si_pendingToolCalls input of Some (c # cs) \<Rightarrow>
      shouldCompact input = \<lparr>cd_triggered = False, cd_reason = Some Compact_unsafe_breakpoint\<rparr>
    | _ \<Rightarrow> paired (si_messages input) \<longrightarrow> cd_reason (shouldCompact input) \<noteq> Some Compact_unsafe_breakpoint) \<and>
   (cd_triggered (shouldCompact input) \<longleftrightarrow> isSafeCompactPoint input \<and> (si_compactCooldownRemaining input = None \<or> si_compactCooldownRemaining input = Some 0) \<and>
     (reaches (si_tokenThreshold input) (si_tokenEstimate input) \<or>
      hasTokenPressure input \<and> (reaches (si_toolCallThreshold input) (si_toolCallCount input) \<or>
        reaches (si_iterationThreshold input) (si_iteration input) \<or> si_maxMessagesBeforeCompact input \<le> length (si_messages input))))"
proof -
  have safe: "isSafeCompactPoint input" if "paired (si_messages input)" "case si_pendingToolCalls input of Some (c # cs) \<Rightarrow> False | _ \<Rightarrow> True"
  proof -
    have "list_all (\<lambda>i. i \<in> answered (filter isTool (si_messages input))) (callIds m)"
      if "List.find hasCalls (rev (si_messages input)) = Some m" for m
    proof -
      have "x \<in> set xs \<and> P x" if "List.find P xs = Some x" for P :: "ConversationMessage \<Rightarrow> bool" and xs x
        using that by (induction xs) (auto split: if_splits)
      from this [OF that] have "m \<in> set (si_messages input)" "hasCalls m" by auto
      with answered_in_paired [of False "si_messages input" m] \<open>paired (si_messages input)\<close>
      show ?thesis by (auto simp: paired_def list_all_iff)
    qed
    with that(2) show ?thesis by (auto simp: isSafeCompactPoint_def Let_def split: option.splits list.splits)
  qed
  have unsafe: "\<not> isSafeCompactPoint input" if "si_pendingToolCalls input = Some (c # cs)" for c cs
    using that by (simp add: isSafeCompactPoint_def)
  have reason: "(cd_reason (shouldCompact input) = Some Compact_unsafe_breakpoint) = (\<not> isSafeCompactPoint input)"
    by (simp add: shouldCompact_def)
  have "shouldCompact input = \<lparr>cd_triggered = False, cd_reason = Some Compact_unsafe_breakpoint\<rparr>" if "si_pendingToolCalls input = Some (c # cs)" for c cs
    using unsafe [OF that] by (simp add: shouldCompact_def)
  moreover have "cd_triggered (shouldCompact input) \<longleftrightarrow> isSafeCompactPoint input \<and> (si_compactCooldownRemaining input = None \<or> si_compactCooldownRemaining input = Some 0) \<and>
     (reaches (si_tokenThreshold input) (si_tokenEstimate input) \<or>
      hasTokenPressure input \<and> (reaches (si_toolCallThreshold input) (si_toolCallCount input) \<or>
        reaches (si_iterationThreshold input) (si_iteration input) \<or> si_maxMessagesBeforeCompact input \<le> length (si_messages input)))"
    by (cases "si_compactCooldownRemaining input") (auto simp: shouldCompact_def)
  ultimately show ?thesis using safe reason by (auto split: option.splits list.splits)
qed

text \<open>Forty messages without a limit on tokens; the token threshold is reached with none.\<close>

definition demoCompactInput :: SessionCompactInput where
  "demoCompactInput = \<lparr>si_taskId = ''t'', si_sessionScopeKey = ''s'', si_messages = demoConversation, si_maxMessagesBeforeCompact = 40,
     si_contextWindowTokens = None, si_protectFirstN = None, si_protectLastN = None, si_targetTokenBudget = None,
     si_tokenEstimate = Some 3, si_tokenThreshold = Some 2, si_toolCallCount = None, si_toolCallThreshold = None, si_iteration = None,
     si_iterationThreshold = None, si_minTokenPressureRatio = None, si_compactCooldownRemaining = None, si_pendingToolCalls = None,
     si_originalGoal = None, si_recentlyReadFilesSummary = None, si_previousSummary = None, si_focusTopic = None\<rparr>"

theorem compaction_decision_witness:
  "paired (si_messages demoCompactInput) \<and> cd_reason (shouldCompact demoCompactInput) \<noteq> Some Compact_unsafe_breakpoint"
proof -
  have "si_pendingToolCalls demoCompactInput = None" "paired (si_messages demoCompactInput)"
    by (simp_all add: demoCompactInput_def demoConversation_paired)
  with compaction_decision [of demoCompactInput] show ?thesis by simp
qed

end
