(* ===== verification/SessionTasks.thy ===== *)
theory SessionTasks
  imports Tasks
begin

section \<open>The tasks of a session\<close>

text \<open>
  The table \<open>session_tasks\<close> (src/src/storage/repositories/session-task-repository.ts): one row for each task of a session,
  numbered within the session. Foreign keys are not modelled, a JSON column is kept as its value.
\<close>

record SessionTaskDraft =
  sk_runId :: string
  sk_sessionId :: string
  sk_taskId :: string
  sk_input :: string
  sk_status :: TaskStatus
  sk_createdAt :: "instant option"
  sk_finishedAt :: "instant option"
  sk_summary :: json_object
  sk_metadata :: json_object

record SessionTaskRecord =
  st_runId :: string
  st_sessionId :: string
  st_taskId :: string
  st_runNumber :: nat
  st_input :: string
  st_status :: TaskStatus
  st_createdAt :: instant
  st_finishedAt :: "instant option"
  st_summary :: json_object
  st_metadata :: json_object

definition sessionTaskListBySessionId :: "string \<Rightarrow> SessionTaskRecord list \<Rightarrow> SessionTaskRecord list" where
  "sessionTaskListBySessionId s t = orderAsc st_runNumber (filter (\<lambda>r. st_sessionId r = s) t)"

definition sessionTaskFindLatest :: "string \<Rightarrow> SessionTaskRecord list \<Rightarrow> SessionTaskRecord option" where
  "sessionTaskFindLatest s t = firstRow (orderDesc st_runNumber (filter (\<lambda>r. st_sessionId r = s) t))"

definition sessionTaskFindByTaskId :: "string \<Rightarrow> SessionTaskRecord list \<Rightarrow> SessionTaskRecord option" where
  "sessionTaskFindByTaskId i t = List.find (\<lambda>r. st_taskId r = i) t"

definition sessionTaskOfDraft :: "instant \<Rightarrow> nat \<Rightarrow> SessionTaskDraft \<Rightarrow> SessionTaskRecord" where
  "sessionTaskOfDraft now n d = \<lparr>st_runId = sk_runId d, st_sessionId = sk_sessionId d, st_taskId = sk_taskId d, st_runNumber = n,
     st_input = sk_input d, st_status = sk_status d,
     st_createdAt = (case sk_createdAt d of Some c \<Rightarrow> c | None \<Rightarrow> now), st_finishedAt = sk_finishedAt d,
     st_summary = sk_summary d, st_metadata = sk_metadata d\<rparr>"

text \<open>The identifier of the run is the primary key, and a unique index is on the task.\<close>

definition sessionTaskCreate :: "instant \<Rightarrow> SessionTaskDraft \<Rightarrow> (SessionTaskRecord list, SessionTaskRecord) op" where
  "sessionTaskCreate now d = (\<lambda>t.
     let n = (case sessionTaskFindLatest (sk_sessionId d) t of None \<Rightarrow> 1 | Some r \<Rightarrow> st_runNumber r + 1)
     in case rowInsert st_runId (sessionTaskOfDraft now n d) t of
          Inl e \<Rightarrow> (Inl e, t)
        | Inr t' \<Rightarrow> if sk_taskId d \<in> st_taskId ` set t then (Inl (PlainError ''UNIQUE constraint failed''), t)
            else (case sessionTaskFindByTaskId (sk_taskId d) t' of
            None \<Rightarrow> (Inl (PlainError (''Session task for task '' @ sk_taskId d @ '' was not persisted.'')), t')
          | Some r \<Rightarrow> (Inr r, t')))"

end
