(* ===== verification/Kernel.thy ===== *)
theory Kernel
  imports Orchestrator Tasks SessionTasks SessionTodos ContextPolicy Budget
begin

section \<open>The state of the agent loop\<close>

text \<open>
  The state of a running task (ExecutionLoopState of src/src/runtime/kernel/execution-loop-state.ts), the
  checkpoints of paused tasks (src/src/storage/repositories/execution-checkpoint-repository.ts and
  kernel/checkpoint-manager.ts), and the small functions of src/src/runtime/kernel-support.ts the loop uses.
\<close>

subsection \<open>Responses of a provider\<close>

record KernelResponseMetadata =
  km_providerName :: "string option"
  km_modelName :: "string option"
  km_retryCount :: "int option"
  km_raw :: "json_object option"

record KernelUsage = ProviderUsage +
  ku_cachedInputTokens :: "int option"
  ku_totalTokens :: "int option"

datatype ResponseKind =
    Final_response
  | Retry_response int string
  | Tool_calls_response "ProviderToolCall list"

record KernelResponse =
  kr_kind :: ResponseKind
  kr_message :: string
  kr_reasoningContent :: "string option"
  kr_usage :: KernelUsage
  kr_metadata :: "KernelResponseMetadata option"

definition responseCalls :: "KernelResponse \<Rightarrow> ProviderToolCall list" where
  "responseCalls r = (case kr_kind r of Tool_calls_response cs \<Rightarrow> cs | _ \<Rightarrow> [])"

text \<open>What the loop knows of a tool (\<open>ProviderToolDescriptor\<close>).\<close>

record ProviderToolDescriptor =
  ds_name :: string
  ds_capability :: ToolCapability
  ds_privacyLevel :: PrivacyLevel
  ds_riskLevel :: ToolRiskLevel
  ds_parallelSafe :: bool

subsection \<open>Events for the caller of a task\<close>

datatype ToolEventStatus = Ev_started | Ev_approval_required | Ev_clarify_required | Ev_finished | Ev_failed

datatype RuntimeTaskEvent =
    Lifecycle_event string string int string
  | Tool_event string string string ToolEventStatus int "string option"
  | Result_event string string "string option" "string option" "string option"

subsection \<open>Checkpoints\<close>

record ExecutionCheckpointRecord =
  ck_taskId :: string
  ck_iteration :: int
  ck_memoryContext :: "ContextFragment list"
  ck_messages :: msgs
  ck_pendingToolCalls :: "ProviderToolCall list"
  ck_pendingClarifyPromptId :: "string option"
  ck_updatedAt :: instant

type_synonym checkpoints = "ExecutionCheckpointRecord list"

definition checkpointFind :: "string \<Rightarrow> checkpoints \<Rightarrow> ExecutionCheckpointRecord option" where
  "checkpointFind i t = rowFind ck_taskId i t"

text \<open>\<open>INSERT \<dots> ON CONFLICT (task_id) DO UPDATE\<close>.\<close>

definition checkpointSave :: "ExecutionCheckpointRecord \<Rightarrow> checkpoints \<Rightarrow> checkpoints" where
  "checkpointSave r t =
     (case rowFind ck_taskId (ck_taskId r) t of None \<Rightarrow> t @ [r] | Some _ \<Rightarrow> rowSet ck_taskId (ck_taskId r) r t)"

definition checkpointDelete :: "string \<Rightarrow> checkpoints \<Rightarrow> checkpoints" where
  "checkpointDelete i t = filter (\<lambda>r. ck_taskId r \<noteq> i) t"

subsection \<open>The state\<close>

text \<open>Whether activity of the task postpones its timeout (\<open>TimeoutMode\<close>).\<close>

datatype TimeoutMode = Timeout_activity | Timeout_wall_clock

fun timeoutModeStr :: "TimeoutMode \<Rightarrow> string" where
  "timeoutModeStr Timeout_activity = ''activity''"
| "timeoutModeStr Timeout_wall_clock = ''wall_clock''"

text \<open>
  The code's \<open>turnProviderMessages\<close> is never an array of its own: at the start it is the array \<open>state.messages\<close>,
  later the local array \<open>messages\<close> of the loop, which starts as a copy of \<open>state.messages\<close>. Messages are replaced, not
  changed in place, so an array is a list here and the shared one is named by a value of \<open>TurnArray\<close>.
\<close>

datatype TurnArray = State_messages | Loop_messages

record ToolSignature =
  sg_iteration :: int
  sg_toolCallId :: string
  sg_cachedToolOutput :: "string option"

record ExecutionLoopState =
  ls_compactedCount :: nat
  ls_compactCooldownRemaining :: int
  ls_costWarnedToolNames :: "string list"
  ls_cumulativeToolCallCount :: nat
  ls_cwd :: string
  ls_iterationsSinceLastCompact :: nat
  ls_maxIterations :: int
  ls_microPrunedCount :: nat
  ls_memoryContext :: "ContextFragment list"
  ls_memoryRecall :: "ContextFilterDecision list option"
  ls_messages :: msgs
  ls_onTaskEvent :: bool
  ls_pendingToolCalls :: "ProviderToolCall list"
  ls_completionIntentSeenAt :: "int option"
  ls_completionVerificationGuardEmitted :: bool
  ls_completionVerificationSatisfied :: bool
  ls_completionVerificationSatisfiedEmitted :: bool
  ls_criticalBudgetPressureEmitted :: bool
  ls_interactionMode :: "InteractionMode option"
  ls_postCompletionVerificationReads :: nat
  ls_readOnlyTurns :: nat
  ls_selectedSkillContext :: "ContextFragment list"
  ls_silentToolTurns :: nat
  ls_toolCallSignatures :: "string \<Rightarrow> ToolSignature option"
  ls_turnProviderMessages :: TurnArray
  ls_recentFileReadCache :: "RecentFileReadCache option"
  ls_repoMapSummary :: "string option"
  ls_task :: TaskRecord
  ls_taskRecoveryUsed :: bool
  ls_timeoutMode :: TimeoutMode
  ls_timeoutMs :: int
  ls_tokenBudget :: TokenBudget
  ls_tokenCounter :: HybridTokenCounterState
  ls_toolArtifactsRoot :: string
  ls_warningBudgetPressureEmitted :: bool
  ls_writeToolSucceeded :: bool

text \<open>
  What a task shares with the other handlers of the process: tables, trace, whether its signal was aborted (and why),
  and the rest of the world. Anything the loop awaits may change these; nothing but the loop changes its own state.
\<close>

datatype AbortReason = Abort_interrupt | Abort_timeout

record 'm Shared =
  sh_tasks :: tasks
  sh_checkpoints :: checkpoints
  sh_sessionTasks :: "SessionTaskRecord list"
  sh_trace :: "TraceEvent list"
  sh_abort :: "AbortReason option"
  sh_rest :: 'm

record 'm Kernel =
  kn_shared :: "'m Shared"
  kn_loop :: ExecutionLoopState
  kn_messages :: msgs
  kn_events :: "RuntimeTaskEvent list"

type_synonym ('m, 'a) kop = "('m Kernel, 'a) op"

definition onShared :: "('m Shared, 'a) op \<Rightarrow> ('m, 'a) kop" where
  "onShared = zoom kn_shared (\<lambda>s k. k\<lparr>kn_shared := s\<rparr>)"

definition setLoop :: "(ExecutionLoopState \<Rightarrow> ExecutionLoopState) \<Rightarrow> ('m, unit) kop" where
  "setLoop f = modify (\<lambda>k. k\<lparr>kn_loop := f (kn_loop k)\<rparr>)"

definition askLoop :: "(ExecutionLoopState \<Rightarrow> 'a) \<Rightarrow> ('m, 'a) kop" where
  "askLoop f = ask (\<lambda>k. f (kn_loop k))"

definition kernelTrace :: "TraceEvent \<Rightarrow> ('m, unit) kop" where
  "kernelTrace e = onShared (modify (\<lambda>s. s\<lparr>sh_trace := sh_trace s @ [e]\<rparr>))"

text \<open>\<open>emitTaskEvent\<close>: only when the caller of the task gave a callback.\<close>

definition emitTaskEvent :: "RuntimeTaskEvent \<Rightarrow> ('m, unit) kop" where
  "emitTaskEvent e = modify (\<lambda>k. if ls_onTaskEvent (kn_loop k) then k\<lparr>kn_events := kn_events k @ [e]\<rparr> else k)"

definition kernelTaskUpdate :: "instant \<Rightarrow> string \<Rightarrow> TaskUpdatePatch \<Rightarrow> ('m, TaskRecord) kop" where
  "kernelTaskUpdate now i p = onShared (zoom sh_tasks (\<lambda>t s. s\<lparr>sh_tasks := t\<rparr>) (taskUpdate now i p))"

text \<open>\<open>array.push\<close> on the loop's array, and on the array \<open>turnProviderMessages\<close> stands for.\<close>

definition pushMessage :: "ConversationMessage \<Rightarrow> ('m, unit) kop" where
  "pushMessage m = modify (\<lambda>k. k\<lparr>kn_messages := kn_messages k @ [m]\<rparr>)"

definition turnMessages :: "'m Kernel \<Rightarrow> msgs" where
  "turnMessages k = (case ls_turnProviderMessages (kn_loop k) of
     State_messages \<Rightarrow> ls_messages (kn_loop k) | Loop_messages \<Rightarrow> kn_messages k)"

definition setTurnMessages :: "msgs \<Rightarrow> 'm Kernel \<Rightarrow> 'm Kernel" where
  "setTurnMessages ms k = (case ls_turnProviderMessages (kn_loop k) of
     State_messages \<Rightarrow> k\<lparr>kn_loop := (kn_loop k)\<lparr>ls_messages := ms\<rparr>\<rparr> | Loop_messages \<Rightarrow> k\<lparr>kn_messages := ms\<rparr>)"

definition throwIfAborted :: "('m, unit) kop" where
  "throwIfAborted = (\<lambda>k. case sh_abort (kn_shared k) of
     None \<Rightarrow> (Inr (), k)
   | Some Abort_timeout \<Rightarrow> (Inl (AppError Timeout ''Task timed out after inactivity.'' None), k)
   | Some Abort_interrupt \<Rightarrow> (Inl (AppError Interrupt ''Task interrupted by signal.'' None), k))"

text \<open>The metadata of messages the runtime writes itself.\<close>

definition promptMetadata :: json_object where
  "promptMetadata = [(''privacyLevel'', JStr ''internal''), (''retentionKind'', JStr ''session''), (''sourceType'', JStr ''system_prompt'')]"

definition assistantMessage :: "string \<Rightarrow> ConversationMessage" where
  "assistantMessage content = \<lparr>ms_role = Role_assistant, ms_content = content, ms_reasoningContent = None, ms_toolCallId = None,
     ms_toolName = None, ms_toolCalls = None, ms_metadata = None\<rparr>"

subsection \<open>Checkpoint manager\<close>

definition saveCheckpoint :: "instant \<Rightarrow> string \<Rightarrow> int \<Rightarrow> string option \<Rightarrow> ProviderToolCall list \<Rightarrow> ('m, unit) kop" where
  "saveCheckpoint now taskId iteration promptId pending = (\<lambda>k.
     onShared (modify (\<lambda>s. s\<lparr>sh_checkpoints := checkpointSave
       \<lparr>ck_taskId = taskId, ck_iteration = iteration, ck_memoryContext = ls_memoryContext (kn_loop k),
        ck_messages = kn_messages k, ck_pendingToolCalls = pending, ck_pendingClarifyPromptId = promptId,
        ck_updatedAt = now\<rparr> (sh_checkpoints s)\<rparr>)) k)"

definition deleteCheckpoint :: "string \<Rightarrow> ('m, unit) kop" where
  "deleteCheckpoint taskId = onShared (modify (\<lambda>s. s\<lparr>sh_checkpoints := checkpointDelete taskId (sh_checkpoints s)\<rparr>))"

subsection \<open>Signatures of tool calls\<close>

fun stableStringify :: "json \<Rightarrow> string" where
  "stableStringify (JArr xs) = [CHR ''[''] @ joinWith '','' (map stableStringify xs) @ [CHR '']'']"
| "stableStringify (JObj o1) =
     [CHR 0x7B] @ joinWith '','' (map snd (sort_key fst (map (\<lambda>(k, v). (k, quote k @ '':'' @ stableStringify v)) o1))) @ [CHR 0x7D]"
| "stableStringify v = stringify v"

definition toolCallSignature :: "string \<Rightarrow> json \<Rightarrow> string" where
  "toolCallSignature toolName input = toolName @ ''|'' @ stableStringify input"

definition deduplicatable :: "ToolCapability \<Rightarrow> bool" where
  "deduplicatable c \<longleftrightarrow> c = Filesystem_read \<or> c = Network_fetch_public_readonly"

fun rebuildCalls :: "(string \<Rightarrow> bool) \<Rightarrow> int \<Rightarrow> ProviderToolCall list \<Rightarrow> (string \<Rightarrow> ToolSignature option) \<Rightarrow> string \<Rightarrow> ToolSignature option" where
  "rebuildCalls isDedup iteration [] sigs = sigs"
| "rebuildCalls isDedup iteration (c # cs) sigs =
     (let s = toolCallSignature (pc_toolName c) (JObj (pc_input c))
      in if \<not> isDedup (pc_toolName c) \<or> sigs s \<noteq> None then rebuildCalls isDedup iteration cs sigs
         else rebuildCalls isDedup iteration cs (sigs(s \<mapsto>
           \<lparr>sg_iteration = iteration, sg_toolCallId = pc_toolCallId c, sg_cachedToolOutput = None\<rparr>)))"

fun rebuildFrom :: "(string \<Rightarrow> bool) \<Rightarrow> int \<Rightarrow> msgs \<Rightarrow> (string \<Rightarrow> ToolSignature option) \<Rightarrow> string \<Rightarrow> ToolSignature option" where
  "rebuildFrom isDedup iteration [] sigs = sigs"
| "rebuildFrom isDedup iteration (m # ms) sigs =
     (case (ms_role m, ms_toolCalls m) of
        (Role_assistant, Some cs) \<Rightarrow> rebuildFrom isDedup (iteration + 1) ms (rebuildCalls isDedup (iteration + 1) cs sigs)
      | _ \<Rightarrow> rebuildFrom isDedup iteration ms sigs)"

definition rebuildSignaturesFromMessages :: "msgs \<Rightarrow> (string \<Rightarrow> bool) \<Rightarrow> string \<Rightarrow> ToolSignature option" where
  "rebuildSignaturesFromMessages ms isDedup = rebuildFrom isDedup 0 ms (\<lambda>_. None)"

text \<open>\<open>JSON.parse\<close> is the parameter \<open>parse\<close>, \<open>None\<close> for an error.\<close>

definition trimStart :: "string \<Rightarrow> string" where
  "trimStart s = dropWhile isWs s"

definition isToolResultErrorEnvelope :: "(string \<Rightarrow> json option) \<Rightarrow> string \<Rightarrow> bool" where
  "isToolResultErrorEnvelope parse content =
     (if content = [] \<or> content = ''null'' then True
      else if \<not> startsWith (trimStart content) [CHR 0x7B] then False
      else case parse content of
             Some (JObj o1) \<Rightarrow> (case (jget o1 ''errorCode'', jget o1 ''error'') of (Some (JStr _), Some (JStr _)) \<Rightarrow> True | _ \<Rightarrow> False)
           | _ \<Rightarrow> False)"

definition historyHasSuccessfulWrite :: "(string \<Rightarrow> json option) \<Rightarrow> msgs \<Rightarrow> (string \<Rightarrow> bool) \<Rightarrow> bool" where
  "historyHasSuccessfulWrite parse ms isWriteTool =
     (\<exists>m\<in>set ms. ms_role m = Role_tool \<and> (case ms_toolName m of None \<Rightarrow> False | Some n \<Rightarrow> isWriteTool n) \<and>
        \<not> isToolResultErrorEnvelope parse (ms_content m))"

subsection \<open>Resuming\<close>

definition isDeduplicatableTool :: "(string \<Rightarrow> ProviderToolDescriptor option) \<Rightarrow> string \<Rightarrow> bool" where
  "isDeduplicatableTool describe toolName =
     (case describe toolName of None \<Rightarrow> False | Some d \<Rightarrow> deduplicatable (ds_capability d))"

definition isWriteTool :: "(string \<Rightarrow> ProviderToolDescriptor option) \<Rightarrow> string \<Rightarrow> bool" where
  "isWriteTool describe toolName =
     ((case describe toolName of None \<Rightarrow> False | Some d \<Rightarrow> ds_capability d = Filesystem_write) \<or> includesStr toolName ''write'')"

record ResumeCheckpointState =
  rc_checkpoint :: ExecutionCheckpointRecord
  rc_toolCallSignatures :: "string \<Rightarrow> ToolSignature option"
  rc_writeToolSucceeded :: bool

definition loadForResume :: "(string \<Rightarrow> json option) \<Rightarrow> (string \<Rightarrow> ProviderToolDescriptor option) \<Rightarrow> TaskRecord \<Rightarrow>
    checkpoints \<Rightarrow> thrown + ResumeCheckpointState" where
  "loadForResume parse describe task t =
     (case checkpointFind (tk_taskId task) t of
        None \<Rightarrow> Inl (AppError Task_not_resumable (''Task '' @ tk_taskId task @ '' has no execution checkpoint to resume.'') None)
      | Some c \<Rightarrow> Inr \<lparr>rc_checkpoint = c,
          rc_toolCallSignatures = rebuildSignaturesFromMessages (ck_messages c) (isDeduplicatableTool describe),
          rc_writeToolSucceeded = historyHasSuccessfulWrite parse (ck_messages c) (isWriteTool describe)\<rparr>)"

subsection \<open>Texts\<close>

definition summarizeText :: "string \<Rightarrow> nat \<Rightarrow> string" where
  "summarizeText v maxLength =
     (let compact = trim (collapseWs v) in if length compact \<le> maxLength then compact else take maxLength compact @ ''...'')"

fun summarizeToolOutput :: "json \<Rightarrow> string" where
  "summarizeToolOutput (JStr s) = summarizeText s 140"
| "summarizeToolOutput JNull = ''output=null''"
| "summarizeToolOutput (JArr xs) = ''output=array('' @ showNat (length xs) @ '')''"
| "summarizeToolOutput (JObj o1) =
     ''output=object'' @ [CHR 0x7B] @ joinWith '','' (take 6 (map fst o1)) @ (if length o1 > 6 then '',...'' else []) @ [CHR 0x7D]"
| "summarizeToolOutput (JNum n) = ''output='' @ showInt n"
| "summarizeToolOutput (JBool b) = ''output='' @ (if b then ''true'' else ''false'')"

text \<open>The last assistant message with calls, as if the provider had just answered with it.\<close>

definition findLastAssistantToolCallsResponse :: "msgs \<Rightarrow> KernelResponse option" where
  "findLastAssistantToolCallsResponse ms =
     (case List.find hasCalls (rev ms) of
        None \<Rightarrow> None
      | Some m \<Rightarrow> Some \<lparr>kr_kind = Tool_calls_response (case ms_toolCalls m of None \<Rightarrow> [] | Some cs \<Rightarrow> cs),
          kr_message = ms_content m, kr_reasoningContent = ms_reasoningContent m,
          kr_usage = \<lparr>pu_inputTokens = 0, pu_outputTokens = 0, ku_cachedInputTokens = None, ku_totalTokens = None\<rparr>, kr_metadata = None\<rparr>)"

end
