(* ===== verification/Completion.thy ===== *)
theory Completion
  imports Kernel
begin

section \<open>When a task may finish\<close>

text \<open>
  src/src/runtime/kernel/completion-controller.ts: the pressure of the iteration budget, the guards against silent
  and read-only turns, and the demand that changes of the workspace are verified before a task ends; and the
  tests on final texts of src/src/providers/reasoning-content.ts. Patterns in scripts outside the character
  range of the model never match there and are left out.
\<close>

subsection \<open>Final texts\<close>

definition resolveProviderFinalText :: "bool \<Rightarrow> string \<Rightarrow> string option \<Rightarrow> string option" where
  "resolveProviderFinalText isFinal message reasoning =
     (if \<not> isFinal then None
      else if trim message \<noteq> [] then Some (trim message)
      else let r = (case reasoning of None \<Rightarrow> [] | Some x \<Rightarrow> trim x) in if r \<noteq> [] then Some r else None)"

datatype FinalRejection = Rej_empty | Rej_tool_markup | Rej_reasoning_only | Rej_too_long | Rej_internal_reasoning

definition FINAL_OUTPUT_POLISH_MAX_LENGTH :: nat where "FINAL_OUTPUT_POLISH_MAX_LENGTH = 4000"

definition isReasoningOnlyFinal :: "bool \<Rightarrow> string \<Rightarrow> string option \<Rightarrow> bool" where
  "isReasoningOnlyFinal isFinal message reasoning \<longleftrightarrow>
     isFinal \<and> trim message = [] \<and> (case reasoning of None \<Rightarrow> False | Some x \<Rightarrow> trim x \<noteq> [])"

definition reasoningMarkers :: "string list" where
  "reasoningMarkers = [''let me think'', ''let me re-read'', ''let me look'', ''let me now identify'', ''bug candidate'',
     ''candidate #'', ''wait,'', ''actually wait'', ''hmm,'', ''i need to'']"

definition looksLikeInternalReasoning :: "string \<Rightarrow> bool" where
  "looksLikeInternalReasoning txt =
     (let sample = lower (take 12000 txt)
      in length (filter (includesStr sample) reasoningMarkers) \<ge> 2 \<or>
         testRe (seqOf [lit ''bug candidate'', ws0, chr (CHR ''#'')]) sample)"

definition shouldPolishFinalOutput :: "bool \<Rightarrow> string \<Rightarrow> string option \<Rightarrow> string \<Rightarrow> FinalRejection option" where
  "shouldPolishFinalOutput isFinal message reasoning resolvedText =
     (if \<not> isFinal then None
      else if isReasoningOnlyFinal isFinal message reasoning then Some Rej_reasoning_only
      else if length resolvedText > FINAL_OUTPUT_POLISH_MAX_LENGTH then Some Rej_too_long
      else if looksLikeInternalReasoning resolvedText then Some Rej_internal_reasoning else None)"

definition looksLikeToolMarkup :: "string \<Rightarrow> bool" where
  "looksLikeToolMarkup txt =
     (let sample = trim txt
      in sample \<noteq> [] \<and>
        (testRe (seqOf [chr (CHR ''<''), chr (CHR ''|''), Many (Unit (\<lambda>c. c \<noteq> CHR ''|'' \<and> c \<noteq> CHR ''>'')), chr (CHR ''|''), chr (CHR ''>'')]) sample \<or>
         includesStr sample ''tool_calls>'' \<or> includesStr sample ''<invoke'' \<or>
         testRe (seqOf [WordBoundary, chr (CHR ''i''), chr (CHR ''n''), chr (CHR ''v''), chr (CHR ''o''), chr (CHR ''k''), chr (CHR ''e''),
           ws1, chr (CHR ''n''), chr (CHR ''a''), chr (CHR ''m''), chr (CHR ''e''), chr (CHR ''='')]) sample \<or>
         testRe (lit ''<tool_call>'') sample \<or> testRe (lit ''</tool_call>'') sample \<or>
         testRe (lit ''<arg_key>'') sample \<or> testRe (lit ''<arg_value>'') sample \<or>
         includesStr sample ([CHR 0x22] @ ''toolName'' @ [CHR 0x22]) \<and> includesStr sample ''toolCallId''))"

text \<open>\<open>None\<close>: acceptable; otherwise the reason.\<close>

definition isAcceptableUserFinalText :: "bool \<Rightarrow> string \<Rightarrow> string option \<Rightarrow> string \<Rightarrow> FinalRejection option" where
  "isAcceptableUserFinalText isFinal message reasoning resolvedText =
     (let txt = trim resolvedText
      in if txt = [] then Some Rej_empty
         else if looksLikeToolMarkup txt then Some Rej_tool_markup
         else shouldPolishFinalOutput isFinal message reasoning txt)"

subsection \<open>Commands and claims\<close>

definition PROGRESS_GUARD_THRESHOLD :: nat where "PROGRESS_GUARD_THRESHOLD = 3"
definition READ_ONLY_GUARD_THRESHOLD :: nat where "READ_ONLY_GUARD_THRESHOLD = 8"
definition POST_COMPLETION_VERIFICATION_READ_LIMIT :: nat where "POST_COMPLETION_VERIFICATION_READ_LIMIT = 1"

definition mentionsUnverifiedWork :: "string \<Rightarrow> bool" where
  "mentionsUnverifiedWork message =
     (let flat = lower message
      in includesStr flat ''unverified'' \<or> includesStr flat ''not verified'' \<or> includesStr flat ''could not verify'' \<or>
         includesStr flat (''couldn'' @ [CHR 0x27] @ ''t verify'') \<or> includesStr flat ''unable to verify'')"

definition hasCompletionIntent :: "string \<Rightarrow> bool" where
  "hasCompletionIntent message =
     (let flat = lower (trim (collapseWs message))
      in if flat = [] then False
         else if list_ex (includesStr flat) [''let me'', ''need to'', ''what'' @ [CHR 0x27] @ ''s missing'', ''this tool call''] then False
         else includesStr flat ''all files are complete'' \<or> includesStr flat ''complete and functional'' \<or>
              testRe (seqOf [lit ''completed the '', Many notNl, lit ''task'']) flat \<or>
              includesStr flat ''implementation is complete'' \<or> includesStr flat ''work is complete'')"

definition isReadOnlyToolName :: "string \<Rightarrow> bool" where
  "isReadOnlyToolName toolName = (includesStr toolName ''read'' \<or> includesStr toolName ''search'' \<or>
     includesStr toolName ''fetch'' \<or> includesStr toolName ''view'')"

definition NON_EXECUTING_COMMAND_LEADERS :: "string list" where
  "NON_EXECUTING_COMMAND_LEADERS = [''echo'', ''printf'', ''print'', ''cat'', ''type'', ''ls'', ''dir'', ''pwd'', ''true'', '':'']"

definition isSep :: "char \<Rightarrow> bool" where
  "isSep c \<longleftrightarrow> c = CHR ''/'' \<or> c = CHR 0x5C"

text \<open>\<open>replace(/^.*[\\/]/u, "")\<close>: everything up to the last separator goes.\<close>

definition baseName :: "string \<Rightarrow> string" where
  "baseName s = rev (takeWhile (\<lambda>c. \<not> isSep c) (rev s))"

definition leaderOf :: "string \<Rightarrow> string" where
  "leaderOf flat = baseName (takeWhile (\<lambda>c. \<not> isWs c) flat)"

definition wordDotDash :: re where
  "wordDotDash = Many (Unit (\<lambda>c. isWord c \<or> c = CHR ''.'' \<or> c = CHR ''-''))"

definition isNodeVerification :: "string \<Rightarrow> bool" where
  "isNodeVerification flat =
     (if testRe (seqOf [Unit isWs, chr (CHR ''-''), Or (chr (CHR ''e'')) (chr (CHR ''p'')), WordBoundary]) flat \<or>
         testRe (seqOf [Unit isWs, lit ''--'', Or (lit ''eval'') (lit ''print''), WordBoundary]) flat then False
      else if ends (seqOf [lit ''--test'', WordBoundary]) (None, flat) \<noteq> [] \<or>
              testRe (seqOf [Unit isWs, lit ''--test'', WordBoundary]) flat then True
      else testRe (seqOf [wordDotDash, anyOf [lit ''test'', lit ''verify'', lit ''check''], wordDotDash, chr (CHR ''.''),
             anyOf [Cat (opt (chr (CHR ''m''))) (lit ''js''), lit ''cjs'', lit ''ts''], WordBoundary]) flat)"

definition isVerificationCommand :: "string \<Rightarrow> string list \<Rightarrow> bool" where
  "isVerificationCommand command configuredTestCommands =
     (let flat = trim (lower command)
      in if flat = [] then False
         else if leaderOf flat \<in> set NON_EXECUTING_COMMAND_LEADERS then False
         else if leaderOf flat = ''node'' \<or> leaderOf flat = ''node.exe'' then isNodeVerification flat
         else if includesStr flat ''test'' \<or> includesStr flat ''build'' \<or> includesStr flat ''lint'' \<or>
                 includesStr flat ''typecheck'' \<or> includesStr flat ''tsc'' then True
         else list_ex (\<lambda>configured. let hint = trim (lower configured)
                in hint \<noteq> [] \<and> (flat = hint \<or> startsWith flat (hint @ '' ''))) configuredTestCommands)"

definition isSuccessfulVerificationToolCall :: "string \<Rightarrow> ToolExecutionResult \<Rightarrow> string list \<Rightarrow> bool" where
  "isSuccessfulVerificationToolCall toolName result configuredTestCommands =
     (case result of
        Failure _ _ _ \<Rightarrow> False
      | Success s \<Rightarrow>
          if toolName \<noteq> ''shell'' then False
          else case (case ts_runtimeOutput s of Some r \<Rightarrow> r | None \<Rightarrow> ts_output s) of
                 JObj o1 \<Rightarrow> jget o1 ''exitCode'' = Some (JNum 0) \<and>
                   (case jget o1 ''command'' of Some (JStr c) \<Rightarrow> isVerificationCommand c configuredTestCommands | _ \<Rightarrow> False)
               | _ \<Rightarrow> False)"

subsection \<open>The controller\<close>

text \<open>\<open>describeTool\<close> and the configured test commands.\<close>

record CompletionDeps =
  co_describeTool :: "string \<Rightarrow> ProviderToolDescriptor option"
  co_testCommands :: "string list"

definition isReadOnlyToolCall :: "CompletionDeps \<Rightarrow> string \<Rightarrow> bool" where
  "isReadOnlyToolCall deps toolName =
     (case co_describeTool deps toolName of
        Some d \<Rightarrow> ds_capability d = Filesystem_read \<or> ds_capability d = Network_fetch_public_readonly
      | None \<Rightarrow> isReadOnlyToolName toolName)"

definition allToolCallsAreReads :: "CompletionDeps \<Rightarrow> ProviderToolCall list \<Rightarrow> bool" where
  "allToolCallsAreReads deps calls \<longleftrightarrow> calls \<noteq> [] \<and> list_all (\<lambda>c. isReadOnlyToolCall deps (pc_toolName c)) calls"

definition pushPressure :: "ConversationMessage \<Rightarrow> 'm Kernel \<Rightarrow> 'm Kernel" where
  "pushPressure m k =
     (let k1 = k\<lparr>kn_loop := (kn_loop k)\<lparr>ls_messages := ls_messages (kn_loop k) @ [m]\<rparr>\<rparr>
      in if ls_turnProviderMessages (kn_loop k) \<noteq> State_messages then setTurnMessages (turnMessages k1 @ [m]) k1 else k1)"

text \<open>The ratio \<open>iteration / max(1, maxIterations)\<close> against 0.9 and 0.7.\<close>

definition pressureTier :: "int \<Rightarrow> int \<Rightarrow> bool option" where
  "pressureTier iteration maxIterations =
     (if 10 * iteration \<ge> 9 * max 1 maxIterations then Some True
      else if 10 * iteration \<ge> 7 * max 1 maxIterations then Some False else None)"

definition pressureText :: "bool \<Rightarrow> int \<Rightarrow> int \<Rightarrow> string" where
  "pressureText critical remaining maxIterations =
     (if critical
      then ''Iteration budget critical: '' @ showInt remaining @ ''/'' @ showInt maxIterations @
        '' loop iterations remain. Stop nonessential tool calls now and provide the final answer as soon as possible.''
      else ''Iteration budget warning: '' @ showInt remaining @ ''/'' @ showInt maxIterations @
        '' loop iterations remain. Begin converging; use tools only if they are required to finish the user'' @ [CHR 0x27] @ ''s request.'')"

definition maybeInjectIterationBudgetPressure :: "string \<Rightarrow> int \<Rightarrow> ('m, unit) kop" where
  "maybeInjectIterationBudgetPressure taskId iteration =
     bnd (askLoop id) (\<lambda>st.
     case pressureTier iteration (ls_maxIterations st) of
       None \<Rightarrow> ret ()
     | Some critical \<Rightarrow>
         if (\<not> critical \<and> ls_warningBudgetPressureEmitted st) \<or> (critical \<and> ls_criticalBudgetPressureEmitted st) then ret ()
         else let remaining = max 0 (ls_maxIterations st - iteration + 1)
           in bnd (setLoop (\<lambda>s. if critical then s\<lparr>ls_criticalBudgetPressureEmitted := True\<rparr>
                  else s\<lparr>ls_warningBudgetPressureEmitted := True\<rparr>)) (\<lambda>_.
              bnd (modify (pushPressure (systemMessage (pressureText critical remaining (ls_maxIterations st)) promptMetadata))) (\<lambda>_.
              kernelTrace \<lparr>te_actor = ''runtime.loop'', te_eventType = ''iteration_budget_pressure'',
                te_payload = [(''iteration'', JNum iteration), (''maxIterations'', JNum (ls_maxIterations st)),
                  (''remainingIterations'', JNum remaining), (''tier'', JStr (if critical then ''critical'' else ''warning''))],
                te_stage = ''control'', te_summary = ''Iteration budget pressure: '' @ (if critical then ''critical'' else ''warning''),
                te_taskId = taskId\<rparr>)))"

definition progressGuardText :: "nat \<Rightarrow> int \<Rightarrow> string" where
  "progressGuardText turns iteration =
     ''progress guard: you have made '' @ showNat turns @ '' consecutive tool-call rounds at iterations '' @
     showInt (iteration - int turns + 1) @ ''-'' @ showInt iteration @
     '' without writing any visible reasoning text. Stop calling tools and answer the user'' @ [CHR 0x27] @
     ''s request based on what you already know. If the original question was conceptual or general-knowledge, answer directly without further tool use.''"

definition buildReadOnlyAnalysisGuardMessage :: "InteractionMode \<Rightarrow> string" where
  "buildReadOnlyAnalysisGuardMessage mode =
     ''synthesis guard: you have spent many consecutive turns reading files without producing a user-facing answer. '' @
     (if mode = Plan_mode
      then ''Stop reading and synthesize your findings into a concrete analysis or plan now. '' @
        ''Do not call write, patch, shell, or todo tools in plan mode. '' @
        ''Answer the user'' @ [CHR 0x27] @ ''s request directly in a concise numbered list without chain-of-thought.''
      else ''Stop reading and synthesize your findings into a concrete response now. '' @
        ''Answer the user'' @ [CHR 0x27] @ ''s request directly in a concise numbered list without chain-of-thought.'')"

definition observeProviderToolTurn :: "CompletionDeps \<Rightarrow> TaskRecord \<Rightarrow> int \<Rightarrow> KernelResponse \<Rightarrow> InteractionMode \<Rightarrow> ('m, unit) kop" where
  "observeProviderToolTurn deps task iteration response mode =
     bnd (setLoop (\<lambda>s. s\<lparr>ls_silentToolTurns := (if trim (kr_message response) = [] then ls_silentToolTurns s + 1 else 0)\<rparr>)) (\<lambda>_.
     bnd (askLoop ls_silentToolTurns) (\<lambda>silent.
     bnd (if silent \<ge> PROGRESS_GUARD_THRESHOLD
          then bnd (pushMessage (systemMessage (progressGuardText silent iteration) promptMetadata)) (\<lambda>_.
               setLoop (\<lambda>s. s\<lparr>ls_silentToolTurns := 0\<rparr>))
          else ret ()) (\<lambda>_.
     bnd (setLoop (\<lambda>s. s\<lparr>ls_readOnlyTurns :=
            (if allToolCallsAreReads deps (responseCalls response) then ls_readOnlyTurns s + 1 else 0)\<rparr>)) (\<lambda>_.
     bnd (askLoop ls_readOnlyTurns) (\<lambda>turns.
     if turns \<ge> READ_ONLY_GUARD_THRESHOLD
     then bnd (pushMessage (systemMessage (buildReadOnlyAnalysisGuardMessage mode) promptMetadata)) (\<lambda>_.
          bnd (kernelTrace \<lparr>te_actor = ''runtime.kernel'', te_eventType = ''read_only_analysis_guard'',
                te_payload = [(''iteration'', JNum iteration), (''readOnlyTurns'', JNum (int turns))],
                te_stage = ''control'', te_summary = ''Read-only analysis guard triggered'', te_taskId = tk_taskId task\<rparr>) (\<lambda>_.
          setLoop (\<lambda>s. s\<lparr>ls_readOnlyTurns := 0\<rparr>)))
     else ret ())))))"

datatype PostCompletionDecision = Continue_loop | Summarize

definition evaluatePostCompletionToolCalls :: "CompletionDeps \<Rightarrow> int \<Rightarrow> KernelResponse \<Rightarrow> ExecutionLoopState \<Rightarrow>
    PostCompletionDecision \<times> ExecutionLoopState" where
  "evaluatePostCompletionToolCalls deps iteration response s =
     (if \<not> ls_writeToolSucceeded s \<or> \<not> allToolCallsAreReads deps (responseCalls response) then (Continue_loop, s)
      else let s1 = (if ls_completionIntentSeenAt s = None \<and> hasCompletionIntent (kr_message response)
                     then s\<lparr>ls_completionIntentSeenAt := Some iteration\<rparr> else s)
        in if ls_completionIntentSeenAt s1 = None then (Continue_loop, s1)
           else if ls_postCompletionVerificationReads s1 \<ge> POST_COMPLETION_VERIFICATION_READ_LIMIT then (Summarize, s1)
           else (Continue_loop, s1\<lparr>ls_postCompletionVerificationReads := ls_postCompletionVerificationReads s1 + 1\<rparr>))"

definition recordVerificationMissing :: "TaskRecord \<Rightarrow> int \<Rightarrow> string \<Rightarrow> ('m, unit) kop" where
  "recordVerificationMissing task iteration reason =
     kernelTrace \<lparr>te_actor = ''runtime.kernel'', te_eventType = ''completion_verification_missing'',
       te_payload = [(''iteration'', JNum iteration), (''reason'', JStr reason)], te_stage = ''completion'',
       te_summary = ''Completion verification is missing after workspace changes'', te_taskId = tk_taskId task\<rparr>"

definition UNVERIFIED_NOTE :: string where
  "UNVERIFIED_NOTE = [CHR 0x0A, CHR 0x0A] @
     ''Unverified: workspace changes were made after the last successful verification, and no verification command was recorded.''"

definition verificationGuardText :: "string list \<Rightarrow> string" where
  "verificationGuardText testCommands =
     ''Completion verification required: workspace files were changed after the last successful verification. '' @
     ''Before finalizing, run an appropriate configured test/build/lint/typecheck command, or clearly state the unverified '' @
     ''items and why verification could not be run.'' @
     (if testCommands = [] then [] else '' Suggested commands: '' @ joinWith '', '' testCommands @ ''.'')"

text \<open>\<open>None\<close> is the guard, \<open>Some\<close> the final output of a complete task.\<close>

definition evaluateFinalVerification :: "CompletionDeps \<Rightarrow> TaskRecord \<Rightarrow> int \<Rightarrow> string \<Rightarrow> bool \<Rightarrow> ('m, string option) kop" where
  "evaluateFinalVerification deps task iteration finalOutput allowGuard =
     bnd (askLoop id) (\<lambda>s.
     if \<not> ls_writeToolSucceeded s \<or> ls_completionVerificationSatisfied s then ret (Some finalOutput)
     else if mentionsUnverifiedWork finalOutput
     then bnd (recordVerificationMissing task iteration ''model_reported_unverified'') (\<lambda>_. ret (Some finalOutput))
     else if allowGuard \<and> \<not> ls_completionVerificationGuardEmitted s
     then bnd (pushMessage (systemMessage (verificationGuardText (co_testCommands deps)) promptMetadata)) (\<lambda>_.
          bnd (setLoop (\<lambda>s. s\<lparr>ls_turnProviderMessages := Loop_messages, ls_completionVerificationGuardEmitted := True\<rparr>)) (\<lambda>_.
          bnd (recordVerificationMissing task iteration ''guard_prompted'') (\<lambda>_. ret None)))
     else bnd (recordVerificationMissing task iteration ''runtime_appended_warning'') (\<lambda>_.
          ret (Some (finalOutput @ UNVERIFIED_NOTE))))"

end
