(* ===== verification/ToolBatch.thy ===== *)
theory ToolBatch
  imports Completion
begin

section \<open>Executing the tool calls of a turn\<close>

text \<open>
  src/src/runtime/kernel/tool-batch-executor.ts with tool-call-metadata.ts and tool-result-model.ts: one call, or
  a batch of calls that may run in parallel, from the check for a duplicate to the message the model sees.
  The orchestrator's \<open>execute\<close> is an arbitrary operation on what the task shares; so is the concurrent execution of a
  list of calls, which answers with one outcome per call. Notes of activity for the timeout are left out.
\<close>

record 'm BatchDeps =
  bd_execute :: "ToolCallRequest \<Rightarrow> ToolExecutionContext \<Rightarrow> ('m Shared, ToolExecutionOutcome) op"
  bd_executeAll :: "(ToolCallRequest \<times> ToolExecutionContext) list \<Rightarrow> ('m Shared, ToolExecutionOutcome list) op"
  bd_describeTool :: "string \<Rightarrow> ProviderToolDescriptor option"
  bd_contextRetention :: "ContextRetentionConfig option"
  bd_testCommands :: "string list"
  bd_workspaceRoot :: string
  bd_now :: instant
  bd_parse :: "string \<Rightarrow> json option"
  bd_slice :: slicer
  bd_joinPath :: "string list \<Rightarrow> string"
  bd_writeFile :: "string \<Rightarrow> string \<Rightarrow> bool"

type_synonym invocation = "ProviderToolCall \<times> ToolExecutionOutcome"

subsection \<open>Requests and results\<close>

definition buildToolTaskMetadata :: "TaskRecord \<Rightarrow> json_object" where
  "buildToolTaskMetadata task = (case tk_sessionId task of None \<Rightarrow> tk_metadata task
     | Some s \<Rightarrow> jput ''sessionId'' (JStr s) (tk_metadata task))"

definition batchRequest :: "TaskRecord \<Rightarrow> int \<Rightarrow> ProviderToolCall \<Rightarrow> ToolCallRequest" where
  "batchRequest task iteration call = \<lparr>rq_taskId = tk_taskId task, rq_iteration = iteration, rq_toolCallId = pc_toolCallId call,
     rq_toolName = pc_toolName call, rq_input = pc_input call, rq_reason = pc_reason call\<rparr>"

definition batchContext :: "'m BatchDeps \<Rightarrow> string \<Rightarrow> TaskRecord \<Rightarrow> int \<Rightarrow> bool option \<Rightarrow> ToolExecutionContext" where
  "batchContext deps cwd task iteration governanceOnly = \<lparr>tx_taskId = tk_taskId task, tx_iteration = iteration,
     tx_workspaceRoot = bd_workspaceRoot deps, tx_cwd = cwd, tx_userId = tk_requesterUserId task,
     tx_agentProfileId = tk_agentProfileId task, tx_taskMetadata = Some (buildToolTaskMetadata task),
     tx_governanceOnly = governanceOnly\<rparr>"

fun toolResultOutputForModel :: "ToolExecutionResult \<Rightarrow> json" where
  "toolResultOutputForModel (Success s) = ts_output s"
| "toolResultOutputForModel (Failure code msg details) =
     JObj ([(''error'', JStr msg), (''errorCode'', JStr (errorCodeStr code)), (''recoverable'', JBool True)] @
       (case details of None \<Rightarrow> [] | Some d \<Rightarrow> [(''details'', JObj d)]))"

fun resultSuccess :: "ToolExecutionResult \<Rightarrow> bool" where
  "resultSuccess (Success _) = True"
| "resultSuccess (Failure _ _ _) = False"

fun resultReplayed :: "ToolExecutionResult \<Rightarrow> bool" where
  "resultReplayed (Success s) = (ts_replayed s = Some True)"
| "resultReplayed (Failure _ _ _) = False"

fun toolResultSummary :: "ToolExecutionResult \<Rightarrow> string \<Rightarrow> string" where
  "toolResultSummary (Success s) toolName = ts_summary s"
| "toolResultSummary (Failure _ msg _) toolName = ''Tool '' @ toolName @ '' failed: '' @ msg"

definition isContentMutatingWrite :: "ProviderToolCall \<Rightarrow> ToolCapability option \<Rightarrow> bool" where
  "isContentMutatingWrite call capability =
     (if \<not> (capability = Some Filesystem_write \<or> includesStr (pc_toolName call) ''write'') then False
      else \<not> (pc_toolName call = ''patch'' \<and> jget (pc_input call) ''action'' = Some (JStr ''delete_file'')))"

definition nonBlank :: "json option \<Rightarrow> string option" where
  "nonBlank v = (case v of Some (JStr s) \<Rightarrow> if trim s = [] then None else Some (trim s) | _ \<Rightarrow> None)"

definition writeTargetPath :: "ProviderToolCall \<Rightarrow> string option" where
  "writeTargetPath call =
     (case (if jget (pc_input call) ''action'' = Some (JStr ''rename_file'') then nonBlank (jget (pc_input call) ''toPath'') else None) of
        Some p \<Rightarrow> Some p | None \<Rightarrow> nonBlank (jget (pc_input call) ''path''))"

fun outcomeKind :: "ToolExecutionOutcome \<Rightarrow> string" where
  "outcomeKind (Completed _ _) = ''completed''"
| "outcomeKind (ApprovalRequired _ _) = ''approval_required''"
| "outcomeKind (ClarifyRequired _ _) = ''clarify_required''"
| "outcomeKind (Cleared _) = ''cleared''"

definition toolEvent :: "TaskRecord \<Rightarrow> ProviderToolCall \<Rightarrow> ToolEventStatus \<Rightarrow> int \<Rightarrow> string option \<Rightarrow> RuntimeTaskEvent" where
  "toolEvent task call status iteration sm =
     Tool_event (tk_taskId task) (pc_toolCallId call) (pc_toolName call) status iteration sm"

definition callPayload :: "int \<Rightarrow> ProviderToolCall \<Rightarrow> json_object" where
  "callPayload iteration call = [(''iteration'', JNum iteration), (''toolCallId'', JStr (pc_toolCallId call)),
     (''toolName'', JStr (pc_toolName call))]"

subsection \<open>Duplicates\<close>

definition callSignature :: "'m BatchDeps \<Rightarrow> ProviderToolCall \<Rightarrow> string option" where
  "callSignature deps call =
     (case bd_describeTool deps (pc_toolName call) of
        Some d \<Rightarrow> if deduplicatable (ds_capability d) then Some (toolCallSignature (pc_toolName call) (JObj (pc_input call))) else None
      | None \<Rightarrow> None)"

definition resolveDuplicateToolReplay :: "'m BatchDeps \<Rightarrow> ProviderToolCall \<Rightarrow> ExecutionLoopState \<Rightarrow> ToolExecutionOutcome option" where
  "resolveDuplicateToolReplay deps call st =
     (case callSignature deps call of
        None \<Rightarrow> None
      | Some signature \<Rightarrow>
          (case Option.bind (ls_toolCallSignatures st signature) sg_cachedToolOutput of
             None \<Rightarrow> None
           | Some cached \<Rightarrow>
               (let out = (case bd_parse deps cached of Some v \<Rightarrow> v | None \<Rightarrow> JStr cached);
                    sm = ''Tool '' @ pc_toolName call @ '' replayed from duplicate cache''
                in Some (Completed
                     (Success \<lparr>ts_summary = sm, ts_output = out, ts_runtimeOutput = None, ts_artifacts = None,
                        ts_replayed = Some True, ts_details = None\<rparr>)
                     \<lparr>tc_toolCallId = pc_toolCallId call, tc_taskId = tk_taskId (ls_task st),
                      tc_iteration = tk_currentIteration (ls_task st), tc_toolName = pc_toolName call,
                      tc_riskLevel = (case bd_describeTool deps (pc_toolName call) of Some d \<Rightarrow> ds_riskLevel d | None \<Rightarrow> Low),
                      tc_status = Finished, tc_input = pc_input call, tc_output = out, tc_summary = Some sm,
                      tc_requestedAt = bd_now deps, tc_startedAt = Some (bd_now deps), tc_finishedAt = Some (bd_now deps),
                      tc_errorCode = None, tc_errorMessage = None\<rparr>))))"

definition recordDuplicateToolReplayTrace :: "TaskRecord \<Rightarrow> int \<Rightarrow> ProviderToolCall \<Rightarrow> ('m, unit) kop" where
  "recordDuplicateToolReplayTrace task iteration call =
     bnd (askLoop (\<lambda>s. ls_toolCallSignatures s (toolCallSignature (pc_toolName call) (JObj (pc_input call))))) (\<lambda>prior.
     kernelTrace \<lparr>te_actor = ''runtime.kernel'', te_eventType = ''duplicate_tool_replayed'',
       te_payload = [(''iteration'', JNum iteration),
         (''priorIteration'', case prior of None \<Rightarrow> JNull | Some p \<Rightarrow> JNum (sg_iteration p)),
         (''priorToolCallId'', case prior of None \<Rightarrow> JNull | Some p \<Rightarrow> JStr (sg_toolCallId p)),
         (''toolCallId'', JStr (pc_toolCallId call)), (''toolName'', JStr (pc_toolName call))],
       te_stage = ''tooling'',
       te_summary = ''Replayed duplicate '' @ pc_toolName call @ '' from iteration '' @
         (case prior of None \<Rightarrow> ''unknown'' | Some p \<Rightarrow> showInt (sg_iteration p)),
       te_taskId = tk_taskId task\<rparr>)"

subsection \<open>The message the model sees\<close>

definition duplicateNotice :: "ProviderToolCall \<Rightarrow> ToolSignature \<Rightarrow> string" where
  "duplicateNotice call prior =
     ''NOTE: duplicate tool call. You already invoked '' @ pc_toolName call @ '' with identical arguments at iteration '' @
     showInt (sg_iteration prior) @ '' (call '' @ sg_toolCallId prior @
     ''). Do not call this tool again with the same arguments - synthesize from the prior result and answer the user.''"

definition buildToolFeedbackMessage :: "'m BatchDeps \<Rightarrow> string \<Rightarrow> TaskRecord \<Rightarrow> ProviderToolCall \<Rightarrow> json \<Rightarrow> PrivacyLevel \<Rightarrow>
    string option \<Rightarrow> ConversationMessage" where
  "buildToolFeedbackMessage deps artifactsRoot task call out privacyLevel notice =
     (let maxTokens = (case bd_contextRetention deps of None \<Rightarrow> 2500 | Some c \<Rightarrow> cr_toolOutputMaxTokens c);
          budgeted = applyToolOutputBudget (bd_slice deps) (bd_joinPath deps) (bd_writeFile deps) artifactsRoot maxTokens
            (stringifyAt 0 out) (tk_taskId task) (pc_toolCallId call);
          base = createToolFeedbackMessage out (pc_toolCallId call) (pc_toolName call) (privacyStr privacyLevel) (Some (tb_content budgeted))
      in case notice of None \<Rightarrow> base
         | Some n \<Rightarrow> base\<lparr>ms_content := n @ [CHR 0x0A, CHR 0x0A] @ ms_content base\<rparr>)"

subsection \<open>Applying an outcome\<close>

text \<open>An outcome that is not \<open>completed\<close>: a note for the model, unless the tool asks the user.\<close>

definition applyUnfinishedOutcome :: "'m BatchDeps \<Rightarrow> TaskRecord \<Rightarrow> int \<Rightarrow> ProviderToolCall \<Rightarrow> ToolExecutionOutcome \<Rightarrow> ('m, unit) kop" where
  "applyUnfinishedOutcome deps task iteration call outcome =
     (let d = bd_describeTool deps (pc_toolName call);
          privacy = (case d of None \<Rightarrow> Internal | Some x \<Rightarrow> ds_privacyLevel x)
      in bnd (if map_option ds_capability d = Some Interaction_ask_user then ret ()
              else pushMessage (createToolFeedbackMessage
                (JObj [(''error'', JStr (''Tool execution did not complete ('' @ outcomeKind outcome @ '').'')),
                  (''errorCode'', JStr (''tool_'' @ outcomeKind outcome)), (''recoverable'', JBool True)])
                (pc_toolCallId call) (pc_toolName call) (privacyStr privacy) None)) (\<lambda>_.
         bnd (kernelTrace \<lparr>te_actor = ''runtime.tooling'', te_eventType = ''tool_execution_failed'',
                te_payload = [(''iteration'', JNum iteration), (''outcomeKind'', JStr (outcomeKind outcome)),
                  (''toolCallId'', JStr (pc_toolCallId call)), (''toolName'', JStr (pc_toolName call))],
                te_stage = ''tooling'', te_summary = ''Tool '' @ pc_toolName call @ '' did not complete'', te_taskId = tk_taskId task\<rparr>) (\<lambda>_.
         emitTaskEvent (toolEvent task call Ev_failed iteration
           (Some (''Tool '' @ pc_toolName call @ '' ended with '' @ outcomeKind outcome))))))"

text \<open>A successful write: the workspace is unverified, and of the cached files only the target stays.\<close>

definition noteWrite :: "ProviderToolCall \<Rightarrow> ExecutionLoopState \<Rightarrow> ExecutionLoopState" where
  "noteWrite call s = s\<lparr>ls_writeToolSucceeded := True, ls_completionVerificationSatisfied := False,
     ls_recentFileReadCache := (case (ls_recentFileReadCache s, writeTargetPath call) of
        (Some c, Some p) \<Rightarrow> Some (snd (retainMatching p c)) | (c, _) \<Rightarrow> c)\<rparr>"

definition noteVerification :: "TaskRecord \<Rightarrow> int \<Rightarrow> ProviderToolCall \<Rightarrow> ('m, unit) kop" where
  "noteVerification task iteration call =
     bnd (setLoop (\<lambda>s. s\<lparr>ls_completionVerificationSatisfied := True\<rparr>)) (\<lambda>_.
     bnd (askLoop ls_completionVerificationSatisfiedEmitted) (\<lambda>emitted.
     if emitted then ret ()
     else bnd (kernelTrace \<lparr>te_actor = ''runtime.kernel'', te_eventType = ''completion_verification_satisfied'',
            te_payload = callPayload iteration call, te_stage = ''completion'',
            te_summary = ''Completion verification evidence recorded'', te_taskId = tk_taskId task\<rparr>) (\<lambda>_.
          setLoop (\<lambda>s. s\<lparr>ls_completionVerificationSatisfiedEmitted := True\<rparr>))))"

definition finishedSummary :: "ToolExecutionResult \<Rightarrow> ProviderToolCall \<Rightarrow> ToolSignature option \<Rightarrow> string" where
  "finishedSummary result call prior =
     toolResultSummary result (pc_toolName call) @ '' | '' @ summarizeToolOutput (toolResultOutputForModel result) @
     (case prior of None \<Rightarrow> [] | Some p \<Rightarrow> '' (duplicate of iter '' @ showInt (sg_iteration p) @ '')'')"

text \<open>The result's message, and the signature of a call seen for the first time.\<close>

definition answerCall :: "'m BatchDeps \<Rightarrow> TaskRecord \<Rightarrow> int \<Rightarrow> ProviderToolCall \<Rightarrow> ToolExecutionResult \<Rightarrow> ('m, unit) kop" where
  "answerCall deps task iteration call result =
     (let d = bd_describeTool deps (pc_toolName call); out = toolResultOutputForModel result; signature = callSignature deps call;
          privacy = (case d of None \<Rightarrow> Internal | Some x \<Rightarrow> ds_privacyLevel x);
          asks = (map_option ds_capability d = Some Interaction_ask_user)
      in bnd (askLoop (\<lambda>s. Option.bind signature (ls_toolCallSignatures s))) (\<lambda>prior.
         bnd (if asks then ret ()
              else bnd (askLoop ls_toolArtifactsRoot) (\<lambda>root.
                pushMessage (buildToolFeedbackMessage deps root task call out privacy (map_option (duplicateNotice call) prior)))) (\<lambda>_.
         bnd (case (signature, prior) of
                (Some sg, None) \<Rightarrow> setLoop (\<lambda>s. s\<lparr>ls_toolCallSignatures := (ls_toolCallSignatures s)(sg \<mapsto>
                   \<lparr>sg_iteration = iteration, sg_toolCallId = pc_toolCallId call,
                    sg_cachedToolOutput = (if asks then None else Some (stringifyAt 0 out))\<rparr>)\<rparr>)
              | _ \<Rightarrow> ret ()) (\<lambda>_.
         emitTaskEvent (toolEvent task call (if resultSuccess result then Ev_finished else Ev_failed) iteration
           (Some (finishedSummary result call prior)))))))"

definition applyResult :: "'m BatchDeps \<Rightarrow> TaskRecord \<Rightarrow> int \<Rightarrow> ProviderToolCall \<Rightarrow> ToolExecutionResult \<Rightarrow> ('m, unit) kop" where
  "applyResult deps task iteration call result =
     (let capability = map_option ds_capability (bd_describeTool deps (pc_toolName call));
          wrote = resultSuccess result \<and> \<not> resultReplayed result \<and> isContentMutatingWrite call capability
      in bnd (setLoop (\<lambda>s. s\<lparr>ls_cumulativeToolCallCount := ls_cumulativeToolCallCount s + 1\<rparr>)) (\<lambda>_.
         bnd (if \<not> resultSuccess result \<and> pc_toolName call = ''shell''
              then kernelTrace \<lparr>te_actor = ''runtime.tooling'', te_eventType = ''environment_command_failed'',
                te_payload = callPayload iteration call, te_stage = ''tooling'', te_summary = ''Environment command failed'',
                te_taskId = tk_taskId task\<rparr>
              else ret ()) (\<lambda>_.
         bnd (if wrote then setLoop (noteWrite call) else ret ()) (\<lambda>_.
         bnd (if wrote
              then kernelTrace \<lparr>te_actor = ''runtime.kernel'', te_eventType = ''completion_verification_pending'',
                te_payload = callPayload iteration call, te_stage = ''completion'',
                te_summary = ''Workspace write requires subsequent verification'', te_taskId = tk_taskId task\<rparr>
              else ret ()) (\<lambda>_.
         bnd (if isSuccessfulVerificationToolCall (pc_toolName call) result (bd_testCommands deps)
              then noteVerification task iteration call else ret ()) (\<lambda>_.
         bnd (if resultSuccess result
              then setLoop (\<lambda>s. s\<lparr>ls_recentFileReadCache := map_option
                (recordRecentFileReadFromToolCall (bd_slice deps) (bd_now deps) (pc_toolName call) (toolResultOutputForModel result)
                  (Some (pc_toolCallId call))) (ls_recentFileReadCache s)\<rparr>)
              else ret ()) (\<lambda>_.
         answerCall deps task iteration call result)))))))"

definition applyCompletedToolCallOutcome :: "'m BatchDeps \<Rightarrow> TaskRecord \<Rightarrow> int \<Rightarrow> ProviderToolCall \<Rightarrow> ToolExecutionOutcome \<Rightarrow> ('m, unit) kop" where
  "applyCompletedToolCallOutcome deps task iteration call outcome =
     (case outcome of
        Completed result _ \<Rightarrow> applyResult deps task iteration call result
      | _ \<Rightarrow> applyUnfinishedOutcome deps task iteration call outcome)"

subsection \<open>One call\<close>

definition startedEvent :: "TaskRecord \<Rightarrow> int \<Rightarrow> ProviderToolCall \<Rightarrow> ('m, unit) kop" where
  "startedEvent task iteration call = emitTaskEvent (toolEvent task call Ev_started iteration None)"

definition tryApplyDuplicateToolReplay :: "'m BatchDeps \<Rightarrow> TaskRecord \<Rightarrow> int \<Rightarrow> ProviderToolCall \<Rightarrow> ('m, bool) kop" where
  "tryApplyDuplicateToolReplay deps task iteration call =
     bnd (askLoop (resolveDuplicateToolReplay deps call)) (\<lambda>replay.
     case replay of
       None \<Rightarrow> ret False
     | Some outcome \<Rightarrow>
         bnd (startedEvent task iteration call) (\<lambda>_.
         bnd (applyCompletedToolCallOutcome deps task iteration call outcome) (\<lambda>_.
         bnd (recordDuplicateToolReplayTrace task iteration call) (\<lambda>_. ret True))))"

text \<open>\<open>preflightToolCall\<close> asks for the decision only, \<open>invokeToolCall\<close> runs the call.\<close>

definition callTool :: "'m BatchDeps \<Rightarrow> bool option \<Rightarrow> TaskRecord \<Rightarrow> int \<Rightarrow> ProviderToolCall \<Rightarrow> ('m, ToolExecutionOutcome) kop" where
  "callTool deps governanceOnly task iteration call =
     bnd (askLoop (resolveDuplicateToolReplay deps call)) (\<lambda>replay.
     bnd (startedEvent task iteration call) (\<lambda>_.
     case replay of
       Some outcome \<Rightarrow> bnd (recordDuplicateToolReplayTrace task iteration call) (\<lambda>_. ret outcome)
     | None \<Rightarrow> bnd (askLoop ls_cwd) (\<lambda>cwd.
         onShared (bd_execute deps (batchRequest task iteration call) (batchContext deps cwd task iteration governanceOnly)))))"

definition preflightToolCall :: "'m BatchDeps \<Rightarrow> TaskRecord \<Rightarrow> int \<Rightarrow> ProviderToolCall \<Rightarrow> ('m, ToolExecutionOutcome) kop" where
  "preflightToolCall deps task iteration call = callTool deps (Some True) task iteration call"

definition invokeToolCall :: "'m BatchDeps \<Rightarrow> TaskRecord \<Rightarrow> int \<Rightarrow> ProviderToolCall \<Rightarrow> ('m, ToolExecutionOutcome) kop" where
  "invokeToolCall deps task iteration call = callTool deps None task iteration call"

text \<open>Pausing a task: its status, an event, and a checkpoint of the calls from \<open>checkpointIndex\<close> on.\<close>

definition pauseTask :: "'m BatchDeps \<Rightarrow> ProviderToolCall list \<Rightarrow> nat \<Rightarrow> TaskRecord \<Rightarrow> int \<Rightarrow> ProviderToolCall \<Rightarrow>
    TaskStatus \<Rightarrow> ToolEventStatus \<Rightarrow> string option \<Rightarrow> ('m, TaskRecord) kop" where
  "pauseTask deps pending checkpointIndex task iteration call status event promptId =
     bnd (kernelTaskUpdate (bd_now deps) (tk_taskId task) (noTaskPatch\<lparr>tp_status := Some status\<rparr>)) (\<lambda>paused.
     bnd (emitTaskEvent (toolEvent paused call event iteration None)) (\<lambda>_.
     bnd (saveCheckpoint (bd_now deps) (tk_taskId paused) iteration promptId (drop checkpointIndex pending)) (\<lambda>_.
     ret paused)))"

definition tryPauseToolExecution :: "'m BatchDeps \<Rightarrow> ProviderToolCall list \<Rightarrow> nat \<Rightarrow> TaskRecord \<Rightarrow> int \<Rightarrow> ProviderToolCall \<Rightarrow>
    ToolExecutionOutcome \<Rightarrow> ('m, TaskRecord option) kop" where
  "tryPauseToolExecution deps pending checkpointIndex task iteration call outcome =
     (case outcome of
        ApprovalRequired _ _ \<Rightarrow>
          bnd (pauseTask deps pending checkpointIndex task iteration call T_waiting_approval Ev_approval_required None) (\<lambda>t. ret (Some t))
      | ClarifyRequired prompt _ \<Rightarrow>
          bnd (pauseTask deps pending checkpointIndex task iteration call T_waiting_clarification Ev_clarify_required
            (Some (cp_promptId prompt))) (\<lambda>t. ret (Some t))
      | _ \<Rightarrow> ret None)"

subsection \<open>A parallel batch\<close>

datatype BatchResult = Batch_done nat | Batch_paused TaskRecord

text \<open>The first loop: the decisions, one call after the other.\<close>

fun preflightLoop :: "'m BatchDeps \<Rightarrow> ProviderToolCall list \<Rightarrow> nat \<Rightarrow> TaskRecord \<Rightarrow> int \<Rightarrow> ProviderToolCall list \<Rightarrow>
    ProviderToolCall list \<Rightarrow> invocation list \<Rightarrow> ('m, (ProviderToolCall list \<times> invocation list) + TaskRecord) kop" where
  "preflightLoop deps pending pos task iteration [] cleared outcomes = ret (Inl (cleared, outcomes))"
| "preflightLoop deps pending pos task iteration (call # calls) cleared outcomes =
     bnd (preflightToolCall deps task iteration call) (\<lambda>outcome.
     bnd (tryPauseToolExecution deps pending pos task iteration call outcome) (\<lambda>paused.
     case paused of
       Some t \<Rightarrow> bnd (forEach (\<lambda>(c, o1). applyCompletedToolCallOutcome deps task iteration c o1)
                  (filter (\<lambda>(c, o1). outcomeKind o1 = ''completed'') outcomes)) (\<lambda>_. ret (Inr t))
     | None \<Rightarrow>
         (case outcome of
            Completed _ _ \<Rightarrow> bnd (applyCompletedToolCallOutcome deps task iteration call outcome) (\<lambda>_.
              preflightLoop deps pending (pos + 1) task iteration calls cleared (outcomes @ [(call, outcome)]))
          | Cleared _ \<Rightarrow> preflightLoop deps pending (pos + 1) task iteration calls (cleared @ [call]) outcomes
          | _ \<Rightarrow> preflightLoop deps pending (pos + 1) task iteration calls cleared outcomes)))"

text \<open>
  \<open>Promise.all\<close>: each call up to its first \<open>await\<close>, in order, then all executions together. The result has
  \<open>None\<close> for a call that was replayed.
\<close>

fun startCleared :: "'m BatchDeps \<Rightarrow> TaskRecord \<Rightarrow> int \<Rightarrow> ProviderToolCall list \<Rightarrow> ('m, ProviderToolCall option list) kop" where
  "startCleared deps task iteration [] = ret []"
| "startCleared deps task iteration (call # calls) =
     bnd (tryApplyDuplicateToolReplay deps task iteration call) (\<lambda>replayed.
     bnd (if replayed then ret None else bnd (startedEvent task iteration call) (\<lambda>_. ret (Some call))) (\<lambda>r.
     bnd (startCleared deps task iteration calls) (\<lambda>rs. ret (r # rs))))"

fun mergeInvocations :: "ProviderToolCall option list \<Rightarrow> ToolExecutionOutcome list \<Rightarrow> invocation option list" where
  "mergeInvocations [] os = []"
| "mergeInvocations (None # rs) os = None # mergeInvocations rs os"
| "mergeInvocations (Some c # rs) (o1 # os) = Some (c, o1) # mergeInvocations rs os"
| "mergeInvocations (Some c # rs) [] = []"

text \<open>The calls that are really started.\<close>

fun somes :: "'a option list \<Rightarrow> 'a list" where
  "somes [] = []"
| "somes (None # xs) = somes xs"
| "somes (Some x # xs) = x # somes xs"

definition runCleared :: "'m BatchDeps \<Rightarrow> TaskRecord \<Rightarrow> int \<Rightarrow> ProviderToolCall list \<Rightarrow> ('m, invocation option list) kop" where
  "runCleared deps task iteration cleared =
     bnd (startCleared deps task iteration cleared) (\<lambda>started.
     bnd (askLoop ls_cwd) (\<lambda>cwd.
     bnd (onShared (bd_executeAll deps
            (map (\<lambda>c. (batchRequest task iteration c, batchContext deps cwd task iteration None)) (somes started)))) (\<lambda>os.
     ret (mergeInvocations started os))))"

definition findCallIndex :: "string \<Rightarrow> ProviderToolCall list \<Rightarrow> nat" where
  "findCallIndex i cs = length (takeWhile (\<lambda>c. pc_toolCallId c \<noteq> i) cs)"

text \<open>The last loop, over what the parallel calls returned; \<open>earlier\<close> are the invocations before the current one.\<close>

fun settleLoop :: "'m BatchDeps \<Rightarrow> ProviderToolCall list \<Rightarrow> nat \<Rightarrow> ProviderToolCall list \<Rightarrow> TaskRecord \<Rightarrow> int \<Rightarrow> invocation list \<Rightarrow>
    nat \<Rightarrow> invocation option list \<Rightarrow> ('m, BatchResult) kop" where
  "settleLoop deps pending start cleared task iteration earlier ncalls [] = ret (Batch_done ncalls)"
| "settleLoop deps pending start cleared task iteration earlier ncalls (None # rest) =
     settleLoop deps pending start cleared task iteration earlier (ncalls + 1) rest"
| "settleLoop deps pending start cleared task iteration earlier ncalls (Some (call, outcome) # rest) =
     bnd (tryPauseToolExecution deps pending (start + findCallIndex (pc_toolCallId call) cleared) task iteration call outcome) (\<lambda>paused.
     case paused of
       Some t \<Rightarrow> bnd (forEach (\<lambda>(c, o1). applyCompletedToolCallOutcome deps task iteration c o1) earlier) (\<lambda>_. ret (Batch_paused t))
     | None \<Rightarrow> bnd (applyCompletedToolCallOutcome deps task iteration call outcome) (\<lambda>_.
         settleLoop deps pending start cleared task iteration (earlier @ [(call, outcome)]) (ncalls + 1) rest))"

definition executeParallelToolBatch :: "'m BatchDeps \<Rightarrow> ProviderToolCall list \<Rightarrow> ProviderToolCall list \<Rightarrow> nat \<Rightarrow> TaskRecord \<Rightarrow> int \<Rightarrow>
    ('m, BatchResult) kop" where
  "executeParallelToolBatch deps pending batchCalls batchStartIndex task iteration =
     bnd (preflightLoop deps pending batchStartIndex task iteration batchCalls [] []) (\<lambda>pre.
     case pre of
       Inr t \<Rightarrow> ret (Batch_paused t)
     | Inl (cleared, outcomes) \<Rightarrow>
         if cleared = [] then ret (Batch_done (length outcomes))
         else bnd (runCleared deps task iteration cleared) (\<lambda>invocations.
              settleLoop deps pending batchStartIndex cleared task iteration [] (length outcomes) invocations))"

end
