(* ===== verification/LoopTurn.thy ===== *)
theory LoopTurn
  imports ToolBatch
begin

section \<open>A turn of the model\<close>

text \<open>
  The first half of an iteration of src/src/runtime/kernel/execution-loop.ts: the conversation is repaired and
  completed, the request assembled (src/src/runtime/context-assembler.ts, src/src/core/prompt-prefix.ts), sent with one
  retry after an overflow or a timeout, and its usage charged (kernel/budget-recorder.ts). Services the loop calls
  are operations on what the task shares, given by the record \<open>LoopDeps\<close>.
\<close>

subsection \<open>Assembling a request\<close>

definition MEMORY_CONTEXT_SOURCE_TYPE :: string where "MEMORY_CONTEXT_SOURCE_TYPE = ''memory_context_recall''"

definition readMessageSourceType :: "ConversationMessage \<Rightarrow> string option" where
  "readMessageSourceType m = (case metaOf m ''sourceType'' of Some (JStr s) \<Rightarrow> if s \<noteq> [] then Some s else None | _ \<Rightarrow> None)"

definition isStableMemoryPrefixMessage :: "ConversationMessage \<Rightarrow> bool" where
  "isStableMemoryPrefixMessage m \<longleftrightarrow> ms_role m = Role_system \<and> readMessageSourceType m = Some MEMORY_CONTEXT_SOURCE_TYPE"

definition isStableSystemPromptMessage :: "ConversationMessage \<Rightarrow> bool" where
  "isStableSystemPromptMessage m =
     (if ms_role m \<noteq> Role_system \<or> isStableMemoryPrefixMessage m then False
      else if (case readMessageSourceType m of None \<Rightarrow> False | Some s \<Rightarrow> s \<noteq> ''system_prompt'') then False
      else metaOf m ''retentionKind'' \<in> {None, Some (JStr ''working''), Some (JStr ''profile'')})"

definition isStablePromptPrefixMessage :: "ConversationMessage \<Rightarrow> bool" where
  "isStablePromptPrefixMessage m \<longleftrightarrow> isStableSystemPromptMessage m \<or> isStableMemoryPrefixMessage m"

definition stabilizeLeadingSystemPrefix :: "msgs \<Rightarrow> msgs" where
  "stabilizeLeadingSystemPrefix ms =
     (let leading = takeWhile (\<lambda>m. ms_role m = Role_system) ms
      in if length leading \<le> 1 then ms
         else filter isStableSystemPromptMessage leading @ filter isStableMemoryPrefixMessage leading @
              filter (\<lambda>m. \<not> isStablePromptPrefixMessage m) leading @ dropWhile (\<lambda>m. ms_role m = Role_system) ms)"

fun memoryScopeStr :: "MemoryScope \<Rightarrow> string" where
  "memoryScopeStr Profile = ''profile''"
| "memoryScopeStr Project = ''project''"
| "memoryScopeStr Working = ''working''"
| "memoryScopeStr Experience_ref = ''experience_ref''"
| "memoryScopeStr Skill_ref = ''skill_ref''"
| "memoryScopeStr Session_ref = ''session_ref''"

definition buildRecalledContextContent :: "ContextFragment list \<Rightarrow> string option" where
  "buildRecalledContextContent fragments =
     (if fragments = [] then None
      else Some (joinWith [CHR 0x0A] (''Recalled context:'' #
        map (\<lambda>f. ''['' @ memoryScopeStr (cf_scope f) @ ''] '' @ cf_title f @ '': '' @ cf_text f) fragments)))"

definition recalledMessage :: "string \<Rightarrow> ConversationMessage" where
  "recalledMessage content = systemMessage content [(''pinned'', JBool True), (''privacyLevel'', JStr ''internal''),
     (''retentionKind'', JStr ''working''), (''sourceType'', JStr MEMORY_CONTEXT_SOURCE_TYPE)]"

definition isMemoryContextMessage :: "ConversationMessage \<Rightarrow> bool" where
  "isMemoryContextMessage m \<longleftrightarrow> ms_role m = Role_system \<and> metaOf m ''sourceType'' = Some (JStr MEMORY_CONTEXT_SOURCE_TYPE)"

record MemoryContextInjection =
  mi_fragmentCount :: nat
  mi_tokenEstimate :: nat

definition mergeMemoryContextIntoMessages :: "msgs \<Rightarrow> ContextFragment list \<Rightarrow> MemoryContextInjection option \<times> msgs" where
  "mergeMemoryContextIntoMessages ms memoryContext =
     (let without = filter (\<lambda>m. \<not> isMemoryContextMessage m) ms
      in case buildRecalledContextContent memoryContext of
           None \<Rightarrow> (None, without)
         | Some content \<Rightarrow>
             (Some \<lparr>mi_fragmentCount = length memoryContext, mi_tokenEstimate = estimateMessagesTokens [content]\<rparr>,
              insertPinned MEMORY_CONTEXT_SOURCE_TYPE (recalledMessage content) without))"

record LoopRequest =
  lr_availableTools :: "ProviderToolDescriptor list"
  lr_iteration :: int
  lr_memoryContext :: "ContextFragment list"
  lr_messages :: msgs
  lr_task :: TaskRecord
  lr_tokenBudget :: TokenBudget

definition assemble :: "ProviderToolDescriptor list \<Rightarrow> int \<Rightarrow> ContextFragment list \<Rightarrow> msgs \<Rightarrow> TaskRecord \<Rightarrow> TokenBudget \<Rightarrow>
    MemoryContextInjection option \<times> LoopRequest" where
  "assemble tools iteration memoryContext ms task tokenBudget =
     (case mergeMemoryContextIntoMessages ms memoryContext of
        (injection, withMemory) \<Rightarrow> (injection, \<lparr>lr_availableTools = tools, lr_iteration = iteration, lr_memoryContext = memoryContext,
          lr_messages = stabilizeLeadingSystemPrefix withMemory, lr_task = task, lr_tokenBudget = tokenBudget\<rparr>))"

subsection \<open>What the loop depends on\<close>

record ActiveProvider =
  av_name :: string
  av_model :: "string option"
  av_describedModel :: "string option"

record CompactConfig =
  cp_messageThreshold :: nat
  cp_thresholdRatio :: rat
  cp_tokenThreshold :: "nat option"
  cp_toolCallThreshold :: nat
  cp_iterationThreshold :: nat
  cp_protectFirstN :: nat
  cp_protectLastN :: nat
  cp_tailMinMessages :: nat
  cp_tailTokenBudget :: "nat option"
  cp_targetRatio :: rat
  cp_minTokenPressureRatio :: rat
  cp_summarizer :: string

record 'm LoopDeps =
  ld_batch :: "'m BatchDeps"
  ld_completion :: CompletionDeps
  ld_now :: instant
  ld_turnId :: string
  ld_runId :: string
  ld_providerName :: string
  ld_listTools :: "'m Shared \<Rightarrow> ProviderToolDescriptor list"
  ld_planExposure :: "(InteractionMode option \<Rightarrow> int \<Rightarrow> TaskRecord \<Rightarrow> ('m Shared, ProviderToolDescriptor list \<times> string list) op) option"
  ld_parallelSafe :: "string \<Rightarrow> bool"
  ld_keepGroups :: "nat option"
  ld_cooldownIterations :: "int option"
  ld_collate :: "string \<Rightarrow> nat"
  ld_todoStore :: "'m Shared \<Rightarrow> TodoSessionStore option"
  ld_debugView :: "LoopRequest \<Rightarrow> ContextFilterDecision list option \<Rightarrow> json"
  ld_reviewerPayload :: "int \<Rightarrow> LoopRequest \<Rightarrow> KernelResponse \<Rightarrow> json_object"
  ld_emitOutput :: "string \<Rightarrow> json_object \<Rightarrow> string \<Rightarrow> string \<Rightarrow> ('m Shared, unit) op"
  ld_activeProvider :: "TaskRecord \<Rightarrow> ('m Shared, ActiveProvider) op"
  ld_generate :: "ActiveProvider \<Rightarrow> LoopRequest \<Rightarrow> ('m Shared, KernelResponse) op"
  ld_toProviderError :: "thrown \<Rightarrow> ActiveProvider \<Rightarrow> ProviderErrorShape"
  ld_sleep :: "int \<Rightarrow> ('m Shared, unit) op"
  ld_costUsd :: "string \<Rightarrow> KernelUsage \<Rightarrow> int option"
  ld_budgetMode :: RoutingMode
  ld_recordUsage :: "RecordBudgetUsageInput \<Rightarrow> ('m Shared, BudgetEnforcementDecision option) op"
  ld_compact :: CompactConfig
  ld_previousSummary :: "'m Shared \<Rightarrow> string \<Rightarrow> string option"
  ld_summarize :: "SessionCompactInput \<Rightarrow> ('m Shared, string) op"
  ld_consumeManual :: "string \<Rightarrow> ('m Shared, ManualCompactRequest option) op"
  ld_flushMemory :: "(TaskRecord \<Rightarrow> int \<Rightarrow> msgs \<Rightarrow> ('m Shared, nat) op) option"
  ld_persistCompact :: "TaskRecord \<Rightarrow> SessionCompactInput \<Rightarrow> CompactReason \<Rightarrow> nat \<Rightarrow> ('m Shared, unit) op"
  ld_planRecall :: "TaskRecord \<Rightarrow> TokenBudget \<Rightarrow> string list \<Rightarrow> ('m Shared, ContextFragment list) op"
  ld_capabilityDeclaration :: "AgentProfileId \<Rightarrow> ProviderToolDescriptor list \<Rightarrow> string list \<Rightarrow> ContextFragment list \<Rightarrow> string"
  ld_recordOutcome :: "TaskRecord \<Rightarrow> string \<Rightarrow> ('m Shared, unit) op"
  ld_recordSession :: "TaskRecord \<Rightarrow> string \<Rightarrow> msgs \<Rightarrow> ('m Shared, unit) op"
  ld_recordFailure :: "TaskRecord \<Rightarrow> string \<Rightarrow> string \<Rightarrow> ('m Shared, unit) op"
  ld_stringOf :: "thrown \<Rightarrow> string"

text \<open>A trace entry of the loop.\<close>

definition loopTrace :: "string \<Rightarrow> string \<Rightarrow> json_object \<Rightarrow> string \<Rightarrow> string \<Rightarrow> TaskRecord \<Rightarrow> ('m, unit) kop" where
  "loopTrace actor eventType payload stage sm task = kernelTrace \<lparr>te_actor = actor, te_eventType = eventType, te_payload = payload,
     te_stage = stage, te_summary = sm, te_taskId = tk_taskId task\<rparr>"

subsection \<open>Preparing the conversation\<close>

definition setTurn :: "(msgs \<Rightarrow> msgs) \<Rightarrow> ('m, unit) kop" where
  "setTurn f = modify (\<lambda>k. setTurnMessages (f (turnMessages k)) k)"

definition planTools :: "'m LoopDeps \<Rightarrow> int \<Rightarrow> TaskRecord \<Rightarrow> ('m, ProviderToolDescriptor list) kop" where
  "planTools deps iteration task =
     (case ld_planExposure deps of
        None \<Rightarrow> ask (\<lambda>k. ld_listTools deps (kn_shared k))
      | Some plan \<Rightarrow>
          bnd (askLoop ls_interactionMode) (\<lambda>mode.
          bnd (onShared (plan mode iteration task)) (\<lambda>(tools, costWarned).
          bnd (setLoop (\<lambda>s. s\<lparr>ls_costWarnedToolNames := costWarned\<rparr>)) (\<lambda>_. ret tools))))"

definition syncRecentFileCacheMode :: "ProviderToolCall list \<Rightarrow> ProviderToolDescriptor list \<Rightarrow> ExecutionLoopState \<Rightarrow> ExecutionLoopState" where
  "syncRecentFileCacheMode pending tools s =
     (let writePending = list_ex (\<lambda>c. case List.find (\<lambda>t. ds_name t = pc_toolName c) tools of
            Some d \<Rightarrow> ds_capability d = Filesystem_write | None \<Rightarrow> False) pending
      in s\<lparr>ls_recentFileReadCache := map_option (setMode (if writePending then Cache_write_required else Cache_normal))
           (ls_recentFileReadCache s)\<rparr>)"

definition pruneTurn :: "'m LoopDeps \<Rightarrow> int \<Rightarrow> TaskRecord \<Rightarrow> ('m, unit) kop" where
  "pruneTurn deps iteration task =
     (let keepGroups = (case ld_keepGroups deps of None \<Rightarrow> DEFAULT_TOOL_RESULT_KEEP_GROUPS | Some n \<Rightarrow> n)
      in bnd (ask (\<lambda>k. snd (pruneOldToolResults (turnMessages k) keepGroups))) (\<lambda>r.
         bnd (setTurn (\<lambda>ms. fst (pruneOldToolResults ms keepGroups))) (\<lambda>_.
         if pr_prunedCount r = 0 then ret ()
         else bnd (setLoop (\<lambda>s. s\<lparr>ls_microPrunedCount := ls_microPrunedCount s + pr_prunedCount r\<rparr>)) (\<lambda>_.
              loopTrace ''runtime.context'' ''micro_compact_pruned''
                [(''iteration'', JNum iteration), (''prunedCount'', JNum (int (pr_prunedCount r))),
                 (''savedTokensEstimate'', JNum (int (pr_savedTokensEstimate r)))] ''planning''
                (''Micro-compaction pruned '' @ showNat (pr_prunedCount r) @ '' old tool results'') task))))"

text \<open>The todo message of the turn, or of the loop's array; the result is the number of todos if there is a message.\<close>

definition taskTodoKey :: "TaskRecord \<Rightarrow> string" where
  "taskTodoKey task = resolveTodoSessionKey (tk_taskId task) (Some (buildToolTaskMetadata task))"

definition syncTodos :: "'m LoopDeps \<Rightarrow> TaskRecord \<Rightarrow> 'm Shared \<Rightarrow> msgs \<Rightarrow> nat option \<times> msgs" where
  "syncTodos deps task sh ms =
     (case ld_todoStore deps sh of
        None \<Rightarrow> (None, ms)
      | Some st \<Rightarrow> (case syncSessionTodosMessage (Some st) (Some (taskTodoKey task)) ms of
          (None, ms') \<Rightarrow> (None, ms') | (Some _, ms') \<Rightarrow> (Some (length (todoGet (taskTodoKey task) st)), ms')))"

definition syncTurnTodos :: "'m LoopDeps \<Rightarrow> int \<Rightarrow> TaskRecord \<Rightarrow> ('m, unit) kop" where
  "syncTurnTodos deps iteration task =
     bnd (ask (\<lambda>k. syncTodos deps task (kn_shared k) (turnMessages k))) (\<lambda>(todoCount, ms).
     bnd (setTurn (\<lambda>_. ms)) (\<lambda>_.
     case todoCount of
       None \<Rightarrow> ret ()
     | Some n \<Rightarrow> loopTrace ''runtime.context'' ''session_todos_injected''
         [(''iteration'', JNum iteration), (''todoCount'', JNum (int n))] ''planning''
         (''Injected '' @ showNat n @ '' session todo item(s) into provider messages'') task))"

definition assembleTurn :: "ProviderToolDescriptor list \<Rightarrow> int \<Rightarrow> TaskRecord \<Rightarrow> 'm Kernel \<Rightarrow> MemoryContextInjection option \<times> LoopRequest" where
  "assembleTurn tools iteration task k = assemble tools iteration (ls_memoryContext (kn_loop k)) (turnMessages k) task (ls_tokenBudget (kn_loop k))"

text \<open>Everything up to the request.\<close>

definition prepareTurn :: "'m LoopDeps \<Rightarrow> ProviderToolDescriptor list \<Rightarrow> int \<Rightarrow> TaskRecord \<Rightarrow> ('m, LoopRequest) kop" where
  "prepareTurn deps tools iteration task =
     bnd (setLoop (syncRecentFileCacheMode [] tools)) (\<lambda>_.
     bnd (setTurn (\<lambda>ms. fst (sanitizeToolCallPairing ms))) (\<lambda>_.
     bnd (pruneTurn deps iteration task) (\<lambda>_.
     bnd (askLoop ls_recentFileReadCache) (\<lambda>cache.
     bnd (setTurn (\<lambda>ms. snd (syncPinnedRecentFilesMessage (ld_collate deps) cache ms))) (\<lambda>_.
     bnd (syncTurnTodos deps iteration task) (\<lambda>_.
     bnd (ask (assembleTurn tools iteration task)) (\<lambda>(injection, req).
     bnd (case injection of
            None \<Rightarrow> ret ()
          | Some i \<Rightarrow> loopTrace ''runtime.context'' ''memory_context_injected''
              [(''fragmentCount'', JNum (int (mi_fragmentCount i))), (''iteration'', JNum iteration),
               (''tokenEstimate'', JNum (int (mi_tokenEstimate i)))] ''planning''
              (''Injected '' @ showNat (mi_fragmentCount i) @ '' recall fragments into provider messages'') task) (\<lambda>_.
     ret req))))))))"

subsection \<open>The request and its retries\<close>

definition tokenBudgetToJson :: "TokenBudget \<Rightarrow> json" where
  "tokenBudgetToJson b = JObj [(''inputLimit'', JNum (tb_inputLimit b)), (''outputLimit'', JNum (tb_outputLimit b)),
     (''reservedOutput'', JNum (tb_reservedOutput b)), (''usedInput'', JNum (tb_usedInput b)), (''usedOutput'', JNum (tb_usedOutput b)),
     (''usedCostUsd'', JNum (case tb_usedCostUsd b of None \<Rightarrow> 0 | Some c \<Rightarrow> c))]"

definition modelOf :: "ActiveProvider \<Rightarrow> string option" where
  "modelOf p = (case av_model p of Some m \<Rightarrow> Some m | None \<Rightarrow> av_describedModel p)"

definition announceRequest :: "'m LoopDeps \<Rightarrow> ActiveProvider \<Rightarrow> LoopRequest \<Rightarrow> ('m, unit) kop" where
  "announceRequest deps p req =
     bnd (ask turnMessages) (\<lambda>turn.
     bnd (askLoop ls_tokenBudget) (\<lambda>tokenBudget.
     bnd (loopTrace (''provider.'' @ av_name p) ''provider_request_started''
        [(''inputMessageCount'', JNum (int (length turn))), (''iteration'', JNum (lr_iteration req)), (''modelName'', jopt (modelOf p)),
         (''providerName'', JStr (av_name p))] ''planning'' ''Provider request started'' (lr_task req)) (\<lambda>_.
     loopTrace (''provider.'' @ av_name p) ''model_request''
        [(''agentProfileId'', JStr (case tk_agentProfileId (lr_task req) of Planner \<Rightarrow> ''planner'' | Executor \<Rightarrow> ''executor'' | Reviewer \<Rightarrow> ''reviewer'')),
         (''availableTools'', JArr (map (JStr \<circ> ds_name) (lr_availableTools req))), (''inputMessageCount'', JNum (int (length turn))),
         (''iteration'', JNum (lr_iteration req)), (''tokenBudget'', tokenBudgetToJson tokenBudget)] ''planning''
        ''Provider request assembled'' (lr_task req))))"

definition announceContext :: "'m LoopDeps \<Rightarrow> LoopRequest \<Rightarrow> ('m, unit) kop" where
  "announceContext deps req =
     bnd (onShared (ld_emitOutput deps ''assistant_turn_started''
        [(''display'', JStr ''provisional''), (''iteration'', JNum (lr_iteration req)), (''providerName'', JStr (ld_providerName deps)),
         (''turnId'', JStr (ld_turnId deps))] ''planning'' (tk_taskId (lr_task req)))) (\<lambda>_.
     bnd (askLoop id) (\<lambda>s.
     bnd (ask turnMessages) (\<lambda>turn.
     loopTrace ''runtime.context'' ''context_assembled''
        [(''compactedCount'', JNum (int (ls_compactedCount s))), (''debugView'', ld_debugView deps req (ls_memoryRecall s)),
         (''iteration'', JNum (lr_iteration req)), (''microPrunedCount'', JNum (int (ls_microPrunedCount s))),
         (''promptTokenEstimate'', JNum (int (computePromptTokens (ls_tokenCounter s) turn)))] ''planning''
        (''Context assembled with '' @ showNat (length (lr_memoryContext req)) @ '' recall fragments'') (lr_task req))))"

definition normalizeProviderFailure :: "'m LoopDeps \<Rightarrow> ActiveProvider \<Rightarrow> thrown \<Rightarrow> ProviderErrorShape" where
  "normalizeProviderFailure deps p e = (case e of ProviderError pe \<Rightarrow> pe | _ \<Rightarrow> ld_toProviderError deps e p)"

text \<open>
  The drop after an overflow, from the array the turn reads and from the loop's array if that is another one; the
  result is the larger of the two counts.
\<close>

definition dropForOverflow :: "'m Kernel \<Rightarrow> nat \<times> 'm Kernel" where
  "dropForOverflow k =
     (case dropOldestCompactibleMessages (turnMessages k) 1 of
        (turn, fromTurn) \<Rightarrow>
          let k1 = setTurnMessages turn k
          in if ls_turnProviderMessages (kn_loop k) = Loop_messages then (fromTurn, k1)
             else case dropOldestCompactibleMessages (kn_messages k1) 1 of
                    (ms, fromMessages) \<Rightarrow> (max fromTurn fromMessages, k1\<lparr>kn_messages := ms\<rparr>))"

definition recoveryMessage :: ConversationMessage where
  "recoveryMessage = systemMessage (''Recovery attempt: retain completed tool results and workspace changes. '' @
     ''Continue from the remaining objective; verify changes before finalizing.'') promptMetadata"

definition traceRequestFailure :: "ActiveProvider \<Rightarrow> ProviderErrorShape \<Rightarrow> LoopRequest \<Rightarrow> ('m, unit) kop" where
  "traceRequestFailure p pe req =
     bnd (ask (\<lambda>k. sh_abort (kn_shared k))) (\<lambda>abort.
     bnd (askLoop (\<lambda>s. (ls_timeoutMode s, ls_timeoutMs s))) (\<lambda>(timeoutMode, timeoutMs).
     let category = (if abort = Some Abort_timeout then ''timeout_error'' else pe_category pe)
     in loopTrace (''provider.'' @ av_name p) ''provider_request_failed''
        ([(''errorCategory'', JStr category), (''errorMessage'', JStr (pe_message pe)), (''iteration'', JNum (lr_iteration req)),
          (''modelName'', jopt (case pe_modelName pe of Some m \<Rightarrow> Some m | None \<Rightarrow> av_model p)), (''providerName'', JStr (av_name p)),
          (''retryCount'', JNum (case pe_retryCount pe of None \<Rightarrow> 0 | Some n \<Rightarrow> n)), (''timeoutMs'', JNum timeoutMs)] @
         (if abort = Some Abort_timeout then [(''timeoutSource'', JStr (timeoutModeStr timeoutMode))]
          else if pe_category pe = ''timeout_error'' then [(''timeoutSource'', JStr ''provider'')] else []))
        ''planning'' (''Provider request failed with '' @ category) (lr_task req)))"

definition startRecovery :: "'m LoopDeps \<Rightarrow> LoopRequest \<Rightarrow> ProviderToolCall list \<Rightarrow> ('m, unit) kop" where
  "startRecovery deps req pending =
     bnd (setLoop (\<lambda>s. s\<lparr>ls_taskRecoveryUsed := True\<rparr>)) (\<lambda>_.
     bnd (saveCheckpoint (ld_now deps) (tk_taskId (lr_task req)) (lr_iteration req) None pending) (\<lambda>_.
     bnd (loopTrace ''runtime.kernel'' ''task_recovery_started''
        [(''iteration'', JNum (lr_iteration req)), (''reason'', JStr ''provider_timeout''), (''recoveryAttempt'', JNum 1)] ''control''
        ''Retrying task once after provider timeout'' (lr_task req)) (\<lambda>_.
     setTurn (\<lambda>ms. ms @ [recoveryMessage]))))"

text \<open>
  The loop over the attempts: \<open>n\<close> are left, \<open>overflowed\<close> says whether messages were dropped already. \<open>None\<close> is
  \<open>undefined\<close>: no attempt left.
\<close>

fun attemptProvider :: "'m LoopDeps \<Rightarrow> ActiveProvider \<Rightarrow> nat \<Rightarrow> bool \<Rightarrow> LoopRequest \<Rightarrow> ('m, KernelResponse option) kop" where
  "attemptProvider deps p 0 overflowed req = ret None"
| "attemptProvider deps p (Suc n) overflowed req = (\<lambda>k.
     case onShared (ld_generate deps p req) k of
       (Inr response, k1) \<Rightarrow> (Inr (Some response), k1)
     | (Inl e, k1) \<Rightarrow>
         let pe = normalizeProviderFailure deps p e; drp = dropForOverflow k1
         in if \<not> overflowed \<and> isContextOverflowProviderError pe \<and> fst drp > 0
            then bnd (loopTrace ''runtime.context'' ''reactive_compact_triggered''
                   [(''droppedMessageCount'', JNum (int (fst drp))), (''iteration'', JNum (lr_iteration req))] ''planning''
                   ''Dropped oldest messages after provider context overflow'' (lr_task req)) (\<lambda>_.
                 attemptProvider deps p n True
                   (snd (assembleTurn (lr_availableTools req) (lr_iteration req) (lr_task req) (snd drp)))) (snd drp)
            else let k2 = (if \<not> overflowed \<and> isContextOverflowProviderError pe then snd drp else k1)
              in bnd (traceRequestFailure p pe req) (\<lambda>_.
                 bnd (ask (\<lambda>k. sh_abort (kn_shared k))) (\<lambda>abort.
                 bnd (askLoop ls_taskRecoveryUsed) (\<lambda>used.
                 if \<not> used \<and> abort = None \<and> pe_category pe = ''timeout_error''
                 then bnd (startRecovery deps req []) (\<lambda>_. attemptProvider deps p n overflowed req)
                 else bnd throwIfAborted (\<lambda>_. raise (ProviderError pe))))) k2)"

subsection \<open>Charging the usage\<close>

fun routingModeStr :: "RoutingMode \<Rightarrow> string" where
  "routingModeStr Cheap_first = ''cheap_first''"
| "routingModeStr Balanced = ''balanced''"
| "routingModeStr Quality_first = ''quality_first''"

definition addUsage :: "TokenBudget \<Rightarrow> KernelUsage \<Rightarrow> int option \<Rightarrow> TokenBudget" where
  "addUsage b u cost = b\<lparr>tb_usedCostUsd := Some ((case tb_usedCostUsd b of None \<Rightarrow> 0 | Some c \<Rightarrow> c) + (case cost of None \<Rightarrow> 0 | Some c \<Rightarrow> c)),
     tb_usedInput := tb_usedInput b + pu_inputTokens u, tb_usedOutput := tb_usedOutput b + pu_outputTokens u\<rparr>"

definition recordBudget :: "'m LoopDeps \<Rightarrow> string \<Rightarrow> KernelResponse \<Rightarrow> TaskRecord \<Rightarrow> ('m, TaskRecord) kop" where
  "recordBudget deps providerName response task =
     (let usage = kr_usage response; cost = ld_costUsd deps providerName usage
      in bnd (askLoop ls_tokenBudget) (\<lambda>b.
         bnd (kernelTaskUpdate (ld_now deps) (tk_taskId task) (noTaskPatch\<lparr>tp_tokenBudget := Some (addUsage b usage cost)\<rparr>)) (\<lambda>task1.
         bnd (loopTrace ''runtime.budget'' ''cost_report''
            [(''cachedInputTokens'', JNum (case ku_cachedInputTokens usage of None \<Rightarrow> 0 | Some n \<Rightarrow> n)),
             (''costUsd'', case cost of None \<Rightarrow> JNull | Some c \<Rightarrow> JNum c), (''inputTokens'', JNum (pu_inputTokens usage)),
             (''mode'', JStr (routingModeStr (ld_budgetMode deps))), (''outputTokens'', JNum (pu_outputTokens usage)),
             (''providerName'', JStr providerName), (''taskId'', JStr (tk_taskId task1)), (''sessionId'', jopt (tk_sessionId task1))]
            ''control'' ''Cost usage recorded'' task1) (\<lambda>_.
         bnd (onShared (ld_recordUsage deps \<lparr>bi_taskId = tk_taskId task1, bi_sessionId = tk_sessionId task1, bi_mode = ld_budgetMode deps,
            bi_usage = ProviderUsage.truncate usage, bi_costUsd = cost\<rparr>)) (\<lambda>decision.
         case decision of
           Some d \<Rightarrow> if be_action d = Hard_abort
             then raise (AppError Budget_exceeded (let t = joinWith ''; '' (be_reasons d) in if t = [] then ''Budget hard limit exceeded.'' else t) None)
             else bnd (setLoop (\<lambda>s. s\<lparr>ls_tokenBudget := addUsage b usage cost\<rparr>)) (\<lambda>_. ret task1)
         | None \<Rightarrow> bnd (setLoop (\<lambda>s. s\<lparr>ls_tokenBudget := addUsage b usage cost\<rparr>)) (\<lambda>_. ret task1))))))"

end
