(* ===== verification/ToolBatchProps.thy ===== *)
theory ToolBatchProps
  imports ToolBatch ContextProps "HOL-Library.Multiset"
begin

section \<open>Properties of the execution of tool calls\<close>

named_theorems kernel_run \<open>what the basic operations of the loop do\<close>

lemma onShared_run [kernel_run]: "onShared m k = (case m (kn_shared k) of (r, s) \<Rightarrow> (r, k\<lparr>kn_shared := s\<rparr>))"
  by (simp add: onShared_def zoom_run)

lemma setLoop_run [kernel_run]: "setLoop f k = (Inr (), k\<lparr>kn_loop := f (kn_loop k)\<rparr>)"
  by (simp add: setLoop_def)

lemma askLoop_run [kernel_run]: "askLoop f k = (Inr (f (kn_loop k)), k)"
  by (simp add: askLoop_def)

lemma kernelTrace_run [kernel_run]: "kernelTrace e k = (Inr (), k\<lparr>kn_shared := (kn_shared k)\<lparr>sh_trace := sh_trace (kn_shared k) @ [e]\<rparr>\<rparr>)"
  by (simp add: kernelTrace_def onShared_run)

lemma emitTaskEvent_run [kernel_run]:
  "emitTaskEvent e k = (Inr (), if ls_onTaskEvent (kn_loop k) then k\<lparr>kn_events := kn_events k @ [e]\<rparr> else k)"
  by (simp add: emitTaskEvent_def)

lemma pushMessage_run [kernel_run]: "pushMessage m k = (Inr (), k\<lparr>kn_messages := kn_messages k @ [m]\<rparr>)"
  by (simp add: pushMessage_def)

text \<open>
  Every operation below is judged by what it leaves alone. \<open>kept f\<close> holds of an operation that never changes
  the part \<open>f\<close> of the state, however it ends.
\<close>

interpretation same: step_closed "\<lambda>k k'. f k' = f k" for f :: "'m Kernel \<Rightarrow> 'b"
  by unfold_locales auto

abbreviation kept :: "('m Kernel \<Rightarrow> 'b) \<Rightarrow> ('m, 'a) kop \<Rightarrow> bool" where
  "kept f \<equiv> step_closed.follows (\<lambda>k k'. f k' = f k)"

named_theorems kept_intros \<open>operations that leave a part of the state alone\<close>

lemmas kept_def = same.follows_def

lemma keptD: "kept f m \<Longrightarrow> m k = (r, k') \<Longrightarrow> f k' = f k"
  by (rule same.followsD)

lemmas kept_bnd [kept_intros] = same.follows_bnd
lemmas kept_control [kept_intros] = same.follows_pure same.follows_if same.follows_option same.follows_forEach

lemma kept_ask [kept_intros]: "kept f (askLoop g)"
  by (auto simp: kept_def askLoop_run)

lemma kept_messages [kept_intros]:
  "kept kn_messages (onShared s)" "kept kn_messages (setLoop g)" "kept kn_messages (kernelTrace e)" "kept kn_messages (emitTaskEvent v)"
  by (auto simp: kept_def kernel_run split: prod.splits)

lemma kept_rest [kept_intros]:
  "kept (\<lambda>k. sh_rest (kn_shared k)) (setLoop g)" "kept (\<lambda>k. sh_rest (kn_shared k)) (kernelTrace e)"
  "kept (\<lambda>k. sh_rest (kn_shared k)) (emitTaskEvent v)" "kept (\<lambda>k. sh_rest (kn_shared k)) (pushMessage m)"
  "kept (\<lambda>k. sh_tasks (kn_shared k)) (setLoop g)" "kept (\<lambda>k. sh_tasks (kn_shared k)) (kernelTrace e)"
  "kept (\<lambda>k. sh_tasks (kn_shared k)) (emitTaskEvent v)" "kept (\<lambda>k. sh_tasks (kn_shared k)) (pushMessage m)"
  "kept (\<lambda>k. sh_checkpoints (kn_shared k)) (setLoop g)" "kept (\<lambda>k. sh_checkpoints (kn_shared k)) (kernelTrace e)"
  "kept (\<lambda>k. sh_checkpoints (kn_shared k)) (emitTaskEvent v)" "kept (\<lambda>k. sh_checkpoints (kn_shared k)) (pushMessage m)"
  by (auto simp: kept_def kernel_run)

text \<open>A field of the loop's state is kept by what only changes others.\<close>

lemma kept_field [kept_intros]:
  "kept (\<lambda>k. fd (kn_loop k)) (onShared s)" "kept (\<lambda>k. fd (kn_loop k)) (kernelTrace e)"
  "kept (\<lambda>k. fd (kn_loop k)) (emitTaskEvent v)" "kept (\<lambda>k. fd (kn_loop k)) (pushMessage m)"
  by (auto simp: kept_def kernel_run split: prod.splits)

lemma kept_setLoop: "(\<And>s. fd (g s) = fd s) \<Longrightarrow> kept (\<lambda>k. fd (kn_loop k)) (setLoop g)"
  by (simp add: kept_def setLoop_run)

subsection \<open>Operations that cannot fail\<close>

definition returns :: "('m, 'a) kop \<Rightarrow> bool" where
  "returns m \<longleftrightarrow> (\<forall>k. \<exists>x k'. m k = (Inr x, k'))"

named_theorems returns_intros \<open>operations that throw nothing\<close>

lemma returns_bnd [returns_intros]:
  assumes "returns m" "\<And>x. returns (g x)"
  shows "returns (bnd m g)"
  unfolding returns_def
proof
  fix k
  obtain x k1 where "m k = (Inr x, k1)" using assms(1) unfolding returns_def by blast
  moreover obtain y k2 where "g x k1 = (Inr y, k2)" using assms(2) [of x] unfolding returns_def by blast
  ultimately show "\<exists>y k'. bnd m g k = (Inr y, k')" by simp
qed

lemma returns_base [returns_intros]:
  "returns (ret x)" "returns (askLoop g)" "returns (setLoop h)" "returns (kernelTrace e)" "returns (emitTaskEvent v)" "returns (pushMessage m)"
  by (auto simp: returns_def kernel_run)

lemma returns_if [returns_intros]: "returns m \<Longrightarrow> returns n \<Longrightarrow> returns (if b then m else n)"
  by simp

lemma returns_option [returns_intros]: "returns m \<Longrightarrow> (\<And>x. returns (n x)) \<Longrightarrow> returns (case v of None \<Rightarrow> m | Some x \<Rightarrow> n x)"
  by (cases v) auto

lemma returns_answer: "returns (answerCall deps task it call r)"
  unfolding answerCall_def Let_def by (intro returns_intros) (auto intro: returns_intros split: option.splits)

lemma returns_apply: "returns (applyCompletedToolCallOutcome deps task it call oc)"
  unfolding applyCompletedToolCallOutcome_def
  by (cases oc) (simp_all add: applyResult_def applyUnfinishedOutcome_def noteVerification_def Let_def returns_intros returns_answer)

subsection \<open>Every call is answered\<close>

definition asksUser :: "'m BatchDeps \<Rightarrow> ProviderToolCall \<Rightarrow> bool" where
  "asksUser deps call \<longleftrightarrow> map_option ds_capability (bd_describeTool deps (pc_toolName call)) = Some Interaction_ask_user"

text \<open>An operation that appends one result to the conversation, for the given call.\<close>

definition answers :: "string \<Rightarrow> ('m, 'a) kop \<Rightarrow> bool" where
  "answers i m \<longleftrightarrow> (\<forall>k. \<exists>msg. kn_messages (snd (m k)) = kn_messages k @ [msg] \<and> isTool msg \<and> ms_toolCallId msg = Some i)"

lemma answers_before:
  assumes "kept kn_messages m" "returns m" "\<And>x. answers i (g x)"
  shows "answers i (bnd m g)"
  unfolding answers_def
proof
  fix k
  obtain x k1 where m: "m k = (Inr x, k1)" using assms(2) unfolding returns_def by blast
  have "kn_messages k1 = kn_messages k" by (rule keptD [OF assms(1) m])
  moreover have "\<exists>msg. kn_messages (snd (g x k1)) = kn_messages k1 @ [msg] \<and> isTool msg \<and> ms_toolCallId msg = Some i"
    using assms(3) [of x] unfolding answers_def by (rule spec)
  ultimately show "\<exists>msg. kn_messages (snd (bnd m g k)) = kn_messages k @ [msg] \<and> isTool msg \<and> ms_toolCallId msg = Some i"
    using m by simp
qed

lemma answers_after:
  assumes "answers i m" "\<And>x. kept kn_messages (g x)"
  shows "answers i (bnd m g)"
  unfolding answers_def
proof
  fix k
  obtain r k1 where m: "m k = (r, k1)" by (cases "m k")
  obtain msg where msg: "kn_messages k1 = kn_messages k @ [msg]" "isTool msg" "ms_toolCallId msg = Some i"
    using assms(1) m unfolding answers_def by (metis snd_conv)
  have "kn_messages (snd (bnd m g k)) = kn_messages k1"
    using m assms(2) by (cases r) (auto simp: bnd_run kept_def)
  with msg show "\<exists>msg. kn_messages (snd (bnd m g k)) = kn_messages k @ [msg] \<and> isTool msg \<and> ms_toolCallId msg = Some i"
    by simp
qed

lemma answers_push: "isTool msg \<Longrightarrow> ms_toolCallId msg = Some i \<Longrightarrow> answers i (pushMessage msg)"
  by (auto simp: answers_def kernel_run)

lemma feedback_shape [simp]:
  "isTool (createToolFeedbackMessage out i n p c)" "ms_toolCallId (createToolFeedbackMessage out i n p c) = Some i"
  "\<not> hasCalls (createToolFeedbackMessage out i n p c)"
  by (simp_all add: createToolFeedbackMessage_def isTool_def hasCalls_def)

lemma buildFeedback_shape [simp]:
  "isTool (buildToolFeedbackMessage deps dir task call out p notice)"
  "ms_toolCallId (buildToolFeedbackMessage deps dir task call out p notice) = Some (pc_toolCallId call)"
  by (cases notice; simp add: buildToolFeedbackMessage_def Let_def; simp add: isTool_def createToolFeedbackMessage_def)+

lemma answers_answerCall:
  assumes "\<not> asksUser deps call"
  shows "answers (pc_toolCallId call) (answerCall deps task it call r)"
proof -
  have asks: "(map_option ds_capability (bd_describeTool deps (pc_toolName call)) = Some Interaction_ask_user) = False"
    using assms by (simp add: asksUser_def)
  have push: "answers (pc_toolCallId call) (bnd (askLoop ls_toolArtifactsRoot) (\<lambda>dir.
      pushMessage (buildToolFeedbackMessage deps dir task call out p notice)))" for out p notice
    by (rule answers_before) (auto intro!: answers_push kept_intros returns_intros)
  show ?thesis
    unfolding answerCall_def Let_def asks if_False prod.case
    by (rule answers_before, (rule kept_intros returns_intros)+, rule answers_after [OF push], (rule kept_intros)+)
qed

lemma answers_apply: "\<not> asksUser deps call \<Longrightarrow> answers (pc_toolCallId call) (applyCompletedToolCallOutcome deps task it call oc)"
proof (cases oc)
  case (Completed r rec)
  assume "\<not> asksUser deps call"
  from answers_answerCall [OF this] show ?thesis
    unfolding applyCompletedToolCallOutcome_def Completed applyResult_def Let_def noteVerification_def
    by (auto intro!: answers_before kept_intros returns_intros)
qed (auto simp: applyCompletedToolCallOutcome_def applyUnfinishedOutcome_def Let_def asksUser_def
    intro!: answers_after answers_push kept_intros)

text \<open>The conversation grows by results, one for each of the given calls, in some order.\<close>

definition grows :: "string list \<Rightarrow> 'm Kernel \<Rightarrow> 'm Kernel \<Rightarrow> bool" where
  "grows ids k k' \<longleftrightarrow> (\<exists>rs. kn_messages k' = kn_messages k @ rs \<and> list_all isTool rs \<and>
     mset (map ms_toolCallId rs) = mset (map Some ids))"

lemma grows_same: "kn_messages k' = kn_messages k \<Longrightarrow> grows [] k k'"
  by (simp add: grows_def)

lemma grows_kept: "kept kn_messages m \<Longrightarrow> m k = (r, k') \<Longrightarrow> grows [] k k'"
  by (rule grows_same) (rule keptD)

lemma grows_trans: "grows a k k1 \<Longrightarrow> grows b k1 k2 \<Longrightarrow> grows (a @ b) k k2"
  by (fastforce simp: grows_def intro: exI [of _ "x @ y" for x y])

lemma grows_answers: "answers i m \<Longrightarrow> m k = (r, k') \<Longrightarrow> grows [i] k k'"
  unfolding answers_def grows_def by (metis (no_types, lifting) list.pred_inject list.simps(8,9) snd_conv)

lemma grows_mset: "mset a = mset b \<Longrightarrow> grows a k k' = grows b k k'"
  by (simp add: grows_def)

abbreviation callIdsOf :: "ProviderToolCall list \<Rightarrow> string list" where
  "callIdsOf \<equiv> map pc_toolCallId"

lemma kept_callTool [kept_intros]: "kept kn_messages (callTool deps g task it call)"
  unfolding callTool_def recordDuplicateToolReplayTrace_def startedEvent_def by (intro kept_intros)

lemma kept_saveCheckpoint [kept_intros]: "kept kn_messages (saveCheckpoint now i it p pending)"
  by (simp add: kept_def saveCheckpoint_def onShared_run)

lemma kept_tryPause [kept_intros]: "kept kn_messages (tryPauseToolExecution deps pending i task it call oc)"
  unfolding tryPauseToolExecution_def pauseTask_def kernelTaskUpdate_def
  by (cases oc) (simp_all add: kept_intros)

lemma tryPause_None:
  "tryPauseToolExecution deps pending i task it call oc k = (Inr None, k') \<Longrightarrow>
    k' = k \<and> ((\<exists>r c. oc = Completed r c) \<or> (\<exists>c. oc = Cleared c))"
  by (cases oc) (auto simp: tryPauseToolExecution_def bnd_run split: prod.splits sum.splits)

lemma preflight_grows:
  assumes "preflightLoop deps pending pos task it calls cleared outcomes k = (Inr (Inl (cl, os)), k')"
    and "\<forall>c\<in>set calls. \<not> asksUser deps c"
  shows "\<exists>a c2. cl = cleared @ c2 \<and> length os = length outcomes + length a \<and> grows a k k' \<and>
    mset a + mset (callIdsOf c2) = mset (callIdsOf calls) \<and> set c2 \<subseteq> set calls"
  using assms
proof (induction calls arbitrary: pos cleared outcomes k)
  case Nil
  then show ?case by (auto simp: grows_same intro!: exI [of _ "[]"])
next
  case (Cons c calls)
  from Cons.prems(1) obtain oc k1 k2 where
    1: "preflightToolCall deps task it c k = (Inr oc, k1)" and
    2: "tryPauseToolExecution deps pending pos task it c oc k1 = (Inr None, k2)" and
    3: "(case oc of
            Completed _ _ \<Rightarrow> bnd (applyCompletedToolCallOutcome deps task it c oc) (\<lambda>_.
              preflightLoop deps pending (pos + 1) task it calls cleared (outcomes @ [(c, oc)]))
          | Cleared _ \<Rightarrow> preflightLoop deps pending (pos + 1) task it calls (cleared @ [c]) outcomes
          | _ \<Rightarrow> preflightLoop deps pending (pos + 1) task it calls cleared outcomes) k2 = (Inr (Inl (cl, os)), k')"
    by (auto elim!: bnd_InrE split: option.splits)
  have g: "grows [] k k1" using 1 by (rule grows_kept [rotated]) (simp add: preflightToolCall_def kept_intros)
  from tryPause_None [OF 2] have k2: "k2 = k1" and kinds: "(\<exists>r c. oc = Completed r c) \<or> (\<exists>c. oc = Cleared c)" by auto
  from kinds show ?case
  proof
    assume "\<exists>r c. oc = Completed r c"
    with 3 obtain k3 where 4: "applyCompletedToolCallOutcome deps task it c oc k2 = (Inr (), k3)"
      and 5: "preflightLoop deps pending (pos + 1) task it calls cleared (outcomes @ [(c, oc)]) k3 = (Inr (Inl (cl, os)), k')"
      by (auto elim!: bnd_InrE)
    have "grows [pc_toolCallId c] k2 k3" by (rule grows_answers [OF answers_apply 4]) (use Cons.prems(2) in simp)
    with g k2 have g3: "grows [pc_toolCallId c] k k3" using grows_trans by fastforce
    from Cons.IH [OF 5] Cons.prems(2) obtain a c2 where
      h: "cl = cleared @ c2" "length os = length outcomes + 1 + length a" "grows a k3 k'"
        "mset a + mset (callIdsOf c2) = mset (callIdsOf calls)" "set c2 \<subseteq> set calls" by auto
    from grows_trans [OF g3 h(3)] h show ?thesis
      by (intro exI [of _ "pc_toolCallId c # a"] exI [of _ c2]) auto
  next
    assume "\<exists>c. oc = Cleared c"
    with 3 have "preflightLoop deps pending (pos + 1) task it calls (cleared @ [c]) outcomes k2 = (Inr (Inl (cl, os)), k')" by auto
    from Cons.IH [OF this] Cons.prems(2) obtain a c2 where
      h: "cl = (cleared @ [c]) @ c2" "length os = length outcomes + length a" "grows a k2 k'"
        "mset a + mset (callIdsOf c2) = mset (callIdsOf calls)" "set c2 \<subseteq> set calls" by auto
    from g k2 grows_trans h(3) have "grows a k k'" by fastforce
    with h show ?thesis by (intro exI [of _ a] exI [of _ "c # c2"]) auto
  qed
qed

lemma answers_replay: "\<not> asksUser deps c \<Longrightarrow> tryApplyDuplicateToolReplay deps task it c k = (Inr True, k') \<Longrightarrow> grows [pc_toolCallId c] k k'"
proof -
  assume ask: "\<not> asksUser deps c" and run: "tryApplyDuplicateToolReplay deps task it c k = (Inr True, k')"
  from run obtain oc where oc: "resolveDuplicateToolReplay deps c (kn_loop k) = Some oc"
    by (auto simp: tryApplyDuplicateToolReplay_def askLoop_run bnd_run split: option.splits)
  let ?rest = "bnd (startedEvent task it c) (\<lambda>_. bnd (applyCompletedToolCallOutcome deps task it c oc) (\<lambda>_.
    bnd (recordDuplicateToolReplayTrace task it c) (\<lambda>_. ret True)))"
  have "answers (pc_toolCallId c) ?rest"
    unfolding startedEvent_def recordDuplicateToolReplayTrace_def
    by (rule answers_before, (rule kept_intros returns_intros)+, rule answers_after [OF answers_apply [OF ask]], (rule kept_intros)+)
  moreover have "?rest k = (Inr True, k')" using run oc by (simp add: tryApplyDuplicateToolReplay_def askLoop_run bnd_run)
  ultimately show ?thesis by (rule grows_answers)
qed

lemma replay_False: "tryApplyDuplicateToolReplay deps task it c k = (Inr False, k') \<Longrightarrow> k' = k"
  by (auto simp: tryApplyDuplicateToolReplay_def askLoop_run bnd_run split: option.splits prod.splits sum.splits)

lemma startCleared_grows:
  assumes "startCleared deps task it calls k = (Inr st, k')" and "\<forall>c\<in>set calls. \<not> asksUser deps c"
  shows "\<exists>a. grows a k k' \<and> mset a + mset (callIdsOf (somes st)) = mset (callIdsOf calls) \<and>
    length st = length calls \<and> set (somes st) \<subseteq> set calls"
  using assms
proof (induction calls arbitrary: k st)
  case Nil
  then show ?case by (auto simp: grows_same)
next
  case (Cons c calls)
  from Cons.prems(1) obtain b k1 r k2 rs where
    1: "tryApplyDuplicateToolReplay deps task it c k = (Inr b, k1)" and
    2: "(if b then ret None else bnd (startedEvent task it c) (\<lambda>_. ret (Some c))) k1 = (Inr r, k2)" and
    3: "startCleared deps task it calls k2 = (Inr rs, k')" and st: "st = r # rs"
    by (auto elim!: bnd_InrE)
  from Cons.IH [OF 3] Cons.prems(2) obtain a where
    h: "grows a k2 k'" "mset a + mset (callIdsOf (somes rs)) = mset (callIdsOf calls)"
      "length rs = length calls" "set (somes rs) \<subseteq> set calls" by auto
  show ?case
  proof (cases b)
    case True
    then have r: "r = None" "k2 = k1" using 2 by auto
    have "grows [pc_toolCallId c] k k1" by (rule answers_replay [of deps c task it]) (use 1 True Cons.prems(2) in auto)
    from grows_trans [OF this h(1) [unfolded r]] h r st show ?thesis
      by (intro exI [of _ "pc_toolCallId c # a"]) (auto)
  next
    case False
    then have k1: "k1 = k" using 1 replay_False [of deps task it c k k1] by simp
    have r: "r = Some c" "grows [] k1 k2" using 2 False
      by (auto simp: startedEvent_def emitTaskEvent_run bnd_run intro!: grows_same)
    from grows_trans [OF r(2) h(1)] h r st k1 show ?thesis
      by (intro exI [of _ a]) (auto)
  qed
qed

lemma settle_grows:
  assumes "settleLoop deps pending start cleared task it earlier n invs k = (Inr (Batch_done m), k')"
    and "\<forall>(c, o1)\<in>set (somes invs). \<not> asksUser deps c"
  shows "grows (callIdsOf (map fst (somes invs))) k k' \<and> m = n + length invs"
  using assms
proof (induction deps pending start cleared task it earlier n invs arbitrary: k rule: settleLoop.induct)
  case (3 deps pending start cleared task it earlier n c oc rest)
  from 3(2) obtain k1 where
    1: "tryPauseToolExecution deps pending (start + findCallIndex (pc_toolCallId c) cleared) task it c oc k = (Inr None, k1)"
    and 2: "bnd (applyCompletedToolCallOutcome deps task it c oc) (\<lambda>_.
      settleLoop deps pending start cleared task it (earlier @ [(c, oc)]) (Suc n) rest) k1 = (Inr (Batch_done m), k')"
    by (auto elim!: bnd_InrE split: option.splits)
  from tryPause_None [OF 1] have k1: "k1 = k" by blast
  from 2 obtain k2 where 4: "applyCompletedToolCallOutcome deps task it c oc k1 = (Inr (), k2)"
    and 5: "settleLoop deps pending start cleared task it (earlier @ [(c, oc)]) (Suc n) rest k2 = (Inr (Batch_done m), k')"
    by (auto elim!: bnd_InrE)
  have "grows [pc_toolCallId c] k k2" unfolding k1 [symmetric]
    by (rule grows_answers [OF answers_apply 4]) (use 3(3) in \<open>simp\<close>)
  moreover have "grows (callIdsOf (map fst (somes rest))) k2 k' \<and> m = n + 1 + length rest"
    using 3(1) 5 3(3) by simp
  ultimately show ?case using grows_trans by (fastforce)
qed (auto simp: grows_same)

lemma merge_calls:
  "length os = length (somes st) \<Longrightarrow>
    map fst (somes (mergeInvocations st os)) = somes st \<and> length (mergeInvocations st os) = length st"
  by (induction st os rule: mergeInvocations.induct) (auto)

text \<open>
  C8: a parallel batch that is done has answered every one of its calls exactly once, whatever was replayed, executed
  or failed: the conversation has grown by results, their identifiers are those of the calls of the batch, and
  the number reported is the number of calls.
\<close>

theorem batch_answers_every_call:
  assumes "\<forall>c\<in>set batch. \<not> asksUser deps c"
    and "\<And>rqs s os s'. bd_executeAll deps rqs s = (Inr os, s') \<Longrightarrow> length os = length rqs"
    and "executeParallelToolBatch deps pending batch start task it k = (Inr (Batch_done n), k')"
  shows "n = length batch \<and> (\<exists>rs. kn_messages k' = kn_messages k @ rs \<and> list_all isTool rs \<and>
    mset (map ms_toolCallId rs) = mset (map (\<lambda>c. Some (pc_toolCallId c)) batch))"
proof -
  from assms(3) obtain cl os k1 where
    1: "preflightLoop deps pending start task it batch [] [] k = (Inr (Inl (cl, os)), k1)" and
    2: "(if cl = [] then ret (Batch_done (length os))
         else bnd (runCleared deps task it cl) (settleLoop deps pending start cl task it [] (length os))) k1 = (Inr (Batch_done n), k')"
    unfolding executeParallelToolBatch_def by (auto elim!: bnd_InrE split: sum.splits prod.splits)
  from preflight_grows [OF 1 assms(1)] obtain a where
    h: "length os = length a" "grows a k k1" "mset a + mset (callIdsOf cl) = mset (callIdsOf batch)" "set cl \<subseteq> set batch"
    by auto
  have size: "length a + length cl = length batch" using arg_cong [OF h(3), of size] by simp
  have "n = length batch \<and> (\<exists>b. grows b k k' \<and> mset b = mset (callIdsOf batch))"
  proof (cases "cl = []")
    case True
    with 2 h size show ?thesis by auto
  next
    case False
    with 2 obtain st k2 os2 s2 where
      3: "startCleared deps task it cl k1 = (Inr st, k2)" and
      4: "bd_executeAll deps (map (\<lambda>c. (batchRequest task it c, batchContext deps (ls_cwd (kn_loop k2)) task it None))
            (somes st)) (kn_shared k2) = (Inr os2, s2)" and
      5: "settleLoop deps pending start cl task it [] (length os) (mergeInvocations st os2) (k2\<lparr>kn_shared := s2\<rparr>) = (Inr (Batch_done n), k')"
      unfolding runCleared_def by (auto elim!: bnd_InrE simp: askLoop_run onShared_run split: prod.splits)
    have noask: "\<forall>c\<in>set cl. \<not> asksUser deps c" using h(4) assms(1) by blast
    from startCleared_grows [OF 3 noask] obtain b where
      b: "grows b k1 k2" "mset b + mset (callIdsOf (somes st)) = mset (callIdsOf cl)" "length st = length cl"
        "set (somes st) \<subseteq> set cl" by auto
    from assms(2) [OF 4] have m: "map fst (somes (mergeInvocations st os2)) = somes st"
      "length (mergeInvocations st os2) = length st" using merge_calls by auto
    have "\<forall>(c, o1)\<in>set (somes (mergeInvocations st os2)). \<not> asksUser deps c"
    proof clarify
      fix c o1 assume "(c, o1) \<in> set (somes (mergeInvocations st os2))" and "asksUser deps c"
      then have "c \<in> set (map fst (somes (mergeInvocations st os2)))" by force
      with m(1) b(4) noask \<open>asksUser deps c\<close> show False by auto
    qed
    from settle_grows [OF 5 this] have s: "grows (callIdsOf (somes st)) k2 k'" "n = length os + length st"
      using m by (auto simp: grows_def)
    from grows_trans [OF h(2) grows_trans [OF b(1) s(1)]] s(2) h b size show ?thesis
      by (intro conjI exI [of _ "a @ b @ callIdsOf (somes st)"]) auto
  qed
  then show ?thesis using grows_mset unfolding grows_def by (metis (no_types, lifting) list.map_comp comp_def map_eq_conv mset_map)
qed

subsection \<open>Results are remembered\<close>

text \<open>The signatures after a result: an entry that is there stays, whatever its call returned.\<close>

definition remember :: "'m BatchDeps \<Rightarrow> int \<Rightarrow> ProviderToolCall \<Rightarrow> ToolExecutionResult \<Rightarrow> (string \<Rightarrow> ToolSignature option) \<Rightarrow>
    string \<Rightarrow> ToolSignature option" where
  "remember deps it call r sigs = (case callSignature deps call of
     None \<Rightarrow> sigs
   | Some sg \<Rightarrow> if sigs sg \<noteq> None then sigs
       else sigs(sg \<mapsto> \<lparr>sg_iteration = it, sg_toolCallId = pc_toolCallId call,
         sg_cachedToolOutput = (if asksUser deps call then None else Some (stringifyAt 0 (toolResultOutputForModel r)))\<rparr>))"

lemma remember_grows: "sigs \<subseteq>\<^sub>m remember deps it call r sigs"
  by (auto simp: remember_def map_le_def split: option.splits)

lemma answerCall_sigs:
  "answerCall deps task it call r k = (v, k') \<Longrightarrow>
    ls_toolCallSignatures (kn_loop k') = remember deps it call r (ls_toolCallSignatures (kn_loop k))"
  by (auto simp: answerCall_def Let_def bnd_run kernel_run remember_def asksUser_def split: option.splits if_splits)

lemma kept_sigs_noteVerification [kept_intros]: "kept (\<lambda>k. ls_toolCallSignatures (kn_loop k)) (noteVerification task it call)"
  unfolding noteVerification_def by (auto intro!: kept_intros kept_setLoop)

lemma apply_sigs:
  assumes "applyCompletedToolCallOutcome deps task it call oc k = (v, k')"
  shows "ls_toolCallSignatures (kn_loop k') = (case oc of Completed r _ \<Rightarrow> remember deps it call r (ls_toolCallSignatures (kn_loop k))
    | _ \<Rightarrow> ls_toolCallSignatures (kn_loop k))"
proof (cases oc)
  case (Completed r rec)
  have before: "bnd m g k = (v, k') \<Longrightarrow> kept (\<lambda>k. ls_toolCallSignatures (kn_loop k)) m \<Longrightarrow> returns m \<Longrightarrow>
      (\<And>x k1. g x k1 = (v, k') \<Longrightarrow> ls_toolCallSignatures (kn_loop k1) = sigs \<Longrightarrow> P) \<Longrightarrow>
      ls_toolCallSignatures (kn_loop k) = sigs \<Longrightarrow> P"
    for m :: "('a, 'c) kop" and g :: "'c \<Rightarrow> ('a, unit) kop" and k sigs P
    using keptD [of "\<lambda>k. ls_toolCallSignatures (kn_loop k)" m k] unfolding returns_def by (metis bnd_Inr)
  note ops = kept_intros kept_setLoop returns_intros
  from assms show ?thesis
    unfolding applyCompletedToolCallOutcome_def Completed ToolExecutionOutcome.case applyResult_def Let_def
    by (elim before) (auto intro!: ops simp: noteWrite_def noteVerification_def dest: answerCall_sigs)
next
qed (use assms keptD [of "\<lambda>k. ls_toolCallSignatures (kn_loop k)"] in
    \<open>auto simp: applyCompletedToolCallOutcome_def applyUnfinishedOutcome_def Let_def bnd_run kernel_run split: if_splits\<close>)

text \<open>Results applied one after the other: iteration, call and outcome of each.\<close>

abbreviation applyAll :: "'m BatchDeps \<Rightarrow> TaskRecord \<Rightarrow> (int \<times> ProviderToolCall \<times> ToolExecutionOutcome) list \<Rightarrow> ('m, unit list) kop" where
  "applyAll deps task \<equiv> forEach (\<lambda>(it, c, oc). applyCompletedToolCallOutcome deps task it c oc)"

lemma applyAll_sigs:
  assumes "applyAll deps task hist k = (v, k')"
  shows "ls_toolCallSignatures (kn_loop k) \<subseteq>\<^sub>m ls_toolCallSignatures (kn_loop k')"
  using assms
proof (induction hist arbitrary: k v)
  case (Cons h hist)
  obtain it c oc where h: "h = (it, c, oc)" by (cases h)
  obtain k1 where 1: "applyCompletedToolCallOutcome deps task it c oc k = (Inr (), k1)"
    using returns_apply [of deps task it c oc] unfolding returns_def by fastforce
  with Cons.prems h obtain v2 where "applyAll deps task hist k1 = (v2, k')"
    by (auto simp: bnd_run split: prod.splits sum.splits)
  from Cons.IH [OF this] have "ls_toolCallSignatures (kn_loop k1) \<subseteq>\<^sub>m ls_toolCallSignatures (kn_loop k')" .
  moreover have "ls_toolCallSignatures (kn_loop k) \<subseteq>\<^sub>m ls_toolCallSignatures (kn_loop k1)"
    using apply_sigs [OF 1] remember_grows by (cases oc) auto
  ultimately show ?case using map_le_trans by blast
qed simp

text \<open>What neither the loop's state nor the trace, the events and the conversation are part of, a replay leaves alone.\<close>

lemma kept_replay:
  assumes base: "\<And>g. kept f (setLoop g)" "\<And>e. kept f (kernelTrace e)" "\<And>v. kept f (emitTaskEvent v)" "\<And>m. kept f (pushMessage m)"
  shows "kept f (tryApplyDuplicateToolReplay deps task it c)"
proof -
  have verify: "kept f (noteVerification task it c)" unfolding noteVerification_def by (intro kept_intros base)
  have answer: "kept f (answerCall deps task it c r)" for r
    unfolding answerCall_def Let_def prod.case by (intro kept_intros base)
  have "kept f (applyCompletedToolCallOutcome deps task it c oc)" for oc
  proof (cases oc)
    case (Completed r rec)
    show ?thesis unfolding applyCompletedToolCallOutcome_def Completed ToolExecutionOutcome.case applyResult_def Let_def
      by (intro kept_intros base verify answer)
  qed (simp_all only: applyCompletedToolCallOutcome_def ToolExecutionOutcome.case applyUnfinishedOutcome_def Let_def,
      (intro kept_intros base)+)
  then show ?thesis unfolding tryApplyDuplicateToolReplay_def startedEvent_def recordDuplicateToolReplayTrace_def
    by (intro kept_intros base)
qed

lemma replay_shared:
  assumes "tryApplyDuplicateToolReplay deps task it c k = (v, k')"
  shows "sh_rest (kn_shared k') = sh_rest (kn_shared k) \<and> sh_tasks (kn_shared k') = sh_tasks (kn_shared k)"
  using keptD [OF kept_replay assms, of "\<lambda>k. sh_rest (kn_shared k)"] keptD [OF kept_replay assms, of "\<lambda>k. sh_tasks (kn_shared k)"]
    kept_rest by metis

text \<open>
  C33: what a read-only call returned first is what every later call with the same tool and arguments returns, for the
  rest of the run: whatever happened in between, a successful write of the file included, the later call is
  not executed and its result is the first one, reported as a success even if the first was a failure.
\<close>

theorem answered_read_replayed:
  assumes "callSignature deps c = Some sg" and "callSignature deps c' = Some sg" and "ls_toolCallSignatures (kn_loop k) sg = None"
    and "bd_parse deps (stringifyAt 0 (toolResultOutputForModel r)) = Some (toolResultOutputForModel r)"
    and "applyAll deps task ((it, c, Completed r rec) # hist) k = (Inr us, k2)"
  shows "(\<exists>rec' sm. resolveDuplicateToolReplay deps c' (kn_loop k2) = Some (Completed
      (Success \<lparr>ts_summary = sm, ts_output = toolResultOutputForModel r, ts_runtimeOutput = None, ts_artifacts = None,
         ts_replayed = Some True, ts_details = None\<rparr>) rec')) \<and>
    (\<exists>k3. tryApplyDuplicateToolReplay deps task it' c' k2 = (Inr True, k3) \<and> sh_rest (kn_shared k3) = sh_rest (kn_shared k2) \<and>
       sh_tasks (kn_shared k3) = sh_tasks (kn_shared k2))"
proof -
  from assms(5) obtain k1 v where 1: "applyCompletedToolCallOutcome deps task it c (Completed r rec) k = (Inr (), k1)"
    and 2: "applyAll deps task hist k1 = (v, k2)"
    by (auto elim!: bnd_InrE)
  have "\<not> asksUser deps c"
    using assms(1) by (auto simp: callSignature_def asksUser_def deduplicatable_def split: option.splits if_splits)
  with apply_sigs [OF 1] assms(1,3) have "ls_toolCallSignatures (kn_loop k1) sg =
      Some \<lparr>sg_iteration = it, sg_toolCallId = pc_toolCallId c, sg_cachedToolOutput = Some (stringifyAt 0 (toolResultOutputForModel r))\<rparr>"
    by (simp add: remember_def)
  with applyAll_sigs [OF 2] have sg: "ls_toolCallSignatures (kn_loop k2) sg =
      Some \<lparr>sg_iteration = it, sg_toolCallId = pc_toolCallId c, sg_cachedToolOutput = Some (stringifyAt 0 (toolResultOutputForModel r))\<rparr>"
    by (metis domI map_le_def)
  then have replay: "\<exists>rec' sm. resolveDuplicateToolReplay deps c' (kn_loop k2) = Some (Completed
      (Success \<lparr>ts_summary = sm, ts_output = toolResultOutputForModel r, ts_runtimeOutput = None, ts_artifacts = None,
         ts_replayed = Some True, ts_details = None\<rparr>) rec')"
    using assms(2,4) by (simp add: resolveDuplicateToolReplay_def Let_def)
  then obtain oc where oc: "resolveDuplicateToolReplay deps c' (kn_loop k2) = Some oc" by blast
  have "returns (bnd (startedEvent task it' c') (\<lambda>_. bnd (applyCompletedToolCallOutcome deps task it' c' oc) (\<lambda>_.
      bnd (recordDuplicateToolReplayTrace task it' c') (\<lambda>_. ret True))))"
    unfolding startedEvent_def recordDuplicateToolReplayTrace_def by (intro returns_intros returns_apply)
  then obtain b k3 where k3: "tryApplyDuplicateToolReplay deps task it' c' k2 = (Inr b, k3)"
    using oc unfolding returns_def tryApplyDuplicateToolReplay_def by (simp add: bnd_run askLoop_run) blast
  then have b using oc by (auto simp: tryApplyDuplicateToolReplay_def bnd_run askLoop_run split: prod.splits sum.splits)
  with k3 replay replay_shared [OF k3] show ?thesis by auto
qed

end
