(* ===== verification/KernelProps.thy ===== *)
theory KernelProps
  imports ToolBatchProps
begin

section \<open>Verified work, paused batches\<close>

subsection \<open>Whether the workspace is verified\<close>

definition wroteWorkspace :: "'m BatchDeps \<Rightarrow> ProviderToolCall \<Rightarrow> ToolExecutionOutcome \<Rightarrow> bool" where
  "wroteWorkspace deps c oc = (case oc of
     Completed r _ \<Rightarrow> resultSuccess r \<and> \<not> resultReplayed r \<and>
       isContentMutatingWrite c (map_option ds_capability (bd_describeTool deps (pc_toolName c)))
   | _ \<Rightarrow> False)"

definition verifiedWorkspace :: "'m BatchDeps \<Rightarrow> ProviderToolCall \<Rightarrow> ToolExecutionOutcome \<Rightarrow> bool" where
  "verifiedWorkspace deps c oc = (case oc of
     Completed r _ \<Rightarrow> isSuccessfulVerificationToolCall (pc_toolName c) r (bd_testCommands deps) | _ \<Rightarrow> False)"

type_synonym work_history = "(int \<times> ProviderToolCall \<times> ToolExecutionOutcome) list"

text \<open>Some write has no verification after it.\<close>

definition unverifiedWork :: "'m BatchDeps \<Rightarrow> work_history \<Rightarrow> bool" where
  "unverifiedWork deps hist \<longleftrightarrow> (\<exists>pre it c oc post. hist = pre @ (it, c, oc) # post \<and> wroteWorkspace deps c oc \<and>
     (\<forall>(it', c', oc')\<in>set ((it, c, oc) # post). \<not> verifiedWorkspace deps c' oc'))"

text \<open>The two flags of the loop, as a machine over the results.\<close>

definition workStep :: "'m BatchDeps \<Rightarrow> int \<times> ProviderToolCall \<times> ToolExecutionOutcome \<Rightarrow> bool \<times> bool \<Rightarrow> bool \<times> bool" where
  "workStep deps = (\<lambda>(it, c, oc) (w, v).
     (w \<or> wroteWorkspace deps c oc, verifiedWorkspace deps c oc \<or> (v \<and> \<not> wroteWorkspace deps c oc)))"

abbreviation workFlags :: "'m Kernel \<Rightarrow> bool \<times> bool" where
  "workFlags k \<equiv> (ls_writeToolSucceeded (kn_loop k), ls_completionVerificationSatisfied (kn_loop k))"

lemma kept_answer_loop:
  assumes "\<And>s x. fd (s\<lparr>ls_toolCallSignatures := x\<rparr>) = fd s"
  shows "kept (\<lambda>k. fd (kn_loop k)) (answerCall deps task it c r)"
  unfolding answerCall_def Let_def prod.case by (intro kept_intros kept_setLoop assms)

lemma kept_unfinished: "kept (\<lambda>k. fd (kn_loop k)) (applyUnfinishedOutcome deps task it c oc)"
  unfolding applyUnfinishedOutcome_def Let_def by (intro kept_intros)

lemma unfinished_flags: "applyUnfinishedOutcome deps task it c oc k = (v, k') \<Longrightarrow> workFlags k' = workFlags k"
  by (drule keptD [OF kept_unfinished [of "\<lambda>s. (ls_writeToolSucceeded s, ls_completionVerificationSatisfied s)"]]) simp

lemma apply_flags:
  assumes "applyCompletedToolCallOutcome deps task it c oc k = (v, k')"
  shows "workFlags k' = workStep deps (it, c, oc) (workFlags k)"
proof (cases oc)
  case (Completed r rec)
  have a: "workFlags k2 = workFlags k1" if "answerCall deps task it c r k1 = (x, k2)" for k1 k2 x
    using keptD [OF kept_answer_loop [of "\<lambda>s. (ls_writeToolSucceeded s, ls_completionVerificationSatisfied s)"] that] by simp
  show ?thesis
    using assms unfolding applyCompletedToolCallOutcome_def Completed ToolExecutionOutcome.case applyResult_def Let_def noteVerification_def
    by (auto simp: bnd_run kernel_run workStep_def wroteWorkspace_def verifiedWorkspace_def noteWrite_def dest!: a split: if_splits)
qed (use assms in \<open>simp_all add: applyCompletedToolCallOutcome_def workStep_def wroteWorkspace_def verifiedWorkspace_def
    unfinished_flags\<close>)

lemma applyAll_flags:
  assumes "applyAll deps task hist k = (v, k')"
  shows "workFlags k' = fold (workStep deps) hist (workFlags k)"
  using assms
proof (induction hist arbitrary: k v)
  case (Cons h hist)
  obtain it c oc where h: "h = (it, c, oc)" by (cases h)
  obtain k1 where 1: "applyCompletedToolCallOutcome deps task it c oc k = (Inr (), k1)"
    using returns_apply [of deps task it c oc] unfolding returns_def by fastforce
  with Cons.prems h obtain v2 where "applyAll deps task hist k1 = (v2, k')"
    by (auto simp: bnd_run split: prod.splits sum.splits)
  from Cons.IH [OF this] apply_flags [OF 1] h show ?case by simp
qed simp

lemma unverified_snoc:
  "unverifiedWork deps (hist @ [(it, c, oc)]) \<longleftrightarrow> \<not> verifiedWorkspace deps c oc \<and> (wroteWorkspace deps c oc \<or> unverifiedWork deps hist)"
proof
  assume "unverifiedWork deps (hist @ [(it, c, oc)])"
  then obtain pre i d od post where h: "hist @ [(it, c, oc)] = pre @ (i, d, od) # post" "wroteWorkspace deps d od"
    "\<forall>(it', c', oc')\<in>set ((i, d, od) # post). \<not> verifiedWorkspace deps c' oc'" unfolding unverifiedWork_def by blast
  show "\<not> verifiedWorkspace deps c oc \<and> (wroteWorkspace deps c oc \<or> unverifiedWork deps hist)"
  proof (cases post rule: rev_cases)
    case Nil
    with h show ?thesis by auto
  next
    case (snoc ys y)
    with h(1) have "y = (it, c, oc)" "hist = pre @ (i, d, od) # ys" by auto
    with h snoc show ?thesis unfolding unverifiedWork_def by fastforce
  qed
next
  assume "\<not> verifiedWorkspace deps c oc \<and> (wroteWorkspace deps c oc \<or> unverifiedWork deps hist)"
  then have n: "\<not> verifiedWorkspace deps c oc" and d: "wroteWorkspace deps c oc \<or> unverifiedWork deps hist" by blast+
  from d show "unverifiedWork deps (hist @ [(it, c, oc)])"
  proof
    assume "wroteWorkspace deps c oc"
    with n show ?thesis unfolding unverifiedWork_def by (intro exI [of _ hist] exI [of _ it] exI [of _ c] exI [of _ oc] exI [of _ "[]"]) simp
  next
    assume "unverifiedWork deps hist"
    then obtain pre i d od post where h: "hist = pre @ (i, d, od) # post" "wroteWorkspace deps d od"
      "\<forall>(it', c', oc')\<in>set ((i, d, od) # post). \<not> verifiedWorkspace deps c' oc'" unfolding unverifiedWork_def by blast
    with n show ?thesis unfolding unverifiedWork_def
      by (intro exI [of _ pre] exI [of _ i] exI [of _ d] exI [of _ od] exI [of _ "post @ [(it, c, oc)]"]) simp
  qed
qed

text \<open>The flags say exactly whether some write is unverified.\<close>

lemma flags_unverified:
  "fst (fold (workStep deps) hist (False, False)) \<and> \<not> snd (fold (workStep deps) hist (False, False)) \<longleftrightarrow> unverifiedWork deps hist"
proof (induction hist rule: rev_induct)
  case Nil
  show ?case by (simp add: unverifiedWork_def)
next
  case (snoc h hist)
  obtain it c oc where h: "h = (it, c, oc)" by (cases h)
  obtain w v where wv: "fold (workStep deps) hist (False, False) = (w, v)" by (cases "fold (workStep deps) hist (False, False)")
  have step: "fold (workStep deps) (hist @ [h]) (False, False) =
      (w \<or> wroteWorkspace deps c oc, verifiedWorkspace deps c oc \<or> (v \<and> \<not> wroteWorkspace deps c oc))"
    unfolding fold_append comp_apply wv h by (simp add: workStep_def)
  show ?case unfolding step unfolding h unverified_snoc snoc.IH [symmetric] wv by auto
qed

lemma includes_append: "includesStr b s \<Longrightarrow> includesStr (a @ b) s"
  by (auto simp: includesStr_def list_ex_iff set_suffixes_eq intro: suffix_appendI)

lemma includes_prefix: "includesStr (p @ b) p"
  by (simp add: includesStr_def list_ex_iff) (rule bexI [of _ "p @ b"], simp_all add: set_suffixes_eq)

lemma note_mentions: "mentionsUnverifiedWork (out @ UNVERIFIED_NOTE)"
proof -
  have "lower (take 12 UNVERIFIED_NOTE) = [CHR 0x0A, CHR 0x0A] @ ''unverified''" by code_simp
  then have "lower UNVERIFIED_NOTE = [CHR 0x0A, CHR 0x0A] @ ''unverified'' @ lower (drop 12 UNVERIFIED_NOTE)"
    by (metis append.assoc append_take_drop_id lower_append)
  then have "includesStr (lower UNVERIFIED_NOTE) ''unverified''" using includes_append includes_prefix by metis
  then show ?thesis using includes_append by (auto simp: mentionsUnverifiedWork_def Let_def lower_append)
qed

text \<open>
  C5: a task whose last change of the workspace was not followed by a successful verification command cannot end
  without saying so: whatever sequence of tool results the run consists of, a final output that is let through
  mentions unverified work, in the model's words or in the note the runtime appends. A run without
  unverified changes ends with the model's text as it is.
\<close>

theorem unverified_work_admitted:
  assumes "\<not> ls_writeToolSucceeded (kn_loop k)" and "\<not> ls_completionVerificationSatisfied (kn_loop k)"
    and "applyAll deps task hist k = (Inr us, k1)"
    and "evaluateFinalVerification codeps task it out allow k1 = (Inr (Some final), k2)"
  shows "if unverifiedWork deps hist then mentionsUnverifiedWork final \<and> (final = out \<or> final = out @ UNVERIFIED_NOTE)
    else final = out \<and> k2 = k1"
proof -
  have f: "fold (workStep deps) hist (False, False) = workFlags k1" using applyAll_flags [OF assms(3)] assms(1,2) by simp
  have "unverifiedWork deps hist \<longleftrightarrow> ls_writeToolSucceeded (kn_loop k1) \<and> \<not> ls_completionVerificationSatisfied (kn_loop k1)"
    using flags_unverified [of deps hist] unfolding f by simp
  with assms(4) note_mentions show ?thesis
    by (auto simp: evaluateFinalVerification_def bnd_run kernel_run recordVerificationMissing_def split: if_splits)
qed

text \<open>The demand to verify is made at most once; then the task ends.\<close>

lemma guard_only_once:
  assumes "ls_completionVerificationGuardEmitted (kn_loop k)"
  shows "\<exists>final k'. evaluateFinalVerification codeps task it out allow k = (Inr (Some final), k')"
  using assms by (auto simp: evaluateFinalVerification_def bnd_run kernel_run recordVerificationMissing_def)

subsection \<open>A batch that pauses\<close>

lemma checkpoint_saved: "ck_taskId r = i \<Longrightarrow> checkpointFind i (checkpointSave r t) = Some r"
  by (cases "rowFind ck_taskId (ck_taskId r) t")
    (auto simp: checkpointFind_def checkpointSave_def table_simps rowFind_append dest: rowFind_Some)

text \<open>
  When a call of a parallel batch needs approval, the calls before it that were already cleared are forgotten: the
  checkpoint keeps the calls from the paused one on, and the conversation it stores has no result for the
  cleared call, so after the approval that call is never executed.
\<close>

theorem paused_batch_forgets_cleared:
  assumes "callSignature deps a = None" and "callSignature deps b = None"
    and "bd_execute deps (batchRequest task it a) (batchContext deps (ls_cwd (kn_loop k)) task it (Some True)) (kn_shared k) = (Inr (Cleared ra), s1)"
    and "bd_execute deps (batchRequest task it b) (batchContext deps (ls_cwd (kn_loop k)) task it (Some True)) s1 = (Inr (ApprovalRequired ap rb), s2)"
    and "taskFindById (tk_taskId task) (sh_tasks s2) = Some stored" and "canTransitionTaskStatus (tk_status stored) T_waiting_approval"
  shows "\<exists>t k'. executeParallelToolBatch deps pending (a # b # rest) start task it k = (Inr (Batch_paused t), k') \<and>
    tk_status t = T_waiting_approval \<and> kn_messages k' = kn_messages k \<and>
    (\<exists>ck. checkpointFind (tk_taskId task) (sh_checkpoints (kn_shared k')) = Some ck \<and>
       ck_pendingToolCalls ck = drop (start + 1) pending \<and> ck_messages ck = kn_messages k)"
proof -
  have none: "resolveDuplicateToolReplay deps a st = None" "resolveDuplicateToolReplay deps b st = None" for st
    using assms(1,2) by (simp_all add: resolveDuplicateToolReplay_def)
  have id: "tk_taskId stored = tk_taskId task" using taskFindById_Some [OF assms(5)] by simp
  show ?thesis
    using assms(3-6) id
    by (simp add: executeParallelToolBatch_def preflightToolCall_def callTool_def bnd_run kernel_run none startedEvent_def
        tryPauseToolExecution_def pauseTask_def kernelTaskUpdate_def zoom_run taskUpdate_def Let_def saveCheckpoint_def noTaskPatch_def
        patched_def checkpoint_saved)
qed

end
