(* ===== verification/LoopTurnProps.thy ===== *)
theory LoopTurnProps
  imports LoopTurn KernelProps
begin

section \<open>Properties of a turn of the model\<close>

subsection \<open>Rearranging a conversation\<close>

text \<open>
  A rearrangement is harmless if no call loses its result, a conversation a provider accepts stays one, and what the user
  said stays as it is.
\<close>

definition userMessages :: "msgs \<Rightarrow> msgs" where
  "userMessages ms = filter (\<lambda>m. ms_role m = Role_user) ms"

definition tidied :: "msgs \<Rightarrow> msgs \<Rightarrow> bool" where
  "tidied ms ms' \<longleftrightarrow> (allAnswered ms \<longrightarrow> allAnswered ms') \<and> (paired ms \<longrightarrow> paired ms') \<and> userMessages ms' = userMessages ms"

lemma tidied_refl [simp]: "tidied ms ms"
  by (simp add: tidied_def)

lemma tidied_trans: "tidied a b \<Longrightarrow> tidied b c \<Longrightarrow> tidied a c"
  by (simp add: tidied_def)

lemma tools_not_user: "isTool m \<Longrightarrow> ms_role m \<noteq> Role_user" "ms_role m = Role_system \<Longrightarrow> \<not> isTool m \<and> \<not> hasCalls m"
  by (simp_all add: isTool_def hasCalls_def)

lemma allAnswered_append:
  assumes "ys = [] \<or> \<not> isTool (hd ys)"
  shows "allAnswered (xs @ ys) \<longleftrightarrow> allAnswered xs \<and> allAnswered ys"
proof -
  have t: "takeWhile isTool (zs @ ys) = takeWhile isTool zs" for zs using takeWhile_block [of ys isTool zs] assms .
  show ?thesis by (induction xs) (auto simp: t)
qed

text \<open>Leaving out system messages.\<close>

lemma takeWhile_filter_tools:
  assumes "\<And>m. \<not> P m \<Longrightarrow> \<not> isTool m"
  shows "set (takeWhile isTool ms) \<subseteq> set (takeWhile isTool (filter P ms))"
  using assms by (induction ms) auto

lemma allAnswered_filter:
  assumes "\<And>m. \<not> P m \<Longrightarrow> \<not> isTool m \<and> \<not> hasCalls m"
  shows "allAnswered ms \<Longrightarrow> allAnswered (filter P ms)"
proof (induction ms)
  case (Cons m rest)
  have "answered (takeWhile isTool rest) \<subseteq> answered (takeWhile isTool (filter P rest))"
    using takeWhile_filter_tools [of P rest] assms by (intro answered_mono) blast
  with Cons show ?case by auto
qed simp

lemma pairedFrom_filter:
  assumes "\<And>m. \<not> P m \<Longrightarrow> ms_role m = Role_system"
  shows "pairedFrom b ms \<Longrightarrow> pairedFrom b (filter P ms)"
proof (induction ms arbitrary: b)
  case (Cons m rest)
  have sub: "answered (takeWhile isTool rest) \<subseteq> answered (takeWhile isTool (filter P rest))"
    using takeWhile_filter_tools [of P rest] assms tools_not_user(2) by (intro answered_mono) blast
  show ?case
  proof (cases "P m")
    case True
    with Cons sub show ?thesis by (auto split: if_splits)
  next
    case False
    with assms tools_not_user(2) have "\<not> isTool m \<and> \<not> hasCalls m" by blast
    with Cons False pairedFrom_mono show ?thesis by (auto split: if_splits)
  qed
qed simp

lemma tidied_filter:
  assumes "\<And>m. \<not> P m \<Longrightarrow> ms_role m = Role_system"
  shows "tidied ms (filter P ms)"
proof -
  have "P m" if "ms_role m = Role_user" for m using assms [of m] that by auto
  then have "userMessages (filter P ms) = userMessages ms" by (auto simp: userMessages_def intro!: filter_cong)
  with allAnswered_filter [of P ms] pairedFrom_filter [of P False ms] assms tools_not_user(2) show ?thesis
    by (simp add: tidied_def paired_def)
qed

text \<open>Inserting one behind a system message.\<close>

lemma insertPinned_allAnswered:
  assumes "allAnswered ms" and "\<not> isTool p" and "\<not> hasCalls p"
  shows "allAnswered (insertPinned src p ms)"
proof -
  let ?sys = "\<lambda>m. ms_role m = Role_system \<and> metaOf m ''sourceType'' \<noteq> Some (JStr src)"
  let ?k = "length (takeWhile (\<lambda>m. \<not> ?sys m) ms)"
  show ?thesis
  proof (cases "?k < length ms")
    case True
    have plain: "\<not> isTool (ms ! ?k) \<and> \<not> hasCalls (ms ! ?k)" using nth_length_takeWhile [OF True] tools_not_user(2) by blast
    have ms: "ms = take ?k ms @ ms ! ?k # drop (Suc ?k) ms" using True by (rule id_take_nth_drop)
    have ins: "insertPinned src p ms = take ?k ms @ ms ! ?k # p # drop (Suc ?k) ms"
      using True by (simp add: insertPinned_def Let_def take_Suc_conv_app_nth)
    have "allAnswered (take ?k ms @ ms ! ?k # drop (Suc ?k) ms)" using assms(1) ms by simp
    then have "allAnswered (take ?k ms) \<and> allAnswered (drop (Suc ?k) ms)"
      using allAnswered_append [of "ms ! ?k # drop (Suc ?k) ms" "take ?k ms"] plain by simp
    then show ?thesis
      unfolding ins using allAnswered_append [of "ms ! ?k # p # drop (Suc ?k) ms" "take ?k ms"] plain assms(2,3) by simp
  next
    case False
    with assms show ?thesis by (simp add: insertPinned_def Let_def)
  qed
qed

lemma tidied_insert: "ms_role p = Role_system \<Longrightarrow> tidied ms (insertPinned src p ms)"
  unfolding tidied_def paired_def userMessages_def
  using insertPinned_allAnswered insertPinned_paired insertPinned_filter tools_not_user(2) by fastforce

text \<open>Reordering the system messages in front.\<close>

lemma allAnswered_plain: "\<forall>m\<in>set xs. \<not> isTool m \<and> \<not> hasCalls m \<Longrightarrow> allAnswered (xs @ ys) = allAnswered ys"
  by (induction xs) auto

lemma pairedFrom_plain: "\<forall>m\<in>set xs. \<not> isTool m \<and> \<not> hasCalls m \<Longrightarrow> pairedFrom False (xs @ ys) = pairedFrom False ys"
  by (induction xs) auto

lemma tidied_stabilize: "tidied ms (stabilizeLeadingSystemPrefix ms)"
proof -
  let ?sys = "\<lambda>m. ms_role m = Role_system"
  let ?front = "takeWhile ?sys ms" and ?rest = "dropWhile ?sys ms"
  let ?perm = "filter isStableSystemPromptMessage ?front @ filter isStableMemoryPrefixMessage ?front @ filter (\<lambda>m. \<not> isStablePromptPrefixMessage m) ?front"
  have sys: "\<forall>m\<in>set ?front. ?sys m" "\<forall>m\<in>set ?perm. ?sys m" by (auto dest: set_takeWhileD)
  have plain: "\<forall>m\<in>set ?front. \<not> isTool m \<and> \<not> hasCalls m" "\<forall>m\<in>set ?perm. \<not> isTool m \<and> \<not> hasCalls m"
    using sys tools_not_user(2) by blast+
  have user: "userMessages (xs @ ys) = userMessages ys" if "\<forall>m\<in>set xs. ?sys m" for xs ys
    using that by (auto simp: userMessages_def filter_empty_conv)
  have ms: "ms = ?front @ ?rest" by simp
  have "tidied (?front @ ?rest) (?perm @ ?rest)"
    unfolding tidied_def paired_def allAnswered_plain [OF plain(1)] allAnswered_plain [OF plain(2)]
      pairedFrom_plain [OF plain(1)] pairedFrom_plain [OF plain(2)] user [OF sys(1)] user [OF sys(2)] by simp
  with ms show ?thesis by (simp add: stabilizeLeadingSystemPrefix_def Let_def)
qed

subsection \<open>The steps of the preparation\<close>

lemma sameShape_allAnswered: "sameShape ms ms' \<Longrightarrow> allAnswered ms \<Longrightarrow> allAnswered ms'"
proof (induction ms arbitrary: ms')
  case (Cons m rest)
  then obtain m' rest' where ms': "ms' = m' # rest'" "sameShape rest rest'" "m' = m \<or> isTool m \<and> m' = m\<lparr>ms_content := CLEARED_TOOL_RESULT_MARKER\<rparr>"
    by (auto simp: sameShape_def list_all2_Cons1)
  then have "\<not> hasCalls m' \<or> m' = m" by (auto simp: hasCalls_def isTool_def)
  with Cons ms' sameShape_answered [OF ms'(2)] show ?case by auto
qed (simp add: sameShape_def)

lemma sameShape_user: "sameShape ms ms' \<Longrightarrow> userMessages ms' = userMessages ms"
  unfolding sameShape_def userMessages_def by (induction rule: list_all2_induct) (auto simp: isTool_def)

lemma tidied_prune: "tidied ms (fst (pruneOldToolResults ms n))"
  using sameShape_allAnswered [OF prune_sameShape] sameShape_paired [OF prune_sameShape] sameShape_user [OF prune_sameShape]
  by (simp add: tidied_def paired_def)

lemma tidied_pinned: "tidied ms (snd (syncPinnedRecentFilesMessage collate cache ms))"
proof -
  have f: "tidied ms (filter (\<lambda>m. \<not> isPinnedRecentFilesMessage m) ms)" by (rule tidied_filter) (simp add: isPinnedRecentFilesMessage_def)
  have i: "tidied ms (insertPinned src p (filter (\<lambda>m. \<not> isPinnedRecentFilesMessage m) ms))"
    if "buildPinnedRecentFilesMessage collate es = Some p" for src p es
    using that f tidied_insert tidied_trans by (auto simp: buildPinnedRecentFilesMessage_def split: if_splits)
  show ?thesis
    using f i by (auto simp: syncPinnedRecentFilesMessage_def Let_def split: option.splits)
qed

lemma tidied_sessionTodos: "tidied ms (snd (syncSessionTodosMessage store key ms))"
proof -
  have f: "tidied ms (filter (\<lambda>m. \<not> isSessionTodosMessage m) ms)" by (rule tidied_filter) (simp add: isSessionTodosMessage_def)
  have i: "tidied ms (insertPinned src p (filter (\<lambda>m. \<not> isSessionTodosMessage m) ms))"
    if "buildSessionTodosMessage es = Some p" for src p es
    using that f tidied_insert tidied_trans by (auto simp: buildSessionTodosMessage_def Let_def split: if_splits)
  show ?thesis
    using f i by (auto simp: syncSessionTodosMessage_def Let_def split: option.splits)
qed

lemma tidied_todos: "tidied ms (snd (syncTodos deps task sh ms))"
  using tidied_sessionTodos [of ms]
  by (auto simp: syncTodos_def split: option.splits prod.splits) (metis snd_conv)+

lemma tidied_assemble: "tidied ms (lr_messages (snd (assemble tools it mc ms task b)))"
proof -
  have f: "tidied ms (filter (\<lambda>m. \<not> isMemoryContextMessage m) ms)" by (rule tidied_filter) (simp add: isMemoryContextMessage_def)
  have "tidied ms (snd (mergeMemoryContextIntoMessages ms mc))"
    using f tidied_insert [of "recalledMessage c" for c] tidied_trans
    by (fastforce simp: mergeMemoryContextIntoMessages_def Let_def recalledMessage_def split: option.splits)
  with tidied_stabilize tidied_trans show ?thesis by (auto simp: assemble_def split: prod.splits)
qed

lemma userMessages_simps [simp]:
  "userMessages [] = []" "userMessages (xs @ ys) = userMessages xs @ userMessages ys"
  "userMessages (m # xs) = (if ms_role m = Role_user then m # userMessages xs else userMessages xs)"
  by (simp_all add: userMessages_def)

lemma userMessages_tools: "\<forall>m\<in>set ts. isTool m \<Longrightarrow> userMessages ts = []"
  by (induction ts) (auto dest: tools_not_user(1))

lemma sanitize_user: "userMessages (fst (sanitizeToolCallPairing ms)) = userMessages ms"
proof (induction ms rule: sanitizeToolCallPairing.induct)
  case 1
  show ?case by simp
next
  case (2 m rest)
  let ?tools = "takeWhile isTool rest" and ?after = "dropWhile isTool rest"
  have t: "userMessages ?tools = []" by (rule userMessages_tools) (auto dest: set_takeWhileD)
  have p: "userMessages (map (missingResult m) is) = []" for "is" by (rule userMessages_tools) auto
  have "userMessages (?tools @ ?after) = userMessages ?after" using t by (simp only: userMessages_simps append_Nil)
  then have rest: "userMessages rest = userMessages ?after" by simp
  consider (empty) "ms_role m = Role_assistant \<and> ms_toolCalls m = Some []"
    | (plain) "\<not> (ms_role m = Role_assistant \<and> ms_toolCalls m = Some [])" "\<not> hasCalls m"
    | (full) "hasCalls m" "missingIds m ?tools = []"
    | (cut) "hasCalls m" "missingIds m ?tools \<noteq> []" "\<exists>t\<in>set ?tools. ms_toolCallId t \<noteq> None"
    | (add) "hasCalls m" "missingIds m ?tools \<noteq> []" "\<not> (\<exists>t\<in>set ?tools. ms_toolCallId t \<noteq> None)" by blast
  then show ?case
  proof cases
    case empty
    with 2(1) rest show ?thesis by (auto simp: Let_def split: prod.splits)
  next
    case plain
    with 2(2) show ?thesis by (auto simp: Let_def split: prod.splits)
  next
    case full
    then have "\<not> (ms_role m = Role_assistant \<and> ms_toolCalls m = Some [])" by (auto simp: hasCalls_def)
    with 2(3) full show ?thesis by (auto simp: Let_def split: prod.splits)
  next
    case cut
    then have "\<not> (ms_role m = Role_assistant \<and> ms_toolCalls m = Some [])" "ms_role m \<noteq> Role_user" by (auto simp: hasCalls_def)
    with 2(4) cut show ?thesis by (auto simp: Let_def split: prod.splits)
  next
    case add
    then have "\<not> (ms_role m = Role_assistant \<and> ms_toolCalls m = Some [])" by (auto simp: hasCalls_def)
    with 2(5) add t p rest show ?thesis by (auto simp: Let_def split: prod.splits)
  qed
qed

subsection \<open>The request\<close>

interpretation tidy: step_closed "\<lambda>k k'. tidied (turnMessages k) (turnMessages k')"
  by unfold_locales (auto intro: tidied_trans)

lemma turnMessages_set [simp]: "turnMessages (setTurnMessages ms k) = ms"
  by (simp add: turnMessages_def setTurnMessages_def split: TurnArray.splits)

lemma turnMessages_loop:
  "ls_turnProviderMessages s = ls_turnProviderMessages (kn_loop k) \<Longrightarrow> ls_messages s = ls_messages (kn_loop k) \<Longrightarrow>
    turnMessages (k\<lparr>kn_loop := s\<rparr>) = turnMessages k"
  by (simp add: turnMessages_def split: TurnArray.splits)

lemma tidy_setTurn: "(\<And>ms. tidied ms (f ms)) \<Longrightarrow> tidy.follows (setTurn f)"
  by (auto simp: setTurn_def intro!: tidy.follows_modify)

lemma tidy_setLoop:
  "(\<And>s. ls_turnProviderMessages (f s) = ls_turnProviderMessages s \<and> ls_messages (f s) = ls_messages s) \<Longrightarrow> tidy.follows (setLoop f)"
  by (auto simp: setLoop_def turnMessages_loop intro!: tidy.follows_modify)

lemma turnMessages_shared [simp]: "turnMessages (k\<lparr>kn_shared := s\<rparr>) = turnMessages k"
  by (simp add: turnMessages_def split: TurnArray.split)

lemma tidy_trace: "tidy.follows (loopTrace a e p st sm task)"
  by (rule tidy.followsI) (auto simp: loopTrace_def kernel_run)

lemmas tidy_steps = tidy.follows_bnd tidy.follows_pure tidy.follows_if tidy.follows_option tidy_trace tidy_setTurn tidy_setLoop

lemma tidy_askLoop: "tidy.follows (askLoop f)"
  by (simp add: tidy.follows_def askLoop_run)

lemma tidy_pruneTurn: "tidy.follows (pruneTurn deps it task)"
  unfolding pruneTurn_def Let_def by (intro tidy_steps) (simp_all add: tidied_prune)

lemma tidy_syncTodos: "tidy.follows (syncTurnTodos deps it task)"
proof (rule tidy.followsI)
  fix k k' :: "'a Kernel" and r
  assume run: "syncTurnTodos deps it task k = (r, k')"
  obtain n ms where s: "syncTodos deps task (kn_shared k) (turnMessages k) = (n, ms)" by (cases "syncTodos deps task (kn_shared k) (turnMessages k)")
  with tidied_todos [of "turnMessages k" deps task "kn_shared k"] have t: "tidied (turnMessages k) ms" by simp
  have "turnMessages k' = ms"
    using run s by (auto simp: syncTurnTodos_def bnd_run setTurn_def loopTrace_def kernel_run split: option.splits)
  with t show "tidied (turnMessages k) (turnMessages k')" by simp
qed

text \<open>Everything after the repair of the calls.\<close>

definition completeTurn :: "'m LoopDeps \<Rightarrow> ProviderToolDescriptor list \<Rightarrow> int \<Rightarrow> TaskRecord \<Rightarrow> ('m, unit) kop" where
  "completeTurn deps tools iteration task =
     bnd (pruneTurn deps iteration task) (\<lambda>_.
     bnd (askLoop ls_recentFileReadCache) (\<lambda>cache.
     bnd (setTurn (\<lambda>ms. snd (syncPinnedRecentFilesMessage (ld_collate deps) cache ms))) (\<lambda>_.
     syncTurnTodos deps iteration task)))"

lemma tidy_completeTurn: "tidy.follows (completeTurn deps tools it task)"
  unfolding completeTurn_def by (intro tidy_steps tidy_askLoop tidy_pruneTurn tidy_syncTodos) (rule tidied_pinned)

lemma returns_turn: "returns (loopTrace a e p st sm task)" "returns (setTurn f)" "returns (ask g)"
  by (auto simp: returns_def loopTrace_def kernel_run setTurn_def)

lemma returns_completeTurn: "returns (completeTurn deps tools it task)"
  unfolding completeTurn_def pruneTurn_def syncTurnTodos_def Let_def
  by (intro returns_intros returns_turn) (auto intro!: returns_intros returns_turn split: prod.splits option.splits)

text \<open>
  C4: whatever the conversation has become, the request a turn sends to the provider has a result behind every tool call,
  with everything the user said in its order; a conversation that was well paired stays well paired. Preparing the request
  cannot fail, and the pinned files, the list of todos and the recalled memory never come between a call and its result.
\<close>

theorem request_calls_answered:
  "case prepareTurn deps tools it task k of
     (Inr req, k') \<Rightarrow> allAnswered (lr_messages req) \<and> userMessages (lr_messages req) = userMessages (turnMessages k) \<and>
       (if paired (turnMessages k) \<and> list_all (\<lambda>m. ms_toolCalls m \<noteq> Some []) (turnMessages k) then paired (lr_messages req) else True)
   | (Inl e, k') \<Rightarrow> False"
proof -
  let ?k1 = "k\<lparr>kn_loop := syncRecentFileCacheMode [] tools (kn_loop k)\<rparr>"
  have t1: "turnMessages ?k1 = turnMessages k" by (rule turnMessages_loop) (simp_all add: syncRecentFileCacheMode_def Let_def)
  let ?ms = "fst (sanitizeToolCallPairing (turnMessages k))"
  obtain r k2 where c: "completeTurn deps tools it task (setTurnMessages ?ms ?k1) = (r, k2)"
    by (cases "completeTurn deps tools it task (setTurnMessages ?ms ?k1)")
  obtain u where ok: "r = Inr u" using returns_completeTurn [of deps tools it task] c unfolding returns_def by (metis fst_conv)
  have t2: "tidied ?ms (turnMessages k2)" using tidy.followsD [OF tidy_completeTurn c] by simp
  obtain i req where a: "assembleTurn tools it task k2 = (i, req)" by (cases "assembleTurn tools it task k2")
  have t3: "tidied ?ms (lr_messages req)"
    using tidied_trans [OF t2 tidied_assemble] a by (simp add: assembleTurn_def) (metis snd_conv)
  have run: "\<exists>k3. prepareTurn deps tools it task k = (Inr req, k3)"
    using c ok a t1
    by (auto simp: prepareTurn_def completeTurn_def bnd_run kernel_run setTurn_def loopTrace_def split: prod.splits sum.splits option.splits)
  moreover have "allAnswered ?ms" "userMessages ?ms = userMessages (turnMessages k)" using sanitize_allAnswered sanitize_user by auto
  moreover have "paired ?ms" if "paired (turnMessages k)" "list_all (\<lambda>m. ms_toolCalls m \<noteq> Some []) (turnMessages k)"
    using sanitize_paired [of False "turnMessages k"] that by (simp add: paired_def list_all_iff)
  ultimately show ?thesis using t3 unfolding tidied_def by auto
qed

end
