(* ===== verification/KernelWitness.thy ===== *)
theory KernelWitness
  imports KernelProps
begin

section \<open>The agent loop at concrete states\<close>

text \<open>A task with a tool that reads, one that writes and the shell; reading is cleared and answers with a number.\<close>

definition demoRecord :: "string \<Rightarrow> ToolCallRecord" where
  "demoRecord i = \<lparr>tc_toolCallId = i, tc_taskId = ''t1'', tc_iteration = 1, tc_toolName = ''read_file'', tc_riskLevel = Low,
     tc_status = Finished, tc_input = [], tc_output = JNum 7, tc_summary = None, tc_requestedAt = 0, tc_startedAt = None,
     tc_finishedAt = None, tc_errorCode = None, tc_errorMessage = None\<rparr>"

definition demoSuccess :: ToolExecutionResult where
  "demoSuccess = Success \<lparr>ts_summary = ''ok'', ts_output = JNum 7, ts_runtimeOutput = None, ts_artifacts = None,
     ts_replayed = None, ts_details = None\<rparr>"

definition demoTool :: "string \<Rightarrow> ToolCapability \<Rightarrow> ProviderToolDescriptor" where
  "demoTool n c = \<lparr>ds_name = n, ds_capability = c, ds_privacyLevel = Internal, ds_riskLevel = Low, ds_parallelSafe = True\<rparr>"

definition demoDescribe :: "string \<Rightarrow> ProviderToolDescriptor option" where
  "demoDescribe n = (if n = ''read_file'' then Some (demoTool n Filesystem_read)
     else if n = ''write_file'' then Some (demoTool n Filesystem_write) else Some (demoTool n Shell_execute))"

definition demoBatch :: "unit BatchDeps" where
  "demoBatch = \<lparr>bd_execute = (\<lambda>rq _ s. (Inr (if rq_toolCallId rq = ''p'' then ApprovalRequired sampleApproval (demoRecord ''p'')
       else Cleared (demoRecord (rq_toolCallId rq))), s)),
     bd_executeAll = (\<lambda>rqs s. (Inr (map (\<lambda>rq. Completed demoSuccess (demoRecord ''x'')) rqs), s)),
     bd_describeTool = demoDescribe, bd_contextRetention = Some (demoConfig\<lparr>cr_toolOutputMaxTokens := 9\<rparr>), bd_testCommands = [],
     bd_workspaceRoot = ''/ws'', bd_now = 5, bd_parse = (\<lambda>s. if s = ''7'' then Some (JNum 7) else None), bd_slice = demoSlice,
     bd_joinPath = joinWith ''/'', bd_writeFile = (\<lambda>_ _. True)\<rparr>"

definition demoLoop :: ExecutionLoopState where
  "demoLoop = \<lparr>ls_compactedCount = 0, ls_compactCooldownRemaining = 0, ls_costWarnedToolNames = [], ls_cumulativeToolCallCount = 0,
     ls_cwd = ''/ws'', ls_iterationsSinceLastCompact = 0, ls_maxIterations = 5, ls_microPrunedCount = 0, ls_memoryContext = [],
     ls_memoryRecall = None, ls_messages = [], ls_onTaskEvent = True, ls_pendingToolCalls = [], ls_completionIntentSeenAt = None,
     ls_completionVerificationGuardEmitted = False, ls_completionVerificationSatisfied = False,
     ls_completionVerificationSatisfiedEmitted = False, ls_criticalBudgetPressureEmitted = False, ls_interactionMode = None,
     ls_postCompletionVerificationReads = 0, ls_readOnlyTurns = 0, ls_selectedSkillContext = [], ls_silentToolTurns = 0,
     ls_toolCallSignatures = (\<lambda>_. None), ls_turnProviderMessages = State_messages, ls_recentFileReadCache = None,
     ls_repoMapSummary = None, ls_task = sampleTask T_waiting_tool, ls_taskRecoveryUsed = False,
     ls_timeoutMode = Timeout_wall_clock, ls_timeoutMs = 9,
     ls_tokenBudget = tk_tokenBudget (sampleTask T_waiting_tool), ls_tokenCounter = createHybridTokenCounterState,
     ls_toolArtifactsRoot = ''/ws/.a'', ls_warningBudgetPressureEmitted = False, ls_writeToolSucceeded = False\<rparr>"

definition demoKernel :: "unit Kernel" where
  "demoKernel = \<lparr>kn_shared = \<lparr>sh_tasks = [sampleTask T_waiting_tool], sh_checkpoints = [], sh_sessionTasks = [], sh_trace = [], sh_abort = None, sh_rest = ()\<rparr>,
     kn_loop = demoLoop, kn_messages = [], kn_events = []\<rparr>"

definition demoProviderCall :: "string \<Rightarrow> string \<Rightarrow> ProviderToolCall" where
  "demoProviderCall i n = \<lparr>pc_toolCallId = i, pc_toolName = n, pc_input = [(''path'', JStr i)], pc_reason = [], pc_raw = None\<rparr>"

definition demoBatchRun :: "(thrown + BatchResult) \<times> unit Kernel" where
  "demoBatchRun = executeParallelToolBatch demoBatch [] [demoProviderCall ''a'' ''read_file'', demoProviderCall ''b'' ''read_file''] 0
     (sampleTask T_waiting_tool) 1 demoKernel"

theorem batch_answers_every_call_witness:
  "\<exists>rs. kn_messages (snd demoBatchRun) = kn_messages demoKernel @ rs \<and> mset (map ms_toolCallId rs) = {#Some ''a'', Some ''b''#}"
proof -
  have "case fst demoBatchRun of Inr (Batch_done n) \<Rightarrow> n = 2 | _ \<Rightarrow> False" by code_simp
  then have "fst demoBatchRun = Inr (Batch_done 2)" by (auto split: sum.splits BatchResult.splits)
  then have "demoBatchRun = (Inr (Batch_done 2), snd demoBatchRun)" by (metis prod.collapse)
  from batch_answers_every_call [OF _ _ this [unfolded demoBatchRun_def]] show ?thesis
    by (fastforce simp: asksUser_def demoBatch_def demoDescribe_def demoTool_def demoProviderCall_def demoBatchRun_def)
qed

theorem paused_batch_forgets_cleared_witness:
  "\<exists>t k'. executeParallelToolBatch demoBatch [demoProviderCall ''a'' ''fetch'', demoProviderCall ''p'' ''fetch'']
      [demoProviderCall ''a'' ''fetch'', demoProviderCall ''p'' ''fetch''] 0 (sampleTask T_waiting_tool) 1 demoKernel = (Inr (Batch_paused t), k') \<and>
    kn_messages k' = [] \<and> (\<exists>ck. checkpointFind ''t1'' (sh_checkpoints (kn_shared k')) = Some ck \<and>
      ck_pendingToolCalls ck = [demoProviderCall ''p'' ''fetch''] \<and> ck_messages ck = [])"
proof -
  let ?t = "sampleTask T_waiting_tool" and ?a = "demoProviderCall ''a'' ''fetch''" and ?p = "demoProviderCall ''p'' ''fetch''"
  have sig: "callSignature demoBatch ?a = None" "callSignature demoBatch ?p = None"
    by (simp_all add: callSignature_def demoBatch_def demoDescribe_def demoTool_def demoProviderCall_def deduplicatable_def)
  have run: "bd_execute demoBatch (batchRequest ?t 1 ?a) (batchContext demoBatch (ls_cwd (kn_loop demoKernel)) ?t 1 (Some True)) (kn_shared demoKernel) =
      (Inr (Cleared (demoRecord ''a'')), kn_shared demoKernel)"
    "bd_execute demoBatch (batchRequest ?t 1 ?p) (batchContext demoBatch (ls_cwd (kn_loop demoKernel)) ?t 1 (Some True)) (kn_shared demoKernel) =
      (Inr (ApprovalRequired sampleApproval (demoRecord ''p'')), kn_shared demoKernel)"
    by (simp_all add: demoBatch_def batchRequest_def demoProviderCall_def)
  have task: "taskFindById (tk_taskId ?t) (sh_tasks (kn_shared demoKernel)) = Some ?t"
    by (simp add: taskFindById_def demoKernel_def)
  have "canTransitionTaskStatus (tk_status ?t) T_waiting_approval" by code_simp
  from paused_batch_forgets_cleared [OF sig run task this, of "[?a, ?p]" "[]" 0] obtain t k' where
    "executeParallelToolBatch demoBatch [?a, ?p] [?a, ?p] 0 ?t 1 demoKernel = (Inr (Batch_paused t), k')"
    "kn_messages k' = kn_messages demoKernel"
    "\<exists>ck. checkpointFind (tk_taskId ?t) (sh_checkpoints (kn_shared k')) = Some ck \<and>
       ck_pendingToolCalls ck = drop (0 + 1) [?a, ?p] \<and> ck_messages ck = kn_messages demoKernel" by blast
  moreover have "kn_messages demoKernel = []" "tk_taskId ?t = ''t1''" by (simp_all add: demoKernel_def sampleTask_def taskOfDraft_def)
  ultimately show ?thesis by (intro exI [of _ t] exI [of _ k']) simp
qed

definition demoWrite :: work_history where
  "demoWrite = [(1, demoProviderCall ''w'' ''write_file'', Completed demoSuccess (demoRecord ''w''))]"

definition demoWritten :: "(thrown + unit list) \<times> unit Kernel" where
  "demoWritten = applyAll demoBatch (sampleTask T_waiting_tool) demoWrite demoKernel"

definition demoCompletion :: CompletionDeps where
  "demoCompletion = \<lparr>co_describeTool = demoDescribe, co_testCommands = []\<rparr>"

theorem unverified_work_admitted_witness:
  "mentionsUnverifiedWork (the (projr (fst (evaluateFinalVerification demoCompletion (sampleTask T_waiting_tool) 1 ''Done.'' False (snd demoWritten)))))"
proof -
  let ?e = "evaluateFinalVerification demoCompletion (sampleTask T_waiting_tool) 1 ''Done.'' False (snd demoWritten)"
  have "fst demoWritten = Inr [()]" by code_simp
  then have run: "applyAll demoBatch (sampleTask T_waiting_tool) demoWrite demoKernel = (Inr [()], snd demoWritten)"
    by (cases demoWritten) (simp add: demoWritten_def)
  have "case fst ?e of Inr (Some f) \<Rightarrow> True | _ \<Rightarrow> False" by code_simp
  then obtain f k2 where f: "?e = (Inr (Some f), k2)" by (cases ?e) (auto split: sum.splits option.splits)
  have "wroteWorkspace demoBatch (demoProviderCall ''w'' ''write_file'') (Completed demoSuccess (demoRecord ''w''))"
    "verifiedWorkspace demoBatch (demoProviderCall ''w'' ''write_file'') (Completed demoSuccess (demoRecord ''w'')) = False"
    by code_simp+
  then have u: "unverifiedWork demoBatch demoWrite" unfolding unverifiedWork_def demoWrite_def
    by (intro exI [of _ "[]"] exI) (rule conjI, simp, simp)
  have "\<not> ls_writeToolSucceeded (kn_loop demoKernel)" "\<not> ls_completionVerificationSatisfied (kn_loop demoKernel)"
    by (simp_all add: demoKernel_def demoLoop_def)
  from unverified_work_admitted [OF this run f] u show ?thesis unfolding f by simp
qed

definition demoReadCall :: "string \<Rightarrow> ProviderToolCall" where
  "demoReadCall i = \<lparr>pc_toolCallId = i, pc_toolName = ''read_file'', pc_input = [(''path'', JStr ''f'')], pc_reason = [], pc_raw = None\<rparr>"

definition demoReadWrite :: "(thrown + unit list) \<times> unit Kernel" where
  "demoReadWrite = applyAll demoBatch (sampleTask T_waiting_tool)
     ((1, demoReadCall ''a'', Completed demoSuccess (demoRecord ''a'')) # demoWrite) demoKernel"

theorem answered_read_replayed_witness:
  "fst (tryApplyDuplicateToolReplay demoBatch (sampleTask T_waiting_tool) 2 (demoReadCall ''b'') (snd demoReadWrite)) = Inr True"
proof -
  let ?sg = "toolCallSignature ''read_file'' (JObj [(''path'', JStr ''f'')])"
  have sig: "callSignature demoBatch (demoReadCall i) = Some ?sg" for i
    by (simp add: callSignature_def demoBatch_def demoDescribe_def demoTool_def demoReadCall_def deduplicatable_def)
  have "ls_toolCallSignatures (kn_loop demoKernel) ?sg = None" by (simp add: demoKernel_def demoLoop_def)
  moreover have "bd_parse demoBatch (stringifyAt 0 (toolResultOutputForModel demoSuccess)) = Some (toolResultOutputForModel demoSuccess)"
    by code_simp
  moreover have "fst demoReadWrite = Inr [(), ()]" by code_simp
  then have "applyAll demoBatch (sampleTask T_waiting_tool) ((1, demoReadCall ''a'', Completed demoSuccess (demoRecord ''a'')) # demoWrite)
      demoKernel = (Inr [(), ()], snd demoReadWrite)"
    by (cases demoReadWrite) (simp add: demoReadWrite_def)
  ultimately obtain k3 where
    "tryApplyDuplicateToolReplay demoBatch (sampleTask T_waiting_tool) 2 (demoReadCall ''b'') (snd demoReadWrite) = (Inr True, k3)"
    using answered_read_replayed [OF sig sig] by blast
  then show ?thesis by simp
qed

end
