(* ===== verification/ExecutionLoop.thy ===== *)
theory ExecutionLoop
  imports LoopTurn
begin

section \<open>The agent loop\<close>

text \<open>
  \<open>executeLoop\<close> of src/src/runtime/kernel/execution-loop.ts and the parts of src/src/runtime/execution-kernel.ts it
  calls back: compaction, the final summary without tools, the end of a task, its failure and its resumption. The
  variables of the loop besides its state are the record \<open>LoopLocals\<close>.
\<close>

record RuntimeRunResult =
  rr_output :: "string option"
  rr_task :: TaskRecord

record LoopLocals =
  lv_task :: TaskRecord
  lv_pending :: "ProviderToolCall list"
  lv_lastToolCalls :: "KernelResponse option"
  lv_tools :: "ProviderToolDescriptor list"

subsection \<open>The end of a task\<close>

definition successPatch :: "instant \<Rightarrow> string \<Rightarrow> TaskUpdatePatch" where
  "successPatch now out = noTaskPatch\<lparr>tp_finalOutput := Some (Some out), tp_finishedAt := Some (Some now), tp_status := Some T_succeeded\<rparr>"

text \<open>The row of \<open>session_tasks\<close>, written once and only here; the identifier of the run is fresh.\<close>

definition sessionTaskDraftOf :: "string \<Rightarrow> TaskRecord \<Rightarrow> string \<Rightarrow> json_object \<Rightarrow> SessionTaskDraft" where
  "sessionTaskDraftOf runId task sessionId summary = \<lparr>sk_runId = runId, sk_sessionId = sessionId, sk_taskId = tk_taskId task,
     sk_input = tk_input task, sk_status = tk_status task,
     sk_createdAt = Some (case tk_startedAt task of Some t \<Rightarrow> t | None \<Rightarrow> tk_createdAt task), sk_finishedAt = tk_finishedAt task,
     sk_summary = summary, sk_metadata = [(''providerName'', JStr (tk_providerName task))]\<rparr>"

definition persistSessionTask :: "'m LoopDeps \<Rightarrow> TaskRecord \<Rightarrow> json_object \<Rightarrow> ('m, unit) kop" where
  "persistSessionTask deps task summary =
     (case tk_sessionId task of
        None \<Rightarrow> ret ()
      | Some sessionId \<Rightarrow>
          bnd (ask (\<lambda>k. sessionTaskFindByTaskId (tk_taskId task) (sh_sessionTasks (kn_shared k)))) (\<lambda>existing.
          if existing \<noteq> None then ret ()
          else bnd (onShared (zoom sh_sessionTasks (\<lambda>t s. s\<lparr>sh_sessionTasks := t\<rparr>)
                 (sessionTaskCreate (ld_now deps) (sessionTaskDraftOf (ld_runId deps) task sessionId summary)))) (\<lambda>_. ret ())))"

definition completeTaskSuccess :: "'m LoopDeps \<Rightarrow> TaskRecord \<Rightarrow> string \<Rightarrow> ('m, RuntimeRunResult) kop" where
  "completeTaskSuccess deps task finalOutput =
     bnd (deleteCheckpoint (tk_taskId task)) (\<lambda>_.
     bnd (kernelTaskUpdate (ld_now deps) (tk_taskId task) (successPatch (ld_now deps) finalOutput)) (\<lambda>completed.
     bnd (onShared (ld_recordOutcome deps completed finalOutput)) (\<lambda>_.
     bnd (loopTrace ''runtime.kernel'' ''final_outcome'' [(''errorCode'', JNull), (''errorMessage'', JNull), (''output'', JStr finalOutput),
        (''status'', JStr ''succeeded'')] ''completion'' ''Task completed successfully'' completed) (\<lambda>_.
     bnd (loopTrace ''runtime.kernel'' ''task_success'' [(''cwd'', JStr (tk_cwd completed)),
        (''outputSummary'', JStr (summarizeText finalOutput 240)), (''status'', JStr ''succeeded'')] ''lifecycle''
        ''Task success lifecycle hook published'' completed) (\<lambda>_.
     bnd (loopTrace ''runtime.kernel'' ''session_end'' [(''status'', JStr ''succeeded''), (''summary'', JStr (summarizeText finalOutput 240))]
        ''lifecycle'' ''Session end lifecycle hook published'' completed) (\<lambda>_.
     bnd (emitTaskEvent (Result_event (tk_taskId completed) ''succeeded'' (Some (summarizeText finalOutput 200)) None None)) (\<lambda>_.
     bnd (persistSessionTask deps completed [(''errorCode'', JNull), (''errorMessage'', JNull), (''finalOutput'', JStr finalOutput),
        (''status'', JStr (taskStatusStr (tk_status completed)))]) (\<lambda>_.
     bnd (ask kn_messages) (\<lambda>ms.
     bnd (onShared (ld_recordSession deps completed finalOutput ms)) (\<lambda>_.
     ret \<lparr>rr_output = Some finalOutput, rr_task = completed\<rparr>))))))))))"

subsection \<open>The final summary without tools\<close>

datatype SummaryReason = Max_iterations_exhausted | Post_completion_verification_exhausted | Empty_final_output | Unpolished_final_output

definition baseSummaryPrompt :: "SummaryReason \<Rightarrow> int \<Rightarrow> string \<Rightarrow> string" where
  "baseSummaryPrompt reason maxIterations taskInput = (case reason of
     Max_iterations_exhausted \<Rightarrow> ''The loop reached its iteration budget ('' @ showInt maxIterations @
       ''). Do not call tools. Summarize the completed work, files changed or inspected, and any remaining work.''
   | Empty_final_output \<Rightarrow> ''The model attempted to finalize with an empty response. Do not call tools. '' @
       ''Provide the final answer now based on everything you have learned so far.''
   | Unpolished_final_output \<Rightarrow> ''Your previous response was internal reasoning or too long, not a polished user-facing answer. '' @
       ''Do not call tools. Answer the user'' @ [CHR 0x27] @ ''s request directly: '' @ [CHR 0x22] @ taskInput @ [CHR 0x22] @
       ''. Be concise. Use a numbered list when the user asked for a specific count. Do not include chain-of-thought, '' @
       ''self-dialogue, or draft candidate lists. Give final conclusions only with file paths and brief descriptions.''
   | Post_completion_verification_exhausted \<Rightarrow> ''The task appears complete and further verification reads are no longer useful. '' @
       ''Do not call tools. Provide the final answer now with completed work and any remaining notes.'')"

definition strictSuffix :: string where
  "strictSuffix = '' Respond with plain natural language only. Never output tool-call markup, DSML, XML tags, JSON tool schemas, '' @
     ''or pseudo tool invocations.''"

definition summaryRequest :: "SummaryReason \<Rightarrow> nat \<Rightarrow> int \<Rightarrow> TaskRecord \<Rightarrow> 'm Kernel \<Rightarrow> LoopRequest" where
  "summaryRequest reason attempt iteration task k =
     (let s = kn_loop k; b = ls_tokenBudget s; polish = (reason = Unpolished_final_output \<or> reason = Empty_final_output);
          prompt = baseSummaryPrompt reason (ls_maxIterations s) (tk_input task)
      in \<lparr>lr_availableTools = [], lr_iteration = iteration + int attempt, lr_memoryContext = ls_memoryContext s,
          lr_messages = turnMessages k @ [systemMessage (if attempt = 1 then prompt else prompt @ strictSuffix) promptMetadata],
          lr_task = task,
          lr_tokenBudget = b\<lparr>tb_outputLimit := (if polish then min (tb_outputLimit b) 2000 else tb_outputLimit b),
            tb_reservedOutput := (if polish then min (tb_reservedOutput b) 200 else tb_reservedOutput b)\<rparr>\<rparr>)"

definition summaryError :: "thrown \<Rightarrow> thrown" where
  "summaryError e = (case e of AppError _ _ _ \<Rightarrow> e | _ \<Rightarrow> (case toAppError e of (c, m, d) \<Rightarrow> AppError c m d))"

definition responseKindStr :: "KernelResponse \<Rightarrow> string" where
  "responseKindStr r = (case kr_kind r of Final_response \<Rightarrow> ''final'' | Retry_response _ _ \<Rightarrow> ''retry'' | Tool_calls_response _ \<Rightarrow> ''tool_calls'')"

definition usageJson :: "KernelUsage \<Rightarrow> json" where
  "usageJson u = JObj ([(''inputTokens'', JNum (pu_inputTokens u)), (''outputTokens'', JNum (pu_outputTokens u))] @
     (case ku_totalTokens u of None \<Rightarrow> [] | Some n \<Rightarrow> [(''totalTokens'', JNum n)]) @
     (case ku_cachedInputTokens u of None \<Rightarrow> [] | Some n \<Rightarrow> [(''cachedInputTokens'', JNum n)]))"

definition metaField :: "(KernelResponseMetadata \<Rightarrow> 'b option) \<Rightarrow> KernelResponse \<Rightarrow> 'b option" where
  "metaField f r = Option.bind (kr_metadata r) f"

definition respondingProvider :: "ActiveProvider \<Rightarrow> KernelResponse \<Rightarrow> string" where
  "respondingProvider p r = (case metaField km_providerName r of Some n \<Rightarrow> n | None \<Rightarrow> av_name p)"

definition succeededPayload :: "ActiveProvider \<Rightarrow> int \<Rightarrow> KernelResponse \<Rightarrow> json_object" where
  "succeededPayload p iteration r =
     [(''iteration'', JNum iteration), (''kind'', JStr (responseKindStr r)),
      (''modelName'', jopt (case metaField km_modelName r of Some m \<Rightarrow> Some m | None \<Rightarrow> modelOf p)),
      (''providerName'', JStr (respondingProvider p r)),
      (''retryCount'', JNum (case metaField km_retryCount r of None \<Rightarrow> 0 | Some n \<Rightarrow> n)), (''usage'', usageJson (kr_usage r))]"

fun rejectionStr :: "FinalRejection \<Rightarrow> string" where
  "rejectionStr Rej_empty = ''empty''"
| "rejectionStr Rej_tool_markup = ''tool_markup''"
| "rejectionStr Rej_reasoning_only = ''reasoning_only_final''"
| "rejectionStr Rej_too_long = ''final_output_too_long''"
| "rejectionStr Rej_internal_reasoning = ''internal_reasoning_detected''"

fun summaryReasonStr :: "SummaryReason \<Rightarrow> string" where
  "summaryReasonStr Max_iterations_exhausted = ''max_iterations_exhausted''"
| "summaryReasonStr Post_completion_verification_exhausted = ''post_completion_verification_exhausted''"
| "summaryReasonStr Empty_final_output = ''empty_final_output''"
| "summaryReasonStr Unpolished_final_output = ''unpolished_final_output''"

text \<open>
  The attempts: \<open>n\<close> are left, \<open>attempt\<close> is the number of the next. The result is the accepted text with the last
  response, or the reason of the last rejection.
\<close>

fun summaryAttempts :: "'m LoopDeps \<Rightarrow> ActiveProvider \<Rightarrow> SummaryReason \<Rightarrow> int \<Rightarrow> TaskRecord \<Rightarrow> nat \<Rightarrow> nat \<Rightarrow> FinalRejection option \<Rightarrow>
    ('m, (string \<times> KernelResponse) + FinalRejection option) kop" where
  "summaryAttempts deps p reason iteration task 0 attempt rejected = ret (Inr rejected)"
| "summaryAttempts deps p reason iteration task (Suc n) attempt rejected =
     bnd (ask (summaryRequest reason attempt iteration task)) (\<lambda>req.
     bnd (tryCatch (onShared (ld_generate deps p req)) (\<lambda>e. raise (summaryError e))) (\<lambda>r.
     bnd (loopTrace (''provider.'' @ av_name p) ''provider_request_succeeded''
        ((''attempt'', JNum (int attempt)) # succeededPayload p (lr_iteration req) r) ''completion''
        (''No-tools final summary attempt '' @ showNat attempt @ '' completed with '' @ responseKindStr r) task) (\<lambda>_.
     bnd (case kr_kind r of
            Tool_calls_response cs \<Rightarrow> loopTrace (''provider.'' @ av_name p) ''no_tools_tool_calls_ignored''
              [(''attempt'', JNum (int attempt)), (''iteration'', JNum (lr_iteration req)), (''message'', JStr (kr_message r)),
               (''reason'', JStr (summaryReasonStr reason)), (''toolNames'', JArr (map (JStr \<circ> pc_toolName) cs))]
              ''completion'' ''Ignored tool calls from no-tools final summary'' task
          | _ \<Rightarrow> ret ()) (\<lambda>_.
     let reasoning = (if kr_kind r = Final_response then kr_reasoningContent r else None);
         resolved = trim (case resolveProviderFinalText True (kr_message r) reasoning of None \<Rightarrow> [] | Some t \<Rightarrow> t)
     in case isAcceptableUserFinalText True (kr_message r) reasoning resolved of
          None \<Rightarrow> ret (Inl (resolved, r))
        | Some why \<Rightarrow>
            bnd (loopTrace ''runtime.kernel'' ''invalid_final_output_rejected''
               [(''attempt'', JNum (int attempt)), (''reason'', JStr (rejectionStr why)), (''resolvedLength'', JNum (int (length resolved))),
                (''summaryReason'', JStr (summaryReasonStr reason))] ''completion''
               (''No-tools final summary rejected ('' @ rejectionStr why @ '')'') task) (\<lambda>_.
            summaryAttempts deps p reason iteration task n (attempt + 1) (Some why))))))"

definition finalAssistant :: "string \<Rightarrow> KernelResponse \<Rightarrow> ConversationMessage" where
  "finalAssistant content r = (assistantMessage content)\<lparr>ms_metadata := metaField km_raw r\<rparr>"

definition requestFinalSummaryWithoutTools :: "'m LoopDeps \<Rightarrow> TaskRecord \<Rightarrow> int \<Rightarrow> SummaryReason \<Rightarrow> ('m, RuntimeRunResult) kop" where
  "requestFinalSummaryWithoutTools deps task iteration reason =
     bnd (onShared (ld_activeProvider deps task)) (\<lambda>p.
     bnd (summaryAttempts deps p reason iteration task 2 1 None) (\<lambda>res.
     case res of
       Inr rejected \<Rightarrow> bnd (askLoop ls_maxIterations) (\<lambda>maxIterations.
         raise (AppError (if rejected = Some Rej_empty then Max_rounds_exceeded else Provider_error)
           (if rejected = Some Rej_tool_markup then ''No-tools final summary returned tool-call markup instead of a user-facing answer.''
            else if rejected = Some Rej_empty then ''Task exceeded '' @ showInt maxIterations @ '' iterations.''
            else ''No-tools final summary did not produce an acceptable user-facing answer.'') None))
     | Inl (finalMessage, r) \<Rightarrow>
         bnd (pushMessage (finalAssistant finalMessage r)) (\<lambda>_.
         bnd (evaluateFinalVerification (ld_completion deps) task iteration finalMessage False) (\<lambda>decision.
         let verified = (case decision of Some t \<Rightarrow> t | None \<Rightarrow> finalMessage)
         in bnd (if verified \<noteq> finalMessage
                 then modify (\<lambda>k. k\<lparr>kn_messages := butlast (kn_messages k) @ [finalAssistant verified r]\<rparr>) else ret ()) (\<lambda>_.
            completeTaskSuccess deps task verified)))))"

subsection \<open>Reading the response\<close>

datatype TurnOutcome = Turn_tools LoopLocals | Turn_again LoopLocals | Turn_return RuntimeRunResult

definition responseMessage :: "KernelResponse \<Rightarrow> ConversationMessage" where
  "responseMessage r = \<lparr>ms_role = Role_assistant, ms_content = kr_message r,
     ms_reasoningContent = (case kr_kind r of Retry_response _ _ \<Rightarrow> None | _ \<Rightarrow> kr_reasoningContent r),
     ms_toolCallId = None, ms_toolName = None,
     ms_toolCalls = (case kr_kind r of Tool_calls_response cs \<Rightarrow> Some cs | _ \<Rightarrow> None), ms_metadata = metaField km_raw r\<rparr>"

text \<open>From the response to the charge of its usage; the result is the task as stored.\<close>

definition recordResponse :: "'m LoopDeps \<Rightarrow> ActiveProvider \<Rightarrow> LoopRequest \<Rightarrow> KernelResponse \<Rightarrow> ('m, TaskRecord) kop" where
  "recordResponse deps p req r =
     (let iteration = lr_iteration req; task = lr_task req; isFinal = (kr_kind r = Final_response);
          hidden = (case kr_kind r of Tool_calls_response _ \<Rightarrow> True | _ \<Rightarrow> False)
      in bnd (pushMessage (responseMessage r)) (\<lambda>_.
         bnd (onShared (ld_emitOutput deps ''assistant_turn_completed''
            [(''display'', JStr (if isFinal then ''final'' else ''intermediate'')), (''iteration'', JNum iteration), (''text'', JStr (kr_message r)),
             (''transcriptVisibility'', JStr (if hidden then ''hidden'' else ''visible'')), (''turnId'', JStr (ld_turnId deps))]
            (if isFinal then ''completion'' else ''planning'') (tk_taskId task))) (\<lambda>_.
         bnd (loopTrace (''provider.'' @ av_name p) ''provider_request_succeeded'' (succeededPayload p iteration r) ''planning''
            (''Provider request completed with '' @ responseKindStr r) task) (\<lambda>_.
         bnd (loopTrace (''provider.'' @ av_name p) ''model_response''
            [(''iteration'', JNum iteration), (''kind'', JStr (responseKindStr r)), (''message'', JStr (kr_message r)),
             (''toolNames'', JArr (map (JStr \<circ> pc_toolName) (responseCalls r)))] ''planning''
            (''Provider responded with '' @ responseKindStr r) task) (\<lambda>_.
         bnd (recordBudget deps (respondingProvider p r) r task) (\<lambda>task1.
         bnd (ask (\<lambda>k. length (kn_messages k) - 1)) (\<lambda>n.
         bnd (setLoop (\<lambda>s. s\<lparr>ls_tokenCounter := recordApiUsage (ls_tokenCounter s) (nat (pu_inputTokens (kr_usage r))) n\<rparr>)) (\<lambda>_.
         bnd (if tk_agentProfileId task1 = Reviewer
              then loopTrace ''reviewer.trace'' ''reviewer_trace'' (ld_reviewerPayload deps iteration req r) ''planning''
                     ''Reviewer decision trace captured'' task1
              else ret ()) (\<lambda>_. ret task1)))))))))"

definition handleRetry :: "'m LoopDeps \<Rightarrow> int \<Rightarrow> int \<Rightarrow> string \<Rightarrow> LoopLocals \<Rightarrow> ('m, TurnOutcome) kop" where
  "handleRetry deps iteration delayMs reason lv =
     bnd (loopTrace ''runtime.kernel'' ''retry'' [(''delayMs'', JNum delayMs), (''iteration'', JNum iteration), (''reason'', JStr reason)]
        ''control'' ''Retry requested by provider'' (lv_task lv)) (\<lambda>_.
     bnd (onShared (ld_sleep deps delayMs)) (\<lambda>_.
     bnd (loopTrace ''runtime.kernel'' ''loop_iteration_completed'' [(''iteration'', JNum iteration), (''toolCallCount'', JNum 0)] ''control''
        ''Loop iteration completed after retry'' (lv_task lv)) (\<lambda>_. ret (Turn_again lv))))"

definition handleFinal :: "'m LoopDeps \<Rightarrow> ActiveProvider \<Rightarrow> int \<Rightarrow> KernelResponse \<Rightarrow> LoopLocals \<Rightarrow> ('m, TurnOutcome) kop" where
  "handleFinal deps p iteration r lv =
     (let resolved = (case resolveProviderFinalText True (kr_message r) (kr_reasoningContent r) of None \<Rightarrow> [] | Some t \<Rightarrow> t)
      in case isAcceptableUserFinalText True (kr_message r) (kr_reasoningContent r) resolved of
           Some why \<Rightarrow>
             bnd (loopTrace ''runtime.kernel'' (if why = Rej_empty then ''empty_final_guarded'' else ''unpolished_final_guarded'')
                ([(''iteration'', JNum iteration), (''providerName'', JStr (av_name p))] @
                 (if why \<noteq> Rej_empty then [(''trigger'', JStr (rejectionStr why))] else []) @
                 (if resolved \<noteq> [] then [(''resolvedLength'', JNum (int (length resolved)))] else [])) ''completion''
                (if why = Rej_empty then ''Empty final response redirected to no-tools summary''
                 else ''Unpolished final response redirected ('' @ rejectionStr why @ '')'') (lv_task lv)) (\<lambda>_.
             bnd (requestFinalSummaryWithoutTools deps (lv_task lv) iteration
                (if why = Rej_empty then Empty_final_output else Unpolished_final_output)) (\<lambda>res. ret (Turn_return res)))
         | None \<Rightarrow>
             bnd (evaluateFinalVerification (ld_completion deps) (lv_task lv) iteration resolved True) (\<lambda>decision.
             case decision of
               None \<Rightarrow> ret (Turn_again lv)
             | Some out \<Rightarrow> bnd (completeTaskSuccess deps (lv_task lv) out) (\<lambda>res. ret (Turn_return res))))"

definition handleToolCalls :: "'m LoopDeps \<Rightarrow> int \<Rightarrow> KernelResponse \<Rightarrow> LoopLocals \<Rightarrow> ('m, TurnOutcome) kop" where
  "handleToolCalls deps iteration r lv =
     bnd (askLoop (evaluatePostCompletionToolCalls (ld_completion deps) iteration r)) (\<lambda>(decision, s).
     bnd (setLoop (\<lambda>_. s)) (\<lambda>_.
     if decision = Summarize
     then bnd (requestFinalSummaryWithoutTools deps (lv_task lv) iteration Post_completion_verification_exhausted) (\<lambda>res. ret (Turn_return res))
     else bnd (kernelTaskUpdate (ld_now deps) (tk_taskId (lv_task lv)) (noTaskPatch\<lparr>tp_status := Some T_waiting_tool\<rparr>)) (\<lambda>task.
          ret (Turn_tools (lv\<lparr>lv_task := task, lv_pending := responseCalls r, lv_lastToolCalls := Some r\<rparr>)))))"

definition modelTurn :: "'m LoopDeps \<Rightarrow> int \<Rightarrow> LoopLocals \<Rightarrow> ('m, TurnOutcome) kop" where
  "modelTurn deps iteration lv =
     bnd (planTools deps iteration (lv_task lv)) (\<lambda>tools.
     bnd (prepareTurn deps tools iteration (lv_task lv)) (\<lambda>req.
     bnd (announceContext deps req) (\<lambda>_.
     bnd (onShared (ld_activeProvider deps (lv_task lv))) (\<lambda>p.
     bnd (announceRequest deps p req) (\<lambda>_.
     bnd (attemptProvider deps p 2 False req) (\<lambda>answer.
     case answer of
       None \<Rightarrow> raise (AppError Provider_error ''Provider request failed after reactive compaction retry.'' None)
     | Some r \<Rightarrow>
         bnd (recordResponse deps p req r) (\<lambda>task.
         let lv1 = lv\<lparr>lv_task := task, lv_tools := tools\<rparr>
         in case kr_kind r of
              Retry_response delayMs reason \<Rightarrow> handleRetry deps iteration delayMs reason lv1
            | Final_response \<Rightarrow> handleFinal deps p iteration r lv1
            | Tool_calls_response _ \<Rightarrow> handleToolCalls deps iteration r lv1)))))))"

end
