(* ===== verification/LoopRun.thy ===== *)
theory LoopRun
  imports ExecutionLoop
begin

section \<open>Running a task\<close>

text \<open>
  The second half of an iteration of src/src/runtime/kernel/execution-loop.ts (the tool calls of the turn, then
  compaction), the loop itself, and the ways a task starts again or ends without it
  (src/src/runtime/execution-kernel.ts).
\<close>

subsection \<open>The tool calls of a turn\<close>

datatype ToolsOutcome = Tools_done nat | Tools_paused TaskRecord

text \<open>The calls from \<open>i\<close> on that may run together.\<close>

definition batchAt :: "(string \<Rightarrow> bool) \<Rightarrow> ProviderToolCall list \<Rightarrow> nat \<Rightarrow> ProviderToolCall list" where
  "batchAt parallelSafe pending i = takeWhile (\<lambda>c. parallelSafe (pc_toolName c)) (drop i pending)"

lemma batchAt_progress:
  assumes "i < length pending" "parallelSafe (pc_toolName (pending ! i))"
  shows "length pending - (i + length (batchAt parallelSafe pending i)) < length pending - i"
proof -
  have "batchAt parallelSafe pending i \<noteq> []"
    using assms by (simp add: batchAt_def Cons_nth_drop_Suc [OF assms(1), symmetric])
  then have "0 < length (batchAt parallelSafe pending i)" by simp
  then show ?thesis using assms(1) by linarith
qed

text \<open>The call \<open>pending ! i\<close> alone; the result is the paused task, if the call waits for somebody.\<close>

definition runSingleCall :: "'m LoopDeps \<Rightarrow> TaskRecord \<Rightarrow> int \<Rightarrow> ProviderToolCall list \<Rightarrow> nat \<Rightarrow> ('m, TaskRecord option) kop" where
  "runSingleCall deps task iteration pending i =
     (let call = pending ! i
      in bnd (tryApplyDuplicateToolReplay (ld_batch deps) task iteration call) (\<lambda>replayed.
         if replayed then ret None
         else bnd (invokeToolCall (ld_batch deps) task iteration call) (\<lambda>outcome.
              bnd (tryPauseToolExecution (ld_batch deps) pending i task iteration call outcome) (\<lambda>paused.
              case paused of
                Some t \<Rightarrow> ret (Some t)
              | None \<Rightarrow> bnd (applyCompletedToolCallOutcome (ld_batch deps) task iteration call outcome) (\<lambda>_. ret None)))))"

function runToolCalls :: "'m LoopDeps \<Rightarrow> TaskRecord \<Rightarrow> int \<Rightarrow> ProviderToolCall list \<Rightarrow> nat \<Rightarrow> nat \<Rightarrow> ('m, ToolsOutcome) kop" where
  "runToolCalls deps task iteration pending i n =
     (if i \<ge> length pending then ret (Tools_done n)
      else bnd throwIfAborted (\<lambda>_.
        if \<not> ld_parallelSafe deps (pc_toolName (pending ! i))
        then bnd (runSingleCall deps task iteration pending i) (\<lambda>paused.
             case paused of Some t \<Rightarrow> ret (Tools_paused t) | None \<Rightarrow> runToolCalls deps task iteration pending (i + 1) (n + 1))
        else bnd (executeParallelToolBatch (ld_batch deps) pending (batchAt (ld_parallelSafe deps) pending i) i task iteration) (\<lambda>r.
             case r of
               Batch_paused t \<Rightarrow> ret (Tools_paused t)
             | Batch_done m \<Rightarrow> runToolCalls deps task iteration pending (i + length (batchAt (ld_parallelSafe deps) pending i)) (n + m))))"
  by pat_completeness auto

termination
  by (relation "measure (\<lambda>(deps, task, iteration, pending, i, n). length pending - i)") (simp_all add: batchAt_progress)

declare runToolCalls.simps [simp del]

text \<open>What follows the calls, before compaction.\<close>

definition closeToolTurn :: "'m LoopDeps \<Rightarrow> int \<Rightarrow> nat \<Rightarrow> LoopLocals \<Rightarrow> ('m, LoopLocals) kop" where
  "closeToolTurn deps iteration toolCallCount lv =
     bnd (ask (\<lambda>k. case lv_lastToolCalls lv of Some r \<Rightarrow> Some r | None \<Rightarrow> findLastAssistantToolCallsResponse (kn_messages k))) (\<lambda>turnResponse.
     bnd (askLoop ls_interactionMode) (\<lambda>mode.
     bnd (case turnResponse of
            Some r \<Rightarrow> if toolCallCount > 0
              then observeProviderToolTurn (ld_completion deps) (lv_task lv) iteration r (case mode of None \<Rightarrow> Agent_mode | Some m \<Rightarrow> m)
              else ret ()
          | None \<Rightarrow> ret ()) (\<lambda>_.
     bnd (deleteCheckpoint (tk_taskId (lv_task lv))) (\<lambda>_.
     bnd (setLoop (\<lambda>s. s\<lparr>ls_turnProviderMessages := Loop_messages\<rparr>)) (\<lambda>_.
     bnd (kernelTaskUpdate (ld_now deps) (tk_taskId (lv_task lv)) (noTaskPatch\<lparr>tp_status := Some T_running\<rparr>)) (\<lambda>task.
     bnd (loopTrace ''runtime.kernel'' ''loop_iteration_completed''
        [(''iteration'', JNum iteration), (''toolCallCount'', JNum (int toolCallCount))] ''control''
        ''Loop iteration completed after tool execution'' task) (\<lambda>_.
     bnd (loopTrace ''runtime.kernel'' ''turn_end''
        [(''iteration'', JNum iteration), (''taskStatus'', JStr (taskStatusStr (tk_status task))), (''toolCallCount'', JNum (int toolCallCount))]
        ''lifecycle'' ''Turn end lifecycle hook published'' task) (\<lambda>_.
     ret (lv\<lparr>lv_task := task, lv_pending := [],
       lv_lastToolCalls := (if toolCallCount > 0 then None else lv_lastToolCalls lv)\<rparr>)))))))))"

subsection \<open>Compaction\<close>

definition buildCompactInput :: "'m LoopDeps \<Rightarrow> TaskRecord \<Rightarrow> ProviderToolCall list \<Rightarrow> 'm Kernel \<Rightarrow> SessionCompactInput" where
  "buildCompactInput deps task pending k =
     (let s = kn_loop k; cp = ld_compact deps; inputLimit = nat (tb_inputLimit (ls_tokenBudget s))
      in \<lparr>si_taskId = tk_taskId task, si_sessionScopeKey = (case tk_sessionId task of Some i \<Rightarrow> i | None \<Rightarrow> tk_taskId task),
          si_messages = kn_messages k, si_maxMessagesBeforeCompact = cp_messageThreshold cp, si_contextWindowTokens = Some inputLimit,
          si_protectFirstN = Some (cp_protectFirstN cp), si_protectLastN = Some (cp_protectLastN cp),
          si_targetTokenBudget = Some (nat \<lfloor>rat_of_nat inputLimit * cp_targetRatio cp\<rfloor>),
          si_tokenEstimate = Some (computePromptTokens (ls_tokenCounter s) (kn_messages k)),
          si_tokenThreshold = Some (case cp_tokenThreshold cp of Some t \<Rightarrow> t
            | None \<Rightarrow> nat (computeHermesCompactThreshold inputLimit (cp_thresholdRatio cp))),
          si_toolCallCount = Some (ls_cumulativeToolCallCount s), si_toolCallThreshold = Some (cp_toolCallThreshold cp),
          si_iteration = Some (ls_iterationsSinceLastCompact s), si_iterationThreshold = Some (cp_iterationThreshold cp),
          si_minTokenPressureRatio = Some (cp_minTokenPressureRatio cp),
          si_compactCooldownRemaining = Some (nat (ls_compactCooldownRemaining s)), si_pendingToolCalls = Some pending,
          si_originalGoal = Some (tk_input task),
          si_recentlyReadFilesSummary = map_option (\<lambda>c. formatRecentlyReadFilesSummary (listEntries c)) (ls_recentFileReadCache s),
          si_previousSummary = Option.bind (tk_sessionId task) (ld_previousSummary deps (kn_shared k)), si_focusTopic = None\<rparr>)"

definition selectHeadMessages :: "msgs \<Rightarrow> nat \<Rightarrow> msgs" where
  "selectHeadMessages ms protectFirstN = take protectFirstN (filter (\<lambda>m. ms_role m \<noteq> Role_system) ms)"

text \<open>The key joins these parts; contents with the separator in them are out of reach of the model.\<close>

definition compactMessageIdentity :: "ConversationMessage \<Rightarrow> ConversationRole \<times> string \<times> string \<times> string \<times> string" where
  "compactMessageIdentity m = (ms_role m, case ms_toolCallId m of None \<Rightarrow> [] | Some i \<Rightarrow> i,
     case ms_toolName m of None \<Rightarrow> [] | Some n \<Rightarrow> n,
     joinWith '','' (case ms_toolCalls m of None \<Rightarrow> [] | Some cs \<Rightarrow> map pc_toolCallId cs), ms_content m)"

definition mergeOne :: "ConversationMessage \<Rightarrow> msgs \<Rightarrow> msgs" where
  "mergeOne m merged = (if compactMessageIdentity m \<in> set (map compactMessageIdentity merged) then merged else merged @ [m])"

definition mergeProtectedMessages :: "msgs \<Rightarrow> msgs \<Rightarrow> msgs" where
  "mergeProtectedMessages head tail = fold mergeOne (head @ tail) []"

definition mapCompactConversationMessage :: "ConversationMessage \<Rightarrow> ConversationMessage" where
  "mapCompactConversationMessage m = m\<lparr>ms_reasoningContent := None\<rparr>"

definition compactTailBudget :: "CompactConfig \<Rightarrow> SessionCompactInput \<Rightarrow> nat" where
  "compactTailBudget cp input = (case cp_tailTokenBudget cp of Some b \<Rightarrow> b
     | None \<Rightarrow> (case si_targetTokenBudget input of Some b \<Rightarrow> b
        | None \<Rightarrow> nat \<lfloor>rat_of_nat (case si_contextWindowTokens input of Some w \<Rightarrow> w
             | None \<Rightarrow> (case si_tokenThreshold input of Some t \<Rightarrow> t | None \<Rightarrow> 0)) * cp_targetRatio cp\<rfloor>))"

definition compactTail :: "CompactConfig \<Rightarrow> SessionCompactInput \<Rightarrow> TailSelectionResult" where
  "compactTail cp input = selectTailMessages (si_messages input)
     \<lparr>ts_tailMinMessages = cp_tailMinMessages cp, ts_tailTokenBudget = Some (compactTailBudget cp input),
      ts_protectLastN = Some (case si_protectLastN input of Some n \<Rightarrow> n | None \<Rightarrow> cp_protectLastN cp)\<rparr>"

definition handoffMessage :: "msgs \<Rightarrow> string \<Rightarrow> ConversationMessage" where
  "handoffMessage discarded summary = systemMessage (buildSessionHandoffMessageContent discarded summary)
     [(''privacyLevel'', JStr ''internal''), (''retentionKind'', JStr ''session''), (''sourceType'', JStr COMPACT_HANDOFF_SOURCE_TYPE)]"

text \<open>The messages that replace the conversation.\<close>

definition replacementMessages :: "CompactConfig \<Rightarrow> SessionCompactInput \<Rightarrow> string \<Rightarrow> msgs" where
  "replacementMessages cp input summary =
     (let ms = si_messages input;
          protectedHead = selectHeadMessages ms (case si_protectFirstN input of Some n \<Rightarrow> n | None \<Rightarrow> cp_protectFirstN cp);
          preserved = mergeProtectedMessages protectedHead (tr_messages (compactTail cp input));
          headCount = min (length protectedHead) (length preserved)
      in map mapCompactConversationMessage (take headCount preserved) @
         [handoffMessage (listDiscardedMessages ms preserved) summary] @
         map mapCompactConversationMessage (drop headCount preserved))"

fun compactReasonStr :: "CompactReason \<Rightarrow> string" where
  "compactReasonStr Compact_message_count = ''message_count''"
| "compactReasonStr Compact_context_budget = ''context_budget''"
| "compactReasonStr Compact_token_budget = ''token_budget''"
| "compactReasonStr Compact_tool_call_count = ''tool_call_count''"
| "compactReasonStr Compact_iteration_count = ''iteration_count''"
| "compactReasonStr Compact_unsafe_breakpoint = ''unsafe_breakpoint''"
| "compactReasonStr Compact_cooldown = ''cooldown''"

definition jnat :: "nat option \<Rightarrow> json" where
  "jnat n = (case n of None \<Rightarrow> JNull | Some v \<Rightarrow> JNum (int v))"

definition compactDecision :: "SessionCompactInput \<Rightarrow> ManualCompactRequest option \<Rightarrow> CompactDecision" where
  "compactDecision input manual =
     (case manual of Some _ \<Rightarrow> \<lparr>cd_triggered = True, cd_reason = Some Compact_token_budget\<rparr> | None \<Rightarrow> shouldCompact input)"

definition compactEvaluatedPayload :: "SessionCompactInput \<Rightarrow> CompactDecision \<Rightarrow> json_object" where
  "compactEvaluatedPayload input d =
     [(''compactCooldownRemaining'', jnat (si_compactCooldownRemaining input)), (''messageCount'', JNum (int (length (si_messages input)))),
      (''maxMessagesBeforeCompact'', JNum (int (si_maxMessagesBeforeCompact input))), (''reason'', jopt (map_option compactReasonStr (cd_reason d))),
      (''tokenEstimate'', jnat (si_tokenEstimate input)), (''tokenThreshold'', jnat (si_tokenThreshold input)),
      (''toolCallCount'', jnat (si_toolCallCount input)), (''toolCallThreshold'', jnat (si_toolCallThreshold input)),
      (''triggered'', JBool (cd_triggered d))]"

definition summarizeForCompact :: "'m LoopDeps \<Rightarrow> TaskRecord \<Rightarrow> SessionCompactInput \<Rightarrow> ('m, string) kop" where
  "summarizeForCompact deps task input =
     tryCatch (onShared (ld_summarize deps input)) (\<lambda>e.
       bnd (loopTrace ''runtime.context'' ''compact_summarizer_failed''
          [(''error'', JStr (ld_stringOf deps e)), (''summarizer'', JStr (cp_summarizer (ld_compact deps)))] ''memory''
          ''Session compaction summarizer failed'' task) (\<lambda>_. raise e))"

definition traceTailBudget :: "CompactConfig \<Rightarrow> TaskRecord \<Rightarrow> SessionCompactInput \<Rightarrow> ('m, unit) kop" where
  "traceTailBudget cp task input =
     (let tail = compactTail cp input
      in if \<not> tr_budgetExceeded tail then ret ()
         else loopTrace ''runtime.context'' ''tail_budget_exceeded''
           [(''protectLastN'', JNum (int (case si_protectLastN input of Some n \<Rightarrow> n | None \<Rightarrow> cp_protectLastN cp))),
            (''tailMessageCount'', JNum (int (length (tr_messages tail)))),
            (''tailTokenBudget'', JNum (int (compactTailBudget cp input))),
            (''usedTokens'', JNum (int (tr_usedTokens tail)))] ''memory'' ''Protected tail messages exceed tail token budget'' task)"

definition resultReason :: "CompactReason option \<Rightarrow> CompactReason" where
  "resultReason why = (case why of Some Compact_token_budget \<Rightarrow> Compact_token_budget
     | Some Compact_tool_call_count \<Rightarrow> Compact_tool_call_count | Some Compact_iteration_count \<Rightarrow> Compact_iteration_count
     | _ \<Rightarrow> Compact_message_count)"

text \<open>The reason and the replacement, if compaction was triggered.\<close>

definition compactMessages :: "'m LoopDeps \<Rightarrow> TaskRecord \<Rightarrow> SessionCompactInput \<Rightarrow> ManualCompactRequest option \<Rightarrow>
    ('m, (CompactReason \<times> msgs) option) kop" where
  "compactMessages deps task input manual =
     (let d = compactDecision input manual; why = cd_reason d
      in bnd (loopTrace ''runtime.context'' ''compact_evaluated'' (compactEvaluatedPayload input d) ''memory''
            (if cd_triggered d then ''Compaction triggered ('' @ (case why of None \<Rightarrow> ''unknown'' | Some r \<Rightarrow> compactReasonStr r) @ '')''
             else ''Compaction skipped ('' @ (case why of None \<Rightarrow> ''below_threshold'' | Some r \<Rightarrow> compactReasonStr r) @ '')'') task) (\<lambda>_.
         if \<not> cd_triggered d then ret None
         else bnd (summarizeForCompact deps task input) (\<lambda>summary.
              bnd (traceTailBudget (ld_compact deps) task input) (\<lambda>_.
              ret (Some (resultReason why, replacementMessages (ld_compact deps) input summary))))))"

definition capabilityMessage :: "'m LoopDeps \<Rightarrow> TaskRecord \<Rightarrow> ProviderToolDescriptor list \<Rightarrow> ExecutionLoopState \<Rightarrow> ConversationMessage" where
  "capabilityMessage deps task tools s = systemMessage
     (ld_capabilityDeclaration deps (tk_agentProfileId task) tools (ls_costWarnedToolNames s) (ls_selectedSkillContext s)) promptMetadata"

text \<open>The array after compaction: the first system message, the map of the repository, the tools, and the replacement.\<close>

definition compactedArray :: "'m LoopDeps \<Rightarrow> TaskRecord \<Rightarrow> ProviderToolDescriptor list \<Rightarrow> msgs \<Rightarrow> 'm Kernel \<Rightarrow> msgs" where
  "compactedArray deps task tools replacement k =
     (let s = kn_loop k;
          first = (case List.find (\<lambda>m. ms_role m = Role_system) (kn_messages k) of None \<Rightarrow> [] | Some m \<Rightarrow> [m]);
          repo = (case ls_repoMapSummary s of None \<Rightarrow> [] | Some t \<Rightarrow> [systemMessage t promptMetadata]);
          base = first @ repo @ [capabilityMessage deps task tools s] @ replacement
      in snd (syncTodos deps task (kn_shared k)
           (snd (syncPinnedRecentFilesMessage (ld_collate deps) (ls_recentFileReadCache s) base))))"

definition rebuildAfterCompact :: "'m LoopDeps \<Rightarrow> TaskRecord \<Rightarrow> ProviderToolDescriptor list \<Rightarrow> nat option \<Rightarrow> msgs \<Rightarrow> ('m, unit) kop" where
  "rebuildAfterCompact deps task tools tokenThreshold replacement =
     bnd (modify (\<lambda>k. k\<lparr>kn_messages := compactedArray deps task tools replacement k,
        kn_loop := (kn_loop k)\<lparr>ls_silentToolTurns := 0, ls_readOnlyTurns := 0, ls_cumulativeToolCallCount := 0,
          ls_iterationsSinceLastCompact := 0, ls_compactedCount := ls_compactedCount (kn_loop k) + 1,
          ls_tokenCounter := createHybridTokenCounterState\<rparr>\<rparr>)) (\<lambda>_.
     bnd (askLoop ls_tokenBudget) (\<lambda>b.
     bnd (onShared (ld_planRecall deps task b (map ds_name tools))) (\<lambda>fragments.
     modify (\<lambda>k. k\<lparr>kn_loop := (kn_loop k)\<lparr>ls_memoryContext := fragments, ls_memoryRecall := None,
        ls_selectedSkillContext := filter (\<lambda>f. cf_scope f = Skill_ref) fragments, ls_turnProviderMessages := Loop_messages,
        ls_compactCooldownRemaining := resolveCompactCooldown
          (case ld_cooldownIterations deps of None \<Rightarrow> 2 | Some n \<Rightarrow> n)
          (sum_list (map estimateConversationMessageTokens (kn_messages k))) tokenThreshold\<rparr>\<rparr>))))"

definition flushBeforeCompact :: "'m LoopDeps \<Rightarrow> TaskRecord \<Rightarrow> int \<Rightarrow> ('m, unit) kop" where
  "flushBeforeCompact deps task iteration =
     (case ld_flushMemory deps of
        None \<Rightarrow> ret ()
      | Some flush \<Rightarrow>
          bnd (onShared (ld_activeProvider deps task)) (\<lambda>_.
          bnd (ask kn_messages) (\<lambda>ms.
          bnd (onShared (flush task iteration ms)) (\<lambda>suggestions.
          loopTrace ''runtime.memory_flush'' ''memory_flush_completed''
            [(''iteration'', JNum iteration), (''suggestionCount'', JNum (int suggestions))] ''memory''
            (''Memory flush completed with '' @ showNat suggestions @ '' suggestion(s)'') task))))"

definition compactPhase :: "'m LoopDeps \<Rightarrow> int \<Rightarrow> LoopLocals \<Rightarrow> ('m, unit) kop" where
  "compactPhase deps iteration lv =
     (let task = lv_task lv
      in bnd (ask (\<lambda>k. length (kn_messages k))) (\<lambda>n.
         bnd (loopTrace ''runtime.kernel'' ''pre_compress'' [(''messageCount'', JNum (int n)), (''reason'', JStr ''message_count'')]
            ''lifecycle'' ''Pre-compress lifecycle hook published'' task) (\<lambda>_.
         bnd (ask (buildCompactInput deps task (lv_pending lv))) (\<lambda>base.
         bnd (onShared (ld_consumeManual deps (tk_taskId task))) (\<lambda>manual.
         bnd (case manual of
                None \<Rightarrow> ret ()
              | Some r \<Rightarrow> loopTrace ''runtime.context'' ''manual_compact_triggered''
                  ((''iteration'', JNum iteration) # (case mq_focusTopic r of None \<Rightarrow> [] | Some t \<Rightarrow> [(''focusTopic'', JStr t)])) ''memory''
                  ''Manual compaction requested'' task) (\<lambda>_.
         bnd (if manual \<noteq> None \<or> cd_triggered (shouldCompact base) then flushBeforeCompact deps task iteration else ret ()) (\<lambda>_.
         bnd (compactMessages deps task (base\<lparr>si_focusTopic := Option.bind manual mq_focusTopic\<rparr>) manual) (\<lambda>compacted.
         case compacted of
           None \<Rightarrow> setLoop (\<lambda>s. if ls_compactCooldownRemaining s > 0
             then s\<lparr>ls_compactCooldownRemaining := ls_compactCooldownRemaining s - 1\<rparr> else s)
         | Some (why, replacement) \<Rightarrow>
             bnd (case tk_sessionId task of
                    None \<Rightarrow> ret ()
                  | Some _ \<Rightarrow> bnd (ask (buildCompactInput deps task (lv_pending lv))) (\<lambda>input.
                      onShared (ld_persistCompact deps task input why (n - length replacement)))) (\<lambda>_.
             rebuildAfterCompact deps task (lv_tools lv) (si_tokenThreshold base) replacement)))))))))"

subsection \<open>The loop\<close>

datatype IterationOutcome = Iterate LoopLocals | Finished_with RuntimeRunResult

definition beginIteration :: "'m LoopDeps \<Rightarrow> int \<Rightarrow> LoopLocals \<Rightarrow> ('m, LoopLocals) kop" where
  "beginIteration deps iteration lv =
     bnd (maybeInjectIterationBudgetPressure (tk_taskId (lv_task lv)) iteration) (\<lambda>_.
     bnd (setLoop (\<lambda>s. s\<lparr>ls_iterationsSinceLastCompact := ls_iterationsSinceLastCompact s + 1\<rparr>)) (\<lambda>_.
     bnd throwIfAborted (\<lambda>_.
     bnd (kernelTaskUpdate (ld_now deps) (tk_taskId (lv_task lv)) (noTaskPatch\<lparr>tp_currentIteration := Some iteration\<rparr>)) (\<lambda>task.
     ret (lv\<lparr>lv_task := task\<rparr>)))))"

definition toolPhase :: "'m LoopDeps \<Rightarrow> int \<Rightarrow> LoopLocals \<Rightarrow> ('m, IterationOutcome) kop" where
  "toolPhase deps iteration lv =
     bnd (runToolCalls deps (lv_task lv) iteration (lv_pending lv) 0 0) (\<lambda>outcome.
     case outcome of
       Tools_paused t \<Rightarrow> ret (Finished_with \<lparr>rr_output = None, rr_task = t\<rparr>)
     | Tools_done n \<Rightarrow>
         bnd (closeToolTurn deps iteration n lv) (\<lambda>lv1.
         bnd (compactPhase deps iteration lv1) (\<lambda>_. ret (Iterate lv1))))"

definition loopIteration :: "'m LoopDeps \<Rightarrow> int \<Rightarrow> LoopLocals \<Rightarrow> ('m, IterationOutcome) kop" where
  "loopIteration deps iteration lv =
     bnd (beginIteration deps iteration lv) (\<lambda>lv1.
     bnd (if lv_pending lv1 = [] then modelTurn deps iteration lv1 else ret (Turn_tools lv1)) (\<lambda>turn.
     case turn of
       Turn_return r \<Rightarrow> ret (Finished_with r)
     | Turn_again lv2 \<Rightarrow> ret (Iterate lv2)
     | Turn_tools lv2 \<Rightarrow> toolPhase deps iteration lv2))"

text \<open>The iterations, \<open>n\<close> of them at most; \<open>None\<close> when all are used up.\<close>

fun loopFrom :: "'m LoopDeps \<Rightarrow> nat \<Rightarrow> int \<Rightarrow> LoopLocals \<Rightarrow> ('m, LoopLocals + RuntimeRunResult) kop" where
  "loopFrom deps 0 iteration lv = ret (Inl lv)"
| "loopFrom deps (Suc n) iteration lv =
     bnd (loopIteration deps iteration lv) (\<lambda>outcome.
     case outcome of Finished_with r \<Rightarrow> ret (Inr r) | Iterate lv1 \<Rightarrow> loopFrom deps n (iteration + 1) lv1)"

definition lastAssistantText :: "msgs \<Rightarrow> string option" where
  "lastAssistantText ms =
     map_option (\<lambda>m. trim (ms_content m)) (List.find (\<lambda>m. ms_role m = Role_assistant \<and> trim (ms_content m) \<noteq> []) (rev ms))"

definition afterLoop :: "'m LoopDeps \<Rightarrow> LoopLocals \<Rightarrow> ('m, RuntimeRunResult) kop" where
  "afterLoop deps lv =
     bnd (askLoop id) (\<lambda>s.
     if ls_completionVerificationSatisfied s
     then bnd (ask (\<lambda>k. lastAssistantText (kn_messages k))) (\<lambda>t.
          completeTaskSuccess deps (lv_task lv) (case t of Some out \<Rightarrow> out
            | None \<Rightarrow> ''Workspace changes were verified before the iteration limit was reached.''))
     else bnd (loopTrace ''runtime.kernel'' ''iteration_exhausted''
             [(''iteration'', JNum (ls_maxIterations s)), (''maxIterations'', JNum (ls_maxIterations s))] ''control''
             ''Task reached its iteration limit without a final response'' (lv_task lv)) (\<lambda>_.
          requestFinalSummaryWithoutTools deps (lv_task lv) (ls_maxIterations s) Max_iterations_exhausted))"

definition firstIteration :: "ExecutionLoopState \<Rightarrow> int" where
  "firstIteration s = (if ls_pendingToolCalls s \<noteq> [] then tk_currentIteration (ls_task s) else tk_currentIteration (ls_task s) + 1)"

definition iterationsLeft :: "ExecutionLoopState \<Rightarrow> nat" where
  "iterationsLeft s = nat (ls_maxIterations s - firstIteration s + 1)"

definition executeLoop :: "'m LoopDeps \<Rightarrow> ('m, RuntimeRunResult) kop" where
  "executeLoop deps =
     bnd (askLoop id) (\<lambda>s.
     bnd (modify (\<lambda>k. k\<lparr>kn_messages := ls_messages (kn_loop k)\<rparr>)) (\<lambda>_.
     bnd (ask (\<lambda>k. ld_listTools deps (kn_shared k))) (\<lambda>tools.
     bnd (loopFrom deps (iterationsLeft s) (firstIteration s)
        \<lparr>lv_task = ls_task s, lv_pending = ls_pendingToolCalls s, lv_lastToolCalls = None, lv_tools = tools\<rparr>) (\<lambda>r.
     case r of Inr out \<Rightarrow> ret out | Inl lv \<Rightarrow> afterLoop deps lv))))"

end
