(* ===== verification/LoopProps.thy ===== *)
theory LoopProps
  imports LoopRun LoopTurnProps
begin

section \<open>Properties of the loop\<close>

subsection \<open>What a task ends with\<close>

text \<open>
  The result of the task \<open>i\<close>: the row the table has for it, after everything the loop did. An output comes with a succeeded
  task that stores it, and admits unverified changes of the workspace if the flags of the loop say there are any; no
  output means the task waits for somebody.
\<close>

definition stored :: "TaskRecord \<Rightarrow> 'm Kernel \<Rightarrow> bool" where
  "stored t k \<longleftrightarrow> taskFindById (tk_taskId t) (sh_tasks (kn_shared k)) = Some t"

definition unverified :: "ExecutionLoopState \<Rightarrow> bool" where
  "unverified s \<longleftrightarrow> ls_writeToolSucceeded s \<and> \<not> ls_completionVerificationSatisfied s"

definition settled :: "string \<Rightarrow> RuntimeRunResult \<Rightarrow> 'm Kernel \<Rightarrow> bool" where
  "settled i r k \<longleftrightarrow> tk_taskId (rr_task r) = i \<and> stored (rr_task r) k \<and> (case rr_output r of
     Some out \<Rightarrow> tk_status (rr_task r) = T_succeeded \<and> tk_finalOutput (rr_task r) = Some out \<and>
       (unverified (kn_loop k) \<longrightarrow> mentionsUnverifiedWork out)
   | None \<Rightarrow> tk_status (rr_task r) \<in> {T_waiting_approval, T_waiting_clarification})"

text \<open>What records the end of a task besides the table of tasks (memory, transcript, session) does not write that table.\<close>

definition keepsTasks :: "('m Shared, 'a) op \<Rightarrow> bool" where
  "keepsTasks m \<longleftrightarrow> (\<forall>s. sh_tasks (snd (m s)) = sh_tasks s)"

definition quietEnd :: "'m LoopDeps \<Rightarrow> bool" where
  "quietEnd deps \<longleftrightarrow> (\<forall>t out. keepsTasks (ld_recordOutcome deps t out)) \<and> (\<forall>t out ms. keepsTasks (ld_recordSession deps t out ms))"

abbreviation ends :: "('m, 'a) kop \<Rightarrow> ('a \<Rightarrow> 'm Kernel \<Rightarrow> bool) \<Rightarrow> bool" where
  "ends m Q \<equiv> post (\<lambda>_. True) m Q"

named_theorems ends_intros \<open>what operations end with\<close>

lemma endsD: "ends m Q \<Longrightarrow> m k = (Inr x, k') \<Longrightarrow> Q x k'"
  by (simp add: post_def)

lemma ends_ret [ends_intros]: "(\<And>k. Q x k) \<Longrightarrow> ends (ret x) Q"
  by (simp add: post_ret)

lemma ends_raise [ends_intros]: "ends (raise e) Q"
  by (rule post_raise)

lemma ends_if [ends_intros]: "(b \<Longrightarrow> ends m Q) \<Longrightarrow> (\<not> b \<Longrightarrow> ends n Q) \<Longrightarrow> ends (if b then m else n) Q"
  by simp

lemma ends_sum [ends_intros]: "(\<And>x. ends (f x) Q) \<Longrightarrow> (\<And>y. ends (g y) Q) \<Longrightarrow> ends (case v of Inl x \<Rightarrow> f x | Inr y \<Rightarrow> g y) Q"
  by (cases v) auto

lemma ends_prod [ends_intros]: "(\<And>x y. v = (x, y) \<Longrightarrow> ends (f x y) Q) \<Longrightarrow> ends (case v of (x, y) \<Rightarrow> f x y) Q"
  by (cases v) auto

lemma ends_option [ends_intros]: "ends m Q \<Longrightarrow> (\<And>x. v = Some x \<Longrightarrow> ends (f x) Q) \<Longrightarrow> ends (case v of None \<Rightarrow> m | Some x \<Rightarrow> f x) Q"
  by (cases v) auto

lemma ends_map: "ends m R \<Longrightarrow> (\<And>x k. R x k \<Longrightarrow> Q (f x) k) \<Longrightarrow> ends (bnd m (\<lambda>x. ret (f x))) Q"
  by (rule post_bnd) (auto intro!: post_ret)

lemma task_updated: "kernelTaskUpdate now i p k = (Inr t, k') \<Longrightarrow>
    (\<exists>r. taskFindById i (sh_tasks (kn_shared k)) = Some r \<and> t = taskPatch now p r \<and> tk_taskId r = i \<and> tk_taskId t = i) \<and>
    stored t k' \<and> kn_loop k' = kn_loop k \<and> kn_messages k' = kn_messages k"
  by (auto simp: kernelTaskUpdate_def onShared_run zoom_run taskUpdate_def Let_def stored_def split: option.splits if_splits prod.splits
      dest: taskFindById_Some)

lemma loop_kept: "kept kn_loop (onShared s)" "kept kn_loop (loopTrace a e p st sm task)" "kept kn_loop (emitTaskEvent v)"
    "kept kn_loop (deleteCheckpoint i)" "kept kn_loop (pushMessage m)" "kept kn_loop (ask g)" "kept kn_loop (kernelTaskUpdate now i q)"
    "kept kn_loop (persistSessionTask deps tk summary)"
  by (auto simp: kept_def kernel_run loopTrace_def deleteCheckpoint_def kernelTaskUpdate_def persistSessionTask_def bnd_run
      split: prod.splits option.splits sum.splits)

text \<open>Operations that leave the table of tasks alone.\<close>

abbreviation tasksKept :: "('m, 'a) kop \<Rightarrow> bool" where
  "tasksKept \<equiv> kept (\<lambda>k. sh_tasks (kn_shared k))"

lemma stored_kept: "tasksKept m \<Longrightarrow> m k = (r, k') \<Longrightarrow> stored t k' = stored t k"
  by (drule (1) keptD) (simp add: stored_def)

lemma tasks_kept_shared: "keepsTasks m \<Longrightarrow> tasksKept (onShared m)"
  by (auto simp: kept_def keepsTasks_def onShared_run split: prod.splits) (metis snd_conv)

lemma tasks_kept [kept_intros]:
  "tasksKept (loopTrace a e p st sm task)" "tasksKept (deleteCheckpoint i)" "tasksKept (ask g)" "tasksKept (saveCheckpoint now i it pr pending)"
  "tasksKept (persistSessionTask deps tk summary)"
  by (auto simp: kept_def kernel_run loopTrace_def deleteCheckpoint_def saveCheckpoint_def persistSessionTask_def zoom_run bnd_run
      split: prod.splits option.splits sum.splits)

lemma tasks_kept_applied [kept_intros]: "tasksKept (applyCompletedToolCallOutcome deps task it c oc)"
  unfolding applyCompletedToolCallOutcome_def applyResult_def applyUnfinishedOutcome_def answerCall_def noteVerification_def Let_def
  by (cases oc) (auto intro!: kept_intros split: option.splits)

lemma post_stored: "tasksKept m \<Longrightarrow> (\<And>x. post (\<lambda>k. stored t k \<and> c) (f x) Q) \<Longrightarrow> post (\<lambda>k. stored t k \<and> c) (bnd m f) Q"
  by (rule post_bnd [of _ _ "\<lambda>_ k. stored t k \<and> c"]) (auto intro!: postI simp: stored_kept)

lemma completed:
  assumes "quietEnd deps" and "completeTaskSuccess deps task out k = (Inr r, k')"
  shows "rr_output r = Some out \<and> tk_status (rr_task r) = T_succeeded \<and> tk_finalOutput (rr_task r) = Some out \<and>
    tk_taskId (rr_task r) = tk_taskId task \<and> stored (rr_task r) k' \<and> kn_loop k' = kn_loop k"
proof -
  let ?facts = "\<lambda>t. tk_status t = T_succeeded \<and> tk_finalOutput t = Some out \<and> tk_taskId t = tk_taskId task"
  have "kept kn_loop (completeTaskSuccess deps task out)"
    unfolding completeTaskSuccess_def by (intro kept_intros loop_kept)
  then have l: "kn_loop k' = kn_loop k" using assms(2) by (rule keptD)
  have q: "tasksKept (onShared (ld_recordOutcome deps t out))" "tasksKept (onShared (ld_recordSession deps t out ms))" for t ms
    using assms(1) by (auto simp: quietEnd_def intro: tasks_kept_shared)
  have u: "post (\<lambda>_. True) (kernelTaskUpdate (ld_now deps) (tk_taskId task) (successPatch (ld_now deps) out)) (\<lambda>t k. stored t k \<and> ?facts t)"
    by (rule postI, drule task_updated) (auto simp: successPatch_def noTaskPatch_def taskPatch_def patched_def)
  have "post (\<lambda>_. True) (completeTaskSuccess deps task out) (\<lambda>r k. rr_output r = Some out \<and> stored (rr_task r) k \<and> ?facts (rr_task r))"
    unfolding completeTaskSuccess_def
    by (rule post_then, rule post_bnd [OF u], (rule post_stored, rule q kept_intros)+, rule post_ret) simp
  from postD [OF this _ assms(2)] l show ?thesis by simp
qed

lemma completed_settled:
  assumes "quietEnd deps" and "tk_taskId task = i"
  shows "post (\<lambda>k. unverified (kn_loop k) \<longrightarrow> mentionsUnverifiedWork out) (completeTaskSuccess deps task out) (settled i)"
  by (rule postI) (use assms in \<open>auto dest!: completed simp: settled_def\<close>)

lemma evaluated: "ends (evaluateFinalVerification cd task it out allow)
    (\<lambda>d k. \<forall>t. d = Some t \<longrightarrow> unverified (kn_loop k) \<longrightarrow> mentionsUnverifiedWork t)"
  by (rule postI) (auto simp: evaluateFinalVerification_def bnd_run kernel_run recordVerificationMissing_def unverified_def note_mentions
      split: if_splits)

lemma evaluated_final: "ends (evaluateFinalVerification cd task it out False)
    (\<lambda>d k. \<exists>t. d = Some t \<and> (unverified (kn_loop k) \<longrightarrow> mentionsUnverifiedWork t))"
  by (rule postI) (auto simp: evaluateFinalVerification_def bnd_run kernel_run recordVerificationMissing_def unverified_def note_mentions
      split: if_splits)

lemma replaced_settled:
  assumes "quietEnd deps"
  shows "post (\<lambda>k. unverified (kn_loop k) \<longrightarrow> mentionsUnverifiedWork t)
    (bnd (if t \<noteq> msg then modify (\<lambda>k. k\<lparr>kn_messages := butlast (kn_messages k) @ [finalAssistant t r]\<rparr>) else ret ()) (\<lambda>_.
     completeTaskSuccess deps task t)) (settled (tk_taskId task))"
  by (rule post_bnd [OF _ completed_settled [OF assms refl]]) (auto intro!: postI split: if_splits)

lemma summary_settled:
  assumes "quietEnd deps"
  shows "ends (requestFinalSummaryWithoutTools deps task it why) (settled (tk_taskId task))"
proof -
  have closing: "ends (bnd (evaluateFinalVerification cd task it msg False) (\<lambda>d. let v = (case d of Some t \<Rightarrow> t | None \<Rightarrow> msg)
      in bnd (if v \<noteq> msg then modify (\<lambda>k. k\<lparr>kn_messages := butlast (kn_messages k) @ [finalAssistant v r]\<rparr>) else ret ()) (\<lambda>_.
         completeTaskSuccess deps task v))) (settled (tk_taskId task))" for cd msg r
    unfolding Let_def by (rule post_bnd [OF evaluated_final], rule post_pre [OF replaced_settled [OF assms]]) auto
  show ?thesis
    unfolding requestFinalSummaryWithoutTools_def
    by (rule post_then, rule post_then, rule ends_sum, rule ends_prod, rule post_then, rule closing, rule post_then, rule ends_raise)
qed

text \<open>A task that pauses.\<close>

definition waiting :: "string \<Rightarrow> TaskRecord \<Rightarrow> 'm Kernel \<Rightarrow> bool" where
  "waiting i t k \<longleftrightarrow> tk_taskId t = i \<and> stored t k \<and> tk_status t \<in> {T_waiting_approval, T_waiting_clarification}"

lemma waiting_kept: "tasksKept m \<Longrightarrow> m k = (r, k') \<Longrightarrow> waiting i t k \<Longrightarrow> waiting i t k'"
  by (drule (1) stored_kept [where t = t]) (simp add: waiting_def)

lemma pauseTask_status: "ends (pauseTask deps pending i task it c st ev p) (\<lambda>t k. tk_taskId t = tk_taskId task \<and> stored t k \<and> tk_status t = st)"
proof -
  have u: "ends (kernelTaskUpdate now (tk_taskId task) (noTaskPatch\<lparr>tp_status := Some st\<rparr>))
      (\<lambda>t k. stored t k \<and> tk_taskId t = tk_taskId task \<and> tk_status t = st)" for now
    by (rule postI, drule task_updated) (auto simp: noTaskPatch_def taskPatch_def patched_def)
  show ?thesis
    unfolding pauseTask_def by (rule post_bnd [OF u], (rule post_stored, rule kept_intros)+, rule post_ret) simp
qed

lemma tryPause_waiting: "ends (tryPauseToolExecution deps pending i task it c oc) (\<lambda>p k. \<forall>t. p = Some t \<longrightarrow> waiting (tk_taskId task) t k)"
  unfolding tryPauseToolExecution_def
  by (cases oc) (auto intro!: ends_ret post_bnd [OF pauseTask_status] post_ret simp: waiting_def)

text \<open>What the results of the calls before a paused one change keeps the paused task as it is stored.\<close>

lemma waiting_applied:
  "forEach (\<lambda>(c, oc). applyCompletedToolCallOutcome deps task it c oc) ocs k = (r, k') \<Longrightarrow> waiting i t k \<Longrightarrow> waiting i t k'"
proof (rule waiting_kept)
  show "tasksKept (forEach (\<lambda>(c, oc). applyCompletedToolCallOutcome deps task it c oc) ocs)"
    by (intro kept_intros) (simp add: kept_intros split: prod.split)
qed

lemma preflight_waiting:
  "ends (preflightLoop deps pending pos task it calls cleared outs) (\<lambda>r k. \<forall>t. r = Inr t \<longrightarrow> waiting (tk_taskId task) t k)"
proof (induction calls arbitrary: pos cleared outs)
  case Nil
  show ?case by (auto intro!: postI)
next
  case (Cons c calls)
  show ?case
    unfolding preflightLoop.simps
    apply (rule post_then, rule post_bnd [OF tryPause_waiting])
    subgoal for oc p
      apply (cases p)
      subgoal using Cons by (cases oc) (auto intro: post_pre intro!: post_then)
      subgoal for t by (auto intro!: postI elim!: bnd_InrE dest: waiting_applied)
      done
    done
qed

lemma settle_waiting:
  "ends (settleLoop deps pending start cleared task it earlier n invs) (\<lambda>r k. \<forall>t. r = Batch_paused t \<longrightarrow> waiting (tk_taskId task) t k)"
proof (induction deps pending start cleared task it earlier n invs rule: settleLoop.induct)
  case (3 deps pending start cleared task it earlier n c oc rest)
  show ?case
    unfolding settleLoop.simps
    apply (rule post_bnd [OF tryPause_waiting])
    subgoal for p
      apply (cases p)
      subgoal using 3 by (auto intro!: post_then)
      subgoal for t by (auto intro!: postI elim!: bnd_InrE dest: waiting_applied)
      done
    done
qed (auto intro!: postI simp: post_def)

lemma batch_waiting: "ends (executeParallelToolBatch deps pending cs start task it) (\<lambda>r k. \<forall>t. r = Batch_paused t \<longrightarrow> waiting (tk_taskId task) t k)"
  unfolding executeParallelToolBatch_def
  apply (rule post_bnd [OF preflight_waiting])
  subgoal for r
    by (cases r) (auto intro!: postI elim!: bnd_InrE dest!: endsD [OF settle_waiting] split: if_splits)
  done

lemma single_waiting: "ends (runSingleCall deps task it pending i) (\<lambda>p k. \<forall>t. p = Some t \<longrightarrow> waiting (tk_taskId task) t k)"
  unfolding runSingleCall_def Let_def
  by (auto intro!: postI elim!: bnd_InrE split: if_splits option.splits dest!: endsD [OF tryPause_waiting])

lemma tools_waiting: "ends (runToolCalls deps task it pending i n) (\<lambda>r k. \<forall>t. r = Tools_paused t \<longrightarrow> waiting (tk_taskId task) t k)"
proof (induction deps task it pending i n rule: runToolCalls.induct)
  case (1 deps task it pending i n)
  show ?case
  proof (cases "i \<ge> length pending")
    case True
    then show ?thesis by (subst runToolCalls.simps) (auto intro!: postI)
  next
    case False
    let ?next = "\<lambda>j m. runToolCalls deps task it pending j m"
    have one: "waiting (tk_taskId task) t k'"
      if "\<not> ld_parallelSafe deps (pc_toolName (pending ! i))" "?next (i + 1) (n + 1) k = (Inr (Tools_paused t), k')" for t k k'
      using endsD [OF 1(1) that(2)] False that(1) by auto
    have many: "waiting (tk_taskId task) t k'" if "ld_parallelSafe deps (pc_toolName (pending ! i))"
      "?next (i + length (batchAt (ld_parallelSafe deps) pending i)) (n + m) k = (Inr (Tools_paused t), k')" for t m k k'
      using endsD [OF 1(2) that(2)] False that(1) by auto
    show ?thesis
      using False
      by (subst runToolCalls.simps)
        (auto intro!: postI elim!: bnd_InrE split: if_splits option.splits BatchResult.splits
          dest!: endsD [OF single_waiting] endsD [OF batch_waiting] dest: one many)
  qed
qed

subsection \<open>What the loop ends with\<close>

text \<open>An iteration of the task \<open>i\<close> goes on with the task \<open>i\<close> or ends it in order.\<close>

definition sameTask :: "string \<Rightarrow> LoopLocals \<Rightarrow> bool" where
  "sameTask i lv \<longleftrightarrow> tk_taskId (lv_task lv) = i"

lemma updated_id: "kernelTaskUpdate now i p k = (Inr t, k') \<Longrightarrow> tk_taskId t = i"
  by (drule task_updated) auto

lemma closed_same: "ends (closeToolTurn deps it n lv) (\<lambda>lv1 k. sameTask (tk_taskId (lv_task lv)) lv1)"
  unfolding closeToolTurn_def sameTask_def by (auto intro!: postI elim!: bnd_InrE dest!: updated_id)

lemma toolPhase_settled: "ends (toolPhase deps it lv) (\<lambda>oc k.
    (\<forall>r. oc = Finished_with r \<longrightarrow> settled (tk_taskId (lv_task lv)) r k) \<and> (\<forall>lv1. oc = Iterate lv1 \<longrightarrow> sameTask (tk_taskId (lv_task lv)) lv1))"
  unfolding toolPhase_def
  by (auto intro!: postI elim!: bnd_InrE split: ToolsOutcome.splits
      dest!: endsD [OF tools_waiting] endsD [OF closed_same] simp: settled_def waiting_def)

text \<open>How the reading of a response ends.\<close>

definition turnInOrder :: "string \<Rightarrow> TurnOutcome \<Rightarrow> 'm Kernel \<Rightarrow> bool" where
  "turnInOrder i oc k \<longleftrightarrow> (case oc of Turn_return r \<Rightarrow> settled i r k | Turn_again lv1 \<Rightarrow> sameTask i lv1 | Turn_tools lv1 \<Rightarrow> sameTask i lv1)"

lemma final_settled:
  assumes "quietEnd deps"
  shows "ends (handleFinal deps p it r lv) (turnInOrder (tk_taskId (lv_task lv)))"
  unfolding handleFinal_def Let_def turnInOrder_def
  by (auto intro!: postI elim!: bnd_InrE split: option.splits simp: sameTask_def
      dest!: endsD [OF summary_settled [OF assms]] endsD [OF evaluated] postD [OF completed_settled [OF assms refl], rotated])

lemma calls_settled:
  assumes "quietEnd deps"
  shows "ends (handleToolCalls deps it r lv) (turnInOrder (tk_taskId (lv_task lv)))"
  unfolding handleToolCalls_def turnInOrder_def
  by (auto intro!: postI elim!: bnd_InrE split: if_splits prod.splits simp: sameTask_def
      dest!: endsD [OF summary_settled [OF assms]] updated_id)

lemma retry_again: "ends (handleRetry deps it d why lv) (turnInOrder (tk_taskId (lv_task lv)))"
  unfolding handleRetry_def turnInOrder_def by (auto intro!: postI elim!: bnd_InrE simp: sameTask_def)

lemma recorded_same: "ends (recordResponse deps p req r) (\<lambda>t k. tk_taskId t = tk_taskId (lr_task req))"
  unfolding recordResponse_def recordBudget_def Let_def
  by (auto intro!: postI elim!: bnd_InrE dest!: updated_id split: option.splits if_splits)

lemma prepared_task: "ends (prepareTurn deps tools it task) (\<lambda>req k. lr_task req = task)"
  unfolding prepareTurn_def by (auto intro!: postI elim!: bnd_InrE simp: assembleTurn_def assemble_def Let_def split: prod.splits)

lemma modelTurn_settled:
  assumes "quietEnd deps"
  shows "ends (modelTurn deps it lv) (turnInOrder (tk_taskId (lv_task lv)))"
  unfolding modelTurn_def Let_def
  by (auto intro!: postI elim!: bnd_InrE split: option.splits ResponseKind.splits
      dest!: endsD [OF final_settled [OF assms]] endsD [OF calls_settled [OF assms]] endsD [OF retry_again] endsD [OF recorded_same]
        endsD [OF prepared_task])

lemma begun_same: "ends (beginIteration deps it lv) (\<lambda>lv1 k. sameTask (tk_taskId (lv_task lv)) lv1)"
  unfolding beginIteration_def by (auto intro!: postI elim!: bnd_InrE dest!: updated_id simp: sameTask_def)

lemma iteration_settled:
  assumes "quietEnd deps" and "sameTask i lv"
  shows "ends (loopIteration deps it lv) (\<lambda>oc k. case oc of Finished_with r \<Rightarrow> settled i r k | Iterate lv1 \<Rightarrow> sameTask i lv1)"
  using assms(2) unfolding loopIteration_def
  by (auto intro!: postI elim!: bnd_InrE split: if_splits TurnOutcome.splits IterationOutcome.splits simp: turnInOrder_def sameTask_def
      dest!: endsD [OF begun_same] endsD [OF modelTurn_settled [OF assms(1)]] endsD [OF toolPhase_settled])

lemma loopFrom_settled:
  assumes "quietEnd deps" and "sameTask i lv"
  shows "ends (loopFrom deps n it lv) (\<lambda>oc k. case oc of Inr r \<Rightarrow> settled i r k | Inl lv1 \<Rightarrow> sameTask i lv1)"
  using assms(2)
proof (induction n arbitrary: it lv)
  case 0
  then show ?case by (auto intro!: postI)
next
  case (Suc n)
  show ?case
    unfolding loopFrom.simps
  proof (rule post_bnd [OF iteration_settled [OF assms(1) Suc.prems]])
    fix oc
    show "post (\<lambda>k. case oc of Finished_with r \<Rightarrow> settled i r k | Iterate lv1 \<Rightarrow> sameTask i lv1)
        (case oc of Finished_with r \<Rightarrow> ret (Inr r) | Iterate lv1 \<Rightarrow> loopFrom deps n (it + 1) lv1)
        (\<lambda>oc k. case oc of Inr r \<Rightarrow> settled i r k | Inl lv1 \<Rightarrow> sameTask i lv1)"
      by (cases oc) (auto intro!: postI dest: endsD [OF Suc.IH])
  qed
qed

lemma afterLoop_settled:
  assumes "quietEnd deps"
  shows "ends (afterLoop deps lv) (settled (tk_taskId (lv_task lv)))"
  unfolding afterLoop_def
  by (auto intro!: postI elim!: bnd_InrE split: if_splits
      dest!: endsD [OF summary_settled [OF assms]] postD [OF completed_settled [OF assms refl], rotated] simp: kernel_run unverified_def)

text \<open>
  C3: every task the loop brings to an end is in order, and stored as it is returned: the table's row of the task the loop was
  started for is the returned record when the loop ends. If there is an output, that row is succeeded with just this output,
  and if the flags of the loop say that the workspace was written and not verified since, the output says so. If there is no
  output, the row waits for an approval or a clarification. It is assumed that the recorders of memory, transcript and session
  called after the row is written do not write the table of tasks.
\<close>

theorem loop_result_settled:
  assumes "quietEnd deps" and "executeLoop deps k = (Inr r, k')"
  shows "settled (tk_taskId (ls_task (kn_loop k))) r k'"
proof -
  let ?i = "tk_taskId (ls_task (kn_loop k))"
  obtain k1 oc k2 where
    1: "loopFrom deps (iterationsLeft (kn_loop k)) (firstIteration (kn_loop k)) \<lparr>lv_task = ls_task (kn_loop k),
      lv_pending = ls_pendingToolCalls (kn_loop k), lv_lastToolCalls = None, lv_tools = ld_listTools deps (kn_shared k)\<rparr> k1 = (Inr oc, k2)"
    and 2: "(case oc of Inr out \<Rightarrow> ret out | Inl lv \<Rightarrow> afterLoop deps lv) k2 = (Inr r, k')"
    using assms(2) unfolding executeLoop_def by (auto elim!: bnd_InrE simp: askLoop_run)
  have "case oc of Inr r \<Rightarrow> settled ?i r k2 | Inl lv1 \<Rightarrow> sameTask ?i lv1"
    by (rule endsD [OF loopFrom_settled [OF assms(1)] 1]) (simp add: sameTask_def)
  with 2 show ?thesis by (auto split: sum.splits simp: sameTask_def dest!: endsD [OF afterLoop_settled [OF assms(1)]])
qed

end
