(* ===== verification/LoopCost.thy ===== *)
theory LoopCost
  imports LoopProps
begin

section \<open>How many requests a task sends\<close>

text \<open>
  The world of the task is asked to count the requests of the main conversation: \<open>sent\<close> is raised by at most one by
  \<open>ld_generate\<close>, and by nothing else the loop calls.
\<close>

definition silent :: "('m \<Rightarrow> nat) \<Rightarrow> ('m Shared, 'a) op \<Rightarrow> bool" where
  "silent sent m \<longleftrightarrow> (\<forall>s. sent (sh_rest (snd (m s))) \<le> sent (sh_rest s))"

definition countsRequests :: "('m \<Rightarrow> nat) \<Rightarrow> 'm LoopDeps \<Rightarrow> bool" where
  "countsRequests sent deps \<longleftrightarrow>
     (\<forall>p req s. sent (sh_rest (snd (ld_generate deps p req s))) \<le> Suc (sent (sh_rest s))) \<and>
     (\<forall>rq cx. silent sent (bd_execute (ld_batch deps) rq cx)) \<and> (\<forall>rqs. silent sent (bd_executeAll (ld_batch deps) rqs)) \<and>
     (\<forall>plan m it task. ld_planExposure deps = Some plan \<longrightarrow> silent sent (plan m it task)) \<and>
     (\<forall>ty p st i. silent sent (ld_emitOutput deps ty p st i)) \<and> (\<forall>task. silent sent (ld_activeProvider deps task)) \<and>
     (\<forall>d. silent sent (ld_sleep deps d)) \<and> (\<forall>i. silent sent (ld_recordUsage deps i)) \<and>
     (\<forall>i. silent sent (ld_summarize deps i)) \<and> (\<forall>i. silent sent (ld_consumeManual deps i)) \<and>
     (\<forall>flush task it ms. ld_flushMemory deps = Some flush \<longrightarrow> silent sent (flush task it ms)) \<and>
     (\<forall>task i why n. silent sent (ld_persistCompact deps task i why n)) \<and>
     (\<forall>task b ts. silent sent (ld_planRecall deps task b ts)) \<and>
     (\<forall>task out. silent sent (ld_recordOutcome deps task out)) \<and> (\<forall>task out ms. silent sent (ld_recordSession deps task out ms))"

definition sentOf :: "('m \<Rightarrow> nat) \<Rightarrow> 'm Kernel \<Rightarrow> nat" where
  "sentOf sent k = sent (sh_rest (kn_shared k))"

text \<open>Operations that send nothing.\<close>

interpretation free: step_closed "\<lambda>k k'. sentOf sent k' \<le> sentOf sent k" for sent :: "'m \<Rightarrow> nat"
  by unfold_locales auto

abbreviation free :: "('m \<Rightarrow> nat) \<Rightarrow> ('m, 'a) kop \<Rightarrow> bool" where
  "free sent \<equiv> step_closed.follows (\<lambda>k k'. sentOf sent k' \<le> sentOf sent k)"

named_theorems free_intros \<open>operations that send no request\<close>

lemmas free_control [free_intros] = free.follows_bnd free.follows_pure free.follows_if free.follows_option free.follows_forEach
  free.follows_tryCatch

lemma freeI: "(\<And>k r k'. m k = (r, k') \<Longrightarrow> sh_rest (kn_shared k') = sh_rest (kn_shared k)) \<Longrightarrow> free sent m"
  by (rule free.followsI) (simp add: sentOf_def)

lemma free_shared: "silent sent m \<Longrightarrow> free sent (onShared m)"
  unfolding silent_def by (rule free.followsI) (auto simp: onShared_run sentOf_def split: prod.splits, metis snd_conv)

lemma free_loop [free_intros]:
  "free sent (setLoop f)" "free sent (askLoop g)" "free sent (pushMessage m)" "free sent (emitTaskEvent v)" "free sent (kernelTrace e)"
  by (auto intro!: freeI simp: kernel_run split: if_splits)

lemma free_records [free_intros]:
  "free sent (loopTrace a ty p st sm task)" "free sent (deleteCheckpoint i)" "free sent (saveCheckpoint now i it pr pending)"
  "free sent (kernelTaskUpdate now i q)" "free sent (onShared (zoom sh_sessionTasks (\<lambda>t s. s\<lparr>sh_sessionTasks := t\<rparr>) m))"
  by (auto intro!: freeI simp: kernel_run loopTrace_def deleteCheckpoint_def saveCheckpoint_def kernelTaskUpdate_def zoom_run split: prod.splits)

lemma free_persist [free_intros]: "free sent (persistSessionTask deps tk summary)"
  unfolding persistSessionTask_def by (intro free_intros)

lemma free_Pair [free_intros]: "free sent (Pair (Inr x))"
  by (rule freeI) auto

lemma free_turn [free_intros]: "free sent throwIfAborted" "free sent (setTurn h)"
  by (auto intro!: freeI simp: throwIfAborted_def setTurn_def setTurnMessages_def split: option.splits AbortReason.splits TurnArray.splits)

lemma free_modify: "(\<And>k. kn_shared (f k) = kn_shared k) \<Longrightarrow> free sent (modify f)"
  by (rule freeI) auto

lemma free_sum [free_intros]: "(\<And>x. free sent (f x)) \<Longrightarrow> (\<And>y. free sent (g y)) \<Longrightarrow> free sent (case v of Inl x \<Rightarrow> f x | Inr y \<Rightarrow> g y)"
  by (cases v) auto

lemma free_prod [free_intros]: "(\<And>x y. free sent (f x y)) \<Longrightarrow> free sent (case v of (x, y) \<Rightarrow> f x y)"
  by (cases v) auto

lemma free_deps:
  assumes "countsRequests sent deps"
  shows "free sent (onShared (bd_execute (ld_batch deps) rq cx))" "free sent (onShared (bd_executeAll (ld_batch deps) rqs))"
    "ld_planExposure deps = Some plan \<Longrightarrow> free sent (onShared (plan m it task))"
    "free sent (onShared (ld_emitOutput deps ty p st i))" "free sent (onShared (ld_activeProvider deps task))"
    "free sent (onShared (ld_sleep deps d))" "free sent (onShared (ld_recordUsage deps u))" "free sent (onShared (ld_summarize deps si))"
    "free sent (onShared (ld_consumeManual deps i))" "ld_flushMemory deps = Some flush \<Longrightarrow> free sent (onShared (flush task it ms))"
    "free sent (onShared (ld_persistCompact deps task si why n))" "free sent (onShared (ld_planRecall deps task b ts))"
    "free sent (onShared (ld_recordOutcome deps task out))" "free sent (onShared (ld_recordSession deps task out ms))"
  using assms unfolding countsRequests_def by (auto intro!: free_shared)

subsection \<open>The calls of tools\<close>

lemma free_apply [free_intros]: "free sent (applyCompletedToolCallOutcome deps task it c oc)"
  unfolding applyCompletedToolCallOutcome_def applyResult_def applyUnfinishedOutcome_def answerCall_def noteVerification_def Let_def
  by (cases oc) (auto intro!: free_intros split: option.splits)

lemma free_replay [free_intros]: "free sent (tryApplyDuplicateToolReplay deps task it c)"
  unfolding tryApplyDuplicateToolReplay_def startedEvent_def recordDuplicateToolReplayTrace_def
  by (intro free_intros)

lemma free_pause [free_intros]: "free sent (tryPauseToolExecution deps pending i task it c oc)"
  unfolding tryPauseToolExecution_def pauseTask_def by (cases oc) (auto intro!: free_intros)

lemma free_callTool:
  assumes "countsRequests sent deps"
  shows "free sent (callTool (ld_batch deps) g task it c)"
  unfolding callTool_def startedEvent_def recordDuplicateToolReplayTrace_def
  by (intro free_intros free_deps [OF assms])

lemma free_preflight:
  assumes "countsRequests sent deps"
  shows "free sent (preflightLoop (ld_batch deps) pending pos task it calls cleared outs)"
proof (induction calls arbitrary: pos cleared outs)
  case (Cons c calls)
  have "free sent (case oc of Completed r t \<Rightarrow> bnd (applyCompletedToolCallOutcome (ld_batch deps) task it c oc)
      (\<lambda>_. preflightLoop (ld_batch deps) pending (pos + 1) task it calls cleared (outs @ [(c, oc)]))
    | Cleared t \<Rightarrow> preflightLoop (ld_batch deps) pending (pos + 1) task it calls (cleared @ [c]) outs
    | _ \<Rightarrow> preflightLoop (ld_batch deps) pending (pos + 1) task it calls cleared outs)" for oc
    by (cases oc) (auto intro!: free_intros Cons)
  then show ?case
    unfolding preflightLoop.simps preflightToolCall_def by (intro free_intros free_callTool [OF assms]) auto
qed (auto intro: free_intros)

lemma free_settle [free_intros]: "free sent (settleLoop deps pending start cleared task it earlier n invs)"
  by (induction deps pending start cleared task it earlier n invs rule: settleLoop.induct) (auto intro!: free_intros)

lemma free_started [free_intros]: "free sent (startCleared deps task it calls)"
  by (induction deps task it calls rule: startCleared.induct) (auto intro!: free_intros simp: startedEvent_def)

lemma free_batch:
  assumes "countsRequests sent deps"
  shows "free sent (executeParallelToolBatch (ld_batch deps) pending cs start task it)"
  unfolding executeParallelToolBatch_def runCleared_def
  by (intro free_intros free_preflight [OF assms] free_deps [OF assms])

lemma free_single:
  assumes "countsRequests sent deps"
  shows "free sent (runSingleCall deps task it pending i)"
  unfolding runSingleCall_def Let_def invokeToolCall_def by (intro free_intros free_callTool [OF assms])

lemma free_tools:
  assumes "countsRequests sent deps"
  shows "free sent (runToolCalls deps task it pending i n)"
  using assms
proof (induction deps task it pending i n rule: runToolCalls.induct)
  case (1 deps task it pending i n)
  let ?b = "batchAt (ld_parallelSafe deps) pending i"
  show ?case
  proof (cases "i < length pending")
    case False
    then show ?thesis by (subst runToolCalls.simps) (simp add: free_intros)
  next
    case True
    have one: "free sent (runToolCalls deps task it pending (Suc i) (Suc n))" if "\<not> ld_parallelSafe deps (pc_toolName (pending ! i))"
      using 1 that True by simp
    have many: "free sent (runToolCalls deps task it pending (i + length ?b) (n + m))" if "ld_parallelSafe deps (pc_toolName (pending ! i))" for m
      using 1 that True by simp
    have batch: "free sent (case r of Batch_paused t \<Rightarrow> ret (Tools_paused t) | Batch_done m \<Rightarrow> runToolCalls deps task it pending (i + length ?b) (n + m))"
      if "ld_parallelSafe deps (pc_toolName (pending ! i))" for r
      using many [OF that] by (cases r) (auto intro!: free_intros)
    show ?thesis
    proof (cases "ld_parallelSafe deps (pc_toolName (pending ! i))")
      case True
      then have "free sent (bnd throwIfAborted (\<lambda>_. bnd (executeParallelToolBatch (ld_batch deps) pending ?b i task it) (\<lambda>r.
          case r of Batch_paused t \<Rightarrow> ret (Tools_paused t) | Batch_done m \<Rightarrow> runToolCalls deps task it pending (i + length ?b) (n + m))))"
        by (intro free_intros free_batch 1(3) batch)
      with True \<open>i < length pending\<close> show ?thesis by (subst runToolCalls.simps) simp
    next
      case False
      then have "free sent (bnd throwIfAborted (\<lambda>_. bnd (runSingleCall deps task it pending i) (\<lambda>paused.
          case paused of None \<Rightarrow> runToolCalls deps task it pending (Suc i) (Suc n) | Some t \<Rightarrow> ret (Tools_paused t))))"
        by (intro free_intros free_single 1(3) one)
      with False \<open>i < length pending\<close> show ?thesis by (subst runToolCalls.simps) simp
    qed
  qed
qed

subsection \<open>The rest of an iteration\<close>

lemma free_observe [free_intros]: "free sent (observeProviderToolTurn cd task it r mode)"
  unfolding observeProviderToolTurn_def by (intro free_intros)

lemma free_closeToolTurn: "free sent (closeToolTurn deps it n lv)"
  unfolding closeToolTurn_def by (intro free_intros)

lemma free_compactMessages:
  assumes "countsRequests sent deps"
  shows "free sent (compactMessages deps task input manual)"
  unfolding compactMessages_def summarizeForCompact_def traceTailBudget_def Let_def
  by (intro free_intros free_deps [OF assms])

lemma free_flush:
  assumes "countsRequests sent deps"
  shows "free sent (flushBeforeCompact deps task it)"
  unfolding flushBeforeCompact_def
  by (cases "ld_flushMemory deps") (auto intro!: free_intros free_deps [OF assms])

lemma free_rebuild:
  assumes "countsRequests sent deps"
  shows "free sent (rebuildAfterCompact deps task tools th replacement)"
  unfolding rebuildAfterCompact_def
  by (intro free_intros free_deps [OF assms] free_modify) simp_all

lemma free_compactPhase:
  assumes "countsRequests sent deps"
  shows "free sent (compactPhase deps it lv)"
  unfolding compactPhase_def Let_def
  by (intro free_intros free_deps [OF assms] free_flush [OF assms] free_compactMessages [OF assms] free_rebuild [OF assms])

lemma free_begin: "free sent (beginIteration deps it lv)"
  unfolding beginIteration_def maybeInjectIterationBudgetPressure_def Let_def
  by (intro free_intros free_modify) (simp add: pushPressure_def setTurnMessages_def Let_def split: TurnArray.split)

lemma free_toolPhase:
  assumes "countsRequests sent deps"
  shows "free sent (toolPhase deps it lv)"
proof -
  have "free sent (case oc of Tools_done n \<Rightarrow> bnd (closeToolTurn deps it n lv) (\<lambda>lv1. bnd (compactPhase deps it lv1) (\<lambda>_. ret (Iterate lv1)))
      | Tools_paused t \<Rightarrow> ret (Finished_with \<lparr>rr_output = None, rr_task = t\<rparr>))" for oc
    by (cases oc) (auto intro!: free_intros free_closeToolTurn free_compactPhase [OF assms])
  then show ?thesis unfolding toolPhase_def by (intro free_intros free_tools [OF assms])
qed

lemma free_prepare: "free sent (prepareTurn deps tools it task)"
  unfolding prepareTurn_def pruneTurn_def syncTurnTodos_def Let_def by (intro free_intros)

lemma free_plan:
  assumes "countsRequests sent deps"
  shows "free sent (planTools deps it task)"
  unfolding planTools_def by (cases "ld_planExposure deps") (auto intro!: free_intros free_deps [OF assms])

lemma free_announce:
  assumes "countsRequests sent deps"
  shows "free sent (announceContext deps req)" "free sent (announceRequest deps p req)"
  unfolding announceContext_def announceRequest_def by (intro free_intros free_deps [OF assms])+

lemma free_record:
  assumes "countsRequests sent deps"
  shows "free sent (recordResponse deps p req r)"
  unfolding recordResponse_def recordBudget_def Let_def by (intro free_intros free_deps [OF assms])

lemma free_complete:
  assumes "countsRequests sent deps"
  shows "free sent (completeTaskSuccess deps task out)"
  unfolding completeTaskSuccess_def by (intro free_intros free_deps [OF assms])

lemma free_evaluate: "free sent (evaluateFinalVerification cd task it out allow)"
  unfolding evaluateFinalVerification_def recordVerificationMissing_def by (intro free_intros)

subsection \<open>Counting\<close>

text \<open>An operation sends at most \<open>f r\<close> requests when it ends with \<open>r\<close>.\<close>

definition spends :: "('m \<Rightarrow> nat) \<Rightarrow> (thrown + 'a \<Rightarrow> nat) \<Rightarrow> ('m, 'a) kop \<Rightarrow> bool" where
  "spends sent f m \<longleftrightarrow> (\<forall>k r k'. m k = (r, k') \<longrightarrow> sentOf sent k' \<le> sentOf sent k + f r)"

lemma spendsI: "(\<And>k r k'. m k = (r, k') \<Longrightarrow> sentOf sent k' \<le> sentOf sent k + f r) \<Longrightarrow> spends sent f m"
  by (simp add: spends_def)

lemma spendsD: "spends sent f m \<Longrightarrow> m k = (r, k') \<Longrightarrow> sentOf sent k' \<le> sentOf sent k + f r"
  by (simp add: spends_def)

lemma spends_free: "free sent m \<Longrightarrow> spends sent f m"
  by (rule spendsI) (auto dest: free.followsD intro: trans_le_add1)

text \<open>Sequencing: what both parts may send together.\<close>

lemma spends_seq:
  assumes "spends sent g m" "\<And>x. spends sent (h x) (n x)" "\<And>e. g (Inl e) \<le> f (Inl e)" "\<And>x r. g (Inr x) + h x r \<le> f r"
  shows "spends sent f (bnd m n)"
proof (rule spendsI)
  fix k r k'
  assume run: "bnd m n k = (r, k')"
  obtain r1 k1 where 1: "m k = (r1, k1)" by (cases "m k")
  note c1 = spendsD [OF assms(1) 1]
  show "sentOf sent k' \<le> sentOf sent k + f r"
  proof (cases r1)
    case (Inl e)
    with run 1 c1 assms(3) [of e] show ?thesis by simp
  next
    case (Inr x)
    with run 1 have "n x k1 = (r, k')" by simp
    from spendsD [OF assms(2) this] c1 Inr assms(4) [of x r] show ?thesis by simp
  qed
qed

lemma spends_before: "free sent m \<Longrightarrow> (\<And>x. spends sent f (n x)) \<Longrightarrow> spends sent f (bnd m n)"
  by (rule spends_seq [where g = "\<lambda>_. 0" and h = "\<lambda>_. f"]) (auto intro: spends_free)

lemma spends_after: "spends sent f m \<Longrightarrow> (\<And>x. free sent (n x)) \<Longrightarrow> (\<And>x r. f (Inr x) \<le> g r) \<Longrightarrow> (\<And>e. f (Inl e) \<le> g (Inl e)) \<Longrightarrow> spends sent g (bnd m n)"
  by (rule spends_seq [where g = f and h = "\<lambda>_ _. 0"]) (auto intro: spends_free)

lemma spends_map: "spends sent g m \<Longrightarrow> (\<And>e. g (Inl e) \<le> f (Inl e)) \<Longrightarrow> (\<And>x. g (Inr x) \<le> f (Inr (h x))) \<Longrightarrow> spends sent f (bnd m (\<lambda>x. ret (h x)))"
  unfolding spends_def by (auto simp: bnd_run split: prod.splits sum.splits) (metis add_le_mono1 le_trans nat_add_left_cancel_le)+

lemma spends_generate:
  assumes "countsRequests sent deps"
  shows "spends sent (\<lambda>_. 1) (onShared (ld_generate deps p req))"
  using assms unfolding countsRequests_def
  by (intro spendsI) (auto simp: onShared_run sentOf_def split: prod.splits, metis snd_conv)

lemma spends_cases:
  "(b \<Longrightarrow> spends sent f m) \<Longrightarrow> (\<not> b \<Longrightarrow> spends sent f n) \<Longrightarrow> spends sent f (if b then m else n)" by simp

lemma summary_cost:
  assumes "countsRequests sent deps"
  shows "spends sent (\<lambda>_. n) (summaryAttempts deps p why it task n att rej)"
proof (induction n arbitrary: att rej)
  case 0
  show ?case by (simp add: spends_free free_intros)
next
  case (Suc n)
  have generate: "spends sent (\<lambda>_. 1) (tryCatch (onShared (ld_generate deps p req)) (\<lambda>e. raise (summaryError e)))" for req
    using spends_generate [OF assms, of p req] unfolding spends_def by (auto simp: tryCatch_run split: prod.splits sum.splits)
  show ?case
    unfolding summaryAttempts.simps
    apply (rule spends_before, rule free_intros)
    apply (rule spends_seq [where g = "\<lambda>_. 1" and h = "\<lambda>_ _. n"], rule generate)
      apply (rule spends_before, rule free_intros)
      apply (rule spends_before)
    subgoal for req r u by (cases "kr_kind r") (auto intro!: free_intros)
    subgoal for req r u v unfolding Let_def by (auto split: option.splits intro!: spends_free free_intros spends_before [OF _ Suc])
    by simp_all
qed

lemma final_summary_cost:
  assumes "countsRequests sent deps"
  shows "spends sent (\<lambda>_. 2) (requestFinalSummaryWithoutTools deps task it why)"
  unfolding requestFinalSummaryWithoutTools_def Let_def
  by (rule spends_before, rule free_deps [OF assms], rule spends_after, rule summary_cost [OF assms])
    (auto intro!: free_intros free_modify free_evaluate free_complete [OF assms] split: sum.split)

lemma drop_rest: "kn_shared (snd (dropForOverflow k)) = kn_shared k"
  by (simp add: dropForOverflow_def Let_def setTurnMessages_def split: prod.split TurnArray.split)

lemma attempt_cost:
  assumes "countsRequests sent deps"
  shows "spends sent (\<lambda>_. n) (attemptProvider deps p n overflowed req)"
proof (induction n arbitrary: overflowed req)
  case 0
  show ?case by (simp add: spends_free free_intros)
next
  case (Suc n)
  show ?case
  proof (rule spendsI)
    fix k r k'
    assume run: "attemptProvider deps p (Suc n) overflowed req k = (r, k')"
    obtain r1 k1 where g: "onShared (ld_generate deps p req) k = (r1, k1)" by (cases "onShared (ld_generate deps p req) k")
    have c1: "sentOf sent k1 \<le> sentOf sent k + 1" using spendsD [OF spends_generate [OF assms] g] .
    show "sentOf sent k' \<le> sentOf sent k + Suc n"
    proof (cases r1)
      case (Inr x)
      with run g c1 show ?thesis by simp
    next
      case (Inl e)
      let ?d = "snd (dropForOverflow k1)"
      have d: "sentOf sent ?d = sentOf sent k1" by (simp add: sentOf_def drop_rest)
      have again: "spends sent (\<lambda>_. n) (bnd (loopTrace a ty pl st sm task) (\<lambda>_. attemptProvider deps p n True req'))" for a ty pl st sm task req'
        by (rule spends_before, rule free_intros, rule Suc)
      have other: "spends sent (\<lambda>_. n) (bnd (traceRequestFailure p pe req) (\<lambda>_. bnd (ask (\<lambda>k. sh_abort (kn_shared k))) (\<lambda>abort.
          bnd (askLoop ls_taskRecoveryUsed) (\<lambda>used. if \<not> used \<and> abort = None \<and> pe_category pe = ''timeout_error''
            then bnd (startRecovery deps req []) (\<lambda>_. attemptProvider deps p n overflowed req)
            else bnd throwIfAborted (\<lambda>_. raise (ProviderError pe))))))" for pe
        unfolding traceRequestFailure_def startRecovery_def Let_def
        by (intro spends_before spends_cases Suc free_intros) (auto intro!: spends_free free_intros)
      have "sentOf sent k' \<le> sentOf sent k1 + n"
        using run g Inl spendsD [OF again, of _ _ _ _ _ _ _ ?d r k'] spendsD [OF other, of _ ?d r k'] spendsD [OF other, of _ k1 r k'] d
        by (auto simp: Let_def split: if_splits)
      with c1 show ?thesis by simp
    qed
  qed
qed

subsection \<open>The bound\<close>

definition turnCost :: "thrown + TurnOutcome \<Rightarrow> nat" where
  "turnCost r = (case r of Inr (Turn_again _) \<Rightarrow> 0 | Inr (Turn_tools _) \<Rightarrow> 0 | _ \<Rightarrow> 2)"

definition iterationCost :: "thrown + IterationOutcome \<Rightarrow> nat" where
  "iterationCost r = (case r of Inr (Iterate _) \<Rightarrow> 0 | _ \<Rightarrow> 2)"

lemma returning_cost:
  assumes "countsRequests sent deps"
  shows "spends sent turnCost (bnd (requestFinalSummaryWithoutTools deps task it why) (\<lambda>res. ret (Turn_return res)))"
  by (rule spends_map, rule final_summary_cost [OF assms]) (simp_all add: turnCost_def)

lemma handlers_cost:
  assumes "countsRequests sent deps"
  shows "spends sent turnCost (handleRetry deps it d why lv)" "spends sent turnCost (handleFinal deps p it r lv)"
    "spends sent turnCost (handleToolCalls deps it r lv)"
proof -
  show "spends sent turnCost (handleRetry deps it d why lv)"
    unfolding handleRetry_def by (intro spends_free free_intros free_deps [OF assms])
  show "spends sent turnCost (handleFinal deps p it r lv)"
  proof -
    let ?text = "case resolveProviderFinalText True (kr_message r) (kr_reasoningContent r) of None \<Rightarrow> [] | Some t \<Rightarrow> t"
    have accepted: "free sent (case d of None \<Rightarrow> ret (Turn_again lv) | Some out \<Rightarrow>
        bnd (completeTaskSuccess deps (lv_task lv) out) (\<lambda>res. ret (Turn_return res)))" for d
      by (intro free_intros free_complete [OF assms])
    show ?thesis
    proof (cases "isAcceptableUserFinalText True (kr_message r) (kr_reasoningContent r) ?text")
      case None
      then show ?thesis
        unfolding handleFinal_def Let_def by (simp only: option.case) (intro spends_free free_control free_evaluate accepted)
    next
      case (Some w)
      then show ?thesis
        unfolding handleFinal_def Let_def by (simp only: option.case) (rule spends_before, rule free_intros, rule returning_cost [OF assms])
    qed
  qed
  show "spends sent turnCost (handleToolCalls deps it r lv)"
  proof -
    have step: "spends sent turnCost (case x of (decision, s) \<Rightarrow> bnd (setLoop (\<lambda>_. s)) (\<lambda>_. if decision = Summarize
        then bnd (requestFinalSummaryWithoutTools deps (lv_task lv) it Post_completion_verification_exhausted) (\<lambda>res. ret (Turn_return res))
        else bnd (kernelTaskUpdate (ld_now deps) (tk_taskId (lv_task lv)) (noTaskPatch\<lparr>tp_status := Some T_waiting_tool\<rparr>)) (\<lambda>task.
          ret (Turn_tools (lv\<lparr>lv_task := task, lv_pending := responseCalls r, lv_lastToolCalls := Some r\<rparr>)))))" for x
      by (cases x, simp only: prod.case, rule spends_before [OF free_loop(1)], rule spends_cases, rule returning_cost [OF assms])
        (intro spends_free free_intros)
    show ?thesis
      unfolding handleToolCalls_def by (rule spends_before [OF free_loop(2) step])
  qed
qed

lemma modelTurn_cost:
  assumes "countsRequests sent deps"
  shows "spends sent (\<lambda>r. 2 + turnCost r) (modelTurn deps it lv)"
  unfolding modelTurn_def Let_def
  apply (rule spends_before, rule free_plan [OF assms])
  apply (rule spends_before, rule free_prepare)
  apply (rule spends_before, rule free_announce [OF assms])
  apply (rule spends_before, rule free_deps [OF assms])
  apply (rule spends_before, rule free_announce [OF assms])
  apply (rule spends_seq [where g = "\<lambda>_. 2" and h = "\<lambda>_. turnCost"], rule attempt_cost [OF assms])
  subgoal for tools req u p v answer
    apply (cases answer)
     apply (simp add: spends_free free_intros)
    apply simp
    apply (rule spends_before, rule free_record [OF assms])
    subgoal for r by (cases "kr_kind r") (simp_all add: handlers_cost [OF assms])
    done
  by (simp_all add: turnCost_def)

lemma iteration_cost:
  assumes "countsRequests sent deps"
  shows "spends sent (\<lambda>r. 2 + iterationCost r) (loopIteration deps it lv)"
proof -
  have turn: "spends sent (\<lambda>r. 2 + turnCost r) (if lv_pending lv1 = [] then modelTurn deps it lv1 else ret (Turn_tools lv1))" for lv1
    by (rule spends_cases, rule modelTurn_cost [OF assms], rule spends_free, rule free_control)
  have rest: "free sent (case turn of Turn_tools lv2 \<Rightarrow> toolPhase deps it lv2 | Turn_again lv2 \<Rightarrow> ret (Iterate lv2) | Turn_return r \<Rightarrow> ret (Finished_with r))" for turn
    by (cases turn) (auto intro!: free_intros free_toolPhase [OF assms])
  show ?thesis
    unfolding loopIteration_def
  proof (rule spends_before [OF free_begin], rule spendsI)
    fix lv1 k r k'
    assume run: "bnd (if lv_pending lv1 = [] then modelTurn deps it lv1 else ret (Turn_tools lv1))
      (\<lambda>turn. case turn of Turn_tools lv2 \<Rightarrow> toolPhase deps it lv2 | Turn_again lv2 \<Rightarrow> ret (Iterate lv2) | Turn_return r \<Rightarrow> ret (Finished_with r)) k = (r, k')"
    obtain r1 k1 where 1: "(if lv_pending lv1 = [] then modelTurn deps it lv1 else ret (Turn_tools lv1)) k = (r1, k1)"
      by (cases "(if lv_pending lv1 = [] then modelTurn deps it lv1 else ret (Turn_tools lv1)) k")
    note c = spendsD [OF turn 1]
    show "sentOf sent k' \<le> sentOf sent k + (2 + iterationCost r)"
    proof (cases r1)
      case (Inl e)
      with run 1 c show ?thesis by (auto simp: turnCost_def iterationCost_def)
    next
      case (Inr t)
      with run 1 have 2: "(case t of Turn_tools lv2 \<Rightarrow> toolPhase deps it lv2 | Turn_again lv2 \<Rightarrow> ret (Iterate lv2) | Turn_return r \<Rightarrow> ret (Finished_with r)) k1 = (r, k')"
        by simp
      from free.followsD [OF rest this] c Inr 2 show ?thesis
        by (cases t) (auto simp: turnCost_def iterationCost_def split: sum.split IterationOutcome.split)
    qed
  qed
qed

lemma loopFrom_cost:
  assumes "countsRequests sent deps"
  shows "spends sent (\<lambda>r. 2 * n + (case r of Inr (Inl _) \<Rightarrow> 0 | _ \<Rightarrow> 2)) (loopFrom deps n it lv)"
proof (induction n arbitrary: it lv)
  case 0
  show ?case by (simp add: spends_free free_intros)
next
  case (Suc n)
  show ?case
  proof (rule spendsI)
    fix k r k'
    assume run: "loopFrom deps (Suc n) it lv k = (r, k')"
    obtain r1 k1 where 1: "loopIteration deps it lv k = (r1, k1)" by (cases "loopIteration deps it lv k")
    note c = spendsD [OF iteration_cost [OF assms] 1]
    show "sentOf sent k' \<le> sentOf sent k + (2 * Suc n + (case r of Inr (Inl _) \<Rightarrow> 0 | _ \<Rightarrow> 2))"
    proof (cases r1)
      case (Inl e)
      with run 1 c show ?thesis by (auto simp: iterationCost_def)
    next
      case (Inr oc)
      show ?thesis
      proof (cases oc)
        case (Finished_with x)
        with run 1 c Inr show ?thesis by (auto simp: iterationCost_def)
      next
        case (Iterate lv1)
        with run 1 Inr have "loopFrom deps n (it + 1) lv1 k1 = (r, k')" by simp
        from spendsD [OF Suc this] c Inr Iterate show ?thesis by (simp add: iterationCost_def)
      qed
    qed
  qed
qed

text \<open>
  C6: whatever the model and the tools answer, a task that enters the loop with n iterations left sends at most
  2 n + 2 requests for its conversation: two per iteration (the second after an overflow or a timeout) and two for the
  final summary, however the task ends.
\<close>

theorem requests_bounded:
  assumes "countsRequests sent deps" and "executeLoop deps k = (r, k')"
  shows "sent (sh_rest (kn_shared k')) \<le> sent (sh_rest (kn_shared k)) + 2 * iterationsLeft (kn_loop k) + 2"
proof -
  have after: "spends sent (\<lambda>_. 2) (afterLoop deps lv)" for lv
    unfolding afterLoop_def
    by (rule spends_before, rule free_intros, rule spends_cases)
      (auto intro!: spends_free free_intros free_complete [OF assms(1)] spends_before [OF free_records(1) final_summary_cost [OF assms(1)]])
  let ?k1 = "k\<lparr>kn_messages := ls_messages (kn_loop k)\<rparr>"
  let ?lv = "\<lparr>lv_task = ls_task (kn_loop k), lv_pending = ls_pendingToolCalls (kn_loop k), lv_lastToolCalls = None, lv_tools = ld_listTools deps (kn_shared ?k1)\<rparr>"
  obtain r1 k2 where 1: "loopFrom deps (iterationsLeft (kn_loop k)) (firstIteration (kn_loop k)) ?lv ?k1 = (r1, k2)"
    by (cases "loopFrom deps (iterationsLeft (kn_loop k)) (firstIteration (kn_loop k)) ?lv ?k1")
  note c = spendsD [OF loopFrom_cost [OF assms(1)] 1]
  have "sentOf sent k' \<le> sentOf sent k + 2 * iterationsLeft (kn_loop k) + 2"
  proof (cases r1)
    case (Inl e)
    with assms(2) 1 c show ?thesis by (simp add: executeLoop_def bnd_run kernel_run sentOf_def)
  next
    case (Inr x)
    show ?thesis
    proof (cases x)
      case (Inr out)
      with assms(2) 1 c \<open>r1 = Inr x\<close> show ?thesis by (simp add: executeLoop_def bnd_run kernel_run sentOf_def)
    next
      case (Inl lv)
      with assms(2) 1 \<open>r1 = Inr x\<close> have "afterLoop deps lv k2 = (r, k')" by (simp add: executeLoop_def bnd_run kernel_run)
      from spendsD [OF after this] c Inl \<open>r1 = Inr x\<close> show ?thesis by (simp add: sentOf_def)
    qed
  qed
  then show ?thesis by (simp add: sentOf_def)
qed

end
