(* ===== verification/TaskRuns.thy ===== *)
theory TaskRuns
  imports LoopRun
begin

section \<open>Starting, resuming and failing a task\<close>

text \<open>
  The entry points of src/src/runtime/execution-kernel.ts around the loop: \<open>run\<close>, \<open>resumeTask\<close>,
  \<open>resumeTaskAfterApprovalFailure\<close>, the failures of waiting tasks, and \<open>finalizeTaskFailure\<close>. The operations act on a
  \<open>Kernel\<close> whose loop state they overwrite. The table of run metadata, the transcript and the
  preparation of the first messages (tool exposure, recall, map of the repository, continuation of a session) are parameters.
\<close>

record RunOptions =
  ro_taskId :: string
  ro_taskInput :: string
  ro_cwd :: string
  ro_agentProfileId :: AgentProfileId
  ro_userId :: string
  ro_sessionId :: "string option"
  ro_maxIterations :: int
  ro_tokenBudget :: TokenBudget
  ro_metadata :: json_object
  ro_interactionMode :: "InteractionMode option"
  ro_onTaskEvent :: bool
  ro_timeoutMode :: "TimeoutMode option"
  ro_timeoutMs :: int

text \<open>What \<open>run\<close> has gathered when it enters the loop.\<close>

record RunContext =
  rx_messages :: msgs
  rx_recallFragments :: "ContextFragment list"
  rx_resumeMemoryContext :: "ContextFragment list"
  rx_repoMapSummary :: "string option"

text \<open>What a resumption reads of the row of run metadata.\<close>

record RunMetadata =
  rm_metadata :: json_object
  rm_timeoutMs :: int

record 'm KernelDeps =
  kd_loop :: "'m LoopDeps"
  kd_parse :: "string \<Rightarrow> json option"
  kd_describe :: "string \<Rightarrow> ProviderToolDescriptor option"
  kd_contextRetention :: "ContextRetentionConfig option"
  kd_artifactsRoot :: string
  kd_runMetadata :: "'m Shared \<Rightarrow> string \<Rightarrow> RunMetadata option"
  kd_skillMetadata :: "string \<Rightarrow> json_object"
  kd_agentWriteApproval :: json
  kd_announce :: "TaskRecord \<Rightarrow> ('m Shared, unit) op"
  kd_createRunMetadata :: "TaskRecord \<Rightarrow> json_object \<Rightarrow> ('m Shared, unit) op"
  kd_prepare :: "RunOptions \<Rightarrow> TaskRecord \<Rightarrow> ('m Shared, RunContext) op"

subsection \<open>The state a run starts with\<close>

definition freshLoopState :: "'m KernelDeps \<Rightarrow> TaskRecord \<Rightarrow> ExecutionLoopState" where
  "freshLoopState deps task = \<lparr>ls_compactedCount = 0, ls_compactCooldownRemaining = 0, ls_costWarnedToolNames = [],
     ls_cumulativeToolCallCount = 0, ls_cwd = tk_cwd task, ls_iterationsSinceLastCompact = 0,
     ls_maxIterations = tk_maxIterations task, ls_microPrunedCount = 0, ls_memoryContext = [], ls_memoryRecall = None,
     ls_messages = [], ls_onTaskEvent = False, ls_pendingToolCalls = [], ls_completionIntentSeenAt = None,
     ls_completionVerificationGuardEmitted = False, ls_completionVerificationSatisfied = False,
     ls_completionVerificationSatisfiedEmitted = False, ls_criticalBudgetPressureEmitted = False,
     ls_interactionMode = None, ls_postCompletionVerificationReads = 0, ls_readOnlyTurns = 0, ls_selectedSkillContext = [],
     ls_silentToolTurns = 0, ls_toolCallSignatures = (\<lambda>_. None), ls_turnProviderMessages = State_messages,
     ls_recentFileReadCache = map_option newRecentFileReadCache (kd_contextRetention deps), ls_repoMapSummary = None,
     ls_task = task, ls_taskRecoveryUsed = False, ls_timeoutMode = Timeout_wall_clock, ls_timeoutMs = 0, ls_tokenBudget = tk_tokenBudget task,
     ls_tokenCounter = createHybridTokenCounterState, ls_toolArtifactsRoot = kd_artifactsRoot deps,
     ls_warningBudgetPressureEmitted = False, ls_writeToolSucceeded = False\<rparr>"

definition runTimeoutMode :: "RunOptions \<Rightarrow> TimeoutMode" where
  "runTimeoutMode o1 = (case ro_timeoutMode o1 of None \<Rightarrow> Timeout_wall_clock | Some m \<Rightarrow> m)"

definition startedLoopState :: "'m KernelDeps \<Rightarrow> RunOptions \<Rightarrow> TaskRecord \<Rightarrow> RunContext \<Rightarrow> ExecutionLoopState" where
  "startedLoopState deps o1 task x = (freshLoopState deps task)\<lparr>ls_cwd := ro_cwd o1, ls_interactionMode := ro_interactionMode o1,
     ls_maxIterations := ro_maxIterations o1, ls_memoryContext := rx_recallFragments x @ rx_resumeMemoryContext x,
     ls_messages := rx_messages x, ls_onTaskEvent := ro_onTaskEvent o1, ls_repoMapSummary := rx_repoMapSummary x,
     ls_selectedSkillContext := filter (\<lambda>f. cf_scope f = Skill_ref) (rx_recallFragments x),
     ls_timeoutMode := runTimeoutMode o1, ls_timeoutMs := ro_timeoutMs o1, ls_tokenBudget := ro_tokenBudget o1\<rparr>"

fun agentProfileStr :: "AgentProfileId \<Rightarrow> string" where
  "agentProfileStr Planner = ''planner''"
| "agentProfileStr Executor = ''executor''"
| "agentProfileStr Reviewer = ''reviewer''"

fun interactionModeStr :: "InteractionMode \<Rightarrow> string" where
  "interactionModeStr Agent_mode = ''agent''"
| "interactionModeStr Plan_mode = ''plan''"
| "interactionModeStr AcceptEdits_mode = ''acceptEdits''"

definition readInteractionModeFromMetadata :: "json_object \<Rightarrow> InteractionMode" where
  "readInteractionModeFromMetadata metadata =
     (if jget metadata ''interactionMode'' = Some (JStr ''plan'') then Plan_mode
      else if jget metadata ''interactionMode'' = Some (JStr ''acceptEdits'') then AcceptEdits_mode
      else Agent_mode)"

definition hasRecoveryBeenUsed :: "string \<Rightarrow> TraceEvent list \<Rightarrow> bool" where
  "hasRecoveryBeenUsed taskId events = list_ex (\<lambda>e. te_taskId e = taskId \<and> te_eventType e = ''task_recovery_started'') events"

definition resumedLoopState :: "'m KernelDeps \<Rightarrow> TaskRecord \<Rightarrow> RunMetadata \<Rightarrow> ResumeCheckpointState \<Rightarrow> ProviderToolCall list \<Rightarrow>
    'm Shared \<Rightarrow> ExecutionLoopState" where
  "resumedLoopState deps task metadata rc pending sh = (freshLoopState deps task)\<lparr>
     ls_interactionMode := Some (readInteractionModeFromMetadata (rm_metadata metadata)), ls_memoryContext := ck_memoryContext (rc_checkpoint rc),
     ls_messages := ck_messages (rc_checkpoint rc), ls_pendingToolCalls := pending,
     ls_taskRecoveryUsed := hasRecoveryBeenUsed (tk_taskId task) (sh_trace sh), ls_timeoutMs := rm_timeoutMs metadata,
     ls_toolCallSignatures := rc_toolCallSignatures rc, ls_writeToolSucceeded := rc_writeToolSucceeded rc\<rparr>"

subsection \<open>The failure of a task\<close>

text \<open>\<open>emitTaskEvent\<close> with the callback of the options.\<close>

definition emitIf :: "bool \<Rightarrow> RuntimeTaskEvent \<Rightarrow> ('m, unit) kop" where
  "emitIf callback e = modify (\<lambda>k. if callback then k\<lparr>kn_events := kn_events k @ [e]\<rparr> else k)"

definition failurePatch :: "instant \<Rightarrow> RuntimeErrorCode \<Rightarrow> string \<Rightarrow> TaskStatus \<Rightarrow> TaskUpdatePatch" where
  "failurePatch now code msg status = noTaskPatch\<lparr>tp_errorCode := Some (Some code), tp_errorMessage := Some (Some msg),
     tp_finishedAt := Some (Some now), tp_status := Some status\<rparr>"

definition finalOutcomePayload :: "RuntimeErrorCode \<Rightarrow> string \<Rightarrow> string \<Rightarrow> json_object" where
  "finalOutcomePayload code msg status = [(''errorCode'', JStr (errorCodeStr code)), (''errorMessage'', JStr msg), (''output'', JNull),
     (''status'', JStr status)]"

definition finalizeTaskFailure :: "'m LoopDeps \<Rightarrow> bool \<Rightarrow> TaskRecord \<Rightarrow> app_error \<Rightarrow> ('m, thrown) kop" where
  "finalizeTaskFailure deps callback task err =
     (case err of (code, msg, details) \<Rightarrow>
       let final = (if code = Interrupt then T_cancelled else T_failed); status = taskStatusStr final
       in bnd (if code = Interrupt \<or> code = Timeout
               then loopTrace ''runtime.kernel'' ''interrupt'' [(''iteration'', JNum (tk_currentIteration task)), (''reason'', JStr msg)]
                 ''control'' (''Task interrupted with '' @ errorCodeStr code) task
               else ret ()) (\<lambda>_.
          bnd (deleteCheckpoint (tk_taskId task)) (\<lambda>_.
          bnd (kernelTaskUpdate (ld_now deps) (tk_taskId task) (failurePatch (ld_now deps) code msg final)) (\<lambda>_.
          bnd (emitIf callback (Result_event (tk_taskId task) status None (Some (errorCodeStr code)) (Some msg))) (\<lambda>_.
          bnd (loopTrace ''runtime.kernel'' ''final_outcome'' (finalOutcomePayload code msg status) ''completion''
             ''Task finished with an error'' task) (\<lambda>_.
          bnd (loopTrace ''runtime.kernel'' ''task_failure'' [(''cwd'', JStr (tk_cwd task)), (''errorCode'', JStr (errorCodeStr code)),
             (''errorMessage'', JStr msg), (''status'', JStr status)] ''lifecycle'' ''Task failure lifecycle hook published'' task) (\<lambda>_.
          bnd (loopTrace ''runtime.kernel'' ''session_end'' [(''status'', JStr status), (''summary'', JStr msg)] ''lifecycle''
             ''Session end lifecycle hook published'' task) (\<lambda>_.
          bnd (persistSessionTask deps task [(''errorCode'', JStr (errorCodeStr code)), (''errorMessage'', JStr msg),
             (''finalOutput'', jopt (tk_finalOutput task)), (''status'', JStr status)]) (\<lambda>_.
          bnd (onShared (ld_recordFailure deps task (errorCodeStr code) msg)) (\<lambda>_.
          ret (AppError code msg (Some (spread (case details of None \<Rightarrow> [] | Some d \<Rightarrow> d) [(''taskId'', JStr (tk_taskId task))])))))))))))))"

text \<open>\<open>catch (error) { throw this.finalizeTaskFailure(\<dots>) }\<close>.\<close>

definition failingWith :: "'m LoopDeps \<Rightarrow> bool \<Rightarrow> ('m Kernel \<Rightarrow> TaskRecord) \<Rightarrow> ('m, 'a) kop \<Rightarrow> ('m, 'a) kop" where
  "failingWith deps callback task body = tryCatch body (\<lambda>e.
     bnd (ask task) (\<lambda>t. bnd (finalizeTaskFailure deps callback t (toAppError e)) raise))"

subsection \<open>A new task\<close>

definition taskSupersededEvent :: "string \<Rightarrow> string \<Rightarrow> string \<Rightarrow> TraceEvent" where
  "taskSupersededEvent activeTaskId sessionId stale = \<lparr>te_actor = ''runtime.kernel'', te_eventType = ''task_superseded'',
     te_payload = [(''activeTaskId'', JStr activeTaskId), (''sessionId'', JStr sessionId), (''supersededTaskId'', JStr stale)],
     te_stage = ''lifecycle'', te_summary = ''Stale running task cancelled for session continuation'', te_taskId = activeTaskId\<rparr>"

definition supersedeOne :: "instant \<Rightarrow> string \<Rightarrow> string \<Rightarrow> string \<Rightarrow> ('m, unit) kop" where
  "supersedeOne now sessionId activeTaskId i =
     (if i = activeTaskId then ret ()
      else bnd (ask (\<lambda>k. taskFindById i (sh_tasks (kn_shared k)))) (\<lambda>stale.
        case stale of
          None \<Rightarrow> ret ()
        | Some t \<Rightarrow> if tk_status t \<noteq> T_running then ret ()
            else bnd (kernelTaskUpdate now i (failurePatch now Cancelled ''Superseded by a newer session task.'' T_cancelled)) (\<lambda>_.
                 kernelTrace (taskSupersededEvent activeTaskId sessionId i))))"

definition supersedeStaleSessionTasks :: "'m KernelDeps \<Rightarrow> string \<Rightarrow> string \<Rightarrow> ('m, unit) kop" where
  "supersedeStaleSessionTasks deps sessionId activeTaskId =
     bnd (ask (\<lambda>k. sessionTaskListBySessionId sessionId (sh_sessionTasks (kn_shared k)))) (\<lambda>rows.
     bnd (forEach (supersedeOne (ld_now (kd_loop deps)) sessionId activeTaskId) (map st_taskId rows)) (\<lambda>_. ret ()))"

definition runTaskMetadata :: "'m KernelDeps \<Rightarrow> RunOptions \<Rightarrow> json_object" where
  "runTaskMetadata deps o1 =
     spread (spread (spread (ro_metadata o1) (kd_skillMetadata deps (ro_taskInput o1)))
       (case ro_interactionMode o1 of None \<Rightarrow> [] | Some m \<Rightarrow> [(''interactionMode'', JStr (interactionModeStr m))]))
       [(''agentWriteApproval'', kd_agentWriteApproval deps)]"

definition runDraft :: "'m KernelDeps \<Rightarrow> RunOptions \<Rightarrow> TaskDraft" where
  "runDraft deps o1 = \<lparr>tf_taskId = ro_taskId o1, tf_sessionId = ro_sessionId o1, tf_input = ro_taskInput o1, tf_cwd = ro_cwd o1,
     tf_providerName = ld_providerName (kd_loop deps), tf_agentProfileId = ro_agentProfileId o1, tf_requesterUserId = ro_userId o1,
     tf_maxIterations = ro_maxIterations o1, tf_tokenBudget = ro_tokenBudget o1, tf_metadata = Some (runTaskMetadata deps o1)\<rparr>"

definition startPatch :: "instant \<Rightarrow> TaskUpdatePatch" where
  "startPatch now = noTaskPatch\<lparr>tp_startedAt := Some (Some now), tp_status := Some T_running\<rparr>"

text \<open>A new abort controller: nothing has aborted the run yet.\<close>

definition newAbortController :: "('m, unit) kop" where
  "newAbortController = onShared (modify (\<lambda>s. s\<lparr>sh_abort := None\<rparr>))"

text \<open>What follows the start of the task: its context is gathered and the loop entered.\<close>

definition runBody :: "'m KernelDeps \<Rightarrow> RunOptions \<Rightarrow> TaskRecord \<Rightarrow> ('m, RuntimeRunResult) kop" where
  "runBody deps o1 task =
     bnd (emitIf (ro_onTaskEvent o1)
        (Lifecycle_event (tk_taskId task) (taskStatusStr (tk_status task)) (tk_currentIteration task) ''Task started'')) (\<lambda>_.
     bnd (loopTrace ''runtime.kernel'' ''task_started'' [(''maxIterations'', JNum (ro_maxIterations o1)),
        (''timeoutMode'', JStr (timeoutModeStr (runTimeoutMode o1))), (''timeoutMs'', JNum (ro_timeoutMs o1))] ''lifecycle''
        ''Task execution started'' task) (\<lambda>_.
     bnd (onShared (kd_prepare deps o1 task)) (\<lambda>x.
     bnd (setLoop (\<lambda>_. startedLoopState deps o1 task x)) (\<lambda>_.
     executeLoop (kd_loop deps)))))"

text \<open>What precedes the \<open>try\<close>: the task's row, its announcement, its metadata and its abort controller.\<close>

definition createRun :: "'m KernelDeps \<Rightarrow> RunOptions \<Rightarrow> ('m, TaskRecord) kop" where
  "createRun deps o1 =
     bnd (onShared (zoom sh_tasks (\<lambda>t s. s\<lparr>sh_tasks := t\<rparr>) (taskCreate (ld_now (kd_loop deps)) (runDraft deps o1)))) (\<lambda>created.
     bnd (case ro_sessionId o1 of None \<Rightarrow> ret () | Some s \<Rightarrow> supersedeStaleSessionTasks deps s (ro_taskId o1)) (\<lambda>_.
     bnd (loopTrace ''runtime.kernel'' ''task_created'' [(''agentProfileId'', JStr (agentProfileStr (ro_agentProfileId o1))),
        (''cwd'', JStr (ro_cwd o1)), (''input'', JStr (ro_taskInput o1)), (''providerName'', JStr (ld_providerName (kd_loop deps))),
        (''requesterUserId'', JStr (ro_userId o1))] ''lifecycle'' ''Task persisted'' created) (\<lambda>_.
     bnd (onShared (kd_announce deps created)) (\<lambda>_.
     bnd (onShared (kd_createRunMetadata deps created (runTaskMetadata deps o1))) (\<lambda>_.
     bnd newAbortController (\<lambda>_. ret created))))))"

definition beginRun :: "'m KernelDeps \<Rightarrow> RunOptions \<Rightarrow> ('m, TaskRecord) kop" where
  "beginRun deps o1 = kernelTaskUpdate (ld_now (kd_loop deps)) (ro_taskId o1) (startPatch (ld_now (kd_loop deps)))"

text \<open>The handler of the \<open>try\<close> reads the variable \<open>task\<close>: the created task until it is started.\<close>

definition run :: "'m KernelDeps \<Rightarrow> RunOptions \<Rightarrow> ('m, RuntimeRunResult) kop" where
  "run deps o1 =
     bnd (createRun deps o1) (\<lambda>created.
     bnd (failingWith (kd_loop deps) (ro_onTaskEvent o1) (\<lambda>_. created) (beginRun deps o1)) (\<lambda>task.
     failingWith (kd_loop deps) (ro_onTaskEvent o1) (\<lambda>_. task) (runBody deps o1 task)))"

subsection \<open>Resuming\<close>

definition notResumable :: "string \<Rightarrow> thrown" where
  "notResumable why = AppError Task_not_resumable why None"

definition findTask :: "string \<Rightarrow> ('m, TaskRecord) kop" where
  "findTask taskId = bnd (ask (\<lambda>k. taskFindById taskId (sh_tasks (kn_shared k)))) (\<lambda>r.
     case r of None \<Rightarrow> raise (AppError Task_not_found (''Task '' @ taskId @ '' was not found.'') None) | Some t \<Rightarrow> ret t)"

definition resumeFrom :: "'m KernelDeps \<Rightarrow> string \<Rightarrow> ResumeCheckpointState \<Rightarrow> ProviderToolCall list \<Rightarrow> ('m, RuntimeRunResult) kop" where
  "resumeFrom deps taskId rc pending =
     bnd (ask (\<lambda>k. kd_runMetadata deps (kn_shared k) taskId)) (\<lambda>row.
     case row of
       None \<Rightarrow> raise (notResumable (''Task '' @ taskId @ '' has no run metadata to resume from.''))
     | Some metadata \<Rightarrow>
         bnd newAbortController (\<lambda>_.
         bnd (kernelTaskUpdate (ld_now (kd_loop deps)) taskId (noTaskPatch\<lparr>tp_status := Some T_running\<rparr>)) (\<lambda>task.
         failingWith (kd_loop deps) False
           (\<lambda>k. case taskFindById taskId (sh_tasks (kn_shared k)) of Some t \<Rightarrow> t | None \<Rightarrow> task)
           (bnd (modify (\<lambda>k. k\<lparr>kn_loop := resumedLoopState deps task metadata rc pending (kn_shared k)\<rparr>)) (\<lambda>_.
            executeLoop (kd_loop deps))))))"

definition resumeTask :: "'m KernelDeps \<Rightarrow> string \<Rightarrow> ('m, RuntimeRunResult) kop" where
  "resumeTask deps taskId =
     bnd (findTask taskId) (\<lambda>task.
     if tk_status task \<noteq> T_waiting_approval \<and> tk_status task \<noteq> T_waiting_clarification
     then raise (notResumable (''Task '' @ taskId @ '' is not waiting for approval or clarification.''))
     else bnd (ask (\<lambda>k. loadForResume (kd_parse deps) (kd_describe deps) task (sh_checkpoints (kn_shared k)))) (\<lambda>r.
          bnd (liftRes r) (\<lambda>rc. resumeFrom deps taskId rc (ck_pendingToolCalls (rc_checkpoint rc)))))"

text \<open>After a refusal only the refused call is run again.\<close>

definition resumeTaskAfterApprovalFailure :: "'m KernelDeps \<Rightarrow> string \<Rightarrow> string \<Rightarrow> ('m, RuntimeRunResult) kop" where
  "resumeTaskAfterApprovalFailure deps taskId toolCallId =
     bnd (findTask taskId) (\<lambda>task.
     if tk_status task \<noteq> T_waiting_approval
     then raise (notResumable (''Task '' @ taskId @ '' is not waiting for approval.''))
     else bnd (ask (\<lambda>k. loadForResume (kd_parse deps) (kd_describe deps) task (sh_checkpoints (kn_shared k)))) (\<lambda>r.
          bnd (liftRes r) (\<lambda>rc.
          case List.find (\<lambda>c. pc_toolCallId c = toolCallId) (ck_pendingToolCalls (rc_checkpoint rc)) of
            None \<Rightarrow> raise (notResumable (''Task '' @ taskId @ '' checkpoint has no pending tool call '' @ toolCallId @ ''.''))
          | Some rejected \<Rightarrow> resumeFrom deps taskId rc [rejected])))"

subsection \<open>Waiting tasks that fail\<close>

definition failWaitingTask :: "TaskStatus \<Rightarrow> string \<Rightarrow> 'm KernelDeps \<Rightarrow> string \<Rightarrow> RuntimeErrorCode \<Rightarrow> string \<Rightarrow> ('m, TaskRecord) kop" where
  "failWaitingTask waiting why deps taskId code msg =
     bnd (findTask taskId) (\<lambda>task.
     if tk_status task \<noteq> waiting then ret task
     else bnd (deleteCheckpoint taskId) (\<lambda>_.
          bnd (kernelTaskUpdate (ld_now (kd_loop deps)) taskId (failurePatch (ld_now (kd_loop deps)) code msg T_failed)) (\<lambda>failed.
          bnd (loopTrace ''runtime.kernel'' ''final_outcome'' (finalOutcomePayload code msg ''failed'') ''completion'' why task) (\<lambda>_.
          ret failed))))"

definition failWaitingApprovalTask :: "'m KernelDeps \<Rightarrow> string \<Rightarrow> RuntimeErrorCode \<Rightarrow> string \<Rightarrow> ('m, TaskRecord) kop" where
  "failWaitingApprovalTask = failWaitingTask T_waiting_approval ''Task finished with an approval failure''"

definition failWaitingClarificationTask :: "'m KernelDeps \<Rightarrow> string \<Rightarrow> RuntimeErrorCode \<Rightarrow> string \<Rightarrow> ('m, TaskRecord) kop" where
  "failWaitingClarificationTask = failWaitingTask T_waiting_clarification ''Task finished with a clarification failure''"

end
