(* ===== verification/TaskRunsProps.thy ===== *)
theory TaskRunsProps
  imports TaskRuns LoopProps
begin

section \<open>Properties of the start, the pause and the failure of tasks\<close>

subsection \<open>Pausing and resuming\<close>

text \<open>What the pause stores is what a resumption loads.\<close>

lemma paused_checkpoint:
  assumes "tryPauseToolExecution deps pending i task it c oc k = (Inr (Some t), k')"
  shows "\<exists>rc. loadForResume parse describe t (sh_checkpoints (kn_shared k')) = Inr rc \<and>
    ck_messages (rc_checkpoint rc) = kn_messages k \<and> ck_memoryContext (rc_checkpoint rc) = ls_memoryContext (kn_loop k) \<and>
    ck_pendingToolCalls (rc_checkpoint rc) = drop i pending"
proof -
  have pause: "\<exists>rc. loadForResume parse describe u (sh_checkpoints (kn_shared k')) = Inr rc \<and>
      ck_messages (rc_checkpoint rc) = kn_messages k \<and> ck_memoryContext (rc_checkpoint rc) = ls_memoryContext (kn_loop k) \<and>
      ck_pendingToolCalls (rc_checkpoint rc) = drop i pending"
    if "pauseTask deps pending i task it c st ev p k = (Inr u, k')" for st ev p u
    using that unfolding pauseTask_def
    by (auto elim!: bnd_InrE dest!: task_updated simp: saveCheckpoint_def kernel_run loadForResume_def checkpoint_saved split: if_splits)
  have "\<exists>st ev p. pauseTask deps pending i task it c st ev p k = (Inr t, k')"
    using assms unfolding tryPauseToolExecution_def by (cases oc) (fastforce elim!: bnd_InrE)+
  with pause show ?thesis by blast
qed

text \<open>The row of the paused task differs from the one before in its status and the time of its change.\<close>

lemma paused_row:
  assumes "tryPauseToolExecution deps pending i task it c oc k = (Inr (Some t), k')"
  shows "\<exists>row st. taskFindById (tk_taskId task) (sh_tasks (kn_shared k)) = Some row \<and> st \<in> {T_waiting_approval, T_waiting_clarification} \<and>
    t = row\<lparr>tk_status := st, tk_updatedAt := bd_now deps\<rparr>"
proof -
  have pause: "\<exists>row. taskFindById (tk_taskId task) (sh_tasks (kn_shared k)) = Some row \<and> t = row\<lparr>tk_status := st, tk_updatedAt := bd_now deps\<rparr>"
    if "pauseTask deps pending i task it c st ev p k = (Inr t, k')" for st ev p
    using that unfolding pauseTask_def
    by (auto elim!: bnd_InrE dest!: task_updated simp: taskPatch_def noTaskPatch_def patched_def)
  show ?thesis
    using assms unfolding tryPauseToolExecution_def by (cases oc) (fastforce elim!: bnd_InrE dest: pause)+
qed

text \<open>What a resumption of a waiting task enters the loop with.\<close>

definition resumedKernel :: "'m KernelDeps \<Rightarrow> TaskRecord \<Rightarrow> RunMetadata \<Rightarrow> ResumeCheckpointState \<Rightarrow> ProviderToolCall list \<Rightarrow>
    'm Kernel \<Rightarrow> 'm Kernel" where
  "resumedKernel deps task md rc pending k =
     (let now = ld_now (kd_loop deps); t = task\<lparr>tk_status := T_running, tk_updatedAt := now\<rparr>;
          sh = (kn_shared k)\<lparr>sh_abort := None, sh_tasks := rowSet tk_taskId (tk_taskId task) t (sh_tasks (kn_shared k))\<rparr>
      in k\<lparr>kn_shared := sh, kn_loop := resumedLoopState deps t md rc pending sh\<rparr>)"

abbreviation storedTask :: "string \<Rightarrow> TaskRecord \<Rightarrow> 'm Kernel \<Rightarrow> TaskRecord" where
  "storedTask i t \<equiv> (\<lambda>k. case taskFindById i (sh_tasks (kn_shared k)) of Some r \<Rightarrow> r | None \<Rightarrow> t)"

lemma resumeFrom_enters:
  assumes "kd_runMetadata deps (kn_shared k) i = Some md" and "taskFindById i (sh_tasks (kn_shared k)) = Some task"
    and "tk_status task \<in> {T_waiting_approval, T_waiting_clarification}"
  shows "resumeFrom deps i rc pending k = failingWith (kd_loop deps) False
     (storedTask i (task\<lparr>tk_status := T_running, tk_updatedAt := ld_now (kd_loop deps)\<rparr>))
     (executeLoop (kd_loop deps)) (resumedKernel deps task md rc pending k)"
proof -
  let ?t = "task\<lparr>tk_status := T_running, tk_updatedAt := ld_now (kd_loop deps)\<rparr>"
  let ?k = "k\<lparr>kn_shared := (kn_shared k)\<lparr>sh_abort := None, sh_tasks := rowSet tk_taskId i ?t (sh_tasks (kn_shared k))\<rparr>\<rparr>"
  have p: "taskPatch (ld_now (kd_loop deps)) (noTaskPatch\<lparr>tp_status := Some T_running\<rparr>) task = ?t"
    by (simp add: taskPatch_def noTaskPatch_def patched_def)
  have legal: "canTransitionTaskStatus (tk_status task) T_running"
    using assms(3) by (auto simp: canTransitionTaskStatus_def)
  have i: "tk_taskId task = i" using assms(2) by (auto dest: taskFindById_Some)
  have "resumeFrom deps i rc pending k = failingWith (kd_loop deps) False (storedTask i ?t)
      (bnd (modify (\<lambda>k. k\<lparr>kn_loop := resumedLoopState deps ?t md rc pending (kn_shared k)\<rparr>)) (\<lambda>_. executeLoop (kd_loop deps))) ?k"
    using assms(1,2) legal
    by (simp add: resumeFrom_def bnd_run newAbortController_def kernel_run kernelTaskUpdate_def zoom_run taskUpdate_def Let_def p)
  then show ?thesis by (simp add: failingWith_def tryCatch_def bnd_run resumedKernel_def Let_def i)
qed

lemma resumeTask_enters:
  assumes "taskFindById i (sh_tasks (kn_shared k)) = Some task" and "tk_status task \<in> {T_waiting_approval, T_waiting_clarification}"
    and "loadForResume (kd_parse deps) (kd_describe deps) task (sh_checkpoints (kn_shared k)) = Inr rc"
    and "kd_runMetadata deps (kn_shared k) i = Some md"
  shows "resumeTask deps i k = failingWith (kd_loop deps) False
     (storedTask i (task\<lparr>tk_status := T_running, tk_updatedAt := ld_now (kd_loop deps)\<rparr>))
     (executeLoop (kd_loop deps)) (resumedKernel deps task md rc (ck_pendingToolCalls (rc_checkpoint rc)) k)"
  using assms resumeFrom_enters [OF assms(4,1,2)]
  by (auto simp: resumeTask_def findTask_def bnd_run)

text \<open>
  C7: a task that pauses at a call can be resumed where it stopped. Resuming it is running the loop once more, from a state with
  the conversation and the memory of the pause, with the waiting call first among the pending ones and those after it behind, not
  aborted, and with the task as it was stored before the pause but for its status and the time of its change. So the loop starts in
  the iteration the task was in, and the pause costs none. An error of the loop then fails the task. The row of run metadata that
  the run has created is there.
\<close>

theorem pause_resume:
  assumes "tryPauseToolExecution deps pending i task it (pending ! i) oc k = (Inr (Some t), k')" and "i < length pending"
    and "kd_runMetadata kd (kn_shared k') (tk_taskId task) = Some md"
  shows "\<exists>row r q. taskFindById (tk_taskId task) (sh_tasks (kn_shared k)) = Some row \<and>
     r = row\<lparr>tk_status := T_running, tk_updatedAt := ld_now (kd_loop kd)\<rparr> \<and>
     resumeTask kd (tk_taskId task) k' = failingWith (kd_loop kd) False (storedTask (tk_taskId task) r) (executeLoop (kd_loop kd)) q \<and>
     ls_task (kn_loop q) = r \<and> taskFindById (tk_taskId task) (sh_tasks (kn_shared q)) = Some r \<and> sh_abort (kn_shared q) = None \<and>
     ls_messages (kn_loop q) = kn_messages k \<and> ls_memoryContext (kn_loop q) = ls_memoryContext (kn_loop k) \<and>
     ls_pendingToolCalls (kn_loop q) = pending ! i # drop (Suc i) pending \<and>
     firstIteration (kn_loop q) = tk_currentIteration row \<and>
     iterationsLeft (kn_loop q) = nat (tk_maxIterations row - tk_currentIteration row + 1)"
proof -
  obtain row st where row: "taskFindById (tk_taskId task) (sh_tasks (kn_shared k)) = Some row"
      "st \<in> {T_waiting_approval, T_waiting_clarification}" and t: "t = row\<lparr>tk_status := st, tk_updatedAt := bd_now deps\<rparr>"
    using paused_row [OF assms(1)] by blast
  have id: "tk_taskId row = tk_taskId task" using row(1) by (auto dest: taskFindById_Some)
  have "waiting (tk_taskId task) t k'" using endsD [OF tryPause_waiting assms(1)] by simp
  then have find: "taskFindById (tk_taskId task) (sh_tasks (kn_shared k')) = Some t" by (auto simp: waiting_def stored_def)
  obtain rc where rc: "loadForResume (kd_parse kd) (kd_describe kd) t (sh_checkpoints (kn_shared k')) = Inr rc"
      "ck_messages (rc_checkpoint rc) = kn_messages k" "ck_memoryContext (rc_checkpoint rc) = ls_memoryContext (kn_loop k)"
      "ck_pendingToolCalls (rc_checkpoint rc) = drop i pending" using paused_checkpoint [OF assms(1)] by blast
  have p: "drop i pending = pending ! i # drop (Suc i) pending" using assms(2) by (simp add: Cons_nth_drop_Suc)
  let ?r = "row\<lparr>tk_status := T_running, tk_updatedAt := ld_now (kd_loop kd)\<rparr>"
  let ?q = "resumedKernel kd t md rc (drop i pending) k'"
  have u: "t\<lparr>tk_status := T_running, tk_updatedAt := ld_now (kd_loop kd)\<rparr> = ?r" using t by simp
  have "tk_status t \<in> {T_waiting_approval, T_waiting_clarification}" using t row(2) by simp
  then have "resumeTask kd (tk_taskId task) k' = failingWith (kd_loop kd) False (storedTask (tk_taskId task) ?r) (executeLoop (kd_loop kd)) ?q"
    using resumeTask_enters [OF find _ rc(1) assms(3)] unfolding rc(4) u by simp
  moreover have "taskFindById (tk_taskId task) (sh_tasks (kn_shared ?q)) = Some ?r"
    using find t id by (simp add: resumedKernel_def Let_def taskFindById_def rowSet_find)
  ultimately show ?thesis
    using row(1) t p rc(2,3)
    by (intro exI [of _ row] exI [of _ ?r] exI [of _ ?q])
      (simp add: resumedKernel_def Let_def resumedLoopState_def freshLoopState_def firstIteration_def iterationsLeft_def)
qed

text \<open>The signatures a resumed task starts with contain its own pending calls, without a result.\<close>

lemma rebuildCalls_grows: "sigs sg = Some p \<Longrightarrow> rebuildCalls d it cs sigs sg = Some p"
proof (induction cs arbitrary: sigs)
  case (Cons c cs)
  let ?sg = "toolCallSignature (pc_toolName c) (JObj (pc_input c))"
  show ?case
  proof (cases "\<not> d (pc_toolName c) \<or> sigs ?sg \<noteq> None")
    case True
    with Cons show ?thesis by (simp add: Let_def)
  next
    case False
    with Cons.prems have "sg \<noteq> ?sg" by auto
    with False Cons show ?thesis by (simp add: Let_def)
  qed
qed simp

lemma rebuildFrom_grows: "sigs sg = Some p \<Longrightarrow> rebuildFrom d it ms sigs sg = Some p"
  by (induction d it ms sigs rule: rebuildFrom.induct) (auto simp: rebuildCalls_grows split: ConversationRole.split option.split)

definition unanswered :: "(string \<Rightarrow> ToolSignature option) \<Rightarrow> bool" where
  "unanswered sigs \<longleftrightarrow> (\<forall>sg p. sigs sg = Some p \<longrightarrow> sg_cachedToolOutput p = None)"

lemma rebuildCalls_unanswered: "unanswered sigs \<Longrightarrow> unanswered (rebuildCalls d it cs sigs)"
proof (induction cs arbitrary: sigs)
  case (Cons c cs)
  have "unanswered (sigs(sg \<mapsto> \<lparr>sg_iteration = it, sg_toolCallId = pc_toolCallId c, sg_cachedToolOutput = None\<rparr>))" for sg
    using Cons.prems by (simp add: unanswered_def)
  then have "unanswered (rebuildCalls d it cs (sigs(sg \<mapsto> \<lparr>sg_iteration = it, sg_toolCallId = pc_toolCallId c, sg_cachedToolOutput = None\<rparr>)))" for sg
    by (rule Cons.IH)
  then show ?case unfolding rebuildCalls.simps Let_def using Cons.IH [OF Cons.prems] by simp
qed simp

lemma rebuildFrom_unanswered: "unanswered sigs \<Longrightarrow> unanswered (rebuildFrom d it ms sigs)"
  by (induction d it ms sigs rule: rebuildFrom.induct) (auto simp: rebuildCalls_unanswered split: ConversationRole.split option.split)

lemma rebuildCalls_has: "c \<in> set cs \<Longrightarrow> d (pc_toolName c) \<Longrightarrow> \<exists>p. rebuildCalls d it cs sigs (toolCallSignature (pc_toolName c) (JObj (pc_input c))) = Some p"
proof (induction cs arbitrary: sigs)
  case (Cons c0 cs)
  let ?sg = "toolCallSignature (pc_toolName c0) (JObj (pc_input c0))"
  show ?case
  proof (cases "c \<in> set cs")
    case True
    with Cons show ?thesis by (simp add: Let_def)
  next
    case False
    with Cons.prems have c: "c = c0" by simp
    show ?thesis
    proof (cases "sigs ?sg")
      case None
      have "\<exists>p. rebuildCalls d it cs (sigs(?sg \<mapsto> q)) ?sg = Some p" for q by (rule exI, rule rebuildCalls_grows) simp
      with None c Cons.prems(2) show ?thesis by (simp add: Let_def)
    next
      case (Some p)
      with c Cons.prems(2) rebuildCalls_grows [of sigs ?sg p d it cs] show ?thesis by (simp add: Let_def)
    qed
  qed
qed simp

lemma rebuildFrom_has:
  assumes "ms_role m = Role_assistant" "ms_toolCalls m = Some cs" "c \<in> set cs" "d (pc_toolName c)"
  shows "m \<in> set ms \<Longrightarrow> \<exists>p. rebuildFrom d it ms sigs (toolCallSignature (pc_toolName c) (JObj (pc_input c))) = Some p"
proof (induction ms arbitrary: it sigs)
  case (Cons m0 ms)
  show ?case
  proof (cases "m \<in> set ms")
    case True
    with Cons.IH show ?thesis by (simp split: ConversationRole.split option.split)
  next
    case False
    with Cons.prems have m: "m = m0" by simp
    obtain p where "rebuildCalls d (it + 1) cs sigs (toolCallSignature (pc_toolName c) (JObj (pc_input c))) = Some p"
      using rebuildCalls_has [of c cs d "it + 1" sigs] assms(3,4) by blast
    from rebuildFrom_grows [of "rebuildCalls d (it + 1) cs sigs" "toolCallSignature (pc_toolName c) (JObj (pc_input c))" p d "it + 1" ms, OF this]
      m assms(1,2) show ?thesis by auto
  qed
qed simp

text \<open>
  A resumed task tells the model that a read it has made once was a duplicate: the pending call itself, found in the last
  assistant message of the checkpoint, counts as its own predecessor. It is executed, and its result comes with
  the note not to call the tool again.
\<close>

theorem resumed_read_called_duplicate:
  assumes "m \<in> set ms" and "ms_role m = Role_assistant" and "ms_toolCalls m = Some cs" and "c \<in> set cs"
    and "callSignature deps c \<noteq> None"
    and "ls_toolCallSignatures (kn_loop k) = rebuildSignaturesFromMessages ms (isDeduplicatableTool (bd_describeTool deps))"
  shows "\<exists>p k' rest. resolveDuplicateToolReplay deps c (kn_loop k) = None \<and> answerCall deps task it c r k = (Inr (), k') \<and>
    ms_content (last (kn_messages k')) = duplicateNotice c p @ [CHR 0x0A, CHR 0x0A] @ rest"
proof -
  let ?sg = "toolCallSignature (pc_toolName c) (JObj (pc_input c))"
  obtain d where d: "bd_describeTool deps (pc_toolName c) = Some d" "deduplicatable (ds_capability d)"
    using assms(5) by (auto simp: callSignature_def split: option.splits if_splits)
  then have sig: "callSignature deps c = Some ?sg" by (simp add: callSignature_def)
  have asks: "ds_capability d \<noteq> Interaction_ask_user" using d(2) by (auto simp: deduplicatable_def)
  have "isDeduplicatableTool (bd_describeTool deps) (pc_toolName c)" using d by (simp add: isDeduplicatableTool_def)
  from rebuildFrom_has [of m cs c "isDeduplicatableTool (bd_describeTool deps)" ms 0 "\<lambda>_. None", OF assms(2-4) this assms(1)] obtain p where p: "ls_toolCallSignatures (kn_loop k) ?sg = Some p"
    unfolding assms(6) rebuildSignaturesFromMessages_def by blast
  have "unanswered (ls_toolCallSignatures (kn_loop k))"
    unfolding assms(6) rebuildSignaturesFromMessages_def by (rule rebuildFrom_unanswered) (simp add: unanswered_def)
  with p have none: "sg_cachedToolOutput p = None" by (auto simp: unanswered_def)
  have "resolveDuplicateToolReplay deps c (kn_loop k) = None" using sig p none by (simp add: resolveDuplicateToolReplay_def)
  then show ?thesis
    using sig p d asks
    by (intro exI [of _ p]) (auto simp: answerCall_def Let_def bnd_run kernel_run buildToolFeedbackMessage_def)
qed

subsection \<open>Failing\<close>

text \<open>What the code around the kernel does with a failed task leaves the tables of tasks and checkpoints alone and does not throw.\<close>

definition quietFailure :: "'m LoopDeps \<Rightarrow> bool" where
  "quietFailure deps \<longleftrightarrow> (\<forall>task c m s. \<exists>s'. ld_recordFailure deps task c m s = (Inr (), s') \<and>
     sh_tasks s' = sh_tasks s \<and> sh_checkpoints s' = sh_checkpoints s)"

definition failedStatus :: "RuntimeErrorCode \<Rightarrow> TaskStatus" where
  "failedStatus code = (if code = Interrupt then T_cancelled else T_failed)"

lemma failurePatch_applied:
  "tp_status (failurePatch now c m st) = Some st" "tk_errorCode (taskPatch now (failurePatch now c m st) r) = Some c"
  "tk_errorMessage (taskPatch now (failurePatch now c m st) r) = Some m" "tk_finishedAt (taskPatch now (failurePatch now c m st) r) = Some now"
  by (simp_all add: failurePatch_def noTaskPatch_def taskPatch_def)

lemma checkpoint_deleted: "checkpointFind i (checkpointDelete i t) = None"
  by (auto simp: checkpointFind_def checkpointDelete_def rowFind_None)

text \<open>The row of the session is written, unless there is one already, and cannot fail with a fresh identifier.\<close>

definition sessionRowOf :: "'m LoopDeps \<Rightarrow> TaskRecord \<Rightarrow> json_object \<Rightarrow> SessionTaskRecord list \<Rightarrow> SessionTaskRecord list" where
  "sessionRowOf deps task summary t = (case tk_sessionId task of
     None \<Rightarrow> t
   | Some s \<Rightarrow> if sessionTaskFindByTaskId (tk_taskId task) t \<noteq> None then t
       else t @ [sessionTaskOfDraft (ld_now deps) (case sessionTaskFindLatest s t of None \<Rightarrow> 1 | Some r \<Rightarrow> st_runNumber r + 1)
              (sessionTaskDraftOf (ld_runId deps) task s summary)])"

lemma find_append: "List.find p (xs @ ys) = (case List.find p xs of None \<Rightarrow> List.find p ys | Some x \<Rightarrow> Some x)"
  by (induction xs) auto

lemma persisted:
  assumes "ld_runId deps \<notin> st_runId ` set (sh_sessionTasks (kn_shared k))"
  shows "persistSessionTask deps task sm k =
    (Inr (), k\<lparr>kn_shared := (kn_shared k)\<lparr>sh_sessionTasks := sessionRowOf deps task sm (sh_sessionTasks (kn_shared k))\<rparr>\<rparr>)"
proof (cases "tk_sessionId task")
  case None
  then show ?thesis by (simp add: persistSessionTask_def sessionRowOf_def)
next
  case (Some s)
  let ?t = "sh_sessionTasks (kn_shared k)"
  show ?thesis
  proof (cases "sessionTaskFindByTaskId (tk_taskId task) ?t")
    case None
    then have "tk_taskId task \<notin> st_taskId ` set ?t" by (auto simp: sessionTaskFindByTaskId_def find_None_iff)
    with None Some assms show ?thesis
      by (simp add: persistSessionTask_def sessionRowOf_def bnd_run kernel_run zoom_run sessionTaskCreate_def Let_def rowInsert_def
          sessionTaskFindByTaskId_def find_append sessionTaskOfDraft_def sessionTaskDraftOf_def)
  qed (simp add: persistSessionTask_def sessionRowOf_def bnd_run Some)
qed

text \<open>The identifier drawn for the row of the session is not in use.\<close>

definition freshRun :: "'m LoopDeps \<Rightarrow> 'm Kernel \<Rightarrow> bool" where
  "freshRun deps k \<longleftrightarrow> ld_runId deps \<notin> st_runId ` set (sh_sessionTasks (kn_shared k))"

lemma finalized:
  assumes "quietFailure deps" and "freshRun deps k" and "taskFindById (tk_taskId task) (sh_tasks (kn_shared k)) = Some row"
    and "canTransitionTaskStatus (tk_status row) (failedStatus code)"
  shows "\<exists>k'. finalizeTaskFailure deps callback task (code, msg, details) k =
      (Inr (AppError code msg (Some (spread (case details of None \<Rightarrow> [] | Some d \<Rightarrow> d) [(''taskId'', JStr (tk_taskId task))]))), k') \<and>
    checkpointFind (tk_taskId task) (sh_checkpoints (kn_shared k')) = None \<and>
    (\<exists>t. taskFindById (tk_taskId task) (sh_tasks (kn_shared k')) = Some t \<and> tk_status t = failedStatus code \<and> tk_errorCode t = Some code \<and>
       tk_errorMessage t = Some msg \<and> tk_finishedAt t = Some (ld_now deps))"
proof -
  obtain g where q: "\<And>c m s. ld_recordFailure deps task c m s = (Inr (), g c m s)" "\<And>c m s. sh_tasks (g c m s) = sh_tasks s"
      "\<And>c m s. sh_checkpoints (g c m s) = sh_checkpoints s"
    using assms(1) unfolding quietFailure_def by metis
  note fresh = assms(2) [unfolded freshRun_def]
  show ?thesis
    using assms(3,4) fresh
    by (cases "code = Interrupt"; cases "code = Timeout"; cases callback)
      (simp_all add: finalizeTaskFailure_def Let_def failedStatus_def bnd_run kernel_run loopTrace_def deleteCheckpoint_def kernelTaskUpdate_def zoom_run
        taskUpdate_def failurePatch_applied emitIf_def checkpoint_deleted persisted q)
qed

text \<open>
  C9: when the execution of a new task fails, the caller of run gets the error with the task's identifier, the task is stored as
  failed (as cancelled, if it was interrupted) with the error's code, message and time, and its checkpoint is gone, so that it
  cannot be resumed. It is assumed that the row of the task is there and not finished yet when the failure arrives (from a
  finished one this transition is illegal), that what the kernel does with the transcript and the messages of a failed task
  neither throws nor writes these two tables, and that the identifier drawn for the row of the session is new.
\<close>

theorem failure_recorded:
  assumes "createRun kd o1 k = (Inr created, k1)" and "beginRun kd o1 k1 = (Inr task, k2)" and "runBody kd o1 task k2 = (Inl e, k3)"
    and "toAppError e = (code, msg, details)"
    and "taskFindById (ro_taskId o1) (sh_tasks (kn_shared k3)) = Some row" and "canTransitionTaskStatus (tk_status row) (failedStatus code)"
    and "quietFailure (kd_loop kd)" and "freshRun (kd_loop kd) k3"
  shows "\<exists>k' t. run kd o1 k =
      (Inl (AppError code msg (Some (spread (case details of None \<Rightarrow> [] | Some d \<Rightarrow> d) [(''taskId'', JStr (ro_taskId o1))]))), k') \<and>
    checkpointFind (ro_taskId o1) (sh_checkpoints (kn_shared k')) = None \<and>
    taskFindById (ro_taskId o1) (sh_tasks (kn_shared k')) = Some t \<and> tk_status t = failedStatus code \<and> tk_errorCode t = Some code \<and>
    tk_errorMessage t = Some msg \<and> tk_finishedAt t = Some (ld_now (kd_loop kd))"
proof -
  have id: "tk_taskId task = ro_taskId o1" using assms(2) by (auto simp: beginRun_def dest: updated_id)
  have "run kd o1 k = failingWith (kd_loop kd) (ro_onTaskEvent o1) (\<lambda>_. task) (runBody kd o1 task) k2"
    using assms(1,2) by (simp add: run_def bnd_run failingWith_def tryCatch_run)
  also have "\<dots> = bnd (finalizeTaskFailure (kd_loop kd) (ro_onTaskEvent o1) task (code, msg, details)) raise k3"
    using assms(3,4) by (simp add: failingWith_def tryCatch_run bnd_run)
  finally have run: "run kd o1 k = bnd (finalizeTaskFailure (kd_loop kd) (ro_onTaskEvent o1) task (code, msg, details)) raise k3" .
  from finalized [OF assms(7,8) assms(5) [folded id] assms(6), of "ro_onTaskEvent o1" msg details]
  show ?thesis unfolding run id by (auto simp: bnd_run)
qed

text \<open>
  From a finished task nothing leads to a failure: when the code after the end of a task throws (its row is stored as succeeded
  before the transcript, the row and the summary of the session are written), the error is replaced by that of the transition.
\<close>

lemma finished_failure_raises:
  assumes "taskFindById (tk_taskId task) (sh_tasks (kn_shared k)) = Some row" and "tk_status row = T_succeeded"
  shows "\<exists>k' st. finalizeTaskFailure deps callback task (code, msg, details) k =
    (Inl (PlainError (''Illegal task status transition: succeeded -> '' @ st)), k')"
  using assms
  by (cases "code = Timeout"; cases "code = Interrupt")
    (auto simp: finalizeTaskFailure_def Let_def bnd_run kernel_run loopTrace_def deleteCheckpoint_def kernelTaskUpdate_def zoom_run
        taskUpdate_def failurePatch_def noTaskPatch_def canTransitionTaskStatus_def)

text \<open>The row of the session keeps the task as it was before the failure was stored.\<close>

lemma failed_run_row_is_stale:
  assumes "freshRun deps k" and "tk_sessionId task = Some s" and "sessionTaskFindByTaskId (tk_taskId task) (sh_sessionTasks (kn_shared k)) = None"
  shows "\<exists>k' r. persistSessionTask deps task sm k = (Inr (), k') \<and>
    sessionTaskFindByTaskId (tk_taskId task) (sh_sessionTasks (kn_shared k')) = Some r \<and>
    st_status r = tk_status task \<and> st_finishedAt r = tk_finishedAt task"
  using assms persisted [of deps k task sm]
  by (auto simp: freshRun_def sessionRowOf_def sessionTaskFindByTaskId_def find_append sessionTaskOfDraft_def sessionTaskDraftOf_def)

subsection \<open>What compaction keeps\<close>

lemma identity_mapped [simp]: "compactMessageIdentity (mapCompactConversationMessage m) = compactMessageIdentity m"
  by (simp add: compactMessageIdentity_def mapCompactConversationMessage_def)

lemma merge_fold:
  "set (fold mergeOne xs acc) \<subseteq> set acc \<union> set xs \<and>
   compactMessageIdentity ` set (fold mergeOne xs acc) = compactMessageIdentity ` (set acc \<union> set xs) \<and>
   (distinct (map compactMessageIdentity acc) \<longrightarrow> distinct (map compactMessageIdentity (fold mergeOne xs acc))) \<and>
   length (fold mergeOne xs acc) \<le> length acc + length xs"
proof (induction xs arbitrary: acc)
  case (Cons x xs)
  have step: "set (mergeOne x acc) \<subseteq> set acc \<union> {x}" "compactMessageIdentity ` set (mergeOne x acc) = compactMessageIdentity ` (set acc \<union> {x})"
    "distinct (map compactMessageIdentity acc) \<longrightarrow> distinct (map compactMessageIdentity (mergeOne x acc))" "length (mergeOne x acc) \<le> Suc (length acc)"
    by (auto simp: mergeOne_def)
  with Cons.IH [of "mergeOne x acc"] show ?case by (auto simp: image_Un)
qed simp

definition protectedMessages :: "CompactConfig \<Rightarrow> SessionCompactInput \<Rightarrow> msgs" where
  "protectedMessages cp input = selectHeadMessages (si_messages input) (case si_protectFirstN input of Some n \<Rightarrow> n | None \<Rightarrow> cp_protectFirstN cp) @
     tr_messages (compactTail cp input)"

lemma protected_from_input: "set (protectedMessages cp input) \<subseteq> set (si_messages input)"
  by (auto simp: protectedMessages_def selectHeadMessages_def compactTail_def selectTailMessages_def Let_def dest: in_set_takeD in_set_dropD split: if_splits)

text \<open>
  C34: compaction replaces the conversation by one hand-over message among messages of the conversation, stripped of
  their reasoning: exactly the first ones and the recent ones it protects, each once. A message equal to an earlier
  protected one in role, tool, calls and text is left out even when it was said again.
\<close>

theorem compaction_keeps_protected:
  "\<exists>before after discarded. replacementMessages cp input summary = before @ [handoffMessage discarded summary] @ after \<and>
     set (before @ after) \<subseteq> mapCompactConversationMessage ` set (si_messages input) \<and>
     compactMessageIdentity ` set (before @ after) = compactMessageIdentity ` set (protectedMessages cp input) \<and>
     distinct (map compactMessageIdentity (before @ after)) \<and>
     length (replacementMessages cp input summary) \<le> Suc (length (protectedMessages cp input))"
proof -
  let ?kept = "fold mergeOne (protectedMessages cp input) []"
  let ?n = "min (length (selectHeadMessages (si_messages input) (case si_protectFirstN input of Some n \<Rightarrow> n | None \<Rightarrow> cp_protectFirstN cp))) (length ?kept)"
  let ?b = "map mapCompactConversationMessage (take ?n ?kept)" and ?a = "map mapCompactConversationMessage (drop ?n ?kept)"
  have eq: "replacementMessages cp input summary = ?b @ [handoffMessage (listDiscardedMessages (si_messages input) ?kept) summary] @ ?a"
    by (simp add: replacementMessages_def Let_def mergeProtectedMessages_def protectedMessages_def)
  have ba: "?b @ ?a = map mapCompactConversationMessage ?kept" by (simp flip: map_append)
  note f = merge_fold [of "protectedMessages cp input" "[]"]
  have 1: "set (?b @ ?a) \<subseteq> mapCompactConversationMessage ` set (si_messages input)" unfolding ba using f protected_from_input [of cp input] by auto
  have 2: "compactMessageIdentity ` set (?b @ ?a) = compactMessageIdentity ` set (protectedMessages cp input)"
    unfolding ba using f by (simp add: image_image)
  have 3: "distinct (map compactMessageIdentity (?b @ ?a))" unfolding ba using f by (simp add: comp_def)
  have "length (?b @ ?a) \<le> length (protectedMessages cp input)" unfolding ba using f by simp
  then have 4: "length (replacementMessages cp input summary) \<le> Suc (length (protectedMessages cp input))" unfolding eq by simp
  from eq 1 2 3 4 show ?thesis by blast
qed

end
