(* ===== verification/LoopWitness.thy ===== *)
theory LoopWitness
  imports KernelWitness LoopCost TaskRunsProps
begin

section \<open>The loop at concrete states\<close>

text \<open>
  A provider that asks for one call of the shell, which waits for an approval; the world counts the requests.
\<close>

definition countBatch :: "nat BatchDeps" where
  "countBatch = \<lparr>bd_execute = (\<lambda>rq _ s. (Inr (ApprovalRequired sampleApproval (demoRecord ''p'')), s)),
     bd_executeAll = (\<lambda>rqs s. (Inr [], s)), bd_describeTool = demoDescribe, bd_contextRetention = None, bd_testCommands = [],
     bd_workspaceRoot = ''/ws'', bd_now = 5, bd_parse = (\<lambda>_. None), bd_slice = demoSlice,
     bd_joinPath = joinWith ''/'', bd_writeFile = (\<lambda>_ _. True)\<rparr>"

definition demoAnswer :: KernelResponse where
  "demoAnswer = \<lparr>kr_kind = Tool_calls_response [demoProviderCall ''p'' ''sh''], kr_message = ''ok'', kr_reasoningContent = None,
     kr_usage = \<lparr>pu_inputTokens = 1, pu_outputTokens = 1, ku_cachedInputTokens = None, ku_totalTokens = None\<rparr>, kr_metadata = None\<rparr>"

definition demoCompact :: CompactConfig where
  "demoCompact = \<lparr>cp_messageThreshold = 9, cp_thresholdRatio = 1, cp_tokenThreshold = Some 9, cp_toolCallThreshold = 9,
     cp_iterationThreshold = 9, cp_protectFirstN = 1, cp_protectLastN = 1, cp_tailMinMessages = 1, cp_tailTokenBudget = Some 9,
     cp_targetRatio = 1, cp_minTokenPressureRatio = 0, cp_summarizer = ''deterministic''\<rparr>"

definition demoDeps :: "nat LoopDeps" where
  "demoDeps = \<lparr>ld_batch = countBatch, ld_completion = demoCompletion, ld_now = 5, ld_turnId = ''u'', ld_runId = ''r'', ld_providerName = ''m'',
     ld_listTools = (\<lambda>_. []), ld_planExposure = None, ld_parallelSafe = (\<lambda>_. False), ld_keepGroups = None,
     ld_cooldownIterations = None, ld_collate = (\<lambda>_. 0), ld_todoStore = (\<lambda>_. None), ld_debugView = (\<lambda>_ _. JNull),
     ld_reviewerPayload = (\<lambda>_ _ _. []), ld_emitOutput = (\<lambda>_ _ _ _. ret ()),
     ld_activeProvider = (\<lambda>_. ret \<lparr>av_name = ''m'', av_model = None, av_describedModel = None\<rparr>),
     ld_generate = (\<lambda>p req s. (Inr demoAnswer, s\<lparr>sh_rest := Suc (sh_rest s)\<rparr>)),
     ld_toProviderError = (\<lambda>_ _. \<lparr>pe_category = [], pe_message = [], pe_modelName = None, pe_providerName = [], pe_retriable = False,
        pe_retryCount = None, pe_statusCode = None, pe_summary = None\<rparr>),
     ld_sleep = (\<lambda>_. ret ()), ld_costUsd = (\<lambda>_ _. None), ld_budgetMode = Balanced, ld_recordUsage = (\<lambda>_. ret None),
     ld_compact = demoCompact, ld_previousSummary = (\<lambda>_ _. None), ld_summarize = (\<lambda>_. ret []), ld_consumeManual = (\<lambda>_. ret None),
     ld_flushMemory = None, ld_persistCompact = (\<lambda>_ _ _ _. ret ()), ld_planRecall = (\<lambda>_ _ _. ret []),
     ld_capabilityDeclaration = (\<lambda>_ _ _ _. []), ld_recordOutcome = (\<lambda>_ _. ret ()), ld_recordSession = (\<lambda>_ _ _. ret ()),
     ld_recordFailure = (\<lambda>_ _ _. ret ()), ld_stringOf = (\<lambda>_. [])\<rparr>"

definition demoStart :: "nat Kernel" where
  "demoStart = \<lparr>kn_shared = \<lparr>sh_tasks = [sampleTask T_running], sh_checkpoints = [], sh_sessionTasks = [], sh_trace = [], sh_abort = None, sh_rest = 0\<rparr>,
     kn_loop = demoLoop\<lparr>ls_task := sampleTask T_running, ls_pendingToolCalls := [demoProviderCall ''p'' ''sh'']\<rparr>, kn_messages = [], kn_events = []\<rparr>"

definition demoRun :: "(thrown + RuntimeRunResult) \<times> nat Kernel" where
  "demoRun = executeLoop demoDeps demoStart"

lemma demo_counts: "countsRequests id demoDeps"
  by (auto simp: countsRequests_def demoDeps_def countBatch_def silent_def)

theorem requests_bounded_witness: "sh_rest (kn_shared (snd demoRun)) \<le> 14"
proof -
  have "executeLoop demoDeps demoStart = (fst demoRun, snd demoRun)" by (simp add: demoRun_def)
  from requests_bounded [OF demo_counts this] show ?thesis
    by (simp add: demoStart_def demoLoop_def iterationsLeft_def firstIteration_def sampleTask_def taskOfDraft_def)
qed

lemma demo_paused: "case fst demoRun of Inr r \<Rightarrow> rr_output r = None | Inl _ \<Rightarrow> False"
  by code_simp

theorem loop_result_settled_witness: "case fst demoRun of Inr r \<Rightarrow> settled ''t1'' r (snd demoRun) | Inl _ \<Rightarrow> False"
proof -
  have quiet: "quietEnd demoDeps" by (simp add: quietEnd_def keepsTasks_def demoDeps_def)
  have id: "tk_taskId (ls_task (kn_loop demoStart)) = ''t1''" by (simp add: demoStart_def sampleTask_def taskOfDraft_def)
  obtain r where r: "fst demoRun = Inr r" using demo_paused by (auto split: sum.splits)
  then have "executeLoop demoDeps demoStart = (Inr r, snd demoRun)" by (metis demoRun_def prod.collapse)
  from loop_result_settled [OF quiet this] r id show ?thesis by simp
qed

definition demoPause :: "(thrown + TaskRecord option) \<times> nat Kernel" where
  "demoPause = tryPauseToolExecution countBatch [demoProviderCall ''a'' ''sh'', demoProviderCall ''p'' ''sh''] 1 (sampleTask T_running) 1
     (demoProviderCall ''p'' ''sh'') (ApprovalRequired sampleApproval (demoRecord ''p'')) demoStart"

definition demoKernelDeps :: "nat KernelDeps" where
  "demoKernelDeps = \<lparr>kd_loop = demoDeps, kd_parse = (\<lambda>_. None), kd_describe = demoDescribe, kd_contextRetention = None,
     kd_artifactsRoot = ''/ws/.a'', kd_runMetadata = (\<lambda>_ _. Some \<lparr>rm_metadata = [], rm_timeoutMs = 9\<rparr>), kd_skillMetadata = (\<lambda>_. []),
     kd_agentWriteApproval = JNull, kd_announce = (\<lambda>_. ret ()), kd_createRunMetadata = (\<lambda>_ _. ret ()),
     kd_prepare = (\<lambda>_ _. ret \<lparr>rx_messages = [], rx_recallFragments = [], rx_resumeMemoryContext = [], rx_repoMapSummary = None\<rparr>)\<rparr>"

theorem pause_resume_witness:
  "\<exists>t r q. fst demoPause = Inr (Some t) \<and>
    resumeTask demoKernelDeps ''t1'' (snd demoPause) = failingWith demoDeps False (storedTask ''t1'' r) (executeLoop demoDeps) q \<and>
    ls_pendingToolCalls (kn_loop q) = [demoProviderCall ''p'' ''sh''] \<and>
    firstIteration (kn_loop q) = tk_currentIteration (sampleTask T_running)"
proof -
  have "case fst demoPause of Inr (Some t) \<Rightarrow> True | _ \<Rightarrow> False" by code_simp
  then obtain t where t: "fst demoPause = Inr (Some t)" by (auto split: sum.splits option.splits)
  then have p: "tryPauseToolExecution countBatch [demoProviderCall ''a'' ''sh'', demoProviderCall ''p'' ''sh''] 1 (sampleTask T_running) 1
      ([demoProviderCall ''a'' ''sh'', demoProviderCall ''p'' ''sh''] ! 1) (ApprovalRequired sampleApproval (demoRecord ''p'')) demoStart =
      (Inr (Some t), snd demoPause)"
    by (metis demoPause_def nth_Cons_0 nth_Cons_Suc One_nat_def prod.collapse)
  have id: "tk_taskId (sampleTask T_running) = ''t1''" by (simp add: sampleTask_def taskOfDraft_def)
  have row: "taskFindById ''t1'' (sh_tasks (kn_shared demoStart)) = Some (sampleTask T_running)"
    using id by (simp add: demoStart_def taskFindById_def)
  have "kd_runMetadata demoKernelDeps (kn_shared (snd demoPause)) (tk_taskId (sampleTask T_running)) = Some \<lparr>rm_metadata = [], rm_timeoutMs = 9\<rparr>"
    "kd_loop demoKernelDeps = demoDeps" by (simp_all add: demoKernelDeps_def)
  from pause_resume [OF p _ this(1)] this(2) row t show ?thesis unfolding id by auto
qed

definition demoAsked :: ConversationMessage where
  "demoAsked = responseMessage (demoAnswer\<lparr>kr_kind := Tool_calls_response [demoReadCall ''a'']\<rparr>)"

definition demoResumed :: "nat Kernel" where
  "demoResumed = demoStart\<lparr>kn_loop := demoLoop\<lparr>ls_toolCallSignatures :=
     rebuildSignaturesFromMessages [demoAsked] (isDeduplicatableTool demoDescribe)\<rparr>\<rparr>"

theorem resumed_read_called_duplicate_witness:
  "\<exists>p k' rest. answerCall countBatch (sampleTask T_running) 1 (demoReadCall ''a'') demoSuccess demoResumed = (Inr (), k') \<and>
    ms_content (last (kn_messages k')) = duplicateNotice (demoReadCall ''a'') p @ [CHR 0x0A, CHR 0x0A] @ rest"
proof -
  have "demoAsked \<in> set [demoAsked]" "ms_role demoAsked = Role_assistant" "ms_toolCalls demoAsked = Some [demoReadCall ''a'']"
    "demoReadCall ''a'' \<in> set [demoReadCall ''a'']"
    by (simp_all add: demoAsked_def responseMessage_def)
  moreover have "callSignature countBatch (demoReadCall ''a'') \<noteq> None"
    by (simp add: callSignature_def countBatch_def demoDescribe_def demoTool_def demoReadCall_def deduplicatable_def)
  moreover have "ls_toolCallSignatures (kn_loop demoResumed) = rebuildSignaturesFromMessages [demoAsked] (isDeduplicatableTool (bd_describeTool countBatch))"
    by (simp add: demoResumed_def countBatch_def)
  ultimately show ?thesis using resumed_read_called_duplicate by blast
qed

text \<open>A run whose preparation throws.\<close>

definition demoOptions :: RunOptions where
  "demoOptions = \<lparr>ro_taskId = ''t2'', ro_taskInput = ''go'', ro_cwd = ''/ws'', ro_agentProfileId = Executor, ro_userId = ''u'',
     ro_sessionId = Some ''s'', ro_maxIterations = 5, ro_tokenBudget = tk_tokenBudget (sampleTask T_running), ro_metadata = [],
     ro_interactionMode = None, ro_onTaskEvent = True, ro_timeoutMode = None, ro_timeoutMs = 9\<rparr>"

definition brokenDeps :: "nat KernelDeps" where
  "brokenDeps = demoKernelDeps\<lparr>kd_prepare := (\<lambda>_ _. raise (PlainError ''no''))\<rparr>"

definition demoCreated :: "(thrown + TaskRecord) \<times> nat Kernel" where
  "demoCreated = createRun brokenDeps demoOptions demoStart"

definition demoBegun :: "(thrown + TaskRecord) \<times> nat Kernel" where
  "demoBegun = beginRun brokenDeps demoOptions (snd demoCreated)"

definition demoFailed :: "(thrown + RuntimeRunResult) \<times> nat Kernel" where
  "demoFailed = runBody brokenDeps demoOptions (projr (fst demoBegun)) (snd demoBegun)"

theorem failure_recorded_witness:
  "\<exists>k' t. run brokenDeps demoOptions demoStart = (Inl (AppError Provider_error ''no'' (Some [(''taskId'', JStr ''t2'')])), k') \<and>
    checkpointFind ''t2'' (sh_checkpoints (kn_shared k')) = None \<and>
    taskFindById ''t2'' (sh_tasks (kn_shared k')) = Some t \<and> tk_status t = T_failed"
proof -
  have "case fst demoCreated of Inr t \<Rightarrow> True | Inl e \<Rightarrow> False" by code_simp
  then obtain t0 where 1: "createRun brokenDeps demoOptions demoStart = (Inr t0, snd demoCreated)"
    by (metis demoCreated_def prod.collapse sum.case(1) sum.exhaust)
  have "case fst demoBegun of Inr t \<Rightarrow> True | Inl e \<Rightarrow> False" by code_simp
  then obtain t1 where t1: "fst demoBegun = Inr t1" by (auto split: sum.splits)
  then have 2: "beginRun brokenDeps demoOptions (snd demoCreated) = (Inr t1, snd demoBegun)" by (metis demoBegun_def prod.collapse)
  have "case fst demoFailed of Inl (PlainError m) \<Rightarrow> m = ''no'' | _ \<Rightarrow> False" by code_simp
  then have 3: "runBody brokenDeps demoOptions t1 (snd demoBegun) = (Inl (PlainError ''no''), snd demoFailed)"
    using t1 by (cases demoFailed) (auto simp: demoFailed_def split: sum.splits thrown.splits)
  have "case taskFindById ''t2'' (sh_tasks (kn_shared (snd demoFailed))) of Some r \<Rightarrow> tk_status r = T_running | None \<Rightarrow> False" by code_simp
  then obtain r where 4: "taskFindById (ro_taskId demoOptions) (sh_tasks (kn_shared (snd demoFailed))) = Some r" "tk_status r = T_running"
    by (auto simp: demoOptions_def split: option.splits)
  have id: "ro_taskId demoOptions = ''t2''" by (simp add: demoOptions_def)
  have legal: "canTransitionTaskStatus (tk_status r) (failedStatus Provider_error)" unfolding 4(2) by code_simp
  have quiet: "quietFailure (kd_loop brokenDeps)" by (simp add: quietFailure_def brokenDeps_def demoKernelDeps_def demoDeps_def)
  have "sh_sessionTasks (kn_shared (snd demoFailed)) = []" by code_simp
  then have fresh: "freshRun (kd_loop brokenDeps) (snd demoFailed)" by (simp add: freshRun_def)
  from failure_recorded [OF 1 2 3 toAppError.simps(3) 4(1) legal quiet fresh] show ?thesis
    unfolding id by (auto simp: failedStatus_def spread_def)
qed

end
