(* ===== verification/HostPaths.thy ===== *)
theory HostPaths
  imports Regex
begin

section \<open>Paths and addresses of the host\<close>

text \<open>
  What the modelled code uses of the standard library's \<open>node:path\<close> (on POSIX) and \<open>node:net\<close>. \<open>resolve\<close> reads the
  process's working directory, an argument here; no function reads the file system. An absolute path in normal form is
  \<open>absPath ss\<close> for the list \<open>ss\<close> of its segments, none of them empty, a dot or two dots.
\<close>

abbreviation slash :: char where "slash \<equiv> CHR ''/''"

definition isAbsolute :: "string \<Rightarrow> bool" where
  "isAbsolute p = (case p of [] \<Rightarrow> False | c # _ \<Rightarrow> c = slash)"

fun normSegs :: "string list \<Rightarrow> string list \<Rightarrow> string list" where
  "normSegs stack [] = rev stack"
| "normSegs stack (s # ss) =
     (if s = [] \<or> s = ''.'' then normSegs stack ss else if s = ''..'' then normSegs (tl stack) ss else normSegs (s # stack) ss)"

definition absPath :: "string list \<Rightarrow> string" where
  "absPath ss = slash # joinWith [slash] ss"

definition pathSegs :: "string \<Rightarrow> string list" where
  "pathSegs p = normSegs [] (splitOn slash p)"

text \<open>\<open>resolve\<close>: the arguments from the last to the first, until one is absolute.\<close>

fun resolvedText :: "string \<Rightarrow> string list \<Rightarrow> string \<Rightarrow> string" where
  "resolvedText processCwd [] acc = processCwd @ slash # acc"
| "resolvedText processCwd (p # ps) acc =
     (if p = [] then resolvedText processCwd ps acc
      else if isAbsolute p then p @ slash # acc else resolvedText processCwd ps (p @ slash # acc))"

definition pathResolve :: "string \<Rightarrow> string list \<Rightarrow> string" where
  "pathResolve processCwd paths = absPath (pathSegs (resolvedText processCwd (rev paths) []))"

fun commonPrefix :: "'a list \<Rightarrow> 'a list \<Rightarrow> nat" where
  "commonPrefix (x # xs) (y # ys) = (if x = y then Suc (commonPrefix xs ys) else 0)"
| "commonPrefix _ _ = 0"

definition pathRelative :: "string \<Rightarrow> string \<Rightarrow> string" where
  "pathRelative from target =
     (let a = pathSegs from; b = pathSegs target; n = commonPrefix a b
      in joinWith [slash] (replicate (length a - n) ''..'' @ drop n b))"

definition pathBasename :: "string \<Rightarrow> string" where
  "pathBasename p = (case rev (filter (\<lambda>s. s \<noteq> []) (splitOn slash p)) of [] \<Rightarrow> [] | s # _ \<Rightarrow> s)"

definition pathDirname :: "string \<Rightarrow> string" where
  "pathDirname p = absPath (butlast (pathSegs p))"

subsection \<open>Numbers and addresses\<close>

definition readDigits :: "string \<Rightarrow> nat" where
  "readDigits ds = foldl (\<lambda>n c. 10 * n + (of_char c - 48)) 0 ds"

text \<open>\<open>Number.parseInt(s, 10)\<close>, with \<open>None\<close> for \<open>NaN\<close>.\<close>

definition parseInt10 :: "string \<Rightarrow> int option" where
  "parseInt10 s =
     (let t = dropWhile isWs s; neg = (case t of c # _ \<Rightarrow> c = CHR ''-'' | [] \<Rightarrow> False);
          u = (case t of c # r \<Rightarrow> if c = CHR ''-'' \<or> c = CHR ''+'' then r else t | [] \<Rightarrow> t);
          ds = takeWhile isDigit u
      in if ds = [] then None else Some (if neg then - int (readDigits ds) else int (readDigits ds)))"

definition isOctet :: "string \<Rightarrow> bool" where
  "isOctet s = (s \<noteq> [] \<and> list_all isDigit s \<and> length s \<le> 3 \<and> readDigits s \<le> 255 \<and> (length s > 1 \<longrightarrow> hd s \<noteq> CHR ''0''))"

definition isIPv4 :: "string \<Rightarrow> bool" where
  "isIPv4 s = (let os = splitOn (CHR ''.'') s in length os = 4 \<and> list_all isOctet os)"

definition isHexDigit :: "char \<Rightarrow> bool" where
  "isHexDigit c = (isDigit c \<or> c \<in> set ''abcdefABCDEF'')"

definition isHexGroup :: "string \<Rightarrow> bool" where
  "isHexGroup s = (s \<noteq> [] \<and> length s \<le> 4 \<and> list_all isHexDigit s)"

text \<open>The number of groups of a list of texts between colons, the last of which may be an IPv4 address.\<close>

definition ipv6Groups :: "bool \<Rightarrow> string list \<Rightarrow> nat option" where
  "ipv6Groups lastMayBeV4 gs =
     (if list_all isHexGroup gs then Some (length gs)
      else if lastMayBeV4 \<and> gs \<noteq> [] \<and> list_all isHexGroup (butlast gs) \<and> isIPv4 (last gs) then Some (length gs + 1)
      else None)"

text \<open>The parts of the text before and behind the first double colon.\<close>

fun splitDoubleColon :: "string \<Rightarrow> string \<Rightarrow> (string \<times> string) option" where
  "splitDoubleColon acc (a # b # s) =
     (if a = CHR '':'' \<and> b = CHR '':'' then Some (rev acc, s) else splitDoubleColon (a # acc) (b # s))"
| "splitDoubleColon acc _ = None"

definition colonParts :: "string \<Rightarrow> string list" where
  "colonParts s = (if s = [] then [] else splitOn (CHR '':'') s)"

definition isIPv6Address :: "string \<Rightarrow> bool" where
  "isIPv6Address s =
     (case splitDoubleColon [] s of
        None \<Rightarrow> ipv6Groups True (colonParts s) = Some 8
      | Some (l, r) \<Rightarrow> (case (ipv6Groups False (colonParts l), ipv6Groups True (colonParts r)) of
          (Some m, Some n) \<Rightarrow> m + n \<le> 7 | _ \<Rightarrow> False))"

definition isIPv6 :: "string \<Rightarrow> bool" where
  "isIPv6 s =
     (case dropWhile (\<lambda>c. c \<noteq> CHR ''%'') s of
        [] \<Rightarrow> isIPv6Address s
      | _ # zone \<Rightarrow> isIPv6Address (takeWhile (\<lambda>c. c \<noteq> CHR ''%'') s) \<and> zone \<noteq> [] \<and>
          list_all (\<lambda>c. isWord c \<and> c \<noteq> CHR ''_'' \<or> c \<in> set ''-.:'') zone)"

text \<open>\<open>isIP\<close>: 4, 6, or 0 if the text is no address.\<close>

definition isIP :: "string \<Rightarrow> nat" where
  "isIP s = (if isIPv4 s then 4 else if isIPv6 s then 6 else 0)"

subsection \<open>Laws of paths\<close>

definition normalSegs :: "string list \<Rightarrow> bool" where
  "normalSegs ss = (\<forall>s\<in>set ss. s \<noteq> [] \<and> s \<noteq> ''.'' \<and> s \<noteq> ''..'' \<and> slash \<notin> set s)"

lemma splitOn_pieces: "s \<in> set (splitOn c t) \<Longrightarrow> c \<notin> set s"
proof (induction "length t" arbitrary: t rule: less_induct)
  case less
  show ?case
  proof (cases "c \<in> set t")
    case False
    then show ?thesis using less.prems by (simp add: splitOn_absent)
  next
    case True
    then obtain a b where t: "t = a @ c # b" "c \<notin> set a" by (meson split_list_first)
    then show ?thesis using less.prems less.hyps [of b] by (auto simp: splitOn_append)
  qed
qed

lemma normalSegs_Cons: "normalSegs (s # ss) \<longleftrightarrow> s \<noteq> [] \<and> s \<noteq> ''.'' \<and> s \<noteq> ''..'' \<and> slash \<notin> set s \<and> normalSegs ss"
  by (simp add: normalSegs_def)

lemma normalSegs_Nil [simp]: "normalSegs []"
  by (simp add: normalSegs_def)

lemma normalSegs_tl: "normalSegs ss \<Longrightarrow> normalSegs (tl ss)"
  by (cases ss) (simp_all add: normalSegs_Cons)

lemma normalSegs_rev [simp]: "normalSegs (rev ss) = normalSegs ss"
  by (simp add: normalSegs_def)

lemma normSegs_normal: "\<forall>s\<in>set ss. slash \<notin> set s \<Longrightarrow> normalSegs stack \<Longrightarrow> normalSegs (normSegs stack ss)"
  by (induction ss arbitrary: stack) (simp_all add: normalSegs_Cons normalSegs_tl)

lemma pathSegs_normal: "normalSegs (pathSegs p)"
  unfolding pathSegs_def by (rule normSegs_normal) (auto dest: splitOn_pieces)

lemma normSegs_id: "normalSegs ss \<Longrightarrow> normSegs stack ss = rev stack @ ss"
  by (induction ss arbitrary: stack) (simp_all add: normalSegs_Cons)

lemma pathSegs_absPath [simp]: "normalSegs ss \<Longrightarrow> pathSegs (absPath ss) = ss"
proof -
  assume n: "normalSegs ss"
  have "splitOn slash (absPath ss) = [] # splitOn slash (joinWith [slash] ss)"
    using splitOn_append [of slash "[]" "joinWith [slash] ss"] by (simp add: absPath_def)
  moreover have "splitOn slash (joinWith [slash] ss) = (if ss = [] then [[]] else ss)"
    using n by (auto simp: normalSegs_def splitOn_joinWith splitOn_absent)
  ultimately show ?thesis using normSegs_id [OF n, of "[]"] by (simp add: pathSegs_def)
qed

lemma pathSegs_resolve: "normalSegs (pathSegs (pathResolve pcwd ps))"
  by (rule pathSegs_normal)

lemma pathResolve_absPath: "pathResolve pcwd ps = absPath (pathSegs (pathResolve pcwd ps))"
  by (simp add: pathResolve_def pathSegs_normal)

lemma commonPrefix_prefix: "prefix a b \<Longrightarrow> commonPrefix a b = length a"
  by (induction a b rule: commonPrefix.induct) auto

lemma commonPrefix_not_prefix: "\<not> prefix a b \<Longrightarrow> commonPrefix a b < length a"
  by (induction a b rule: commonPrefix.induct) auto

end
