(* ===== verification/Sandbox.thy ===== *)
theory Sandbox
  imports HostPaths Governance JsonText
begin

section \<open>The sandbox\<close>

text \<open>
  src/src/sandbox/sandbox-service.ts. The host is a POSIX system: its home directory and the working directory of the process
  are the record \<open>SandboxHost\<close>. The WHATWG URL parser is the argument \<open>parseUrl\<close>. A regular expression of the configuration is
  its source text with its matcher. Keys of the table of argument policies that every JavaScript object inherits
  (such as \<open>constructor\<close>) do not occur as executables.
\<close>

record SandboxHost =
  sx_homedir :: string
  sx_processCwd :: string

record SandboxConfig =
  sg_workspaceRoot :: string
  sg_readRoots :: "string list option"
  sg_writeRoots :: "string list option"
  sg_allowedEnvKeys :: "string list option"
  sg_allowedShellCommands :: "string list option"
  sg_deniedShellPatterns :: "(string \<times> re) list option"
  sg_maxShellTimeoutMs :: "int option"
  sg_allowedFetchHosts :: "string list option"
  sg_shellNetworkAccess :: "ShellNetwork option"

record ShellSandboxRequest =
  sq_command :: string
  sq_cwd :: string
  sq_env :: "(string \<times> string) list option"
  sq_timeoutMs :: "int option"

record PreparedShellInput =
  pi_command :: string
  pi_cwd :: string
  pi_env :: "(string \<times> string) list"
  pi_timeoutMs :: int
  pi_executable :: string
  pi_sandboxPlan :: ShellPlan

record SandboxService =
  sv_processCwd :: string
  sv_workspaceRoot :: string
  sv_readRoots :: "string list"
  sv_writeRoots :: "string list"
  sv_allowedEnvKeys :: "string list"
  sv_allowedShellCommands :: "string list"
  sv_deniedShellPatterns :: "(string \<times> re) list"
  sv_maxShellTimeoutMs :: int
  sv_allowedFetchHosts :: "string list"
  sv_allowedFetchHostPatterns :: "re list"
  sv_shellNetworkAccess :: ShellNetwork

definition createSandboxError :: "string \<Rightarrow> json_object \<Rightarrow> thrown" where
  "createSandboxError msg sandbox = AppError Sandbox_denied msg (Some [(''sandbox'', JObj sandbox)])"

subsection \<open>Roots\<close>

definition isWithinRoot :: "string \<Rightarrow> string \<Rightarrow> bool" where
  "isWithinRoot candidatePath rootPath =
     (let r = pathRelative rootPath candidatePath
      in r = [] \<or> \<not> startsWith r (''..'' @ [CHR 0x5C]) \<and> \<not> startsWith r ''../'' \<and> r \<noteq> ''..'' \<and> \<not> isAbsolute r)"

definition normalizeRoots :: "string \<Rightarrow> string list \<Rightarrow> string list" where
  "normalizeRoots processCwd roots = fold (\<lambda>r acc. if r \<in> set acc then acc else acc @ [r]) (map (\<lambda>r. pathResolve processCwd [r]) roots) []"

definition assertSafeRoot :: "SandboxHost \<Rightarrow> string \<Rightarrow> string \<Rightarrow> thrown + unit" where
  "assertSafeRoot h rootPath label =
     (let normalized = lower rootPath; base = lower (pathBasename rootPath);
          refuse = (\<lambda>what. Inl (createSandboxError (''Refusing to use '' @ what @ '' as '' @ label @ '': '' @ rootPath)
            [(''kind'', JStr ''file''), (''rootPath'', JStr rootPath)]))
      in if normalized = [slash] then refuse ''filesystem root''
         else if normalized = lower (pathResolve (sx_processCwd h) [sx_homedir h]) then refuse ''the user home directory''
         else if base = ''.git'' \<or> includesStr normalized ([CHR 0x5C] @ ''.git'' @ [CHR 0x5C]) \<or> includesStr normalized ''/.git/''
         then refuse ''a Git metadata directory''
         else if base = ''.ssh'' \<or> includesStr normalized ([CHR 0x5C] @ ''.ssh'' @ [CHR 0x5C]) \<or> includesStr normalized ''/.ssh/''
         then refuse ''an SSH key directory''
         else if suffix ''/var/run/docker.sock'' normalized \<or>
                 suffix ([CHR 0x5C] @ ''var'' @ [CHR 0x5C] @ ''run'' @ [CHR 0x5C] @ ''docker.sock'') normalized
         then refuse ''the Docker socket''
         else Inr ())"

definition DEFAULT_ALLOWED_COMMANDS :: "string list" where
  "DEFAULT_ALLOWED_COMMANDS = [''cat'', ''cp'', ''dir'', ''echo'', ''eslint'', ''findstr'', ''git'', ''get-childitem'', ''get-content'',
     ''jest'', ''ls'', ''mkdir'', ''mv'', ''node'', ''npm'', ''pnpm'', ''prettier'', ''pwd'', ''python'', ''pytest'', ''rimraf'', ''ruff'',
     ''select-string'', ''tsc'', ''type'', ''where'', ''whoami'', ''yarn'']"

definition wholeWord :: "string \<Rightarrow> string \<times> re" where
  "wholeWord w = (''/'' @ [CHR 0x5C] @ ''b'' @ w @ [CHR 0x5C] @ ''b/i'', Cat WordBoundary (Cat (lit w) WordBoundary))"

definition DEFAULT_DENIED_PATTERNS :: "(string \<times> re) list" where
  "DEFAULT_DENIED_PATTERNS = map wholeWord [''del'', ''format'', ''remove-item'', ''rd'', ''rm'', ''rmdir'', ''shutdown'', ''stop-process'',
     ''taskkill'', ''curl'', ''invoke-webrequest'', ''wget'', ''ping'', ''ssh'']"

definition wildcardHostToRegExp :: "string \<Rightarrow> re" where
  "wildcardHostToRegExp pattern =
     seqOf (map (\<lambda>c. if c = CHR ''*'' then Many notNl else Unit (\<lambda>x. lowerChar x = lowerChar c)) (lower pattern))"

definition withDefault :: "'a option \<Rightarrow> 'a \<Rightarrow> 'a" where
  "withDefault v d = (case v of None \<Rightarrow> d | Some x \<Rightarrow> x)"

fun firstError :: "(thrown + unit) list \<Rightarrow> thrown + unit" where
  "firstError [] = Inr ()"
| "firstError (Inl e # rs) = Inl e"
| "firstError (Inr _ # rs) = firstError rs"

text \<open>The fields the constructor sets, and the constructor, which checks the write roots.\<close>

definition sandboxFields :: "SandboxHost \<Rightarrow> SandboxConfig \<Rightarrow> SandboxService" where
  "sandboxFields h cfg =
     (let pcwd = sx_processCwd h; root = pathResolve pcwd [sg_workspaceRoot cfg]; hosts = map lower (withDefault (sg_allowedFetchHosts cfg) [])
      in \<lparr>sv_processCwd = pcwd, sv_workspaceRoot = root,
           sv_readRoots = normalizeRoots pcwd (root # withDefault (sg_readRoots cfg) []),
           sv_writeRoots = normalizeRoots pcwd (withDefault (sg_writeRoots cfg) [root]),
           sv_allowedEnvKeys = withDefault (sg_allowedEnvKeys cfg) [],
           sv_allowedShellCommands = map lower (withDefault (sg_allowedShellCommands cfg) DEFAULT_ALLOWED_COMMANDS),
           sv_deniedShellPatterns = withDefault (sg_deniedShellPatterns cfg) DEFAULT_DENIED_PATTERNS,
           sv_maxShellTimeoutMs = withDefault (sg_maxShellTimeoutMs cfg) 30000, sv_allowedFetchHosts = hosts,
           sv_allowedFetchHostPatterns = map wildcardHostToRegExp (filter (\<lambda>x. CHR ''*'' \<in> set x) hosts),
           sv_shellNetworkAccess = withDefault (sg_shellNetworkAccess cfg) Unrestricted\<rparr>)"

definition newSandboxService :: "SandboxHost \<Rightarrow> SandboxConfig \<Rightarrow> thrown + SandboxService" where
  "newSandboxService h cfg =
     (case firstError (map (\<lambda>r. assertSafeRoot h r ''write root'') (sv_writeRoots (sandboxFields h cfg))) of
        Inl e \<Rightarrow> Inl e
      | Inr _ \<Rightarrow> Inr (sandboxFields h cfg))"

subsection \<open>Files\<close>

definition classifyReadScope :: "SandboxService \<Rightarrow> string \<Rightarrow> PathScope" where
  "classifyReadScope sv p =
     (if isWithinRoot p (sv_workspaceRoot sv) then Workspace
      else if list_ex (isWithinRoot p) (sv_readRoots sv) then Write_root else Outside_workspace)"

definition classifyWriteScope :: "SandboxService \<Rightarrow> string \<Rightarrow> PathScope" where
  "classifyWriteScope sv p =
     (if isWithinRoot p (sv_workspaceRoot sv) then Workspace
      else if list_ex (isWithinRoot p) (sv_writeRoots sv) then Write_root else Outside_workspace)"

definition isWithinExtraWriteRoot :: "SandboxService \<Rightarrow> string \<Rightarrow> bool" where
  "isWithinExtraWriteRoot sv p =
     list_ex (isWithinRoot p) (filter (\<lambda>root. \<not> isWithinRoot root (sv_workspaceRoot sv)) (sv_writeRoots sv))"

fun scopeStr :: "PathScope \<Rightarrow> string" where
  "scopeStr Workspace = ''workspace''"
| "scopeStr Write_root = ''write_root''"
| "scopeStr Outside_workspace = ''outside_workspace''"
| "scopeStr Outside_write_root = ''outside_write_root''"
| "scopeStr Network = ''network''"

definition fileDenied :: "string \<Rightarrow> string \<Rightarrow> PathScope \<Rightarrow> string \<Rightarrow> string \<Rightarrow> thrown" where
  "fileDenied msg operation scope requested resolved =
     createSandboxError msg [(''kind'', JStr ''file''), (''operation'', JStr operation), (''pathScope'', JStr (scopeStr scope)),
       (''requestedPath'', JStr requested), (''resolvedPath'', JStr resolved)]"

definition prepareFileRead :: "SandboxService \<Rightarrow> string \<Rightarrow> string \<Rightarrow> thrown + FilePlan" where
  "prepareFileRead sv candidatePath cwd =
     (let resolved = pathResolve (sv_processCwd sv) [cwd, candidatePath]; scope = classifyReadScope sv resolved
      in if scope = Outside_workspace
         then Inl (fileDenied (''Read path '' @ resolved @ '' is outside the workspace root and configured read roots. '' @
           ''Use --cwd for the workspace or add an explicit read root in .auto-talon/sandbox.config.json.'')
           ''read'' scope candidatePath resolved)
         else Inr \<lparr>fp_operation = Read, fp_requestedPath = candidatePath, fp_resolvedPath = resolved, fp_pathScope = scope,
           fp_withinExtraWriteRoot = Some (isWithinExtraWriteRoot sv resolved)\<rparr>)"

definition prepareFileWrite :: "SandboxService \<Rightarrow> string \<Rightarrow> string \<Rightarrow> thrown + FilePlan" where
  "prepareFileWrite sv candidatePath cwd =
     (let resolved = pathResolve (sv_processCwd sv) [cwd, candidatePath]; scope = classifyWriteScope sv resolved
      in if scope = Outside_workspace \<or> scope = Outside_write_root
         then Inl (fileDenied (''Write path '' @ resolved @ '' is outside the configured write roots. '' @
           ''Use --cwd for workspace writes or pass --write-root '' @ pathDirname resolved @ '' to authorize this location explicitly.'')
           ''write'' scope candidatePath resolved)
         else Inr \<lparr>fp_operation = Write, fp_requestedPath = candidatePath, fp_resolvedPath = resolved, fp_pathScope = scope,
           fp_withinExtraWriteRoot = Some (isWithinExtraWriteRoot sv resolved)\<rparr>)"

subsection \<open>Shell commands\<close>

definition assertNoShellChaining :: "string \<Rightarrow> thrown + unit" where
  "assertNoShellChaining command =
     (if list_ex (includesStr command) [''&&'', ''||'', '';'', [CHR 0x0A], [CHR 0x0D], ''$('', [CHR 0x60]]
      then Inl (AppError Sandbox_denied ''Shell command contains chaining or eval syntax that is not allowed in sandbox mode.'' None)
      else Inr ())"

text \<open>\<open>/\s<option>\b/\<close>.\<close>

definition optionPattern :: "string \<Rightarrow> re" where
  "optionPattern o1 = Cat (Unit isWs) (Cat (lit o1) WordBoundary)"

definition deniedByExecutable :: "string \<Rightarrow> string list" where
  "deniedByExecutable executable =
     (if executable = ''node'' then [''--eval'', ''-e'', ''--print'', ''-p'']
      else if executable \<in> {''powershell'', ''pwsh''} then [''-command'', ''-encodedcommand'', ''-enc'']
      else if executable = ''python'' then [''-c''] else [])"

definition assertExecutableArgsPolicy :: "string \<Rightarrow> string \<Rightarrow> thrown + unit" where
  "assertExecutableArgsPolicy executable command =
     (if list_ex (\<lambda>o1. testRe (optionPattern o1) (lower command)) (deniedByExecutable executable)
      then Inl (AppError Sandbox_denied (''Shell arguments for '' @ executable @ '' violate sandbox policy.'') None)
      else Inr ())"

definition quotedWord :: "char \<Rightarrow> string \<Rightarrow> string option" where
  "quotedWord q s = (case s of [] \<Rightarrow> None
     | c # cs \<Rightarrow> let w = takeWhile (\<lambda>x. x \<noteq> q) cs in if c = q \<and> w \<noteq> [] \<and> w \<noteq> cs then Some w else None)"

definition extractExecutable :: "string \<Rightarrow> string" where
  "extractExecutable command =
     (let t = trim command
      in case quotedWord (CHR 0x22) t of Some w \<Rightarrow> w
         | None \<Rightarrow> (case quotedWord (CHR 0x27) t of Some w \<Rightarrow> w | None \<Rightarrow> takeWhile (\<lambda>c. \<not> isWs c) t))"

definition sanitizeEnv :: "SandboxService \<Rightarrow> (string \<times> string) list option \<Rightarrow> thrown + (string \<times> string) list" where
  "sanitizeEnv sv env =
     (case env of
        None \<Rightarrow> Inr []
      | Some es \<Rightarrow>
          let sanitized = filter (\<lambda>(k, v). k \<in> set (sv_allowedEnvKeys sv)) es
          in if length sanitized \<noteq> length es
             then Inl (createSandboxError ''Shell env contains keys outside the allowlist.''
               [(''allowedEnvKeys'', JArr (map JStr (sv_allowedEnvKeys sv))), (''kind'', JStr ''shell'')])
             else Inr sanitized)"

definition clampTimeout :: "SandboxService \<Rightarrow> int option \<Rightarrow> thrown + int" where
  "clampTimeout sv timeoutMs =
     (case timeoutMs of
        None \<Rightarrow> Inr (sv_maxShellTimeoutMs sv)
      | Some t \<Rightarrow> if t \<le> 0 \<or> t > sv_maxShellTimeoutMs sv
          then Inl (createSandboxError (''Shell timeout '' @ showInt t @ ''ms exceeds sandbox limit '' @ showInt (sv_maxShellTimeoutMs sv) @ ''ms.'')
            [(''kind'', JStr ''shell''), (''maxTimeoutMs'', JNum (sv_maxShellTimeoutMs sv)), (''timeoutMs'', JNum t)])
          else Inr t)"

definition matchedPattern :: "SandboxService \<Rightarrow> string \<Rightarrow> (string \<times> re) option" where
  "matchedPattern sv command = List.find (\<lambda>(src, r). testRe r command) (sv_deniedShellPatterns sv)"

definition shellPlan :: "SandboxService \<Rightarrow> string \<Rightarrow> string \<Rightarrow> string \<Rightarrow> (string \<times> string) list \<Rightarrow> int \<Rightarrow> ShellPlan" where
  "shellPlan sv command executable cwd env timeoutMs = \<lparr>sp_command = command, sp_executable = executable, sp_cwd = cwd,
     sp_envKeys = map fst env, sp_timeoutMs = timeoutMs, sp_pathScope = classifyReadScope sv cwd,
     sp_networkAccess = sv_shellNetworkAccess sv\<rparr>"

definition prepareShellExecution :: "SandboxService \<Rightarrow> ShellSandboxRequest \<Rightarrow> thrown + PreparedShellInput" where
  "prepareShellExecution sv rq =
     (let command = sq_command rq; executable = lower (extractExecutable command);
          cwd = pathResolve (sv_processCwd sv) [sq_cwd rq]
      in case assertNoShellChaining command of Inl e \<Rightarrow> Inl e | Inr _ \<Rightarrow>
         (case matchedPattern sv command of
            Some (src, _) \<Rightarrow> Inl (createSandboxError (''Shell command denied by sandbox: '' @ command)
              [(''kind'', JStr ''shell''), (''reason'', JStr (''Command matched '' @ src))])
          | None \<Rightarrow>
              if executable \<notin> set (sv_allowedShellCommands sv)
              then Inl (createSandboxError (''Command '' @ executable @ '' is not in the sandbox allowlist.'')
                [(''executable'', JStr executable), (''kind'', JStr ''shell'')])
              else case assertExecutableArgsPolicy executable command of Inl e \<Rightarrow> Inl e | Inr _ \<Rightarrow>
                if classifyReadScope sv cwd = Outside_workspace
                then Inl (createSandboxError (''Shell cwd '' @ cwd @ '' is outside the workspace root.'')
                  [(''cwd'', JStr cwd), (''kind'', JStr ''shell''), (''pathScope'', JStr (scopeStr Outside_workspace))])
                else case sanitizeEnv sv (sq_env rq) of Inl e \<Rightarrow> Inl e | Inr env \<Rightarrow>
                  (case clampTimeout sv (sq_timeoutMs rq) of Inl e \<Rightarrow> Inl e | Inr timeoutMs \<Rightarrow>
                     Inr \<lparr>pi_command = command, pi_cwd = cwd, pi_env = env, pi_timeoutMs = timeoutMs, pi_executable = executable,
                       pi_sandboxPlan = shellPlan sv command executable cwd env timeoutMs\<rparr>)))"

subsection \<open>Web addresses\<close>

record ParsedUrl =
  ur_protocol :: string
  ur_hostname :: string
  ur_host :: string
  ur_href :: string

definition isPrivateIpv4 :: "string \<Rightarrow> bool" where
  "isPrivateIpv4 hostname =
     (let octets = map parseInt10 (splitOn (CHR ''.'') hostname)
      in if length octets \<noteq> 4 \<or> list_ex (\<lambda>v. case v of None \<Rightarrow> True | Some n \<Rightarrow> n < 0 \<or> n > 255) octets then True
         else let a = the (octets ! 0); b = the (octets ! 1)
           in a = 0 \<or> a = 10 \<or> a = 127 \<or> (a = 100 \<and> 64 \<le> b \<and> b \<le> 127) \<or> (a = 169 \<and> b = 254) \<or>
              (a = 172 \<and> 16 \<le> b \<and> b \<le> 31) \<or> (a = 192 \<and> b = 168) \<or> (a = 198 \<and> (b = 18 \<or> b = 19)))"

definition isPrivateIpv6 :: "string \<Rightarrow> bool" where
  "isPrivateIpv6 hostname =
     (let lowered = lower hostname
      in lowered = ''::'' \<or> lowered = ''::1'' \<or>
         list_ex (startsWith lowered) [''fc'', ''fd'', ''fe8'', ''fe9'', ''fea'', ''feb'', ''fec'', ''fed'', ''fee'', ''fef''] \<or>
         (startsWith lowered ''::ffff:'' \<and> isPrivateIpv4 (drop 7 lowered)))"

definition classifyRestrictedFetchTarget :: "string \<Rightarrow> string option" where
  "classifyRestrictedFetchTarget hostname =
     (if hostname = ''localhost'' \<or> hostname = ''localhost.localdomain'' \<or> hostname = ''host.docker.internal'' \<or>
         suffix ''.localhost'' hostname \<or> suffix ''.local'' hostname then Some ''local hostname''
      else if CHR ''.'' \<notin> set hostname \<and> isIP hostname = 0 then Some ''single-label internal hostname''
      else if isIP hostname = 4 \<and> isPrivateIpv4 hostname then Some ''private or local IPv4 range''
      else if isIP hostname = 6 \<and> isPrivateIpv6 hostname then Some ''private or local IPv6 range''
      else None)"

definition isAllowedFetchHost :: "SandboxService \<Rightarrow> string \<Rightarrow> bool" where
  "isAllowedFetchHost sv host =
     (''*'' \<in> set (sv_allowedFetchHosts sv) \<or> host \<in> set (sv_allowedFetchHosts sv) \<or>
      list_ex (\<lambda>r. matchesAll r host) (sv_allowedFetchHostPatterns sv))"

definition prepareWebFetch :: "(string \<Rightarrow> ParsedUrl option) \<Rightarrow> SandboxService \<Rightarrow> string \<Rightarrow> thrown + WebPlan" where
  "prepareWebFetch parseUrl sv url =
     (case parseUrl url of
        None \<Rightarrow> Inl (AppError Tool_validation_error (''Invalid URL for web fetch: '' @ url) None)
      | Some u \<Rightarrow>
          let protocol = lower (ur_protocol u); hostname = lower (ur_hostname u); host = lower (ur_host u)
          in if protocol \<noteq> ''http:'' \<and> protocol \<noteq> ''https:''
             then Inl (createSandboxError (''Protocol '' @ ur_protocol u @ '' is not allowed for web fetch.'')
               [(''host'', JStr (ur_host u)), (''kind'', JStr ''network''), (''protocol'', JStr (ur_protocol u)), (''url'', JStr url)])
             else case classifyRestrictedFetchTarget hostname of
               Some why \<Rightarrow> Inl (createSandboxError (''Host '' @ hostname @ '' is blocked for web fetch: '' @ why @ ''.'')
                 [(''host'', JStr host), (''hostname'', JStr hostname), (''kind'', JStr ''network''), (''url'', JStr url)])
             | None \<Rightarrow>
                 if \<not> isAllowedFetchHost sv host
                 then Inl (createSandboxError (''Host '' @ host @ '' is not in the allowed fetch list.'')
                   [(''host'', JStr host), (''kind'', JStr ''network''), (''url'', JStr url)])
                 else Inr \<lparr>wp_method = GET, wp_url = ur_href u, wp_host = host\<rparr>)"

end
