(* ===== verification/SandboxProps.thy ===== *)
theory SandboxProps
  imports Sandbox "HOL-Library.Word"
begin

section \<open>What the sandbox lets through\<close>

subsection \<open>Paths\<close>

text \<open>A root contains the paths whose segments extend its own, but for names that begin with two dots and a backslash.\<close>

definition below :: "string \<Rightarrow> string \<Rightarrow> bool" where
  "below root path \<longleftrightarrow> prefix (pathSegs root) (pathSegs path)"

definition dotsBackslash :: string where
  "dotsBackslash = ''..'' @ [CHR 0x5C]"

lemma joinWith_Cons: "joinWith sep (s # ss) = s @ (if ss = [] then [] else sep @ joinWith sep ss)"
  by (cases ss) simp_all

lemma prefix_before_slash:
  assumes "slash \<notin> set p" and "slash \<notin> set s"
  shows "prefix p (s @ slash # t) \<longleftrightarrow> prefix p s"
  using assms by (auto simp: prefix_append) (metis in_set_conv_decomp not_Cons_self2 prefix_Cons self_append_conv2 append_Nil2 prefix_bot.extremum_uniqueI)+

lemma relative_below:
  assumes "prefix (pathSegs r) (pathSegs c)"
  shows "pathRelative r c = joinWith [slash] (drop (length (pathSegs r)) (pathSegs c))"
  using assms by (simp add: pathRelative_def Let_def commonPrefix_prefix)

lemma relative_outside:
  assumes "\<not> prefix (pathSegs r) (pathSegs c)"
  shows "pathRelative r c = ''..'' \<or> startsWith (pathRelative r c) ''../''"
proof -
  let ?n = "length (pathSegs r) - commonPrefix (pathSegs r) (pathSegs c)"
  obtain m where "?n = Suc m" using commonPrefix_not_prefix [OF assms] by (metis Suc_diff_Suc)
  then show ?thesis by (auto simp: pathRelative_def Let_def joinWith_Cons startsWith_def)
qed

lemma isWithinRoot_iff:
  "isWithinRoot c r \<longleftrightarrow> below r c \<and>
     (case drop (length (pathSegs r)) (pathSegs c) of [] \<Rightarrow> True | s # _ \<Rightarrow> \<not> prefix dotsBackslash s)"
proof (cases "below r c")
  case True
  let ?d = "drop (length (pathSegs r)) (pathSegs c)"
  have n: "normalSegs ?d" using pathSegs_normal [of c] by (auto simp: normalSegs_def dest: in_set_dropD)
  show ?thesis
  proof (cases ?d)
    case Nil
    with True show ?thesis by (simp add: isWithinRoot_def below_def relative_below)
  next
    case (Cons s ss)
    with n have s: "s \<noteq> []" "s \<noteq> ''..''" "slash \<notin> set s" by (simp_all add: normalSegs_Cons)
    from Cons True have rel: "pathRelative r c = s @ (if ss = [] then [] else slash # joinWith [slash] ss)"
      by (simp add: below_def relative_below joinWith_Cons)
    have "\<not> isAbsolute (pathRelative r c)" using s by (cases s) (auto simp: rel isAbsolute_def)
    moreover have "pathRelative r c \<noteq> ''..''"
      using s unfolding rel by (cases ss) (auto simp: append_eq_Cons_conv)
    moreover have "\<not> startsWith (pathRelative r c) ''../''"
      using s unfolding rel startsWith_def by (auto simp: prefix_def append_eq_Cons_conv Cons_eq_append_conv)
    moreover have "startsWith (pathRelative r c) dotsBackslash \<longleftrightarrow> prefix dotsBackslash s"
      using prefix_before_slash [of dotsBackslash s] s unfolding rel startsWith_def by (auto simp: dotsBackslash_def)
    ultimately show ?thesis using True Cons s by (auto simp: isWithinRoot_def Let_def rel dotsBackslash_def)
  qed
next
  case False
  then show ?thesis using relative_outside [of r c] by (auto simp: isWithinRoot_def below_def Let_def startsWith_def)
qed


lemma normalizeRoots_set [simp]: "set (normalizeRoots pcwd rs) = (\<lambda>r. pathResolve pcwd [r]) ` set rs"
proof -
  have "set (fold (\<lambda>r acc. if r \<in> set acc then acc else acc @ [r]) xs acc) = set acc \<union> set xs" for xs acc :: "string list"
    by (induction xs arbitrary: acc) auto
  then show ?thesis by (auto simp: normalizeRoots_def)
qed

lemma normSegs_trailing: "normSegs stack (xs @ [[]]) = normSegs stack xs"
  by (induction xs arbitrary: stack) simp_all

lemma pathSegs_trailing: "pathSegs (p @ [slash]) = pathSegs p"
  using splitOn_at [of slash p "[]"] by (simp add: pathSegs_def splitOn_absent normSegs_trailing)

lemma isAbsolute_absPath [simp]: "isAbsolute (absPath ss)" "absPath ss \<noteq> []"
  by (simp_all add: isAbsolute_def absPath_def)

lemma pathResolve_idem [simp]: "pathResolve pcwd [pathResolve pcwd ps] = pathResolve pcwd ps"
proof -
  obtain ss where ss: "pathResolve pcwd ps = absPath ss" "normalSegs ss" using pathResolve_absPath pathSegs_resolve by metis
  then show ?thesis by (simp add: pathResolve_def [of pcwd "[absPath ss]"] pathSegs_trailing)
qed

text \<open>The service a configuration gives.\<close>

definition configuredRoots :: "SandboxHost \<Rightarrow> SandboxConfig \<Rightarrow> string list option \<Rightarrow> string list" where
  "configuredRoots h cfg extra = map (\<lambda>r. pathResolve (sx_processCwd h) [r]) (sg_workspaceRoot cfg # withDefault extra [])"

lemma newSandboxService_fields:
  assumes "newSandboxService h cfg = Inr sv"
  shows "sv_processCwd sv = sx_processCwd h" "sv_workspaceRoot sv = pathResolve (sx_processCwd h) [sg_workspaceRoot cfg]"
    "set (sv_readRoots sv) = set (configuredRoots h cfg (sg_readRoots cfg))"
    "set (sv_writeRoots sv) \<union> {sv_workspaceRoot sv} = set (configuredRoots h cfg (sg_writeRoots cfg))"
    "sv_allowedEnvKeys sv = withDefault (sg_allowedEnvKeys cfg) []"
    "sv_allowedShellCommands sv = map lower (withDefault (sg_allowedShellCommands cfg) DEFAULT_ALLOWED_COMMANDS)"
    "sv_deniedShellPatterns sv = withDefault (sg_deniedShellPatterns cfg) DEFAULT_DENIED_PATTERNS"
    "sv_maxShellTimeoutMs sv = withDefault (sg_maxShellTimeoutMs cfg) 30000"
    "sv_allowedFetchHosts sv = map lower (withDefault (sg_allowedFetchHosts cfg) [])"
proof -
  have "sv = sandboxFields h cfg" using assms by (simp add: newSandboxService_def split: sum.splits)
  then show "sv_processCwd sv = sx_processCwd h" "sv_workspaceRoot sv = pathResolve (sx_processCwd h) [sg_workspaceRoot cfg]"
    "set (sv_readRoots sv) = set (configuredRoots h cfg (sg_readRoots cfg))"
    "set (sv_writeRoots sv) \<union> {sv_workspaceRoot sv} = set (configuredRoots h cfg (sg_writeRoots cfg))"
    "sv_allowedEnvKeys sv = withDefault (sg_allowedEnvKeys cfg) []"
    "sv_allowedShellCommands sv = map lower (withDefault (sg_allowedShellCommands cfg) DEFAULT_ALLOWED_COMMANDS)"
    "sv_deniedShellPatterns sv = withDefault (sg_deniedShellPatterns cfg) DEFAULT_DENIED_PATTERNS"
    "sv_maxShellTimeoutMs sv = withDefault (sg_maxShellTimeoutMs cfg) 30000"
    "sv_allowedFetchHosts sv = map lower (withDefault (sg_allowedFetchHosts cfg) [])"
    by (auto simp: sandboxFields_def Let_def configuredRoots_def withDefault_def split: option.splits)
qed

subsection \<open>Files\<close>

lemma read_scope:
  assumes "newSandboxService h cfg = Inr sv"
  shows "classifyReadScope sv p = Outside_workspace \<longleftrightarrow> \<not> list_ex (isWithinRoot p) (configuredRoots h cfg (sg_readRoots cfg))"
  using newSandboxService_fields(2,3) [OF assms]
  by (auto simp: classifyReadScope_def list_ex_iff configuredRoots_def split: if_splits)

lemma write_scope:
  assumes "newSandboxService h cfg = Inr sv"
  shows "classifyWriteScope sv p = Outside_workspace \<longleftrightarrow> \<not> list_ex (isWithinRoot p) (configuredRoots h cfg (sg_writeRoots cfg))"
proof -
  have "list_ex (isWithinRoot p) (configuredRoots h cfg (sg_writeRoots cfg)) \<longleftrightarrow>
      isWithinRoot p (sv_workspaceRoot sv) \<or> list_ex (isWithinRoot p) (sv_writeRoots sv)"
    unfolding list_ex_iff newSandboxService_fields(4) [OF assms, symmetric] by auto
  then show ?thesis by (simp add: classifyWriteScope_def)
qed

text \<open>
  What lies inside a root: the root itself, and what extends it segment by segment, unless the first further segment begins with
  two dots and a backslash (the way out of a directory on Windows).
\<close>

definition inside :: "string \<Rightarrow> string \<Rightarrow> bool" where
  "inside root c \<longleftrightarrow> below root c \<and>
     (case drop (length (pathSegs root)) (pathSegs c) of [] \<Rightarrow> True | name # _ \<Rightarrow> \<not> prefix dotsBackslash name)"

text \<open>
  C16: a file access, reading or writing, is let through exactly when the path asked for, resolved, lies inside the workspace root
  or another root configured for this kind of access; the plan's path is the resolved one and has no dots left. Lying inside is
  lexical: the path extends the root segment by segment, and enters it by a name that does not begin with two dots and a backslash.
  Any other access is refused with the error of the sandbox.
\<close>

theorem file_access_confined:
  assumes "newSandboxService h cfg = Inr sv"
  shows "case (if reading then prepareFileRead sv p cwd else prepareFileWrite sv p cwd) of
     Inr plan \<Rightarrow> fp_resolvedPath plan = pathResolve (sx_processCwd h) [cwd, p] \<and> normalSegs (pathSegs (fp_resolvedPath plan)) \<and>
       list_ex (\<lambda>root. inside root (fp_resolvedPath plan)) (configuredRoots h cfg (if reading then sg_readRoots cfg else sg_writeRoots cfg))
   | Inl e \<Rightarrow> (\<exists>msg d. e = AppError Sandbox_denied msg d) \<and>
       \<not> list_ex (\<lambda>root. inside root (pathResolve (sx_processCwd h) [cwd, p]))
          (configuredRoots h cfg (if reading then sg_readRoots cfg else sg_writeRoots cfg))"
proof -
  let ?r = "pathResolve (sx_processCwd h) [cwd, p]"
  have never: "classifyWriteScope sv ?r \<noteq> Outside_write_root" by (simp add: classifyWriteScope_def)
  have within: "list_ex (isWithinRoot ?r) roots = list_ex (\<lambda>root. inside root ?r) roots" for roots
    by (simp add: list_ex_iff isWithinRoot_iff inside_def)
  show ?thesis
    using newSandboxService_fields(1) [OF assms] read_scope [OF assms, of ?r] write_scope [OF assms, of ?r] never pathSegs_normal [of ?r]
    unfolding within by (auto simp: prepareFileRead_def prepareFileWrite_def Let_def fileDenied_def createSandboxError_def)
qed

subsection \<open>Shell commands\<close>

text \<open>
  C17: a shell command the sandbox prepares runs the command it was given, without any of the chaining tokens, without a
  match of a denied pattern, with a first word on the allowlist, in a directory below a readable root, with environment variables on
  their allowlist only, and for at most the configured time.
\<close>

theorem shell_command_checked:
  assumes "newSandboxService h cfg = Inr sv" and "prepareShellExecution sv rq = Inr out"
  shows "pi_command out = sq_command rq \<and>
    \<not> list_ex (includesStr (pi_command out)) [''&&'', ''||'', '';'', [CHR 0x0A], [CHR 0x0D], ''$('', [CHR 0x60]] \<and>
    \<not> list_ex (\<lambda>(src, r). testRe r (pi_command out)) (withDefault (sg_deniedShellPatterns cfg) DEFAULT_DENIED_PATTERNS) \<and>
    lower (extractExecutable (pi_command out)) \<in> set (map lower (withDefault (sg_allowedShellCommands cfg) DEFAULT_ALLOWED_COMMANDS)) \<and>
    list_ex (\<lambda>root. below root (pi_cwd out)) (configuredRoots h cfg (sg_readRoots cfg)) \<and>
    set (map fst (pi_env out)) \<subseteq> set (withDefault (sg_allowedEnvKeys cfg) []) \<and>
    pi_timeoutMs out \<le> withDefault (sg_maxShellTimeoutMs cfg) 30000"
proof -
  note f = newSandboxService_fields [OF assms(1)]
  have nomatch: "matchedPattern sv c = None \<Longrightarrow> \<not> list_ex (\<lambda>(src, r). testRe r c) (sv_deniedShellPatterns sv)" for c
    by (auto simp: matchedPattern_def find_None_iff list_ex_iff)
  have dir: "list_ex (\<lambda>root. below root c) (configuredRoots h cfg (sg_readRoots cfg))" if "classifyReadScope sv c \<noteq> Outside_workspace" for c
    using that read_scope [OF assms(1), of c] by (auto simp: list_ex_iff isWithinRoot_iff)
  have env: "set (map fst es) \<subseteq> set (sv_allowedEnvKeys sv)" if "sanitizeEnv sv o1 = Inr es" for o1 es
    using that by (auto simp: sanitizeEnv_def Let_def split: option.splits if_splits)
  have time: "t \<le> sv_maxShellTimeoutMs sv" if "clampTimeout sv o1 = Inr t" for o1 t
    using that by (auto simp: clampTimeout_def split: option.splits if_splits)
  have steps: "assertNoShellChaining (sq_command rq) = Inr ()" "matchedPattern sv (sq_command rq) = None"
      "lower (extractExecutable (sq_command rq)) \<in> set (sv_allowedShellCommands sv)"
      "classifyReadScope sv (pi_cwd out) \<noteq> Outside_workspace" "sanitizeEnv sv (sq_env rq) = Inr (pi_env out)"
      "clampTimeout sv (sq_timeoutMs rq) = Inr (pi_timeoutMs out)" "pi_command out = sq_command rq"
    using assms(2) by (simp_all add: prepareShellExecution_def Let_def split: sum.splits option.splits if_splits) auto
  show ?thesis
    using steps(1,3) nomatch [OF steps(2)] dir [OF steps(4)] env [OF steps(5)] time [OF steps(6)]
    unfolding f(5-8) steps(7) by (simp add: assertNoShellChaining_def split: if_splits)
qed

subsection \<open>Web addresses\<close>

text \<open>An IPv4 address as a word, its text, and the blocks of addresses that are not public.\<close>

definition octet :: "nat \<Rightarrow> 32 word \<Rightarrow> nat" where
  "octet i a = unat (drop_bit (24 - 8 * i) a) mod 256"

definition dotted :: "32 word \<Rightarrow> string" where
  "dotted a = joinWith ''.'' (map (\<lambda>i. showNat (octet i a)) [0, 1, 2, 3])"

definition reservedBlocks :: "(32 word \<times> nat) list" where
  "reservedBlocks = [(0x00000000, 8), (0x0A000000, 8), (0x7F000000, 8), (0x64400000, 10), (0xA9FE0000, 16), (0xAC100000, 12),
     (0xC0A80000, 16), (0xC6120000, 15)]"

definition inBlock :: "32 word \<Rightarrow> 32 word \<times> nat \<Rightarrow> bool" where
  "inBlock a b = (drop_bit (32 - snd b) a = drop_bit (32 - snd b) (fst b))"

lemma octet_less: "octet i a < 256"
  by (simp add: octet_def)

lemma readDigits_snoc: "readDigits (ds @ [c]) = 10 * readDigits ds + (of_char c - 48)"
  by (simp add: readDigits_def)

lemma showNat_reads: "list_all isDigit (showNat n) \<and> showNat n \<noteq> [] \<and> readDigits (showNat n) = n"
proof (induction n rule: less_induct)
  case (less n)
  show ?case
  proof (cases "n < 10")
    case True
    then show ?thesis by (simp add: showNat.simps [of n] isDigit_char readDigits_def)
  next
    case False
    then have "n div 10 < n" by simp
    from less.IH [OF this] False show ?thesis
      by (simp add: showNat.simps [of n] isDigit_char readDigits_snoc)
  qed
qed

lemma showNat_short: "n < 256 \<Longrightarrow> length (showNat n) \<le> 3"
  by (simp add: showNat.simps [of n] showNat.simps [of "n div 10"] showNat.simps [of "n div 10 div 10"])

lemma showNat_leading: "10 \<le> n \<Longrightarrow> hd (showNat n) \<noteq> CHR ''0''"
proof (induction n rule: less_induct)
  case (less n)
  have h: "hd (showNat n) = hd (showNat (n div 10))" using less.prems showNat_reads [of "n div 10"] by (simp add: showNat.simps [of n])
  show ?case
  proof (cases "n div 10 < 10")
    case True
    moreover have "n div 10 \<noteq> 0" using less.prems by simp
    moreover have "(char_of (48 + k) :: char) = CHR ''0'' \<longleftrightarrow> k = 0" if "k < 10" for k :: nat
    proof -
      have "(of_char (char_of (48 + k) :: char) :: nat) = of_char (CHR ''0'') \<longleftrightarrow> k = 0" using that by simp
      then show ?thesis by (metis of_char_eq_iff)
    qed
    ultimately show ?thesis using h by (simp add: showNat.simps [of "n div 10"])
  next
    case False
    then show ?thesis using less.IH [of "n div 10"] less.prems h by simp
  qed
qed

lemma showNat_octet:
  assumes "n < 256"
  shows "isOctet (showNat n)" "parseInt10 (showNat n) = Some (int n)" "CHR ''.'' \<notin> set (showNat n)"
proof -
  note d = showNat_reads [of n]
  have "length (showNat n) > 1 \<Longrightarrow> 10 \<le> n" by (cases "n < 10") (simp_all add: showNat.simps [of n])
  then show "isOctet (showNat n)" using d showNat_short [OF assms] showNat_leading [of n] assms by (auto simp: isOctet_def)
  obtain c cs where s: "showNat n = c # cs" using d by (cases "showNat n") auto
  then have "isDigit c" using d by simp
  then have "\<not> isWs c" "c \<noteq> CHR ''-''" "c \<noteq> CHR ''+''" by (auto simp: isDigit_def isWs_def)
  moreover have t: "takeWhile isDigit cs = cs" using d s by (simp add: list_all_iff takeWhile_eq_all_conv)
  ultimately show "parseInt10 (showNat n) = Some (int n)"
    using d \<open>isDigit c\<close> unfolding s parseInt10_def by (simp add: Let_def t del: takeWhile_eq_all_conv)
  show "CHR ''.'' \<notin> set (showNat n)" using d by (auto simp: list_all_iff isDigit_def)
qed

lemma splitOn_dotted: "splitOn (CHR ''.'') (dotted a) = map (\<lambda>i. showNat (octet i a)) [0, 1, 2, 3]"
  unfolding dotted_def by (rule splitOn_joinWith) (auto simp: showNat_octet(3) [OF octet_less])

lemma isIPv4_dotted: "isIP (dotted a) = 4"
  using showNat_octet(1) [OF octet_less] by (simp add: isIP_def isIPv4_def splitOn_dotted)

text \<open>The arithmetic of the blocks.\<close>

lemma inBlock_div: "inBlock a (net, len) \<longleftrightarrow> unat a div 2 ^ (32 - len) = unat net div 2 ^ (32 - len)"
  unfolding inBlock_def word_unat_eq_iff unat_drop_bit_eq by (simp only: drop_bit_eq_div fst_conv snd_conv)

lemma octet_div: "octet i a = unat a div 2 ^ (24 - 8 * i) mod 256"
  unfolding octet_def unat_drop_bit_eq by (simp only: drop_bit_eq_div)

lemma quotient_iff: "0 < d \<Longrightarrow> e div d = q \<longleftrightarrow> q * d \<le> e \<and> e < Suc q * d" for d e q :: nat
  using less_eq_div_iff_mult_less_eq [of d q e] div_less_iff_less_mult [of d e "Suc q"] by auto

lemma reserved_octets:
  "list_ex (inBlock a) reservedBlocks \<longleftrightarrow>
     (let x = octet 0 a; y = octet 1 a
      in x = 0 \<or> x = 10 \<or> x = 127 \<or> (x = 100 \<and> 64 \<le> y \<and> y \<le> 127) \<or> (x = 169 \<and> y = 254) \<or>
         (x = 172 \<and> 16 \<le> y \<and> y \<le> 31) \<or> (x = 192 \<and> y = 168) \<or> (x = 198 \<and> (y = 18 \<or> y = 19)))"
proof -
  define n where "n = unat a"
  define x where "x = n div 2 ^ 24"
  define y where "y = n div 2 ^ 16 mod 256"
  have n: "n < 2 ^ 32" using unsigned_less [of a] by (simp add: n_def)
  have top: "octet 0 a = x" using n by (simp add: octet_div x_def flip: n_def)
  have second: "octet 1 a = y" by (simp add: octet_div y_def flip: n_def)
  have y: "y < 256" by (simp add: y_def)
  have "x = n div 2 ^ 16 div 256" unfolding x_def by (subst div_mult2_eq [symmetric]) simp
  then have m: "n div 2 ^ 16 = 256 * x + y" unfolding y_def by (metis mult_div_mod_eq)
  have "n div 2 ^ 24 = x" "n div 2 ^ 16 = 256 * x + y" "n div 2 ^ 22 = (256 * x + y) div 64" "n div 2 ^ 20 = (256 * x + y) div 16"
      "n div 2 ^ 17 = (256 * x + y) div 2"
    unfolding m [symmetric] by (simp_all add: x_def flip: div_mult2_eq)
  then have 1: "n div 16777216 = x" "n div 65536 = 256 * x + y" "n div 4194304 = (256 * x + y) div 64"
      "n div 1048576 = (256 * x + y) div 16" "n div 131072 = (256 * x + y) div 2" by simp_all
  note q = quotient_iff [of 64 "256 * x + y" 401] quotient_iff [of 16 "256 * x + y" 2753] quotient_iff [of 2 "256 * x + y" 25353]
  have range: "256 * p + u \<le> 256 * x + y \<and> 256 * x + y < 256 * p + v \<longleftrightarrow> x = p \<and> u \<le> y \<and> y < v" if "v \<le> 256" for p u v
  proof
    assume r: "256 * p + u \<le> 256 * x + y \<and> 256 * x + y < 256 * p + v"
    have "\<not> x < p" using r y by linarith
    moreover have "\<not> p < x" using r that by linarith
    ultimately show "x = p \<and> u \<le> y \<and> y < v" using r by simp
  qed auto
  have 2: "(256 * x + y) div 64 = 401 \<longleftrightarrow> x = 100 \<and> 64 \<le> y \<and> y < 128" "(256 * x + y) div 16 = 2753 \<longleftrightarrow> x = 172 \<and> 16 \<le> y \<and> y < 32"
      "(256 * x + y) div 2 = 25353 \<longleftrightarrow> x = 198 \<and> 18 \<le> y \<and> y < 20"
    using range [of 128 100 64] range [of 32 172 16] range [of 20 198 18] q by simp_all
  have 3: "256 * x + y = 43518 \<longleftrightarrow> x = 169 \<and> y = 254" "256 * x + y = 49320 \<longleftrightarrow> x = 192 \<and> y = 168"
    using range [of 255 169 254] range [of 169 192 168] by auto
  have 4: "y \<le> 127 \<longleftrightarrow> y < 128" "y \<le> 31 \<longleftrightarrow> y < 32" "y = 18 \<or> y = 19 \<longleftrightarrow> 18 \<le> y \<and> y < 20" by auto
  show ?thesis
    unfolding top second Let_def reservedBlocks_def 4
    by (simp add: inBlock_div 1 2 3 flip: n_def)
qed

lemma dotted_chars: "c \<in> set (dotted a) \<Longrightarrow> isDigit c \<or> c = CHR ''.''"
  using showNat_reads by (auto simp: dotted_def list_all_iff)

lemma dotted_not_local:
  "CHR ''.'' \<in> set (dotted a)" "dotted a \<noteq> ''localhost''" "dotted a \<noteq> ''localhost.localdomain''" "dotted a \<noteq> ''host.docker.internal''"
  "\<not> suffix ''.localhost'' (dotted a)" "\<not> suffix ''.local'' (dotted a)"
proof -
  have l: "CHR ''l'' \<notin> set (dotted a)" using dotted_chars [of "CHR ''l''" a] by (auto simp: isDigit_def)
  then show "dotted a \<noteq> ''localhost''" "dotted a \<noteq> ''localhost.localdomain''" "dotted a \<noteq> ''host.docker.internal''" by auto
  from l show "\<not> suffix ''.localhost'' (dotted a)" "\<not> suffix ''.local'' (dotted a)" by (auto simp: suffix_def)
  show "CHR ''.'' \<in> set (dotted a)" by (simp add: dotted_def)
qed

lemma private_dotted: "isPrivateIpv4 (dotted a) = list_ex (inBlock a) reservedBlocks"
proof -
  have o1: "\<not> 255 < octet i a" for i using octet_less [of i a] by simp
  have "map parseInt10 (splitOn (CHR ''.'') (dotted a)) = map (\<lambda>i. Some (int (octet i a))) [0, 1, 2, 3]"
    by (simp add: splitOn_dotted showNat_octet(2) [OF octet_less])
  then show ?thesis using o1 unfolding isPrivateIpv4_def reserved_octets Let_def by simp
qed

text \<open>An address is restricted just when it is in a reserved block.\<close>

lemma restricted_dotted:
  "classifyRestrictedFetchTarget (dotted a) = (if list_ex (inBlock a) reservedBlocks then Some ''private or local IPv4 range'' else None)"
  using dotted_not_local [of a] by (simp add: classifyRestrictedFetchTarget_def isIPv4_dotted private_dotted)

text \<open>The patterns of the configuration: a star stands for any text.\<close>

fun globMatch :: "string \<Rightarrow> string \<Rightarrow> bool" where
  "globMatch [] s = (s = [])"
| "globMatch (p # ps) [] = (p = CHR ''*'' \<and> globMatch ps [])"
| "globMatch (p # ps) (c # cs) =
     (if p = CHR ''*'' then globMatch ps (c # cs) \<or> globMatch (p # ps) cs else p = c \<and> globMatch ps cs)"

definition accepts :: "re \<Rightarrow> re_state \<Rightarrow> bool" where
  "accepts r st = list_ex (\<lambda>t. snd t = []) (ends r st)"

lemma list_ex_concat_map: "list_ex P (concat (map f xs)) = list_ex (\<lambda>x. list_ex P (f x)) xs"
  by (auto simp: list_ex_iff)

lemma accepts_seqOf: "accepts (seqOf (r # rs)) st = list_ex (accepts (seqOf rs)) (ends r st)"
  by (cases rs) (simp_all add: accepts_def [abs_def] list_ex_concat_map)

lemma ends_Many_Unit:
  "list_ex P (ends (Many (Unit q)) (b, c # cs)) = (P (b, c # cs) \<or> q c \<and> list_ex P (ends (Many (Unit q)) (Some c, cs)))"
  by (simp add: list_ex_concat_map)

lemma lowerChar_idem [simp]: "lowerChar (lowerChar c) = lowerChar c"
  by (simp add: lowerChar_def Let_def)

definition oneLine :: "string \<Rightarrow> bool" where
  "oneLine = list_all (\<lambda>c. (of_char c :: nat) \<notin> {10, 13})"

lemma accepts_star:
  assumes "\<And>s b. oneLine s \<Longrightarrow> accepts r (b, s) = globMatch ps (lower s)"
  shows "oneLine s \<Longrightarrow> list_ex (accepts r) (ends (Many notNl) (b, s)) = globMatch (CHR ''*'' # ps) (lower s)"
proof (induction s arbitrary: b)
  case Nil
  then show ?case using assms [of "[]"] by (simp add: oneLine_def lower_def)
next
  case (Cons c cs)
  then have "oneLine cs" "(of_char c :: nat) \<notin> {10, 13}" by (simp_all add: oneLine_def)
  with Cons.IH [of "Some c"] show ?case
    unfolding notNl_def ends_Many_Unit using assms [OF Cons.prems] by (simp add: lower_def del: ends.simps)
qed

lemma lowerChar_star: "lowerChar c = CHR ''*'' \<longleftrightarrow> c = CHR ''*''"
proof
  assume "lowerChar c = CHR ''*''"
  then have "(of_char (lowerChar c) :: nat) = 42" by simp
  then have "(of_char c :: nat) = of_char (CHR ''*'')"
    using mod_less [of "of_char c + 32 :: nat" 256] by (auto simp: lowerChar_def Let_def split: if_splits)
  then show "c = CHR ''*''" by (simp only: of_char_eq_iff)
qed (simp add: lowerChar_def)

lemma accepts_glob:
  "oneLine s \<Longrightarrow> accepts (seqOf (map (\<lambda>c. if c = CHR ''*'' then Many notNl else Unit (\<lambda>x. lowerChar x = lowerChar c)) ps)) (b, s) =
    globMatch (lower ps) (lower s)"
proof (induction ps arbitrary: b s)
  case Nil
  then show ?case by (simp add: accepts_def lower_def)
next
  case (Cons p ps)
  note acc = accepts_seqOf [where rs = "map (\<lambda>c. if c = CHR ''*'' then Many notNl else Unit (\<lambda>x. lowerChar x = lowerChar c)) ps"]
  show ?case
  proof (cases "p = CHR ''*''")
    case True
    then have "lowerChar p = CHR ''*''" by (simp add: lowerChar_def)
    then show ?thesis using accepts_star [OF Cons.IH Cons.prems] True by (simp add: acc lower_def del: ends.simps)
  next
    case False
    then have "lowerChar p \<noteq> CHR ''*''" by (simp add: lowerChar_star)
    moreover have "oneLine cs" if "s = c # cs" for c cs using Cons.prems that by (simp add: oneLine_def)
    ultimately show ?thesis using False Cons.IH by (cases s) (auto simp: acc lower_def)
  qed
qed

lemma lower_lower [simp]: "lower (lower s) = lower s"
  by (simp add: lower_def)

lemma wildcard_is_glob: "oneLine s \<Longrightarrow> matchesAll (wildcardHostToRegExp p) s = globMatch (lower p) (lower s)"
  using accepts_glob [of s "lower p" None] by (simp only: matchesAll_def wildcardHostToRegExp_def accepts_def lower_lower)

lemma globMatch_plain: "CHR ''*'' \<notin> set p \<Longrightarrow> globMatch p s \<longleftrightarrow> p = s"
  by (induction p s rule: globMatch.induct) auto

lemma globMatch_skip: "globMatch p s \<Longrightarrow> globMatch (CHR ''*'' # p) s"
  by (cases s) auto

lemma globMatch_self: "globMatch p p"
  by (induction p) (auto intro: globMatch_skip)

lemma globMatch_any: "globMatch ''*'' s"
  by (induction s) simp_all

lemma allowed_glob:
  assumes "newSandboxService h cfg = Inr sv" and "oneLine s" and "lower s = s"
  shows "isAllowedFetchHost sv s = list_ex (\<lambda>p. globMatch (lower p) s) (withDefault (sg_allowedFetchHosts cfg) [])"
proof -
  have f: "sv = sandboxFields h cfg" using assms(1) by (simp add: newSandboxService_def split: sum.splits)
  have each: "lower p = ''*'' \<or> lower p = s \<or> (CHR ''*'' \<in> set (lower p) \<and> matchesAll (wildcardHostToRegExp (lower p)) s) \<longleftrightarrow> globMatch (lower p) s" for p
    using globMatch_plain [of "lower p" s] globMatch_any [of s] wildcard_is_glob [OF assms(2), of "lower p"] assms(3) globMatch_self [of "lower p"] by auto
  define hosts where "hosts = withDefault (sg_allowedFetchHosts cfg) []"
  have "isAllowedFetchHost sv s \<longleftrightarrow>
      (\<exists>p\<in>set hosts. lower p = ''*'' \<or> lower p = s \<or> (CHR ''*'' \<in> set (lower p) \<and> matchesAll (wildcardHostToRegExp (lower p)) s))"
    unfolding isAllowedFetchHost_def f sandboxFields_def Let_def hosts_def [symmetric]
    by (auto simp: list_ex_iff image_iff) metis+
  then show ?thesis unfolding each hosts_def list_ex_iff .
qed

text \<open>
  C18: what the sandbox lets a task fetch is a page over http or https from an allowed host: one of the configured patterns, in which a star stands
  for any text, matches it. If the host is an IPv4 address, whatever the patterns are, it is outside every reserved block
  (this network, private, shared, loopback, link-local, benchmarking).
\<close>

theorem web_fetch_checked:
  assumes "newSandboxService h cfg = Inr sv" and "prepareWebFetch parseUrl sv url = Inr plan"
    and "parseUrl url = Some u" and "oneLine (ur_host u)"
  shows "(lower (ur_protocol u) = ''http:'' \<or> lower (ur_protocol u) = ''https:'') \<and> wp_host plan = lower (ur_host u) \<and>
    list_ex (\<lambda>p. globMatch (lower p) (wp_host plan)) (withDefault (sg_allowedFetchHosts cfg) []) \<and>
    (if lower (ur_hostname u) = dotted a then \<not> list_ex (inBlock a) reservedBlocks else True)"
proof -
  have ok: "lower (ur_protocol u) = ''http:'' \<or> lower (ur_protocol u) = ''https:''" "classifyRestrictedFetchTarget (lower (ur_hostname u)) = None"
      "isAllowedFetchHost sv (lower (ur_host u))" "wp_host plan = lower (ur_host u)"
    using assms(2) by (auto simp: prepareWebFetch_def assms(3) Let_def split: option.splits if_splits)
  have "oneLine (lower (ur_host u))"
    using assms(4) by (auto simp: oneLine_def lower_def list_all_iff lowerChar_def Let_def mod_less)
  then show ?thesis using ok allowed_glob [OF assms(1), of "lower (ur_host u)"] restricted_dotted [of a]
    by (auto simp: lower_def o_def)
qed

text \<open>
  C19: an IPv4 address is refused as a target just when it lies in one of the reserved blocks, compared bit by bit with their
  prefixes: the conditions on decimal octets in the code are these blocks and nothing else.
\<close>

theorem restricted_ipv4:
  "classifyRestrictedFetchTarget (dotted a) = (if list_ex (inBlock a) reservedBlocks then Some ''private or local IPv4 range'' else None)"
  by (rule restricted_dotted)

text \<open>An address in brackets is refused even when it is public, since it has no dot; a trailing dot hides the local host.\<close>

lemma public_ipv6_refused: "classifyRestrictedFetchTarget ''[2606:4700::1111]'' = Some ''single-label internal hostname''"
  by code_simp

lemma localhost_with_dot: "classifyRestrictedFetchTarget ''localhost.'' = None"
  by code_simp

subsection \<open>A sandbox\<close>

definition demoHost :: SandboxHost where
  "demoHost = \<lparr>sx_homedir = ''/home/u'', sx_processCwd = ''/home/u/app''\<rparr>"

definition demoConfig :: SandboxConfig where
  "demoConfig = \<lparr>sg_workspaceRoot = ''/home/u/app'', sg_readRoots = None, sg_writeRoots = None, sg_allowedEnvKeys = None,
     sg_allowedShellCommands = None, sg_deniedShellPatterns = None, sg_maxShellTimeoutMs = None,
     sg_allowedFetchHosts = Some [''*.org''], sg_shellNetworkAccess = None\<rparr>"

definition demoShell :: "string \<Rightarrow> ShellSandboxRequest" where
  "demoShell c = \<lparr>sq_command = c, sq_cwd = ''/home/u/app/src'', sq_env = None, sq_timeoutMs = None\<rparr>"

definition demoUrl :: "string \<Rightarrow> ParsedUrl option" where
  "demoUrl s = (if s = ''u'' then Some \<lparr>ur_protocol = ''http:'', ur_hostname = ''a.org'', ur_host = ''a.org'', ur_href = ''http://a.org/''\<rparr> else None)"

lemma demo_service: "newSandboxService demoHost demoConfig = Inr (sandboxFields demoHost demoConfig)"
proof -
  have "firstError (map (\<lambda>r. assertSafeRoot demoHost r ''write root'') (sv_writeRoots (sandboxFields demoHost demoConfig))) = Inr ()"
    by code_simp
  then show ?thesis by (simp add: newSandboxService_def)
qed

lemma demo_fetch:
  "case prepareWebFetch demoUrl (sandboxFields demoHost demoConfig) ''u'' of Inr plan \<Rightarrow> wp_host plan = ''a.org'' | Inl _ \<Rightarrow> False"
  by code_simp

text \<open>Only the first command of a pipeline or of a background list is compared with the allowlist.\<close>

lemma pipeline_admitted:
  "case prepareShellExecution (sandboxFields demoHost demoConfig) (demoShell ''ls | sh x'') of Inr out \<Rightarrow> pi_executable out = ''ls'' | Inl _ \<Rightarrow> False"
  by code_simp

text \<open>The properties at this sandbox.\<close>

theorem file_access_confined_witness:
  "case prepareFileWrite (sandboxFields demoHost demoConfig) ''../app2/x'' ''/home/u/app'' of
     Inr plan \<Rightarrow> False
   | Inl e \<Rightarrow> (\<exists>msg d. e = AppError Sandbox_denied msg d)"
proof -
  have "\<not> list_ex (\<lambda>root. inside root (pathResolve (sx_processCwd demoHost) [''/home/u/app'', ''../app2/x'']))
      (configuredRoots demoHost demoConfig (sg_writeRoots demoConfig))" by code_simp
  then show ?thesis
    using file_access_confined [OF demo_service, where reading = False and p = "''../app2/x''" and cwd = "''/home/u/app''"] by (auto split: sum.splits)
qed

theorem shell_command_checked_witness:
  "case prepareShellExecution (sandboxFields demoHost demoConfig) (demoShell ''ls | sh x'') of
     Inr out \<Rightarrow> pi_command out = ''ls | sh x'' \<and> pi_timeoutMs out \<le> 30000 \<and> pi_env out = []
   | Inl e \<Rightarrow> False"
proof (cases "prepareShellExecution (sandboxFields demoHost demoConfig) (demoShell ''ls | sh x'')")
  case (Inl e)
  then show ?thesis using pipeline_admitted by simp
next
  case (Inr out)
  then show ?thesis using shell_command_checked [OF demo_service Inr] by (simp add: demoShell_def demoConfig_def withDefault_def)
qed

theorem web_fetch_checked_witness:
  "case prepareWebFetch demoUrl (sandboxFields demoHost demoConfig) ''u'' of
     Inr plan \<Rightarrow> globMatch ''*.org'' (wp_host plan)
   | Inl e \<Rightarrow> False"
proof (cases "prepareWebFetch demoUrl (sandboxFields demoHost demoConfig) ''u''")
  case (Inl e)
  then show ?thesis using demo_fetch by simp
next
  case (Inr plan)
  have u: "demoUrl ''u'' = Some \<lparr>ur_protocol = ''http:'', ur_hostname = ''a.org'', ur_host = ''a.org'', ur_href = ''http://a.org/''\<rparr>"
    by (simp add: demoUrl_def)
  have line: "oneLine (ur_host \<lparr>ur_protocol = ''http:'', ur_hostname = ''a.org'', ur_host = ''a.org'', ur_href = ''http://a.org/''\<rparr>)"
    by code_simp
  have "list_ex (\<lambda>p. globMatch (lower p) (wp_host plan)) (withDefault (sg_allowedFetchHosts demoConfig) [])"
    using web_fetch_checked [OF demo_service Inr u line] by blast
  moreover have "lower ''*.org'' = ''*.org''" by code_simp
  ultimately show ?thesis using Inr by (simp add: demoConfig_def withDefault_def)
qed

end
