(* ===== verification/Resolution.thy ===== *)
theory Resolution
  imports TaskRuns Orchestrator
begin

section \<open>Resolving approvals and questions\<close>

text \<open>
  src/src/runtime/facades/approval-resolution-facade.ts and clarify-resolution-facade.ts: what happens when a reviewer decides
  an approval or answers a question. They join the services of \<open>Approvals\<close>, \<open>ApprovalRules\<close> and \<open>Clarify\<close>, whose tables are
  in the \<open>World\<close> of the orchestrator, with the kernel that resumes the waiting task. The lifecycle of schedule runs, the lock of
  the session, the projection of the output and the table of sessions are operations on the shared world.
  Continuations in flight are a list of approval identifiers: who asks for one of them gets the promise that is already there.
\<close>

record 'm Desk =
  dk_kernel :: "'m World Kernel"
  dk_continuations :: "string list"

type_synonym ('m, 'a) dop = "('m Desk, 'a) op"

record SessionUiState =
  su_interactionMode :: InteractionMode
  su_messages :: "json_object list"
  su_providerSelection :: "string option"
  su_fingerprints :: "string list"

record 'm ResolutionDeps =
  rs_kernel :: "'m World KernelDeps"
  rs_now :: instant
  rs_rulesPath :: string
  rs_markResuming :: "TaskRecord \<Rightarrow> ('m World Shared, unit) op"
  rs_syncRun :: "TaskRecord \<Rightarrow> ('m World Shared, unit) op"
  rs_releaseLock :: "TaskRecord \<Rightarrow> ('m World Shared, unit) op"
  rs_project :: "string option \<Rightarrow> string \<Rightarrow> string option \<Rightarrow> ('m World Shared, unit) op"
  rs_loadUi :: "string \<Rightarrow> 'm World Shared \<Rightarrow> SessionUiState option"
  rs_saveUi :: "string \<Rightarrow> SessionUiState \<Rightarrow> ('m World Shared, unit) op"

definition onKernel :: "('m World, 'a) kop \<Rightarrow> ('m, 'a) dop" where
  "onKernel = zoom dk_kernel (\<lambda>k d. d\<lparr>dk_kernel := k\<rparr>)"

definition onDeskShared :: "('m World Shared, 'a) op \<Rightarrow> ('m, 'a) dop" where
  "onDeskShared m = onKernel (onShared m)"

definition onDeskWorld :: "('m World, 'a) op \<Rightarrow> ('m, 'a) dop" where
  "onDeskWorld m = onDeskShared (zoom sh_rest (\<lambda>w s. s\<lparr>sh_rest := w\<rparr>) m)"

definition deskTask :: "string \<Rightarrow> ('m, TaskRecord option) dop" where
  "deskTask taskId = ask (\<lambda>d. taskFindById taskId (sh_tasks (kn_shared (dk_kernel d))))"

subsection \<open>After a task was resumed\<close>

text \<open>What both facades do with the result, and with an error: the task's row is reported with the error, if it is there.\<close>

definition afterResume :: "'m ResolutionDeps \<Rightarrow> RuntimeRunResult \<Rightarrow> ('m, RuntimeRunResult) dop" where
  "afterResume deps r =
     bnd (onDeskShared (rs_syncRun deps (rr_task r))) (\<lambda>_.
     bnd (onDeskShared (rs_releaseLock deps (rr_task r))) (\<lambda>_.
     bnd (onDeskShared (rs_project deps (tk_sessionId (rr_task r)) (tk_taskId (rr_task r)) (rr_output r))) (\<lambda>_.
     ret r)))"

record ResumeReport =
  rp_error :: "app_error option"
  rp_output :: "string option"
  rp_task :: TaskRecord

definition reported :: "string \<Rightarrow> ('m, RuntimeRunResult) dop \<Rightarrow> ('m, ResumeReport) dop" where
  "reported taskId body =
     tryCatch (bnd body (\<lambda>r. ret \<lparr>rp_error = None, rp_output = rr_output r, rp_task = rr_task r\<rparr>)) (\<lambda>e.
       bnd (deskTask taskId) (\<lambda>t.
       case t of
         None \<Rightarrow> (case toAppError e of (c, m, details) \<Rightarrow> raise (AppError c m details))
       | Some task \<Rightarrow> ret \<lparr>rp_error = Some (toAppError e), rp_output = None, rp_task = task\<rparr>))"

subsection \<open>Approvals\<close>

record ApprovalActionResult =
  ar_approval :: ApprovalRecord
  ar_report :: ResumeReport

datatype ApprovalAnswer = Own_result ApprovalActionResult | Shared_continuation string

definition toCompletedApprovalActionResult :: "ApprovalRecord \<Rightarrow> ('m, ApprovalAnswer) dop" where
  "toCompletedApprovalActionResult approval =
     bnd (deskTask (ap_taskId approval)) (\<lambda>t.
     case t of
       None \<Rightarrow> raise (AppError Task_not_found (''Task '' @ ap_taskId approval @ '' was not found.'') None)
     | Some task \<Rightarrow> ret (Own_result \<lparr>ar_approval = approval, ar_report = \<lparr>
         rp_error = (case tk_errorCode task of None \<Rightarrow> None
           | Some c \<Rightarrow> Some (c, case tk_errorMessage task of Some m \<Rightarrow> m | None \<Rightarrow> errorCodeStr c, None)),
         rp_output = tk_finalOutput task, rp_task = task\<rparr>\<rparr>))"

definition resumeApprovalFailure :: "'m ResolutionDeps \<Rightarrow> ApprovalRecord \<Rightarrow> ('m, ApprovalAnswer) dop" where
  "resumeApprovalFailure deps approval =
     bnd (deskTask (ap_taskId approval)) (\<lambda>t.
     case t of
       None \<Rightarrow> toCompletedApprovalActionResult approval
     | Some task \<Rightarrow>
         if tk_status task \<noteq> T_waiting_approval then toCompletedApprovalActionResult approval
         else bnd (reported (ap_taskId approval)
                (bnd (onKernel (resumeTaskAfterApprovalFailure (rs_kernel deps) (ap_taskId approval) (ap_toolCallId approval)))
                   (afterResume deps))) (\<lambda>rep.
              ret (Own_result \<lparr>ar_approval = approval, ar_report = rep\<rparr>)))"

text \<open>
  A call that has to wait for a continuation leaves the desk to other callers in the meantime. So what it does before is an operation
  of its own, and ends with the promise: the answer, or the continuation it has begun and registered. The
  continuation is what follows, and takes itself out of the register when it ends, in whatever way.
\<close>

datatype ApprovalPromise = Settled_answer ApprovalAnswer | New_continuation ApprovalRecord

definition resumeApprovalFailureOnce :: "ApprovalRecord \<Rightarrow> ('m, ApprovalPromise) dop" where
  "resumeApprovalFailureOnce approval = (\<lambda>d.
     let i = ap_approvalId approval
     in if i \<in> set (dk_continuations d) then (Inr (Settled_answer (Shared_continuation i)), d)
        else (Inr (New_continuation approval), d\<lparr>dk_continuations := i # dk_continuations d\<rparr>))"

definition settleContinuation :: "'m ResolutionDeps \<Rightarrow> ApprovalRecord \<Rightarrow> ('m, ApprovalAnswer) dop" where
  "settleContinuation deps approval = (\<lambda>d.
     case resumeApprovalFailure deps approval d of
       (r, d1) \<Rightarrow> (r, d1\<lparr>dk_continuations := removeAll (ap_approvalId approval) (dk_continuations d1)\<rparr>))"

definition awaitPromise :: "'m ResolutionDeps \<Rightarrow> ApprovalPromise \<Rightarrow> ('m, ApprovalAnswer) dop" where
  "awaitPromise deps p = (case p of Settled_answer a \<Rightarrow> ret a | New_continuation approval \<Rightarrow> settleContinuation deps approval)"

definition persistSessionApprovalFingerprint :: "'m ResolutionDeps \<Rightarrow> string \<Rightarrow> string \<Rightarrow> ('m, unit) dop" where
  "persistSessionApprovalFingerprint deps sessionId fingerprint =
     bnd (ask (\<lambda>d. rs_loadUi deps sessionId (kn_shared (dk_kernel d)))) (\<lambda>ui.
     case ui of
       None \<Rightarrow> ret ()
     | Some u \<Rightarrow>
         if fingerprint \<in> set (su_fingerprints u) then ret ()
         else onDeskShared (rs_saveUi deps sessionId (u\<lparr>su_fingerprints := su_fingerprints u @ [fingerprint]\<rparr>)))"

text \<open>The session scope: the fingerprint is stored with the task and with its session.\<close>

definition storeSessionScope :: "'m ResolutionDeps \<Rightarrow> ApprovalRecord \<Rightarrow> TaskRecord option \<Rightarrow> ('m, unit) dop" where
  "storeSessionScope deps approval taskBefore =
     (case (ap_allowScope approval, ap_fingerprint approval, taskBefore) of
        (Some Session_scope, Some fp, Some task) \<Rightarrow>
          bnd (onKernel (kernelTaskUpdate (rs_now deps) (ap_taskId approval) (noTaskPatch\<lparr>tp_metadata :=
            Some [(''sessionApprovalFingerprints'', JArr (map JStr (mergeSessionApprovalFingerprintLists
              [Some (readSessionApprovalFingerprints (Some (tk_metadata task))), Some [fp]])))]\<rparr>))) (\<lambda>_.
          case tk_sessionId task of None \<Rightarrow> ret () | Some s \<Rightarrow> persistSessionApprovalFingerprint deps s fp)
      | _ \<Rightarrow> ret ())"

definition resumeApproved :: "'m ResolutionDeps \<Rightarrow> ApprovalRecord \<Rightarrow> ('m, ApprovalAnswer) dop" where
  "resumeApproved deps approval =
     bnd (reported (ap_taskId approval)
        (bnd (deskTask (ap_taskId approval)) (\<lambda>taskBefore.
         bnd (case taskBefore of None \<Rightarrow> ret () | Some task \<Rightarrow> onDeskShared (rs_markResuming deps task)) (\<lambda>_.
         bnd (storeSessionScope deps approval taskBefore) (\<lambda>_.
         bnd (onKernel (resumeTask (rs_kernel deps) (ap_taskId approval))) (afterResume deps)))))) (\<lambda>rep.
     ret (Own_result \<lparr>ar_approval = approval, ar_report = rep\<rparr>))"

fun allowScopeJson :: "ApprovalAllowScope option \<Rightarrow> json" where
  "allowScopeJson None = JNull"
| "allowScopeJson (Some Once) = JStr ''once''"
| "allowScopeJson (Some Session_scope) = JStr ''session''"
| "allowScopeJson (Some Always) = JStr ''always''"

definition announceResolution :: "string \<Rightarrow> ApprovalRecord \<Rightarrow> ('m, unit) dop" where
  "announceResolution reviewerId a =
     (let status = approvalStatusStr (ap_status a);
          payload = [(''approvalId'', JStr (ap_approvalId a)), (''reviewerId'', jopt (ap_reviewerId a)), (''status'', JStr status),
            (''toolCallId'', JStr (ap_toolCallId a)), (''toolName'', JStr (ap_toolName a))]
      in bnd (onKernel (kernelTrace \<lparr>te_actor = ''reviewer.'' @ reviewerId, te_eventType = ''approval_resolved'', te_payload = payload,
            te_stage = ''governance'', te_summary = ''Approval '' @ status @ '' for '' @ ap_toolName a, te_taskId = ap_taskId a\<rparr>)) (\<lambda>_.
         bnd (onKernel (kernelTrace \<lparr>te_actor = ''reviewer.'' @ reviewerId, te_eventType = ''review_resolved'', te_payload = payload,
            te_stage = ''lifecycle'', te_summary = ''Review resolved for '' @ ap_toolName a, te_taskId = ap_taskId a\<rparr>)) (\<lambda>_.
         onDeskWorld (recordAudit \<lparr>ae_action = ''approval_resolved'', ae_actor = ''reviewer.'' @ reviewerId,
            ae_approvalId = Some (ap_approvalId a),
            ae_outcome = (case ap_status a of A_approved \<Rightarrow> ''approved'' | A_timed_out \<Rightarrow> ''timed_out'' | _ \<Rightarrow> ''denied''),
            ae_payload = [(''allowScope'', allowScopeJson (ap_allowScope a)), (''reviewerId'', JStr reviewerId),
              (''status'', JStr status), (''toolName'', JStr (ap_toolName a))],
            ae_summary = ''Approval '' @ status @ '' for '' @ ap_toolName a, ae_taskId = Some (ap_taskId a),
            ae_toolCallId = Some (ap_toolCallId a)\<rparr>))))"

text \<open>A pending approval, or none at all: the decision is stored, announced and acted upon.\<close>

definition decide :: "'m ResolutionDeps \<Rightarrow> ApprovalResolutionInput \<Rightarrow> ('m, ApprovalPromise) dop" where
  "decide deps i =
     bnd (onDeskWorld (onApprovals (resolveApproval (rs_now deps) i))) (\<lambda>approval.
     bnd (if ap_status approval = A_approved \<and> ap_allowScope approval = Some Always
          then onDeskWorld (onRules (addAlwaysRulesFromApproval (rs_now deps) (rs_rulesPath deps) approval (ri_reviewerId i)))
          else ret ()) (\<lambda>_.
     bnd (announceResolution (ri_reviewerId i) approval) (\<lambda>_.
     if ap_status approval = A_approved then bnd (resumeApproved deps approval) (\<lambda>a. ret (Settled_answer a))
     else resumeApprovalFailureOnce approval)))"

text \<open>The facade's \<open>resolveApproval\<close>: up to its promise, and with the continuation it begins.\<close>

definition startResolution :: "'m ResolutionDeps \<Rightarrow> ApprovalResolutionInput \<Rightarrow> ('m, ApprovalPromise) dop" where
  "startResolution deps i =
     (if ri_approvalId i = [] \<or> ri_reviewerId i = [] then raise (PlainError ''ZodError'')
      else bnd (onDeskWorld (onApprovals (findApproval (rs_now deps) (ri_approvalId i)))) (\<lambda>existing.
        case existing of
          Some a \<Rightarrow> if ap_status a = A_denied \<or> ap_status a = A_timed_out then resumeApprovalFailureOnce a
            else if ap_status a = A_approved then bnd (toCompletedApprovalActionResult a) (\<lambda>r. ret (Settled_answer r))
            else decide deps i
        | None \<Rightarrow> decide deps i))"

definition resolveApprovalAction :: "'m ResolutionDeps \<Rightarrow> ApprovalResolutionInput \<Rightarrow> ('m, ApprovalAnswer) dop" where
  "resolveApprovalAction deps i = bnd (startResolution deps i) (awaitPromise deps)"

text \<open>
  The desk over time, with the continuations that run: a reviewer decides, the sweep resumes an approval that has expired, one of the
  continuations ends, or something else, a part of a continuation or not, changes the kernel.
\<close>

datatype 'm DeskEvent =
  Resolve_event "'m ResolutionDeps" ApprovalResolutionInput
  | Sweep_event ApprovalRecord
  | Settle_event "'m ResolutionDeps" nat
  | Elsewhere_event "'m World Kernel \<Rightarrow> 'm World Kernel"

definition begun :: "ApprovalRecord list \<Rightarrow> (thrown + ApprovalPromise) \<times> 'm Desk \<Rightarrow> 'm Desk \<times> ApprovalRecord list" where
  "begun running r = (snd r, case fst r of Inr (New_continuation a) \<Rightarrow> running @ [a] | _ \<Rightarrow> running)"

fun deskEvent :: "'m DeskEvent \<Rightarrow> 'm Desk \<times> ApprovalRecord list \<Rightarrow> 'm Desk \<times> ApprovalRecord list" where
  "deskEvent (Resolve_event deps i) (d, running) = begun running (startResolution deps i d)"
| "deskEvent (Sweep_event a) (d, running) = begun running (resumeApprovalFailureOnce a d)"
| "deskEvent (Settle_event deps n) (d, running) =
     (if n < length running then (snd (settleContinuation deps (running ! n) d), take n running @ drop (Suc n) running) else (d, running))"
| "deskEvent (Elsewhere_event g) (d, running) = (d\<lparr>dk_kernel := g (dk_kernel d)\<rparr>, running)"

definition deskRun :: "'m DeskEvent list \<Rightarrow> 'm Desk \<Rightarrow> 'm Desk \<times> ApprovalRecord list" where
  "deskRun events d = fold deskEvent events (d, [])"

subsection \<open>Questions to the user\<close>

record ClarifyActionResult =
  cr_prompt :: ClarifyPromptRecord
  cr_report :: ResumeReport

definition deriveLegacyClarifyAnswers :: "ClarifyPromptRecord \<Rightarrow> answers option" where
  "deriveLegacyClarifyAnswers p =
     (case cp_answerText p of
        Some t \<Rightarrow> Some [(cp_question p, Single t)]
      | None \<Rightarrow> (case cp_answerOptionId p of
          None \<Rightarrow> None
        | Some i \<Rightarrow> map_option (\<lambda>c. [(cp_question p, Single (co_label c))]) (List.find (\<lambda>c. co_id c = i) (cp_options p))))"

fun answerStr :: "answer \<Rightarrow> string" where
  "answerStr (Single s) = s"
| "answerStr (Multi xs) = joinWith '', '' xs"

definition formatClarifyAnswerForModel :: "ClarifyPromptRecord \<Rightarrow> string" where
  "formatClarifyAnswerForModel p =
     (case cp_response p of
        Some r \<Rightarrow> r
      | None \<Rightarrow> (case (case cp_answers p of Some ans \<Rightarrow> Some ans | None \<Rightarrow> deriveLegacyClarifyAnswers p) of
          Some ans \<Rightarrow> joinWith [nl, nl] (map (\<lambda>(q, a). q @ [nl] @ ''Answer: '' @ answerStr a) ans)
        | None \<Rightarrow> (case cp_answerText p of
            Some t \<Rightarrow> t
          | None \<Rightarrow> (case List.find (\<lambda>c. Some (co_id c) = cp_answerOptionId p) (cp_options p) of Some c \<Rightarrow> co_label c | None \<Rightarrow> []))))"

definition answerMessage :: "ClarifyPromptRecord \<Rightarrow> ConversationMessage" where
  "answerMessage p = \<lparr>ms_role = Role_user, ms_content = formatClarifyAnswerForModel p, ms_reasoningContent = None,
     ms_toolCallId = None, ms_toolName = None, ms_toolCalls = None,
     ms_metadata = Some [(''clarifyPromptId'', JStr (cp_promptId p)), (''clarifyAnswerOptionId'', jopt (cp_answerOptionId p))]\<rparr>"

definition answersJson :: "answers option \<Rightarrow> json" where
  "answersJson ans = (case ans of None \<Rightarrow> JNull
     | Some xs \<Rightarrow> JObj (map (\<lambda>(q, a). (q, case a of Single s \<Rightarrow> JStr s | Multi ss \<Rightarrow> JArr (map JStr ss))) xs))"

definition answeredEvent :: "string \<Rightarrow> ClarifyPromptRecord \<Rightarrow> TraceEvent" where
  "answeredEvent reviewerId p = \<lparr>te_actor = ''reviewer.'' @ reviewerId, te_eventType = ''clarify_resolved'',
     te_payload = [(''answerOptionId'', jopt (cp_answerOptionId p)), (''answers'', answersJson (cp_answers p)),
       (''answerText'', jopt (cp_answerText p)), (''promptId'', JStr (cp_promptId p)), (''response'', jopt (cp_response p)),
       (''status'', JStr ''answered'')],
     te_stage = ''governance'', te_summary = ''Clarification answered for task '' @ cp_taskId p, te_taskId = cp_taskId p\<rparr>"

definition storeAnswer :: "instant \<Rightarrow> ClarifyPromptRecord \<Rightarrow> ExecutionCheckpointRecord \<Rightarrow> ('m, unit) dop" where
  "storeAnswer now p c = onDeskShared (modify (\<lambda>s. s\<lparr>sh_checkpoints := checkpointSave
     (c\<lparr>ck_messages := ck_messages c @ [answerMessage p], ck_pendingClarifyPromptId := None, ck_updatedAt := now\<rparr>)
     (sh_checkpoints s)\<rparr>))"

definition answerClarifyPrompt :: "'m ResolutionDeps \<Rightarrow> ClarifyAnswerInput \<Rightarrow> ('m, ClarifyActionResult) dop" where
  "answerClarifyPrompt deps i =
     bnd (onDeskWorld (onPrompts (answerPrompt (rs_now deps) i))) (\<lambda>p.
     bnd (ask (\<lambda>d. checkpointFind (cp_taskId p) (sh_checkpoints (kn_shared (dk_kernel d))))) (\<lambda>found.
     case found of
       None \<Rightarrow> raise (AppError Task_not_resumable (''Task '' @ cp_taskId p @ '' has no checkpoint for clarification.'') None)
     | Some c \<Rightarrow>
         bnd (onKernel (kernelTrace (answeredEvent (ca_reviewerId i) p))) (\<lambda>_.
         bnd (storeAnswer (rs_now deps) p c) (\<lambda>_.
         bnd (reported (cp_taskId p)
            (bnd (deskTask (cp_taskId p)) (\<lambda>taskBefore.
             bnd (case taskBefore of None \<Rightarrow> ret () | Some task \<Rightarrow> onDeskShared (rs_markResuming deps task)) (\<lambda>_.
             bnd (onKernel (resumeTask (rs_kernel deps) (cp_taskId p))) (afterResume deps))))) (\<lambda>rep.
         ret \<lparr>cr_prompt = p, cr_report = rep\<rparr>)))))"

definition cancelClarifyPrompt :: "'m ResolutionDeps \<Rightarrow> string \<Rightarrow> string \<Rightarrow> ('m, ClarifyActionResult) dop" where
  "cancelClarifyPrompt deps promptId reviewerId =
     bnd (onDeskWorld (onPrompts (cancelPrompt (rs_now deps) promptId reviewerId))) (\<lambda>p.
     bnd (onKernel (kernelTrace \<lparr>te_actor = ''reviewer.'' @ reviewerId, te_eventType = ''clarify_cancelled'',
        te_payload = [(''promptId'', JStr (cp_promptId p)), (''reviewerId'', JStr reviewerId)], te_stage = ''governance'',
        te_summary = ''Clarification cancelled for task '' @ cp_taskId p, te_taskId = cp_taskId p\<rparr>)) (\<lambda>_.
     bnd (onKernel (failWaitingClarificationTask (rs_kernel deps) (cp_taskId p) Clarification_cancelled
        (''Clarification prompt '' @ cp_promptId p @ '' was cancelled.''))) (\<lambda>failed.
     ret \<lparr>cr_prompt = p, cr_report = \<lparr>rp_error = None, rp_output = None, rp_task = failed\<rparr>\<rparr>)))"

end
