(* ===== verification/ResolutionProps.thy ===== *)
theory ResolutionProps
  imports Resolution TaskRunsProps
begin

section \<open>Properties of decisions and answers\<close>

lemmas desk_run = onKernel_def onDeskShared_def onDeskWorld_def onShared_def onApprovals_def onPrompts_def deskTask_def
  zoom_def ask_def modify_def ret_def

text \<open>The tables a decision is read from.\<close>

abbreviation deskApprovals :: "'m Desk \<Rightarrow> approvals" where
  "deskApprovals d \<equiv> w_approvals (sh_rest (kn_shared (dk_kernel d)))"

abbreviation deskPrompts :: "'m Desk \<Rightarrow> prompts" where
  "deskPrompts d \<equiv> w_prompts (sh_rest (kn_shared (dk_kernel d)))"

abbreviation deskTasks :: "'m Desk \<Rightarrow> tasks" where
  "deskTasks d \<equiv> sh_tasks (kn_shared (dk_kernel d))"

abbreviation deskCheckpoint :: "string \<Rightarrow> 'm Desk \<Rightarrow> ExecutionCheckpointRecord option" where
  "deskCheckpoint i d \<equiv> checkpointFind i (sh_checkpoints (kn_shared (dk_kernel d)))"

lemma decided_found:
  assumes "approvalFindById i (deskApprovals d) = Some a" and "ap_status a \<noteq> A_pending"
  shows "onDeskWorld (onApprovals (findApproval now i)) d = (Inr (Some a), d)"
  using assms by (simp add: desk_run findApproval_def expireApproval_def bnd_run)

text \<open>
  An approval that was granted is settled: whoever resolves it again, with whatever action and scope, is told what was
  decided and how the task stands, and nothing is written: no row, rule, trace or audit entry, and the
  task is not resumed a second time.
\<close>

theorem granted_approval_settled:
  assumes "approvalFindById (ri_approvalId i) (deskApprovals d) = Some a" and "ap_status a = A_approved"
    and "taskFindById (ap_taskId a) (sh_tasks (kn_shared (dk_kernel d))) = Some t"
    and "ri_approvalId i \<noteq> []" and "ri_reviewerId i \<noteq> []"
  shows "\<exists>err. resolveApprovalAction deps i d =
    (Inr (Own_result \<lparr>ar_approval = a, ar_report = \<lparr>rp_error = err, rp_output = tk_finalOutput t, rp_task = t\<rparr>\<rparr>), d)"
  using assms decided_found [OF assms(1), of "rs_now deps"]
  by (simp add: resolveApprovalAction_def startResolution_def awaitPromise_def bnd_run toCompletedApprovalActionResult_def desk_run)

text \<open>The register of continuations is no state of the kernel.\<close>

abbreviation registered :: "string list \<Rightarrow> 'm Desk \<Rightarrow> bool" where
  "registered r d \<equiv> dk_continuations d = r"

lemma keeps_onKernel [keeps_intros]: "keeps (registered r) (onKernel m)"
  by (auto simp: keeps_def onKernel_def zoom_def split: prod.splits)

lemma keeps_desk [keeps_intros]: "keeps (registered r) (onDeskShared m1)" "keeps (registered r) (onDeskWorld m2)"
    "keeps (registered r) (deskTask t)"
  unfolding onDeskShared_def onDeskWorld_def deskTask_def by (auto intro!: keeps_intros)

lemma keeps_reported [keeps_intros]: "keeps (registered r) m \<Longrightarrow> keeps (registered r) (reported t m)"
  unfolding reported_def by (auto intro!: keeps_intros split: prod.splits)

lemma keeps_settling [keeps_intros]: "keeps (registered r) (afterResume deps x)" "keeps (registered r) (toCompletedApprovalActionResult a)"
    "keeps (registered r) (storeSessionScope deps a t)" "keeps (registered r) (announceResolution i a)"
  unfolding afterResume_def toCompletedApprovalActionResult_def storeSessionScope_def announceResolution_def Let_def
    persistSessionApprovalFingerprint_def
  by (auto intro!: keeps_intros split: option.splits ApprovalAllowScope.splits)

lemma keeps_resumes [keeps_intros]: "keeps (registered r) (resumeApprovalFailure deps a)" "keeps (registered r) (resumeApproved deps a)"
  unfolding resumeApprovalFailure_def resumeApproved_def by (auto intro!: keeps_intros split: option.splits)

text \<open>The register lists the approvals whose continuations run, each once.\<close>

definition deskOk :: "'m Desk \<times> ApprovalRecord list \<Rightarrow> bool" where
  "deskOk dr \<longleftrightarrow> distinct (map ap_approvalId (snd dr)) \<and> set (dk_continuations (fst dr)) = ap_approvalId ` set (snd dr)"

text \<open>What starts a resolution: the register is as it was, or a continuation was begun that it did not list.\<close>

definition starts :: "string list \<Rightarrow> (thrown + ApprovalPromise) \<times> 'm Desk \<Rightarrow> bool" where
  "starts r x \<longleftrightarrow> (case fst x of
     Inr (New_continuation a) \<Rightarrow> ap_approvalId a \<notin> set r \<and> registered (ap_approvalId a # r) (snd x)
   | _ \<Rightarrow> registered r (snd x))"

lemma starts_once: "registered r d \<Longrightarrow> starts r (resumeApprovalFailureOnce a d)"
  by (simp add: resumeApprovalFailureOnce_def starts_def Let_def)

lemma starts_answer: "keeps (registered r) m \<Longrightarrow> registered r d \<Longrightarrow> starts r (bnd m (\<lambda>x. ret (Settled_answer x)) d)"
  by (auto simp: starts_def bnd_run keeps_def split: prod.splits sum.splits)

lemma starts_bnd:
  assumes "keeps (registered r) m" and "registered r d" and "\<And>x d1. registered r d1 \<Longrightarrow> starts r (f x d1)"
  shows "starts r (bnd m f d)"
proof (cases "m d")
  case (Pair res d1)
  then have "registered r d1" using assms(1,2) by (auto dest: keepsD)
  with Pair assms(3) show ?thesis by (cases res) (auto simp: bnd_run starts_def)
qed

lemma starts_decide: "registered r d \<Longrightarrow> starts r (decide deps i d)"
  unfolding decide_def by (intro starts_bnd keeps_intros) (simp_all add: starts_once starts_answer keeps_intros)

lemma starts_resolution: "registered r d \<Longrightarrow> starts r (startResolution deps i d)"
proof -
  assume d: "registered r d"
  have "starts r (raise e d)" for e by (simp add: starts_def d raise_def)
  moreover have "starts r (bnd (onDeskWorld m) f d)" if "\<And>x d1. registered r d1 \<Longrightarrow> starts r (f x d1)"
    for m and f :: "ApprovalRecord option \<Rightarrow> ('a, ApprovalPromise) dop"
    using that by (intro starts_bnd keeps_intros d)
  ultimately show ?thesis unfolding startResolution_def
    by (auto simp: starts_once starts_answer starts_decide keeps_intros split: option.splits)
qed

lemma begun_ok: "deskOk (d, running) \<Longrightarrow> starts (dk_continuations d) x \<Longrightarrow> deskOk (begun running x)"
  by (auto simp: deskOk_def starts_def begun_def split: sum.splits ApprovalPromise.splits)

lemma without_nth:
  assumes "distinct (map f xs)" and "n < length xs"
  shows "distinct (map f (take n xs @ drop (Suc n) xs)) \<and> f ` set (take n xs @ drop (Suc n) xs) = f ` set xs - {f (xs ! n)}"
proof -
  have "xs = take n xs @ xs ! n # drop (Suc n) xs" using assms(2) by (rule id_take_nth_drop)
  then obtain ys zs where e: "ys = take n xs" "zs = drop (Suc n) xs" "xs = ys @ xs ! n # zs" by blast
  have "distinct (map f (ys @ xs ! n # zs)) \<and> set xs = set (ys @ xs ! n # zs)" using assms(1) e(3) by metis
  then show ?thesis unfolding e(1,2) [symmetric] by (auto, metis imageI, metis imageI)
qed

lemma deskEvent_ok: "deskOk dr \<Longrightarrow> deskOk (deskEvent e dr)"
proof (induction e dr rule: deskEvent.induct)
  case (3 deps n d running)
  show ?case
  proof (cases "n < length running")
    case True
    let ?a = "running ! n"
    have "registered (dk_continuations d) (snd (resumeApprovalFailure deps ?a d))"
      using keeps_resumes(1) [of "dk_continuations d" deps ?a] by (simp add: keeps_def)
    then have "registered (removeAll (ap_approvalId ?a) (dk_continuations d)) (snd (settleContinuation deps ?a d))"
      by (auto simp: settleContinuation_def split: prod.splits)
    with 3 True without_nth [of ap_approvalId running n] show ?thesis by (simp add: deskOk_def)
  qed (use 3 in simp)
next
  case (1 deps i d running)
  then show ?case by (simp add: begun_ok starts_resolution)
next
  case (2 a d running)
  then show ?case by (simp add: begun_ok starts_once)
qed (simp add: deskOk_def)

lemma deskRun_ok: "dk_continuations d = [] \<Longrightarrow> deskOk (deskRun events d)"
proof -
  assume "dk_continuations d = []"
  then have "deskOk (d, [])" by (simp add: deskOk_def)
  moreover have "deskOk dr \<Longrightarrow> deskOk (fold deskEvent events dr)" for dr :: "'a Desk \<times> ApprovalRecord list"
    by (induction events arbitrary: dr) (simp_all add: deskEvent_ok)
  ultimately show ?thesis by (simp add: deskRun_def)
qed

text \<open>
  C24: a refused or expired approval resumes its task once at a time. Take any history of reviewers' decisions, sweeps, continuations that
  end and other changes of the kernel, from a desk with nothing in flight. Then no two of the running continuations belong to
  the same approval, and the register lists exactly the approvals they belong to: a continuation is registered as long as it
  runs, and no longer. Resolving a refused approval while its continuation runs begins nothing and writes nothing, the
  caller shares the continuation; otherwise it begins one and registers it.
\<close>

theorem refusal_resumed_once:
  assumes "dk_continuations d0 = []" and "deskRun events d0 = (d, running)"
    and "approvalFindById (ri_approvalId i) (deskApprovals d) = Some a" and "ap_status a = A_denied \<or> ap_status a = A_timed_out"
    and "ri_approvalId i \<noteq> []" and "ri_reviewerId i \<noteq> []"
  shows "distinct (map ap_approvalId running) \<and> set (dk_continuations d) = ap_approvalId ` set running \<and>
    (if ap_approvalId a \<in> ap_approvalId ` set running
     then resolveApprovalAction deps i d = (Inr (Shared_continuation (ap_approvalId a)), d)
     else startResolution deps i d = (Inr (New_continuation a), d\<lparr>dk_continuations := ap_approvalId a # dk_continuations d\<rparr>) \<and>
       resolveApprovalAction deps i d = settleContinuation deps a (d\<lparr>dk_continuations := ap_approvalId a # dk_continuations d\<rparr>))"
proof -
  have ok: "deskOk (d, running)" using deskRun_ok [OF assms(1)] assms(2) by metis
  have "startResolution deps i d = resumeApprovalFailureOnce a d"
    using assms(4-6) decided_found [OF assms(3), of "rs_now deps"] by (auto simp: startResolution_def bnd_run)
  with ok show ?thesis
    by (auto simp: deskOk_def resolveApprovalAction_def bnd_run resumeApprovalFailureOnce_def Let_def awaitPromise_def ret_def)
qed

subsection \<open>Answers\<close>

lemma storeAnswer_stored:
  "\<exists>d'. storeAnswer now p c d = (Inr (), d') \<and> deskPrompts d' = deskPrompts d \<and> deskTasks d' = deskTasks d \<and>
    deskCheckpoint (ck_taskId c) d' =
      Some (c\<lparr>ck_messages := ck_messages c @ [answerMessage p], ck_pendingClarifyPromptId := None, ck_updatedAt := now\<rparr>)"
  by (simp add: storeAnswer_def desk_run checkpoint_saved)

text \<open>What the facade does with the prompt the service gives it, up to the continuation of the task.\<close>

lemma answer_reaches_task:
  assumes "onDeskWorld (onPrompts (answerPrompt (rs_now deps) i)) d = (Inr p, d1)" and "deskCheckpoint (cp_taskId p) d1 = Some ck"
  shows "\<exists>d2. deskPrompts d2 = deskPrompts d1 \<and> deskTasks d2 = deskTasks d1 \<and>
    deskCheckpoint (cp_taskId p) d2 = Some (ck\<lparr>ck_messages := ck_messages ck @ [answerMessage p],
      ck_pendingClarifyPromptId := None, ck_updatedAt := rs_now deps\<rparr>) \<and>
    answerClarifyPrompt deps i d =
      bnd (reported (cp_taskId p)
        (bnd (deskTask (cp_taskId p)) (\<lambda>taskBefore.
         bnd (case taskBefore of None \<Rightarrow> ret () | Some task \<Rightarrow> onDeskShared (rs_markResuming deps task)) (\<lambda>_.
         bnd (onKernel (resumeTask (rs_kernel deps) (cp_taskId p))) (afterResume deps))))) (\<lambda>rep.
       ret \<lparr>cr_prompt = p, cr_report = rep\<rparr>) d2"
proof -
  have i: "ck_taskId ck = cp_taskId p" using assms(2) by (auto simp: checkpointFind_def dest: rowFind_Some)
  obtain dt where t: "onKernel (kernelTrace (answeredEvent (ca_reviewerId i) p)) d1 = (Inr (), dt)" "deskPrompts dt = deskPrompts d1"
      "deskTasks dt = deskTasks d1"
    by (simp add: desk_run kernelTrace_def)
  obtain d2 where d2: "storeAnswer (rs_now deps) p ck dt = (Inr (), d2)" "deskPrompts d2 = deskPrompts d1" "deskTasks d2 = deskTasks d1"
      "deskCheckpoint (cp_taskId p) d2 = Some (ck\<lparr>ck_messages := ck_messages ck @ [answerMessage p],
        ck_pendingClarifyPromptId := None, ck_updatedAt := rs_now deps\<rparr>)"
    using storeAnswer_stored [of "rs_now deps" p ck dt] i t(2,3) by auto
  then show ?thesis
    using assms t(1) by (intro exI [of _ d2]) (simp add: answerClarifyPrompt_def bnd_run ask_def)
qed

text \<open>The schedule run of the task can be marked, and marking it touches no task, no checkpoint and no prompt.\<close>

definition quietResuming :: "'m ResolutionDeps \<Rightarrow> bool" where
  "quietResuming deps \<longleftrightarrow> (\<forall>t s. \<exists>s'. rs_markResuming deps t s = (Inr (), s') \<and> sh_tasks s' = sh_tasks s \<and>
     sh_checkpoints s' = sh_checkpoints s \<and> w_prompts (sh_rest s') = w_prompts (sh_rest s))"

lemma marked:
  assumes "quietResuming deps" and "taskFindById i (deskTasks d) = Some t"
  shows "\<exists>d'. deskPrompts d' = deskPrompts d \<and> deskTasks d' = deskTasks d \<and> deskCheckpoint i d' = deskCheckpoint i d \<and>
    reported i (bnd (deskTask i) (\<lambda>taskBefore.
       bnd (case taskBefore of None \<Rightarrow> ret () | Some task \<Rightarrow> onDeskShared (rs_markResuming deps task)) (\<lambda>_. m))) d = reported i m d'"
proof -
  obtain s' where s': "rs_markResuming deps t (kn_shared (dk_kernel d)) = (Inr (), s')" "sh_tasks s' = deskTasks d"
      "sh_checkpoints s' = sh_checkpoints (kn_shared (dk_kernel d))" "w_prompts (sh_rest s') = deskPrompts d"
    using assms(1) unfolding quietResuming_def by blast
  let ?d = "d\<lparr>dk_kernel := (dk_kernel d)\<lparr>kn_shared := s'\<rparr>\<rparr>"
  have "onDeskShared (rs_markResuming deps t) d = (Inr (), ?d)" using s'(1) by (simp add: desk_run)
  moreover have "deskTask i d = (Inr (Some t), d)" using assms(2) by (simp add: deskTask_def ask_def)
  ultimately show ?thesis using s'(2-4) by (intro exI [of _ ?d]) (simp add: reported_def tryCatch_def bnd_run)
qed

text \<open>The prompt with the answer, and what the model is told.\<close>

definition answeredPrompt :: "instant \<Rightarrow> ClarifyAnswerInput \<Rightarrow> ClarifyPromptRecord \<Rightarrow> ClarifyPromptRecord" where
  "answeredPrompt now i p = p\<lparr>cp_status := C_answered, cp_answeredAt := Some now, cp_answerOptionId := ca_answerOptionId i,
     cp_answerText := ca_answerText i, cp_answers := ca_answers i, cp_response := ca_response i,
     cp_reviewerId := Some (ca_reviewerId i), cp_errorCode := None\<rparr>"

definition answerLine :: "string \<Rightarrow> string \<Rightarrow> string" where
  "answerLine question said = question @ [nl] @ ''Answer: '' @ said"

definition userSays :: "ClarifyPromptRecord \<Rightarrow> ClarifyAnswerInput \<Rightarrow> string" where
  "userSays p i =
     (case (ca_response i, ca_answers i, ca_answerText i) of
        (Some r, _, _) \<Rightarrow> r
      | (None, Some ans, _) \<Rightarrow> joinWith [nl, nl] (map (\<lambda>(q, a). answerLine q (answerStr a)) ans)
      | (None, None, Some t) \<Rightarrow> answerLine (cp_question p) t
      | (None, None, None) \<Rightarrow> (case List.find (\<lambda>c. Some (co_id c) = ca_answerOptionId i) (cp_options p) of
            Some c \<Rightarrow> answerLine (cp_question p) (co_label c)
          | None \<Rightarrow> []))"

lemma userSays_formatted: "formatClarifyAnswerForModel (answeredPrompt now i p) = userSays p i"
proof -
  have "List.find (\<lambda>c. False) xs = None" for xs :: "ClarifyPromptOption list" by (simp add: find_None_iff)
  then show ?thesis
    by (auto simp: formatClarifyAnswerForModel_def deriveLegacyClarifyAnswers_def answeredPrompt_def userSays_def answerLine_def
        split: option.splits)
qed

lemma answered_row:
  assumes "clarifyAnswerSchema i" and "promptFindById (ca_promptId i) (deskPrompts d) = Some p"
    and "cp_status p = C_pending" and "now < cp_expiresAt p"
  shows "\<exists>d'. onDeskWorld (onPrompts (answerPrompt now i)) d = (Inr (answeredPrompt now i p), d') \<and>
    promptFindById (ca_promptId i) (deskPrompts d') = Some (answeredPrompt now i p) \<and> deskTasks d' = deskTasks d \<and>
    sh_checkpoints (kn_shared (dk_kernel d')) = sh_checkpoints (kn_shared (dk_kernel d))"
proof -
  obtain t' where "answerPrompt now i (deskPrompts d) = (Inr (answeredPrompt now i p), t')"
      "promptFindById (ca_promptId i) t' = Some (answeredPrompt now i p)"
    using answer_only_open [OF assms(1,2), of now] assms(3,4) by (auto simp: answeredPrompt_def)
  then show ?thesis by (simp add: desk_run)
qed

text \<open>
  C23: an answer reaches the model. A task has paused at a call that asks the user a question, the stored prompt is the one of
  this pause, pending and not expired, and the user gives an answer of the expected form. Then the facade stores the answer with
  the prompt and resumes the task, and resuming it is running the loop once more, with the conversation of the pause and
  behind it one message of the user: the free response, or else each question with its answer, or the
  prompt's question with the text or with the label of the option that was chosen. The asking call is first among the pending
  ones, those after it behind, and the iteration is the one before the pause. The row of run metadata of the task is there,
  and its schedule run can be marked as resuming without touching tasks, checkpoints and prompts.
\<close>

theorem answered_pause_resumes:
  assumes "tryPauseToolExecution deps pending n task it (pending ! n) (ClarifyRequired prompt rec) k = (Inr (Some t), k')"
    and "n < length pending" and "dk_kernel d = k'" and "cp_taskId prompt = tk_taskId task"
    and "clarifyAnswerSchema i" and "promptFindById (ca_promptId i) (deskPrompts d) = Some prompt" and "cp_status prompt = C_pending"
    and "rs_now rdeps < cp_expiresAt prompt" and "quietResuming rdeps" and "rs_kernel rdeps = kd"
    and "\<And>s. kd_runMetadata kd s (tk_taskId task) = Some md"
  shows "\<exists>row r d1 q. taskFindById (tk_taskId task) (sh_tasks (kn_shared k)) = Some row \<and>
     r = row\<lparr>tk_status := T_running, tk_updatedAt := ld_now (kd_loop kd)\<rparr> \<and>
     answerClarifyPrompt rdeps i d =
       bnd (reported (tk_taskId task) (bnd (onKernel (resumeTask kd (tk_taskId task))) (afterResume rdeps))) (\<lambda>rep.
       ret \<lparr>cr_prompt = answeredPrompt (rs_now rdeps) i prompt, cr_report = rep\<rparr>) d1 \<and>
     promptFindById (ca_promptId i) (deskPrompts d1) = Some (answeredPrompt (rs_now rdeps) i prompt) \<and>
     resumeTask kd (tk_taskId task) (dk_kernel d1) =
       failingWith (kd_loop kd) False (storedTask (tk_taskId task) r) (executeLoop (kd_loop kd)) q \<and>
     ls_task (kn_loop q) = r \<and> firstIteration (kn_loop q) = tk_currentIteration row \<and>
     ls_messages (kn_loop q) = kn_messages k @ [\<lparr>ms_role = Role_user, ms_content = userSays prompt i, ms_reasoningContent = None,
       ms_toolCallId = None, ms_toolName = None, ms_toolCalls = None,
       ms_metadata = Some [(''clarifyPromptId'', JStr (cp_promptId prompt)), (''clarifyAnswerOptionId'', jopt (ca_answerOptionId i))]\<rparr>] \<and>
     ls_pendingToolCalls (kn_loop q) = pending ! n # drop (Suc n) pending"
proof -
  let ?i = "tk_taskId task" and ?p = "answeredPrompt (rs_now rdeps) i prompt"
  obtain row st where row: "taskFindById ?i (sh_tasks (kn_shared k)) = Some row" "t = row\<lparr>tk_status := st, tk_updatedAt := bd_now deps\<rparr>"
    using paused_row [OF assms(1)] by blast
  have "waiting ?i t k'" using endsD [OF tryPause_waiting assms(1)] by simp
  then have w: "taskFindById ?i (deskTasks d) = Some t" "tk_taskId t = ?i" "tk_status t \<in> {T_waiting_approval, T_waiting_clarification}"
    using assms(3) by (auto simp: waiting_def stored_def)
  obtain rc where rc: "loadForResume (kd_parse kd) (kd_describe kd) t (sh_checkpoints (kn_shared k')) = Inr rc"
      "ck_messages (rc_checkpoint rc) = kn_messages k" "ck_pendingToolCalls (rc_checkpoint rc) = drop n pending"
    using paused_checkpoint [OF assms(1)] by blast
  obtain d0 where d0: "onDeskWorld (onPrompts (answerPrompt (rs_now rdeps) i)) d = (Inr ?p, d0)"
      "promptFindById (ca_promptId i) (deskPrompts d0) = Some ?p" "deskTasks d0 = deskTasks d"
      "sh_checkpoints (kn_shared (dk_kernel d0)) = sh_checkpoints (kn_shared (dk_kernel d))"
    using answered_row [OF assms(5-8)] by blast
  have id: "cp_taskId ?p = ?i" using assms(4) by (simp add: answeredPrompt_def)
  define ck where "ck = rc_checkpoint rc"
  have "deskCheckpoint ?i d0 = Some ck"
    using rc(1) w(2) d0(4) assms(3) by (auto simp: loadForResume_def ck_def split: option.splits)
  from answer_reaches_task [OF d0(1), unfolded id, OF this] obtain d2 where d2: "deskPrompts d2 = deskPrompts d0" "deskTasks d2 = deskTasks d"
      "deskCheckpoint ?i d2 = Some (ck\<lparr>ck_messages := ck_messages ck @ [answerMessage ?p], ck_pendingClarifyPromptId := None,
        ck_updatedAt := rs_now rdeps\<rparr>)"
      "answerClarifyPrompt rdeps i d = bnd (reported ?i (bnd (deskTask ?i) (\<lambda>taskBefore.
         bnd (case taskBefore of None \<Rightarrow> ret () | Some task \<Rightarrow> onDeskShared (rs_markResuming rdeps task)) (\<lambda>_.
         bnd (onKernel (resumeTask kd ?i)) (afterResume rdeps))))) (\<lambda>rep. ret \<lparr>cr_prompt = ?p, cr_report = rep\<rparr>) d2"
    using d0(3) assms(10) by auto
  have "taskFindById ?i (deskTasks d2) = Some t" using w(1) d2(2) by simp
  from marked [OF assms(9) this, of "bnd (onKernel (resumeTask kd ?i)) (afterResume rdeps)"]
  obtain d1 where d1: "deskPrompts d1 = deskPrompts d2" "deskTasks d1 = deskTasks d2" "deskCheckpoint ?i d1 = deskCheckpoint ?i d2"
      "answerClarifyPrompt rdeps i d = bnd (reported ?i (bnd (onKernel (resumeTask kd ?i)) (afterResume rdeps)))
         (\<lambda>rep. ret \<lparr>cr_prompt = ?p, cr_report = rep\<rparr>) d1"
    using d2(4) by (auto simp: bnd_run)
  obtain rc1 where rc1: "loadForResume (kd_parse kd) (kd_describe kd) t (sh_checkpoints (kn_shared (dk_kernel d1))) = Inr rc1"
      "ck_messages (rc_checkpoint rc1) = kn_messages k @ [answerMessage ?p]" "ck_pendingToolCalls (rc_checkpoint rc1) = drop n pending"
    using d1(3) d2(3) rc(2,3) w(2) by (auto simp: loadForResume_def ck_def)
  let ?r = "row\<lparr>tk_status := T_running, tk_updatedAt := ld_now (kd_loop kd)\<rparr>"
  let ?q = "resumedKernel kd t md rc1 (drop n pending) (dk_kernel d1)"
  have find: "taskFindById ?i (deskTasks d1) = Some t" using d1(2) d2(2) w(1) by simp
  have u: "t\<lparr>tk_status := T_running, tk_updatedAt := ld_now (kd_loop kd)\<rparr> = ?r" using row(2) by simp
  have enters: "resumeTask kd ?i (dk_kernel d1) = failingWith (kd_loop kd) False (storedTask ?i ?r) (executeLoop (kd_loop kd)) ?q"
    using resumeTask_enters [OF find w(3) rc1(1) assms(11)] unfolding rc1(3) u .
  have "drop n pending = pending ! n # drop (Suc n) pending" using assms(2) by (simp add: Cons_nth_drop_Suc)
  then have "ls_task (kn_loop ?q) = ?r \<and> firstIteration (kn_loop ?q) = tk_currentIteration row \<and>
      ls_messages (kn_loop ?q) = kn_messages k @ [answerMessage ?p] \<and> ls_pendingToolCalls (kn_loop ?q) = pending ! n # drop (Suc n) pending"
    using rc1(2) row(2) by (simp add: resumedKernel_def Let_def resumedLoopState_def freshLoopState_def firstIteration_def)
  moreover have "answerMessage ?p = \<lparr>ms_role = Role_user, ms_content = userSays prompt i, ms_reasoningContent = None,
       ms_toolCallId = None, ms_toolName = None, ms_toolCalls = None,
       ms_metadata = Some [(''clarifyPromptId'', JStr (cp_promptId prompt)), (''clarifyAnswerOptionId'', jopt (ca_answerOptionId i))]\<rparr>"
    by (simp add: answerMessage_def userSays_formatted) (simp add: answeredPrompt_def)
  moreover have "promptFindById (ca_promptId i) (deskPrompts d1) = Some ?p" using d0(2) d1(1) d2(1) by simp
  ultimately show ?thesis
    using row(1) d1(4) enters by (intro exI [of _ row] exI [of _ ?r] exI [of _ d1] exI [of _ ?q]) simp
qed

text \<open>
  The status of the prompt is not looked at after the service was asked: answering a prompt that was answered, cancelled or has
  expired before adds a message to the checkpoint of the task, whatever the task waits for now, and resumes it.
\<close>

lemma stale_answer_injected:
  assumes "clarifyAnswerSchema i" and "promptFindById (ca_promptId i) (deskPrompts d) = Some p" and "cp_status p \<noteq> C_pending"
    and "deskCheckpoint (cp_taskId p) d = Some ck"
  shows "\<exists>d1. deskPrompts d1 = deskPrompts d \<and>
    map_option ck_messages (deskCheckpoint (cp_taskId p) d1) = Some (ck_messages ck @ [answerMessage p]) \<and>
    answerClarifyPrompt deps i d =
      bnd (reported (cp_taskId p)
        (bnd (deskTask (cp_taskId p)) (\<lambda>taskBefore.
         bnd (case taskBefore of None \<Rightarrow> ret () | Some task \<Rightarrow> onDeskShared (rs_markResuming deps task)) (\<lambda>_.
         bnd (onKernel (resumeTask (rs_kernel deps) (cp_taskId p))) (afterResume deps))))) (\<lambda>rep.
       ret \<lparr>cr_prompt = p, cr_report = rep\<rparr>) d1"
proof -
  have "onDeskWorld (onPrompts (answerPrompt (rs_now deps) i)) d = (Inr p, d)"
    using assms(1-3) by (simp add: desk_run answerPrompt_def findPrompt_def expirePrompt_def bnd_run)
  from answer_reaches_task [OF this assms(4)] show ?thesis by auto
qed

end
