(* ===== verification/ResolutionWitness.thy ===== *)
theory ResolutionWitness
  imports ResolutionProps LoopWitness OrchestratorProps
begin

section \<open>Decisions and answers at concrete states\<close>

definition demoDesk :: "ApprovalStatus \<Rightarrow> string list \<Rightarrow> unit Desk" where
  "demoDesk st running = \<lparr>dk_kernel = \<lparr>kn_shared = \<lparr>sh_tasks = [sampleTask T_running], sh_checkpoints = [], sh_sessionTasks = [], sh_trace = [],
     sh_abort = None, sh_rest = sampleWorld [] [sampleApproval\<lparr>ap_status := st\<rparr>]\<rparr>,
     kn_loop = demoLoop, kn_messages = [], kn_events = []\<rparr>, dk_continuations = running\<rparr>"

lemma demoDesk_tables:
  "approvalFindById (ri_approvalId sampleResolution) (deskApprovals (demoDesk st rs)) = Some (sampleApproval\<lparr>ap_status := st\<rparr>)"
  "taskFindById (ap_taskId sampleApproval) (sh_tasks (kn_shared (dk_kernel (demoDesk st rs)))) = Some (sampleTask T_running)"
  "dk_continuations (demoDesk st rs) = rs"
  by (simp_all add: demoDesk_def sampleWorld_def approvalFindById_def sampleApproval_def sampleResolution_def taskFindById_def
      sampleTask_def taskOfDraft_def)

theorem granted_approval_settled_witness:
  "\<forall>deps. \<exists>err. resolveApprovalAction deps sampleResolution (demoDesk A_approved []) =
    (Inr (Own_result \<lparr>ar_approval = sampleApproval\<lparr>ap_status := A_approved\<rparr>,
       ar_report = \<lparr>rp_error = err, rp_output = tk_finalOutput (sampleTask T_running), rp_task = sampleTask T_running\<rparr>\<rparr>),
     demoDesk A_approved [])"
  using granted_approval_settled [OF demoDesk_tables(1) [of A_approved "[]"]] demoDesk_tables(2) [of A_approved "[]"]
  by (simp add: sampleResolution_def)

text \<open>A reviewer asks for a denied approval twice: the first call begins the continuation, the second one shares it.\<close>

lemma demo_first:
  "deskRun [Resolve_event deps sampleResolution] (demoDesk A_denied []) =
    (demoDesk A_denied [''a1''], [sampleApproval\<lparr>ap_status := A_denied\<rparr>])"
proof -
  have "startResolution deps sampleResolution (demoDesk A_denied []) = resumeApprovalFailureOnce (sampleApproval\<lparr>ap_status := A_denied\<rparr>) (demoDesk A_denied [])"
    using decided_found [OF demoDesk_tables(1) [of A_denied "[]"], of "rs_now deps"]
    by (simp add: startResolution_def bnd_run sampleResolution_def)
  then show ?thesis
    by (simp add: deskRun_def begun_def resumeApprovalFailureOnce_def Let_def demoDesk_def sampleApproval_def)
qed

theorem refusal_resumed_once_witness:
  "\<forall>deps. resolveApprovalAction deps sampleResolution (fst (deskRun [Resolve_event deps sampleResolution] (demoDesk A_denied []))) =
    (Inr (Shared_continuation ''a1''), demoDesk A_denied [''a1''])"
  using refusal_resumed_once [OF demoDesk_tables(3) [of A_denied "[]"] demo_first demoDesk_tables(1) [of A_denied "[''a1'']"]]
  by (simp add: demo_first, simp add: sampleResolution_def sampleApproval_def)

subsection \<open>An answered question\<close>

definition demoPrompt :: ClarifyPromptRecord where
  "demoPrompt = \<lparr>cp_promptId = ''q1'', cp_taskId = ''t1'', cp_toolCallId = ''p'', cp_requesterUserId = ''u'',
     cp_question = ''Which one?'', cp_reason = None, cp_options = [], cp_questions = [], cp_allowCustomAnswer = True,
     cp_placeholder = None, cp_status = C_pending, cp_requestedAt = 1, cp_expiresAt = 100, cp_answeredAt = None,
     cp_answerOptionId = None, cp_answerText = None, cp_answers = None, cp_response = None,
     cp_reviewerId = None, cp_errorCode = None\<rparr>"

definition demoReply :: ClarifyAnswerInput where
  "demoReply = \<lparr>ca_promptId = ''q1'', ca_reviewerId = ''u'', ca_answerOptionId = None, ca_answerText = Some ''the second'',
     ca_answers = None, ca_response = None\<rparr>"

definition demoWorldBatch :: "unit World BatchDeps" where
  "demoWorldBatch = \<lparr>bd_execute = (\<lambda>rq _ s. (Inr (Cleared (demoRecord (rq_toolCallId rq))), s)),
     bd_executeAll = (\<lambda>rqs s. (Inr [], s)), bd_describeTool = demoDescribe, bd_contextRetention = None, bd_testCommands = [],
     bd_workspaceRoot = ''/ws'', bd_now = 5, bd_parse = (\<lambda>_. None), bd_slice = demoSlice,
     bd_joinPath = joinWith ''/'', bd_writeFile = (\<lambda>_ _. True)\<rparr>"

definition demoAskKernel :: "unit World Kernel" where
  "demoAskKernel = \<lparr>kn_shared = \<lparr>sh_tasks = [sampleTask T_running], sh_checkpoints = [], sh_sessionTasks = [], sh_trace = [],
     sh_abort = None, sh_rest = (sampleWorld [] [])\<lparr>w_prompts := [demoPrompt]\<rparr>\<rparr>,
     kn_loop = demoLoop, kn_messages = [], kn_events = []\<rparr>"

definition demoAskPause :: "(thrown + TaskRecord option) \<times> unit World Kernel" where
  "demoAskPause = tryPauseToolExecution demoWorldBatch [demoProviderCall ''a'' ''sh'', demoProviderCall ''p'' ''sh''] 1
     (sampleTask T_running) 1 (demoProviderCall ''p'' ''sh'') (ClarifyRequired demoPrompt (demoRecord ''p'')) demoAskKernel"

definition demoAskDesk :: "unit Desk" where
  "demoAskDesk = \<lparr>dk_kernel = snd demoAskPause, dk_continuations = []\<rparr>"

definition demoAskDeps :: "unit World LoopDeps \<Rightarrow> unit World KernelDeps" where
  "demoAskDeps ld = \<lparr>kd_loop = ld, kd_parse = (\<lambda>_. None), kd_describe = demoDescribe, kd_contextRetention = None,
     kd_artifactsRoot = ''/ws/.a'', kd_runMetadata = (\<lambda>_ _. Some \<lparr>rm_metadata = [], rm_timeoutMs = 9\<rparr>), kd_skillMetadata = (\<lambda>_. []),
     kd_agentWriteApproval = JNull, kd_announce = (\<lambda>_. ret ()), kd_createRunMetadata = (\<lambda>_ _. ret ()),
     kd_prepare = (\<lambda>_ _. ret \<lparr>rx_messages = [], rx_recallFragments = [], rx_resumeMemoryContext = [], rx_repoMapSummary = None\<rparr>)\<rparr>"

definition demoDeskDeps :: "unit World LoopDeps \<Rightarrow> unit ResolutionDeps" where
  "demoDeskDeps ld = \<lparr>rs_kernel = demoAskDeps ld, rs_now = 7, rs_rulesPath = ''/rules'', rs_markResuming = (\<lambda>_. ret ()),
     rs_syncRun = (\<lambda>_. ret ()), rs_releaseLock = (\<lambda>_. ret ()), rs_project = (\<lambda>_ _ _. ret ()), rs_loadUi = (\<lambda>_ _. None),
     rs_saveUi = (\<lambda>_ _. ret ())\<rparr>"

theorem answered_pause_resumes_witness:
  "\<forall>ld. \<exists>r d1 q.
    answerClarifyPrompt (demoDeskDeps ld) demoReply demoAskDesk =
      bnd (reported ''t1'' (bnd (onKernel (resumeTask (demoAskDeps ld) ''t1'')) (afterResume (demoDeskDeps ld)))) (\<lambda>rep.
      ret \<lparr>cr_prompt = answeredPrompt 7 demoReply demoPrompt, cr_report = rep\<rparr>) d1 \<and>
    resumeTask (demoAskDeps ld) ''t1'' (dk_kernel d1) = failingWith ld False (storedTask ''t1'' r) (executeLoop ld) q \<and>
    map ms_role (ls_messages (kn_loop q)) = [Role_user] \<and>
    map ms_content (ls_messages (kn_loop q)) = [''Which one?'' @ [nl] @ ''Answer: the second''] \<and>
    ls_pendingToolCalls (kn_loop q) = [demoProviderCall ''p'' ''sh'']"
proof
  fix ld :: "unit World LoopDeps"
  have "case fst demoAskPause of Inr (Some t) \<Rightarrow> w_prompts (sh_rest (kn_shared (snd demoAskPause))) = [demoPrompt] | _ \<Rightarrow> False"
    by code_simp
  then obtain t where t: "fst demoAskPause = Inr (Some t)" "w_prompts (sh_rest (kn_shared (snd demoAskPause))) = [demoPrompt]"
    by (auto split: sum.splits option.splits)
  then have p: "tryPauseToolExecution demoWorldBatch [demoProviderCall ''a'' ''sh'', demoProviderCall ''p'' ''sh''] 1 (sampleTask T_running) 1
      ([demoProviderCall ''a'' ''sh'', demoProviderCall ''p'' ''sh''] ! 1) (ClarifyRequired demoPrompt (demoRecord ''p'')) demoAskKernel =
      (Inr (Some t), snd demoAskPause)"
    by (metis demoAskPause_def nth_Cons_0 nth_Cons_Suc One_nat_def prod.collapse)
  have id: "tk_taskId (sampleTask T_running) = ''t1''" by (simp add: sampleTask_def taskOfDraft_def)
  have c: "1 < length [demoProviderCall ''a'' ''sh'', demoProviderCall ''p'' ''sh'']" "dk_kernel demoAskDesk = snd demoAskPause"
      "cp_taskId demoPrompt = tk_taskId (sampleTask T_running)" "clarifyAnswerSchema demoReply"
      "promptFindById (ca_promptId demoReply) (deskPrompts demoAskDesk) = Some demoPrompt" "cp_status demoPrompt = C_pending"
      "rs_now (demoDeskDeps ld) < cp_expiresAt demoPrompt" "quietResuming (demoDeskDeps ld)" "rs_kernel (demoDeskDeps ld) = demoAskDeps ld"
    using t(2) id by (simp_all add: demoAskDesk_def demoPrompt_def demoReply_def demoDeskDeps_def quietResuming_def promptFindById_def
        clarifyAnswerSchema_def nonEmptyOpt_def)
  have m: "kd_runMetadata (demoAskDeps ld) s (tk_taskId (sampleTask T_running)) = Some \<lparr>rm_metadata = [], rm_timeoutMs = 9\<rparr>" for s
    by (simp add: demoAskDeps_def)
  have n: "kn_messages demoAskKernel = []" "kd_loop (demoAskDeps ld) = ld" "rs_now (demoDeskDeps ld) = 7"
      "userSays demoPrompt demoReply = ''Which one?'' @ [nl] @ ''Answer: the second''"
    by (simp_all add: demoAskKernel_def demoAskDeps_def demoDeskDeps_def userSays_def answerLine_def demoPrompt_def demoReply_def)
  note resumed = answered_pause_resumes [OF p c m, unfolded id n]
  then obtain r d1 q where "answerClarifyPrompt (demoDeskDeps ld) demoReply demoAskDesk =
      bnd (reported ''t1'' (bnd (onKernel (resumeTask (demoAskDeps ld) ''t1'')) (afterResume (demoDeskDeps ld)))) (\<lambda>rep.
      ret \<lparr>cr_prompt = answeredPrompt 7 demoReply demoPrompt, cr_report = rep\<rparr>) d1"
    "resumeTask (demoAskDeps ld) ''t1'' (dk_kernel d1) = failingWith ld False (storedTask ''t1'' r) (executeLoop ld) q"
    "map ms_role (ls_messages (kn_loop q)) = [Role_user]"
    "map ms_content (ls_messages (kn_loop q)) = [''Which one?'' @ [nl] @ ''Answer: the second'']"
    "ls_pendingToolCalls (kn_loop q) = [demoProviderCall ''p'' ''sh'']"
    by auto
  then show "\<exists>r d1 q.
    answerClarifyPrompt (demoDeskDeps ld) demoReply demoAskDesk =
      bnd (reported ''t1'' (bnd (onKernel (resumeTask (demoAskDeps ld) ''t1'')) (afterResume (demoDeskDeps ld)))) (\<lambda>rep.
      ret \<lparr>cr_prompt = answeredPrompt 7 demoReply demoPrompt, cr_report = rep\<rparr>) d1 \<and>
    resumeTask (demoAskDeps ld) ''t1'' (dk_kernel d1) = failingWith ld False (storedTask ''t1'' r) (executeLoop ld) q \<and>
    map ms_role (ls_messages (kn_loop q)) = [Role_user] \<and>
    map ms_content (ls_messages (kn_loop q)) = [''Which one?'' @ [nl] @ ''Answer: the second''] \<and>
    ls_pendingToolCalls (kn_loop q) = [demoProviderCall ''p'' ''sh'']"
    by (intro exI [of _ r] exI [of _ d1] exI [of _ q]) simp
qed

end
