(* ===== verification/ToolExposure.thy ===== *)
theory ToolExposure
  imports LoopTurn Budget Schedules
begin

section \<open>Which tools a turn offers\<close>

text \<open>
  src/src/runtime/tool-exposure-planner.ts, src/src/tools/tool-overrides.ts, toolsets.ts and the two modules behind them
  (availability/tool-availability-checker.ts, policy/tool-exposure-policy.ts): which of the registered tools are
  offered to the provider in an iteration. The file of the overrides is represented by what JSON.parse makes of it; an entry
  of it that is no string names no tool. Comparing names by locale is a key function.
\<close>

datatype ToolCostLevel = Free | Cheap | Moderate | Expensive

record ('w, 'i, 'p) RegisteredTool = "('w, 'i, 'p) ToolDefinition" +
  td_costLevel :: ToolCostLevel
  td_description :: string

record ToolExposureDecision =
  xd_toolName :: string
  xd_exposed :: bool
  xd_reason :: string
  xd_costWarning :: "bool option"

record ToolExposurePlan =
  xp_tools :: "ProviderToolDescriptor list"
  xp_decisions :: "ToolExposureDecision list"
  xp_plannerReasons :: "string list"

subsection \<open>Toolsets\<close>

definition TOOLSET_TOOLS :: "string \<Rightarrow> string list" where
  "TOOLSET_TOOLS n =
     (if n = ''agent'' then [''delegate_task'', ''todo'', ''memory'']
      else if n = ''automation'' then [''cronjob'']
      else if n = ''file'' then [''read_file'', ''write_file'', ''patch'', ''search_files'', ''glob'']
      else if n = ''interaction'' then [''clarify'']
      else if n = ''mcp'' then [''mcp_tool_search'', ''mcp_resource'', ''mcp_prompt'']
      else if n = ''session'' then [''session_search'']
      else if n = ''shell'' then [''shell'', ''process'']
      else if n = ''skills'' then [''skills_list'', ''skill_view'']
      else if n = ''web'' then [''web_extract'', ''web_search'']
      else [])"

definition isReadOnlySideEffectLevel :: "ToolSideEffectLevel \<Rightarrow> bool" where
  "isReadOnlySideEffectLevel l = (l \<in> {No_effect, Read_only, External_read_only})"

definition isPlanSafeTool :: "('w, 'i, 'p, 'z) ToolDefinition_scheme \<Rightarrow> bool" where
  "isPlanSafeTool tool = isReadOnlySideEffectLevel (td_sideEffectLevel tool)"

definition resolveToolsetForTool :: "string \<Rightarrow> string" where
  "resolveToolsetForTool toolName =
     (if prefix ''mcp__'' toolName then ''mcp''
      else case List.find (\<lambda>n. n \<noteq> ''mcp'' \<and> toolName \<in> set (TOOLSET_TOOLS n)) TOOLSET_NAMES of
             Some n \<Rightarrow> n | None \<Rightarrow> ''agent'')"

subsection \<open>Overrides of the workspace\<close>

datatype OverrideFile = No_file | Unparsable | Parsed json

type_synonym 'a oop = "(OverrideFile, 'a) op"

definition readOverrides :: "string \<Rightarrow> (json_object \<times> json list) oop" where
  "readOverrides path =
     bnd (ask id) (\<lambda>f.
     case f of
       No_file \<Rightarrow> ret ([(''disabledToolNames'', JArr [])], [])
     | Unparsable \<Rightarrow> raise (PlainError ''SyntaxError'')
     | Parsed JNull \<Rightarrow> raise (PlainError ''TypeError'')
     | Parsed (JObj ob) \<Rightarrow> (case jget ob ''disabledToolNames'' of
           Some (JArr names) \<Rightarrow> ret (ob, names)
         | _ \<Rightarrow> raise (PlainError (''Invalid tool override file: '' @ path)))
     | Parsed _ \<Rightarrow> raise (PlainError (''Invalid tool override file: '' @ path)))"

definition writeOverrides :: "json_object \<Rightarrow> json list \<Rightarrow> unit oop" where
  "writeOverrides ob names = modify (\<lambda>_. Parsed (JObj (jput ''disabledToolNames'' (JArr names) ob)))"

definition listDisabledToolNames :: "string \<Rightarrow> string list oop" where
  "listDisabledToolNames path = bnd (readOverrides path) (\<lambda>(ob, names). ret (strings names))"

record ToolListEntry =
  te_description :: string
  te_disabled :: bool
  te_name :: string
  te_toolset :: string

definition listOverrideTools :: "(string \<Rightarrow> nat) \<Rightarrow> string \<Rightarrow> ('w, 'i, 'p) RegisteredTool list \<Rightarrow> ToolListEntry list oop" where
  "listOverrideTools collate path registered =
     bnd (readOverrides path) (\<lambda>(ob, names).
     ret (sort_key (\<lambda>e. collate (te_name e)) (map (\<lambda>tool. \<lparr>te_description = td_description tool,
       te_disabled = JStr (td_name tool) \<in> set names, te_name = td_name tool, te_toolset = resolveToolsetForTool (td_name tool)\<rparr>) registered)))"

definition assertRegistered :: "string \<Rightarrow> ('w, 'i, 'p) RegisteredTool list \<Rightarrow> unit oop" where
  "assertRegistered toolName registered =
     (if list_ex (\<lambda>tool. td_name tool = toolName) registered then ret ()
      else raise (PlainError (''Tool '' @ toolName @ '' is not registered.'')))"

definition disableTool :: "(string \<Rightarrow> nat) \<Rightarrow> string \<Rightarrow> string \<Rightarrow> ('w, 'i, 'p) RegisteredTool list \<Rightarrow> ToolListEntry list oop" where
  "disableTool collate path toolName registered =
     bnd (assertRegistered toolName registered) (\<lambda>_.
     bnd (readOverrides path) (\<lambda>(ob, names).
     bnd (if JStr toolName \<in> set names then ret () else writeOverrides ob (names @ [JStr toolName])) (\<lambda>_.
     listOverrideTools collate path registered)))"

definition enableTool :: "(string \<Rightarrow> nat) \<Rightarrow> string \<Rightarrow> string \<Rightarrow> ('w, 'i, 'p) RegisteredTool list \<Rightarrow> ToolListEntry list oop" where
  "enableTool collate path toolName registered =
     bnd (assertRegistered toolName registered) (\<lambda>_.
     bnd (readOverrides path) (\<lambda>(ob, names).
     bnd (if JStr toolName \<in> set names then writeOverrides ob (filter (\<lambda>e. e \<noteq> JStr toolName) names) else ret ()) (\<lambda>_.
     listOverrideTools collate path registered)))"

subsection \<open>Constraints in the metadata of the task\<close>

definition isScheduledRunWithoutDelegate :: "json_object option \<Rightarrow> bool" where
  "isScheduledRunWithoutDelegate metadata =
     (case metadata of None \<Rightarrow> False
      | Some m \<Rightarrow> (case jget m ''scheduleRunContext'' of
          Some (JObj _) \<Rightarrow> jget m ''allowDelegate'' \<noteq> Some (JBool True)
        | _ \<Rightarrow> False))"

definition readScheduleToolsetsFromMetadata :: "json_object option \<Rightarrow> bool \<times> string list" where
  "readScheduleToolsetsFromMetadata metadata =
     (case metadata of None \<Rightarrow> (False, [])
      | Some m \<Rightarrow> (case jget m ''scheduleToolsets'' of
          Some (JArr vs) \<Rightarrow> (strings vs \<noteq> [], filter (\<lambda>x. x \<in> set TOOLSET_NAMES) (strings vs))
        | _ \<Rightarrow> (False, [])))"

record SkillToolConstraints =
  sk_allowed :: "string list option"
  sk_disallowed :: "string list"

definition readActiveSkillToolConstraints :: "json_object option \<Rightarrow> SkillToolConstraints" where
  "readActiveSkillToolConstraints metadata =
     (let names = (\<lambda>ob k. case jget ob k of Some (JArr vs) \<Rightarrow> Some (strings vs) | _ \<Rightarrow> None)
      in case metadata of None \<Rightarrow> \<lparr>sk_allowed = None, sk_disallowed = []\<rparr>
         | Some m \<Rightarrow> (case jget m ''activeSkillToolConstraints'' of
             Some (JObj ob) \<Rightarrow> \<lparr>sk_allowed = names ob ''allowedTools'',
               sk_disallowed = (case names ob ''disallowedTools'' of Some xs \<Rightarrow> xs | None \<Rightarrow> [])\<rparr>
           | _ \<Rightarrow> \<lparr>sk_allowed = None, sk_disallowed = []\<rparr>))"

subsection \<open>The plan\<close>

fun checkToolAvailability :: "('w, 'i, 'p) RegisteredTool list \<Rightarrow> ToolExecutionContext \<Rightarrow> (string \<Rightarrow> (bool \<times> string) option) \<Rightarrow>
    ('w, string \<Rightarrow> (bool \<times> string) option) op" where
  "checkToolAvailability [] context results = ret results"
| "checkToolAvailability (tool # tools) context results =
     bnd (case td_checkAvailability tool of None \<Rightarrow> ret (True, ''no check'') | Some check \<Rightarrow> check context) (\<lambda>r.
     checkToolAvailability tools context (results(td_name tool \<mapsto> r)))"

definition evaluateToolExposure ::
    "('w, 'i, 'p) RegisteredTool list \<Rightarrow> (string \<Rightarrow> (bool \<times> string) option) \<Rightarrow> bool \<Rightarrow> ToolExposureDecision list" where
  "evaluateToolExposure tools availability budgetDowngradeActive =
     map (\<lambda>tool. case availability (td_name tool) of
         Some (False, reason) \<Rightarrow> \<lparr>xd_toolName = td_name tool, xd_exposed = False, xd_reason = ''unavailable: '' @ reason, xd_costWarning = None\<rparr>
       | _ \<Rightarrow> if budgetDowngradeActive \<and> td_costLevel tool = Expensive
           then \<lparr>xd_toolName = td_name tool, xd_exposed = True, xd_reason = ''budget downgrade active'', xd_costWarning = Some True\<rparr>
           else \<lparr>xd_toolName = td_name tool, xd_exposed = True, xd_reason = ''eligible'', xd_costWarning = None\<rparr>) tools"

record ToolExposurePlannerInput =
  pi_taskId :: string
  pi_sessionId :: "string option"
  pi_context :: ToolExecutionContext
  pi_iteration :: int
  pi_interactionMode :: "InteractionMode option"

text \<open>The orchestrator's tools, in the order they were registered, the descriptor it makes of one, and the planner's services.\<close>

record ('w, 'i, 'p) PlannerDeps =
  pl_tools :: "('w, 'i, 'p) RegisteredTool list"
  pl_describe :: "('w, 'i, 'p) RegisteredTool \<Rightarrow> ProviderToolDescriptor"
  pl_overridePath :: string
  pl_overrides :: "'w \<Rightarrow> OverrideFile"
  pl_budget :: "'w \<Rightarrow> BudgetService option"
  pl_record :: "TraceEvent \<Rightarrow> ('w, unit) op"

definition candidateTools :: "string list \<Rightarrow> ToolExposurePlannerInput \<Rightarrow> ('w, 'i, 'p) RegisteredTool list \<Rightarrow> ('w, 'i, 'p) RegisteredTool list" where
  "candidateTools disabled input registered =
     (let metadata = tx_taskMetadata (pi_context input);
          registeredTools = filter (\<lambda>t. td_name t \<notin> set disabled) registered;
          (requested, toolsets) = readScheduleToolsetsFromMetadata metadata;
          tools = (if pi_interactionMode input = Some Plan_mode then filter isPlanSafeTool registeredTools else registeredTools);
          tools = (if \<not> requested then tools
                   else if toolsets = [] then []
                   else filter (\<lambda>t. resolveToolsetForTool (td_name t) \<in> set toolsets) tools);
          skill = readActiveSkillToolConstraints metadata;
          tools = (case sk_allowed skill of None \<Rightarrow> tools | Some allowed \<Rightarrow> filter (\<lambda>t. td_name t \<in> set allowed) tools);
          tools = (if sk_disallowed skill \<noteq> [] then filter (\<lambda>t. td_name t \<notin> set (sk_disallowed skill)) tools else tools)
      in if isScheduledRunWithoutDelegate metadata then filter (\<lambda>t. td_name t \<noteq> ''delegate_task'') tools else tools)"

definition decisionJson :: "ToolExposureDecision \<Rightarrow> json" where
  "decisionJson d = JObj ((case xd_costWarning d of None \<Rightarrow> [] | Some b \<Rightarrow> [(''costWarning'', JBool b)]) @
     [(''exposed'', JBool (xd_exposed d)), (''reason'', JStr (xd_reason d)), (''toolName'', JStr (xd_toolName d))])"

definition modeName :: "InteractionMode option \<Rightarrow> string" where
  "modeName m = (case m of None \<Rightarrow> ''agent'' | Some Agent_mode \<Rightarrow> ''agent'' | Some Plan_mode \<Rightarrow> ''plan'' | Some AcceptEdits_mode \<Rightarrow> ''acceptEdits'')"

definition exposureEvent :: "ToolExposurePlannerInput \<Rightarrow> ToolExposureDecision list \<Rightarrow> TraceEvent" where
  "exposureEvent input decisions =
     (let exposedNames = map xd_toolName (filter xd_exposed decisions)
      in \<lparr>te_actor = ''runtime.tool_exposure'', te_eventType = ''tool_exposure_decided'',
          te_payload = [(''decisions'', JArr (map decisionJson decisions)), (''exposedTools'', JArr (map JStr exposedNames)),
            (''hiddenTools'', JArr (map (JStr \<circ> xd_toolName) (filter (\<lambda>d. \<not> xd_exposed d) decisions))),
            (''interactionMode'', JStr (modeName (pi_interactionMode input))), (''iteration'', JNum (pi_iteration input)),
            (''reasons'', JArr (map (\<lambda>d. JStr (xd_toolName d @ '':'' @ xd_reason d)) decisions)), (''taskId'', JStr (pi_taskId input))],
          te_stage = ''planning'', te_summary = ''Tool exposure selected '' @ showNat (length exposedNames) @ '' tools'',
          te_taskId = pi_taskId input\<rparr>)"

definition planExposure :: "('w, 'i, 'p) PlannerDeps \<Rightarrow> ToolExposurePlannerInput \<Rightarrow> ('w, ToolExposurePlan) op" where
  "planExposure deps input =
     bnd (ask (pl_overrides deps)) (\<lambda>file.
     bnd (liftRes (fst (listDisabledToolNames (pl_overridePath deps) file))) (\<lambda>disabled.
     let tools = candidateTools disabled input (pl_tools deps) in
     bnd (checkToolAvailability tools (pi_context input) Map.empty) (\<lambda>availability.
     bnd (ask (pl_budget deps)) (\<lambda>budget.
     let downgrade = (case budget of None \<Rightarrow> False
           | Some b \<Rightarrow> isDowngradeActive Task_scope (pi_taskId input) b \<or>
               (case pi_sessionId input of None \<Rightarrow> False | Some s \<Rightarrow> isDowngradeActive Session_budget s b));
         decisions = evaluateToolExposure tools availability downgrade;
         exposedNames = map xd_toolName (filter xd_exposed decisions)
     in bnd (if pi_iteration input = 1 \<or> list_ex (\<lambda>d. \<not> xd_exposed d) decisions \<or> list_ex (\<lambda>d. xd_costWarning d = Some True) decisions
             then pl_record deps (exposureEvent input decisions) else ret ()) (\<lambda>_.
        ret \<lparr>xp_tools = map (pl_describe deps) (filter (\<lambda>t. td_name t \<in> set exposedNames) (pl_tools deps)),
             xp_decisions = decisions, xp_plannerReasons = map (\<lambda>d. xd_toolName d @ '':'' @ xd_reason d) decisions\<rparr>)))))"

text \<open>How the loop asks for the plan of an iteration.\<close>

definition exposureContext :: "string \<Rightarrow> string \<Rightarrow> int \<Rightarrow> TaskRecord \<Rightarrow> ToolExecutionContext" where
  "exposureContext workspaceRoot cwd iteration task = \<lparr>tx_taskId = tk_taskId task, tx_iteration = iteration,
     tx_workspaceRoot = workspaceRoot, tx_cwd = cwd, tx_userId = tk_requesterUserId task,
     tx_agentProfileId = tk_agentProfileId task, tx_taskMetadata = Some (buildToolTaskMetadata task), tx_governanceOnly = None\<rparr>"

definition plannedTools :: "('m Shared, 'i, 'p) PlannerDeps \<Rightarrow> string \<Rightarrow> string \<Rightarrow>
    InteractionMode option \<Rightarrow> int \<Rightarrow> TaskRecord \<Rightarrow> ('m Shared, ProviderToolDescriptor list \<times> string list) op" where
  "plannedTools deps workspaceRoot cwd mode iteration task =
     bnd (planExposure deps \<lparr>pi_taskId = tk_taskId task, pi_sessionId = tk_sessionId task,
       pi_context = exposureContext workspaceRoot cwd iteration task, pi_iteration = iteration, pi_interactionMode = mode\<rparr>) (\<lambda>p.
     ret (xp_tools p, map xd_toolName (filter (\<lambda>d. xd_costWarning d = Some True) (xp_decisions p))))"

end
