(* ===== verification/ToolExposureProps.thy ===== *)
theory ToolExposureProps
  imports ToolExposure OrchestratorProps
begin

section \<open>What a turn offers\<close>

text \<open>A tool the constraints let through, read off them instead of filtered step by step.\<close>

definition eligible :: "string list \<Rightarrow> ToolExposurePlannerInput \<Rightarrow> ('w, 'i, 'p) RegisteredTool \<Rightarrow> bool" where
  "eligible disabled input t =
     (let m = tx_taskMetadata (pi_context input); n = td_name t;
          skill = readActiveSkillToolConstraints m; sets = readScheduleToolsetsFromMetadata m
      in n \<notin> set disabled
       \<and> (pi_interactionMode input = Some Plan_mode \<longrightarrow> td_sideEffectLevel t \<in> {No_effect, Read_only, External_read_only})
       \<and> (fst sets \<longrightarrow> resolveToolsetForTool n \<in> set (snd sets))
       \<and> (case sk_allowed skill of None \<Rightarrow> True | Some names \<Rightarrow> n \<in> set names)
       \<and> n \<notin> set (sk_disallowed skill)
       \<and> (isScheduledRunWithoutDelegate m \<longrightarrow> n \<noteq> ''delegate_task''))"

lemma candidates: "candidateTools disabled input registered = filter (eligible disabled input) registered"
proof -
  obtain req ts where s: "readScheduleToolsetsFromMetadata (tx_taskMetadata (pi_context input)) = (req, ts)" by fastforce
  show ?thesis
    unfolding candidateTools_def eligible_def Let_def s isPlanSafeTool_def isReadOnlySideEffectLevel_def
    by (auto intro!: filter_cong split: option.split)
qed

text \<open>What a tool answers when it is asked whether it is available; a tool without a check is.\<close>

definition available :: "ToolExecutionContext \<Rightarrow> ('w, 'i, 'p) RegisteredTool \<Rightarrow> ('w, bool) op" where
  "available ctx t = (case td_checkAvailability t of None \<Rightarrow> ret True | Some check \<Rightarrow> bnd (check ctx) (\<lambda>r. ret (fst r)))"

lemma available_run:
  "(case td_checkAvailability t of None \<Rightarrow> ret (True, ''no check'') | Some check \<Rightarrow> check ctx) w = (Inr x, w1) \<Longrightarrow> available ctx t w = (Inr (fst x), w1)"
  by (auto simp: available_def bnd_run split: option.splits)

lemma availability_checked:
  assumes "checkToolAvailability tools ctx r w = (Inr av, w')" and "distinct (map td_name tools)"
  shows "forEach (available ctx) tools w = (Inr (map (\<lambda>t. \<nexists>reason. av (td_name t) = Some (False, reason)) tools), w') \<and>
    (\<forall>n. n \<notin> td_name ` set tools \<longrightarrow> av n = r n)"
  using assms
proof (induction tools ctx r arbitrary: w rule: checkToolAvailability.induct)
  case (2 tool tools ctx r)
  obtain x w1 where x: "(case td_checkAvailability tool of None \<Rightarrow> ret (True, ''no check'') | Some check \<Rightarrow> check ctx) w = (Inr x, w1)"
      and rest: "checkToolAvailability tools ctx (r(td_name tool \<mapsto> x)) w1 = (Inr av, w')"
    using 2(2) by (auto elim!: bnd_InrE)
  have h: "forEach (available ctx) tools w1 = (Inr (map (\<lambda>t. \<nexists>reason. av (td_name t) = Some (False, reason)) tools), w')"
    "\<forall>n. n \<notin> td_name ` set tools \<longrightarrow> av n = (r(td_name tool \<mapsto> x)) n"
    using 2(1) [OF rest] 2(3) by auto
  then have "av (td_name tool) = Some x" using 2(3) by simp
  then have "(\<nexists>reason. av (td_name tool) = Some (False, reason)) = fst x" by (cases x) auto
  with h available_run [OF x] show ?case by (auto simp: bnd_run)
qed simp

lemma decision_of_tool:
  "map xd_toolName (filter xd_exposed (evaluateToolExposure tools av b)) =
    map td_name (filter (\<lambda>t. \<nexists>reason. av (td_name t) = Some (False, reason)) tools)"
  by (induction tools) (auto simp: evaluateToolExposure_def split: option.split bool.split)

lemma evaluated_names: "map xd_toolName (evaluateToolExposure tools av b) = map td_name tools"
  by (auto simp: evaluateToolExposure_def split: option.split bool.split)

lemma planned:
  assumes "planExposure deps input w = (Inr p, w')" and "distinct (map td_name (pl_tools deps))"
  shows "\<exists>disabled av w1. fst (listDisabledToolNames (pl_overridePath deps) (pl_overrides deps w)) = Inr disabled \<and>
    forEach (available (pi_context input)) (filter (eligible disabled input) (pl_tools deps)) w =
      (Inr (map (\<lambda>t. \<nexists>reason. av (td_name t) = Some (False, reason :: string)) (filter (eligible disabled input) (pl_tools deps))), w1) \<and>
    xp_tools p = map (pl_describe deps) (filter (\<lambda>t. eligible disabled input t \<and> (\<nexists>reason. av (td_name t) = Some (False, reason :: string))) (pl_tools deps))"
proof -
  obtain disabled where d: "fst (listDisabledToolNames (pl_overridePath deps) (pl_overrides deps w)) = Inr disabled"
      and r: "(let tools = candidateTools disabled input (pl_tools deps) in
     bnd (checkToolAvailability tools (pi_context input) Map.empty) (\<lambda>availability.
     bnd (ask (pl_budget deps)) (\<lambda>budget.
     let downgrade = (case budget of None \<Rightarrow> False
           | Some b \<Rightarrow> isDowngradeActive Task_scope (pi_taskId input) b \<or>
               (case pi_sessionId input of None \<Rightarrow> False | Some s \<Rightarrow> isDowngradeActive Session_budget s b));
         decisions = evaluateToolExposure tools availability downgrade;
         exposedNames = map xd_toolName (filter xd_exposed decisions)
     in bnd (if pi_iteration input = 1 \<or> list_ex (\<lambda>d. \<not> xd_exposed d) decisions \<or> list_ex (\<lambda>d. xd_costWarning d = Some True) decisions
             then pl_record deps (exposureEvent input decisions) else ret ()) (\<lambda>_.
        ret \<lparr>xp_tools = map (pl_describe deps) (filter (\<lambda>t. td_name t \<in> set exposedNames) (pl_tools deps)),
             xp_decisions = decisions, xp_plannerReasons = map (\<lambda>d. xd_toolName d @ '':'' @ xd_reason d) decisions\<rparr>)))) w = (Inr p, w')"
    using assms(1) unfolding planExposure_def by (auto elim!: bnd_InrE simp: ask_def liftRes_def ret_def raise_def split: sum.splits)
  obtain av w2 b where a: "checkToolAvailability (candidateTools disabled input (pl_tools deps)) (pi_context input) Map.empty w = (Inr av, w2)"
    and t: "xp_tools p = map (pl_describe deps) (filter (\<lambda>t. td_name t \<in> set (map xd_toolName (filter xd_exposed
       (evaluateToolExposure (candidateTools disabled input (pl_tools deps)) av b)))) (pl_tools deps))"
    using r unfolding Let_def by (auto elim!: bnd_InrE simp: ret_def)
  have inj: "inj_on td_name (set (pl_tools deps))" using assms(2) by (simp add: distinct_map)
  have "distinct (map td_name (candidateTools disabled input (pl_tools deps)))"
    unfolding candidates by (simp add: assms(2) distinct_map_filter)
  note n = conjunct1 [OF availability_checked [OF a this]]
  have "td_name t \<in> set (map xd_toolName (filter xd_exposed (evaluateToolExposure (candidateTools disabled input (pl_tools deps)) av b))) \<longleftrightarrow>
      eligible disabled input t \<and> (\<nexists>reason. av (td_name t) = Some (False, reason))" if "t \<in> set (pl_tools deps)" for t
    unfolding decision_of_tool candidates using that inj by (auto simp: inj_on_def)
  then have "xp_tools p = map (pl_describe deps) (filter (\<lambda>t. eligible disabled input t \<and> (\<nexists>reason. av (td_name t) = Some (False, reason))) (pl_tools deps))"
    unfolding t by (intro arg_cong [where f = "map (pl_describe deps)"] filter_cong refl)
  with d n [unfolded candidates] show ?thesis by (intro exI [of _ disabled] exI [of _ av] exI [of _ w2] conjI)
qed

lemma filter_answered: "filter f xs = map fst (filter snd (zip xs (map f xs)))"
  by (induction xs) auto

text \<open>
  C22: the tools an iteration offers to the provider are exactly those that say they are available, in the order of their
  registration, among the registered tools that the workspace has not disabled, that only read when the task is in plan mode,
  that belong to the toolsets of its schedule, that the active skill allows and does not forbid, and that do not delegate in a
  scheduled run without that right. The answers are those of the tools' own checks, run one after the other before anything else
  the planner does; a tool without a check counts as available. Names are assumed to be registered once.
\<close>

theorem offered_tools_exact:
  assumes "planExposure deps input w = (Inr p, w')" and "distinct (map td_name (pl_tools deps))"
  shows "\<exists>disabled answers w1. fst (listDisabledToolNames (pl_overridePath deps) (pl_overrides deps w)) = Inr disabled \<and>
    forEach (available (pi_context input)) (filter (eligible disabled input) (pl_tools deps)) w = (Inr answers, w1) \<and>
    xp_tools p = map (pl_describe deps \<circ> fst) (filter snd (zip (filter (eligible disabled input) (pl_tools deps)) answers))"
proof -
  obtain disabled av w1 where h: "fst (listDisabledToolNames (pl_overridePath deps) (pl_overrides deps w)) = Inr disabled"
      "forEach (available (pi_context input)) (filter (eligible disabled input) (pl_tools deps)) w =
        (Inr (map (\<lambda>t. \<nexists>reason. av (td_name t) = Some (False, reason :: string)) (filter (eligible disabled input) (pl_tools deps))), w1)"
      "xp_tools p = map (pl_describe deps) (filter (\<lambda>t. eligible disabled input t \<and> (\<nexists>reason. av (td_name t) = Some (False, reason :: string))) (pl_tools deps))"
    using planned [OF assms] by blast
  have "xp_tools p = map (pl_describe deps) (filter (\<lambda>t. \<nexists>reason. av (td_name t) = Some (False, reason :: string)) (filter (eligible disabled input) (pl_tools deps)))"
    unfolding h(3) filter_filter by (intro arg_cong [where f = "map (pl_describe deps)"] filter_cong refl)
  then show ?thesis using h(1,2) unfolding filter_answered [of "\<lambda>t. \<nexists>reason. av (td_name t) = Some (False, reason :: string)"] map_map by blast
qed

text \<open>
  C21: in plan mode no request of the loop offers a tool that may change anything: with the planner in its place, every tool of
  the list the loop puts into the request of an iteration is a registered tool without side effect, or one that only reads.
\<close>

theorem plan_mode_offers_readers:
  assumes "ld_planExposure deps = Some (plannedTools pd ws cwd)" and "ls_interactionMode (kn_loop k) = Some Plan_mode"
    and "planTools deps iteration task k = (Inr tools, k')" and "distinct (map td_name (pl_tools pd))"
  shows "set tools \<subseteq> pl_describe pd ` {t \<in> set (pl_tools pd). isPlanSafeTool t}"
proof -
  obtain p s s' where "planExposure pd \<lparr>pi_taskId = tk_taskId task, pi_sessionId = tk_sessionId task,
       pi_context = exposureContext ws cwd iteration task, pi_iteration = iteration, pi_interactionMode = Some Plan_mode\<rparr> s = (Inr p, s')"
      and "tools = xp_tools p"
    using assms(1-3) unfolding planTools_def plannedTools_def
    by (auto elim!: bnd_InrE simp: askLoop_def ask_def onShared_def zoom_def ret_def split: prod.splits sum.splits)
  from planned [OF this(1) assms(4)] this(2) show ?thesis
    by (auto simp: eligible_def Let_def isPlanSafeTool_def isReadOnlySideEffectLevel_def)
qed

subsection \<open>Overrides\<close>

lemma strings_filter: "strings (filter (\<lambda>e. e \<noteq> JStr n) vs) = filter (\<lambda>x. x \<noteq> n) (strings vs)"
  by (induction vs rule: strings.induct) auto

lemma strings_append: "strings (vs @ ws) = strings vs @ strings ws"
  by (induction vs rule: strings.induct) auto

lemma mem_strings: "JStr n \<in> set vs \<longleftrightarrow> n \<in> set (strings vs)"
  by (induction vs rule: strings.induct) auto

lemma written_overrides: "writeOverrides ob ns f = (Inr (), f') \<Longrightarrow> \<exists>ob'. readOverrides path f' = (Inr (ob', ns), f')"
  by (auto simp: writeOverrides_def modify_def readOverrides_def bnd_run ask_def ret_def)

lemma override_op:
  assumes "readOverrides path f = (Inr (ob, names), f)" and "list_ex (\<lambda>t. td_name t = n) registered"
  shows "\<exists>ob'. readOverrides path (snd (disableTool collate path n registered f)) =
      (Inr (ob', if JStr n \<in> set names then names else names @ [JStr n]), snd (disableTool collate path n registered f))"
    and "\<exists>ob'. readOverrides path (snd (enableTool collate path n registered f)) =
      (Inr (ob', filter (\<lambda>e. e \<noteq> JStr n) names), snd (enableTool collate path n registered f))"
proof -
  have list: "snd (listOverrideTools collate path registered g) = g" for g :: OverrideFile
    by (auto simp: listOverrideTools_def bnd_def readOverrides_def ask_def ret_def raise_def split: sum.split OverrideFile.split json.split option.split)
  have "filter (\<lambda>e. e \<noteq> JStr n) names = names" if "JStr n \<notin> set names"
    using that by (auto simp: filter_id_conv)
  then show "\<exists>ob'. readOverrides path (snd (disableTool collate path n registered f)) =
      (Inr (ob', if JStr n \<in> set names then names else names @ [JStr n]), snd (disableTool collate path n registered f))"
    and "\<exists>ob'. readOverrides path (snd (enableTool collate path n registered f)) =
      (Inr (ob', filter (\<lambda>e. e \<noteq> JStr n) names), snd (enableTool collate path n registered f))"
    using assms written_overrides [of ob _ f, where path = path]
    by (auto simp: disableTool_def enableTool_def assertRegistered_def bnd_run list writeOverrides_def modify_def ret_def)
qed

text \<open>
  Disabling a tool and enabling it again: after the first the stored list is the old one and the tool, after the
  second it is the old one without the tool; other names and the other keys of the file stay as they were.
\<close>

theorem override_roundtrip:
  assumes "readOverrides path f = (Inr (ob, names), f)" and "list_ex (\<lambda>t. td_name t = n) registered"
  shows "let f1 = snd (disableTool collate path n registered f); f2 = snd (enableTool collate path n registered f1) in
    fst (listDisabledToolNames path f1) = Inr (if n \<in> set (strings names) then strings names else strings names @ [n]) \<and>
    fst (listDisabledToolNames path f2) = Inr (filter (\<lambda>x. x \<noteq> n) (strings names))"
proof -
  let ?f1 = "snd (disableTool collate path n registered f)"
  obtain ob1 where r: "readOverrides path ?f1 = (Inr (ob1, if JStr n \<in> set names then names else names @ [JStr n]), ?f1)"
    using override_op(1) [OF assms] by blast
  then obtain ob2 where "readOverrides path (snd (enableTool collate path n registered ?f1)) =
      (Inr (ob2, filter (\<lambda>e. e \<noteq> JStr n) (if JStr n \<in> set names then names else names @ [JStr n])), snd (enableTool collate path n registered ?f1))"
    using override_op(2) [OF r assms(2)] by blast
  with r show ?thesis
    by (simp add: Let_def listDisabledToolNames_def bnd_run strings_filter strings_append mem_strings)
qed

lemma catalog_tools_of_mcp: "map resolveToolsetForTool (TOOLSET_TOOLS ''mcp'') = [''agent'', ''agent'', ''agent'']"
  by code_simp

text \<open>
  Plan mode is a matter of the list that is offered. The orchestrator runs a call by its name: in plan mode its
  gate has the effect of the policy, and of a write into the workspace that is less than what agent mode asks for.
\<close>

lemma plan_mode_not_gated:
  assumes "readInteractionMode (tx_taskMetadata ctx) = Plan_mode"
  shows "effectiveEffect tool ctx prepared eff = eff"
  using assms by (simp add: effectiveEffect_def Let_def)

subsection \<open>At concrete states\<close>

definition demoRegistered :: "string \<Rightarrow> ToolSideEffectLevel \<Rightarrow> (unit Shared, unit, unit) RegisteredTool" where
  "demoRegistered n l = \<lparr>td_name = n, td_capability = Filesystem_read, td_riskLevel = Low,
     td_privacyLevel = Internal, td_sideEffectLevel = l, td_safeParse = (\<lambda>_. Inr ()),
     td_checkAvailability = (if n = ''web_search'' then Some (\<lambda>_. ret (False, ''no key'')) else None),
     td_prepare = (\<lambda>_ _. raise (PlainError [])), td_execute = (\<lambda>_ _. raise (PlainError [])),
     td_askInput = (\<lambda>_. \<lparr>au_allowCustomAnswer = True, au_options = [], au_placeholder = None,
       au_question = ''q'', au_questions = [], au_reason = None\<rparr>), td_costLevel = Cheap, td_description = n\<rparr>"

definition demoPlanner :: "(unit Shared, unit, unit) PlannerDeps" where
  "demoPlanner = \<lparr>pl_tools = [demoRegistered ''read_file'' Read_only, demoRegistered ''write_file'' Workspace_mutation,
       demoRegistered ''web_search'' External_read_only, demoRegistered ''glob'' Read_only],
     pl_describe = (\<lambda>t. \<lparr>ds_name = td_name t, ds_capability = td_capability t, ds_privacyLevel = td_privacyLevel t,
       ds_riskLevel = td_riskLevel t, ds_parallelSafe = True\<rparr>),
     pl_overridePath = ''f'', pl_overrides = (\<lambda>_. Parsed (JObj [(''disabledToolNames'', JArr [JStr ''glob''])])),
     pl_budget = (\<lambda>_. None), pl_record = (\<lambda>_. ret ())\<rparr>"

end
