(* ===== verification/ToolExposureWitness.thy ===== *)
theory ToolExposureWitness
  imports ToolExposureProps LoopWitness
begin

section \<open>The planner at concrete states\<close>

definition demoPlanInput :: ToolExposurePlannerInput where
  "demoPlanInput = \<lparr>pi_taskId = ''t1'', pi_sessionId = None, pi_context = exposureContext ''/ws'' ''/ws'' 1 (sampleTask T_running),
     pi_iteration = 1, pi_interactionMode = Some Plan_mode\<rparr>"

definition emptyShared :: "unit Shared" where
  "emptyShared = \<lparr>sh_tasks = [], sh_checkpoints = [], sh_sessionTasks = [], sh_trace = [], sh_abort = None, sh_rest = ()\<rparr>"

definition demoPlanned :: "(thrown + ToolExposurePlan) \<times> unit Shared" where
  "demoPlanned = planExposure demoPlanner demoPlanInput emptyShared"

lemma demoPlanner_names: "distinct (map td_name (pl_tools demoPlanner))"
  by (simp add: demoPlanner_def demoRegistered_def)

lemma demoPlanned_value: "case fst demoPlanned of Inr p \<Rightarrow> map ds_name (xp_tools p) = [''read_file''] | Inl _ \<Rightarrow> False"
  by code_simp

theorem offered_tools_exact_witness:
  "\<exists>p answers w1. fst demoPlanned = Inr p \<and> map ds_name (xp_tools p) = [''read_file''] \<and>
    forEach (available (pi_context demoPlanInput)) (filter (eligible [''glob''] demoPlanInput) (pl_tools demoPlanner)) emptyShared = (Inr answers, w1) \<and>
    xp_tools p = map (pl_describe demoPlanner \<circ> fst) (filter snd (zip (filter (eligible [''glob''] demoPlanInput) (pl_tools demoPlanner)) answers))"
proof -
  obtain p where p: "fst demoPlanned = Inr p" "map ds_name (xp_tools p) = [''read_file'']"
    using demoPlanned_value by (auto split: sum.splits)
  then have "planExposure demoPlanner demoPlanInput emptyShared = (Inr p, snd demoPlanned)"
    by (metis demoPlanned_def prod.collapse)
  from offered_tools_exact [OF this demoPlanner_names] obtain disabled answers w1 where
    d: "fst (listDisabledToolNames (pl_overridePath demoPlanner) (pl_overrides demoPlanner emptyShared)) = Inr disabled"
      "forEach (available (pi_context demoPlanInput)) (filter (eligible disabled demoPlanInput) (pl_tools demoPlanner)) emptyShared = (Inr answers, w1)"
      "xp_tools p = map (pl_describe demoPlanner \<circ> fst) (filter snd (zip (filter (eligible disabled demoPlanInput) (pl_tools demoPlanner)) answers))"
    by blast
  have "disabled = [''glob'']"
    using d(1) by (simp add: demoPlanner_def listDisabledToolNames_def readOverrides_def bnd_run ask_def jget_def ret_def)
  with d(2,3) p show ?thesis by (intro exI [of _ p] exI [of _ answers] exI [of _ w1]) simp
qed

definition planDeps :: "unit LoopDeps" where
  "planDeps = \<lparr>ld_batch = demoBatch, ld_completion = demoCompletion, ld_now = 5, ld_turnId = ''u'', ld_runId = ''r'', ld_providerName = ''m'',
     ld_listTools = (\<lambda>_. []), ld_planExposure = Some (plannedTools demoPlanner ''/ws'' ''/ws''), ld_parallelSafe = (\<lambda>_. False), ld_keepGroups = None,
     ld_cooldownIterations = None, ld_collate = (\<lambda>_. 0), ld_todoStore = (\<lambda>_. None), ld_debugView = (\<lambda>_ _. JNull),
     ld_reviewerPayload = (\<lambda>_ _ _. []), ld_emitOutput = (\<lambda>_ _ _ _. ret ()),
     ld_activeProvider = (\<lambda>_. ret \<lparr>av_name = ''m'', av_model = None, av_describedModel = None\<rparr>),
     ld_generate = (\<lambda>p req s. (Inr demoAnswer, s)),
     ld_toProviderError = (\<lambda>_ _. \<lparr>pe_category = [], pe_message = [], pe_modelName = None, pe_providerName = [], pe_retriable = False,
        pe_retryCount = None, pe_statusCode = None, pe_summary = None\<rparr>),
     ld_sleep = (\<lambda>_. ret ()), ld_costUsd = (\<lambda>_ _. None), ld_budgetMode = Balanced, ld_recordUsage = (\<lambda>_. ret None),
     ld_compact = demoCompact, ld_previousSummary = (\<lambda>_ _. None), ld_summarize = (\<lambda>_. ret []), ld_consumeManual = (\<lambda>_. ret None),
     ld_flushMemory = None, ld_persistCompact = (\<lambda>_ _ _ _. ret ()), ld_planRecall = (\<lambda>_ _ _. ret []),
     ld_capabilityDeclaration = (\<lambda>_ _ _ _. []), ld_recordOutcome = (\<lambda>_ _. ret ()), ld_recordSession = (\<lambda>_ _ _. ret ()),
     ld_recordFailure = (\<lambda>_ _ _. ret ()), ld_stringOf = (\<lambda>_. [])\<rparr>"

definition planKernel :: "unit Kernel" where
  "planKernel = demoKernel\<lparr>kn_loop := demoLoop\<lparr>ls_interactionMode := Some Plan_mode\<rparr>\<rparr>"

definition demoPlanTools :: "(thrown + ProviderToolDescriptor list) \<times> unit Kernel" where
  "demoPlanTools = planTools planDeps 1 (sampleTask T_running) planKernel"

lemma demoPlanTools_value: "case fst demoPlanTools of Inr ts \<Rightarrow> map ds_name ts = [''read_file''] | Inl _ \<Rightarrow> False"
  by code_simp

theorem plan_mode_offers_readers_witness:
  "\<exists>ts. fst demoPlanTools = Inr ts \<and> map ds_name ts = [''read_file''] \<and>
    set ts \<subseteq> pl_describe demoPlanner ` {t \<in> set (pl_tools demoPlanner). isPlanSafeTool t}"
proof -
  obtain ts where t: "fst demoPlanTools = Inr ts" "map ds_name ts = [''read_file'']"
    using demoPlanTools_value by (auto split: sum.splits)
  then have r: "planTools planDeps 1 (sampleTask T_running) planKernel = (Inr ts, snd demoPlanTools)"
    by (metis demoPlanTools_def prod.collapse)
  have d: "ld_planExposure planDeps = Some (plannedTools demoPlanner ''/ws'' ''/ws'')" "ls_interactionMode (kn_loop planKernel) = Some Plan_mode"
    by (simp_all add: planDeps_def planKernel_def)
  show ?thesis using plan_mode_offers_readers [OF d r demoPlanner_names] t by (intro exI [of _ ts]) simp
qed

definition demoOverrides :: OverrideFile where
  "demoOverrides = Parsed (JObj [(''disabledToolNames'', JArr [JStr ''glob''])])"

theorem override_roundtrip_witness:
  "let f1 = snd (disableTool (\<lambda>_. 0) ''f'' ''read_file'' (pl_tools demoPlanner) demoOverrides);
       f2 = snd (enableTool (\<lambda>_. 0) ''f'' ''read_file'' (pl_tools demoPlanner) f1) in
    fst (listDisabledToolNames ''f'' f1) = Inr [''glob'', ''read_file''] \<and> fst (listDisabledToolNames ''f'' f2) = Inr [''glob'']"
proof -
  have "readOverrides ''f'' demoOverrides = (Inr ([(''disabledToolNames'', JArr [JStr ''glob''])], [JStr ''glob'']), demoOverrides)"
    by (simp add: readOverrides_def demoOverrides_def bnd_run ask_def jget_def ret_def)
  from override_roundtrip [OF this, of "''read_file''" "pl_tools demoPlanner" "\<lambda>_. 0"] show ?thesis
    by (simp add: Let_def demoPlanner_def demoRegistered_def)
qed

end
