(* ===== verification/Workers.thy ===== *)
theory Workers
  imports TaskRuns Budget JsonText JobRunner
begin

section \<open>Workers and delegated tasks\<close>

text \<open>
  src/src/runtime/workers/worker-dispatcher.ts: a handler is tried up to a number of attempts against a timer. Which of handler
  and timer comes first is the result of an arbitrary operation; durations are arguments by attempt. The outputs of workers
  are JSON values, and the order of the keys in the payload of an event is not kept. src/src/tools/delegate-task-tool.ts with the executor that src/src/runtime/bootstrap.ts binds to it: a tool call runs a
  task of its own.
\<close>

subsection \<open>The dispatcher\<close>

datatype WorkerKind = Summarizer | Retrieval
datatype WorkerStatus = W_dispatched | W_running | W_succeeded | W_failed | W_timeout | W_retried | W_skipped

fun workerKindStr :: "WorkerKind \<Rightarrow> string" where
  "workerKindStr Summarizer = ''summarizer''"
| "workerKindStr Retrieval = ''retrieval''"

record 'i WorkerRequest =
  wq_workerId :: string
  wq_workerKind :: WorkerKind
  wq_taskId :: string
  wq_sessionId :: "string option"
  wq_input :: 'i
  wq_timeoutMs :: int
  wq_maxAttempts :: int
  wq_backoffBaseMs :: int
  wq_backoffMaxMs :: int

record WorkerResult =
  wr_workerId :: string
  wr_workerKind :: WorkerKind
  wr_status :: WorkerStatus
  wr_output :: "json option"
  wr_durationMs :: int
  wr_attemptNumber :: int
  wr_errorMessage :: "string option"

text \<open>The race of an attempt: its output, or that the timer fired; a thrown error is the handler's.\<close>

datatype RaceOutcome = Handler_output json | Timer_fired

record ('w, 'i) WorkerDeps =
  wd_trace :: "TraceEvent \<Rightarrow> ('w, unit) op"
  wd_audit :: "AuditEntry \<Rightarrow> ('w, unit) op"
  wd_budget :: "'w \<Rightarrow> BudgetService option"
  wd_race :: "'i \<Rightarrow> int \<Rightarrow> ('w, RaceOutcome) op"
  wd_sleep :: "int \<Rightarrow> ('w, unit) op"
  wd_duration :: "int \<Rightarrow> int"
  wd_now :: "int \<Rightarrow> instant"

definition quietly :: "('w, unit) op \<Rightarrow> ('w, unit) op" where
  "quietly m = tryCatch m (\<lambda>_. ret ())"

definition shouldSkipForBudget :: "BudgetService option \<Rightarrow> string \<Rightarrow> string option \<Rightarrow> bool" where
  "shouldSkipForBudget budget taskId sessionId =
     (case budget of None \<Rightarrow> False
      | Some b \<Rightarrow> isDowngradeActive Task_scope taskId b \<or>
          (case sessionId of None \<Rightarrow> False | Some s \<Rightarrow> isDowngradeActive Session_budget s b))"

definition summarizeOutput :: "json \<Rightarrow> string" where
  "summarizeOutput v =
     (let clip = (\<lambda>s. if length s \<le> 200 then s else take 200 s @ ''...'')
      in case v of JNull \<Rightarrow> ''null'' | JStr s \<Rightarrow> clip s | _ \<Rightarrow> clip (stringify v))"

definition planWorkerRetry :: "instant \<Rightarrow> 'i WorkerRequest \<Rightarrow> int \<Rightarrow> thrown + int option" where
  "planWorkerRetry now request attemptNumber =
     (if attemptNumber \<ge> wq_maxAttempts request then Inr None
      else let delayMs = min (wq_backoffBaseMs request * 2 ^ nat (max 0 (attemptNumber - 1))) (wq_backoffMaxMs request)
           in map_sum id (\<lambda>_. Some delayMs) (dateIso (now + delayMs)))"

definition workerActor :: "'i WorkerRequest \<Rightarrow> string option \<Rightarrow> string" where
  "workerActor request actor = (case actor of Some a \<Rightarrow> a | None \<Rightarrow> ''runtime.worker.'' @ workerKindStr (wq_workerKind request))"

definition workerIds :: "'i WorkerRequest \<Rightarrow> json_object" where
  "workerIds request = [(''taskId'', JStr (wq_taskId request)), (''sessionId'', jopt (wq_sessionId request)),
     (''workerId'', JStr (wq_workerId request)), (''workerKind'', JStr (workerKindStr (wq_workerKind request)))]"

definition workerTrace :: "('w, 'i) WorkerDeps \<Rightarrow> string \<Rightarrow> 'i WorkerRequest \<Rightarrow> string \<Rightarrow> json_object \<Rightarrow> string \<Rightarrow> string \<Rightarrow> ('w, unit) op" where
  "workerTrace deps actor request eventType payload stage sm = quietly (wd_trace deps \<lparr>te_actor = actor, te_eventType = eventType,
     te_payload = payload @ workerIds request, te_stage = stage, te_summary = sm, te_taskId = wq_taskId request\<rparr>)"

definition workerAudit :: "('w, 'i) WorkerDeps \<Rightarrow> string \<Rightarrow> 'i WorkerRequest \<Rightarrow> string \<Rightarrow> string \<Rightarrow> json_object \<Rightarrow> string \<Rightarrow> ('w, unit) op" where
  "workerAudit deps actor request action outcome payload sm = quietly (wd_audit deps \<lparr>ae_action = action, ae_actor = actor,
     ae_approvalId = None, ae_outcome = outcome, ae_payload = payload @ workerIds request, ae_summary = sm,
     ae_taskId = Some (wq_taskId request), ae_toolCallId = None\<rparr>)"

definition workerResult :: "'i WorkerRequest \<Rightarrow> WorkerStatus \<Rightarrow> json option \<Rightarrow> int \<Rightarrow> int \<Rightarrow> string option \<Rightarrow> WorkerResult" where
  "workerResult request status out duration attempt err = \<lparr>wr_workerId = wq_workerId request, wr_workerKind = wq_workerKind request,
     wr_status = status, wr_output = out, wr_durationMs = duration, wr_attemptNumber = attempt, wr_errorMessage = err\<rparr>"

definition SKIPPED_MESSAGE :: string where
  "SKIPPED_MESSAGE = ''Worker skipped due to active budget downgrade.''"

definition skipWorker :: "('w, 'i) WorkerDeps \<Rightarrow> string \<Rightarrow> 'i WorkerRequest \<Rightarrow> ('w, WorkerResult) op" where
  "skipWorker deps actor request =
     bnd (workerTrace deps actor request ''worker_failed'' [(''durationMs'', JNum 0), (''errorMessage'', JStr SKIPPED_MESSAGE),
        (''retriable'', JBool False)] ''control'' SKIPPED_MESSAGE) (\<lambda>_.
     bnd (workerAudit deps actor request ''worker_failed'' ''denied'' [(''reason'', JStr ''budget_downgrade_active'')] SKIPPED_MESSAGE) (\<lambda>_.
     ret (workerResult request W_skipped None 0 1 (Some SKIPPED_MESSAGE))))"

fun thrownMessage :: "WorkerKind \<Rightarrow> thrown \<Rightarrow> string" where
  "thrownMessage k (AppError c m d) = m"
| "thrownMessage k (ProviderError p) = pe_message p"
| "thrownMessage k (PlainError m) = m"
| "thrownMessage k NonError = ''Unknown '' @ workerKindStr k @ '' worker failure''"

datatype AttemptEnd = Attempt_ok json | Attempt_failed string | Attempt_timeout string

text \<open>\<open>runWithTimeout\<close> with its catch: how the attempt ended.\<close>

definition runWithTimeout :: "('w, 'i) WorkerDeps \<Rightarrow> 'i WorkerRequest \<Rightarrow> int \<Rightarrow> ('w, AttemptEnd) op" where
  "runWithTimeout deps request attempt =
     tryCatch (bnd (wd_race deps (wq_input request) attempt) (\<lambda>o1. case o1 of
         Handler_output v \<Rightarrow> ret (Attempt_ok v)
       | Timer_fired \<Rightarrow> ret (Attempt_timeout (''Worker timed out after '' @ showInt (wq_timeoutMs request) @ ''ms''))))
       (\<lambda>e. ret (Attempt_failed (thrownMessage (wq_workerKind request) e)))"

definition announceAttempt :: "('w, 'i) WorkerDeps \<Rightarrow> string \<Rightarrow> 'i WorkerRequest \<Rightarrow> int \<Rightarrow> ('w, unit) op" where
  "announceAttempt deps actor request attempt =
     (let what = ''Worker '' @ workerKindStr (wq_workerKind request) @ '' dispatched'';
          timeout = (''timeoutMs'', JNum (wq_timeoutMs request))
      in bnd (workerTrace deps actor request ''worker_dispatched'' [timeout] ''control'' what) (\<lambda>_.
         workerAudit deps actor request ''worker_dispatched'' ''attempted'' [(''attemptNumber'', JNum attempt), timeout] what))"

definition announceFailure :: "('w, 'i) WorkerDeps \<Rightarrow> string \<Rightarrow> 'i WorkerRequest \<Rightarrow> int \<Rightarrow> bool \<Rightarrow> bool \<Rightarrow> string \<Rightarrow> ('w, unit) op" where
  "announceFailure deps actor request attempt isTimeout canRetry errorMessage =
     (let kind = workerKindStr (wq_workerKind request); duration = (''durationMs'', JNum (wd_duration deps attempt));
          timeout = (''timeoutMs'', JNum (wq_timeoutMs request));
          what = ''Worker '' @ kind @ (if isTimeout then '' timed out'' else '' failed'')
      in bnd (workerTrace deps actor request (if isTimeout then ''worker_timeout'' else ''worker_failed'')
           (if isTimeout then [timeout]
            else [duration, (''errorMessage'', JStr errorMessage), (''retriable'', JBool canRetry)]) ''completion'' what) (\<lambda>_.
         workerAudit deps actor request ''worker_failed'' (if isTimeout then ''timed_out'' else ''failed'')
           [(''attemptNumber'', JNum attempt), duration, (''errorMessage'', JStr errorMessage), (''retriable'', JBool canRetry), timeout] what))"

text \<open>The attempts from one on; the first argument counts those left.\<close>

fun dispatchFrom :: "nat \<Rightarrow> ('w, 'i) WorkerDeps \<Rightarrow> string \<Rightarrow> 'i WorkerRequest \<Rightarrow> int \<Rightarrow> ('w, WorkerResult) op" where
  "dispatchFrom 0 deps actor request attempt =
     ret (workerResult request W_failed None 0 (wq_maxAttempts request) (Some ''Worker attempts exhausted.''))"
| "dispatchFrom (Suc n) deps actor request attempt =
     bnd (announceAttempt deps actor request attempt) (\<lambda>_.
     bnd (runWithTimeout deps request attempt) (\<lambda>end.
     let duration = wd_duration deps attempt;
         failed = (\<lambda>isTimeout errorMessage.
           let canRetry = \<not> isTimeout \<and> attempt < wq_maxAttempts request
           in bnd (announceFailure deps actor request attempt isTimeout canRetry errorMessage) (\<lambda>_.
              if \<not> canRetry then ret (workerResult request (if isTimeout then W_timeout else W_failed) None duration attempt (Some errorMessage))
              else bnd (liftRes (planWorkerRetry (wd_now deps attempt) request attempt)) (\<lambda>retry.
                case retry of
                  None \<Rightarrow> ret (workerResult request W_failed None duration attempt (Some errorMessage))
                | Some delayMs \<Rightarrow>
                    bnd (workerTrace deps actor request ''worker_retried'' [(''attemptNumber'', JNum (attempt + 1)),
                       (''delayMs'', JNum delayMs), (''maxAttempts'', JNum (wq_maxAttempts request))] ''control''
                       (''Worker '' @ workerKindStr (wq_workerKind request) @ '' retry scheduled'')) (\<lambda>_.
                    bnd (wd_sleep deps delayMs) (\<lambda>_.
                    dispatchFrom n deps actor request (attempt + 1))))))
     in case end of
          Attempt_ok v \<Rightarrow>
            bnd (workerTrace deps actor request ''worker_succeeded'' [(''durationMs'', JNum duration), (''outputSummary'', JStr (summarizeOutput v))]
               ''completion'' (''Worker '' @ workerKindStr (wq_workerKind request) @ '' succeeded'')) (\<lambda>_.
            ret (workerResult request W_succeeded (Some v) duration attempt None))
        | Attempt_failed m \<Rightarrow> failed False m
        | Attempt_timeout m \<Rightarrow> failed True m))"

definition dispatchWorker :: "('w, 'i) WorkerDeps \<Rightarrow> 'i WorkerRequest \<Rightarrow> string option \<Rightarrow> ('w, WorkerResult) op" where
  "dispatchWorker deps request actor =
     bnd (ask (wd_budget deps)) (\<lambda>budget.
     if shouldSkipForBudget budget (wq_taskId request) (wq_sessionId request)
     then skipWorker deps (workerActor request actor) request
     else dispatchFrom (nat (wq_maxAttempts request)) deps (workerActor request actor) request 1)"

subsection \<open>Delegated tasks\<close>

record PreparedDelegateTaskInput =
  pd_isolation :: "bool option"
  pd_maxIterations :: "int option"
  pd_profile :: "AgentProfileId option"
  pd_prompt :: string

record DelegateTaskResult =
  dr_output :: "string option"
  dr_status :: string
  dr_taskId :: string

record DelegateConfig =
  dc_defaultProfileId :: AgentProfileId
  dc_defaultMaxIterations :: int
  dc_defaultTimeoutMs :: int
  dc_tokenBudget :: TokenBudget

text \<open>A run of the kernel beside the one in progress: the tables are shared, the loop's state and messages are the run's own.\<close>

definition besides :: "('m, 'a) kop \<Rightarrow> ('m, 'a) kop" where
  "besides m = (\<lambda>k. case m (k\<lparr>kn_messages := [], kn_events := []\<rparr>) of (r, k1) \<Rightarrow> (r, k\<lparr>kn_shared := kn_shared k1\<rparr>))"

definition delegateOptions :: "DelegateConfig \<Rightarrow> string \<Rightarrow> ToolExecutionContext \<Rightarrow> PreparedDelegateTaskInput \<Rightarrow> TaskRecord option \<Rightarrow> RunOptions" where
  "delegateOptions cfg childId ctx i parent = \<lparr>ro_taskId = childId, ro_taskInput = pd_prompt i, ro_cwd = tx_cwd ctx,
     ro_agentProfileId = (case pd_profile i of Some p \<Rightarrow> p | None \<Rightarrow> dc_defaultProfileId cfg),
     ro_userId = tx_userId ctx,
     ro_sessionId = (if pd_isolation i \<noteq> Some True then (case parent of Some t \<Rightarrow> tk_sessionId t | None \<Rightarrow> None) else None),
     ro_maxIterations = (case pd_maxIterations i of Some n \<Rightarrow> n | None \<Rightarrow> dc_defaultMaxIterations cfg),
     ro_tokenBudget = (dc_tokenBudget cfg)\<lparr>tb_usedCostUsd := Some 0, tb_usedInput := 0, tb_usedOutput := 0\<rparr>,
     ro_metadata = [(''delegateIsolation'', JBool (pd_isolation i = Some True)), (''delegatedFromTaskId'', JStr (tx_taskId ctx))],
     ro_interactionMode = Some Agent_mode, ro_onTaskEvent = False, ro_timeoutMode = None, ro_timeoutMs = dc_defaultTimeoutMs cfg\<rparr>"

definition delegateExecutor :: "'m KernelDeps \<Rightarrow> DelegateConfig \<Rightarrow> string \<Rightarrow> ToolExecutionContext \<Rightarrow> PreparedDelegateTaskInput \<Rightarrow>
    ('m, DelegateTaskResult) kop" where
  "delegateExecutor deps cfg childId ctx i =
     bnd (ask (\<lambda>k. taskFindById (tx_taskId ctx) (sh_tasks (kn_shared k)))) (\<lambda>parent.
     bnd (besides (run deps (delegateOptions cfg childId ctx i parent))) (\<lambda>r.
     ret \<lparr>dr_output = rr_output r, dr_status = taskStatusStr (tk_status (rr_task r)), dr_taskId = tk_taskId (rr_task r)\<rparr>))"

definition summarizeText :: "string \<Rightarrow> nat \<Rightarrow> string" where
  "summarizeText value maxLength =
     (let compacted = trim (collapseWs value) in if length compacted \<le> maxLength then compacted else take maxLength compacted @ ''...'')"

definition summarizeIsolatedDelegateOutput :: "string option \<Rightarrow> string option" where
  "summarizeIsolatedDelegateOutput out =
     (case out of None \<Rightarrow> None
      | Some s \<Rightarrow> if trim s = [] then Some s else Some (''[Delegated task summary]'' @ [CHR 0x0A] @ summarizeText s 1200))"

text \<open>The tool's \<open>execute\<close>; the executor is bound once the kernel exists.\<close>

definition executeDelegateTask :: "(PreparedDelegateTaskInput \<Rightarrow> ('m, DelegateTaskResult) kop) option \<Rightarrow> PreparedDelegateTaskInput \<Rightarrow>
    ToolExecutionContext \<Rightarrow> ('m, ToolExecutionResult) kop" where
  "executeDelegateTask executor i ctx =
     (case executor of
        None \<Rightarrow> ret (Failure Tool_unavailable ''delegate_task is not configured for this runtime.'' None)
      | Some exec \<Rightarrow>
          bnd (exec i) (\<lambda>r.
          let isolated = pd_isolation i = Some True
          in ret (Success \<lparr>ts_summary = ''Delegated task '' @ dr_taskId r @ '' finished with status '' @ dr_status r,
               ts_output = JObj [(''isolation'', JBool isolated),
                 (''output'', jopt (if isolated then summarizeIsolatedDelegateOutput (dr_output r) else dr_output r)),
                 (''parentTaskId'', JStr (tx_taskId ctx)), (''status'', JStr (dr_status r)), (''taskId'', JStr (dr_taskId r))],
               ts_runtimeOutput = None, ts_artifacts = None, ts_replayed = None, ts_details = None\<rparr>)))"

end
