(* ===== verification/WorkersProps.thy ===== *)
theory WorkersProps
  imports Workers TaskRunsProps
begin

section \<open>What the dispatcher and a delegated task guarantee\<close>

lemma quietly_run: "\<exists>w'. quietly m w = (Inr (), w')"
  by (cases "m w") (auto simp: quietly_def tryCatch_def ret_def split: sum.splits)

lemma quiet_bnd: "\<forall>w. \<exists>w'. m w = (Inr (), w') \<Longrightarrow> \<forall>w. \<exists>w'. n w = (Inr (), w') \<Longrightarrow> \<exists>w'. bnd m (\<lambda>_. n) w = (Inr (), w')"
  unfolding bnd_def by (metis (no_types, lifting) case_prod_conv sum.case(2))

lemma traced: "\<exists>w'. workerTrace deps actor q t p s m w = (Inr (), w')"
  unfolding workerTrace_def by (rule quietly_run)

lemma audited: "\<exists>w'. workerAudit deps actor q t o1 p m w = (Inr (), w')"
  unfolding workerAudit_def by (rule quietly_run)

lemma attempt_announced: "\<exists>w'. announceAttempt deps actor q a w = (Inr (), w')"
  unfolding announceAttempt_def Let_def by (rule quiet_bnd) (intro allI traced audited)+

lemma failure_announced: "\<exists>w'. announceFailure deps actor q a b c e w = (Inr (), w')"
  unfolding announceFailure_def Let_def by (rule quiet_bnd) (intro allI traced audited)+

text \<open>How an attempt ends when the race is decided by its number alone.\<close>

definition attemptEnd :: "'i WorkerRequest \<Rightarrow> (int \<Rightarrow> thrown + RaceOutcome) \<Rightarrow> int \<Rightarrow> AttemptEnd" where
  "attemptEnd q race a = (case race a of
      Inl e \<Rightarrow> Attempt_failed (thrownMessage (wq_workerKind q) e)
    | Inr (Handler_output v) \<Rightarrow> Attempt_ok v
    | Inr Timer_fired \<Rightarrow> Attempt_timeout (''Worker timed out after '' @ showInt (wq_timeoutMs q) @ ''ms''))"

lemma attempt_ends:
  assumes "\<And>a w. \<exists>w'. wd_race deps (wq_input q) a w = (race a, w')"
  shows "\<exists>w'. runWithTimeout deps q a w = (Inr (attemptEnd q race a), w')"
proof -
  obtain w' where "wd_race deps (wq_input q) a w = (race a, w')" using assms by blast
  then show ?thesis
    by (auto simp: runWithTimeout_def attemptEnd_def tryCatch_def bnd_def ret_def split: sum.split RaceOutcome.split)
qed

fun justFailed :: "AttemptEnd \<Rightarrow> bool" where
  "justFailed (Attempt_failed m) = True"
| "justFailed _ = False"

text \<open>The attempt that settles a request: the first that does not simply fail, or the last.\<close>

definition decisive :: "(int \<Rightarrow> AttemptEnd) \<Rightarrow> int \<Rightarrow> int \<Rightarrow> int" where
  "decisive out a n = (case List.find (\<lambda>i. \<not> justFailed (out i)) [a..n] of Some i \<Rightarrow> i | None \<Rightarrow> n)"

definition settledBy :: "('w, 'i) WorkerDeps \<Rightarrow> 'i WorkerRequest \<Rightarrow> (int \<Rightarrow> AttemptEnd) \<Rightarrow> int \<Rightarrow> WorkerResult" where
  "settledBy deps q out a = (case out a of
      Attempt_ok v \<Rightarrow> workerResult q W_succeeded (Some v) (wd_duration deps a) a None
    | Attempt_failed m \<Rightarrow> workerResult q W_failed None (wd_duration deps a) a (Some m)
    | Attempt_timeout m \<Rightarrow> workerResult q W_timeout None (wd_duration deps a) a (Some m))"

definition patient :: "('w, 'i) WorkerDeps \<Rightarrow> 'i WorkerRequest \<Rightarrow> bool" where
  "patient deps q \<longleftrightarrow> (\<forall>d w. \<exists>w'. wd_sleep deps d w = (Inr (), w')) \<and>
     (\<forall>a. 1 \<le> a \<longrightarrow> a < wq_maxAttempts q \<longrightarrow> (\<exists>d. planWorkerRetry (wd_now deps a) q a = Inr (Some d)))"

lemma dispatched_from:
  assumes race: "\<And>a w. \<exists>w'. wd_race deps (wq_input q) a w = (race a, w')" and wait: "patient deps q"
  shows "1 \<le> a \<Longrightarrow> int n = wq_maxAttempts q - a + 1 \<Longrightarrow> 0 < n \<Longrightarrow>
    \<exists>w'. dispatchFrom n deps actor q a w = (Inr (settledBy deps q (attemptEnd q race) (decisive (attemptEnd q race) a (wq_maxAttempts q))), w')"
proof (induction n arbitrary: a w)
  case (Suc n)
  obtain w1 where w1: "announceAttempt deps actor q a w = (Inr (), w1)" using attempt_announced by meson
  obtain w2 where w2: "runWithTimeout deps q a w1 = (Inr (attemptEnd q race a), w2)" using attempt_ends [OF race] by blast
  have le: "a \<le> wq_maxAttempts q" using Suc.prems by simp
  show ?case
  proof (cases "attemptEnd q race a")
    case (Attempt_ok v)
    moreover obtain w3 where "workerTrace deps actor q ''worker_succeeded'' [(''durationMs'', JNum (wd_duration deps a)), (''outputSummary'', JStr (summarizeOutput v))]
               ''completion'' (''Worker '' @ workerKindStr (wq_workerKind q) @ '' succeeded'') w2 = (Inr (), w3)" using traced by meson
    ultimately show ?thesis using w1 w2 le by (simp add: bnd_run Let_def decisive_def upto_rec1 settledBy_def)
  next
    case (Attempt_timeout m)
    moreover obtain w3 where "announceFailure deps actor q a True False m w2 = (Inr (), w3)" using failure_announced by meson
    ultimately show ?thesis using w1 w2 le by (simp add: bnd_run Let_def decisive_def upto_rec1 settledBy_def)
  next
    case (Attempt_failed m)
    show ?thesis
    proof (cases "a < wq_maxAttempts q")
      case False
      then have "a = wq_maxAttempts q" using le by simp
      moreover obtain w3 where "announceFailure deps actor q a False False m w2 = (Inr (), w3)" using failure_announced by meson
      ultimately show ?thesis using w1 w2 Attempt_failed by (simp add: bnd_run Let_def decisive_def settledBy_def)
    next
      case True
      obtain w3 where w3: "announceFailure deps actor q a False True m w2 = (Inr (), w3)" using failure_announced by meson
      obtain d where d: "planWorkerRetry (wd_now deps a) q a = Inr (Some d)" using wait True Suc.prems(1) unfolding patient_def by blast
      obtain w4 where w4: "workerTrace deps actor q ''worker_retried'' [(''attemptNumber'', JNum (a + 1)),
                       (''delayMs'', JNum d), (''maxAttempts'', JNum (wq_maxAttempts q))] ''control''
                       (''Worker '' @ workerKindStr (wq_workerKind q) @ '' retry scheduled'') w3 = (Inr (), w4)" using traced by meson
      obtain w5 where w5: "wd_sleep deps d w4 = (Inr (), w5)" using wait unfolding patient_def by blast
      have "decisive (attemptEnd q race) a (wq_maxAttempts q) = decisive (attemptEnd q race) (a + 1) (wq_maxAttempts q)"
        using True Attempt_failed by (simp add: decisive_def upto_rec1)
      moreover have "\<exists>w'. dispatchFrom n deps actor q (a + 1) w5 =
          (Inr (settledBy deps q (attemptEnd q race) (decisive (attemptEnd q race) (a + 1) (wq_maxAttempts q))), w')"
        using Suc.IH [of "a + 1" w5] Suc.prems True by simp
      ultimately show ?thesis using w1 w2 w3 d w4 w5 Attempt_failed True by (simp add: bnd_run Let_def liftRes_def ret_def)
    qed
  qed
qed simp

text \<open>Without leave of the budget no attempt is made: the same happens with any other handler, timer and pause between attempts.\<close>

lemma skipped_untouched:
  assumes "shouldSkipForBudget (wd_budget deps w) (wq_taskId q) (wq_sessionId q)"
  shows "dispatchWorker (deps\<lparr>wd_race := race', wd_sleep := sleep'\<rparr>) q actor w = dispatchWorker deps q actor w"
  using assms by (simp add: dispatchWorker_def skipWorker_def bnd_run ask_def workerTrace_def workerAudit_def)

text \<open>
  C35: a worker is tried until an attempt settles it: the first that returns or times out does, failed ones are tried again up
  to the last; the result carries this attempt's number, output or error, and the dispatcher returns it whatever tracing and
  auditing do. When a downgrade of the budget is active the result says that the worker was skipped, and neither the handler nor a
  timer is run: with any others in their place the result and everything else would be the same. It is assumed that how an
  attempt ends depends on its number only, that the pause between two attempts returns, that the time of the next attempt can be
  computed, and that at least one attempt is asked for.
\<close>

theorem worker_result_exact:
  assumes "\<And>a w. \<exists>w'. wd_race deps (wq_input q) a w = (race a, w')" and "patient deps q" and "1 \<le> wq_maxAttempts q"
  shows "(\<exists>w'. dispatchWorker deps q actor w =
      (Inr (if shouldSkipForBudget (wd_budget deps w) (wq_taskId q) (wq_sessionId q)
            then workerResult q W_skipped None 0 1 (Some SKIPPED_MESSAGE)
            else settledBy deps q (attemptEnd q race) (decisive (attemptEnd q race) 1 (wq_maxAttempts q))), w')) \<and>
    (if shouldSkipForBudget (wd_budget deps w) (wq_taskId q) (wq_sessionId q)
     then \<forall>race' sleep'. dispatchWorker (deps\<lparr>wd_race := race', wd_sleep := sleep'\<rparr>) q actor w = dispatchWorker deps q actor w
     else True)"
proof (cases "shouldSkipForBudget (wd_budget deps w) (wq_taskId q) (wq_sessionId q)")
  case True
  obtain w1 where "workerTrace deps (workerActor q actor) q ''worker_failed'' [(''durationMs'', JNum 0), (''errorMessage'', JStr SKIPPED_MESSAGE),
        (''retriable'', JBool False)] ''control'' SKIPPED_MESSAGE w = (Inr (), w1)" using traced by meson
  moreover obtain w2 where "workerAudit deps (workerActor q actor) q ''worker_failed'' ''denied'' [(''reason'', JStr ''budget_downgrade_active'')]
      SKIPPED_MESSAGE w1 = (Inr (), w2)" using audited by meson
  ultimately have "\<exists>w'. dispatchWorker deps q actor w = (Inr (workerResult q W_skipped None 0 1 (Some SKIPPED_MESSAGE)), w')"
    using True by (simp add: dispatchWorker_def skipWorker_def bnd_run ask_def)
  then show ?thesis using True skipped_untouched [OF True] by simp
next
  case False
  have "\<exists>w'. dispatchFrom (nat (wq_maxAttempts q)) deps (workerActor q actor) q 1 w =
      (Inr (settledBy deps q (attemptEnd q race) (decisive (attemptEnd q race) 1 (wq_maxAttempts q))), w')"
    by (rule dispatched_from [OF assms(1,2)]) (use assms(3) in simp_all)
  with False show ?thesis by (auto simp: dispatchWorker_def bnd_run ask_def)
qed

definition demoRace :: "int \<Rightarrow> thrown + RaceOutcome" where
  "demoRace a = (if a = 2 then Inr (Handler_output (JNum 7)) else Inl (PlainError ''busy''))"

definition demoWorkerDeps :: "(nat, unit) WorkerDeps" where
  "demoWorkerDeps = \<lparr>wd_trace = (\<lambda>_. raise NonError), wd_audit = (\<lambda>_. raise NonError), wd_budget = (\<lambda>_. None),
     wd_race = (\<lambda>_ a w. (demoRace a, Suc w)), wd_sleep = (\<lambda>_. ret ()), wd_duration = (\<lambda>a. 10 * a), wd_now = (\<lambda>_. 0)\<rparr>"

definition demoWorkerRequest :: "unit WorkerRequest" where
  "demoWorkerRequest = \<lparr>wq_workerId = ''w'', wq_workerKind = Retrieval, wq_taskId = ''t'', wq_sessionId = None, wq_input = (),
     wq_timeoutMs = 100, wq_maxAttempts = 3, wq_backoffBaseMs = 5, wq_backoffMaxMs = 8\<rparr>"

theorem worker_result_exact_witness:
  "\<exists>w'. dispatchWorker demoWorkerDeps demoWorkerRequest None 0 =
    (Inr (workerResult demoWorkerRequest W_succeeded (Some (JNum 7)) 20 2 None), w')"
proof -
  have d: "decisive (attemptEnd demoWorkerRequest demoRace) 1 (wq_maxAttempts demoWorkerRequest) = 2" by code_simp
  have r: "\<exists>w'. wd_race demoWorkerDeps (wq_input demoWorkerRequest) a w = (demoRace a, w')" for a w
    by (simp add: demoWorkerDeps_def)
  have "wq_maxAttempts demoWorkerRequest = 3" by (simp add: demoWorkerRequest_def)
  moreover have "planWorkerRetry (wd_now demoWorkerDeps a) demoWorkerRequest a =
      Inr (Some (if a = 1 then 5 else 8))" if "a \<in> {1, 2}" for a
    using that by (auto simp: planWorkerRetry_def demoWorkerDeps_def demoWorkerRequest_def dateIso_def validTime_def MAX_TIME_def Let_def)
  moreover have "a \<in> {1, 2}" if "1 \<le> a" "a < 3" for a :: int using that by auto
  moreover have "\<exists>w'. wd_sleep demoWorkerDeps d w = (Inr (), w')" for d w by (simp add: demoWorkerDeps_def ret_def)
  ultimately have p: "patient demoWorkerDeps demoWorkerRequest" unfolding patient_def by metis
  show ?thesis
    using worker_result_exact [OF r p, of None 0] d
    by (simp add: settledBy_def attemptEnd_def demoRace_def demoWorkerRequest_def demoWorkerDeps_def shouldSkipForBudget_def)
qed

end
