(* ===== verification/LoopWorld.thy ===== *)
theory LoopWorld
  imports LoopProps
begin

section \<open>What a run of the loop does to what it shares\<close>

text \<open>
  A relation between what the loop finds and what it leaves. The client of the interface is the whole loop: whatever
  relation its own writes (trace, checkpoints, rows of tasks), the services it calls and the end of a task stay within, the
  loop stays within, however it ends.
\<close>

locale loop_world = step_closed R for R :: "'m Kernel \<Rightarrow> 'm Kernel \<Rightarrow> bool" +
  fixes deps :: "'m LoopDeps"
  assumes own_state: "kn_shared k' = kn_shared k \<Longrightarrow> R k k'"
    and own_writes: "follows (kernelTrace e)" "follows (deleteCheckpoint i)" "follows (saveCheckpoint now i it prompt pending)"
      "follows (kernelTaskUpdate now i p)"
    and tools: "follows (onShared (bd_execute (ld_batch deps) rq cx))" "follows (onShared (bd_executeAll (ld_batch deps) rqs))"
    and exposure: "ld_planExposure deps = Some plan \<Longrightarrow> follows (onShared (plan mode it task))"
    and provider: "follows (onShared (ld_activeProvider deps task))" "follows (onShared (ld_generate deps pv req))"
      "follows (onShared (ld_sleep deps d))" "follows (onShared (ld_recordUsage deps u))"
    and transcripts: "follows (onShared (ld_emitOutput deps ty pl st i))"
    and compaction: "follows (onShared (ld_summarize deps si))" "follows (onShared (ld_consumeManual deps i))"
      "follows (onShared (ld_persistCompact deps task si why n))" "follows (onShared (ld_planRecall deps task b ts))"
    and flushing: "ld_flushMemory deps = Some flush \<Longrightarrow> follows (onShared (flush task it ms))"
    and completing: "follows (completeTaskSuccess deps task out)"
begin

lemma follows_own: "(\<And>k r k'. m k = (r, k') \<Longrightarrow> kn_shared k' = kn_shared k) \<Longrightarrow> follows m"
  by (rule followsI) (auto intro: own_state)

lemma follows_state [follows_intros]:
  "follows (setLoop f)" "follows (askLoop g)" "follows (pushMessage m)" "follows (emitTaskEvent v)"
  "follows throwIfAborted" "follows (setTurn h)" "follows (Pair (Inr x))"
  by (auto intro!: follows_own simp: kernel_run throwIfAborted_def setTurn_def setTurnMessages_def
      split: if_splits option.splits AbortReason.splits TurnArray.splits)

lemma follows_trace [follows_intros]: "follows (loopTrace a ty pl st sm task)"
  unfolding loopTrace_def by (rule own_writes)

lemma follows_change: "(\<And>k. kn_shared (f k) = kn_shared k) \<Longrightarrow> follows (modify f)"
  by (rule follows_own) auto

lemma follows_sum [follows_intros]:
  "(\<And>x. follows (f x)) \<Longrightarrow> (\<And>y. follows (g y)) \<Longrightarrow> follows (case v of Inl x \<Rightarrow> f x | Inr y \<Rightarrow> g y)"
  by (cases v) auto

lemma follows_prod [follows_intros]: "(\<And>x y. follows (f x y)) \<Longrightarrow> follows (case v of (x, y) \<Rightarrow> f x y)"
  by (cases v) auto

lemmas services = own_writes tools provider transcripts compaction completing

subsection \<open>The calls of tools\<close>

lemma follows_apply [follows_intros]: "follows (applyCompletedToolCallOutcome bd task it c oc)"
  unfolding applyCompletedToolCallOutcome_def applyResult_def applyUnfinishedOutcome_def answerCall_def noteVerification_def Let_def
  by (cases oc) (auto intro!: follows_intros services split: option.splits)

lemma follows_replay [follows_intros]: "follows (tryApplyDuplicateToolReplay bd task it c)"
  unfolding tryApplyDuplicateToolReplay_def startedEvent_def recordDuplicateToolReplayTrace_def
  by (intro follows_intros services)

lemma follows_pause [follows_intros]: "follows (tryPauseToolExecution bd pending i task it c oc)"
  unfolding tryPauseToolExecution_def pauseTask_def by (cases oc) (auto intro!: follows_intros services)

lemma follows_callTool [follows_intros]: "follows (callTool (ld_batch deps) g task it c)"
  unfolding callTool_def startedEvent_def recordDuplicateToolReplayTrace_def by (intro follows_intros services)

lemma follows_preflight [follows_intros]: "follows (preflightLoop (ld_batch deps) pending pos task it calls cleared outs)"
proof (induction calls arbitrary: pos cleared outs)
  case (Cons c calls)
  have "follows (case oc of Completed r t \<Rightarrow> bnd (applyCompletedToolCallOutcome (ld_batch deps) task it c oc)
      (\<lambda>_. preflightLoop (ld_batch deps) pending (pos + 1) task it calls cleared (outs @ [(c, oc)]))
    | Cleared t \<Rightarrow> preflightLoop (ld_batch deps) pending (pos + 1) task it calls (cleared @ [c]) outs
    | _ \<Rightarrow> preflightLoop (ld_batch deps) pending (pos + 1) task it calls cleared outs)" for oc
    by (cases oc) (auto intro!: follows_intros Cons)
  then show ?case
    unfolding preflightLoop.simps preflightToolCall_def by (intro follows_intros) auto
qed (auto intro: follows_intros)

lemma follows_settle [follows_intros]: "follows (settleLoop bd pending start cleared task it earlier n invs)"
  by (induction bd pending start cleared task it earlier n invs rule: settleLoop.induct) (auto intro!: follows_intros)

lemma follows_started [follows_intros]: "follows (startCleared bd task it calls)"
  by (induction bd task it calls rule: startCleared.induct) (auto intro!: follows_intros simp: startedEvent_def)

lemma follows_batch [follows_intros]: "follows (executeParallelToolBatch (ld_batch deps) pending cs start task it)"
  unfolding executeParallelToolBatch_def runCleared_def by (intro follows_intros services)

lemma follows_single [follows_intros]: "follows (runSingleCall deps task it pending i)"
  unfolding runSingleCall_def Let_def invokeToolCall_def by (intro follows_intros)

lemma follows_toolsAt: "d = deps \<Longrightarrow> follows (runToolCalls d task it pending i n)"
proof (induction d task it pending i n rule: runToolCalls.induct)
  case (1 d task it pending i n)
  let ?b = "batchAt (ld_parallelSafe deps) pending i"
  let ?one = "bnd throwIfAborted (\<lambda>_. bnd (runSingleCall deps task it pending i) (\<lambda>paused.
      case paused of Some t \<Rightarrow> ret (Tools_paused t) | None \<Rightarrow> runToolCalls deps task it pending (Suc i) (Suc n)))"
  let ?many = "bnd throwIfAborted (\<lambda>_. bnd (executeParallelToolBatch (ld_batch deps) pending ?b i task it) (\<lambda>r.
      case r of Batch_paused t \<Rightarrow> ret (Tools_paused t) | Batch_done m \<Rightarrow> runToolCalls deps task it pending (i + length ?b) (n + m)))"
  consider "i \<ge> length pending" | "i < length pending" "\<not> ld_parallelSafe deps (pc_toolName (pending ! i))"
    | "i < length pending" "ld_parallelSafe deps (pc_toolName (pending ! i))" by linarith
  then show ?case
  proof cases
    case 1
    with "1.prems" show ?thesis by (subst runToolCalls.simps) (simp add: follows_intros)
  next
    case 2
    have "follows (runToolCalls deps task it pending (Suc i) (Suc n))" using "1.IH"(1) "1.prems" 2 by simp
    then have "follows ?one" by (intro follows_intros)
    with 2 "1.prems" show ?thesis by (subst runToolCalls.simps) simp
  next
    case 3
    have "follows (runToolCalls deps task it pending (i + length ?b) (n + m))" for m using "1.IH"(2) "1.prems" 3 by simp
    then have "follows (case r of Batch_paused t \<Rightarrow> ret (Tools_paused t) | Batch_done m \<Rightarrow>
        runToolCalls deps task it pending (i + length ?b) (n + m))" for r by (cases r) (auto intro!: follows_intros)
    then have "follows ?many" by (intro follows_intros)
    with 3 "1.prems" show ?thesis by (subst runToolCalls.simps) simp
  qed
qed

lemmas follows_tools [follows_intros] = follows_toolsAt [OF refl]

subsection \<open>The rest of an iteration\<close>

lemma follows_observe [follows_intros]: "follows (observeProviderToolTurn cd task it r mode)"
  unfolding observeProviderToolTurn_def by (intro follows_intros services)

lemma follows_close [follows_intros]: "follows (closeToolTurn deps it n lv)"
  unfolding closeToolTurn_def by (intro follows_intros services)

lemma follows_compactMessages [follows_intros]: "follows (compactMessages deps task input manual)"
  unfolding compactMessages_def summarizeForCompact_def traceTailBudget_def Let_def by (intro follows_intros services)

lemma follows_flush [follows_intros]: "follows (flushBeforeCompact deps task it)"
  unfolding flushBeforeCompact_def by (cases "ld_flushMemory deps") (auto intro!: follows_intros services flushing)

lemma follows_rebuild [follows_intros]: "follows (rebuildAfterCompact deps task ts th replacement)"
  unfolding rebuildAfterCompact_def by (intro follows_intros services follows_change) simp_all

lemma follows_compact [follows_intros]: "follows (compactPhase deps it lv)"
  unfolding compactPhase_def Let_def by (intro follows_intros services)

lemma follows_begin [follows_intros]: "follows (beginIteration deps it lv)"
  unfolding beginIteration_def maybeInjectIterationBudgetPressure_def Let_def
  by (intro follows_intros services follows_change) (simp add: pushPressure_def setTurnMessages_def Let_def split: TurnArray.split)

lemma follows_toolPhase [follows_intros]: "follows (toolPhase deps it lv)"
proof -
  have "follows (case oc of Tools_done n \<Rightarrow> bnd (closeToolTurn deps it n lv) (\<lambda>lv1. bnd (compactPhase deps it lv1) (\<lambda>_. ret (Iterate lv1)))
      | Tools_paused t \<Rightarrow> ret (Finished_with \<lparr>rr_output = None, rr_task = t\<rparr>))" for oc
    by (cases oc) (auto intro!: follows_intros)
  then show ?thesis unfolding toolPhase_def by (intro follows_intros)
qed

subsection \<open>The turn of the model\<close>

lemma follows_prepare [follows_intros]: "follows (prepareTurn deps ts it task)"
  unfolding prepareTurn_def pruneTurn_def syncTurnTodos_def Let_def by (intro follows_intros services)

lemma follows_plan [follows_intros]: "follows (planTools deps it task)"
  unfolding planTools_def by (cases "ld_planExposure deps") (auto intro!: follows_intros exposure)

lemma follows_announce [follows_intros]: "follows (announceContext deps req)" "follows (announceRequest deps p req)"
  unfolding announceContext_def announceRequest_def by (intro follows_intros services)+

lemma follows_record [follows_intros]: "follows (recordResponse deps p req r)"
  unfolding recordResponse_def recordBudget_def Let_def by (intro follows_intros services)

lemma follows_evaluate [follows_intros]: "follows (evaluateFinalVerification cd task it out allow)"
  unfolding evaluateFinalVerification_def recordVerificationMissing_def by (intro follows_intros services)

lemma drop_shared: "kn_shared (snd (dropForOverflow k)) = kn_shared k"
  by (simp add: dropForOverflow_def Let_def setTurnMessages_def split: prod.split TurnArray.split)

lemma follows_attempt [follows_intros]: "follows (attemptProvider deps p n overflowed req)"
proof (induction n arbitrary: overflowed req)
  case 0
  show ?case by (simp add: follows_intros)
next
  case (Suc n)
  have again: "follows (bnd (loopTrace a ty pl st sm task) (\<lambda>_. attemptProvider deps p n True req'))" for a ty pl st sm task req'
    by (intro follows_intros Suc)
  have other: "follows (bnd (traceRequestFailure p pe req) (\<lambda>_. bnd (ask (\<lambda>k. sh_abort (kn_shared k))) (\<lambda>abort.
      bnd (askLoop ls_taskRecoveryUsed) (\<lambda>used. if \<not> used \<and> abort = None \<and> pe_category pe = ''timeout_error''
        then bnd (startRecovery deps req []) (\<lambda>_. attemptProvider deps p n overflowed req)
        else bnd throwIfAborted (\<lambda>_. raise (ProviderError pe))))))" for pe
    unfolding traceRequestFailure_def startRecovery_def Let_def by (intro follows_intros services Suc)
  show ?case
  proof (rule followsI)
    fix k r k'
    assume run: "attemptProvider deps p (Suc n) overflowed req k = (r, k')"
    obtain r1 k1 where g: "onShared (ld_generate deps p req) k = (r1, k1)" by (cases "onShared (ld_generate deps p req) k")
    have 1: "R k k1" by (rule followsD [OF provider(2) g])
    have d: "R k1 (snd (dropForOverflow k1))" by (rule own_state) (rule drop_shared)
    show "R k k'"
    proof (cases r1)
      case (Inr x)
      with run g 1 show ?thesis by simp
    next
      case (Inl e)
      have "R k1 k'"
        using run g Inl followsD [OF again, of _ _ _ _ _ _ _ "snd (dropForOverflow k1)" r k'] followsD [OF other, of _ k1 r k']
          followsD [OF other, of _ "snd (dropForOverflow k1)" r k'] d
        by (auto simp: Let_def split: if_splits intro: R_trans)
      with 1 show ?thesis by (rule R_trans)
    qed
  qed
qed

lemma follows_attempts [follows_intros]: "follows (summaryAttempts deps p why it task n att rej)"
proof (induction n arbitrary: att rej)
  case 0
  show ?case by (simp add: follows_intros)
next
  case (Suc n)
  show ?case
    unfolding summaryAttempts.simps Let_def
    by (intro follows_intros services Suc) (auto intro!: follows_intros services Suc split: option.split ResponseKind.split)
qed

lemma follows_summary [follows_intros]: "follows (requestFinalSummaryWithoutTools deps task it why)"
  unfolding requestFinalSummaryWithoutTools_def Let_def
  by (intro follows_intros services follows_change) simp_all

lemma follows_handlers [follows_intros]:
  "follows (handleRetry deps it d why lv)" "follows (handleFinal deps p it r lv)" "follows (handleToolCalls deps it r lv)"
  unfolding handleRetry_def handleFinal_def handleToolCalls_def Let_def by (intro follows_intros services)+

lemma follows_turn [follows_intros]: "follows (modelTurn deps it lv)"
proof -
  have "follows (case kr_kind r of Retry_response delayMs reason \<Rightarrow> handleRetry deps it delayMs reason lv1
      | Final_response \<Rightarrow> handleFinal deps p it r lv1 | Tool_calls_response cs \<Rightarrow> handleToolCalls deps it r lv1)" for r p lv1
    by (cases "kr_kind r") (auto intro!: follows_intros)
  then show ?thesis unfolding modelTurn_def Let_def by (intro follows_intros services)
qed

subsection \<open>The loop\<close>

lemma follows_iteration [follows_intros]: "follows (loopIteration deps it lv)"
proof -
  have "follows (case turn of Turn_return r \<Rightarrow> ret (Finished_with r) | Turn_again lv2 \<Rightarrow> ret (Iterate lv2)
      | Turn_tools lv2 \<Rightarrow> toolPhase deps it lv2)" for turn
    by (cases turn) (auto intro!: follows_intros)
  then show ?thesis unfolding loopIteration_def by (intro follows_intros)
qed

lemma follows_from [follows_intros]: "follows (loopFrom deps n it lv)"
proof (induction n arbitrary: it lv)
  case (Suc n)
  have "follows (case oc of Finished_with r \<Rightarrow> ret (Inr r) | Iterate lv1 \<Rightarrow> loopFrom deps n (it + 1) lv1)" for oc
    by (cases oc) (auto intro!: follows_intros Suc)
  then show ?case unfolding loopFrom.simps by (intro follows_intros)
qed (auto intro: follows_intros)

lemma follows_loop: "follows (executeLoop deps)"
  unfolding executeLoop_def afterLoop_def by (intro follows_intros services follows_change) simp_all

end

end
