(* ===== verification/SessionTaskProps.thy ===== *)
theory SessionTaskProps
  imports LoopWorld TaskRunsProps
begin

section \<open>What the table of session tasks lists\<close>

text \<open>
  A row of \<open>session_tasks\<close> is written when a task ends and at no other time. So the table lists finished tasks only,
  whatever is run, resumed or failed, and the step of a new run that is to cancel a task of the session still running finds none.
\<close>

definition finished :: "string \<Rightarrow> 'm Shared \<Rightarrow> bool" where
  "finished i s \<longleftrightarrow> (case taskFindById i (sh_tasks s) of None \<Rightarrow> False | Some t \<Rightarrow> taskTerminal (tk_status t))"

definition listsFinished :: "'m Shared \<Rightarrow> bool" where
  "listsFinished s \<longleftrightarrow> list_all (\<lambda>r. finished (st_taskId r) s) (sh_sessionTasks s)"

definition tidyStep :: "'m Shared \<Rightarrow> 'm Shared \<Rightarrow> bool" where
  "tidyStep s s' \<longleftrightarrow> (\<forall>i. finished i s \<longrightarrow> finished i s') \<and> (listsFinished s \<longrightarrow> listsFinished s')"

lemma tidy_refl: "tidyStep s s"
  by (simp add: tidyStep_def)

lemma tidy_trans: "tidyStep a b \<Longrightarrow> tidyStep b c \<Longrightarrow> tidyStep a c"
  unfolding tidyStep_def by blast

lemma finished_same: "sh_tasks s' = sh_tasks s \<Longrightarrow> finished i s' = finished i s"
  by (simp add: finished_def)

lemma tidy_same: "sh_tasks s' = sh_tasks s \<Longrightarrow> sh_sessionTasks s' = sh_sessionTasks s \<Longrightarrow> tidyStep s s'"
  by (simp add: tidyStep_def listsFinished_def finished_def)

text \<open>A write to the table of tasks that leaves finished tasks finished.\<close>

lemma tidy_tasks: "(\<And>i. finished i s \<Longrightarrow> finished i s') \<Longrightarrow> sh_sessionTasks s' = sh_sessionTasks s \<Longrightarrow> tidyStep s s'"
  by (auto simp: tidyStep_def listsFinished_def list_all_iff)

lemma tidy_update:
  assumes "kernelTaskUpdate now i p k = (r, k')"
  shows "tidyStep (kn_shared k) (kn_shared k')"
proof (rule tidy_tasks)
  show "sh_sessionTasks (kn_shared k') = sh_sessionTasks (kn_shared k)"
    using assms by (auto simp: kernelTaskUpdate_def onShared_run zoom_run split: prod.splits)
  show "finished j (kn_shared k')" if "finished j (kn_shared k)" for j
    using assms that
    by (auto simp: kernelTaskUpdate_def onShared_run zoom_run taskUpdate_def Let_def finished_def canTransitionTaskStatus_def taskTerminal_def
        split: prod.splits option.splits if_splits)
qed

lemma finished_update:
  assumes "kernelTaskUpdate now i p k = (Inr t, k')" and "tp_status p = Some st" and "taskTerminal st"
  shows "finished i (kn_shared k')"
proof -
  from task_updated [OF assms(1)] obtain r where t: "t = taskPatch now p r" "tk_taskId t = i" "stored t k'" by blast
  then have "tk_status t = st" using assms(2) by (simp add: patched_def)
  with t assms(3) show ?thesis by (simp add: finished_def stored_def)
qed

lemma tidy_create:
  assumes "taskCreate now d (sh_tasks s) = (r, t')"
  shows "tidyStep s (s\<lparr>sh_tasks := t'\<rparr>)"
proof (rule tidy_tasks)
  show "finished i (s\<lparr>sh_tasks := t'\<rparr>)" if fin: "finished i s" for i
  proof -
    obtain t where t: "rowFind tk_taskId i (sh_tasks s) = Some t" "taskTerminal (tk_status t)"
      using fin by (auto simp: finished_def taskFindById_def split: option.splits)
    have "t' = sh_tasks s \<or> t' = sh_tasks s @ [taskOfDraft now d]"
      using assms by (auto simp: taskCreate_def rowInsert_def split: if_splits option.splits)
    then have "rowFind tk_taskId i t' = Some t" using t(1) by (auto simp: rowFind_append)
    then show ?thesis using t(2) by (simp add: finished_def taskFindById_def)
  qed
qed simp

subsection \<open>The rows of a session\<close>

lemma created_rows:
  assumes "sessionTaskCreate now d t = (r, t')" and "x \<in> set t'"
  shows "x \<in> set t \<or> st_taskId x = sk_taskId d"
proof -
  have "t' = t \<or> (\<exists>n. t' = t @ [sessionTaskOfDraft now n d])"
    using assms(1) unfolding sessionTaskCreate_def Let_def rowInsert_def by (auto split: if_splits option.splits)
  then show ?thesis using assms(2) by (auto simp: sessionTaskOfDraft_def)
qed

lemma tidy_persist:
  assumes "finished (tk_taskId task) (kn_shared k)" and "persistSessionTask deps task sm k = (r, k')"
  shows "tidyStep (kn_shared k) (kn_shared k')"
proof (cases "\<exists>s. tk_sessionId task = Some s \<and> sessionTaskFindByTaskId (tk_taskId task) (sh_sessionTasks (kn_shared k)) = None")
  case False
  then have "k' = k" using assms(2) by (auto simp: persistSessionTask_def bnd_run split: option.splits)
  then show ?thesis by (simp add: tidy_refl)
next
  case True
  then obtain s where s: "tk_sessionId task = Some s" "sessionTaskFindByTaskId (tk_taskId task) (sh_sessionTasks (kn_shared k)) = None" by blast
  let ?d = "sessionTaskDraftOf (ld_runId deps) task s sm"
  obtain r1 t' where c: "sessionTaskCreate (ld_now deps) ?d (sh_sessionTasks (kn_shared k)) = (r1, t')"
    by (cases "sessionTaskCreate (ld_now deps) ?d (sh_sessionTasks (kn_shared k))")
  have k': "kn_shared k' = (kn_shared k)\<lparr>sh_sessionTasks := t'\<rparr>"
    using assms(2) s c by (auto simp: persistSessionTask_def bnd_run kernel_run zoom_run split: sum.splits)
  have "\<forall>x\<in>set t'. x \<in> set (sh_sessionTasks (kn_shared k)) \<or> st_taskId x = tk_taskId task"
    using created_rows [OF c] by (auto simp: sessionTaskDraftOf_def)
  moreover have "finished i ((kn_shared k)\<lparr>sh_sessionTasks := t'\<rparr>) = finished i (kn_shared k)" for i by (simp add: finished_def)
  ultimately show ?thesis using assms(1) unfolding k' tidyStep_def listsFinished_def list_all_iff by auto
qed

subsection \<open>The services the kernel calls\<close>

text \<open>None of them reopens a finished task or writes a row of a session for an unfinished one.\<close>

definition tidyService :: "('m Shared, 'a) op \<Rightarrow> bool" where
  "tidyService m \<longleftrightarrow> (\<forall>s. tidyStep s (snd (m s)))"

definition tidyLoop :: "'m LoopDeps \<Rightarrow> bool" where
  "tidyLoop deps \<longleftrightarrow>
     (\<forall>rq cx. tidyService (bd_execute (ld_batch deps) rq cx)) \<and> (\<forall>rqs. tidyService (bd_executeAll (ld_batch deps) rqs)) \<and>
     (\<forall>plan m it task. ld_planExposure deps = Some plan \<longrightarrow> tidyService (plan m it task)) \<and>
     (\<forall>ty p st i. tidyService (ld_emitOutput deps ty p st i)) \<and> (\<forall>task. tidyService (ld_activeProvider deps task)) \<and>
     (\<forall>p req. tidyService (ld_generate deps p req)) \<and>
     (\<forall>d. tidyService (ld_sleep deps d)) \<and> (\<forall>i. tidyService (ld_recordUsage deps i)) \<and>
     (\<forall>i. tidyService (ld_summarize deps i)) \<and> (\<forall>i. tidyService (ld_consumeManual deps i)) \<and>
     (\<forall>flush task it ms. ld_flushMemory deps = Some flush \<longrightarrow> tidyService (flush task it ms)) \<and>
     (\<forall>task i why n. tidyService (ld_persistCompact deps task i why n)) \<and>
     (\<forall>task b ts. tidyService (ld_planRecall deps task b ts)) \<and>
     (\<forall>task out. tidyService (ld_recordOutcome deps task out)) \<and> (\<forall>task out ms. tidyService (ld_recordSession deps task out ms))"

lemma tidyLoopD:
  assumes "tidyLoop deps"
  shows "tidyService (bd_execute (ld_batch deps) rq cx)" "tidyService (bd_executeAll (ld_batch deps) rqs)"
    "ld_planExposure deps = Some plan \<Longrightarrow> tidyService (plan m it task)" "tidyService (ld_emitOutput deps ty p st i)"
    "tidyService (ld_activeProvider deps task)" "tidyService (ld_generate deps pv req)" "tidyService (ld_sleep deps d)"
    "tidyService (ld_recordUsage deps u)" "tidyService (ld_summarize deps si)" "tidyService (ld_consumeManual deps i)"
    "ld_flushMemory deps = Some flush \<Longrightarrow> tidyService (flush task it ms)" "tidyService (ld_persistCompact deps task si why n)"
    "tidyService (ld_planRecall deps task b ts)" "tidyService (ld_recordOutcome deps task out)"
    "tidyService (ld_recordSession deps task out ms)"
  using assms unfolding tidyLoop_def by auto

definition tidyKernel :: "'m KernelDeps \<Rightarrow> bool" where
  "tidyKernel deps \<longleftrightarrow> tidyLoop (kd_loop deps) \<and> (\<forall>task c m. tidyService (ld_recordFailure (kd_loop deps) task c m)) \<and>
     (\<forall>task. tidyService (kd_announce deps task)) \<and> (\<forall>task m. tidyService (kd_createRunMetadata deps task m)) \<and>
     (\<forall>o1 task. tidyService (kd_prepare deps o1 task))"

text \<open>The relation, for a kernel whose services are of this kind.\<close>

definition tidies :: "bool \<Rightarrow> 'm Kernel \<Rightarrow> 'm Kernel \<Rightarrow> bool" where
  "tidies c k k' \<longleftrightarrow> (c \<longrightarrow> tidyStep (kn_shared k) (kn_shared k'))"

interpretation tidy: step_closed "tidies c" for c :: bool
  by unfold_locales (auto simp: tidies_def tidy_refl intro: tidy_trans)

abbreviation tidily :: "bool \<Rightarrow> ('m, 'a) kop \<Rightarrow> bool" where
  "tidily c \<equiv> step_closed.follows (tidies c)"

lemma tidily_I: "(\<And>k r k'. c \<Longrightarrow> m k = (r, k') \<Longrightarrow> tidyStep (kn_shared k) (kn_shared k')) \<Longrightarrow> tidily c m"
  by (rule tidy.followsI) (simp add: tidies_def)

lemma tidily_service: "(c \<Longrightarrow> tidyService m) \<Longrightarrow> tidily c (onShared m)"
  by (rule tidily_I) (auto simp: onShared_run tidyService_def split: prod.splits, metis snd_conv)

lemma tidily_writes:
  "tidily c (kernelTrace e)" "tidily c (deleteCheckpoint i)" "tidily c (saveCheckpoint now i it prompt pending)"
  "tidily c (emitTaskEvent v)" "tidily c (loopTrace a ty pl st sm task)"
  by (auto intro!: tidily_I tidy_same simp: kernel_run deleteCheckpoint_def saveCheckpoint_def loopTrace_def)

lemma tidily_update: "tidily c (kernelTaskUpdate now i p)"
  by (rule tidily_I) (rule tidy_update)

lemma tidily_emitIf: "tidily c (emitIf callback v)"
  by (rule tidily_I) (auto simp: emitIf_def intro!: tidy_same split: if_splits)

text \<open>After the end of the task \<open>i\<close>.\<close>

definition tidilyOnce :: "bool \<Rightarrow> string \<Rightarrow> ('m, 'a) kop \<Rightarrow> bool" where
  "tidilyOnce c i m \<longleftrightarrow> (\<forall>k. c \<longrightarrow> finished i (kn_shared k) \<longrightarrow> tidyStep (kn_shared k) (kn_shared (snd (m k))))"

lemma once_bnd:
  fixes m :: "('m, 'a) kop"
  assumes "tidily c m" and "\<And>x. tidilyOnce c i (f x)"
  shows "tidilyOnce c i (bnd m f)"
  unfolding tidilyOnce_def
proof (intro allI impI)
  fix k :: "'m Kernel" assume c: c and fin: "finished i (kn_shared k)"
  obtain r1 k1 where 1: "m k = (r1, k1)" by (cases "m k")
  have s1: "tidyStep (kn_shared k) (kn_shared k1)" using tidy.followsD [OF assms(1) 1] c by (simp add: tidies_def)
  then have "finished i (kn_shared k1)" using fin by (simp add: tidyStep_def)
  then have "tidyStep (kn_shared k1) (kn_shared (snd (f x k1)))" for x using assms(2) c by (simp add: tidilyOnce_def)
  with s1 1 show "tidyStep (kn_shared k) (kn_shared (snd (bnd m f k)))"
    by (cases r1) (auto simp: bnd_run intro: tidy_trans)
qed

lemma once_tidily: "tidily c m \<Longrightarrow> tidilyOnce c i m"
  unfolding tidilyOnce_def by (metis prod.collapse tidies_def tidy.followsD)

lemma once_persist: "tk_taskId task = i \<Longrightarrow> tidilyOnce c i (persistSessionTask deps task sm)"
  unfolding tidilyOnce_def by (metis prod.collapse tidy_persist)

lemma once_then:
  fixes m :: "('m, 'a) kop"
  assumes "tidilyOnce c i m" and "\<And>x. tidily c (f x)"
  shows "tidilyOnce c i (bnd m f)"
  unfolding tidilyOnce_def
proof (intro allI impI)
  fix k :: "'m Kernel" assume c: c and fin: "finished i (kn_shared k)"
  obtain r1 k1 where 1: "m k = (r1, k1)" by (cases "m k")
  have s1: "tidyStep (kn_shared k) (kn_shared k1)" using assms(1) 1 c fin unfolding tidilyOnce_def by (metis snd_conv)
  have "tidyStep (kn_shared k1) (kn_shared (snd (f x k1)))" for x
    using tidy.followsD [OF assms(2), of x k1] c by (metis prod.collapse tidies_def)
  with s1 1 show "tidyStep (kn_shared k) (kn_shared (snd (bnd m f k)))"
    by (cases r1) (auto simp: bnd_run intro: tidy_trans)
qed

text \<open>A task is brought to its end, and everything after it may count on that.\<close>

lemma ended:
  assumes "tp_status p = Some st" and "taskTerminal st" and "\<And>t. tk_taskId t = i \<Longrightarrow> tidilyOnce c i (f t)"
  shows "tidily c (bnd (kernelTaskUpdate now i p) f)"
proof (rule tidily_I)
  fix k r k' assume c: c and run: "bnd (kernelTaskUpdate now i p) f k = (r, k')"
  obtain r1 k1 where 1: "kernelTaskUpdate now i p k = (r1, k1)" by (cases "kernelTaskUpdate now i p k")
  have s1: "tidyStep (kn_shared k) (kn_shared k1)" by (rule tidy_update [OF 1])
  show "tidyStep (kn_shared k) (kn_shared k')"
  proof (cases r1)
    case (Inl e)
    with run 1 s1 show ?thesis by simp
  next
    case (Inr t)
    have "finished i (kn_shared k1)" by (rule finished_update [OF 1 [unfolded Inr] assms(1,2)])
    moreover have "tk_taskId t = i" using 1 Inr by (auto dest: updated_id)
    ultimately have "tidyStep (kn_shared k1) (kn_shared (snd (f t k1)))" using assms(3) c by (simp add: tidilyOnce_def)
    then show ?thesis using run 1 Inr s1 by (auto intro: tidy_trans)
  qed
qed

lemmas tidily_control = tidy.follows_bnd tidy.follows_pure tidy.follows_if tidy.follows_option tidy.follows_forEach tidy.follows_tryCatch

lemma tidily_complete: "tidily (tidyLoop deps) (completeTaskSuccess deps task out)"
proof -
  have p: "tp_status (successPatch now out) = Some T_succeeded" "taskTerminal T_succeeded" for now
    by (simp_all add: successPatch_def noTaskPatch_def taskTerminal_def)
  show ?thesis
    unfolding completeTaskSuccess_def
    by (rule tidy.follows_bnd, rule tidily_writes, rule ended [OF p])
      ((rule once_bnd, (rule tidily_writes | (rule tidily_service, erule tidyLoopD)))+, rule once_then, erule once_persist,
       intro tidily_control tidily_service, erule tidyLoopD)
qed

interpretation tidy_loop: loop_world "tidies (tidyLoop deps)" deps for deps :: "'m LoopDeps"
proof unfold_locales
  fix k k' :: "'m Kernel"
  assume "kn_shared k' = kn_shared k"
  then show "tidies (tidyLoop deps) k k'" by (simp add: tidies_def tidy_refl)
qed (rule tidily_writes tidily_update tidily_complete | (rule tidily_service, erule tidyLoopD, assumption?))+

subsection \<open>The entry points\<close>

lemma tidily_failure:
  assumes "tidyKernel deps"
  shows "tidily True (finalizeTaskFailure (kd_loop deps) callback task err)"
proof -
  obtain code msg details where e: "err = (code, msg, details)" by (cases err)
  have fail: "tidyService (ld_recordFailure (kd_loop deps) task c m)" for c m using assms by (simp add: tidyKernel_def)
  have p: "tp_status (failurePatch now code msg (if code = Interrupt then T_cancelled else T_failed)) =
      Some (if code = Interrupt then T_cancelled else T_failed)" "taskTerminal (if code = Interrupt then T_cancelled else T_failed)" for now
    by (simp_all add: failurePatch_def noTaskPatch_def taskTerminal_def)
  show ?thesis
    unfolding finalizeTaskFailure_def e prod.case Let_def
    by (rule tidy.follows_bnd, intro tidily_control tidily_writes, rule tidy.follows_bnd, rule tidily_writes, rule ended [OF p])
      ((rule once_bnd, (rule tidily_writes | rule tidily_emitIf))+, rule once_then, rule once_persist, rule refl,
       intro tidily_control tidily_service fail)
qed

lemma tidily_loop:
  assumes "tidyKernel deps"
  shows "tidily True (executeLoop (kd_loop deps))"
proof -
  have "tidyLoop (kd_loop deps)" using assms by (simp add: tidyKernel_def)
  with tidy_loop.follows_loop [of "kd_loop deps"] show ?thesis by simp
qed

lemma tidily_failing:
  assumes "tidyKernel deps" and "tidily True body"
  shows "tidily True (failingWith (kd_loop deps) callback task body)"
  unfolding failingWith_def by (intro tidily_control assms(2) tidily_failure [OF assms(1)])

lemma tidily_supersede: "tidily True (supersedeStaleSessionTasks deps s a)"
  unfolding supersedeStaleSessionTasks_def supersedeOne_def by (intro tidily_control tidily_writes tidily_update)

lemma tidily_change: "(\<And>k. sh_tasks (kn_shared (f k)) = sh_tasks (kn_shared k) \<and> sh_sessionTasks (kn_shared (f k)) = sh_sessionTasks (kn_shared k)) \<Longrightarrow>
    tidily True (modify f)"
  by (rule tidily_I) (auto intro!: tidy_same)

lemma tidily_controller: "tidily True newAbortController"
  by (rule tidily_I) (auto simp: newAbortController_def kernel_run intro!: tidy_same)

lemma tidily_run:
  assumes "tidyKernel deps"
  shows "tidily True (run deps o1)"
proof -
  have create: "tidily True (onShared (zoom sh_tasks (\<lambda>t s. s\<lparr>sh_tasks := t\<rparr>) (taskCreate now d)))" for now d
    by (rule tidily_I) (auto simp: onShared_run zoom_run split: prod.splits dest: tidy_create)
  have body: "tidily True (runBody deps o1 task)" for task
    unfolding runBody_def setLoop_def
    by (intro tidily_control tidily_writes tidily_emitIf tidily_change tidily_loop [OF assms] tidily_service)
      (use assms in \<open>auto simp: tidyKernel_def\<close>)
  have first: "tidily True (createRun deps o1)"
    unfolding createRun_def
    by (intro tidily_control tidily_writes create tidily_supersede tidily_controller tidily_service)
      (use assms in \<open>auto simp: tidyKernel_def\<close>)
  show ?thesis
    unfolding run_def beginRun_def by (intro tidily_control first tidily_failing [OF assms] tidily_update body)
qed

lemma tidily_resume:
  assumes "tidyKernel deps"
  shows "tidily True (resumeTask deps i)" "tidily True (resumeTaskAfterApprovalFailure deps i c)"
proof -
  have find: "tidily True (findTask i)" unfolding findTask_def by (intro tidily_control)
  have from_pause: "tidily True (resumeFrom deps i rc pending)" for rc pending
    unfolding resumeFrom_def
    by (intro tidily_control tidily_update tidily_controller tidily_failing [OF assms] tidily_loop [OF assms] tidily_change) auto
  show "tidily True (resumeTask deps i)" unfolding resumeTask_def by (intro tidily_control find from_pause)
  show "tidily True (resumeTaskAfterApprovalFailure deps i c)"
    unfolding resumeTaskAfterApprovalFailure_def by (intro tidily_control find from_pause)
qed

lemma tidily_fail_waiting: "tidily True (failWaitingTask st why deps i code msg)"
  unfolding failWaitingTask_def findTask_def by (intro tidily_control tidily_writes tidily_update)

lemma supersede_none:
  assumes "listsFinished (kn_shared k)"
  shows "supersedeStaleSessionTasks deps s a k = (Inr (), k)"
proof -
  have one: "supersedeOne now s a i k = (Inr (), k)" if "finished i (kn_shared k)" for now i
    using that by (auto simp: supersedeOne_def bnd_run finished_def taskTerminal_def split: option.splits)
  have "forEach (supersedeOne now s a) ids k = (Inr (map (\<lambda>_. ()) ids), k)" if "\<forall>i\<in>set ids. finished i (kn_shared k)" for now ids
    using that by (induction ids) (auto simp: bnd_run one)
  then show ?thesis
    using assms by (auto simp: supersedeStaleSessionTasks_def bnd_run sessionTaskListBySessionId_def orderAsc_def listsFinished_def list_all_iff)
qed

text \<open>
  C32: a table of session tasks that lists finished tasks only, as the empty one does, still lists finished tasks only after every
  run, resumption and failure of a waiting task, however they end. So the step of a new run that cancels the tasks of its session
  still running does nothing at all: a task that runs or waits is never listed. The services the kernel calls are
  assumed not to reopen finished tasks and not to write this table for unfinished ones.
\<close>

theorem session_rows_finished:
  fixes k :: "'m Kernel"
  assumes "tidyKernel deps" and "listsFinished (kn_shared k)"
  shows "list_all (\<lambda>k'. listsFinished (kn_shared k')) [snd (run deps o1 k), snd (resumeTask deps i k),
      snd (resumeTaskAfterApprovalFailure deps i c k), snd (failWaitingApprovalTask deps i code msg k),
      snd (failWaitingClarificationTask deps i code msg k)] \<and>
    supersedeStaleSessionTasks deps s a k = (Inr (), k)"
proof -
  have keep: "listsFinished (kn_shared (snd (m k)))" if "tidily True m" for m :: "('m, 'a) kop"
    using tidy.followsD [OF that, of k "fst (m k)" "snd (m k)"] assms(2) by (simp add: tidies_def tidyStep_def)
  show ?thesis
    unfolding list.pred_inject failWaitingApprovalTask_def failWaitingClarificationTask_def
    by (intro conjI keep tidily_run tidily_resume tidily_fail_waiting supersede_none assms list.pred_inject(1))
qed

end
