(* ===== verification/SessionTaskWitness.thy ===== *)
theory SessionTaskWitness
  imports LoopWitness SessionTaskProps
begin

section \<open>A session with a finished and a running task\<close>

definition listedStart :: "nat Kernel" where
  "listedStart = demoStart\<lparr>kn_shared := (kn_shared demoStart)\<lparr>sh_tasks := [sampleTask T_running, (sampleTask T_succeeded)\<lparr>tk_taskId := ''t0''\<rparr>],
     sh_sessionTasks := [sessionTaskOfDraft 1 1 (sessionTaskDraftOf ''r0'' ((sampleTask T_succeeded)\<lparr>tk_taskId := ''t0''\<rparr>) ''s'' [])]\<rparr>\<rparr>"

lemma demo_tidy: "tidyKernel demoKernelDeps"
  by (auto simp: tidyKernel_def tidyLoop_def tidyService_def demoKernelDeps_def demoDeps_def countBatch_def tidy_refl tidy_same)

theorem session_rows_finished_witness:
  "listsFinished (kn_shared (snd (run demoKernelDeps demoOptions listedStart))) \<and>
    supersedeStaleSessionTasks demoKernelDeps ''s'' ''t2'' listedStart = (Inr (), listedStart)"
proof -
  have "listsFinished (kn_shared listedStart)" by code_simp
  from session_rows_finished [OF demo_tidy this] show ?thesis by simp
qed

end
