(* ===== verification/Spec2Isabelle.thy ===== *)
theory Spec2Isabelle
  imports Policy ContextPolicy Approvals Clarify ApprovalRules Budget DiffPreview OrchestratorProps OutputProps
    ScheduleTextProps SchedulerProps SessionLock GatewayGuard ProviderRouter AssistantWitness ContextProps
    LoopTurnProps LoopWitness SandboxProps ResolutionWitness ToolExposureWitness WorkersProps SessionTaskWitness
begin

text \<open>
  \<^bold>\<open>A verification development of auto-talon.\<close>

  auto-talon is an agent runtime: a language model proposes tool calls, and the runtime decides which of them
  run, with whose consent, what is recorded about them, and when tasks run unattended. This development
  models the parts of src/src that make these decisions and proves what they promise.

  \<^bold>\<open>Parts and how they interact.\<close>
  A tool call enters the orchestrator (src/src/tools/tool-orchestrator.ts). The policy engine
  (src/src/policy) decides whether it is allowed, denied or needs approval. An approval is looked for among the
  stored rules and session fingerprints (src/src/approvals), or requested from a reviewer and stored
  (approval-service.ts); questions to the user are clarification prompts (clarify-service.ts). Only then the tool
  runs, and its outcome is written to the tool-call table, the trace and the audit log, redacted where the tool
  is restricted. Token and cost budgets (src/src/runtime/budget) and the context policy
  (src/src/policy/context-policy.ts) bound what a task may use. The scheduler
  (src/src/runtime/scheduler, src/src/runtime/jobs) starts tasks unattended from stored schedules. Around all this runs the
  loop of a task (src/src/runtime/execution-kernel.ts, src/src/runtime/kernel): it prepares the conversation, asks the provider,
  hands the tool calls of the response to the orchestrator in batches, compacts the conversation, and ends with a final
  text, a checkpoint of a waiting task, or a recorded failure. The planner (src/src/runtime/tool-exposure-planner.ts) decides
  which tools a request offers, the sandbox (src/src/sandbox) which paths, commands and hosts a tool may touch. A reviewer's
  decision and a user's answer resume the waiting task (src/src/runtime/facades). Work is delegated through the worker
  dispatcher (src/src/runtime/workers), which runs the kernel beside the one in progress.

  \<^bold>\<open>Theories and the code they model.\<close>
  \<^item> \<open>Prelude\<close>: JSON values, thrown errors (src/src/core/app-error.ts), the exception-and-state monad
    \<open>op\<close> of every handler, and two calculi over it: \<open>keeps\<close> (invariants), \<open>post\<close> (postconditions), and the
    locale \<open>step_closed\<close> (operations that only make steps of a relation).
  \<^item> \<open>Tables\<close>: SQLite tables as lists of rows, and the locale \<open>status_store\<close>, the contract of a status
    column: an update throws and changes nothing or moves one row along an allowed transition.
  \<^item> \<open>JsText\<close>, \<open>JsonText\<close>, \<open>Regex\<close>: the string functions, JSON.stringify and the regular expressions the
    code uses. \<open>Expiring\<close>: the locale of requests that expire, shared by approvals and prompts.
  \<^item> \<open>Governance\<close>: enumerations and status machines of src/src/types. \<open>Policy\<close>: policy-engine.ts and the
    default rules. \<open>ContextPolicy\<close>: context-policy.ts.
  \<^item> \<open>Approvals\<close>, \<open>Clarify\<close>: service and repository of each. \<open>ApprovalRules\<close>: fingerprints and the rule store.
  \<^item> \<open>Budget\<close>: budget-service.ts and budget-policy.ts. \<open>DiffPreview\<close>: previews of changes in traces.
  \<^item> \<open>ToolCalls\<close>: tool-call-repository.ts. \<open>Orchestrator\<close>: tool-orchestrator.ts, whole handlers.
    \<open>OrchestratorProps\<close>, \<open>OutputProps\<close>: their properties.
  \<^item> \<open>Tasks\<close>: task-repository.ts. \<open>ScheduleText\<close>: schedule expressions (src/src/schedule), with properties in
    \<open>ScheduleTextProps\<close>. \<open>Schedules\<close>: records, metadata, delivery and both repositories, with laws in
    \<open>ScheduleStore\<close>. \<open>CronGuard\<close>: the scan of scheduled prompts. \<open>JobRunner\<close>: job-runner.ts and backoff.ts.
    \<open>Scheduler\<close>, \<open>ScheduleOps\<close>: scheduler-service.ts and schedule-run-lifecycle.ts. \<open>ScheduleExec\<close>: the
    executor built in bootstrap.ts. \<open>RunHistory\<close>: the abstract machine of the run table and the refinement
    of every scheduler operation to it. \<open>SchedulerProps\<close>: the scheduler's properties.
  \<^item> \<open>SessionLock\<close>: session-execution-lock.ts and the task runs of session-facade.ts. \<open>GatewayGuard\<close>:
    gateway-guard.ts and its rate-limit stores.
  \<^item> \<open>Credentials\<close>: credential-pool.ts. \<open>ProviderFailover\<close>: provider-failover.ts. \<open>ProviderRouter\<close>: the router
    of src/src/providers/routing over the budget service.
  \<^item> \<open>Commitments\<close>, \<open>Inbox\<close>: the repositories. \<open>Assistant\<close>: the services of src/src/runtime/commitments and
    src/src/runtime/inbox with both collectors on the trace. \<open>AssistantProps\<close>: histories of them as steps of
    a relation, \<open>AssistantRules\<close> their properties, \<open>AssistantWitness\<close> these at concrete states.
  \<^item> \<open>Conversation\<close>: messages, token estimates and the functions of src/src/runtime/context and kernel-support.ts
    that cut or repair a conversation, with properties in \<open>ConversationProps\<close>. \<open>ContextCache\<close>: recently read files,
    tool-output-budget.ts, compact-policy.ts. \<open>SessionTodos\<close>: the todo list of a session, its tool and message.
    \<open>ContextProps\<close>: properties of these.
  \<^item> \<open>Kernel\<close>: the state of a run, checkpoints (checkpoint-manager.ts) and duplicate signatures. \<open>Completion\<close>:
    completion-controller.ts and reasoning-content.ts. \<open>ToolBatch\<close>: tool-batch-executor.ts. \<open>LoopTurn\<close>: execution-loop.ts up to
    the provider's response, with context-assembler.ts and budget-recorder.ts. \<open>ExecutionLoop\<close>: the response, the final summary,
    the success of a task. \<open>LoopRun\<close>: tools, compaction, the iterations. \<open>TaskRuns\<close>: run, resumption and failure in
    execution-kernel.ts. \<open>SessionTasks\<close>: session-task-repository.ts, whose rows the kernel writes. Their properties:
    \<open>KernelProps\<close>, \<open>ToolBatchProps\<close>, \<open>LoopTurnProps\<close>, \<open>LoopProps\<close>, \<open>LoopCost\<close>, \<open>TaskRunsProps\<close>, \<open>SessionTaskProps\<close>, the last over the
    locale of \<open>LoopWorld\<close> (whatever relation the loop's services follow, the loop follows), with concrete runs in
    \<open>KernelWitness\<close>, \<open>LoopWitness\<close> and \<open>SessionTaskWitness\<close>.
  \<^item> \<open>HostPaths\<close>: the functions of node:path and node:net the code uses, on a POSIX host. \<open>Sandbox\<close>: sandbox-service.ts, with
    properties in \<open>SandboxProps\<close>.
  \<^item> \<open>Resolution\<close>: approval-resolution-facade.ts and clarify-resolution-facade.ts over the kernel, with the register of
    continuations and the desk over time. \<open>ResolutionProps\<close>, \<open>ResolutionWitness\<close>: their properties, also at concrete states.
  \<^item> \<open>ToolExposure\<close>: the planner with tool-overrides.ts, toolsets.ts and the availability checks, with properties in
    \<open>ToolExposureProps\<close> and \<open>ToolExposureWitness\<close>. \<open>Workers\<close>: worker-dispatcher.ts, delegate-task-tool.ts and the executor of
    delegated tasks, with properties in \<open>WorkersProps\<close>.

  \<^bold>\<open>How state and operations correspond.\<close>
  A record of the source is a record here, with a prefix per record on its fields. An optional field that
  distinguishes \<open>undefined\<close> from \<open>null\<close> is a nested option. A repository's state is its table; a service's state
  is a record of the tables and logs it writes. A method is an operation on that state with the method's
  name; a thrown error is its left result and keeps the state reached. Asynchronous functions the code is
  given (tools, executors, agent runs) are arbitrary operations on the whole state, so whatever
  other handlers do while one awaits is part of their effect. Clock readings and fresh identifiers are
  arguments. Instants are milliseconds, money is counted in units of \<open>10\<^sup>-\<^sup>8\<close> USD, strings are lists of
  code units below 256. Rate-limit tokens are exact rationals where the code has floating-point numbers. Trace and audit logs are lists of entries without their identifiers.

  \<^bold>\<open>What the lemmas show.\<close>
  Approvals and prompts: a decision is final, expiry is exact, at most one request per call. Policy: the decision
  is that of the best matching rule. Orchestrator: a tool runs only when the policy and the gate allow it, the outcome
  returned is the outcome stored, a finished call is replayed, restricted output is redacted. Budgets:
  totals, limits and downgrades. Scheduler: over any history of calls at most one active run per
  schedule and status moves only along the transition table (by refinement to \<open>run_step\<close>), claims,
  enqueueing, retries, repeats and ticks are exact, and unsafe runs are not started. Sessions: at most one live
  holder of a lock, released on every exit. Gateway: a token bucket never admits more than its capacity and
  refill. Providers: failover stops at the first candidate that answers, a downgraded task goes to the cheap
  tier. Assistant: the status of a commitment is explained by its fields over any history of events, and what
  each event does to actions and inbox is exact. Conversations: a list of messages is \<open>paired\<close> when every tool call
  has its result right behind it; every function that shortens or extends the conversation keeps this, and the
  repair establishes that every call is answered. Loop: what is sent to a provider is answered call by call, the number of
  requests is bounded by the iterations, every end of the loop is one the task's row records, unverified changes are admitted
  in the output, a pause loses nothing of the conversation, a failure is stored. A resumed task runs the loop from the state of
  the pause, with the user's answer behind the conversation; the continuation of a refused approval runs once at a time.
  Offered tools are the registered ones no rule hides, in plan mode readers only. Sandbox plans stay below the configured
  roots and within the command and host policies. A worker's result is that of its first decisive attempt. Some theorems state
  behaviour that contradicts the intent of the code or its documentation; they are the findings of the manifest.

  \<^bold>\<open>Bounds and fuel.\<close>
  \<open>tickLoop\<close> takes the number of passes of the do-while loop: a tick may be asked for at any time during a
  pass, so the loop has no bound of its own; \<open>tick_single_flight\<close> shows that one pass is enough when no run
  asks for another. The repetition in \<open>Regex\<close> counts the characters left, which bounds the number of
  rounds that consume something. \<open>loopFrom\<close> takes the number of iterations left, \<open>maxIterations\<close> less the first one plus one,
  which is just the number of rounds of the for loop; \<open>attemptProvider\<close> and \<open>summaryAttempts\<close> take the two attempts of theirs;
  the tool phase consumes a call or a batch in every round. All other recursion is structural or has a termination proof.

  \<^bold>\<open>Not modelled, and why.\<close>
  Foreign keys and failures of the file system or the database engine. SHA-256, the WHATWG URL parser, the package
  cron-parser and the host's Date parser are parameters. The cost calculator and memory ranking are
  floating point. Symbolic links, and the processes that shell tools and no-agent commands start, HTTP clients of providers, chat
  adapters, MCP transports, terminal and web interfaces are input and output around the modelled core. The
  text of the first prompt and of compaction summaries, and the ranking of memories, are heuristic text the loop takes as
  parameters. Timers of the abort controller, streaming callbacks, latencies and the note of the last activity in traces are
  left out of the loop. The manifest lists
  the parts of the program that are not modelled.
\<close>

end
